(* ===== verification/Prelude.thy ===== *)
theory Prelude
  imports Complex_Main "HOL-Library.Word" "HOL-Library.AList"
begin

text \<open>
  Shared vocabulary of the development: Python's exceptions as values, byte strings with
  \<open>int.to_bytes\<close>, \<open>int.from_bytes\<close> and slicing, fixed-width bit fields packed into an
  unbounded integer, ordered dictionaries, and the codec interface that every protocol
  header of the stack implements.
\<close>

unbundle bit_operations_syntax

section \<open>Exceptions as values\<close>

text \<open>
  One constructor for each exception class that the modelled code raises itself or that a
  built-in operation it uses raises. The errors of the PKI client have a code.
\<close>

datatype py_error =
    DecodeError | DecapError | DADException | DuplicatedPacketException
  | IncongruentTimestampException | InvalidMIDLength
  | NotImplementedError | ValueError | OverflowError | ZeroDivisionError
  | KeyError | IndexError | TypeError | AttributeError | AssertionError | RuntimeError
  | PacketTooLongException | SendingException | PlainException
  | EnrolmentError string | AuthorizationError string | InvalidTag | HTTPError | OSError
  | WindowsNotSupportedException | InvalidMACAddressException

type_synonym 'a result = "py_error + 'a"

definition rbind :: "'a result \<Rightarrow> ('a \<Rightarrow> 'b result) \<Rightarrow> 'b result" where
  "rbind m f = (case m of Inl e \<Rightarrow> Inl e | Inr x \<Rightarrow> f x)"

named_theorems result_simps \<open>evaluation of the error monad\<close>

lemma rbind_simps [simp]:
  "rbind (Inl e) f = Inl e"
  "rbind (Inr x) f = f x"
  by (simp_all add: rbind_def)

lemma rbind_eq_Inr [result_simps]:
  "rbind m f = Inr y \<longleftrightarrow> (\<exists>x. m = Inr x \<and> f x = Inr y)"
  by (cases m) auto

lemma rbind_eq_Inl [result_simps]:
  "rbind m f = Inl e \<longleftrightarrow> m = Inl e \<or> (\<exists>x. m = Inr x \<and> f x = Inl e)"
  by (cases m) auto

lemma rbind_assoc: "rbind (rbind m f) g = rbind m (\<lambda>x. rbind (f x) g)"
  by (cases m) auto

lemma rbind_cong [fundef_cong]:
  "m = m' \<Longrightarrow> (\<And>x. m' = Inr x \<Longrightarrow> f x = f' x) \<Longrightarrow> rbind m f = rbind m' f'"
  by (cases m') auto

section \<open>Byte strings\<close>

type_synonym byte = "8 word"
type_synonym bytes = "byte list"

text \<open>Python's \<open>data[i:j]\<close> for \<open>0 \<le> i \<le> j\<close>: never fails, clips at the end.\<close>

definition slice :: "nat \<Rightarrow> nat \<Rightarrow> 'a list \<Rightarrow> 'a list" where
  "slice i j xs = take (j - i) (drop i xs)"

lemma length_slice: "j \<le> length xs \<Longrightarrow> length (slice i j xs) = j - i"
  by (simp add: slice_def)

lemma slice_0: "slice 0 j xs = take j xs"
  by (simp add: slice_def)

lemma slice_append_right: "slice (length xs + i) (length xs + j) (xs @ ys) = slice i j ys"
  by (simp add: slice_def)

text \<open>Big-endian reading: \<open>int.from_bytes(data, "big")\<close>.\<close>

fun from_bytes :: "bytes \<Rightarrow> int" where
  "from_bytes [] = 0"
| "from_bytes (b # bs) = uint b * 256 ^ length bs + from_bytes bs"

text \<open>The \<open>n\<close> low-order bytes of \<open>x\<close>, most significant first.\<close>

fun be_bytes :: "nat \<Rightarrow> int \<Rightarrow> bytes" where
  "be_bytes 0 x = []"
| "be_bytes (Suc n) x = word_of_int (x div 256 ^ n) # be_bytes n x"

text \<open>
  Big-endian writing: \<open>x.to_bytes(n, "big")\<close> raises \<open>OverflowError\<close> on a negative
  integer and on one that does not fit into \<open>n\<close> bytes.
\<close>

definition to_bytes :: "nat \<Rightarrow> int \<Rightarrow> bytes result" where
  "to_bytes n x = (if x < 0 \<or> 256 ^ n \<le> x then Inl OverflowError else Inr (be_bytes n x))"

lemma length_be_bytes [simp]: "length (be_bytes n x) = n"
  by (induction n) auto

lemma from_bytes_nonneg [simp]: "0 \<le> from_bytes bs"
  by (induction bs) auto

lemma uint_byte_less: "uint (b :: byte) < 256"
  using uint_lt2p [of b] by simp

lemma from_bytes_less: "from_bytes bs < 256 ^ length bs"
proof (induction bs)
  case (Cons b bs)
  have "uint b * 256 ^ length bs + from_bytes bs < (uint b + 1) * 256 ^ length bs"
    using Cons.IH by (simp add: distrib_right)
  also have "\<dots> \<le> 256 * 256 ^ length bs"
    using uint_byte_less [of b] by (intro mult_right_mono) auto
  finally show ?case by simp
qed simp

lemma from_bytes_append:
  "from_bytes (xs @ ys) = from_bytes xs * 256 ^ length ys + from_bytes ys"
  by (induction xs) (simp_all add: algebra_simps power_add)

lemma from_be_bytes_mod: "from_bytes (be_bytes n x) = x mod 256 ^ n"
proof (induction n)
  case (Suc n)
  have "uint (word_of_int (x div 256 ^ n) :: byte) = x div 256 ^ n mod 256"
    by (simp add: unsigned_of_int take_bit_eq_mod)
  then show ?case
    using Suc zmod_zmult2_eq [of 256 x "256 ^ n"] by (simp add: ac_simps)
qed simp

lemma from_be_bytes: "0 \<le> x \<Longrightarrow> x < 256 ^ n \<Longrightarrow> from_bytes (be_bytes n x) = x"
  by (simp add: from_be_bytes_mod)

lemma be_bytes_of_from_bytes:
  "be_bytes (length bs) (k * 256 ^ length bs + from_bytes bs) = bs"
proof (induction bs arbitrary: k)
  case (Cons b bs)
  define q where "q = k * 256 + uint b"
  have split: "k * 256 ^ length (b # bs) + from_bytes (b # bs)
      = q * 256 ^ length bs + from_bytes bs"
    by (simp add: q_def algebra_simps)
  have "(q * 256 ^ length bs + from_bytes bs) div 256 ^ length bs = q"
    using from_bytes_less [of bs] by simp
  moreover have "(word_of_int q :: byte) = b"
  proof -
    have "take_bit LENGTH(8) q = take_bit LENGTH(8) (uint b)"
      by (simp add: q_def take_bit_eq_mod)
    then have "(word_of_int q :: byte) = word_of_int (uint b)"
      by (simp only: word_of_int_eq_iff)
    then show ?thesis by simp
  qed
  ultimately show ?case
    unfolding split using Cons.IH [of q] by simp
qed simp

lemma be_from_bytes: "be_bytes (length bs) (from_bytes bs) = bs"
  using be_bytes_of_from_bytes [of bs 0] by simp

lemma be_bytes_append:
  assumes "0 \<le> a" "a < 256 ^ m" "0 \<le> b" "b < 256 ^ n"
  shows "be_bytes (m + n) (a * 256 ^ n + b) = be_bytes m a @ be_bytes n b"
proof -
  let ?bs = "be_bytes m a @ be_bytes n b"
  have "from_bytes ?bs = a * 256 ^ n + b"
    using assms by (simp add: from_bytes_append from_be_bytes)
  then show ?thesis using be_from_bytes [of ?bs] by simp
qed

lemma uint_byte_of_int: "0 \<le> x \<Longrightarrow> x < 256 \<Longrightarrow> uint (word_of_int x :: byte) = x"
  by (simp add: unsigned_of_int take_bit_int_eq_self_iff)

lemma be_bytes_shift8: "0 \<le> x \<Longrightarrow> x < 256 \<Longrightarrow> be_bytes 2 (x * 256) = [word_of_int x, 0]"
proof -
  have "(word_of_int (x * 256) :: byte) = word_of_int 0"
    by (simp only: word_of_int_eq_iff) (simp add: take_bit_eq_mod)
  then show ?thesis by (simp add: numeral_2_eq_2 del: of_int_mult)
qed

text \<open>The two round trips between integers and byte strings.\<close>

lemma to_bytes_Inr [result_simps]:
  "to_bytes n x = Inr bs \<longleftrightarrow> 0 \<le> x \<and> x < 256 ^ n \<and> bs = be_bytes n x"
  by (auto simp: to_bytes_def)

lemma to_bytes_from_bytes: "to_bytes (length bs) (from_bytes bs) = Inr bs"
  using from_bytes_less [of bs] by (simp add: to_bytes_Inr be_from_bytes)

lemma to_bytes_length: "to_bytes n x = Inr bs \<Longrightarrow> length bs = n"
  by (simp add: to_bytes_Inr)

lemma to_bytes_negative: "x < 0 \<Longrightarrow> to_bytes n x = Inl OverflowError"
  by (simp add: to_bytes_def)

text \<open>A header encoded part by part, in the order of Python's evaluation of \<open>+\<close>.\<close>

fun encode_parts :: "bytes result list \<Rightarrow> bytes result" where
  "encode_parts [] = Inr []"
| "encode_parts (p # ps) = rbind p (\<lambda>b. rbind (encode_parts ps) (\<lambda>bs. Inr (b @ bs)))"

lemma encode_parts_Inl:
  "encode_parts (ps @ [Inl e] @ qs) = Inl e" if "\<forall>p \<in> set ps. \<exists>b. p = Inr b"
  using that by (induction ps) (auto simp: rbind_eq_Inl)

section \<open>Bit fields\<close>

text \<open>
  Python builds and reads headers with shifts, \<open>|\<close> and \<open>&\<close> on unbounded integers. The
  same operations exist on \<^typ>\<open>int\<close>; the lemmas of the collection \<open>bitfields\<close> turn them
  into arithmetic.
\<close>

named_theorems bitfields \<open>shifts and masks as arithmetic\<close>

lemma push_bit_or_int:
  fixes a b :: int
  assumes "0 \<le> b" "b < 2 ^ n"
  shows "push_bit n a OR b = a * 2 ^ n + b"
proof -
  have tb: "take_bit n b = b"
    using assms by (simp add: take_bit_int_eq_self_iff)
  have "k < n" if "bit b k" for k
  proof -
    from that have "bit (take_bit n b) k" by (simp only: tb)
    then show ?thesis by (simp add: bit_take_bit_iff)
  qed
  then have "\<not> bit (push_bit n a) k \<or> \<not> bit b k" for k
    using not_le by (auto simp: bit_push_bit_iff)
  then show ?thesis
    using disjunctive_add [of "push_bit n a" b] by (simp add: push_bit_eq_mult)
qed

lemma and_mask_int: "(x :: int) AND (2 ^ n - 1) = x mod 2 ^ n"
  by (simp add: mask_eq_exp_minus_1 [symmetric] take_bit_eq_mask [symmetric] take_bit_eq_mod)

lemma and_mask_intI: "m = 2 ^ n - 1 \<Longrightarrow> k = 2 ^ n \<Longrightarrow> (x :: int) AND m = x mod k"
  by (simp only: and_mask_int)

lemma and_mask_numerals [bitfields]:
  "(x :: int) AND 1 = x mod 2"
  "x AND 3 = x mod 4"
  "x AND 15 = x mod 16"
  "x AND 31 = x mod 32"
  "x AND 63 = x mod 64"
  "x AND 255 = x mod 256"
  "x AND 32767 = x mod 32768"
  "x AND 65535 = x mod 65536"
  "x AND 4294967295 = x mod 4294967296"
  by (rule and_mask_intI [where n = 1] and_mask_intI [where n = 2]
      and_mask_intI [where n = 4] and_mask_intI [where n = 5] and_mask_intI [where n = 6] and_mask_intI [where n = 8]
      and_mask_intI [where n = 15] and_mask_intI [where n = 16]
      and_mask_intI [where n = 32]; simp)+

lemma drop_bit_int [bitfields]: "drop_bit n (x :: int) = x div 2 ^ n"
  by (rule drop_bit_eq_div)

text \<open>
  A header seen as a list of fields, each a width in bits and a value, most significant
  field first; \<open>join_fields\<close> is the integer it denotes.
\<close>

type_synonym fields = "(nat \<times> int) list"

definition fields_width :: "fields \<Rightarrow> nat" where
  "fields_width fs = sum_list (map fst fs)"

fun join_fields :: "fields \<Rightarrow> int" where
  "join_fields [] = 0"
| "join_fields ((w, v) # fs) = v * 2 ^ fields_width fs + join_fields fs"

definition fields_ok :: "fields \<Rightarrow> bool" where
  "fields_ok fs \<longleftrightarrow> (\<forall>(w, v) \<in> set fs. 0 \<le> v \<and> v < 2 ^ w)"

lemma fields_width_simps [simp]:
  "fields_width [] = 0"
  "fields_width ((w, v) # fs) = w + fields_width fs"
  by (simp_all add: fields_width_def)

lemma fields_ok_simps [simp]:
  "fields_ok []"
  "fields_ok ((w, v) # fs) \<longleftrightarrow> 0 \<le> v \<and> v < 2 ^ w \<and> fields_ok fs"
  by (simp_all add: fields_ok_def)

lemma fields_ok_append [simp]: "fields_ok (xs @ ys) \<longleftrightarrow> fields_ok xs \<and> fields_ok ys"
  by (auto simp: fields_ok_def)

lemma join_fields_bounds:
  "fields_ok fs \<Longrightarrow> 0 \<le> join_fields fs \<and> join_fields fs < 2 ^ fields_width fs"
proof (induction fs)
  case (Cons f fs)
  obtain w v where f: "f = (w, v)" by (cases f)
  have ih: "0 \<le> join_fields fs" "join_fields fs < 2 ^ fields_width fs"
    using Cons by (auto simp: f)
  have "v + 1 \<le> 2 ^ w" using Cons.prems by (simp add: f)
  then have "(v + 1) * 2 ^ fields_width fs \<le> (2 ^ w :: int) * 2 ^ fields_width fs"
    by (intro mult_right_mono) auto
  moreover have "v * 2 ^ fields_width fs + join_fields fs
      < (v + 1) * 2 ^ fields_width fs"
    using ih by (simp add: distrib_right)
  ultimately have "v * 2 ^ fields_width fs + join_fields fs < 2 ^ w * 2 ^ fields_width fs"
    by linarith
  then show ?case
    using ih Cons.prems by (simp add: f power_add)
qed simp

lemma join_fields_append:
  "join_fields (xs @ ys) = join_fields xs * 2 ^ fields_width ys + join_fields ys"
  by (induction xs rule: join_fields.induct)
    (simp_all add: fields_width_def algebra_simps power_add)

lemma join_fields_get:
  assumes "fields_ok (xs @ (w, v) # ys)"
  shows "join_fields (xs @ (w, v) # ys) div 2 ^ fields_width ys mod 2 ^ w = v"
proof -
  let ?x = "join_fields xs * 2 ^ w + v"
  have ys: "0 \<le> join_fields ys" "join_fields ys < 2 ^ fields_width ys"
    using assms join_fields_bounds [of ys] by auto
  have "join_fields (xs @ (w, v) # ys) = ?x * 2 ^ fields_width ys + join_fields ys"
    by (simp add: join_fields_append algebra_simps power_add)
  then have "join_fields (xs @ (w, v) # ys) div 2 ^ fields_width ys = ?x"
    using ys by simp
  then show ?thesis using assms by simp
qed

lemma join_fields_high:
  assumes "fields_ok ys"
  shows "join_fields (xs @ ys) div 2 ^ fields_width ys = join_fields xs"
  using join_fields_bounds [OF assms] by (simp add: join_fields_append)

text \<open>\<open>v << n | rest\<close> appends a field in front of \<open>rest\<close>.\<close>

lemma push_bit_or_join:
  assumes "fields_ok fs" "n = fields_width fs"
  shows "push_bit n v OR join_fields fs = join_fields ((w, v) # fs)"
  using push_bit_or_int [of "join_fields fs" n v] join_fields_bounds [OF assms(1)] assms(2)
  by simp

section \<open>Python numbers\<close>

text \<open>\<open>int(x)\<close> on a float truncates towards zero. Floats are modelled by reals.\<close>

definition py_int :: "real \<Rightarrow> int" where
  "py_int x = (if 0 \<le> x then \<lfloor>x\<rfloor> else \<lceil>x\<rceil>)"

lemma py_int_of_int [simp]: "py_int (of_int n) = n"
  by (simp add: py_int_def)

lemma py_int_nonneg: "0 \<le> x \<Longrightarrow> 0 \<le> py_int x"
  by (simp add: py_int_def)

text \<open>Float division, which raises on a zero divisor.\<close>

definition py_div :: "real \<Rightarrow> real \<Rightarrow> real result" where
  "py_div x y = (if y = 0 then Inl ZeroDivisionError else Inr (x / y))"

text \<open>\<open>round(x)\<close> goes to the nearest integer, and to the even one of two.\<close>

definition py_round :: "real \<Rightarrow> int" where
  "py_round x = (if x - of_int \<lfloor>x\<rfloor> = 1 / 2 \<and> even \<lfloor>x\<rfloor> then \<lfloor>x\<rfloor> else \<lfloor>x + 1 / 2\<rfloor>)"

lemma py_round_near: "\<bar>of_int (py_round x) - x\<bar> \<le> 1 / 2"
proof -
  have "\<bar>of_int \<lfloor>x + 1 / 2\<rfloor> - x\<bar> \<le> 1 / 2" by linarith
  then show ?thesis by (simp add: py_round_def)
qed

lemma py_round_of_int [simp]: "py_round (of_int n) = n"
  by (simp add: py_round_def)

lemma py_round_mono: assumes "x \<le> y" shows "py_round x \<le> py_round y"
proof (cases "\<lfloor>x\<rfloor> = \<lfloor>y\<rfloor>")
  case True
  then have "\<lfloor>x + 1 / 2\<rfloor> \<le> \<lfloor>y + 1 / 2\<rfloor>" using assms by (intro floor_mono) simp
  moreover have "\<lfloor>x\<rfloor> \<le> \<lfloor>y + 1 / 2\<rfloor>" using assms by (intro floor_mono) simp
  moreover have "\<lfloor>x + 1 / 2\<rfloor> \<le> \<lfloor>y\<rfloor>" if "y - of_int \<lfloor>y\<rfloor> = 1 / 2" "even \<lfloor>y\<rfloor>" "\<not> (x - of_int \<lfloor>x\<rfloor> = 1 / 2 \<and> even \<lfloor>x\<rfloor>)"
  proof -
    have "x \<noteq> y" using that True by auto
    then show ?thesis using assms that True by linarith
  qed
  ultimately show ?thesis using True by (auto simp: py_round_def)
next
  case False
  then have "\<lfloor>x\<rfloor> + 1 \<le> \<lfloor>y\<rfloor>" using floor_mono [OF assms] by linarith
  moreover have "py_round x \<le> \<lfloor>x\<rfloor> + 1" "\<lfloor>y\<rfloor> \<le> py_round y"
    by (auto simp: py_round_def) linarith+
  ultimately show ?thesis by linarith
qed

text \<open>\<open>x % y\<close> on floats with \<open>y > 0\<close>: the remainder of the division that rounds down.\<close>

definition py_fmod :: "real \<Rightarrow> real \<Rightarrow> real" where
  "py_fmod x y = x - y * of_int \<lfloor>x / y\<rfloor>"

lemma py_fmod_bounds: "0 < y \<Longrightarrow> 0 \<le> py_fmod x y" "0 < y \<Longrightarrow> py_fmod x y < y"
  using floor_divide_lower [of y x] floor_divide_upper [of y x]
  by (simp_all add: py_fmod_def algebra_simps)

lemma py_fmod_small: "0 \<le> x \<Longrightarrow> x < y \<Longrightarrow> py_fmod x y = x"
proof -
  assume "0 \<le> x" "x < y"
  then have "\<lfloor>x / y\<rfloor> = 0" by (simp add: floor_eq_iff)
  then show ?thesis by (simp add: py_fmod_def)
qed

definition bool_int :: "bool \<Rightarrow> int" where
  "bool_int b = (if b then 1 else 0)"

lemma bool_int_bounds [simp]: "0 \<le> bool_int b" "bool_int b < 2" "bool_int b \<le> 1"
  by (simp_all add: bool_int_def)

lemma bool_int_eq_1 [simp]: "bool_int b = 1 \<longleftrightarrow> b" "bool_int b = 0 \<longleftrightarrow> \<not> b"
  "bool_int b \<noteq> 0 \<longleftrightarrow> b"
  by (simp_all add: bool_int_def)

section \<open>Ordered dictionaries\<close>

text \<open>
  A Python dictionary keeps its insertion order: writing an existing key keeps its place, a
  new key goes to the end. It is an association list without duplicate keys.
\<close>

type_synonym ('k, 'v) dict = "('k \<times> 'v) list"

abbreviation dict_get :: "('k, 'v) dict \<Rightarrow> 'k \<Rightarrow> 'v option" where
  "dict_get d k \<equiv> map_of d k"

abbreviation dict_set :: "'k \<Rightarrow> 'v \<Rightarrow> ('k, 'v) dict \<Rightarrow> ('k, 'v) dict" where
  "dict_set k v d \<equiv> AList.update k v d"

abbreviation dict_del :: "'k \<Rightarrow> ('k, 'v) dict \<Rightarrow> ('k, 'v) dict" where
  "dict_del k d \<equiv> AList.delete k d"

definition dict_ok :: "('k, 'v) dict \<Rightarrow> bool" where
  "dict_ok d \<longleftrightarrow> distinct (map fst d)"

text \<open>Reading a key with \<open>d[k]\<close>, which raises when it is missing.\<close>

definition get_key :: "'a option \<Rightarrow> 'a result" where
  "get_key v = (case v of None \<Rightarrow> Inl KeyError | Some x \<Rightarrow> Inr x)"

lemma get_key_simps [simp]: "get_key None = Inl KeyError" "get_key (Some x) = Inr x"
  by (simp_all add: get_key_def)

lemma get_key_Inr [result_simps]: "get_key v = Inr x \<longleftrightarrow> v = Some x"
  by (cases v) auto

text \<open>The comprehension \<open>{k: v for k, v in d.items() if p(k, v)}\<close>.\<close>

definition dict_filter :: "('k \<Rightarrow> 'v \<Rightarrow> bool) \<Rightarrow> ('k, 'v) dict \<Rightarrow> ('k, 'v) dict" where
  "dict_filter p d = filter (\<lambda>(k, v). p k v) d"

named_theorems dict_simps \<open>reading a dictionary after an operation on it\<close>

lemma dict_get_set [dict_simps]:
  "dict_get (dict_set k v d) k' = (if k' = k then Some v else dict_get d k')"
  by (simp add: update_conv)

lemma dict_get_del [dict_simps]:
  "dict_get (dict_del k d) k' = (if k' = k then None else dict_get d k')"
  by (simp add: delete_conv)

lemma dict_get_filter [dict_simps]:
  assumes "dict_ok d"
  shows "dict_get (dict_filter p d) k
    = (case dict_get d k of None \<Rightarrow> None | Some v \<Rightarrow> if p k v then Some v else None)"
  using assms
  by (induction d)
    (auto simp: dict_ok_def dict_filter_def split: option.splits dest: map_of_SomeD
      intro: rev_image_eqI)

lemma dict_ok_simps [dict_simps, simp]:
  "dict_ok []"
  "dict_ok d \<Longrightarrow> dict_ok (dict_set k v d)"
  "dict_ok d \<Longrightarrow> dict_ok (dict_del k d)"
  "dict_ok d \<Longrightarrow> dict_ok (dict_filter p d)"
  by (simp_all add: dict_ok_def distinct_update distinct_delete dict_filter_def
      distinct_map_filter)

section \<open>Enumerations\<close>

text \<open>
  Python's \<open>E(value)\<close> for an \<open>Enum\<close> class \<open>E\<close>: the member with that value, or
  \<open>ValueError\<close>.
\<close>

definition enum_of :: "'a list \<Rightarrow> ('a \<Rightarrow> int) \<Rightarrow> int \<Rightarrow> 'a result" where
  "enum_of members val n =
     (case find (\<lambda>c. val c = n) members of None \<Rightarrow> Inl ValueError | Some c \<Rightarrow> Inr c)"

text \<open>The contract of an \<open>Enum\<close> class: all members listed, no value shared.\<close>

locale py_enum =
  fixes members :: "'a list" and val :: "'a \<Rightarrow> int"
  assumes members_complete: "c \<in> set members"
    and val_unique: "val c = val d \<Longrightarrow> c = d"
begin

lemma enum_of_Inr: "enum_of members val n = Inr c \<longleftrightarrow> val c = n"
  using members_complete [of c] val_unique
  by (fastforce simp: enum_of_def find_Some_iff find_None_iff in_set_conv_nth
      split: option.splits)

lemma enum_of_val: "enum_of members val (val c) = Inr c"
  by (simp add: enum_of_Inr)

lemma enum_of_Inl: "enum_of members val n = Inl e \<longleftrightarrow> e = ValueError \<and> (\<forall>c. val c \<noteq> n)"
  using members_complete
  by (auto simp: enum_of_def find_None_iff find_Some_iff split: option.splits)

end

section \<open>The codec interface\<close>

text \<open>
  Every header class offers \<open>encode\<close> and \<open>decode\<close>. A codec promises that a valid header
  encodes to a fixed number of bytes and that decoding them gives the header back.
\<close>

locale codec =
  fixes encode :: "'h \<Rightarrow> bytes result"
    and decode :: "bytes \<Rightarrow> 'h result"
    and valid :: "'h \<Rightarrow> bool"
    and width :: nat
  assumes encode_total: "valid h \<Longrightarrow> \<exists>bs. encode h = Inr bs \<and> length bs = width"
    and decode_encode: "valid h \<Longrightarrow> encode h = Inr bs \<Longrightarrow> decode bs = Inr h"
begin

lemma encode_length: "valid h \<Longrightarrow> encode h = Inr bs \<Longrightarrow> length bs = width"
  using encode_total by fastforce

lemma encode_inj: "valid h \<Longrightarrow> valid h' \<Longrightarrow> encode h = encode h' \<Longrightarrow> h = h'"
  using encode_total decode_encode by (metis sum.inject(2))

lemma round_trip: "valid h \<Longrightarrow> rbind (encode h) decode = Inr h"
  using encode_total decode_encode by fastforce

end

text \<open>
  A wire codec reads its header from the front of a packet: it looks at no byte beyond its
  width and refuses a packet that is too short.
\<close>

locale wire_codec = codec +
  assumes decode_prefix: "width \<le> length bs \<Longrightarrow> decode bs = decode (take width bs)"
    and decode_short: "length bs < width \<Longrightarrow> decode bs = Inl DecodeError"
begin

lemma decode_packet:
  "valid h \<Longrightarrow> encode h = Inr bs \<Longrightarrow> decode (bs @ rest) = Inr h"
  using decode_prefix [of "bs @ rest"] encode_length decode_encode by auto

lemma decode_slice:
  "valid h \<Longrightarrow> encode h = Inr bs \<Longrightarrow> decode (slice 0 width (bs @ rest)) = Inr h"
  using encode_length decode_encode by (auto simp: slice_def)

lemma drop_header: "valid h \<Longrightarrow> encode h = Inr bs \<Longrightarrow> drop width (bs @ rest) = rest"
  using encode_length by auto

lemma decode_Inr_length: "decode bs = Inr h \<Longrightarrow> width \<le> length bs"
  using decode_short [of bs] by (cases "length bs < width") auto

end

text \<open>
  A closed codec only ever decodes valid headers, so re-encoding a received header always
  succeeds and is understood by the next receiver.
\<close>

locale closed_codec = wire_codec +
  assumes decode_valid: "decode bs = Inr h \<Longrightarrow> valid h"
begin

lemma reencode:
  "decode bs = Inr h \<Longrightarrow> \<exists>bs'. encode h = Inr bs' \<and> length bs' = width \<and> decode bs' = Inr h"
  using decode_valid encode_total decode_encode by blast

end

end
