(* ===== verification/GnAddress.thy ===== *)
theory GnAddress
  imports Prelude
begin

text \<open>
  GeoNetworking addresses (\<open>src/flexstack/geonet/gn_address.py\<close>): the enumerations \<open>M\<close>
  and \<open>ST\<close>, the 6-byte link-layer part \<open>MID\<close>, and \<open>GNAddress\<close> with its 8-byte encoding.
  Python gives the frozen dataclass \<open>GNAddress\<close> an \<open>__eq__\<close> that compares the MID only and
  a generated \<open>__hash__\<close> over all fields, so \<open>==\<close> is \<open>gn_address_eq\<close> below while a
  dictionary finds a key only when all fields agree, which is HOL equality.
\<close>

section \<open>The fields\<close>

datatype M = GN_UNICAST | GN_MULTICAST

fun M_value :: "M \<Rightarrow> int" where
  "M_value GN_UNICAST = 0"
| "M_value GN_MULTICAST = 1"

definition M_members :: "M list" where
  "M_members = [GN_UNICAST, GN_MULTICAST]"

definition M_encode_to_address :: "M \<Rightarrow> int" where
  "M_encode_to_address m = push_bit (8 * 7) (push_bit 7 (M_value m))"

datatype ST =
    ST_UNKNOWN | PEDESTRIAN | CYCLIST | MOPED | MOTORCYCLE | PASSENGER_CAR | BUS
  | LIGHT_TRUCK | HEAVY_TRUCK | TRAILER | SPECIAL_VEHICLE | TRAM | ROAD_SIDE_UNIT

fun ST_value :: "ST \<Rightarrow> int" where
  "ST_value ST_UNKNOWN = 0"
| "ST_value PEDESTRIAN = 1"
| "ST_value CYCLIST = 2"
| "ST_value MOPED = 3"
| "ST_value MOTORCYCLE = 4"
| "ST_value PASSENGER_CAR = 5"
| "ST_value BUS = 6"
| "ST_value LIGHT_TRUCK = 7"
| "ST_value HEAVY_TRUCK = 8"
| "ST_value TRAILER = 9"
| "ST_value SPECIAL_VEHICLE = 10"
| "ST_value TRAM = 11"
| "ST_value ROAD_SIDE_UNIT = 12"

definition ST_members :: "ST list" where
  "ST_members =
     [ST_UNKNOWN, PEDESTRIAN, CYCLIST, MOPED, MOTORCYCLE, PASSENGER_CAR, BUS,
      LIGHT_TRUCK, HEAVY_TRUCK, TRAILER, SPECIAL_VEHICLE, TRAM, ROAD_SIDE_UNIT]"

definition ST_encode_to_address :: "ST \<Rightarrow> int" where
  "ST_encode_to_address st = push_bit (8 * 7) (push_bit 2 (ST_value st))"

interpretation M_enum: py_enum M_members M_value
proof unfold_locales
  show "c \<in> set M_members" for c by (cases c) (simp_all add: M_members_def)
  show "M_value c = M_value d \<Longrightarrow> c = d" for c d by (cases c; cases d) simp_all
qed

interpretation ST_enum: py_enum ST_members ST_value
proof unfold_locales
  show "c \<in> set ST_members" for c by (cases c) (simp_all add: ST_members_def)
  show "ST_value c = ST_value d \<Longrightarrow> c = d" for c d by (cases c; cases d) simp_all
qed

datatype MID = MID (mid_bytes: bytes)

text \<open>The constructor with its \<open>__post_init__\<close> check.\<close>

definition mk_MID :: "bytes \<Rightarrow> MID result" where
  "mk_MID m = (if length m \<noteq> 6 then Inl InvalidMIDLength else Inr (MID m))"

definition MID_encode_to_address :: "MID \<Rightarrow> int" where
  "MID_encode_to_address m = from_bytes ([0, 0] @ mid_bytes m)"

section \<open>The address\<close>

record GNAddress =
  addr_m :: M
  addr_st :: ST
  addr_mid :: MID

definition default_GNAddress :: GNAddress where
  "default_GNAddress = \<lparr>addr_m = GN_UNICAST, addr_st = ST_UNKNOWN, addr_mid = MID [0, 0, 0, 0, 0, 0]\<rparr>"

definition set_m :: "M \<Rightarrow> GNAddress \<Rightarrow> GNAddress" where
  "set_m m a = \<lparr>addr_m = m, addr_st = addr_st a, addr_mid = addr_mid a\<rparr>"

definition set_st :: "ST \<Rightarrow> GNAddress \<Rightarrow> GNAddress" where
  "set_st st a = \<lparr>addr_m = addr_m a, addr_st = st, addr_mid = addr_mid a\<rparr>"

definition set_mid :: "MID \<Rightarrow> GNAddress \<Rightarrow> GNAddress" where
  "set_mid mid a = \<lparr>addr_m = addr_m a, addr_st = addr_st a, addr_mid = mid\<rparr>"

definition gn_address_encode_to_int :: "GNAddress \<Rightarrow> int" where
  "gn_address_encode_to_int a =
     M_encode_to_address (addr_m a) OR ST_encode_to_address (addr_st a)
       OR MID_encode_to_address (addr_mid a)"

definition gn_address_encode :: "GNAddress \<Rightarrow> bytes result" where
  "gn_address_encode a = to_bytes 8 (gn_address_encode_to_int a)"

definition gn_address_decode :: "bytes \<Rightarrow> GNAddress result" where
  "gn_address_decode data =
     (if length data < 8 then Inl DecodeError
      else rbind (enum_of M_members M_value (drop_bit 7 (uint (data ! 0) AND 0x80))) (\<lambda>m.
           rbind (enum_of ST_members ST_value (drop_bit 2 (uint (data ! 0) AND 0x7C))) (\<lambda>st.
           rbind (mk_MID (slice 2 8 data)) (\<lambda>mid.
           Inr \<lparr>addr_m = m, addr_st = st, addr_mid = mid\<rparr>))))"

definition gn_address_eq :: "GNAddress \<Rightarrow> GNAddress \<Rightarrow> bool" where
  "gn_address_eq a b \<longleftrightarrow> mid_bytes (addr_mid a) = mid_bytes (addr_mid b)"

text \<open>What the constructors guarantee of every address.\<close>

definition valid_address :: "GNAddress \<Rightarrow> bool" where
  "valid_address a \<longleftrightarrow> length (mid_bytes (addr_mid a)) = 6"

section \<open>Encoding and decoding\<close>

lemma M_value_bounds [simp]: "0 \<le> M_value m" "M_value m < 2"
  by (cases m; simp)+

lemma ST_value_bounds [simp]: "0 \<le> ST_value st" "ST_value st < 32"
  by (cases st; simp)+

lemma mk_MID_Inr [result_simps]: "mk_MID bs = Inr m \<longleftrightarrow> length bs = 6 \<and> m = MID bs"
  by (auto simp: mk_MID_def)

lemma valid_default_GNAddress [simp]: "valid_address default_GNAddress"
  by (simp add: valid_address_def default_GNAddress_def)

definition gn_address_fields :: "GNAddress \<Rightarrow> fields" where
  "gn_address_fields a =
     [(1, M_value (addr_m a)), (5, ST_value (addr_st a)), (10, 0),
      (48, from_bytes (mid_bytes (addr_mid a)))]"

lemma gn_address_fields_ok: "valid_address a \<Longrightarrow> fields_ok (gn_address_fields a)"
  using from_bytes_less [of "mid_bytes (addr_mid a)"]
  by (simp add: gn_address_fields_def valid_address_def)

lemma gn_address_int_fields:
  assumes "valid_address a"
  shows "gn_address_encode_to_int a = join_fields (gn_address_fields a)"
proof -
  let ?mid = "(48, from_bytes (mid_bytes (addr_mid a)))"
  let ?st = "ST_value (addr_st a)" and ?m = "M_value (addr_m a)"
  note ok = gn_address_fields_ok [OF assms, unfolded gn_address_fields_def]
  have "push_bit 58 ?st OR join_fields [(10, 0), ?mid] = join_fields [(5, ?st), (10, 0), ?mid]"
    using ok by (intro push_bit_or_join) auto
  moreover have "push_bit 63 ?m OR join_fields [(5, ?st), (10, 0), ?mid]
      = join_fields [(1, ?m), (5, ?st), (10, 0), ?mid]"
    using ok by (intro push_bit_or_join) auto
  ultimately show ?thesis
    by (simp add: gn_address_encode_to_int_def M_encode_to_address_def
        ST_encode_to_address_def MID_encode_to_address_def gn_address_fields_def or.assoc)
qed

lemma gn_address_int_bounds:
  assumes "valid_address a"
  shows "0 \<le> gn_address_encode_to_int a" "gn_address_encode_to_int a < 2 ^ 64"
  using join_fields_bounds [OF gn_address_fields_ok [OF assms]]
  by (simp_all add: gn_address_int_fields [OF assms]) (simp_all add: gn_address_fields_def)

text \<open>The first byte: one bit of \<open>M\<close>, five of \<open>ST\<close> and two unused ones.\<close>

definition addr_head :: "GNAddress \<Rightarrow> int" where
  "addr_head a = M_value (addr_m a) * 128 + ST_value (addr_st a) * 4"

lemma addr_head_bounds: "0 \<le> addr_head a" "addr_head a < 256"
  using M_value_bounds [of "addr_m a"] ST_value_bounds [of "addr_st a"]
  unfolding addr_head_def by linarith+

lemma addr_head_M: "drop_bit 7 (addr_head a AND 0x80) = M_value (addr_m a)"
  using ST_value_bounds [of "addr_st a"] M_value_bounds [of "addr_m a"]
  by (cases "addr_m a"; cases "addr_st a"; simp add: addr_head_def)

lemma addr_head_ST: "drop_bit 2 (addr_head a AND 0x7C) = ST_value (addr_st a)"
  by (cases "addr_m a"; cases "addr_st a"; simp add: addr_head_def)

lemma gn_address_layout:
  assumes "valid_address a"
  shows "gn_address_encode a = Inr ([word_of_int (addr_head a), 0] @ mid_bytes (addr_mid a))"
proof -
  let ?mid = "from_bytes (mid_bytes (addr_mid a))"
  have len: "length (mid_bytes (addr_mid a)) = 6" using assms by (simp add: valid_address_def)
  have mid: "0 \<le> ?mid" "?mid < 256 ^ 6"
    using from_bytes_less [of "mid_bytes (addr_mid a)"] len by simp_all
  have "gn_address_encode_to_int a = (addr_head a * 256) * 256 ^ 6 + ?mid"
    by (simp add: gn_address_int_fields [OF assms] gn_address_fields_def addr_head_def)
  moreover have "be_bytes (2 + 6) ((addr_head a * 256) * 256 ^ 6 + ?mid)
      = be_bytes 2 (addr_head a * 256) @ be_bytes 6 ?mid"
    using addr_head_bounds [of a] mid by (intro be_bytes_append) auto
  moreover have "be_bytes 6 ?mid = mid_bytes (addr_mid a)"
    using be_from_bytes [of "mid_bytes (addr_mid a)"] len by simp
  ultimately show ?thesis
    using gn_address_int_bounds [OF assms] addr_head_bounds [of a]
    by (simp add: gn_address_encode_def to_bytes_Inr be_bytes_shift8)
qed

lemma gn_address_decode_encode:
  assumes "valid_address a" "gn_address_encode a = Inr bs"
  shows "gn_address_decode bs = Inr a"
proof -
  have bs: "bs = [word_of_int (addr_head a), 0] @ mid_bytes (addr_mid a)"
    using assms gn_address_layout by auto
  have b0: "uint (bs ! 0) = addr_head a"
    using addr_head_bounds [of a] by (simp add: bs uint_byte_of_int)
  have mid: "mk_MID (slice 2 8 bs) = Inr (addr_mid a)" and len: "length bs = 8"
    using assms(1) by (simp_all add: bs slice_def valid_address_def mk_MID_def)
  show ?thesis
    by (simp add: gn_address_decode_def b0 len mid addr_head_M [simplified] addr_head_ST [simplified]
        M_enum.enum_of_val ST_enum.enum_of_val)
qed

lemma gn_address_decode_valid: "gn_address_decode bs = Inr a \<Longrightarrow> valid_address a"
  by (auto simp: gn_address_decode_def result_simps valid_address_def split: if_splits)

interpretation gn_address: closed_codec gn_address_encode gn_address_decode valid_address 8
proof unfold_locales
  show "\<exists>bs. gn_address_encode a = Inr bs \<and> length bs = 8" if "valid_address a" for a
    using gn_address_layout [OF that] that by (simp add: valid_address_def)
  show "gn_address_decode bs = Inr a"
    if "valid_address a" "gn_address_encode a = Inr bs" for a bs
    using that by (rule gn_address_decode_encode)
  show "gn_address_decode bs = gn_address_decode (take 8 bs)" if "8 \<le> length bs" for bs
    using that by (simp add: gn_address_decode_def slice_def drop_take)
  show "gn_address_decode bs = Inl DecodeError" if "length bs < 8" for bs
    using that by (simp add: gn_address_decode_def)
  show "valid_address a" if "gn_address_decode bs = Inr a" for bs a
    using that by (rule gn_address_decode_valid)
qed

lemma gn_address_eq_refl [simp]: "gn_address_eq a a"
  by (simp add: gn_address_eq_def)

lemma gn_address_eq_sym: "gn_address_eq a b \<longleftrightarrow> gn_address_eq b a"
  by (auto simp: gn_address_eq_def)

end
