(* ===== verification/Mib.thy ===== *)
theory Mib
  imports GnAddress
begin

text \<open>
  The management information base of the GeoNetworking router
  (\<open>src/flexstack/geonet/mib.py\<close>). Integer parameters are \<^typ>\<open>int\<close>, but for the length of
  the duplicate packet list, which \<open>deque(maxlen=...)\<close> only accepts when it is not negative.
\<close>

datatype LocalGnAddrConfMethod = AUTO | MANAGED | ANONYMOUS

datatype GnIsMobile = STATIONARY | MOBILE

fun GnIsMobile_value :: "GnIsMobile \<Rightarrow> int" where
  "GnIsMobile_value STATIONARY = 0"
| "GnIsMobile_value MOBILE = 1"

datatype GnIfType = IF_UNSPECIFIED | ITS_G5 | LTE_V2X

datatype GnSecurity = DISABLED | ENABLED

datatype SnDecapResultHandling = STRICT | NON_STRICT

datatype NonAreaForwardingAlgorithm = NAF_UNSPECIFIED | GREEDY

datatype AreaForwardingAlgorithm = AF_UNSPECIFIED | SIMPLE | CBF

record MIB =
  itsGnLocalGnAddr :: GNAddress
  itsGnLocalGnAddrConfMethod :: LocalGnAddrConfMethod
  itsGnProtocolVersion :: int
  itsGnIsMobile :: GnIsMobile
  itsGnIfType :: GnIfType
  itsGnMinUpdateFrequencyEPV :: int
  itsGnPaiInterval :: int
  itsGnMaxSduSize :: int
  itsGnMaxGeoNetworkingHeaderSize :: int
  itsGnLifetimeLocTE :: int
  itsGnSecurity :: GnSecurity
  itsGnSnDecapResultHandling :: SnDecapResultHandling
  itsGnLocationServiceMaxRetrans :: int
  itsGnLocationServiceRetransmitTimer :: int
  itsGnLocationServicePacketBufferSize :: int
  itsGnBeaconServiceRetransmitTimer :: int
  itsGnBeaconServiceMaxJitter :: "real option"
  itsGnDefaultHopLimit :: int
  itsGnDPLLength :: nat
  itsGnMaxPacketLifetime :: int
  itsGnDefaultPacketLifetime :: int
  itsGnMaxPacketDataRate :: int
  itsGnMaxPacketDataRateEmaBeta :: int
  itsGnMaxGeoAreaSize :: int
  itsGnMinPacketRepetitionInterval :: int
  itsGnNonAreaForwardingAlgorithm :: NonAreaForwardingAlgorithm
  itsGnAreaForwardingAlgorithm :: AreaForwardingAlgorithm
  itsGnCbfMinTime :: int
  itsGnCbfMaxTime :: int
  itsGnDefaultMaxCommunicationRange :: int
  itsGnBroadcastCBFDefSectorAngle :: int
  itsGnUcForwardingPacketBufferSize :: int
  itsGnBcForwardingPacketBufferSize :: int
  itsGnCbfPacketBufferSize :: int
  itsGnDefaultTrafficClass :: int

text \<open>\<open>__post_init__\<close> fills in the default that depends on another field.\<close>

definition mib_post_init :: "MIB \<Rightarrow> MIB" where
  "mib_post_init mib =
     (case itsGnBeaconServiceMaxJitter mib of
        None \<Rightarrow> mib\<lparr>itsGnBeaconServiceMaxJitter :=
                       Some (of_int (itsGnBeaconServiceRetransmitTimer mib) / 4)\<rparr>
      | Some _ \<Rightarrow> mib)"

definition default_MIB :: MIB where
  "default_MIB = mib_post_init
     \<lparr>itsGnLocalGnAddr = default_GNAddress,
      itsGnLocalGnAddrConfMethod = AUTO,
      itsGnProtocolVersion = 1,
      itsGnIsMobile = MOBILE,
      itsGnIfType = IF_UNSPECIFIED,
      itsGnMinUpdateFrequencyEPV = 1000,
      itsGnPaiInterval = 80,
      itsGnMaxSduSize = 1398,
      itsGnMaxGeoNetworkingHeaderSize = 88,
      itsGnLifetimeLocTE = 20,
      itsGnSecurity = DISABLED,
      itsGnSnDecapResultHandling = STRICT,
      itsGnLocationServiceMaxRetrans = 10,
      itsGnLocationServiceRetransmitTimer = 1000,
      itsGnLocationServicePacketBufferSize = 1024,
      itsGnBeaconServiceRetransmitTimer = 0,
      itsGnBeaconServiceMaxJitter = None,
      itsGnDefaultHopLimit = 10,
      itsGnDPLLength = 8,
      itsGnMaxPacketLifetime = 600,
      itsGnDefaultPacketLifetime = 60,
      itsGnMaxPacketDataRate = 100,
      itsGnMaxPacketDataRateEmaBeta = 90,
      itsGnMaxGeoAreaSize = 10,
      itsGnMinPacketRepetitionInterval = 100,
      itsGnNonAreaForwardingAlgorithm = GREEDY,
      itsGnAreaForwardingAlgorithm = CBF,
      itsGnCbfMinTime = 1,
      itsGnCbfMaxTime = 100,
      itsGnDefaultMaxCommunicationRange = 1000,
      itsGnBroadcastCBFDefSectorAngle = 30,
      itsGnUcForwardingPacketBufferSize = 256,
      itsGnBcForwardingPacketBufferSize = 1024,
      itsGnCbfPacketBufferSize = 256,
      itsGnDefaultTrafficClass = 0\<rparr>"

lemma mib_post_init_jitter: "itsGnBeaconServiceMaxJitter (mib_post_init mib) \<noteq> None"
  by (cases "itsGnBeaconServiceMaxJitter mib") (simp_all add: mib_post_init_def)

lemma mib_post_init_fields [simp]:
  "itsGnLocalGnAddr (mib_post_init mib) = itsGnLocalGnAddr mib"
  "itsGnLocalGnAddrConfMethod (mib_post_init mib) = itsGnLocalGnAddrConfMethod mib"
  "itsGnProtocolVersion (mib_post_init mib) = itsGnProtocolVersion mib"
  "itsGnIsMobile (mib_post_init mib) = itsGnIsMobile mib"
  "itsGnLifetimeLocTE (mib_post_init mib) = itsGnLifetimeLocTE mib"
  "itsGnSecurity (mib_post_init mib) = itsGnSecurity mib"
  "itsGnLocationServiceMaxRetrans (mib_post_init mib) = itsGnLocationServiceMaxRetrans mib"
  "itsGnDefaultHopLimit (mib_post_init mib) = itsGnDefaultHopLimit mib"
  "itsGnDPLLength (mib_post_init mib) = itsGnDPLLength mib"
  "itsGnDefaultPacketLifetime (mib_post_init mib) = itsGnDefaultPacketLifetime mib"
  "itsGnMaxPacketDataRate (mib_post_init mib) = itsGnMaxPacketDataRate mib"
  "itsGnMaxPacketDataRateEmaBeta (mib_post_init mib) = itsGnMaxPacketDataRateEmaBeta mib"
  "itsGnMaxGeoAreaSize (mib_post_init mib) = itsGnMaxGeoAreaSize mib"
  "itsGnAreaForwardingAlgorithm (mib_post_init mib) = itsGnAreaForwardingAlgorithm mib"
  "itsGnCbfMinTime (mib_post_init mib) = itsGnCbfMinTime mib"
  "itsGnCbfMaxTime (mib_post_init mib) = itsGnCbfMaxTime mib"
  "itsGnDefaultMaxCommunicationRange (mib_post_init mib) = itsGnDefaultMaxCommunicationRange mib"
  by (simp_all add: mib_post_init_def split: option.splits)

end
