(* ===== verification/BasicHeader.thy ===== *)
theory BasicHeader
  imports Mib
begin

text \<open>
  The Basic Header (\<open>src/flexstack/geonet/basic_header.py\<close>): the packet lifetime \<open>LT\<close> as
  multiplier and base, and the 4-byte header with its remaining hop limit.
\<close>

section \<open>Enumerations\<close>

datatype BasicNH = BNH_ANY | COMMON_HEADER | SECURED_PACKET

fun BasicNH_value :: "BasicNH \<Rightarrow> int" where
  "BasicNH_value BNH_ANY = 0"
| "BasicNH_value COMMON_HEADER = 1"
| "BasicNH_value SECURED_PACKET = 2"

definition BasicNH_members :: "BasicNH list" where
  "BasicNH_members = [BNH_ANY, COMMON_HEADER, SECURED_PACKET]"

datatype LTbase = FIFTY_MILLISECONDS | ONE_SECOND | TEN_SECONDS | ONE_HUNDRED_SECONDS

fun LTbase_value :: "LTbase \<Rightarrow> int" where
  "LTbase_value FIFTY_MILLISECONDS = 0"
| "LTbase_value ONE_SECOND = 1"
| "LTbase_value TEN_SECONDS = 2"
| "LTbase_value ONE_HUNDRED_SECONDS = 3"

definition LTbase_members :: "LTbase list" where
  "LTbase_members = [FIFTY_MILLISECONDS, ONE_SECOND, TEN_SECONDS, ONE_HUNDRED_SECONDS]"

interpretation BasicNH_enum: py_enum BasicNH_members BasicNH_value
proof unfold_locales
  show "c \<in> set BasicNH_members" for c by (cases c) (simp_all add: BasicNH_members_def)
  show "BasicNH_value c = BasicNH_value d \<Longrightarrow> c = d" for c d by (cases c; cases d) simp_all
qed

interpretation LTbase_enum: py_enum LTbase_members LTbase_value
proof unfold_locales
  show "c \<in> set LTbase_members" for c by (cases c) (simp_all add: LTbase_members_def)
  show "LTbase_value c = LTbase_value d \<Longrightarrow> c = d" for c d by (cases c; cases d) simp_all
qed

lemma BasicNH_value_bounds [simp]: "0 \<le> BasicNH_value n" "BasicNH_value n < 16"
  by (cases n; simp)+

lemma LTbase_value_bounds [simp]: "0 \<le> LTbase_value b" "LTbase_value b < 4"
  by (cases b; simp)+

section \<open>Lifetime\<close>

record LT =
  lt_multiplier :: int
  lt_base :: LTbase

definition default_LT :: LT where
  "default_LT = \<lparr>lt_multiplier = 0, lt_base = FIFTY_MILLISECONDS\<rparr>"

text \<open>
  \<open>int(value / n % 64)\<close> is floor division: in each branch the quotient is far from the next
  integer compared with the rounding of float division.
\<close>

definition lt_set_value_in_millis :: "int \<Rightarrow> LT" where
  "lt_set_value_in_millis value =
     (if value < 50 then \<lparr>lt_multiplier = 0, lt_base = FIFTY_MILLISECONDS\<rparr>
      else if value < 100 then \<lparr>lt_multiplier = 1, lt_base = FIFTY_MILLISECONDS\<rparr>
      else if value < 500 then \<lparr>lt_multiplier = value div 50 mod 64, lt_base = FIFTY_MILLISECONDS\<rparr>
      else if value < 1000 then \<lparr>lt_multiplier = 0, lt_base = ONE_SECOND\<rparr>
      else if value < 10000 then \<lparr>lt_multiplier = value div 1000 mod 64, lt_base = ONE_SECOND\<rparr>
      else if value < 100000 then \<lparr>lt_multiplier = value div 10000 mod 64, lt_base = TEN_SECONDS\<rparr>
      else if value < 1000000 then
        \<lparr>lt_multiplier = value div 100000 mod 64, lt_base = ONE_HUNDRED_SECONDS\<rparr>
      else \<lparr>lt_multiplier = 0, lt_base = ONE_HUNDRED_SECONDS\<rparr>)"

definition lt_set_value_in_seconds :: "int \<Rightarrow> LT" where
  "lt_set_value_in_seconds value = lt_set_value_in_millis (value * 1000)"

definition lt_get_value_in_millis :: "LT \<Rightarrow> int" where
  "lt_get_value_in_millis lt =
     (case lt_base lt of
        FIFTY_MILLISECONDS \<Rightarrow> lt_multiplier lt * 50
      | ONE_SECOND \<Rightarrow> lt_multiplier lt * 1000
      | TEN_SECONDS \<Rightarrow> lt_multiplier lt * 10000
      | ONE_HUNDRED_SECONDS \<Rightarrow> lt_multiplier lt * 100000)"

definition lt_get_value_in_seconds :: "LT \<Rightarrow> int" where
  "lt_get_value_in_seconds lt = lt_get_value_in_millis lt div 1000"

definition lt_encode_to_int :: "LT \<Rightarrow> int" where
  "lt_encode_to_int lt = push_bit 2 (lt_multiplier lt) OR LTbase_value (lt_base lt)"

definition lt_encode_to_bytes :: "LT \<Rightarrow> bytes result" where
  "lt_encode_to_bytes lt = to_bytes 1 (lt_encode_to_int lt)"

definition valid_lt :: "LT \<Rightarrow> bool" where
  "valid_lt lt \<longleftrightarrow> 0 \<le> lt_multiplier lt \<and> lt_multiplier lt < 64"

lemma lt_encode_to_int_eq:
  "lt_encode_to_int lt = lt_multiplier lt * 4 + LTbase_value (lt_base lt)"
  using push_bit_or_int [of "LTbase_value (lt_base lt)" 2 "lt_multiplier lt"]
  by (simp add: lt_encode_to_int_def)

lemma valid_lt_set [simp]: "valid_lt (lt_set_value_in_millis v)"
  unfolding valid_lt_def lt_set_value_in_millis_def by (auto simp only: LT.simps split: if_splits)

lemma div_mod_64:
  fixes v n :: int
  assumes "0 < n" "0 \<le> v" "v < 10 * n"
  shows "v div n mod 64 = v div n"
proof -
  have "v div n < 10"
  proof (rule ccontr)
    assume "\<not> v div n < 10"
    then have "n * 10 \<le> n * (v div n)" using assms(1) by simp
    moreover have "n * (v div n) \<le> v"
      using assms(1) minus_mod_eq_mult_div [of v n] pos_mod_sign [of n v] by linarith
    ultimately show False using assms(3) by linarith
  qed
  moreover have "0 \<le> v div n" using assms by (simp add: pos_imp_zdiv_nonneg_iff)
  ultimately show ?thesis by simp
qed

text \<open>
  A lifetime is rounded down to a multiple of its base, but a lifetime of 500 to 999 ms and
  one of 1000 s or more become zero.
\<close>

lemma lt_set_get:
  "lt_get_value_in_millis (lt_set_value_in_millis v) =
     (if v < 50 then 0
      else if v < 500 then v div 50 * 50
      else if v < 1000 then 0
      else if v < 10000 then v div 1000 * 1000
      else if v < 100000 then v div 10000 * 10000
      else if v < 1000000 then v div 100000 * 100000
      else 0)"
proof (cases "v < 50 \<or> v < 100 \<or> 500 \<le> v \<and> v < 1000 \<or> 1000000 \<le> v")
  case True
  have "v div 50 = 1" if "50 \<le> v" "v < 100" using that by presburger
  then show ?thesis
    using True by (auto simp: lt_set_value_in_millis_def lt_get_value_in_millis_def)
next
  case False
  then show ?thesis
    by (simp add: lt_set_value_in_millis_def lt_get_value_in_millis_def div_mod_64)
qed

section \<open>The header\<close>

record BasicHeader =
  bh_version :: int
  bh_nh :: BasicNH
  bh_reserved :: int
  bh_lt :: LT
  bh_rhl :: int

definition bh_initialize_with_mib_and_rhl :: "MIB \<Rightarrow> int \<Rightarrow> BasicHeader" where
  "bh_initialize_with_mib_and_rhl mib rhl =
     \<lparr>bh_version = 1, bh_nh = COMMON_HEADER, bh_reserved = 0,
      bh_lt = lt_set_value_in_seconds (itsGnDefaultPacketLifetime mib), bh_rhl = rhl\<rparr>"

definition bh_initialize_with_mib_request_and_rhl ::
    "MIB \<Rightarrow> real option \<Rightarrow> int \<Rightarrow> BasicHeader" where
  "bh_initialize_with_mib_request_and_rhl mib max_packet_lifetime rhl =
     \<lparr>bh_version = 1, bh_nh = COMMON_HEADER, bh_reserved = 0,
      bh_lt = (case max_packet_lifetime of
                 Some l \<Rightarrow> lt_set_value_in_millis (py_int (l * 1000))
               | None \<Rightarrow> lt_set_value_in_seconds (itsGnDefaultPacketLifetime mib)),
      bh_rhl = rhl\<rparr>"

definition bh_set_version :: "int \<Rightarrow> BasicHeader \<Rightarrow> BasicHeader" where
  "bh_set_version v h = h\<lparr>bh_version := v\<rparr>"

definition bh_set_nh :: "BasicNH \<Rightarrow> BasicHeader \<Rightarrow> BasicHeader" where
  "bh_set_nh n h = h\<lparr>bh_nh := n\<rparr>"

definition bh_set_lt :: "LT \<Rightarrow> BasicHeader \<Rightarrow> BasicHeader" where
  "bh_set_lt lt h = h\<lparr>bh_lt := lt\<rparr>"

definition bh_set_rhl :: "int \<Rightarrow> BasicHeader \<Rightarrow> BasicHeader" where
  "bh_set_rhl rhl h = h\<lparr>bh_rhl := rhl mod 256\<rparr>"

definition bh_encode_to_int :: "BasicHeader \<Rightarrow> int" where
  "bh_encode_to_int h =
     push_bit (4 + 3 * 8) (bh_version h)
     OR push_bit (0 + 3 * 8) (BasicNH_value (bh_nh h))
     OR push_bit (2 * 8) (bh_reserved h)
     OR push_bit 8 (lt_encode_to_int (bh_lt h))
     OR bh_rhl h"

definition bh_encode :: "BasicHeader \<Rightarrow> bytes result" where
  "bh_encode h = to_bytes 4 (bh_encode_to_int h)"

definition bh_decode_from_int :: "int \<Rightarrow> BasicHeader result" where
  "bh_decode_from_int value =
     rbind (enum_of BasicNH_members BasicNH_value (drop_bit (0 + 3 * 8) value AND 0xF)) (\<lambda>nh.
     rbind (enum_of LTbase_members LTbase_value (drop_bit 8 value AND 0x03)) (\<lambda>base.
     Inr \<lparr>bh_version = drop_bit (4 + 3 * 8) value AND 0xF,
          bh_nh = nh,
          bh_reserved = drop_bit (2 * 8) value AND 0xFF,
          bh_lt = \<lparr>lt_multiplier = drop_bit 10 value AND 0x3F, lt_base = base\<rparr>,
          bh_rhl = value AND 0xFF\<rparr>))"

definition bh_decode :: "bytes \<Rightarrow> BasicHeader result" where
  "bh_decode value =
     (if length value < 4 then Inl DecodeError
      else bh_decode_from_int (from_bytes (slice 0 4 value)))"

definition bh_initialize_with_mib :: "MIB \<Rightarrow> BasicHeader" where
  "bh_initialize_with_mib mib =
     \<lparr>bh_version = itsGnProtocolVersion mib, bh_nh = COMMON_HEADER, bh_reserved = 0,
      bh_lt = lt_set_value_in_seconds (itsGnDefaultPacketLifetime mib),
      bh_rhl = itsGnDefaultHopLimit mib\<rparr>"

definition valid_bh :: "BasicHeader \<Rightarrow> bool" where
  "valid_bh h \<longleftrightarrow>
     0 \<le> bh_version h \<and> bh_version h < 16 \<and> 0 \<le> bh_reserved h \<and> bh_reserved h < 256
     \<and> valid_lt (bh_lt h) \<and> 0 \<le> bh_rhl h \<and> bh_rhl h < 256"

lemma valid_bh_set_rhl: "valid_bh h \<Longrightarrow> valid_bh (bh_set_rhl r h)"
  by (simp add: valid_bh_def bh_set_rhl_def)

lemma valid_bh_set_nh: "valid_bh h \<Longrightarrow> valid_bh (bh_set_nh n h)"
  by (simp add: valid_bh_def bh_set_nh_def)

lemma valid_bh_initialize:
  "0 \<le> rhl \<Longrightarrow> rhl < 256 \<Longrightarrow> valid_bh (bh_initialize_with_mib_and_rhl mib rhl)"
  "0 \<le> rhl \<Longrightarrow> rhl < 256 \<Longrightarrow> valid_bh (bh_initialize_with_mib_request_and_rhl mib l rhl)"
  by (simp_all add: valid_bh_def bh_initialize_with_mib_and_rhl_def lt_set_value_in_seconds_def
      bh_initialize_with_mib_request_and_rhl_def split: option.splits)

section \<open>Encoding and decoding\<close>

definition bh_fields :: "BasicHeader \<Rightarrow> fields" where
  "bh_fields h =
     [(4, bh_version h), (4, BasicNH_value (bh_nh h)), (8, bh_reserved h),
      (6, lt_multiplier (bh_lt h)), (2, LTbase_value (lt_base (bh_lt h))), (8, bh_rhl h)]"

lemma bh_fields_ok: "valid_bh h \<Longrightarrow> fields_ok (bh_fields h)"
  by (simp add: bh_fields_def valid_bh_def valid_lt_def)

lemma bh_int_fields:
  assumes "valid_bh h"
  shows "bh_encode_to_int h = join_fields (bh_fields h)"
proof -
  note ok = bh_fields_ok [OF assms, unfolded bh_fields_def]
  let ?lt = "lt_encode_to_int (bh_lt h)"
  let ?f5 = "[(8, bh_rhl h)]"
  let ?f4 = "(8, ?lt) # ?f5"
  let ?f3 = "(8, bh_reserved h) # ?f4"
  let ?f2 = "(4, BasicNH_value (bh_nh h)) # ?f3"
  have "0 \<le> ?lt" "?lt < 256"
    using assms LTbase_value_bounds [of "lt_base (bh_lt h)"]
    unfolding lt_encode_to_int_eq valid_bh_def valid_lt_def by linarith+
  then have "push_bit 8 ?lt OR join_fields ?f5 = join_fields ?f4"
    and "push_bit 16 (bh_reserved h) OR join_fields ?f4 = join_fields ?f3"
    and "push_bit 24 (BasicNH_value (bh_nh h)) OR join_fields ?f3 = join_fields ?f2"
    and "push_bit 28 (bh_version h) OR join_fields ?f2
      = join_fields ((4, bh_version h) # ?f2)"
    using ok by (auto intro!: push_bit_or_join simp del: join_fields.simps)
  moreover have "bh_rhl h = join_fields ?f5" by simp
  moreover have "join_fields ((4, bh_version h) # ?f2) = join_fields (bh_fields h)"
    by (simp add: bh_fields_def lt_encode_to_int_eq)
  ultimately show ?thesis
    unfolding bh_encode_to_int_def
    by (simp only: or.assoc mult_numeral_1 mult_numeral_1_right semiring_norm arith_simps)
qed

lemma bh_int_bounds:
  assumes "valid_bh h"
  shows "0 \<le> bh_encode_to_int h" "bh_encode_to_int h < 256 ^ 4"
  using join_fields_bounds [OF bh_fields_ok [OF assms]]
  by (simp_all add: bh_int_fields [OF assms]) (simp_all add: bh_fields_def)

lemma bh_encode_valid: "valid_bh h \<Longrightarrow> bh_encode h = Inr (be_bytes 4 (bh_encode_to_int h))"
  using bh_int_bounds [of h] by (simp add: bh_encode_def to_bytes_Inr)

lemma bh_field_reads:
  assumes "valid_bh h"
  defines "x \<equiv> bh_encode_to_int h"
  shows "drop_bit 28 x AND 0xF = bh_version h"
    and "drop_bit 24 x AND 0xF = BasicNH_value (bh_nh h)"
    and "drop_bit 16 x AND 0xFF = bh_reserved h"
    and "drop_bit 10 x AND 0x3F = lt_multiplier (bh_lt h)"
    and "drop_bit 8 x AND 0x03 = LTbase_value (lt_base (bh_lt h))"
    and "x AND 0xFF = bh_rhl h"
proof -
  let ?v = "(4, bh_version h)" and ?n = "(4, BasicNH_value (bh_nh h))"
  let ?r = "(8, bh_reserved h)" and ?m = "(6, lt_multiplier (bh_lt h))"
  let ?b = "(2, LTbase_value (lt_base (bh_lt h)))" and ?l = "(8, bh_rhl h)"
  have x: "x = join_fields [?v, ?n, ?r, ?m, ?b, ?l]"
    using bh_int_fields [OF assms(1)] by (simp add: x_def bh_fields_def)
  have ok: "fields_ok [?v, ?n, ?r, ?m, ?b, ?l]"
    using bh_fields_ok [OF assms(1)] by (simp add: bh_fields_def)
  show "drop_bit 28 x AND 0xF = bh_version h"
    using join_fields_get [of "[]" 4 "bh_version h" "[?n, ?r, ?m, ?b, ?l]"] ok
    unfolding x bitfields by (simp del: join_fields.simps)
  show "drop_bit 24 x AND 0xF = BasicNH_value (bh_nh h)"
    using join_fields_get [of "[?v]" 4 "BasicNH_value (bh_nh h)" "[?r, ?m, ?b, ?l]"] ok
    unfolding x bitfields by (simp del: join_fields.simps)
  show "drop_bit 16 x AND 0xFF = bh_reserved h"
    using join_fields_get [of "[?v, ?n]" 8 "bh_reserved h" "[?m, ?b, ?l]"] ok
    unfolding x bitfields by (simp del: join_fields.simps)
  show "drop_bit 10 x AND 0x3F = lt_multiplier (bh_lt h)"
    using join_fields_get [of "[?v, ?n, ?r]" 6 "lt_multiplier (bh_lt h)" "[?b, ?l]"] ok
    unfolding x bitfields by (simp del: join_fields.simps)
  show "drop_bit 8 x AND 0x03 = LTbase_value (lt_base (bh_lt h))"
    using join_fields_get [of "[?v, ?n, ?r, ?m]" 2 "LTbase_value (lt_base (bh_lt h))" "[?l]"] ok
    unfolding x bitfields by (simp del: join_fields.simps)
  show "x AND 0xFF = bh_rhl h"
    using join_fields_get [of "[?v, ?n, ?r, ?m, ?b]" 8 "bh_rhl h" "[]"] ok
    unfolding x bitfields by (simp del: join_fields.simps)
qed

lemma bh_decode_encode:
  assumes "valid_bh h" "bh_encode h = Inr bs"
  shows "bh_decode bs = Inr h"
proof -
  have bs: "bs = be_bytes 4 (bh_encode_to_int h)" using assms bh_encode_valid by auto
  have "from_bytes (slice 0 4 bs) = bh_encode_to_int h"
    using bh_int_bounds [OF assms(1)] by (simp add: bs slice_0 from_be_bytes)
  then show ?thesis
    by (simp add: bh_decode_def bs bh_decode_from_int_def bh_field_reads [OF assms(1)]
        BasicNH_enum.enum_of_val LTbase_enum.enum_of_val)
qed

lemma bh_decode_valid: "bh_decode bs = Inr h \<Longrightarrow> valid_bh h"
  by (auto simp: bh_decode_def bh_decode_from_int_def result_simps valid_bh_def valid_lt_def
      bitfields split: if_splits)

interpretation bh: closed_codec bh_encode bh_decode valid_bh 4
proof unfold_locales
  show "\<exists>bs. bh_encode h = Inr bs \<and> length bs = 4" if "valid_bh h" for h
    using bh_encode_valid [OF that] by simp
  show "bh_decode bs = Inr h" if "valid_bh h" "bh_encode h = Inr bs" for h bs
    using that by (rule bh_decode_encode)
  show "bh_decode bs = bh_decode (take 4 bs)" if "4 \<le> length bs" for bs
    using that by (simp add: bh_decode_def slice_0)
  show "bh_decode bs = Inl DecodeError" if "length bs < 4" for bs
    using that by (simp add: bh_decode_def)
  show "valid_bh h" if "bh_decode bs = Inr h" for bs h
    using that by (rule bh_decode_valid)
qed

end
