(* ===== verification/PositionVector.thy ===== *)
theory PositionVector
  imports GnAddress
begin

text \<open>
  Timestamps and position vectors (\<open>src/flexstack/geonet/position_vector.py\<close> and the
  constants of \<open>src/flexstack/utils/time_service.py\<close>): \<open>TST\<close> with its wrap-around order,
  \<open>LongPositionVector\<close> and \<open>ShortPositionVector\<close> with their 24- and 20-byte encodings.
  Latitudes, speeds and headings given as floats are reals.
\<close>

section \<open>Timestamps\<close>

definition ITS_EPOCH :: int where
  "ITS_EPOCH = 1072915200"

definition ELAPSED_SECONDS :: int where
  "ELAPSED_SECONDS = 5"

definition ITS_EPOCH_MS :: int where
  "ITS_EPOCH_MS = ITS_EPOCH * 1000"

definition ELAPSED_MILLISECONDS :: int where
  "ELAPSED_MILLISECONDS = ELAPSED_SECONDS * 1000"

record TST =
  msec :: int

text \<open>Both callers of \<open>set_in_normal_timestamp_seconds\<close> pass whole seconds.\<close>

definition tst_set_in_normal_timestamp_seconds :: "int \<Rightarrow> TST" where
  "tst_set_in_normal_timestamp_seconds utc =
     \<lparr>msec = ((utc - ITS_EPOCH + ELAPSED_SECONDS) * 1000) mod 2 ^ 32\<rparr>"

definition tst_set_in_normal_timestamp_milliseconds :: "int \<Rightarrow> TST" where
  "tst_set_in_normal_timestamp_milliseconds utc =
     \<lparr>msec = (utc - ITS_EPOCH_MS + ELAPSED_MILLISECONDS) mod 2 ^ 32\<rparr>"

definition tst_encode :: "TST \<Rightarrow> int" where
  "tst_encode t = msec t mod 2 ^ 32"

definition tst_decode :: "int \<Rightarrow> TST" where
  "tst_decode data = \<lparr>msec = data mod 2 ^ 32\<rparr>"

definition tst_eq :: "TST \<Rightarrow> TST \<Rightarrow> bool" where
  "tst_eq a b \<longleftrightarrow> msec a = msec b"

definition tst_ne :: "TST \<Rightarrow> TST \<Rightarrow> bool" where
  "tst_ne a b \<longleftrightarrow> \<not> tst_eq a b"

definition tst_gt :: "TST \<Rightarrow> TST \<Rightarrow> bool" where
  "tst_gt a b \<longleftrightarrow>
     (msec a > msec b \<and> msec a - msec b \<le> 2 ^ 31)
     \<or> (msec b > msec a \<and> msec b - msec a > 2 ^ 31)"

definition tst_ge :: "TST \<Rightarrow> TST \<Rightarrow> bool" where
  "tst_ge a b \<longleftrightarrow> tst_eq a b \<or> tst_gt a b"

definition tst_lt :: "TST \<Rightarrow> TST \<Rightarrow> bool" where
  "tst_lt a b \<longleftrightarrow> \<not> tst_ge a b"

definition tst_le :: "TST \<Rightarrow> TST \<Rightarrow> bool" where
  "tst_le a b \<longleftrightarrow> \<not> tst_gt a b"

definition tst_add :: "TST \<Rightarrow> TST \<Rightarrow> int" where
  "tst_add a b = (msec a + msec b) mod 2 ^ 32"

definition tst_sub :: "TST \<Rightarrow> TST \<Rightarrow> int" where
  "tst_sub a b = (let result = msec a - msec b in if result < 0 then result + 2 ^ 32 else result)"

definition valid_tst :: "TST \<Rightarrow> bool" where
  "valid_tst t \<longleftrightarrow> 0 \<le> msec t \<and> msec t < 2 ^ 32"

lemma valid_tst_constructors [simp]:
  "valid_tst (tst_set_in_normal_timestamp_seconds s)"
  "valid_tst (tst_set_in_normal_timestamp_milliseconds ms)"
  "valid_tst (tst_decode d)"
  by (simp_all add: valid_tst_def tst_set_in_normal_timestamp_seconds_def
      tst_set_in_normal_timestamp_milliseconds_def tst_decode_def)

lemma tst_eq_iff [simp]: "tst_eq a b \<longleftrightarrow> a = b"
  by (cases a; cases b) (simp add: tst_eq_def)

lemma tst_decode_encode: "valid_tst t \<Longrightarrow> tst_decode (tst_encode t) = t"
  by (cases t) (simp add: valid_tst_def tst_decode_def tst_encode_def)

lemma tst_gt_irrefl [simp]: "\<not> tst_gt t t"
  by (simp add: tst_gt_def)

lemma tst_gt_asym: "tst_gt a b \<Longrightarrow> \<not> tst_gt b a"
  by (auto simp: tst_gt_def)

lemma tst_gt_total:
  "a \<noteq> b \<Longrightarrow> tst_gt a b \<or> tst_gt b a"
  by (cases a; cases b) (auto simp: tst_gt_def)

lemma tst_sub_mod:
  "valid_tst a \<Longrightarrow> valid_tst b \<Longrightarrow> tst_sub a b = (msec a - msec b) mod 2 ^ 32"
proof -
  assume v: "valid_tst a" "valid_tst b"
  show ?thesis
  proof (cases "msec a < msec b")
    case True
    then have "(msec a - msec b) mod 2 ^ 32 = (msec a - msec b + 2 ^ 32) mod 2 ^ 32" by simp
    also have "\<dots> = msec a - msec b + 2 ^ 32"
      using v True by (intro mod_pos_pos_trivial) (auto simp: valid_tst_def)
    finally show ?thesis using True by (simp add: tst_sub_def Let_def)
  next
    case False
    then show ?thesis using v by (simp add: tst_sub_def Let_def valid_tst_def)
  qed
qed

text \<open>Newer means: ahead by at most half of the timestamp range, counted modulo \<open>2 ^ 32\<close>.\<close>

lemma tst_gt_sub:
  assumes "valid_tst a" "valid_tst b"
  shows "tst_gt a b \<Longrightarrow> 0 < tst_sub a b \<and> tst_sub a b \<le> 2 ^ 31"
    and "0 < tst_sub a b \<Longrightarrow> tst_sub a b < 2 ^ 31 \<Longrightarrow> tst_gt a b"
  using assms by (auto simp: tst_gt_def tst_sub_def Let_def valid_tst_def split: if_splits)

section \<open>Long position vectors\<close>

record LongPositionVector =
  lpv_gn_addr :: GNAddress
  lpv_tst :: TST
  lpv_latitude :: int
  lpv_longitude :: int
  lpv_pai :: bool
  lpv_s :: int
  lpv_h :: int

definition default_LongPositionVector :: LongPositionVector where
  "default_LongPositionVector =
     \<lparr>lpv_gn_addr = default_GNAddress, lpv_tst = \<lparr>msec = 0\<rparr>, lpv_latitude = 0,
      lpv_longitude = 0, lpv_pai = False, lpv_s = 0, lpv_h = 0\<rparr>"

definition lpv_set_gn_addr :: "GNAddress \<Rightarrow> LongPositionVector \<Rightarrow> LongPositionVector" where
  "lpv_set_gn_addr a v = v\<lparr>lpv_gn_addr := a\<rparr>"

definition lpv_set_tst_in_normal_timestamp_seconds ::
    "int \<Rightarrow> LongPositionVector \<Rightarrow> LongPositionVector" where
  "lpv_set_tst_in_normal_timestamp_seconds t v =
     v\<lparr>lpv_tst := tst_set_in_normal_timestamp_seconds t\<rparr>"

definition lpv_set_tst_in_normal_timestamp_milliseconds ::
    "int \<Rightarrow> LongPositionVector \<Rightarrow> LongPositionVector" where
  "lpv_set_tst_in_normal_timestamp_milliseconds t v =
     v\<lparr>lpv_tst := tst_set_in_normal_timestamp_milliseconds t\<rparr>"

definition lpv_set_latitude :: "real \<Rightarrow> LongPositionVector \<Rightarrow> LongPositionVector" where
  "lpv_set_latitude x v = v\<lparr>lpv_latitude := py_int (x * 10000000)\<rparr>"

definition lpv_set_longitude :: "real \<Rightarrow> LongPositionVector \<Rightarrow> LongPositionVector" where
  "lpv_set_longitude x v = v\<lparr>lpv_longitude := py_int (x * 10000000)\<rparr>"

definition lpv_set_pai :: "bool \<Rightarrow> LongPositionVector \<Rightarrow> LongPositionVector" where
  "lpv_set_pai p v = v\<lparr>lpv_pai := p\<rparr>"

definition lpv_set_speed :: "real \<Rightarrow> LongPositionVector \<Rightarrow> LongPositionVector" where
  "lpv_set_speed x v = v\<lparr>lpv_s := py_int (x * 100)\<rparr>"

definition lpv_set_heading :: "real \<Rightarrow> LongPositionVector \<Rightarrow> LongPositionVector" where
  "lpv_set_heading x v = v\<lparr>lpv_h := py_int (x * 10)\<rparr>"

text \<open>
  A GPSD TPV report, a dictionary whose entries may be missing; reading a missing entry
  raises \<open>KeyError\<close>. The time is parsed by \<open>dateutil\<close>, a third-party package: the
  parameter \<open>parse\<close> gives the POSIX timestamp of a time string, or an error.
\<close>

record TPV =
  tpv_lat :: "real option"
  tpv_lon :: "real option"
  tpv_speed :: "real option"
  tpv_track :: "real option"
  tpv_time :: "string option"

definition lpv_refresh_with_tpv_data ::
    "(string \<Rightarrow> real result) \<Rightarrow> TPV \<Rightarrow> LongPositionVector \<Rightarrow> LongPositionVector result" where
  "lpv_refresh_with_tpv_data parse tpv v =
     rbind (get_key (tpv_lat tpv)) (\<lambda>lat.
     rbind (get_key (tpv_lon tpv)) (\<lambda>lon.
     rbind (get_key (tpv_speed tpv)) (\<lambda>speed.
     rbind (get_key (tpv_track tpv)) (\<lambda>track.
     rbind (get_key (tpv_time tpv)) (\<lambda>time.
     rbind (parse time) (\<lambda>timestamp.
     Inr (lpv_set_tst_in_normal_timestamp_seconds (py_int timestamp)
       \<lparr>lpv_gn_addr = lpv_gn_addr v, lpv_tst = lpv_tst v,
        lpv_latitude = py_int (lat * 10 ^ 7), lpv_longitude = py_int (lon * 10 ^ 7),
        lpv_pai = lpv_pai v, lpv_s = py_int (speed * 100), lpv_h = py_int (track * 10)\<rparr>)))))))"

definition lpv_encode_to_int :: "LongPositionVector \<Rightarrow> int" where
  "lpv_encode_to_int v =
     push_bit (32 * 4) (gn_address_encode_to_int (lpv_gn_addr v))
     OR push_bit (32 * 3) (tst_encode (lpv_tst v))
     OR push_bit (32 * 2) (lpv_latitude v)
     OR push_bit 32 (lpv_longitude v)
     OR push_bit 31 (bool_int (lpv_pai v))
     OR push_bit 16 (lpv_s v)
     OR lpv_h v"

definition lpv_encode :: "LongPositionVector \<Rightarrow> bytes result" where
  "lpv_encode v = to_bytes 24 (lpv_encode_to_int v)"

definition lpv_decode :: "bytes \<Rightarrow> LongPositionVector result" where
  "lpv_decode data =
     (if length data < 24 then Inl DecodeError
      else let data_as_int = from_bytes (slice 0 24 data) in
        rbind (to_bytes 8 (drop_bit (32 * 4) data_as_int)) (\<lambda>a.
        rbind (gn_address_decode a) (\<lambda>gn_addr.
        Inr \<lparr>lpv_gn_addr = gn_addr,
             lpv_tst = tst_decode (drop_bit (32 * 3) data_as_int),
             lpv_latitude = drop_bit (32 * 2) data_as_int AND 0xFFFFFFFF,
             lpv_longitude = drop_bit 32 data_as_int AND 0xFFFFFFFF,
             lpv_pai = (drop_bit 31 data_as_int AND 0x1 \<noteq> 0),
             lpv_s = drop_bit 16 data_as_int AND 0x7FFF,
             lpv_h = data_as_int AND 0xFFFF\<rparr>)))"

definition lpv_eq :: "LongPositionVector \<Rightarrow> LongPositionVector \<Rightarrow> bool" where
  "lpv_eq v w \<longleftrightarrow>
     gn_address_eq (lpv_gn_addr v) (lpv_gn_addr w) \<and> tst_eq (lpv_tst v) (lpv_tst w)
     \<and> lpv_latitude v = lpv_latitude w \<and> lpv_longitude v = lpv_longitude w
     \<and> lpv_pai v = lpv_pai w \<and> lpv_s v = lpv_s w \<and> lpv_h v = lpv_h w"

text \<open>The vectors that fit their fields: the fields are unsigned on the wire.\<close>

definition valid_lpv :: "LongPositionVector \<Rightarrow> bool" where
  "valid_lpv v \<longleftrightarrow>
     valid_address (lpv_gn_addr v) \<and> valid_tst (lpv_tst v)
     \<and> 0 \<le> lpv_latitude v \<and> lpv_latitude v < 2 ^ 32
     \<and> 0 \<le> lpv_longitude v \<and> lpv_longitude v < 2 ^ 32
     \<and> 0 \<le> lpv_s v \<and> lpv_s v < 2 ^ 15 \<and> 0 \<le> lpv_h v \<and> lpv_h v < 2 ^ 16"

definition lpv_fields :: "LongPositionVector \<Rightarrow> fields" where
  "lpv_fields v =
     [(64, gn_address_encode_to_int (lpv_gn_addr v)), (32, msec (lpv_tst v)),
      (32, lpv_latitude v), (32, lpv_longitude v), (1, bool_int (lpv_pai v)),
      (15, lpv_s v), (16, lpv_h v)]"

lemma lpv_fields_ok: "valid_lpv v \<Longrightarrow> fields_ok (lpv_fields v)"
  using gn_address_int_bounds [of "lpv_gn_addr v"]
  by (simp add: valid_lpv_def lpv_fields_def valid_tst_def)

lemma lpv_int_fields:
  assumes "valid_lpv v"
  shows "lpv_encode_to_int v = join_fields (lpv_fields v)"
proof -
  note ok = lpv_fields_ok [OF assms, unfolded lpv_fields_def]
  let ?f7 = "[(16, lpv_h v)]"
  let ?f6 = "(15, lpv_s v) # ?f7"
  let ?f5 = "(1, bool_int (lpv_pai v)) # ?f6"
  let ?f4 = "(32, lpv_longitude v) # ?f5"
  let ?f3 = "(32, lpv_latitude v) # ?f4"
  let ?f2 = "(32, msec (lpv_tst v)) # ?f3"
  let ?a = "gn_address_encode_to_int (lpv_gn_addr v)"
  have "tst_encode (lpv_tst v) = msec (lpv_tst v)"
    using assms by (simp add: valid_lpv_def valid_tst_def tst_encode_def)
  moreover have "push_bit 16 (lpv_s v) OR join_fields ?f7 = join_fields ?f6"
    and "push_bit 31 (bool_int (lpv_pai v)) OR join_fields ?f6 = join_fields ?f5"
    and "push_bit 32 (lpv_longitude v) OR join_fields ?f5 = join_fields ?f4"
    and "push_bit 64 (lpv_latitude v) OR join_fields ?f4 = join_fields ?f3"
    and "push_bit 96 (msec (lpv_tst v)) OR join_fields ?f3 = join_fields ?f2"
    and "push_bit 128 ?a OR join_fields ?f2 = join_fields ((64, ?a) # ?f2)"
    using ok by (auto intro!: push_bit_or_join simp del: join_fields.simps)
  moreover have "lpv_h v = join_fields ?f7" by simp
  ultimately show ?thesis
    unfolding lpv_encode_to_int_def lpv_fields_def
    by (simp only: or.assoc mult_numeral_1 semiring_norm arith_simps)
qed


lemma lpv_int_bounds:
  assumes "valid_lpv v"
  shows "0 \<le> lpv_encode_to_int v" "lpv_encode_to_int v < 256 ^ 24"
  using join_fields_bounds [OF lpv_fields_ok [OF assms]]
  by (simp_all add: lpv_int_fields [OF assms]) (simp_all add: lpv_fields_def)

lemma lpv_encode_valid:
  "valid_lpv v \<Longrightarrow> lpv_encode v = Inr (be_bytes 24 (lpv_encode_to_int v))"
  using lpv_int_bounds [of v] by (simp add: lpv_encode_def to_bytes_Inr)

lemma lpv_field_reads:
  assumes "valid_lpv v"
  defines "x \<equiv> lpv_encode_to_int v"
  shows "drop_bit 128 x = gn_address_encode_to_int (lpv_gn_addr v)"
    and "drop_bit 96 x mod 2 ^ 32 = msec (lpv_tst v)"
    and "drop_bit 64 x AND 0xFFFFFFFF = lpv_latitude v"
    and "drop_bit 32 x AND 0xFFFFFFFF = lpv_longitude v"
    and "drop_bit 31 x AND 1 = bool_int (lpv_pai v)"
    and "drop_bit 16 x AND 0x7FFF = lpv_s v"
    and "x AND 0xFFFF = lpv_h v"
proof -
  let ?a = "(64, gn_address_encode_to_int (lpv_gn_addr v))" and ?t = "(32, msec (lpv_tst v))"
  let ?la = "(32, lpv_latitude v)" and ?lo = "(32, lpv_longitude v)"
  let ?p = "(1, bool_int (lpv_pai v))" and ?s = "(15, lpv_s v)" and ?h = "(16, lpv_h v)"
  have x: "x = join_fields [?a, ?t, ?la, ?lo, ?p, ?s, ?h]"
    using lpv_int_fields [OF assms(1)] by (simp add: x_def lpv_fields_def)
  have ok: "fields_ok [?a, ?t, ?la, ?lo, ?p, ?s, ?h]"
    using lpv_fields_ok [OF assms(1)] by (simp add: lpv_fields_def)
  show "drop_bit 128 x = gn_address_encode_to_int (lpv_gn_addr v)"
    using join_fields_high [of "[?t, ?la, ?lo, ?p, ?s, ?h]" "[?a]"] ok
    unfolding x drop_bit_int by (simp del: join_fields.simps) simp
  show "drop_bit 96 x mod 2 ^ 32 = msec (lpv_tst v)"
    using join_fields_get [of "[?a]" 32 "msec (lpv_tst v)" "[?la, ?lo, ?p, ?s, ?h]"] ok
    unfolding x drop_bit_int by (simp del: join_fields.simps)
  show "drop_bit 64 x AND 0xFFFFFFFF = lpv_latitude v"
    using join_fields_get [of "[?a, ?t]" 32 "lpv_latitude v" "[?lo, ?p, ?s, ?h]"] ok
    unfolding x bitfields by (simp del: join_fields.simps)
  show "drop_bit 32 x AND 0xFFFFFFFF = lpv_longitude v"
    using join_fields_get [of "[?a, ?t, ?la]" 32 "lpv_longitude v" "[?p, ?s, ?h]"] ok
    unfolding x bitfields by (simp del: join_fields.simps)
  show "drop_bit 31 x AND 1 = bool_int (lpv_pai v)"
    using join_fields_get [of "[?a, ?t, ?la, ?lo]" 1 "bool_int (lpv_pai v)" "[?s, ?h]"] ok
    unfolding x bitfields by (simp del: join_fields.simps)
  show "drop_bit 16 x AND 0x7FFF = lpv_s v"
    using join_fields_get [of "[?a, ?t, ?la, ?lo, ?p]" 15 "lpv_s v" "[?h]"] ok
    unfolding x bitfields by (simp del: join_fields.simps)
  show "x AND 0xFFFF = lpv_h v"
    using join_fields_get [of "[?a, ?t, ?la, ?lo, ?p, ?s]" 16 "lpv_h v" "[]"] ok
    unfolding x bitfields by (simp del: join_fields.simps)
qed

lemma lpv_decode_encode:
  assumes "valid_lpv v" "lpv_encode v = Inr bs"
  shows "lpv_decode bs = Inr v"
proof -
  let ?x = "lpv_encode_to_int v"
  have bs: "bs = be_bytes 24 ?x" using assms lpv_encode_valid by auto
  have x: "from_bytes (slice 0 24 bs) = ?x"
    using lpv_int_bounds [OF assms(1)] by (simp add: bs slice_0 from_be_bytes)
  have addr: "valid_address (lpv_gn_addr v)" using assms(1) by (simp add: valid_lpv_def)
  have "rbind (to_bytes 8 (gn_address_encode_to_int (lpv_gn_addr v))) gn_address_decode
      = Inr (lpv_gn_addr v)"
    using gn_address.round_trip [OF addr] by (simp add: gn_address_encode_def)
  then obtain a where "to_bytes 8 (gn_address_encode_to_int (lpv_gn_addr v)) = Inr a"
    and "gn_address_decode a = Inr (lpv_gn_addr v)"
    by (auto simp: rbind_eq_Inr)
  moreover have "length bs = 24" by (simp add: bs)
  moreover have "tst_decode (drop_bit 96 ?x) = lpv_tst v"
    by (cases "lpv_tst v") (simp add: tst_decode_def lpv_field_reads(2) [OF assms(1), simplified])
  ultimately show ?thesis
    by (simp add: lpv_decode_def x Let_def lpv_field_reads [OF assms(1)])
qed

lemma lpv_decode_valid: "lpv_decode bs = Inr v \<Longrightarrow> valid_lpv v"
  using gn_address_decode_valid
  by (auto simp: lpv_decode_def result_simps valid_lpv_def Let_def bitfields split: if_splits)

lemma lpv_decode_long:
  assumes "24 \<le> length bs"
  shows "lpv_decode bs = lpv_decode (take 24 bs)"
  using assms by (simp add: lpv_decode_def slice_0)

interpretation lpv: closed_codec lpv_encode lpv_decode valid_lpv 24
proof unfold_locales
  show "\<exists>bs. lpv_encode v = Inr bs \<and> length bs = 24" if "valid_lpv v" for v
    using lpv_encode_valid [OF that] by simp
  show "lpv_decode bs = Inr v" if "valid_lpv v" "lpv_encode v = Inr bs" for v bs
    using that by (rule lpv_decode_encode)
  show "lpv_decode bs = lpv_decode (take 24 bs)" if "24 \<le> length bs" for bs
    using that by (rule lpv_decode_long)
  show "lpv_decode bs = Inl DecodeError" if "length bs < 24" for bs
    using that by (simp add: lpv_decode_def)
  show "valid_lpv v" if "lpv_decode bs = Inr v" for bs v
    using that by (rule lpv_decode_valid)
qed

text \<open>
  A latitude south of the equator or a longitude west of Greenwich is a negative integer, so
  the whole bit-or is negative and \<open>to_bytes\<close> raises.
\<close>

lemma lpv_encode_negative:
  assumes "lpv_latitude v < 0 \<or> lpv_longitude v < 0"
  shows "lpv_encode v = Inl OverflowError"
proof -
  have "lpv_encode_to_int v < 0"
    using assms by (auto simp: lpv_encode_to_int_def)
  then show ?thesis by (simp add: lpv_encode_def to_bytes_negative)
qed

section \<open>Short position vectors\<close>

record ShortPositionVector =
  spv_gn_addr :: GNAddress
  spv_tst :: TST
  spv_latitude :: int
  spv_longitude :: int

definition default_ShortPositionVector :: ShortPositionVector where
  "default_ShortPositionVector =
     \<lparr>spv_gn_addr = default_GNAddress, spv_tst = \<lparr>msec = 0\<rparr>, spv_latitude = 0, spv_longitude = 0\<rparr>"

definition spv_set_gn_addr :: "GNAddress \<Rightarrow> ShortPositionVector \<Rightarrow> ShortPositionVector" where
  "spv_set_gn_addr a v = v\<lparr>spv_gn_addr := a\<rparr>"

definition spv_set_tst_in_normal_timestamp_seconds ::
    "int \<Rightarrow> ShortPositionVector \<Rightarrow> ShortPositionVector" where
  "spv_set_tst_in_normal_timestamp_seconds t v =
     v\<lparr>spv_tst := tst_set_in_normal_timestamp_seconds t\<rparr>"

definition spv_set_tst_in_normal_timestamp_milliseconds ::
    "int \<Rightarrow> ShortPositionVector \<Rightarrow> ShortPositionVector" where
  "spv_set_tst_in_normal_timestamp_milliseconds t v =
     v\<lparr>spv_tst := tst_set_in_normal_timestamp_milliseconds t\<rparr>"

definition spv_set_latitude :: "real \<Rightarrow> ShortPositionVector \<Rightarrow> ShortPositionVector" where
  "spv_set_latitude x v = v\<lparr>spv_latitude := py_int (x * 10000000)\<rparr>"

definition spv_get_latitude :: "ShortPositionVector \<Rightarrow> real" where
  "spv_get_latitude v = of_int (spv_latitude v) / 10000000"

definition spv_set_longitude :: "real \<Rightarrow> ShortPositionVector \<Rightarrow> ShortPositionVector" where
  "spv_set_longitude x v = v\<lparr>spv_longitude := py_int (x * 10000000)\<rparr>"

definition spv_get_longitude :: "ShortPositionVector \<Rightarrow> real" where
  "spv_get_longitude v = of_int (spv_longitude v) / 10000000"

definition spv_encode_to_int :: "ShortPositionVector \<Rightarrow> int" where
  "spv_encode_to_int v =
     push_bit (32 * 3) (gn_address_encode_to_int (spv_gn_addr v))
     OR push_bit (32 * 2) (tst_encode (spv_tst v))
     OR push_bit (32 * 1) (spv_latitude v)
     OR spv_longitude v"

definition spv_encode :: "ShortPositionVector \<Rightarrow> bytes result" where
  "spv_encode v = to_bytes 20 (spv_encode_to_int v)"

text \<open>No length check here: the callers slice 20 bytes off a header they have checked.\<close>

definition spv_decode :: "bytes \<Rightarrow> ShortPositionVector result" where
  "spv_decode data =
     (let data_int = from_bytes data in
        rbind (to_bytes 8 (drop_bit (32 * 3) data_int)) (\<lambda>a.
        rbind (gn_address_decode a) (\<lambda>gn_addr.
        Inr \<lparr>spv_gn_addr = gn_addr,
             spv_tst = tst_decode (drop_bit (32 * 2) data_int),
             spv_latitude = drop_bit (32 * 1) data_int AND 0xFFFFFFFF,
             spv_longitude = data_int AND 0xFFFFFFFF\<rparr>)))"

definition spv_eq :: "ShortPositionVector \<Rightarrow> ShortPositionVector \<Rightarrow> bool" where
  "spv_eq v w \<longleftrightarrow>
     gn_address_eq (spv_gn_addr v) (spv_gn_addr w) \<and> tst_eq (spv_tst v) (spv_tst w)
     \<and> spv_latitude v = spv_latitude w \<and> spv_longitude v = spv_longitude w"

text \<open>The router builds a short vector out of a long one field by field.\<close>

definition spv_of_lpv :: "LongPositionVector \<Rightarrow> ShortPositionVector" where
  "spv_of_lpv v =
     \<lparr>spv_gn_addr = lpv_gn_addr v, spv_tst = lpv_tst v,
      spv_latitude = lpv_latitude v, spv_longitude = lpv_longitude v\<rparr>"

definition valid_spv :: "ShortPositionVector \<Rightarrow> bool" where
  "valid_spv v \<longleftrightarrow>
     valid_address (spv_gn_addr v) \<and> valid_tst (spv_tst v)
     \<and> 0 \<le> spv_latitude v \<and> spv_latitude v < 2 ^ 32
     \<and> 0 \<le> spv_longitude v \<and> spv_longitude v < 2 ^ 32"

lemma valid_spv_of_lpv [simp]: "valid_lpv v \<Longrightarrow> valid_spv (spv_of_lpv v)"
  by (simp add: valid_lpv_def valid_spv_def spv_of_lpv_def)

definition spv_fields :: "ShortPositionVector \<Rightarrow> fields" where
  "spv_fields v =
     [(64, gn_address_encode_to_int (spv_gn_addr v)), (32, msec (spv_tst v)),
      (32, spv_latitude v), (32, spv_longitude v)]"

lemma spv_fields_ok: "valid_spv v \<Longrightarrow> fields_ok (spv_fields v)"
  using gn_address_int_bounds [of "spv_gn_addr v"]
  by (simp add: valid_spv_def spv_fields_def valid_tst_def)

lemma spv_int_fields:
  assumes "valid_spv v"
  shows "spv_encode_to_int v = join_fields (spv_fields v)"
proof -
  note ok = spv_fields_ok [OF assms, unfolded spv_fields_def]
  let ?f4 = "[(32, spv_longitude v)]"
  let ?f3 = "(32, spv_latitude v) # ?f4"
  let ?f2 = "(32, msec (spv_tst v)) # ?f3"
  let ?a = "gn_address_encode_to_int (spv_gn_addr v)"
  have "tst_encode (spv_tst v) = msec (spv_tst v)"
    using assms by (simp add: valid_spv_def valid_tst_def tst_encode_def)
  moreover have "push_bit 32 (spv_latitude v) OR join_fields ?f4 = join_fields ?f3"
    and "push_bit 64 (msec (spv_tst v)) OR join_fields ?f3 = join_fields ?f2"
    and "push_bit 96 ?a OR join_fields ?f2 = join_fields ((64, ?a) # ?f2)"
    using ok by (auto intro!: push_bit_or_join simp del: join_fields.simps)
  moreover have "spv_longitude v = join_fields ?f4" by simp
  ultimately show ?thesis
    unfolding spv_encode_to_int_def spv_fields_def
    by (simp only: or.assoc mult_numeral_1 mult_numeral_1_right semiring_norm arith_simps)
qed

lemma spv_int_bounds:
  assumes "valid_spv v"
  shows "0 \<le> spv_encode_to_int v" "spv_encode_to_int v < 256 ^ 20"
  using join_fields_bounds [OF spv_fields_ok [OF assms]]
  by (simp_all add: spv_int_fields [OF assms]) (simp_all add: spv_fields_def)

lemma spv_encode_valid:
  "valid_spv v \<Longrightarrow> spv_encode v = Inr (be_bytes 20 (spv_encode_to_int v))"
  using spv_int_bounds [of v] by (simp add: spv_encode_def to_bytes_Inr)

lemma spv_field_reads:
  assumes "valid_spv v"
  defines "x \<equiv> spv_encode_to_int v"
  shows "drop_bit 96 x = gn_address_encode_to_int (spv_gn_addr v)"
    and "drop_bit 64 x mod 2 ^ 32 = msec (spv_tst v)"
    and "drop_bit 32 x AND 0xFFFFFFFF = spv_latitude v"
    and "x AND 0xFFFFFFFF = spv_longitude v"
proof -
  let ?a = "(64, gn_address_encode_to_int (spv_gn_addr v))" and ?t = "(32, msec (spv_tst v))"
  let ?la = "(32, spv_latitude v)" and ?lo = "(32, spv_longitude v)"
  have x: "x = join_fields [?a, ?t, ?la, ?lo]"
    using spv_int_fields [OF assms(1)] by (simp add: x_def spv_fields_def)
  have ok: "fields_ok [?a, ?t, ?la, ?lo]"
    using spv_fields_ok [OF assms(1)] by (simp add: spv_fields_def)
  show "drop_bit 96 x = gn_address_encode_to_int (spv_gn_addr v)"
    using join_fields_high [of "[?t, ?la, ?lo]" "[?a]"] ok
    unfolding x drop_bit_int by (simp del: join_fields.simps) simp
  show "drop_bit 64 x mod 2 ^ 32 = msec (spv_tst v)"
    using join_fields_get [of "[?a]" 32 "msec (spv_tst v)" "[?la, ?lo]"] ok
    unfolding x drop_bit_int by (simp del: join_fields.simps)
  show "drop_bit 32 x AND 0xFFFFFFFF = spv_latitude v"
    using join_fields_get [of "[?a, ?t]" 32 "spv_latitude v" "[?lo]"] ok
    unfolding x bitfields by (simp del: join_fields.simps)
  show "x AND 0xFFFFFFFF = spv_longitude v"
    using join_fields_get [of "[?a, ?t, ?la]" 32 "spv_longitude v" "[]"] ok
    unfolding x bitfields by (simp del: join_fields.simps)
qed

lemma spv_decode_encode:
  assumes "valid_spv v" "spv_encode v = Inr bs"
  shows "spv_decode bs = Inr v"
proof -
  let ?x = "spv_encode_to_int v"
  have bs: "bs = be_bytes 20 ?x" using assms spv_encode_valid by auto
  have x: "from_bytes bs = ?x"
    using spv_int_bounds [OF assms(1)] by (simp add: bs from_be_bytes)
  have addr: "valid_address (spv_gn_addr v)" using assms(1) by (simp add: valid_spv_def)
  have "rbind (to_bytes 8 (gn_address_encode_to_int (spv_gn_addr v))) gn_address_decode
      = Inr (spv_gn_addr v)"
    using gn_address.round_trip [OF addr] by (simp add: gn_address_encode_def)
  then obtain a where "to_bytes 8 (gn_address_encode_to_int (spv_gn_addr v)) = Inr a"
    and "gn_address_decode a = Inr (spv_gn_addr v)"
    by (auto simp: rbind_eq_Inr)
  moreover have "tst_decode (drop_bit 64 ?x) = spv_tst v"
    by (cases "spv_tst v") (simp add: tst_decode_def spv_field_reads(2) [OF assms(1), simplified])
  ultimately show ?thesis
    by (simp add: spv_decode_def x Let_def spv_field_reads [OF assms(1)])
qed

lemma spv_decode_valid: "spv_decode bs = Inr v \<Longrightarrow> valid_spv v"
  using gn_address_decode_valid
  by (auto simp: spv_decode_def result_simps valid_spv_def Let_def bitfields split: if_splits)

interpretation spv: codec spv_encode spv_decode valid_spv 20
proof unfold_locales
  show "\<exists>bs. spv_encode v = Inr bs \<and> length bs = 20" if "valid_spv v" for v
    using spv_encode_valid [OF that] by simp
  show "spv_decode bs = Inr v" if "valid_spv v" "spv_encode v = Inr bs" for v bs
    using that by (rule spv_decode_encode)
qed

end
