(* ===== verification/ServiceAccessPoint.thy ===== *)
theory ServiceAccessPoint
  imports PositionVector
begin

text \<open>
  The data exchanged at the GeoNetworking service access point
  (\<open>src/flexstack/geonet/service_access_point.py\<close>): header types and subtypes, traffic
  classes, areas, requests, confirms and indications. The five subtype enumerations are one
  datatype: Python never finds members of two enumerations equal, whatever their values.
\<close>

section \<open>Header types\<close>

datatype CommonNH = CNH_ANY | BTP_A | BTP_B | IPV6

fun CommonNH_value :: "CommonNH \<Rightarrow> int" where
  "CommonNH_value CNH_ANY = 0"
| "CommonNH_value BTP_A = 1"
| "CommonNH_value BTP_B = 2"
| "CommonNH_value IPV6 = 3"

definition CommonNH_members :: "CommonNH list" where
  "CommonNH_members = [CNH_ANY, BTP_A, BTP_B, IPV6]"

datatype HeaderType =
  HT_ANY | HT_BEACON | HT_GEOUNICAST | HT_GEOANYCAST | HT_GEOBROADCAST | HT_TSB | HT_LS

fun HeaderType_value :: "HeaderType \<Rightarrow> int" where
  "HeaderType_value HT_ANY = 0"
| "HeaderType_value HT_BEACON = 1"
| "HeaderType_value HT_GEOUNICAST = 2"
| "HeaderType_value HT_GEOANYCAST = 3"
| "HeaderType_value HT_GEOBROADCAST = 4"
| "HeaderType_value HT_TSB = 5"
| "HeaderType_value HT_LS = 6"

definition HeaderType_members :: "HeaderType list" where
  "HeaderType_members =
     [HT_ANY, HT_BEACON, HT_GEOUNICAST, HT_GEOANYCAST, HT_GEOBROADCAST, HT_TSB, HT_LS]"

datatype HST =
    HST_UNSPECIFIED
  | GEOANYCAST_CIRCLE | GEOANYCAST_RECT | GEOANYCAST_ELIP
  | GEOBROADCAST_CIRCLE | GEOBROADCAST_RECT | GEOBROADCAST_ELIP
  | SINGLE_HOP | MULTI_HOP
  | LS_REQUEST | LS_REPLY

fun HST_value :: "HST \<Rightarrow> int" where
  "HST_value HST_UNSPECIFIED = 0"
| "HST_value GEOANYCAST_CIRCLE = 0"
| "HST_value GEOANYCAST_RECT = 1"
| "HST_value GEOANYCAST_ELIP = 2"
| "HST_value GEOBROADCAST_CIRCLE = 0"
| "HST_value GEOBROADCAST_RECT = 1"
| "HST_value GEOBROADCAST_ELIP = 2"
| "HST_value SINGLE_HOP = 0"
| "HST_value MULTI_HOP = 1"
| "HST_value LS_REQUEST = 0"
| "HST_value LS_REPLY = 1"

definition HeaderSubType_members :: "HST list" where
  "HeaderSubType_members = [HST_UNSPECIFIED]"

definition GeoAnycastHST_members :: "HST list" where
  "GeoAnycastHST_members = [GEOANYCAST_CIRCLE, GEOANYCAST_RECT, GEOANYCAST_ELIP]"

definition GeoBroadcastHST_members :: "HST list" where
  "GeoBroadcastHST_members = [GEOBROADCAST_CIRCLE, GEOBROADCAST_RECT, GEOBROADCAST_ELIP]"

definition TopoBroadcastHST_members :: "HST list" where
  "TopoBroadcastHST_members = [SINGLE_HOP, MULTI_HOP]"

definition LocationServiceHST_members :: "HST list" where
  "LocationServiceHST_members = [LS_REQUEST, LS_REPLY]"

text \<open>The members of the subtype enumeration that belongs to a header type.\<close>

fun subtype_members :: "HeaderType \<Rightarrow> HST list" where
  "subtype_members HT_GEOANYCAST = GeoAnycastHST_members"
| "subtype_members HT_GEOBROADCAST = GeoBroadcastHST_members"
| "subtype_members HT_TSB = TopoBroadcastHST_members"
| "subtype_members HT_LS = LocationServiceHST_members"
| "subtype_members _ = HeaderSubType_members"

lemmas subtype_member_lists =
  HeaderSubType_members_def GeoAnycastHST_members_def GeoBroadcastHST_members_def
  TopoBroadcastHST_members_def LocationServiceHST_members_def

interpretation CommonNH_enum: py_enum CommonNH_members CommonNH_value
proof unfold_locales
  show "c \<in> set CommonNH_members" for c by (cases c) (simp_all add: CommonNH_members_def)
  show "CommonNH_value c = CommonNH_value d \<Longrightarrow> c = d" for c d by (cases c; cases d) simp_all
qed

interpretation HeaderType_enum: py_enum HeaderType_members HeaderType_value
proof unfold_locales
  show "c \<in> set HeaderType_members" for c by (cases c) (simp_all add: HeaderType_members_def)
  show "HeaderType_value c = HeaderType_value d \<Longrightarrow> c = d" for c d
    by (cases c; cases d) simp_all
qed

lemma CommonNH_value_bounds [simp]: "0 \<le> CommonNH_value c" "CommonNH_value c < 4"
  by (cases c; simp)+

lemma HeaderType_value_bounds [simp]: "0 \<le> HeaderType_value t" "HeaderType_value t < 7"
  by (cases t; simp)+

lemma HST_value_bounds [simp]: "0 \<le> HST_value s" "HST_value s < 3"
  by (cases s; simp)+

text \<open>Within one header type a subtype is known by its value.\<close>

lemma subtype_enum_of:
  "s \<in> set (subtype_members t) \<Longrightarrow> enum_of (subtype_members t) HST_value (HST_value s) = Inr s"
  by (cases t) (auto simp: subtype_member_lists enum_of_def)

lemma enum_of_subtype:
  assumes "enum_of ms val n = Inr s"
  shows "s \<in> set ms" "val s = n"
  using assms by (auto simp: enum_of_def find_Some_iff split: option.splits)

section \<open>Traffic classes\<close>

record TrafficClass =
  tc_scf :: bool
  tc_channel_offload :: bool
  tc_tc_id :: int

definition default_TrafficClass :: TrafficClass where
  "default_TrafficClass = \<lparr>tc_scf = False, tc_channel_offload = False, tc_tc_id = 0\<rparr>"

definition tc_set_scf :: "bool \<Rightarrow> TrafficClass \<Rightarrow> TrafficClass" where
  "tc_set_scf b tc =
     \<lparr>tc_scf = b, tc_channel_offload = tc_channel_offload tc, tc_tc_id = tc_tc_id tc\<rparr>"

definition tc_set_tc_id :: "int \<Rightarrow> TrafficClass \<Rightarrow> TrafficClass result" where
  "tc_set_tc_id n tc =
     (if n < 0 \<or> n > 63 then Inl ValueError
      else Inr \<lparr>tc_scf = tc_scf tc, tc_channel_offload = tc_channel_offload tc, tc_tc_id = n\<rparr>)"

definition tc_set_channel_offload :: "bool \<Rightarrow> TrafficClass \<Rightarrow> TrafficClass" where
  "tc_set_channel_offload b tc =
     \<lparr>tc_scf = tc_scf tc, tc_channel_offload = b, tc_tc_id = tc_tc_id tc\<rparr>"

definition tc_encode_to_int :: "TrafficClass \<Rightarrow> int" where
  "tc_encode_to_int tc =
     push_bit 7 (bool_int (tc_scf tc)) OR push_bit 6 (bool_int (tc_channel_offload tc))
       OR tc_tc_id tc"

definition tc_encode_to_bytes :: "TrafficClass \<Rightarrow> bytes result" where
  "tc_encode_to_bytes tc = to_bytes 1 (tc_encode_to_int tc)"

definition tc_decode_from_int :: "int \<Rightarrow> TrafficClass" where
  "tc_decode_from_int n =
     \<lparr>tc_scf = (drop_bit 7 n AND 1 \<noteq> 0), tc_channel_offload = (drop_bit 6 n AND 1 \<noteq> 0),
      tc_tc_id = n AND 63\<rparr>"

definition tc_decode_from_bytes :: "bytes \<Rightarrow> TrafficClass result" where
  "tc_decode_from_bytes bs = Inr (tc_decode_from_int (from_bytes bs))"

definition valid_tc :: "TrafficClass \<Rightarrow> bool" where
  "valid_tc tc \<longleftrightarrow> 0 \<le> tc_tc_id tc \<and> tc_tc_id tc < 64"

lemma valid_tc_simps [simp]:
  "valid_tc default_TrafficClass"
  "valid_tc (tc_decode_from_int n)"
  "valid_tc (tc_set_scf b tc) = valid_tc tc"
  "valid_tc (tc_set_channel_offload b tc) = valid_tc tc"
  "tc_set_tc_id n tc = Inr tc' \<Longrightarrow> valid_tc tc'"
  by (auto simp: valid_tc_def default_TrafficClass_def tc_decode_from_int_def bitfields
      tc_set_scf_def tc_set_channel_offload_def tc_set_tc_id_def split: if_splits)

definition tc_fields :: "TrafficClass \<Rightarrow> fields" where
  "tc_fields tc =
     [(1, bool_int (tc_scf tc)), (1, bool_int (tc_channel_offload tc)), (6, tc_tc_id tc)]"

lemma tc_fields_ok: "valid_tc tc \<Longrightarrow> fields_ok (tc_fields tc)"
  by (simp add: valid_tc_def tc_fields_def)

lemma tc_int_fields:
  assumes "valid_tc tc"
  shows "tc_encode_to_int tc = join_fields (tc_fields tc)"
proof -
  let ?f2 = "[(6 :: nat, tc_tc_id tc)]"
  let ?f1 = "(1, bool_int (tc_channel_offload tc)) # ?f2"
  have "push_bit 6 (bool_int (tc_channel_offload tc)) OR join_fields ?f2 = join_fields ?f1"
    and "push_bit 7 (bool_int (tc_scf tc)) OR join_fields ?f1
      = join_fields ((1, bool_int (tc_scf tc)) # ?f1)"
    using tc_fields_ok [OF assms]
    by (auto intro!: push_bit_or_join simp: tc_fields_def simp del: join_fields.simps)
  moreover have "tc_tc_id tc = join_fields ?f2" by simp
  ultimately show ?thesis by (simp add: tc_encode_to_int_def tc_fields_def or.assoc)
qed

lemma tc_int_bounds:
  assumes "valid_tc tc"
  shows "0 \<le> tc_encode_to_int tc" "tc_encode_to_int tc < 256"
  using join_fields_bounds [OF tc_fields_ok [OF assms]]
  by (simp_all add: tc_int_fields [OF assms]) (simp_all add: tc_fields_def)

lemma tc_decode_encode_int:
  assumes "valid_tc tc"
  shows "tc_decode_from_int (tc_encode_to_int tc) = tc"
proof -
  let ?s = "(1, bool_int (tc_scf tc))" and ?o = "(1, bool_int (tc_channel_offload tc))"
  let ?i = "(6, tc_tc_id tc)"
  note ok = tc_fields_ok [OF assms, unfolded tc_fields_def]
  have "drop_bit 7 (join_fields [?s, ?o, ?i]) AND 1 = bool_int (tc_scf tc)"
    using join_fields_get [of "[]" 1 "bool_int (tc_scf tc)" "[?o, ?i]"] ok
    unfolding bitfields by (simp del: join_fields.simps)
  moreover have "drop_bit 6 (join_fields [?s, ?o, ?i]) AND 1 = bool_int (tc_channel_offload tc)"
    using join_fields_get [of "[?s]" 1 "bool_int (tc_channel_offload tc)" "[?i]"] ok
    unfolding bitfields by (simp del: join_fields.simps)
  moreover have "join_fields [?s, ?o, ?i] AND 63 = tc_tc_id tc"
    using join_fields_get [of "[?s, ?o]" 6 "tc_tc_id tc" "[]"] ok
    unfolding bitfields by (simp del: join_fields.simps)
  ultimately show ?thesis
    unfolding tc_int_fields [OF assms] tc_fields_def tc_decode_from_int_def
    by (simp del: join_fields.simps)
qed

interpretation tc: codec tc_encode_to_bytes tc_decode_from_bytes valid_tc 1
proof unfold_locales
  show "\<exists>bs. tc_encode_to_bytes tc = Inr bs \<and> length bs = 1" if "valid_tc tc" for tc
    using tc_int_bounds [OF that] by (simp add: tc_encode_to_bytes_def to_bytes_Inr)
  show "tc_decode_from_bytes bs = Inr tc"
    if "valid_tc tc" "tc_encode_to_bytes tc = Inr bs" for tc bs
    using that tc_int_bounds [OF that(1)] tc_decode_encode_int [OF that(1)]
    by (auto simp: tc_encode_to_bytes_def tc_decode_from_bytes_def to_bytes_Inr from_be_bytes
        simp del: be_bytes.simps)
qed

section \<open>Requests, confirms and indications\<close>

record PacketTransportType =
  header_type :: HeaderType
  header_subtype :: HST

definition default_PacketTransportType :: PacketTransportType where
  "default_PacketTransportType = \<lparr>header_type = HT_TSB, header_subtype = SINGLE_HOP\<rparr>"

definition ptt_to_dict :: "PacketTransportType \<Rightarrow> (string, int) dict" where
  "ptt_to_dict p =
     [(''header_type'', HeaderType_value (header_type p)),
      (''header_subtype'', HST_value (header_subtype p))]"

definition ptt_from_dict :: "(string, int) dict \<Rightarrow> PacketTransportType result" where
  "ptt_from_dict d =
     rbind (get_key (dict_get d ''header_type'')) (\<lambda>n.
     rbind (enum_of HeaderType_members HeaderType_value n) (\<lambda>t.
     rbind (get_key (dict_get d ''header_subtype'')) (\<lambda>k.
     rbind (enum_of (if t = HT_GEOANYCAST then GeoAnycastHST_members
                     else if t = HT_GEOBROADCAST then GeoBroadcastHST_members
                     else if t = HT_TSB then TopoBroadcastHST_members
                     else if t = HT_LS then LocationServiceHST_members
                     else HeaderSubType_members) HST_value k) (\<lambda>s.
     Inr \<lparr>header_type = t, header_subtype = s\<rparr>))))"

lemma ptt_from_to_dict:
  "header_subtype p \<in> set (subtype_members (header_type p))
    \<Longrightarrow> ptt_from_dict (ptt_to_dict p) = Inr p"
  using subtype_enum_of [of "header_subtype p" "header_type p"]
  by (cases "header_type p")
    (auto simp: ptt_from_dict_def ptt_to_dict_def get_key_def HeaderType_enum.enum_of_val
      enum_of_def HeaderType_members_def)

datatype CommunicationProfile = CP_UNSPECIFIED

datatype SecurityProfile =
    NO_SECURITY | COOPERATIVE_AWARENESS_MESSAGE
  | DECENTRALIZED_ENVIRONMENTAL_NOTIFICATION_MESSAGE | VRU_AWARENESS_MESSAGE

record Area =
  area_latitude :: int
  area_longitude :: int
  area_a :: int
  area_b :: int
  area_angle :: int

definition default_Area :: Area where
  "default_Area =
     \<lparr>area_latitude = 0, area_longitude = 0, area_a = 0, area_b = 0, area_angle = 0\<rparr>"

definition area_to_dict :: "Area \<Rightarrow> (string, int) dict" where
  "area_to_dict a =
     [(''latitude'', area_latitude a), (''longitude'', area_longitude a), (''a'', area_a a),
      (''b'', area_b a), (''angle'', area_angle a)]"

definition area_from_dict :: "(string, int) dict \<Rightarrow> Area result" where
  "area_from_dict d =
     rbind (get_key (dict_get d ''latitude'')) (\<lambda>lat.
     rbind (get_key (dict_get d ''longitude'')) (\<lambda>lon.
     rbind (get_key (dict_get d ''a'')) (\<lambda>a.
     rbind (get_key (dict_get d ''b'')) (\<lambda>b.
     rbind (get_key (dict_get d ''angle'')) (\<lambda>angle.
     Inr \<lparr>area_latitude = lat, area_longitude = lon, area_a = a, area_b = b,
          area_angle = angle\<rparr>)))))"

lemma area_from_to_dict: "area_from_dict (area_to_dict a) = Inr a"
  by (simp add: area_from_dict_def area_to_dict_def get_key_def)

record GNDataRequest =
  req_upper_protocol_entity :: CommonNH
  req_packet_transport_type :: PacketTransportType
  req_communication_profile :: CommunicationProfile
  req_security_profile :: SecurityProfile
  req_its_aid :: int
  req_security_permissions :: bytes
  req_traffic_class :: TrafficClass
  req_length :: int
  req_data :: bytes
  req_area :: Area
  req_max_hop_limit :: int
  req_max_packet_lifetime :: "real option"
  req_destination :: "GNAddress option"

definition default_GNDataRequest :: GNDataRequest where
  "default_GNDataRequest =
     \<lparr>req_upper_protocol_entity = CNH_ANY,
      req_packet_transport_type = default_PacketTransportType,
      req_communication_profile = CP_UNSPECIFIED, req_security_profile = NO_SECURITY,
      req_its_aid = 0, req_security_permissions = [0],
      req_traffic_class = default_TrafficClass, req_length = 0, req_data = [],
      req_area = default_Area, req_max_hop_limit = 1, req_max_packet_lifetime = None,
      req_destination = None\<rparr>"

datatype ResultCode =
    ACCEPTED | MAXIMUM_LENGTH_EXCEEDED | MAXIMUM_LIFETIME_EXCEEDED
  | REPETITION_INTERVAL_TOO_SMALL | UNSUPPORTED_TRAFFIC_CLASS
  | GEOGRAPHICAL_SCOPE_TOO_LARGE | RC_UNSPECIFIED

record GNDataIndication =
  ind_upper_protocol_entity :: CommonNH
  ind_packet_transport_type :: PacketTransportType
  ind_destination_area :: "Area option"
  ind_source_position_vector :: LongPositionVector
  ind_traffic_class :: TrafficClass
  ind_remaining_packet_lifetime :: "real option"
  ind_remaining_hop_limit :: "int option"
  ind_length :: int
  ind_data :: bytes

definition default_GNDataIndication :: GNDataIndication where
  "default_GNDataIndication =
     \<lparr>ind_upper_protocol_entity = CNH_ANY,
      ind_packet_transport_type = default_PacketTransportType, ind_destination_area = None,
      ind_source_position_vector = default_LongPositionVector,
      ind_traffic_class = default_TrafficClass, ind_remaining_packet_lifetime = None,
      ind_remaining_hop_limit = None, ind_length = 0, ind_data = []\<rparr>"

end
