(* ===== verification/CommonHeader.thy ===== *)
theory CommonHeader
  imports ServiceAccessPoint Mib
begin

text \<open>
  The common header (\<open>src/flexstack/geonet/common_header.py\<close>). Its encoder writes the
  \<open>reserved\<close> field twice, into the last byte and, or-ed with \<open>nh\<close>, into the first one, and
  its decoder keeps the top bit of the flags only; \<open>encodable_ch\<close> and \<open>valid_ch\<close> are the
  headers on which encoding is faithful up to the flags, and exactly.
\<close>

record CommonHeader =
  ch_nh :: CommonNH
  ch_reserved :: int
  ch_ht :: HeaderType
  ch_hst :: HST
  ch_tc :: TrafficClass
  ch_flags :: int
  ch_pl :: int
  ch_mhl :: int

definition ch_initialize_with_request :: "GNDataRequest \<Rightarrow> MIB \<Rightarrow> CommonHeader" where
  "ch_initialize_with_request request mib =
     (let ht = header_type (req_packet_transport_type request);
          hst = header_subtype (req_packet_transport_type request)
      in \<lparr>ch_nh = req_upper_protocol_entity request, ch_reserved = 0, ch_ht = ht, ch_hst = hst,
          ch_tc = req_traffic_class request,
          ch_flags = push_bit 7 (GnIsMobile_value (itsGnIsMobile mib)),
          ch_pl = req_length request,
          ch_mhl = (if ht = HT_TSB \<and> hst = SINGLE_HOP then 1 else req_max_hop_limit request)\<rparr>)"

definition ch_encode_to_int :: "CommonHeader \<Rightarrow> int" where
  "ch_encode_to_int h =
     push_bit (4 + 8 * 7) (CommonNH_value (ch_nh h))
     OR push_bit (8 * 7) (ch_reserved h)
     OR push_bit (4 + 8 * 6) (HeaderType_value (ch_ht h))
     OR push_bit (8 * 6) (HST_value (ch_hst h))
     OR push_bit (8 * 5) (tc_encode_to_int (ch_tc h))
     OR push_bit (8 * 4) (ch_flags h)
     OR push_bit (8 * 2) (ch_pl h)
     OR push_bit 8 (ch_mhl h)
     OR ch_reserved h"

definition ch_encode :: "CommonHeader \<Rightarrow> bytes result" where
  "ch_encode h = to_bytes 8 (ch_encode_to_int h)"

definition ch_decode_from_int :: "int \<Rightarrow> CommonHeader result" where
  "ch_decode_from_int header =
     rbind (enum_of CommonNH_members CommonNH_value (drop_bit (4 + 8 * 7) header AND 15)) (\<lambda>nh.
     rbind (enum_of HeaderType_members HeaderType_value (drop_bit (4 + 8 * 6) header AND 15)) (\<lambda>ht.
     rbind (enum_of (if ht = HT_GEOBROADCAST then GeoBroadcastHST_members
                     else if ht = HT_TSB then TopoBroadcastHST_members
                     else if ht = HT_GEOANYCAST then GeoAnycastHST_members
                     else if ht = HT_LS then LocationServiceHST_members
                     else HeaderSubType_members) HST_value (drop_bit (8 * 6) header AND 15)) (\<lambda>hst.
     Inr \<lparr>ch_nh = nh, ch_reserved = header AND 255, ch_ht = ht, ch_hst = hst,
          ch_tc = tc_decode_from_int (drop_bit (8 * 5) header AND 255),
          ch_flags = drop_bit (8 * 4) header AND 128,
          ch_pl = drop_bit (8 * 2) header AND 65535,
          ch_mhl = drop_bit 8 header AND 255\<rparr>)))"

definition ch_decode :: "bytes \<Rightarrow> CommonHeader result" where
  "ch_decode header =
     (if length header < 8 then Inl DecodeError
      else ch_decode_from_int (from_bytes (slice 0 8 header)))"

definition ch_initialize_beacon :: "MIB \<Rightarrow> CommonHeader" where
  "ch_initialize_beacon mib =
     \<lparr>ch_nh = CNH_ANY, ch_reserved = 0, ch_ht = HT_BEACON, ch_hst = HST_UNSPECIFIED,
      ch_tc = default_TrafficClass, ch_flags = GnIsMobile_value (itsGnIsMobile mib),
      ch_pl = 0, ch_mhl = 1\<rparr>"

definition encodable_ch :: "CommonHeader \<Rightarrow> bool" where
  "encodable_ch h \<longleftrightarrow>
     0 \<le> ch_reserved h \<and> ch_reserved h < 16
     \<and> ch_hst h \<in> set (subtype_members (ch_ht h)) \<and> valid_tc (ch_tc h)
     \<and> 0 \<le> ch_flags h \<and> ch_flags h < 256 \<and> 0 \<le> ch_pl h \<and> ch_pl h < 2 ^ 16
     \<and> 0 \<le> ch_mhl h \<and> ch_mhl h < 256"

definition valid_ch :: "CommonHeader \<Rightarrow> bool" where
  "valid_ch h \<longleftrightarrow> encodable_ch h \<and> (ch_flags h = 0 \<or> ch_flags h = 128)"

definition ch_fields :: "CommonHeader \<Rightarrow> fields" where
  "ch_fields h =
     [(4, CommonNH_value (ch_nh h)), (4, ch_reserved h), (4, HeaderType_value (ch_ht h)),
      (4, HST_value (ch_hst h)), (8, tc_encode_to_int (ch_tc h)), (8, ch_flags h),
      (16, ch_pl h), (8, ch_mhl h), (8, ch_reserved h)]"

lemma ch_fields_ok:
  assumes "encodable_ch h"
  shows "fields_ok (ch_fields h)"
proof -
  have "CommonNH_value (ch_nh h) < 16" "HeaderType_value (ch_ht h) < 16" "HST_value (ch_hst h) < 16"
    using CommonNH_value_bounds(2) [of "ch_nh h"] HeaderType_value_bounds(2) [of "ch_ht h"]
      HST_value_bounds(2) [of "ch_hst h"] by linarith+
  then show ?thesis
    using assms tc_int_bounds [of "ch_tc h"] by (simp add: ch_fields_def encodable_ch_def)
qed

lemma ch_int_fields:
  assumes "encodable_ch h"
  shows "ch_encode_to_int h = join_fields (ch_fields h)"
proof -
  note ok = ch_fields_ok [OF assms, unfolded ch_fields_def]
  let ?f9 = "[(8 :: nat, ch_reserved h)]"
  let ?f8 = "(8, ch_mhl h) # ?f9"
  let ?f7 = "(16, ch_pl h) # ?f8"
  let ?f6 = "(8, ch_flags h) # ?f7"
  let ?f5 = "(8, tc_encode_to_int (ch_tc h)) # ?f6"
  let ?f4 = "(4, HST_value (ch_hst h)) # ?f5"
  let ?f3 = "(4, HeaderType_value (ch_ht h)) # ?f4"
  let ?f2 = "(4, ch_reserved h) # ?f3"
  have "push_bit 8 (ch_mhl h) OR join_fields ?f9 = join_fields ?f8"
    and "push_bit 16 (ch_pl h) OR join_fields ?f8 = join_fields ?f7"
    and "push_bit 32 (ch_flags h) OR join_fields ?f7 = join_fields ?f6"
    and "push_bit 40 (tc_encode_to_int (ch_tc h)) OR join_fields ?f6 = join_fields ?f5"
    and "push_bit 48 (HST_value (ch_hst h)) OR join_fields ?f5 = join_fields ?f4"
    and "push_bit 52 (HeaderType_value (ch_ht h)) OR join_fields ?f4 = join_fields ?f3"
    and "push_bit 56 (ch_reserved h) OR join_fields ?f3 = join_fields ?f2"
    and "push_bit 60 (CommonNH_value (ch_nh h)) OR join_fields ?f2
      = join_fields ((4, CommonNH_value (ch_nh h)) # ?f2)"
    using ok by (auto intro!: push_bit_or_join simp del: join_fields.simps)
  moreover have "join_fields ?f9 = ch_reserved h" by simp
  ultimately show ?thesis
    unfolding ch_encode_to_int_def ch_fields_def
    by (simp only: or.assoc mult_numeral_1 mult_numeral_1_right semiring_norm arith_simps)
qed

lemma ch_int_bounds:
  assumes "encodable_ch h"
  shows "0 \<le> ch_encode_to_int h" "ch_encode_to_int h < 256 ^ 8"
  using join_fields_bounds [OF ch_fields_ok [OF assms]]
  by (simp_all add: ch_int_fields [OF assms]) (simp_all add: ch_fields_def)

lemma ch_encode_valid: "encodable_ch h \<Longrightarrow> ch_encode h = Inr (be_bytes 8 (ch_encode_to_int h))"
  using ch_int_bounds [of h] by (simp add: ch_encode_def to_bytes_Inr)

lemma ch_field_reads:
  assumes "encodable_ch h"
  defines "x \<equiv> ch_encode_to_int h"
  shows "drop_bit 60 x AND 15 = CommonNH_value (ch_nh h)"
    and "drop_bit 52 x AND 15 = HeaderType_value (ch_ht h)"
    and "drop_bit 48 x AND 15 = HST_value (ch_hst h)"
    and "drop_bit 40 x AND 255 = tc_encode_to_int (ch_tc h)"
    and "drop_bit 32 x AND 255 = ch_flags h"
    and "drop_bit 16 x AND 65535 = ch_pl h"
    and "drop_bit 8 x AND 255 = ch_mhl h"
    and "x AND 255 = ch_reserved h"
proof -
  let ?n = "(4, CommonNH_value (ch_nh h))" and ?r = "(4, ch_reserved h)"
  let ?t = "(4, HeaderType_value (ch_ht h))" and ?s = "(4, HST_value (ch_hst h))"
  let ?c = "(8, tc_encode_to_int (ch_tc h))" and ?f = "(8, ch_flags h)" and ?p = "(16, ch_pl h)"
  let ?m = "(8, ch_mhl h)" and ?z = "(8, ch_reserved h)"
  have x: "x = join_fields [?n, ?r, ?t, ?s, ?c, ?f, ?p, ?m, ?z]"
    using ch_int_fields [OF assms(1)] by (simp add: x_def ch_fields_def)
  have ok: "fields_ok [?n, ?r, ?t, ?s, ?c, ?f, ?p, ?m, ?z]"
    using ch_fields_ok [OF assms(1)] by (simp add: ch_fields_def)
  show "drop_bit 60 x AND 15 = CommonNH_value (ch_nh h)"
    using join_fields_get [of "[]" 4 "CommonNH_value (ch_nh h)" "[?r, ?t, ?s, ?c, ?f, ?p, ?m, ?z]"] ok
    unfolding x bitfields by (simp del: join_fields.simps)
  show "drop_bit 52 x AND 15 = HeaderType_value (ch_ht h)"
    using join_fields_get [of "[?n, ?r]" 4 "HeaderType_value (ch_ht h)" "[?s, ?c, ?f, ?p, ?m, ?z]"] ok
    unfolding x bitfields by (simp del: join_fields.simps)
  show "drop_bit 48 x AND 15 = HST_value (ch_hst h)"
    using join_fields_get [of "[?n, ?r, ?t]" 4 "HST_value (ch_hst h)" "[?c, ?f, ?p, ?m, ?z]"] ok
    unfolding x bitfields by (simp del: join_fields.simps)
  show "drop_bit 40 x AND 255 = tc_encode_to_int (ch_tc h)"
    using join_fields_get [of "[?n, ?r, ?t, ?s]" 8 "tc_encode_to_int (ch_tc h)" "[?f, ?p, ?m, ?z]"] ok
    unfolding x bitfields by (simp del: join_fields.simps)
  show "drop_bit 32 x AND 255 = ch_flags h"
    using join_fields_get [of "[?n, ?r, ?t, ?s, ?c]" 8 "ch_flags h" "[?p, ?m, ?z]"] ok
    unfolding x bitfields by (simp del: join_fields.simps)
  show "drop_bit 16 x AND 65535 = ch_pl h"
    using join_fields_get [of "[?n, ?r, ?t, ?s, ?c, ?f]" 16 "ch_pl h" "[?m, ?z]"] ok
    unfolding x bitfields by (simp del: join_fields.simps)
  show "drop_bit 8 x AND 255 = ch_mhl h"
    using join_fields_get [of "[?n, ?r, ?t, ?s, ?c, ?f, ?p]" 8 "ch_mhl h" "[?z]"] ok
    unfolding x bitfields by (simp del: join_fields.simps)
  show "x AND 255 = ch_reserved h"
    using join_fields_get [of "[?n, ?r, ?t, ?s, ?c, ?f, ?p, ?m]" 8 "ch_reserved h" "[]"] ok
    unfolding x bitfields by (simp del: join_fields.simps)
qed

lemma ch_flags_read:
  assumes "encodable_ch h"
  shows "drop_bit 32 (ch_encode_to_int h) AND 128 = ch_flags h AND 128"
proof -
  have "ch_flags h AND 128 = (drop_bit 32 (ch_encode_to_int h) AND 255) AND 128"
    by (simp only: ch_field_reads(5) [OF assms])
  also have "\<dots> = drop_bit 32 (ch_encode_to_int h) AND 128"
    by (simp only: and.assoc) simp
  finally show ?thesis by simp
qed

lemma subtype_members_if:
  "(if t = HT_GEOBROADCAST then GeoBroadcastHST_members
    else if t = HT_TSB then TopoBroadcastHST_members
    else if t = HT_GEOANYCAST then GeoAnycastHST_members
    else if t = HT_LS then LocationServiceHST_members
    else HeaderSubType_members) = subtype_members t"
  by (cases t) simp_all

text \<open>Decoding an encoded header gives it back, up to the seven reserved flag bits.\<close>

lemma ch_decode_encode_flags:
  assumes "encodable_ch h" "ch_encode h = Inr bs"
  shows "ch_decode bs = Inr (h\<lparr>ch_flags := ch_flags h AND 128\<rparr>)"
proof -
  have bs: "bs = be_bytes 8 (ch_encode_to_int h)" using assms ch_encode_valid by auto
  have "from_bytes (slice 0 8 bs) = ch_encode_to_int h"
    using ch_int_bounds [OF assms(1)] by (simp add: bs slice_0 from_be_bytes)
  moreover have "ch_hst h \<in> set (subtype_members (ch_ht h))" "valid_tc (ch_tc h)"
    using assms(1) by (simp_all add: encodable_ch_def)
  ultimately show ?thesis
    by (simp add: ch_decode_def bs ch_decode_from_int_def ch_field_reads [OF assms(1)]
        ch_flags_read [OF assms(1)] CommonNH_enum.enum_of_val HeaderType_enum.enum_of_val
        subtype_members_if subtype_enum_of tc_decode_encode_int)
qed

lemma and_exp: "(x :: int) AND 2 ^ n = 0 \<or> x AND 2 ^ n = 2 ^ n"
proof (cases "bit x n")
  case True
  have "x AND 2 ^ n = 2 ^ n"
    by (rule bit_eqI) (use True in \<open>auto simp: bit_and_iff bit_exp_iff\<close>)
  then show ?thesis ..
next
  case False
  have "x AND 2 ^ n = 0"
    by (rule bit_eqI) (use False in \<open>auto simp: bit_and_iff bit_exp_iff\<close>)
  then show ?thesis ..
qed

lemma and_128: "(x :: int) AND 128 = 0 \<or> x AND 128 = 128"
  using and_exp [of x 7] by simp

text \<open>What every decoded header satisfies; only the reserved byte may exceed a nibble.\<close>

lemma ch_decode_ranges:
  assumes "ch_decode bs = Inr h"
  shows "ch_hst h \<in> set (subtype_members (ch_ht h))" "valid_tc (ch_tc h)"
    "ch_flags h = 0 \<or> ch_flags h = 128"
    "0 \<le> ch_pl h" "ch_pl h < 2 ^ 16" "0 \<le> ch_mhl h" "ch_mhl h < 256"
    "0 \<le> ch_reserved h" "ch_reserved h < 256"
proof -
  let ?x = "from_bytes (slice 0 8 bs)"
  have dec: "ch_decode_from_int ?x = Inr h"
    using assms by (simp add: ch_decode_def split: if_splits)
  obtain nh ht hst where hst: "enum_of (subtype_members ht) HST_value (drop_bit 48 ?x AND 15) = Inr hst"
    and h: "h = \<lparr>ch_nh = nh, ch_reserved = ?x AND 255, ch_ht = ht, ch_hst = hst,
          ch_tc = tc_decode_from_int (drop_bit 40 ?x AND 255), ch_flags = drop_bit 32 ?x AND 128,
          ch_pl = drop_bit 16 ?x AND 65535, ch_mhl = drop_bit 8 ?x AND 255\<rparr>"
    using dec unfolding ch_decode_from_int_def subtype_members_if rbind_eq_Inr by auto
  show "ch_hst h \<in> set (subtype_members (ch_ht h))"
    using enum_of_subtype(1) [OF hst] by (simp add: h)
  show "ch_flags h = 0 \<or> ch_flags h = 128"
    unfolding h by simp (rule and_128)
  show "valid_tc (ch_tc h)" by (simp add: h)
  show "0 \<le> ch_pl h" "0 \<le> ch_mhl h" "0 \<le> ch_reserved h" by (simp_all add: h)
  show "ch_pl h < 2 ^ 16" "ch_mhl h < 256" "ch_reserved h < 256"
    by (simp_all add: h and_mask_numerals)
qed

lemma ch_decode_valid:
  "ch_decode bs = Inr h \<Longrightarrow> ch_reserved h < 16 \<Longrightarrow> valid_ch h"
  using ch_decode_ranges [of bs h] by (auto simp: valid_ch_def encodable_ch_def)

interpretation ch: wire_codec ch_encode ch_decode valid_ch 8
proof unfold_locales
  show "\<exists>bs. ch_encode h = Inr bs \<and> length bs = 8" if "valid_ch h" for h
    using ch_encode_valid [of h] that by (simp add: valid_ch_def)
  show "ch_decode bs = Inr h" if "valid_ch h" "ch_encode h = Inr bs" for h bs
    using ch_decode_encode_flags [of h bs] that by (auto simp: valid_ch_def)
  show "ch_decode bs = ch_decode (take 8 bs)" if "8 \<le> length bs" for bs
    using that by (simp add: ch_decode_def slice_0)
  show "ch_decode bs = Inl DecodeError" if "length bs < 8" for bs
    using that by (simp add: ch_decode_def)
qed

text \<open>The headers the router builds itself.\<close>

lemma GnIsMobile_value_bounds [simp]: "0 \<le> GnIsMobile_value m" "GnIsMobile_value m < 2"
  by (cases m; simp)+

lemma valid_ch_with_request:
  assumes "header_subtype (req_packet_transport_type r)
      \<in> set (subtype_members (header_type (req_packet_transport_type r)))"
    "valid_tc (req_traffic_class r)" "0 \<le> req_length r" "req_length r < 2 ^ 16"
    "0 \<le> req_max_hop_limit r" "req_max_hop_limit r < 256"
  shows "valid_ch (ch_initialize_with_request r mib)"
  using assms
  by (cases "itsGnIsMobile mib")
    (simp_all add: valid_ch_def encodable_ch_def ch_initialize_with_request_def Let_def)

lemma encodable_ch_beacon: "encodable_ch (ch_initialize_beacon mib)"
  by (cases "itsGnIsMobile mib")
    (simp_all add: encodable_ch_def ch_initialize_beacon_def HeaderSubType_members_def)

end
