(* ===== verification/ExtendedHeaders.thy ===== *)
theory ExtendedHeaders
  imports ServiceAccessPoint
begin

text \<open>
  The extended headers of the multi-hop packet types: \<open>tsb_extended_header.py\<close>,
  \<open>guc_extended_header.py\<close>, \<open>gbc_extended_header.py\<close> (GeoBroadcast and GeoAnycast) and
  \<open>ls_extended_header.py\<close> under \<open>src/flexstack/geonet/\<close>. Each is a sequence of parts encoded
  one after the other, and each is a closed codec.
\<close>

lemma to_bytes_be: "0 \<le> x \<Longrightarrow> x < 256 ^ n \<Longrightarrow> to_bytes n x = Inr (be_bytes n x)"
  by (simp add: to_bytes_Inr)

lemma from_bytes_field:
  "length bs = n \<Longrightarrow> 0 \<le> from_bytes bs \<and> from_bytes bs < 256 ^ n"
  using from_bytes_less [of bs] by auto

text \<open>The bytes of a valid position vector or address, with what they decode to.\<close>

lemma lpv_wire:
  assumes "valid_lpv v"
  obtains bs where "lpv_encode v = Inr bs" "length bs = 24" "lpv_decode bs = Inr v"
  using assms lpv.encode_total lpv.decode_encode by blast

lemma spv_wire:
  assumes "valid_spv v"
  obtains bs where "spv_encode v = Inr bs" "length bs = 20" "spv_decode bs = Inr v"
  using assms spv.encode_total spv.decode_encode by blast

lemma gn_address_wire:
  assumes "valid_address a"
  obtains bs where "to_bytes 8 (gn_address_encode_to_int a) = Inr bs" "length bs = 8"
    "gn_address_decode bs = Inr a"
  using assms gn_address.encode_total gn_address.decode_encode
  unfolding gn_address_encode_def by blast

section \<open>Topologically scoped broadcast\<close>

record TSBExtendedHeader =
  tsb_sn :: int
  tsb_reserved :: int
  tsb_so_pv :: LongPositionVector

definition tsb_initialize_with_request_sequence_number_ego_pv ::
    "GNDataRequest \<Rightarrow> int \<Rightarrow> LongPositionVector \<Rightarrow> TSBExtendedHeader" where
  "tsb_initialize_with_request_sequence_number_ego_pv request sequence_number ego_pv =
     \<lparr>tsb_sn = sequence_number, tsb_reserved = 0, tsb_so_pv = ego_pv\<rparr>"

definition tsb_encode :: "TSBExtendedHeader \<Rightarrow> bytes result" where
  "tsb_encode h = encode_parts [to_bytes 2 (tsb_sn h), to_bytes 2 (tsb_reserved h),
     lpv_encode (tsb_so_pv h)]"

definition tsb_decode :: "bytes \<Rightarrow> TSBExtendedHeader result" where
  "tsb_decode header =
     (if length header < 28 then Inl DecodeError
      else rbind (lpv_decode (slice 4 28 header)) (\<lambda>so_pv.
        Inr \<lparr>tsb_sn = from_bytes (slice 0 2 header), tsb_reserved = from_bytes (slice 2 4 header),
             tsb_so_pv = so_pv\<rparr>))"

definition valid_tsb :: "TSBExtendedHeader \<Rightarrow> bool" where
  "valid_tsb h \<longleftrightarrow>
     0 \<le> tsb_sn h \<and> tsb_sn h < 2 ^ 16 \<and> 0 \<le> tsb_reserved h \<and> tsb_reserved h < 2 ^ 16
     \<and> valid_lpv (tsb_so_pv h)"

lemma tsb_layout:
  assumes "valid_tsb h"
  obtains bs where "tsb_encode h = Inr bs" "length bs = 28" "tsb_decode bs = Inr h"
proof -
  obtain p where "lpv_encode (tsb_so_pv h) = Inr p" "length p = 24" "lpv_decode p = Inr (tsb_so_pv h)"
    using assms by (auto simp: valid_tsb_def elim: lpv_wire)
  then show thesis
    using that [of "be_bytes 2 (tsb_sn h) @ be_bytes 2 (tsb_reserved h) @ p"] assms
    by (simp add: valid_tsb_def tsb_encode_def tsb_decode_def to_bytes_be slice_def from_be_bytes)
qed

lemma tsb_decode_valid: "tsb_decode bs = Inr h \<Longrightarrow> valid_tsb h"
  using from_bytes_field [of "slice 0 2 bs" 2] from_bytes_field [of "slice 2 4 bs" 2]
  by (auto simp: tsb_decode_def result_simps valid_tsb_def length_slice lpv_decode_valid
      split: if_splits)

interpretation tsb: closed_codec tsb_encode tsb_decode valid_tsb 28
proof unfold_locales
  show "\<exists>bs. tsb_encode h = Inr bs \<and> length bs = 28" if "valid_tsb h" for h
    using that by (auto elim: tsb_layout)
  show "tsb_decode bs = Inr h" if "valid_tsb h" "tsb_encode h = Inr bs" for h bs
    using that by (auto elim: tsb_layout)
  show "tsb_decode bs = tsb_decode (take 28 bs)" if "28 \<le> length bs" for bs
    using that by (simp add: tsb_decode_def slice_def drop_take)
  show "tsb_decode bs = Inl DecodeError" if "length bs < 28" for bs
    using that by (simp add: tsb_decode_def)
  show "valid_tsb h" if "tsb_decode bs = Inr h" for bs h
    using that by (rule tsb_decode_valid)
qed

section \<open>GeoUnicast\<close>

record GUCExtendedHeader =
  guc_sn :: int
  guc_reserved :: int
  guc_so_pv :: LongPositionVector
  guc_de_pv :: ShortPositionVector

definition guc_initialize ::
    "int \<Rightarrow> LongPositionVector \<Rightarrow> ShortPositionVector \<Rightarrow> GUCExtendedHeader" where
  "guc_initialize sequence_number ego_pv de_pv =
     \<lparr>guc_sn = sequence_number, guc_reserved = 0, guc_so_pv = ego_pv, guc_de_pv = de_pv\<rparr>"

definition guc_with_de_pv :: "ShortPositionVector \<Rightarrow> GUCExtendedHeader \<Rightarrow> GUCExtendedHeader" where
  "guc_with_de_pv de_pv h =
     \<lparr>guc_sn = guc_sn h, guc_reserved = guc_reserved h, guc_so_pv = guc_so_pv h,
      guc_de_pv = de_pv\<rparr>"

definition guc_encode :: "GUCExtendedHeader \<Rightarrow> bytes result" where
  "guc_encode h = encode_parts [to_bytes 2 (guc_sn h), to_bytes 2 (guc_reserved h),
     lpv_encode (guc_so_pv h), spv_encode (guc_de_pv h)]"

definition guc_decode :: "bytes \<Rightarrow> GUCExtendedHeader result" where
  "guc_decode header =
     (if length header < 48 then Inl DecodeError
      else rbind (lpv_decode (slice 4 28 header)) (\<lambda>so_pv.
        rbind (spv_decode (slice 28 48 header)) (\<lambda>de_pv.
        Inr \<lparr>guc_sn = from_bytes (slice 0 2 header), guc_reserved = from_bytes (slice 2 4 header),
             guc_so_pv = so_pv, guc_de_pv = de_pv\<rparr>)))"

definition valid_guc :: "GUCExtendedHeader \<Rightarrow> bool" where
  "valid_guc h \<longleftrightarrow>
     0 \<le> guc_sn h \<and> guc_sn h < 2 ^ 16 \<and> 0 \<le> guc_reserved h \<and> guc_reserved h < 2 ^ 16
     \<and> valid_lpv (guc_so_pv h) \<and> valid_spv (guc_de_pv h)"

lemma valid_guc_with_de_pv: "valid_guc h \<Longrightarrow> valid_spv p \<Longrightarrow> valid_guc (guc_with_de_pv p h)"
  by (simp add: valid_guc_def guc_with_de_pv_def)

lemma guc_layout:
  assumes "valid_guc h"
  obtains bs where "guc_encode h = Inr bs" "length bs = 48" "guc_decode bs = Inr h"
proof -
  obtain p where "lpv_encode (guc_so_pv h) = Inr p" "length p = 24" "lpv_decode p = Inr (guc_so_pv h)"
    using assms by (auto simp: valid_guc_def elim: lpv_wire)
  moreover obtain q where
    "spv_encode (guc_de_pv h) = Inr q" "length q = 20" "spv_decode q = Inr (guc_de_pv h)"
    using assms by (auto simp: valid_guc_def elim: spv_wire)
  ultimately show thesis
    using that [of "be_bytes 2 (guc_sn h) @ be_bytes 2 (guc_reserved h) @ p @ q"] assms
    by (simp add: valid_guc_def guc_encode_def guc_decode_def to_bytes_be slice_def from_be_bytes)
qed

lemma guc_decode_valid: "guc_decode bs = Inr h \<Longrightarrow> valid_guc h"
  using from_bytes_field [of "slice 0 2 bs" 2] from_bytes_field [of "slice 2 4 bs" 2]
  by (auto simp: guc_decode_def result_simps valid_guc_def length_slice lpv_decode_valid
      spv_decode_valid split: if_splits)

interpretation guc: closed_codec guc_encode guc_decode valid_guc 48
proof unfold_locales
  show "\<exists>bs. guc_encode h = Inr bs \<and> length bs = 48" if "valid_guc h" for h
    using that by (auto elim: guc_layout)
  show "guc_decode bs = Inr h" if "valid_guc h" "guc_encode h = Inr bs" for h bs
    using that by (auto elim: guc_layout)
  show "guc_decode bs = guc_decode (take 48 bs)" if "48 \<le> length bs" for bs
    using that by (simp add: guc_decode_def slice_def drop_take)
  show "guc_decode bs = Inl DecodeError" if "length bs < 48" for bs
    using that by (simp add: guc_decode_def)
  show "valid_guc h" if "guc_decode bs = Inr h" for bs h
    using that by (rule guc_decode_valid)
qed

section \<open>GeoBroadcast and GeoAnycast\<close>

record GBCExtendedHeader =
  gbc_sn :: int
  gbc_reserved :: int
  gbc_so_pv :: LongPositionVector
  gbc_latitude :: int
  gbc_longitude :: int
  gbc_a :: int
  gbc_b :: int
  gbc_angle :: int
  gbc_reserved2 :: int

definition gbc_initialize_with_request_sequence_number_ego_pv ::
    "GNDataRequest \<Rightarrow> int \<Rightarrow> LongPositionVector \<Rightarrow> GBCExtendedHeader" where
  "gbc_initialize_with_request_sequence_number_ego_pv request sequence_number ego_pv =
     \<lparr>gbc_sn = sequence_number, gbc_reserved = 0, gbc_so_pv = ego_pv,
      gbc_latitude = area_latitude (req_area request),
      gbc_longitude = area_longitude (req_area request),
      gbc_a = area_a (req_area request), gbc_b = area_b (req_area request),
      gbc_angle = area_angle (req_area request), gbc_reserved2 = 0\<rparr>"

definition gbc_initialize_with_request :: "GNDataRequest \<Rightarrow> GBCExtendedHeader" where
  "gbc_initialize_with_request request =
     \<lparr>gbc_sn = 0, gbc_reserved = 0, gbc_so_pv = default_LongPositionVector,
      gbc_latitude = area_latitude (req_area request),
      gbc_longitude = area_longitude (req_area request),
      gbc_a = area_a (req_area request), gbc_b = area_b (req_area request),
      gbc_angle = area_angle (req_area request), gbc_reserved2 = 0\<rparr>"

definition gbc_encode :: "GBCExtendedHeader \<Rightarrow> bytes result" where
  "gbc_encode h = encode_parts [to_bytes 2 (gbc_sn h), to_bytes 2 (gbc_reserved h),
     lpv_encode (gbc_so_pv h), to_bytes 4 (gbc_latitude h), to_bytes 4 (gbc_longitude h),
     to_bytes 2 (gbc_a h), to_bytes 2 (gbc_b h), to_bytes 2 (gbc_angle h),
     to_bytes 2 (gbc_reserved2 h)]"

definition gbc_decode :: "bytes \<Rightarrow> GBCExtendedHeader result" where
  "gbc_decode header =
     (if length header < 44 then Inl DecodeError
      else rbind (lpv_decode (slice 4 28 header)) (\<lambda>so_pv.
        Inr \<lparr>gbc_sn = from_bytes (slice 0 2 header), gbc_reserved = from_bytes (slice 2 4 header),
             gbc_so_pv = so_pv,
             gbc_latitude = from_bytes (slice 28 32 header),
             gbc_longitude = from_bytes (slice 32 36 header),
             gbc_a = from_bytes (slice 36 38 header), gbc_b = from_bytes (slice 38 40 header),
             gbc_angle = from_bytes (slice 40 42 header),
             gbc_reserved2 = from_bytes (slice 42 44 header)\<rparr>))"

text \<open>The values that fit the unsigned fields.\<close>

definition valid_gbc :: "GBCExtendedHeader \<Rightarrow> bool" where
  "valid_gbc h \<longleftrightarrow>
     0 \<le> gbc_sn h \<and> gbc_sn h < 2 ^ 16 \<and> 0 \<le> gbc_reserved h \<and> gbc_reserved h < 2 ^ 16
     \<and> valid_lpv (gbc_so_pv h)
     \<and> 0 \<le> gbc_latitude h \<and> gbc_latitude h < 2 ^ 32
     \<and> 0 \<le> gbc_longitude h \<and> gbc_longitude h < 2 ^ 32
     \<and> 0 \<le> gbc_a h \<and> gbc_a h < 2 ^ 16 \<and> 0 \<le> gbc_b h \<and> gbc_b h < 2 ^ 16
     \<and> 0 \<le> gbc_angle h \<and> gbc_angle h < 2 ^ 16
     \<and> 0 \<le> gbc_reserved2 h \<and> gbc_reserved2 h < 2 ^ 16"

lemma gbc_layout:
  assumes "valid_gbc h"
  obtains bs where "gbc_encode h = Inr bs" "length bs = 44" "gbc_decode bs = Inr h"
proof -
  obtain p where "lpv_encode (gbc_so_pv h) = Inr p" "length p = 24" "lpv_decode p = Inr (gbc_so_pv h)"
    using assms by (auto simp: valid_gbc_def elim: lpv_wire)
  then show thesis
    using that [of "be_bytes 2 (gbc_sn h) @ be_bytes 2 (gbc_reserved h) @ p
        @ be_bytes 4 (gbc_latitude h) @ be_bytes 4 (gbc_longitude h) @ be_bytes 2 (gbc_a h)
        @ be_bytes 2 (gbc_b h) @ be_bytes 2 (gbc_angle h) @ be_bytes 2 (gbc_reserved2 h)"] assms
    by (simp add: valid_gbc_def gbc_encode_def gbc_decode_def to_bytes_be slice_def from_be_bytes)
qed

lemma gbc_decode_valid: "gbc_decode bs = Inr h \<Longrightarrow> valid_gbc h"
  using from_bytes_field [of "slice 0 2 bs" 2] from_bytes_field [of "slice 2 4 bs" 2]
    from_bytes_field [of "slice 28 32 bs" 4] from_bytes_field [of "slice 32 36 bs" 4]
    from_bytes_field [of "slice 36 38 bs" 2] from_bytes_field [of "slice 38 40 bs" 2]
    from_bytes_field [of "slice 40 42 bs" 2] from_bytes_field [of "slice 42 44 bs" 2]
  by (auto simp: gbc_decode_def result_simps valid_gbc_def length_slice lpv_decode_valid
      split: if_splits)

interpretation gbc: closed_codec gbc_encode gbc_decode valid_gbc 44
proof unfold_locales
  show "\<exists>bs. gbc_encode h = Inr bs \<and> length bs = 44" if "valid_gbc h" for h
    using that by (auto elim: gbc_layout)
  show "gbc_decode bs = Inr h" if "valid_gbc h" "gbc_encode h = Inr bs" for h bs
    using that by (auto elim: gbc_layout)
  show "gbc_decode bs = gbc_decode (take 44 bs)" if "44 \<le> length bs" for bs
    using that by (simp add: gbc_decode_def slice_def drop_take)
  show "gbc_decode bs = Inl DecodeError" if "length bs < 44" for bs
    using that by (simp add: gbc_decode_def)
  show "valid_gbc h" if "gbc_decode bs = Inr h" for bs h
    using that by (rule gbc_decode_valid)
qed

section \<open>Location service\<close>

record LSRequestExtendedHeader =
  lsreq_sn :: int
  lsreq_reserved :: int
  lsreq_so_pv :: LongPositionVector
  lsreq_request_gn_addr :: GNAddress

definition lsreq_initialize ::
    "int \<Rightarrow> LongPositionVector \<Rightarrow> GNAddress \<Rightarrow> LSRequestExtendedHeader" where
  "lsreq_initialize sequence_number ego_pv request_gn_addr =
     \<lparr>lsreq_sn = sequence_number, lsreq_reserved = 0, lsreq_so_pv = ego_pv,
      lsreq_request_gn_addr = request_gn_addr\<rparr>"

definition lsreq_encode :: "LSRequestExtendedHeader \<Rightarrow> bytes result" where
  "lsreq_encode h = encode_parts [to_bytes 2 (lsreq_sn h), to_bytes 2 (lsreq_reserved h),
     lpv_encode (lsreq_so_pv h), to_bytes 8 (gn_address_encode_to_int (lsreq_request_gn_addr h))]"

definition lsreq_decode :: "bytes \<Rightarrow> LSRequestExtendedHeader result" where
  "lsreq_decode header =
     (if length header < 36 then Inl DecodeError
      else rbind (lpv_decode (slice 4 28 header)) (\<lambda>so_pv.
        rbind (gn_address_decode (slice 28 36 header)) (\<lambda>request_gn_addr.
        Inr \<lparr>lsreq_sn = from_bytes (slice 0 2 header),
             lsreq_reserved = from_bytes (slice 2 4 header),
             lsreq_so_pv = so_pv, lsreq_request_gn_addr = request_gn_addr\<rparr>)))"

definition valid_lsreq :: "LSRequestExtendedHeader \<Rightarrow> bool" where
  "valid_lsreq h \<longleftrightarrow>
     0 \<le> lsreq_sn h \<and> lsreq_sn h < 2 ^ 16 \<and> 0 \<le> lsreq_reserved h \<and> lsreq_reserved h < 2 ^ 16
     \<and> valid_lpv (lsreq_so_pv h) \<and> valid_address (lsreq_request_gn_addr h)"

lemma lsreq_layout:
  assumes "valid_lsreq h"
  obtains bs where "lsreq_encode h = Inr bs" "length bs = 36" "lsreq_decode bs = Inr h"
proof -
  obtain p where
    "lpv_encode (lsreq_so_pv h) = Inr p" "length p = 24" "lpv_decode p = Inr (lsreq_so_pv h)"
    using assms by (auto simp: valid_lsreq_def elim: lpv_wire)
  moreover obtain q where
    "to_bytes 8 (gn_address_encode_to_int (lsreq_request_gn_addr h)) = Inr q" "length q = 8"
    "gn_address_decode q = Inr (lsreq_request_gn_addr h)"
    using assms by (auto simp: valid_lsreq_def elim: gn_address_wire)
  ultimately show thesis
    using that [of "be_bytes 2 (lsreq_sn h) @ be_bytes 2 (lsreq_reserved h) @ p @ q"] assms
    by (simp add: valid_lsreq_def lsreq_encode_def lsreq_decode_def to_bytes_be slice_def
        from_be_bytes)
qed

lemma lsreq_decode_valid: "lsreq_decode bs = Inr h \<Longrightarrow> valid_lsreq h"
  using from_bytes_field [of "slice 0 2 bs" 2] from_bytes_field [of "slice 2 4 bs" 2]
  by (auto simp: lsreq_decode_def result_simps valid_lsreq_def length_slice lpv_decode_valid
      gn_address_decode_valid split: if_splits)

interpretation lsreq: closed_codec lsreq_encode lsreq_decode valid_lsreq 36
proof unfold_locales
  show "\<exists>bs. lsreq_encode h = Inr bs \<and> length bs = 36" if "valid_lsreq h" for h
    using that by (auto elim: lsreq_layout)
  show "lsreq_decode bs = Inr h" if "valid_lsreq h" "lsreq_encode h = Inr bs" for h bs
    using that by (auto elim: lsreq_layout)
  show "lsreq_decode bs = lsreq_decode (take 36 bs)" if "36 \<le> length bs" for bs
    using that by (simp add: lsreq_decode_def slice_def drop_take)
  show "lsreq_decode bs = Inl DecodeError" if "length bs < 36" for bs
    using that by (simp add: lsreq_decode_def)
  show "valid_lsreq h" if "lsreq_decode bs = Inr h" for bs h
    using that by (rule lsreq_decode_valid)
qed

record LSReplyExtendedHeader =
  lsrep_sn :: int
  lsrep_reserved :: int
  lsrep_so_pv :: LongPositionVector
  lsrep_de_pv :: ShortPositionVector

definition lsrep_initialize ::
    "int \<Rightarrow> LongPositionVector \<Rightarrow> ShortPositionVector \<Rightarrow> LSReplyExtendedHeader" where
  "lsrep_initialize sequence_number ego_pv de_pv =
     \<lparr>lsrep_sn = sequence_number, lsrep_reserved = 0, lsrep_so_pv = ego_pv, lsrep_de_pv = de_pv\<rparr>"

definition lsrep_encode :: "LSReplyExtendedHeader \<Rightarrow> bytes result" where
  "lsrep_encode h = encode_parts [to_bytes 2 (lsrep_sn h), to_bytes 2 (lsrep_reserved h),
     lpv_encode (lsrep_so_pv h), spv_encode (lsrep_de_pv h)]"

definition lsrep_decode :: "bytes \<Rightarrow> LSReplyExtendedHeader result" where
  "lsrep_decode header =
     (if length header < 48 then Inl DecodeError
      else rbind (lpv_decode (slice 4 28 header)) (\<lambda>so_pv.
        rbind (spv_decode (slice 28 48 header)) (\<lambda>de_pv.
        Inr \<lparr>lsrep_sn = from_bytes (slice 0 2 header),
             lsrep_reserved = from_bytes (slice 2 4 header),
             lsrep_so_pv = so_pv, lsrep_de_pv = de_pv\<rparr>)))"

definition valid_lsrep :: "LSReplyExtendedHeader \<Rightarrow> bool" where
  "valid_lsrep h \<longleftrightarrow>
     0 \<le> lsrep_sn h \<and> lsrep_sn h < 2 ^ 16 \<and> 0 \<le> lsrep_reserved h \<and> lsrep_reserved h < 2 ^ 16
     \<and> valid_lpv (lsrep_so_pv h) \<and> valid_spv (lsrep_de_pv h)"

lemma lsrep_layout:
  assumes "valid_lsrep h"
  obtains bs where "lsrep_encode h = Inr bs" "length bs = 48" "lsrep_decode bs = Inr h"
proof -
  obtain p where
    "lpv_encode (lsrep_so_pv h) = Inr p" "length p = 24" "lpv_decode p = Inr (lsrep_so_pv h)"
    using assms by (auto simp: valid_lsrep_def elim: lpv_wire)
  moreover obtain q where
    "spv_encode (lsrep_de_pv h) = Inr q" "length q = 20" "spv_decode q = Inr (lsrep_de_pv h)"
    using assms by (auto simp: valid_lsrep_def elim: spv_wire)
  ultimately show thesis
    using that [of "be_bytes 2 (lsrep_sn h) @ be_bytes 2 (lsrep_reserved h) @ p @ q"] assms
    by (simp add: valid_lsrep_def lsrep_encode_def lsrep_decode_def to_bytes_be slice_def
        from_be_bytes)
qed

lemma lsrep_decode_valid: "lsrep_decode bs = Inr h \<Longrightarrow> valid_lsrep h"
  using from_bytes_field [of "slice 0 2 bs" 2] from_bytes_field [of "slice 2 4 bs" 2]
  by (auto simp: lsrep_decode_def result_simps valid_lsrep_def length_slice lpv_decode_valid
      spv_decode_valid split: if_splits)

interpretation lsrep: closed_codec lsrep_encode lsrep_decode valid_lsrep 48
proof unfold_locales
  show "\<exists>bs. lsrep_encode h = Inr bs \<and> length bs = 48" if "valid_lsrep h" for h
    using that by (auto elim: lsrep_layout)
  show "lsrep_decode bs = Inr h" if "valid_lsrep h" "lsrep_encode h = Inr bs" for h bs
    using that by (auto elim: lsrep_layout)
  show "lsrep_decode bs = lsrep_decode (take 48 bs)" if "48 \<le> length bs" for bs
    using that by (simp add: lsrep_decode_def slice_def drop_take)
  show "lsrep_decode bs = Inl DecodeError" if "length bs < 48" for bs
    using that by (simp add: lsrep_decode_def)
  show "valid_lsrep h" if "lsrep_decode bs = Inr h" for bs h
    using that by (rule lsrep_decode_valid)
qed

text \<open>An area centre with a negative coordinate cannot be put into a header.\<close>

lemma gbc_encode_negative:
  assumes "valid_lpv (gbc_so_pv h)" "0 \<le> gbc_sn h" "gbc_sn h < 2 ^ 16"
    "0 \<le> gbc_reserved h" "gbc_reserved h < 2 ^ 16" "gbc_latitude h < 0"
  shows "gbc_encode h = Inl OverflowError"
proof -
  obtain p where "lpv_encode (gbc_so_pv h) = Inr p"
    using assms(1) by (auto elim: lpv_wire)
  then show ?thesis
    using assms by (simp add: gbc_encode_def to_bytes_be to_bytes_negative)
qed

end
