(* ===== verification/LocationTable.thy ===== *)
theory LocationTable
  imports Mib ExtendedHeaders
begin

text \<open>
  The location table (\<open>src/flexstack/geonet/location_table.py\<close>). A table is an ordered
  dictionary from addresses to entries; the management information base every entry and the
  table hold a reference to is an argument, and so is the clock \<open>now\<close> (the float of
  \<open>TimeService.time()\<close>). The locks of the code make each method one atomic step. An
  operation that raises returns the error together with the table it leaves behind.
\<close>

section \<open>Entries\<close>

record LocationTableEntry =
  le_version :: int
  le_position_vector :: LongPositionVector
  le_ls_pending :: bool
  le_is_neighbour :: bool
  le_tst :: TST
  le_pdr :: real
  le_dpl_set :: "int set"
  le_dpl_deque :: "int list"

definition new_entry :: "MIB \<Rightarrow> LocationTableEntry" where
  "new_entry mib =
     \<lparr>le_version = itsGnProtocolVersion mib, le_position_vector = default_LongPositionVector,
      le_ls_pending = False, le_is_neighbour = False, le_tst = \<lparr>msec = 0\<rparr>, le_pdr = 0,
      le_dpl_set = {}, le_dpl_deque = []\<rparr>"

definition entry_get_gn_address :: "LocationTableEntry \<Rightarrow> GNAddress" where
  "entry_get_gn_address e = lpv_gn_addr (le_position_vector e)"

definition update_position_vector :: "LongPositionVector \<Rightarrow> LocationTableEntry \<Rightarrow> LocationTableEntry" where
  "update_position_vector pv e =
     (if msec (lpv_tst (le_position_vector e)) = 0 then e\<lparr>le_position_vector := pv\<rparr>
      else if tst_gt (lpv_tst pv) (lpv_tst (le_position_vector e))
           then e\<lparr>le_position_vector := pv\<rparr>
      else e)"

definition update_pdr :: "MIB \<Rightarrow> LongPositionVector \<Rightarrow> int \<Rightarrow> LocationTableEntry \<Rightarrow> LocationTableEntry" where
  "update_pdr mib pv packet_size e =
     (let time_since_last_update = real_of_int (tst_sub (lpv_tst pv) (le_tst e)) / 1000;
          e1 = e\<lparr>le_tst := lpv_tst pv\<rparr>
      in if time_since_last_update > 0 then
           let current_pdr = real_of_int packet_size / time_since_last_update;
               beta = real_of_int (itsGnMaxPacketDataRateEmaBeta mib) / 100
           in e1\<lparr>le_pdr := beta * le_pdr e1 + (1 - beta) * current_pdr\<rparr>
         else e1)"

text \<open>
  The duplicate check of annex A.2: a set for the lookup and a ring buffer that decides what
  to forget. Popping from an empty ring buffer, of length 0, raises \<open>IndexError\<close>.
\<close>

definition check_duplicate_sn :: "MIB \<Rightarrow> int \<Rightarrow> LocationTableEntry \<Rightarrow> LocationTableEntry result" where
  "check_duplicate_sn mib sn e =
     (if sn \<in> le_dpl_set e then Inl DuplicatedPacketException
      else if length (le_dpl_deque e) = itsGnDPLLength mib then
        (case le_dpl_deque e of
           [] \<Rightarrow> Inl IndexError
         | oldest # rest \<Rightarrow>
             Inr (e\<lparr>le_dpl_deque := rest @ [sn],
                    le_dpl_set := insert sn (le_dpl_set e - {oldest})\<rparr>))
      else Inr (e\<lparr>le_dpl_deque := le_dpl_deque e @ [sn], le_dpl_set := insert sn (le_dpl_set e)\<rparr>))"

definition update_with_shb_packet ::
    "MIB \<Rightarrow> LongPositionVector \<Rightarrow> bytes \<Rightarrow> LocationTableEntry \<Rightarrow> LocationTableEntry" where
  "update_with_shb_packet mib pv packet e =
     (update_pdr mib pv (int (length packet) + 8 + 4) (update_position_vector pv e))
       \<lparr>le_is_neighbour := True\<rparr>"

text \<open>
  The steps that the handlers of GUC, TSB, GAC, LS request and LS reply packets share: the
  duplicate check, the position vector, the packet data rate, and the neighbour flag of a new
  entry.
\<close>

definition update_with_multi_hop_packet ::
    "MIB \<Rightarrow> int \<Rightarrow> LongPositionVector \<Rightarrow> bytes \<Rightarrow> bool \<Rightarrow> LocationTableEntry
      \<Rightarrow> LocationTableEntry result" where
  "update_with_multi_hop_packet mib sn so_pv packet is_new_entry e =
     rbind (check_duplicate_sn mib sn e) (\<lambda>e1.
       let e2 = update_pdr mib so_pv (int (length packet) + 8 + 4) (update_position_vector so_pv e1)
       in Inr (if is_new_entry then e2\<lparr>le_is_neighbour := False\<rparr> else e2))"

definition update_with_tsb_packet ::
    "MIB \<Rightarrow> bytes \<Rightarrow> TSBExtendedHeader \<Rightarrow> bool \<Rightarrow> LocationTableEntry \<Rightarrow> LocationTableEntry result" where
  "update_with_tsb_packet mib packet h is_new_entry e =
     update_with_multi_hop_packet mib (tsb_sn h) (tsb_so_pv h) packet is_new_entry e"

text \<open>A GBC packet clears the neighbour flag of an existing entry as well.\<close>

definition update_with_gbc_packet ::
    "MIB \<Rightarrow> bytes \<Rightarrow> GBCExtendedHeader \<Rightarrow> LocationTableEntry \<Rightarrow> LocationTableEntry result" where
  "update_with_gbc_packet mib packet h e =
     rbind (check_duplicate_sn mib (gbc_sn h) e) (\<lambda>e1.
       Inr ((update_pdr mib (gbc_so_pv h) (int (length packet) + 8 + 4)
               (update_position_vector (gbc_so_pv h) e1))\<lparr>le_is_neighbour := False\<rparr>))"

section \<open>The table\<close>

type_synonym loc_table = "(GNAddress, LocationTableEntry) dict"

definition get_entry :: "GNAddress \<Rightarrow> loc_table \<Rightarrow> LocationTableEntry option" where
  "get_entry a t = dict_get t a"

definition ensure_entry :: "MIB \<Rightarrow> GNAddress \<Rightarrow> loc_table \<Rightarrow> LocationTableEntry \<times> loc_table" where
  "ensure_entry mib a t =
     (case dict_get t a of
        None \<Rightarrow> (new_entry mib, dict_set a (new_entry mib) t)
      | Some e \<Rightarrow> (e, t))"

definition refresh_table :: "MIB \<Rightarrow> real \<Rightarrow> loc_table \<Rightarrow> loc_table" where
  "refresh_table mib now t =
     (let current_time = tst_set_in_normal_timestamp_seconds (py_int now)
      in dict_filter (\<lambda>_ e. tst_sub current_time (lpv_tst (le_position_vector e))
           \<le> itsGnLifetimeLocTE mib * 1000) t)"

text \<open>Find or create the entry, run an update of it, and refresh the table if it succeeds.\<close>

definition update_entry ::
    "MIB \<Rightarrow> real \<Rightarrow> GNAddress \<Rightarrow> (bool \<Rightarrow> LocationTableEntry \<Rightarrow> LocationTableEntry result)
      \<Rightarrow> loc_table \<Rightarrow> unit result \<times> loc_table" where
  "update_entry mib now a upd t =
     (let is_new_entry = (dict_get t a = None); (e, t1) = ensure_entry mib a t
      in case upd is_new_entry e of
           Inl ex \<Rightarrow> (Inl ex, t1)
         | Inr e' \<Rightarrow> (Inr (), refresh_table mib now (dict_set a e' t1)))"

definition new_shb_packet ::
    "MIB \<Rightarrow> real \<Rightarrow> LongPositionVector \<Rightarrow> bytes \<Rightarrow> loc_table \<Rightarrow> unit result \<times> loc_table" where
  "new_shb_packet mib now pv packet t =
     update_entry mib now (lpv_gn_addr pv) (\<lambda>_ e. Inr (update_with_shb_packet mib pv packet e)) t"

definition new_guc_packet ::
    "MIB \<Rightarrow> real \<Rightarrow> GUCExtendedHeader \<Rightarrow> bytes \<Rightarrow> loc_table \<Rightarrow> unit result \<times> loc_table" where
  "new_guc_packet mib now h packet t =
     update_entry mib now (lpv_gn_addr (guc_so_pv h))
       (update_with_multi_hop_packet mib (guc_sn h) (guc_so_pv h) packet) t"

definition new_tsb_packet ::
    "MIB \<Rightarrow> real \<Rightarrow> TSBExtendedHeader \<Rightarrow> bytes \<Rightarrow> loc_table \<Rightarrow> unit result \<times> loc_table" where
  "new_tsb_packet mib now h packet t =
     update_entry mib now (lpv_gn_addr (tsb_so_pv h)) (update_with_tsb_packet mib packet h) t"

definition new_gac_packet ::
    "MIB \<Rightarrow> real \<Rightarrow> GBCExtendedHeader \<Rightarrow> bytes \<Rightarrow> loc_table \<Rightarrow> unit result \<times> loc_table" where
  "new_gac_packet mib now h packet t =
     update_entry mib now (lpv_gn_addr (gbc_so_pv h))
       (update_with_multi_hop_packet mib (gbc_sn h) (gbc_so_pv h) packet) t"

definition new_ls_request_packet ::
    "MIB \<Rightarrow> real \<Rightarrow> LSRequestExtendedHeader \<Rightarrow> bytes \<Rightarrow> loc_table \<Rightarrow> unit result \<times> loc_table" where
  "new_ls_request_packet mib now h packet t =
     update_entry mib now (lpv_gn_addr (lsreq_so_pv h))
       (update_with_multi_hop_packet mib (lsreq_sn h) (lsreq_so_pv h) packet) t"

definition new_ls_reply_packet ::
    "MIB \<Rightarrow> real \<Rightarrow> LSReplyExtendedHeader \<Rightarrow> bytes \<Rightarrow> loc_table \<Rightarrow> unit result \<times> loc_table" where
  "new_ls_reply_packet mib now h packet t =
     update_entry mib now (lpv_gn_addr (lsrep_so_pv h))
       (update_with_multi_hop_packet mib (lsrep_sn h) (lsrep_so_pv h) packet) t"

definition new_gbc_packet ::
    "MIB \<Rightarrow> real \<Rightarrow> GBCExtendedHeader \<Rightarrow> bytes \<Rightarrow> loc_table \<Rightarrow> unit result \<times> loc_table" where
  "new_gbc_packet mib now h packet t =
     update_entry mib now (lpv_gn_addr (gbc_so_pv h)) (\<lambda>_. update_with_gbc_packet mib packet h) t"

definition get_neighbours :: "loc_table \<Rightarrow> LocationTableEntry list" where
  "get_neighbours t = filter le_is_neighbour (map snd t)"

text \<open>The assignment \<open>entry.ls_pending = b\<close> that the router makes on an entry of the table.\<close>

definition set_ls_pending :: "bool \<Rightarrow> GNAddress \<Rightarrow> loc_table \<Rightarrow> loc_table" where
  "set_ls_pending b a t =
     (case dict_get t a of
        None \<Rightarrow> t
      | Some e \<Rightarrow> dict_set a (e\<lparr>le_ls_pending := b\<rparr>) t)"

section \<open>What the operations of an entry keep\<close>

definition dpl_ok :: "MIB \<Rightarrow> LocationTableEntry \<Rightarrow> bool" where
  "dpl_ok mib e \<longleftrightarrow>
     distinct (le_dpl_deque e) \<and> le_dpl_set e = set (le_dpl_deque e)
     \<and> length (le_dpl_deque e) \<le> itsGnDPLLength mib"

definition entry_ok :: "MIB \<Rightarrow> GNAddress \<Rightarrow> LocationTableEntry \<Rightarrow> bool" where
  "entry_ok mib a e \<longleftrightarrow>
     dpl_ok mib e \<and> le_version e = itsGnProtocolVersion mib
     \<and> valid_lpv (le_position_vector e)
     \<and> (le_position_vector e = default_LongPositionVector
        \<or> lpv_gn_addr (le_position_vector e) = a)"

lemma valid_default_LPV [simp]: "valid_lpv default_LongPositionVector"
  by (simp add: valid_lpv_def default_LongPositionVector_def valid_tst_def)

lemma new_entry_simps [simp]:
  "le_position_vector (new_entry mib) = default_LongPositionVector"
  "le_ls_pending (new_entry mib) = False"
  "le_is_neighbour (new_entry mib) = False"
  "le_dpl_deque (new_entry mib) = []"
  "le_dpl_set (new_entry mib) = {}"
  "le_pdr (new_entry mib) = 0"
  by (simp_all add: new_entry_def)

lemma entry_ok_new [simp]: "entry_ok mib a (new_entry mib)"
  by (simp add: entry_ok_def dpl_ok_def new_entry_def)

lemma update_position_vector_simps [simp]:
  "le_dpl_set (update_position_vector pv e) = le_dpl_set e"
  "le_dpl_deque (update_position_vector pv e) = le_dpl_deque e"
  "le_version (update_position_vector pv e) = le_version e"
  "le_ls_pending (update_position_vector pv e) = le_ls_pending e"
  "le_is_neighbour (update_position_vector pv e) = le_is_neighbour e"
  "le_pdr (update_position_vector pv e) = le_pdr e"
  "le_tst (update_position_vector pv e) = le_tst e"
  by (simp_all add: update_position_vector_def)

lemma update_pdr_simps [simp]:
  "le_dpl_set (update_pdr mib pv n e) = le_dpl_set e"
  "le_dpl_deque (update_pdr mib pv n e) = le_dpl_deque e"
  "le_version (update_pdr mib pv n e) = le_version e"
  "le_ls_pending (update_pdr mib pv n e) = le_ls_pending e"
  "le_is_neighbour (update_pdr mib pv n e) = le_is_neighbour e"
  "le_position_vector (update_pdr mib pv n e) = le_position_vector e"
  "le_tst (update_pdr mib pv n e) = lpv_tst pv"
  by (simp_all add: update_pdr_def Let_def)

lemma update_pdr_nonneg:
  assumes "0 \<le> le_pdr e" "0 \<le> n" "0 \<le> itsGnMaxPacketDataRateEmaBeta mib"
    "itsGnMaxPacketDataRateEmaBeta mib \<le> 100"
  shows "0 \<le> le_pdr (update_pdr mib pv n e)"
  using assms by (simp add: update_pdr_def Let_def)

lemma update_position_vector_ok:
  assumes "entry_ok mib a e" "valid_lpv pv" "lpv_gn_addr pv = a"
  shows "entry_ok mib a (update_position_vector pv e)"
  using assms by (simp add: entry_ok_def dpl_ok_def update_position_vector_def)

lemma entry_ok_flags [simp]:
  "entry_ok mib a (e\<lparr>le_is_neighbour := b\<rparr>) = entry_ok mib a e"
  "entry_ok mib a (e\<lparr>le_ls_pending := b\<rparr>) = entry_ok mib a e"
  "entry_ok mib a (update_pdr mib' pv n e) = entry_ok mib a e"
  by (simp_all add: entry_ok_def dpl_ok_def)

lemma check_duplicate_sn_fields:
  assumes "check_duplicate_sn mib sn e = Inr e'"
  shows "le_position_vector e' = le_position_vector e" "le_ls_pending e' = le_ls_pending e"
    "le_is_neighbour e' = le_is_neighbour e" "le_version e' = le_version e"
    "le_tst e' = le_tst e" "le_pdr e' = le_pdr e"
  using assms by (auto simp: check_duplicate_sn_def split: if_splits list.splits)

lemma check_duplicate_sn_deque:
  assumes "dpl_ok mib e" "check_duplicate_sn mib sn e = Inr e'"
  shows "dpl_ok mib e'" "sn \<in> set (le_dpl_deque e')"
proof -
  have d: "distinct (le_dpl_deque e)" "le_dpl_set e = set (le_dpl_deque e)"
    "length (le_dpl_deque e) \<le> itsGnDPLLength mib"
    using assms(1) by (simp_all add: dpl_ok_def)
  have new: "sn \<notin> set (le_dpl_deque e)"
    using assms(2) d(2) by (auto simp: check_duplicate_sn_def)
  have "dpl_ok mib e' \<and> sn \<in> set (le_dpl_deque e')"
  proof (cases "length (le_dpl_deque e) = itsGnDPLLength mib")
    case True
    then obtain oldest rest where r: "le_dpl_deque e = oldest # rest"
      using assms(2) new d(2) by (cases "le_dpl_deque e") (simp_all add: check_duplicate_sn_def)
    then have "e' = e\<lparr>le_dpl_deque := rest @ [sn], le_dpl_set := insert sn (set rest)\<rparr>"
      using assms(2) True new d by (simp add: check_duplicate_sn_def)
    then show ?thesis using d new r by (simp add: dpl_ok_def)
  next
    case False
    then have "e' = e\<lparr>le_dpl_deque := le_dpl_deque e @ [sn], le_dpl_set := insert sn (le_dpl_set e)\<rparr>"
      using assms(2) new d(2) by (simp add: check_duplicate_sn_def)
    then show ?thesis using d new False by (simp add: dpl_ok_def)
  qed
  then show "dpl_ok mib e'" "sn \<in> set (le_dpl_deque e')" by blast+
qed

lemma check_duplicate_sn_ok:
  "entry_ok mib a e \<Longrightarrow> check_duplicate_sn mib sn e = Inr e' \<Longrightarrow> entry_ok mib a e'"
  using check_duplicate_sn_deque(1) [of mib e sn e']
  by (auto simp: entry_ok_def check_duplicate_sn_fields [of mib sn e e'])

lemma update_with_multi_hop_packet_ok:
  assumes "update_with_multi_hop_packet mib sn pv packet new e = Inr e'"
    "entry_ok mib (lpv_gn_addr pv) e" "valid_lpv pv"
  shows "entry_ok mib (lpv_gn_addr pv) e'"
  using assms(1) check_duplicate_sn_ok [OF assms(2)]
    update_position_vector_ok [OF _ assms(3) refl, of mib]
  unfolding update_with_multi_hop_packet_def rbind_eq_Inr Let_def by auto

lemma update_with_gbc_packet_ok:
  assumes "update_with_gbc_packet mib packet h e = Inr e'"
    "entry_ok mib (lpv_gn_addr (gbc_so_pv h)) e" "valid_lpv (gbc_so_pv h)"
  shows "entry_ok mib (lpv_gn_addr (gbc_so_pv h)) e'"
  using assms(1) check_duplicate_sn_ok [OF assms(2)]
    update_position_vector_ok [OF _ assms(3) refl, of mib]
  unfolding update_with_gbc_packet_def rbind_eq_Inr by auto

lemma update_with_shb_packet_ok:
  assumes "entry_ok mib (lpv_gn_addr pv) e" "valid_lpv pv"
  shows "entry_ok mib (lpv_gn_addr pv) (update_with_shb_packet mib pv packet e)"
  using update_position_vector_ok [OF assms] by (simp add: update_with_shb_packet_def)

section \<open>Duplicate packet detection as an interface\<close>

text \<open>The \<open>n\<close> last elements of a list.\<close>

definition last_n :: "nat \<Rightarrow> 'a list \<Rightarrow> 'a list" where
  "last_n n xs = drop (length xs - n) xs"

lemma last_n_snoc_last_n: "last_n n (last_n n xs @ ys) = last_n n (xs @ ys)"
  by (cases "length xs \<le> n") (simp_all add: last_n_def add.commute)

lemma length_last_n: "length (last_n n xs) = min n (length xs)"
  by (simp add: last_n_def)

text \<open>
  The contract of a duplicate filter over a window of the \<open>n\<close> last accepted numbers: a number
  in the window is refused, any other one is accepted and enters the window.
\<close>

locale duplicate_filter =
  fixes check :: "int \<Rightarrow> 's \<Rightarrow> 's result"
    and window :: "'s \<Rightarrow> int list"
    and ok :: "'s \<Rightarrow> bool"
    and n :: nat
  assumes window_length: "ok s \<Longrightarrow> length (window s) \<le> n"
    and refuse: "ok s \<Longrightarrow> sn \<in> set (window s) \<Longrightarrow> check sn s = Inl DuplicatedPacketException"
    and accept: "ok s \<Longrightarrow> sn \<notin> set (window s)
      \<Longrightarrow> \<exists>s'. check sn s = Inr s' \<and> ok s' \<and> window s' = last_n n (window s @ [sn])"
begin

lemma check_cases:
  assumes "ok s"
  shows "check sn s = Inl DuplicatedPacketException \<and> sn \<in> set (window s)
    \<or> (\<exists>s'. check sn s = Inr s' \<and> ok s' \<and> sn \<notin> set (window s)
        \<and> window s' = last_n n (window s @ [sn]))"
  using refuse [OF assms, of sn] accept [OF assms, of sn] by blast

fun accepted :: "int list \<Rightarrow> 's \<Rightarrow> int list" where
  "accepted [] s = []"
| "accepted (sn # sns) s =
     (case check sn s of Inl _ \<Rightarrow> accepted sns s | Inr s' \<Rightarrow> sn # accepted sns s')"

lemma accepted_window:
  assumes "ok s"
  shows "distinct (last_n n (window s)) \<Longrightarrow> j < length (accepted sns s)
    \<Longrightarrow> accepted sns s ! j \<notin> set (last_n n (window s @ take j (accepted sns s)))"
  using assms
proof (induction sns arbitrary: s j)
  case (Cons sn sns)
  show ?case
  proof (cases "sn \<in> set (window s)")
    case True
    then show ?thesis using Cons refuse by simp
  next
    case False
    then obtain s' where s': "check sn s = Inr s'" "ok s'" "window s' = last_n n (window s @ [sn])"
      using accept Cons.prems(3) by blast
    show ?thesis
    proof (cases j)
      case 0
      then show ?thesis
        using False s' by (auto simp: last_n_def dest: in_set_dropD)
    next
      case (Suc i)
      have "distinct (window s)"
        using Cons.prems(1,3) window_length [of s] by (simp add: last_n_def)
      then have "distinct (last_n n (window s'))"
        using False s' by (simp add: last_n_def del: drop_append)
      then have "accepted sns s' ! i \<notin> set (last_n n (window s' @ take i (accepted sns s')))"
        using Cons.IH [of s' i] Cons.prems(2) s'(1,2) Suc by simp
      then show ?thesis
        using s' Suc last_n_snoc_last_n [of n "window s @ [sn]"] by simp
    qed
  qed
qed simp

text \<open>Two equal accepted numbers are more than \<open>n\<close> acceptances apart.\<close>

lemma accepted_apart:
  assumes "ok s" "distinct (window s)" "i < j" "j < length (accepted sns s)"
    "accepted sns s ! i = accepted sns s ! j"
  shows "n < j - i"
proof (rule ccontr)
  let ?acc = "accepted sns s"
  assume "\<not> n < j - i"
  then have "j - n \<le> i" by simp
  then have "?acc ! i \<in> set (drop (j - n) (take j ?acc))"
    using assms(3,4) by (auto simp: in_set_conv_nth intro!: exI [of _ "i - (j - n)"])
  then have "?acc ! i \<in> set (last_n n (window s @ take j ?acc))"
    using assms(4) by (auto simp: last_n_def drop_append)
  moreover have "distinct (last_n n (window s))"
    using assms(2) by (simp add: last_n_def)
  ultimately show False
    using accepted_window [OF assms(1) _ assms(4)] assms(5) by simp
qed

end

lemma check_duplicate_sn_window:
  assumes "dpl_ok mib e" "0 < itsGnDPLLength mib" "sn \<notin> set (le_dpl_deque e)"
  shows "\<exists>e'. check_duplicate_sn mib sn e = Inr e' \<and> dpl_ok mib e'
    \<and> le_dpl_deque e' = last_n (itsGnDPLLength mib) (le_dpl_deque e @ [sn])"
proof (cases "length (le_dpl_deque e) = itsGnDPLLength mib")
  case True
  then obtain oldest rest where "le_dpl_deque e = oldest # rest"
    using assms(2) by (cases "le_dpl_deque e") auto
  then show ?thesis
    using True assms by (auto simp: check_duplicate_sn_def dpl_ok_def last_n_def)
next
  case False
  then have "length (le_dpl_deque e) < itsGnDPLLength mib" using assms(1) by (simp add: dpl_ok_def)
  then show ?thesis
    using assms by (auto simp: check_duplicate_sn_def dpl_ok_def last_n_def)
qed

text \<open>The entry of the location table is such a filter, as soon as its list has room for one number.\<close>

definition dpl_ready :: "MIB \<Rightarrow> LocationTableEntry \<Rightarrow> bool" where
  "dpl_ready mib e \<longleftrightarrow> dpl_ok mib e \<and> 0 < itsGnDPLLength mib"

interpretation dpl: duplicate_filter "check_duplicate_sn mib" le_dpl_deque "dpl_ready mib"
  "itsGnDPLLength mib" for mib
proof unfold_locales
  show "length (le_dpl_deque e) \<le> itsGnDPLLength mib" if "dpl_ready mib e" for e
    using that by (simp add: dpl_ready_def dpl_ok_def)
  show "check_duplicate_sn mib sn e = Inl DuplicatedPacketException"
    if "dpl_ready mib e" "sn \<in> set (le_dpl_deque e)" for e sn
    using that by (simp add: dpl_ready_def dpl_ok_def check_duplicate_sn_def)
  show "\<exists>e'. check_duplicate_sn mib sn e = Inr e' \<and> dpl_ready mib e'
      \<and> le_dpl_deque e' = last_n (itsGnDPLLength mib) (le_dpl_deque e @ [sn])"
    if "dpl_ready mib e" "sn \<notin> set (le_dpl_deque e)" for e sn
    using check_duplicate_sn_window [of mib e sn] that by (auto simp: dpl_ready_def)
qed

section \<open>What the operations of the table keep\<close>

definition loct_ok :: "MIB \<Rightarrow> loc_table \<Rightarrow> bool" where
  "loct_ok mib t \<longleftrightarrow> dict_ok t \<and> (\<forall>(a, e) \<in> set t. entry_ok mib a e)"

lemma loct_ok_get: "loct_ok mib t \<Longrightarrow> dict_get t a = Some e \<Longrightarrow> entry_ok mib a e"
  by (auto simp: loct_ok_def dest: map_of_SomeD)

lemma loct_ok_iff:
  "loct_ok mib t \<longleftrightarrow> dict_ok t \<and> (\<forall>a e. dict_get t a = Some e \<longrightarrow> entry_ok mib a e)"
  unfolding loct_ok_def
  by (auto simp: dict_ok_def dest: map_of_SomeD)

lemma loct_ok_empty [simp]: "loct_ok mib []"
  by (simp add: loct_ok_def)

lemma loct_ok_set: "loct_ok mib t \<Longrightarrow> entry_ok mib a e \<Longrightarrow> loct_ok mib (dict_set a e t)"
  by (auto simp: loct_ok_iff dict_simps split: if_splits)

lemma loct_ok_filter: "loct_ok mib t \<Longrightarrow> loct_ok mib (dict_filter p t)"
  by (auto simp: loct_ok_def dict_filter_def dict_ok_def distinct_map_filter)

lemma loct_ok_refresh [simp]: "loct_ok mib t \<Longrightarrow> loct_ok mib (refresh_table mib now t)"
  by (simp add: refresh_table_def Let_def loct_ok_filter)

lemma ensure_entry_ok:
  assumes "loct_ok mib t" "ensure_entry mib a t = (e, t')"
  shows "loct_ok mib t'" "entry_ok mib a e" "dict_get t' a = Some e"
  using assms
  by (auto simp: ensure_entry_def loct_ok_set loct_ok_get dict_simps split: option.splits)

lemma set_ls_pending_ok [simp]: "loct_ok mib t \<Longrightarrow> loct_ok mib (set_ls_pending b a t)"
  by (auto simp: set_ls_pending_def loct_ok_set loct_ok_get split: option.splits)

lemma update_entry_ok:
  assumes "loct_ok mib t" "update_entry mib now a upd t = (r, t')"
    and "\<And>new e e'. upd new e = Inr e' \<Longrightarrow> entry_ok mib a e \<Longrightarrow> entry_ok mib a e'"
  shows "loct_ok mib t'"
proof -
  obtain e t1 where e: "ensure_entry mib a t = (e, t1)" by fastforce
  note ok = ensure_entry_ok [OF assms(1) e]
  show ?thesis
  proof (cases "upd (dict_get t a = None) e")
    case (Inl ex)
    then show ?thesis using assms(2) ok by (simp add: update_entry_def e)
  next
    case (Inr e')
    then show ?thesis
      using assms(2) ok assms(3) [OF Inr] by (auto simp: update_entry_def e loct_ok_set)
  qed
qed

lemma new_packet_ok:
  "loct_ok mib t \<Longrightarrow> valid_lpv pv \<Longrightarrow> loct_ok mib (snd (new_shb_packet mib now pv bs t))"
  "loct_ok mib t \<Longrightarrow> valid_guc guc \<Longrightarrow> loct_ok mib (snd (new_guc_packet mib now guc bs t))"
  "loct_ok mib t \<Longrightarrow> valid_tsb tsb \<Longrightarrow> loct_ok mib (snd (new_tsb_packet mib now tsb bs t))"
  "loct_ok mib t \<Longrightarrow> valid_gbc gbc \<Longrightarrow> loct_ok mib (snd (new_gac_packet mib now gbc bs t))"
  "loct_ok mib t \<Longrightarrow> valid_gbc gbc \<Longrightarrow> loct_ok mib (snd (new_gbc_packet mib now gbc bs t))"
  "loct_ok mib t \<Longrightarrow> valid_lsreq q \<Longrightarrow> loct_ok mib (snd (new_ls_request_packet mib now q bs t))"
  "loct_ok mib t \<Longrightarrow> valid_lsrep p \<Longrightarrow> loct_ok mib (snd (new_ls_reply_packet mib now p bs t))"
proof -
  assume ok: "loct_ok mib t"
  show "valid_lpv pv \<Longrightarrow> loct_ok mib (snd (new_shb_packet mib now pv bs t))"
    unfolding new_shb_packet_def
    by (rule update_entry_ok [OF ok surjective_pairing]) (auto intro: update_with_shb_packet_ok)
  show "valid_guc guc \<Longrightarrow> loct_ok mib (snd (new_guc_packet mib now guc bs t))"
    unfolding new_guc_packet_def valid_guc_def
    by (rule update_entry_ok [OF ok surjective_pairing])
      (auto intro: update_with_multi_hop_packet_ok)
  show "valid_tsb tsb \<Longrightarrow> loct_ok mib (snd (new_tsb_packet mib now tsb bs t))"
    unfolding new_tsb_packet_def valid_tsb_def update_with_tsb_packet_def
    by (rule update_entry_ok [OF ok surjective_pairing])
      (auto intro: update_with_multi_hop_packet_ok simp: update_with_tsb_packet_def)
  show "valid_gbc gbc \<Longrightarrow> loct_ok mib (snd (new_gac_packet mib now gbc bs t))"
    unfolding new_gac_packet_def valid_gbc_def
    by (rule update_entry_ok [OF ok surjective_pairing])
      (auto intro: update_with_multi_hop_packet_ok)
  show "valid_gbc gbc \<Longrightarrow> loct_ok mib (snd (new_gbc_packet mib now gbc bs t))"
    unfolding new_gbc_packet_def valid_gbc_def
    by (rule update_entry_ok [OF ok surjective_pairing]) (auto intro: update_with_gbc_packet_ok)
  show "valid_lsreq q \<Longrightarrow> loct_ok mib (snd (new_ls_request_packet mib now q bs t))"
    unfolding new_ls_request_packet_def valid_lsreq_def
    by (rule update_entry_ok [OF ok surjective_pairing])
      (auto intro: update_with_multi_hop_packet_ok)
  show "valid_lsrep p \<Longrightarrow> loct_ok mib (snd (new_ls_reply_packet mib now p bs t))"
    unfolding new_ls_reply_packet_def valid_lsrep_def
    by (rule update_entry_ok [OF ok surjective_pairing])
      (auto intro: update_with_multi_hop_packet_ok)
qed

section \<open>Duplicates, freshness and expiry\<close>

definition seen_sn :: "GNAddress \<Rightarrow> int \<Rightarrow> loc_table \<Rightarrow> bool" where
  "seen_sn a sn t = (case dict_get t a of None \<Rightarrow> False | Some e \<Rightarrow> sn \<in> le_dpl_set e)"

text \<open>A number already seen from an address is refused and leaves the table as it was.\<close>

lemma update_entry_seen:
  assumes "seen_sn a sn t" "\<And>new e. sn \<in> le_dpl_set e \<Longrightarrow> upd new e = Inl DuplicatedPacketException"
  shows "update_entry mib now a upd t = (Inl DuplicatedPacketException, t)"
  using assms by (auto simp: update_entry_def ensure_entry_def seen_sn_def split: option.splits)

lemma duplicate_updates [simp]:
  "sn \<in> le_dpl_set e
    \<Longrightarrow> update_with_multi_hop_packet mib sn pv bs new e = Inl DuplicatedPacketException"
  "gbc_sn h \<in> le_dpl_set e \<Longrightarrow> update_with_gbc_packet mib bs h e = Inl DuplicatedPacketException"
  by (simp_all add: update_with_multi_hop_packet_def update_with_gbc_packet_def
      check_duplicate_sn_def)

lemma new_packet_seen:
  "seen_sn (lpv_gn_addr (guc_so_pv guc)) (guc_sn guc) t
    \<Longrightarrow> new_guc_packet mib now guc bs t = (Inl DuplicatedPacketException, t)"
  "seen_sn (lpv_gn_addr (tsb_so_pv tsb)) (tsb_sn tsb) t
    \<Longrightarrow> new_tsb_packet mib now tsb bs t = (Inl DuplicatedPacketException, t)"
  "seen_sn (lpv_gn_addr (gbc_so_pv gbc)) (gbc_sn gbc) t
    \<Longrightarrow> new_gac_packet mib now gbc bs t = (Inl DuplicatedPacketException, t)"
  "seen_sn (lpv_gn_addr (gbc_so_pv gbc)) (gbc_sn gbc) t
    \<Longrightarrow> new_gbc_packet mib now gbc bs t = (Inl DuplicatedPacketException, t)"
  "seen_sn (lpv_gn_addr (lsreq_so_pv q)) (lsreq_sn q) t
    \<Longrightarrow> new_ls_request_packet mib now q bs t = (Inl DuplicatedPacketException, t)"
  "seen_sn (lpv_gn_addr (lsrep_so_pv p)) (lsrep_sn p) t
    \<Longrightarrow> new_ls_reply_packet mib now p bs t = (Inl DuplicatedPacketException, t)"
  unfolding new_guc_packet_def new_tsb_packet_def new_gac_packet_def new_gbc_packet_def
    new_ls_request_packet_def new_ls_reply_packet_def update_with_tsb_packet_def
  by (erule update_entry_seen; simp)+

text \<open>What a successful update leaves: the updated entry, unless the refresh dropped it.\<close>

definition kept_by_refresh :: "MIB \<Rightarrow> real \<Rightarrow> LocationTableEntry \<Rightarrow> bool" where
  "kept_by_refresh mib now e \<longleftrightarrow>
     tst_sub (tst_set_in_normal_timestamp_seconds (py_int now)) (lpv_tst (le_position_vector e))
       \<le> itsGnLifetimeLocTE mib * 1000"

lemma refresh_get:
  "dict_ok t \<Longrightarrow> dict_get (refresh_table mib now t) a
    = (case dict_get t a of None \<Rightarrow> None | Some e \<Rightarrow> if kept_by_refresh mib now e then Some e else None)"
  by (simp add: refresh_table_def Let_def dict_get_filter kept_by_refresh_def split: option.splits)

definition current_entry :: "MIB \<Rightarrow> GNAddress \<Rightarrow> loc_table \<Rightarrow> LocationTableEntry" where
  "current_entry mib a t = (case dict_get t a of None \<Rightarrow> new_entry mib | Some e \<Rightarrow> e)"

lemma ensure_entry_eq:
  "ensure_entry mib a t
    = (current_entry mib a t, case dict_get t a of None \<Rightarrow> dict_set a (new_entry mib) t | Some _ \<Rightarrow> t)"
  by (simp add: ensure_entry_def current_entry_def split: option.splits)

lemma update_entry_Inr:
  assumes "update_entry mib now a upd t = (Inr u, t')" "dict_ok t"
  obtains e' where "upd (dict_get t a = None) (current_entry mib a t) = Inr e'"
    and "\<And>b. dict_get t' b = (case (if b = a then Some e' else dict_get t b) of
           None \<Rightarrow> None | Some e \<Rightarrow> if kept_by_refresh mib now e then Some e else None)"
proof -
  obtain e' where upd: "upd (dict_get t a = None) (current_entry mib a t) = Inr e'"
    using assms(1) by (auto simp: update_entry_def ensure_entry_eq split: sum.splits)
  let ?t1 = "case dict_get t a of None \<Rightarrow> dict_set a (new_entry mib) t | Some _ \<Rightarrow> t"
  have t': "t' = refresh_table mib now (dict_set a e' ?t1)"
    using assms(1) upd by (simp add: update_entry_def ensure_entry_eq)
  have "dict_ok (dict_set a e' ?t1)" using assms(2) by (simp split: option.splits)
  moreover have "dict_get (dict_set a e' ?t1) b = (if b = a then Some e' else dict_get t b)" for b
    by (simp add: dict_simps split: option.splits)
  ultimately show thesis
    using that [OF upd] by (simp add: t' refresh_get)
qed

lemma update_entry_Inl:
  assumes "update_entry mib now a upd t = (Inl ex, t')"
  shows "upd (dict_get t a = None) (current_entry mib a t) = Inl ex"
    and "t' = (case dict_get t a of None \<Rightarrow> dict_set a (new_entry mib) t | Some _ \<Rightarrow> t)"
  using assms by (auto simp: update_entry_def ensure_entry_eq split: sum.splits)

text \<open>The stored position vector changes only to a newer one, or from the initial one.\<close>

definition newer_pv :: "LongPositionVector \<Rightarrow> LongPositionVector \<Rightarrow> bool" where
  "newer_pv new old \<longleftrightarrow> new = old \<or> msec (lpv_tst old) = 0 \<or> tst_gt (lpv_tst new) (lpv_tst old)"

lemma newer_pv_refl [simp]: "newer_pv v v"
  by (simp add: newer_pv_def)

lemma update_position_vector_newer:
  "newer_pv (le_position_vector (update_position_vector pv e)) (le_position_vector e)"
  by (simp add: update_position_vector_def newer_pv_def)

lemma updates_newer:
  "update_with_multi_hop_packet mib sn pv bs new e = Inr e'
    \<Longrightarrow> newer_pv (le_position_vector e') (le_position_vector e)"
  "update_with_gbc_packet mib bs h e = Inr e'
    \<Longrightarrow> newer_pv (le_position_vector e') (le_position_vector e)"
  "newer_pv (le_position_vector (update_with_shb_packet mib pv bs e)) (le_position_vector e)"
proof -
  note newer = update_position_vector_newer
  have checked: "newer_pv (le_position_vector (update_position_vector pv e1)) (le_position_vector e)"
    if "check_duplicate_sn mib sn e = Inr e1" for e1 sn pv
    using check_duplicate_sn_fields(1) [OF that] newer [of pv e1] by simp
  show "update_with_multi_hop_packet mib sn pv bs new e = Inr e'
      \<Longrightarrow> newer_pv (le_position_vector e') (le_position_vector e)"
    by (auto simp: update_with_multi_hop_packet_def rbind_eq_Inr Let_def checked split: if_splits)
  show "update_with_gbc_packet mib bs h e = Inr e'
      \<Longrightarrow> newer_pv (le_position_vector e') (le_position_vector e)"
    by (auto simp: update_with_gbc_packet_def rbind_eq_Inr checked)
  show "newer_pv (le_position_vector (update_with_shb_packet mib pv bs e)) (le_position_vector e)"
    by (simp add: update_with_shb_packet_def newer)
qed

lemma updates_seen:
  "update_with_multi_hop_packet mib sn pv bs new e = Inr e' \<Longrightarrow> sn \<in> le_dpl_set e'"
  "update_with_gbc_packet mib bs h e = Inr e' \<Longrightarrow> gbc_sn h \<in> le_dpl_set e'"
  by (auto simp: update_with_multi_hop_packet_def update_with_gbc_packet_def rbind_eq_Inr Let_def
      check_duplicate_sn_def split: if_splits list.splits)

lemma update_entry_newer:
  assumes "update_entry mib now a upd t = (r, t')" "dict_ok t"
    and "\<And>new e e'. upd new e = Inr e' \<Longrightarrow> newer_pv (le_position_vector e') (le_position_vector e)"
    and "dict_get t b = Some e" "dict_get t' b = Some e'"
  shows "newer_pv (le_position_vector e') (le_position_vector e)"
proof (cases r)
  case (Inl ex)
  then have "t' = (case dict_get t a of None \<Rightarrow> dict_set a (new_entry mib) t | Some _ \<Rightarrow> t)"
    using update_entry_Inl(2) assms(1) by blast
  then show ?thesis using assms(4,5) by (auto simp: dict_simps split: option.splits if_splits)
next
  case (Inr u)
  then obtain e1 where e1: "upd (dict_get t a = None) (current_entry mib a t) = Inr e1"
    and t': "\<And>b. dict_get t' b = (case (if b = a then Some e1 else dict_get t b) of
           None \<Rightarrow> None | Some e \<Rightarrow> if kept_by_refresh mib now e then Some e else None)"
    using update_entry_Inr assms(1,2) by blast
  show ?thesis
  proof (cases "b = a")
    case True
    then show ?thesis
      using t' [of b] assms(3) [OF e1] assms(4,5) by (simp add: current_entry_def split: if_splits)
  next
    case False
    then show ?thesis using t' [of b] assms(4,5) by (simp split: if_splits)
  qed
qed

lemma update_entry_seen_after:
  assumes "update_entry mib now a upd t = (Inr u, t')" "dict_ok t"
    and "\<And>new e e'. upd new e = Inr e' \<Longrightarrow> sn \<in> le_dpl_set e'"
  shows "seen_sn a sn t' \<or> dict_get t' a = None"
proof -
  obtain e1 where e1: "upd (dict_get t a = None) (current_entry mib a t) = Inr e1"
    and t': "\<And>b. dict_get t' b = (case (if b = a then Some e1 else dict_get t b) of
           None \<Rightarrow> None | Some e \<Rightarrow> if kept_by_refresh mib now e then Some e else None)"
    using update_entry_Inr assms(1,2) by blast
  then show ?thesis using t' [of a] assms(3) [OF e1] by (simp add: seen_sn_def)
qed

lemma new_packet_seen_after:
  "new_guc_packet mib now guc bs t = (Inr u, t') \<Longrightarrow> dict_ok t
    \<Longrightarrow> seen_sn (lpv_gn_addr (guc_so_pv guc)) (guc_sn guc) t'
      \<or> dict_get t' (lpv_gn_addr (guc_so_pv guc)) = None"
  "new_tsb_packet mib now tsb bs t = (Inr u, t') \<Longrightarrow> dict_ok t
    \<Longrightarrow> seen_sn (lpv_gn_addr (tsb_so_pv tsb)) (tsb_sn tsb) t'
      \<or> dict_get t' (lpv_gn_addr (tsb_so_pv tsb)) = None"
  "new_gac_packet mib now gbc bs t = (Inr u, t') \<Longrightarrow> dict_ok t
    \<Longrightarrow> seen_sn (lpv_gn_addr (gbc_so_pv gbc)) (gbc_sn gbc) t'
      \<or> dict_get t' (lpv_gn_addr (gbc_so_pv gbc)) = None"
  "new_gbc_packet mib now gbc bs t = (Inr u, t') \<Longrightarrow> dict_ok t
    \<Longrightarrow> seen_sn (lpv_gn_addr (gbc_so_pv gbc)) (gbc_sn gbc) t'
      \<or> dict_get t' (lpv_gn_addr (gbc_so_pv gbc)) = None"
  unfolding new_guc_packet_def new_tsb_packet_def new_gac_packet_def new_gbc_packet_def
    update_with_tsb_packet_def
  by (erule update_entry_seen_after, assumption, erule updates_seen)+

text \<open>
  The refresh compares millisecond timestamps with the current time cut down to whole
  seconds. A position vector stamped later in the current second then seems almost
  \<open>2 ^ 32\<close> ms old.
\<close>

lemma tst_sub_same_second:
  assumes "0 < ms" "ms < 1000"
    and "(s - ITS_EPOCH + ELAPSED_SECONDS) * 1000 mod 2 ^ 32 + ms < 2 ^ 32"
  shows "tst_sub (tst_set_in_normal_timestamp_seconds s)
      (tst_set_in_normal_timestamp_milliseconds (s * 1000 + ms)) = 2 ^ 32 - ms"
proof -
  let ?c = "(s - ITS_EPOCH + ELAPSED_SECONDS) * 1000"
  have "s * 1000 + ms - ITS_EPOCH_MS + ELAPSED_MILLISECONDS = ?c + ms"
    by (simp add: ITS_EPOCH_MS_def ELAPSED_MILLISECONDS_def)
  then have milli: "tst_set_in_normal_timestamp_milliseconds (s * 1000 + ms)
      = \<lparr>msec = (?c + ms) mod 2 ^ 32\<rparr>"
    by (simp only: tst_set_in_normal_timestamp_milliseconds_def)
  have "(?c + ms) mod 2 ^ 32 = ?c mod 2 ^ 32 + ms"
  proof -
    have "(?c + ms) mod 2 ^ 32 = (?c mod 2 ^ 32 + ms) mod 2 ^ 32" by (simp add: mod_add_left_eq)
    also have "\<dots> = ?c mod 2 ^ 32 + ms" using assms by (intro mod_pos_pos_trivial) simp_all
    finally show ?thesis .
  qed
  then show ?thesis
    unfolding milli tst_set_in_normal_timestamp_seconds_def tst_sub_def Let_def TST.simps
    using assms(1) by simp
qed

end
