(* ===== verification/Sphere.thy ===== *)
theory Sphere
  imports Prelude
begin

text \<open>
  What the code uses of Python's \<open>math\<close> module for distances on the Earth, over the real
  numbers: \<open>radians\<close>, \<open>atan2\<close>, and the haversine distance with the clamp under the root that
  \<open>_haversine_m\<close> (CAM) has and \<open>_haversine_distance\<close> (VRU clustering) does not need here.
\<close>

definition radians :: "real \<Rightarrow> real" where
  "radians x = x * pi / 180"

definition atan2 :: "real \<Rightarrow> real \<Rightarrow> real" where
  "atan2 y x =
     (if x > 0 then arctan (y / x)
      else if x < 0 then (if y \<ge> 0 then arctan (y / x) + pi else arctan (y / x) - pi)
      else if y > 0 then pi / 2
      else if y < 0 then - (pi / 2)
      else 0)"

text \<open>The term \<open>a\<close> of the haversine formula.\<close>

definition haversine_term :: "real \<Rightarrow> real \<Rightarrow> real \<Rightarrow> real \<Rightarrow> real" where
  "haversine_term lat1 lon1 lat2 lon2 =
     (let dlat = radians (lat2 - lat1); dlon = radians (lon2 - lon1)
      in sin (dlat / 2) ^ 2 + cos (radians lat1) * cos (radians lat2) * sin (dlon / 2) ^ 2)"

definition haversine_m :: "real \<Rightarrow> real \<Rightarrow> real \<Rightarrow> real \<Rightarrow> real" where
  "haversine_m lat1 lon1 lat2 lon2 =
     (let a = haversine_term lat1 lon1 lat2 lon2
      in 6371000 * 2 * atan2 (sqrt a) (sqrt (max 0 (1 - a))))"

lemma atan2_nonneg: "0 \<le> y \<Longrightarrow> 0 \<le> x \<Longrightarrow> 0 \<le> atan2 y x"
  by (auto simp: atan2_def zero_le_arctan_iff)

lemma atan2_0 [simp]: "0 \<le> x \<Longrightarrow> atan2 0 x = 0"
  by (simp add: atan2_def)

lemma haversine_term_sym: "haversine_term lat1 lon1 lat2 lon2 = haversine_term lat2 lon2 lat1 lon1"
proof -
  have "sin (radians (x - y) / 2) ^ 2 = sin (radians (y - x) / 2) ^ 2" for x y
  proof -
    have "radians (x - y) / 2 = - (radians (y - x) / 2)" by (simp add: radians_def field_simps)
    then show ?thesis by (simp only: sin_minus power2_minus)
  qed
  then show ?thesis by (simp add: haversine_term_def Let_def ac_simps)
qed

lemma haversine_m_sym: "haversine_m lat1 lon1 lat2 lon2 = haversine_m lat2 lon2 lat1 lon1"
  by (simp add: haversine_m_def haversine_term_sym [of lat1])

lemma haversine_m_self [simp]: "haversine_m lat lon lat lon = 0"
  by (simp add: haversine_m_def haversine_term_def Let_def radians_def)

text \<open>Over the reals the term never exceeds 1, so that the clamp has no effect.\<close>

lemma haversine_term_le_1:
  assumes "\<bar>lat1\<bar> \<le> 90" "\<bar>lat2\<bar> \<le> 90"
  shows "0 \<le> haversine_term lat1 lon1 lat2 lon2" "haversine_term lat1 lon1 lat2 lon2 \<le> 1"
proof -
  let ?p = "radians lat1" and ?q = "radians lat2" and ?s = "sin (radians (lon2 - lon1) / 2) ^ 2"
  have range: "\<bar>radians x\<bar> \<le> pi / 2" if "\<bar>x\<bar> \<le> 90" for x
    using mult_right_mono [OF that, of "pi / 180"] by (simp add: radians_def abs_mult)
  have cos: "0 \<le> cos ?p" "0 \<le> cos ?q"
    using range [OF assms(1)] range [OF assms(2)] by (auto intro!: cos_ge_zero)
  have s: "0 \<le> ?s" "?s \<le> 1" by (simp_all add: abs_square_le_1)
  have diff: "radians (lat2 - lat1) = ?q - ?p" by (simp add: radians_def field_simps)
  have two: "2 * ((?q - ?p) / 2) = ?q - ?p" by simp
  have half: "2 * sin (radians (lat2 - lat1) / 2) ^ 2 = 1 - cos (?q - ?p)"
    using cos_double_sin [of "(?q - ?p) / 2"] unfolding two diff by simp
  have "cos ?p * cos ?q * ?s \<le> cos ?p * cos ?q"
    using cos s by (simp add: mult_left_le)
  moreover have "cos (?q - ?p) + cos (?q + ?p) = 2 * (cos ?p * cos ?q)"
    by (simp add: cos_diff cos_add)
  ultimately show "haversine_term lat1 lon1 lat2 lon2 \<le> 1"
    using half cos_le_one [of "?q + ?p"] unfolding haversine_term_def Let_def by linarith
  show "0 \<le> haversine_term lat1 lon1 lat2 lon2"
    using cos s by (simp add: haversine_term_def Let_def)
qed

end
