(* ===== verification/Geometry.thy ===== *)
theory Geometry
  imports LocationTable Sphere
begin

text \<open>
  The geometry of the router (the static methods of \<open>Router\<close> in
  \<open>src/flexstack/geonet/router.py\<close>): distances on the sphere, the function F with the
  shapes of EN 302 931 as its specification, area sizes, greedy forwarding and the contention
  timer. Python floats are real numbers here; a division by zero raises.
\<close>

section \<open>Distances\<close>

definition EARTH_RADIUS :: real where
  "EARTH_RADIUS = 6371000"

definition calculate_distance :: "real \<times> real \<Rightarrow> real \<times> real \<Rightarrow> real \<times> real" where
  "calculate_distance coord1 coord2 =
     (let lat1 = radians (fst coord1); lon1 = radians (snd coord1);
          lat2 = radians (fst coord2); lon2 = radians (snd coord2);
          dlat = lat2 - lat1; dlon = lon2 - lon1;
          y_distance = EARTH_RADIUS * dlon * cos ((lat1 + lat2) / 2);
          x_distance = (-1) * EARTH_RADIUS * dlat
      in (x_distance, y_distance))"

definition transform_distance_angle :: "real \<times> real \<Rightarrow> int \<Rightarrow> real \<times> real" where
  "transform_distance_angle distance angle =
     (let n_angle = radians (of_int angle)
      in (cos n_angle * fst distance, sin n_angle * snd distance))"

text \<open>Coordinates are in tenths of a microdegree.\<close>

definition coord :: "int \<Rightarrow> int \<Rightarrow> real \<times> real" where
  "coord lat lon = (of_int lat / 10000000, of_int lon / 10000000)"

definition distance_m :: "int \<Rightarrow> int \<Rightarrow> int \<Rightarrow> int \<Rightarrow> real" where
  "distance_m lat1 lon1 lat2 lon2 =
     (let (dx, dy) = calculate_distance (coord lat1 lon1) (coord lat2 lon2)
      in sqrt (dx * dx + dy * dy))"

lemma calculate_distance_self [simp]: "calculate_distance c c = (0, 0)"
  by (simp add: calculate_distance_def Let_def)

lemma distance_m_nonneg [simp]: "0 \<le> distance_m lat1 lon1 lat2 lon2"
  by (simp add: distance_m_def split: prod.splits)

lemma distance_m_self [simp]: "distance_m lat lon lat lon = 0"
  by (simp add: distance_m_def)

lemma distance_m_sym: "distance_m lat1 lon1 lat2 lon2 = distance_m lat2 lon2 lat1 lon1"
proof -
  obtain dx dy where d: "calculate_distance (coord lat1 lon1) (coord lat2 lon2) = (dx, dy)"
    by fastforce
  moreover have "calculate_distance (coord lat2 lon2) (coord lat1 lon1) = (- dx, - dy)"
    using d by (auto simp: calculate_distance_def Let_def algebra_simps)
  ultimately show ?thesis by (simp add: distance_m_def)
qed

section \<open>Areas\<close>

definition circle_types :: "HST list" where
  "circle_types = [GEOBROADCAST_CIRCLE, GEOANYCAST_CIRCLE]"

definition ellipse_types :: "HST list" where
  "ellipse_types = [GEOBROADCAST_ELIP, GEOANYCAST_ELIP]"

definition rectangle_types :: "HST list" where
  "rectangle_types = [GEOBROADCAST_RECT, GEOANYCAST_RECT]"

lemmas area_types = circle_types_def ellipse_types_def rectangle_types_def

definition gn_geometric_function_f :: "HST \<Rightarrow> Area \<Rightarrow> int \<Rightarrow> int \<Rightarrow> real result" where
  "gn_geometric_function_f area_type area lat lon =
     (let (x, y) = calculate_distance (coord (area_latitude area) (area_longitude area))
                     (coord lat lon);
          a = real_of_int (area_a area); b = real_of_int (area_b area)
      in if area_type \<in> set circle_types then
           rbind (py_div x a) (\<lambda>p. rbind (py_div y a) (\<lambda>q. Inr (1 - p ^ 2 - q ^ 2)))
         else if area_type \<in> set ellipse_types then
           rbind (py_div x a) (\<lambda>p. rbind (py_div y b) (\<lambda>q. Inr (1 - p ^ 2 - q ^ 2)))
         else if area_type \<in> set rectangle_types then
           rbind (py_div x a) (\<lambda>p. rbind (py_div y b) (\<lambda>q. Inr (min (1 - p ^ 2) (1 - q ^ 2))))
         else Inl ValueError)"

definition compute_area_size_m2 :: "HST \<Rightarrow> Area \<Rightarrow> real" where
  "compute_area_size_m2 area_type area =
     (let a = real_of_int (area_a area); b = real_of_int (area_b area)
      in if area_type \<in> set circle_types then pi * a ^ 2
         else if area_type \<in> set ellipse_types then pi * a * b
         else 4 * a * b)"

text \<open>
  The points of an area after EN 302 931, independent of the code: metres north and east of the
  centre in the plane that touches the sphere there (east along the parallel half way), then
  along and across the axis of the first length, which points to the azimuth \<open>area_angle\<close> in
  degrees clockwise from north.
\<close>

definition angle_of :: "real \<Rightarrow> real" where
  "angle_of tenths = tenths / 10 ^ 7 * pi / 180"

definition metres_north :: "Area \<Rightarrow> int \<Rightarrow> real" where
  "metres_north area lat = 6371000 * angle_of (of_int lat - of_int (area_latitude area))"

definition metres_east :: "Area \<Rightarrow> int \<Rightarrow> int \<Rightarrow> real" where
  "metres_east area lat lon =
     6371000 * cos (angle_of ((of_int lat + of_int (area_latitude area)) / 2))
       * angle_of (of_int lon - of_int (area_longitude area))"

definition in_axes :: "real \<Rightarrow> real \<times> real \<Rightarrow> real \<times> real" where
  "in_axes \<theta> p = (fst p * cos \<theta> + snd p * sin \<theta>, snd p * cos \<theta> - fst p * sin \<theta>)"

definition inside_area :: "HST \<Rightarrow> Area \<Rightarrow> int \<Rightarrow> int \<Rightarrow> bool" where
  "inside_area area_type area lat lon \<longleftrightarrow>
     (let (u, v) = in_axes (of_int (area_angle area) * pi / 180) (metres_north area lat, metres_east area lat lon);
          a = real_of_int (area_a area); b = real_of_int (area_b area)
      in if area_type \<in> set circle_types then sqrt (u ^ 2 + v ^ 2) \<le> a
         else if area_type \<in> set ellipse_types then u ^ 2 / a ^ 2 + v ^ 2 / b ^ 2 \<le> 1
         else \<bar>u\<bar> \<le> a \<and> \<bar>v\<bar> \<le> b)"

text \<open>The same area turned so that its first length points north.\<close>

definition north_up :: "Area \<Rightarrow> Area" where
  "north_up area = area\<lparr>area_angle := 0\<rparr>"

lemma north_up_simps [simp]:
  "area_latitude (north_up area) = area_latitude area" "area_longitude (north_up area) = area_longitude area"
  "area_a (north_up area) = area_a area" "area_b (north_up area) = area_b area" "area_angle (north_up area) = 0"
  "metres_north (north_up area) lat = metres_north area lat"
  "metres_east (north_up area) lat lon = metres_east area lat lon"
  by (simp_all add: north_up_def metres_north_def metres_east_def)

lemma north_up_id: "area_angle area = 0 \<Longrightarrow> north_up area = area"
  by (simp add: north_up_def)

lemma in_axes_0 [simp]: "in_axes 0 p = p"
  by (simp add: in_axes_def)

text \<open>Turning keeps the distance from the centre, so a circle is the same at every angle.\<close>

lemma in_axes_norm: "fst (in_axes \<theta> p) ^ 2 + snd (in_axes \<theta> p) ^ 2 = fst p ^ 2 + snd p ^ 2"
proof -
  have "fst (in_axes \<theta> p) ^ 2 + snd (in_axes \<theta> p) ^ 2
      = (fst p ^ 2 + snd p ^ 2) * (sin \<theta> ^ 2 + cos \<theta> ^ 2)"
    unfolding in_axes_def fst_conv snd_conv by algebra
  then show ?thesis by simp
qed

lemma inside_circle:
  "area_type \<in> set circle_types \<Longrightarrow> inside_area area_type area lat lon
    \<longleftrightarrow> sqrt (metres_north area lat ^ 2 + metres_east area lat lon ^ 2) \<le> area_a area"
  by (simp add: inside_area_def in_axes_norm split_beta)

lemma inside_circle_north_up:
  "area_type \<in> set circle_types \<Longrightarrow> inside_area area_type (north_up area) lat lon \<longleftrightarrow> inside_area area_type area lat lon"
  by (simp add: inside_circle)

lemma centre_metres [simp]:
  "metres_north area (area_latitude area) = 0" "metres_east area lat (area_longitude area) = 0"
  by (simp_all add: metres_north_def metres_east_def angle_of_def)

lemma inside_centre:
  assumes "0 \<le> area_a area" "0 \<le> area_b area"
  shows "inside_area area_type area (area_latitude area) (area_longitude area)"
  using assms by (simp add: inside_area_def in_axes_def)

text \<open>The distances of the code are these metres, with the first one towards the south.\<close>

lemma calculate_distance_metres:
  "calculate_distance (coord (area_latitude area) (area_longitude area)) (coord lat lon)
    = (- metres_north area lat, metres_east area lat lon)"
  by (simp add: calculate_distance_def coord_def radians_def metres_north_def metres_east_def angle_of_def
      EARTH_RADIUS_def Let_def field_simps)

text \<open>An area whose function F has a value: the lengths its shape uses are positive.\<close>

definition has_extent :: "HST \<Rightarrow> Area \<Rightarrow> bool" where
  "has_extent area_type area \<longleftrightarrow> 0 < area_a area \<and> (area_type \<in> set circle_types \<or> 0 < area_b area)"

lemma sq_div_le_1:
  fixes x a :: real
  assumes "0 < a"
  shows "(x / a) ^ 2 \<le> 1 \<longleftrightarrow> \<bar>x\<bar> \<le> a"
  using assms abs_square_le_1 [of "x / a"] by (simp add: abs_divide)

lemma circle_le:
  fixes x y a :: real
  assumes "0 < a"
  shows "0 \<le> 1 - (x / a) ^ 2 - (y / a) ^ 2 \<longleftrightarrow> sqrt (x ^ 2 + y ^ 2) \<le> a"
proof -
  have "0 \<le> 1 - (x / a) ^ 2 - (y / a) ^ 2 \<longleftrightarrow> (x ^ 2 + y ^ 2) / a ^ 2 \<le> 1"
    by (simp add: power_divide add_divide_distrib algebra_simps)
  also have "\<dots> \<longleftrightarrow> x ^ 2 + y ^ 2 \<le> a ^ 2" using assms by simp
  also have "\<dots> \<longleftrightarrow> sqrt (x ^ 2 + y ^ 2) \<le> a"
    using assms real_sqrt_le_iff [of "x ^ 2 + y ^ 2" "a ^ 2"] by simp
  finally show ?thesis .
qed

definition is_area_type :: "HST \<Rightarrow> bool" where
  "is_area_type hst \<longleftrightarrow> hst \<in> set circle_types \<union> set ellipse_types \<union> set rectangle_types"

lemma geometric_function_inside:
  assumes "has_extent area_type area" "is_area_type area_type"
  shows "\<exists>f. gn_geometric_function_f area_type area lat lon = Inr f
    \<and> (0 \<le> f \<longleftrightarrow> inside_area area_type (north_up area) lat lon)"
proof -
  let ?x = "metres_north area lat" and ?y = "metres_east area lat lon"
  let ?a = "real_of_int (area_a area)" and ?b = "real_of_int (area_b area)"
  have a: "0 < ?a" using assms(1) by (simp add: has_extent_def)
  consider (circle) "area_type \<in> set circle_types"
    | (ellipse) "area_type \<notin> set circle_types" "area_type \<in> set ellipse_types"
    | (rect) "area_type \<notin> set circle_types" "area_type \<notin> set ellipse_types"
        "area_type \<in> set rectangle_types"
    using assms(2) unfolding is_area_type_def by blast
  then show ?thesis
  proof cases
    case circle
    then show ?thesis
      using a circle_le [OF a, of ?x ?y]
      by (simp add: gn_geometric_function_f_def calculate_distance_metres inside_circle py_div_def Let_def)
  next
    case ellipse
    then have "0 < ?b" using assms(1) by (simp add: has_extent_def)
    then show ?thesis
      using a ellipse
      by (auto simp: gn_geometric_function_f_def calculate_distance_metres inside_area_def py_div_def Let_def
          power_divide)
  next
    case rect
    then have b: "0 < ?b" using assms(1) by (simp add: has_extent_def)
    then show ?thesis
      using a rect sq_div_le_1 [OF a, of ?x] sq_div_le_1 [OF b, of ?y]
      by (simp add: gn_geometric_function_f_def calculate_distance_metres inside_area_def py_div_def Let_def)
  qed
qed

text \<open>An area without extent, such as the default one, has no function value at all.\<close>

lemma geometric_function_zero:
  assumes "0 \<le> area_a area" "0 \<le> area_b area" "\<not> has_extent area_type area" "is_area_type area_type"
  shows "gn_geometric_function_f area_type area lat lon = Inl ZeroDivisionError"
  using assms
  by (auto simp: gn_geometric_function_f_def py_div_def Let_def has_extent_def is_area_type_def order_less_le
      split: prod.splits)

lemma geometric_function_centre:
  assumes "has_extent area_type area" "is_area_type area_type"
  shows "gn_geometric_function_f area_type area (area_latitude area) (area_longitude area) = Inr 1"
  using assms
  by (auto simp: gn_geometric_function_f_def py_div_def Let_def has_extent_def is_area_type_def)

text \<open>The angle of an area plays no part.\<close>

lemma geometric_function_angle:
  "gn_geometric_function_f area_type (area\<lparr>area_angle := n\<rparr>) lat lon
    = gn_geometric_function_f area_type area lat lon"
  by (simp add: gn_geometric_function_f_def)

text \<open>
  So a point due east of the centre lies outside of a long area that points east, as F sees it.
\<close>

lemma in_axes_east: "in_axes (pi / 2) (0, y) = (y, 0)"
  by (simp add: in_axes_def)

lemma turned_area_misjudged:
  assumes "is_area_type area_type" "area_type \<notin> set circle_types" "area_angle area = 90" "0 < area_b area"
    and "of_int (area_b area) < \<bar>metres_east area (area_latitude area) lon\<bar>"
    and "\<bar>metres_east area (area_latitude area) lon\<bar> \<le> of_int (area_a area)"
  shows "inside_area area_type area (area_latitude area) lon"
    and "\<exists>f<0. gn_geometric_function_f area_type area (area_latitude area) lon = Inr f"
proof -
  let ?y = "metres_east area (area_latitude area) lon"
  let ?a = "real_of_int (area_a area)" and ?b = "real_of_int (area_b area)"
  have ab: "0 < ?a" "0 < ?b" using assms(4-6) by linarith+
  have "(?y / ?a) ^ 2 \<le> 1" using sq_div_le_1 [OF ab(1)] assms(6) by simp
  then show "inside_area area_type area (area_latitude area) lon"
    using assms(2,3,6) ab by (simp add: inside_area_def in_axes_east power_divide)
  have "has_extent area_type area" using ab assms(2) by (simp add: has_extent_def)
  moreover have "\<not> (?y / ?b) ^ 2 \<le> 1" using sq_div_le_1 [OF ab(2)] assms(5) by simp
  then have "\<not> inside_area area_type (north_up area) (area_latitude area) lon"
    using assms(2,5) by (simp add: inside_area_def power_divide)
  ultimately show "\<exists>f<0. gn_geometric_function_f area_type area (area_latitude area) lon = Inr f"
    using geometric_function_inside [OF _ assms(1), of area "area_latitude area" lon] by (auto simp: not_le)
qed

text \<open>The rectangle of an ellipse's half axes contains it, at every angle.\<close>

lemma ellipse_inside_rectangle:
  assumes "0 < area_a area" "0 < area_b area" "inside_area GEOBROADCAST_ELIP area lat lon"
  shows "inside_area GEOBROADCAST_RECT area lat lon"
proof -
  obtain x y where xy: "in_axes (of_int (area_angle area) * pi / 180)
      (metres_north area lat, metres_east area lat lon) = (x, y)" by fastforce
  let ?a = "real_of_int (area_a area)" and ?b = "real_of_int (area_b area)"
  have "(x / ?a) ^ 2 + (y / ?b) ^ 2 \<le> 1"
    using assms(3) xy by (simp add: inside_area_def area_types power_divide)
  then have "(x / ?a) ^ 2 \<le> 1" "(y / ?b) ^ 2 \<le> 1"
    using zero_le_power2 [of "x / ?a"] zero_le_power2 [of "y / ?b"] by linarith+
  then show ?thesis
    using assms(1,2) sq_div_le_1 [of ?a x] sq_div_le_1 [of ?b y] xy
    by (simp add: inside_area_def area_types)
qed

section \<open>Greedy forwarding\<close>

text \<open>The loop over the neighbours, with its two variables \<open>mfr\<close> and \<open>progress_found\<close>.\<close>

fun greedy_scan :: "int \<Rightarrow> int \<Rightarrow> LocationTableEntry list \<Rightarrow> real \<Rightarrow> bool \<Rightarrow> real \<times> bool" where
  "greedy_scan dest_lat dest_lon [] mfr progress_found = (mfr, progress_found)"
| "greedy_scan dest_lat dest_lon (entry # entries) mfr progress_found =
     (let pv = le_position_vector entry;
          d = distance_m dest_lat dest_lon (lpv_latitude pv) (lpv_longitude pv)
      in if d < mfr then greedy_scan dest_lat dest_lon entries d True
         else greedy_scan dest_lat dest_lon entries mfr progress_found)"

definition gn_greedy_forwarding ::
    "LongPositionVector \<Rightarrow> loc_table \<Rightarrow> int \<Rightarrow> int \<Rightarrow> TrafficClass \<Rightarrow> bool" where
  "gn_greedy_forwarding ego t dest_lat dest_lon traffic_class =
     (let mfr = distance_m dest_lat dest_lon (lpv_latitude ego) (lpv_longitude ego);
          (_, progress_found) = greedy_scan dest_lat dest_lon (get_neighbours t) mfr False
      in if progress_found then True
         else if tc_scf traffic_class then False
         else True)"

definition dist_to :: "int \<Rightarrow> int \<Rightarrow> LongPositionVector \<Rightarrow> real" where
  "dist_to lat lon pv = distance_m lat lon (lpv_latitude pv) (lpv_longitude pv)"

lemma greedy_scan_progress:
  "snd (greedy_scan lat lon es mfr p) \<longleftrightarrow>
     p \<or> (\<exists>e \<in> set es. dist_to lat lon (le_position_vector e) < mfr)"
  by (induction es arbitrary: mfr p) (auto simp: Let_def dist_to_def)

lemma greedy_scan_mfr:
  "fst (greedy_scan lat lon es mfr p) =
     Min (insert mfr ((\<lambda>e. dist_to lat lon (le_position_vector e)) ` set es))"
proof (induction es arbitrary: mfr p)
  case (Cons e es)
  let ?d = "dist_to lat lon (le_position_vector e)"
  let ?D = "(\<lambda>e. dist_to lat lon (le_position_vector e)) ` set es"
  have "Min (insert mfr (insert ?d ?D)) = min (min mfr ?d) (Min (insert mfr ?D))"
    by (cases "?D = {}") (simp_all add: min.assoc min.left_commute)
  moreover have "Min (insert ?d ?D) = (if ?D = {} then ?d else min ?d (Min ?D))" by simp
  ultimately show ?case
    using Cons.IH by (cases "?D = {}") (auto simp: Let_def dist_to_def [symmetric] min_def)
qed simp

lemma greedy_iff:
  "gn_greedy_forwarding ego t lat lon tc \<longleftrightarrow>
     (\<exists>e \<in> set (get_neighbours t). dist_to lat lon (le_position_vector e) < dist_to lat lon ego)
     \<or> \<not> tc_scf tc"
  using greedy_scan_progress [of lat lon "get_neighbours t" "dist_to lat lon ego" False]
  by (auto simp: gn_greedy_forwarding_def dist_to_def split: prod.splits)

section \<open>The contention timer\<close>

definition cbf_compute_timeout_ms :: "MIB \<Rightarrow> real \<Rightarrow> real result" where
  "cbf_compute_timeout_ms mib dist_m =
     (let dist_max = real_of_int (itsGnDefaultMaxCommunicationRange mib);
          to_min = real_of_int (itsGnCbfMinTime mib);
          to_max = real_of_int (itsGnCbfMaxTime mib)
      in if dist_m \<ge> dist_max then Inr to_min
         else rbind (py_div (to_min - to_max) dist_max) (\<lambda>k. Inr (to_max + k * dist_m)))"

definition cbf_timeout_value :: "MIB \<Rightarrow> real \<Rightarrow> real" where
  "cbf_timeout_value mib d =
     (if real_of_int (itsGnDefaultMaxCommunicationRange mib) \<le> d
      then of_int (itsGnCbfMinTime mib)
      else of_int (itsGnCbfMaxTime mib)
        + (of_int (itsGnCbfMinTime mib) - of_int (itsGnCbfMaxTime mib))
          / of_int (itsGnDefaultMaxCommunicationRange mib) * d)"

lemma cbf_timeout_eq:
  "0 \<le> d \<Longrightarrow> cbf_compute_timeout_ms mib d = Inr (cbf_timeout_value mib d)"
  by (simp add: cbf_compute_timeout_ms_def cbf_timeout_value_def Let_def py_div_def)

lemma cbf_timeout_antitone:
  assumes "itsGnCbfMinTime mib \<le> itsGnCbfMaxTime mib" "0 \<le> d" "d \<le> d'"
  shows "cbf_timeout_value mib d' \<le> cbf_timeout_value mib d"
proof -
  let ?r = "real_of_int (itsGnDefaultMaxCommunicationRange mib)"
  let ?lo = "real_of_int (itsGnCbfMinTime mib)" and ?hi = "real_of_int (itsGnCbfMaxTime mib)"
  have k: "?lo - ?hi \<le> 0" using assms(1) by simp
  show ?thesis
  proof (cases "?r \<le> d")
    case True
    then show ?thesis using assms(3) by (simp add: cbf_timeout_value_def)
  next
    case False
    then have r: "0 < ?r" using assms(2) by linarith
    have slope: "(?lo - ?hi) / ?r * d2 \<le> (?lo - ?hi) / ?r * d1" if "d1 \<le> d2" for d1 d2
      using that k r by (intro mult_left_mono_neg) (simp_all add: divide_nonpos_pos)
    show ?thesis
    proof (cases "?r \<le> d'")
      case True
      then show ?thesis
        using slope [of d ?r] False r by (simp add: cbf_timeout_value_def)
    next
      case False
      then show ?thesis
        using slope [OF assms(3)] \<open>\<not> ?r \<le> d\<close> by (simp add: cbf_timeout_value_def)
    qed
  qed
qed

lemma cbf_timeout_bounds:
  assumes "itsGnCbfMinTime mib \<le> itsGnCbfMaxTime mib" "0 \<le> d"
  shows "of_int (itsGnCbfMinTime mib) \<le> cbf_timeout_value mib d"
    and "cbf_timeout_value mib d \<le> of_int (itsGnCbfMaxTime mib)"
proof -
  let ?r = "real_of_int (itsGnDefaultMaxCommunicationRange mib)"
  show "of_int (itsGnCbfMinTime mib) \<le> cbf_timeout_value mib d"
    using cbf_timeout_antitone [OF assms(1,2), of "max d ?r"]
    by (simp add: cbf_timeout_value_def [of _ "max d ?r"])
  have "cbf_timeout_value mib 0 \<le> of_int (itsGnCbfMaxTime mib)"
    using assms(1) by (simp add: cbf_timeout_value_def)
  then show "cbf_timeout_value mib d \<le> of_int (itsGnCbfMaxTime mib)"
    using cbf_timeout_antitone [OF assms(1) order_refl assms(2)] by linarith
qed

end
