(* ===== verification/StateResult.thy ===== *)
theory StateResult
  imports Prelude
begin

text \<open>
  Methods that read and change an object and may raise: functions from a state to a result
  and the state left behind. An exception does not undo what was done before it. A property
  of all runs of a method is a relation between the states before and after it; the locale
  \<open>step_rel\<close> proves it along the structure of the code.
\<close>

type_synonym ('s, 'a) prog = "'s \<Rightarrow> 'a result \<times> 's"

definition return_s :: "'a \<Rightarrow> ('s, 'a) prog" where
  "return_s x s = (Inr x, s)"

definition raise_s :: "py_error \<Rightarrow> ('s, 'a) prog" where
  "raise_s e s = (Inl e, s)"

definition bind_s :: "('s, 'a) prog \<Rightarrow> ('a \<Rightarrow> ('s, 'b) prog) \<Rightarrow> ('s, 'b) prog" where
  "bind_s m f s = (case m s of (Inl e, s') \<Rightarrow> (Inl e, s') | (Inr x, s') \<Rightarrow> f x s')"

definition then_s :: "('s, 'a) prog \<Rightarrow> ('s, 'b) prog \<Rightarrow> ('s, 'b) prog" where
  "then_s m m' = bind_s m (\<lambda>_. m')"

definition gets_s :: "('s \<Rightarrow> 'a) \<Rightarrow> ('s, 'a) prog" where
  "gets_s f s = (Inr (f s), s)"

definition modify_s :: "('s \<Rightarrow> 's) \<Rightarrow> ('s, unit) prog" where
  "modify_s f s = (Inr (), f s)"

text \<open>A computation that may raise but does not touch the state.\<close>

definition lift_s :: "'a result \<Rightarrow> ('s, 'a) prog" where
  "lift_s r s = (r, s)"

text \<open>\<open>try: m except e: h e\<close>, where \<open>h\<close> raises again what it does not handle.\<close>

definition catch_s :: "('s, 'a) prog \<Rightarrow> (py_error \<Rightarrow> ('s, 'a) prog) \<Rightarrow> ('s, 'a) prog" where
  "catch_s m h s = (case m s of (Inl e, s') \<Rightarrow> h e s' | (Inr x, s') \<Rightarrow> (Inr x, s'))"

text \<open>\<open>for x in xs: f x\<close>.\<close>

fun for_each_s :: "'a list \<Rightarrow> ('a \<Rightarrow> ('s, 'b) prog) \<Rightarrow> ('s, unit) prog" where
  "for_each_s [] f = return_s ()"
| "for_each_s (x # xs) f = then_s (f x) (for_each_s xs f)"

named_theorems run_simps \<open>running a method on a state\<close>

lemma run_basic [run_simps, simp]:
  "return_s x s = (Inr x, s)"
  "raise_s e s = (Inl e, s)"
  "gets_s f s = (Inr (f s), s)"
  "modify_s g s = (Inr (), g s)"
  "lift_s r s = (r, s)"
  by (simp_all add: return_s_def raise_s_def gets_s_def modify_s_def lift_s_def)

lemma run_bind [run_simps]:
  "m s = (Inr x, s') \<Longrightarrow> bind_s m f s = f x s'"
  "m s = (Inl e, s') \<Longrightarrow> bind_s m f s = (Inl e, s')"
  "m s = (Inr x, s') \<Longrightarrow> then_s m m' s = m' s'"
  "m s = (Inl e, s') \<Longrightarrow> then_s m m' s = (Inl e, s')"
  by (simp_all add: bind_s_def then_s_def)

lemma run_catch [run_simps]:
  "m s = (Inr x, s') \<Longrightarrow> catch_s m h s = (Inr x, s')"
  "m s = (Inl e, s') \<Longrightarrow> catch_s m h s = h e s'"
  by (simp_all add: catch_s_def)

lemma run_lift_bind [simp]:
  "bind_s (lift_s (Inr x)) f = f x"
  "bind_s (lift_s (Inl e)) f = raise_s e"
  "bind_s (return_s x) f = f x"
  "bind_s (raise_s e) f = raise_s e"
  by (simp_all add: fun_eq_iff bind_s_def)

lemma run_gets_bind [simp]: "bind_s (gets_s g) f s = f (g s) s"
  by (simp add: bind_s_def)

lemma run_modify_then [simp]: "then_s (modify_s g) m s = m (g s)"
  by (simp add: then_s_def bind_s_def)

lemma bind_s_Inr:
  "bind_s m f s = (Inr y, t) \<longleftrightarrow> (\<exists>x s'. m s = (Inr x, s') \<and> f x s' = (Inr y, t))"
  by (auto simp: bind_s_def split: prod.splits sum.splits)

section \<open>Relations between the states before and after\<close>

definition obeys :: "('s \<Rightarrow> 's \<Rightarrow> bool) \<Rightarrow> ('s, 'a) prog \<Rightarrow> bool" where
  "obeys R m \<longleftrightarrow> (\<forall>s. R s (snd (m s)))"

lemma obeysD: "obeys R m \<Longrightarrow> m s = (r, s') \<Longrightarrow> R s s'"
  unfolding obeys_def by (metis snd_conv)

lemma obeysI: "(\<And>s r s'. m s = (r, s') \<Longrightarrow> R s s') \<Longrightarrow> obeys R m"
  unfolding obeys_def by (metis surjective_pairing)

text \<open>
  A reflexive and transitive relation holds over a whole method as soon as it holds over
  its state changes.
\<close>

locale step_rel =
  fixes R :: "'s \<Rightarrow> 's \<Rightarrow> bool"
  assumes R_refl: "R s s"
    and R_trans: "R s t \<Longrightarrow> R t u \<Longrightarrow> R s u"
begin

lemma obeys_pure [intro]:
  "obeys R (return_s x)"
  "obeys R (raise_s e)"
  "obeys R (gets_s f)"
  "obeys R (lift_s r)"
  by (simp_all add: obeys_def R_refl)

lemma obeys_modify: "(\<And>s. R s (g s)) \<Longrightarrow> obeys R (modify_s g)"
  by (simp add: obeys_def)

lemma obeys_bind:
  assumes "obeys R m" "\<And>x. obeys R (f x)"
  shows "obeys R (bind_s m f)"
proof (rule obeysI)
  fix s r u
  assume run: "bind_s m f s = (r, u)"
  obtain r' t where m: "m s = (r', t)" by fastforce
  then have "R s t" using assms(1) by (rule obeysD [rotated])
  moreover have "R t u"
  proof (cases r')
    case (Inl e)
    then show ?thesis using run m R_refl by (simp add: bind_s_def)
  next
    case (Inr x)
    then have "f x t = (r, u)" using run m by (simp add: bind_s_def)
    then show ?thesis by (rule obeysD [OF assms(2)])
  qed
  ultimately show "R s u" by (rule R_trans)
qed

lemma obeys_then:
  "obeys R m \<Longrightarrow> obeys R m' \<Longrightarrow> obeys R (then_s m m')"
  by (simp add: then_s_def obeys_bind)

lemma obeys_lift_bind:
  "(\<And>x. r = Inr x \<Longrightarrow> obeys R (f x)) \<Longrightarrow> obeys R (bind_s (lift_s r) f)"
  by (cases r) (auto simp: obeys_pure)

lemma obeys_gets_bind:
  "(\<And>s. R s (snd (f (g s) s))) \<Longrightarrow> obeys R (bind_s (gets_s g) f)"
  by (simp add: obeys_def)

lemma obeys_catch:
  assumes "obeys R m" "\<And>e. obeys R (h e)"
  shows "obeys R (catch_s m h)"
proof (rule obeysI)
  fix s r u
  assume run: "catch_s m h s = (r, u)"
  obtain r' t where m: "m s = (r', t)" by fastforce
  then have "R s t" using assms(1) by (rule obeysD [rotated])
  moreover have "R t u"
  proof (cases r')
    case (Inl e)
    then have "h e t = (r, u)" using run m by (simp add: catch_s_def)
    then show ?thesis by (rule obeysD [OF assms(2)])
  next
    case (Inr x)
    then show ?thesis using run m R_refl by (simp add: catch_s_def)
  qed
  ultimately show "R s u" by (rule R_trans)
qed

lemma obeys_for_each: "(\<And>x. x \<in> set xs \<Longrightarrow> obeys R (f x)) \<Longrightarrow> obeys R (for_each_s xs f)"
  by (induction xs) (auto intro: obeys_then obeys_pure)

lemma obeys_if: "(b \<Longrightarrow> obeys R m) \<Longrightarrow> (\<not> b \<Longrightarrow> obeys R m') \<Longrightarrow> obeys R (if b then m else m')"
  by simp

lemma obeys_case_option:
  "(v = None \<Longrightarrow> obeys R m) \<Longrightarrow> (\<And>x. v = Some x \<Longrightarrow> obeys R (f x))
    \<Longrightarrow> obeys R (case v of None \<Rightarrow> m | Some x \<Rightarrow> f x)"
  by (cases v) auto

lemmas obeys_rules =
  obeys_pure obeys_bind obeys_then obeys_catch obeys_for_each obeys_if
  obeys_case_option

end

text \<open>An invariant is such a relation.\<close>

definition keeps_rel :: "('s \<Rightarrow> bool) \<Rightarrow> 's \<Rightarrow> 's \<Rightarrow> bool" where
  "keeps_rel I s s' \<longleftrightarrow> (I s \<longrightarrow> I s')"

interpretation keeps: step_rel "keeps_rel I" for I
  by unfold_locales (auto simp: keeps_rel_def)

abbreviation keeps :: "('s \<Rightarrow> bool) \<Rightarrow> ('s, 'a) prog \<Rightarrow> bool" where
  "keeps I m \<equiv> obeys (keeps_rel I) m"

lemma keepsD: "keeps I m \<Longrightarrow> I s \<Longrightarrow> m s = (r, s') \<Longrightarrow> I s'"
  using obeysD [of "keeps_rel I" m s r s'] by (simp add: keeps_rel_def)

lemma keepsI: "(\<And>s r s'. I s \<Longrightarrow> m s = (r, s') \<Longrightarrow> I s') \<Longrightarrow> keeps I m"
  by (rule obeysI) (auto simp: keeps_rel_def)

lemma keeps_modify: "(\<And>s. I s \<Longrightarrow> I (g s)) \<Longrightarrow> keeps I (modify_s g)"
  by (rule keeps.obeys_modify) (simp add: keeps_rel_def)

text \<open>What is read from a state that satisfies the invariant may be used in what follows.\<close>

lemma keeps_gets_bind:
  assumes "\<And>s x. I s \<Longrightarrow> x = g s \<Longrightarrow> keeps I (f x)"
  shows "keeps I (bind_s (gets_s g) f)"
proof (rule keepsI)
  fix s r s'
  assume "I s" "bind_s (gets_s g) f s = (r, s')"
  then show "I s'" using keepsD [OF assms [OF \<open>I s\<close> refl] \<open>I s\<close>] by simp
qed

end
