(* ===== verification/RouterState.thy ===== *)
theory RouterState
  imports BasicHeader CommonHeader Geometry StateResult
begin

text \<open>
  The state of \<open>Router\<close> (\<open>src/flexstack/geonet/router.py\<close>) and its small operations. What
  the router talks to is a parameter held in the state: the link layer and the sign and
  verify services are functions from the number of the call to its outcome, so that they may
  answer differently every time. \<open>r_sent\<close> and \<open>r_indications\<close> record, in order, the packets
  the link layer accepted and the indications passed to the registered callback. A
  \<open>threading.Timer\<close> is an entry of \<open>r_timers\<close> with its deadline and what its callback is to
  do; the beacon thread is the field \<open>r_beacon_thread\<close>, where it stands in its loop.
\<close>

section \<open>State\<close>

record SNSIGNRequest =
  tbs_message_length :: int
  tbs_message :: bytes
  sn_its_aid :: int
  permissions_length :: int
  permissions :: bytes
  context_information :: "bytes option"
  key_handle :: "int option"
  generation_location :: "(int \<times> int \<times> int) option"

record sign_service =
  sign_cam :: "nat \<Rightarrow> SNSIGNRequest \<Rightarrow> bytes result"
  sign_request :: "nat \<Rightarrow> SNSIGNRequest \<Rightarrow> bytes result"
  sign_denm :: "nat \<Rightarrow> SNSIGNRequest \<Rightarrow> bytes result"

datatype ReportVerify =
    SUCCESS | FALSE_SIGNATURE | INVALID_CERTIFICATE | REVOKED_CERTIFICATE | INCONSISTENT_CHAIN
  | INVALID_TIMESTAMP | DUPLICATE_MESSAGE | INVALID_MOBILITY_DATA | UNSIGNED_MESSAGE
  | SIGNER_CERTIFICATE_NOT_FOUND | UNSUPPORTED_SIGNER_IDENTIFIER_TYPE | INCOMPATIBLE_PROTOCOL

record SNVERIFYConfirm =
  vc_report :: ReportVerify
  vc_certificate_id :: bytes
  vc_its_aid_length :: int
  vc_its_aid :: bytes
  vc_permissions :: bytes
  vc_plain_message :: bytes

type_synonym cbf_key = "GNAddress \<times> int"

datatype timer_action = CBF_TIMEOUT cbf_key bytes | LS_RETRANSMIT GNAddress

text \<open>
  The beacon thread: not running, about to send a beacon, or waiting for its event with a
  timeout and a deadline (in seconds).
\<close>

datatype beacon_thread = BT_NONE | BT_SEND | BT_WAIT real real

record router =
  r_mib :: MIB
  r_ego_position_vector :: LongPositionVector
  r_link_layer :: "(nat \<Rightarrow> bytes \<Rightarrow> unit result) option"
  r_ll_calls :: nat
  r_sent :: "bytes list"
  r_location_table :: loc_table
  r_sign_service :: "sign_service option"
  r_verify_service :: "(nat \<Rightarrow> bytes \<Rightarrow> SNVERIFYConfirm result) option"
  r_sec_calls :: nat
  r_indication_callback :: bool
  r_indications :: "GNDataIndication list"
  r_sequence_number :: int
  r_beacon_reset_event :: "bool option"
  r_beacon_thread :: beacon_thread
  r_ls_timers :: "(GNAddress, nat) dict"
  r_ls_retransmit_counters :: "(GNAddress, int) dict"
  r_ls_packet_buffers :: "(GNAddress, GNDataRequest list) dict"
  r_cbf_buffer :: "(cbf_key, nat) dict"
  r_timers :: "(nat, real \<times> timer_action) dict"
  r_next_timer :: nat
  r_now :: real

section \<open>Construction\<close>

definition setup_gn_address :: "(router, unit) prog" where
  "setup_gn_address =
     bind_s (gets_s r_mib) (\<lambda>mib.
       case itsGnLocalGnAddrConfMethod mib of
         MANAGED \<Rightarrow> raise_s NotImplementedError
       | AUTO \<Rightarrow> modify_s (\<lambda>r. r\<lparr>r_ego_position_vector :=
                   lpv_set_gn_addr (itsGnLocalGnAddr mib) (r_ego_position_vector r)\<rparr>)
       | ANONYMOUS \<Rightarrow> raise_s NotImplementedError)"

definition configure_beacon_service :: "router \<Rightarrow> router" where
  "configure_beacon_service r =
     r\<lparr>r_beacon_reset_event := Some False, r_beacon_thread := BT_SEND\<rparr>"

definition router_init ::
    "MIB \<Rightarrow> sign_service option \<Rightarrow> (nat \<Rightarrow> bytes \<Rightarrow> SNVERIFYConfirm result) option \<Rightarrow> real
      \<Rightarrow> router result" where
  "router_init mib sign_srv verify_srv now =
     (let r0 = \<lparr>r_mib = mib, r_ego_position_vector = default_LongPositionVector,
          r_link_layer = None, r_ll_calls = 0, r_sent = [], r_location_table = [],
          r_sign_service = sign_srv, r_verify_service = verify_srv, r_sec_calls = 0,
          r_indication_callback = False, r_indications = [], r_sequence_number = 0,
          r_beacon_reset_event = None, r_beacon_thread = BT_NONE, r_ls_timers = [],
          r_ls_retransmit_counters = [], r_ls_packet_buffers = [], r_cbf_buffer = [],
          r_timers = [], r_next_timer = 0, r_now = now\<rparr>
      in case setup_gn_address r0 of
           (Inl e, _) \<Rightarrow> Inl e
         | (Inr _, r) \<Rightarrow>
             Inr (if itsGnBeaconServiceRetransmitTimer mib > 0 then configure_beacon_service r else r))"

definition register_indication_callback :: "router \<Rightarrow> router" where
  "register_indication_callback r = r\<lparr>r_indication_callback := True\<rparr>"

definition set_link_layer :: "(nat \<Rightarrow> bytes \<Rightarrow> unit result) \<Rightarrow> router \<Rightarrow> router" where
  "set_link_layer ll r = r\<lparr>r_link_layer := Some ll\<rparr>"

section \<open>Sending\<close>

text \<open>\<open>if self.link_layer: self.link_layer.send(packet)\<close>.\<close>

definition link_send :: "bytes \<Rightarrow> (router, unit) prog" where
  "link_send packet =
     bind_s (gets_s r_link_layer) (\<lambda>ll.
       case ll of
         None \<Rightarrow> return_s ()
       | Some send \<Rightarrow>
           bind_s (gets_s r_ll_calls) (\<lambda>n.
           then_s (modify_s (\<lambda>r. r\<lparr>r_ll_calls := Suc n\<rparr>))
             (bind_s (lift_s (send n packet)) (\<lambda>_.
               modify_s (\<lambda>r. r\<lparr>r_sent := r_sent r @ [packet]\<rparr>)))))"

text \<open>The two ways the handlers deal with an exception of the link layer.\<close>

definition send_confirm :: "bytes \<Rightarrow> (router, ResultCode) prog" where
  "send_confirm packet =
     catch_s (then_s (link_send packet) (return_s ACCEPTED)) (\<lambda>e.
       if e = PacketTooLongException then return_s MAXIMUM_LENGTH_EXCEEDED
       else if e = SendingException then return_s RC_UNSPECIFIED
       else raise_s e)"

definition send_ignore :: "bytes \<Rightarrow> (router, unit) prog" where
  "send_ignore packet =
     catch_s (link_send packet) (\<lambda>e.
       if e = PacketTooLongException \<or> e = SendingException then return_s () else raise_s e)"

text \<open>A method of the sign service.\<close>

definition call_sign ::
    "(sign_service \<Rightarrow> nat \<Rightarrow> SNSIGNRequest \<Rightarrow> bytes result) \<Rightarrow> sign_service \<Rightarrow> SNSIGNRequest
      \<Rightarrow> (router, bytes) prog" where
  "call_sign meth srv request =
     bind_s (gets_s r_sec_calls) (\<lambda>n.
     then_s (modify_s (\<lambda>r. r\<lparr>r_sec_calls := Suc n\<rparr>)) (lift_s (meth srv n request)))"

section \<open>Timers\<close>

definition start_timer :: "real \<Rightarrow> timer_action \<Rightarrow> (router, nat) prog" where
  "start_timer delay action =
     bind_s (gets_s r_next_timer) (\<lambda>n.
     then_s (modify_s (\<lambda>r. r\<lparr>r_next_timer := Suc n,
                              r_timers := dict_set n (r_now r + delay, action) (r_timers r)\<rparr>))
       (return_s n))"

definition cancel_timer :: "nat \<Rightarrow> (router, unit) prog" where
  "cancel_timer n = modify_s (\<lambda>r. r\<lparr>r_timers := dict_del n (r_timers r)\<rparr>)"

section \<open>Small operations\<close>

definition get_sequence_number :: "(router, int) prog" where
  "get_sequence_number =
     then_s (modify_s (\<lambda>r. r\<lparr>r_sequence_number := (r_sequence_number r + 1) mod (2 ^ 16 - 1)\<rparr>))
       (gets_s r_sequence_number)"

definition duplicate_address_detection :: "GNAddress \<Rightarrow> (router, unit) prog" where
  "duplicate_address_detection a =
     bind_s (gets_s r_mib) (\<lambda>mib.
       if gn_address_eq (itsGnLocalGnAddr mib) a then raise_s DADException else return_s ())"

definition refresh_ego_position_vector ::
    "(string \<Rightarrow> real result) \<Rightarrow> TPV \<Rightarrow> (router, unit) prog" where
  "refresh_ego_position_vector parse tpv =
     bind_s (gets_s r_ego_position_vector) (\<lambda>v.
     bind_s (lift_s (lpv_refresh_with_tpv_data parse tpv v)) (\<lambda>v'.
       modify_s (\<lambda>r. r\<lparr>r_ego_position_vector := v'\<rparr>)))"

text \<open>\<open>len(self.location_table.get_neighbours()) == 0\<close>.\<close>

definition no_neighbours :: "router \<Rightarrow> bool" where
  "no_neighbours r \<longleftrightarrow> get_neighbours (r_location_table r) = []"

text \<open>A method of the location table.\<close>

definition on_location_table ::
    "(MIB \<Rightarrow> real \<Rightarrow> loc_table \<Rightarrow> unit result \<times> loc_table) \<Rightarrow> (router, unit) prog" where
  "on_location_table meth r =
     (let (res, t) = meth (r_mib r) (r_now r) (r_location_table r)
      in (res, r\<lparr>r_location_table := t\<rparr>))"

section \<open>Beacons\<close>

definition gn_data_request_beacon :: "(router, unit) prog" where
  "gn_data_request_beacon =
     bind_s (gets_s (\<lambda>r. r)) (\<lambda>r.
     bind_s (lift_s (encode_parts [bh_encode (bh_initialize_with_mib_and_rhl (r_mib r) 1),
                       ch_encode (ch_initialize_beacon (r_mib r)),
                       lpv_encode (r_ego_position_vector r)])) (\<lambda>packet.
       send_ignore packet))"

text \<open>
  One pass of the beacon thread from the top of its loop to the wait, with the jitter drawn,
  and one wake-up of the wait. An exception ends the thread.
\<close>

definition beacon_thread_send :: "real \<Rightarrow> router \<Rightarrow> router" where
  "beacon_thread_send jitter_ms r =
     (case gn_data_request_beacon r of
        (Inl e, r') \<Rightarrow> r'\<lparr>r_beacon_thread := BT_NONE\<rparr>
      | (Inr _, r') \<Rightarrow>
          (let timeout = (of_int (itsGnBeaconServiceRetransmitTimer (r_mib r')) + jitter_ms) / 1000
           in r'\<lparr>r_beacon_thread := BT_WAIT timeout (r_now r' + timeout)\<rparr>))"

definition beacon_thread_wake :: "router \<Rightarrow> router" where
  "beacon_thread_wake r =
     (case r_beacon_thread r of
        BT_WAIT timeout deadline \<Rightarrow>
          if r_beacon_reset_event r = Some True then
            r\<lparr>r_beacon_reset_event := Some False, r_beacon_thread := BT_WAIT timeout (r_now r + timeout)\<rparr>
          else if deadline \<le> r_now r then r\<lparr>r_beacon_thread := BT_SEND\<rparr>
          else r
      | _ \<Rightarrow> r)"

section \<open>Lemmas\<close>

lemma no_link_layer_send [simp]:
  "r_link_layer r = None \<Longrightarrow> link_send p r = (Inr (), r)"
  by (simp add: link_send_def)

lemma link_send_some:
  "r_link_layer r = Some f \<Longrightarrow> link_send p r
    = (case f (r_ll_calls r) p of
         Inl e \<Rightarrow> (Inl e, r\<lparr>r_ll_calls := Suc (r_ll_calls r)\<rparr>)
       | Inr _ \<Rightarrow> (Inr (), r\<lparr>r_ll_calls := Suc (r_ll_calls r), r_sent := r_sent r @ [p]\<rparr>))"
  by (cases "f (r_ll_calls r) p") (simp_all add: link_send_def)

text \<open>What a call of the link layer changes, whatever its outcome.\<close>

lemma link_send_cases:
  assumes "link_send p r = (res, r')"
  obtains ps n where "r' = r\<lparr>r_ll_calls := n, r_sent := r_sent r @ ps\<rparr>" "ps = [] \<or> ps = [p]"
    "res = Inr () \<longrightarrow> r_link_layer r = None \<or> ps = [p]"
proof (cases "r_link_layer r")
  case None
  then show thesis using assms that [of "[]" "r_ll_calls r"] by simp
next
  case (Some f)
  show thesis
  proof (cases "f (r_ll_calls r) p")
    case (Inl e)
    then have "r' = r\<lparr>r_ll_calls := Suc (r_ll_calls r), r_sent := r_sent r @ []\<rparr>" "res = Inl e"
      using assms Some by (auto simp: link_send_some)
    then show thesis using that by blast
  next
    case (Inr u)
    then have "r' = r\<lparr>r_ll_calls := Suc (r_ll_calls r), r_sent := r_sent r @ [p]\<rparr>"
      using assms Some by (auto simp: link_send_some)
    then show thesis using that by blast
  qed
qed

lemma send_confirm_cases:
  assumes "send_confirm p r = (res, r')"
  obtains ps n where "r' = r\<lparr>r_ll_calls := n, r_sent := r_sent r @ ps\<rparr>" "ps = [] \<or> ps = [p]"
    "res = Inr ACCEPTED \<longrightarrow> r_link_layer r = None \<or> ps = [p]"
proof -
  obtain res1 r1 where l: "link_send p r = (res1, r1)" by fastforce
  have r': "r' = r1" and ok: "res = Inr ACCEPTED \<longrightarrow> res1 = Inr ()"
    using assms l
    by (auto simp: send_confirm_def catch_s_def then_s_def bind_s_def split: sum.splits if_splits)
  obtain ps n where "r1 = r\<lparr>r_ll_calls := n, r_sent := r_sent r @ ps\<rparr>" "ps = [] \<or> ps = [p]"
    "res1 = Inr () \<longrightarrow> r_link_layer r = None \<or> ps = [p]"
    using link_send_cases [OF l] by blast
  then show thesis using that r' ok by blast
qed

lemma send_ignore_cases:
  assumes "send_ignore p r = (res, r')"
  obtains ps n where "r' = r\<lparr>r_ll_calls := n, r_sent := r_sent r @ ps\<rparr>" "ps = [] \<or> ps = [p]"
proof -
  obtain res1 r1 where l: "link_send p r = (res1, r1)" by fastforce
  have "r' = r1"
    using assms l by (auto simp: send_ignore_def catch_s_def split: sum.splits if_splits)
  then show thesis using link_send_cases [OF l] that by blast
qed

text \<open>Sequence numbers stay in \<open>0 .. 2 ^ 16 - 2\<close> and run through all of them in turn.\<close>

definition sn_ok :: "router \<Rightarrow> bool" where
  "sn_ok r \<longleftrightarrow> 0 \<le> r_sequence_number r \<and> r_sequence_number r < 2 ^ 16 - 1"

lemma get_sequence_number_run:
  "get_sequence_number r
    = (let n = (r_sequence_number r + 1) mod (2 ^ 16 - 1) in (Inr n, r\<lparr>r_sequence_number := n\<rparr>))"
  by (simp add: get_sequence_number_def Let_def)

fun draw_sequence_numbers :: "nat \<Rightarrow> router \<Rightarrow> int list \<times> router" where
  "draw_sequence_numbers 0 r = ([], r)"
| "draw_sequence_numbers (Suc k) r =
     (case get_sequence_number r of
        (Inl e, r') \<Rightarrow> ([], r')
      | (Inr n, r') \<Rightarrow> (let (ns, r'') = draw_sequence_numbers k r' in (n # ns, r'')))"

lemma drawn_sequence_numbers:
  "fst (draw_sequence_numbers k r)
    = map (\<lambda>i. (r_sequence_number r + 1 + int i) mod (2 ^ 16 - 1)) [0..<k]"
proof (induction k arbitrary: r)
  case (Suc k)
  let ?r = "r\<lparr>r_sequence_number := (r_sequence_number r + 1) mod (2 ^ 16 - 1)\<rparr>"
  have "map (\<lambda>i. (r_sequence_number ?r + 1 + int i) mod (2 ^ 16 - 1)) [0..<k]
      = map (\<lambda>i. (r_sequence_number r + 1 + int (Suc i)) mod (2 ^ 16 - 1)) [0..<k]"
    using mod_add_left_eq [of "r_sequence_number r + 1" "2 ^ 16 - 1" "1 + int i" for i]
    by (simp add: add.assoc)
  moreover have "[0..<Suc k] = 0 # map Suc [0..<k]"
    by (simp add: map_Suc_upt upt_conv_Cons)
  ultimately show ?case
    using Suc.IH [of ?r]
    by (simp add: get_sequence_number_run Let_def split_beta comp_def del: upt_Suc)
qed simp

end
