(* ===== verification/RouterForward.thy ===== *)
theory RouterForward
  imports RouterState
begin

text \<open>
  The forwarding algorithms of \<open>Router\<close>: the selection of annex D, contention-based
  forwarding with its buffer and timers (annex F.3), and \<open>gn_data_forward_gbc\<close>.
\<close>

section \<open>Selecting the forwarding algorithm\<close>

datatype GNForwardingAlgorithmResponse = AREA_FORWARDING | NON_AREA_FORWARDING | DISCARTED

definition gn_forwarding_algorithm_selection ::
    "router \<Rightarrow> GNDataRequest \<Rightarrow> GNAddress option \<Rightarrow> GNForwardingAlgorithmResponse result" where
  "gn_forwarding_algorithm_selection r request sender_gn_addr =
     (let hst = header_subtype (req_packet_transport_type request);
          ego = r_ego_position_vector r
      in rbind (gn_geometric_function_f hst (req_area request) (lpv_latitude ego) (lpv_longitude ego))
        (\<lambda>f_ego.
          if f_ego \<ge> 0 then Inr AREA_FORWARDING
          else
            (let se_entry = (case sender_gn_addr of
                               None \<Rightarrow> None
                             | Some a \<Rightarrow> get_entry a (r_location_table r))
             in case se_entry of
                  None \<Rightarrow> Inr NON_AREA_FORWARDING
                | Some e \<Rightarrow>
                    if lpv_pai (le_position_vector e) then
                      rbind (gn_geometric_function_f hst (req_area request)
                               (lpv_latitude (le_position_vector e))
                               (lpv_longitude (le_position_vector e)))
                        (\<lambda>f_se. if f_se \<ge> 0 then Inr DISCARTED else Inr NON_AREA_FORWARDING)
                    else Inr NON_AREA_FORWARDING)))"

text \<open>\<open>self.gn_greedy_forwarding(lat, lon, tc)\<close>.\<close>

definition greedy :: "int \<Rightarrow> int \<Rightarrow> TrafficClass \<Rightarrow> router \<Rightarrow> bool" where
  "greedy lat lon tc r = gn_greedy_forwarding (r_ego_position_vector r) (r_location_table r) lat lon tc"

section \<open>Contention-based forwarding\<close>

text \<open>The packet as it goes on the air again: the three headers and the payload.\<close>

definition gbc_packet ::
    "BasicHeader \<Rightarrow> CommonHeader \<Rightarrow> GBCExtendedHeader \<Rightarrow> bytes \<Rightarrow> bytes result" where
  "gbc_packet basic_header common_header gbc_extended_header packet =
     encode_parts [bh_encode basic_header, ch_encode common_header,
       gbc_encode gbc_extended_header, Inr packet]"

definition cbf_delay_ms :: "router \<Rightarrow> GNAddress \<Rightarrow> real result" where
  "cbf_delay_ms r so =
     (let ego = r_ego_position_vector r
      in case get_entry so (r_location_table r) of
           Some e \<Rightarrow>
             (let pv = le_position_vector e
              in if lpv_pai pv \<and> lpv_pai ego then
                   cbf_compute_timeout_ms (r_mib r)
                     (distance_m (lpv_latitude pv) (lpv_longitude pv)
                        (lpv_latitude ego) (lpv_longitude ego))
                 else Inr (of_int (itsGnCbfMaxTime (r_mib r))))
         | None \<Rightarrow> Inr (of_int (itsGnCbfMaxTime (r_mib r))))"

definition gn_area_cbf_forwarding ::
    "BasicHeader \<Rightarrow> CommonHeader \<Rightarrow> GBCExtendedHeader \<Rightarrow> bytes \<Rightarrow> (router, bool) prog" where
  "gn_area_cbf_forwarding basic_header common_header gbc_extended_header packet =
     (let key = (lpv_gn_addr (gbc_so_pv gbc_extended_header), gbc_sn gbc_extended_header)
      in bind_s (gets_s r_cbf_buffer) (\<lambda>buffer.
         case dict_get buffer key of
           Some old_timer \<Rightarrow>
             then_s (modify_s (\<lambda>r. r\<lparr>r_cbf_buffer := dict_del key buffer\<rparr>))
             (then_s (cancel_timer old_timer) (return_s False))
         | None \<Rightarrow>
             bind_s (gets_s (\<lambda>r. r)) (\<lambda>r.
             bind_s (lift_s (cbf_delay_ms r (fst key))) (\<lambda>timeout_ms.
             bind_s (lift_s (gbc_packet basic_header common_header gbc_extended_header packet))
               (\<lambda>full_packet.
             bind_s (start_timer (timeout_ms / 1000) (CBF_TIMEOUT key full_packet)) (\<lambda>timer.
             then_s (modify_s (\<lambda>r. r\<lparr>r_cbf_buffer := dict_set key timer (r_cbf_buffer r)\<rparr>))
               (return_s True)))))))"

definition cbf_timeout :: "cbf_key \<Rightarrow> bytes \<Rightarrow> (router, unit) prog" where
  "cbf_timeout key full_packet =
     bind_s (gets_s r_cbf_buffer) (\<lambda>buffer.
       if dict_get buffer key = None then return_s ()
       else then_s (modify_s (\<lambda>r. r\<lparr>r_cbf_buffer := dict_del key buffer\<rparr>))
              (send_ignore full_packet))"

section \<open>Forwarding a GeoBroadcast packet\<close>

definition gbc_area :: "GBCExtendedHeader \<Rightarrow> Area" where
  "gbc_area h =
     \<lparr>area_latitude = gbc_latitude h, area_longitude = gbc_longitude h, area_a = gbc_a h,
      area_b = gbc_b h, area_angle = gbc_angle h\<rparr>"

definition gn_data_forward_gbc ::
    "BasicHeader \<Rightarrow> CommonHeader \<Rightarrow> GBCExtendedHeader \<Rightarrow> bytes \<Rightarrow> (router, ResultCode) prog" where
  "gn_data_forward_gbc basic_header0 common_header gbc_extended_header packet =
     (let basic_header = bh_set_rhl (bh_rhl basic_header0 - 1) basic_header0;
          area = gbc_area gbc_extended_header;
          request = default_GNDataRequest
            \<lparr>req_area := area,
             req_packet_transport_type :=
               \<lparr>header_type = ch_ht common_header, header_subtype = ch_hst common_header\<rparr>\<rparr>;
          final_packet = gbc_packet basic_header common_header gbc_extended_header packet
      in bind_s (gets_s (\<lambda>r. r)) (\<lambda>r.
         if \<not> no_neighbours r \<or> \<not> tc_scf (ch_tc common_header) then
           bind_s (lift_s (gn_forwarding_algorithm_selection r request
                     (Some (lpv_gn_addr (gbc_so_pv gbc_extended_header))))) (\<lambda>algorithm.
           case algorithm of
             AREA_FORWARDING \<Rightarrow>
               if itsGnAreaForwardingAlgorithm (r_mib r) = CBF then
                 then_s (gn_area_cbf_forwarding basic_header common_header gbc_extended_header packet)
                   (return_s ACCEPTED)
               else bind_s (lift_s final_packet) send_confirm
           | NON_AREA_FORWARDING \<Rightarrow>
               if greedy (area_latitude area) (area_longitude area) (ch_tc common_header) r
               then bind_s (lift_s final_packet) send_confirm
               else return_s ACCEPTED
           | DISCARTED \<Rightarrow> return_s ACCEPTED)
         else bind_s (lift_s final_packet) send_confirm))"

section \<open>Lemmas\<close>

lemma gbc_area_simps [simp]:
  "area_a (gbc_area h) = gbc_a h" "area_b (gbc_area h) = gbc_b h"
  "area_latitude (gbc_area h) = gbc_latitude h" "area_longitude (gbc_area h) = gbc_longitude h"
  "area_angle (gbc_area h) = gbc_angle h"
  by (simp_all add: gbc_area_def)

text \<open>A second copy of a buffered packet suppresses it: the buffer entry and its timer go.\<close>

lemma cbf_duplicate_run:
  assumes "dict_get (r_cbf_buffer r) (lpv_gn_addr (gbc_so_pv h), gbc_sn h) = Some n"
  shows "gn_area_cbf_forwarding bh ch h packet r
    = (Inr False, r\<lparr>r_cbf_buffer := dict_del (lpv_gn_addr (gbc_so_pv h), gbc_sn h) (r_cbf_buffer r),
                    r_timers := dict_del n (r_timers r)\<rparr>)"
  using assms by (simp add: gn_area_cbf_forwarding_def cancel_timer_def Let_def then_s_def bind_s_def)

lemma cbf_new_run:
  assumes "dict_get (r_cbf_buffer r) (lpv_gn_addr (gbc_so_pv h), gbc_sn h) = None"
    "cbf_delay_ms r (lpv_gn_addr (gbc_so_pv h)) = Inr d" "gbc_packet bh ch h packet = Inr p"
  shows "gn_area_cbf_forwarding bh ch h packet r
    = (Inr True, r\<lparr>r_next_timer := Suc (r_next_timer r),
         r_timers := dict_set (r_next_timer r)
           (r_now r + d / 1000, CBF_TIMEOUT (lpv_gn_addr (gbc_so_pv h), gbc_sn h) p) (r_timers r),
         r_cbf_buffer := dict_set (lpv_gn_addr (gbc_so_pv h), gbc_sn h) (r_next_timer r)
           (r_cbf_buffer r)\<rparr>)"
  using assms
  by (simp add: gn_area_cbf_forwarding_def start_timer_def Let_def then_s_def bind_s_def)

lemma cbf_delay_bounds:
  assumes "itsGnCbfMinTime (r_mib r) \<le> itsGnCbfMaxTime (r_mib r)"
  shows "\<exists>d. cbf_delay_ms r a = Inr d \<and> of_int (itsGnCbfMinTime (r_mib r)) \<le> d
    \<and> d \<le> of_int (itsGnCbfMaxTime (r_mib r))"
  using assms cbf_timeout_bounds [OF assms]
  by (auto simp: cbf_delay_ms_def Let_def cbf_timeout_eq split: option.splits)

end
