(* ===== verification/RouterSource.thy ===== *)
theory RouterSource
  imports RouterForward
begin

text \<open>
  The source operations of \<open>Router\<close>: the GN-DATA.requests for single-hop broadcast,
  GeoBroadcast, GeoAnycast and GeoUnicast, and the location service that a GeoUnicast request
  to an unknown destination starts.
\<close>

section \<open>Single-hop broadcast\<close>

definition shb_media_dependent_data :: bytes where
  "shb_media_dependent_data = [0, 0, 0, 0]"

definition sn_sign_request ::
    "bytes \<Rightarrow> GNDataRequest \<Rightarrow> (int \<times> int \<times> int) option \<Rightarrow> SNSIGNRequest" where
  "sn_sign_request tbs request location =
     \<lparr>tbs_message_length = int (length tbs), tbs_message = tbs,
      sn_its_aid = req_its_aid request,
      permissions_length = int (length (req_security_permissions request)),
      permissions = req_security_permissions request, context_information = None,
      key_handle = None, generation_location = location\<rparr>"

definition shb_packet :: "GNDataRequest \<Rightarrow> (router, bytes) prog" where
  "shb_packet request =
     bind_s (gets_s (\<lambda>r. r)) (\<lambda>r.
       let mib = r_mib r;
           basic_header =
             bh_initialize_with_mib_request_and_rhl mib (req_max_packet_lifetime request) 1;
           common_header = ch_initialize_with_request request mib;
           tail = [ch_encode common_header, lpv_encode (r_ego_position_vector r),
                   Inr shb_media_dependent_data, Inr (req_data request)];
           secured = (\<lambda>meth srv.
             bind_s (lift_s (encode_parts tail)) (\<lambda>tbs_packet.
             bind_s (call_sign meth srv (sn_sign_request tbs_packet request None)) (\<lambda>sec_message.
               lift_s (encode_parts [bh_encode (bh_set_nh SECURED_PACKET basic_header),
                         Inr sec_message]))))
       in if itsGnSecurity mib = ENABLED then
            (case r_sign_service r of
               None \<Rightarrow> raise_s ValueError
             | Some srv \<Rightarrow>
                 if req_security_profile request \<in> {COOPERATIVE_AWARENESS_MESSAGE, VRU_AWARENESS_MESSAGE}
                 then secured sign_cam srv
                 else secured sign_request srv)
          else lift_s (encode_parts (bh_encode basic_header # tail)))"

definition gn_data_request_shb :: "GNDataRequest \<Rightarrow> (router, ResultCode) prog" where
  "gn_data_request_shb request =
     bind_s (shb_packet request) (\<lambda>packet.
     bind_s (send_confirm packet) (\<lambda>code.
       if code = ACCEPTED then
         then_s (modify_s (\<lambda>r.
             if r_beacon_reset_event r \<noteq> None then r\<lparr>r_beacon_reset_event := Some True\<rparr> else r))
           (return_s ACCEPTED)
       else return_s code))"

section \<open>GeoBroadcast and GeoAnycast\<close>

definition request_hop_limit :: "MIB \<Rightarrow> GNDataRequest \<Rightarrow> int" where
  "request_hop_limit mib request =
     (if req_max_hop_limit request \<le> 1 then itsGnDefaultHopLimit mib
      else req_max_hop_limit request)"

definition gn_data_request_gbc :: "GNDataRequest \<Rightarrow> (router, ResultCode) prog" where
  "gn_data_request_gbc request =
     bind_s (gets_s (\<lambda>r. r)) (\<lambda>r.
       let mib = r_mib r; hst = header_subtype (req_packet_transport_type request) in
       if compute_area_size_m2 hst (req_area request)
            > of_int (itsGnMaxGeoAreaSize mib * 1000000)
       then return_s GEOGRAPHICAL_SCOPE_TOO_LARGE
       else
         let hop_limit = request_hop_limit mib request;
             basic_header0 = bh_initialize_with_mib_request_and_rhl mib
               (req_max_packet_lifetime request) hop_limit;
             common_header = ch_initialize_with_request (request\<lparr>req_max_hop_limit := hop_limit\<rparr>) mib
         in
         bind_s get_sequence_number (\<lambda>sn.
         let ext = gbc_initialize_with_request_sequence_number_ego_pv request sn
               (r_ego_position_vector r);
             payload = encode_parts [ch_encode common_header, gbc_encode ext, Inr (req_data request)]
         in
         bind_s
           (if req_security_profile request = DECENTRALIZED_ENVIRONMENTAL_NOTIFICATION_MESSAGE then
              (case r_sign_service r of
                 None \<Rightarrow> raise_s NotImplementedError
               | Some srv \<Rightarrow>
                   bind_s (lift_s payload) (\<lambda>tbs_payload.
                   bind_s (call_sign sign_denm srv (sn_sign_request tbs_payload request
                     (Some (lpv_latitude (r_ego_position_vector r),
                            lpv_longitude (r_ego_position_vector r), 0xF000)))) (\<lambda>sec_message.
                   return_s (bh_set_nh SECURED_PACKET basic_header0, Some sec_message))))
            else return_s (basic_header0, None)) (\<lambda>(basic_header, sec_payload).
         let transmit =
           bind_s (lift_s (case sec_payload of
                       None \<Rightarrow> payload
                     | Some sec_message \<Rightarrow> Inr sec_message)) (\<lambda>inner.
           bind_s (lift_s (encode_parts [bh_encode basic_header, Inr inner])) send_confirm)
         in
         if no_neighbours r \<and> tc_scf (req_traffic_class request) then return_s ACCEPTED
         else
           bind_s (lift_s (gn_forwarding_algorithm_selection r request None)) (\<lambda>algorithm.
           case algorithm of
             AREA_FORWARDING \<Rightarrow> transmit
           | NON_AREA_FORWARDING \<Rightarrow>
               if greedy (area_latitude (req_area request)) (area_longitude (req_area request))
                    (req_traffic_class request) r
               then transmit
               else return_s ACCEPTED
           | DISCARTED \<Rightarrow> return_s ACCEPTED))))"

definition gn_data_request_gac :: "GNDataRequest \<Rightarrow> (router, ResultCode) prog" where
  "gn_data_request_gac request = gn_data_request_gbc request"

section \<open>Location service\<close>

definition ls_common_header :: "MIB \<Rightarrow> HST \<Rightarrow> CommonHeader" where
  "ls_common_header mib hst =
     \<lparr>ch_nh = CNH_ANY, ch_reserved = 0, ch_ht = HT_LS, ch_hst = hst, ch_tc = default_TrafficClass,
      ch_flags = GnIsMobile_value (itsGnIsMobile mib), ch_pl = 0,
      ch_mhl = itsGnDefaultHopLimit mib\<rparr>"

definition send_ls_request_packet :: "GNAddress \<Rightarrow> (router, unit) prog" where
  "send_ls_request_packet sought =
     bind_s (gets_s (\<lambda>r. r)) (\<lambda>r.
       let mib = r_mib r;
           basic_header =
             bh_initialize_with_mib_request_and_rhl mib None (itsGnDefaultHopLimit mib)
       in bind_s get_sequence_number (\<lambda>sn.
          bind_s (lift_s (encode_parts [bh_encode basic_header,
              ch_encode (ls_common_header mib LS_REQUEST),
              lsreq_encode (lsreq_initialize sn (r_ego_position_vector r) sought)])) send_ignore))"

text \<open>The retransmit timer of a sought address; the old timer of \<open>gn_ls_request\<close> is cancelled.\<close>

definition start_ls_timer :: "GNAddress \<Rightarrow> (router, nat) prog" where
  "start_ls_timer sought =
     bind_s (gets_s r_mib) (\<lambda>mib.
       start_timer (of_int (itsGnLocationServiceRetransmitTimer mib) / 1000) (LS_RETRANSMIT sought))"

definition gn_ls_request :: "GNAddress \<Rightarrow> GNDataRequest option \<Rightarrow> (router, unit) prog" where
  "gn_ls_request sought buffered_request =
     bind_s (gets_s (\<lambda>r. r)) (\<lambda>r.
       if (case get_entry sought (r_location_table r) of None \<Rightarrow> False | Some e \<Rightarrow> le_ls_pending e)
       then
         (case buffered_request of
            None \<Rightarrow> return_s ()
          | Some req \<Rightarrow>
              modify_s (\<lambda>r. r\<lparr>r_ls_packet_buffers := dict_set sought
                ((case dict_get (r_ls_packet_buffers r) sought of None \<Rightarrow> [] | Some b \<Rightarrow> b) @ [req])
                (r_ls_packet_buffers r)\<rparr>))
       else
         then_s (modify_s (\<lambda>r. r\<lparr>
             r_location_table := set_ls_pending True sought
               (snd (ensure_entry (r_mib r) sought (r_location_table r))),
             r_ls_packet_buffers := dict_set sought
               (case buffered_request of None \<Rightarrow> [] | Some req \<Rightarrow> [req]) (r_ls_packet_buffers r),
             r_ls_retransmit_counters := dict_set sought 0 (r_ls_retransmit_counters r)\<rparr>))
         (then_s (send_ls_request_packet sought)
         (bind_s (start_ls_timer sought) (\<lambda>timer.
          bind_s (gets_s r_ls_timers) (\<lambda>timers.
          then_s (case dict_get timers sought of
                    None \<Rightarrow> return_s ()
                  | Some old \<Rightarrow> cancel_timer old)
            (modify_s (\<lambda>r. r\<lparr>r_ls_timers :=
               dict_set sought timer (dict_del sought (r_ls_timers r))\<rparr>)))))))"

definition ls_retransmit :: "GNAddress \<Rightarrow> (router, unit) prog" where
  "ls_retransmit sought =
     bind_s (gets_s (\<lambda>r. r)) (\<lambda>r.
       let count = (case dict_get (r_ls_retransmit_counters r) sought of None \<Rightarrow> 0 | Some c \<Rightarrow> c) in
       if count \<ge> itsGnLocationServiceMaxRetrans (r_mib r) then
         modify_s (\<lambda>r. r\<lparr>
           r_ls_packet_buffers := dict_del sought (r_ls_packet_buffers r),
           r_ls_timers := dict_del sought (r_ls_timers r),
           r_ls_retransmit_counters := dict_del sought (r_ls_retransmit_counters r),
           r_location_table := set_ls_pending False sought (r_location_table r)\<rparr>)
       else
         then_s (modify_s (\<lambda>r. r\<lparr>r_ls_retransmit_counters :=
             dict_set sought (count + 1) (r_ls_retransmit_counters r)\<rparr>))
         (then_s (send_ls_request_packet sought)
         (bind_s (start_ls_timer sought) (\<lambda>timer.
           modify_s (\<lambda>r. r\<lparr>r_ls_timers := dict_set sought timer (r_ls_timers r)\<rparr>)))))"

section \<open>GeoUnicast\<close>

definition gn_data_request_guc :: "GNDataRequest \<Rightarrow> (router, ResultCode) prog" where
  "gn_data_request_guc request =
     bind_s (gets_s (\<lambda>r. r)) (\<lambda>r.
       let mib = r_mib r;
           hop_limit = request_hop_limit mib request;
           basic_header = bh_initialize_with_mib_request_and_rhl mib
             (req_max_packet_lifetime request) hop_limit;
           common_header = ch_initialize_with_request (request\<lparr>req_max_hop_limit := hop_limit\<rparr>) mib
       in case (case req_destination request of
                  None \<Rightarrow> None
                | Some a \<Rightarrow> get_entry a (r_location_table r)) of
            None \<Rightarrow>
              (case req_destination request of
                 None \<Rightarrow> raise_s AssertionError
               | Some a \<Rightarrow> then_s (gn_ls_request a (Some request)) (return_s ACCEPTED))
          | Some de_entry \<Rightarrow>
              let de_pv = spv_of_lpv (le_position_vector de_entry) in
              bind_s get_sequence_number (\<lambda>sn.
              let ext = guc_initialize sn (r_ego_position_vector r) de_pv in
              if no_neighbours r \<and> tc_scf (req_traffic_class request) then return_s ACCEPTED
              else if \<not> greedy (spv_latitude de_pv) (spv_longitude de_pv)
                         (req_traffic_class request) r
              then return_s ACCEPTED
              else bind_s (lift_s (encode_parts [bh_encode basic_header, ch_encode common_header,
                     guc_encode ext, Inr (req_data request)])) send_confirm))"

section \<open>The dispatch\<close>

definition gn_data_request :: "GNDataRequest \<Rightarrow> (router, ResultCode) prog" where
  "gn_data_request request =
     (let ptt = req_packet_transport_type request in
      if header_type ptt = HT_TSB \<and> header_subtype ptt = SINGLE_HOP then gn_data_request_shb request
      else if header_type ptt = HT_GEOBROADCAST then gn_data_request_gbc request
      else if header_type ptt = HT_GEOANYCAST then gn_data_request_gac request
      else if header_type ptt = HT_GEOUNICAST then gn_data_request_guc request
      else raise_s NotImplementedError)"

end
