(* ===== verification/RouterReceive.thy ===== *)
theory RouterReceive
  imports RouterSource
begin

text \<open>
  The receiver and forwarder operations of \<open>Router\<close>: one handler per packet type, and the
  decapsulation from \<open>gn_data_indicate\<close> down to the handler and up to the callback.
\<close>

section \<open>Parts shared by the handlers\<close>

text \<open>The \<open>except\<close> clauses that every handler ends with: these exceptions discard the packet.\<close>

definition discarding :: "py_error set" where
  "discarding =
     {DADException, IncongruentTimestampException, DuplicatedPacketException, DecodeError}"

definition catch_discard :: "'a \<Rightarrow> (router, 'a) prog \<Rightarrow> (router, 'a) prog" where
  "catch_discard v m = catch_s m (\<lambda>e. if e \<in> discarding then return_s v else raise_s e)"

definition make_indication ::
    "CommonHeader \<Rightarrow> BasicHeader \<Rightarrow> PacketTransportType \<Rightarrow> Area option \<Rightarrow> LongPositionVector
      \<Rightarrow> bytes \<Rightarrow> GNDataIndication" where
  "make_indication common_header basic_header ptt area source packet =
     \<lparr>ind_upper_protocol_entity = ch_nh common_header, ind_packet_transport_type = ptt,
      ind_destination_area = area, ind_source_position_vector = source,
      ind_traffic_class = ch_tc common_header,
      ind_remaining_packet_lifetime = Some (of_int (lt_get_value_in_seconds (bh_lt basic_header))),
      ind_remaining_hop_limit = Some (bh_rhl basic_header),
      ind_length = int (length packet), ind_data = packet\<rparr>"

text \<open>Annex B.2: the packet data rate of the source exceeds the limit.\<close>

definition pdr_exceeded :: "GNAddress \<Rightarrow> router \<Rightarrow> bool" where
  "pdr_exceeded so r =
     (case get_entry so (r_location_table r) of
        None \<Rightarrow> False
      | Some e \<Rightarrow> le_pdr e > of_int (itsGnMaxPacketDataRate (r_mib r) * 1000))"

text \<open>Annex C.3: a newer position of a neighbouring destination replaces the one in the packet.\<close>

definition refresh_de_pv :: "router \<Rightarrow> ShortPositionVector \<Rightarrow> ShortPositionVector" where
  "refresh_de_pv r de_pv =
     (case get_entry (spv_gn_addr de_pv) (r_location_table r) of
        None \<Rightarrow> de_pv
      | Some e \<Rightarrow>
          if le_is_neighbour e \<and> tst_gt (lpv_tst (le_position_vector e)) (spv_tst de_pv)
          then spv_of_lpv (le_position_vector e) else de_pv)"

definition area_too_large :: "HST \<Rightarrow> Area \<Rightarrow> router \<Rightarrow> bool" where
  "area_too_large hst area r \<longleftrightarrow>
     compute_area_size_m2 hst area > of_int (itsGnMaxGeoAreaSize (r_mib r) * 1000000)"

section \<open>Single-hop broadcast and beacons\<close>

definition gn_data_indicate_shb ::
    "bytes \<Rightarrow> CommonHeader \<Rightarrow> BasicHeader \<Rightarrow> (router, GNDataIndication option) prog" where
  "gn_data_indicate_shb packet0 common_header basic_header =
     catch_discard None
       (bind_s (lift_s (lpv_decode (slice 0 24 packet0))) (\<lambda>lpv.
        let packet = drop 4 (drop 24 packet0) in
        then_s (duplicate_address_detection (lpv_gn_addr lpv))
        (then_s (on_location_table (\<lambda>mib now. new_shb_packet mib now lpv packet))
          (return_s (Some (make_indication common_header basic_header
            \<lparr>header_type = HT_TSB, header_subtype = SINGLE_HOP\<rparr> None lpv packet))))))"

definition gn_data_indicate_beacon :: "bytes \<Rightarrow> (router, unit) prog" where
  "gn_data_indicate_beacon packet0 =
     catch_discard ()
       (bind_s (lift_s (lpv_decode (slice 0 24 packet0))) (\<lambda>lpv.
        let packet = drop 24 packet0 in
        then_s (duplicate_address_detection (lpv_gn_addr lpv))
          (on_location_table (\<lambda>mib now. new_shb_packet mib now lpv packet))))"

section \<open>GeoUnicast\<close>

definition gn_data_indicate_guc ::
    "bytes \<Rightarrow> CommonHeader \<Rightarrow> BasicHeader \<Rightarrow> (router, GNDataIndication option) prog" where
  "gn_data_indicate_guc packet0 common_header basic_header =
     bind_s (lift_s (guc_decode (slice 0 48 packet0))) (\<lambda>ext0.
     let packet = drop 48 packet0; so = lpv_gn_addr (guc_so_pv ext0) in
     catch_discard None
       (then_s (duplicate_address_detection so)
       (then_s (on_location_table (\<lambda>mib now. new_guc_packet mib now ext0 packet))
       (bind_s (gets_s (\<lambda>r. r)) (\<lambda>r.
        if gn_address_eq (spv_gn_addr (guc_de_pv ext0)) (itsGnLocalGnAddr (r_mib r)) then
          return_s (Some (make_indication common_header basic_header
            \<lparr>header_type = HT_GEOUNICAST,
             header_subtype = header_subtype default_PacketTransportType\<rparr>
            None (guc_so_pv ext0) packet))
        else if pdr_exceeded so r then return_s None
        else
          let ext = guc_with_de_pv (refresh_de_pv r (guc_de_pv ext0)) ext0;
              new_rhl = bh_rhl basic_header - 1
          in if new_rhl > 0 then
               (if no_neighbours r \<and> tc_scf (ch_tc common_header) then return_s None
                else if greedy (spv_latitude (guc_de_pv ext)) (spv_longitude (guc_de_pv ext))
                          (ch_tc common_header) r
                then bind_s (lift_s (encode_parts [bh_encode (bh_set_rhl new_rhl basic_header),
                         ch_encode common_header, guc_encode ext, Inr packet])) (\<lambda>forward_packet.
                     then_s (send_ignore forward_packet) (return_s None))
                else return_s None)
             else return_s None)))))"

section \<open>GeoAnycast\<close>

definition gn_data_indicate_gac ::
    "bytes \<Rightarrow> CommonHeader \<Rightarrow> BasicHeader \<Rightarrow> (router, GNDataIndication option) prog" where
  "gn_data_indicate_gac packet0 common_header basic_header =
     bind_s (lift_s (gbc_decode (slice 0 44 packet0))) (\<lambda>ext.
     let packet = drop 44 packet0; so = lpv_gn_addr (gbc_so_pv ext); area = gbc_area ext;
         hst = ch_hst common_header in
     bind_s (gets_s r_ego_position_vector) (\<lambda>ego.
     bind_s (lift_s (gn_geometric_function_f hst area (lpv_latitude ego) (lpv_longitude ego)))
       (\<lambda>area_f.
     catch_discard None
       (then_s (duplicate_address_detection so)
       (then_s (on_location_table (\<lambda>mib now. new_gac_packet mib now ext packet))
       (if area_f \<ge> 0 then
          return_s (Some (make_indication common_header basic_header
            \<lparr>header_type = HT_GEOANYCAST, header_subtype = hst\<rparr> (Some area) (gbc_so_pv ext) packet))
        else
          bind_s (gets_s (\<lambda>r. r)) (\<lambda>r.
          if area_too_large hst area r then return_s None
          else if pdr_exceeded so r then return_s None
          else
            bind_s (lift_s (case get_entry so (r_location_table r) of
                None \<Rightarrow> Inr False
              | Some e \<Rightarrow>
                  if lpv_pai (le_position_vector e) then
                    rbind (gn_geometric_function_f hst area (lpv_latitude (le_position_vector e))
                             (lpv_longitude (le_position_vector e))) (\<lambda>f_se. Inr (f_se \<ge> 0))
                  else Inr False)) (\<lambda>sender_inside.
            if sender_inside then return_s None
            else
              let new_rhl = bh_rhl basic_header - 1 in
              if new_rhl = 0 then return_s None
              else if no_neighbours r \<and> tc_scf (ch_tc common_header) then return_s None
              else if greedy (area_latitude area) (area_longitude area) (ch_tc common_header) r then
                bind_s (lift_s (gbc_packet (bh_set_rhl new_rhl basic_header) common_header ext packet))
                  (\<lambda>forward_packet. then_s (send_ignore forward_packet) (return_s None))
              else return_s None))))))))"

section \<open>GeoBroadcast\<close>

text \<open>The two branches of step 3 only \<open>pass\<close>, so they have no part in the model.\<close>

definition gn_data_indicate_gbc ::
    "bytes \<Rightarrow> CommonHeader \<Rightarrow> BasicHeader \<Rightarrow> (router, GNDataIndication option) prog" where
  "gn_data_indicate_gbc packet0 common_header basic_header =
     bind_s (lift_s (gbc_decode (slice 0 44 packet0))) (\<lambda>ext.
     let packet = drop 44 packet0; so = lpv_gn_addr (gbc_so_pv ext); area = gbc_area ext;
         hst = ch_hst common_header in
     bind_s (gets_s r_ego_position_vector) (\<lambda>ego.
     bind_s (lift_s (gn_geometric_function_f hst area (lpv_latitude ego) (lpv_longitude ego)))
       (\<lambda>area_f.
     catch_discard None
       (then_s (duplicate_address_detection so)
       (then_s (on_location_table (\<lambda>mib now. new_gbc_packet mib now ext packet))
       (let indication =
          (if area_f \<ge> 0 then Some (make_indication common_header basic_header
             \<lparr>header_type = HT_GEOBROADCAST, header_subtype = hst\<rparr> (Some area) (gbc_so_pv ext) packet)
           else None) in
        bind_s (gets_s (\<lambda>r. r)) (\<lambda>r.
        if area_too_large hst area r then return_s indication
        else if pdr_exceeded so r then return_s indication
        else if bh_rhl basic_header - 1 > 0 then
          then_s (gn_data_forward_gbc basic_header common_header ext packet) (return_s indication)
        else return_s indication)))))))"

section \<open>Topologically scoped broadcast\<close>

definition gn_data_indicate_tsb ::
    "bytes \<Rightarrow> CommonHeader \<Rightarrow> BasicHeader \<Rightarrow> (router, GNDataIndication option) prog" where
  "gn_data_indicate_tsb packet0 common_header basic_header =
     bind_s (lift_s (tsb_decode (slice 0 28 packet0))) (\<lambda>ext.
     let packet = drop 28 packet0; so = lpv_gn_addr (tsb_so_pv ext) in
     catch_discard None
       (then_s (duplicate_address_detection so)
       (then_s (on_location_table (\<lambda>mib now. new_tsb_packet mib now ext packet))
       (let indication = make_indication common_header basic_header
              \<lparr>header_type = HT_TSB, header_subtype = MULTI_HOP\<rparr> None (tsb_so_pv ext) packet in
        bind_s (gets_s (\<lambda>r. r)) (\<lambda>r.
        if pdr_exceeded so r then return_s (Some indication)
        else
          let new_rhl = bh_rhl basic_header - 1 in
          if new_rhl > 0 then
            (if no_neighbours r \<and> tc_scf (ch_tc common_header) then return_s (Some indication)
             else bind_s (lift_s (encode_parts [bh_encode (bh_set_rhl new_rhl basic_header),
                      ch_encode common_header, tsb_encode ext, Inr packet])) (\<lambda>forward_packet.
                  then_s (send_ignore forward_packet) (return_s (Some indication))))
          else return_s (Some indication))))))"

section \<open>Location service\<close>

definition gn_data_indicate_ls_request ::
    "bytes \<Rightarrow> CommonHeader \<Rightarrow> BasicHeader \<Rightarrow> (router, unit) prog" where
  "gn_data_indicate_ls_request packet0 common_header basic_header =
     bind_s (lift_s (lsreq_decode (slice 0 36 packet0))) (\<lambda>ext.
     let payload = drop 36 packet0; so = lpv_gn_addr (lsreq_so_pv ext) in
     catch_discard ()
       (then_s (duplicate_address_detection so)
       (then_s (on_location_table (\<lambda>mib now. new_ls_request_packet mib now ext payload))
       (bind_s (gets_s (\<lambda>r. r)) (\<lambda>r.
        let mib = r_mib r in
        if gn_address_eq (lsreq_request_gn_addr ext) (itsGnLocalGnAddr mib) then
          (case get_entry so (r_location_table r) of
             None \<Rightarrow> return_s ()
           | Some so_entry \<Rightarrow>
               bind_s get_sequence_number (\<lambda>sn.
               bind_s (lift_s (encode_parts
                 [bh_encode (bh_initialize_with_mib_request_and_rhl mib None
                    (itsGnDefaultHopLimit mib)),
                  ch_encode (ls_common_header mib LS_REPLY),
                  lsrep_encode (lsrep_initialize sn (r_ego_position_vector r)
                    (spv_of_lpv (le_position_vector so_entry)))])) send_ignore))
        else if pdr_exceeded so r then return_s ()
        else
          let new_rhl = bh_rhl basic_header - 1 in
          if new_rhl > 0 then
            bind_s (lift_s (encode_parts [bh_encode (bh_set_rhl new_rhl basic_header),
              ch_encode common_header, lsreq_encode ext, Inr payload])) send_ignore
          else return_s ())))))"

definition lsrep_with_de_pv ::
    "ShortPositionVector \<Rightarrow> LSReplyExtendedHeader \<Rightarrow> LSReplyExtendedHeader" where
  "lsrep_with_de_pv de_pv h =
     \<lparr>lsrep_sn = lsrep_sn h, lsrep_reserved = lsrep_reserved h, lsrep_so_pv = lsrep_so_pv h,
      lsrep_de_pv = de_pv\<rparr>"

definition gn_data_indicate_ls_reply ::
    "bytes \<Rightarrow> CommonHeader \<Rightarrow> BasicHeader \<Rightarrow> (router, unit) prog" where
  "gn_data_indicate_ls_reply packet0 common_header basic_header =
     bind_s (lift_s (lsrep_decode (slice 0 48 packet0))) (\<lambda>ext0.
     let payload = drop 48 packet0; so = lpv_gn_addr (lsrep_so_pv ext0) in
     catch_discard ()
       (then_s (duplicate_address_detection so)
       (then_s (on_location_table (\<lambda>mib now. new_ls_reply_packet mib now ext0 payload))
       (bind_s (gets_s (\<lambda>r. r)) (\<lambda>r.
        if gn_address_eq (spv_gn_addr (lsrep_de_pv ext0)) (itsGnLocalGnAddr (r_mib r)) then
          let timer = dict_get (r_ls_timers r) so;
              buffered = (case dict_get (r_ls_packet_buffers r) so of None \<Rightarrow> [] | Some b \<Rightarrow> b)
          in then_s (modify_s (\<lambda>r. r\<lparr>
                 r_ls_timers := dict_del so (r_ls_timers r),
                 r_ls_retransmit_counters := dict_del so (r_ls_retransmit_counters r),
                 r_ls_packet_buffers := dict_del so (r_ls_packet_buffers r),
                 r_location_table := set_ls_pending False so (r_location_table r)\<rparr>))
             (then_s (case timer of None \<Rightarrow> return_s () | Some n \<Rightarrow> cancel_timer n)
               (for_each_s buffered gn_data_request_guc))
        else if pdr_exceeded so r then return_s ()
        else
          let ext = lsrep_with_de_pv (refresh_de_pv r (lsrep_de_pv ext0)) ext0;
              new_rhl = bh_rhl basic_header - 1
          in if new_rhl > 0 then
               bind_s (lift_s (encode_parts [bh_encode (bh_set_rhl new_rhl basic_header),
                 ch_encode common_header, lsrep_encode ext, Inr payload])) send_ignore
             else return_s ())))))"

definition gn_data_indicate_ls ::
    "bytes \<Rightarrow> CommonHeader \<Rightarrow> BasicHeader \<Rightarrow> (router, unit) prog" where
  "gn_data_indicate_ls packet common_header basic_header =
     (if ch_hst common_header = LS_REQUEST then
        gn_data_indicate_ls_request packet common_header basic_header
      else if ch_hst common_header = LS_REPLY then
        gn_data_indicate_ls_reply packet common_header basic_header
      else raise_s NotImplementedError)"

section \<open>Decapsulation\<close>

text \<open>\<open>if self.indication_callback and indication is not None: self.indication_callback(...)\<close>.\<close>

definition deliver :: "GNDataIndication option \<Rightarrow> (router, unit) prog" where
  "deliver indication =
     (case indication of
        None \<Rightarrow> return_s ()
      | Some i \<Rightarrow> modify_s (\<lambda>r.
          if r_indication_callback r then r\<lparr>r_indications := r_indications r @ [i]\<rparr> else r))"

definition process_common_header :: "bytes \<Rightarrow> BasicHeader \<Rightarrow> (router, unit) prog" where
  "process_common_header packet0 basic_header =
     bind_s (lift_s (ch_decode (slice 0 8 packet0))) (\<lambda>common_header.
     let packet = drop 8 packet0 in
     if bh_rhl basic_header > ch_mhl common_header then raise_s DecapError
     else
       (case ch_ht common_header of
          HT_ANY \<Rightarrow> raise_s NotImplementedError
        | HT_BEACON \<Rightarrow> gn_data_indicate_beacon packet
        | HT_GEOUNICAST \<Rightarrow>
            bind_s (gn_data_indicate_guc packet common_header basic_header) deliver
        | HT_GEOANYCAST \<Rightarrow>
            bind_s (gn_data_indicate_gac packet common_header basic_header) deliver
        | HT_GEOBROADCAST \<Rightarrow>
            bind_s (gn_data_indicate_gbc packet common_header basic_header) deliver
        | HT_TSB \<Rightarrow>
            if ch_hst common_header = SINGLE_HOP then
              bind_s (gn_data_indicate_shb packet common_header basic_header) deliver
            else if ch_hst common_header = MULTI_HOP then
              bind_s (gn_data_indicate_tsb packet common_header basic_header) deliver
            else raise_s NotImplementedError
        | HT_LS \<Rightarrow> gn_data_indicate_ls packet common_header basic_header))"

definition process_security_header :: "bytes \<Rightarrow> BasicHeader \<Rightarrow> (router, unit) prog" where
  "process_security_header packet basic_header =
     bind_s (gets_s r_verify_service) (\<lambda>service.
       case service of
         None \<Rightarrow> return_s ()
       | Some verify \<Rightarrow>
           bind_s (gets_s r_sec_calls) (\<lambda>n.
           then_s (modify_s (\<lambda>r. r\<lparr>r_sec_calls := Suc n\<rparr>))
           (bind_s (lift_s (verify n packet)) (\<lambda>confirm.
            if vc_report confirm \<noteq> SUCCESS then return_s ()
            else process_common_header (vc_plain_message confirm)
                   (bh_set_nh COMMON_HEADER basic_header)))))"

definition process_basic_header :: "bytes \<Rightarrow> (router, unit) prog" where
  "process_basic_header packet =
     bind_s (lift_s (bh_decode (slice 0 4 packet))) (\<lambda>basic_header.
     let remaining = drop 4 packet in
     bind_s (gets_s r_mib) (\<lambda>mib.
     if bh_version basic_header \<noteq> itsGnProtocolVersion mib then raise_s NotImplementedError
     else if bh_nh basic_header = COMMON_HEADER then
       (if itsGnSecurity mib = ENABLED then return_s ()
        else process_common_header remaining basic_header)
     else if bh_nh basic_header = SECURED_PACKET then
       process_security_header remaining basic_header
     else raise_s NotImplementedError))"

definition gn_data_indicate :: "bytes \<Rightarrow> (router, unit) prog" where
  "gn_data_indicate packet = process_basic_header packet"

end
