(* ===== verification/RouterInv.thy ===== *)
theory RouterInv
  imports RouterReceive
begin

text \<open>
  The invariant of the router and the proof that every request, every received packet and
  every timer keeps it; the frame of the handlers (what none of them changes).
\<close>

section \<open>The invariant\<close>

definition timers_ok :: "router \<Rightarrow> bool" where
  "timers_ok r \<longleftrightarrow> (\<forall>n x. dict_get (r_timers r) n = Some x \<longrightarrow> n < r_next_timer r)"

text \<open>A packet is in the CBF buffer exactly when the timer that will send it is running.\<close>

definition cbf_ok :: "router \<Rightarrow> bool" where
  "cbf_ok r \<longleftrightarrow>
     (\<forall>k n. dict_get (r_cbf_buffer r) k = Some n
        \<longleftrightarrow> (\<exists>d p. dict_get (r_timers r) n = Some (d, CBF_TIMEOUT k p)))"

text \<open>
  Location service: counters and buffers belong to the same addresses, counters are within
  the limit, there is at most one running retransmit timer for an address and it is the one
  recorded, and an entry marked as pending or with a running timer has a counter.
\<close>

definition ls_counters_ok :: "router \<Rightarrow> bool" where
  "ls_counters_ok r \<longleftrightarrow>
     (\<forall>a. dict_get (r_ls_retransmit_counters r) a = None \<longleftrightarrow> dict_get (r_ls_packet_buffers r) a = None)
     \<and> (\<forall>a c. dict_get (r_ls_retransmit_counters r) a = Some c
          \<longrightarrow> 0 \<le> c \<and> c \<le> max 0 (itsGnLocationServiceMaxRetrans (r_mib r)))"

definition ls_timers_ok :: "router \<Rightarrow> bool" where
  "ls_timers_ok r \<longleftrightarrow>
     (\<forall>a n. dict_get (r_ls_timers r) a = Some n
        \<longrightarrow> n < r_next_timer r
          \<and> (\<forall>d act. dict_get (r_timers r) n = Some (d, act) \<longrightarrow> act = LS_RETRANSMIT a))
     \<and> (\<forall>a n d. dict_get (r_timers r) n = Some (d, LS_RETRANSMIT a)
          \<longrightarrow> dict_get (r_ls_timers r) a = Some n)"

definition ls_pending_ok :: "router \<Rightarrow> bool" where
  "ls_pending_ok r \<longleftrightarrow>
     (\<forall>a e. dict_get (r_location_table r) a = Some e \<and> le_ls_pending e
        \<longrightarrow> dict_get (r_ls_retransmit_counters r) a \<noteq> None)"

definition ls_running_ok :: "router \<Rightarrow> bool" where
  "ls_running_ok r \<longleftrightarrow>
     (\<forall>n d a. dict_get (r_timers r) n = Some (d, LS_RETRANSMIT a)
        \<longrightarrow> dict_get (r_ls_retransmit_counters r) a \<noteq> None)"

definition router_ok :: "router \<Rightarrow> bool" where
  "router_ok r \<longleftrightarrow>
     loct_ok (r_mib r) (r_location_table r) \<and> sn_ok r \<and> timers_ok r \<and> cbf_ok r
     \<and> ls_counters_ok r \<and> ls_timers_ok r \<and> ls_pending_ok r \<and> ls_running_ok r"

lemmas router_ok_defs =
  router_ok_def sn_ok_def timers_ok_def cbf_ok_def ls_counters_ok_def ls_timers_ok_def
  ls_pending_ok_def ls_running_ok_def

text \<open>Fields outside the invariant.\<close>

lemma router_ok_irrelevant [simp]:
  "router_ok (r\<lparr>r_ll_calls := n\<rparr>) = router_ok r"
  "router_ok (r\<lparr>r_sent := ps\<rparr>) = router_ok r"
  "router_ok (r\<lparr>r_sec_calls := n\<rparr>) = router_ok r"
  "router_ok (r\<lparr>r_indications := is\<rparr>) = router_ok r"
  "router_ok (r\<lparr>r_indication_callback := b\<rparr>) = router_ok r"
  "router_ok (r\<lparr>r_link_layer := ll\<rparr>) = router_ok r"
  "router_ok (r\<lparr>r_ego_position_vector := v\<rparr>) = router_ok r"
  "router_ok (r\<lparr>r_beacon_reset_event := e\<rparr>) = router_ok r"
  "router_ok (r\<lparr>r_beacon_thread := t\<rparr>) = router_ok r"
  "router_ok (r\<lparr>r_now := x\<rparr>) = router_ok r"
  by (simp_all add: router_ok_defs)

text \<open>Each part of the invariant depends on a few fields only.\<close>

lemma ok_sequence_number [simp]:
  "timers_ok (r\<lparr>r_sequence_number := n\<rparr>) = timers_ok r"
  "cbf_ok (r\<lparr>r_sequence_number := n\<rparr>) = cbf_ok r"
  "ls_counters_ok (r\<lparr>r_sequence_number := n\<rparr>) = ls_counters_ok r"
  "ls_timers_ok (r\<lparr>r_sequence_number := n\<rparr>) = ls_timers_ok r"
  "ls_pending_ok (r\<lparr>r_sequence_number := n\<rparr>) = ls_pending_ok r"
  "ls_running_ok (r\<lparr>r_sequence_number := n\<rparr>) = ls_running_ok r"
  by (simp_all add: timers_ok_def cbf_ok_def ls_counters_ok_def ls_timers_ok_def ls_pending_ok_def
      ls_running_ok_def)

lemma ok_location_table [simp]:
  "sn_ok (r\<lparr>r_location_table := t\<rparr>) = sn_ok r"
  "timers_ok (r\<lparr>r_location_table := t\<rparr>) = timers_ok r"
  "cbf_ok (r\<lparr>r_location_table := t\<rparr>) = cbf_ok r"
  "ls_counters_ok (r\<lparr>r_location_table := t\<rparr>) = ls_counters_ok r"
  "ls_timers_ok (r\<lparr>r_location_table := t\<rparr>) = ls_timers_ok r"
  "ls_running_ok (r\<lparr>r_location_table := t\<rparr>) = ls_running_ok r"
  by (simp_all add: sn_ok_def timers_ok_def cbf_ok_def ls_counters_ok_def ls_timers_ok_def
      ls_running_ok_def)

lemma router_init_ok:
  assumes "router_init mib sign verify now = Inr r"
  shows "router_ok r"
proof -
  have "r_location_table r = []" "r_timers r = []" "r_cbf_buffer r = []" "r_ls_timers r = []"
    "r_ls_retransmit_counters r = []" "r_ls_packet_buffers r = []" "r_sequence_number r = 0"
    using assms
    by (auto simp: router_init_def setup_gn_address_def configure_beacon_service_def Let_def
        split: LocalGnAddrConfMethod.splits if_splits)
  then show ?thesis by (simp add: router_ok_defs)
qed

section \<open>Parts of the handlers\<close>

lemma keeps_link_send: "keeps router_ok (link_send p)"
proof (rule keepsI)
  fix r res r' assume "router_ok r" "link_send p r = (res, r')"
  then show "router_ok r'" by (elim link_send_cases) simp
qed

lemma keeps_send_confirm: "keeps router_ok (send_confirm p)"
proof (rule keepsI)
  fix r res r' assume "router_ok r" "send_confirm p r = (res, r')"
  then show "router_ok r'" by (elim send_confirm_cases) simp
qed

lemma keeps_send_ignore: "keeps router_ok (send_ignore p)"
proof (rule keepsI)
  fix r res r' assume "router_ok r" "send_ignore p r = (res, r')"
  then show "router_ok r'" by (elim send_ignore_cases) simp
qed

lemma keeps_call_sign: "keeps router_ok (call_sign meth srv request)"
  unfolding call_sign_def
  by (intro keeps_gets_bind keeps.obeys_then keeps_modify keeps.obeys_pure) simp

lemma keeps_dad: "keeps router_ok (duplicate_address_detection a)"
  unfolding duplicate_address_detection_def
  by (intro keeps_gets_bind keeps.obeys_if keeps.obeys_pure)

lemma keeps_get_sequence_number: "keeps router_ok get_sequence_number"
proof (rule keepsI)
  fix r res r' assume "router_ok r" "get_sequence_number r = (res, r')"
  then show "router_ok r'"
    by (auto simp: get_sequence_number_run Let_def router_ok_def sn_ok_def)
qed

text \<open>An update of the location table does not create pending entries.\<close>

definition no_new_pending :: "loc_table \<Rightarrow> loc_table \<Rightarrow> bool" where
  "no_new_pending t t' \<longleftrightarrow>
     (\<forall>a e'. dict_get t' a = Some e' \<and> le_ls_pending e'
        \<longrightarrow> (\<exists>e. dict_get t a = Some e \<and> le_ls_pending e))"

lemma update_entry_pending:
  assumes "update_entry mib now a upd t = (res, t')" "dict_ok t"
    and "\<And>new e e'. upd new e = Inr e' \<Longrightarrow> le_ls_pending e' = le_ls_pending e"
  shows "no_new_pending t t'"
proof (cases res)
  case (Inl ex)
  then show ?thesis
    using update_entry_Inl(2) [of mib now a upd t ex t'] assms(1)
    by (auto simp: no_new_pending_def dict_simps split: option.splits if_splits)
next
  case (Inr u)
  then obtain e1 where e1: "upd (dict_get t a = None) (current_entry mib a t) = Inr e1"
    and t': "\<And>b. dict_get t' b = (case (if b = a then Some e1 else dict_get t b) of
           None \<Rightarrow> None | Some e \<Rightarrow> if kept_by_refresh mib now e then Some e else None)"
    using update_entry_Inr assms(1,2) by blast
  have "le_ls_pending e1 \<Longrightarrow> \<exists>e. dict_get t a = Some e \<and> le_ls_pending e"
    using assms(3) [OF e1] by (auto simp: current_entry_def split: option.splits)
  then show ?thesis
    unfolding no_new_pending_def t' by (auto split: option.splits if_splits)
qed

lemma update_pending:
  "update_with_multi_hop_packet mib sn pv bs new e = Inr e' \<Longrightarrow> le_ls_pending e' = le_ls_pending e"
  "update_with_gbc_packet mib bs h e = Inr e' \<Longrightarrow> le_ls_pending e' = le_ls_pending e"
  "le_ls_pending (update_with_shb_packet mib pv bs e) = le_ls_pending e"
  by (auto simp: update_with_multi_hop_packet_def update_with_gbc_packet_def rbind_eq_Inr Let_def
      update_with_shb_packet_def check_duplicate_sn_fields(2) split: if_splits)

lemma new_packet_pending:
  "dict_ok t \<Longrightarrow> no_new_pending t (snd (new_shb_packet mib now pv bs t))"
  "dict_ok t \<Longrightarrow> no_new_pending t (snd (new_guc_packet mib now guc bs t))"
  "dict_ok t \<Longrightarrow> no_new_pending t (snd (new_tsb_packet mib now tsb bs t))"
  "dict_ok t \<Longrightarrow> no_new_pending t (snd (new_gac_packet mib now gbc bs t))"
  "dict_ok t \<Longrightarrow> no_new_pending t (snd (new_gbc_packet mib now gbc bs t))"
  "dict_ok t \<Longrightarrow> no_new_pending t (snd (new_ls_request_packet mib now q bs t))"
  "dict_ok t \<Longrightarrow> no_new_pending t (snd (new_ls_reply_packet mib now p bs t))"
  unfolding new_shb_packet_def new_guc_packet_def new_tsb_packet_def new_gac_packet_def
    new_gbc_packet_def new_ls_request_packet_def new_ls_reply_packet_def
    update_with_tsb_packet_def
  by (rule update_entry_pending [OF surjective_pairing], assumption,
      auto dest: update_pending(1,2) simp: update_pending(3))+

lemma ls_pending_update:
  assumes "no_new_pending (r_location_table r) t" "ls_pending_ok r"
  shows "ls_pending_ok (r\<lparr>r_location_table := t\<rparr>)"
  unfolding ls_pending_ok_def
proof (intro allI impI)
  fix a e
  assume "dict_get (r_location_table (r\<lparr>r_location_table := t\<rparr>)) a = Some e \<and> le_ls_pending e"
  then obtain e0 where "dict_get (r_location_table r) a = Some e0" "le_ls_pending e0"
    using assms(1) by (auto simp: no_new_pending_def)
  then show "dict_get (r_ls_retransmit_counters (r\<lparr>r_location_table := t\<rparr>)) a \<noteq> None"
    using assms(2) by (auto simp: ls_pending_ok_def)
qed

lemma keeps_on_location_table:
  assumes "\<And>mib now t. loct_ok mib t \<Longrightarrow> loct_ok mib (snd (meth mib now t))"
    and "\<And>mib now t. dict_ok t \<Longrightarrow> no_new_pending t (snd (meth mib now t))"
  shows "keeps router_ok (on_location_table meth)"
proof (rule keepsI)
  fix r res r' assume ok: "router_ok r" and run: "on_location_table meth r = (res, r')"
  let ?t = "r_location_table r"
  let ?t' = "snd (meth (r_mib r) (r_now r) ?t)"
  have r': "r' = r\<lparr>r_location_table := ?t'\<rparr>"
    using run by (simp add: on_location_table_def Let_def split_beta)
  have "loct_ok (r_mib r) ?t" "dict_ok ?t" using ok by (auto simp: router_ok_def loct_ok_def)
  then have "loct_ok (r_mib r) ?t'" "no_new_pending ?t ?t'" using assms by auto
  moreover have "ls_pending_ok r'"
    using ls_pending_update [OF calculation(2)] ok unfolding r' router_ok_def by blast
  ultimately show "router_ok r'" using ok unfolding r' by (simp add: router_ok_def)
qed

lemma keeps_new_packet:
  "valid_lpv pv \<Longrightarrow> keeps router_ok (on_location_table (\<lambda>mib now. new_shb_packet mib now pv bs))"
  "valid_guc guc \<Longrightarrow> keeps router_ok (on_location_table (\<lambda>mib now. new_guc_packet mib now guc bs))"
  "valid_tsb tsb \<Longrightarrow> keeps router_ok (on_location_table (\<lambda>mib now. new_tsb_packet mib now tsb bs))"
  "valid_gbc gbc \<Longrightarrow> keeps router_ok (on_location_table (\<lambda>mib now. new_gac_packet mib now gbc bs))"
  "valid_gbc gbc \<Longrightarrow> keeps router_ok (on_location_table (\<lambda>mib now. new_gbc_packet mib now gbc bs))"
  "valid_lsreq q \<Longrightarrow> keeps router_ok (on_location_table (\<lambda>mib now. new_ls_request_packet mib now q bs))"
  "valid_lsrep p \<Longrightarrow> keeps router_ok (on_location_table (\<lambda>mib now. new_ls_reply_packet mib now p bs))"
  by (rule keeps_on_location_table; simp add: new_packet_ok new_packet_pending)+

section \<open>Timers\<close>

text \<open>Changes that leave a part of the invariant alone because its fields are not touched.\<close>

lemma ok_other_fields [simp]:
  "sn_ok (r\<lparr>r_timers := T\<rparr>) = sn_ok r" "sn_ok (r\<lparr>r_next_timer := n\<rparr>) = sn_ok r"
  "sn_ok (r\<lparr>r_cbf_buffer := C\<rparr>) = sn_ok r" "sn_ok (r\<lparr>r_ls_timers := L\<rparr>) = sn_ok r"
  "sn_ok (r\<lparr>r_ls_retransmit_counters := K\<rparr>) = sn_ok r"
  "sn_ok (r\<lparr>r_ls_packet_buffers := B\<rparr>) = sn_ok r"
  "timers_ok (r\<lparr>r_cbf_buffer := C\<rparr>) = timers_ok r"
  "timers_ok (r\<lparr>r_ls_timers := L\<rparr>) = timers_ok r"
  "timers_ok (r\<lparr>r_ls_retransmit_counters := K\<rparr>) = timers_ok r"
  "timers_ok (r\<lparr>r_ls_packet_buffers := B\<rparr>) = timers_ok r"
  "cbf_ok (r\<lparr>r_next_timer := n\<rparr>) = cbf_ok r" "cbf_ok (r\<lparr>r_ls_timers := L\<rparr>) = cbf_ok r"
  "cbf_ok (r\<lparr>r_ls_retransmit_counters := K\<rparr>) = cbf_ok r"
  "cbf_ok (r\<lparr>r_ls_packet_buffers := B\<rparr>) = cbf_ok r"
  "ls_counters_ok (r\<lparr>r_timers := T\<rparr>) = ls_counters_ok r"
  "ls_counters_ok (r\<lparr>r_next_timer := n\<rparr>) = ls_counters_ok r"
  "ls_counters_ok (r\<lparr>r_cbf_buffer := C\<rparr>) = ls_counters_ok r"
  "ls_counters_ok (r\<lparr>r_ls_timers := L\<rparr>) = ls_counters_ok r"
  "ls_timers_ok (r\<lparr>r_cbf_buffer := C\<rparr>) = ls_timers_ok r"
  "ls_timers_ok (r\<lparr>r_ls_retransmit_counters := K\<rparr>) = ls_timers_ok r"
  "ls_timers_ok (r\<lparr>r_ls_packet_buffers := B\<rparr>) = ls_timers_ok r"
  "ls_pending_ok (r\<lparr>r_timers := T\<rparr>) = ls_pending_ok r"
  "ls_pending_ok (r\<lparr>r_next_timer := n\<rparr>) = ls_pending_ok r"
  "ls_pending_ok (r\<lparr>r_cbf_buffer := C\<rparr>) = ls_pending_ok r"
  "ls_pending_ok (r\<lparr>r_ls_timers := L\<rparr>) = ls_pending_ok r"
  "ls_pending_ok (r\<lparr>r_ls_packet_buffers := B\<rparr>) = ls_pending_ok r"
  "ls_running_ok (r\<lparr>r_next_timer := n\<rparr>) = ls_running_ok r"
  "ls_running_ok (r\<lparr>r_cbf_buffer := C\<rparr>) = ls_running_ok r"
  "ls_running_ok (r\<lparr>r_ls_timers := L\<rparr>) = ls_running_ok r"
  "ls_running_ok (r\<lparr>r_ls_packet_buffers := B\<rparr>) = ls_running_ok r"
  by (simp_all add: sn_ok_def timers_ok_def cbf_ok_def ls_counters_ok_def ls_timers_ok_def
      ls_pending_ok_def ls_running_ok_def)

lemma timers_ok_next: "timers_ok r \<Longrightarrow> dict_get (r_timers r) (r_next_timer r) = None"
  by (cases "dict_get (r_timers r) (r_next_timer r)") (auto simp: timers_ok_def)

lemma ls_timers_okD:
  assumes "ls_timers_ok r"
  shows "dict_get (r_ls_timers r) a = Some n \<Longrightarrow> n < r_next_timer r"
    and "dict_get (r_ls_timers r) a = Some n \<Longrightarrow> dict_get (r_timers r) n = Some (d, act)
      \<Longrightarrow> act = LS_RETRANSMIT a"
    and "dict_get (r_timers r) n = Some (d, LS_RETRANSMIT a) \<Longrightarrow> dict_get (r_ls_timers r) a = Some n"
  using assms unfolding ls_timers_ok_def by blast+

lemma ls_running_okD:
  "ls_running_ok r \<Longrightarrow> dict_get (r_timers r) n = Some (d, LS_RETRANSMIT a)
    \<Longrightarrow> dict_get (r_ls_retransmit_counters r) a \<noteq> None"
  unfolding ls_running_ok_def by blast

lemma ls_timers_same:
  assumes "ls_timers_ok r" "r_ls_timers r' = r_ls_timers r" "r_next_timer r \<le> r_next_timer r'"
    and same: "\<And>m d a. dict_get (r_timers r') m = Some (d, LS_RETRANSMIT a)
      \<longleftrightarrow> dict_get (r_timers r) m = Some (d, LS_RETRANSMIT a)"
    and old: "\<And>m d act. m < r_next_timer r \<Longrightarrow> dict_get (r_timers r') m = Some (d, act)
      \<Longrightarrow> dict_get (r_timers r) m = Some (d, act)"
  shows "ls_timers_ok r'"
  unfolding ls_timers_ok_def
proof (intro conjI allI impI)
  fix a n
  assume "dict_get (r_ls_timers r') a = Some n"
  then have "dict_get (r_ls_timers r) a = Some n" by (simp only: assms(2))
  note n = ls_timers_okD(1) [OF assms(1) this] and act = ls_timers_okD(2) [OF assms(1) this]
  show "n < r_next_timer r'" using n assms(3) by simp
  fix d act'
  assume "dict_get (r_timers r') n = Some (d, act')"
  then show "act' = LS_RETRANSMIT a" using act old [OF n] by blast
next
  fix a n d
  assume "dict_get (r_timers r') n = Some (d, LS_RETRANSMIT a)"
  then have "dict_get (r_timers r) n = Some (d, LS_RETRANSMIT a)" by (simp only: same)
  then show "dict_get (r_ls_timers r') a = Some n"
    unfolding assms(2) by (rule ls_timers_okD(3) [OF assms(1)])
qed

text \<open>A timer for a packet that enters the CBF buffer.\<close>

lemma start_cbf_timer_ok:
  assumes ok: "router_ok r" and new: "dict_get (r_cbf_buffer r) k = None"
  shows "router_ok (r\<lparr>r_next_timer := Suc (r_next_timer r),
      r_timers := dict_set (r_next_timer r) (d, CBF_TIMEOUT k p) (r_timers r),
      r_cbf_buffer := dict_set k (r_next_timer r) (r_cbf_buffer r)\<rparr>)" (is "router_ok ?r")
proof -
  note parts = ok [unfolded router_ok_def]
  have fresh: "dict_get (r_timers r) (r_next_timer r) = None"
    using parts timers_ok_next by blast
  have iff: "dict_get (r_cbf_buffer r) k' = Some n
      \<longleftrightarrow> (\<exists>d p. dict_get (r_timers r) n = Some (d, CBF_TIMEOUT k' p))" for k' n
    using parts unfolding cbf_ok_def by blast
  have none: "dict_get (r_timers r) n \<noteq> Some (d, CBF_TIMEOUT k p)" for n d p
    using iff [of k n] new by auto
  have "timers_ok ?r"
    using parts by (auto simp: timers_ok_def dict_simps less_Suc_eq)
  moreover have "cbf_ok ?r"
    unfolding cbf_ok_def
  proof (intro allI)
    fix k' m
    show "dict_get (r_cbf_buffer ?r) k' = Some m
        \<longleftrightarrow> (\<exists>d p. dict_get (r_timers ?r) m = Some (d, CBF_TIMEOUT k' p))"
      by (cases "k' = k"; cases "m = r_next_timer r") (simp_all add: dict_simps iff none fresh)
  qed
  moreover have "ls_timers_ok ?r"
    by (rule ls_timers_same [of r]) (use parts fresh in \<open>auto simp: dict_simps split: if_splits\<close>)
  moreover have "ls_running_ok ?r"
    using parts by (simp add: ls_running_ok_def dict_simps)
  ultimately show ?thesis using parts by (simp add: router_ok_def)
qed

text \<open>A packet that leaves the CBF buffer together with its timer.\<close>

lemma stop_cbf_timer_ok:
  assumes ok: "router_ok r" and old: "dict_get (r_cbf_buffer r) k = Some n"
  shows "router_ok (r\<lparr>r_cbf_buffer := dict_del k (r_cbf_buffer r),
      r_timers := dict_del n (r_timers r)\<rparr>)" (is "router_ok ?r")
proof -
  note parts = ok [unfolded router_ok_def]
  have iff: "dict_get (r_cbf_buffer r) k' = Some n
      \<longleftrightarrow> (\<exists>d p. dict_get (r_timers r) n = Some (d, CBF_TIMEOUT k' p))" for k' n
    using parts unfolding cbf_ok_def by blast
  obtain d p where n: "dict_get (r_timers r) n = Some (d, CBF_TIMEOUT k p)"
    using iff old by blast
  have only: "m = n" if "dict_get (r_timers r) m = Some (d, CBF_TIMEOUT k p)" for m d p
    using iff [of k m] that old by auto
  have "timers_ok ?r"
    using parts by (auto simp: timers_ok_def dict_simps)
  moreover have "cbf_ok ?r"
    unfolding cbf_ok_def
  proof (intro allI)
    fix k' m
    show "dict_get (r_cbf_buffer ?r) k' = Some m
        \<longleftrightarrow> (\<exists>d p. dict_get (r_timers ?r) m = Some (d, CBF_TIMEOUT k' p))"
    proof (cases "k' = k")
      case True
      then show ?thesis using only [of m] by (auto simp: dict_simps)
    next
      case False
      then show ?thesis using n by (cases "m = n") (simp_all add: dict_simps iff)
    qed
  qed
  moreover have "ls_timers_ok ?r"
    by (rule ls_timers_same [of r]) (use parts n in \<open>auto simp: dict_simps split: if_splits\<close>)
  moreover have "ls_running_ok ?r"
    using parts by (simp add: ls_running_ok_def dict_simps)
  ultimately show ?thesis using parts by (simp add: router_ok_def)
qed

text \<open>
  A new retransmit timer for an address, the only one then running for it: \<open>old\<close> is the one
  that is cancelled, if any.
\<close>

lemma start_ls_timer_ok:
  assumes ok: "router_ok r"
    and T: "\<And>m. dict_get T m = (if m = r_next_timer r then Some (d, LS_RETRANSMIT a)
              else if Some m = old then None else dict_get (r_timers r) m)"
    and L: "\<And>b. dict_get L b = (if b = a then Some (r_next_timer r) else dict_get (r_ls_timers r) b)"
    and running: "\<And>m d. dict_get (r_timers r) m = Some (d, LS_RETRANSMIT a) \<Longrightarrow> old = Some m"
    and oldLS: "\<And>m d act. old = Some m \<Longrightarrow> dict_get (r_timers r) m = Some (d, act) \<Longrightarrow> act = LS_RETRANSMIT a"
    and counter: "dict_get (r_ls_retransmit_counters r) a \<noteq> None"
  shows "router_ok (r\<lparr>r_next_timer := Suc (r_next_timer r), r_timers := T, r_ls_timers := L\<rparr>)"
    (is "router_ok ?r")
proof -
  note parts = ok [unfolded router_ok_def]
  have fresh: "dict_get (r_timers r) (r_next_timer r) = None"
    using parts timers_ok_next by blast
  have recorded: "n < r_next_timer r"
      "\<And>d act. dict_get (r_timers r) n = Some (d, act) \<Longrightarrow> act = LS_RETRANSMIT b"
    if "dict_get (r_ls_timers r) b = Some n" for b n
    using that parts ls_timers_okD(1,2) by blast+
  have is_recorded: "dict_get (r_ls_timers r) b = Some n"
    if "dict_get (r_timers r) n = Some (d, LS_RETRANSMIT b)" for n d b
    using that parts ls_timers_okD(3) by blast
  have "timers_ok ?r"
    using parts by (auto simp: timers_ok_def T less_Suc_eq split: if_splits)
  moreover have "cbf_ok ?r"
  proof -
    have "(\<exists>d p. dict_get T n = Some (d, CBF_TIMEOUT k p))
        \<longleftrightarrow> (\<exists>d p. dict_get (r_timers r) n = Some (d, CBF_TIMEOUT k p))" for k n
      using fresh oldLS by (auto simp: T)
    then show ?thesis using parts unfolding cbf_ok_def by simp
  qed
  moreover have "ls_timers_ok ?r"
    unfolding ls_timers_ok_def
  proof (intro conjI allI impI)
    fix b n
    assume b: "dict_get (r_ls_timers ?r) b = Some n"
    show "n < r_next_timer ?r"
      using b recorded(1) [of b n] by (cases "b = a") (simp_all add: L less_Suc_eq)
    fix d' act
    assume "dict_get (r_timers ?r) n = Some (d', act)"
    then show "act = LS_RETRANSMIT b"
      using b recorded [of b n] by (cases "b = a") (auto simp: T L split: if_splits)
  next
    fix b n d'
    assume "dict_get (r_timers ?r) n = Some (d', LS_RETRANSMIT b)"
    then have n: "dict_get T n = Some (d', LS_RETRANSMIT b)" by simp
    show "dict_get (r_ls_timers ?r) b = Some n"
    proof (cases "n = r_next_timer r")
      case True
      then show ?thesis using n by (simp add: T L)
    next
      case False
      then have "Some n \<noteq> old" and old_n: "dict_get (r_timers r) n = Some (d', LS_RETRANSMIT b)"
        using n by (simp_all add: T split: if_splits)
      then have "b \<noteq> a" using running [of n d'] by auto
      then show ?thesis using is_recorded [OF old_n] by (simp add: L)
    qed
  qed
  moreover have "ls_running_ok ?r"
    using parts counter by (auto simp: ls_running_ok_def T split: if_splits)
  ultimately show ?thesis using parts by (simp add: router_ok_def)
qed

section \<open>Forwarding and source operations\<close>

lemma keeps_cbf: "keeps router_ok (gn_area_cbf_forwarding bh ch h packet)"
proof (rule keepsI)
  fix r res r'
  assume ok: "router_ok r" and run: "gn_area_cbf_forwarding bh ch h packet r = (res, r')"
  let ?a = "lpv_gn_addr (gbc_so_pv h)"
  let ?k = "(?a, gbc_sn h)"
  show "router_ok r'"
  proof (cases "dict_get (r_cbf_buffer r) ?k")
    case (Some n)
    then show ?thesis using run cbf_duplicate_run [OF Some] stop_cbf_timer_ok [OF ok Some] by simp
  next
    case None
    show ?thesis
    proof (cases "cbf_delay_ms r ?a")
      case (Inl e)
      then show ?thesis using run ok None by (simp add: gn_area_cbf_forwarding_def Let_def)
    next
      case delay: (Inr d)
      show ?thesis
      proof (cases "gbc_packet bh ch h packet")
        case (Inl e)
        then show ?thesis using run ok None delay by (simp add: gn_area_cbf_forwarding_def Let_def)
      next
        case (Inr p)
        then show ?thesis
          using run cbf_new_run [OF None delay Inr] start_cbf_timer_ok [OF ok None] by auto
      qed
    qed
  qed
qed

lemma keeps_forward_gbc: "keeps router_ok (gn_data_forward_gbc bh ch h packet)"
proof -
  have "keeps router_ok (case alg of AREA_FORWARDING \<Rightarrow> m1 | NON_AREA_FORWARDING \<Rightarrow> m2 | DISCARTED \<Rightarrow> m3)"
    if "keeps router_ok m1" "keeps router_ok m2" "keeps router_ok m3"
    for alg and m1 m2 m3 :: "(router, ResultCode) prog"
    using that by (cases alg) auto
  note alg = this
  show ?thesis
    unfolding gn_data_forward_gbc_def Let_def
    by (intro keeps_gets_bind keeps.obeys_if keeps.obeys_lift_bind alg keeps.obeys_then keeps_cbf
        keeps_send_confirm keeps.obeys_pure)
qed

lemma keeps_shb_packet: "keeps router_ok (shb_packet request)"
  unfolding shb_packet_def Let_def
  by (intro keeps_gets_bind keeps.obeys_if keeps.obeys_case_option keeps.obeys_lift_bind
      keeps.obeys_bind keeps_call_sign keeps.obeys_pure)

lemma keeps_request_shb: "keeps router_ok (gn_data_request_shb request)"
  unfolding gn_data_request_shb_def
  by (intro keeps.obeys_bind keeps_shb_packet keeps_send_confirm keeps.obeys_if keeps.obeys_then
      keeps_modify keeps.obeys_pure) simp

lemma keeps_request_gbc: "keeps router_ok (gn_data_request_gbc request)"
proof -
  have "keeps router_ok (case alg of AREA_FORWARDING \<Rightarrow> m1 | NON_AREA_FORWARDING \<Rightarrow> m2 | DISCARTED \<Rightarrow> m3)"
    if "keeps router_ok m1" "keeps router_ok m2" "keeps router_ok m3"
    for alg and m1 m2 m3 :: "(router, ResultCode) prog"
    using that by (cases alg) auto
  note alg = this
  show ?thesis
    unfolding gn_data_request_gbc_def Let_def split_beta
    by (intro keeps_gets_bind keeps.obeys_if keeps.obeys_lift_bind alg keeps.obeys_case_option
        keeps.obeys_bind keeps_call_sign keeps_get_sequence_number keeps_send_confirm
        keeps.obeys_pure)
qed

section \<open>Location service\<close>

lemma send_ls_request_packet_cases:
  assumes "send_ls_request_packet a r = (res, r')"
  obtains ps n where "r' = r\<lparr>r_sequence_number := (r_sequence_number r + 1) mod (2 ^ 16 - 1),
      r_ll_calls := n, r_sent := r_sent r @ ps\<rparr>"
proof -
  let ?r = "r\<lparr>r_sequence_number := (r_sequence_number r + 1) mod (2 ^ 16 - 1)\<rparr>"
  let ?enc = "encode_parts [bh_encode (bh_initialize_with_mib_request_and_rhl (r_mib r) None
        (itsGnDefaultHopLimit (r_mib r))), ch_encode (ls_common_header (r_mib r) LS_REQUEST),
      lsreq_encode (lsreq_initialize ((r_sequence_number r + 1) mod (2 ^ 16 - 1))
        (r_ego_position_vector r) a)]"
  have run: "send_ls_request_packet a r = bind_s (lift_s ?enc) send_ignore ?r"
    by (simp add: send_ls_request_packet_def bind_s_def get_sequence_number_run Let_def)
  show thesis
  proof (cases ?enc)
    case (Inl e)
    then have "r' = ?r" using assms run by simp
    then have "r' = r\<lparr>r_sequence_number := (r_sequence_number r + 1) mod (2 ^ 16 - 1),
        r_ll_calls := r_ll_calls r, r_sent := r_sent r @ []\<rparr>" by simp
    then show thesis by (rule that)
  next
    case (Inr p)
    then have "send_ignore p ?r = (res, r')" using assms run by simp
    then show thesis using that by (elim send_ignore_cases) simp
  qed
qed

lemma start_ls_timer_run:
  "start_ls_timer a r = (Inr (r_next_timer r), r\<lparr>r_next_timer := Suc (r_next_timer r),
     r_timers := dict_set (r_next_timer r)
       (r_now r + of_int (itsGnLocationServiceRetransmitTimer (r_mib r)) / 1000, LS_RETRANSMIT a)
       (r_timers r)\<rparr>)"
  by (simp add: start_ls_timer_def start_timer_def bind_s_def then_s_def)

lemma router_ok_sequence_step:
  assumes "router_ok r"
  shows "router_ok (r\<lparr>r_sequence_number := (r_sequence_number r + 1) mod (2 ^ 16 - 1),
      r_ll_calls := n, r_sent := ps\<rparr>)"
  using keepsD [OF keeps_get_sequence_number assms] by (simp add: get_sequence_number_run Let_def)

text \<open>The bookkeeping that starts a location service.\<close>

lemma ls_begin_ok:
  assumes ok: "router_ok r"
  shows "router_ok (r\<lparr>
      r_location_table := set_ls_pending True a (snd (ensure_entry (r_mib r) a (r_location_table r))),
      r_ls_packet_buffers := dict_set a b (r_ls_packet_buffers r),
      r_ls_retransmit_counters := dict_set a 0 (r_ls_retransmit_counters r)\<rparr>)" (is "router_ok ?r")
proof -
  note parts = ok [unfolded router_ok_def]
  let ?t = "snd (ensure_entry (r_mib r) a (r_location_table r))"
  have t: "loct_ok (r_mib r) ?t"
    using parts ensure_entry_ok(1) [OF _ surjective_pairing] by blast
  have get: "dict_get ?t b = dict_get (r_location_table r) b" if "b \<noteq> a" for b
    using that by (simp add: ensure_entry_eq dict_simps split: option.splits)
  have "ls_counters_ok ?r"
    using parts by (auto simp: ls_counters_ok_def dict_simps)
  moreover have "ls_pending_ok ?r"
    unfolding ls_pending_ok_def
  proof (intro allI impI)
    fix b e
    assume e: "dict_get (r_location_table ?r) b = Some e \<and> le_ls_pending e"
    show "dict_get (r_ls_retransmit_counters ?r) b \<noteq> None"
    proof (cases "b = a")
      case False
      then have "dict_get (r_location_table r) b = Some e"
        using e get by (simp add: set_ls_pending_def dict_simps split: option.splits)
      then show ?thesis using parts e False by (simp add: ls_pending_ok_def dict_simps)
    qed (simp add: dict_simps)
  qed
  moreover have "ls_running_ok ?r"
    using parts by (simp add: ls_running_ok_def dict_simps)
  ultimately show ?thesis using parts t by (simp add: router_ok_def)
qed

text \<open>The bookkeeping that ends one, whether it is answered or given up.\<close>

lemma ls_end_parts:
  assumes ok: "router_ok r"
  shows "ls_counters_ok (r\<lparr>r_ls_packet_buffers := dict_del a (r_ls_packet_buffers r),
        r_ls_retransmit_counters := dict_del a (r_ls_retransmit_counters r)\<rparr>)"
    and "ls_pending_ok (r\<lparr>r_ls_retransmit_counters := dict_del a (r_ls_retransmit_counters r),
        r_location_table := set_ls_pending False a (r_location_table r)\<rparr>)" (is "ls_pending_ok ?r")
proof -
  note parts = ok [unfolded router_ok_def]
  show "ls_counters_ok (r\<lparr>r_ls_packet_buffers := dict_del a (r_ls_packet_buffers r),
        r_ls_retransmit_counters := dict_del a (r_ls_retransmit_counters r)\<rparr>)"
    using parts by (auto simp: ls_counters_ok_def dict_simps)
  show "ls_pending_ok ?r"
    unfolding ls_pending_ok_def
  proof (intro allI impI)
    fix b e
    assume e: "dict_get (r_location_table ?r) b = Some e \<and> le_ls_pending e"
    then have "b \<noteq> a" "dict_get (r_location_table r) b = Some e"
      by (auto simp: set_ls_pending_def dict_simps split: option.splits if_splits)
    then show "dict_get (r_ls_retransmit_counters ?r) b \<noteq> None"
      using parts e by (simp add: ls_pending_ok_def dict_simps)
  qed
qed

lemma keeps_send_ls_request: "keeps router_ok (send_ls_request_packet a)"
proof (rule keepsI)
  fix r res r' assume "router_ok r" "send_ls_request_packet a r = (res, r')"
  then show "router_ok r'"
    using router_ok_sequence_step by (elim send_ls_request_packet_cases) simp
qed

lemma ls_buffer_ok:
  assumes "router_ok r" "dict_get (r_location_table r) a = Some e" "le_ls_pending e"
  shows "router_ok (r\<lparr>r_ls_packet_buffers := dict_set a b (r_ls_packet_buffers r)\<rparr>)" (is "router_ok ?r")
proof -
  have "dict_get (r_ls_retransmit_counters r) a \<noteq> None"
    using assms by (auto simp: router_ok_def ls_pending_ok_def)
  moreover have "ls_counters_ok r" using assms(1) by (simp add: router_ok_def)
  ultimately have "ls_counters_ok ?r"
    unfolding ls_counters_ok_def by (simp add: dict_simps)
  then show ?thesis using assms(1) by (simp add: router_ok_def)
qed

text \<open>Starting the timer of \<open>gn_ls_request\<close> and cancelling the one it replaces.\<close>

definition renew_ls_timer :: "GNAddress \<Rightarrow> (router, unit) prog" where
  "renew_ls_timer sought =
     bind_s (start_ls_timer sought) (\<lambda>timer.
     bind_s (gets_s r_ls_timers) (\<lambda>timers.
     then_s (case dict_get timers sought of
               None \<Rightarrow> return_s ()
             | Some old \<Rightarrow> cancel_timer old)
       (modify_s (\<lambda>r. r\<lparr>r_ls_timers :=
          dict_set sought timer (dict_del sought (r_ls_timers r))\<rparr>))))"

lemma renew_ls_timer_ok:
  assumes ok: "router_ok r" and counter: "dict_get (r_ls_retransmit_counters r) a \<noteq> None"
    and run: "renew_ls_timer a r = (res, r')"
  shows "router_ok r'"
proof -
  let ?d = "r_now r + of_int (itsGnLocationServiceRetransmitTimer (r_mib r)) / 1000"
  let ?n = "r_next_timer r"
  let ?L = "dict_set a ?n (dict_del a (r_ls_timers r))"
  let ?old = "dict_get (r_ls_timers r) a"
  let ?T = "case ?old of None \<Rightarrow> dict_set ?n (?d, LS_RETRANSMIT a) (r_timers r)
    | Some m \<Rightarrow> dict_del m (dict_set ?n (?d, LS_RETRANSMIT a) (r_timers r))"
  have lt: "ls_timers_ok r" using ok by (simp add: router_ok_def)
  have r': "r' = r\<lparr>r_next_timer := Suc ?n, r_timers := ?T, r_ls_timers := ?L\<rparr>"
    using run by (cases ?old) (auto simp: renew_ls_timer_def start_ls_timer_run bind_s_def then_s_def
        cancel_timer_def)
  show "router_ok r'"
    unfolding r'
  proof (rule start_ls_timer_ok [OF ok, where d = ?d and a = a and old = ?old])
    show "dict_get ?T m = (if m = ?n then Some (?d, LS_RETRANSMIT a)
        else if Some m = ?old then None else dict_get (r_timers r) m)" for m
      using ls_timers_okD(1) [OF lt, of a] by (auto simp: dict_simps split: option.splits)
    show "dict_get ?L b = (if b = a then Some ?n else dict_get (r_ls_timers r) b)" for b
      by (simp add: dict_simps)
    show "dict_get (r_timers r) m = Some (d, LS_RETRANSMIT a) \<Longrightarrow> ?old = Some m" for m d
      using ls_timers_okD(3) [OF lt] .
    show "?old = Some m \<Longrightarrow> dict_get (r_timers r) m = Some (d, act) \<Longrightarrow> act = LS_RETRANSMIT a" for m d act
      using ls_timers_okD(2) [OF lt] .
  qed (rule counter)
qed

text \<open>Sending the request again, then the timer: the counter of the address stays.\<close>

lemma send_then_renew_ok:
  assumes ok: "router_ok r" and counter: "dict_get (r_ls_retransmit_counters r) a \<noteq> None"
    and run: "then_s (send_ls_request_packet a) (renew_ls_timer a) r = (res, r')"
  shows "router_ok r'"
proof -
  obtain res1 r1 where r1: "send_ls_request_packet a r = (res1, r1)" by fastforce
  have ok1: "router_ok r1" using keepsD [OF keeps_send_ls_request ok r1] .
  have "dict_get (r_ls_retransmit_counters r1) a \<noteq> None"
    using counter r1 by (elim send_ls_request_packet_cases) simp
  then show ?thesis
    using run r1 ok1 renew_ls_timer_ok [OF ok1]
    by (cases res1) (auto simp: then_s_def bind_s_def)
qed

lemma keeps_ls_request: "keeps router_ok (gn_ls_request a req)"
proof (rule keepsI)
  fix r res r'
  assume ok: "router_ok r" and run: "gn_ls_request a req r = (res, r')"
  let ?pending = "case get_entry a (r_location_table r) of None \<Rightarrow> False | Some e \<Rightarrow> le_ls_pending e"
  show "router_ok r'"
  proof (cases ?pending)
    case True
    then obtain e where e: "dict_get (r_location_table r) a = Some e" "le_ls_pending e"
      by (auto simp: get_entry_def split: option.splits)
    show ?thesis
      using run ok ls_buffer_ok [OF ok e]
      by (cases req) (auto simp: gn_ls_request_def get_entry_def e)
  next
    case False
    let ?r = "r\<lparr>
      r_location_table := set_ls_pending True a (snd (ensure_entry (r_mib r) a (r_location_table r))),
      r_ls_packet_buffers := dict_set a (case req of None \<Rightarrow> [] | Some req \<Rightarrow> [req])
        (r_ls_packet_buffers r),
      r_ls_retransmit_counters := dict_set a 0 (r_ls_retransmit_counters r)\<rparr>"
    have "then_s (send_ls_request_packet a) (renew_ls_timer a) ?r = (res, r')"
      using run False by (simp add: gn_ls_request_def renew_ls_timer_def)
    then show ?thesis
      by (rule send_then_renew_ok [OF ls_begin_ok [OF ok], rotated]) (simp add: dict_simps)
  qed
qed

lemma keeps_request_guc: "keeps router_ok (gn_data_request_guc request)"
  unfolding gn_data_request_guc_def Let_def
  by (intro keeps_gets_bind keeps.obeys_if keeps.obeys_lift_bind keeps.obeys_case_option
      keeps.obeys_bind keeps.obeys_then keeps_ls_request keeps_get_sequence_number
      keeps_send_confirm keeps.obeys_pure)

theorem keeps_request: "keeps router_ok (gn_data_request request)"
  unfolding gn_data_request_def Let_def gn_data_request_gac_def
  by (intro keeps.obeys_if keeps_request_shb keeps_request_gbc keeps_request_guc keeps.obeys_pure)

section \<open>Firing a timer\<close>

text \<open>The timer leaves the list of running timers and its callback runs.\<close>

definition fire_timer :: "nat \<Rightarrow> router \<Rightarrow> router" where
  "fire_timer n r =
     (case dict_get (r_timers r) n of
        None \<Rightarrow> r
      | Some (deadline, action) \<Rightarrow>
          (let r1 = r\<lparr>r_timers := dict_del n (r_timers r)\<rparr> in
           case action of
             CBF_TIMEOUT key packet \<Rightarrow> snd (cbf_timeout key packet r1)
           | LS_RETRANSMIT a \<Rightarrow> snd (ls_retransmit a r1)))"

lemma fire_cbf_ok:
  assumes ok: "router_ok r" and n: "dict_get (r_timers r) n = Some (d, CBF_TIMEOUT k p)"
  shows "router_ok (snd (cbf_timeout k p (r\<lparr>r_timers := dict_del n (r_timers r)\<rparr>)))"
proof -
  have k: "dict_get (r_cbf_buffer r) k = Some n"
    using ok n unfolding router_ok_def cbf_ok_def by blast
  let ?r = "r\<lparr>r_timers := dict_del n (r_timers r), r_cbf_buffer := dict_del k (r_cbf_buffer r)\<rparr>"
  have "?r = r\<lparr>r_cbf_buffer := dict_del k (r_cbf_buffer r), r_timers := dict_del n (r_timers r)\<rparr>"
    by simp
  then have "router_ok ?r" using stop_cbf_timer_ok [OF ok k] by metis
  then have "router_ok (snd (send_ignore p ?r))"
    using keepsD [OF keeps_send_ignore _ surjective_pairing] by blast
  moreover have "cbf_timeout k p (r\<lparr>r_timers := dict_del n (r_timers r)\<rparr>) = send_ignore p ?r"
    using k by (simp add: cbf_timeout_def)
  ultimately show ?thesis by simp
qed

text \<open>Once a retransmit timer has fired no other one runs for its address.\<close>

lemma fired_ls_timer:
  assumes ok: "router_ok r" and n: "dict_get (r_timers r) n = Some (d, LS_RETRANSMIT a)"
  defines "r1 \<equiv> r\<lparr>r_timers := dict_del n (r_timers r)\<rparr>"
  shows "router_ok r1"
    and "dict_get (r_timers r1) m \<noteq> Some (d', LS_RETRANSMIT a)"
    and "dict_get (r_ls_retransmit_counters r1) a \<noteq> None"
proof -
  note parts = ok [unfolded router_ok_def]
  have lt: "ls_timers_ok r" using parts by simp
  have old: "dict_get (r_timers r) m = Some x" if "dict_get (r_timers r1) m = Some x" for m x
    using that by (simp add: r1_def dict_simps split: if_splits)
  have rec: "dict_get (r_ls_timers r) a = Some n" using ls_timers_okD(3) [OF lt n] .
  show "dict_get (r_timers r1) m \<noteq> Some (d', LS_RETRANSMIT a)"
    using ls_timers_okD(3) [OF lt, of m d' a] rec by (auto simp: r1_def dict_simps split: if_splits)
  show "dict_get (r_ls_retransmit_counters r1) a \<noteq> None"
    using ls_running_okD [OF _ n] parts by (simp add: r1_def)
  have "timers_ok r1" using parts by (simp add: timers_ok_def r1_def dict_simps)
  moreover have "cbf_ok r1"
  proof -
    have "(\<exists>d p. dict_get (dict_del n (r_timers r)) m = Some (d, CBF_TIMEOUT k p))
        \<longleftrightarrow> (\<exists>d p. dict_get (r_timers r) m = Some (d, CBF_TIMEOUT k p))" for k m
      using n by (auto simp: dict_simps)
    then show ?thesis using parts unfolding cbf_ok_def r1_def by simp
  qed
  moreover have "ls_timers_ok r1"
    unfolding ls_timers_ok_def
  proof (intro conjI allI impI)
    fix b m
    assume "dict_get (r_ls_timers r1) b = Some m"
    then have b: "dict_get (r_ls_timers r) b = Some m" by (simp add: r1_def)
    then show "m < r_next_timer r1" using ls_timers_okD(1) [OF lt] by (simp add: r1_def)
    fix d' act assume "dict_get (r_timers r1) m = Some (d', act)"
    then show "act = LS_RETRANSMIT b" using ls_timers_okD(2) [OF lt b] old by blast
  next
    fix b m d'
    assume "dict_get (r_timers r1) m = Some (d', LS_RETRANSMIT b)"
    then show "dict_get (r_ls_timers r1) b = Some m"
      using ls_timers_okD(3) [OF lt old] by (simp add: r1_def)
  qed
  moreover have "ls_running_ok r1"
    unfolding ls_running_ok_def
  proof (intro allI impI)
    fix m d b assume "dict_get (r_timers r1) m = Some (d, LS_RETRANSMIT b)"
    then show "dict_get (r_ls_retransmit_counters r1) b \<noteq> None"
      using ls_running_okD [OF _ old] parts by (simp add: r1_def)
  qed
  ultimately show "router_ok r1" using parts by (simp add: router_ok_def r1_def)
qed

text \<open>Giving up, and answering: no retransmit timer runs for the address any more.\<close>

lemma ls_end_ok:
  assumes ok: "router_ok r"
    and T: "\<And>m x. dict_get T m = Some x \<Longrightarrow> dict_get (r_timers r) m = Some x"
    and idle: "\<And>m d. dict_get T m \<noteq> Some (d, LS_RETRANSMIT a)"
    and others: "\<And>m d act. dict_get (r_timers r) m = Some (d, act) \<Longrightarrow> act \<noteq> LS_RETRANSMIT a
      \<Longrightarrow> dict_get T m = Some (d, act)"
  shows "router_ok (r\<lparr>r_ls_packet_buffers := dict_del a (r_ls_packet_buffers r),
      r_ls_timers := dict_del a (r_ls_timers r),
      r_ls_retransmit_counters := dict_del a (r_ls_retransmit_counters r),
      r_location_table := set_ls_pending False a (r_location_table r), r_timers := T\<rparr>)"
    (is "router_ok ?e")
proof -
  note parts = ok [unfolded router_ok_def]
  have lt: "ls_timers_ok r" using parts by simp
  have "timers_ok ?e" using parts T by (auto simp: timers_ok_def)
  moreover have "cbf_ok ?e"
  proof -
    have "(\<exists>d p. dict_get T m = Some (d, CBF_TIMEOUT k p))
        \<longleftrightarrow> (\<exists>d p. dict_get (r_timers r) m = Some (d, CBF_TIMEOUT k p))" for k m
      using T others by blast
    then show ?thesis using parts unfolding cbf_ok_def by simp
  qed
  moreover have "ls_timers_ok ?e"
    unfolding ls_timers_ok_def
  proof (intro conjI allI impI)
    fix b m
    assume "dict_get (r_ls_timers ?e) b = Some m"
    then have b: "dict_get (r_ls_timers r) b = Some m" by (simp add: dict_simps split: if_splits)
    then show "m < r_next_timer ?e" using ls_timers_okD(1) [OF lt] by simp
    fix d' act assume "dict_get (r_timers ?e) m = Some (d', act)"
    then show "act = LS_RETRANSMIT b" using ls_timers_okD(2) [OF lt b] T by simp
  next
    fix b m d'
    assume m: "dict_get (r_timers ?e) m = Some (d', LS_RETRANSMIT b)"
    then have "b \<noteq> a" using idle [of m d'] by auto
    then show "dict_get (r_ls_timers ?e) b = Some m"
      using ls_timers_okD(3) [OF lt, of m d' b] T m by (simp add: dict_simps)
  qed
  moreover have "ls_counters_ok ?e" "ls_pending_ok ?e"
    using ls_end_parts [OF ok, of a] by (simp_all add: ls_counters_ok_def ls_pending_ok_def)
  moreover have "ls_running_ok ?e"
    unfolding ls_running_ok_def
  proof (intro allI impI)
    fix m d b
    assume m: "dict_get (r_timers ?e) m = Some (d, LS_RETRANSMIT b)"
    then have "b \<noteq> a" using idle [of m d] by auto
    moreover have "dict_get (r_ls_retransmit_counters r) b \<noteq> None"
      using ls_running_okD [of r m d b] parts T m by simp
    ultimately show "dict_get (r_ls_retransmit_counters ?e) b \<noteq> None" by (simp add: dict_simps)
  qed
  ultimately show ?thesis using parts by (simp add: router_ok_def)
qed

lemma ls_count_ok:
  assumes "router_ok r" "0 \<le> c" "c \<le> itsGnLocationServiceMaxRetrans (r_mib r)"
    "dict_get (r_ls_retransmit_counters r) a \<noteq> None"
  shows "router_ok (r\<lparr>r_ls_retransmit_counters := dict_set a c (r_ls_retransmit_counters r)\<rparr>)"
    (is "router_ok ?r")
proof -
  note parts = assms(1) [unfolded router_ok_def]
  have "ls_counters_ok ?r"
    using parts assms(2-4) unfolding ls_counters_ok_def by (auto simp: dict_simps)
  moreover have "ls_pending_ok ?r" "ls_running_ok ?r"
    using parts by (simp_all add: ls_pending_ok_def ls_running_ok_def dict_simps)
  moreover have "sn_ok ?r" "timers_ok ?r" "cbf_ok ?r" "ls_timers_ok ?r" using parts by simp_all
  ultimately show ?thesis using parts by (simp add: router_ok_def)
qed

definition restart_ls_timer :: "GNAddress \<Rightarrow> (router, unit) prog" where
  "restart_ls_timer sought =
     bind_s (start_ls_timer sought) (\<lambda>timer.
       modify_s (\<lambda>r. r\<lparr>r_ls_timers := dict_set sought timer (r_ls_timers r)\<rparr>))"

lemma restart_ls_timer_ok:
  assumes ok: "router_ok r" and counter: "dict_get (r_ls_retransmit_counters r) a \<noteq> None"
    and idle: "\<And>m d. dict_get (r_timers r) m \<noteq> Some (d, LS_RETRANSMIT a)"
    and run: "restart_ls_timer a r = (res, r')"
  shows "router_ok r'"
proof -
  let ?d = "r_now r + of_int (itsGnLocationServiceRetransmitTimer (r_mib r)) / 1000"
  let ?T = "dict_set (r_next_timer r) (?d, LS_RETRANSMIT a) (r_timers r)"
  have r': "r' = r\<lparr>r_next_timer := Suc (r_next_timer r), r_timers := ?T,
      r_ls_timers := dict_set a (r_next_timer r) (r_ls_timers r)\<rparr>"
    using run by (simp add: restart_ls_timer_def start_ls_timer_run bind_s_def)
  show ?thesis
    unfolding r'
    by (rule start_ls_timer_ok [OF ok, where d = ?d and a = a and old = None])
      (use idle counter in \<open>auto simp: dict_simps\<close>)
qed

lemma fire_ls_ok:
  assumes ok: "router_ok r" and n: "dict_get (r_timers r) n = Some (d, LS_RETRANSMIT a)"
  shows "router_ok (snd (ls_retransmit a (r\<lparr>r_timers := dict_del n (r_timers r)\<rparr>)))"
proof -
  define r1 where "r1 = r\<lparr>r_timers := dict_del n (r_timers r)\<rparr>"
  note fired = fired_ls_timer [OF ok n, folded r1_def]
  obtain c where c: "dict_get (r_ls_retransmit_counters r1) a = Some c"
    using fired(3) by auto
  have "0 \<le> c" using fired(1) c unfolding router_ok_def ls_counters_ok_def by auto
  have "router_ok (snd (ls_retransmit a r1))"
  proof (cases "itsGnLocationServiceMaxRetrans (r_mib r1) \<le> c")
    case True
    then have "snd (ls_retransmit a r1) = r1\<lparr>r_ls_packet_buffers := dict_del a (r_ls_packet_buffers r1),
        r_ls_timers := dict_del a (r_ls_timers r1),
        r_ls_retransmit_counters := dict_del a (r_ls_retransmit_counters r1),
        r_location_table := set_ls_pending False a (r_location_table r1), r_timers := r_timers r1\<rparr>"
      by (simp add: ls_retransmit_def c)
    then show ?thesis using ls_end_ok [OF fired(1), of "r_timers r1" a] fired(2) by metis
  next
    case False
    let ?k = "r1\<lparr>r_ls_retransmit_counters := dict_set a (c + 1) (r_ls_retransmit_counters r1)\<rparr>"
    have k: "router_ok ?k"
      using ls_count_ok [OF fired(1) _ _ fired(3), of "c + 1"] False \<open>0 \<le> c\<close> by simp
    obtain res2 r2 where r2: "send_ls_request_packet a ?k = (res2, r2)" by fastforce
    have ok2: "router_ok r2" using keepsD [OF keeps_send_ls_request k r2] .
    have same: "r_timers r2 = r_timers r1" "dict_get (r_ls_retransmit_counters r2) a \<noteq> None"
      using r2 by (elim send_ls_request_packet_cases; simp add: dict_simps)+
    have "ls_retransmit a r1 = then_s (send_ls_request_packet a) (restart_ls_timer a) ?k"
      using False by (simp add: ls_retransmit_def c restart_ls_timer_def)
    also have "\<dots> = (case res2 of Inl e \<Rightarrow> (Inl e, r2) | Inr _ \<Rightarrow> restart_ls_timer a r2)"
      by (simp add: then_s_def bind_s_def r2)
    finally show ?thesis
      using ok2 restart_ls_timer_ok [OF ok2 same(2) _ surjective_pairing] same(1) fired(2)
      by (cases res2) simp_all
  qed
  then show ?thesis by (simp add: r1_def)
qed

theorem fire_timer_ok: "router_ok r \<Longrightarrow> router_ok (fire_timer n r)"
  using fire_cbf_ok fire_ls_ok
  by (auto simp: fire_timer_def Let_def split: option.splits timer_action.splits)

section \<open>Receiver operations\<close>

lemma keeps_catch_discard: "keeps I m \<Longrightarrow> keeps I (catch_discard v m)"
  unfolding catch_discard_def by (intro keeps.obeys_catch keeps.obeys_if keeps.obeys_pure)

lemma keeps_deliver: "keeps router_ok (deliver i)"
  unfolding deliver_def by (intro keeps.obeys_case_option keeps.obeys_pure keeps_modify) simp

text \<open>A decoded header is valid, so the location table stays well formed.\<close>

lemma keeps_decoded:
  "lpv_decode bs = Inr pv \<Longrightarrow> keeps router_ok (on_location_table (\<lambda>mib now. new_shb_packet mib now pv p))"
  "guc_decode bs = Inr guc \<Longrightarrow> keeps router_ok (on_location_table (\<lambda>mib now. new_guc_packet mib now guc p))"
  "tsb_decode bs = Inr tsb \<Longrightarrow> keeps router_ok (on_location_table (\<lambda>mib now. new_tsb_packet mib now tsb p))"
  "gbc_decode bs = Inr gbc \<Longrightarrow> keeps router_ok (on_location_table (\<lambda>mib now. new_gac_packet mib now gbc p))"
  "gbc_decode bs = Inr gbc \<Longrightarrow> keeps router_ok (on_location_table (\<lambda>mib now. new_gbc_packet mib now gbc p))"
  "lsreq_decode bs = Inr q \<Longrightarrow> keeps router_ok (on_location_table (\<lambda>mib now. new_ls_request_packet mib now q p))"
  "lsrep_decode bs = Inr q' \<Longrightarrow> keeps router_ok (on_location_table (\<lambda>mib now. new_ls_reply_packet mib now q' p))"
  by (auto intro: keeps_new_packet dest: lpv_decode_valid guc_decode_valid tsb_decode_valid
      gbc_decode_valid lsreq_decode_valid lsrep_decode_valid)

lemmas keeps_handler =
  keeps.obeys_lift_bind keeps_gets_bind keeps_catch_discard keeps.obeys_then keeps.obeys_if
  keeps.obeys_case_option keeps.obeys_pure keeps_dad keeps_send_ignore keeps_forward_gbc

lemma keeps_indicate_shb: "keeps router_ok (gn_data_indicate_shb p ch bh)"
  unfolding gn_data_indicate_shb_def Let_def
  by (intro keeps_handler, erule keeps_decoded)

lemma keeps_indicate_beacon: "keeps router_ok (gn_data_indicate_beacon p)"
  unfolding gn_data_indicate_beacon_def Let_def
  by (intro keeps_handler, erule keeps_decoded)

lemma keeps_indicate_guc: "keeps router_ok (gn_data_indicate_guc p ch bh)"
  unfolding gn_data_indicate_guc_def Let_def
  by (intro keeps_handler, erule keeps_decoded)

lemma keeps_indicate_gac: "keeps router_ok (gn_data_indicate_gac p ch bh)"
  unfolding gn_data_indicate_gac_def Let_def
  by (intro keeps_handler, erule keeps_decoded)

lemma keeps_indicate_gbc: "keeps router_ok (gn_data_indicate_gbc p ch bh)"
  unfolding gn_data_indicate_gbc_def Let_def
  by (intro keeps_handler, erule keeps_decoded)

lemma keeps_indicate_tsb: "keeps router_ok (gn_data_indicate_tsb p ch bh)"
  unfolding gn_data_indicate_tsb_def Let_def
  by (intro keeps_handler, erule keeps_decoded)

lemma keeps_indicate_ls_request: "keeps router_ok (gn_data_indicate_ls_request p ch bh)"
  unfolding gn_data_indicate_ls_request_def Let_def
  by (intro keeps_handler keeps.obeys_bind [OF keeps_get_sequence_number], erule keeps_decoded)

lemma keeps_gets_run:
  assumes "\<And>s res s'. I s \<Longrightarrow> f (g s) s = (res, s') \<Longrightarrow> I s'"
  shows "keeps I (bind_s (gets_s g) f)"
  by (rule keepsI) (use assms in \<open>simp\<close>)

text \<open>The reply for a sought address: its timer stops and its buffer is processed.\<close>

lemma ls_answered_ok:
  assumes ok: "router_ok r" and timer: "timer = dict_get (r_ls_timers r) so"
    and m: "keeps router_ok m"
    and run: "then_s (modify_s (\<lambda>r. r\<lparr>
                 r_ls_timers := dict_del so (r_ls_timers r),
                 r_ls_retransmit_counters := dict_del so (r_ls_retransmit_counters r),
                 r_ls_packet_buffers := dict_del so (r_ls_packet_buffers r),
                 r_location_table := set_ls_pending False so (r_location_table r)\<rparr>))
             (then_s (case timer of None \<Rightarrow> return_s () | Some n \<Rightarrow> cancel_timer n) m) r = (res, r')"
  shows "router_ok r'"
proof -
  let ?T = "case timer of None \<Rightarrow> r_timers r | Some n \<Rightarrow> dict_del n (r_timers r)"
  let ?e = "r\<lparr>r_ls_packet_buffers := dict_del so (r_ls_packet_buffers r),
      r_ls_timers := dict_del so (r_ls_timers r),
      r_ls_retransmit_counters := dict_del so (r_ls_retransmit_counters r),
      r_location_table := set_ls_pending False so (r_location_table r), r_timers := ?T\<rparr>"
  have lt: "ls_timers_ok r" using ok by (simp add: router_ok_def)
  let ?e' = "r\<lparr>r_ls_timers := dict_del so (r_ls_timers r),
      r_ls_retransmit_counters := dict_del so (r_ls_retransmit_counters r),
      r_ls_packet_buffers := dict_del so (r_ls_packet_buffers r),
      r_location_table := set_ls_pending False so (r_location_table r), r_timers := ?T\<rparr>"
  have "?e' = ?e" by simp
  moreover have "m ?e' = (res, r')"
    using run by (cases timer) (simp_all add: then_s_def bind_s_def cancel_timer_def)
  ultimately have "m ?e = (res, r')" by (simp only:)
  moreover have "router_ok ?e"
  proof (rule ls_end_ok [OF ok])
    show "dict_get (r_timers r) m = Some x" if "dict_get ?T m = Some x" for m x
      using that by (simp add: dict_simps split: option.splits if_splits)
    show "dict_get ?T m \<noteq> Some (d, LS_RETRANSMIT so)" for m d
      using ls_timers_okD(3) [OF lt, of m d so] timer
      by (auto simp: dict_simps split: option.splits if_splits)
    show "dict_get ?T m = Some (d, act)"
      if "dict_get (r_timers r) m = Some (d, act)" "act \<noteq> LS_RETRANSMIT so" for m d act
      using ls_timers_okD(2) [OF lt, of so m d act] timer that
      by (auto simp: dict_simps split: option.splits)
  qed
  ultimately show ?thesis using keepsD [OF m] by blast
qed

lemma keeps_indicate_ls_reply: "keeps router_ok (gn_data_indicate_ls_reply p ch bh)"
proof -
  have answered: "router_ok r'"
    if ok: "router_ok r" and run: "(if mine r then
          then_s (modify_s (\<lambda>r. r\<lparr>
                 r_ls_timers := dict_del so (r_ls_timers r),
                 r_ls_retransmit_counters := dict_del so (r_ls_retransmit_counters r),
                 r_ls_packet_buffers := dict_del so (r_ls_packet_buffers r),
                 r_location_table := set_ls_pending False so (r_location_table r)\<rparr>))
             (then_s (case dict_get (r_ls_timers r) so of None \<Rightarrow> return_s () | Some n \<Rightarrow> cancel_timer n)
               (for_each_s (buf r) gn_data_request_guc))
        else m r) r = (res, r')"
      and m: "keeps router_ok (m r)"
    for so r r' res mine m and buf :: "router \<Rightarrow> GNDataRequest list"
  proof (cases "mine r")
    case True
    then show ?thesis
      using run ls_answered_ok [OF ok refl keeps.obeys_for_each [OF keeps_request_guc]] by simp
  next
    case False
    then show ?thesis using run keepsD [OF m ok] by simp
  qed
  show ?thesis
    unfolding gn_data_indicate_ls_reply_def Let_def
    apply (intro keeps.obeys_lift_bind keeps_catch_discard keeps.obeys_then keeps_dad)
     apply (erule keeps_decoded)
    apply (rule keeps_gets_run)
    apply (erule answered)
     apply assumption
    apply (intro keeps.obeys_if keeps.obeys_pure keeps.obeys_lift_bind keeps_send_ignore)
    done
qed

lemma keeps_process_common_header: "keeps router_ok (process_common_header p bh)"
proof -
  have ht: "keeps router_ok (case t of HT_ANY \<Rightarrow> m0 | HT_BEACON \<Rightarrow> m1 | HT_GEOUNICAST \<Rightarrow> m2
      | HT_GEOANYCAST \<Rightarrow> m3 | HT_GEOBROADCAST \<Rightarrow> m4 | HT_TSB \<Rightarrow> m5 | HT_LS \<Rightarrow> m6)"
    if "keeps router_ok m0" "keeps router_ok m1" "keeps router_ok m2" "keeps router_ok m3"
      "keeps router_ok m4" "keeps router_ok m5" "keeps router_ok m6"
    for t and m0 m1 m2 m3 m4 m5 m6 :: "(router, unit) prog"
    using that by (cases t) auto
  show ?thesis
    unfolding process_common_header_def Let_def gn_data_indicate_ls_def
    by (intro keeps.obeys_lift_bind keeps.obeys_if ht keeps.obeys_pure keeps.obeys_bind
        keeps_deliver keeps_indicate_shb keeps_indicate_beacon keeps_indicate_guc
        keeps_indicate_gac keeps_indicate_gbc keeps_indicate_tsb keeps_indicate_ls_request
        keeps_indicate_ls_reply)
qed

theorem keeps_indicate: "keeps router_ok (gn_data_indicate p)"
  unfolding gn_data_indicate_def process_basic_header_def process_security_header_def Let_def
  by (intro keeps.obeys_lift_bind keeps_gets_bind keeps.obeys_if keeps.obeys_pure
      keeps.obeys_case_option keeps.obeys_then keeps_modify keeps_process_common_header) simp

lemma keeps_beacon: "keeps router_ok gn_data_request_beacon"
  unfolding gn_data_request_beacon_def
  by (intro keeps_gets_bind keeps.obeys_lift_bind keeps_send_ignore)

end
