(* ===== verification/RouterSteps.thy ===== *)
theory RouterSteps
  imports RouterInv "HOL-Library.Sublist"
begin

text \<open>
  What a router can do, as a transition system: requests from above, packets from below,
  timers, the beacon thread, position updates and the passing of time, in any order; the
  states reachable from a constructed router; and the frame of the handlers.
\<close>

section \<open>The frame\<close>

text \<open>
  Configuration that no method changes, and logs that only grow. A method is quiet when it
  passes nothing to the upper layer.
\<close>

definition same_config :: "router \<Rightarrow> router \<Rightarrow> bool" where
  "same_config r r' \<longleftrightarrow>
     r_mib r' = r_mib r \<and> r_link_layer r' = r_link_layer r \<and> r_now r' = r_now r
     \<and> r_sign_service r' = r_sign_service r \<and> r_verify_service r' = r_verify_service r
     \<and> r_indication_callback r' = r_indication_callback r
     \<and> r_ego_position_vector r' = r_ego_position_vector r"

definition quiet :: "router \<Rightarrow> router \<Rightarrow> bool" where
  "quiet r r' \<longleftrightarrow>
     same_config r r' \<and> prefix (r_sent r) (r_sent r') \<and> r_indications r' = r_indications r"

definition grows :: "router \<Rightarrow> router \<Rightarrow> bool" where
  "grows r r' \<longleftrightarrow>
     same_config r r' \<and> prefix (r_sent r) (r_sent r') \<and> prefix (r_indications r) (r_indications r')"

interpretation quiet: step_rel quiet
  by unfold_locales (auto simp: quiet_def same_config_def intro: prefix_order.trans)

interpretation grows: step_rel grows
  by unfold_locales (auto simp: grows_def same_config_def intro: prefix_order.trans)

lemma quiet_grows: "obeys quiet m \<Longrightarrow> obeys grows m"
  by (simp add: obeys_def quiet_def grows_def)

lemma quiet_link_send: "obeys quiet (link_send p)"
  by (rule obeysI, elim link_send_cases) (auto simp: quiet_def same_config_def)

lemma quiet_send_confirm: "obeys quiet (send_confirm p)"
  by (rule obeysI, elim send_confirm_cases) (auto simp: quiet_def same_config_def)

lemma quiet_send_ignore: "obeys quiet (send_ignore p)"
  by (rule obeysI, elim send_ignore_cases) (auto simp: quiet_def same_config_def)

lemma quiet_on_location_table: "obeys quiet (on_location_table meth)"
  by (rule obeysI) (auto simp: on_location_table_def Let_def split_beta quiet_def same_config_def)

lemma quiet_get_sequence_number: "obeys quiet get_sequence_number"
  by (rule obeysI) (auto simp: get_sequence_number_run Let_def quiet_def same_config_def)

lemma quiet_modify:
  "(\<And>r. same_config r (g r) \<and> r_sent (g r) = r_sent r \<and> r_indications (g r) = r_indications r)
    \<Longrightarrow> obeys quiet (modify_s g)"
  by (rule quiet.obeys_modify) (simp add: quiet_def)

lemma quiet_gets_bind: "(\<And>x. obeys quiet (f x)) \<Longrightarrow> obeys quiet (bind_s (gets_s g) f)"
  by (intro quiet.obeys_bind quiet.obeys_pure)

lemma quiet_dad: "obeys quiet (duplicate_address_detection a)"
  unfolding duplicate_address_detection_def
  by (intro quiet_gets_bind quiet.obeys_if quiet.obeys_pure)

lemma quiet_cancel_timer: "obeys quiet (cancel_timer n)"
  unfolding cancel_timer_def by (rule quiet_modify) (simp add: same_config_def)

lemma quiet_start_timer: "obeys quiet (start_timer d act)"
  unfolding start_timer_def
  by (intro quiet_gets_bind quiet.obeys_then quiet_modify quiet.obeys_pure)
    (simp add: same_config_def)

lemma quiet_call_sign: "obeys quiet (call_sign meth srv request)"
  unfolding call_sign_def
  by (intro quiet_gets_bind quiet.obeys_then quiet_modify quiet.obeys_pure)
    (simp add: same_config_def)

lemma quiet_catch_discard: "obeys quiet m \<Longrightarrow> obeys quiet (catch_discard v m)"
  unfolding catch_discard_def by (intro quiet.obeys_catch quiet.obeys_if quiet.obeys_pure)

lemmas quiet_rules =
  quiet.obeys_lift_bind quiet_gets_bind quiet.obeys_then quiet.obeys_if quiet.obeys_case_option
  quiet.obeys_pure quiet_catch_discard quiet_dad quiet_send_ignore quiet_send_confirm
  quiet_on_location_table quiet_cancel_timer quiet.obeys_for_each

lemma quiet_alg:
  "obeys quiet m1 \<Longrightarrow> obeys quiet m2 \<Longrightarrow> obeys quiet m3 \<Longrightarrow>
    obeys quiet (case alg of AREA_FORWARDING \<Rightarrow> m1 | NON_AREA_FORWARDING \<Rightarrow> m2 | DISCARTED \<Rightarrow> m3)"
  by (cases alg) auto

lemma quiet_cbf: "obeys quiet (gn_area_cbf_forwarding bh ch h packet)"
  unfolding gn_area_cbf_forwarding_def Let_def
  by (intro quiet_rules quiet.obeys_bind [OF quiet_start_timer] quiet_modify)
    (simp_all add: same_config_def)

lemma quiet_cbf_timeout: "obeys quiet (cbf_timeout k p)"
  unfolding cbf_timeout_def
  by (intro quiet_rules quiet_modify) (simp add: same_config_def)

lemma quiet_forward_gbc: "obeys quiet (gn_data_forward_gbc bh ch h packet)"
  unfolding gn_data_forward_gbc_def Let_def
  by (intro quiet_rules quiet_alg quiet_cbf)

lemma quiet_request_shb: "obeys quiet (gn_data_request_shb request)"
  unfolding gn_data_request_shb_def shb_packet_def Let_def
  by (intro quiet.obeys_bind quiet_rules quiet_call_sign quiet_modify) (simp add: same_config_def)

lemma quiet_request_gbc: "obeys quiet (gn_data_request_gbc request)"
  unfolding gn_data_request_gbc_def Let_def split_beta
  by (intro quiet_gets_bind quiet.obeys_lift_bind quiet.obeys_bind quiet_rules quiet_call_sign
      quiet_alg quiet_get_sequence_number)

lemma quiet_send_ls_request: "obeys quiet (send_ls_request_packet a)"
  unfolding send_ls_request_packet_def Let_def
  by (intro quiet_gets_bind quiet.obeys_lift_bind quiet.obeys_bind quiet_rules
      quiet_get_sequence_number)

lemma quiet_start_ls_timer: "obeys quiet (start_ls_timer a)"
  unfolding start_ls_timer_def by (intro quiet_gets_bind quiet_start_timer)

lemma quiet_ls_request: "obeys quiet (gn_ls_request a request)"
  unfolding gn_ls_request_def
  by (intro quiet_rules quiet_modify quiet_send_ls_request quiet.obeys_bind [OF quiet_start_ls_timer])
    (simp_all add: same_config_def)

lemma quiet_ls_retransmit: "obeys quiet (ls_retransmit a)"
  unfolding ls_retransmit_def Let_def
  by (intro quiet_rules quiet_modify quiet_send_ls_request quiet.obeys_bind [OF quiet_start_ls_timer])
    (simp_all add: same_config_def)

lemma quiet_request_guc: "obeys quiet (gn_data_request_guc request)"
  unfolding gn_data_request_guc_def Let_def
  by (intro quiet_rules quiet.obeys_bind [OF quiet_get_sequence_number] quiet_ls_request)

theorem quiet_request: "obeys quiet (gn_data_request request)"
  unfolding gn_data_request_def Let_def gn_data_request_gac_def
  by (intro quiet.obeys_if quiet_request_shb quiet_request_gbc quiet_request_guc quiet.obeys_pure)

text \<open>The handlers themselves are quiet: only \<open>process_common_header\<close> delivers.\<close>

lemma quiet_handlers:
  "obeys quiet (gn_data_indicate_shb p ch bh)"
  "obeys quiet (gn_data_indicate_beacon p)"
  "obeys quiet (gn_data_indicate_guc p ch bh)"
  "obeys quiet (gn_data_indicate_gac p ch bh)"
  "obeys quiet (gn_data_indicate_gbc p ch bh)"
  "obeys quiet (gn_data_indicate_tsb p ch bh)"
  unfolding gn_data_indicate_shb_def gn_data_indicate_beacon_def gn_data_indicate_guc_def
    gn_data_indicate_gac_def gn_data_indicate_gbc_def gn_data_indicate_tsb_def Let_def
  by (intro quiet_rules quiet_forward_gbc)+

lemma quiet_ls:
  "obeys quiet (gn_data_indicate_ls p ch bh)"
  unfolding gn_data_indicate_ls_def gn_data_indicate_ls_request_def gn_data_indicate_ls_reply_def
    Let_def
  by (intro quiet_rules quiet.obeys_bind [OF quiet_get_sequence_number] quiet_modify
      quiet_request_guc) (simp add: same_config_def)

lemma quiet_beacon: "obeys quiet gn_data_request_beacon"
  unfolding gn_data_request_beacon_def by (intro quiet_rules)

lemma grows_deliver: "obeys grows (deliver i)"
  by (rule obeysI) (auto simp: deliver_def grows_def same_config_def split: option.splits if_splits)

lemma grows_process_common_header: "obeys grows (process_common_header p bh)"
proof -
  have ht: "obeys grows (case t of HT_ANY \<Rightarrow> m0 | HT_BEACON \<Rightarrow> m1 | HT_GEOUNICAST \<Rightarrow> m2
      | HT_GEOANYCAST \<Rightarrow> m3 | HT_GEOBROADCAST \<Rightarrow> m4 | HT_TSB \<Rightarrow> m5 | HT_LS \<Rightarrow> m6)"
    if "obeys grows m0" "obeys grows m1" "obeys grows m2" "obeys grows m3"
      "obeys grows m4" "obeys grows m5" "obeys grows m6"
    for t and m0 m1 m2 m3 m4 m5 m6 :: "(router, unit) prog"
    using that by (cases t) auto
  show ?thesis
    unfolding process_common_header_def Let_def
    by (intro grows.obeys_lift_bind grows.obeys_if ht grows.obeys_pure grows.obeys_bind
        grows_deliver quiet_grows quiet_handlers quiet_ls)
qed

theorem grows_indicate: "obeys grows (gn_data_indicate p)"
proof -
  have "obeys grows (modify_s (\<lambda>r. r\<lparr>r_sec_calls := Suc n\<rparr>))" for n
    by (rule grows.obeys_modify) (simp add: grows_def same_config_def)
  then show ?thesis
    unfolding gn_data_indicate_def process_basic_header_def process_security_header_def Let_def
    by (intro grows.obeys_lift_bind grows.obeys_bind [OF grows.obeys_pure(3)] grows.obeys_if
        grows.obeys_pure grows.obeys_case_option grows.obeys_then grows_process_common_header)
qed

section \<open>Transitions\<close>

datatype router_event =
    Ev_Request GNDataRequest "ResultCode result"
  | Ev_Receive bytes "unit result"
  | Ev_Timer nat
  | Ev_Beacon_Send real
  | Ev_Beacon_Wake
  | Ev_Position TPV
  | Ev_Time real
  | Ev_Callback
  | Ev_Link_Layer

text \<open>
  The jitter is drawn from \<open>[0, itsGnBeaconServiceMaxJitter]\<close>; a timer fires at its deadline
  or later; \<open>parse\<close> is the date parser of a third-party package.
\<close>

inductive router_step :: "(string \<Rightarrow> real result) \<Rightarrow> router \<Rightarrow> router_event \<Rightarrow> router \<Rightarrow> bool"
  for parse where
  request: "gn_data_request req r = (res, r') \<Longrightarrow> router_step parse r (Ev_Request req res) r'"
| receive: "gn_data_indicate p r = (res, r') \<Longrightarrow> router_step parse r (Ev_Receive p res) r'"
| timer: "dict_get (r_timers r) n = Some (deadline, act) \<Longrightarrow> deadline \<le> r_now r
    \<Longrightarrow> router_step parse r (Ev_Timer n) (fire_timer n r)"
| beacon_send: "r_beacon_thread r = BT_SEND \<Longrightarrow> 0 \<le> jitter
    \<Longrightarrow> itsGnBeaconServiceMaxJitter (r_mib r) = Some j \<Longrightarrow> jitter \<le> j
    \<Longrightarrow> router_step parse r (Ev_Beacon_Send jitter) (beacon_thread_send jitter r)"
| beacon_wake: "router_step parse r Ev_Beacon_Wake (beacon_thread_wake r)"
| position: "refresh_ego_position_vector parse tpv r = (res, r')
    \<Longrightarrow> router_step parse r (Ev_Position tpv) r'"
| time: "0 \<le> dt \<Longrightarrow> router_step parse r (Ev_Time dt) (r\<lparr>r_now := r_now r + dt\<rparr>)"
| callback: "router_step parse r Ev_Callback (register_indication_callback r)"
| link_layer: "router_step parse r Ev_Link_Layer (set_link_layer ll r)"

inductive_cases router_step_requestE: "router_step parse r (Ev_Request req res) r'"
inductive_cases router_step_receiveE: "router_step parse r (Ev_Receive p res) r'"
inductive_cases router_step_timerE: "router_step parse r (Ev_Timer n) r'"
inductive_simps router_step_receive_simp: "router_step parse r (Ev_Receive p res) r'"
inductive_simps router_step_time_simp: "router_step parse r (Ev_Time dt) r'"

inductive reachable ::
    "MIB \<Rightarrow> sign_service option \<Rightarrow> (nat \<Rightarrow> bytes \<Rightarrow> SNVERIFYConfirm result) option
      \<Rightarrow> (string \<Rightarrow> real result) \<Rightarrow> router \<Rightarrow> bool"
  for mib sign verify parse where
  init: "router_init mib sign verify now = Inr r \<Longrightarrow> reachable mib sign verify parse r"
| step: "reachable mib sign verify parse r \<Longrightarrow> router_step parse r ev r'
    \<Longrightarrow> reachable mib sign verify parse r'"

lemma beacon_thread_send_ok: "router_ok r \<Longrightarrow> router_ok (beacon_thread_send j r)"
  using keepsD [OF keeps_beacon]
  by (auto simp: beacon_thread_send_def Let_def split: prod.splits sum.splits)

lemma beacon_thread_wake_ok: "router_ok r \<Longrightarrow> router_ok (beacon_thread_wake r)"
  by (auto simp: beacon_thread_wake_def split: beacon_thread.splits)

lemma router_step_ok:
  assumes "router_step parse r ev r'" "router_ok r"
  shows "router_ok r'"
  using assms
proof (induction rule: router_step.induct)
  case (position tpv r res r')
  then show ?case
    by (cases "lpv_refresh_with_tpv_data parse tpv (r_ego_position_vector r)")
      (auto simp: refresh_ego_position_vector_def)
qed (auto simp: register_indication_callback_def set_link_layer_def
    intro: keepsD [OF keeps_request] keepsD [OF keeps_indicate] fire_timer_ok
      beacon_thread_send_ok beacon_thread_wake_ok)

lemma reachable_ok: "reachable mib sign verify parse r \<Longrightarrow> router_ok r"
  by (induction rule: reachable.induct) (auto intro: router_init_ok router_step_ok)

lemma fire_timer_quiet: "r_mib (fire_timer n r) = r_mib r \<and> r_indications (fire_timer n r) = r_indications r"
  using obeysD [OF quiet_cbf_timeout surjective_pairing] obeysD [OF quiet_ls_retransmit surjective_pairing]
  by (fastforce simp: fire_timer_def quiet_def same_config_def Let_def
      split: option.splits timer_action.splits)

lemma router_step_mib: "router_step parse r ev r' \<Longrightarrow> r_mib r' = r_mib r"
proof (induction rule: router_step.induct)
  case (request req r res r')
  then show ?case using obeysD [OF quiet_request] by (fastforce simp: quiet_def same_config_def)
next
  case (receive p r res r')
  then show ?case using obeysD [OF grows_indicate] by (fastforce simp: grows_def same_config_def)
next
  case (beacon_send r jitter j)
  then show ?case
    using obeysD [OF quiet_beacon surjective_pairing, of r]
    by (auto simp: beacon_thread_send_def quiet_def same_config_def Let_def
        split: prod.splits sum.splits)
next
  case (position tpv r res r')
  then show ?case
    by (cases "lpv_refresh_with_tpv_data parse tpv (r_ego_position_vector r)")
      (auto simp: refresh_ego_position_vector_def)
qed (auto simp: fire_timer_quiet beacon_thread_wake_def register_indication_callback_def
    set_link_layer_def split: beacon_thread.splits)

lemma reachable_mib: "reachable mib sign verify parse r \<Longrightarrow> r_mib r = mib"
proof (induction rule: reachable.induct)
  case (init now r)
  then show ?case
    by (auto simp: router_init_def setup_gn_address_def configure_beacon_service_def Let_def
        split: LocalGnAddrConfMethod.splits if_splits)
next
  case (step r ev r')
  then show ?case using router_step_mib by simp
qed

end
