(* ===== verification/RouterProps.thy ===== *)
theory RouterProps
  imports RouterSteps
begin

text \<open>
  Properties of the router's handlers: what a received packet leads to, end to end, and what
  it can never lead to.
\<close>

section \<open>Running the decapsulation\<close>

lemma encode_parts_Inr:
  "encode_parts ps = Inr bs \<longleftrightarrow> (\<exists>bss. ps = map Inr bss \<and> bs = concat bss)"
proof (induction ps arbitrary: bs)
  case (Cons p ps)
  show ?case
  proof (cases p)
    case (Inl e)
    then show ?thesis by (auto simp: Cons_eq_map_conv)
  next
    case (Inr b)
    then show ?thesis using Cons.IH by (fastforce simp: rbind_eq_Inr Cons_eq_map_conv)
  qed
qed auto

lemma encode_parts_Cons_Inr:
  "encode_parts (p # ps) = Inr bs \<longleftrightarrow> (\<exists>b rest. p = Inr b \<and> encode_parts ps = Inr rest \<and> bs = b @ rest)"
  by (auto simp: rbind_eq_Inr)

lemma process_basic_run:
  assumes "valid_bh h" "bh_encode h = Inr b"
  shows "process_basic_header (b @ rest) r =
    (if bh_version h \<noteq> itsGnProtocolVersion (r_mib r) then (Inl NotImplementedError, r)
     else if bh_nh h = COMMON_HEADER then
       (if itsGnSecurity (r_mib r) = ENABLED then (Inr (), r) else process_common_header rest h r)
     else if bh_nh h = SECURED_PACKET then process_security_header rest h r
     else (Inl NotImplementedError, r))"
  by (simp add: process_basic_header_def bh.decode_slice [OF assms] bh.drop_header [OF assms]
      Let_def del: drop_append)

lemma process_common_run:
  assumes "valid_ch k" "ch_encode k = Inr c"
  shows "process_common_header (c @ rest) h r =
    (if bh_rhl h > ch_mhl k then (Inl DecapError, r)
     else (case ch_ht k of
          HT_ANY \<Rightarrow> raise_s NotImplementedError
        | HT_BEACON \<Rightarrow> gn_data_indicate_beacon rest
        | HT_GEOUNICAST \<Rightarrow> bind_s (gn_data_indicate_guc rest k h) deliver
        | HT_GEOANYCAST \<Rightarrow> bind_s (gn_data_indicate_gac rest k h) deliver
        | HT_GEOBROADCAST \<Rightarrow> bind_s (gn_data_indicate_gbc rest k h) deliver
        | HT_TSB \<Rightarrow>
            if ch_hst k = SINGLE_HOP then bind_s (gn_data_indicate_shb rest k h) deliver
            else if ch_hst k = MULTI_HOP then bind_s (gn_data_indicate_tsb rest k h) deliver
            else raise_s NotImplementedError
        | HT_LS \<Rightarrow> gn_data_indicate_ls rest k h) r)"
  by (simp add: process_common_header_def ch.decode_slice [OF assms] ch.drop_header [OF assms]
      Let_def del: drop_append)

text \<open>A handler after its duplicate address detection and its update of the location table.\<close>

lemma dad_run:
  "duplicate_address_detection a r
    = (if gn_address_eq (itsGnLocalGnAddr (r_mib r)) a then (Inl DADException, r) else (Inr (), r))"
  by (simp add: duplicate_address_detection_def)

lemma loct_run:
  "on_location_table meth r
    = (fst (meth (r_mib r) (r_now r) (r_location_table r)),
       r\<lparr>r_location_table := snd (meth (r_mib r) (r_now r) (r_location_table r))\<rparr>)"
  by (simp add: on_location_table_def Let_def split_beta)

lemma loct_run_Inr:
  "meth (r_mib r) (r_now r) (r_location_table r) = (x, t)
    \<Longrightarrow> on_location_table meth r = (x, r\<lparr>r_location_table := t\<rparr>)"
  by (simp add: loct_run)

lemma then_dad_run:
  "then_s (duplicate_address_detection a) m r
    = (if gn_address_eq (itsGnLocalGnAddr (r_mib r)) a then (Inl DADException, r) else m r)"
  by (simp add: then_s_def bind_s_def dad_run)

lemma then_loct_run:
  assumes "meth (r_mib r) (r_now r) (r_location_table r) = (x, t)"
  shows "then_s (on_location_table meth) m r
    = (case x of Inl e \<Rightarrow> (Inl e, r\<lparr>r_location_table := t\<rparr>) | Inr _ \<Rightarrow> m (r\<lparr>r_location_table := t\<rparr>))"
  using assms by (cases x) (simp_all add: then_s_def bind_s_def loct_run)

lemma catch_discard_run:
  "catch_discard v m r = (case m r of
     (Inl e, r') \<Rightarrow> if e \<in> discarding then (Inr v, r') else (Inl e, r')
   | (Inr x, r') \<Rightarrow> (Inr x, r'))"
  by (auto simp: catch_discard_def catch_s_def split: prod.splits sum.splits)

lemma new_shb_Inr: "\<exists>t. new_shb_packet mib now pv bs t0 = (Inr (), t)"
  by (auto simp: new_shb_packet_def update_entry_def split: prod.splits)

lemma discarding_simps [simp]:
  "DADException \<in> discarding" "DuplicatedPacketException \<in> discarding"
  "DecodeError \<in> discarding" "IncongruentTimestampException \<in> discarding"
  by (simp_all add: discarding_def)

section \<open>Concrete stations\<close>

text \<open>A station with default parameters, address \<open>n\<close> and a link layer that accepts everything.\<close>

definition station_address :: "byte \<Rightarrow> GNAddress" where
  "station_address n =
     \<lparr>addr_m = GN_UNICAST, addr_st = PASSENGER_CAR, addr_mid = MID [0, 0, 0, 0, 0, n]\<rparr>"

definition station_mib :: "byte \<Rightarrow> MIB" where
  "station_mib n = default_MIB\<lparr>itsGnLocalGnAddr := station_address n\<rparr>"

definition station :: "byte \<Rightarrow> router" where
  "station n = register_indication_callback (set_link_layer (\<lambda>_ _. Inr ())
     (projr (router_init (station_mib n) None None 1700000000)))"

lemma default_MIB_simps [simp]:
  "itsGnLocalGnAddrConfMethod default_MIB = AUTO" "itsGnSecurity default_MIB = DISABLED"
  "itsGnProtocolVersion default_MIB = 1" "itsGnBeaconServiceRetransmitTimer default_MIB = 0"
  "itsGnDefaultHopLimit default_MIB = 10" "itsGnDPLLength default_MIB = 8"
  "itsGnMaxGeoAreaSize default_MIB = 10" "itsGnMaxPacketDataRate default_MIB = 100"
  "itsGnAreaForwardingAlgorithm default_MIB = CBF" "itsGnCbfMinTime default_MIB = 1"
  "itsGnCbfMaxTime default_MIB = 100" "itsGnLocationServiceMaxRetrans default_MIB = 10"
  "itsGnLifetimeLocTE default_MIB = 20" "itsGnDefaultPacketLifetime default_MIB = 60"
  "itsGnLocationServiceRetransmitTimer default_MIB = 1000"
  "itsGnMaxPacketDataRateEmaBeta default_MIB = 90"
  "itsGnDefaultMaxCommunicationRange default_MIB = 1000"
  by (simp_all add: default_MIB_def mib_post_init_def)

lemma station_mib_simps [simp]:
  "itsGnLocalGnAddr (station_mib n) = station_address n"
  "itsGnLocalGnAddrConfMethod (station_mib n) = AUTO" "itsGnSecurity (station_mib n) = DISABLED"
  "itsGnProtocolVersion (station_mib n) = 1" "itsGnBeaconServiceRetransmitTimer (station_mib n) = 0"
  "itsGnDefaultHopLimit (station_mib n) = 10" "itsGnDPLLength (station_mib n) = 8"
  "itsGnMaxGeoAreaSize (station_mib n) = 10" "itsGnMaxPacketDataRate (station_mib n) = 100"
  "itsGnAreaForwardingAlgorithm (station_mib n) = CBF" "itsGnCbfMinTime (station_mib n) = 1"
  "itsGnCbfMaxTime (station_mib n) = 100" "itsGnLocationServiceMaxRetrans (station_mib n) = 10"
  "itsGnLifetimeLocTE (station_mib n) = 20"
  "itsGnMaxPacketDataRateEmaBeta (station_mib n) = 90"
  "itsGnDefaultMaxCommunicationRange (station_mib n) = 1000"
  by (simp_all add: station_mib_def)

lemma station_init:
  "\<exists>r. router_init (station_mib n) None None 1700000000 = Inr r \<and> station n =
     register_indication_callback (set_link_layer (\<lambda>_ _. Inr ()) r)"
  by (auto simp: station_def router_init_def setup_gn_address_def Let_def)

lemma station_simps [simp]:
  "r_mib (station n) = station_mib n"
  "r_link_layer (station n) = Some (\<lambda>_ _. Inr ())"
  "r_indication_callback (station n) = True"
  "r_ego_position_vector (station n) = default_LongPositionVector\<lparr>lpv_gn_addr := station_address n\<rparr>"
  "r_location_table (station n) = []" "r_sent (station n) = []" "r_indications (station n) = []"
  "r_cbf_buffer (station n) = []" "r_now (station n) = 1700000000" "r_ls_timers (station n) = []"
  "r_timers (station n) = []" "r_sequence_number (station n) = 0" "r_ll_calls (station n) = 0"
  "r_beacon_reset_event (station n) = None" "r_ls_packet_buffers (station n) = []"
  "r_ls_retransmit_counters (station n) = []" "r_next_timer (station n) = 0"
  by (simp_all add: station_def router_init_def setup_gn_address_def Let_def set_link_layer_def
      register_indication_callback_def lpv_set_gn_addr_def)

lemma station_address_simps [simp]:
  "valid_address (station_address n)"
  "gn_address_eq (station_address m) (station_address n) \<longleftrightarrow> m = n"
  "station_address m = station_address n \<longleftrightarrow> m = n"
  by (simp_all add: station_address_def valid_address_def gn_address_eq_def)

lemma valid_station_lpv [simp]: "valid_lpv (default_LongPositionVector\<lparr>lpv_gn_addr := station_address n\<rparr>)"
  by (simp add: valid_lpv_def default_LongPositionVector_def valid_tst_def)

lemma station_ok: "router_ok (station n)"
  using station_init [of n] router_init_ok
  by (auto simp: register_indication_callback_def set_link_layer_def)

section \<open>Concrete packets\<close>

text \<open>
  Packets of station \<open>n\<close>, which stands at latitude and longitude 0 with an unset clock, so that
  the receiver's estimate of the packet data rate stays 0.
\<close>

definition station_pv :: "byte \<Rightarrow> LongPositionVector" where
  "station_pv n = default_LongPositionVector\<lparr>lpv_gn_addr := station_address n\<rparr>"

definition sample_bh :: "int \<Rightarrow> BasicHeader" where
  "sample_bh rhl = \<lparr>bh_version = 1, bh_nh = COMMON_HEADER, bh_reserved = 0, bh_lt = default_LT,
     bh_rhl = rhl\<rparr>"

definition sample_ch :: "HeaderType \<Rightarrow> HST \<Rightarrow> CommonHeader" where
  "sample_ch ht hst = \<lparr>ch_nh = BTP_B, ch_reserved = 0, ch_ht = ht, ch_hst = hst,
     ch_tc = default_TrafficClass, ch_flags = 0, ch_pl = 3, ch_mhl = 10\<rparr>"

definition sample_tsb :: "byte \<Rightarrow> int \<Rightarrow> TSBExtendedHeader" where
  "sample_tsb n sn = \<lparr>tsb_sn = sn, tsb_reserved = 0, tsb_so_pv = station_pv n\<rparr>"

definition sample_guc :: "byte \<Rightarrow> byte \<Rightarrow> int \<Rightarrow> GUCExtendedHeader" where
  "sample_guc n m sn = \<lparr>guc_sn = sn, guc_reserved = 0, guc_so_pv = station_pv n,
     guc_de_pv = spv_of_lpv (station_pv m)\<rparr>"

definition sample_gbc :: "byte \<Rightarrow> int \<Rightarrow> GBCExtendedHeader" where
  "sample_gbc n sn = \<lparr>gbc_sn = sn, gbc_reserved = 0, gbc_so_pv = station_pv n, gbc_latitude = 0,
     gbc_longitude = 0, gbc_a = 100, gbc_b = 100, gbc_angle = 0, gbc_reserved2 = 0\<rparr>"

lemma station_pv_simps [simp]:
  "lpv_gn_addr (station_pv n) = station_address n" "msec (lpv_tst (station_pv n)) = 0"
  "valid_lpv (station_pv n)" "lpv_latitude (station_pv n) = 0" "lpv_longitude (station_pv n) = 0"
  by (simp_all add: station_pv_def) (simp_all add: default_LongPositionVector_def)

lemma valid_samples [simp]:
  "0 \<le> rhl \<Longrightarrow> rhl < 256 \<Longrightarrow> valid_bh (sample_bh rhl)"
  "hst \<in> set (subtype_members ht) \<Longrightarrow> valid_ch (sample_ch ht hst)"
  "0 \<le> sn \<Longrightarrow> sn < 65536 \<Longrightarrow> valid_tsb (sample_tsb n sn)"
  "0 \<le> sn \<Longrightarrow> sn < 65536 \<Longrightarrow> valid_guc (sample_guc n m sn)"
  "0 \<le> sn \<Longrightarrow> sn < 65536 \<Longrightarrow> valid_gbc (sample_gbc n sn)"
  by (simp_all add: sample_bh_def valid_bh_def sample_ch_def valid_ch_def encodable_ch_def
      sample_tsb_def valid_tsb_def sample_guc_def valid_guc_def valid_spv_of_lpv
      sample_gbc_def valid_gbc_def default_LT_def valid_lt_def valid_tc_def default_TrafficClass_def)

lemma sample_simps [simp]:
  "bh_rhl (sample_bh rhl) = rhl" "ch_hst (sample_ch ht hst) = hst" "ch_ht (sample_ch ht hst) = ht"
  "ch_tc (sample_ch ht hst) = default_TrafficClass"
  "bh_version (sample_bh rhl) = 1" "bh_nh (sample_bh rhl) = COMMON_HEADER"
  "ch_mhl (sample_ch ht hst) = 10" "tsb_so_pv (sample_tsb n sn) = station_pv n"
  "tsb_sn (sample_tsb n sn) = sn" "guc_so_pv (sample_guc n m sn) = station_pv n"
  "guc_sn (sample_guc n m sn) = sn" "guc_de_pv (sample_guc n m sn) = spv_of_lpv (station_pv m)"
  "gbc_so_pv (sample_gbc n sn) = station_pv n" "gbc_sn (sample_gbc n sn) = sn"
  "gbc_a (sample_gbc n sn) = 100" "gbc_b (sample_gbc n sn) = 100"
  by (simp_all add: sample_bh_def sample_ch_def sample_tsb_def sample_guc_def sample_gbc_def)

text \<open>What a station knows after its first packet: nothing that stops it from forwarding.\<close>

lemma first_packet:
  assumes "msec (lpv_tst pv) = 0" "0 < itsGnDPLLength mib"
  shows "\<exists>t. update_entry mib now a (update_with_multi_hop_packet mib sn pv d) []
      = (Inr (), t) \<and> (\<forall>b e. get_entry b t = Some e
           \<longrightarrow> b = a \<and> le_pdr e = 0 \<and> le_position_vector e = pv)"
  using assms
  by (auto simp: update_entry_def ensure_entry_def update_with_multi_hop_packet_def
      check_duplicate_sn_def update_pdr_def update_position_vector_def refresh_table_def Let_def
      tst_sub_def get_entry_def dict_get_filter dict_ok_def new_entry_def
      default_LongPositionVector_def split: if_splits option.splits)

section \<open>Single-hop broadcast, end to end\<close>

lemma indicate_shb_run:
  assumes "lpv_encode pv = Inr v" "valid_lpv pv" "length mdd = 4"
    "\<not> gn_address_eq (itsGnLocalGnAddr (r_mib r)) (lpv_gn_addr pv)"
  shows "\<exists>t. gn_data_indicate_shb (v @ mdd @ data) ch bh r
    = (Inr (Some (make_indication ch bh \<lparr>header_type = HT_TSB, header_subtype = SINGLE_HOP\<rparr> None pv data)),
       r\<lparr>r_location_table := t\<rparr>)"
proof -
  obtain t where t: "new_shb_packet (r_mib r) (r_now r) pv data (r_location_table r) = (Inr (), t)"
    using new_shb_Inr by blast
  have "drop 4 (drop 24 (v @ mdd @ data)) = data"
    using lpv.encode_length [OF assms(2,1)] assms(3) by simp
  then have "gn_data_indicate_shb (v @ mdd @ data) ch bh r
    = (Inr (Some (make_indication ch bh \<lparr>header_type = HT_TSB, header_subtype = SINGLE_HOP\<rparr> None pv data)),
       r\<lparr>r_location_table := t\<rparr>)"
    using assms(4) t
    by (simp add: gn_data_indicate_shb_def lpv.decode_slice [OF assms(2,1)] catch_discard_run
        then_dad_run then_loct_run [where x = "Inr ()" and t = t])
  then show ?thesis ..
qed

text \<open>The packet a request for a single-hop broadcast puts on the air when security is off.\<close>

lemma shb_packet_run:
  assumes "itsGnSecurity (r_mib s) = DISABLED"
  shows "shb_packet request s = (encode_parts
    [bh_encode (bh_initialize_with_mib_request_and_rhl (r_mib s) (req_max_packet_lifetime request) 1),
     ch_encode (ch_initialize_with_request request (r_mib s)),
     lpv_encode (r_ego_position_vector s), Inr shb_media_dependent_data, Inr (req_data request)], s)"
  using assms by (simp add: shb_packet_def Let_def del: encode_parts.simps)

definition valid_request :: "GNDataRequest \<Rightarrow> bool" where
  "valid_request request \<longleftrightarrow>
     header_subtype (req_packet_transport_type request)
       \<in> set (subtype_members (header_type (req_packet_transport_type request)))
     \<and> valid_tc (req_traffic_class request)
     \<and> 0 \<le> req_length request \<and> req_length request < 2 ^ 16
     \<and> 0 \<le> req_max_hop_limit request \<and> req_max_hop_limit request < 256"

lemma request_shb_sends:
  assumes "gn_data_request_shb request s = (Inr ACCEPTED, s')" "r_link_layer s \<noteq> None"
    "itsGnSecurity (r_mib s) = DISABLED"
  obtains p where "r_sent s' = r_sent s @ [p]" "encode_parts
    [bh_encode (bh_initialize_with_mib_request_and_rhl (r_mib s) (req_max_packet_lifetime request) 1),
     ch_encode (ch_initialize_with_request request (r_mib s)),
     lpv_encode (r_ego_position_vector s), Inr shb_media_dependent_data, Inr (req_data request)] = Inr p"
proof -
  obtain p where p: "encode_parts
    [bh_encode (bh_initialize_with_mib_request_and_rhl (r_mib s) (req_max_packet_lifetime request) 1),
     ch_encode (ch_initialize_with_request request (r_mib s)),
     lpv_encode (r_ego_position_vector s), Inr shb_media_dependent_data, Inr (req_data request)] = Inr p"
    using assms(1) shb_packet_run [OF assms(3), of request]
    by (auto simp: gn_data_request_shb_def bind_s_def simp del: encode_parts.simps
        split: sum.splits prod.splits)
  then have run: "bind_s (send_confirm p) (\<lambda>code.
       if code = ACCEPTED then
         then_s (modify_s (\<lambda>r.
             if r_beacon_reset_event r \<noteq> None then r\<lparr>r_beacon_reset_event := Some True\<rparr> else r))
           (return_s ACCEPTED)
       else return_s code) s = (Inr ACCEPTED, s')"
    using assms(1) shb_packet_run [OF assms(3), of request]
    by (simp add: gn_data_request_shb_def bind_s_def del: encode_parts.simps)
  obtain res s1 where s1: "send_confirm p s = (res, s1)" by fastforce
  then have "res = Inr ACCEPTED" "r_sent s' = r_sent s1"
    using run by (auto simp: bind_s_def split: sum.splits if_splits)
  then have "r_sent s' = r_sent s @ [p]"
    using s1 assms(2) by (elim send_confirm_cases) auto
  then show thesis using that p by blast
qed

text \<open>A well-formed request is accepted when the link layer takes the packet.\<close>

lemma request_shb_accepted:
  assumes "valid_request request" "valid_lpv (r_ego_position_vector s)"
    "itsGnSecurity (r_mib s) = DISABLED" "r_link_layer s = Some f" "\<And>n p. f n p = Inr ()"
    "req_packet_transport_type request = \<lparr>header_type = HT_TSB, header_subtype = SINGLE_HOP\<rparr>"
  shows "\<exists>s'. gn_data_request request s = (Inr ACCEPTED, s')"
proof -
  let ?bh = "bh_initialize_with_mib_request_and_rhl (r_mib s) (req_max_packet_lifetime request) 1"
  let ?ch = "ch_initialize_with_request request (r_mib s)"
  obtain b where b: "bh_encode ?bh = Inr b"
    using bh.encode_total [of ?bh] valid_bh_initialize(2) [of 1] by fastforce
  have "valid_ch ?ch" using assms(1) by (intro valid_ch_with_request) (simp_all add: valid_request_def)
  then obtain c where c: "ch_encode ?ch = Inr c" using ch.encode_total by blast
  obtain v where v: "lpv_encode (r_ego_position_vector s) = Inr v"
    using lpv.encode_total [OF assms(2)] by blast
  show ?thesis
    using assms(4-6) b c v
    by (simp add: gn_data_request_def gn_data_request_shb_def bind_s_def shb_packet_run [OF assms(3)]
        send_confirm_def catch_s_def then_s_def link_send_some)
qed

text \<open>The packet of an accepted request, and what a receiver makes of it.\<close>

lemma request_shb_received:
  assumes "gn_data_request request s = (Inr ACCEPTED, s')"
    and "req_packet_transport_type request = \<lparr>header_type = HT_TSB, header_subtype = SINGLE_HOP\<rparr>"
    and "valid_request request" "valid_lpv (r_ego_position_vector s)"
    and "r_link_layer s \<noteq> None" "itsGnSecurity (r_mib s) = DISABLED"
  obtains p where "r_sent s' = r_sent s @ [p]"
    "\<And>r. itsGnSecurity (r_mib r) = DISABLED \<Longrightarrow> itsGnProtocolVersion (r_mib r) = 1
      \<Longrightarrow> r_indication_callback r
      \<Longrightarrow> \<not> gn_address_eq (itsGnLocalGnAddr (r_mib r)) (lpv_gn_addr (r_ego_position_vector s))
      \<Longrightarrow> \<exists>t. gn_data_indicate p r = (Inr (), r\<lparr>r_location_table := t, r_indications := r_indications r
            @ [make_indication (ch_initialize_with_request request (r_mib s))
                 (bh_initialize_with_mib_request_and_rhl (r_mib s) (req_max_packet_lifetime request) 1)
                 \<lparr>header_type = HT_TSB, header_subtype = SINGLE_HOP\<rparr> None
                 (r_ego_position_vector s) (req_data request)]\<rparr>)"
proof -
  let ?bh = "bh_initialize_with_mib_request_and_rhl (r_mib s) (req_max_packet_lifetime request) 1"
  let ?ch = "ch_initialize_with_request request (r_mib s)"
  let ?pv = "r_ego_position_vector s"
  let ?i = "make_indication ?ch ?bh \<lparr>header_type = HT_TSB, header_subtype = SINGLE_HOP\<rparr> None ?pv
    (req_data request)"
  have shb: "gn_data_request_shb request s = (Inr ACCEPTED, s')"
    using assms(1,2) by (simp add: gn_data_request_def)
  obtain p where sent: "r_sent s' = r_sent s @ [p]" and p: "encode_parts [bh_encode ?bh, ch_encode ?ch,
      lpv_encode ?pv, Inr shb_media_dependent_data, Inr (req_data request)] = Inr p"
    using request_shb_sends [OF shb assms(5,6)] by blast
  obtain b c v where b: "bh_encode ?bh = Inr b" and c: "ch_encode ?ch = Inr c"
    and v: "lpv_encode ?pv = Inr v" and pp: "p = b @ c @ v @ shb_media_dependent_data @ req_data request"
    using p by (auto simp: rbind_eq_Inr)
  have vb: "valid_bh ?bh" by (rule valid_bh_initialize) simp_all
  have vc: "valid_ch ?ch"
    using assms(3) by (intro valid_ch_with_request) (simp_all add: valid_request_def)
  have ch: "ch_ht ?ch = HT_TSB" "ch_hst ?ch = SINGLE_HOP" "ch_mhl ?ch = 1"
    using assms(2) by (simp_all add: ch_initialize_with_request_def Let_def)
  have bh: "bh_version ?bh = 1" "bh_nh ?bh = COMMON_HEADER" "bh_rhl ?bh = 1"
    by (simp_all add: bh_initialize_with_mib_request_and_rhl_def)
  have mdd: "length shb_media_dependent_data = 4" by (simp add: shb_media_dependent_data_def)
  have "\<exists>t. gn_data_indicate p r
      = (Inr (), r\<lparr>r_location_table := t, r_indications := r_indications r @ [?i]\<rparr>)"
    if "itsGnSecurity (r_mib r) = DISABLED" "itsGnProtocolVersion (r_mib r) = 1"
      "r_indication_callback r" and other: "\<not> gn_address_eq (itsGnLocalGnAddr (r_mib r)) (lpv_gn_addr ?pv)"
    for r
  proof -
    obtain t where t: "gn_data_indicate_shb (v @ shb_media_dependent_data @ req_data request) ?ch ?bh r
        = (Inr (Some ?i), r\<lparr>r_location_table := t\<rparr>)"
      using indicate_shb_run [OF v assms(4) mdd other] by blast
    have "gn_data_indicate p r
        = (Inr (), r\<lparr>r_location_table := t, r_indications := r_indications r @ [?i]\<rparr>)"
      using that bh ch t
      by (simp add: gn_data_indicate_def pp process_basic_run [OF vb b] process_common_run [OF vc c]
          bind_s_def deliver_def)
    then show ?thesis by blast
  qed
  then show thesis using that sent by blast
qed

text \<open>
  C1: Single-hop broadcast end to end. A request accepted by a router without security puts
  exactly one packet on the air, and every receiver without security and with another address
  that runs protocol version 1 passes it to its callback exactly once: the payload, its
  length, the upper protocol, the traffic class and the sender's position vector are those of
  the request, and the hop limit is 1.
\<close>

theorem shb_end_to_end:
  assumes "gn_data_request request s = (Inr ACCEPTED, s')"
    and "req_packet_transport_type request = \<lparr>header_type = HT_TSB, header_subtype = SINGLE_HOP\<rparr>"
    and "valid_request request" "valid_lpv (r_ego_position_vector s)"
    and "r_link_layer s \<noteq> None" "itsGnSecurity (r_mib s) = DISABLED"
    and "itsGnSecurity (r_mib r) = DISABLED" "itsGnProtocolVersion (r_mib r) = 1"
    and "r_indication_callback r"
    and "\<not> gn_address_eq (itsGnLocalGnAddr (r_mib r)) (lpv_gn_addr (r_ego_position_vector s))"
  shows "\<exists>p i. r_sent s' = r_sent s @ [p]
    \<and> (\<exists>r'. gn_data_indicate p r = (Inr (), r') \<and> r_indications r' = r_indications r @ [i]
          \<and> r_sent r' = r_sent r)
    \<and> ind_data i = req_data request \<and> ind_length i = int (length (req_data request))
    \<and> ind_upper_protocol_entity i = req_upper_protocol_entity request
    \<and> ind_traffic_class i = req_traffic_class request
    \<and> ind_source_position_vector i = r_ego_position_vector s
    \<and> ind_remaining_hop_limit i = Some 1"
proof -
  let ?i = "make_indication (ch_initialize_with_request request (r_mib s))
    (bh_initialize_with_mib_request_and_rhl (r_mib s) (req_max_packet_lifetime request) 1)
    \<lparr>header_type = HT_TSB, header_subtype = SINGLE_HOP\<rparr> None (r_ego_position_vector s)
    (req_data request)"
  obtain p t where "r_sent s' = r_sent s @ [p]" "gn_data_indicate p r
      = (Inr (), r\<lparr>r_location_table := t, r_indications := r_indications r @ [?i]\<rparr>)"
    using request_shb_received [OF assms(1-6)] assms(7-10) by metis
  then show ?thesis
    by (intro exI [of _ p] exI [of _ ?i])
      (simp add: make_indication_def ch_initialize_with_request_def
        bh_initialize_with_mib_request_and_rhl_def Let_def)
qed

definition hello_request :: GNDataRequest where
  "hello_request = default_GNDataRequest\<lparr>req_data := [104, 105], req_length := 2,
     req_upper_protocol_entity := BTP_B\<rparr>"

lemma hello_request_simps [simp]:
  "req_data hello_request = [104, 105]"
  "req_packet_transport_type hello_request = \<lparr>header_type = HT_TSB, header_subtype = SINGLE_HOP\<rparr>"
  "req_upper_protocol_entity hello_request = BTP_B"
  "req_traffic_class hello_request = default_TrafficClass"
  "valid_request hello_request"
  by (simp_all add: hello_request_def default_GNDataRequest_def default_PacketTransportType_def
      valid_request_def TopoBroadcastHST_members_def)

lemma shb_end_to_end_witness:
  "\<exists>(s' :: router) p i. r_sent s' = [p]
    \<and> (\<exists>r'. gn_data_indicate p (station 2) = (Inr (), r') \<and> r_indications r' = [i])
    \<and> ind_data i = [104, 105] \<and> ind_upper_protocol_entity i = BTP_B"
proof -
  obtain s' where s': "gn_data_request hello_request (station 1) = (Inr ACCEPTED, s')"
    using request_shb_accepted [of hello_request "station 1" "\<lambda>_ _. Inr ()"] by auto
  have "(1 :: byte) \<noteq> 2" by simp
  then obtain p i r' where "r_sent s' = [p]" "gn_data_indicate p (station 2) = (Inr (), r')"
    "r_indications r' = [i]" "ind_data i = [104, 105]" "ind_upper_protocol_entity i = BTP_B"
    using shb_end_to_end [OF s', of "station 2"] by auto
  then show ?thesis by blast
qed

section \<open>What a handler may send\<close>

text \<open>Every packet sent between two states satisfies \<open>P\<close>.\<close>

definition sends :: "(bytes \<Rightarrow> bool) \<Rightarrow> router \<Rightarrow> router \<Rightarrow> bool" where
  "sends P r r' \<longleftrightarrow> (\<exists>qs. r_sent r' = r_sent r @ qs \<and> (\<forall>q \<in> set qs. P q))"

interpretation sends: step_rel "sends P" for P
proof unfold_locales
  show "sends P r r" for r by (simp add: sends_def)
  show "sends P r u" if "sends P r t" "sends P t u" for r t u
  proof -
    obtain qs1 qs2 where "r_sent t = r_sent r @ qs1" "\<forall>q \<in> set qs1. P q"
      "r_sent u = r_sent t @ qs2" "\<forall>q \<in> set qs2. P q"
      using \<open>sends P r t\<close> \<open>sends P t u\<close> unfolding sends_def by blast
    then show ?thesis unfolding sends_def by (intro exI [of _ "qs1 @ qs2"]) auto
  qed
qed

lemma sends_send_ignore: "P q \<Longrightarrow> obeys (sends P) (send_ignore q)"
  by (rule obeysI, elim send_ignore_cases) (auto simp: sends_def)

lemma sends_send_confirm: "P q \<Longrightarrow> obeys (sends P) (send_confirm q)"
  by (rule obeysI, elim send_confirm_cases) (auto simp: sends_def)

lemma sends_no_send: "(\<And>r res r'. m r = (res, r') \<Longrightarrow> r_sent r' = r_sent r) \<Longrightarrow> obeys (sends P) m"
  by (rule obeysI) (auto simp: sends_def)

lemma sends_dad: "obeys (sends P) (duplicate_address_detection a)"
  by (rule sends_no_send) (auto simp: dad_run split: if_splits)

lemma sends_on_location_table: "obeys (sends P) (on_location_table meth)"
  by (rule sends_no_send) (auto simp: loct_run)

lemma sends_modify: "(\<And>r. r_sent (g r) = r_sent r) \<Longrightarrow> obeys (sends P) (modify_s g)"
  by (rule sends_no_send) auto

lemma sends_start_timer: "obeys (sends P) (start_timer d act)"
  unfolding start_timer_def
  by (intro sends.obeys_bind sends.obeys_then sends.obeys_pure sends_modify) simp

lemma sends_cancel_timer: "obeys (sends P) (cancel_timer n)"
  unfolding cancel_timer_def by (rule sends_modify) simp

lemma sends_cbf: "obeys (sends P) (gn_area_cbf_forwarding bh ch h packet)"
  unfolding gn_area_cbf_forwarding_def Let_def
  by (intro sends.obeys_case_option sends.obeys_bind sends.obeys_then sends.obeys_pure sends_modify
      sends_start_timer sends_cancel_timer) simp_all

lemma sends_catch_discard: "obeys (sends P) m \<Longrightarrow> obeys (sends P) (catch_discard v m)"
  unfolding catch_discard_def by (intro sends.obeys_catch sends.obeys_if sends.obeys_pure)

lemma sends_gets_bind: "(\<And>x. obeys (sends P) (f x)) \<Longrightarrow> obeys (sends P) (bind_s (gets_s g) f)"
  by (intro sends.obeys_bind sends.obeys_pure)

lemma sends_alg:
  "obeys (sends P) m1 \<Longrightarrow> obeys (sends P) m2 \<Longrightarrow> obeys (sends P) m3 \<Longrightarrow>
    obeys (sends P) (case alg of AREA_FORWARDING \<Rightarrow> m1 | NON_AREA_FORWARDING \<Rightarrow> m2 | DISCARTED \<Rightarrow> m3)"
  by (cases alg) auto

lemmas sends_rules =
  sends.obeys_lift_bind sends_gets_bind sends.obeys_then sends.obeys_if sends.obeys_case_option
  sends.obeys_pure sends_catch_discard sends_dad sends_on_location_table

text \<open>A packet put together from a basic header, a common header, an extended header and data.\<close>

definition forwards ::
    "BasicHeader \<Rightarrow> CommonHeader \<Rightarrow> bytes result \<Rightarrow> bytes \<Rightarrow> bytes \<Rightarrow> bool" where
  "forwards h k x d q \<longleftrightarrow> encode_parts [bh_encode h, ch_encode k, x, Inr d] = Inr q"

lemma forwards_decode:
  assumes "forwards h k x d q" "valid_bh h" "valid_ch k"
  obtains bs where "bh_decode q = Inr h" "ch_decode (drop 4 q) = Inr k" "x = Inr bs"
    "drop 12 q = bs @ d"
proof -
  obtain b c bs where b: "bh_encode h = Inr b" and c: "ch_encode k = Inr c" and x: "x = Inr bs"
    and q: "q = b @ c @ bs @ d"
    using assms(1) by (auto simp: forwards_def rbind_eq_Inr)
  have "drop 4 q = c @ bs @ d" unfolding q by (rule bh.drop_header [OF assms(2) b])
  moreover have "drop 12 q = drop 8 (drop 4 q)" by simp
  ultimately have "drop 12 q = bs @ d" using ch.drop_header [OF assms(3) c] by (simp del: drop_append)
  moreover have "bh_decode q = Inr h" unfolding q by (rule bh.decode_packet [OF assms(2) b])
  moreover have "ch_decode (drop 4 q) = Inr k"
    using ch.decode_packet [OF assms(3) c] \<open>drop 4 q = c @ bs @ d\<close> by simp
  ultimately show thesis using that x by blast
qed

lemma valid_bh_rhl: "valid_bh h \<Longrightarrow> 1 < bh_rhl h \<Longrightarrow> bh_set_rhl (bh_rhl h - 1) h = h\<lparr>bh_rhl := bh_rhl h - 1\<rparr>"
  by (simp add: bh_set_rhl_def valid_bh_def)

section \<open>Topologically scoped broadcast\<close>

lemma tsb_sends:
  "obeys (sends (\<lambda>q. 1 < bh_rhl bh \<and> (\<exists>e. tsb_decode (slice 0 28 packet) = Inr e
      \<and> forwards (bh_set_rhl (bh_rhl bh - 1) bh) ch (tsb_encode e) (drop 28 packet) q)))
    (gn_data_indicate_tsb packet ch bh)"
  unfolding gn_data_indicate_tsb_def Let_def
  by (intro sends_rules sends_send_ignore) (auto simp: forwards_def)

text \<open>
  Every packet that the reception of a topologically scoped broadcast packet puts on the air is
  that packet with the remaining hop limit one lower: a receiver decodes the same basic header
  otherwise, the same common header, the same source header and the same payload. Nothing is
  sent when the hop limit is 1 or less, so a packet is forwarded at most 254 times.
\<close>

lemma tsb_forwarding:
  assumes "gn_data_indicate_tsb packet ch bh r = (res, r')" "valid_bh bh" "valid_ch ch"
  shows "\<exists>qs. r_sent r' = r_sent r @ qs \<and> (\<forall>q \<in> set qs. 1 < bh_rhl bh
    \<and> bh_decode q = Inr (bh\<lparr>bh_rhl := bh_rhl bh - 1\<rparr>) \<and> ch_decode (drop 4 q) = Inr ch
    \<and> tsb_decode (drop 12 q) = tsb_decode packet \<and> drop 40 q = drop 28 packet)"
proof -
  have one: "bh_decode q = Inr (bh\<lparr>bh_rhl := bh_rhl bh - 1\<rparr>) \<and> ch_decode (drop 4 q) = Inr ch
      \<and> tsb_decode (drop 12 q) = tsb_decode packet \<and> drop 40 q = drop 28 packet"
    if rhl: "1 < bh_rhl bh" and e: "tsb_decode (slice 0 28 packet) = Inr e"
      and q: "forwards (bh_set_rhl (bh_rhl bh - 1) bh) ch (tsb_encode e) (drop 28 packet) q" for q e
  proof -
    obtain bs where h: "bh_decode q = Inr (bh_set_rhl (bh_rhl bh - 1) bh)"
      "ch_decode (drop 4 q) = Inr ch" and bs: "tsb_encode e = Inr bs"
      and q12: "drop 12 q = bs @ drop 28 packet"
      using forwards_decode [OF q valid_bh_set_rhl [OF assms(2)] assms(3)] by blast
    have ve: "valid_tsb e" by (rule tsb_decode_valid [OF e])
    have "28 \<le> length packet" using tsb.decode_Inr_length [OF e] by (simp add: slice_0)
    then have "tsb_decode packet = Inr e" using e tsb.decode_prefix [of packet] by (simp add: slice_0)
    moreover have "drop 40 q = drop 28 (drop 12 q)" by simp
    ultimately show ?thesis
      using h q12 tsb.decode_packet [OF ve bs] tsb.drop_header [OF ve bs] valid_bh_rhl [OF assms(2) rhl]
      by (simp del: drop_append)
  qed
  show ?thesis
    using obeysD [OF tsb_sends assms(1)] one unfolding sends_def by blast
qed

lemma pdr_exceeded_first:
  "(\<forall>b e. get_entry b (r_location_table r) = Some e \<longrightarrow> b = c \<and> le_pdr e = 0)
    \<Longrightarrow> 0 \<le> itsGnMaxPacketDataRate (r_mib r) \<Longrightarrow> \<not> pdr_exceeded a r"
  by (auto simp: pdr_exceeded_def split: option.splits)

lemma send_ignore_some:
  "r_link_layer r = Some (\<lambda>_ _. Inr ()) \<Longrightarrow> send_ignore p r
    = (Inr (), r\<lparr>r_ll_calls := Suc (r_ll_calls r), r_sent := r_sent r @ [p]\<rparr>)"
  by (simp add: send_ignore_def catch_s_def link_send_some)

lemma then_send_ignore_some:
  "r_link_layer r = Some (\<lambda>_ _. Inr ()) \<Longrightarrow> then_s (send_ignore p) m r
    = m (r\<lparr>r_ll_calls := Suc (r_ll_calls r), r_sent := r_sent r @ [p]\<rparr>)"
  by (simp add: send_ignore_some then_s_def bind_s_def)

lemma tsb_forwarding_witness:
  "\<exists>packet res (r' :: router) q.
    gn_data_indicate_tsb packet (sample_ch HT_TSB MULTI_HOP) (sample_bh 10) (station 2) = (res, r')
    \<and> r_sent r' = [q] \<and> bh_decode q = Inr (sample_bh 9) \<and> drop 40 q = [1, 2, 3]"
proof -
  let ?bh = "sample_bh 10" and ?ch = "sample_ch HT_TSB MULTI_HOP" and ?e = "sample_tsb 1 7"
  have v: "valid_bh ?bh" "valid_ch ?ch" "valid_tsb ?e" "valid_bh (bh_set_rhl 9 ?bh)"
    by (simp_all add: TopoBroadcastHST_members_def valid_bh_set_rhl)
  obtain bs where bs: "tsb_encode ?e = Inr bs" using tsb.encode_total [OF v(3)] by blast
  obtain b where b: "bh_encode (bh_set_rhl 9 ?bh) = Inr b" using bh.encode_total [OF v(4)] by blast
  obtain c where c: "ch_encode ?ch = Inr c" using ch.encode_total [OF v(2)] by blast
  obtain t where t: "new_tsb_packet (station_mib 2) 1700000000 ?e [1, 2, 3] [] = (Inr (), t)"
    "\<forall>b e. get_entry b t = Some e \<longrightarrow> b = station_address 1 \<and> le_pdr e = 0"
    using first_packet [of "station_pv 1" "station_mib 2" 1700000000 "station_address 1" 7 "[1, 2, 3]"]
    unfolding new_tsb_packet_def update_with_tsb_packet_def by auto
  let ?r = "station 2\<lparr>r_location_table := t\<rparr>"
  obtain res r' q where run:
    "gn_data_indicate_tsb (bs @ [1, 2, 3]) ?ch ?bh (station 2) = (res, r')" "r_sent r' = [q]"
    using t b c bs pdr_exceeded_first [of ?r "station_address 1" "station_address 1"]
    by (simp add: gn_data_indicate_tsb_def tsb.decode_slice [OF v(3) bs] tsb.drop_header [OF v(3) bs]
        catch_discard_run then_dad_run then_loct_run [where x = "Inr ()" and t = t]
        default_TrafficClass_def Let_def then_send_ignore_some del: drop_append)
  have len: "length bs = 28" by (rule tsb.encode_length [OF v(3) bs])
  have "sample_bh 10\<lparr>bh_rhl := 10 - 1\<rparr> = sample_bh 9" by (simp add: sample_bh_def)
  then show ?thesis
    using run tsb_forwarding [OF run(1) v(1,2)] len by auto
qed

section \<open>GeoUnicast\<close>

text \<open>Sending under the invariant, which makes the stored position vectors encodable.\<close>

definition ok_sends :: "(bytes \<Rightarrow> bool) \<Rightarrow> router \<Rightarrow> router \<Rightarrow> bool" where
  "ok_sends P r r' \<longleftrightarrow> (router_ok r \<longrightarrow> router_ok r' \<and> sends P r r')"

interpretation ok_sends: step_rel "ok_sends P" for P
  by unfold_locales (auto simp: ok_sends_def intro: sends.R_refl sends.R_trans)

lemma ok_sendsI: "keeps router_ok m \<Longrightarrow> obeys (sends P) m \<Longrightarrow> obeys (ok_sends P) m"
  by (simp add: obeys_def ok_sends_def keeps_rel_def)

lemma ok_sends_gets_bind:
  assumes "\<And>s. router_ok s \<Longrightarrow> obeys (ok_sends P) (f (g s))"
  shows "obeys (ok_sends P) (bind_s (gets_s g) f)"
  using assms by (simp add: obeys_def ok_sends_def)

lemma ok_sends_catch_discard: "obeys (ok_sends P) m \<Longrightarrow> obeys (ok_sends P) (catch_discard v m)"
  unfolding catch_discard_def by (intro ok_sends.obeys_catch ok_sends.obeys_if ok_sends.obeys_pure)

lemma refresh_de_pv_valid:
  assumes "router_ok r" "valid_spv d"
  shows "valid_spv (refresh_de_pv r d)"
  using assms loct_ok_get [of "r_mib r" "r_location_table r" "spv_gn_addr d"]
  by (auto simp: refresh_de_pv_def router_ok_def get_entry_def entry_ok_def split: option.splits)

lemma refresh_de_pv_newer:
  "refresh_de_pv r d = d \<or> tst_gt (spv_tst (refresh_de_pv r d)) (spv_tst d)"
  by (auto simp: refresh_de_pv_def spv_of_lpv_def split: option.splits)

lemma guc_sends:
  "obeys (ok_sends (\<lambda>q. 1 < bh_rhl bh \<and> (\<exists>e d. guc_decode (slice 0 48 packet) = Inr e \<and> valid_spv d
      \<and> (d = guc_de_pv e \<or> tst_gt (spv_tst d) (spv_tst (guc_de_pv e)))
      \<and> forwards (bh_set_rhl (bh_rhl bh - 1) bh) ch (guc_encode (guc_with_de_pv d e)) (drop 48 packet) q)))
    (gn_data_indicate_guc packet ch bh)"
  unfolding gn_data_indicate_guc_def Let_def
  apply (intro ok_sends.obeys_lift_bind ok_sends_catch_discard ok_sends.obeys_then ok_sends_gets_bind
      ok_sends.obeys_if ok_sends.obeys_pure ok_sendsI sends_dad keeps_dad sends_on_location_table
      sends_send_ignore keeps_send_ignore)
   apply (erule keeps_decoded)
  apply (frule guc_decode_valid)
  apply (simp add: forwards_def valid_guc_def del: encode_parts.simps)
  apply (metis refresh_de_pv_valid refresh_de_pv_newer)
  done

text \<open>
  Every packet that the reception of a GeoUnicast packet puts on the air is that packet with the
  remaining hop limit one lower and, at most, a strictly newer position of the destination;
  sequence number, source and payload are unchanged.
\<close>

lemma guc_forwarding:
  assumes "gn_data_indicate_guc packet ch bh r = (res, r')" "valid_bh bh" "valid_ch ch" "router_ok r"
  shows "\<exists>qs. r_sent r' = r_sent r @ qs \<and> (\<forall>q \<in> set qs. 1 < bh_rhl bh
    \<and> bh_decode q = Inr (bh\<lparr>bh_rhl := bh_rhl bh - 1\<rparr>) \<and> ch_decode (drop 4 q) = Inr ch
    \<and> (\<exists>e d. guc_decode packet = Inr e \<and> guc_decode (drop 12 q) = Inr (guc_with_de_pv d e)
          \<and> (d = guc_de_pv e \<or> tst_gt (spv_tst d) (spv_tst (guc_de_pv e))))
    \<and> drop 60 q = drop 48 packet)"
proof -
  have one: "bh_decode q = Inr (bh\<lparr>bh_rhl := bh_rhl bh - 1\<rparr>) \<and> ch_decode (drop 4 q) = Inr ch
      \<and> guc_decode packet = Inr e \<and> guc_decode (drop 12 q) = Inr (guc_with_de_pv d e)
      \<and> drop 60 q = drop 48 packet"
    if rhl: "1 < bh_rhl bh" and e: "guc_decode (slice 0 48 packet) = Inr e" and d: "valid_spv d"
      and q: "forwards (bh_set_rhl (bh_rhl bh - 1) bh) ch (guc_encode (guc_with_de_pv d e))
        (drop 48 packet) q" for q e d
  proof -
    obtain bs where h: "bh_decode q = Inr (bh_set_rhl (bh_rhl bh - 1) bh)"
      "ch_decode (drop 4 q) = Inr ch" and bs: "guc_encode (guc_with_de_pv d e) = Inr bs"
      and q12: "drop 12 q = bs @ drop 48 packet"
      using forwards_decode [OF q valid_bh_set_rhl [OF assms(2)] assms(3)] by blast
    have ve: "valid_guc (guc_with_de_pv d e)"
      by (rule valid_guc_with_de_pv [OF guc_decode_valid [OF e] d])
    have "48 \<le> length packet" using guc.decode_Inr_length [OF e] by (simp add: slice_0)
    then have "guc_decode packet = Inr e" using e guc.decode_prefix [of packet] by (simp add: slice_0)
    moreover have "drop 60 q = drop 48 (drop 12 q)" by simp
    ultimately show ?thesis
      using h q12 guc.decode_packet [OF ve bs] guc.drop_header [OF ve bs] valid_bh_rhl [OF assms(2) rhl]
      by (simp del: drop_append)
  qed
  show ?thesis
    using obeysD [OF guc_sends assms(1)] assms(4) one unfolding ok_sends_def sends_def by blast
qed

lemma guc_forwarding_witness:
  "\<exists>packet res (r' :: router) q. gn_data_indicate_guc packet
      (sample_ch HT_GEOUNICAST HST_UNSPECIFIED) (sample_bh 10) (station 2) = (res, r')
    \<and> r_sent r' = [q] \<and> bh_decode q = Inr (sample_bh 9) \<and> drop 60 q = [1, 2, 3]"
proof -
  let ?bh = "sample_bh 10" and ?ch = "sample_ch HT_GEOUNICAST HST_UNSPECIFIED"
  let ?e = "sample_guc 1 3 7"
  have v: "valid_bh ?bh" "valid_ch ?ch" "valid_guc ?e" "valid_bh (bh_set_rhl 9 ?bh)"
    by (simp_all add: HeaderSubType_members_def valid_bh_set_rhl)
  obtain bs where bs: "guc_encode ?e = Inr bs" using guc.encode_total [OF v(3)] by blast
  obtain b where b: "bh_encode (bh_set_rhl 9 ?bh) = Inr b" using bh.encode_total [OF v(4)] by blast
  obtain c where c: "ch_encode ?ch = Inr c" using ch.encode_total [OF v(2)] by blast
  obtain t where t: "new_guc_packet (station_mib 2) 1700000000 ?e [1, 2, 3] [] = (Inr (), t)"
    "\<forall>b e. get_entry b t = Some e \<longrightarrow> b = station_address 1 \<and> le_pdr e = 0"
    using first_packet [of "station_pv 1" "station_mib 2" 1700000000 "station_address 1" 7 "[1, 2, 3]"]
    unfolding new_guc_packet_def by auto
  let ?r = "station 2\<lparr>r_location_table := t\<rparr>"
  have addr: "spv_gn_addr (spv_of_lpv (station_pv 3)) = station_address 3"
    by (simp add: spv_of_lpv_def)
  have "station_address 3 \<noteq> station_address 1" by simp
  then have "get_entry (station_address 3) t = None"
    using t(2) by (metis not_Some_eq)
  then have "refresh_de_pv ?r (spv_of_lpv (station_pv 3)) = spv_of_lpv (station_pv 3)"
    by (simp add: refresh_de_pv_def addr)
  moreover have "guc_with_de_pv (spv_of_lpv (station_pv 3)) ?e = ?e"
    by (simp add: guc_with_de_pv_def sample_guc_def)
  ultimately obtain res r' q where run:
    "gn_data_indicate_guc (bs @ [1, 2, 3]) ?ch ?bh (station 2) = (res, r')" "r_sent r' = [q]"
    using t b c bs pdr_exceeded_first [of ?r "station_address 1" "station_address 1"]
    by (simp add: gn_data_indicate_guc_def guc.decode_slice [OF v(3) bs] guc.drop_header [OF v(3) bs]
        catch_discard_run then_dad_run then_loct_run [where x = "Inr ()" and t = t] greedy_def
        greedy_iff default_TrafficClass_def Let_def then_send_ignore_some addr del: drop_append)
  have len: "length bs = 48" by (rule guc.encode_length [OF v(3) bs])
  have "sample_bh 10\<lparr>bh_rhl := 10 - 1\<rparr> = sample_bh 9" by (simp add: sample_bh_def)
  then show ?thesis
    using run guc_forwarding [OF run(1) v(1,2) station_ok] len by auto
qed

section \<open>What a handler may return\<close>

definition yields :: "('a \<Rightarrow> bool) \<Rightarrow> (router, 'a) prog \<Rightarrow> bool" where
  "yields Q m \<longleftrightarrow> (\<forall>s x s'. m s = (Inr x, s') \<longrightarrow> Q x)"

lemma yieldsD: "yields Q m \<Longrightarrow> m s = (Inr x, s') \<Longrightarrow> Q x"
  by (auto simp: yields_def)

lemma yields_return: "Q x \<Longrightarrow> yields Q (return_s x)"
  by (simp add: yields_def)

lemma yields_bind: "(\<And>x. yields Q (f x)) \<Longrightarrow> yields Q (bind_s m f)"
  by (auto simp: yields_def bind_s_Inr)

lemma yields_then: "yields Q m' \<Longrightarrow> yields Q (then_s m m')"
  by (simp add: then_s_def yields_bind)

lemma yields_if: "(b \<Longrightarrow> yields Q m) \<Longrightarrow> (\<not> b \<Longrightarrow> yields Q m') \<Longrightarrow> yields Q (if b then m else m')"
  by simp

lemma yields_catch_discard: "Q v \<Longrightarrow> yields Q m \<Longrightarrow> yields Q (catch_discard v m)"
  unfolding yields_def catch_discard_run by (auto split: prod.splits sum.splits if_splits)

lemmas yields_rules = yields_return yields_bind yields_then yields_if yields_catch_discard

section \<open>GeoAnycast and GeoBroadcast\<close>

text \<open>The router in an area whose first length is taken to point north; for a circle that makes no difference.\<close>

definition ego_inside :: "router \<Rightarrow> HST \<Rightarrow> Area \<Rightarrow> bool" where
  "ego_inside r hst area \<longleftrightarrow>
     inside_area hst (north_up area) (lpv_latitude (r_ego_position_vector r)) (lpv_longitude (r_ego_position_vector r))"

lemma ego_inside_circle:
  "hst \<in> set circle_types \<Longrightarrow> ego_inside r hst area \<longleftrightarrow>
     inside_area hst area (lpv_latitude (r_ego_position_vector r)) (lpv_longitude (r_ego_position_vector r))"
  by (simp add: ego_inside_def inside_circle_north_up)

lemma ego_function:
  assumes "has_extent hst area" "is_area_type hst"
  obtains f where "gn_geometric_function_f hst area (lpv_latitude (r_ego_position_vector r))
      (lpv_longitude (r_ego_position_vector r)) = Inr f" "0 \<le> f \<longleftrightarrow> ego_inside r hst area"
  using geometric_function_inside [OF assms]
  unfolding ego_inside_def by blast

end
