(* ===== verification/RouterDuplicates.thy ===== *)
theory RouterDuplicates
  imports RouterProps
begin

text \<open>
  Duplicate packets. The locale states what the handlers need of an update of the location
  table that carries a sequence number; every such update of \<open>LocationTable\<close> is one. From it
  follows that a second copy of a packet has no effect at all, which is right for delivery and
  also keeps contention-based forwarding from ever seeing the copy that should stop its timer.
\<close>

section \<open>Updates that detect duplicates\<close>

text \<open>
  An update for source \<open>a\<close> and sequence number \<open>sn\<close>: it refuses a number it has seen, records
  the ones it accepts, and has no other reason to discard a packet.
\<close>

locale duplicate_guard =
  fixes meth :: "MIB \<Rightarrow> real \<Rightarrow> loc_table \<Rightarrow> unit result \<times> loc_table"
    and a :: GNAddress and sn :: int
  assumes refuses: "seen_sn a sn t \<Longrightarrow> meth mib now t = (Inl DuplicatedPacketException, t)"
    and records: "meth mib now t = (Inr u, t') \<Longrightarrow> dict_ok t \<Longrightarrow> seen_sn a sn t' \<or> dict_get t' a = None"
    and discards: "meth mib now t = (Inl e, t') \<Longrightarrow> e \<in> discarding \<Longrightarrow> seen_sn a sn t"
begin

text \<open>After any run that was not cut short, the number is known or its source forgotten.\<close>

lemma known_after:
  assumes run: "meth (r_mib r) (r_now r) (r_location_table r) = (x, t)"
    and "dict_ok (r_location_table r)" "\<And>e. x = Inl e \<Longrightarrow> e \<in> discarding"
  shows "seen_sn a sn t \<or> dict_get t a = None"
proof (cases x)
  case (Inl e)
  then have seen: "seen_sn a sn (r_location_table r)" using discards [of _ _ _ e t] run assms(3) by blast
  then have "t = r_location_table r" using refuses run by simp
  then show ?thesis using seen by simp
next
  case (Inr u)
  show ?thesis by (rule records [OF run [unfolded Inr] assms(2)])
qed

lemma refused_run:
  assumes "seen_sn a sn (r_location_table r)"
  shows "catch_discard v (then_s (duplicate_address_detection a)
      (then_s (on_location_table meth) m)) r = (Inr v, r)"
  using refuses [OF assms]
  by (simp add: catch_discard_run then_dad_run
      then_loct_run [where x = "Inl DuplicatedPacketException" and t = "r_location_table r"])

text \<open>The second run of a handler that changes the table only through this update.\<close>

lemma second_run:
  assumes run: "catch_discard v (then_s (duplicate_address_detection a)
      (then_s (on_location_table meth) m)) r = (Inr res, r')"
    and m: "\<And>s x s'. m s = (x, s') \<Longrightarrow> r_location_table s' = r_location_table s \<and> r_mib s' = r_mib s"
    and ok: "dict_ok (r_location_table r)"
  shows "catch_discard v (then_s (duplicate_address_detection a)
      (then_s (on_location_table meth) m')) r' = (Inr v, r')
    \<or> dict_get (r_location_table r') a = None"
proof (cases "gn_address_eq (itsGnLocalGnAddr (r_mib r)) a")
  case True
  then have "r' = r" using run by (simp add: catch_discard_run then_dad_run)
  then show ?thesis using True by (simp add: catch_discard_run then_dad_run)
next
  case False
  obtain x t where t: "meth (r_mib r) (r_now r) (r_location_table r) = (x, t)" by fastforce
  note step = then_loct_run [where meth = meth and x = x and t = t]
  have "r_location_table r' = t \<and> r_mib r' = r_mib r \<and> (\<forall>e. x = Inl e \<longrightarrow> e \<in> discarding)"
  proof (cases x)
    case (Inl e)
    then show ?thesis using run False t
      by (auto simp: catch_discard_run then_dad_run step split: if_splits)
  next
    case (Inr u)
    obtain y s' where s': "m (r\<lparr>r_location_table := t\<rparr>) = (y, s')" by fastforce
    then have "r' = s'" using run False t Inr
      by (auto simp: catch_discard_run then_dad_run step split: if_splits sum.splits)
    then show ?thesis using m [OF s'] Inr by simp
  qed
  moreover from this have "seen_sn a sn t \<or> dict_get t a = None"
    by (intro known_after [OF t ok]) blast
  ultimately show ?thesis using refused_run [of r'] by auto
qed

end

lemma check_duplicate_error:
  "check_duplicate_sn mib sn e = Inl ex \<Longrightarrow> ex \<in> discarding \<Longrightarrow> sn \<in> le_dpl_set e"
  by (auto simp: check_duplicate_sn_def discarding_def split: if_splits list.splits)

lemma update_error:
  "update_with_multi_hop_packet mib sn pv bs new e = Inl ex \<Longrightarrow> ex \<in> discarding \<Longrightarrow> sn \<in> le_dpl_set e"
  "update_with_gbc_packet mib bs h e = Inl ex \<Longrightarrow> ex \<in> discarding \<Longrightarrow> gbc_sn h \<in> le_dpl_set e"
  by (auto simp: update_with_multi_hop_packet_def update_with_gbc_packet_def rbind_def Let_def
      dest: check_duplicate_error split: sum.splits)

lemma update_entry_discards:
  assumes "update_entry mib now a upd t = (Inl ex, t')" "ex \<in> discarding"
    and "\<And>new e. upd new e = Inl ex \<Longrightarrow> sn \<in> le_dpl_set e"
  shows "seen_sn a sn t"
  using update_entry_Inl(1) [OF assms(1)] assms(3)
  by (fastforce simp: seen_sn_def current_entry_def split: option.splits)

lemma new_packet_records:
  "new_ls_request_packet mib now q bs t = (Inr u, t') \<Longrightarrow> dict_ok t
    \<Longrightarrow> seen_sn (lpv_gn_addr (lsreq_so_pv q)) (lsreq_sn q) t'
      \<or> dict_get t' (lpv_gn_addr (lsreq_so_pv q)) = None"
  "new_ls_reply_packet mib now p bs t = (Inr u, t') \<Longrightarrow> dict_ok t
    \<Longrightarrow> seen_sn (lpv_gn_addr (lsrep_so_pv p)) (lsrep_sn p) t'
      \<or> dict_get t' (lpv_gn_addr (lsrep_so_pv p)) = None"
  unfolding new_ls_request_packet_def new_ls_reply_packet_def
  by (erule update_entry_seen_after, assumption, erule updates_seen)+

lemma new_packet_discards:
  "new_guc_packet mib now guc bs t = (Inl ex, t') \<Longrightarrow> ex \<in> discarding
    \<Longrightarrow> seen_sn (lpv_gn_addr (guc_so_pv guc)) (guc_sn guc) t"
  "new_tsb_packet mib now tsb bs t = (Inl ex, t') \<Longrightarrow> ex \<in> discarding
    \<Longrightarrow> seen_sn (lpv_gn_addr (tsb_so_pv tsb)) (tsb_sn tsb) t"
  "new_gac_packet mib now gbc bs t = (Inl ex, t') \<Longrightarrow> ex \<in> discarding
    \<Longrightarrow> seen_sn (lpv_gn_addr (gbc_so_pv gbc)) (gbc_sn gbc) t"
  "new_gbc_packet mib now gbc bs t = (Inl ex, t') \<Longrightarrow> ex \<in> discarding
    \<Longrightarrow> seen_sn (lpv_gn_addr (gbc_so_pv gbc)) (gbc_sn gbc) t"
  "new_ls_request_packet mib now q bs t = (Inl ex, t') \<Longrightarrow> ex \<in> discarding
    \<Longrightarrow> seen_sn (lpv_gn_addr (lsreq_so_pv q)) (lsreq_sn q) t"
  "new_ls_reply_packet mib now p bs t = (Inl ex, t') \<Longrightarrow> ex \<in> discarding
    \<Longrightarrow> seen_sn (lpv_gn_addr (lsrep_so_pv p)) (lsrep_sn p) t"
  unfolding new_guc_packet_def new_tsb_packet_def new_gac_packet_def new_gbc_packet_def
    new_ls_request_packet_def new_ls_reply_packet_def update_with_tsb_packet_def
  by (erule update_entry_discards, assumption, erule update_error, assumption)+

interpretation guc_guard: duplicate_guard "\<lambda>mib now. new_guc_packet mib now h p"
    "lpv_gn_addr (guc_so_pv h)" "guc_sn h" for h p
  by unfold_locales (fact new_packet_seen new_packet_seen_after new_packet_discards)+

interpretation tsb_guard: duplicate_guard "\<lambda>mib now. new_tsb_packet mib now h p"
    "lpv_gn_addr (tsb_so_pv h)" "tsb_sn h" for h p
  by unfold_locales (fact new_packet_seen new_packet_seen_after new_packet_discards)+

interpretation gac_guard: duplicate_guard "\<lambda>mib now. new_gac_packet mib now h p"
    "lpv_gn_addr (gbc_so_pv h)" "gbc_sn h" for h p
  by unfold_locales (fact new_packet_seen new_packet_seen_after new_packet_discards)+

interpretation gbc_guard: duplicate_guard "\<lambda>mib now. new_gbc_packet mib now h p"
    "lpv_gn_addr (gbc_so_pv h)" "gbc_sn h" for h p
  by unfold_locales (fact new_packet_seen new_packet_seen_after new_packet_discards)+

interpretation ls_request_guard: duplicate_guard "\<lambda>mib now. new_ls_request_packet mib now h p"
    "lpv_gn_addr (lsreq_so_pv h)" "lsreq_sn h" for h p
  by unfold_locales (fact new_packet_seen new_packet_records new_packet_discards)+

interpretation ls_reply_guard: duplicate_guard "\<lambda>mib now. new_ls_reply_packet mib now h p"
    "lpv_gn_addr (lsrep_so_pv h)" "lsrep_sn h" for h p
  by unfold_locales (fact new_packet_seen new_packet_records new_packet_discards)+

section \<open>A second copy has no effect\<close>

text \<open>What a handler does after its update leaves the location table alone.\<close>

definition still :: "router \<Rightarrow> router \<Rightarrow> bool" where
  "still r r' \<longleftrightarrow> r_location_table r' = r_location_table r \<and> r_mib r' = r_mib r"

interpretation still: step_rel still
  by unfold_locales (auto simp: still_def)

lemma still_send_ignore: "obeys still (send_ignore p)"
  by (rule obeysI, elim send_ignore_cases) (auto simp: still_def)

lemma still_send_confirm: "obeys still (send_confirm p)"
  by (rule obeysI, elim send_confirm_cases) (auto simp: still_def)

lemma still_modify:
  "(\<And>r. r_location_table (g r) = r_location_table r \<and> r_mib (g r) = r_mib r)
    \<Longrightarrow> obeys still (modify_s g)"
  by (rule still.obeys_modify) (simp add: still_def)

lemma still_gets_bind: "(\<And>x. obeys still (f x)) \<Longrightarrow> obeys still (bind_s (gets_s g) f)"
  by (intro still.obeys_bind still.obeys_pure)

lemma still_cbf: "obeys still (gn_area_cbf_forwarding bh ch h packet)"
  unfolding gn_area_cbf_forwarding_def start_timer_def cancel_timer_def Let_def
  by (intro still.obeys_bind still.obeys_then still.obeys_case_option still.obeys_pure
      still_modify) simp_all

lemma still_alg:
  "obeys still m1 \<Longrightarrow> obeys still m2 \<Longrightarrow> obeys still m3 \<Longrightarrow>
    obeys still (case alg of AREA_FORWARDING \<Rightarrow> m1 | NON_AREA_FORWARDING \<Rightarrow> m2 | DISCARTED \<Rightarrow> m3)"
  by (cases alg) auto

lemmas still_rules =
  still.obeys_lift_bind still_gets_bind still.obeys_then still.obeys_if still.obeys_pure
  still_send_ignore still_send_confirm

lemma still_forward_gbc: "obeys still (gn_data_forward_gbc bh ch h packet)"
  unfolding gn_data_forward_gbc_def Let_def
  by (intro still_rules still_alg still_cbf)

lemma stillD: "obeys still m \<Longrightarrow> m s = (x, s')
    \<Longrightarrow> r_location_table s' = r_location_table s \<and> r_mib s' = r_mib s"
  using obeysD [of still m] by (simp add: still_def)

lemma tsb_again:
  assumes "tsb_decode (slice 0 28 p) = Inr e" "dict_ok (r_location_table r)"
    and "gn_data_indicate_tsb p ch bh r = (Inr res, r')"
  shows "gn_data_indicate_tsb p ch bh' r' = (Inr None, r')
    \<or> dict_get (r_location_table r') (lpv_gn_addr (tsb_so_pv e)) = None"
  using assms(3) unfolding gn_data_indicate_tsb_def assms(1) run_lift_bind Let_def
  by (rule tsb_guard.second_run [OF _ _ assms(2)]) (erule stillD [rotated], intro still_rules)

lemma guc_again:
  assumes "guc_decode (slice 0 48 p) = Inr e" "dict_ok (r_location_table r)"
    and "gn_data_indicate_guc p ch bh r = (Inr res, r')"
  shows "gn_data_indicate_guc p ch bh' r' = (Inr None, r')
    \<or> dict_get (r_location_table r') (lpv_gn_addr (guc_so_pv e)) = None"
  using assms(3) unfolding gn_data_indicate_guc_def assms(1) run_lift_bind Let_def
  by (rule guc_guard.second_run [OF _ _ assms(2)]) (erule stillD [rotated], intro still_rules)

lemma gac_again:
  assumes "gbc_decode (slice 0 44 p) = Inr e" "dict_ok (r_location_table r)"
    and run: "gn_data_indicate_gac p ch bh r = (Inr res, r')"
  shows "gn_data_indicate_gac p ch bh' r' = (Inr None, r')
    \<or> dict_get (r_location_table r') (lpv_gn_addr (gbc_so_pv e)) = None"
proof -
  let ?F = "gn_geometric_function_f (ch_hst ch) (gbc_area e)
    (lpv_latitude (r_ego_position_vector r)) (lpv_longitude (r_ego_position_vector r))"
  obtain f where f: "?F = Inr f"
    using run by (cases ?F) (simp_all add: gn_data_indicate_gac_def assms(1) Let_def)
  have "r_ego_position_vector r' = r_ego_position_vector r"
    using obeysD [OF quiet_handlers(4) run] by (simp add: quiet_def same_config_def)
  note ego = this
  note run' = run [unfolded gn_data_indicate_gac_def assms(1) run_lift_bind Let_def]
  note run' = trans [OF run_gets_bind [symmetric] run', unfolded f run_lift_bind]
  show ?thesis
    unfolding gn_data_indicate_gac_def assms(1) run_lift_bind Let_def
    apply (subst run_gets_bind, unfold ego f run_lift_bind)
    apply (rule gac_guard.second_run [OF run' _ assms(2)])
    apply (erule stillD [rotated], intro still_rules)
    done
qed

lemma gbc_again:
  assumes "gbc_decode (slice 0 44 p) = Inr e" "dict_ok (r_location_table r)"
    and run: "gn_data_indicate_gbc p ch bh r = (Inr res, r')"
  shows "gn_data_indicate_gbc p ch bh' r' = (Inr None, r')
    \<or> dict_get (r_location_table r') (lpv_gn_addr (gbc_so_pv e)) = None"
proof -
  let ?F = "gn_geometric_function_f (ch_hst ch) (gbc_area e)
    (lpv_latitude (r_ego_position_vector r)) (lpv_longitude (r_ego_position_vector r))"
  obtain f where f: "?F = Inr f"
    using run by (cases ?F) (simp_all add: gn_data_indicate_gbc_def assms(1) Let_def)
  have "r_ego_position_vector r' = r_ego_position_vector r"
    using obeysD [OF quiet_handlers(5) run] by (simp add: quiet_def same_config_def)
  note ego = this
  note run' = run [unfolded gn_data_indicate_gbc_def assms(1) run_lift_bind Let_def]
  note run' = trans [OF run_gets_bind [symmetric] run', unfolded f run_lift_bind]
  show ?thesis
    unfolding gn_data_indicate_gbc_def assms(1) run_lift_bind Let_def
    apply (subst run_gets_bind, unfold ego f run_lift_bind)
    apply (rule gbc_guard.second_run [OF run' _ assms(2)])
    apply (erule stillD [rotated], intro still_rules still_forward_gbc)
    done
qed

text \<open>
  C6: Receiving a packet is idempotent. A TSB, GeoUnicast, GeoAnycast or GeoBroadcast packet
  that comes in again right after it was handled, with whatever remaining hop limit, is
  neither delivered nor forwarded and changes nothing in the router, as long as its source is
  in the location table.
\<close>

theorem reception_idempotent:
  assumes "router_ok r"
  shows "(\<forall>p e res r' bh'. tsb_decode (slice 0 28 p) = Inr e
      \<and> gn_data_indicate_tsb p ch bh r = (Inr res, r')
      \<and> get_entry (lpv_gn_addr (tsb_so_pv e)) (r_location_table r') \<noteq> None
      \<longrightarrow> gn_data_indicate_tsb p ch bh' r' = (Inr None, r'))
    \<and> (\<forall>p e res r' bh'. guc_decode (slice 0 48 p) = Inr e
      \<and> gn_data_indicate_guc p ch bh r = (Inr res, r')
      \<and> get_entry (lpv_gn_addr (guc_so_pv e)) (r_location_table r') \<noteq> None
      \<longrightarrow> gn_data_indicate_guc p ch bh' r' = (Inr None, r'))
    \<and> (\<forall>p e res r' bh'. gbc_decode (slice 0 44 p) = Inr e
      \<and> gn_data_indicate_gac p ch bh r = (Inr res, r')
      \<and> get_entry (lpv_gn_addr (gbc_so_pv e)) (r_location_table r') \<noteq> None
      \<longrightarrow> gn_data_indicate_gac p ch bh' r' = (Inr None, r'))
    \<and> (\<forall>p e res r' bh'. gbc_decode (slice 0 44 p) = Inr e
      \<and> gn_data_indicate_gbc p ch bh r = (Inr res, r')
      \<and> get_entry (lpv_gn_addr (gbc_so_pv e)) (r_location_table r') \<noteq> None
      \<longrightarrow> gn_data_indicate_gbc p ch bh' r' = (Inr None, r'))"
proof -
  have "dict_ok (r_location_table r)"
    using assms by (simp add: router_ok_def loct_ok_def)
  then show ?thesis
    unfolding get_entry_def
    by (intro conjI allI impI; elim conjE) (metis tsb_again guc_again gac_again gbc_again)+
qed

section \<open>Fresh packets, concretely\<close>

text \<open>The position vector of station \<open>n\<close>, stamped with the time at which station 2 gets it.\<close>

definition fresh_pv :: "byte \<Rightarrow> LongPositionVector" where
  "fresh_pv n = (station_pv n)\<lparr>lpv_tst := tst_set_in_normal_timestamp_seconds 1700000000\<rparr>"

definition fresh_tsb :: "byte \<Rightarrow> int \<Rightarrow> TSBExtendedHeader" where
  "fresh_tsb n sn = (sample_tsb n sn)\<lparr>tsb_so_pv := fresh_pv n\<rparr>"

definition fresh_gbc :: "byte \<Rightarrow> int \<Rightarrow> GBCExtendedHeader" where
  "fresh_gbc n sn = (sample_gbc n sn)\<lparr>gbc_so_pv := fresh_pv n\<rparr>"

lemma clock_tst: "tst_set_in_normal_timestamp_seconds 1700000000 = \<lparr>msec = 19579784\<rparr>"
  by (simp add: tst_set_in_normal_timestamp_seconds_def ITS_EPOCH_def ELAPSED_SECONDS_def)

lemma fresh_simps [simp]:
  "lpv_gn_addr (fresh_pv n) = station_address n" "valid_lpv (fresh_pv n)"
  "tsb_so_pv (fresh_tsb n sn) = fresh_pv n" "tsb_sn (fresh_tsb n sn) = sn"
  "gbc_so_pv (fresh_gbc n sn) = fresh_pv n" "gbc_sn (fresh_gbc n sn) = sn"
  "gbc_area (fresh_gbc n sn) = gbc_area (sample_gbc n sn)"
  "0 \<le> sn \<Longrightarrow> sn < 65536 \<Longrightarrow> valid_tsb (fresh_tsb n sn)"
  "0 \<le> sn \<Longrightarrow> sn < 65536 \<Longrightarrow> valid_gbc (fresh_gbc n sn)"
  by (simp_all add: fresh_pv_def fresh_tsb_def fresh_gbc_def gbc_area_def clock_tst station_pv_def
      default_LongPositionVector_def valid_lpv_def valid_tst_def sample_tsb_def valid_tsb_def
      sample_gbc_def valid_gbc_def)

text \<open>Station 2 remembers the source of its first fresh packet.\<close>

lemma fresh_entry:
  "\<exists>t. new_tsb_packet (station_mib 2) 1700000000 (fresh_tsb n sn) d [] = (Inr (), t)
    \<and> get_entry (station_address n) t \<noteq> None"
  "length d = 3 \<Longrightarrow> \<exists>t e. new_gbc_packet (station_mib 2) 1700000000 (fresh_gbc n sn) d [] = (Inr (), t)
    \<and> get_entry (station_address n) t = Some e \<and> le_pdr e \<le> 100000
    \<and> le_position_vector e = fresh_pv n"
  by (simp_all add: new_tsb_packet_def new_gbc_packet_def update_entry_def ensure_entry_def
      update_with_tsb_packet_def update_with_multi_hop_packet_def update_with_gbc_packet_def
      check_duplicate_sn_def update_pdr_def update_position_vector_def refresh_table_def Let_def
      tst_sub_def get_entry_def dict_get_filter dict_ok_def new_entry_def
      default_LongPositionVector_def py_int_def clock_tst fresh_pv_def)

lemma reception_idempotent_witness:
  "\<exists>p i (r' :: router). gn_data_indicate_tsb p (sample_ch HT_TSB MULTI_HOP) (sample_bh 1) (station 2)
      = (Inr (Some i), r') \<and> ind_data i = [1, 2, 3]
    \<and> gn_data_indicate_tsb p (sample_ch HT_TSB MULTI_HOP) (sample_bh 5) r' = (Inr None, r')"
proof -
  let ?bh = "sample_bh 1" and ?ch = "sample_ch HT_TSB MULTI_HOP" and ?e = "fresh_tsb 1 7"
  let ?i = "make_indication ?ch ?bh \<lparr>header_type = HT_TSB, header_subtype = MULTI_HOP\<rparr> None
    (fresh_pv 1) [1, 2, 3]"
  have v: "valid_tsb ?e" by simp
  obtain bs where bs: "tsb_encode ?e = Inr bs" using tsb.encode_total [OF v] by blast
  obtain t where t: "new_tsb_packet (station_mib 2) 1700000000 ?e [1, 2, 3] [] = (Inr (), t)"
    "get_entry (station_address 1) t \<noteq> None"
    using fresh_entry(1) by blast
  have run: "gn_data_indicate_tsb (bs @ [1, 2, 3]) ?ch ?bh (station 2)
      = (Inr (Some ?i), station 2\<lparr>r_location_table := t\<rparr>)"
    using t(1)
    by (simp add: gn_data_indicate_tsb_def tsb.decode_slice [OF v bs] tsb.drop_header [OF v bs]
        catch_discard_run then_dad_run then_loct_run [where x = "Inr ()" and t = t] Let_def
        del: drop_append)
  have "gn_data_indicate_tsb (bs @ [1, 2, 3]) ?ch (sample_bh 5) (station 2\<lparr>r_location_table := t\<rparr>)
      = (Inr None, station 2\<lparr>r_location_table := t\<rparr>)"
  proof (rule conjunct1 [OF reception_idempotent [OF station_ok], rule_format], intro conjI)
    show "tsb_decode (slice 0 28 (bs @ [1, 2, 3])) = Inr ?e" by (rule tsb.decode_slice [OF v bs])
    show "get_entry (lpv_gn_addr (tsb_so_pv ?e)) (r_location_table (station 2\<lparr>r_location_table := t\<rparr>)) \<noteq> None"
      using t(2) by simp
  qed (rule run)
  then show ?thesis using run by (intro exI conjI) (auto simp: make_indication_def)
qed

section \<open>Contention-based forwarding sees no copy\<close>

lemma cbf_timeout_run:
  assumes "dict_get (r_cbf_buffer r) k = Some n" "r_link_layer r = Some f"
    "f (r_ll_calls r) q = Inr ()"
  shows "r_sent (snd (cbf_timeout k q r)) = r_sent r @ [q]"
    "dict_get (r_cbf_buffer (snd (cbf_timeout k q r))) k = None"
  using assms
  by (simp_all add: cbf_timeout_def send_ignore_def catch_s_def link_send_some dict_simps)

text \<open>
  The copy of a buffered GeoBroadcast packet does not stop its contention timer. The
  duplicate check drops the copy before it reaches the forwarding algorithm, so the buffer
  and the timer stay, and when the timer fires the packet goes on the air all the same.
\<close>

lemma cbf_copy_does_not_suppress:
  assumes "router_ok r" "gbc_decode (slice 0 44 p) = Inr e"
    and "gn_data_indicate_gbc p ch bh r = (Inr res, r1)"
    and "get_entry (lpv_gn_addr (gbc_so_pv e)) (r_location_table r1) \<noteq> None"
    and "dict_get (r_cbf_buffer r1) (lpv_gn_addr (gbc_so_pv e), gbc_sn e) = Some n"
    and "r_link_layer r1 = Some (\<lambda>_ _. Inr ())"
  shows "\<exists>d q. gn_data_indicate_gbc p ch bh' r1 = (Inr None, r1)
    \<and> dict_get (r_timers r1) n = Some (d, CBF_TIMEOUT (lpv_gn_addr (gbc_so_pv e), gbc_sn e) q)
    \<and> r_sent (fire_timer n r1) = r_sent r1 @ [q]"
proof -
  have "dict_ok (r_location_table r)"
    using assms(1) by (simp add: router_ok_def loct_ok_def)
  then have copy: "gn_data_indicate_gbc p ch bh' r1 = (Inr None, r1)"
    using gbc_again [OF assms(2) _ assms(3)] assms(4) by (auto simp: get_entry_def)
  have "router_ok r1" using keepsD [OF keeps_indicate_gbc assms(1,3)] .
  then obtain d q where t: "dict_get (r_timers r1) n
      = Some (d, CBF_TIMEOUT (lpv_gn_addr (gbc_so_pv e), gbc_sn e) q)"
    using assms(5) unfolding router_ok_def cbf_ok_def by blast
  have "r_sent (fire_timer n r1) = r_sent r1 @ [q]"
    using cbf_timeout_run(1) [of "r1\<lparr>r_timers := dict_del n (r_timers r1)\<rparr>"] assms(5,6) t
    by (simp add: fire_timer_def Let_def)
  then show ?thesis using copy t by blast
qed

lemma circle_not_too_large: "\<not> area_too_large GEOBROADCAST_CIRCLE (gbc_area (sample_gbc n sn)) (station m\<lparr>r_location_table := t\<rparr>)"
  using pi_less_4 by (simp add: area_too_large_def compute_area_size_m2_def Let_def area_types)

text \<open>Station 2 buffers the first fresh GeoBroadcast packet for its area.\<close>

lemma fresh_gbc_buffered:
  assumes bs: "gbc_encode (fresh_gbc 1 7) = Inr bs"
  obtains res r1 where "gn_data_indicate_gbc (bs @ [1, 2, 3]) (sample_ch HT_GEOBROADCAST GEOBROADCAST_CIRCLE)
      (sample_bh 10) (station 2) = (Inr res, r1)"
    "dict_get (r_cbf_buffer r1) (station_address 1, 7) = Some 0"
    "get_entry (station_address 1) (r_location_table r1) \<noteq> None" "r_sent r1 = []"
    "r_link_layer r1 = Some (\<lambda>_ _. Inr ())"
proof -
  let ?bh = "sample_bh 10" and ?ch = "sample_ch HT_GEOBROADCAST GEOBROADCAST_CIRCLE"
  let ?e = "fresh_gbc 1 7" and ?d = "[1, 2, 3] :: bytes"
  have v: "valid_gbc ?e" "valid_bh (bh_set_rhl 9 ?bh)" "valid_ch ?ch"
    by (simp_all add: valid_bh_set_rhl GeoBroadcastHST_members_def)
  obtain b where b: "bh_encode (bh_set_rhl 9 ?bh) = Inr b" using bh.encode_total [OF v(2)] by blast
  obtain c where c: "ch_encode ?ch = Inr c" using ch.encode_total [OF v(3)] by blast
  obtain t en where t: "new_gbc_packet (station_mib 2) 1700000000 ?e ?d [] = (Inr (), t)"
    and en: "get_entry (station_address 1) t = Some en" "le_pdr en \<le> 100000" "le_position_vector en = fresh_pv 1"
    using fresh_entry(2) [of ?d 1 7] by auto
  let ?r = "station 2\<lparr>r_location_table := t\<rparr>"
  have ego: "lpv_latitude (r_ego_position_vector (station 2)) = area_latitude (gbc_area (sample_gbc 1 7))"
    "lpv_longitude (r_ego_position_vector (station 2)) = area_longitude (gbc_area (sample_gbc 1 7))"
    by (simp_all add: default_LongPositionVector_def sample_gbc_def)
  have f: "gn_geometric_function_f GEOBROADCAST_CIRCLE (gbc_area (sample_gbc 1 7))
      (lpv_latitude (r_ego_position_vector (station 2)))
      (lpv_longitude (r_ego_position_vector (station 2))) = Inr 1"
    unfolding ego by (rule geometric_function_centre) (simp_all add: has_extent_def is_area_type_def area_types)
  have sel: "gn_forwarding_algorithm_selection ?r (default_GNDataRequest\<lparr>req_area := gbc_area (sample_gbc 1 7),
      req_packet_transport_type := \<lparr>header_type = HT_GEOBROADCAST, header_subtype = GEOBROADCAST_CIRCLE\<rparr>\<rparr>) so
      = Inr AREA_FORWARDING" for so
    using f by (simp add: gn_forwarding_algorithm_selection_def Let_def)
  obtain q where q: "gbc_packet (bh_set_rhl 9 ?bh) ?ch ?e ?d = Inr q"
    using b c bs by (simp add: gbc_packet_def)
  have delay: "cbf_delay_ms ?r (station_address 1) = Inr 100"
    using en(1,3) by (simp add: cbf_delay_ms_def Let_def fresh_pv_def station_pv_def default_LongPositionVector_def)
  have pdr: "\<not> pdr_exceeded (station_address 1) ?r"
    using en(1,2) by (simp add: pdr_exceeded_def)
  have cbf: "gn_area_cbf_forwarding (bh_set_rhl 9 ?bh) ?ch ?e ?d ?r = (Inr True, ?r\<lparr>r_next_timer := 1,
      r_timers := dict_set 0 (r_now ?r + 100 / 1000, CBF_TIMEOUT (station_address 1, 7) q) [],
      r_cbf_buffer := dict_set (station_address 1, 7) 0 []\<rparr>)"
    using cbf_new_run [of ?r ?e 100 "bh_set_rhl 9 ?bh" ?ch ?d q] delay q by (simp add: dict_simps)
  have fwd: "gn_data_forward_gbc ?bh ?ch ?e ?d ?r = (Inr ACCEPTED, ?r\<lparr>r_next_timer := 1,
      r_timers := dict_set 0 (r_now ?r + 100 / 1000, CBF_TIMEOUT (station_address 1, 7) q) [],
      r_cbf_buffer := dict_set (station_address 1, 7) 0 []\<rparr>)"
    using cbf sel by (simp add: gn_data_forward_gbc_def Let_def default_TrafficClass_def then_s_def bind_s_def)
  have then_fwd: "then_s (gn_data_forward_gbc ?bh ?ch ?e ?d) m ?r = m (snd (gn_data_forward_gbc ?bh ?ch ?e ?d ?r))"
    for m :: "(router, GNDataIndication option) prog"
    by (simp add: then_s_def bind_s_def fwd)
  show thesis
    using that t f pdr circle_not_too_large fwd en(1)
    by (simp add: gn_data_indicate_gbc_def gbc.decode_slice [OF v(1) bs] gbc.drop_header [OF v(1) bs]
        catch_discard_run then_dad_run then_loct_run [where x = "Inr ()" and t = t] Let_def
        then_fwd dict_simps del: drop_append)
qed

lemma cbf_copy_does_not_suppress_witness:
  "\<exists>p (r1 :: router) res q.
    gn_data_indicate_gbc p (sample_ch HT_GEOBROADCAST GEOBROADCAST_CIRCLE) (sample_bh 10) (station 2) = (Inr res, r1)
    \<and> gn_data_indicate_gbc p (sample_ch HT_GEOBROADCAST GEOBROADCAST_CIRCLE) (sample_bh 9) r1 = (Inr None, r1)
    \<and> r_sent r1 = [] \<and> r_sent (fire_timer 0 r1) = [q]"
proof -
  let ?e = "fresh_gbc 1 7" and ?d = "[1, 2, 3] :: bytes"
  have v: "valid_gbc ?e" by simp
  obtain bs where bs: "gbc_encode ?e = Inr bs" using gbc.encode_total [OF v] by blast
  obtain res r1 where r1: "gn_data_indicate_gbc (bs @ ?d) (sample_ch HT_GEOBROADCAST GEOBROADCAST_CIRCLE)
      (sample_bh 10) (station 2) = (Inr res, r1)"
    "dict_get (r_cbf_buffer r1) (station_address 1, 7) = Some 0"
    "get_entry (station_address 1) (r_location_table r1) \<noteq> None" "r_sent r1 = []"
    "r_link_layer r1 = Some (\<lambda>_ _. Inr ())"
    using fresh_gbc_buffered [OF bs] by blast
  then obtain q where "gn_data_indicate_gbc (bs @ ?d) (sample_ch HT_GEOBROADCAST GEOBROADCAST_CIRCLE)
      (sample_bh 9) r1 = (Inr None, r1)" "r_sent (fire_timer 0 r1) = [q]"
    using cbf_copy_does_not_suppress [OF station_ok gbc.decode_slice [OF v bs] r1(1), of 0 "sample_bh 9"]
    by auto
  then show ?thesis using r1(1,4) by blast
qed

end
