(* ===== verification/RouterSafety.thy ===== *)
theory RouterSafety
  imports RouterDuplicates
begin

text \<open>
  Safety of the receiver: what is delivered and to whom, how much a received packet can make
  the router send, and what an unverified packet can do when security is on.
\<close>

section \<open>GeoBroadcast delivery\<close>

text \<open>A link layer that raises only the two exceptions it documents.\<close>

definition link_ok :: "router \<Rightarrow> bool" where
  "link_ok r \<longleftrightarrow> (\<forall>f n p e. r_link_layer r = Some f \<longrightarrow> f n p = Inl e
     \<longrightarrow> e = SendingException \<or> e = PacketTooLongException)"

lemma send_confirm_total:
  assumes "link_ok r"
  shows "\<exists>c r'. send_confirm p r = (Inr c, r')"
proof (cases "r_link_layer r")
  case None
  then show ?thesis by (simp add: send_confirm_def catch_s_def then_s_def bind_s_def link_send_def)
next
  case (Some f)
  show ?thesis
  proof (cases "f (r_ll_calls r) p")
    case (Inl e)
    then have "e = SendingException \<or> e = PacketTooLongException"
      using assms Some unfolding link_ok_def by blast
    then show ?thesis
      using Some Inl by (auto simp: send_confirm_def catch_s_def then_s_def bind_s_def link_send_some)
  next
    case (Inr u)
    then show ?thesis
      using Some by (simp add: send_confirm_def catch_s_def then_s_def bind_s_def link_send_some)
  qed
qed

lemma gbc_packet_total:
  assumes "valid_bh bh" "valid_ch ch" "valid_gbc e"
  shows "\<exists>q. gbc_packet bh ch e d = Inr q"
  using bh.encode_total [OF assms(1)] ch.encode_total [OF assms(2)] gbc.encode_total [OF assms(3)]
  by (auto simp: gbc_packet_def)

lemma cbf_delay_total: "\<exists>d. cbf_delay_ms r a = Inr d"
  by (simp add: cbf_delay_ms_def Let_def cbf_timeout_eq split: option.splits)

lemma cbf_total:
  assumes "valid_bh bh" "valid_ch ch" "valid_gbc e"
  shows "\<exists>b r'. gn_area_cbf_forwarding bh ch e d r = (Inr b, r')"
proof (cases "dict_get (r_cbf_buffer r) (lpv_gn_addr (gbc_so_pv e), gbc_sn e)")
  case None
  then show ?thesis
    using cbf_new_run [OF None] gbc_packet_total [OF assms] cbf_delay_total by blast
next
  case (Some n)
  then show ?thesis using cbf_duplicate_run by blast
qed

lemma selection_total:
  assumes "has_extent (header_subtype (req_packet_transport_type request)) (req_area request)"
    "is_area_type (header_subtype (req_packet_transport_type request))"
  shows "\<exists>alg. gn_forwarding_algorithm_selection r request so = Inr alg"
proof -
  have "\<exists>f. gn_geometric_function_f (header_subtype (req_packet_transport_type request))
      (req_area request) lat lon = Inr f" for lat lon
    using geometric_function_inside [OF assms] by blast
  then obtain F where "\<And>lat lon. gn_geometric_function_f
      (header_subtype (req_packet_transport_type request)) (req_area request) lat lon = Inr (F lat lon)"
    by metis
  then show ?thesis
    by (simp add: gn_forwarding_algorithm_selection_def Let_def split: option.splits)
qed

lemma forward_gbc_runs:
  assumes "valid_bh bh" "valid_ch ch" "valid_gbc e" "link_ok r"
    and alg: "gn_forwarding_algorithm_selection r (default_GNDataRequest
      \<lparr>req_area := gbc_area e, req_packet_transport_type :=
         \<lparr>header_type = ch_ht ch, header_subtype = ch_hst ch\<rparr>\<rparr>) (Some (lpv_gn_addr (gbc_so_pv e))) = Inr alg"
  shows "\<exists>c r'. gn_data_forward_gbc bh ch e d r = (Inr c, r')"
proof -
  let ?bh = "bh_set_rhl (bh_rhl bh - 1) bh"
  have bh: "valid_bh ?bh" using assms(1) by (rule valid_bh_set_rhl)
  obtain q where q: "gbc_packet ?bh ch e d = Inr q" using gbc_packet_total [OF bh assms(2,3)] by blast
  obtain c r' where send: "send_confirm q r = (Inr c, r')" using send_confirm_total [OF assms(4)] by blast
  obtain b r2 where cbf: "gn_area_cbf_forwarding ?bh ch e d r = (Inr b, r2)"
    using cbf_total [OF bh assms(2,3)] by blast
  show ?thesis
    using q send alg
    by (cases alg) (auto simp: gn_data_forward_gbc_def Let_def
        run_bind(3) [of "gn_area_cbf_forwarding ?bh ch e d" r b r2, OF cbf])
qed

lemma forward_gbc_total:
  assumes "valid_bh bh" "valid_ch ch" "valid_gbc e" "has_extent (ch_hst ch) (gbc_area e)"
    "is_area_type (ch_hst ch)" "link_ok r"
  shows "\<exists>c r'. gn_data_forward_gbc bh ch e d r = (Inr c, r')"
  using selection_total [of "default_GNDataRequest\<lparr>req_area := gbc_area e, req_packet_transport_type :=
         \<lparr>header_type = ch_ht ch, header_subtype = ch_hst ch\<rparr>\<rparr>"] assms(4,5)
    forward_gbc_runs [OF assms(1-3,6)] by fastforce

text \<open>A source number that was not seen is accepted, given room for one number at all.\<close>

lemma unseen_accepted:
  assumes "\<not> seen_sn a sn t" "0 < itsGnDPLLength mib"
  shows "\<exists>e. check_duplicate_sn mib sn (current_entry mib a t) = Inr e"
proof -
  have "sn \<notin> le_dpl_set (current_entry mib a t)"
    using assms(1) by (auto simp: seen_sn_def current_entry_def split: option.splits)
  then show ?thesis using assms(2) by (auto simp: check_duplicate_sn_def split: list.splits)
qed

lemma new_gbc_accepts:
  assumes "\<not> seen_sn (lpv_gn_addr (gbc_so_pv e)) (gbc_sn e) t" "0 < itsGnDPLLength mib"
  shows "\<exists>t'. new_gbc_packet mib now e d t = (Inr (), t')"
  using unseen_accepted [OF assms]
  by (auto simp: new_gbc_packet_def update_entry_def ensure_entry_eq update_with_gbc_packet_def)

lemma new_gac_accepts:
  assumes "\<not> seen_sn (lpv_gn_addr (gbc_so_pv e)) (gbc_sn e) t" "0 < itsGnDPLLength mib"
  shows "\<exists>t'. new_gac_packet mib now e d t = (Inr (), t')"
  using unseen_accepted [OF assms]
  by (auto simp: new_gac_packet_def update_entry_def ensure_entry_eq update_with_multi_hop_packet_def Let_def)

lemma gbc_handled:
  assumes "gbc_decode (slice 0 44 p) = Inr e"
    and f: "gn_geometric_function_f (ch_hst ch) (gbc_area e)
      (lpv_latitude (r_ego_position_vector r)) (lpv_longitude (r_ego_position_vector r)) = Inr f"
    and forward: "\<And>t. \<exists>c r'. gn_data_forward_gbc bh ch e (drop 44 p) (r\<lparr>r_location_table := t\<rparr>) = (Inr c, r')"
    and "0 < itsGnDPLLength (r_mib r)"
    and "\<not> gn_address_eq (itsGnLocalGnAddr (r_mib r)) (lpv_gn_addr (gbc_so_pv e))"
    and "\<not> seen_sn (lpv_gn_addr (gbc_so_pv e)) (gbc_sn e) (r_location_table r)"
  shows "\<exists>r'. gn_data_indicate_gbc p ch bh r = (Inr
    (if 0 \<le> f then Some (make_indication ch bh
       \<lparr>header_type = HT_GEOBROADCAST, header_subtype = ch_hst ch\<rparr> (Some (gbc_area e))
       (gbc_so_pv e) (drop 44 p)) else None), r')"
proof -
  obtain t where t: "new_gbc_packet (r_mib r) (r_now r) e (drop 44 p) (r_location_table r) = (Inr (), t)"
    using new_gbc_accepts [OF assms(6,4)] by blast
  obtain c r' where fwd: "gn_data_forward_gbc bh ch e (drop 44 p) (r\<lparr>r_location_table := t\<rparr>) = (Inr c, r')"
    using forward by blast
  then have then_fwd: "then_s (gn_data_forward_gbc bh ch e (drop 44 p)) m (r\<lparr>r_location_table := t\<rparr>) = m r'"
    for m :: "(router, GNDataIndication option) prog"
    by (simp add: then_s_def bind_s_def)
  show ?thesis
    using t f then_fwd assms(5)
    by (simp add: gn_data_indicate_gbc_def assms(1) catch_discard_run then_dad_run
        then_loct_run [where x = "Inr ()" and t = t] Let_def)
qed

lemma gbc_lengths:
  "gbc_decode bs = Inr e \<Longrightarrow> 0 \<le> gbc_a e \<and> 0 \<le> gbc_b e"
  using gbc_decode_valid [of bs e] by (simp add: valid_gbc_def)

text \<open>
  C3: A GeoBroadcast packet from another station that was not seen before is delivered exactly
  when this station is inside its area: the circle, or the ellipse or rectangle with its first
  length pointing north, since the code does not look at the angle of an area. Payload, source,
  area and the rest of the hop limit are those of the packet, and no exception occurs. If a
  length that the shape uses is 0 (the second one of a circle is not), the packet raises
  \<open>ZeroDivisionError\<close> before anything is done, and nothing at all changes.
\<close>

theorem gbc_delivery:
  assumes "gbc_decode (slice 0 44 p) = Inr e" "is_area_type (ch_hst ch)"
    and "valid_bh bh" "valid_ch ch" "link_ok r" "0 < itsGnDPLLength (r_mib r)"
    and "\<not> gn_address_eq (itsGnLocalGnAddr (r_mib r)) (lpv_gn_addr (gbc_so_pv e))"
    and "\<not> seen_sn (lpv_gn_addr (gbc_so_pv e)) (gbc_sn e) (r_location_table r)"
  shows "if has_extent (ch_hst ch) (gbc_area e)
    then \<exists>r'. gn_data_indicate_gbc p ch bh r = (Inr
      (if ego_inside r (ch_hst ch) (gbc_area e) then Some (make_indication ch bh
         \<lparr>header_type = HT_GEOBROADCAST, header_subtype = ch_hst ch\<rparr> (Some (gbc_area e))
         (gbc_so_pv e) (drop 44 p)) else None), r')
    else gn_data_indicate_gbc p ch bh r = (Inl ZeroDivisionError, r)"
proof (cases "has_extent (ch_hst ch) (gbc_area e)")
  case True
  obtain f where f: "gn_geometric_function_f (ch_hst ch) (gbc_area e)
      (lpv_latitude (r_ego_position_vector r)) (lpv_longitude (r_ego_position_vector r)) = Inr f"
    and inside: "0 \<le> f \<longleftrightarrow> ego_inside r (ch_hst ch) (gbc_area e)"
    by (rule ego_function [OF True assms(2)])
  have "link_ok (r\<lparr>r_location_table := t\<rparr>)" for t using assms(5) by (simp add: link_ok_def)
  then have "\<exists>c r'. gn_data_forward_gbc bh ch e (drop 44 p) (r\<lparr>r_location_table := t\<rparr>) = (Inr c, r')" for t
    using forward_gbc_total [OF assms(3,4) gbc_decode_valid [OF assms(1)] True assms(2)] by blast
  then show ?thesis using gbc_handled [OF assms(1) f _ assms(6-8)] True unfolding inside by simp
next
  case False
  then show ?thesis
    using geometric_function_zero [of "gbc_area e" "ch_hst ch"] gbc_lengths [OF assms(1)] assms(2)
    by (simp add: gn_data_indicate_gbc_def assms(1) Let_def)
qed

lemma link_ok_station [simp]: "link_ok (station n)"
  by (simp add: link_ok_def)

lemma ego_inside_sample: "ego_inside (station m) GEOBROADCAST_CIRCLE (gbc_area (sample_gbc n sn))"
proof -
  have "lpv_latitude (r_ego_position_vector (station m)) = area_latitude (gbc_area (sample_gbc n sn))"
    "lpv_longitude (r_ego_position_vector (station m)) = area_longitude (gbc_area (sample_gbc n sn))"
    by (simp_all add: default_LongPositionVector_def sample_gbc_def)
  then show ?thesis using inside_centre [of "north_up (gbc_area (sample_gbc n sn))"] by (simp add: ego_inside_def)
qed

lemma gbc_delivery_witness:
  "\<exists>p (r' :: router) i. gn_data_indicate_gbc p (sample_ch HT_GEOBROADCAST GEOBROADCAST_CIRCLE)
      (sample_bh 10) (station 2) = (Inr (Some i), r')
    \<and> ind_data i = [1, 2, 3] \<and> ind_source_position_vector i = station_pv 1"
proof -
  let ?ch = "sample_ch HT_GEOBROADCAST GEOBROADCAST_CIRCLE" and ?e = "sample_gbc 1 7"
  have v: "valid_gbc ?e" "valid_ch ?ch" by (simp_all add: GeoBroadcastHST_members_def)
  obtain bs where bs: "gbc_encode ?e = Inr bs" using gbc.encode_total [OF v(1)] by blast
  have len: "length bs = 44" by (rule gbc.encode_length [OF v(1) bs])
  have "\<exists>r'. gn_data_indicate_gbc (bs @ [1, 2, 3]) ?ch (sample_bh 10) (station 2)
      = (Inr (Some (make_indication ?ch (sample_bh 10)
          \<lparr>header_type = HT_GEOBROADCAST, header_subtype = GEOBROADCAST_CIRCLE\<rparr> (Some (gbc_area ?e))
          (station_pv 1) [1, 2, 3])), r')"
    using gbc_delivery [OF gbc.decode_slice [OF v(1) bs], of ?ch "sample_bh 10" "station 2" "[1, 2, 3]"]
      v(2) len
    by (simp add: ego_inside_sample has_extent_def is_area_type_def area_types seen_sn_def)
  then show ?thesis by (fastforce simp: make_indication_def)
qed

section \<open>Security\<close>

text \<open>
  C4: With security on, a packet that the verify service does not vouch for has no effect: if the
  one call for this packet does not report success, or raises, or there is no service, then
  nothing is delivered, sent, learnt or scheduled. Only the number of calls of the service may
  change. The same holds for a packet that has no security envelope at all.
\<close>

theorem unverified_has_no_effect:
  assumes "itsGnSecurity (r_mib r) = ENABLED"
    and "\<And>v c. r_verify_service r = Some v \<Longrightarrow> v (r_sec_calls r) (drop 4 p) = Inr c \<Longrightarrow> vc_report c \<noteq> SUCCESS"
  shows "\<exists>res n. gn_data_indicate p r = (res, r\<lparr>r_sec_calls := n\<rparr>)"
proof -
  have keep: "\<exists>n. r = r\<lparr>r_sec_calls := n\<rparr>" by (rule exI [of _ "r_sec_calls r"]) simp
  have sec: "\<exists>res n. process_security_header (drop 4 p) bh r = (res, r\<lparr>r_sec_calls := n\<rparr>)" for bh
  proof (cases "r_verify_service r")
    case None
    then show ?thesis using keep by (auto simp: process_security_header_def)
  next
    case (Some v)
    show ?thesis
    proof (cases "v (r_sec_calls r) (drop 4 p)")
      case (Inl e)
      then show ?thesis using Some by (auto simp: process_security_header_def)
    next
      case (Inr c)
      then have "vc_report c \<noteq> SUCCESS" using assms(2) Some by blast
      then show ?thesis using Some Inr by (auto simp: process_security_header_def)
    qed
  qed
  show ?thesis
    using sec keep assms(1)
    by (cases "bh_decode (slice 0 4 p)")
      (auto simp: gn_data_indicate_def process_basic_header_def Let_def)
qed

text \<open>A station with security on whose verify service finds no certificate.\<close>

definition distrusting_station :: router where
  "distrusting_station = (station 2)\<lparr>r_mib := (station_mib 2)\<lparr>itsGnSecurity := ENABLED\<rparr>,
     r_verify_service := Some (\<lambda>_ _. Inr \<lparr>vc_report = SIGNER_CERTIFICATE_NOT_FOUND,
       vc_certificate_id = [], vc_its_aid_length = 0, vc_its_aid = [], vc_permissions = [],
       vc_plain_message = []\<rparr>)\<rparr>"

lemma unverified_has_no_effect_witness:
  "\<exists>res n. gn_data_indicate [0x12, 0, 0x50, 10, 1, 2, 3] distrusting_station
    = (res, distrusting_station\<lparr>r_sec_calls := n\<rparr>)"
  by (rule unverified_has_no_effect) (auto simp: distrusting_station_def)

section \<open>No amplification\<close>

text \<open>A method that sends at most \<open>n\<close> packets.\<close>

definition at_most :: "nat \<Rightarrow> (router, 'a) prog \<Rightarrow> bool" where
  "at_most n m \<longleftrightarrow> (\<forall>s. length (r_sent (snd (m s))) \<le> length (r_sent s) + n)"

lemma at_mostD: "at_most n m \<Longrightarrow> m s = (x, s') \<Longrightarrow> length (r_sent s') \<le> length (r_sent s) + n"
  unfolding at_most_def by (metis snd_conv)

lemma at_most_mono: "at_most n m \<Longrightarrow> n \<le> k \<Longrightarrow> at_most k m"
  unfolding at_most_def by (meson add_le_cancel_left le_trans)

lemma at_most_pure:
  "at_most n (return_s x)" "at_most n (raise_s e)" "at_most n (gets_s f)" "at_most n (lift_s v)"
  by (simp_all add: at_most_def)

lemma at_most_modify: "(\<And>r. r_sent (g r) = r_sent r) \<Longrightarrow> at_most n (modify_s g)"
  by (simp add: at_most_def)

lemma at_most_bind_sum:
  assumes "at_most k m" "\<And>x. at_most l (f x)"
  shows "at_most (k + l) (bind_s m f)"
  unfolding at_most_def
proof
  fix s
  obtain x s1 where m: "m s = (x, s1)" by fastforce
  have s1: "length (r_sent s1) \<le> length (r_sent s) + k" by (rule at_mostD [OF assms(1) m])
  show "length (r_sent (snd (bind_s m f s))) \<le> length (r_sent s) + (k + l)"
  proof (cases x)
    case (Inl e)
    then show ?thesis using m s1 by (simp add: bind_s_def)
  next
    case (Inr y)
    have "length (r_sent (snd (f y s1))) \<le> length (r_sent s1) + l"
      using at_mostD [OF assms(2) surjective_pairing] .
    then show ?thesis using m s1 Inr by (simp add: bind_s_def)
  qed
qed

lemma at_most_bind: "at_most 0 m \<Longrightarrow> (\<And>x. at_most n (f x)) \<Longrightarrow> at_most n (bind_s m f)"
  using at_most_bind_sum [of 0 m n f] by simp

lemma at_most_then: "at_most 0 m \<Longrightarrow> at_most n m' \<Longrightarrow> at_most n (then_s m m')"
  unfolding then_s_def by (rule at_most_bind)

lemma at_mostI: "(\<And>s x s'. m s = (x, s') \<Longrightarrow> length (r_sent s') \<le> length (r_sent s) + n) \<Longrightarrow> at_most n m"
  unfolding at_most_def by (metis surjective_pairing)

lemma at_most_send: "at_most 1 (send_ignore p)" "at_most 1 (send_confirm p)"
  by (rule at_mostI, elim send_ignore_cases send_confirm_cases, auto)+

text \<open>A packet and then nothing more.\<close>

lemma at_most_send_then:
  "at_most 0 m \<Longrightarrow> at_most 1 (then_s (send_ignore p) m)"
  "(\<And>c. at_most 0 (f c)) \<Longrightarrow> at_most 1 (bind_s (send_confirm p) f)"
  unfolding then_s_def
  using at_most_bind_sum [OF at_most_send(1), of 0 "\<lambda>_. m"] at_most_bind_sum [OF at_most_send(2), of 0 f]
  by simp_all

lemma at_most_if: "(b \<Longrightarrow> at_most n m) \<Longrightarrow> (\<not> b \<Longrightarrow> at_most n m') \<Longrightarrow> at_most n (if b then m else m')"
  by simp

lemma at_most_case_option:
  "(v = None \<Longrightarrow> at_most n m) \<Longrightarrow> (\<And>x. v = Some x \<Longrightarrow> at_most n (f x))
    \<Longrightarrow> at_most n (case v of None \<Rightarrow> m | Some x \<Rightarrow> f x)"
  by (cases v) auto

lemma at_most_lift_bind: "(\<And>x. r = Inr x \<Longrightarrow> at_most n (f x)) \<Longrightarrow> at_most n (bind_s (lift_s r) f)"
  by (cases r) (auto simp: at_most_pure)

lemma at_most_gets_bind: "(\<And>x. at_most n (f x)) \<Longrightarrow> at_most n (bind_s (gets_s g) f)"
  by (intro at_most_bind at_most_pure)

lemma at_most_catch_discard: "at_most n m \<Longrightarrow> at_most n (catch_discard v m)"
  unfolding at_most_def catch_discard_run by (auto split: prod.splits sum.splits) (metis snd_conv)+

lemma at_most_dad: "at_most 0 (duplicate_address_detection a)"
  by (rule at_mostI) (auto simp: dad_run split: if_splits)

lemma at_most_on_location_table: "at_most n (on_location_table meth)"
  by (rule at_mostI) (auto simp: loct_run)

lemma at_most_sn: "at_most 0 get_sequence_number"
  unfolding get_sequence_number_def by (intro at_most_then at_most_modify at_most_pure) simp

lemma at_most_timers:
  "at_most 0 (start_timer d act)" "at_most 0 (cancel_timer n)" "at_most 0 (start_ls_timer a)"
  unfolding start_timer_def cancel_timer_def start_ls_timer_def
  by (intro at_most_gets_bind at_most_then at_most_modify at_most_pure; simp)+

lemma at_most_cbf: "at_most 0 (gn_area_cbf_forwarding bh ch h packet)"
  unfolding gn_area_cbf_forwarding_def Let_def
  by (intro at_most_gets_bind at_most_case_option at_most_then at_most_modify at_most_pure
      at_most_lift_bind at_most_bind [OF at_most_timers(1)] at_most_timers(2); simp)

lemma at_most_alg:
  "at_most n m1 \<Longrightarrow> at_most n m2 \<Longrightarrow> at_most n m3 \<Longrightarrow>
    at_most n (case alg of AREA_FORWARDING \<Rightarrow> m1 | NON_AREA_FORWARDING \<Rightarrow> m2 | DISCARTED \<Rightarrow> m3)"
  by (cases alg) auto

lemmas at_most_rules =
  at_most_lift_bind at_most_gets_bind at_most_if at_most_pure at_most_send at_most_catch_discard
  at_most_case_option at_most_send_then at_most_then [OF at_most_dad]
  at_most_then [OF at_most_on_location_table] at_most_bind [OF at_most_sn]
  at_most_on_location_table

lemma at_most_forward_gbc: "at_most 1 (gn_data_forward_gbc bh ch h packet)"
proof -
  have "at_most 1 (then_s (gn_area_cbf_forwarding bh' ch h packet) (return_s c))" for bh' c
    by (intro at_most_then at_most_cbf at_most_pure)
  then show ?thesis
    unfolding gn_data_forward_gbc_def Let_def by (intro at_most_rules at_most_alg)
qed

lemma at_most_handlers:
  "at_most 1 (gn_data_indicate_shb p ch bh)" "at_most 1 (gn_data_indicate_beacon p)"
  "at_most 1 (gn_data_indicate_guc p ch bh)" "at_most 1 (gn_data_indicate_gac p ch bh)"
  "at_most 1 (gn_data_indicate_tsb p ch bh)" "at_most 1 (gn_data_indicate_ls_request p ch bh)"
  unfolding gn_data_indicate_shb_def gn_data_indicate_beacon_def gn_data_indicate_guc_def
    gn_data_indicate_gac_def gn_data_indicate_tsb_def gn_data_indicate_ls_request_def Let_def
  by (intro at_most_rules)+

lemma at_most_gbc: "at_most 1 (gn_data_indicate_gbc p ch bh)"
proof -
  have "at_most (1 + 0) (bind_s (gn_data_forward_gbc bh ch h d) (\<lambda>_. return_s i))" for h d i
    by (intro at_most_bind_sum at_most_forward_gbc at_most_pure)
  then have "at_most 1 (then_s (gn_data_forward_gbc bh ch h d) (return_s i))" for h d i
    by (simp add: then_s_def)
  then show ?thesis unfolding gn_data_indicate_gbc_def Let_def by (intro at_most_rules)
qed

lemma at_most_send_ls_request: "at_most 1 (send_ls_request_packet a)"
  unfolding send_ls_request_packet_def Let_def by (intro at_most_rules)

lemma at_most_ls_request: "at_most 1 (gn_ls_request a request)"
proof -
  let ?rest = "bind_s (start_ls_timer a) (\<lambda>timer.
          bind_s (gets_s r_ls_timers) (\<lambda>timers.
          then_s (case dict_get timers a of
                    None \<Rightarrow> return_s ()
                  | Some old \<Rightarrow> cancel_timer old)
            (modify_s (\<lambda>r. r\<lparr>r_ls_timers :=
               dict_set a timer (dict_del a (r_ls_timers r))\<rparr>))))"
  have "at_most 0 ?rest"
    by (intro at_most_bind [OF at_most_timers(3)] at_most_gets_bind at_most_then at_most_case_option
        at_most_pure at_most_timers at_most_modify) simp
  then have "at_most (1 + 0) (then_s (send_ls_request_packet a) ?rest)"
    unfolding then_s_def [of "send_ls_request_packet a"]
    by (intro at_most_bind_sum at_most_send_ls_request)
  then show ?thesis
    unfolding gn_ls_request_def
    by (intro at_most_gets_bind at_most_if at_most_case_option at_most_pure at_most_modify
        at_most_then [OF at_most_modify]) simp_all
qed

lemma at_most_request_guc: "at_most 1 (gn_data_request_guc request)"
proof -
  have "at_most (1 + 0) (then_s (gn_ls_request a request') (return_s c))" for a request' c
    unfolding then_s_def by (intro at_most_bind_sum at_most_ls_request at_most_pure)
  then show ?thesis
    unfolding gn_data_request_guc_def Let_def by (intro at_most_rules) simp
qed

lemma at_most_for_each: "(\<And>x. at_most 1 (f x)) \<Longrightarrow> at_most (length xs) (for_each_s xs f)"
proof (induction xs)
  case (Cons x xs)
  then have "at_most (1 + length xs) (then_s (f x) (for_each_s xs f))"
    unfolding then_s_def by (intro at_most_bind_sum) auto
  then show ?case by simp
qed (simp add: at_most_pure)

definition buffered_requests :: "GNAddress \<Rightarrow> router \<Rightarrow> GNDataRequest list" where
  "buffered_requests a r = (case dict_get (r_ls_packet_buffers r) a of None \<Rightarrow> [] | Some b \<Rightarrow> b)"

text \<open>A reply to this station may send what waited for it; any other reply is forwarded once at most.\<close>

definition reply_limit :: "router \<Rightarrow> LSReplyExtendedHeader \<Rightarrow> nat" where
  "reply_limit r e =
     (if gn_address_eq (spv_gn_addr (lsrep_de_pv e)) (itsGnLocalGnAddr (r_mib r))
      then length (buffered_requests (lpv_gn_addr (lsrep_so_pv e)) r) else 1)"

lemma ls_reply_sends:
  assumes e: "lsrep_decode (slice 0 48 p) = Inr e"
    and run: "gn_data_indicate_ls_reply p ch bh r = (res, r')"
  shows "length (r_sent r') \<le> length (r_sent r) + reply_limit r e"
proof -
  let ?a = "lpv_gn_addr (lsrep_so_pv e)" and ?local = "itsGnLocalGnAddr (r_mib r)"
  define N where "N = reply_limit r e"
  have flush: "at_most N (then_s (modify_s g) (then_s (case timer of None \<Rightarrow> return_s () | Some n \<Rightarrow> cancel_timer n)
      (for_each_s (buffered_requests ?a r) gn_data_request_guc)))"
    if "\<And>r. r_sent (g r) = r_sent r" "gn_address_eq (spv_gn_addr (lsrep_de_pv e)) ?local" for g timer
    using that at_most_for_each [of gn_data_request_guc "buffered_requests ?a r"] at_most_request_guc
    by (intro at_most_then at_most_modify at_most_case_option at_most_pure at_most_timers)
      (simp_all add: N_def reply_limit_def)
  have send: "at_most N (send_ignore v)" if "\<not> gn_address_eq (spv_gn_addr (lsrep_de_pv e)) ?local" for v
    using that at_most_send(1) by (simp add: N_def reply_limit_def)
  obtain F where F: "gn_data_indicate_ls_reply p ch bh r = catch_discard () (then_s (duplicate_address_detection ?a)
      (then_s (on_location_table (\<lambda>mib now. new_ls_reply_packet mib now e (drop 48 p)))
      (bind_s (gets_s (\<lambda>r. r)) F))) r"
    and bound: "\<And>r1. r_ls_packet_buffers r1 = r_ls_packet_buffers r \<Longrightarrow> r_mib r1 = r_mib r \<Longrightarrow> at_most N (F r1)"
    apply (rule that)
     apply (unfold gn_data_indicate_ls_reply_def e run_lift_bind Let_def)
     apply (rule refl)
    apply (simp only:)
    apply (intro at_most_if at_most_pure at_most_lift_bind flush [unfolded buffered_requests_def] send)
       apply simp_all
    done
  obtain x t where t: "new_ls_reply_packet (r_mib r) (r_now r) e (drop 48 p) (r_location_table r) = (x, t)"
    by fastforce
  have F_sends: "length (r_sent (snd (F (r\<lparr>r_location_table := t\<rparr>) (r\<lparr>r_location_table := t\<rparr>))))
      \<le> length (r_sent r) + N"
    using at_mostD [OF bound surjective_pairing, of "r\<lparr>r_location_table := t\<rparr>" "r\<lparr>r_location_table := t\<rparr>"]
    by simp
  show ?thesis
    using run F_sends t unfolding F N_def [symmetric]
    by (cases x) (auto simp: catch_discard_run then_dad_run then_loct_run [where x = x and t = t]
      split: if_splits prod.splits sum.splits)
qed

text \<open>The location service reply that a packet is, if it is one and the router gets to see it.\<close>

definition plain_part :: "router \<Rightarrow> bytes \<Rightarrow> bytes option" where
  "plain_part r p =
     (case bh_decode (slice 0 4 p) of
        Inl _ \<Rightarrow> None
      | Inr bh \<Rightarrow>
          if bh_nh bh = COMMON_HEADER then Some (drop 4 p)
          else if bh_nh bh = SECURED_PACKET then
            (case r_verify_service r of
               None \<Rightarrow> None
             | Some v \<Rightarrow>
                 (case v (r_sec_calls r) (drop 4 p) of
                    Inl _ \<Rightarrow> None
                  | Inr c \<Rightarrow> if vc_report c = SUCCESS then Some (vc_plain_message c) else None))
          else None)"

definition reply_in :: "bytes \<Rightarrow> LSReplyExtendedHeader option" where
  "reply_in q =
     (case ch_decode (slice 0 8 q) of
        Inl _ \<Rightarrow> None
      | Inr ch \<Rightarrow>
          if ch_ht ch = HT_LS \<and> ch_hst ch = LS_REPLY
          then (case lsrep_decode (slice 0 48 (drop 8 q)) of Inl _ \<Rightarrow> None | Inr e \<Rightarrow> Some e)
          else None)"

definition limit_of :: "router \<Rightarrow> bytes \<Rightarrow> nat" where
  "limit_of r q = (case reply_in q of None \<Rightarrow> 1 | Some e \<Rightarrow> reply_limit r e)"

lemma limit_of_calls [simp]: "limit_of (r\<lparr>r_sec_calls := n\<rparr>) q = limit_of r q"
proof -
  have "reply_limit (r\<lparr>r_sec_calls := n\<rparr>) e = reply_limit r e" for e
    by (simp add: reply_limit_def buffered_requests_def)
  then show ?thesis by (simp add: limit_of_def split: option.split)
qed

lemma deliver_sends_nothing: "at_most 1 m \<Longrightarrow> at_most 1 (bind_s m deliver)"
proof -
  have "at_most 0 (deliver i)" for i
    by (rule at_mostI) (auto simp: deliver_def split: option.splits if_splits)
  then show "at_most 1 m \<Longrightarrow> at_most 1 (bind_s m deliver)"
    using at_most_bind_sum [of 1 m 0 deliver] by simp
qed

lemma common_header_sends:
  "length (r_sent (snd (process_common_header q bh r))) \<le> length (r_sent r) + limit_of r q"
proof (cases "ch_decode (slice 0 8 q)")
  case (Inl e)
  then show ?thesis by (simp add: process_common_header_def)
next
  case (Inr ch)
  have pass: "length (r_sent (snd (m r))) \<le> length (r_sent r) + 1" if "at_most 1 m" for m :: "(router, unit) prog"
    using that by (simp add: at_most_def)
  show ?thesis
  proof (cases "ch_ht ch = HT_LS \<and> ch_hst ch = LS_REPLY")
    case True
    show ?thesis
    proof (cases "lsrep_decode (slice 0 48 (drop 8 q))")
      case (Inl e)
      then show ?thesis
        using True Inr by (simp add: process_common_header_def gn_data_indicate_ls_def gn_data_indicate_ls_reply_def Let_def)
    next
      case e: (Inr e)
      then have "limit_of r q = reply_limit r e" using True Inr by (simp add: limit_of_def reply_in_def)
      then show ?thesis
        using ls_reply_sends [OF e surjective_pairing, of ch bh r] True Inr
        by (simp add: process_common_header_def gn_data_indicate_ls_def Let_def)
    qed
  next
    case False
    have ls: "at_most 1 (gn_data_indicate_ls d ch bh)" if "ch_ht ch = HT_LS" for d
      using that False at_most_handlers(6) by (auto simp: gn_data_indicate_ls_def at_most_pure)
    have "limit_of r q = 1" using False Inr by (auto simp: limit_of_def reply_in_def)
    moreover have "at_most 1 (process_common_header q bh)"
      unfolding process_common_header_def Inr run_lift_bind Let_def
      using ls at_most_handlers at_most_gbc
      by (cases "ch_ht ch") (auto intro!: at_most_if at_most_pure deliver_sends_nothing [unfolded One_nat_def])
    ultimately show ?thesis using pass by simp
  qed
qed

text \<open>
  C5: No amplification. A packet that is not a location service reply, or that the router does not
  get to read, makes it put at most one packet on the air; so does a reply meant for another
  station. A reply meant for this station, secured or not, makes it send at most one packet for
  every request that was waiting for the station that replies, and none if none was waiting.
\<close>

theorem no_amplification:
  "length (r_sent (snd (gn_data_indicate p r))) \<le> length (r_sent r) +
    (case plain_part r p of
       None \<Rightarrow> 0
     | Some q \<Rightarrow>
         (case reply_in q of
            None \<Rightarrow> 1
          | Some e \<Rightarrow>
              if gn_address_eq (spv_gn_addr (lsrep_de_pv e)) (itsGnLocalGnAddr (r_mib r))
              then length (buffered_requests (lpv_gn_addr (lsrep_so_pv e)) r) else 1))"
proof -
  have secured: "length (r_sent (snd (process_security_header (drop 4 p) bh r)))
      \<le> length (r_sent r) + (case plain_part r p of None \<Rightarrow> 0 | Some q \<Rightarrow> limit_of r q)"
    if "bh_decode (slice 0 4 p) = Inr bh" "bh_nh bh = SECURED_PACKET" for bh
    using that common_header_sends [of _ _ "r\<lparr>r_sec_calls := Suc (r_sec_calls r)\<rparr>"]
    by (auto simp: process_security_header_def plain_part_def then_s_def bind_s_def split: option.split sum.split)
  have "length (r_sent (snd (gn_data_indicate p r)))
      \<le> length (r_sent r) + (case plain_part r p of None \<Rightarrow> 0 | Some q \<Rightarrow> limit_of r q)"
  proof (cases "bh_decode (slice 0 4 p)")
    case (Inl e)
    then show ?thesis by (simp add: gn_data_indicate_def process_basic_header_def)
  next
    case (Inr bh)
    then show ?thesis
      using secured common_header_sends [of "drop 4 p" bh r]
      by (auto simp: gn_data_indicate_def process_basic_header_def plain_part_def Let_def)
  qed
  then show ?thesis by (simp add: limit_of_def reply_limit_def cong: if_cong option.case_cong)
qed

end
