(* ===== verification/RouterLocation.thy ===== *)
theory RouterLocation
  imports RouterSafety
begin

text \<open>
  The location service as a protocol: a GeoUnicast request to an unknown destination is kept
  while requests go out under a timer, and the service ends, by a reply that sends what was
  kept or after the permitted number of retransmissions.
\<close>

section \<open>Waiting for a reply\<close>

text \<open>
  Station \<open>a\<close> is sought and \<open>c\<close> requests went out again so far. The conditions on the
  position, the address and the hop limit make every request packet encodable.
\<close>

definition ls_waiting :: "GNAddress \<Rightarrow> int \<Rightarrow> router \<Rightarrow> bool" where
  "ls_waiting a c r \<longleftrightarrow>
     router_ok r \<and> link_ok r \<and> valid_lpv (r_ego_position_vector r) \<and> valid_address a
     \<and> 0 \<le> itsGnDefaultHopLimit (r_mib r) \<and> itsGnDefaultHopLimit (r_mib r) < 256
     \<and> dict_get (r_ls_retransmit_counters r) a = Some c
     \<and> (\<exists>n d. dict_get (r_ls_timers r) a = Some n
          \<and> dict_get (r_timers r) n = Some (d, LS_RETRANSMIT a))"

text \<open>The retransmit timer of \<open>a\<close> fires.\<close>

definition fire_ls :: "GNAddress \<Rightarrow> router \<Rightarrow> router" where
  "fire_ls a r = (case dict_get (r_ls_timers r) a of None \<Rightarrow> r | Some n \<Rightarrow> fire_timer n r)"

text \<open>
  No search for \<open>a\<close> is running: no counter, no buffered request, no timer and no pending mark. It says
  nothing of the entry of \<open>a\<close> in the location table, which a search creates.
\<close>

definition ls_idle :: "GNAddress \<Rightarrow> router \<Rightarrow> bool" where
  "ls_idle a r \<longleftrightarrow>
     dict_get (r_ls_retransmit_counters r) a = None \<and> dict_get (r_ls_packet_buffers r) a = None
     \<and> dict_get (r_ls_timers r) a = None
     \<and> (\<forall>n d. dict_get (r_timers r) n \<noteq> Some (d, LS_RETRANSMIT a))
     \<and> (\<forall>e. get_entry a (r_location_table r) = Some e \<longrightarrow> \<not> le_ls_pending e)"

lemma valid_ch_ls:
  assumes "0 \<le> itsGnDefaultHopLimit mib" "itsGnDefaultHopLimit mib < 256" "hst = LS_REQUEST \<or> hst = LS_REPLY"
  shows "encodable_ch (ls_common_header mib hst)"
  using assms
  by (cases "itsGnIsMobile mib") (auto simp: ls_common_header_def encodable_ch_def LocationServiceHST_members_def
      default_TrafficClass_def valid_tc_def)

lemma send_ignore_total:
  assumes "link_ok r"
  shows "\<exists>r'. send_ignore p r = (Inr (), r')"
proof (cases "r_link_layer r")
  case None
  then show ?thesis by (simp add: send_ignore_def catch_s_def link_send_def)
next
  case (Some f)
  show ?thesis
  proof (cases "f (r_ll_calls r) p")
    case (Inl e)
    then have "e = SendingException \<or> e = PacketTooLongException"
      using assms Some unfolding link_ok_def by blast
    then show ?thesis using Some Inl by (auto simp: send_ignore_def catch_s_def link_send_some)
  next
    case (Inr u)
    then show ?thesis using Some by (simp add: send_ignore_def catch_s_def link_send_some)
  qed
qed

text \<open>Under these conditions the request packet goes to the link layer and nothing is raised.\<close>

lemma send_ls_request_total:
  assumes "link_ok r" "valid_lpv (r_ego_position_vector r)" "valid_address a"
    "0 \<le> itsGnDefaultHopLimit (r_mib r)" "itsGnDefaultHopLimit (r_mib r) < 256"
  shows "\<exists>r'. send_ls_request_packet a r = (Inr (), r')"
proof -
  let ?sn = "(r_sequence_number r + 1) mod (2 ^ 16 - 1)"
  let ?r = "r\<lparr>r_sequence_number := ?sn\<rparr>"
  let ?bh = "bh_initialize_with_mib_request_and_rhl (r_mib r) None (itsGnDefaultHopLimit (r_mib r))"
  let ?e = "lsreq_initialize ?sn (r_ego_position_vector r) a"
  obtain b where b: "bh_encode ?bh = Inr b"
    using bh.encode_total [of ?bh] valid_bh_initialize(2) [OF assms(4,5)] by fastforce
  obtain c where c: "ch_encode (ls_common_header (r_mib r) LS_REQUEST) = Inr c"
    using ch_encode_valid [OF valid_ch_ls [OF assms(4,5)]] by simp
  have "valid_lsreq ?e"
    using assms(2,3) by (simp add: valid_lsreq_def lsreq_initialize_def)
  then obtain x where x: "lsreq_encode ?e = Inr x" using lsreq.encode_total by blast
  have "link_ok ?r" using assms(1) by (simp add: link_ok_def)
  then obtain r' where "send_ignore (b @ c @ x) ?r = (Inr (), r')" using send_ignore_total by blast
  then show ?thesis
    using b c x by (simp add: send_ls_request_packet_def bind_s_def get_sequence_number_run Let_def)
qed

section \<open>One expiry of the timer\<close>

lemma fire_ls_eq:
  assumes "dict_get (r_ls_timers r) a = Some n" "dict_get (r_timers r) n = Some (d, LS_RETRANSMIT a)"
  shows "fire_ls a r = snd (ls_retransmit a (r\<lparr>r_timers := dict_del n (r_timers r)\<rparr>))"
  using assms by (simp add: fire_ls_def fire_timer_def Let_def)

lemma fire_ls_last:
  assumes "ls_waiting a c r" "itsGnLocationServiceMaxRetrans (r_mib r) \<le> c"
  shows "ls_idle a (fire_ls a r) \<and> r_sent (fire_ls a r) = r_sent r
    \<and> r_location_table (fire_ls a r) = set_ls_pending False a (r_location_table r)"
proof -
  obtain n d where n: "dict_get (r_ls_timers r) a = Some n"
    "dict_get (r_timers r) n = Some (d, LS_RETRANSMIT a)"
    and ok: "router_ok r" and c: "dict_get (r_ls_retransmit_counters r) a = Some c"
    using assms(1) unfolding ls_waiting_def by blast
  note idle = fired_ls_timer(2) [OF ok n(2)]
  show ?thesis
    using assms(2) c idle unfolding fire_ls_eq [OF n]
    by (auto simp: ls_retransmit_def Let_def ls_idle_def dict_simps get_entry_def set_ls_pending_def
        split: option.splits)
qed

lemma fire_ls_again:
  assumes w: "ls_waiting a c r" and more: "c < itsGnLocationServiceMaxRetrans (r_mib r)"
  shows "ls_waiting a (c + 1) (fire_ls a r)
    \<and> length (r_sent (fire_ls a r)) \<le> length (r_sent r) + 1
    \<and> r_ls_packet_buffers (fire_ls a r) = r_ls_packet_buffers r
    \<and> r_location_table (fire_ls a r) = r_location_table r \<and> r_mib (fire_ls a r) = r_mib r"
proof -
  obtain n d where n: "dict_get (r_ls_timers r) a = Some n"
    "dict_get (r_timers r) n = Some (d, LS_RETRANSMIT a)"
    and ok: "router_ok r" and c: "dict_get (r_ls_retransmit_counters r) a = Some c"
    using w unfolding ls_waiting_def by blast
  note sendable = w [unfolded ls_waiting_def]
  let ?k = "r\<lparr>r_timers := dict_del n (r_timers r),
    r_ls_retransmit_counters := dict_set a (c + 1) (r_ls_retransmit_counters r)\<rparr>"
  have "link_ok ?k" using sendable by (simp add: link_ok_def)
  then obtain r2 where r2: "send_ls_request_packet a ?k = (Inr (), r2)"
    using send_ls_request_total [of ?k a] sendable by auto
  obtain ps m where r2_eq: "r2 = ?k\<lparr>r_sequence_number := (r_sequence_number r + 1) mod (2 ^ 16 - 1),
      r_ll_calls := m, r_sent := r_sent r @ ps\<rparr>"
    using send_ls_request_packet_cases [OF r2] by auto
  have sent: "length (r_sent r2) \<le> length (r_sent r) + 1"
    using at_mostD [OF at_most_send_ls_request r2] by simp
  let ?t = "r_now r + of_int (itsGnLocationServiceRetransmitTimer (r_mib r)) / 1000"
  have eq: "fire_ls a r = r2\<lparr>r_next_timer := Suc (r_next_timer r2),
      r_timers := dict_set (r_next_timer r2) (?t, LS_RETRANSMIT a) (r_timers r2),
      r_ls_timers := dict_set a (r_next_timer r2) (r_ls_timers r2)\<rparr>"
    unfolding fire_ls_eq [OF n]
    using more c by (simp add: ls_retransmit_def Let_def run_bind(3) [where m = "send_ls_request_packet a" and s = ?k, OF r2] bind_s_def start_ls_timer_run)
      (simp add: r2_eq)
  have "router_ok (fire_ls a r)" using fire_timer_ok [OF ok] n by (simp add: fire_ls_def)
  then have "ls_waiting a (c + 1) (fire_ls a r)"
    using sendable unfolding ls_waiting_def eq
    by (simp add: r2_eq dict_simps link_ok_def)
  then show ?thesis using sent by (simp add: eq) (simp add: r2_eq)
qed

text \<open>The whole search, from any point of it.\<close>

lemma ls_ends:
  assumes "ls_waiting a c r" "0 \<le> c" "c \<le> itsGnLocationServiceMaxRetrans (r_mib r)"
    and "k = nat (itsGnLocationServiceMaxRetrans (r_mib r) - c)"
  shows "ls_idle a ((fire_ls a ^^ Suc k) r)
    \<and> length (r_sent ((fire_ls a ^^ Suc k) r)) \<le> length (r_sent r) + k
    \<and> r_location_table ((fire_ls a ^^ Suc k) r) = set_ls_pending False a (r_location_table r)"
  using assms
proof (induction k arbitrary: c r)
  case 0
  then show ?case using fire_ls_last [of a c r] by simp
next
  case (Suc k)
  then have more: "c < itsGnLocationServiceMaxRetrans (r_mib r)" by simp
  note again = fire_ls_again [OF Suc.prems(1) more]
  have "ls_idle a ((fire_ls a ^^ Suc k) (fire_ls a r))
    \<and> length (r_sent ((fire_ls a ^^ Suc k) (fire_ls a r))) \<le> length (r_sent (fire_ls a r)) + k
    \<and> r_location_table ((fire_ls a ^^ Suc k) (fire_ls a r)) = set_ls_pending False a (r_location_table (fire_ls a r))"
    by (rule Suc.IH [of "c + 1"]) (use again Suc.prems more in auto)
  then show ?case using again by (simp add: funpow_swap1)
qed

section \<open>Starting the search\<close>

lemma renew_ls_timer_run:
  "\<exists>r'. renew_ls_timer a r = (Inr (), r')
    \<and> dict_get (r_ls_timers r') a = Some (r_next_timer r)
    \<and> (dict_get (r_ls_timers r) a \<noteq> Some (r_next_timer r) \<longrightarrow>
        dict_get (r_timers r') (r_next_timer r) = Some (r_now r
          + of_int (itsGnLocationServiceRetransmitTimer (r_mib r)) / 1000, LS_RETRANSMIT a))
    \<and> r_ls_retransmit_counters r' = r_ls_retransmit_counters r
    \<and> r_ls_packet_buffers r' = r_ls_packet_buffers r \<and> r_sent r' = r_sent r
    \<and> r_location_table r' = r_location_table r
    \<and> same_config r r'"
  by (cases "dict_get (r_ls_timers r) a")
    (auto simp: renew_ls_timer_def start_ls_timer_run bind_s_def then_s_def cancel_timer_def
      dict_simps same_config_def)

lemma update_again: "dict_set k v (dict_set k w d) = dict_set k v d"
  by (induction d) auto

text \<open>The entry that a search creates, once it is no longer marked as pending.\<close>

lemma unmark_placeholder:
  "set_ls_pending False a (dict_set a (new_entry mib\<lparr>le_ls_pending := True\<rparr>) t) = dict_set a (new_entry mib) t"
  by (simp add: set_ls_pending_def dict_simps update_again new_entry_def)

lemma ls_request_starts:
  assumes "router_ok r" "link_ok r" "valid_lpv (r_ego_position_vector r)" "valid_address a"
    "0 \<le> itsGnDefaultHopLimit (r_mib r)" "itsGnDefaultHopLimit (r_mib r) < 256"
    "get_entry a (r_location_table r) = None"
  shows "\<exists>r'. gn_ls_request a (Some req) r = (Inr (), r') \<and> ls_waiting a 0 r'
    \<and> buffered_requests a r' = [req] \<and> length (r_sent r') \<le> length (r_sent r) + 1
    \<and> r_mib r' = r_mib r \<and> (\<forall>sn. \<not> seen_sn a sn (r_location_table r'))
    \<and> r_location_table r' = dict_set a (new_entry (r_mib r)\<lparr>le_ls_pending := True\<rparr>) (r_location_table r)"
proof -
  let ?r = "r\<lparr>
    r_location_table := set_ls_pending True a (snd (ensure_entry (r_mib r) a (r_location_table r))),
    r_ls_packet_buffers := dict_set a [req] (r_ls_packet_buffers r),
    r_ls_retransmit_counters := dict_set a 0 (r_ls_retransmit_counters r)\<rparr>"
  have ok: "router_ok ?r" using ls_begin_ok [OF assms(1)] .
  have "link_ok ?r" using assms(2) by (simp add: link_ok_def)
  then obtain r2 where r2: "send_ls_request_packet a ?r = (Inr (), r2)"
    using send_ls_request_total [of ?r a] assms(3-6) by auto
  have ok2: "router_ok r2" using keepsD [OF keeps_send_ls_request ok r2] .
  have sent: "length (r_sent r2) \<le> length (r_sent r) + 1"
    using at_mostD [OF at_most_send_ls_request r2] by simp
  obtain ps m where r2_eq: "r2 = ?r\<lparr>r_sequence_number := (r_sequence_number r + 1) mod (2 ^ 16 - 1),
      r_ll_calls := m, r_sent := r_sent r @ ps\<rparr>"
    using send_ls_request_packet_cases [OF r2] by auto
  obtain r3 where r3: "renew_ls_timer a r2 = (Inr (), r3)"
    and t: "dict_get (r_ls_timers r3) a = Some (r_next_timer r2)"
      "dict_get (r_ls_timers r2) a \<noteq> Some (r_next_timer r2) \<longrightarrow>
        dict_get (r_timers r3) (r_next_timer r2) = Some (r_now r2
          + of_int (itsGnLocationServiceRetransmitTimer (r_mib r2)) / 1000, LS_RETRANSMIT a)"
    and same: "r_ls_retransmit_counters r3 = r_ls_retransmit_counters r2"
      "r_ls_packet_buffers r3 = r_ls_packet_buffers r2" "r_sent r3 = r_sent r2" "same_config r2 r3"
      "r_location_table r3 = r_location_table r2"
    using renew_ls_timer_run [of a r2] by blast
  have counter: "dict_get (r_ls_retransmit_counters r2) a = Some 0"
    by (simp add: r2_eq dict_simps)
  have "dict_get (r_ls_timers r2) a \<noteq> Some (r_next_timer r2)"
    using ls_timers_okD(1) [of r2 a] ok2 unfolding router_ok_def by fastforce
  then have running: "\<exists>n d. dict_get (r_ls_timers r3) a = Some n
      \<and> dict_get (r_timers r3) n = Some (d, LS_RETRANSMIT a)"
    using t by blast
  have "router_ok r3" using renew_ls_timer_ok [OF ok2 _ r3] counter by simp
  moreover have "link_ok r3" "r_mib r3 = r_mib r"
    "r_ego_position_vector r3 = r_ego_position_vector r"
    using same(4) assms(2) by (simp_all add: same_config_def link_ok_def r2_eq)
  ultimately have "ls_waiting a 0 r3"
    using running counter same(1) assms(3-6) by (simp add: ls_waiting_def)
  moreover have "gn_ls_request a (Some req) r = (Inr (), r3)"
    using assms(7) r3 by (simp add: gn_ls_request_def renew_ls_timer_def [symmetric]
        run_bind(3) [where m = "send_ls_request_packet a" and s = ?r, OF r2])
  moreover have "buffered_requests a r3 = [req]"
    using same(2) by (simp add: buffered_requests_def r2_eq dict_simps)
  moreover have "\<not> seen_sn a sn (r_location_table r3)" for sn
    using same(5) assms(7) by (simp add: r2_eq seen_sn_def set_ls_pending_def ensure_entry_eq
        dict_simps current_entry_def get_entry_def)
  moreover have "r_location_table r3 = dict_set a (new_entry (r_mib r)\<lparr>le_ls_pending := True\<rparr>) (r_location_table r)"
    using same(5) assms(7) by (simp add: r2_eq set_ls_pending_def ensure_entry_eq
        dict_simps current_entry_def get_entry_def update_again)
  ultimately show ?thesis using sent same(3) \<open>r_mib r3 = r_mib r\<close> by auto
qed

text \<open>
  C7: A GeoUnicast request to an unknown destination is accepted and kept, and the search it
  starts ends: when nobody answers and no other packet comes in, the permitted number of
  expiries of the retransmit timer and one more leave no counter, no buffered request, no timer
  and no pending mark, and no more than that number of request packets went out. What does stay
  is the entry that the search put into the location table: a new one, with the initial position
  vector (the address 0 at latitude and longitude 0) and no neighbour; the rest of the table is
  as before. So a later request for the same destination, as long as the entry is there, finds
  an entry and starts no search.
\<close>

theorem unanswered_search_ends:
  assumes "router_ok r" "link_ok r" "valid_lpv (r_ego_position_vector r)" "valid_address a"
    and "0 \<le> itsGnDefaultHopLimit (r_mib r)" "itsGnDefaultHopLimit (r_mib r) < 256"
    and "req_destination request = Some a" "get_entry a (r_location_table r) = None"
    and "N = itsGnLocationServiceMaxRetrans (r_mib r)" "0 \<le> N"
  shows "\<exists>r1. gn_data_request_guc request r = (Inr ACCEPTED, r1)
    \<and> buffered_requests a r1 = [request]
    \<and> ls_idle a ((fire_ls a ^^ Suc (nat N)) r1)
    \<and> r_location_table ((fire_ls a ^^ Suc (nat N)) r1) = dict_set a (new_entry (r_mib r)) (r_location_table r)
    \<and> length (r_sent ((fire_ls a ^^ Suc (nat N)) r1)) \<le> length (r_sent r) + nat N + 1"
proof -
  obtain r1 where r1: "gn_ls_request a (Some request) r = (Inr (), r1)" "ls_waiting a 0 r1"
    "buffered_requests a r1 = [request]" "length (r_sent r1) \<le> length (r_sent r) + 1"
    "r_mib r1 = r_mib r"
    "r_location_table r1 = dict_set a (new_entry (r_mib r)\<lparr>le_ls_pending := True\<rparr>) (r_location_table r)"
    using ls_request_starts [OF assms(1-6,8)] by blast
  have "gn_data_request_guc request r = (Inr ACCEPTED, r1)"
    using assms(7,8) by (simp add: gn_data_request_guc_def Let_def
        run_bind(3) [where m = "gn_ls_request a (Some request)" and s = r, OF r1(1)])
  moreover have "ls_idle a ((fire_ls a ^^ Suc (nat N)) r1)
    \<and> length (r_sent ((fire_ls a ^^ Suc (nat N)) r1)) \<le> length (r_sent r1) + nat N
    \<and> r_location_table ((fire_ls a ^^ Suc (nat N)) r1) = dict_set a (new_entry (r_mib r)) (r_location_table r)"
    using ls_ends [OF r1(2), of "nat N"] assms(9,10) r1(5,6) by (simp add: unmark_placeholder)
  ultimately show ?thesis using r1(3,4) by (intro exI [of _ r1]) auto
qed

definition seeking_request :: "byte \<Rightarrow> GNDataRequest" where
  "seeking_request n = hello_request\<lparr>req_destination := Some (station_address n),
     req_packet_transport_type := \<lparr>header_type = HT_GEOUNICAST, header_subtype = HST_UNSPECIFIED\<rparr>\<rparr>"

lemma unanswered_search_ends_witness:
  "\<exists>r1. gn_data_request_guc (seeking_request 9) (station 1) = (Inr ACCEPTED, r1)
    \<and> buffered_requests (station_address 9) r1 = [seeking_request 9]
    \<and> ls_idle (station_address 9) ((fire_ls (station_address 9) ^^ 11) r1)
    \<and> r_location_table ((fire_ls (station_address 9) ^^ 11) r1) = [(station_address 9, new_entry (station_mib 1))]
    \<and> length (r_sent ((fire_ls (station_address 9) ^^ 11) r1)) \<le> 11"
proof -
  have len: "length (r_sent (station 1)) + nat 10 + 1 = 11" and k: "Suc (nat 10) = 11" by simp_all
  have link: "link_ok (station 1)" and pv: "valid_lpv (r_ego_position_vector (station 1))"
    and addr: "valid_address (station_address 9)"
    and hop: "0 \<le> itsGnDefaultHopLimit (r_mib (station 1))" "itsGnDefaultHopLimit (r_mib (station 1)) < 256"
    and dest: "req_destination (seeking_request 9) = Some (station_address 9)"
    and unknown: "get_entry (station_address 9) (r_location_table (station 1)) = None"
    and N: "10 = itsGnLocationServiceMaxRetrans (r_mib (station 1))" "(0 :: int) \<le> 10"
    by (simp_all add: seeking_request_def get_entry_def)
  show ?thesis
    using unanswered_search_ends [OF station_ok link pv addr hop dest unknown N]
    unfolding len k by simp
qed

section \<open>The reply\<close>

lemma new_ls_reply_accepts:
  assumes "\<not> seen_sn (lpv_gn_addr (lsrep_so_pv e)) (lsrep_sn e) t" "0 < itsGnDPLLength mib"
  shows "\<exists>t'. new_ls_reply_packet mib now e d t = (Inr (), t')"
proof -
  let ?e = "current_entry mib (lpv_gn_addr (lsrep_so_pv e)) t"
  have "lsrep_sn e \<notin> le_dpl_set ?e"
    using assms(1) by (auto simp: seen_sn_def current_entry_def split: option.splits)
  then have "\<exists>e1. check_duplicate_sn mib (lsrep_sn e) ?e = Inr e1"
    using assms(2) by (auto simp: check_duplicate_sn_def split: list.splits)
  then show ?thesis
    by (auto simp: new_ls_reply_packet_def update_entry_def ensure_entry_eq
        update_with_multi_hop_packet_def Let_def)
qed

text \<open>The bookkeeping of a reply: everything that waited for \<open>a\<close> is taken out.\<close>

definition ls_answered :: "GNAddress \<Rightarrow> router \<Rightarrow> router" where
  "ls_answered a r =
     r\<lparr>r_ls_timers := dict_del a (r_ls_timers r),
       r_ls_retransmit_counters := dict_del a (r_ls_retransmit_counters r),
       r_ls_packet_buffers := dict_del a (r_ls_packet_buffers r),
       r_location_table := set_ls_pending False a (r_location_table r),
       r_timers := (case dict_get (r_ls_timers r) a of None \<Rightarrow> r_timers r
                    | Some n \<Rightarrow> dict_del n (r_timers r))\<rparr>"

lemma ls_answered_idle:
  assumes "router_ok r"
  shows "ls_idle a (ls_answered a r)"
proof -
  have "dict_get (r_timers (ls_answered a r)) n \<noteq> Some (d, LS_RETRANSMIT a)" for n d
    using ls_timers_okD(3) [of r n d a] assms
    by (auto simp: router_ok_def ls_answered_def dict_simps split: option.splits if_splits)
  then show ?thesis
    by (auto simp: ls_idle_def ls_answered_def dict_simps get_entry_def set_ls_pending_def
        split: option.splits if_splits)
qed

text \<open>
  C8: The reply to a search ends it and sends what was kept: after the update of the location
  table the counter, the buffer, the timer and the pending mark are gone, and every buffered
  request is issued again, once and in the order in which it came.
\<close>

theorem reply_sends_buffered:
  assumes "router_ok r" "lsrep_decode (slice 0 48 p) = Inr e" "0 < itsGnDPLLength (r_mib r)"
    and "gn_address_eq (spv_gn_addr (lsrep_de_pv e)) (itsGnLocalGnAddr (r_mib r))"
    and "\<not> gn_address_eq (itsGnLocalGnAddr (r_mib r)) (lpv_gn_addr (lsrep_so_pv e))"
    and "\<not> seen_sn (lpv_gn_addr (lsrep_so_pv e)) (lsrep_sn e) (r_location_table r)"
  shows "\<exists>t r1. new_ls_reply_packet (r_mib r) (r_now r) e (drop 48 p) (r_location_table r) = (Inr (), t)
    \<and> r1 = ls_answered (lpv_gn_addr (lsrep_so_pv e)) (r\<lparr>r_location_table := t\<rparr>)
    \<and> ls_idle (lpv_gn_addr (lsrep_so_pv e)) r1
    \<and> gn_data_indicate_ls_reply p ch bh r = catch_discard ()
        (for_each_s (buffered_requests (lpv_gn_addr (lsrep_so_pv e)) r) gn_data_request_guc) r1"
proof -
  let ?a = "lpv_gn_addr (lsrep_so_pv e)"
  obtain t where t: "new_ls_reply_packet (r_mib r) (r_now r) e (drop 48 p) (r_location_table r) = (Inr (), t)"
    using new_ls_reply_accepts [OF assms(6,3)] by blast
  have "router_ok (r\<lparr>r_location_table := t\<rparr>)"
    using keepsD [OF keeps_decoded(7) [OF assms(2)] assms(1) loct_run_Inr] t by blast
  moreover have "gn_data_indicate_ls_reply p ch bh r = catch_discard ()
        (for_each_s (buffered_requests ?a r) gn_data_request_guc)
        (ls_answered ?a (r\<lparr>r_location_table := t\<rparr>))"
    using t assms(4,5)
    by (cases "dict_get (r_ls_timers r) ?a")
      (simp_all add: gn_data_indicate_ls_reply_def assms(2) Let_def catch_discard_run then_dad_run
        then_loct_run [where x = "Inr ()" and t = t] buffered_requests_def ls_answered_def
        cancel_timer_def then_s_def [of "return_s ()"])
  ultimately show ?thesis using t ls_answered_idle by blast
qed

definition sample_lsrep :: "byte \<Rightarrow> byte \<Rightarrow> int \<Rightarrow> LSReplyExtendedHeader" where
  "sample_lsrep n m sn = \<lparr>lsrep_sn = sn, lsrep_reserved = 0, lsrep_so_pv = station_pv n,
     lsrep_de_pv = spv_of_lpv (station_pv m)\<rparr>"

lemma reply_sends_buffered_witness:
  "\<exists>r p r1. router_ok r \<and> buffered_requests (station_address 9) r = [seeking_request 9]
    \<and> ls_idle (station_address 9) r1
    \<and> gn_data_indicate_ls_reply p (sample_ch HT_LS LS_REPLY) (sample_bh 10) r
      = catch_discard () (for_each_s [seeking_request 9] gn_data_request_guc) r1"
proof -
  let ?e = "sample_lsrep 9 1 7" and ?a = "station_address 9"
  have v: "valid_lsrep ?e" by (simp add: sample_lsrep_def valid_lsrep_def)
  obtain bs where bs: "lsrep_encode ?e = Inr bs" using lsrep.encode_total [OF v] by blast
  have dec: "lsrep_decode (slice 0 48 (bs @ [])) = Inr ?e" by (rule lsrep.decode_slice [OF v bs])
  have so: "lpv_gn_addr (lsrep_so_pv ?e) = ?a" by (simp add: sample_lsrep_def)
  obtain r where r: "ls_waiting ?a 0 r" "buffered_requests ?a r = [seeking_request 9]"
    "r_mib r = station_mib 1" "\<not> seen_sn ?a 7 (r_location_table r)"
    using ls_request_starts [of "station 1" ?a "seeking_request 9", OF station_ok]
    by (auto simp: get_entry_def)
  have ok: "router_ok r" using r(1) by (simp add: ls_waiting_def)
  have "0 < itsGnDPLLength (r_mib r)"
    "gn_address_eq (spv_gn_addr (lsrep_de_pv ?e)) (itsGnLocalGnAddr (r_mib r))"
    "\<not> gn_address_eq (itsGnLocalGnAddr (r_mib r)) (lpv_gn_addr (lsrep_so_pv ?e))"
    "\<not> seen_sn (lpv_gn_addr (lsrep_so_pv ?e)) (lsrep_sn ?e) (r_location_table r)"
    using r(3,4) by (simp_all add: sample_lsrep_def spv_of_lpv_def)
  note reply_sends_buffered [OF ok dec this, of "sample_ch HT_LS LS_REPLY" "sample_bh 10"]
  then show ?thesis using ok r(2) unfolding so by metis
qed

end
