(* ===== verification/RouterFaults.thy ===== *)
theory RouterFaults
  imports RouterLocation
begin

text \<open>
  Where the router does not do what its comments or the standard they cite ask for, as
  theorems about the model: positions with a negative coordinate, GeoAnycast packets with what
  they lead to, also when their hop limit is used up, secured packets that are forwarded, and requests
  made while a location service is running or after it ended in vain.
\<close>

section \<open>Negative coordinates\<close>

lemma encode_parts_fails:
  "encode_parts (Inr b # ps) = Inl e \<longleftrightarrow> encode_parts ps = Inl e"
  by (cases "encode_parts ps") auto

lemma lpv_negative_fails:
  assumes "bh_encode bh = Inr b" "ch_encode ch = Inr c"
    "lpv_latitude v < 0 \<or> lpv_longitude v < 0"
  shows "encode_parts (bh_encode bh # ch_encode ch # lpv_encode v # ps) = Inl OverflowError"
  using assms lpv_encode_negative [OF assms(3)] by simp

text \<open>
  C9: South of the equator or west of Greenwich a router is silent. With a negative latitude
  or longitude every request for a single-hop broadcast raises \<open>OverflowError\<close> and sends nothing,
  and the beacon thread ends for good at its first beacon.
\<close>

theorem negative_position_is_silent:
  assumes "lpv_latitude (r_ego_position_vector r) < 0 \<or> lpv_longitude (r_ego_position_vector r) < 0"
    and "itsGnSecurity (r_mib r) = DISABLED" "valid_request request"
    and "req_packet_transport_type request = \<lparr>header_type = HT_TSB, header_subtype = SINGLE_HOP\<rparr>"
  shows "gn_data_request request r = (Inl OverflowError, r)
    \<and> beacon_thread_send jitter r = r\<lparr>r_beacon_thread := BT_NONE\<rparr>"
proof -
  let ?bh = "bh_initialize_with_mib_request_and_rhl (r_mib r) (req_max_packet_lifetime request) 1"
  let ?ch = "ch_initialize_with_request request (r_mib r)"
  obtain b where b: "bh_encode ?bh = Inr b"
    using bh.encode_total [of ?bh] valid_bh_initialize(2) [of 1] by fastforce
  have "valid_ch ?ch" using assms(3) by (intro valid_ch_with_request) (simp_all add: valid_request_def)
  then obtain c where c: "ch_encode ?ch = Inr c" using ch.encode_total by blast
  have "shb_packet request r = (Inl OverflowError, r)"
    using lpv_negative_fails [OF b c assms(1)] by (simp add: shb_packet_run [OF assms(2)] del: encode_parts.simps)
  then have request: "gn_data_request request r = (Inl OverflowError, r)"
    using assms(4) by (simp add: gn_data_request_def gn_data_request_shb_def bind_s_def)
  let ?bh = "bh_initialize_with_mib_and_rhl (r_mib r) 1" and ?ch = "ch_initialize_beacon (r_mib r)"
  obtain b where b: "bh_encode ?bh = Inr b"
    using bh.encode_total [of ?bh] valid_bh_initialize(1) [of 1] by fastforce
  obtain c where c: "ch_encode ?ch = Inr c" using ch_encode_valid [OF encodable_ch_beacon] by blast
  have "gn_data_request_beacon r = (Inl OverflowError, r)"
    using lpv_negative_fails [OF b c assms(1), of "[]"]
    by (simp add: gn_data_request_beacon_def del: encode_parts.simps)
  then show ?thesis using request by (simp add: beacon_thread_send_def)
qed

text \<open>A position report from Buenos Aires.\<close>

definition buenos_aires :: TPV where
  "buenos_aires = \<lparr>tpv_lat = Some (- 346 / 10), tpv_lon = Some (- 584 / 10), tpv_speed = Some 0,
     tpv_track = Some 0, tpv_time = Some ''2024-01-01T00:00:00Z''\<rparr>"

lemma negative_position_is_silent_witness:
  "\<exists>r. refresh_ego_position_vector (\<lambda>_. Inr 1704067200) buenos_aires (station 1) = (Inr (), r)
    \<and> gn_data_request hello_request r = (Inl OverflowError, r)
    \<and> beacon_thread_send 0 r = r\<lparr>r_beacon_thread := BT_NONE\<rparr>"
proof -
  obtain v where v: "lpv_refresh_with_tpv_data (\<lambda>_. Inr 1704067200) buenos_aires
      (r_ego_position_vector (station 1)) = Inr v" "lpv_latitude v < 0"
    by (simp add: lpv_refresh_with_tpv_data_def buenos_aires_def get_key_def py_int_def
        lpv_set_tst_in_normal_timestamp_seconds_def)
  let ?r = "station 1\<lparr>r_ego_position_vector := v\<rparr>"
  have "refresh_ego_position_vector (\<lambda>_. Inr 1704067200) buenos_aires (station 1) = (Inr (), ?r)"
    using v(1) by (simp add: refresh_ego_position_vector_def)
  moreover have "gn_data_request hello_request ?r = (Inl OverflowError, ?r)
      \<and> beacon_thread_send 0 ?r = ?r\<lparr>r_beacon_thread := BT_NONE\<rparr>"
    by (rule negative_position_is_silent) (use v(2) in simp_all)
  ultimately show ?thesis by blast
qed

section \<open>Forwarding GeoAnycast and GeoBroadcast packets\<close>

text \<open>A packet that goes on as it came, with the remaining hop limit counted down modulo 256.\<close>

definition next_hop :: "bytes \<Rightarrow> CommonHeader \<Rightarrow> BasicHeader \<Rightarrow> bytes \<Rightarrow> bool" where
  "next_hop packet ch bh q \<longleftrightarrow>
     bh_decode q = Inr (bh\<lparr>bh_rhl := (bh_rhl bh - 1) mod 256\<rparr>) \<and> ch_decode (drop 4 q) = Inr ch
     \<and> gbc_decode (drop 12 q) = gbc_decode packet \<and> drop 56 q = drop 44 packet"

lemma gbc_next_hop:
  assumes "gbc_decode (slice 0 44 packet) = Inr e" "valid_bh bh" "valid_ch ch"
    and "gbc_packet (bh_set_rhl (bh_rhl bh - 1) bh) ch e (drop 44 packet) = Inr q"
  shows "next_hop packet ch bh q"
proof -
  have "forwards (bh_set_rhl (bh_rhl bh - 1) bh) ch (gbc_encode e) (drop 44 packet) q"
    using assms(4) by (simp only: forwards_def gbc_packet_def)
  then obtain bs where h: "bh_decode q = Inr (bh_set_rhl (bh_rhl bh - 1) bh)"
    "ch_decode (drop 4 q) = Inr ch" and bs: "gbc_encode e = Inr bs"
    and q12: "drop 12 q = bs @ drop 44 packet"
    using forwards_decode [OF _ valid_bh_set_rhl [OF assms(2)] assms(3)] by blast
  have ve: "valid_gbc e" by (rule gbc_decode_valid [OF assms(1)])
  have "44 \<le> length packet" using gbc.decode_Inr_length [OF assms(1)] by (simp add: slice_0)
  then have "gbc_decode packet = Inr e" using assms(1) gbc.decode_prefix [of packet] by (simp add: slice_0)
  moreover have "drop 56 q = drop 44 (drop 12 q)" by simp
  ultimately show ?thesis
    using h q12 gbc.decode_packet [OF ve bs] gbc.drop_header [OF ve bs]
    by (simp add: next_hop_def bh_set_rhl_def del: drop_append)
qed

text \<open>What is sent at once, and what a contention timer will send.\<close>

definition emits :: "(bytes \<Rightarrow> bool) \<Rightarrow> router \<Rightarrow> router \<Rightarrow> bool" where
  "emits P r r' \<longleftrightarrow> sends P r r'
     \<and> (\<forall>n d k q. dict_get (r_timers r') n = Some (d, CBF_TIMEOUT k q)
          \<longrightarrow> dict_get (r_timers r) n = Some (d, CBF_TIMEOUT k q) \<or> P q)"

interpretation emits: step_rel "emits P" for P
proof unfold_locales
  show "emits P r r" for r by (simp add: emits_def sends.R_refl)
  show "emits P r u" if "emits P r t" "emits P t u" for r t u
    using that sends.R_trans unfolding emits_def by blast
qed

lemma emitsI:
  "obeys (sends P) m \<Longrightarrow> (\<And>r res r'. m r = (res, r') \<Longrightarrow> r_timers r' = r_timers r) \<Longrightarrow> obeys (emits P) m"
  by (rule obeysI) (auto simp: emits_def dest: obeysD)

lemma emits_send: "P q \<Longrightarrow> obeys (emits P) (send_ignore q)" "P q \<Longrightarrow> obeys (emits P) (send_confirm q)"
  by (rule emitsI, erule sends_send_ignore sends_send_confirm,
      elim send_ignore_cases send_confirm_cases, simp)+

lemma emits_dad: "obeys (emits P) (duplicate_address_detection a)"
  by (rule emitsI [OF sends_dad]) (auto simp: dad_run split: if_splits)

lemma emits_loct: "obeys (emits P) (on_location_table meth)"
  by (rule emitsI [OF sends_on_location_table]) (auto simp: loct_run)

lemma emits_gets_bind: "(\<And>x. obeys (emits P) (f x)) \<Longrightarrow> obeys (emits P) (bind_s (gets_s g) f)"
  by (intro emits.obeys_bind emits.obeys_pure)

lemma emits_catch_discard: "obeys (emits P) m \<Longrightarrow> obeys (emits P) (catch_discard v m)"
  unfolding catch_discard_def by (intro emits.obeys_catch emits.obeys_if emits.obeys_pure)

lemma emits_alg:
  "obeys (emits P) m1 \<Longrightarrow> obeys (emits P) m2 \<Longrightarrow> obeys (emits P) m3 \<Longrightarrow>
    obeys (emits P) (case alg of AREA_FORWARDING \<Rightarrow> m1 | NON_AREA_FORWARDING \<Rightarrow> m2 | DISCARTED \<Rightarrow> m3)"
  by (cases alg) auto

lemma emits_modify:
  "(\<And>r. r_sent (g r) = r_sent r \<and> r_timers (g r) = r_timers r) \<Longrightarrow> obeys (emits P) (modify_s g)"
  by (rule emitsI) (auto intro: sends_modify)

lemma emits_start_timer: "P q \<Longrightarrow> obeys (emits P) (start_timer d (CBF_TIMEOUT k q))"
  by (rule obeysI) (auto simp: emits_def start_timer_def then_s_def bind_s_def dict_simps sends_def
      split: if_splits)

lemma emits_cancel: "obeys (emits P) (cancel_timer n)"
  by (rule obeysI) (auto simp: emits_def cancel_timer_def dict_simps sends_def split: if_splits)

lemmas emits_rules =
  emits.obeys_lift_bind emits_gets_bind emits.obeys_then emits.obeys_if emits.obeys_pure
  emits_catch_discard emits_dad emits_loct

lemma emits_cbf:
  assumes "\<And>q. gbc_packet bh ch e d = Inr q \<Longrightarrow> P q"
  shows "obeys (emits P) (gn_area_cbf_forwarding bh ch e d)"
  unfolding gn_area_cbf_forwarding_def Let_def
  using assms
  by (intro emits_rules emits.obeys_case_option emits_modify emits_cancel
      emits.obeys_bind [OF emits_start_timer]) simp_all

lemma emits_forward_gbc:
  assumes "\<And>q. gbc_packet (bh_set_rhl (bh_rhl bh - 1) bh) ch e d = Inr q \<Longrightarrow> P q"
  shows "obeys (emits P) (gn_data_forward_gbc bh ch e d)"
  unfolding gn_data_forward_gbc_def Let_def
  using assms by (intro emits_rules emits_alg emits_cbf emits_send)

text \<open>
  Every packet that the reception of a GeoBroadcast packet puts on the air or into the
  contention buffer is that packet with the hop limit one lower; with a hop limit of 1 or less
  there is none.
\<close>

lemma gbc_forwarding:
  assumes "gn_data_indicate_gbc packet ch bh r = (res, r')" "valid_bh bh" "valid_ch ch"
  shows "emits (\<lambda>q. 1 < bh_rhl bh \<and> next_hop packet ch bh q) r r'"
proof (cases "gbc_decode (slice 0 44 packet)")
  case (Inl e)
  then show ?thesis using assms(1) by (simp add: gn_data_indicate_gbc_def emits.R_refl)
next
  case (Inr e)
  have "obeys (emits (\<lambda>q. 1 < bh_rhl bh \<and> next_hop packet ch bh q)) (gn_data_indicate_gbc packet ch bh)"
    unfolding gn_data_indicate_gbc_def Let_def Inr run_lift_bind
    using gbc_next_hop [OF Inr assms(2,3)]
    by (intro emits_rules emits_forward_gbc) simp_all
  then show ?thesis using assms(1) by (rule obeysD)
qed

text \<open>
  The same holds for GeoAnycast with one exception: the handler discards only a packet
  whose hop limit is exactly 1. A packet that comes in with hop limit 0, which is used up, is
  forwarded like any other and leaves with hop limit 255.
\<close>

lemma gac_forwarding:
  assumes "gn_data_indicate_gac packet ch bh r = (res, r')" "valid_bh bh" "valid_ch ch"
  shows "sends (\<lambda>q. bh_rhl bh \<noteq> 1 \<and> next_hop packet ch bh q) r r'"
proof (cases "gbc_decode (slice 0 44 packet)")
  case (Inl e)
  then show ?thesis using assms(1) by (simp add: gn_data_indicate_gac_def sends.R_refl)
next
  case (Inr e)
  have "obeys (emits (\<lambda>q. bh_rhl bh \<noteq> 1 \<and> next_hop packet ch bh q)) (gn_data_indicate_gac packet ch bh)"
    unfolding gn_data_indicate_gac_def Let_def Inr run_lift_bind
    using gbc_next_hop [OF Inr assms(2,3)]
    by (intro emits_rules emits_send) simp_all
  from obeysD [OF this assms(1)] show ?thesis by (simp add: emits_def)
qed

text \<open>
  When a GeoAnycast packet goes on, by Annexes B, D and E: the area is not too large, its source
  does not send too much and is not known to be inside the area with a reliable position, and
  the destination can be approached, or the packet may not be stored.
\<close>

definition source_inside :: "router \<Rightarrow> HST \<Rightarrow> GBCExtendedHeader \<Rightarrow> bool" where
  "source_inside r hst e \<longleftrightarrow>
     (case get_entry (lpv_gn_addr (gbc_so_pv e)) (r_location_table r) of
        None \<Rightarrow> False
      | Some en \<Rightarrow> lpv_pai (le_position_vector en)
          \<and> inside_area hst (north_up (gbc_area e)) (lpv_latitude (le_position_vector en)) (lpv_longitude (le_position_vector en)))"

definition closer_neighbour :: "router \<Rightarrow> int \<Rightarrow> int \<Rightarrow> bool" where
  "closer_neighbour r lat lon \<longleftrightarrow>
     (\<exists>en \<in> set (get_neighbours (r_location_table r)).
        dist_to lat lon (le_position_vector en) < dist_to lat lon (r_ego_position_vector r))"

definition gac_goes_on :: "router \<Rightarrow> CommonHeader \<Rightarrow> BasicHeader \<Rightarrow> GBCExtendedHeader \<Rightarrow> bool" where
  "gac_goes_on r ch bh e \<longleftrightarrow>
     \<not> area_too_large (ch_hst ch) (gbc_area e) r \<and> \<not> pdr_exceeded (lpv_gn_addr (gbc_so_pv e)) r
     \<and> \<not> source_inside r (ch_hst ch) e \<and> bh_rhl bh \<noteq> 1
     \<and> (closer_neighbour r (gbc_latitude e) (gbc_longitude e) \<or> \<not> tc_scf (ch_tc ch))"

lemma source_inside_run:
  assumes "has_extent hst (gbc_area e)" "is_area_type hst"
  shows "(case get_entry (lpv_gn_addr (gbc_so_pv e)) (r_location_table r) of
      None \<Rightarrow> Inr False
    | Some en \<Rightarrow>
        if lpv_pai (le_position_vector en) then
          rbind (gn_geometric_function_f hst (gbc_area e) (lpv_latitude (le_position_vector en))
            (lpv_longitude (le_position_vector en))) (\<lambda>f_se. Inr (f_se \<ge> 0))
        else Inr False) = Inr (source_inside r hst e)"
proof -
  have "rbind (gn_geometric_function_f hst (gbc_area e) lat lon) (\<lambda>f_se. Inr (f_se \<ge> 0))
      = Inr (inside_area hst (north_up (gbc_area e)) lat lon)" for lat lon
    using geometric_function_inside [OF assms, of lat lon] by auto
  then show ?thesis by (simp add: source_inside_def split: option.split)
qed

lemma gac_outside_run:
  assumes "has_extent (ch_hst ch) (gbc_area e)" "is_area_type (ch_hst ch)"
    and "valid_bh bh" "valid_ch ch" "valid_gbc e"
    and "r_link_layer r = Some (\<lambda>_ _. Inr ())"
    and q: "gbc_packet (bh_set_rhl (bh_rhl bh - 1) bh) ch e d = Inr q"
  shows "\<exists>r'. bind_s (gets_s (\<lambda>r. r)) (\<lambda>r.
      if area_too_large (ch_hst ch) (gbc_area e) r then return_s None
      else if pdr_exceeded (lpv_gn_addr (gbc_so_pv e)) r then return_s None
      else
        bind_s (lift_s (case get_entry (lpv_gn_addr (gbc_so_pv e)) (r_location_table r) of
            None \<Rightarrow> Inr False
          | Some en \<Rightarrow>
              if lpv_pai (le_position_vector en) then
                rbind (gn_geometric_function_f (ch_hst ch) (gbc_area e) (lpv_latitude (le_position_vector en))
                  (lpv_longitude (le_position_vector en))) (\<lambda>f_se. Inr (f_se \<ge> 0))
              else Inr False)) (\<lambda>sender_inside.
        if sender_inside then return_s None
        else
          let new_rhl = bh_rhl bh - 1 in
          if new_rhl = 0 then return_s None
          else if no_neighbours r \<and> tc_scf (ch_tc ch) then return_s None
          else if greedy (area_latitude (gbc_area e)) (area_longitude (gbc_area e)) (ch_tc ch) r then
            bind_s (lift_s (gbc_packet (bh_set_rhl new_rhl bh) ch e d))
              (\<lambda>forward_packet. then_s (send_ignore forward_packet) (return_s None))
          else return_s None)) r = (Inr (None :: GNDataIndication option), r')
    \<and> r_sent r' = r_sent r @ (if gac_goes_on r ch bh e then [q] else [])"
proof -
  have "greedy (gbc_latitude e) (gbc_longitude e) (ch_tc ch) r
      \<longleftrightarrow> closer_neighbour r (gbc_latitude e) (gbc_longitude e) \<or> \<not> tc_scf (ch_tc ch)"
    by (simp add: greedy_def greedy_iff closer_neighbour_def)
  moreover have "\<not> (no_neighbours r \<and> closer_neighbour r lat lon)" for lat lon
    by (auto simp: no_neighbours_def closer_neighbour_def)
  ultimately show ?thesis
    using assms(6) q
    by (simp add: source_inside_run [OF assms(1,2)] gac_goes_on_def then_send_ignore_some Let_def)
qed

text \<open>A GeoAnycast packet for a circle of 100 m around a point ten degrees north of the stations.\<close>

definition far_gbc :: "byte \<Rightarrow> int \<Rightarrow> GBCExtendedHeader" where
  "far_gbc n sn = (sample_gbc n sn)\<lparr>gbc_latitude := 100000000\<rparr>"

lemma far_gbc_simps [simp]:
  "gbc_so_pv (far_gbc n sn) = station_pv n" "gbc_sn (far_gbc n sn) = sn"
  "gbc_a (far_gbc n sn) = 100" "gbc_b (far_gbc n sn) = 100"
  "0 \<le> sn \<Longrightarrow> sn < 65536 \<Longrightarrow> valid_gbc (far_gbc n sn)"
  by (simp_all add: far_gbc_def sample_gbc_def valid_gbc_def)

lemma far_outside: "\<not> ego_inside (station m) GEOANYCAST_CIRCLE (gbc_area (far_gbc n sn))"
proof -
  let ?area = "gbc_area (far_gbc n sn)"
  have "metres_north ?area 0 = - (6371000 * pi / 18)"
    by (simp add: metres_north_def angle_of_def far_gbc_def)
  then have "100 < \<bar>metres_north ?area 0\<bar>" using pi_ge_two by simp
  also have "\<dots> \<le> sqrt (metres_north ?area 0 ^ 2 + metres_east ?area 0 0 ^ 2)" by (rule real_sqrt_ge_abs1)
  finally show ?thesis
    by (simp add: ego_inside_circle inside_circle area_types default_LongPositionVector_def)
qed

text \<open>
  C2: A GeoAnycast packet that was not seen before is either delivered or forwarded, never both.
  Inside its area (the first length taken to point north) the router delivers the packet with
  its source, area and payload and puts nothing on the air. Outside it delivers nothing, and
  puts exactly one packet on the air if the packet goes on (\<open>gac_goes_on\<close>): the same packet with
  the hop limit counted down; else none. If a length that the shape uses is 0, it raises
  \<open>ZeroDivisionError\<close> before anything is done. (A hop limit of 0 is counted down to 255.)
\<close>

theorem gac_deliver_or_forward:
  assumes "gbc_decode (slice 0 44 p) = Inr e" "is_area_type (ch_hst ch)" "valid_bh bh" "valid_ch ch"
    and "r_link_layer r = Some (\<lambda>_ _. Inr ())"
    and "\<not> gn_address_eq (itsGnLocalGnAddr (r_mib r)) (lpv_gn_addr (gbc_so_pv e))"
    and "\<not> seen_sn (lpv_gn_addr (gbc_so_pv e)) (gbc_sn e) (r_location_table r)" "0 < itsGnDPLLength (r_mib r)"
    and "t = snd (new_gac_packet (r_mib r) (r_now r) e (drop 44 p) (r_location_table r))"
  shows "if \<not> has_extent (ch_hst ch) (gbc_area e) then
      gn_data_indicate_gac p ch bh r = (Inl ZeroDivisionError, r)
    else if ego_inside r (ch_hst ch) (gbc_area e) then
      gn_data_indicate_gac p ch bh r = (Inr (Some (make_indication ch bh
        \<lparr>header_type = HT_GEOANYCAST, header_subtype = ch_hst ch\<rparr> (Some (gbc_area e)) (gbc_so_pv e) (drop 44 p))),
        r\<lparr>r_location_table := t\<rparr>)
    else \<exists>q r'. gn_data_indicate_gac p ch bh r = (Inr None, r') \<and> next_hop p ch bh q
      \<and> r_sent r' = r_sent r @ (if gac_goes_on (r\<lparr>r_location_table := t\<rparr>) ch bh e then [q] else [])"
proof (cases "has_extent (ch_hst ch) (gbc_area e)")
  case False
  then show ?thesis
    using geometric_function_zero [of "gbc_area e" "ch_hst ch"] gbc_lengths [OF assms(1)] assms(2)
    by (simp add: gn_data_indicate_gac_def assms(1) Let_def)
next
  case True
  have table: "new_gac_packet (r_mib r) (r_now r) e (drop 44 p) (r_location_table r) = (Inr (), t)"
    using new_gac_accepts [OF assms(7,8), of "r_now r" "drop 44 p"] assms(9) by auto
  note start = gn_data_indicate_gac_def assms(1) catch_discard_run then_dad_run
    then_loct_run [where x = "Inr ()" and t = t]
  obtain f where f: "gn_geometric_function_f (ch_hst ch) (gbc_area e)
      (lpv_latitude (r_ego_position_vector r)) (lpv_longitude (r_ego_position_vector r)) = Inr f"
    and inside: "0 \<le> f \<longleftrightarrow> ego_inside r (ch_hst ch) (gbc_area e)"
    by (rule ego_function [OF True assms(2)])
  show ?thesis
  proof (cases "ego_inside r (ch_hst ch) (gbc_area e)")
    case in_area: True
    then show ?thesis using True f inside assms(6) table by (simp add: start Let_def)
  next
    case outside: False
    obtain q where q: "gbc_packet (bh_set_rhl (bh_rhl bh - 1) bh) ch e (drop 44 p) = Inr q"
      using gbc_packet_total [OF valid_bh_set_rhl [OF assms(3)] assms(4) gbc_decode_valid [OF assms(1)]] by blast
    have link: "r_link_layer (r\<lparr>r_location_table := t\<rparr>) = Some (\<lambda>_ _. Inr ())" using assms(5) by simp
    obtain r' where r': "gn_data_indicate_gac p ch bh r = (Inr None, r')"
      "r_sent r' = r_sent r @ (if gac_goes_on (r\<lparr>r_location_table := t\<rparr>) ch bh e then [q] else [])"
      using gac_outside_run [OF True assms(2-4) gbc_decode_valid [OF assms(1)] link q]
        outside f inside assms(6) table
      by (fastforce simp: start Let_def)
    then show ?thesis using gbc_next_hop [OF assms(1,3,4) q] True outside by auto
  qed
qed

lemma gac_deliver_or_forward_witness:
  "\<exists>near far q (r1 :: router) r2.
    gn_data_indicate_gac near (sample_ch HT_GEOANYCAST GEOANYCAST_CIRCLE) (sample_bh 10) (station 2)
      = (Inr (Some (make_indication (sample_ch HT_GEOANYCAST GEOANYCAST_CIRCLE) (sample_bh 10)
           \<lparr>header_type = HT_GEOANYCAST, header_subtype = GEOANYCAST_CIRCLE\<rparr>
           (Some (gbc_area (sample_gbc 1 7))) (station_pv 1) [1, 2, 3])), r1) \<and> r_sent r1 = []
    \<and> gn_data_indicate_gac far (sample_ch HT_GEOANYCAST GEOANYCAST_CIRCLE) (sample_bh 10) (station 2) = (Inr None, r2)
    \<and> r_sent r2 = [q] \<and> bh_decode q = Inr (sample_bh 9) \<and> drop 56 q = [1, 2, 3]"
proof -
  let ?bh = "sample_bh 10" and ?ch = "sample_ch HT_GEOANYCAST GEOANYCAST_CIRCLE" and ?d = "[1, 2, 3] :: bytes"
  let ?near = "sample_gbc 1 7" and ?far = "far_gbc 1 7"
  have v: "valid_bh ?bh" "valid_ch ?ch" by (simp_all add: GeoAnycastHST_members_def)
  have types: "is_area_type (ch_hst ?ch)" by (simp add: is_area_type_def area_types)
  obtain near where near: "gbc_encode ?near = Inr near" using gbc.encode_total [of ?near] by auto
  obtain far where far: "gbc_encode ?far = Inr far" using gbc.encode_total [of ?far] by auto
  note decoded = gbc.decode_slice [OF _ near] gbc.drop_header [OF _ near] gbc.decode_slice [OF _ far] gbc.drop_header [OF _ far]
  have inside: "ego_inside (station 2) GEOANYCAST_CIRCLE (gbc_area ?near)"
    using ego_inside_sample [of 2 1 7] by (simp add: ego_inside_circle inside_circle area_types)
  obtain r1 where r1: "gn_data_indicate_gac (near @ ?d) ?ch ?bh (station 2)
      = (Inr (Some (make_indication ?ch ?bh \<lparr>header_type = HT_GEOANYCAST, header_subtype = GEOANYCAST_CIRCLE\<rparr>
          (Some (gbc_area ?near)) (station_pv 1) ?d)), r1)" "r_sent r1 = []"
    using gac_deliver_or_forward [of "near @ ?d" ?near ?ch ?bh "station 2", OF _ types v] inside
    by (simp add: decoded has_extent_def seen_sn_def del: drop_append)
  obtain t where t: "new_gac_packet (station_mib 2) 1700000000 ?far ?d [] = (Inr (), t)"
    and entries: "\<forall>b e. get_entry b t = Some e
      \<longrightarrow> b = station_address 1 \<and> le_pdr e = 0 \<and> le_position_vector e = station_pv 1"
    using first_packet [of "station_pv 1" "station_mib 2" 1700000000 "station_address 1" 7 ?d]
    unfolding new_gac_packet_def by auto
  let ?r = "station 2\<lparr>r_location_table := t\<rparr>"
  have "\<not> area_too_large GEOANYCAST_CIRCLE (gbc_area ?far) ?r"
    using pi_less_4 by (simp add: area_too_large_def compute_area_size_m2_def Let_def area_types)
  moreover have "\<not> pdr_exceeded (station_address 1) ?r"
    using entries by (intro pdr_exceeded_first [of _ "station_address 1"]) simp_all
  moreover have "\<not> source_inside ?r GEOANYCAST_CIRCLE ?far"
    using entries [THEN spec [of _ "station_address 1"]]
    by (auto simp: source_inside_def station_pv_def default_LongPositionVector_def split: option.split)
  ultimately have "gac_goes_on ?r ?ch ?bh ?far"
    by (simp add: gac_goes_on_def default_TrafficClass_def)
  moreover have "sample_bh 10\<lparr>bh_rhl := 9\<rparr> = sample_bh 9" by (simp add: sample_bh_def)
  ultimately have "\<exists>q r2. gn_data_indicate_gac (far @ ?d) ?ch ?bh (station 2) = (Inr None, r2)
      \<and> r_sent r2 = [q] \<and> bh_decode q = Inr (sample_bh 9) \<and> drop 56 q = ?d"
    using gac_deliver_or_forward [of "far @ ?d" ?far ?ch ?bh "station 2" t, OF _ types v] far_outside [of 2 1 7] t
    by (auto simp: decoded has_extent_def seen_sn_def next_hop_def simp del: drop_append)
  with r1 show ?thesis by blast
qed

lemma gbc_forwarding_witness:
  "\<exists>p (r' :: router) res d q.
    gn_data_indicate_gbc p (sample_ch HT_GEOBROADCAST GEOBROADCAST_CIRCLE) (sample_bh 10) (station 2) = (Inr res, r')
    \<and> dict_get (r_timers r') 0 = Some (d, CBF_TIMEOUT (station_address 1, 7) q)
    \<and> next_hop p (sample_ch HT_GEOBROADCAST GEOBROADCAST_CIRCLE) (sample_bh 10) q"
proof -
  let ?ch = "sample_ch HT_GEOBROADCAST GEOBROADCAST_CIRCLE" and ?bh = "sample_bh 10"
  have v: "valid_gbc (fresh_gbc 1 7)" "valid_bh ?bh" "valid_ch ?ch"
    by (simp_all add: GeoBroadcastHST_members_def)
  obtain bs where bs: "gbc_encode (fresh_gbc 1 7) = Inr bs" using gbc.encode_total [OF v(1)] by blast
  obtain res r1 where r1: "gn_data_indicate_gbc (bs @ [1, 2, 3]) ?ch ?bh (station 2) = (Inr res, r1)"
    "dict_get (r_cbf_buffer r1) (station_address 1, 7) = Some 0"
    using fresh_gbc_buffered [OF bs] by blast
  have "cbf_ok r1" using keepsD [OF keeps_indicate_gbc station_ok r1(1)] by (simp add: router_ok_def)
  then obtain d q where t: "dict_get (r_timers r1) 0 = Some (d, CBF_TIMEOUT (station_address 1, 7) q)"
    using r1(2) unfolding cbf_ok_def by blast
  have "next_hop (bs @ [1, 2, 3]) ?ch ?bh q"
    using gbc_forwarding [OF r1(1) v(2,3)] t unfolding emits_def by fastforce
  then show ?thesis using r1(1) t by blast
qed

lemma gac_forwarding_witness:
  "\<exists>p (r' :: router) res q. gn_data_indicate_gac p (sample_ch HT_GEOANYCAST GEOANYCAST_CIRCLE)
      (sample_bh 0) (station 2) = (res, r')
    \<and> r_sent r' = [q] \<and> bh_decode q = Inr (sample_bh 255)"
proof -
  let ?bh = "sample_bh 0" and ?ch = "sample_ch HT_GEOANYCAST GEOANYCAST_CIRCLE"
  let ?e = "far_gbc 1 7" and ?d = "[1, 2, 3] :: bytes"
  have v: "valid_gbc ?e" "valid_bh ?bh" "valid_ch ?ch" by (simp_all add: GeoAnycastHST_members_def)
  obtain bs where bs: "gbc_encode ?e = Inr bs" using gbc.encode_total [OF v(1)] by blast
  obtain q where q: "gbc_packet (bh_set_rhl (- 1) ?bh) ?ch ?e ?d = Inr q"
    using gbc_packet_total [OF valid_bh_set_rhl [OF v(2)] v(3,1)] by blast
  obtain t where t: "new_gac_packet (station_mib 2) 1700000000 ?e ?d [] = (Inr (), t)"
    and en: "\<forall>b e. get_entry b t = Some e
      \<longrightarrow> b = station_address 1 \<and> le_pdr e = 0 \<and> le_position_vector e = station_pv 1"
    using first_packet [of "station_pv 1" "station_mib 2" 1700000000 "station_address 1" 7 ?d]
    unfolding new_gac_packet_def by auto
  have "\<not> lpv_pai (le_position_vector e)" if "get_entry b t = Some e" for b e
    using en that by (simp add: station_pv_def default_LongPositionVector_def)
  then have nopai: "(case get_entry (station_address 1) t of None \<Rightarrow> Inr False
      | Some e \<Rightarrow> if lpv_pai (le_position_vector e) then F e else Inr False) = Inr False"
    for F :: "_ \<Rightarrow> bool result"
    by (simp split: option.split)
  let ?r = "station 2\<lparr>r_location_table := t\<rparr>"
  obtain f where f: "gn_geometric_function_f GEOANYCAST_CIRCLE (gbc_area ?e)
      (lpv_latitude (r_ego_position_vector (station 2)))
      (lpv_longitude (r_ego_position_vector (station 2))) = Inr f" "\<not> 0 \<le> f"
    using ego_function [of GEOANYCAST_CIRCLE "gbc_area ?e" "station 2"] far_outside [of 2 1 7]
    by (auto simp: has_extent_def is_area_type_def area_types)
  have small: "\<not> area_too_large GEOANYCAST_CIRCLE (gbc_area ?e) ?r"
    using pi_less_4 by (simp add: area_too_large_def compute_area_size_m2_def Let_def area_types)
  have pdr: "\<not> pdr_exceeded (station_address 1) ?r"
    using en by (intro pdr_exceeded_first [of _ "station_address 1"]) simp_all
  obtain res r' where run: "gn_data_indicate_gac (bs @ ?d) ?ch ?bh (station 2) = (res, r')" "r_sent r' = [q]"
    using t f small pdr q
    by (simp add: gn_data_indicate_gac_def gbc.decode_slice [OF v(1) bs] gbc.drop_header [OF v(1) bs]
        catch_discard_run then_dad_run then_loct_run [where x = "Inr ()" and t = t] greedy_def
        greedy_iff default_TrafficClass_def Let_def then_send_ignore_some nopai del: drop_append)
  have "sample_bh 0\<lparr>bh_rhl := 255\<rparr> = sample_bh 255" by (simp add: sample_bh_def)
  then have "bh_decode q = Inr (sample_bh 255)"
    using gac_forwarding [OF run(1) v(2,3)] run(2) by (auto simp: sends_def next_hop_def)
  then show ?thesis using run by blast
qed

section \<open>Timestamps ahead of the clock\<close>

text \<open>
  A station that stamps its packets later than the receiver's clock, which the table
  reads in whole seconds, is forgotten at once: the refresh that ends the update takes the
  negative age for one of almost \<open>2 ^ 32\<close> ms. So a beacon or single-hop broadcast stamped
  within the current second, or by a clock that is a little fast, makes nobody a neighbour.
\<close>

lemma ahead_of_clock_is_forgotten:
  assumes "dict_ok t" "dict_get t (lpv_gn_addr pv) = None" "0 < msec (lpv_tst pv)"
    and "msec (tst_set_in_normal_timestamp_seconds (py_int now)) < msec (lpv_tst pv)"
    and "msec (lpv_tst pv) - msec (tst_set_in_normal_timestamp_seconds (py_int now))
           < 2 ^ 32 - itsGnLifetimeLocTE mib * 1000"
  shows "get_entry (lpv_gn_addr pv) (snd (new_shb_packet mib now pv data t)) = None"
proof -
  let ?a = "lpv_gn_addr pv"
  obtain u t' where run: "new_shb_packet mib now pv data t = (Inr u, t')"
    using new_shb_Inr by blast
  then obtain e' where e': "Inr (update_with_shb_packet mib pv data (current_entry mib ?a t)) = (Inr e' :: LocationTableEntry result)"
    and t': "\<And>b. dict_get t' b = (case (if b = ?a then Some e' else dict_get t b) of
           None \<Rightarrow> None | Some e \<Rightarrow> if kept_by_refresh mib now e then Some e else None)"
    unfolding new_shb_packet_def using update_entry_Inr [OF _ assms(1)] by (metis (no_types, lifting))
  have "le_position_vector e' = pv"
    using e' assms(2) by (auto simp: update_with_shb_packet_def update_position_vector_def
        current_entry_def new_entry_def default_LongPositionVector_def)
  then have "\<not> kept_by_refresh mib now e'"
    using assms(4,5) by (simp add: kept_by_refresh_def tst_sub_def Let_def)
  then show ?thesis using t' [of ?a] run by (simp add: get_entry_def)
qed

text \<open>Half a second into a second of the year 2024, a beacon stamped a quarter of a second ago.\<close>

lemma ahead_of_clock_is_forgotten_witness:
  "get_entry (station_address 1) (snd (new_shb_packet default_MIB (1704067200 + 1 / 2)
    ((station_pv 1)\<lparr>lpv_tst := tst_set_in_normal_timestamp_milliseconds 1704067200250\<rparr>) [] [])) = None"
proof -
  let ?pv = "(station_pv 1)\<lparr>lpv_tst := tst_set_in_normal_timestamp_milliseconds 1704067200250\<rparr>"
  have "\<lfloor>3408134401 / 2 :: real\<rfloor> = 1704067200" by linarith
  then have s: "py_int (1704067200 + 1 / 2) = 1704067200" by (simp add: py_int_def)
  have "msec (lpv_tst ?pv) = 4086780034"
    "msec (tst_set_in_normal_timestamp_seconds 1704067200) = 4086779784"
    by (simp_all add: tst_set_in_normal_timestamp_milliseconds_def
        tst_set_in_normal_timestamp_seconds_def ITS_EPOCH_MS_def ITS_EPOCH_def
        ELAPSED_MILLISECONDS_def ELAPSED_SECONDS_def)
  then show ?thesis
    using ahead_of_clock_is_forgotten [of "[]" ?pv "1704067200 + 1 / 2" default_MIB "[]"]
    unfolding s by simp
qed

section \<open>Secured packets that are forwarded\<close>

text \<open>
  A topologically scoped packet that came in secured and verified goes on without its
  security envelope, so every station that has security on discards what was forwarded.
\<close>

lemma secured_packet_forwarded_in_clear:
  assumes "r_verify_service r = Some v" "v (r_sec_calls r) envelope = Inr c" "vc_report c = SUCCESS"
    and "ch_decode (slice 0 8 (vc_plain_message c)) = Inr ch" "ch_ht ch = HT_TSB" "ch_hst ch = MULTI_HOP"
    and "valid_bh bh" "process_security_header envelope bh r = (res, r')"
    and "itsGnSecurity (r_mib other) = ENABLED" "itsGnProtocolVersion (r_mib other) = bh_version bh"
  shows "\<exists>qs. r_sent r' = r_sent r @ qs \<and> (\<forall>q \<in> set qs. gn_data_indicate q other = (Inr (), other))"
proof -
  let ?bh = "bh_set_nh COMMON_HEADER bh" and ?r = "r\<lparr>r_sec_calls := Suc (r_sec_calls r)\<rparr>"
  let ?q = "\<lambda>q. gn_data_indicate q other = (Inr (), other)"
  have ignored: "?q q" if fw: "forwards (bh_set_rhl n ?bh) ch x d q" for n x d q
  proof -
    obtain b rest where b: "bh_encode (bh_set_rhl n ?bh) = Inr b" and q: "q = b @ rest"
      using fw unfolding forwards_def encode_parts_Cons_Inr by blast
    have "valid_bh (bh_set_rhl n ?bh)" using assms(7) by (intro valid_bh_set_rhl valid_bh_set_nh)
    then show ?thesis
      using q assms(9,10) process_basic_run [OF _ b]
      by (auto simp: gn_data_indicate_def bh_set_rhl_def bh_set_nh_def)
  qed
  have "obeys (sends ?q) (gn_data_indicate_tsb packet ch ?bh)" for packet
  proof (rule obeysI)
    fix s res s' assume "gn_data_indicate_tsb packet ch ?bh s = (res, s')"
    from obeysD [OF tsb_sends this] show "sends ?q s s'"
      unfolding sends_def using ignored by blast
  qed
  moreover have "obeys (sends ?q) (deliver i)" for i
    by (rule sends_no_send) (auto simp: deliver_def split: option.splits if_splits)
  ultimately have "obeys (sends ?q) (process_common_header (vc_plain_message c) ?bh)"
    unfolding process_common_header_def Let_def assms(4) run_lift_bind
    using assms(5,6) by (auto intro!: sends.obeys_if sends.obeys_bind sends.obeys_pure)
  moreover have "process_common_header (vc_plain_message c) ?bh ?r = (res, r')"
    using assms(1-3,8) by (simp add: process_security_header_def)
  ultimately have "sends ?q ?r r'" by (rule obeysD)
  then show ?thesis by (simp add: sends_def)
qed

text \<open>Station 2 with security on and a verify service that opens every envelope.\<close>

definition trusting_station :: router where
  "trusting_station = (station 2)\<lparr>r_mib := (station_mib 2)\<lparr>itsGnSecurity := ENABLED\<rparr>,
     r_verify_service := Some (\<lambda>_ q. Inr \<lparr>vc_report = SUCCESS, vc_certificate_id = [],
       vc_its_aid_length = 0, vc_its_aid = [], vc_permissions = [], vc_plain_message = q\<rparr>)\<rparr>"

lemma secured_packet_forwarded_in_clear_witness:
  "\<exists>envelope (r' :: router) q. process_security_header envelope (sample_bh 10) trusting_station = (Inr (), r')
    \<and> r_sent r' = [q] \<and> gn_data_indicate q trusting_station = (Inr (), trusting_station)"
proof -
  let ?ch = "sample_ch HT_TSB MULTI_HOP" and ?bh = "sample_bh 10" and ?e = "sample_tsb 1 7"
  let ?bh' = "bh_set_nh COMMON_HEADER ?bh" and ?d = "[1, 2, 3] :: bytes"
  let ?r = "trusting_station\<lparr>r_sec_calls := Suc (r_sec_calls (station 2))\<rparr>"
  have v: "valid_bh ?bh" "valid_ch ?ch" "valid_tsb ?e" "valid_bh (bh_set_rhl 9 ?bh')"
    by (simp_all add: TopoBroadcastHST_members_def valid_bh_set_rhl valid_bh_set_nh)
  obtain bs where bs: "tsb_encode ?e = Inr bs" using tsb.encode_total [OF v(3)] by blast
  obtain b where b: "bh_encode (bh_set_rhl 9 ?bh') = Inr b" using bh.encode_total [OF v(4)] by blast
  obtain c where c: "ch_encode ?ch = Inr c" using ch.encode_total [OF v(2)] by blast
  let ?m = "(station_mib 2)\<lparr>itsGnSecurity := ENABLED\<rparr>"
  obtain t where t: "new_tsb_packet ?m 1700000000 ?e ?d [] = (Inr (), t)"
    and en: "\<forall>b e. get_entry b t = Some e \<longrightarrow> b = station_address 1 \<and> le_pdr e = 0"
    using first_packet [of "station_pv 1" ?m 1700000000 "station_address 1" 7 ?d]
    unfolding new_tsb_packet_def update_with_tsb_packet_def by auto
  have pdr: "\<not> pdr_exceeded (station_address 1) (?r\<lparr>r_location_table := t\<rparr>)"
    using en by (intro pdr_exceeded_first [of _ "station_address 1"]) (simp_all add: trusting_station_def)
  obtain i s q where run: "gn_data_indicate_tsb (bs @ ?d) ?ch ?bh' ?r = (Inr (Some i), s)" "r_sent s = [q]"
    "r_indication_callback s"
    using t b c bs pdr
    by (simp add: gn_data_indicate_tsb_def tsb.decode_slice [OF v(3) bs] tsb.drop_header [OF v(3) bs]
        catch_discard_run then_dad_run then_loct_run [where x = "Inr ()" and t = t] bh_set_nh_def
        trusting_station_def default_TrafficClass_def Let_def then_send_ignore_some del: drop_append)
  have main: "process_security_header (c @ bs @ ?d) ?bh trusting_station
      = (Inr (), s\<lparr>r_indications := r_indications s @ [i]\<rparr>)"
    using run process_common_run [OF v(2) c, of "bs @ ?d" ?bh' ?r]
    by (simp add: process_security_header_def trusting_station_def bind_s_def deliver_def)
      (simp add: bh_set_nh_def)
  let ?c = "\<lparr>vc_report = SUCCESS, vc_certificate_id = [], vc_its_aid_length = 0, vc_its_aid = [],
    vc_permissions = [], vc_plain_message = c @ bs @ ?d\<rparr>"
  have dec: "ch_decode (slice 0 8 (vc_plain_message ?c)) = Inr ?ch"
    using ch.decode_slice [OF v(2) c, of "bs @ ?d"] by simp
  have "\<exists>qs. r_sent (s\<lparr>r_indications := r_indications s @ [i]\<rparr>) = r_sent trusting_station @ qs
      \<and> (\<forall>q \<in> set qs. gn_data_indicate q trusting_station = (Inr (), trusting_station))"
    by (rule secured_packet_forwarded_in_clear [OF _ _ _ dec _ _ v(1) main,
          where v = "\<lambda>_ q. Inr (?c\<lparr>vc_plain_message := q\<rparr>)"])
      (simp_all add: trusting_station_def)
  then have "gn_data_indicate q trusting_station = (Inr (), trusting_station)"
    using run(2) by (simp add: trusting_station_def)
  then show ?thesis using main run(2)
    by (intro exI [of _ "c @ bs @ ?d"] exI [of _ "s\<lparr>r_indications := r_indications s @ [i]\<rparr>"]
        exI [of _ q] conjI) simp_all
qed

section \<open>Requests while a search is running\<close>

lemma guc_packet_total:
  assumes "valid_request request" "valid_lpv (r_ego_position_vector r)" "valid_spv d"
    "0 \<le> itsGnDefaultHopLimit (r_mib r)" "itsGnDefaultHopLimit (r_mib r) < 256"
  shows "\<exists>q. forwards (bh_initialize_with_mib_request_and_rhl (r_mib r) (req_max_packet_lifetime request)
        (request_hop_limit (r_mib r) request))
      (ch_initialize_with_request (request\<lparr>req_max_hop_limit := request_hop_limit (r_mib r) request\<rparr>) (r_mib r))
      (guc_encode (guc_initialize (n mod (2 ^ 16 - 1)) (r_ego_position_vector r) d)) (req_data request) q
    \<and> (\<exists>h. guc_decode (drop 12 q) = Inr h \<and> guc_de_pv h = d)"
proof -
  let ?hl = "request_hop_limit (r_mib r) request"
  let ?bh = "bh_initialize_with_mib_request_and_rhl (r_mib r) (req_max_packet_lifetime request) ?hl"
  let ?ch = "ch_initialize_with_request (request\<lparr>req_max_hop_limit := ?hl\<rparr>) (r_mib r)"
  let ?e = "guc_initialize (n mod (2 ^ 16 - 1)) (r_ego_position_vector r) d"
  have hl: "0 \<le> ?hl" "?hl < 256" using assms(1,4,5) by (simp_all add: request_hop_limit_def valid_request_def)
  have vb: "valid_bh ?bh" by (rule valid_bh_initialize) (rule hl)+
  have vc: "valid_ch ?ch"
    using assms(1) hl by (intro valid_ch_with_request) (simp_all add: valid_request_def)
  have ve: "valid_guc ?e" using assms(2,3) by (simp add: guc_initialize_def valid_guc_def)
  obtain b where b: "bh_encode ?bh = Inr b" using bh.encode_total [OF vb] by blast
  obtain c where c: "ch_encode ?ch = Inr c" using ch.encode_total [OF vc] by blast
  obtain x where x: "guc_encode ?e = Inr x" using guc.encode_total [OF ve] by blast
  have fw: "forwards ?bh ?ch (guc_encode ?e) (req_data request) (b @ c @ x @ req_data request)"
    using b c x by (simp add: forwards_def)
  then obtain bs where "guc_encode ?e = Inr bs" "drop 12 (b @ c @ x @ req_data request) = bs @ req_data request"
    using forwards_decode [OF fw vb vc] by blast
  then have "guc_decode (drop 12 (b @ c @ x @ req_data request)) = Inr ?e"
    using guc.decode_packet [OF ve] by simp
  then show ?thesis using fw by (auto simp: guc_initialize_def)
qed

text \<open>
  A second request for a destination that is being searched for, or was searched for in vain,
  is not kept like the first: the entry that the search made counts as knowledge of the
  destination, so the packet goes out at once, addressed to nobody (the initial address of a position
  vector, at latitude and longitude 0), and the request is lost for the destination.
\<close>

lemma request_during_search_is_misaddressed:
  assumes "get_entry a (r_location_table r) = Some e"
    and "le_position_vector e = default_LongPositionVector"
    and "req_destination request = Some a" "valid_request request" "\<not> tc_scf (req_traffic_class request)"
    and "valid_lpv (r_ego_position_vector r)" "r_link_layer r = Some (\<lambda>_ _. Inr ())"
    and "0 \<le> itsGnDefaultHopLimit (r_mib r)" "itsGnDefaultHopLimit (r_mib r) < 256"
  shows "\<exists>q h r'. gn_data_request_guc request r = (Inr ACCEPTED, r')
    \<and> r_ls_packet_buffers r' = r_ls_packet_buffers r \<and> r_sent r' = r_sent r @ [q]
    \<and> guc_decode (drop 12 q) = Inr h \<and> spv_gn_addr (guc_de_pv h) = default_GNAddress"
proof -
  let ?d = "spv_of_lpv default_LongPositionVector"
  have vd: "valid_spv ?d" by simp
  obtain q h where q: "encode_parts [bh_encode (bh_initialize_with_mib_request_and_rhl (r_mib r)
        (req_max_packet_lifetime request) (request_hop_limit (r_mib r) request)),
      ch_encode (ch_initialize_with_request (request\<lparr>req_max_hop_limit := request_hop_limit (r_mib r) request\<rparr>) (r_mib r)),
      guc_encode (guc_initialize ((r_sequence_number r + 1) mod (2 ^ 16 - 1)) (r_ego_position_vector r) ?d),
      Inr (req_data request)] = Inr q" and h: "guc_decode (drop 12 q) = Inr h" "guc_de_pv h = ?d"
    using guc_packet_total [OF assms(4,6) vd assms(8,9), of "r_sequence_number r + 1"]
    unfolding forwards_def by blast
  have "gn_data_request_guc request r = (Inr ACCEPTED, r\<lparr>r_sequence_number := (r_sequence_number r + 1) mod (2 ^ 16 - 1),
      r_ll_calls := Suc (r_ll_calls r), r_sent := r_sent r @ [q]\<rparr>)"
    using assms(1,2,3,5,7) q
    by (simp add: gn_data_request_guc_def Let_def bind_s_def [of get_sequence_number] get_sequence_number_run
        greedy_def greedy_iff send_confirm_def catch_s_def then_s_def bind_s_def [of "link_send q"]
        link_send_some del: encode_parts.simps)
  moreover have "spv_gn_addr ?d = default_GNAddress"
    by (simp add: spv_of_lpv_def default_LongPositionVector_def)
  ultimately show ?thesis using h by (intro exI [of _ q] exI [of _ h]) auto
qed

lemma request_during_search_is_misaddressed_witness:
  "\<exists>r1 r2 q h. gn_data_request_guc (seeking_request 9) (station 1) = (Inr ACCEPTED, r1)
    \<and> gn_data_request_guc (seeking_request 9) r1 = (Inr ACCEPTED, r2)
    \<and> r_ls_packet_buffers r2 = r_ls_packet_buffers r1 \<and> r_sent r2 = r_sent r1 @ [q]
    \<and> guc_decode (drop 12 q) = Inr h \<and> spv_gn_addr (guc_de_pv h) = default_GNAddress"
proof -
  let ?a = "station_address 9" and ?req = "seeking_request 9"
  have dest: "req_destination ?req = Some ?a" and valid: "valid_request ?req"
    and scf: "\<not> tc_scf (req_traffic_class ?req)"
    by (simp_all add: seeking_request_def valid_request_def hello_request_def default_GNDataRequest_def
        HeaderSubType_members_def default_TrafficClass_def valid_tc_def)
  obtain r1 where r1: "gn_ls_request ?a (Some ?req) (station 1) = (Inr (), r1)" "ls_waiting ?a 0 r1"
    and e: "get_entry ?a (r_location_table r1) = Some (new_entry (station_mib 1)\<lparr>le_ls_pending := True\<rparr>)"
    using ls_request_starts [of "station 1" ?a ?req, OF station_ok] by (auto simp: get_entry_def)
  have same: "same_config (station 1) r1"
    using obeysD [OF quiet_ls_request r1(1)] by (simp add: quiet_def)
  have "gn_data_request_guc ?req (station 1) = (Inr ACCEPTED, r1)"
    using dest r1(1) by (simp add: gn_data_request_guc_def Let_def get_entry_def
        run_bind(3) [where m = "gn_ls_request ?a (Some ?req)" and s = "station 1", OF r1(1)])
  moreover have "\<exists>q h r'. gn_data_request_guc ?req r1 = (Inr ACCEPTED, r')
    \<and> r_ls_packet_buffers r' = r_ls_packet_buffers r1 \<and> r_sent r' = r_sent r1 @ [q]
    \<and> guc_decode (drop 12 q) = Inr h \<and> spv_gn_addr (guc_de_pv h) = default_GNAddress"
    by (rule request_during_search_is_misaddressed [OF e _ dest valid scf])
      (use same in \<open>simp_all add: same_config_def new_entry_def\<close>)
  ultimately show ?thesis by blast
qed

end
