(* ===== verification/Btp.thy ===== *)
theory Btp
  imports RouterProps
begin

text \<open>
  The Basic Transport Protocol (\<open>src/flexstack/btp/\<close>) on top of the GeoNetworking router:
  headers, service primitives and \<open>btp.router.Router\<close>. A registered callback is a function
  from the number of its call to its outcome, so that it may raise or not each time;
  \<open>b_calls\<close> records, in order, the port and the indication of every call.
\<close>

section \<open>Headers\<close>

record BTPAHeader =
  btpa_destination_port :: int
  btpa_source_port :: int

record BTPBHeader =
  btpb_destination_port :: int
  btpb_destination_port_info :: int

definition btpa_encode_to_int :: "BTPAHeader \<Rightarrow> int" where
  "btpa_encode_to_int h = push_bit 16 (btpa_destination_port h) OR btpa_source_port h"

definition btpa_encode :: "BTPAHeader \<Rightarrow> bytes result" where
  "btpa_encode h = to_bytes 4 (btpa_encode_to_int h)"

definition btpa_decode :: "bytes \<Rightarrow> BTPAHeader" where
  "btpa_decode data =
     \<lparr>btpa_destination_port = from_bytes (slice 0 2 data),
      btpa_source_port = from_bytes (slice 2 4 data)\<rparr>"

definition btpb_encode_to_int :: "BTPBHeader \<Rightarrow> int" where
  "btpb_encode_to_int h = push_bit 16 (btpb_destination_port h) OR btpb_destination_port_info h"

definition btpb_encode :: "BTPBHeader \<Rightarrow> bytes result" where
  "btpb_encode h = to_bytes 4 (btpb_encode_to_int h)"

definition btpb_decode :: "bytes \<Rightarrow> BTPBHeader" where
  "btpb_decode data =
     \<lparr>btpb_destination_port = from_bytes (slice 0 2 data),
      btpb_destination_port_info = from_bytes (slice 2 4 data)\<rparr>"

definition valid_btpa :: "BTPAHeader \<Rightarrow> bool" where
  "valid_btpa h \<longleftrightarrow> 0 \<le> btpa_destination_port h \<and> btpa_destination_port h < 2 ^ 16
     \<and> 0 \<le> btpa_source_port h \<and> btpa_source_port h < 2 ^ 16"

definition valid_btpb :: "BTPBHeader \<Rightarrow> bool" where
  "valid_btpb h \<longleftrightarrow> 0 \<le> btpb_destination_port h \<and> btpb_destination_port h < 2 ^ 16
     \<and> 0 \<le> btpb_destination_port_info h \<and> btpb_destination_port_info h < 2 ^ 16"

text \<open>Both headers are two 16-bit fields.\<close>

lemma two_ports:
  assumes "0 \<le> p" "p < 2 ^ 16" "0 \<le> q" "q < 2 ^ 16"
  shows "to_bytes 4 (push_bit 16 p OR q) = Inr (be_bytes 2 p @ be_bytes 2 q)"
proof -
  have "p * 2 ^ 16 + q < 2 ^ 32" using assms by simp
  then have "to_bytes 4 (p * 2 ^ 16 + q) = Inr (be_bytes 4 (p * 2 ^ 16 + q))"
    using assms by (simp add: to_bytes_Inr)
  also have "be_bytes 4 (p * 2 ^ 16 + q) = be_bytes 2 p @ be_bytes 2 q"
    using be_bytes_append [of p 2 q 2] assms by simp
  finally show ?thesis using push_bit_or_int [of q 16 p] assms by simp
qed

lemma two_ports_read:
  assumes "0 \<le> p" "p < 2 ^ 16" "0 \<le> q" "q < 2 ^ 16"
  shows "from_bytes (slice 0 2 (be_bytes 2 p @ be_bytes 2 q @ rest)) = p"
    and "from_bytes (slice 2 4 (be_bytes 2 p @ be_bytes 2 q @ rest)) = q"
  using assms by (simp_all add: slice_def from_be_bytes del: be_bytes.simps)

interpretation btpa: codec btpa_encode "\<lambda>bs. Inr (btpa_decode bs)" valid_btpa 4
proof unfold_locales
  show "\<exists>bs. btpa_encode h = Inr bs \<and> length bs = 4" if "valid_btpa h" for h
    using that by (simp add: valid_btpa_def btpa_encode_def btpa_encode_to_int_def two_ports)
  show "Inr (btpa_decode bs) = Inr h" if "valid_btpa h" "btpa_encode h = Inr bs" for h bs
    using that two_ports_read [of "btpa_destination_port h" "btpa_source_port h" "[]"]
    by (auto simp: valid_btpa_def btpa_encode_def btpa_encode_to_int_def two_ports btpa_decode_def)
qed

interpretation btpb: codec btpb_encode "\<lambda>bs. Inr (btpb_decode bs)" valid_btpb 4
proof unfold_locales
  show "\<exists>bs. btpb_encode h = Inr bs \<and> length bs = 4" if "valid_btpb h" for h
    using that by (simp add: valid_btpb_def btpb_encode_def btpb_encode_to_int_def two_ports)
  show "Inr (btpb_decode bs) = Inr h" if "valid_btpb h" "btpb_encode h = Inr bs" for h bs
    using that two_ports_read [of "btpb_destination_port h" "btpb_destination_port_info h" "[]"]
    by (auto simp: valid_btpb_def btpb_encode_def btpb_encode_to_int_def two_ports btpb_decode_def)
qed

text \<open>The header in front of a payload.\<close>

lemma btpa_decode_packet:
  "valid_btpa h \<Longrightarrow> btpa_encode h = Inr bs \<Longrightarrow> btpa_decode (bs @ data) = h"
  using two_ports_read [of "btpa_destination_port h" "btpa_source_port h" data]
  by (auto simp: valid_btpa_def btpa_encode_def btpa_encode_to_int_def two_ports btpa_decode_def)

lemma btpb_decode_packet:
  "valid_btpb h \<Longrightarrow> btpb_encode h = Inr bs \<Longrightarrow> btpb_decode (bs @ data) = h"
  using two_ports_read [of "btpb_destination_port h" "btpb_destination_port_info h" data]
  by (auto simp: valid_btpb_def btpb_encode_def btpb_encode_to_int_def two_ports btpb_decode_def)

section \<open>Service primitives\<close>

record BTPDataRequest =
  br_btp_type :: CommonNH
  br_source_port :: int
  br_destination_port :: int
  br_destination_port_info :: int
  br_gn_packet_transport_type :: PacketTransportType
  br_gn_destination_address :: GNAddress
  br_gn_area :: Area
  br_gn_max_hop_limit :: int
  br_gn_max_packet_lifetime :: "real option"
  br_gn_repetition_interval :: "int option"
  br_gn_max_repetition_time :: "int option"
  br_communication_profile :: CommunicationProfile
  br_traffic_class :: TrafficClass
  br_security_profile :: SecurityProfile
  br_its_aid :: int
  br_security_permissions :: bytes
  br_length :: int
  br_data :: bytes

definition default_BTPDataRequest :: BTPDataRequest where
  "default_BTPDataRequest =
     \<lparr>br_btp_type = BTP_B, br_source_port = 0, br_destination_port = 0,
      br_destination_port_info = 0, br_gn_packet_transport_type = default_PacketTransportType,
      br_gn_destination_address = default_GNAddress, br_gn_area = default_Area,
      br_gn_max_hop_limit = 0, br_gn_max_packet_lifetime = None,
      br_gn_repetition_interval = None, br_gn_max_repetition_time = None,
      br_communication_profile = CP_UNSPECIFIED, br_traffic_class = default_TrafficClass,
      br_security_profile = NO_SECURITY, br_its_aid = 0, br_security_permissions = [0],
      br_length = 0, br_data = []\<rparr>"

record BTPDataIndication =
  bi_source_port :: int
  bi_destination_port :: int
  bi_destination_port_info :: int
  bi_gn_packet_transport_type :: PacketTransportType
  bi_gn_destination_address :: GNAddress
  bi_gn_source_position_vector :: LongPositionVector
  bi_gn_security_report :: "bytes option"
  bi_gn_certificate_id :: "bytes option"
  bi_gn_permissions :: "bytes option"
  bi_gn_traffic_class :: TrafficClass
  bi_gn_remaining_packet_lifetime :: "real option"
  bi_length :: int
  bi_data :: bytes

definition default_BTPDataIndication :: BTPDataIndication where
  "default_BTPDataIndication =
     \<lparr>bi_source_port = 0, bi_destination_port = 0, bi_destination_port_info = 0,
      bi_gn_packet_transport_type = default_PacketTransportType,
      bi_gn_destination_address = default_GNAddress,
      bi_gn_source_position_vector = default_LongPositionVector, bi_gn_security_report = None,
      bi_gn_certificate_id = None, bi_gn_permissions = None,
      bi_gn_traffic_class = default_TrafficClass, bi_gn_remaining_packet_lifetime = None,
      bi_length = 0, bi_data = []\<rparr>"

definition btpa_initialize_with_request :: "BTPDataRequest \<Rightarrow> BTPAHeader" where
  "btpa_initialize_with_request request =
     \<lparr>btpa_destination_port = br_destination_port request,
      btpa_source_port = br_source_port request\<rparr>"

definition btpb_initialize_with_request :: "BTPDataRequest \<Rightarrow> BTPBHeader" where
  "btpb_initialize_with_request request =
     \<lparr>btpb_destination_port = br_destination_port request,
      btpb_destination_port_info = br_destination_port_info request\<rparr>"

definition initialize_with_gn_data_indication :: "GNDataIndication \<Rightarrow> BTPDataIndication" where
  "initialize_with_gn_data_indication i =
     (let payload = drop 4 (ind_data i)
      in default_BTPDataIndication
           \<lparr>bi_gn_packet_transport_type := ind_packet_transport_type i,
            bi_gn_source_position_vector := ind_source_position_vector i,
            bi_gn_traffic_class := ind_traffic_class i,
            bi_length := int (length payload), bi_data := payload\<rparr>)"

definition set_destination_port_and_info ::
    "int \<Rightarrow> int \<Rightarrow> BTPDataIndication \<Rightarrow> BTPDataIndication" where
  "set_destination_port_and_info port info i =
     \<lparr>bi_source_port = bi_source_port i, bi_destination_port = port,
      bi_destination_port_info = info,
      bi_gn_packet_transport_type = bi_gn_packet_transport_type i,
      bi_gn_destination_address = bi_gn_destination_address i,
      bi_gn_source_position_vector = bi_gn_source_position_vector i,
      bi_gn_security_report = bi_gn_security_report i,
      bi_gn_certificate_id = bi_gn_certificate_id i, bi_gn_permissions = bi_gn_permissions i,
      bi_gn_traffic_class = bi_gn_traffic_class i,
      bi_gn_remaining_packet_lifetime = bi_gn_remaining_packet_lifetime i,
      bi_length = bi_length i, bi_data = bi_data i\<rparr>"

section \<open>The router\<close>

type_synonym btp_callback = "nat \<Rightarrow> BTPDataIndication \<Rightarrow> unit result"

record btp_router =
  b_pre_indication_callbacks :: "(int, btp_callback) dict"
  b_indication_callbacks :: "(int, btp_callback) dict option"
  b_gn_router :: router
  b_calls :: "(int \<times> BTPDataIndication) list"

definition btp_init :: "router \<Rightarrow> btp_router" where
  "btp_init gn =
     \<lparr>b_pre_indication_callbacks = [], b_indication_callbacks = None, b_gn_router = gn,
      b_calls = []\<rparr>"

definition freeze_callbacks :: "btp_router \<Rightarrow> btp_router" where
  "freeze_callbacks b = b\<lparr>b_indication_callbacks := Some (b_pre_indication_callbacks b)\<rparr>"

definition register_indication_callback_btp ::
    "int \<Rightarrow> btp_callback \<Rightarrow> (btp_router, unit) prog" where
  "register_indication_callback_btp port callback =
     bind_s (gets_s b_indication_callbacks) (\<lambda>frozen.
       if frozen \<noteq> None then raise_s RuntimeError
       else modify_s (\<lambda>b. b\<lparr>b_pre_indication_callbacks :=
              dict_set port callback (b_pre_indication_callbacks b)\<rparr>))"

text \<open>A method of the GeoNetworking router.\<close>

definition on_gn_router :: "(router, 'a) prog \<Rightarrow> (btp_router, 'a) prog" where
  "on_gn_router m b = (let (res, r) = m (b_gn_router b) in (res, b\<lparr>b_gn_router := r\<rparr>))"

definition gn_request_of_btp :: "BTPDataRequest \<Rightarrow> bytes \<Rightarrow> GNDataRequest" where
  "gn_request_of_btp request data =
     default_GNDataRequest
       \<lparr>req_upper_protocol_entity := br_btp_type request,
        req_packet_transport_type := br_gn_packet_transport_type request,
        req_area := br_gn_area request,
        req_communication_profile := br_communication_profile request,
        req_traffic_class := br_traffic_class request,
        req_security_profile := br_security_profile request,
        req_its_aid := br_its_aid request,
        req_security_permissions := br_security_permissions request,
        req_data := data, req_length := int (length data),
        req_max_hop_limit := br_gn_max_hop_limit request,
        req_max_packet_lifetime := br_gn_max_packet_lifetime request\<rparr>"

definition btp_data_request :: "BTPDataRequest \<Rightarrow> (btp_router, unit) prog" where
  "btp_data_request request =
     (if br_btp_type request = BTP_B then
        bind_s (lift_s (btpb_encode
            \<lparr>btpb_destination_port = br_destination_port request,
             btpb_destination_port_info = br_destination_port_info request\<rparr>)) (\<lambda>header.
          then_s (on_gn_router (gn_data_request
              (gn_request_of_btp request (header @ br_data request)))) (return_s ()))
      else if br_btp_type request = BTP_A then
        bind_s (lift_s (btpa_encode
            \<lparr>btpa_destination_port = br_destination_port request,
             btpa_source_port = br_source_port request\<rparr>)) (\<lambda>header.
          then_s (on_gn_router (gn_data_request
              (gn_request_of_btp request (header @ br_data request)))) (return_s ()))
      else raise_s ValueError)"

text \<open>\<open>callback = self.indication_callbacks.get(port); if callback: callback(indication)\<close>.\<close>

definition call_callback :: "BTPDataIndication \<Rightarrow> (btp_router, unit) prog" where
  "call_callback indication =
     bind_s (gets_s (\<lambda>b. b)) (\<lambda>b.
       case b_indication_callbacks b of
         None \<Rightarrow> raise_s RuntimeError
       | Some callbacks \<Rightarrow>
           (case dict_get callbacks (bi_destination_port indication) of
              None \<Rightarrow> return_s ()
            | Some callback \<Rightarrow>
                then_s (modify_s (\<lambda>b. b\<lparr>b_calls :=
                    b_calls b @ [(bi_destination_port indication, indication)]\<rparr>))
                  (lift_s (callback (length (b_calls b)) indication))))"

definition btp_b_data_indication :: "GNDataIndication \<Rightarrow> (btp_router, unit) prog" where
  "btp_b_data_indication i =
     (let header = btpb_decode (ind_data i)
      in call_callback (set_destination_port_and_info (btpb_destination_port header)
           (btpb_destination_port_info header) (initialize_with_gn_data_indication i)))"

definition btp_a_data_indication :: "GNDataIndication \<Rightarrow> (btp_router, unit) prog" where
  "btp_a_data_indication i =
     (let base = initialize_with_gn_data_indication i; header = btpa_decode (ind_data i)
      in call_callback (default_BTPDataIndication
           \<lparr>bi_source_port := btpa_source_port header,
            bi_destination_port := btpa_destination_port header,
            bi_destination_port_info := 0,
            bi_gn_packet_transport_type := bi_gn_packet_transport_type base,
            bi_gn_destination_address := bi_gn_destination_address base,
            bi_gn_source_position_vector := bi_gn_source_position_vector base,
            bi_gn_traffic_class := bi_gn_traffic_class base,
            bi_length := bi_length base, bi_data := bi_data base\<rparr>))"

definition btp_data_indication :: "GNDataIndication \<Rightarrow> (btp_router, unit) prog" where
  "btp_data_indication i =
     (if ind_upper_protocol_entity i = BTP_B then btp_b_data_indication i
      else if ind_upper_protocol_entity i = BTP_A then btp_a_data_indication i
      else raise_s ValueError)"

text \<open>
  The stack a station runs: \<open>btp_data_indication\<close> is the GeoNetworking router's callback, and
  the call is the last thing the router does with a packet.
\<close>

definition btp_receive :: "bytes \<Rightarrow> (btp_router, unit) prog" where
  "btp_receive packet =
     bind_s (gets_s (\<lambda>b. length (r_indications (b_gn_router b)))) (\<lambda>n.
     then_s (on_gn_router (gn_data_indicate packet))
       (bind_s (gets_s (\<lambda>b. drop n (r_indications (b_gn_router b)))) (\<lambda>new.
          for_each_s new btp_data_indication)))"

section \<open>End to end\<close>

lemma on_gn_router_run:
  "m (b_gn_router b) = (res, r) \<Longrightarrow> on_gn_router m b = (res, b\<lparr>b_gn_router := r\<rparr>)"
  by (simp add: on_gn_router_def)

text \<open>A request that fits its header, for a single-hop broadcast.\<close>

definition valid_btp_request :: "BTPDataRequest \<Rightarrow> bool" where
  "valid_btp_request request \<longleftrightarrow>
     br_btp_type request \<in> {BTP_A, BTP_B}
     \<and> 0 \<le> br_destination_port request \<and> br_destination_port request < 2 ^ 16
     \<and> 0 \<le> br_source_port request \<and> br_source_port request < 2 ^ 16
     \<and> 0 \<le> br_destination_port_info request \<and> br_destination_port_info request < 2 ^ 16
     \<and> br_gn_packet_transport_type request = \<lparr>header_type = HT_TSB, header_subtype = SINGLE_HOP\<rparr>
     \<and> valid_tc (br_traffic_class request)
     \<and> 0 \<le> br_gn_max_hop_limit request \<and> br_gn_max_hop_limit request < 256
     \<and> length (br_data request) + 4 < 2 ^ 16"

text \<open>The indication that the receiving station is to get.\<close>

definition btp_indication :: "BTPDataRequest \<Rightarrow> LongPositionVector \<Rightarrow> BTPDataIndication" where
  "btp_indication request source =
     default_BTPDataIndication
       \<lparr>bi_source_port := (if br_btp_type request = BTP_A then br_source_port request else 0),
        bi_destination_port := br_destination_port request,
        bi_destination_port_info :=
          (if br_btp_type request = BTP_B then br_destination_port_info request else 0),
        bi_gn_packet_transport_type := br_gn_packet_transport_type request,
        bi_gn_source_position_vector := source,
        bi_gn_traffic_class := br_traffic_class request,
        bi_length := int (length (br_data request)), bi_data := br_data request\<rparr>"

lemma gn_request_of_btp_simps [simp]:
  "req_data (gn_request_of_btp request data) = data"
  "req_packet_transport_type (gn_request_of_btp request data) = br_gn_packet_transport_type request"
  "req_upper_protocol_entity (gn_request_of_btp request data) = br_btp_type request"
  "req_traffic_class (gn_request_of_btp request data) = br_traffic_class request"
  "req_destination (gn_request_of_btp request data) = None"
  "req_max_hop_limit (gn_request_of_btp request data) = br_gn_max_hop_limit request"
  "req_length (gn_request_of_btp request data) = int (length data)"
  by (simp_all add: gn_request_of_btp_def default_GNDataRequest_def)

lemma valid_gn_request_of_btp:
  "valid_btp_request request \<Longrightarrow> length header = 4
    \<Longrightarrow> valid_request (gn_request_of_btp request (header @ br_data request))"
  by (simp add: valid_btp_request_def valid_request_def TopoBroadcastHST_members_def)

text \<open>The header of a request, and the indication the receiver makes of it.\<close>

lemma btp_data_request_run:
  assumes "valid_btp_request request"
  obtains header where "length header = 4"
    "\<And>b. btp_data_request request b = then_s (on_gn_router (gn_data_request
        (gn_request_of_btp request (header @ br_data request)))) (return_s ()) b"
    "\<And>i b. ind_upper_protocol_entity i = br_btp_type request
      \<Longrightarrow> ind_data i = header @ br_data request
      \<Longrightarrow> ind_packet_transport_type i = br_gn_packet_transport_type request
      \<Longrightarrow> ind_traffic_class i = br_traffic_class request
      \<Longrightarrow> btp_data_indication i b
        = call_callback (btp_indication request (ind_source_position_vector i)) b"
proof (cases "br_btp_type request = BTP_B")
  case True
  let ?h = "\<lparr>btpb_destination_port = br_destination_port request,
    btpb_destination_port_info = br_destination_port_info request\<rparr>"
  have v: "valid_btpb ?h" using assms by (simp add: valid_btp_request_def valid_btpb_def)
  then obtain header where h: "btpb_encode ?h = Inr header" "length header = 4"
    using btpb.encode_total by blast
  have "btpb_decode (header @ br_data request) = ?h" by (rule btpb_decode_packet [OF v h(1)])
  then show thesis
    using True h
    by (intro that [of header])
      (simp_all add: btp_data_request_def btp_data_indication_def btp_b_data_indication_def
        btp_indication_def initialize_with_gn_data_indication_def set_destination_port_and_info_def
        default_BTPDataIndication_def Let_def)
next
  case False
  then have a: "br_btp_type request = BTP_A" using assms by (simp add: valid_btp_request_def)
  let ?h = "\<lparr>btpa_destination_port = br_destination_port request,
    btpa_source_port = br_source_port request\<rparr>"
  have v: "valid_btpa ?h" using assms by (simp add: valid_btp_request_def valid_btpa_def)
  then obtain header where h: "btpa_encode ?h = Inr header" "length header = 4"
    using btpa.encode_total by blast
  have "btpa_decode (header @ br_data request) = ?h" by (rule btpa_decode_packet [OF v h(1)])
  then show thesis
    using a h
    by (intro that [of header])
      (simp_all add: btp_data_request_def btp_data_indication_def btp_a_data_indication_def
        btp_indication_def initialize_with_gn_data_indication_def
        default_BTPDataIndication_def Let_def)
qed

text \<open>One packet goes out for a request, and receiving it is calling the callback of the port.\<close>

lemma btp_transfer:
  assumes "valid_btp_request request" "valid_lpv (r_ego_position_vector (b_gn_router s))"
    and "r_link_layer (b_gn_router s) = Some f" "\<And>n p. f n p = Inr ()"
    and "itsGnSecurity (r_mib (b_gn_router s)) = DISABLED"
    and "itsGnSecurity (r_mib (b_gn_router b)) = DISABLED"
    and "itsGnProtocolVersion (r_mib (b_gn_router b)) = 1" "r_indication_callback (b_gn_router b)"
    and "\<not> gn_address_eq (itsGnLocalGnAddr (r_mib (b_gn_router b)))
      (lpv_gn_addr (r_ego_position_vector (b_gn_router s)))"
  obtains p gn' b1 where "btp_data_request request s = (Inr (), s\<lparr>b_gn_router := gn'\<rparr>)"
    "r_sent gn' = r_sent (b_gn_router s) @ [p]"
    "btp_receive p b = then_s (call_callback
       (btp_indication request (r_ego_position_vector (b_gn_router s)))) (return_s ()) b1"
    "b_indication_callbacks b1 = b_indication_callbacks b" "b_calls b1 = b_calls b"
proof -
  obtain header where h: "length header = 4"
    and run: "\<And>b. btp_data_request request b = then_s (on_gn_router (gn_data_request
        (gn_request_of_btp request (header @ br_data request)))) (return_s ()) b"
    and ind: "\<And>i b. ind_upper_protocol_entity i = br_btp_type request
      \<Longrightarrow> ind_data i = header @ br_data request
      \<Longrightarrow> ind_packet_transport_type i = br_gn_packet_transport_type request
      \<Longrightarrow> ind_traffic_class i = br_traffic_class request
      \<Longrightarrow> btp_data_indication i b
        = call_callback (btp_indication request (ind_source_position_vector i)) b"
    using btp_data_request_run [OF assms(1)] by blast
  define gn where "gn = b_gn_router s"
  define req where "req = gn_request_of_btp request (header @ br_data request)"
  define pv where "pv = r_ego_position_vector gn"
  define i where "i = btp_indication request pv"
  have ptt: "req_packet_transport_type req = \<lparr>header_type = HT_TSB, header_subtype = SINGLE_HOP\<rparr>"
    using assms(1) by (simp add: req_def valid_btp_request_def)
  have valid: "valid_request req" unfolding req_def by (rule valid_gn_request_of_btp [OF assms(1) h])
  obtain gn' where gn': "gn_data_request req gn = (Inr ACCEPTED, gn')"
    using request_shb_accepted [OF valid assms(2,5,3,4) ptt] by (auto simp: gn_def)
  let ?i = "make_indication (ch_initialize_with_request req (r_mib gn))
    (bh_initialize_with_mib_request_and_rhl (r_mib gn) (req_max_packet_lifetime req) 1)
    \<lparr>header_type = HT_TSB, header_subtype = SINGLE_HOP\<rparr> None pv (req_data req)"
  obtain p t where sent: "r_sent gn' = r_sent gn @ [p]"
    and p: "gn_data_indicate p (b_gn_router b) = (Inr (), (b_gn_router b)\<lparr>r_location_table := t,
        r_indications := r_indications (b_gn_router b) @ [?i]\<rparr>)"
    using request_shb_received [OF gn' ptt valid] assms(2,3,5-9) unfolding gn_def pv_def
    by (metis option.distinct(1))
  define b1 where "b1 = b\<lparr>b_gn_router := (b_gn_router b)\<lparr>r_location_table := t,
    r_indications := r_indications (b_gn_router b) @ [?i]\<rparr>\<rparr>"
  have i: "btp_data_indication ?i b1 = call_callback i b1"
    using ind [of ?i] assms(1)
    by (simp add: i_def make_indication_def req_def ch_initialize_with_request_def Let_def
        valid_btp_request_def)
  have "on_gn_router (gn_data_indicate p) b = (Inr (), b1)"
    by (simp add: on_gn_router_def p b1_def)
  moreover have "drop (length (r_indications (b_gn_router b))) (r_indications (b_gn_router b1)) = [?i]"
    by (simp add: b1_def)
  ultimately have "btp_receive p b = then_s (btp_data_indication ?i) (return_s ()) b1"
    by (simp add: btp_receive_def then_s_def bind_s_def)
  then have receive: "btp_receive p b = then_s (call_callback i) (return_s ()) b1"
    using i by (simp add: then_s_def bind_s_def)
  have request: "btp_data_request request s = (Inr (), s\<lparr>b_gn_router := gn'\<rparr>)"
    using gn' by (simp add: run on_gn_router_def gn_def req_def then_s_def bind_s_def)
  show thesis
    by (rule that [OF request _ receive [unfolded i_def pv_def gn_def]])
      (use sent in \<open>simp_all add: b1_def gn_def\<close>)
qed

text \<open>
  C10: BTP end to end. A valid request for a single-hop broadcast, of type A or B, puts one
  packet on the air, and a station with frozen callbacks that receives it calls the callback
  of the destination port, and no other, exactly once, with the payload, its length, the
  ports, the transport type, the traffic class and the sender's position vector of the
  request. Without a callback for the port nothing is called.
\<close>

theorem btp_end_to_end:
  assumes "valid_btp_request request" "valid_lpv (r_ego_position_vector (b_gn_router s))"
    and "r_link_layer (b_gn_router s) = Some f" "\<And>n p. f n p = Inr ()"
    and "itsGnSecurity (r_mib (b_gn_router s)) = DISABLED"
    and "itsGnSecurity (r_mib (b_gn_router b)) = DISABLED"
    and "itsGnProtocolVersion (r_mib (b_gn_router b)) = 1" "r_indication_callback (b_gn_router b)"
    and "\<not> gn_address_eq (itsGnLocalGnAddr (r_mib (b_gn_router b)))
      (lpv_gn_addr (r_ego_position_vector (b_gn_router s)))"
    and "b_indication_callbacks b = Some callbacks"
  shows "\<exists>p s'. btp_data_request request s = (Inr (), s')
    \<and> r_sent (b_gn_router s') = r_sent (b_gn_router s) @ [p]
    \<and> (let i = btp_indication request (r_ego_position_vector (b_gn_router s)) in
        (case dict_get callbacks (br_destination_port request) of
           None \<Rightarrow> \<exists>b'. btp_receive p b = (Inr (), b') \<and> b_calls b' = b_calls b
         | Some callback \<Rightarrow> \<exists>b'. btp_receive p b = (callback (length (b_calls b)) i, b')
             \<and> b_calls b' = b_calls b @ [(br_destination_port request, i)]))"
proof -
  let ?i = "btp_indication request (r_ego_position_vector (b_gn_router s))"
  obtain p gn' b1 where "btp_data_request request s = (Inr (), s\<lparr>b_gn_router := gn'\<rparr>)"
    "r_sent gn' = r_sent (b_gn_router s) @ [p]"
    "btp_receive p b = then_s (call_callback ?i) (return_s ()) b1"
    "b_indication_callbacks b1 = Some callbacks" "b_calls b1 = b_calls b"
    using btp_transfer [OF assms(1-9)] assms(10) by metis
  moreover have "bi_destination_port ?i = br_destination_port request"
    by (simp add: btp_indication_def default_BTPDataIndication_def)
  ultimately show ?thesis
    by (intro exI [of _ p] exI [of _ "s\<lparr>b_gn_router := gn'\<rparr>"])
      (auto simp: call_callback_def then_s_def bind_s_def Let_def
        split: option.splits sum.splits prod.splits)
qed

text \<open>A cooperative awareness message for port 2001, and a station that listens there.\<close>

definition awareness_request :: BTPDataRequest where
  "awareness_request = default_BTPDataRequest
     \<lparr>br_destination_port := 2001, br_destination_port_info := 7, br_data := [1, 2, 3], br_length := 3\<rparr>"

definition listening_station :: btp_router where
  "listening_station = freeze_callbacks (snd (register_indication_callback_btp 2001
     (\<lambda>_ _. Inr ()) (btp_init (station 2))))"

lemma listening_station_simps [simp]:
  "b_gn_router listening_station = station 2"
  "b_indication_callbacks listening_station = Some [(2001, \<lambda>_ _. Inr ())]"
  "b_calls listening_station = []"
  by (simp_all add: listening_station_def freeze_callbacks_def register_indication_callback_btp_def
      btp_init_def)

lemma awareness_request_simps [simp]:
  "valid_btp_request awareness_request"
  "br_destination_port awareness_request = 2001"
  by (simp_all add: awareness_request_def default_BTPDataRequest_def valid_btp_request_def
      default_PacketTransportType_def)

lemma btp_end_to_end_witness:
  "\<exists>p s' b'. btp_data_request awareness_request (btp_init (station 1)) = (Inr (), s')
    \<and> r_sent (b_gn_router s') = [p] \<and> btp_receive p listening_station = (Inr (), b')
    \<and> b_calls b' = [(2001, btp_indication awareness_request (r_ego_position_vector (station 1)))]"
proof -
  have "(1 :: byte) \<noteq> 2" by simp
  then show ?thesis
    using btp_end_to_end [of awareness_request "btp_init (station 1)" "\<lambda>_ _. Inr ()" listening_station]
    by (auto simp: btp_init_def)
qed

section \<open>Callbacks\<close>

text \<open>
  What every method of a router with frozen callbacks keeps: the callbacks, and that a
  callback is called only for the port it was registered for.
\<close>

definition serves :: "(int, btp_callback) dict \<Rightarrow> btp_router \<Rightarrow> btp_router \<Rightarrow> bool" where
  "serves callbacks b b' \<longleftrightarrow> (b_indication_callbacks b = Some callbacks \<longrightarrow>
     b_indication_callbacks b' = Some callbacks
     \<and> b_pre_indication_callbacks b' = b_pre_indication_callbacks b
     \<and> (\<exists>new. b_calls b' = b_calls b @ new
         \<and> (\<forall>(port, i) \<in> set new. bi_destination_port i = port \<and> dict_get callbacks port \<noteq> None)))"

interpretation serves: step_rel "serves callbacks" for callbacks
proof unfold_locales
  show "serves callbacks b b" for b by (simp add: serves_def)
  show "serves callbacks b d" if "serves callbacks b c" "serves callbacks c d" for b c d
    unfolding serves_def
  proof (intro impI conjI)
    assume "b_indication_callbacks b = Some callbacks"
    then have c: "b_indication_callbacks c = Some callbacks"
      "b_pre_indication_callbacks c = b_pre_indication_callbacks b"
      and bc: "\<exists>n1. b_calls c = b_calls b @ n1 \<and> (\<forall>(port, i) \<in> set n1.
        bi_destination_port i = port \<and> dict_get callbacks port \<noteq> None)"
      using that(1) by (simp_all only: serves_def simp_thms)
    then have "b_indication_callbacks d = Some callbacks
      \<and> b_pre_indication_callbacks d = b_pre_indication_callbacks b"
      and cd: "\<exists>n2. b_calls d = b_calls c @ n2 \<and> (\<forall>(port, i) \<in> set n2.
        bi_destination_port i = port \<and> dict_get callbacks port \<noteq> None)"
      using that(2) by (simp_all only: serves_def simp_thms)
    then show "b_indication_callbacks d = Some callbacks"
      "b_pre_indication_callbacks d = b_pre_indication_callbacks b" by simp_all
    obtain n1 n2 where "b_calls d = b_calls b @ n1 @ n2" "\<forall>(port, i) \<in> set (n1 @ n2).
        bi_destination_port i = port \<and> dict_get callbacks port \<noteq> None"
      using bc cd by fastforce
    then show "\<exists>new. b_calls d = b_calls b @ new \<and> (\<forall>(port, i) \<in> set new.
        bi_destination_port i = port \<and> dict_get callbacks port \<noteq> None)" by blast
  qed
qed

lemma serves_on_gn_router: "obeys (serves callbacks) (on_gn_router m)"
  by (rule obeysI) (auto simp: on_gn_router_def serves_def split: prod.splits)

lemma serves_call_callback: "obeys (serves callbacks) (call_callback i)"
proof (rule obeysI)
  fix b res b'
  assume "call_callback i b = (res, b')"
  then show "serves callbacks b b'"
    by (auto simp: call_callback_def serves_def then_s_def bind_s_def
        split: option.splits prod.splits sum.splits)
qed

lemma serves_indication: "obeys (serves callbacks) (btp_data_indication i)"
  by (simp add: btp_data_indication_def btp_a_data_indication_def btp_b_data_indication_def Let_def
      serves_call_callback serves.obeys_pure)

lemma serves_request: "obeys (serves callbacks) (btp_data_request request)"
  unfolding btp_data_request_def
  by (intro serves.obeys_if serves.obeys_lift_bind serves.obeys_then serves_on_gn_router
      serves.obeys_pure)

lemma serves_receive: "obeys (serves callbacks) (btp_receive p)"
  unfolding btp_receive_def
  by (intro serves.obeys_bind serves.obeys_then serves.obeys_pure serves.obeys_for_each
      serves_on_gn_router serves_indication)

text \<open>
  After \<open>freeze_callbacks\<close> the table of callbacks never changes: a registration raises
  \<open>RuntimeError\<close> and changes nothing, and whatever requests are made, indications come in and
  packets are received, the table stays and each call made goes to a registered port, with an
  indication for that port.
\<close>

lemma frozen_callbacks:
  assumes "b_indication_callbacks b = Some callbacks"
    and "m \<in> range btp_data_request \<union> range btp_data_indication \<union> range btp_receive"
    and "m b = (res, b')"
  shows "register_indication_callback_btp port callback b = (Inl RuntimeError, b)
    \<and> b_indication_callbacks b' = Some callbacks
    \<and> b_pre_indication_callbacks b' = b_pre_indication_callbacks b
    \<and> (\<exists>new. b_calls b' = b_calls b @ new
        \<and> (\<forall>(port, i) \<in> set new. bi_destination_port i = port \<and> dict_get callbacks port \<noteq> None))"
proof -
  have "obeys (serves callbacks) m"
    using assms(2) serves_request serves_indication serves_receive by auto
  then have "serves callbacks b b'" using assms(3) by (rule obeysD)
  then show ?thesis
    using assms(1) by (simp add: serves_def register_indication_callback_btp_def)
qed

text \<open>An awareness message that the station hears, and one for a port nobody registered.\<close>

definition heard :: "int \<Rightarrow> GNDataIndication" where
  "heard port = default_GNDataIndication
     \<lparr>ind_upper_protocol_entity := BTP_B, ind_data := be_bytes 2 port @ [0, 0, 42]\<rparr>"

lemma frozen_callbacks_witness:
  "\<exists>b1 b2. btp_data_indication (heard 2001) listening_station = (Inr (), b1)
    \<and> map fst (b_calls b1) = [2001]
    \<and> btp_data_indication (heard 2002) b1 = (Inr (), b2) \<and> b_calls b2 = b_calls b1
    \<and> register_indication_callback_btp 2002 (\<lambda>_ _. Inr ()) b2 = (Inl RuntimeError, b2)"
proof -
  have heard: "btp_data_indication (heard port) b = call_callback (set_destination_port_and_info port 0
      (initialize_with_gn_data_indication (heard port))) b" if "0 \<le> port" "port < 2 ^ 16" for port b
    using two_ports_read [of port 0 "[42]"] that
    by (simp add: heard_def btp_data_indication_def btp_b_data_indication_def btpb_decode_def Let_def
        default_GNDataIndication_def numeral_2_eq_2)
  obtain b1 where b1: "btp_data_indication (heard 2001) listening_station = (Inr (), b1)"
    and calls: "map fst (b_calls b1) = [2001]"
    and frozen: "b_indication_callbacks b1 = Some [(2001, \<lambda>_ _. Inr ())]"
    by (simp add: heard call_callback_def set_destination_port_and_info_def then_s_def bind_s_def)
  have b2: "btp_data_indication (heard 2002) b1 = (Inr (), b1)"
    using frozen by (simp add: heard call_callback_def set_destination_port_and_info_def)
  have "register_indication_callback_btp 2002 (\<lambda>_ _. Inr ()) b1 = (Inl RuntimeError, b1)"
    using frozen_callbacks [where m = "btp_data_indication (heard 2002)" and b = b1, OF frozen _ b2]
    by blast
  then show ?thesis using b1 calls b2 by (intro exI [of _ b1]) simp
qed

section \<open>Limits\<close>

text \<open>
  A GeoUnicast request cannot be made through BTP: the destination address of the request
  is not handed on, so that the router fails with \<open>AssertionError\<close>, for every destination and
  payload, and sends nothing.
\<close>

lemma btp_unicast_fails:
  assumes "header_type (br_gn_packet_transport_type request) = HT_GEOUNICAST"
    and "br_btp_type request \<in> {BTP_A, BTP_B}"
    and "0 \<le> br_destination_port request" "br_destination_port request < 2 ^ 16"
    and "0 \<le> br_source_port request" "br_source_port request < 2 ^ 16"
    and "0 \<le> br_destination_port_info request" "br_destination_port_info request < 2 ^ 16"
  shows "btp_data_request request b = (Inl AssertionError, b)"
proof -
  have "gn_data_request (gn_request_of_btp request data) r = (Inl AssertionError, r)" for data r
    using assms(1) by (simp add: gn_data_request_def gn_data_request_guc_def Let_def)
  then have "then_s (on_gn_router (gn_data_request (gn_request_of_btp request data))) (return_s ()) b
      = (Inl AssertionError, b)" for data
    by (simp add: then_s_def bind_s_def on_gn_router_def)
  moreover have "\<exists>h. btpb_encode \<lparr>btpb_destination_port = br_destination_port request,
      btpb_destination_port_info = br_destination_port_info request\<rparr> = Inr h"
    by (metis btpb.encode_total valid_btpb_def assms(3,4,7,8) BTPBHeader.select_convs)
  moreover have "\<exists>h. btpa_encode \<lparr>btpa_destination_port = br_destination_port request,
      btpa_source_port = br_source_port request\<rparr> = Inr h"
    by (metis btpa.encode_total valid_btpa_def assms(3-6) BTPAHeader.select_convs)
  ultimately show ?thesis
    using assms(2) by (auto simp: btp_data_request_def)
qed

lemma btp_unicast_fails_witness:
  "btp_data_request (awareness_request\<lparr>br_gn_packet_transport_type :=
      \<lparr>header_type = HT_GEOUNICAST, header_subtype = HST_UNSPECIFIED\<rparr>,
      br_gn_destination_address := station_address 2\<rparr>) (btp_init (station 1))
    = (Inl AssertionError, btp_init (station 1))"
  by (rule btp_unicast_fails) (simp_all add: awareness_request_def default_BTPDataRequest_def)

text \<open>
  Port numbers are not checked: a destination port info that does not fit into 16 bits
  runs over into the destination port. The header that is sent, and understood by the
  receiver, has the upper half of the info or-ed into the port.
\<close>

lemma btpb_port_info_runs_over:
  assumes "0 \<le> port" "port < 2 ^ 16" "0 \<le> info" "info < 2 ^ 32"
  shows "\<exists>bs. btpb_encode \<lparr>btpb_destination_port = port, btpb_destination_port_info = info\<rparr> = Inr bs
    \<and> btpb_decode (bs @ data) = \<lparr>btpb_destination_port = port OR (info div 2 ^ 16),
        btpb_destination_port_info = info mod 2 ^ 16\<rparr>"
proof -
  define port' where "port' = port OR (info div 2 ^ 16)"
  have hi: "0 \<le> info div 2 ^ 16" "info div 2 ^ 16 < 2 ^ 16"
    using assms(3,4) by (simp_all add: pos_imp_zdiv_nonneg_iff)
  have p: "0 \<le> port'" "port' < 2 ^ 16"
    using assms(1,2) hi OR_upper [of port 16 "info div 2 ^ 16"] by (simp_all add: port'_def)
  have "info = push_bit 16 (info div 2 ^ 16) OR info mod 2 ^ 16"
    using push_bit_or_int [of "info mod 2 ^ 16" 16 "info div 2 ^ 16"] by simp
  then have "push_bit 16 port OR info = push_bit 16 port' OR info mod 2 ^ 16"
    unfolding port'_def push_bit_or by (metis or.assoc)
  then have enc: "btpb_encode \<lparr>btpb_destination_port = port, btpb_destination_port_info = info\<rparr>
      = btpb_encode \<lparr>btpb_destination_port = port', btpb_destination_port_info = info mod 2 ^ 16\<rparr>"
    by (simp add: btpb_encode_def btpb_encode_to_int_def)
  have v: "valid_btpb \<lparr>btpb_destination_port = port', btpb_destination_port_info = info mod 2 ^ 16\<rparr>"
    using p by (simp add: valid_btpb_def)
  obtain bs where "btpb_encode \<lparr>btpb_destination_port = port',
      btpb_destination_port_info = info mod 2 ^ 16\<rparr> = Inr bs"
    using btpb.encode_total [OF v] by blast
  then show ?thesis
    using btpb_decode_packet [OF v] enc by (auto simp: port'_def)
qed

lemma btpb_port_info_runs_over_witness:
  "\<exists>bs. btpb_encode \<lparr>btpb_destination_port = 2002, btpb_destination_port_info = 65536\<rparr> = Inr bs
    \<and> btpb_decode bs = \<lparr>btpb_destination_port = 2003, btpb_destination_port_info = 0\<rparr>"
  using btpb_port_info_runs_over [of 2002 65536 "[]"] by simp

end
