(* ===== verification/DccReactive.thy ===== *)
theory DccReactive
  imports StateResult
begin

text \<open>
  The reactive congestion control (\<open>src/flexstack/management/dcc_reactive.py\<close>): five states in
  a row, of which an evaluation moves at most one step towards the state whose band contains
  the measured channel busy ratio. Floats are real numbers.
\<close>

section \<open>States and tables\<close>

datatype DccState = RELAXED | ACTIVE_1 | ACTIVE_2 | ACTIVE_3 | RESTRICTIVE

fun DccState_value :: "DccState \<Rightarrow> nat" where
  "DccState_value RELAXED = 0"
| "DccState_value ACTIVE_1 = 1"
| "DccState_value ACTIVE_2 = 2"
| "DccState_value ACTIVE_3 = 3"
| "DccState_value RESTRICTIVE = 4"

text \<open>The states are ordered by how much they restrict.\<close>

instantiation DccState :: linorder
begin

definition less_eq_DccState :: "DccState \<Rightarrow> DccState \<Rightarrow> bool" where
  "less_eq_DccState s t \<longleftrightarrow> DccState_value s \<le> DccState_value t"

definition less_DccState :: "DccState \<Rightarrow> DccState \<Rightarrow> bool" where
  "less_DccState s t \<longleftrightarrow> DccState_value s < DccState_value t"

instance
proof
  show "s = t" if "s \<le> t" "t \<le> s" for s t :: DccState
    using that by (cases s; cases t) (simp_all add: less_eq_DccState_def)
qed (auto simp: less_eq_DccState_def less_DccState_def)

end

record DccStateConfig =
  cfg_cbr_min :: real
  cfg_cbr_max :: real
  cfg_packet_rate_hz :: real
  cfg_t_off_ms :: real

definition config :: "real \<Rightarrow> real \<Rightarrow> real \<Rightarrow> real \<Rightarrow> DccStateConfig" where
  "config lo hi rate off =
     \<lparr>cfg_cbr_min = lo, cfg_cbr_max = hi, cfg_packet_rate_hz = rate, cfg_t_off_ms = off\<rparr>"

definition TABLE_A1 :: "(DccState, DccStateConfig) dict" where
  "TABLE_A1 =
     [(RELAXED, config 0 (30 / 100) 10 100),
      (ACTIVE_1, config (30 / 100) (40 / 100) 5 200),
      (ACTIVE_2, config (40 / 100) (50 / 100) (25 / 10) 400),
      (ACTIVE_3, config (50 / 100) (60 / 100) 2 500),
      (RESTRICTIVE, config (60 / 100) (101 / 100) 1 1000)]"

definition TABLE_A2 :: "(DccState, DccStateConfig) dict" where
  "TABLE_A2 =
     [(RELAXED, config 0 (30 / 100) 20 50),
      (ACTIVE_1, config (30 / 100) (40 / 100) 10 100),
      (ACTIVE_2, config (40 / 100) (50 / 100) 5 200),
      (ACTIVE_3, config (50 / 100) (65 / 100) 4 250),
      (RESTRICTIVE, config (65 / 100) (101 / 100) 1 1000)]"

definition STATE_ORDER :: "DccState list" where
  "STATE_ORDER = [RELAXED, ACTIVE_1, ACTIVE_2, ACTIVE_3, RESTRICTIVE]"

section \<open>The algorithm\<close>

record DccReactiveOutput =
  out_state :: DccState
  out_packet_rate_hz :: real
  out_t_off_ms :: real

record DccReactive =
  dcc_table :: "(DccState, DccStateConfig) dict"
  dcc_state :: DccState

definition dcc_reactive_init :: "int \<Rightarrow> DccReactive" where
  "dcc_reactive_init t_on_max_us =
     \<lparr>dcc_table = (if t_on_max_us \<le> 500 then TABLE_A2 else TABLE_A1), dcc_state = RELAXED\<rparr>"

definition target_state :: "(DccState, DccStateConfig) dict \<Rightarrow> real \<Rightarrow> DccState" where
  "target_state table cbr =
     (case find (\<lambda>(state, cfg). cfg_cbr_min cfg \<le> cbr \<and> cbr < cfg_cbr_max cfg) table of
        None \<Rightarrow> RESTRICTIVE
      | Some (state, cfg) \<Rightarrow> state)"

text \<open>Python's \<open>xs.index(x)\<close> and \<open>xs[i]\<close> for \<open>i \<ge> 0\<close>.\<close>

fun list_index :: "'a list \<Rightarrow> 'a \<Rightarrow> nat result" where
  "list_index [] x = Inl ValueError"
| "list_index (y # ys) x = (if y = x then Inr 0 else rbind (list_index ys x) (\<lambda>n. Inr (Suc n)))"

definition list_item :: "'a list \<Rightarrow> nat \<Rightarrow> 'a result" where
  "list_item xs i = (if i < length xs then Inr (xs ! i) else Inl IndexError)"

definition dcc_update :: "real \<Rightarrow> (DccReactive, DccReactiveOutput) prog" where
  "dcc_update cbr =
     (if \<not> (0 \<le> cbr \<and> cbr \<le> 1) then raise_s ValueError
      else bind_s (gets_s (\<lambda>d. d)) (\<lambda>d.
        let target = target_state (dcc_table d) cbr in
        bind_s (lift_s (list_index STATE_ORDER (dcc_state d))) (\<lambda>current_idx.
        bind_s (lift_s (list_index STATE_ORDER target)) (\<lambda>target_idx.
        let idx = (if target_idx > current_idx then current_idx + 1
                   else if target_idx < current_idx then current_idx - 1
                   else current_idx) in
        bind_s (lift_s (list_item STATE_ORDER idx)) (\<lambda>state.
        then_s (modify_s (\<lambda>d. d\<lparr>dcc_state := state\<rparr>))
          (bind_s (lift_s (get_key (dict_get (dcc_table d) state))) (\<lambda>cfg.
           return_s \<lparr>out_state = state, out_packet_rate_hz = cfg_packet_rate_hz cfg,
                     out_t_off_ms = cfg_t_off_ms cfg\<rparr>)))))))"

section \<open>One evaluation\<close>

lemma STATE_ORDER_simps [simp]:
  "list_index STATE_ORDER s = Inr (DccState_value s)"
  "list_item STATE_ORDER (DccState_value s) = Inr s"
  by (cases s; simp add: STATE_ORDER_def list_item_def)+

text \<open>A neighbour of a state in the order, towards another state.\<close>

definition step_towards :: "DccState \<Rightarrow> DccState \<Rightarrow> DccState" where
  "step_towards target s = STATE_ORDER ! (if DccState_value target > DccState_value s
     then DccState_value s + 1 else if DccState_value target < DccState_value s
     then DccState_value s - 1 else DccState_value s)"

definition dcc_ok :: "DccReactive \<Rightarrow> bool" where
  "dcc_ok d \<longleftrightarrow> dcc_table d \<in> {TABLE_A1, TABLE_A2}"

lemma dcc_ok_init [simp]: "dcc_ok (dcc_reactive_init t)"
  by (simp add: dcc_ok_def dcc_reactive_init_def)

lemma step_index:
  "list_item STATE_ORDER (if DccState_value t > DccState_value s then DccState_value s + 1
     else if DccState_value t < DccState_value s then DccState_value s - 1 else DccState_value s)
   = Inr (step_towards t s)"
  by (cases s; cases t; simp add: step_towards_def STATE_ORDER_def list_item_def)

lemma table_total: "dcc_ok d \<Longrightarrow> \<exists>cfg. dict_get (dcc_table d) s = Some cfg"
  by (cases s) (auto simp: dcc_ok_def TABLE_A1_def TABLE_A2_def)

lemma dcc_update_run:
  assumes "dcc_ok d" "0 \<le> cbr" "cbr \<le> 1"
  obtains cfg where "dict_get (dcc_table d) (step_towards (target_state (dcc_table d) cbr) (dcc_state d)) = Some cfg"
    "dcc_update cbr d = (Inr \<lparr>out_state = step_towards (target_state (dcc_table d) cbr) (dcc_state d),
        out_packet_rate_hz = cfg_packet_rate_hz cfg, out_t_off_ms = cfg_t_off_ms cfg\<rparr>,
      d\<lparr>dcc_state := step_towards (target_state (dcc_table d) cbr) (dcc_state d)\<rparr>)"
proof -
  obtain cfg where "dict_get (dcc_table d)
      (step_towards (target_state (dcc_table d) cbr) (dcc_state d)) = Some cfg"
    using table_total [OF assms(1)] by blast
  then show thesis
    using that assms by (simp add: dcc_update_def Let_def step_index)
qed

section \<open>Properties\<close>

lemma step_towards_value:
  "DccState_value (step_towards t s) = (if DccState_value t > DccState_value s
     then DccState_value s + 1 else if DccState_value t < DccState_value s
     then DccState_value s - 1 else DccState_value s)"
  by (cases s; cases t; simp add: step_towards_def STATE_ORDER_def)

lemma DccState_value_inject [simp]: "DccState_value s = DccState_value t \<longleftrightarrow> s = t"
  by (cases s; cases t; simp)

lemma DccState_value_le_4: "DccState_value s \<le> 4"
  by (cases s) simp_all

text \<open>The bands cover the range of the ratio without a gap or an overlap.\<close>

lemma target_state_band:
  assumes "dcc_ok d" "0 \<le> cbr" "cbr \<le> 1"
  shows "target_state (dcc_table d) cbr = s
    \<longleftrightarrow> (\<exists>cfg. dict_get (dcc_table d) s = Some cfg \<and> cfg_cbr_min cfg \<le> cbr \<and> cbr < cfg_cbr_max cfg)"
proof -
  from assms(1) consider "dcc_table d = TABLE_A1" | "dcc_table d = TABLE_A2"
    by (auto simp: dcc_ok_def)
  then show ?thesis
  proof cases
    case 1
    then show ?thesis using assms(2,3)
      by (cases s) (auto simp: TABLE_A1_def target_state_def config_def)
  next
    case 2
    then show ?thesis using assms(2,3)
      by (cases s) (auto simp: TABLE_A2_def target_state_def config_def)
  qed
qed

lemma target_state_mono:
  assumes "dcc_ok d" "0 \<le> cbr" "cbr \<le> cbr'"
  shows "target_state (dcc_table d) cbr \<le> target_state (dcc_table d) cbr'"
  using assms by (auto simp: dcc_ok_def TABLE_A1_def TABLE_A2_def target_state_def config_def
      less_eq_DccState_def)

text \<open>
  C11: One evaluation of the reactive control. The state moves at most one place in the order,
  towards the state whose band contains the measured ratio, which exists and is unique, and
  stays there once reached; the rate and the gap returned are the table's for the new state
  and inverse to each other. A ratio outside \<open>[0, 1]\<close> raises \<open>ValueError\<close> and changes nothing.
\<close>

theorem dcc_update_step:
  assumes "dcc_ok d"
  shows "if 0 \<le> cbr \<and> cbr \<le> 1
    then \<exists>target. (\<forall>s. s = target \<longleftrightarrow> (\<exists>cfg. dict_get (dcc_table d) s = Some cfg
           \<and> cfg_cbr_min cfg \<le> cbr \<and> cbr < cfg_cbr_max cfg))
         \<and> (\<exists>d' out cfg. dcc_update cbr d = (Inr out, d') \<and> out_state out = dcc_state d'
           \<and> dcc_table d' = dcc_table d
           \<and> int (DccState_value (dcc_state d')) - int (DccState_value (dcc_state d))
              = sgn (int (DccState_value target) - int (DccState_value (dcc_state d)))
           \<and> dict_get (dcc_table d) (dcc_state d') = Some cfg
           \<and> out_packet_rate_hz out = cfg_packet_rate_hz cfg \<and> out_t_off_ms out = cfg_t_off_ms cfg
           \<and> out_packet_rate_hz out * out_t_off_ms out = 1000)
    else dcc_update cbr d = (Inl ValueError, d)"
proof (cases "0 \<le> cbr \<and> cbr \<le> 1")
  case True
  then have r: "0 \<le> cbr" "cbr \<le> 1" by auto
  define t where "t = target_state (dcc_table d) cbr"
  define s' where "s' = step_towards t (dcc_state d)"
  obtain cfg where cfg: "dict_get (dcc_table d) s' = Some cfg"
    and run: "dcc_update cbr d = (Inr \<lparr>out_state = s', out_packet_rate_hz = cfg_packet_rate_hz cfg,
        out_t_off_ms = cfg_t_off_ms cfg\<rparr>, d\<lparr>dcc_state := s'\<rparr>)"
    using dcc_update_run [OF assms r] by (auto simp: s'_def t_def)
  have "cfg_packet_rate_hz cfg * cfg_t_off_ms cfg = 1000"
    using cfg assms by (cases s') (auto simp: dcc_ok_def TABLE_A1_def TABLE_A2_def config_def)
  moreover have "int (DccState_value s') - int (DccState_value (dcc_state d))
      = sgn (int (DccState_value t) - int (DccState_value (dcc_state d)))"
    by (auto simp: s'_def step_towards_value sgn_if)
  moreover have "s = t \<longleftrightarrow> (\<exists>cfg. dict_get (dcc_table d) s = Some cfg
      \<and> cfg_cbr_min cfg \<le> cbr \<and> cbr < cfg_cbr_max cfg)" for s
    using target_state_band [OF assms r, of s] by (auto simp: t_def)
  ultimately have "(\<forall>s. s = t \<longleftrightarrow> (\<exists>cfg. dict_get (dcc_table d) s = Some cfg
           \<and> cfg_cbr_min cfg \<le> cbr \<and> cbr < cfg_cbr_max cfg))
         \<and> (\<exists>d' out cfg. dcc_update cbr d = (Inr out, d') \<and> out_state out = dcc_state d'
           \<and> dcc_table d' = dcc_table d
           \<and> int (DccState_value (dcc_state d')) - int (DccState_value (dcc_state d))
              = sgn (int (DccState_value t) - int (DccState_value (dcc_state d)))
           \<and> dict_get (dcc_table d) (dcc_state d') = Some cfg
           \<and> out_packet_rate_hz out = cfg_packet_rate_hz cfg \<and> out_t_off_ms out = cfg_t_off_ms cfg
           \<and> out_packet_rate_hz out * out_t_off_ms out = 1000)"
    using cfg by (simp add: run)
  then show ?thesis using True by auto
next
  case False
  then have "dcc_update cbr d = (Inl ValueError, d)" by (auto simp: dcc_update_def)
  then show ?thesis using False by (simp only: if_False)
qed

lemma dcc_update_step_witness:
  "\<exists>d' out. dcc_update (35 / 100) (dcc_reactive_init 1000) = (Inr out, d')
    \<and> int (DccState_value (dcc_state d')) = 1
    \<and> dcc_update 2 d' = (Inl ValueError, d')"
proof -
  let ?d = "dcc_reactive_init 1000"
  obtain target d' out where run: "dcc_update (35 / 100) ?d = (Inr out, d')"
    and tab: "dcc_table d' = dcc_table ?d"
    and target: "\<forall>s. s = target \<longleftrightarrow> (\<exists>cfg. dict_get (dcc_table ?d) s = Some cfg
      \<and> cfg_cbr_min cfg \<le> 35 / 100 \<and> 35 / 100 < cfg_cbr_max cfg)"
    and st: "int (DccState_value (dcc_state d')) - int (DccState_value (dcc_state ?d))
      = sgn (int (DccState_value target) - int (DccState_value (dcc_state ?d)))"
    using dcc_update_step [of ?d "35 / 100"] by auto
  have "ACTIVE_1 = target"
    using target [rule_format, of ACTIVE_1] by (simp add: dcc_reactive_init_def TABLE_A1_def config_def)
  then have st: "int (DccState_value (dcc_state d')) = 1"
    using st by (simp add: dcc_reactive_init_def flip: \<open>ACTIVE_1 = target\<close>)
  have "dcc_update 2 d' = (Inl ValueError, d')"
    using dcc_update_step [of d' 2] tab by (simp add: dcc_ok_def dcc_reactive_init_def)
  then show ?thesis using run st by blast
qed

text \<open>The state after a sequence of evaluations.\<close>

definition dcc_run :: "real list \<Rightarrow> DccReactive \<Rightarrow> DccReactive" where
  "dcc_run cbrs d = foldl (\<lambda>d cbr. snd (dcc_update cbr d)) d cbrs"

lemma dcc_update_state:
  assumes "dcc_ok d" "0 \<le> cbr" "cbr \<le> 1"
  shows "dcc_state (snd (dcc_update cbr d)) = step_towards (target_state (dcc_table d) cbr) (dcc_state d)"
    "dcc_table (snd (dcc_update cbr d)) = dcc_table d" "dcc_ok (snd (dcc_update cbr d))"
  using dcc_update_run [OF assms] assms(1) by (metis snd_conv DccReactive.select_convs DccReactive.surjective DccReactive.update_convs(2) dcc_ok_def)+

text \<open>
  C12: The control settles. From any state, evaluations whose ratios all lie in the band of one
  state bring the control to that state within four of them, and keep it there: after \<open>n\<close>
  evaluations the distance to the state is the distance before less \<open>n\<close>.
\<close>

theorem dcc_settles:
  assumes "dcc_ok d" "\<forall>cbr \<in> set cbrs. 0 \<le> cbr \<and> cbr \<le> 1 \<and> target_state (dcc_table d) cbr = target"
  shows "\<bar>int (DccState_value (dcc_state (dcc_run cbrs d))) - int (DccState_value target)\<bar>
      = max 0 (\<bar>int (DccState_value (dcc_state d)) - int (DccState_value target)\<bar> - int (length cbrs))
    \<and> (4 \<le> length cbrs \<longrightarrow> dcc_state (dcc_run cbrs d) = target)"
proof -
  have dist: "\<bar>int (DccState_value (dcc_state (dcc_run cbrs d))) - int (DccState_value target)\<bar>
      = max 0 (\<bar>int (DccState_value (dcc_state d)) - int (DccState_value target)\<bar> - int (length cbrs))"
    using assms
  proof (induction cbrs arbitrary: d)
    case (Cons cbr cbrs)
    let ?d = "snd (dcc_update cbr d)"
    have c: "0 \<le> cbr" "cbr \<le> 1" "target_state (dcc_table d) cbr = target" using Cons.prems by auto
    note upd = dcc_update_state [OF Cons.prems(1) c(1,2)]
    have "\<bar>int (DccState_value (dcc_state ?d)) - int (DccState_value target)\<bar>
        = max 0 (\<bar>int (DccState_value (dcc_state d)) - int (DccState_value target)\<bar> - 1)"
      using upd(1) c(3) by (simp add: step_towards_value)
    moreover have "dcc_run (cbr # cbrs) d = dcc_run cbrs ?d" by (simp add: dcc_run_def)
    moreover have "\<bar>int (DccState_value (dcc_state (dcc_run cbrs ?d))) - int (DccState_value target)\<bar>
        = max 0 (\<bar>int (DccState_value (dcc_state ?d)) - int (DccState_value target)\<bar> - int (length cbrs))"
      using Cons.IH [OF upd(3)] Cons.prems(2) upd(2) by simp
    ultimately show ?case by simp linarith
  qed (simp add: dcc_run_def)
  then have "int (DccState_value (dcc_state (dcc_run cbrs d))) = int (DccState_value target)"
    if "4 \<le> length cbrs"
    using that DccState_value_le_4 [of target] DccState_value_le_4 [of "dcc_state d"] by linarith
  then show ?thesis using dist by auto
qed

lemma dcc_settles_witness:
  "dcc_state (dcc_run [7 / 10, 1, 9 / 10, 8 / 10] (dcc_reactive_init 1000)) = RESTRICTIVE"
proof -
  have "target_state (dcc_table (dcc_reactive_init 1000)) cbr = RESTRICTIVE"
    if "cbr \<in> {7 / 10, 1, 9 / 10, 8 / 10}" for cbr
    using that by (auto simp: dcc_reactive_init_def target_state_def TABLE_A1_def config_def)
  then show ?thesis
    using dcc_settles [OF dcc_ok_init, of "[7 / 10, 1, 9 / 10, 8 / 10]" 1000 RESTRICTIVE] by simp
qed

text \<open>
  More load never allows more. Of two controls with the same table, the one that starts
  in a state at least as restrictive and measures ratios at least as high stays in a state at
  least as restrictive throughout, so that its rate is at most, and its gap at least, the
  other's.
\<close>

lemma dcc_monotone:
  assumes "dcc_ok d" "dcc_table d' = dcc_table d" "dcc_state d \<le> dcc_state d'"
    and "list_all2 (\<lambda>cbr cbr'. 0 \<le> cbr \<and> cbr \<le> cbr' \<and> cbr' \<le> 1) cbrs cbrs'"
    and "dict_get (dcc_table d) (dcc_state (dcc_run cbrs d)) = Some cfg"
    and "dict_get (dcc_table d') (dcc_state (dcc_run cbrs' d')) = Some cfg'"
  shows "dcc_state (dcc_run cbrs d) \<le> dcc_state (dcc_run cbrs' d')
    \<and> cfg_packet_rate_hz cfg' \<le> cfg_packet_rate_hz cfg \<and> cfg_t_off_ms cfg \<le> cfg_t_off_ms cfg'"
proof -
  have le: "dcc_state (dcc_run cbrs d) \<le> dcc_state (dcc_run cbrs' d')"
    using assms(4,1-3)
  proof (induction arbitrary: d d' rule: list_all2_induct)
    case (Cons cbr cbrs cbr' cbrs')
    let ?d = "snd (dcc_update cbr d)" and ?d' = "snd (dcc_update cbr' d')"
    have c: "0 \<le> cbr" "cbr \<le> 1" "0 \<le> cbr'" "cbr' \<le> 1" "cbr \<le> cbr'" using Cons.hyps(1) by auto
    have ok': "dcc_ok d'" using Cons.prems by (simp add: dcc_ok_def)
    note upd = dcc_update_state [OF Cons.prems(1) c(1,2)]
    note upd' = dcc_update_state [OF ok' c(3,4)]
    have "target_state (dcc_table d) cbr \<le> target_state (dcc_table d') cbr'"
      using target_state_mono [OF Cons.prems(1) c(1,5)] Cons.prems(2) by simp
    then have "dcc_state ?d \<le> dcc_state ?d'"
      using Cons.prems(3) unfolding upd(1) upd'(1)
      by (auto simp: less_eq_DccState_def step_towards_value)
    moreover have "dcc_table ?d' = dcc_table ?d" using upd(2) upd'(2) Cons.prems(2) by simp
    ultimately have "dcc_state (dcc_run cbrs ?d) \<le> dcc_state (dcc_run cbrs' ?d')"
      by (intro Cons.IH upd(3))
    then show ?case by (simp add: dcc_run_def)
  qed (simp add: dcc_run_def)
  moreover have "cfg_packet_rate_hz cfg' \<le> cfg_packet_rate_hz cfg \<and> cfg_t_off_ms cfg \<le> cfg_t_off_ms cfg'"
    using le assms(1,2,5,6)
    by (cases "dcc_state (dcc_run cbrs d)"; cases "dcc_state (dcc_run cbrs' d')")
      (auto simp: dcc_ok_def TABLE_A1_def TABLE_A2_def config_def less_eq_DccState_def)
  ultimately show ?thesis by blast
qed

end
