(* ===== verification/DccAdaptive.thy ===== *)
theory DccAdaptive
  imports StateResult
begin

text \<open>
  The adaptive congestion control and the gate keeper
  (\<open>src/flexstack/management/dcc_adaptive.py\<close>). The controller smooths the channel busy ratio
  and steers \<open>delta\<close>, the share of the channel the station may use; the gate keeper admits a
  packet when the gate is open and closes it for a time that depends on \<open>delta\<close>. Floats are
  real numbers.
\<close>

section \<open>The controller\<close>

record DccAdaptiveParameters =
  p_alpha :: real
  p_beta :: real
  p_cbr_target :: real
  p_delta_max :: real
  p_delta_min :: real
  p_delta_up_max :: real
  p_delta_down_max :: real

definition default_DccAdaptiveParameters :: DccAdaptiveParameters where
  "default_DccAdaptiveParameters =
     \<lparr>p_alpha = 16 / 1000, p_beta = 12 / 10000, p_cbr_target = 68 / 100, p_delta_max = 3 / 100,
      p_delta_min = 6 / 10000, p_delta_up_max = 5 / 10000, p_delta_down_max = - 25 / 100000\<rparr>"

record DccAdaptive =
  ad_parameters :: DccAdaptiveParameters
  ad_cbr_its_s :: real
  ad_delta :: real

definition adaptive_init :: "DccAdaptiveParameters \<Rightarrow> DccAdaptive" where
  "adaptive_init p = \<lparr>ad_parameters = p, ad_cbr_its_s = 0, ad_delta = p_delta_min p\<rparr>"

text \<open>The five steps of an evaluation.\<close>

definition cbr_average :: "real \<Rightarrow> real \<Rightarrow> real option \<Rightarrow> real option \<Rightarrow> real" where
  "cbr_average cbr_local cbr_local_previous cbr_global cbr_global_previous =
     (case (cbr_global, cbr_global_previous) of
        (Some g, Some g') \<Rightarrow> (g + g') / 2
      | _ \<Rightarrow> (cbr_local + cbr_local_previous) / 2)"

definition delta_offset :: "DccAdaptiveParameters \<Rightarrow> real \<Rightarrow> real" where
  "delta_offset p cbr_its_s =
     (let diff = p_cbr_target p - cbr_its_s
      in if diff > 0 then min (p_beta p * diff) (p_delta_up_max p)
         else max (p_beta p * diff) (p_delta_down_max p))"

definition clamp_delta :: "DccAdaptiveParameters \<Rightarrow> real \<Rightarrow> real" where
  "clamp_delta p delta =
     (let delta = (if delta > p_delta_max p then p_delta_max p else delta)
      in if delta < p_delta_min p then p_delta_min p else delta)"

definition adaptive_update ::
    "real \<Rightarrow> real \<Rightarrow> real option \<Rightarrow> real option \<Rightarrow> (DccAdaptive, real) prog" where
  "adaptive_update cbr_local cbr_local_previous cbr_global cbr_global_previous =
     (if \<not> (0 \<le> cbr_local \<and> cbr_local \<le> 1) then raise_s ValueError
      else if \<not> (0 \<le> cbr_local_previous \<and> cbr_local_previous \<le> 1) then raise_s ValueError
      else bind_s (gets_s ad_parameters) (\<lambda>p.
        let cbr_avg = cbr_average cbr_local cbr_local_previous cbr_global cbr_global_previous in
        then_s (modify_s (\<lambda>a. a\<lparr>ad_cbr_its_s := 1 / 2 * ad_cbr_its_s a + 1 / 2 * cbr_avg\<rparr>))
        (then_s (modify_s (\<lambda>a. a\<lparr>ad_delta :=
            (1 - p_alpha p) * ad_delta a + delta_offset p (ad_cbr_its_s a)\<rparr>))
        (then_s (modify_s (\<lambda>a. a\<lparr>ad_delta := clamp_delta p (ad_delta a)\<rparr>))
          (gets_s ad_delta)))))"

section \<open>The gate keeper\<close>

record GateKeeper =
  gk_delta :: real
  gk_t_pg :: "real option"
  gk_t_go :: "real option"

definition GATE_OPEN_MIN_INTERVAL_S :: real where
  "GATE_OPEN_MIN_INTERVAL_S = 25 / 1000"

definition GATE_OPEN_MAX_INTERVAL_S :: real where
  "GATE_OPEN_MAX_INTERVAL_S = 1"

definition T_EPSILON :: real where
  "T_EPSILON = 1 / 10 ^ 9"

definition gate_init :: "real \<Rightarrow> GateKeeper" where
  "gate_init delta = \<lparr>gk_delta = delta, gk_t_pg = None, gk_t_go = None\<rparr>"

definition is_open :: "real \<Rightarrow> GateKeeper \<Rightarrow> bool" where
  "is_open t g = (case gk_t_go g of None \<Rightarrow> True | Some t_go \<Rightarrow> t \<ge> t_go - T_EPSILON)"

text \<open>Both equations end with the same clamp.\<close>

definition clamp_interval :: "real \<Rightarrow> real" where
  "clamp_interval x = min (max x GATE_OPEN_MIN_INTERVAL_S) GATE_OPEN_MAX_INTERVAL_S"

definition admit_packet :: "real \<Rightarrow> real \<Rightarrow> (GateKeeper, bool) prog" where
  "admit_packet t t_on =
     (if t_on \<le> 0 then raise_s ValueError
      else bind_s (gets_s (is_open t)) (\<lambda>open.
        if \<not> open then return_s False
        else
          then_s (modify_s (\<lambda>g. g\<lparr>gk_t_pg := Some t\<rparr>))
          (bind_s (gets_s gk_delta) (\<lambda>delta.
           bind_s (lift_s (py_div t_on delta)) (\<lambda>x.
           then_s (modify_s (\<lambda>g. g\<lparr>gk_t_go := Some (t + clamp_interval x)\<rparr>))
             (return_s True))))))"

definition update_delta :: "real \<Rightarrow> real \<Rightarrow> (GateKeeper, unit) prog" where
  "update_delta t delta_new =
     (if delta_new \<le> 0 then raise_s ValueError
      else bind_s (gets_s gk_delta) (\<lambda>delta_old.
        then_s (modify_s (\<lambda>g. g\<lparr>gk_delta := delta_new\<rparr>))
        (bind_s (gets_s (\<lambda>g. g)) (\<lambda>g.
          case (gk_t_pg g, gk_t_go g) of
            (Some t_pg, Some t_go) \<Rightarrow>
              if is_open t g then return_s ()
              else
                let old_interval = t_go - t_pg;
                    new_interval = delta_old / delta_new * old_interval
                in modify_s (\<lambda>g. g\<lparr>gk_t_go := Some (t_pg + clamp_interval new_interval)\<rparr>)
          | _ \<Rightarrow> return_s ()))))"

section \<open>Bounds of the controller\<close>

definition valid_parameters :: "DccAdaptiveParameters \<Rightarrow> bool" where
  "valid_parameters p \<longleftrightarrow>
     0 < p_alpha p \<and> p_alpha p \<le> 1 / 2 \<and> 0 \<le> p_beta p
     \<and> p_delta_min p \<le> p_delta_max p \<and> p_delta_down_max p \<le> 0 \<and> 0 \<le> p_delta_up_max p"

lemma valid_default_parameters [simp]: "valid_parameters default_DccAdaptiveParameters"
  by (simp add: valid_parameters_def default_DccAdaptiveParameters_def)

text \<open>One step of the controller as a function of the averaged ratio.\<close>

definition adaptive_step :: "real \<Rightarrow> DccAdaptive \<Rightarrow> DccAdaptive" where
  "adaptive_step cbr_avg a =
     (let p = ad_parameters a; cbr = (ad_cbr_its_s a + cbr_avg) / 2 in
      a\<lparr>ad_cbr_its_s := cbr,
        ad_delta := clamp_delta p ((1 - p_alpha p) * ad_delta a + delta_offset p cbr)\<rparr>)"

lemma adaptive_update_run:
  "adaptive_update cbr_local cbr_local_previous cbr_global cbr_global_previous a
    = (if 0 \<le> cbr_local \<and> cbr_local \<le> 1 \<and> 0 \<le> cbr_local_previous \<and> cbr_local_previous \<le> 1
       then (let a' = adaptive_step
               (cbr_average cbr_local cbr_local_previous cbr_global cbr_global_previous) a
             in (Inr (ad_delta a'), a'))
       else (Inl ValueError, a))"
  by (auto simp: adaptive_update_def adaptive_step_def Let_def add_divide_distrib)

lemma clamp_delta_eq:
  "p_delta_min p \<le> p_delta_max p \<Longrightarrow> clamp_delta p x = max (p_delta_min p) (min (p_delta_max p) x)"
  by (auto simp: clamp_delta_def Let_def)

lemma delta_offset_eq:
  assumes "valid_parameters p"
  shows "delta_offset p c
    = max (p_delta_down_max p) (min (p_delta_up_max p) (p_beta p * (p_cbr_target p - c)))"
proof -
  define y where "y = p_beta p * (p_cbr_target p - c)"
  have v: "p_delta_down_max p \<le> 0" "0 \<le> p_delta_up_max p" "0 \<le> p_beta p"
    using assms by (simp_all add: valid_parameters_def)
  have "p_cbr_target p - c > 0 \<Longrightarrow> 0 \<le> y" "\<not> p_cbr_target p - c > 0 \<Longrightarrow> y \<le> 0"
    unfolding y_def using v(3) by (simp_all add: mult_nonneg_nonpos)
  then show ?thesis
    using v(1,2) unfolding delta_offset_def Let_def y_def [symmetric] by auto
qed

lemma clamp_delta_bounds:
  "p_delta_min p \<le> p_delta_max p \<Longrightarrow> p_delta_min p \<le> clamp_delta p x \<and> clamp_delta p x \<le> p_delta_max p"
  by (simp add: clamp_delta_eq)

lemma clamp_delta_mono:
  assumes "p_delta_min p \<le> p_delta_max p" "x \<le> x'" "y \<le> y'"
  shows "clamp_delta p (x + y) \<le> clamp_delta p (x' + y')"
  unfolding clamp_delta_eq [OF assms(1)] using assms(2,3) by linarith

lemma cbr_average_bounds:
  assumes "0 \<le> l" "l \<le> 1" "0 \<le> l'" "l' \<le> 1"
    "\<And>x. g = Some x \<Longrightarrow> 0 \<le> x \<and> x \<le> 1" "\<And>x. g' = Some x \<Longrightarrow> 0 \<le> x \<and> x \<le> 1"
  shows "0 \<le> cbr_average l l' g g' \<and> cbr_average l l' g g' \<le> 1"
  using assms by (cases g; cases g') (auto simp: cbr_average_def)

text \<open>
  The adaptive control keeps its bounds. Whatever the ratios, an evaluation whose local
  ratios lie in \<open>[0, 1]\<close> returns the new \<open>delta\<close>, between \<open>delta_min\<close> and \<open>delta_max\<close>; the
  smoothed ratio stays in \<open>[0, 1]\<close> as long as the global ratios, which are not checked, do
  too. Other local ratios raise \<open>ValueError\<close> and change nothing.
\<close>

lemma adaptive_bounds:
  assumes "p_delta_min (ad_parameters a) \<le> p_delta_max (ad_parameters a)"
  shows "if {cbr_local, cbr_local_previous} \<subseteq> {0..1}
    then \<exists>a'. adaptive_update cbr_local cbr_local_previous cbr_global cbr_global_previous a
           = (Inr (ad_delta a'), a')
         \<and> p_delta_min (ad_parameters a) \<le> ad_delta a' \<and> ad_delta a' \<le> p_delta_max (ad_parameters a)
         \<and> ad_parameters a' = ad_parameters a
         \<and> (set_option cbr_global \<union> set_option cbr_global_previous \<subseteq> {0..1}
              \<and> 0 \<le> ad_cbr_its_s a \<and> ad_cbr_its_s a \<le> 1
            \<longrightarrow> 0 \<le> ad_cbr_its_s a' \<and> ad_cbr_its_s a' \<le> 1)
    else adaptive_update cbr_local cbr_local_previous cbr_global cbr_global_previous a
      = (Inl ValueError, a)"
proof (cases "{cbr_local, cbr_local_previous} \<subseteq> {0..1}")
  case True
  let ?avg = "cbr_average cbr_local cbr_local_previous cbr_global cbr_global_previous"
  let ?a = "adaptive_step ?avg a"
  have "adaptive_update cbr_local cbr_local_previous cbr_global cbr_global_previous a
      = (Inr (ad_delta ?a), ?a)"
    using True by (simp add: adaptive_update_run Let_def)
  moreover have "0 \<le> ?avg \<and> ?avg \<le> 1"
    if "set_option cbr_global \<union> set_option cbr_global_previous \<subseteq> {0..1}"
    using True that by (intro cbr_average_bounds) auto
  ultimately have "adaptive_update cbr_local cbr_local_previous cbr_global cbr_global_previous a
           = (Inr (ad_delta ?a), ?a)
         \<and> p_delta_min (ad_parameters a) \<le> ad_delta ?a \<and> ad_delta ?a \<le> p_delta_max (ad_parameters a)
         \<and> ad_parameters ?a = ad_parameters a
         \<and> (set_option cbr_global \<union> set_option cbr_global_previous \<subseteq> {0..1}
              \<and> 0 \<le> ad_cbr_its_s a \<and> ad_cbr_its_s a \<le> 1
            \<longrightarrow> 0 \<le> ad_cbr_its_s ?a \<and> ad_cbr_its_s ?a \<le> 1)"
    using clamp_delta_bounds [OF assms] by (auto simp: adaptive_step_def Let_def)
  then show ?thesis using True by (simp only: if_True) blast
next
  case False
  then have "adaptive_update cbr_local cbr_local_previous cbr_global cbr_global_previous a
      = (Inl ValueError, a)"
    by (auto simp: adaptive_update_run)
  then show ?thesis using False by (simp only: if_False)
qed

section \<open>Convergence\<close>

lemma max_min_lipschitz:
  fixes x y lo hi :: real
  shows "\<bar>max lo (min hi x) - max lo (min hi y)\<bar> \<le> \<bar>x - y\<bar>"
  by linarith

lemma adaptive_step_fixpoint:
  fixes c :: real
  assumes "valid_parameters p"
  defines "d \<equiv> clamp_delta p (delta_offset p c / p_alpha p)"
  shows "clamp_delta p ((1 - p_alpha p) * d + delta_offset p c) = d"
proof -
  let ?x = "delta_offset p c" and ?lo = "p_delta_min p" and ?hi = "p_delta_max p"
  have a: "0 < p_alpha p" and le: "?lo \<le> ?hi" using assms(1) by (simp_all add: valid_parameters_def)
  consider "?x / p_alpha p < ?lo" | "?hi < ?x / p_alpha p" | "?lo \<le> ?x / p_alpha p" "?x / p_alpha p \<le> ?hi"
    by linarith
  then show ?thesis
  proof cases
    case 1
    then have "?x \<le> p_alpha p * ?lo" using a by (simp add: field_simps)
    then have "(1 - p_alpha p) * ?lo + ?x \<le> ?lo" by (simp add: algebra_simps)
    then show ?thesis using 1 le by (simp add: d_def clamp_delta_eq)
  next
    case 2
    then have "p_alpha p * ?hi \<le> ?x" using a by (simp add: field_simps)
    then have "?hi \<le> (1 - p_alpha p) * ?hi + ?x" by (simp add: algebra_simps)
    then show ?thesis using 2 le by (simp add: d_def clamp_delta_eq)
  next
    case 3
    have "(1 - p_alpha p) * (?x / p_alpha p) + ?x = ?x / p_alpha p" using a by (simp add: field_simps)
    then show ?thesis using 3 le by (simp add: d_def clamp_delta_eq)
  qed
qed

lemma adaptive_step_distance:
  fixes c :: real
  assumes "valid_parameters (ad_parameters a)"
  defines "d \<equiv> clamp_delta (ad_parameters a) (delta_offset (ad_parameters a) c / p_alpha (ad_parameters a))"
  shows "\<bar>ad_delta (adaptive_step c a) - d\<bar>
    \<le> (1 - p_alpha (ad_parameters a)) * \<bar>ad_delta a - d\<bar>
      + p_beta (ad_parameters a) * \<bar>ad_cbr_its_s (adaptive_step c a) - c\<bar>"
proof -
  define p where "p = ad_parameters a"
  let ?cbr = "ad_cbr_its_s (adaptive_step c a)"
  note v = assms(1) [folded p_def]
  have b: "0 \<le> p_beta p" "0 \<le> 1 - p_alpha p" and le: "p_delta_min p \<le> p_delta_max p"
    using v by (simp_all add: valid_parameters_def)
  have fixed: "d = clamp_delta p ((1 - p_alpha p) * d + delta_offset p c)"
    using adaptive_step_fixpoint [OF v, of c] by (simp add: d_def p_def)
  have "ad_delta (adaptive_step c a)
      = clamp_delta p ((1 - p_alpha p) * ad_delta a + delta_offset p ?cbr)"
    by (simp add: adaptive_step_def Let_def p_def)
  then have "\<bar>ad_delta (adaptive_step c a) - d\<bar>
      \<le> \<bar>((1 - p_alpha p) * ad_delta a + delta_offset p ?cbr)
          - ((1 - p_alpha p) * d + delta_offset p c)\<bar>"
    using max_min_lipschitz fixed le by (metis clamp_delta_eq)
  also have "\<dots> \<le> \<bar>(1 - p_alpha p) * (ad_delta a - d)\<bar> + \<bar>delta_offset p ?cbr - delta_offset p c\<bar>"
    by (simp add: algebra_simps)
  also have "\<bar>delta_offset p ?cbr - delta_offset p c\<bar>
      \<le> \<bar>p_beta p * (p_cbr_target p - ?cbr) - p_beta p * (p_cbr_target p - c)\<bar>"
    unfolding delta_offset_eq [OF v] by (rule max_min_lipschitz)
  also have "\<dots> = p_beta p * \<bar>?cbr - c\<bar>"
    using b(1) by (simp add: abs_mult flip: right_diff_distrib) linarith
  finally show ?thesis
    using b(2) by (simp add: abs_mult p_def)
qed

text \<open>The control after \<open>n\<close> evaluations with given ratios.\<close>

type_synonym ratios = "real \<times> real \<times> real option \<times> real option"

definition ratios_average :: "ratios \<Rightarrow> real" where
  "ratios_average = (\<lambda>(l, l', g, g'). cbr_average l l' g g')"

definition ratios_ok :: "ratios \<Rightarrow> bool" where
  "ratios_ok = (\<lambda>(l, l', g, g'). 0 \<le> l \<and> l \<le> 1 \<and> 0 \<le> l' \<and> l' \<le> 1)"

definition evaluate :: "ratios \<Rightarrow> (DccAdaptive, real) prog" where
  "evaluate = (\<lambda>(l, l', g, g'). adaptive_update l l' g g')"

primrec adaptive_after :: "(nat \<Rightarrow> ratios) \<Rightarrow> nat \<Rightarrow> DccAdaptive \<Rightarrow> DccAdaptive" where
  "adaptive_after inputs 0 a = a"
| "adaptive_after inputs (Suc n) a = snd (evaluate (inputs n) (adaptive_after inputs n a))"

lemma evaluate_run:
  "evaluate i a = (if ratios_ok i
     then (Inr (ad_delta (adaptive_step (ratios_average i) a)), adaptive_step (ratios_average i) a)
     else (Inl ValueError, a))"
  by (cases i) (simp add: evaluate_def adaptive_update_run ratios_ok_def ratios_average_def Let_def)

lemma adaptive_step_parameters [simp]: "ad_parameters (adaptive_step c a) = ad_parameters a"
  by (simp add: adaptive_step_def Let_def)

lemma adaptive_after_parameters [simp]: "ad_parameters (adaptive_after inputs n a) = ad_parameters a"
  by (induction n) (simp_all add: evaluate_run)

lemma adaptive_after_cbr:
  assumes "\<And>n. ratios_ok (inputs n) \<and> ratios_average (inputs n) = c"
  shows "ad_cbr_its_s (adaptive_after inputs n a) - c = (ad_cbr_its_s a - c) / 2 ^ n"
proof (induction n)
  case (Suc n)
  have "ad_cbr_its_s (adaptive_after inputs (Suc n) a) - c
      = (ad_cbr_its_s (adaptive_after inputs n a) - c) / 2"
    using assms by (simp add: evaluate_run adaptive_step_def Let_def field_simps)
  then show ?case by (simp add: Suc.IH)
qed simp

lemma adaptive_after_delta:
  fixes c :: real
  assumes inputs: "\<And>n. ratios_ok (inputs n) \<and> ratios_average (inputs n) = c"
    and v: "valid_parameters (ad_parameters a)"
  defines "d \<equiv> clamp_delta (ad_parameters a) (delta_offset (ad_parameters a) c / p_alpha (ad_parameters a))"
  shows "\<bar>ad_delta (adaptive_after inputs n a) - d\<bar> \<le> (1 - p_alpha (ad_parameters a)) ^ n
    * (\<bar>ad_delta a - d\<bar> + n * (p_beta (ad_parameters a) * \<bar>ad_cbr_its_s a - c\<bar>))"
proof (induction n)
  case (Suc n)
  define q where "q = 1 - p_alpha (ad_parameters a)"
  define K where "K = p_beta (ad_parameters a) * \<bar>ad_cbr_its_s a - c\<bar>"
  let ?a = "adaptive_after inputs n a"
  have q: "1 / 2 \<le> q" and K: "0 \<le> K" using v by (simp_all add: q_def K_def valid_parameters_def)
  have step: "adaptive_after inputs (Suc n) a = adaptive_step c ?a"
    using inputs by (simp add: evaluate_run)
  have "p_beta (ad_parameters a) * \<bar>ad_cbr_its_s (adaptive_step c ?a) - c\<bar> = K * (1 / 2) ^ Suc n"
    using adaptive_after_cbr [where inputs = inputs and n = "Suc n" and a = a, OF inputs] unfolding step K_def
    by (simp add: abs_div power_divide del: power_Suc)
  also have "\<dots> \<le> K * q ^ Suc n" using q K by (intro mult_left_mono power_mono) auto
  finally have "\<bar>ad_delta (adaptive_step c ?a) - d\<bar> \<le> q * \<bar>ad_delta ?a - d\<bar> + K * q ^ Suc n"
    using adaptive_step_distance [of ?a c] v by (simp add: d_def q_def)
  also have "\<dots> \<le> q * (q ^ n * (\<bar>ad_delta a - d\<bar> + n * K)) + K * q ^ Suc n"
    using Suc.IH q by (intro add_right_mono mult_left_mono) (simp_all add: q_def K_def)
  also have "\<dots> = q ^ Suc n * (\<bar>ad_delta a - d\<bar> + real (Suc n) * K)" by (simp add: algebra_simps)
  finally show ?case unfolding step by (simp add: q_def K_def)
qed simp

lemma tendsto_linear_geometric:
  fixes q A B :: real
  assumes "0 \<le> q" "q < 1"
  shows "(\<lambda>n. q ^ n * (A + real n * B)) \<longlonglongrightarrow> 0"
proof -
  have "(\<lambda>n. A * q ^ n + B * (n * q ^ n)) \<longlonglongrightarrow> A * 0 + B * 0"
    using assms by (intro tendsto_intros LIMSEQ_realpow_zero powser_times_n_limit_0) auto
  then show ?thesis by (simp add: algebra_simps)
qed

text \<open>
  C13: The adaptive control converges. Under a constant average ratio \<open>c\<close> the smoothed ratio
  comes closer to \<open>c\<close> by half with every evaluation, and \<open>delta\<close> tends to the offset for \<open>c\<close>
  divided by \<open>alpha\<close>, clamped to \<open>[delta_min, delta_max]\<close>, from every initial state and for
  all parameters with \<open>0 < alpha \<le> 1/2\<close>.
\<close>

theorem adaptive_converges:
  assumes "valid_parameters (ad_parameters a)"
    and "\<And>n. ratios_ok (inputs n) \<and> ratios_average (inputs n) = c"
  shows "(\<forall>n. \<bar>ad_cbr_its_s (adaptive_after inputs n a) - c\<bar> = \<bar>ad_cbr_its_s a - c\<bar> / 2 ^ n)
    \<and> (\<lambda>n. ad_delta (adaptive_after inputs n a)) \<longlonglongrightarrow>
        clamp_delta (ad_parameters a) (delta_offset (ad_parameters a) c / p_alpha (ad_parameters a))"
proof (rule conjI)
  show "\<forall>n. \<bar>ad_cbr_its_s (adaptive_after inputs n a) - c\<bar> = \<bar>ad_cbr_its_s a - c\<bar> / 2 ^ n"
    by (simp add: adaptive_after_cbr [OF assms(2)] abs_div)
  let ?q = "1 - p_alpha (ad_parameters a)"
  let ?d = "clamp_delta (ad_parameters a) (delta_offset (ad_parameters a) c / p_alpha (ad_parameters a))"
  have "(\<lambda>n. ?q ^ n * (\<bar>ad_delta a - ?d\<bar> + n * (p_beta (ad_parameters a) * \<bar>ad_cbr_its_s a - c\<bar>))) \<longlonglongrightarrow> 0"
    using assms(1) by (intro tendsto_linear_geometric) (simp_all add: valid_parameters_def)
  then have "(\<lambda>n. \<bar>ad_delta (adaptive_after inputs n a) - ?d\<bar>) \<longlonglongrightarrow> 0"
    by (rule tendsto_sandwich [OF _ _ tendsto_const, rotated 2])
      (auto intro!: always_eventually adaptive_after_delta [OF assms(2,1)])
  then show "(\<lambda>n. ad_delta (adaptive_after inputs n a)) \<longlonglongrightarrow> ?d"
    using tendsto_rabs_zero_iff LIM_zero_iff by blast
qed

lemma adaptive_converges_witness:
  "(\<lambda>n. ad_delta (adaptive_after (\<lambda>_. (1 / 2, 1 / 2, None, None)) n
      (adaptive_init default_DccAdaptiveParameters))) \<longlonglongrightarrow> 135 / 10000"
  using adaptive_converges [of "adaptive_init default_DccAdaptiveParameters"
      "\<lambda>_. (1 / 2, 1 / 2, None, None)" "1 / 2"]
  by (simp add: adaptive_init_def ratios_ok_def ratios_average_def cbr_average_def)
    (simp add: default_DccAdaptiveParameters_def delta_offset_def clamp_delta_def Let_def)

text \<open>
  More load never allows more. Of two stations with the same parameters, the one that
  measures average ratios at least as high as the other's, from a smoothed ratio at least as
  high and a \<open>delta\<close> at most as high, never has the higher \<open>delta\<close>.
\<close>

lemma adaptive_antitone:
  assumes "valid_parameters (ad_parameters a)" "ad_parameters a' = ad_parameters a"
    and "ad_cbr_its_s a \<le> ad_cbr_its_s a'" "ad_delta a' \<le> ad_delta a"
    and "\<And>n. ratios_ok (inputs n) \<and> ratios_ok (inputs' n)
      \<and> ratios_average (inputs n) \<le> ratios_average (inputs' n)"
  shows "ad_delta (adaptive_after inputs' n a') \<le> ad_delta (adaptive_after inputs n a)"
proof -
  have "ad_cbr_its_s (adaptive_after inputs n a) \<le> ad_cbr_its_s (adaptive_after inputs' n a')
    \<and> ad_delta (adaptive_after inputs' n a') \<le> ad_delta (adaptive_after inputs n a)"
  proof (induction n)
    case (Suc n)
    define p where "p = ad_parameters a"
    let ?b = "adaptive_after inputs n a" and ?b' = "adaptive_after inputs' n a'"
    let ?cbr = "(ad_cbr_its_s ?b + ratios_average (inputs n)) / 2"
    let ?cbr' = "(ad_cbr_its_s ?b' + ratios_average (inputs' n)) / 2"
    have v: "valid_parameters p" using assms(1) by (simp add: p_def)
    have cbr: "?cbr \<le> ?cbr'" using Suc assms(5) [of n] by simp
    then have "p_beta p * (p_cbr_target p - ?cbr') \<le> p_beta p * (p_cbr_target p - ?cbr)"
      using v by (intro mult_left_mono) (simp_all add: valid_parameters_def)
    then have "delta_offset p ?cbr' \<le> delta_offset p ?cbr" unfolding delta_offset_eq [OF v] by linarith
    moreover have "(1 - p_alpha p) * ad_delta ?b' \<le> (1 - p_alpha p) * ad_delta ?b"
      using Suc v by (intro mult_left_mono) (simp_all add: valid_parameters_def)
    ultimately have "clamp_delta p ((1 - p_alpha p) * ad_delta ?b' + delta_offset p ?cbr')
        \<le> clamp_delta p ((1 - p_alpha p) * ad_delta ?b + delta_offset p ?cbr)"
      using clamp_delta_mono v by (simp add: valid_parameters_def)
    then show ?case
      using cbr assms(2) assms(5) [of n] by (simp add: evaluate_run adaptive_step_def Let_def p_def)
  qed (use assms in simp)
  then show ?thesis ..
qed

section \<open>Properties of the gate keeper\<close>

text \<open>What may happen at the gate: a packet is offered, or \<open>delta\<close> changes.\<close>

datatype gate_event = OFFER real real | DELTA real real

fun gate_do :: "gate_event \<Rightarrow> (GateKeeper, bool) prog" where
  "gate_do (OFFER t t_on) = admit_packet t t_on"
| "gate_do (DELTA t delta) = then_s (update_delta t delta) (return_s False)"

fun event_time :: "gate_event \<Rightarrow> real" where
  "event_time (OFFER t t_on) = t"
| "event_time (DELTA t delta) = t"

definition gate_after :: "gate_event list \<Rightarrow> GateKeeper \<Rightarrow> GateKeeper" where
  "gate_after es g = foldl (\<lambda>g e. snd (gate_do e g)) g es"

text \<open>The times at which packets are admitted.\<close>

fun admissions :: "gate_event list \<Rightarrow> GateKeeper \<Rightarrow> real list" where
  "admissions [] g = []"
| "admissions (e # es) g =
     (if fst (gate_do e g) = Inr True then event_time e # admissions es (snd (gate_do e g))
      else admissions es (snd (gate_do e g)))"

text \<open>
  The invariant: \<open>delta\<close> is positive, and the gate has an opening time exactly when a packet
  was admitted, between 25 ms and 1 s after that.
\<close>

definition gate_ok :: "GateKeeper \<Rightarrow> bool" where
  "gate_ok g \<longleftrightarrow> 0 < gk_delta g
     \<and> (case (gk_t_pg g, gk_t_go g) of
          (None, None) \<Rightarrow> True
        | (Some t_pg, Some t_go) \<Rightarrow> t_pg + 25 / 1000 \<le> t_go \<and> t_go \<le> t_pg + 1
        | _ \<Rightarrow> False)"

lemma gate_ok_init [simp]: "gate_ok (gate_init delta) \<longleftrightarrow> 0 < delta"
  by (simp add: gate_ok_def gate_init_def)

lemma gate_init_pg: "gk_t_pg (gate_init delta) = None"
  by (simp add: gate_init_def)

lemma clamp_interval_bounds [simp]:
  "25 / 1000 \<le> clamp_interval x" "clamp_interval x \<le> 1" "1 \<le> clamp_interval x * 40"
  by (simp_all add: clamp_interval_def GATE_OPEN_MIN_INTERVAL_S_def GATE_OPEN_MAX_INTERVAL_S_def)

lemma clamp_interval_id: "25 / 1000 \<le> x \<Longrightarrow> x \<le> 1 \<Longrightarrow> clamp_interval x = x"
  by (simp add: clamp_interval_def GATE_OPEN_MIN_INTERVAL_S_def GATE_OPEN_MAX_INTERVAL_S_def)

lemma admit_packet_run:
  assumes "gate_ok g"
  shows "admit_packet t t_on g =
    (if t_on \<le> 0 then (Inl ValueError, g)
     else if is_open t g
     then (Inr True, g\<lparr>gk_t_pg := Some t, gk_t_go := Some (t + clamp_interval (t_on / gk_delta g))\<rparr>)
     else (Inr False, g))"
  using assms by (simp add: admit_packet_def gate_ok_def py_div_def)

lemma update_delta_run:
  assumes "gate_ok g"
  shows "update_delta t delta g =
    (if delta \<le> 0 then (Inl ValueError, g)
     else (Inr (), if is_open t g then g\<lparr>gk_delta := delta\<rparr>
       else g\<lparr>gk_delta := delta, gk_t_go := Some (the (gk_t_pg g)
         + clamp_interval (gk_delta g / delta * (the (gk_t_go g) - the (gk_t_pg g))))\<rparr>))"
  using assms by (auto simp: update_delta_def gate_ok_def is_open_def Let_def split: option.splits)

lemma gate_do_ok:
  assumes "gate_ok g"
  shows "gate_ok (snd (gate_do e g))"
    and "fst (gate_do e g) = Inr True \<Longrightarrow> is_open (event_time e) g
      \<and> gk_t_pg (snd (gate_do e g)) = Some (event_time e)"
    and "fst (gate_do e g) \<noteq> Inr True \<Longrightarrow> gk_t_pg (snd (gate_do e g)) = gk_t_pg g"
proof -
  have upd: "gate_ok (snd (update_delta t delta g))" "gk_t_pg (snd (update_delta t delta g)) = gk_t_pg g"
    for t delta
    using assms
    by (auto simp: update_delta_run [OF assms] gate_ok_def is_open_def split: option.splits)
  have fst: "fst (then_s (update_delta t delta) (return_s False) g) \<noteq> Inr True"
    "snd (then_s (update_delta t delta) (return_s False) g) = snd (update_delta t delta g)" for t delta
    by (simp_all add: then_s_def bind_s_def update_delta_run [OF assms])
  have "gate_ok (g\<lparr>gk_t_pg := Some t, gk_t_go := Some (t + clamp_interval x)\<rparr>)" for t x
    using assms by (simp add: gate_ok_def)
  then have "gate_ok (snd (admit_packet t t_on g))" for t t_on
    using assms by (simp add: admit_packet_run)
  then show "gate_ok (snd (gate_do e g))" using upd(1) fst(2) by (cases e) simp_all
  show "is_open (event_time e) g \<and> gk_t_pg (snd (gate_do e g)) = Some (event_time e)"
    if "fst (gate_do e g) = Inr True"
    using that fst(1) by (cases e) (auto simp: admit_packet_run [OF assms] split: if_splits)
  show "gk_t_pg (snd (gate_do e g)) = gk_t_pg g" if "fst (gate_do e g) \<noteq> Inr True"
    using that upd(2) fst(2) by (cases e) (auto simp: admit_packet_run [OF assms] split: if_splits)
qed

lemma open_after_min:
  "gate_ok g \<Longrightarrow> is_open t g \<Longrightarrow> gk_t_pg g = Some t_pg \<Longrightarrow> t_pg + 25 / 1000 - T_EPSILON \<le> t"
  by (auto simp: gate_ok_def is_open_def split: option.splits)

lemma open_after_max:
  "gate_ok g \<Longrightarrow> (\<And>t_pg. gk_t_pg g = Some t_pg \<Longrightarrow> t_pg + 1 - T_EPSILON \<le> t) \<Longrightarrow> is_open t g"
  by (auto simp: gate_ok_def is_open_def split: option.splits)

text \<open>
  Packets are admitted at least 25 ms (less the nanosecond of tolerance) apart, whatever is
  offered, whenever \<open>delta\<close> changes and to what value, errors included.
\<close>

lemma admissions_spaced_from:
  assumes "gate_ok g"
  shows "sorted_wrt (\<lambda>s t. s + 25 / 1000 - T_EPSILON \<le> t) (admissions es g)
    \<and> (\<forall>t_pg. gk_t_pg g = Some t_pg \<longrightarrow> (\<forall>t \<in> set (admissions es g). t_pg + 25 / 1000 - T_EPSILON \<le> t))"
  using assms
proof (induction es arbitrary: g)
  case (Cons e es)
  let ?g = "snd (gate_do e g)"
  note ih = Cons.IH [OF gate_do_ok(1) [OF Cons.prems], of e]
  show ?case
  proof (cases "fst (gate_do e g) = Inr True")
    case True
    note admitted = gate_do_ok(2) [OF Cons.prems True]
    have later: "event_time e + 25 / 1000 - T_EPSILON \<le> t" if "t \<in> set (admissions es ?g)" for t
      using ih that admitted by blast
    moreover have "t_pg + 25 / 1000 - T_EPSILON \<le> event_time e" if "gk_t_pg g = Some t_pg" for t_pg
      using open_after_min [OF Cons.prems _ that] admitted by blast
    moreover have "T_EPSILON \<le> 25 / 1000" by (simp add: T_EPSILON_def)
    ultimately show ?thesis using True ih by fastforce
  next
    case False
    then show ?thesis using ih gate_do_ok(3) [OF Cons.prems False] by auto
  qed
qed simp

lemma admissions_spaced:
  "gate_ok g \<Longrightarrow> sorted_wrt (\<lambda>s t. s + 25 / 1000 - T_EPSILON \<le> t) (admissions es g)"
  using admissions_spaced_from by blast

lemma gate_last_admission:
  "gate_ok g \<Longrightarrow> gk_t_pg (gate_after es g)
    = (if admissions es g = [] then gk_t_pg g else Some (last (admissions es g)))"
  unfolding gate_after_def
  by (induction es arbitrary: g) (simp_all add: gate_do_ok)

text \<open>
  The gate opens again. After any offers and changes of \<open>delta\<close> a packet is admitted as
  soon as one second has passed since the last admission, which is the last of the list, or
  the gate keeper's initial one.
\<close>

lemma gate_reopens:
  assumes "gate_ok g" "0 < t_on"
    and "\<And>t_pg. gk_t_pg (gate_after es g) = Some t_pg \<Longrightarrow> t_pg + 1 - T_EPSILON \<le> t"
  shows "fst (admit_packet t t_on (gate_after es g)) = Inr True
    \<and> gk_t_pg (gate_after es g)
        = (if admissions es g = [] then gk_t_pg g else Some (last (admissions es g)))"
proof (rule conjI)
  have ok: "gate_ok (gate_after es g)"
    unfolding gate_after_def using assms(1) by (induction es arbitrary: g) (simp_all add: gate_do_ok(1))
  then show "fst (admit_packet t t_on (gate_after es g)) = Inr True"
    using open_after_max [OF ok assms(3)] assms(2) by (simp add: admit_packet_run)
  show "gk_t_pg (gate_after es g)
      = (if admissions es g = [] then gk_t_pg g else Some (last (admissions es g)))"
    by (rule gate_last_admission [OF assms(1)])
qed

text \<open>
  Changes of \<open>delta\<close> while the gate is closed for a packet of duration \<open>t_on\<close> admitted at
  \<open>t\<close>, for which equation B.1 never leaves the limits of the interval.
\<close>

fun changes_while_closed :: "real \<Rightarrow> real \<Rightarrow> real \<Rightarrow> (real \<times> real) list \<Rightarrow> bool" where
  "changes_while_closed t t_on delta [] \<longleftrightarrow> True"
| "changes_while_closed t t_on delta ((s, delta') # changes) \<longleftrightarrow>
     s < t + t_on / delta - T_EPSILON \<and> 0 < delta' \<and> 25 / 1000 \<le> t_on / delta' \<and> t_on / delta' \<le> 1
     \<and> changes_while_closed t t_on delta' changes"

lemma rescaled:
  assumes "gate_ok g" "gk_t_pg g = Some t" "gk_t_go g = Some (t + t_on / gk_delta g)"
    and "changes_while_closed t t_on (gk_delta g) changes"
  shows "gk_t_go (gate_after (map (\<lambda>(s, delta). DELTA s delta) changes) g)
    = Some (t + t_on / last (gk_delta g # map snd changes))"
  using assms
proof (induction changes arbitrary: g)
  case Nil
  then show ?case by (simp add: gate_after_def)
next
  case (Cons change changes)
  obtain s delta where c: "change = (s, delta)" by (cases change)
  let ?g = "snd (gate_do (DELTA s delta) g)"
  have d: "0 < gk_delta g" "0 < delta" using Cons.prems by (simp_all add: gate_ok_def c)
  have "\<not> is_open s g" using Cons.prems by (simp add: is_open_def c)
  moreover have "gk_delta g / delta * (t + t_on / gk_delta g - t) = t_on / delta" using d by simp
  moreover have "clamp_interval (t_on / delta) = t_on / delta"
    using Cons.prems by (intro clamp_interval_id) (simp_all add: c)
  ultimately have g: "?g = g\<lparr>gk_delta := delta, gk_t_go := Some (t + t_on / delta)\<rparr>"
    using Cons.prems(2,3) d
    by (simp add: then_s_def bind_s_def update_delta_run [OF Cons.prems(1)])
  have "gk_t_go (gate_after (map (\<lambda>(s, delta). DELTA s delta) changes) ?g)
      = Some (t + t_on / last (gk_delta ?g # map snd changes))"
    using Cons.prems gate_do_ok(1) [OF Cons.prems(1), of "DELTA s delta"] unfolding g
    by (intro Cons.IH) (simp_all add: c)
  then show ?case by (simp add: gate_after_def c g del: gate_do.simps)
qed

text \<open>
  C14: Rescaling agrees with equation B.1. A packet admitted at \<open>t\<close> closes the gate until
  \<open>t + t_on / delta\<close>, and after any number of changes of \<open>delta\<close> while it is closed the gate
  opens when it would have, had the packet been admitted with the last \<open>delta\<close>, as long as
  the interval stays within its limits: the station's share of the channel is \<open>delta\<close>.
\<close>

theorem gate_rescales:
  assumes "gate_ok g" "is_open t g" "0 < t_on" "25 / 1000 \<le> t_on / gk_delta g" "t_on / gk_delta g \<le> 1"
    and "changes_while_closed t t_on (gk_delta g) changes"
  shows "is_open s (gate_after (OFFER t t_on # map (\<lambda>(s, delta). DELTA s delta) changes) g)
    \<longleftrightarrow> t_on / last (gk_delta g # map snd changes) \<le> s - t + T_EPSILON"
proof -
  let ?g = "snd (gate_do (OFFER t t_on) g)"
  have g: "?g = g\<lparr>gk_t_pg := Some t, gk_t_go := Some (t + t_on / gk_delta g)\<rparr>"
    using assms(2-5) by (simp add: admit_packet_run [OF assms(1)] clamp_interval_id)
  have "gk_t_go (gate_after (map (\<lambda>(s, delta). DELTA s delta) changes) ?g)
      = Some (t + t_on / last (gk_delta ?g # map snd changes))"
    using assms(6) gate_do_ok(1) [OF assms(1), of "OFFER t t_on"] unfolding g
    by (intro rescaled) simp_all
  moreover have "gate_after (OFFER t t_on # map (\<lambda>(s, delta). DELTA s delta) changes) g
      = gate_after (map (\<lambda>(s, delta). DELTA s delta) changes) ?g"
    by (simp add: gate_after_def)
  ultimately show ?thesis by (simp add: is_open_def g del: gate_do.simps) linarith
qed

lemma gate_rescales_witness:
  "is_open (1 / 20) (gate_after [OFFER 0 (1 / 1000), DELTA (1 / 100) (2 / 100)] (gate_init (1 / 100)))
    \<longleftrightarrow> (1 :: real) / 20 \<le> 1 / 20 + T_EPSILON"
proof -
  have "is_open (1 / 20) (gate_after (OFFER 0 (1 / 1000)
        # map (\<lambda>(s, delta). DELTA s delta) [(1 / 100, 2 / 100 :: real)]) (gate_init (1 / 100)))
      \<longleftrightarrow> (1 / 1000) / last (gk_delta (gate_init (1 / 100)) # map snd [(1 / 100 :: real, 2 / 100 :: real)])
        \<le> 1 / 20 - 0 + T_EPSILON"
    by (rule gate_rescales) (simp_all add: gate_init_def gate_ok_def is_open_def T_EPSILON_def)
  then show ?thesis by simp
qed

section \<open>A controller and its gate\<close>

text \<open>
  What the gate keeper relies on: a controller whose every evaluation either raises, or
  returns a \<open>delta\<close> within positive bounds.
\<close>

locale delta_source =
  fixes evaluation :: "'i \<Rightarrow> ('s, real) prog" and ok :: "'s \<Rightarrow> bool" and lo hi :: real
  assumes lo_positive: "0 < lo"
    and evaluation_ok: "ok s \<Longrightarrow> evaluation i s = (res, s') \<Longrightarrow> ok s'"
    and evaluation_delta: "ok s \<Longrightarrow> evaluation i s = (Inr delta, s') \<Longrightarrow> lo \<le> delta \<and> delta \<le> hi"

text \<open>A station with both: an evaluation at a time, whose \<open>delta\<close> goes to the gate, or a packet.\<close>

datatype 'i control_event = EVALUATE real 'i | PACKET real real

fun control_do ::
    "('i \<Rightarrow> ('s, real) prog) \<Rightarrow> 'i control_event \<Rightarrow> ('s \<times> GateKeeper, bool) prog" where
  "control_do evaluation (EVALUATE t i) (s, g) =
     (case evaluation i s of
        (Inl e, s') \<Rightarrow> (Inl e, (s', g))
      | (Inr delta, s') \<Rightarrow>
          (let (res, g') = gate_do (DELTA t delta) g in (res, (s', g'))))"
| "control_do evaluation (PACKET t t_on) (s, g) =
     (let (res, g') = gate_do (OFFER t t_on) g in (res, (s, g')))"

text \<open>What the gate sees of a run of the station.\<close>

fun gate_view :: "('i \<Rightarrow> ('s, real) prog) \<Rightarrow> 'i control_event list \<Rightarrow> 's \<Rightarrow> gate_event list" where
  "gate_view evaluation [] s = []"
| "gate_view evaluation (EVALUATE t i # es) s =
     (case evaluation i s of
        (Inl e, s') \<Rightarrow> gate_view evaluation es s'
      | (Inr delta, s') \<Rightarrow> DELTA t delta # gate_view evaluation es s')"
| "gate_view evaluation (PACKET t t_on # es) s = OFFER t t_on # gate_view evaluation es s"

definition control_after ::
    "('i \<Rightarrow> ('s, real) prog) \<Rightarrow> 'i control_event list \<Rightarrow> 's \<times> GateKeeper \<Rightarrow> 's \<times> GateKeeper" where
  "control_after evaluation es sg = foldl (\<lambda>sg e. snd (control_do evaluation e sg)) sg es"

lemma control_after_gate:
  "snd (control_after evaluation es (s, g)) = gate_after (gate_view evaluation es s) g"
  unfolding control_after_def gate_after_def
  by (induction es arbitrary: s g rule: list.induct, simp, rename_tac e es s g, case_tac e)
    (auto simp: Let_def split: prod.splits sum.splits)

context delta_source
begin

lemma gate_delta_within:
  assumes "ok s" "gate_ok g" "lo \<le> gk_delta g" "gk_delta g \<le> hi"
  shows "ok (fst (control_after evaluation es (s, g))) \<and> gate_ok (snd (control_after evaluation es (s, g)))
    \<and> lo \<le> gk_delta (snd (control_after evaluation es (s, g)))
    \<and> gk_delta (snd (control_after evaluation es (s, g))) \<le> hi"
  using assms unfolding control_after_def
proof (induction es arbitrary: s g)
  case (Cons e es)
  obtain s' g' where sg: "snd (control_do evaluation e (s, g)) = (s', g')" by fastforce
  have "ok s' \<and> gate_ok g' \<and> lo \<le> gk_delta g' \<and> gk_delta g' \<le> hi"
  proof (cases e)
    case (EVALUATE t i)
    obtain res s1 where run: "evaluation i s = (res, s1)" by fastforce
    then have s1: "ok s1" by (rule evaluation_ok [OF Cons.prems(1)])
    show ?thesis
    proof (cases res)
      case (Inl err)
      then show ?thesis using sg run s1 EVALUATE Cons.prems by simp
    next
      case (Inr delta)
      then have delta: "lo \<le> delta" "delta \<le> hi"
        using evaluation_delta [OF Cons.prems(1)] run by simp_all
      have "g' = snd (gate_do (DELTA t delta) g)" "s' = s1"
        using sg run EVALUATE Inr by (auto simp: Let_def split: prod.splits)
      moreover have "gk_delta (snd (gate_do (DELTA t delta) g)) = delta"
        using delta lo_positive by (simp add: then_s_def bind_s_def update_delta_run [OF Cons.prems(2)])
      ultimately show ?thesis
        using gate_do_ok(1) [OF Cons.prems(2), of "DELTA t delta"] s1 delta by metis
    qed
  next
    case (PACKET t t_on)
    then have "g' = snd (gate_do (OFFER t t_on) g)" "s' = s"
      using sg by (auto simp: Let_def split: prod.splits)
    moreover have "gk_delta (snd (gate_do (OFFER t t_on) g)) = gk_delta g"
      by (simp add: admit_packet_run [OF Cons.prems(2)])
    ultimately show ?thesis
      using gate_do_ok(1) [OF Cons.prems(2), of "OFFER t t_on"] Cons.prems by metis
  qed
  then show ?case using Cons.IH [of s' g'] sg by simp
qed simp

text \<open>The gate never raises because of the controller.\<close>

lemma controlled_gate_accepts:
  assumes "ok s" "gate_ok g" "evaluation i s = (Inr delta, s')"
  shows "fst (control_do evaluation (EVALUATE t i) (s, g)) = Inr False"
  using evaluation_delta [OF assms(1,3)] lo_positive assms(3)
  by (simp add: then_s_def bind_s_def update_delta_run [OF assms(2)] Let_def split_beta)

end

interpretation limeric: delta_source evaluate "\<lambda>a. ad_parameters a = default_DccAdaptiveParameters"
    "6 / 10000" "3 / 100"
proof unfold_locales
  show "6 / 10000 \<le> delta \<and> delta \<le> 3 / 100"
    if "ad_parameters a = default_DccAdaptiveParameters" "evaluate i a = (Inr delta, a')" for a i delta a'
    using that clamp_delta_bounds [of default_DccAdaptiveParameters]
    by (auto simp: evaluate_run adaptive_step_def Let_def split: if_splits)
      (simp_all add: default_DccAdaptiveParameters_def)
qed (auto simp: evaluate_run split: if_splits)

text \<open>
  C15: A station that runs the adaptive control with the standard parameters and hands every
  new \<open>delta\<close> to its gate keeper: whatever is measured and offered, the gate's \<open>delta\<close> stays
  within \<open>[0.0006, 0.03]\<close>, the gate keeper accepts every \<open>delta\<close> it is given, packets are
  admitted at least 25 ms apart, and one is admitted as soon as a second has passed since the
  last.
\<close>

theorem controlled_station:
  assumes "0 < t_on" and "evaluate i (fst (control_after evaluate es (adaptive_init default_DccAdaptiveParameters,
      gate_init (6 / 10000)))) = (Inr delta, a')"
    and "\<And>s. s \<in> set (admissions (gate_view evaluate es (adaptive_init default_DccAdaptiveParameters))
      (gate_init (6 / 10000))) \<Longrightarrow> s + 1 - T_EPSILON \<le> t"
  shows "let sg = (adaptive_init default_DccAdaptiveParameters, gate_init (6 / 10000));
      sg' = control_after evaluate es sg in
    6 / 10000 \<le> gk_delta (snd sg') \<and> gk_delta (snd sg') \<le> 3 / 100
    \<and> fst (control_do evaluate (EVALUATE t i) sg') = Inr False
    \<and> fst (control_do evaluate (PACKET t t_on) sg') = Inr True
    \<and> sorted_wrt (\<lambda>s t. s + 25 / 1000 - T_EPSILON \<le> t) (admissions (gate_view evaluate es (fst sg)) (snd sg))"
proof -
  let ?a = "adaptive_init default_DccAdaptiveParameters" and ?g = "gate_init (6 / 10000)"
  obtain a g where ag: "control_after evaluate es (?a, ?g) = (a, g)" by fastforce
  have "ad_parameters a = default_DccAdaptiveParameters \<and> gate_ok g
      \<and> 6 / 10000 \<le> gk_delta g \<and> gk_delta g \<le> 3 / 100"
    using limeric.gate_delta_within [of ?a ?g es] unfolding ag
    by (simp add: adaptive_init_def) (simp add: gate_init_def)
  then have a: "ad_parameters a = default_DccAdaptiveParameters" and g: "gate_ok g"
    and delta: "6 / 10000 \<le> gk_delta g" "gk_delta g \<le> 3 / 100" by auto
  have view: "g = gate_after (gate_view evaluate es ?a) ?g"
    using control_after_gate [of evaluate es ?a ?g] ag by simp
  have "is_open t g"
  proof (rule open_after_max [OF g])
    fix t_pg assume "gk_t_pg g = Some t_pg"
    then have "t_pg \<in> set (admissions (gate_view evaluate es ?a) ?g)"
      using gate_last_admission [of ?g "gate_view evaluate es ?a"]
      by (auto simp: view gate_init_pg split: if_splits)
    then show "t_pg + 1 - T_EPSILON \<le> t" by (rule assms(3))
  qed
  then have "fst (control_do evaluate (PACKET t t_on) (a, g)) = Inr True"
    using assms(1) by (simp add: admit_packet_run [OF g] Let_def split_beta)
  moreover have "fst (control_do evaluate (EVALUATE t i) (a, g)) = Inr False"
    using limeric.controlled_gate_accepts [OF a g] assms(2) ag by simp
  moreover have "sorted_wrt (\<lambda>s t. s + 25 / 1000 - T_EPSILON \<le> t) (admissions (gate_view evaluate es ?a) ?g)"
    by (rule admissions_spaced) simp
  ultimately show ?thesis using ag delta by (simp add: Let_def)
qed

lemma controlled_station_witness:
  "let sg = (adaptive_init default_DccAdaptiveParameters, gate_init (6 / 10000));
      sg' = control_after evaluate [PACKET 0 (1 / 10)] sg in
    fst (control_do evaluate (PACKET 1 (1 / 1000)) sg') = Inr True"
proof -
  let ?a = "adaptive_init default_DccAdaptiveParameters"
  obtain delta a' where "evaluate (1, 1, None, None) ?a = (Inr delta, a')"
    by (simp add: evaluate_run ratios_ok_def)
  moreover have "fst (control_after evaluate [PACKET 0 (1 / 10)] (?a, gate_init (6 / 10000))) = ?a"
    by (simp add: control_after_def Let_def split_beta)
  moreover have "s + 1 - T_EPSILON \<le> 1"
    if "s \<in> set (admissions (gate_view evaluate [PACKET 0 (1 / 10)] ?a) (gate_init (6 / 10000)))" for s
    using that by (simp add: T_EPSILON_def split: if_splits)
  ultimately show ?thesis
    using controlled_station [of "1 / 1000" "(1, 1, None, None)" "[PACKET 0 (1 / 10)]" delta a' 1]
    by (simp add: Let_def)
qed

end
