(* ===== verification/PyValue.thy ===== *)
theory PyValue
  imports StateResult
begin

text \<open>
  Python values as the facilities layer passes them around: decoded messages are nested
  dictionaries with string keys, ASN.1 choices are pairs, sensor reports are dictionaries of
  numbers. The operations are those the code uses, with the exceptions they raise on a value
  of another type or a missing key. Floats are real numbers.
\<close>

datatype pyval =
    PNone | PBool bool | PInt int | PFloat real | PStr string | PBytes bytes
  | PTuple "pyval list" | PList "pyval list" | PDict "(string \<times> pyval) list"

section \<open>Reading\<close>

text \<open>\<open>v["k"]\<close>: only a dictionary has string keys; anything else raises \<open>TypeError\<close>.\<close>

fun py_item :: "pyval \<Rightarrow> string \<Rightarrow> pyval result" where
  "py_item (PDict d) k = get_key (map_of d k)"
| "py_item _ k = Inl TypeError"

text \<open>\<open>v.get("k", default)\<close>: only a dictionary has the method.\<close>

fun py_get :: "pyval \<Rightarrow> string \<Rightarrow> pyval \<Rightarrow> pyval result" where
  "py_get (PDict d) k w = Inr (case map_of d k of None \<Rightarrow> w | Some v \<Rightarrow> v)"
| "py_get _ k w = Inl AttributeError"

text \<open>\<open>v[i]\<close> for a natural number.\<close>

fun py_index :: "pyval \<Rightarrow> nat \<Rightarrow> pyval result" where
  "py_index (PTuple xs) i = (if i < length xs then Inr (xs ! i) else Inl IndexError)"
| "py_index (PList xs) i = (if i < length xs then Inr (xs ! i) else Inl IndexError)"
| "py_index (PStr s) i = (if i < length s then Inr (PStr [s ! i]) else Inl IndexError)"
| "py_index (PBytes bs) i = (if i < length bs then Inr (PInt (uint (bs ! i))) else Inl IndexError)"
| "py_index (PDict d) i = Inl KeyError"
| "py_index _ i = Inl TypeError"

text \<open>The truth value of \<open>if v:\<close>.\<close>

fun py_truth :: "pyval \<Rightarrow> bool" where
  "py_truth PNone = False"
| "py_truth (PBool b) = b"
| "py_truth (PInt n) = (n \<noteq> 0)"
| "py_truth (PFloat x) = (x \<noteq> 0)"
| "py_truth (PStr s) = (s \<noteq> [])"
| "py_truth (PBytes bs) = (bs \<noteq> [])"
| "py_truth (PTuple xs) = (xs \<noteq> [])"
| "py_truth (PList xs) = (xs \<noteq> [])"
| "py_truth (PDict d) = (d \<noteq> [])"

text \<open>A number as an operand of \<open>/\<close>, \<open>*\<close> and \<open><\<close>.\<close>

fun py_num :: "pyval \<Rightarrow> real result" where
  "py_num (PBool b) = Inr (of_int (bool_int b))"
| "py_num (PInt n) = Inr (of_int n)"
| "py_num (PFloat x) = Inr x"
| "py_num _ = Inl TypeError"

text \<open>
  \<open>float(v)\<close>. A string that is a numeral, which no decoder produces for a number, counts as
  any other string.
\<close>

fun py_float :: "pyval \<Rightarrow> real result" where
  "py_float (PStr s) = Inl ValueError"
| "py_float (PBytes bs) = Inl ValueError"
| "py_float v = py_num v"

text \<open>\<open>"s" in v\<close>.\<close>

fun substring :: "string \<Rightarrow> string \<Rightarrow> bool" where
  "substring s [] = (s = [])"
| "substring s (c # cs) = (take (length s) (c # cs) = s \<or> substring s cs)"

fun py_contains :: "string \<Rightarrow> pyval \<Rightarrow> bool result" where
  "py_contains s (PDict d) = Inr (map_of d s \<noteq> None)"
| "py_contains s (PList xs) = Inr (PStr s \<in> set xs)"
| "py_contains s (PTuple xs) = Inr (PStr s \<in> set xs)"
| "py_contains s (PStr t) = Inr (substring s t)"
| "py_contains s _ = Inl TypeError"

text \<open>
  Values are compared, and looked up in dictionaries, with \<open>==\<close>, for which \<open>1\<close>, \<open>1.0\<close> and
  \<open>True\<close> are the same. \<open>py_canon\<close> picks one form of a number, so that two numbers are equal in
  Python when their forms are; other values are compared as they are.
\<close>

fun py_canon :: "pyval \<Rightarrow> pyval" where
  "py_canon (PBool b) = PInt (bool_int b)"
| "py_canon (PFloat x) = (if x = of_int \<lfloor>x\<rfloor> then PInt \<lfloor>x\<rfloor> else PFloat x)"
| "py_canon v = v"

text \<open>Lists and dictionaries cannot be keys of a dictionary or members of a set.\<close>

fun hashable :: "pyval \<Rightarrow> bool" where
  "hashable (PList xs) = False"
| "hashable (PDict d) = False"
| "hashable (PTuple xs) = list_all hashable xs"
| "hashable _ = True"

definition py_key :: "pyval \<Rightarrow> pyval result" where
  "py_key v = (if hashable v then Inr (py_canon v) else Inl TypeError)"

lemma py_key_int [simp]: "py_key (PInt n) = Inr (PInt n)"
  by (simp add: py_key_def)

lemma py_canon_number:
  assumes "py_num v = Inr x"
  shows "py_canon v = (if x = of_int \<lfloor>x\<rfloor> then PInt \<lfloor>x\<rfloor> else PFloat x)"
  using assms by (cases v) auto

lemma py_canon_eq_iff:
  assumes "py_num v = Inr x" "py_num w = Inr y"
  shows "py_canon v = py_canon w \<longleftrightarrow> x = y"
  using py_canon_number [OF assms(1)] py_canon_number [OF assms(2)] by (auto split: if_splits)

text \<open>Iterating over a value: lists and tuples; the other values are not iterated over in the code.\<close>

fun py_list :: "pyval \<Rightarrow> pyval list result" where
  "py_list (PList xs) = Inr xs"
| "py_list (PTuple xs) = Inr xs"
| "py_list _ = Inl TypeError"

text \<open>A comprehension over a list whose body may raise.\<close>

fun rmap :: "('a \<Rightarrow> 'b result) \<Rightarrow> 'a list \<Rightarrow> 'b list result" where
  "rmap f [] = Inr []"
| "rmap f (x # xs) = rbind (f x) (\<lambda>y. rbind (rmap f xs) (\<lambda>ys. Inr (y # ys)))"

lemma rmap_Inr: "rmap f xs = Inr ys \<longleftrightarrow> list_all2 (\<lambda>x y. f x = Inr y) xs ys"
  by (induction xs arbitrary: ys) (auto simp: rbind_eq_Inr list_all2_Cons1)

lemma rmap_map: "\<forall>x\<in>set xs. f x = Inr (g x) \<Longrightarrow> rmap f xs = Inr (map g xs)"
  by (induction xs) simp_all

text \<open>The decimal digits of a number, and \<open>str(v)\<close>; no container is turned into text by the code.\<close>

fun digits :: "nat \<Rightarrow> string" where
  "digits n = (if n < 10 then [''0123456789'' ! n] else digits (n div 10) @ [''0123456789'' ! (n mod 10)])"

fun py_str :: "pyval \<Rightarrow> string" where
  "py_str (PStr s) = s"
| "py_str (PInt n) = (if n < 0 then CHR ''-'' # digits (nat (- n)) else digits (nat n))"
| "py_str (PBool b) = (if b then ''True'' else ''False'')"
| "py_str PNone = ''None''"
| "py_str _ = []"

text \<open>\<open>a, b = v\<close>.\<close>

fun py_iter :: "pyval \<Rightarrow> pyval list result" where
  "py_iter (PStr s) = Inr (map (\<lambda>c. PStr [c]) s)"
| "py_iter (PBytes bs) = Inr (map (\<lambda>b. PInt (uint b)) bs)"
| "py_iter (PDict d) = Inr (map (\<lambda>e. PStr (fst e)) d)"
| "py_iter v = py_list v"

definition unpack2 :: "pyval \<Rightarrow> (pyval \<times> pyval) result" where
  "unpack2 v = rbind (py_iter v) (\<lambda>xs. case xs of [a, b] \<Rightarrow> Inr (a, b) | _ \<Rightarrow> Inl ValueError)"

lemma unpack2_pair [simp]: "unpack2 (PTuple [a, b]) = Inr (a, b)"
  by (simp add: unpack2_def)

section \<open>Writing\<close>

text \<open>
  \<open>v[p\<^sub>1]...[p\<^sub>n] = w\<close> changes the innermost dictionary in place; since nothing else refers to
  the dictionaries on the way, the whole value is rebuilt. A step is a key or an index.
\<close>

datatype py_step = Key string | Idx nat

fun py_set :: "py_step list \<Rightarrow> pyval \<Rightarrow> pyval \<Rightarrow> pyval result" where
  "py_set [] w v = Inr w"
| "py_set [Key k] w (PDict d) = Inr (PDict (AList.update k w d))"
| "py_set (Key k # ps) w (PDict d) =
     rbind (get_key (map_of d k)) (\<lambda>u. rbind (py_set ps w u) (\<lambda>u'.
     Inr (PDict (AList.update k u' d))))"
| "py_set [Idx i] w (PTuple xs) = Inl TypeError"
| "py_set (Idx i # ps) w (PTuple xs) =
     (if i < length xs
      then rbind (py_set ps w (xs ! i)) (\<lambda>u. Inr (PTuple (xs[i := u])))
      else Inl IndexError)"
| "py_set (Idx i # ps) w (PList xs) =
     (if i < length xs
      then rbind (py_set ps w (xs ! i)) (\<lambda>u. Inr (PList (xs[i := u])))
      else Inl IndexError)"
| "py_set _ w v = Inl TypeError"

fun py_path :: "py_step list \<Rightarrow> pyval \<Rightarrow> pyval result" where
  "py_path [] v = Inr v"
| "py_path (Key k # ps) v = rbind (py_item v k) (py_path ps)"
| "py_path (Idx i # ps) v = rbind (py_index v i) (py_path ps)"

lemma py_path_set_same:
  "py_set ps w v = Inr v' \<Longrightarrow> py_path ps v' = Inr w"
  by (induction ps w v arbitrary: v' rule: py_set.induct)
    (auto simp: rbind_eq_Inr update_conv split: if_splits)

end
