(* ===== verification/VruClustering.thy ===== *)
theory VruClustering
  imports PyValue Sphere
begin

text \<open>
  The cluster state machine of the VRU awareness service
  (\<open>src/flexstack/facilities/vru_awareness_service/vru_clustering.py\<close>): a pedestrian or cyclist
  is idle, on its own, the leader of a cluster, or a member of one. \<open>v_time_fn\<close> and
  \<open>v_random\<close> are the clock and \<open>random.randint(1, 255)\<close>, functions of the number of the call.
  Received messages are Python values as the decoder delivers them.
\<close>

section \<open>Constants (\<open>vam_constants.py\<close>)\<close>

definition T_GENVAMMAX :: real where "T_GENVAMMAX = 5000"
definition NUM_CREATE_CLUSTER :: nat where "NUM_CREATE_CLUSTER = 3"
definition MAX_CLUSTER_DISTANCE :: int where "MAX_CLUSTER_DISTANCE = 5"
definition MIN_CLUSTER_SIZE :: int where "MIN_CLUSTER_SIZE = 1"
definition TIME_CLUSTER_UNIQUENESS_THRESHOLD :: real where "TIME_CLUSTER_UNIQUENESS_THRESHOLD = 30"
definition TIME_CLUSTER_BREAKUP_WARNING :: real where "TIME_CLUSTER_BREAKUP_WARNING = 3"
definition TIME_CLUSTER_JOIN_NOTIFICATION :: real where "TIME_CLUSTER_JOIN_NOTIFICATION = 3"
definition TIME_CLUSTER_JOIN_SUCCESS :: real where "TIME_CLUSTER_JOIN_SUCCESS = 1 / 2"
definition TIME_CLUSTER_CONTINUITY :: real where "TIME_CLUSTER_CONTINUITY = 2"
definition TIME_CLUSTER_LEAVE_NOTIFICATION :: real where "TIME_CLUSTER_LEAVE_NOTIFICATION = 1"

lemmas cluster_times =
  TIME_CLUSTER_BREAKUP_WARNING_def TIME_CLUSTER_JOIN_NOTIFICATION_def
  TIME_CLUSTER_JOIN_SUCCESS_def TIME_CLUSTER_CONTINUITY_def TIME_CLUSTER_LEAVE_NOTIFICATION_def

section \<open>Data\<close>

datatype VBSState =
  VRU_IDLE | VRU_ACTIVE_STANDALONE | VRU_ACTIVE_CLUSTER_LEADER | VRU_PASSIVE

datatype ClusterLeaveReason =
    LV_NOT_PROVIDED | CLUSTER_LEADER_LOST | CLUSTER_DISBANDED_BY_LEADER
  | OUT_OF_CLUSTER_BOUNDING_BOX | OUT_OF_CLUSTER_SPEED_RANGE | LV_JOINING_ANOTHER_CLUSTER
  | CANCELLED_JOIN | FAILED_JOIN | SAFETY_CONDITION

fun leave_reason_value :: "ClusterLeaveReason \<Rightarrow> string" where
  "leave_reason_value LV_NOT_PROVIDED = ''notProvided''"
| "leave_reason_value CLUSTER_LEADER_LOST = ''clusterLeaderLost''"
| "leave_reason_value CLUSTER_DISBANDED_BY_LEADER = ''clusterDisbandedByLeader''"
| "leave_reason_value OUT_OF_CLUSTER_BOUNDING_BOX = ''outOfClusterBoundingBox''"
| "leave_reason_value OUT_OF_CLUSTER_SPEED_RANGE = ''outOfClusterSpeedRange''"
| "leave_reason_value LV_JOINING_ANOTHER_CLUSTER = ''joiningAnotherCluster''"
| "leave_reason_value CANCELLED_JOIN = ''cancelledJoin''"
| "leave_reason_value FAILED_JOIN = ''failedJoin''"
| "leave_reason_value SAFETY_CONDITION = ''safetyCondition''"

datatype ClusterBreakupReason =
    BR_NOT_PROVIDED | CLUSTERING_PURPOSE_COMPLETED | LEADER_MOVED_OUT_OF_BOUNDING_BOX
  | BR_JOINING_ANOTHER_CLUSTER | ENTERING_LOW_RISK_AREA | RECEPTION_OF_CPM_CONTAINING_CLUSTER

fun breakup_reason_value :: "ClusterBreakupReason \<Rightarrow> string" where
  "breakup_reason_value BR_NOT_PROVIDED = ''notProvided''"
| "breakup_reason_value CLUSTERING_PURPOSE_COMPLETED = ''clusteringPurposeCompleted''"
| "breakup_reason_value LEADER_MOVED_OUT_OF_BOUNDING_BOX = ''leaderMovedOutOfClusterBoundingBox''"
| "breakup_reason_value BR_JOINING_ANOTHER_CLUSTER = ''joiningAnotherCluster''"
| "breakup_reason_value ENTERING_LOW_RISK_AREA = ''enteringLowRiskAreaBasedOnMaps''"
| "breakup_reason_value RECEPTION_OF_CPM_CONTAINING_CLUSTER = ''receptionOfCpmContainingCluster''"

datatype JoinSubstate = JS_NONE | JS_NOTIFY | JS_WAITING | JS_JOINED | JS_CANCELLED | JS_FAILED

datatype LeaveSubstate = LV_NONE | LV_NOTIFY

record NearbyVRU =
  nv_station_id :: pyval
  nv_lat :: real
  nv_lon :: real
  nv_speed :: real
  nv_heading :: real
  nv_last_seen :: real

record NearbyCluster =
  nc_cluster_id :: pyval
  nc_leader_station_id :: pyval
  nc_cardinality :: pyval
  nc_lat :: real
  nc_lon :: real
  nc_speed :: real
  nc_heading :: real
  nc_bounding_box_radius :: "real option"
  nc_last_seen :: real

record ClusterState =
  cl_cluster_id :: int
  cl_cardinality :: int
  cl_profiles :: "string list"
  cl_radius :: real
  cl_breakup_started :: "real option"
  cl_breakup_reason :: "ClusterBreakupReason option"
  cl_pending_members :: "pyval set"

record vbs =
  v_own_station_id :: int
  v_own_vru_profile :: string
  v_state :: VBSState
  v_cluster :: "ClusterState option"
  v_joined_cluster_id :: "int option"
  v_leader_station_id :: "pyval option"
  v_last_leader_vam_time :: "real option"
  v_join_substate :: JoinSubstate
  v_join_target_cluster_id :: "int option"
  v_join_started :: "real option"
  v_join_leave_reason :: "ClusterLeaveReason option"
  v_join_leave_started :: "real option"
  v_leave_substate :: LeaveSubstate
  v_leave_reason :: "ClusterLeaveReason option"
  v_leave_cluster_id :: "int option"
  v_leave_started :: "real option"
  v_nearby_vrus :: "(pyval, NearbyVRU) dict"
  v_nearby_clusters :: "(pyval, NearbyCluster) dict"
  v_seen_cluster_ids :: "(pyval, real) dict"
  v_time_fn :: "nat \<Rightarrow> real"
  v_time_calls :: nat
  v_random :: "nat \<Rightarrow> int"
  v_random_calls :: nat

definition vbs_init :: "int \<Rightarrow> string \<Rightarrow> (nat \<Rightarrow> real) \<Rightarrow> (nat \<Rightarrow> int) \<Rightarrow> vbs" where
  "vbs_init own_station_id own_vru_profile time_fn random =
     \<lparr>v_own_station_id = own_station_id, v_own_vru_profile = own_vru_profile,
      v_state = VRU_ACTIVE_STANDALONE, v_cluster = None, v_joined_cluster_id = None,
      v_leader_station_id = None, v_last_leader_vam_time = None, v_join_substate = JS_NONE,
      v_join_target_cluster_id = None, v_join_started = None, v_join_leave_reason = None,
      v_join_leave_started = None, v_leave_substate = LV_NONE, v_leave_reason = None,
      v_leave_cluster_id = None, v_leave_started = None, v_nearby_vrus = [],
      v_nearby_clusters = [], v_seen_cluster_ids = [], v_time_fn = time_fn, v_time_calls = 0,
      v_random = random, v_random_calls = 0\<rparr>"

definition vru_heading_diff :: "real \<Rightarrow> real \<Rightarrow> real" where
  "vru_heading_diff h1 h2 =
     (let diff = py_fmod \<bar>h1 - h2\<bar> 360 in if diff \<le> 180 then diff else 360 - diff)"

definition haversine_distance :: "real \<Rightarrow> real \<Rightarrow> real \<Rightarrow> real \<Rightarrow> real" where
  "haversine_distance lat1 lon1 lat2 lon2 =
     (let a = haversine_term lat1 lon1 lat2 lon2
      in 6371000 * 2 * atan2 (sqrt a) (sqrt (1 - a)))"

text \<open>\<open>self._time_fn()\<close> and \<open>random.randint(1, 255)\<close>.\<close>

definition time_fn :: "(vbs, real) prog" where
  "time_fn v = (Inr (v_time_fn v (v_time_calls v)), v\<lparr>v_time_calls := Suc (v_time_calls v)\<rparr>)"

definition randint :: "(vbs, int) prog" where
  "randint v = (Inr (v_random v (v_random_calls v)), v\<lparr>v_random_calls := Suc (v_random_calls v)\<rparr>)"

section \<open>Role and creation\<close>

definition set_vru_role_on :: "vbs \<Rightarrow> vbs" where
  "set_vru_role_on v =
     (if v_state v = VRU_IDLE then v\<lparr>v_state := VRU_ACTIVE_STANDALONE\<rparr> else v)"

definition set_vru_role_off :: "vbs \<Rightarrow> vbs" where
  "set_vru_role_off v =
     v\<lparr>v_state := VRU_IDLE, v_cluster := None, v_joined_cluster_id := None,
       v_leader_station_id := None, v_last_leader_vam_time := None,
       v_join_substate := JS_NONE, v_leave_substate := LV_NONE\<rparr>"

fun pick_cluster_id :: "nat \<Rightarrow> pyval list \<Rightarrow> (vbs, int option) prog" where
  "pick_cluster_id 0 recent = return_s None"
| "pick_cluster_id (Suc n) recent =
     bind_s randint (\<lambda>candidate.
       if PInt candidate \<notin> set recent then return_s (Some candidate)
       else pick_cluster_id n recent)"

definition generate_unique_cluster_id :: "real \<Rightarrow> (vbs, int option) prog" where
  "generate_unique_cluster_id now =
     then_s (modify_s (\<lambda>v. v\<lparr>v_seen_cluster_ids :=
         dict_filter (\<lambda>k t. now - t < TIME_CLUSTER_UNIQUENESS_THRESHOLD) (v_seen_cluster_ids v)\<rparr>))
       (bind_s (gets_s (\<lambda>v. map fst (v_seen_cluster_ids v))) (pick_cluster_id 100))"

definition nearby_count :: "real \<Rightarrow> real \<Rightarrow> real \<Rightarrow> vbs \<Rightarrow> nat" where
  "nearby_count now own_lat own_lon v =
     length (filter (\<lambda>vru. now - nv_last_seen vru < T_GENVAMMAX / 1000
         \<and> haversine_distance own_lat own_lon (nv_lat vru) (nv_lon vru) \<le> of_int MAX_CLUSTER_DISTANCE)
       (map snd (v_nearby_vrus v)))"

definition try_create_cluster :: "real \<Rightarrow> real \<Rightarrow> (vbs, bool) prog" where
  "try_create_cluster own_lat own_lon =
     bind_s (gets_s v_state) (\<lambda>state.
       if state \<noteq> VRU_ACTIVE_STANDALONE then return_s False
       else
         bind_s time_fn (\<lambda>now.
         bind_s (gets_s (nearby_count now own_lat own_lon)) (\<lambda>count.
           if count < NUM_CREATE_CLUSTER then return_s False
           else
             bind_s (generate_unique_cluster_id now) (\<lambda>cluster_id.
               case cluster_id of
                 None \<Rightarrow> return_s False
               | Some cid \<Rightarrow>
                   then_s (modify_s (\<lambda>v. v\<lparr>v_cluster := Some
                       \<lparr>cl_cluster_id = cid, cl_cardinality = MIN_CLUSTER_SIZE,
                        cl_profiles = [v_own_vru_profile v],
                        cl_radius = of_int MAX_CLUSTER_DISTANCE, cl_breakup_started = None,
                        cl_breakup_reason = None, cl_pending_members = {}\<rparr>,
                      v_state := VRU_ACTIVE_CLUSTER_LEADER\<rparr>))
                     (return_s True)))))"

section \<open>Joining, leaving, breaking up\<close>

definition initiate_join :: "int \<Rightarrow> (vbs, bool) prog" where
  "initiate_join cluster_id =
     bind_s (gets_s (\<lambda>v. v)) (\<lambda>v.
       if v_state v \<noteq> VRU_ACTIVE_STANDALONE then return_s False
       else if v_join_substate v \<noteq> JS_NONE then return_s False
       else
         then_s (modify_s (\<lambda>v. v\<lparr>v_join_substate := JS_NOTIFY,
             v_join_target_cluster_id := Some cluster_id\<rparr>))
         (bind_s time_fn (\<lambda>now.
          then_s (modify_s (\<lambda>v. v\<lparr>v_join_started := Some now\<rparr>)) (return_s True))))"

definition cancel_join :: "(vbs, unit) prog" where
  "cancel_join =
     bind_s (gets_s v_join_substate) (\<lambda>sub.
       if sub \<notin> {JS_NOTIFY, JS_WAITING} then return_s ()
       else
         then_s (modify_s (\<lambda>v. v\<lparr>v_join_leave_reason := Some CANCELLED_JOIN\<rparr>))
         (bind_s time_fn (\<lambda>now.
          modify_s (\<lambda>v. v\<lparr>v_join_leave_started := Some now, v_join_substate := JS_CANCELLED\<rparr>))))"

definition confirm_join_failed :: "(vbs, unit) prog" where
  "confirm_join_failed =
     bind_s (gets_s v_join_substate) (\<lambda>sub.
       if sub \<noteq> JS_WAITING then return_s ()
       else
         then_s (modify_s (\<lambda>v. v\<lparr>v_join_leave_reason := Some FAILED_JOIN\<rparr>))
         (bind_s time_fn (\<lambda>now.
          modify_s (\<lambda>v. v\<lparr>v_join_leave_started := Some now, v_join_substate := JS_FAILED\<rparr>))))"

definition do_leave_to_standalone :: "ClusterLeaveReason \<Rightarrow> (vbs, unit) prog" where
  "do_leave_to_standalone reason =
     then_s (modify_s (\<lambda>v. v\<lparr>v_leave_substate := LV_NOTIFY, v_leave_reason := Some reason,
         v_leave_cluster_id := v_joined_cluster_id v\<rparr>))
     (bind_s time_fn (\<lambda>now.
      modify_s (\<lambda>v. v\<lparr>v_leave_started := Some now, v_joined_cluster_id := None,
        v_leader_station_id := None, v_last_leader_vam_time := None,
        v_join_substate := JS_NONE, v_join_target_cluster_id := None,
        v_state := VRU_ACTIVE_STANDALONE\<rparr>)))"

definition trigger_leave_cluster :: "ClusterLeaveReason \<Rightarrow> (vbs, unit) prog" where
  "trigger_leave_cluster reason =
     bind_s (gets_s (\<lambda>v. v)) (\<lambda>v.
       if v_state v = VRU_PASSIVE then do_leave_to_standalone reason
       else if v_state v = VRU_ACTIVE_STANDALONE \<and> v_join_substate v = JS_NOTIFY then cancel_join
       else return_s ())"

definition trigger_breakup_cluster :: "ClusterBreakupReason \<Rightarrow> (vbs, bool) prog" where
  "trigger_breakup_cluster reason =
     bind_s (gets_s (\<lambda>v. v)) (\<lambda>v.
       if v_state v \<noteq> VRU_ACTIVE_CLUSTER_LEADER then return_s False
       else
         (case v_cluster v of
            None \<Rightarrow> return_s False
          | Some c \<Rightarrow>
              if cl_breakup_started c \<noteq> None then return_s False
              else
                bind_s time_fn (\<lambda>now.
                then_s (modify_s (\<lambda>v. v\<lparr>v_cluster := Some (c\<lparr>cl_breakup_started := Some now,
                    cl_breakup_reason := Some reason\<rparr>)\<rparr>))
                  (return_s True))))"

section \<open>Periodic maintenance\<close>

definition expire_nearby_tables :: "real \<Rightarrow> vbs \<Rightarrow> vbs" where
  "expire_nearby_tables now v =
     (let max_age = T_GENVAMMAX / 1000 in
      v\<lparr>v_nearby_vrus := dict_filter (\<lambda>k n. now - nv_last_seen n < max_age) (v_nearby_vrus v),
        v_nearby_clusters :=
          dict_filter (\<lambda>k n. now - nc_last_seen n < max_age) (v_nearby_clusters v)\<rparr>)"

text \<open>\<open>assert x is not None\<close>, then \<open>if now - x >= limit\<close>.\<close>

definition after_limit ::
    "(vbs \<Rightarrow> real option) \<Rightarrow> real \<Rightarrow> real \<Rightarrow> (vbs, unit) prog \<Rightarrow> (vbs, unit) prog" where
  "after_limit started now limit action =
     bind_s (gets_s started) (\<lambda>t0.
       case t0 of
         None \<Rightarrow> raise_s AssertionError
       | Some t \<Rightarrow> if now - t \<ge> limit then action else return_s ())"

definition end_leave_notification :: "(vbs, unit) prog" where
  "end_leave_notification =
     modify_s (\<lambda>v. v\<lparr>v_leave_substate := LV_NONE, v_leave_reason := None,
       v_leave_cluster_id := None, v_leave_started := None\<rparr>)"

definition update_leave_notification :: "real \<Rightarrow> (vbs, unit) prog" where
  "update_leave_notification now =
     bind_s (gets_s v_leave_substate) (\<lambda>sub.
       if sub = LV_NOTIFY
       then after_limit v_leave_started now TIME_CLUSTER_LEAVE_NOTIFICATION end_leave_notification
       else return_s ())"

definition update_standalone :: "real \<Rightarrow> (vbs, unit) prog" where
  "update_standalone now =
     then_s
       (bind_s (gets_s v_join_substate) (\<lambda>sub.
         if sub = JS_NOTIFY then
           after_limit v_join_started now TIME_CLUSTER_JOIN_NOTIFICATION
             (modify_s (\<lambda>v. v\<lparr>v_join_substate := JS_WAITING, v_join_started := Some now,
                v_state := VRU_ACTIVE_STANDALONE\<rparr>))
         else if sub = JS_WAITING then
           after_limit v_join_started now TIME_CLUSTER_JOIN_SUCCESS confirm_join_failed
         else if sub \<in> {JS_CANCELLED, JS_FAILED} then
           after_limit v_join_leave_started now TIME_CLUSTER_LEAVE_NOTIFICATION
             (modify_s (\<lambda>v. v\<lparr>v_join_substate := JS_NONE, v_join_target_cluster_id := None,
                v_join_leave_reason := None, v_join_leave_started := None\<rparr>))
         else return_s ()))
       (update_leave_notification now)"

definition update_leader :: "real \<Rightarrow> (vbs, unit) prog" where
  "update_leader now =
     modify_s (\<lambda>v.
       case v_cluster v of
         None \<Rightarrow> v
       | Some c \<Rightarrow>
           (case cl_breakup_started c of
              None \<Rightarrow> v
            | Some t \<Rightarrow>
                if now - t \<ge> TIME_CLUSTER_BREAKUP_WARNING
                then v\<lparr>v_cluster := None, v_state := VRU_ACTIVE_STANDALONE\<rparr> else v))"

definition update_passive :: "real \<Rightarrow> (vbs, unit) prog" where
  "update_passive now =
     bind_s (gets_s v_last_leader_vam_time) (\<lambda>last.
       if (case last of None \<Rightarrow> False | Some t \<Rightarrow> now - t \<ge> TIME_CLUSTER_CONTINUITY)
       then do_leave_to_standalone CLUSTER_LEADER_LOST
       else update_leave_notification now)"

text \<open>The position and motion that \<open>update\<close> is given are not used.\<close>

definition vbs_update :: "real \<Rightarrow> real \<Rightarrow> real \<Rightarrow> real \<Rightarrow> (vbs, unit) prog" where
  "vbs_update own_lat own_lon own_speed own_heading =
     bind_s time_fn (\<lambda>now.
     then_s (modify_s (expire_nearby_tables now))
     (bind_s (gets_s v_state) (\<lambda>state.
       case state of
         VRU_ACTIVE_STANDALONE \<Rightarrow> update_standalone now
       | VRU_ACTIVE_CLUSTER_LEADER \<Rightarrow> update_leader now
       | VRU_PASSIVE \<Rightarrow> update_passive now
       | VRU_IDLE \<Rightarrow> return_s ())))"

end
