(* ===== verification/VruReception.thy ===== *)
theory VruReception
  imports VruClustering
begin

text \<open>
  The cluster state machine, continued: what a received awareness message (VAM) changes, and
  the containers and answers that the transmission asks for.
\<close>

section \<open>Reception of a VAM\<close>

definition complete_join :: "pyval \<Rightarrow> (vbs, unit) prog" where
  "complete_join leader_station_id =
     then_s (modify_s (\<lambda>v. v\<lparr>v_join_substate := JS_JOINED,
         v_joined_cluster_id := v_join_target_cluster_id v,
         v_leader_station_id := Some leader_station_id\<rparr>))
     (bind_s time_fn (\<lambda>now.
      modify_s (\<lambda>v. v\<lparr>v_last_leader_vam_time := Some now, v_state := VRU_PASSIVE\<rparr>)))"

text \<open>\<open>v["a"]["b"]\<close> read as a number and scaled; \<open>v.get("a", {}).get("b", 0)\<close> likewise.\<close>

definition scaled_item :: "real \<Rightarrow> string \<Rightarrow> string \<Rightarrow> pyval \<Rightarrow> real result" where
  "scaled_item scale a b v =
     rbind (py_item v a) (\<lambda>u. rbind (py_item u b) (\<lambda>w. rbind (py_num w) (\<lambda>x. Inr (x / scale))))"

definition scaled_get :: "real \<Rightarrow> string \<Rightarrow> string \<Rightarrow> pyval \<Rightarrow> real result" where
  "scaled_get scale a b v =
     rbind (py_get v a (PDict [])) (\<lambda>u. rbind (py_get u b (PInt 0)) (\<lambda>w.
     rbind (py_num w) (\<lambda>x. Inr (x / scale))))"

definition bounding_box_radius :: "pyval \<Rightarrow> real option result" where
  "bounding_box_radius bbox =
     (if py_truth bbox then
        rbind (py_contains ''circular'' bbox) (\<lambda>c.
          if c then
            rbind (py_item bbox ''circular'') (\<lambda>circular.
            rbind (py_get circular ''radius'' (PInt MAX_CLUSTER_DISTANCE)) (\<lambda>r.
            rbind (py_float r) (\<lambda>x. Inr (Some x))))
          else Inr None)
      else Inr None)"

definition process_cluster_information ::
    "pyval \<Rightarrow> pyval \<Rightarrow> NearbyVRU \<Rightarrow> (vbs, unit) prog" where
  "process_cluster_information ctr sender_id n =
     bind_s (lift_s (py_item ctr ''vruClusterInformation'')) (\<lambda>vci.
     bind_s (lift_s (py_get vci ''clusterId'' (PInt 0))) (\<lambda>c_id.
     bind_s (lift_s (py_get vci ''clusterCardinalitySize'' (PInt 1))) (\<lambda>cardinality.
     bind_s (lift_s (rbind (py_get vci ''clusterBoundingBoxShape'' PNone) bounding_box_radius)) (\<lambda>radius.
     bind_s (lift_s (py_key c_id)) (\<lambda>key.
     then_s (modify_s (\<lambda>v. v\<lparr>v_nearby_clusters := dict_set key
         \<lparr>nc_cluster_id = key, nc_leader_station_id = sender_id, nc_cardinality = cardinality,
          nc_lat = nv_lat n, nc_lon = nv_lon n, nc_speed = nv_speed n, nc_heading = nv_heading n,
          nc_bounding_box_radius = radius, nc_last_seen = nv_last_seen n\<rparr>
         (v_nearby_clusters v)\<rparr>))
     (then_s (modify_s (\<lambda>v.
         if dict_get (v_seen_cluster_ids v) key = None
         then v\<lparr>v_seen_cluster_ids := dict_set key (nv_last_seen n) (v_seen_cluster_ids v)\<rparr> else v))
     (bind_s (gets_s (\<lambda>v. v)) (\<lambda>v.
       if v_state v = VRU_ACTIVE_STANDALONE \<and> v_join_substate v = JS_WAITING
          \<and> (case v_join_target_cluster_id v of None \<Rightarrow> False | Some t \<Rightarrow> key = PInt t)
       then complete_join sender_id
       else return_s ()))))))))"

text \<open>A joining or leaving notification for the led cluster adds or removes its sender.\<close>

definition track_member ::
    "pyval \<Rightarrow> (pyval set \<Rightarrow> pyval set) \<Rightarrow> (vbs, unit) prog" where
  "track_member info change =
     bind_s (gets_s v_cluster) (\<lambda>cluster.
       case cluster of
         None \<Rightarrow> return_s ()
       | Some c \<Rightarrow>
           if py_truth info then
             bind_s (lift_s (py_get info ''clusterId'' PNone)) (\<lambda>cid.
               if py_canon cid = PInt (cl_cluster_id c) then
                 modify_s (\<lambda>v. v\<lparr>v_cluster := Some
                   (let members = change (cl_pending_members c) in
                    c\<lparr>cl_pending_members := members,
                      cl_cardinality := max MIN_CLUSTER_SIZE (int (card members) + 1)\<rparr>)\<rparr>)
               else return_s ())
           else return_s ())"

definition process_breakup :: "pyval \<Rightarrow> pyval \<Rightarrow> (vbs, unit) prog" where
  "process_breakup breakup_info sender_id =
     bind_s (gets_s (\<lambda>v. v)) (\<lambda>v.
       if v_state v = VRU_PASSIVE
          \<and> (v_leader_station_id v = Some sender_id
             \<or> (case v_joined_cluster_id v of None \<Rightarrow> PNone | Some c \<Rightarrow> PInt c)
               = (case dict_get (v_nearby_clusters v) (PInt 0) of
                    None \<Rightarrow> PInt 0 | Some c \<Rightarrow> nc_cluster_id c))
       then
         bind_s (lift_s (py_get breakup_info ''clusterBreakupReason''
             (PStr ''clusterDisbandedByLeader''))) (\<lambda>reason.
           if reason = PStr (breakup_reason_value RECEPTION_OF_CPM_CONTAINING_CLUSTER)
           then return_s ()
           else do_leave_to_standalone CLUSTER_DISBANDED_BY_LEADER)
       else return_s ())"

definition process_cluster_operation :: "pyval \<Rightarrow> pyval \<Rightarrow> (vbs, unit) prog" where
  "process_cluster_operation ctr sender_id =
     bind_s (lift_s (py_get ctr ''clusterJoinInfo'' PNone)) (\<lambda>join_info.
     bind_s (lift_s (py_get ctr ''clusterLeaveInfo'' PNone)) (\<lambda>leave_info.
     bind_s (lift_s (py_get ctr ''clusterBreakupInfo'' PNone)) (\<lambda>breakup_info.
     then_s (bind_s (gets_s v_state) (\<lambda>state.
         if state = VRU_ACTIVE_CLUSTER_LEADER then
           then_s (track_member join_info (insert sender_id))
             (track_member leave_info (\<lambda>members. members - {sender_id}))
         else return_s ()))
       (if py_truth breakup_info then process_breakup breakup_info sender_id
        else return_s ()))))"

definition process_received_vam :: "pyval \<Rightarrow> (vbs, unit) prog" where
  "process_received_vam vam =
     bind_s (lift_s (py_item vam ''header'')) (\<lambda>header.
     bind_s (lift_s (py_item header ''stationId'')) (\<lambda>station_id.
     bind_s (lift_s (py_item vam ''vam'')) (\<lambda>body.
     bind_s (lift_s (py_item body ''vamParameters'')) (\<lambda>params.
     bind_s (lift_s (py_item params ''basicContainer'')) (\<lambda>basic.
     bind_s (lift_s (scaled_item 10000000 ''referencePosition'' ''latitude'' basic)) (\<lambda>lat.
     bind_s (lift_s (scaled_item 10000000 ''referencePosition'' ''longitude'' basic)) (\<lambda>lon.
     bind_s (lift_s (py_get params ''vruHighFrequencyContainer'' (PDict []))) (\<lambda>hf.
     bind_s (lift_s (scaled_get 100 ''speed'' ''speedValue'' hf)) (\<lambda>speed.
     bind_s (lift_s (scaled_get 10 ''heading'' ''value'' hf)) (\<lambda>heading.
     bind_s time_fn (\<lambda>now.
     bind_s (lift_s (py_key station_id)) (\<lambda>sender_id.
     let n = \<lparr>nv_station_id = sender_id, nv_lat = lat, nv_lon = lon, nv_speed = speed,
              nv_heading = heading, nv_last_seen = now\<rparr> in
     then_s (modify_s (\<lambda>v. v\<lparr>v_nearby_vrus := dict_set sender_id n (v_nearby_vrus v)\<rparr>))
     (bind_s (lift_s (py_get params ''vruClusterInformationContainer'' PNone)) (\<lambda>info.
     then_s (if py_truth info then process_cluster_information info sender_id n else return_s ())
     (bind_s (lift_s (py_get params ''vruClusterOperationContainer'' PNone)) (\<lambda>operation.
     then_s (if py_truth operation then process_cluster_operation operation sender_id else return_s ())
       (modify_s (\<lambda>v.
          if v_state v = VRU_PASSIVE \<and> v_leader_station_id v = Some sender_id
          then v\<lparr>v_last_leader_vam_time := Some now\<rparr> else v))))))))))))))))))"

definition on_received_vam :: "pyval \<Rightarrow> (vbs, unit) prog" where
  "on_received_vam vam =
     catch_s (process_received_vam vam) (\<lambda>e.
       if e = KeyError \<or> e = TypeError then return_s () else raise_s e)"

section \<open>Containers\<close>

definition encode_cluster_profiles :: "string list \<Rightarrow> pyval" where
  "encode_cluster_profiles profiles =
     PBytes [foldl (\<lambda>bit (name, mask). if name \<in> set profiles then bit OR mask else bit) 0
       [(''pedestrian'', 0x80), (''bicyclistAndLightVruVehicle'', 0x40),
        (''motorcyclist'', 0x20), (''animal'', 0x10)]]"

definition get_cluster_information_container :: "vbs \<Rightarrow> pyval option" where
  "get_cluster_information_container v =
     (case v_cluster v of
        Some c \<Rightarrow>
          if v_state v \<noteq> VRU_ACTIVE_CLUSTER_LEADER then None
          else Some (PDict [(''vruClusterInformation'', PDict
            ([(''clusterId'', PInt (cl_cluster_id c)),
              (''clusterBoundingBoxShape'', PDict [(''circular'', PDict
                 [(''radius'', PInt (max 1 (py_int (cl_radius c))))])]),
              (''clusterCardinalitySize'', PInt (cl_cardinality c))]
             @ (if cl_profiles c = [] then []
                else [(''clusterProfiles'', encode_cluster_profiles (cl_profiles c))])))])
      | None \<Rightarrow> None)"

text \<open>\<open>x or y\<close> for an optional number, which is also replaced when it is 0.\<close>

definition int_or :: "int option \<Rightarrow> int \<Rightarrow> int" where
  "int_or x y = (case x of None \<Rightarrow> y | Some n \<Rightarrow> if n = 0 then y else n)"

definition real_or :: "real option \<Rightarrow> real \<Rightarrow> real" where
  "real_or x y = (case x of None \<Rightarrow> y | Some n \<Rightarrow> if n = 0 then y else n)"

text \<open>The remaining time of a phase in quarters of a second, at most 127.\<close>

definition quarter_seconds :: "real \<Rightarrow> real \<Rightarrow> int" where
  "quarter_seconds limit elapsed = min 127 (py_int (max 0 (limit - elapsed) / (1 / 4)))"

definition leave_info :: "int option \<Rightarrow> ClusterLeaveReason option \<Rightarrow> pyval" where
  "leave_info cluster_id reason =
     PDict [(''clusterLeaveInfo'', PDict
       [(''clusterId'', PInt (int_or cluster_id 0)),
        (''clusterLeaveReason'', PStr (leave_reason_value
           (case reason of None \<Rightarrow> LV_NOT_PROVIDED | Some r \<Rightarrow> r)))])]"

definition standalone_operation_container :: "real \<Rightarrow> vbs \<Rightarrow> pyval option" where
  "standalone_operation_container now v =
     (if v_join_substate v = JS_NOTIFY then
        Some (PDict [(''clusterJoinInfo'', PDict
          [(''clusterId'', PInt (int_or (v_join_target_cluster_id v) 0)),
           (''joinTime'', PInt (quarter_seconds TIME_CLUSTER_JOIN_NOTIFICATION
              (now - real_or (v_join_started v) now)))])])
      else if v_join_substate v \<in> {JS_CANCELLED, JS_FAILED} then
        Some (leave_info (v_join_target_cluster_id v) (v_join_leave_reason v))
      else if v_leave_substate v = LV_NOTIFY then
        Some (leave_info (v_leave_cluster_id v) (v_leave_reason v))
      else None)"

definition passive_operation_container :: "vbs \<Rightarrow> pyval option" where
  "passive_operation_container v =
     (if v_leave_substate v = LV_NOTIFY
      then Some (leave_info (v_leave_cluster_id v) (v_leave_reason v)) else None)"

definition leader_operation_container :: "real \<Rightarrow> vbs \<Rightarrow> pyval option" where
  "leader_operation_container now v =
     (case v_cluster v of
        None \<Rightarrow> None
      | Some c \<Rightarrow>
          (case cl_breakup_started c of
             None \<Rightarrow> None
           | Some t \<Rightarrow> Some (PDict [(''clusterBreakupInfo'', PDict
               [(''clusterBreakupReason'', PStr (breakup_reason_value
                  (case cl_breakup_reason c of None \<Rightarrow> BR_NOT_PROVIDED | Some r \<Rightarrow> r))),
                (''breakupTime'', PInt (quarter_seconds TIME_CLUSTER_BREAKUP_WARNING (now - t)))])])))"

definition get_cluster_operation_container :: "(vbs, pyval option) prog" where
  "get_cluster_operation_container =
     bind_s time_fn (\<lambda>now.
     gets_s (\<lambda>v.
       case v_state v of
         VRU_ACTIVE_STANDALONE \<Rightarrow> standalone_operation_container now v
       | VRU_PASSIVE \<Rightarrow> passive_operation_container v
       | VRU_ACTIVE_CLUSTER_LEADER \<Rightarrow> leader_operation_container now v
       | VRU_IDLE \<Rightarrow> None))"

definition should_transmit_vam :: "vbs \<Rightarrow> bool" where
  "should_transmit_vam v =
     (if v_state v = VRU_IDLE then False
      else if v_state v = VRU_PASSIVE then v_leave_substate v = LV_NOTIFY
      else True)"

definition get_nearby_vru_count :: "vbs \<Rightarrow> nat" where
  "get_nearby_vru_count v = length (v_nearby_vrus v)"

definition get_nearby_cluster_count :: "vbs \<Rightarrow> nat" where
  "get_nearby_cluster_count v = length (v_nearby_clusters v)"

definition get_cluster_id :: "vbs \<Rightarrow> int option" where
  "get_cluster_id v =
     (case (v_state v, v_cluster v) of
        (VRU_ACTIVE_CLUSTER_LEADER, Some c) \<Rightarrow> Some (cl_cluster_id c)
      | (VRU_PASSIVE, _) \<Rightarrow> v_joined_cluster_id v
      | _ \<Rightarrow> None)"

end
