(* ===== verification/VruProps.thy ===== *)
theory VruProps
  imports VruReception
begin

text \<open>
  Properties of the cluster state machine: an invariant of every reachable state, the
  transitions it can make, the handshake of a member with its leader, and how attempts and
  memberships end.
\<close>

section \<open>The invariant\<close>

definition cluster_ok :: "ClusterState \<Rightarrow> bool" where
  "cluster_ok c \<longleftrightarrow> finite (cl_pending_members c)
     \<and> cl_cardinality c = int (card (cl_pending_members c)) + 1
     \<and> (cl_breakup_started c = None \<longleftrightarrow> cl_breakup_reason c = None)"

definition vbs_ok :: "vbs \<Rightarrow> bool" where
  "vbs_ok v \<longleftrightarrow>
     (v_cluster v \<noteq> None \<longleftrightarrow> v_state v = VRU_ACTIVE_CLUSTER_LEADER)
     \<and> (v_join_substate v = JS_JOINED \<longleftrightarrow> v_state v = VRU_PASSIVE)
     \<and> (v_joined_cluster_id v \<noteq> None \<longleftrightarrow> v_state v = VRU_PASSIVE)
     \<and> (v_leader_station_id v \<noteq> None \<longleftrightarrow> v_state v = VRU_PASSIVE)
     \<and> (v_last_leader_vam_time v \<noteq> None \<longleftrightarrow> v_state v = VRU_PASSIVE)
     \<and> (v_join_substate v \<in> {JS_NOTIFY, JS_WAITING}
          \<longrightarrow> v_join_started v \<noteq> None \<and> v_join_target_cluster_id v \<noteq> None)
     \<and> (v_join_substate v \<in> {JS_CANCELLED, JS_FAILED}
          \<longrightarrow> v_join_leave_started v \<noteq> None \<and> v_join_leave_reason v \<noteq> None)
     \<and> (v_leave_substate v = LV_NOTIFY \<longrightarrow> v_leave_started v \<noteq> None \<and> v_leave_reason v \<noteq> None)
     \<and> (\<forall>c. v_cluster v = Some c \<longrightarrow> cluster_ok c)
     \<and> dict_ok (v_nearby_vrus v) \<and> dict_ok (v_nearby_clusters v) \<and> dict_ok (v_seen_cluster_ids v)
     \<and> (\<forall>k c. dict_get (v_nearby_clusters v) k = Some c \<longrightarrow> nc_cluster_id c = k)"

lemma vbs_ok_init [simp]: "vbs_ok (vbs_init sid profile clock random)"
  by (simp add: vbs_ok_def vbs_init_def)

text \<open>The clock and the random numbers.\<close>

lemma time_fn_run [simp]:
  "bind_s time_fn f v = f (v_time_fn v (v_time_calls v)) (v\<lparr>v_time_calls := Suc (v_time_calls v)\<rparr>)"
  "time_fn v = (Inr (v_time_fn v (v_time_calls v)), v\<lparr>v_time_calls := Suc (v_time_calls v)\<rparr>)"
  by (simp_all add: bind_s_def time_fn_def)

lemma vbs_ok_calls [simp]:
  "vbs_ok (v\<lparr>v_time_calls := n\<rparr>) = vbs_ok v" "vbs_ok (v\<lparr>v_random_calls := n\<rparr>) = vbs_ok v"
  by (simp_all add: vbs_ok_def)

lemma keeps_time_fn: "keeps vbs_ok time_fn"
  by (rule keepsI) auto

text \<open>The first of \<open>n\<close> random numbers that is not a recently seen identifier.\<close>

fun first_fresh :: "nat \<Rightarrow> (nat \<Rightarrow> int) \<Rightarrow> nat \<Rightarrow> pyval list \<Rightarrow> int option \<times> nat" where
  "first_fresh 0 f k recent = (None, k)"
| "first_fresh (Suc n) f k recent =
     (if PInt (f k) \<notin> set recent then (Some (f k), Suc k) else first_fresh n f (Suc k) recent)"

lemma pick_cluster_id_run:
  "pick_cluster_id n recent v = (Inr (fst (first_fresh n (v_random v) (v_random_calls v) recent)),
     v\<lparr>v_random_calls := snd (first_fresh n (v_random v) (v_random_calls v) recent)\<rparr>)"
  by (induction n arbitrary: v) (simp_all add: bind_s_def randint_def)

lemma first_fresh_Some:
  "first_fresh n f k recent = (Some cid, k') \<Longrightarrow> PInt cid \<notin> set recent \<and> cid \<in> range f"
  by (induction n arbitrary: k) (auto split: if_splits)

section \<open>Every operation keeps the invariant\<close>

lemma keeps_role: "vbs_ok v \<Longrightarrow> vbs_ok (set_vru_role_on v)" "vbs_ok v \<Longrightarrow> vbs_ok (set_vru_role_off v)"
  by (auto simp: set_vru_role_on_def set_vru_role_off_def vbs_ok_def)

lemma keeps_join: "keeps vbs_ok (initiate_join cid)"
  by (rule keepsI) (auto simp: initiate_join_def vbs_ok_def split: if_splits)

lemma keeps_cancel: "keeps vbs_ok cancel_join"
  by (rule keepsI) (auto simp: cancel_join_def vbs_ok_def split: if_splits)

lemma keeps_confirm_failed: "keeps vbs_ok confirm_join_failed"
  by (rule keepsI) (auto simp: confirm_join_failed_def vbs_ok_def split: if_splits)

text \<open>The run of \<open>_do_leave_to_standalone\<close>.\<close>

definition left_cluster :: "ClusterLeaveReason \<Rightarrow> vbs \<Rightarrow> vbs" where
  "left_cluster reason v =
     v\<lparr>v_leave_substate := LV_NOTIFY, v_leave_reason := Some reason,
       v_leave_cluster_id := v_joined_cluster_id v,
       v_leave_started := Some (v_time_fn v (v_time_calls v)), v_joined_cluster_id := None,
       v_leader_station_id := None, v_last_leader_vam_time := None, v_join_substate := JS_NONE,
       v_join_target_cluster_id := None, v_state := VRU_ACTIVE_STANDALONE,
       v_time_calls := Suc (v_time_calls v)\<rparr>"

lemma do_leave_run: "do_leave_to_standalone reason v = (Inr (), left_cluster reason v)"
  by (simp add: do_leave_to_standalone_def left_cluster_def)

lemma left_cluster_ok: "vbs_ok v \<Longrightarrow> v_state v = VRU_PASSIVE \<Longrightarrow> vbs_ok (left_cluster reason v)"
  by (auto simp: left_cluster_def vbs_ok_def)

lemma keeps_leave: "keeps vbs_ok (trigger_leave_cluster reason)"
proof (rule keepsI)
  fix v r v'
  assume "vbs_ok v" "trigger_leave_cluster reason v = (r, v')"
  then show "vbs_ok v'"
    using left_cluster_ok keepsD [OF keeps_cancel]
    by (auto simp: trigger_leave_cluster_def do_leave_run split: if_splits)
qed

lemma keeps_breakup: "keeps vbs_ok (trigger_breakup_cluster reason)"
  by (rule keepsI)
    (auto simp: trigger_breakup_cluster_def vbs_ok_def cluster_ok_def split: if_splits option.splits)

text \<open>What an attempt to create a cluster leaves behind.\<close>

definition recent_ids :: "real \<Rightarrow> vbs \<Rightarrow> (pyval, real) dict" where
  "recent_ids now v =
     dict_filter (\<lambda>k t. now - t < TIME_CLUSTER_UNIQUENESS_THRESHOLD) (v_seen_cluster_ids v)"

definition new_cluster :: "int \<Rightarrow> vbs \<Rightarrow> ClusterState" where
  "new_cluster cid v =
     \<lparr>cl_cluster_id = cid, cl_cardinality = MIN_CLUSTER_SIZE, cl_profiles = [v_own_vru_profile v],
      cl_radius = of_int MAX_CLUSTER_DISTANCE, cl_breakup_started = None,
      cl_breakup_reason = None, cl_pending_members = {}\<rparr>"

lemma try_create_run:
  "try_create_cluster lat lon v =
    (let now = v_time_fn v (v_time_calls v); v1 = v\<lparr>v_time_calls := Suc (v_time_calls v)\<rparr> in
     if v_state v \<noteq> VRU_ACTIVE_STANDALONE then (Inr False, v)
     else if nearby_count now lat lon v < NUM_CREATE_CLUSTER then (Inr False, v1)
     else (let (cid, k) = first_fresh 100 (v_random v) (v_random_calls v) (map fst (recent_ids now v));
               v2 = v1\<lparr>v_seen_cluster_ids := recent_ids now v, v_random_calls := k\<rparr>
           in case cid of
                None \<Rightarrow> (Inr False, v2)
              | Some c \<Rightarrow> (Inr True, v2\<lparr>v_cluster := Some (new_cluster c v),
                            v_state := VRU_ACTIVE_CLUSTER_LEADER\<rparr>)))"
proof -
  have "nearby_count now lat lon (v\<lparr>v_time_calls := n\<rparr>) = nearby_count now lat lon v" for now n
    by (simp add: nearby_count_def)
  then show ?thesis
    by (simp add: try_create_cluster_def generate_unique_cluster_id_def bind_s_def then_s_def
        pick_cluster_id_run recent_ids_def new_cluster_def Let_def split: option.split prod.split)
qed

lemma keeps_create: "keeps vbs_ok (try_create_cluster lat lon)"
proof (rule keepsI)
  fix v r v'
  assume ok: "vbs_ok v" and run: "try_create_cluster lat lon v = (r, v')"
  have "vbs_ok (v\<lparr>v_time_calls := n, v_seen_cluster_ids := recent_ids now v\<rparr>)" for n now
    using ok by (simp add: vbs_ok_def recent_ids_def)
  moreover have "vbs_ok (v\<lparr>v_time_calls := n, v_seen_cluster_ids := recent_ids now v,
      v_random_calls := k, v_cluster := Some (new_cluster c v), v_state := VRU_ACTIVE_CLUSTER_LEADER\<rparr>)"
    if "v_state v = VRU_ACTIVE_STANDALONE" for n now k c
    using ok that
    by (auto simp: vbs_ok_def recent_ids_def cluster_ok_def new_cluster_def MIN_CLUSTER_SIZE_def)
  ultimately show "vbs_ok v'"
    using run ok
    by (auto simp: try_create_run Let_def split: if_splits prod.splits option.splits)
qed

lemma vbs_ok_expire: "vbs_ok v \<Longrightarrow> vbs_ok (expire_nearby_tables now v)"
  by (auto simp: vbs_ok_def expire_nearby_tables_def Let_def dict_get_filter split: option.splits if_splits)

text \<open>The updates as functions of the state, for states in which no assertion fails.\<close>

definition elapsed :: "real option \<Rightarrow> real \<Rightarrow> real \<Rightarrow> bool" where
  "elapsed started now limit = (case started of None \<Rightarrow> False | Some t \<Rightarrow> now - t \<ge> limit)"

definition leave_notified :: "real \<Rightarrow> vbs \<Rightarrow> vbs" where
  "leave_notified now v =
     (if v_leave_substate v = LV_NOTIFY \<and> elapsed (v_leave_started v) now TIME_CLUSTER_LEAVE_NOTIFICATION
      then v\<lparr>v_leave_substate := LV_NONE, v_leave_reason := None, v_leave_cluster_id := None,
             v_leave_started := None\<rparr>
      else v)"

definition join_advanced :: "real \<Rightarrow> vbs \<Rightarrow> vbs" where
  "join_advanced now v =
     (if v_join_substate v = JS_NOTIFY then
        (if elapsed (v_join_started v) now TIME_CLUSTER_JOIN_NOTIFICATION
         then v\<lparr>v_join_substate := JS_WAITING, v_join_started := Some now,
                v_state := VRU_ACTIVE_STANDALONE\<rparr> else v)
      else if v_join_substate v = JS_WAITING then
        (if elapsed (v_join_started v) now TIME_CLUSTER_JOIN_SUCCESS
         then v\<lparr>v_join_leave_reason := Some FAILED_JOIN,
                v_join_leave_started := Some (v_time_fn v (v_time_calls v)),
                v_join_substate := JS_FAILED, v_time_calls := Suc (v_time_calls v)\<rparr> else v)
      else if v_join_substate v \<in> {JS_CANCELLED, JS_FAILED} then
        (if elapsed (v_join_leave_started v) now TIME_CLUSTER_LEAVE_NOTIFICATION
         then v\<lparr>v_join_substate := JS_NONE, v_join_target_cluster_id := None,
                v_join_leave_reason := None, v_join_leave_started := None\<rparr> else v)
      else v)"

definition updated :: "real \<Rightarrow> vbs \<Rightarrow> vbs" where
  "updated now v =
     (case v_state v of
        VRU_ACTIVE_STANDALONE \<Rightarrow> leave_notified now (join_advanced now v)
      | VRU_ACTIVE_CLUSTER_LEADER \<Rightarrow>
          (if elapsed (cl_breakup_started (the (v_cluster v))) now TIME_CLUSTER_BREAKUP_WARNING
           then v\<lparr>v_cluster := None, v_state := VRU_ACTIVE_STANDALONE\<rparr> else v)
      | VRU_PASSIVE \<Rightarrow>
          (if elapsed (v_last_leader_vam_time v) now TIME_CLUSTER_CONTINUITY
           then left_cluster CLUSTER_LEADER_LOST v else leave_notified now v)
      | VRU_IDLE \<Rightarrow> v)"

lemma after_limit_run:
  "started v \<noteq> None \<Longrightarrow> after_limit started now limit action v
    = (if elapsed (started v) now limit then action v else (Inr (), v))"
  by (auto simp: after_limit_def elapsed_def)

lemma update_leave_notification_run:
  "vbs_ok v \<Longrightarrow> update_leave_notification now v = (Inr (), leave_notified now v)"
  by (simp add: update_leave_notification_def leave_notified_def end_leave_notification_def
      after_limit_run vbs_ok_def)

lemma join_advanced_ok:
  "vbs_ok v \<Longrightarrow> v_state v = VRU_ACTIVE_STANDALONE \<Longrightarrow> vbs_ok (join_advanced now v)"
  "v_state v = VRU_ACTIVE_STANDALONE \<Longrightarrow> v_state (join_advanced now v) = VRU_ACTIVE_STANDALONE"
  by (auto simp: vbs_ok_def join_advanced_def)

lemma leave_notified_ok: "vbs_ok v \<Longrightarrow> vbs_ok (leave_notified now v)"
  by (auto simp: vbs_ok_def leave_notified_def)

lemma update_standalone_run:
  assumes "vbs_ok v" "v_state v = VRU_ACTIVE_STANDALONE"
  shows "update_standalone now v = (Inr (), leave_notified now (join_advanced now v))"
proof -
  have sub: "v_join_substate v \<noteq> JS_JOINED" using assms by (simp add: vbs_ok_def)
  have started: "v_join_substate v \<in> {JS_NOTIFY, JS_WAITING} \<Longrightarrow> v_join_started v \<noteq> None"
    "v_join_substate v \<in> {JS_CANCELLED, JS_FAILED} \<Longrightarrow> v_join_leave_started v \<noteq> None"
    using assms(1) by (auto simp: vbs_ok_def)
  have "(if v_join_substate v = JS_NOTIFY then
           after_limit v_join_started now TIME_CLUSTER_JOIN_NOTIFICATION
             (modify_s (\<lambda>v. v\<lparr>v_join_substate := JS_WAITING, v_join_started := Some now,
                v_state := VRU_ACTIVE_STANDALONE\<rparr>))
         else if v_join_substate v = JS_WAITING then
           after_limit v_join_started now TIME_CLUSTER_JOIN_SUCCESS confirm_join_failed
         else if v_join_substate v \<in> {JS_CANCELLED, JS_FAILED} then
           after_limit v_join_leave_started now TIME_CLUSTER_LEAVE_NOTIFICATION
             (modify_s (\<lambda>v. v\<lparr>v_join_substate := JS_NONE, v_join_target_cluster_id := None,
                v_join_leave_reason := None, v_join_leave_started := None\<rparr>))
         else return_s ()) v = (Inr (), join_advanced now v)"
    using sub started
    by (cases "v_join_substate v") (simp_all add: after_limit_run join_advanced_def confirm_join_failed_def)
  then have "update_standalone now v = update_leave_notification now (join_advanced now v)"
    by (simp add: update_standalone_def then_s_def bind_s_def)
  then show ?thesis
    by (simp add: update_leave_notification_run [OF join_advanced_ok(1) [OF assms]])
qed

lemma update_run:
  assumes "vbs_ok v"
  shows "vbs_update lat lon speed heading v
    = (Inr (), updated (v_time_fn v (v_time_calls v)) (expire_nearby_tables (v_time_fn v (v_time_calls v))
        (v\<lparr>v_time_calls := Suc (v_time_calls v)\<rparr>)))"
proof -
  define now where "now = v_time_fn v (v_time_calls v)"
  define u where "u = expire_nearby_tables now (v\<lparr>v_time_calls := Suc (v_time_calls v)\<rparr>)"
  have u: "vbs_ok u" unfolding u_def by (rule vbs_ok_expire) (simp add: assms)
  have "vbs_update lat lon speed heading v = (case v_state u of VRU_ACTIVE_STANDALONE \<Rightarrow> update_standalone now
      | VRU_ACTIVE_CLUSTER_LEADER \<Rightarrow> update_leader now | VRU_PASSIVE \<Rightarrow> update_passive now
      | VRU_IDLE \<Rightarrow> return_s ()) u"
    by (simp only: vbs_update_def now_def u_def time_fn_run run_modify_then run_gets_bind)
  also have "\<dots> = (Inr (), updated now u)"
  proof (cases "v_state u")
    case VRU_ACTIVE_STANDALONE
    then show ?thesis by (simp add: update_standalone_run [OF u] updated_def)
  next
    case VRU_ACTIVE_CLUSTER_LEADER
    then have "v_cluster u \<noteq> None" using u by (simp add: vbs_ok_def)
    then show ?thesis
      using VRU_ACTIVE_CLUSTER_LEADER
      by (auto simp: update_leader_def updated_def elapsed_def split: option.split)
  next
    case VRU_PASSIVE
    then show ?thesis
      using u by (simp add: update_passive_def updated_def elapsed_def do_leave_run
          update_leave_notification_run)
  qed (simp add: updated_def)
  finally show ?thesis by (simp add: now_def u_def)
qed

lemma updated_ok: "vbs_ok v \<Longrightarrow> vbs_ok (updated now v)"
proof (cases "v_state v")
  case VRU_ACTIVE_CLUSTER_LEADER
  assume "vbs_ok v"
  then show ?thesis using VRU_ACTIVE_CLUSTER_LEADER by (auto simp: updated_def vbs_ok_def)
qed (auto simp: updated_def intro!: leave_notified_ok join_advanced_ok left_cluster_ok)

lemma keeps_update: "keeps vbs_ok (vbs_update lat lon speed heading)"
  by (rule keepsI) (auto simp: update_run intro!: updated_ok vbs_ok_expire)

section \<open>Reception keeps the invariant\<close>

text \<open>The run of \<open>_complete_join\<close>.\<close>

definition joined_cluster :: "pyval \<Rightarrow> vbs \<Rightarrow> vbs" where
  "joined_cluster leader v =
     v\<lparr>v_join_substate := JS_JOINED, v_joined_cluster_id := v_join_target_cluster_id v,
       v_leader_station_id := Some leader,
       v_last_leader_vam_time := Some (v_time_fn v (v_time_calls v)), v_state := VRU_PASSIVE,
       v_time_calls := Suc (v_time_calls v)\<rparr>"

lemma complete_join_run: "complete_join leader v = (Inr (), joined_cluster leader v)"
  by (simp add: complete_join_def joined_cluster_def)

lemma joined_cluster_ok:
  "vbs_ok v \<Longrightarrow> v_state v = VRU_ACTIVE_STANDALONE \<Longrightarrow> v_join_substate v = JS_WAITING
    \<Longrightarrow> vbs_ok (joined_cluster leader v)"
  by (auto simp: vbs_ok_def joined_cluster_def)

lemma keeps_modify_vbs: "(\<And>v. vbs_ok v \<Longrightarrow> vbs_ok (g v)) \<Longrightarrow> keeps vbs_ok (modify_s g)"
  by (rule keeps_modify)

lemma keeps_cluster_information: "keeps vbs_ok (process_cluster_information ctr sender n)"
proof -
  have join: "keeps vbs_ok (bind_s (gets_s (\<lambda>v. v)) (\<lambda>v.
       if v_state v = VRU_ACTIVE_STANDALONE \<and> v_join_substate v = JS_WAITING
          \<and> (case v_join_target_cluster_id v of None \<Rightarrow> False | Some t \<Rightarrow> key = PInt t)
       then complete_join sender else return_s ()))" for key
    by (rule keepsI) (auto simp: complete_join_run joined_cluster_ok split: if_splits)
  show ?thesis
    unfolding process_cluster_information_def
    by (intro keeps.obeys_bind keeps.obeys_then keeps.obeys_pure keeps_modify_vbs join)
      (auto simp: vbs_ok_def dict_get_set split: if_splits)
qed

lemma keeps_track_member:
  assumes "\<And>members. finite members \<Longrightarrow> finite (change members)"
  shows "keeps vbs_ok (track_member info change)"
proof (rule keepsI)
  fix v r v'
  assume ok: "vbs_ok v" and run: "track_member info change v = (r, v')"
  show "vbs_ok v'"
  proof (cases "v_cluster v")
    case None
    then show ?thesis using run ok by (simp add: track_member_def)
  next
    case (Some c)
    then have "finite (change (cl_pending_members c))" "cl_breakup_started c = None \<longleftrightarrow> cl_breakup_reason c = None"
      "v_state v = VRU_ACTIVE_CLUSTER_LEADER"
      using ok assms by (auto simp: vbs_ok_def cluster_ok_def)
    then have "vbs_ok (v\<lparr>v_cluster := Some (let members = change (cl_pending_members c) in
        c\<lparr>cl_pending_members := members, cl_cardinality := max MIN_CLUSTER_SIZE (int (card members) + 1)\<rparr>)\<rparr>)"
      using ok by (simp add: vbs_ok_def cluster_ok_def Let_def MIN_CLUSTER_SIZE_def)
    then show ?thesis
      using run ok Some
      by (auto simp: track_member_def bind_s_def split: if_splits sum.splits prod.splits)
  qed
qed

lemma keeps_breakup_info: "keeps vbs_ok (process_breakup info sender)"
proof (rule keepsI)
  fix v r v'
  assume ok: "vbs_ok v" and run: "process_breakup info sender v = (r, v')"
  then show "vbs_ok v'"
    by (auto simp: process_breakup_def bind_s_def do_leave_run left_cluster_ok
        split: if_splits sum.splits prod.splits)
qed

lemma keeps_cluster_operation: "keeps vbs_ok (process_cluster_operation ctr sender)"
  unfolding process_cluster_operation_def
  by (intro keeps.obeys_bind keeps.obeys_then keeps.obeys_pure keeps.obeys_if keeps_track_member
      keeps_breakup_info) auto

lemma keeps_received: "keeps vbs_ok (on_received_vam vam)"
  unfolding on_received_vam_def process_received_vam_def Let_def
  by (intro keeps.obeys_catch keeps.obeys_bind keeps.obeys_then keeps.obeys_pure keeps.obeys_if
      keeps_time_fn keeps_modify_vbs keeps_cluster_information keeps_cluster_operation)
    (auto simp: vbs_ok_def)

lemma keeps_operation_container: "keeps vbs_ok get_cluster_operation_container"
  unfolding get_cluster_operation_container_def
  by (intro keeps.obeys_bind keeps.obeys_pure keeps_time_fn)

section \<open>Reachable states\<close>

text \<open>What the service, its timer and its callers do with the state machine.\<close>

inductive vbs_step :: "vbs \<Rightarrow> vbs \<Rightarrow> bool" where
  role_on: "vbs_step v (set_vru_role_on v)"
| role_off: "vbs_step v (set_vru_role_off v)"
| create: "try_create_cluster lat lon v = (r, v') \<Longrightarrow> vbs_step v v'"
| join: "initiate_join cid v = (r, v') \<Longrightarrow> vbs_step v v'"
| cancel: "cancel_join v = (r, v') \<Longrightarrow> vbs_step v v'"
| fail: "confirm_join_failed v = (r, v') \<Longrightarrow> vbs_step v v'"
| leave: "trigger_leave_cluster lreason v = (r, v') \<Longrightarrow> vbs_step v v'"
| breakup: "trigger_breakup_cluster breason v = (r, v') \<Longrightarrow> vbs_step v v'"
| update: "vbs_update lat lon speed heading v = (r, v') \<Longrightarrow> vbs_step v v'"
| receive: "on_received_vam vam v = (r, v') \<Longrightarrow> vbs_step v v'"
| container: "get_cluster_operation_container v = (r, v') \<Longrightarrow> vbs_step v v'"

inductive vbs_reachable :: "vbs \<Rightarrow> bool" where
  start: "vbs_reachable (vbs_init sid profile clock random)"
| step: "vbs_reachable v \<Longrightarrow> vbs_step v v' \<Longrightarrow> vbs_reachable v'"

lemmas keeps_vbs_step =
  keepsD [OF keeps_create] keepsD [OF keeps_join] keepsD [OF keeps_cancel]
  keepsD [OF keeps_confirm_failed] keepsD [OF keeps_leave] keepsD [OF keeps_breakup]
  keepsD [OF keeps_update] keepsD [OF keeps_received] keepsD [OF keeps_operation_container]

lemma vbs_step_ok: "vbs_step v v' \<Longrightarrow> vbs_ok v \<Longrightarrow> vbs_ok v'"
  by (erule vbs_step.cases) (auto intro: keeps_role keeps_vbs_step)

lemma vbs_reachable_ok: "vbs_reachable v \<Longrightarrow> vbs_ok v"
  by (induction rule: vbs_reachable.induct) (auto intro: vbs_step_ok)

text \<open>
  C16: In every state the machine can reach it is the leader exactly when it has a cluster,
  whose cardinality is one more than the members it has counted, and a member exactly when its
  join is complete, and then it knows its cluster, its leader and when it last heard of it.
  The assertions of the periodic update hold, so that it never raises.
\<close>

theorem vbs_invariant:
  assumes "vbs_reachable v"
  shows "(v_cluster v \<noteq> None \<longleftrightarrow> v_state v = VRU_ACTIVE_CLUSTER_LEADER)
    \<and> (\<forall>c. v_cluster v = Some c \<longrightarrow> cl_cardinality c = int (card (cl_pending_members c)) + 1)
    \<and> (v_join_substate v = JS_JOINED \<longleftrightarrow> v_state v = VRU_PASSIVE)
    \<and> (v_joined_cluster_id v \<noteq> None \<longleftrightarrow> v_state v = VRU_PASSIVE)
    \<and> (v_leader_station_id v \<noteq> None \<longleftrightarrow> v_state v = VRU_PASSIVE)
    \<and> (v_last_leader_vam_time v \<noteq> None \<longleftrightarrow> v_state v = VRU_PASSIVE)
    \<and> fst (vbs_update lat lon speed heading v) = Inr ()"
  using vbs_reachable_ok [OF assms] update_run by (simp add: vbs_ok_def cluster_ok_def)

text \<open>A manager that begins to join cluster 9.\<close>

definition joining :: vbs where
  "joining = snd (initiate_join 9 (vbs_init 1 ''pedestrian'' (\<lambda>n. 10 * real n) (\<lambda>_. 7)))"

lemma joining_reachable: "vbs_reachable joining"
  unfolding joining_def using vbs_reachable.intros vbs_step.join surjective_pairing by metis

lemma vbs_invariant_witness:
  "v_join_substate joining = JS_NOTIFY \<and> v_cluster joining = None
    \<and> fst (vbs_update 0 0 0 0 joining) = Inr ()"
proof -
  have "v_join_substate joining = JS_NOTIFY" "v_state joining = VRU_ACTIVE_STANDALONE"
    by (simp_all add: joining_def initiate_join_def vbs_init_def)
  then show ?thesis using vbs_invariant [OF joining_reachable, of 0 0 0 0] by auto
qed

section \<open>Transitions\<close>

text \<open>
  What parts of a reception can do to the state: nothing, complete a join that waits for the
  leader, disband the membership, or both in this order.
\<close>

definition received :: "vbs \<Rightarrow> vbs \<Rightarrow> bool" where
  "received v v' \<longleftrightarrow>
     (v_state v' = v_state v \<and> v_join_substate v' = v_join_substate v
        \<and> v_join_target_cluster_id v' = v_join_target_cluster_id v
        \<and> v_joined_cluster_id v' = v_joined_cluster_id v
        \<and> v_leave_substate v' = v_leave_substate v \<and> v_leave_cluster_id v' = v_leave_cluster_id v)
     \<or> (v_state v = VRU_ACTIVE_STANDALONE \<and> v_join_substate v = JS_WAITING
        \<and> v_state v' = VRU_PASSIVE \<and> v_joined_cluster_id v' = v_join_target_cluster_id v)
     \<or> (v_state v = VRU_PASSIVE \<and> v_state v' = VRU_ACTIVE_STANDALONE
        \<and> v_join_substate v' = JS_NONE \<and> v_leave_substate v' = LV_NOTIFY
        \<and> v_leave_cluster_id v' = v_joined_cluster_id v)
     \<or> (v_state v = VRU_ACTIVE_STANDALONE \<and> v_join_substate v = JS_WAITING
        \<and> v_state v' = VRU_ACTIVE_STANDALONE \<and> v_join_substate v' = JS_NONE
        \<and> v_leave_substate v' = LV_NOTIFY)"

interpretation received: step_rel received
proof unfold_locales
  show "received v v" for v by (simp add: received_def)
  show "received t v" if "received t u" "received u v" for t u v
    using that unfolding received_def by (elim disjE; simp)
qed

lemma received_modify:
  assumes "\<And>v. v_state (g v) = v_state v" "\<And>v. v_join_substate (g v) = v_join_substate v"
    "\<And>v. v_join_target_cluster_id (g v) = v_join_target_cluster_id v"
    "\<And>v. v_joined_cluster_id (g v) = v_joined_cluster_id v"
    "\<And>v. v_leave_substate (g v) = v_leave_substate v"
    "\<And>v. v_leave_cluster_id (g v) = v_leave_cluster_id v"
  shows "obeys received (modify_s g)"
  using assms by (intro received.obeys_modify) (simp add: received_def)

lemma received_time_fn: "obeys received time_fn"
  by (rule obeysI) (auto simp: received_def)

lemma received_information: "obeys received (process_cluster_information ctr sender n)"
proof -
  have join: "obeys received (bind_s (gets_s (\<lambda>v. v)) (\<lambda>v.
       if v_state v = VRU_ACTIVE_STANDALONE \<and> v_join_substate v = JS_WAITING
          \<and> (case v_join_target_cluster_id v of None \<Rightarrow> False | Some t \<Rightarrow> key = PInt t)
       then complete_join sender else return_s ()))" for key
    by (rule obeysI) (auto simp: complete_join_run joined_cluster_def received_def split: if_splits)
  show ?thesis
    unfolding process_cluster_information_def
    by (intro received.obeys_bind received.obeys_then received.obeys_pure received_modify join) simp_all
qed

lemma received_track: "obeys received (track_member info change)"
  unfolding track_member_def
  by (intro received.obeys_bind received.obeys_pure received.obeys_case_option received.obeys_if
      received_modify) simp_all

lemma received_breakup: "obeys received (process_breakup info sender)"
proof (rule obeysI)
  fix v r v'
  assume "process_breakup info sender v = (r, v')"
  then show "received v v'"
    by (auto simp: process_breakup_def bind_s_def do_leave_run left_cluster_def received_def
        split: if_splits sum.splits prod.splits)
qed

lemma received_operation: "obeys received (process_cluster_operation ctr sender)"
  unfolding process_cluster_operation_def
  by (intro received.obeys_bind received.obeys_then received.obeys_pure received.obeys_if received_track
      received_breakup)

lemma received_vam: "obeys received (on_received_vam vam)"
  unfolding on_received_vam_def process_received_vam_def Let_def
  by (intro received.obeys_catch received.obeys_bind received.obeys_then received.obeys_pure
      received.obeys_if received_time_fn received_modify received_information received_operation)
    simp_all

lemma updated_transition:
  assumes "v_state (updated now u) \<noteq> v_state v" "v_state u = v_state v" "v_cluster u = v_cluster v"
    "v_joined_cluster_id u = v_joined_cluster_id v"
    "v_state v = VRU_ACTIVE_CLUSTER_LEADER \<Longrightarrow> v_cluster v \<noteq> None"
  shows "(v_state v = VRU_ACTIVE_CLUSTER_LEADER \<and> v_state (updated now u) = VRU_ACTIVE_STANDALONE
        \<and> (\<exists>c t. v_cluster v = Some c \<and> cl_breakup_started c = Some t
             \<and> TIME_CLUSTER_BREAKUP_WARNING \<le> now - t))
    \<or> (v_state v = VRU_PASSIVE \<and> v_state (updated now u) = VRU_ACTIVE_STANDALONE
        \<and> v_leave_substate (updated now u) = LV_NOTIFY
        \<and> v_leave_cluster_id (updated now u) = v_joined_cluster_id v)"
proof (cases "v_state u")
  case VRU_ACTIVE_STANDALONE
  then have "v_state (updated now u) = v_state u"
    using join_advanced_ok(2) [of u now] by (simp add: updated_def leave_notified_def)
  then show ?thesis using assms(1,2) by simp
next
  case VRU_ACTIVE_CLUSTER_LEADER
  then show ?thesis using assms
    by (auto simp: updated_def elapsed_def split: if_splits option.splits)
next
  case VRU_PASSIVE
  then show ?thesis using assms
    by (auto simp: updated_def left_cluster_def leave_notified_def split: if_splits)
next
  case VRU_IDLE
  then show ?thesis using assms by (simp add: updated_def)
qed

text \<open>
  The only changes of state. Besides the role switching on and off: a cluster is created
  on its own, by a device that sees at least three others within 5 m heard in the last 5
  seconds, under an identifier from the random numbers that is not in the table of seen
  identifiers or stands there with a time at least 30 seconds ago; a device on its own becomes a
  member only while it waits for the leader of the cluster it joins; a member becomes a device
  on its own with a leave notification for its cluster; and a leader gives up its cluster when
  the breakup was announced for 3 seconds.
\<close>

lemma vbs_transitions:
  assumes "vbs_reachable v" "vbs_step v v'" "v_state v' \<noteq> v_state v" "v_state v' \<noteq> VRU_IDLE"
  shows "case (v_state v, v_state v') of
      (VRU_IDLE, VRU_ACTIVE_STANDALONE) \<Rightarrow> v' = set_vru_role_on v
    | (VRU_ACTIVE_STANDALONE, VRU_ACTIVE_CLUSTER_LEADER) \<Rightarrow>
        (\<exists>lat lon. NUM_CREATE_CLUSTER \<le> nearby_count (v_time_fn v (v_time_calls v)) lat lon v)
        \<and> (\<exists>c. v_cluster v' = Some c \<and> cl_cluster_id c \<in> range (v_random v)
             \<and> (\<forall>t. dict_get (v_seen_cluster_ids v) (PInt (cl_cluster_id c)) = Some t
                   \<longrightarrow> TIME_CLUSTER_UNIQUENESS_THRESHOLD \<le> v_time_fn v (v_time_calls v) - t))
    | (VRU_ACTIVE_STANDALONE, VRU_PASSIVE) \<Rightarrow>
        v_join_substate v = JS_WAITING \<and> v_joined_cluster_id v' = v_join_target_cluster_id v
    | (VRU_PASSIVE, VRU_ACTIVE_STANDALONE) \<Rightarrow>
        v_leave_substate v' = LV_NOTIFY \<and> v_leave_cluster_id v' = v_joined_cluster_id v
    | (VRU_ACTIVE_CLUSTER_LEADER, VRU_ACTIVE_STANDALONE) \<Rightarrow>
        (\<exists>c t. v_cluster v = Some c \<and> cl_breakup_started c = Some t
             \<and> TIME_CLUSTER_BREAKUP_WARNING \<le> v_time_fn v (v_time_calls v) - t)
    | _ \<Rightarrow> False"
proof -
  have ok: "vbs_ok v" by (rule vbs_reachable_ok [OF assms(1)])
  from assms(2) show ?thesis
  proof (cases rule: vbs_step.cases)
    case (create lat lon r)
    let ?now = "v_time_fn v (v_time_calls v)"
    obtain c k where c: "first_fresh 100 (v_random v) (v_random_calls v) (map fst (recent_ids ?now v))
        = (Some c, k)" and v: "v_state v = VRU_ACTIVE_STANDALONE"
      "NUM_CREATE_CLUSTER \<le> nearby_count ?now lat lon v"
      and v': "v_state v' = VRU_ACTIVE_CLUSTER_LEADER" "v_cluster v' = Some (new_cluster c v)"
      using create assms(3)
      by (auto simp: try_create_run Let_def split: if_splits prod.splits option.splits)
    have "PInt c \<notin> set (map fst (recent_ids ?now v))" "c \<in> range (v_random v)"
      using first_fresh_Some [OF c] by auto
    moreover have "TIME_CLUSTER_UNIQUENESS_THRESHOLD \<le> ?now - t"
      if "dict_get (v_seen_cluster_ids v) (PInt c) = Some t" "PInt c \<notin> set (map fst (recent_ids ?now v))" for t
    proof (rule ccontr)
      assume "\<not> ?thesis"
      then have "(PInt c, t) \<in> set (recent_ids ?now v)"
        using map_of_SomeD [OF that(1)] by (simp add: recent_ids_def dict_filter_def)
      then show False using that(2) by force
    qed
    ultimately show ?thesis using v v' by (auto simp: new_cluster_def)
  next
    case (update lat lon speed heading r)
    define now where "now = v_time_fn v (v_time_calls v)"
    define u where "u = expire_nearby_tables now (v\<lparr>v_time_calls := Suc (v_time_calls v)\<rparr>)"
    have u: "v_state u = v_state v" "v_cluster u = v_cluster v" "v_joined_cluster_id u = v_joined_cluster_id v"
      by (simp_all add: u_def expire_nearby_tables_def Let_def)
    have v': "v' = updated now u" using update ok by (simp add: update_run now_def u_def)
    have cluster: "v_cluster v \<noteq> None" if "v_state v = VRU_ACTIVE_CLUSTER_LEADER"
      using ok that by (simp add: vbs_ok_def)
    show ?thesis
      using updated_transition [OF assms(3) [unfolded v'] u cluster] by (auto simp: v' now_def)
  next
    case (receive vam r)
    then have "received v v'" using obeysD [OF received_vam] by blast
    then show ?thesis using assms(3) by (auto simp: received_def split: VBSState.splits)
  next
    case (leave reason r)
    then show ?thesis using assms(3)
      by (auto simp: trigger_leave_cluster_def do_leave_run left_cluster_def cancel_join_def
          split: if_splits)
  next
    case (breakup reason r)
    then show ?thesis using assms(3)
      by (auto simp: trigger_breakup_cluster_def split: if_splits option.splits)
  next
    case role_on
    then show ?thesis using assms(3) by (auto simp: set_vru_role_on_def split: if_splits)
  next
    case role_off
    then show ?thesis using assms(4) by (simp add: set_vru_role_off_def)
  next
    case (join cid r)
    then show ?thesis using assms(3) by (auto simp: initiate_join_def split: if_splits)
  next
    case (cancel r)
    then show ?thesis using assms(3) by (auto simp: cancel_join_def split: if_splits)
  next
    case (fail r)
    then show ?thesis using assms(3) by (auto simp: confirm_join_failed_def split: if_splits)
  next
    case (container r)
    then show ?thesis using assms(3) by (auto simp: get_cluster_operation_container_def)
  qed
qed

end
