(* ===== verification/VruHandshake.thy ===== *)
theory VruHandshake
  imports VruProps
begin

text \<open>
  Two cluster state machines that hear each other: the messages of one of them reach the other's
  \<open>on_received_vam\<close>, with the containers as they are built and as the decoder gives them. Since a
  receiver does not understand the second form, a join is announced and counted but never completed.
\<close>

section \<open>Messages\<close>

text \<open>
  A VAM of a station as the receiver gets it from the decoder, with the fields that it reads, and
  the cluster containers.
\<close>

definition vam_message :: "int \<Rightarrow> int \<Rightarrow> int \<Rightarrow> (string \<times> pyval) list \<Rightarrow> pyval" where
  "vam_message station lat lon containers =
     PDict
       [(''header'', PDict [(''protocolVersion'', PInt 3), (''messageId'', PInt 16),
           (''stationId'', PInt station)]),
        (''vam'', PDict
          [(''generationDeltaTime'', PInt 0),
           (''vamParameters'', PDict
             ([(''basicContainer'', PDict
                 [(''stationType'', PInt 1),
                  (''referencePosition'', PDict
                     [(''latitude'', PInt lat), (''longitude'', PInt lon)])]),
               (''vruHighFrequencyContainer'', PDict
                 [(''heading'', PDict [(''value'', PInt 3601), (''confidence'', PInt 127)]),
                  (''speed'', PDict [(''speedValue'', PInt 100), (''speedConfidence'', PInt 127)])])]
              @ containers))])]"

definition seen_vru :: "int \<Rightarrow> int \<Rightarrow> int \<Rightarrow> real \<Rightarrow> NearbyVRU" where
  "seen_vru station lat lon now =
     \<lparr>nv_station_id = PInt station, nv_lat = of_int lat / 10000000, nv_lon = of_int lon / 10000000,
      nv_speed = 1, nv_heading = 3601 / 10, nv_last_seen = now\<rparr>"

definition heartbeat :: "pyval \<Rightarrow> real \<Rightarrow> vbs \<Rightarrow> vbs" where
  "heartbeat sender now v =
     (if v_state v = VRU_PASSIVE \<and> v_leader_station_id v = Some sender
      then v\<lparr>v_last_leader_vam_time := Some now\<rparr> else v)"

definition optional :: "(pyval \<Rightarrow> (vbs, unit) prog) \<Rightarrow> pyval option \<Rightarrow> (vbs, unit) prog" where
  "optional f p = (case p of None \<Rightarrow> return_s () | Some x \<Rightarrow> if py_truth x then f x else return_s ())"

lemma then_return: "then_s (return_s x) m = m"
  by (simp add: then_s_def)

lemma process_vam_run:
  fixes station lat lon :: int
  defines "sender \<equiv> PInt station"
  assumes "now = v_time_fn v (v_time_calls v)" "n = seen_vru station lat lon now"
  shows "process_received_vam (vam_message station lat lon containers) v =
    then_s (optional (\<lambda>info. process_cluster_information info sender n)
        (map_of containers ''vruClusterInformationContainer''))
    (then_s (optional (\<lambda>op. process_cluster_operation op sender)
        (map_of containers ''vruClusterOperationContainer''))
      (modify_s (heartbeat sender now)))
    (v\<lparr>v_time_calls := Suc (v_time_calls v), v_nearby_vrus := dict_set sender n (v_nearby_vrus v)\<rparr>)"
proof -
  have hb: "heartbeat s t = (\<lambda>v. if v_state v = VRU_PASSIVE \<and> v_leader_station_id v = Some s
      then v\<lparr>v_last_leader_vam_time := Some t\<rparr> else v)" for s t
    by (simp add: heartbeat_def fun_eq_iff)
  show ?thesis
    using assms
    by (simp add: process_received_vam_def vam_message_def scaled_item_def scaled_get_def Let_def
        seen_vru_def hb optional_def split: option.split)
qed

text \<open>The leader's container, and what it leads to.\<close>

definition cluster_seen :: "int \<Rightarrow> pyval \<Rightarrow> ClusterState \<Rightarrow> NearbyVRU \<Rightarrow> vbs \<Rightarrow> vbs" where
  "cluster_seen cid sender c n v =
     (let v1 = v\<lparr>v_nearby_clusters := dict_set (PInt cid)
           \<lparr>nc_cluster_id = PInt cid, nc_leader_station_id = sender,
            nc_cardinality = PInt (cl_cardinality c), nc_lat = nv_lat n, nc_lon = nv_lon n,
            nc_speed = nv_speed n, nc_heading = nv_heading n,
            nc_bounding_box_radius = Some (of_int (max 1 (py_int (cl_radius c)))),
            nc_last_seen = nv_last_seen n\<rparr> (v_nearby_clusters v)\<rparr>
      in if dict_get (v_seen_cluster_ids v1) (PInt cid) = None
         then v1\<lparr>v_seen_cluster_ids := dict_set (PInt cid) (nv_last_seen n) (v_seen_cluster_ids v1)\<rparr>
         else v1)"

lemma cluster_seen_simps [simp]:
  "v_state (cluster_seen cid sender c n v) = v_state v"
  "v_join_substate (cluster_seen cid sender c n v) = v_join_substate v"
  "v_join_target_cluster_id (cluster_seen cid sender c n v) = v_join_target_cluster_id v"
  "v_leave_substate (cluster_seen cid sender c n v) = v_leave_substate v"
  "v_leader_station_id (cluster_seen cid sender c n v) = v_leader_station_id v"
  "v_time_fn (cluster_seen cid sender c n v) = v_time_fn v"
  "v_time_calls (cluster_seen cid sender c n v) = v_time_calls v"
  by (simp_all add: cluster_seen_def Let_def)

lemma information_run:
  assumes "get_cluster_information_container l = Some ctr" "v_cluster l = Some c"
  shows "py_truth ctr \<and> process_cluster_information ctr sender n v
    = (let v1 = cluster_seen (cl_cluster_id c) sender c n v in
       (Inr (), if v_state v = VRU_ACTIVE_STANDALONE \<and> v_join_substate v = JS_WAITING
           \<and> v_join_target_cluster_id v = Some (cl_cluster_id c)
         then joined_cluster sender v1 else v1))"
proof -
  obtain rest where ctr: "ctr = PDict [(''vruClusterInformation'', PDict
      ((''clusterId'', PInt (cl_cluster_id c))
       # (''clusterBoundingBoxShape'', PDict [(''circular'', PDict
           [(''radius'', PInt (max 1 (py_int (cl_radius c))))])])
       # (''clusterCardinalitySize'', PInt (cl_cardinality c)) # rest))]"
    using assms by (auto simp: get_cluster_information_container_def split: if_splits)
  have "bounding_box_radius (PDict [(''circular'', PDict
      [(''radius'', PInt (max 1 (py_int (cl_radius c))))])])
      = Inr (Some (of_int (max 1 (py_int (cl_radius c)))))"
    by (simp add: bounding_box_radius_def)
  then show ?thesis
    by (auto simp: process_cluster_information_def ctr cluster_seen_def Let_def complete_join_run
        split: option.splits)
qed

text \<open>The joining device's container, and what it leads to.\<close>

definition member_added :: "pyval \<Rightarrow> vbs \<Rightarrow> vbs" where
  "member_added sender v =
     v\<lparr>v_cluster := map_option (\<lambda>c.
        let members = insert sender (cl_pending_members c) in
        c\<lparr>cl_pending_members := members,
          cl_cardinality := max MIN_CLUSTER_SIZE (int (card members) + 1)\<rparr>) (v_cluster v)\<rparr>"

lemma join_container:
  assumes "v_state m = VRU_ACTIVE_STANDALONE" "v_join_substate m = JS_NOTIFY"
    "v_join_target_cluster_id m = Some cid"
  obtains time where "get_cluster_operation_container m = (Inr (Some (PDict [(''clusterJoinInfo'', PDict
      [(''clusterId'', PInt cid), (''joinTime'', PInt time)])])), m\<lparr>v_time_calls := Suc (v_time_calls m)\<rparr>)"
  using assms
  by (simp add: get_cluster_operation_container_def standalone_operation_container_def int_or_def)

lemma join_run:
  assumes "v_state l = VRU_ACTIVE_CLUSTER_LEADER" "v_cluster l = Some c"
  shows "process_cluster_operation (PDict [(''clusterJoinInfo'', PDict
      [(''clusterId'', PInt (cl_cluster_id c)), (''joinTime'', PInt time)])]) sender l
    = (Inr (), member_added sender l)"
  using assms
  by (simp add: process_cluster_operation_def track_member_def member_added_def then_s_def bind_s_def)

section \<open>What arrives\<close>

text \<open>
  The shape of a cluster is a CHOICE of the ASN.1 types. The coder represents a CHOICE by the pair
  of the alternative's name and its value, where the code builds and expects a dictionary.
\<close>

definition shape_as_pair :: "string \<times> pyval \<Rightarrow> string \<times> pyval" where
  "shape_as_pair field =
     (case field of
        (name, PDict [(alternative, x)]) \<Rightarrow>
          if name = ''clusterBoundingBoxShape'' then (name, PTuple [PStr alternative, x]) else field
      | _ \<Rightarrow> field)"

definition as_decoded :: "pyval \<Rightarrow> pyval" where
  "as_decoded container =
     (case container of
        PDict [(name, PDict information)] \<Rightarrow> PDict [(name, PDict (map shape_as_pair information))]
      | _ \<Rightarrow> container)"

lemma decoded_information_raises:
  assumes "get_cluster_information_container l = Some ctr"
  shows "py_truth (as_decoded ctr) \<and> process_cluster_information (as_decoded ctr) sender n v = (Inl TypeError, v)"
proof -
  obtain c where "v_cluster l = Some c" using assms by (auto simp: get_cluster_information_container_def split: option.splits)
  then obtain rest where ctr: "ctr = PDict [(''vruClusterInformation'', PDict
      ((''clusterId'', PInt (cl_cluster_id c))
       # (''clusterBoundingBoxShape'', PDict [(''circular'', PDict
           [(''radius'', PInt (max 1 (py_int (cl_radius c))))])])
       # (''clusterCardinalitySize'', PInt (cl_cardinality c)) # rest))]"
    using assms by (auto simp: get_cluster_information_container_def split: if_splits)
  show ?thesis
    by (simp add: ctr as_decoded_def shape_as_pair_def process_cluster_information_def bounding_box_radius_def)
qed

text \<open>
  Such a message raises a \<open>TypeError\<close> that the state machine catches: the sender is remembered as a
  road user, but its cluster is not, the container for cluster operations is not looked at, and a
  member of the cluster does not notice that its leader is alive.
\<close>

lemma decoded_information_is_lost:
  assumes "get_cluster_information_container l = Some ctr"
  shows "on_received_vam (vam_message sender lat lon ((''vruClusterInformationContainer'', as_decoded ctr) # containers)) v
    = (Inr (), v\<lparr>v_time_calls := Suc (v_time_calls v),
        v_nearby_vrus := dict_set (PInt sender)
          (seen_vru sender lat lon (v_time_fn v (v_time_calls v))) (v_nearby_vrus v)\<rparr>)"
  using decoded_information_raises [OF assms]
  by (simp add: on_received_vam_def catch_s_def process_vam_run [OF refl refl] optional_def then_s_def bind_s_def)

text \<open>Messages of a station, each with its position and its cluster container.\<close>

fun hear_clusters :: "int \<Rightarrow> (int \<times> int \<times> pyval) list \<Rightarrow> vbs \<Rightarrow> vbs" where
  "hear_clusters sender [] v = v"
| "hear_clusters sender ((lat, lon, ctr) # ms) v =
     hear_clusters sender ms
       (snd (on_received_vam (vam_message sender lat lon [(''vruClusterInformationContainer'', ctr)]) v))"

lemma hear_clusters_reachable: "vbs_reachable v \<Longrightarrow> vbs_reachable (hear_clusters sender ms v)"
proof (induction ms arbitrary: v)
  case (Cons m ms)
  obtain lat lon ctr where m: "m = (lat, lon, ctr)" by (cases m)
  have "vbs_reachable (snd (on_received_vam (vam_message sender lat lon [(''vruClusterInformationContainer'', ctr)]) v))"
    by (rule vbs_reachable.step [OF Cons.prems]) (auto intro: vbs_step.receive surjective_pairing)
  then show ?case using Cons.IH by (simp add: m)
qed simp

text \<open>The containers of leaders, as they arrive.\<close>

definition leader_container :: "pyval \<Rightarrow> bool" where
  "leader_container ctr \<longleftrightarrow> (\<exists>l built. get_cluster_information_container l = Some built \<and> ctr = as_decoded built)"

lemma hear_clusters_frame:
  assumes "\<forall>(lat, lon, ctr) \<in> set ms. leader_container ctr"
  shows "\<exists>n nearby. hear_clusters sender ms v = v\<lparr>v_time_calls := n, v_nearby_vrus := nearby\<rparr>"
  using assms
proof (induction ms arbitrary: v)
  case Nil
  then show ?case by (intro exI [of _ "v_time_calls v"] exI [of _ "v_nearby_vrus v"]) simp
next
  case (Cons m ms)
  obtain lat lon ctr where m: "m = (lat, lon, ctr)" by (cases m)
  then obtain l built where "get_cluster_information_container l = Some built" "ctr = as_decoded built"
    using Cons.prems by (auto simp: leader_container_def)
  then have "hear_clusters sender (m # ms) v = hear_clusters sender ms (v\<lparr>v_time_calls := Suc (v_time_calls v),
      v_nearby_vrus := dict_set (PInt sender) (seen_vru sender lat lon (v_time_fn v (v_time_calls v))) (v_nearby_vrus v)\<rparr>)"
    using decoded_information_is_lost by (simp add: m)
  then show ?case
    using Cons.IH [of "v\<lparr>v_time_calls := Suc (v_time_calls v), v_nearby_vrus := dict_set (PInt sender)
      (seen_vru sender lat lon (v_time_fn v (v_time_calls v))) (v_nearby_vrus v)\<rparr>"] Cons.prems by simp
qed

text \<open>The leader's side of a message with an operation container.\<close>

definition member_removed :: "pyval \<Rightarrow> vbs \<Rightarrow> vbs" where
  "member_removed sender v =
     v\<lparr>v_cluster := map_option (\<lambda>c.
        let members = cl_pending_members c - {sender} in
        c\<lparr>cl_pending_members := members,
          cl_cardinality := max MIN_CLUSTER_SIZE (int (card members) + 1)\<rparr>) (v_cluster v)\<rparr>"

lemma leave_run:
  assumes "v_state l = VRU_ACTIVE_CLUSTER_LEADER" "v_cluster l = Some c"
  shows "process_cluster_operation (leave_info (Some (cl_cluster_id c)) reason) sender l = (Inr (), member_removed sender l)"
  using assms
  by (simp add: process_cluster_operation_def track_member_def member_removed_def leave_info_def int_or_def
      then_s_def bind_s_def)

lemma operation_heard:
  assumes "v_state l = VRU_ACTIVE_CLUSTER_LEADER" "py_truth op"
    and "\<And>u. v_state u = VRU_ACTIVE_CLUSTER_LEADER \<Longrightarrow> v_cluster u = v_cluster l \<Longrightarrow>
      process_cluster_operation op (PInt station) u = (Inr (), u\<lparr>v_cluster := cl\<rparr>)"
  shows "\<exists>l1. on_received_vam (vam_message station lat lon [(''vruClusterOperationContainer'', op)]) l = (Inr (), l1)
    \<and> v_state l1 = VRU_ACTIVE_CLUSTER_LEADER \<and> v_cluster l1 = cl"
proof -
  define u where "u = l\<lparr>v_time_calls := Suc (v_time_calls l), v_nearby_vrus := dict_set (PInt station)
      (seen_vru station lat lon (v_time_fn l (v_time_calls l))) (v_nearby_vrus l)\<rparr>"
  have u: "v_state u = VRU_ACTIVE_CLUSTER_LEADER" "v_cluster u = v_cluster l" using assms(1) by (simp_all add: u_def)
  have "process_received_vam (vam_message station lat lon [(''vruClusterOperationContainer'', op)]) l
      = then_s (process_cluster_operation op (PInt station))
          (modify_s (heartbeat (PInt station) (v_time_fn l (v_time_calls l)))) u"
    using assms(2) by (simp add: process_vam_run [OF refl refl] optional_def u_def then_return)
  also have "\<dots> = (Inr (), u\<lparr>v_cluster := cl\<rparr>)"
    using assms(3) [OF u] u by (simp add: then_s_def bind_s_def heartbeat_def)
  finally show ?thesis using u by (simp add: on_received_vam_def catch_s_def)
qed

lemma leader_hears_join:
  assumes "v_state l = VRU_ACTIVE_CLUSTER_LEADER" "v_cluster l = Some c"
  shows "\<exists>l1 c1. on_received_vam (vam_message station lat lon [(''vruClusterOperationContainer'',
      PDict [(''clusterJoinInfo'', PDict [(''clusterId'', PInt (cl_cluster_id c)), (''joinTime'', PInt time)])])]) l
      = (Inr (), l1)
    \<and> v_state l1 = VRU_ACTIVE_CLUSTER_LEADER \<and> v_cluster l1 = Some c1
    \<and> PInt station \<in> cl_pending_members c1 \<and> cl_cluster_id c1 = cl_cluster_id c"
proof -
  let ?c1 = "the (v_cluster (member_added (PInt station) l))"
  have "\<exists>l1. on_received_vam (vam_message station lat lon [(''vruClusterOperationContainer'',
      PDict [(''clusterJoinInfo'', PDict [(''clusterId'', PInt (cl_cluster_id c)), (''joinTime'', PInt time)])])]) l
      = (Inr (), l1) \<and> v_state l1 = VRU_ACTIVE_CLUSTER_LEADER \<and> v_cluster l1 = Some ?c1"
    by (rule operation_heard) (use assms in \<open>simp_all add: join_run member_added_def\<close>)
  then show ?thesis using assms(2) by (auto simp: member_added_def Let_def)
qed

lemma leader_hears_leave:
  assumes "v_state l = VRU_ACTIVE_CLUSTER_LEADER" "v_cluster l = Some c"
  shows "\<exists>l1 c1. on_received_vam (vam_message station lat lon [(''vruClusterOperationContainer'',
      leave_info (Some (cl_cluster_id c)) reason)]) l = (Inr (), l1)
    \<and> v_cluster l1 = Some c1 \<and> PInt station \<notin> cl_pending_members c1"
proof -
  let ?c1 = "the (v_cluster (member_removed (PInt station) l))"
  have "\<exists>l1. on_received_vam (vam_message station lat lon [(''vruClusterOperationContainer'',
      leave_info (Some (cl_cluster_id c)) reason)]) l
      = (Inr (), l1) \<and> v_state l1 = VRU_ACTIVE_CLUSTER_LEADER \<and> v_cluster l1 = Some ?c1"
  proof (rule operation_heard [OF assms(1)])
    show "py_truth (leave_info (Some (cl_cluster_id c)) reason)" by (simp add: leave_info_def)
  qed (use assms in \<open>simp add: leave_run member_removed_def\<close>)
  then show ?thesis using assms(2) by (auto simp: member_removed_def Let_def)
qed

text \<open>When the time is up the waiting device gives up.\<close>

lemma waiting_gives_up:
  fixes w :: vbs and lat lon speed heading :: real
  assumes "vbs_ok w" "v_state w = VRU_ACTIVE_STANDALONE" "v_join_substate w = JS_WAITING"
    and "elapsed (v_join_started w) (v_time_fn w (v_time_calls w)) TIME_CLUSTER_JOIN_SUCCESS"
  defines "w' \<equiv> snd (vbs_update lat lon speed heading w)"
  shows "v_state w' = VRU_ACTIVE_STANDALONE" "v_join_substate w' = JS_FAILED"
    "get_cluster_operation_container w' = (Inr (Some (leave_info (v_join_target_cluster_id w) (Some FAILED_JOIN))),
       w'\<lparr>v_time_calls := Suc (v_time_calls w')\<rparr>)"
proof -
  define now where "now = v_time_fn w (v_time_calls w)"
  have w': "w' = updated now (expire_nearby_tables now (w\<lparr>v_time_calls := Suc (v_time_calls w)\<rparr>))"
    by (simp add: w'_def update_run [OF assms(1)] now_def)
  have "v_state w' = VRU_ACTIVE_STANDALONE \<and> v_join_substate w' = JS_FAILED
      \<and> v_join_target_cluster_id w' = v_join_target_cluster_id w \<and> v_join_leave_reason w' = Some FAILED_JOIN"
    unfolding w' using assms(2-4)
    by (simp add: updated_def join_advanced_def leave_notified_def expire_nearby_tables_def Let_def now_def)
  then show "v_state w' = VRU_ACTIVE_STANDALONE" "v_join_substate w' = JS_FAILED"
    "get_cluster_operation_container w' = (Inr (Some (leave_info (v_join_target_cluster_id w) (Some FAILED_JOIN))),
       w'\<lparr>v_time_calls := Suc (v_time_calls w')\<rparr>)"
    by (simp_all add: get_cluster_operation_container_def standalone_operation_container_def)
qed

text \<open>
  C17: Two devices that run this program cannot form a cluster. The announcement of a device makes
  the leader count it as a member. But then the device waits, and however many messages of the leader it
  receives, as the decoder gives them (with the shape of the cluster as a pair), it goes on waiting:
  the container is not understood. At the first update after the time to wait it gives up, stays on
  its own, and announces that the join has failed, and on this the leader takes it out again.
\<close>

theorem join_never_completes:
  assumes "vbs_reachable l" "v_state l = VRU_ACTIVE_CLUSTER_LEADER"
    and "v_state m = VRU_ACTIVE_STANDALONE" "v_join_substate m = JS_NOTIFY"
    and "\<And>c. v_cluster l = Some c \<Longrightarrow> v_join_target_cluster_id m = Some (cl_cluster_id c)"
    and "vbs_reachable m'" "v_state m' = VRU_ACTIVE_STANDALONE" "v_join_substate m' = JS_WAITING"
    and "v_join_target_cluster_id m' = v_join_target_cluster_id m"
    and "\<forall>(lat, lon, ctr) \<in> set messages. leader_container ctr"
    and "m2 = hear_clusters leader_id messages m'"
    and "elapsed (v_join_started m') (v_time_fn m2 (v_time_calls m2)) TIME_CLUSTER_JOIN_SUCCESS"
    and "m3 = snd (vbs_update lat lon speed heading m2)"
  shows "\<exists>op l1 c1 op' l2 c2.
    fst (get_cluster_operation_container m) = Inr (Some op)
    \<and> on_received_vam (vam_message member_id lat1 lon1 [(''vruClusterOperationContainer'', op)]) l = (Inr (), l1)
    \<and> v_cluster l1 = Some c1 \<and> PInt member_id \<in> cl_pending_members c1
    \<and> v_state m2 = VRU_ACTIVE_STANDALONE \<and> v_join_substate m2 = JS_WAITING
    \<and> v_nearby_clusters m2 = v_nearby_clusters m'
    \<and> v_state m3 = VRU_ACTIVE_STANDALONE \<and> v_join_substate m3 = JS_FAILED
    \<and> fst (get_cluster_operation_container m3) = Inr (Some op')
    \<and> on_received_vam (vam_message member_id lat2 lon2 [(''vruClusterOperationContainer'', op')]) l1 = (Inr (), l2)
    \<and> v_cluster l2 = Some c2 \<and> PInt member_id \<notin> cl_pending_members c2"
proof -
  obtain c where c: "v_cluster l = Some c"
    using vbs_reachable_ok [OF assms(1)] assms(2) by (auto simp: vbs_ok_def)
  have target: "v_join_target_cluster_id m = Some (cl_cluster_id c)" by (rule assms(5) [OF c])
  obtain time where op: "fst (get_cluster_operation_container m) = Inr (Some (PDict [(''clusterJoinInfo'', PDict
      [(''clusterId'', PInt (cl_cluster_id c)), (''joinTime'', PInt time)])]))"
    using join_container [OF assms(3,4) target] by (metis fst_conv)
  obtain l1 c1 where l1: "on_received_vam (vam_message member_id lat1 lon1 [(''vruClusterOperationContainer'',
      PDict [(''clusterJoinInfo'', PDict [(''clusterId'', PInt (cl_cluster_id c)), (''joinTime'', PInt time)])])]) l
      = (Inr (), l1)" "v_state l1 = VRU_ACTIVE_CLUSTER_LEADER" "v_cluster l1 = Some c1"
      "PInt member_id \<in> cl_pending_members c1" "cl_cluster_id c1 = cl_cluster_id c"
    using leader_hears_join [OF assms(2) c] by blast
  obtain n nearby where m2: "m2 = m'\<lparr>v_time_calls := n, v_nearby_vrus := nearby\<rparr>"
    using hear_clusters_frame [OF assms(10)] assms(11) by blast
  have m2_fields: "v_state m2 = VRU_ACTIVE_STANDALONE" "v_join_substate m2 = JS_WAITING"
    "v_nearby_clusters m2 = v_nearby_clusters m'" "v_join_started m2 = v_join_started m'"
    "v_join_target_cluster_id m2 = Some (cl_cluster_id c1)"
    using assms(7-9) target l1(5) by (simp_all add: m2)
  have "vbs_ok m2" unfolding assms(11) by (intro vbs_reachable_ok hear_clusters_reachable assms(6))
  note failed = waiting_gives_up [OF this m2_fields(1,2), unfolded m2_fields(4), OF assms(12), of lat lon speed heading, folded assms(13)]
  let ?op' = "leave_info (Some (cl_cluster_id c1)) (Some FAILED_JOIN)"
  obtain l2 c2 where "on_received_vam (vam_message member_id lat2 lon2 [(''vruClusterOperationContainer'', ?op')]) l1
      = (Inr (), l2)" "v_cluster l2 = Some c2" "PInt member_id \<notin> cl_pending_members c2"
    using leader_hears_leave [OF l1(2,3)] by blast
  moreover have "fst (get_cluster_operation_container m3) = Inr (Some ?op')"
    using failed(3) m2_fields(5) by simp
  ultimately show ?thesis using op l1(1,3,4) m2_fields(1-3) failed(1,2) by blast
qed

section \<open>Concrete devices\<close>

text \<open>
  A device at (0, 0) that hears three others there and creates cluster 9, and one that has
  announced to join it and waits.
\<close>

definition hear :: "int \<Rightarrow> vbs \<Rightarrow> vbs" where
  "hear station v = snd (on_received_vam (vam_message station 0 0 []) v)"

definition crowd :: vbs where
  "crowd = hear 3 (hear 2 (hear 1 (vbs_init 50 ''pedestrian'' (\<lambda>_. 1000) (\<lambda>_. 9))))"

definition leading :: vbs where
  "leading = snd (try_create_cluster 0 0 crowd)"

definition waiting :: vbs where
  "waiting = snd (vbs_update 0 0 0 0 joining)"

lemma hear_run:
  "hear station v = heartbeat (PInt station) (v_time_fn v (v_time_calls v)) (v\<lparr>v_time_calls := Suc (v_time_calls v),
     v_nearby_vrus := dict_set (PInt station)
       (seen_vru station 0 0 (v_time_fn v (v_time_calls v))) (v_nearby_vrus v)\<rparr>)"
  by (simp add: hear_def on_received_vam_def catch_s_def process_vam_run [OF refl refl] optional_def then_return)

lemma reachable_hear: "vbs_reachable v \<Longrightarrow> vbs_reachable (hear station v)"
  unfolding hear_def by (rule vbs_reachable.step) (auto intro: vbs_step.receive surjective_pairing)

lemma crowd_simps:
  "v_state crowd = VRU_ACTIVE_STANDALONE" "v_time_fn crowd = (\<lambda>_. 1000)" "v_random crowd = (\<lambda>_. 9)"
  "v_seen_cluster_ids crowd = []"
  "map snd (v_nearby_vrus crowd) = map (\<lambda>s. seen_vru s 0 0 1000) [1, 2, 3]"
  by (simp_all add: crowd_def hear_run heartbeat_def vbs_init_def)

lemma leading_reachable: "vbs_reachable leading"
proof -
  have "vbs_reachable crowd" unfolding crowd_def by (intro reachable_hear vbs_reachable.start)
  then show ?thesis
    unfolding leading_def by (rule vbs_reachable.step) (auto intro: vbs_step.create surjective_pairing)
qed

lemma leading_simps: "v_state leading = VRU_ACTIVE_CLUSTER_LEADER" "v_cluster leading = Some (new_cluster 9 crowd)"
proof -
  have "nearby_count 1000 0 0 crowd = 3"
    by (simp add: nearby_count_def crowd_simps seen_vru_def haversine_distance_def haversine_term_def
        Let_def radians_def T_GENVAMMAX_def MAX_CLUSTER_DISTANCE_def)
  moreover have hundred: "(100 :: nat) = Suc 99" by simp
  have "first_fresh 100 (\<lambda>_. 9) k [] = (Some 9, Suc k)" for k
    unfolding hundred first_fresh.simps by simp
  ultimately have "try_create_cluster 0 0 crowd = (Inr True, leading)
      \<and> v_state leading = VRU_ACTIVE_CLUSTER_LEADER \<and> v_cluster leading = Some (new_cluster 9 crowd)"
    unfolding leading_def
    by (simp add: try_create_run crowd_simps recent_ids_def dict_filter_def NUM_CREATE_CLUSTER_def Let_def)
  then show "v_state leading = VRU_ACTIVE_CLUSTER_LEADER" "v_cluster leading = Some (new_cluster 9 crowd)"
    by simp_all
qed

lemma joining_simps:
  "v_state joining = VRU_ACTIVE_STANDALONE" "v_join_substate joining = JS_NOTIFY"
  "v_join_target_cluster_id joining = Some 9" "v_leave_substate joining = LV_NONE"
  "v_join_started joining = Some 0" "v_time_fn joining = (\<lambda>n. 10 * real n)" "v_time_calls joining = 1"
  by (simp_all add: joining_def initiate_join_def vbs_init_def)

lemma waiting_reachable: "vbs_reachable waiting"
  unfolding waiting_def
  by (rule vbs_reachable.step [OF joining_reachable]) (auto intro: vbs_step.update surjective_pairing)

lemma waiting_simps:
  "v_state waiting = VRU_ACTIVE_STANDALONE" "v_join_substate waiting = JS_WAITING"
  "v_join_target_cluster_id waiting = Some 9" "v_leave_substate waiting = LV_NONE"
  "v_join_started waiting = Some 10" "v_time_fn waiting = (\<lambda>n. 10 * real n)" "v_time_calls waiting = 2"
  by (simp_all add: waiting_def update_run [OF vbs_reachable_ok [OF joining_reachable]] updated_def
      expire_nearby_tables_def Let_def joining_simps leave_notified_def join_advanced_def elapsed_def
      cluster_times)

text \<open>The device hears its leader twice while it waits.\<close>

lemma join_never_completes_witness:
  fixes info :: pyval
  defines "info \<equiv> as_decoded (the (get_cluster_information_container leading))"
  defines "m2 \<equiv> hear_clusters 50 [(0, 0, info), (0, 0, info)] waiting"
  defines "m3 \<equiv> snd (vbs_update 0 0 0 0 m2)"
  shows "\<exists>op l1 c1 op' l2 c2.
    fst (get_cluster_operation_container joining) = Inr (Some op)
    \<and> on_received_vam (vam_message 1 0 0 [(''vruClusterOperationContainer'', op)]) leading = (Inr (), l1)
    \<and> v_cluster l1 = Some c1 \<and> PInt 1 \<in> cl_pending_members c1
    \<and> v_state m2 = VRU_ACTIVE_STANDALONE \<and> v_join_substate m2 = JS_WAITING
    \<and> v_join_substate m3 = JS_FAILED \<and> fst (get_cluster_operation_container m3) = Inr (Some op')
    \<and> on_received_vam (vam_message 1 0 0 [(''vruClusterOperationContainer'', op')]) l1 = (Inr (), l2)
    \<and> v_cluster l2 = Some c2 \<and> PInt 1 \<notin> cl_pending_members c2"
proof -
  obtain built where built: "get_cluster_information_container leading = Some built"
    by (simp add: get_cluster_information_container_def leading_simps)
  have container: "leader_container info" unfolding leader_container_def info_def using built by auto
  have info: "info = as_decoded built" by (simp add: info_def built)
  have clock: "v_time_fn m2 (v_time_calls m2) = 40"
    unfolding m2_def info by (simp add: decoded_information_is_lost [OF built] waiting_simps)
  have target: "v_join_target_cluster_id joining = Some (cl_cluster_id c)" if "v_cluster leading = Some c" for c
    using that by (auto simp: joining_simps leading_simps new_cluster_def)
  have "elapsed (v_join_started waiting) (v_time_fn m2 (v_time_calls m2)) TIME_CLUSTER_JOIN_SUCCESS"
    by (simp add: clock waiting_simps elapsed_def cluster_times)
  then show ?thesis
    using join_never_completes [OF leading_reachable leading_simps(1) joining_simps(1,2) target
        waiting_reachable waiting_simps(1,2), of "[(0, 0, info), (0, 0, info)]" m2 50 m3 0 0 0 0 1 0 0 0 0]
    by (simp add: joining_simps(3) waiting_simps(3) container m2_def m3_def) blast
qed

lemma vbs_transitions_witness:
  "\<exists>l. v_state leading = VRU_ACTIVE_CLUSTER_LEADER \<and> v_cluster leading = Some l
    \<and> cl_cluster_id l \<in> range (v_random crowd)
    \<and> NUM_CREATE_CLUSTER \<le> nearby_count 1000 0 0 crowd"
proof -
  have reach: "vbs_reachable crowd" unfolding crowd_def by (intro reachable_hear vbs_reachable.start)
  have step: "vbs_step crowd leading"
    unfolding leading_def by (auto intro: vbs_step.create surjective_pairing)
  have "NUM_CREATE_CLUSTER \<le> nearby_count 1000 0 0 crowd"
    by (simp add: nearby_count_def crowd_simps seen_vru_def haversine_distance_def haversine_term_def
        Let_def radians_def T_GENVAMMAX_def MAX_CLUSTER_DISTANCE_def NUM_CREATE_CLUSTER_def)
  then show ?thesis
    using vbs_transitions [OF reach step] by (auto simp: leading_simps(1) crowd_simps(1))
qed

section \<open>What was intended\<close>

text \<open>
  Were the leader's container handed over as it was built, without a coder in between, the waiting
  device would become a silent member of the cluster: the state machines agree with each other.
\<close>

lemma unencoded_information_joins:
  assumes "v_state l = VRU_ACTIVE_CLUSTER_LEADER" "v_cluster l = Some c"
    and "v_state w = VRU_ACTIVE_STANDALONE" "v_join_substate w = JS_WAITING"
    and "v_join_target_cluster_id w = Some (cl_cluster_id c)" "v_leave_substate w = LV_NONE"
  shows "\<exists>info w'. get_cluster_information_container l = Some info
    \<and> on_received_vam (vam_message leader_id lat lon [(''vruClusterInformationContainer'', info)]) w = (Inr (), w')
    \<and> v_state w' = VRU_PASSIVE \<and> v_joined_cluster_id w' = Some (cl_cluster_id c)
    \<and> v_leader_station_id w' = Some (PInt leader_id) \<and> \<not> should_transmit_vam w'"
proof -
  obtain info where info: "get_cluster_information_container l = Some info"
    using assms(1,2) by (simp add: get_cluster_information_container_def)
  let ?now = "v_time_fn w (v_time_calls w)"
  let ?n = "seen_vru leader_id lat lon ?now"
  define u where "u = w\<lparr>v_time_calls := Suc (v_time_calls w), v_nearby_vrus := dict_set (PInt leader_id) ?n (v_nearby_vrus w)\<rparr>"
  define w' where "w' = heartbeat (PInt leader_id) ?now
      (joined_cluster (PInt leader_id) (cluster_seen (cl_cluster_id c) (PInt leader_id) c ?n u))"
  have u: "v_state u = VRU_ACTIVE_STANDALONE" "v_join_substate u = JS_WAITING"
    "v_join_target_cluster_id u = Some (cl_cluster_id c)" "v_leave_substate u = LV_NONE"
    using assms(3-6) by (simp_all add: u_def)
  have "process_received_vam (vam_message leader_id lat lon [(''vruClusterInformationContainer'', info)]) w
      = then_s (process_cluster_information info (PInt leader_id) ?n)
          (modify_s (heartbeat (PInt leader_id) ?now)) u"
    using information_run [OF info assms(2)]
    by (simp add: process_vam_run [OF refl refl] optional_def u_def then_return)
  also have "\<dots> = (Inr (), w')"
    using information_run [OF info assms(2)] u by (simp add: then_s_def bind_s_def w'_def Let_def)
  finally have "on_received_vam (vam_message leader_id lat lon [(''vruClusterInformationContainer'', info)]) w = (Inr (), w')"
    by (simp add: on_received_vam_def catch_s_def)
  moreover have "v_state w' = VRU_PASSIVE" "v_joined_cluster_id w' = Some (cl_cluster_id c)"
    "v_leader_station_id w' = Some (PInt leader_id)" "\<not> should_transmit_vam w'"
    using u by (simp_all add: w'_def heartbeat_def joined_cluster_def should_transmit_vam_def)
  ultimately show ?thesis using info by blast
qed

end
