(* ===== verification/VruLiveness.thy ===== *)
theory VruLiveness
  imports VruHandshake
begin

text \<open>
  How attempts and memberships end when nobody answers, and where the state machine departs
  from its documentation.
\<close>

section \<open>Silence\<close>

text \<open>The steps that are left until the device is on its own with nothing to announce.\<close>

fun join_steps :: "JoinSubstate \<Rightarrow> nat" where
  "join_steps JS_NOTIFY = 3"
| "join_steps JS_WAITING = 2"
| "join_steps JS_CANCELLED = 1"
| "join_steps JS_FAILED = 1"
| "join_steps JS_NONE = 0"
| "join_steps JS_JOINED = 0"

definition steps_left :: "vbs \<Rightarrow> nat" where
  "steps_left v =
     2 * join_steps (v_join_substate v) + (if v_leave_substate v = LV_NOTIFY then 1 else 0)
     + (if v_state v = VRU_ACTIVE_STANDALONE then 0 else 10)"

text \<open>What decides when the next step is due.\<close>

definition clocks :: "vbs \<Rightarrow> VBSState \<times> JoinSubstate \<times> real option \<times> real option \<times> LeaveSubstate \<times> real option
    \<times> real option \<times> ClusterState option" where
  "clocks v = (v_state v, v_join_substate v, v_join_started v, v_join_leave_started v,
     v_leave_substate v, v_leave_started v, v_last_leader_vam_time v, v_cluster v)"

text \<open>A leader that does not break up its cluster goes on, and so does an idle device.\<close>

definition settled :: "vbs \<Rightarrow> bool" where
  "settled v \<longleftrightarrow> v_state v = VRU_IDLE
     \<or> (\<exists>c. v_cluster v = Some c \<and> cl_breakup_started c = None)
     \<or> steps_left v = 0"

lemma elapsed_mono: "elapsed started now limit \<Longrightarrow> now \<le> now' \<Longrightarrow> elapsed started now' limit"
  by (auto simp: elapsed_def split: option.splits)

lemma elapsed_late: "started = Some t \<Longrightarrow> t + limit \<le> now \<Longrightarrow> elapsed started now limit"
  by (simp add: elapsed_def)

lemma join_advanced_progress:
  assumes "vbs_ok v" "v_state v = VRU_ACTIVE_STANDALONE" "v_join_substate v \<noteq> JS_NONE"
  shows "\<exists>T. \<forall>now u. clocks u = clocks v \<longrightarrow>
    (join_steps (v_join_substate (join_advanced now u)) < join_steps (v_join_substate v)
       \<or> now < T \<and> clocks (join_advanced now u) = clocks v)
    \<and> v_leave_substate (join_advanced now u) = v_leave_substate v"
proof -
  define t where "t = the (if v_join_substate v \<in> {JS_NOTIFY, JS_WAITING} then v_join_started v
    else v_join_leave_started v)"
  have sub: "v_join_substate v \<noteq> JS_JOINED" using assms(1,2) by (simp add: vbs_ok_def)
  have t: "v_join_substate v \<in> {JS_NOTIFY, JS_WAITING} \<Longrightarrow> v_join_started v = Some t"
    "v_join_substate v \<in> {JS_CANCELLED, JS_FAILED} \<Longrightarrow> v_join_leave_started v = Some t"
    using assms(1) by (auto simp: vbs_ok_def t_def)
  show ?thesis
  proof (intro exI [of _ "t + 3"] allI impI)
    fix now u
    assume "clocks u = clocks v"
    then have u: "v_state u = v_state v" "v_join_substate u = v_join_substate v"
      "v_join_started u = v_join_started v" "v_join_leave_started u = v_join_leave_started v"
      "v_leave_substate u = v_leave_substate v" "clocks u = clocks v" by (simp_all add: clocks_def)
    show "(join_steps (v_join_substate (join_advanced now u)) < join_steps (v_join_substate v)
       \<or> now < t + 3 \<and> clocks (join_advanced now u) = clocks v)
      \<and> v_leave_substate (join_advanced now u) = v_leave_substate v"
      using assms(3) sub t u
      by (cases "v_join_substate v") (simp_all add: join_advanced_def elapsed_def cluster_times)
  qed
qed

lemma leave_notified_progress:
  assumes "vbs_ok v" "v_leave_substate v = LV_NOTIFY"
  shows "\<exists>T. \<forall>now u. v_leave_substate u = v_leave_substate v \<and> v_leave_started u = v_leave_started v \<longrightarrow>
    v_leave_substate (leave_notified now u) = LV_NONE \<or> now < T \<and> leave_notified now u = u"
proof -
  obtain t where "v_leave_started v = Some t" using assms by (auto simp: vbs_ok_def)
  then show ?thesis
    using assms(2) by (intro exI [of _ "t + 1"]) (auto simp: leave_notified_def elapsed_def cluster_times)
qed

lemma leave_notified_simps [simp]:
  "v_state (leave_notified now u) = v_state u"
  "v_join_substate (leave_notified now u) = v_join_substate u"
  "v_leave_substate (leave_notified now u) = LV_NOTIFY \<Longrightarrow> leave_notified now u = u"
  "v_leave_substate u \<noteq> LV_NOTIFY \<Longrightarrow> leave_notified now u = u"
  by (auto simp: leave_notified_def)

text \<open>Before some time nothing changes or there is progress, and after it there is progress.\<close>

lemma leave_notified_cases:
  "leave_notified now u = u
   \<or> v_leave_substate u = LV_NOTIFY \<and> v_leave_substate (leave_notified now u) = LV_NONE
     \<and> v_state (leave_notified now u) = v_state u
     \<and> v_join_substate (leave_notified now u) = v_join_substate u"
  by (auto simp: leave_notified_def)

lemma clocks_eqD:
  assumes "clocks u = clocks v"
  shows "v_state u = v_state v" "v_join_substate u = v_join_substate v"
    "v_leave_substate u = v_leave_substate v" "v_leave_started u = v_leave_started v"
    "v_last_leader_vam_time u = v_last_leader_vam_time v" "v_cluster u = v_cluster v"
  using assms by (simp_all add: clocks_def)

lemma updated_progress:
  assumes "vbs_ok v" "\<not> settled v"
  shows "\<exists>T. \<forall>now u. clocks u = clocks v \<longrightarrow>
    steps_left (updated now u) < steps_left v \<or> now < T \<and> clocks (updated now u) = clocks v"
proof (cases "v_state v")
  case VRU_ACTIVE_STANDALONE
  show ?thesis
  proof (cases "v_join_substate v = JS_NONE")
    case False
    obtain T where T: "\<And>now u. clocks u = clocks v \<Longrightarrow>
        (join_steps (v_join_substate (join_advanced now u)) < join_steps (v_join_substate v)
         \<or> now < T \<and> clocks (join_advanced now u) = clocks v)
        \<and> v_leave_substate (join_advanced now u) = v_leave_substate v"
      using join_advanced_progress [OF assms(1) VRU_ACTIVE_STANDALONE False] by blast
    show ?thesis
    proof (intro exI [of _ T] allI impI)
      fix now u
      assume u: "clocks u = clocks v"
      then have st: "v_state u = VRU_ACTIVE_STANDALONE"
        using clocks_eqD(1) [OF u] VRU_ACTIVE_STANDALONE by simp
      have st': "v_state (join_advanced now u) = VRU_ACTIVE_STANDALONE"
        by (rule join_advanced_ok(2) [OF st])
      show "steps_left (updated now u) < steps_left v
          \<or> now < T \<and> clocks (updated now u) = clocks v"
        using leave_notified_cases [of now "join_advanced now u"] T [OF u, of now] st st'
          clocks_eqD(2) [of "join_advanced now u" v] VRU_ACTIVE_STANDALONE
        by (auto simp: updated_def steps_left_def)
    qed
  next
    case True
    then have "v_leave_substate v = LV_NOTIFY"
      using assms(2) VRU_ACTIVE_STANDALONE by (auto simp: settled_def steps_left_def split: if_splits)
    then obtain T where T: "\<And>now u. v_leave_substate u = v_leave_substate v
        \<Longrightarrow> v_leave_started u = v_leave_started v
        \<Longrightarrow> v_leave_substate (leave_notified now u) = LV_NONE \<or> now < T \<and> leave_notified now u = u"
      using leave_notified_progress [OF assms(1)] by blast
    show ?thesis
    proof (intro exI [of _ T] allI impI)
      fix now u
      assume u: "clocks u = clocks v"
      note eqs = clocks_eqD [OF u]
      have "updated now u = leave_notified now u"
        using eqs VRU_ACTIVE_STANDALONE True by (simp add: updated_def join_advanced_def)
      then show "steps_left (updated now u) < steps_left v
          \<or> now < T \<and> clocks (updated now u) = clocks v"
        using T [OF eqs(3,4), of now] eqs u \<open>v_leave_substate v = LV_NOTIFY\<close> True VRU_ACTIVE_STANDALONE
        by (auto simp: steps_left_def)
    qed
  qed
next
  case VRU_ACTIVE_CLUSTER_LEADER
  then obtain c t where c: "v_cluster v = Some c" "cl_breakup_started c = Some t"
    using assms by (auto simp: settled_def vbs_ok_def)
  show ?thesis
  proof (intro exI [of _ "t + 3"] allI impI)
    fix now u
    assume u: "clocks u = clocks v"
    then show "steps_left (updated now u) < steps_left v
        \<or> now < t + 3 \<and> clocks (updated now u) = clocks v"
      using clocks_eqD [OF u] c VRU_ACTIVE_CLUSTER_LEADER
      by (auto simp: updated_def elapsed_def cluster_times steps_left_def)
  qed
next
  case VRU_PASSIVE
  then obtain t where t: "v_last_leader_vam_time v = Some t"
    using assms by (auto simp: vbs_ok_def)
  show ?thesis
  proof (intro exI [of _ "t + 2"] allI impI)
    fix now u
    assume u: "clocks u = clocks v"
    note eqs = clocks_eqD [OF u]
    show "steps_left (updated now u) < steps_left v
        \<or> now < t + 2 \<and> clocks (updated now u) = clocks v"
    proof (cases "elapsed (v_last_leader_vam_time u) now TIME_CLUSTER_CONTINUITY")
      case True
      then show ?thesis using eqs VRU_PASSIVE
        by (simp add: updated_def left_cluster_def steps_left_def)
    next
      case False
      then show ?thesis
        using leave_notified_cases [of now u] eqs t u VRU_PASSIVE
        by (auto simp: updated_def steps_left_def elapsed_def cluster_times)
    qed
  qed
next
  case VRU_IDLE
  then show ?thesis using assms(2) by (simp add: settled_def)
qed

text \<open>The periodic update, \<open>n\<close> times, with nothing received in between.\<close>

fun updates :: "nat \<Rightarrow> vbs \<Rightarrow> vbs" where
  "updates 0 v = v"
| "updates (Suc n) v = updates n (snd (vbs_update 0 0 0 0 v))"

lemma updates_add: "updates (m + n) v = updates n (updates m v)"
  by (induction m arbitrary: v) simp_all

lemma update_frame:
  assumes "vbs_ok v"
  defines "v' \<equiv> snd (vbs_update 0 0 0 0 v)"
  shows "vbs_ok v'" "v_time_fn v' = v_time_fn v" "v_time_calls v < v_time_calls v'"
proof -
  define now where "now = v_time_fn v (v_time_calls v)"
  define u where "u = expire_nearby_tables now (v\<lparr>v_time_calls := Suc (v_time_calls v)\<rparr>)"
  have u: "v_time_fn u = v_time_fn v" "v_time_calls u = Suc (v_time_calls v)"
    by (simp_all add: u_def expire_nearby_tables_def Let_def)
  have v': "v' = updated now u" by (simp add: v'_def update_run [OF assms(1)] now_def u_def)
  have frame: "v_time_fn (updated now u) = v_time_fn u \<and> v_time_calls u \<le> v_time_calls (updated now u)"
    by (cases "v_state u")
      (simp_all add: updated_def left_cluster_def leave_notified_def join_advanced_def)
  then show "v_time_fn v' = v_time_fn v" "v_time_calls v < v_time_calls v'"
    using u v' by simp_all
  show "vbs_ok v'" using keepsD [OF keeps_update assms(1)] by (metis v'_def prod.collapse)
qed

lemma update_progress:
  assumes "vbs_ok v" "\<not> settled v"
  shows "\<exists>T. \<forall>u. vbs_ok u \<and> clocks u = clocks v \<longrightarrow>
    steps_left (snd (vbs_update 0 0 0 0 u)) < steps_left v
    \<or> v_time_fn u (v_time_calls u) < T \<and> clocks (snd (vbs_update 0 0 0 0 u)) = clocks v"
proof -
  obtain T where T: "\<And>now u. clocks u = clocks v \<Longrightarrow>
      steps_left (updated now u) < steps_left v \<or> now < T \<and> clocks (updated now u) = clocks v"
    using updated_progress [OF assms] by blast
  show ?thesis
  proof (intro exI [of _ T] allI impI)
    fix u
    assume u: "vbs_ok u \<and> clocks u = clocks v"
    have "clocks (expire_nearby_tables (v_time_fn u (v_time_calls u))
        (u\<lparr>v_time_calls := Suc (v_time_calls u)\<rparr>)) = clocks u"
      by (simp add: clocks_def expire_nearby_tables_def Let_def)
    then show "steps_left (snd (vbs_update 0 0 0 0 u)) < steps_left v
        \<or> v_time_fn u (v_time_calls u) < T \<and> clocks (snd (vbs_update 0 0 0 0 u)) = clocks v"
      using T u by (simp add: update_run)
  qed
qed

lemma one_step_taken:
  assumes "vbs_ok v" "\<not> settled v" "\<forall>T. \<exists>n. \<forall>m\<ge>n. T \<le> v_time_fn v m"
  shows "\<exists>k. steps_left (updates k v) < steps_left v \<and> vbs_ok (updates k v)
    \<and> v_time_fn (updates k v) = v_time_fn v"
proof -
  obtain T where T: "\<And>u. vbs_ok u \<Longrightarrow> clocks u = clocks v \<Longrightarrow>
      steps_left (snd (vbs_update 0 0 0 0 u)) < steps_left v
      \<or> v_time_fn u (v_time_calls u) < T \<and> clocks (snd (vbs_update 0 0 0 0 u)) = clocks v"
    using update_progress [OF assms(1,2)] by blast
  obtain n where n: "\<And>m. n \<le> m \<Longrightarrow> T \<le> v_time_fn v m" using assms(3) by blast
  have "\<exists>k. steps_left (updates k u) < steps_left v \<and> vbs_ok (updates k u)
      \<and> v_time_fn (updates k u) = v_time_fn v"
    if "vbs_ok u" "clocks u = clocks v" "v_time_fn u = v_time_fn v" for u
    using that
  proof (induction "n - v_time_calls u" arbitrary: u rule: less_induct)
    case less
    let ?u' = "snd (vbs_update 0 0 0 0 u)"
    note frame = update_frame [OF less.prems(1)]
    show ?case
    proof (cases "steps_left ?u' < steps_left v")
      case True
      then show ?thesis using frame less.prems(3) by (intro exI [of _ 1]) simp
    next
      case False
      then have early: "v_time_fn v (v_time_calls u) < T" and same: "clocks ?u' = clocks v"
        using T [OF less.prems(1,2)] less.prems(3) by auto
      have "v_time_calls u < n" using early n by (meson not_less)
      then have "n - v_time_calls ?u' < n - v_time_calls u" using frame(3) by linarith
      then obtain k where "steps_left (updates k ?u') < steps_left v \<and> vbs_ok (updates k ?u')
          \<and> v_time_fn (updates k ?u') = v_time_fn v"
        using less.hyps [of ?u'] frame same less.prems(3) by auto
      then show ?thesis by (intro exI [of _ "Suc k"]) simp
    qed
  qed
  then show ?thesis using assms(1) by blast
qed

lemma silence_settles:
  assumes "vbs_ok v" "\<forall>T. \<exists>n. \<forall>m\<ge>n. T \<le> v_time_fn v m"
  shows "\<exists>n. settled (updates n v) \<and> vbs_ok (updates n v)"
  using assms
proof (induction "steps_left v" arbitrary: v rule: less_induct)
  case less
  show ?case
  proof (cases "settled v")
    case True
    then show ?thesis using less.prems by (intro exI [of _ 0]) simp
  next
    case False
    then obtain k where k: "steps_left (updates k v) < steps_left v" "vbs_ok (updates k v)"
      "v_time_fn (updates k v) = v_time_fn v"
      using one_step_taken [OF less.prems(1) _ less.prems(2)] by blast
    then obtain n where "settled (updates n (updates k v)) \<and> vbs_ok (updates n (updates k v))"
      using less.hyps [of "updates k v"] less.prems(2) by auto
    then show ?thesis by (intro exI [of _ "k + n"]) (simp add: updates_add)
  qed
qed

lemma settled_cases:
  assumes "settled u" "vbs_ok u"
  shows "v_state u = VRU_IDLE
    \<or> v_state u = VRU_ACTIVE_CLUSTER_LEADER
      \<and> (\<exists>c. v_cluster u = Some c \<and> cl_breakup_started c = None)
    \<or> v_state u = VRU_ACTIVE_STANDALONE \<and> v_join_substate u = JS_NONE
      \<and> v_leave_substate u = LV_NONE"
proof (cases "steps_left u = 0")
  case True
  then have state: "v_state u = VRU_ACTIVE_STANDALONE" and join: "join_steps (v_join_substate u) = 0"
    and leave: "v_leave_substate u \<noteq> LV_NOTIFY" by (simp_all add: steps_left_def split: if_splits)
  have "v_join_substate u \<noteq> JS_JOINED" using assms(2) state by (simp add: vbs_ok_def)
  then have "v_join_substate u = JS_NONE" using join by (cases "v_join_substate u") simp_all
  moreover have "v_leave_substate u = LV_NONE" using leave by (cases "v_leave_substate u") simp_all
  ultimately show ?thesis using state by simp
next
  case False
  have leader: "v_cluster u \<noteq> None \<longleftrightarrow> v_state u = VRU_ACTIVE_CLUSTER_LEADER"
    using assms(2) unfolding vbs_ok_def by blast
  from False assms(1) have "v_state u = VRU_IDLE
      \<or> (\<exists>c. v_cluster u = Some c \<and> cl_breakup_started c = None)"
    by (auto simp: settled_def)
  then show ?thesis using leader by auto
qed

text \<open>A settled device stays as it is, with everything that a pending attempt depends on.\<close>

lemma settled_stays:
  assumes "settled v" "vbs_ok v"
  shows "clocks (snd (vbs_update 0 0 0 0 v)) = clocks v"
proof -
  have "updated now u = u" if "clocks u = clocks v" for now u
  proof -
    note eqs = clocks_eqD [OF that]
    consider "v_state v = VRU_IDLE"
      | c where "v_state v = VRU_ACTIVE_CLUSTER_LEADER" "v_cluster v = Some c" "cl_breakup_started c = None"
      | "v_state v = VRU_ACTIVE_STANDALONE" "v_join_substate v = JS_NONE" "v_leave_substate v = LV_NONE"
      using settled_cases [OF assms] by blast
    then show ?thesis
      by cases (simp_all add: updated_def join_advanced_def leave_notified_def elapsed_def eqs)
  qed
  moreover have "clocks (expire_nearby_tables now (v\<lparr>v_time_calls := n\<rparr>)) = clocks v" for now n
    by (simp add: clocks_def expire_nearby_tables_def Let_def)
  ultimately show ?thesis using assms(2) by (simp add: update_run)
qed

lemma clocks_settled: "clocks u = clocks v \<Longrightarrow> settled u = settled v"
  by (simp add: clocks_def settled_def steps_left_def)

lemma settled_for_good:
  assumes "settled v" "vbs_ok v"
  shows "clocks (updates m v) = clocks v"
  using assms
proof (induction m arbitrary: v)
  case (Suc m)
  let ?v = "snd (vbs_update 0 0 0 0 v)"
  have "clocks ?v = clocks v" by (rule settled_stays [OF Suc.prems])
  moreover have "settled ?v" using clocks_settled [OF calculation] Suc.prems(1) by simp
  then have "clocks (updates m ?v) = clocks ?v" by (rule Suc.IH) (rule update_frame(1) [OF Suc.prems(2)])
  ultimately show ?case by (simp only: updates.simps)
qed simp

text \<open>
  C18: A device that hears nothing more comes to rest: as long as its clock goes on, after finitely
  many periodic updates nothing that they act on changes any more, and then the device is idle,
  or leads a cluster whose breakup is not announced, or is on its own with no attempt to join and no
  notification left. So every membership and every announced breakup ends, and on a device that
  does not lead in the end every attempt to join and every notification ends. A device that
  leads keeps what was pending when it founded its cluster (\<open>leader_keeps_attempt\<close>): the updates
  of a leader do not look at it.
\<close>

theorem vbs_silence_settles:
  assumes "vbs_reachable v" "\<forall>T. \<exists>n. \<forall>m\<ge>n. T \<le> v_time_fn v m"
  shows "\<exists>n. let u = updates n v in
    (\<forall>m. clocks (updates (n + m) v) = clocks u)
    \<and> (v_state u = VRU_IDLE
      \<or> v_state u = VRU_ACTIVE_CLUSTER_LEADER
        \<and> (\<exists>c. v_cluster u = Some c \<and> cl_breakup_started c = None)
      \<or> v_state u = VRU_ACTIVE_STANDALONE \<and> v_join_substate u = JS_NONE
        \<and> v_leave_substate u = LV_NONE)"
proof -
  obtain n where n: "settled (updates n v)" "vbs_ok (updates n v)"
    using silence_settles [OF vbs_reachable_ok [OF assms(1)] assms(2)] by blast
  then have "clocks (updates (n + m) v) = clocks (updates n v)" for m
    using settled_for_good by (simp add: updates_add)
  then show ?thesis unfolding Let_def using settled_cases [OF n] by blast
qed

lemma clock_of_joining: "\<forall>T. \<exists>n. \<forall>m\<ge>n. T \<le> v_time_fn joining m"
proof
  fix T :: real
  obtain n where "T \<le> real n" using real_arch_simple by blast
  then show "\<exists>n. \<forall>m\<ge>n. T \<le> v_time_fn joining m"
    by (intro exI [of _ n]) (auto simp: joining_def initiate_join_def vbs_init_def)
qed

lemma vbs_silence_settles_witness:
  "\<exists>n. let u = updates n joining in
    (\<forall>m. clocks (updates (n + m) joining) = clocks u)
    \<and> (v_state u = VRU_IDLE
      \<or> v_state u = VRU_ACTIVE_CLUSTER_LEADER
        \<and> (\<exists>c. v_cluster u = Some c \<and> cl_breakup_started c = None)
      \<or> v_state u = VRU_ACTIVE_STANDALONE \<and> v_join_substate u = JS_NONE
        \<and> v_leave_substate u = LV_NONE)"
  by (rule vbs_silence_settles [OF joining_reachable clock_of_joining])

text \<open>
  A device may found a cluster of its own while it announces that it joins another one. As long as it
  leads, the attempt is neither carried on nor given up, however much time goes by.
\<close>

lemma leader_keeps_attempt:
  assumes "vbs_reachable v" "v_cluster v = Some c" "cl_breakup_started c = None"
  shows "v_join_substate (updates n v) = v_join_substate v \<and> v_leave_substate (updates n v) = v_leave_substate v
    \<and> v_state (updates n v) = VRU_ACTIVE_CLUSTER_LEADER"
proof -
  have ok: "vbs_ok v" by (rule vbs_reachable_ok [OF assms(1)])
  then have "v_state v = VRU_ACTIVE_CLUSTER_LEADER" using assms(2) by (auto simp: vbs_ok_def)
  moreover have "settled v" using assms(2,3) by (simp add: settled_def)
  ultimately show ?thesis using clocks_eqD [OF settled_for_good [OF _ ok, of n]] by simp
qed

definition distracted :: vbs where
  "distracted = snd (try_create_cluster 0 0 (snd (initiate_join 5 crowd)))"

lemma leader_keeps_attempt_witness:
  "vbs_reachable distracted \<and> v_join_substate (updates n distracted) = JS_NOTIFY
    \<and> v_state (updates n distracted) = VRU_ACTIVE_CLUSTER_LEADER"
proof -
  define w where "w = snd (initiate_join 5 crowd)"
  have "vbs_reachable crowd" unfolding crowd_def by (intro reachable_hear vbs_reachable.start)
  then have "vbs_reachable w"
    unfolding w_def by (rule vbs_reachable.step) (auto intro: vbs_step.join surjective_pairing)
  then have reach: "vbs_reachable distracted"
    unfolding distracted_def w_def [symmetric]
    by (rule vbs_reachable.step) (auto intro: vbs_step.create surjective_pairing)
  have "v_join_substate crowd = JS_NONE" by (simp add: crowd_def hear_run heartbeat_def vbs_init_def)
  then have w: "v_state w = VRU_ACTIVE_STANDALONE" "v_join_substate w = JS_NOTIFY" "v_random w = (\<lambda>_. 9)"
    "v_seen_cluster_ids w = []" "v_nearby_vrus w = v_nearby_vrus crowd" "v_time_fn w = (\<lambda>_. 1000)"
    by (simp_all add: w_def initiate_join_def crowd_simps)
  have "nearby_count 1000 0 0 w = 3"
    by (simp add: nearby_count_def w crowd_simps seen_vru_def haversine_distance_def haversine_term_def
        Let_def radians_def T_GENVAMMAX_def MAX_CLUSTER_DISTANCE_def)
  moreover have hundred: "(100 :: nat) = Suc 99" by simp
  have "first_fresh 100 (\<lambda>_. 9) k [] = (Some 9, Suc k)" for k
    unfolding hundred first_fresh.simps by simp
  ultimately have "v_cluster distracted = Some (new_cluster 9 w)" "v_join_substate distracted = JS_NOTIFY"
    unfolding distracted_def w_def [symmetric]
    by (simp_all add: try_create_run w recent_ids_def dict_filter_def NUM_CREATE_CLUSTER_def Let_def)
  then show ?thesis
    using leader_keeps_attempt [OF reach] reach by (auto simp: new_cluster_def)
qed

section \<open>Identifiers in use\<close>

text \<open>The time in the table of identifiers stays what it was when the identifier was first heard.\<close>

definition keeps_seen :: "vbs \<Rightarrow> vbs \<Rightarrow> bool" where
  "keeps_seen v v' \<longleftrightarrow>
     (\<forall>k t. dict_get (v_seen_cluster_ids v) k = Some t \<longrightarrow> dict_get (v_seen_cluster_ids v') k = Some t)"

interpretation seen: step_rel keeps_seen
  by unfold_locales (auto simp: keeps_seen_def)

lemma seen_modify:
  assumes "\<And>v. v_seen_cluster_ids (g v) = v_seen_cluster_ids v"
  shows "obeys keeps_seen (modify_s g)"
  using assms by (intro seen.obeys_modify) (simp add: keeps_seen_def)

lemma seen_time_fn: "obeys keeps_seen time_fn"
  by (rule obeysI) (auto simp: keeps_seen_def)

lemma seen_information: "obeys keeps_seen (process_cluster_information ctr sender n)"
proof -
  have join: "obeys keeps_seen (bind_s (gets_s (\<lambda>v. v)) (\<lambda>v.
       if v_state v = VRU_ACTIVE_STANDALONE \<and> v_join_substate v = JS_WAITING
          \<and> (case v_join_target_cluster_id v of None \<Rightarrow> False | Some t \<Rightarrow> key = PInt t)
       then complete_join sender else return_s ()))" for key
    by (rule obeysI) (auto simp: complete_join_run joined_cluster_def keeps_seen_def split: if_splits)
  have noted: "obeys keeps_seen (modify_s (\<lambda>v.
      if dict_get (v_seen_cluster_ids v) key = None
      then v\<lparr>v_seen_cluster_ids := dict_set key (nv_last_seen n) (v_seen_cluster_ids v)\<rparr> else v))" for key
    by (intro seen.obeys_modify) (auto simp: keeps_seen_def dict_get_set)
  show ?thesis
    unfolding process_cluster_information_def
    by (intro seen.obeys_bind seen.obeys_then seen.obeys_pure seen_modify join noted) simp_all
qed

lemma seen_operation: "obeys keeps_seen (process_cluster_operation ctr sender)"
proof -
  have "obeys keeps_seen (process_breakup info sender)" for info
    by (rule obeysI) (auto simp: process_breakup_def bind_s_def do_leave_run left_cluster_def keeps_seen_def
        split: if_splits sum.splits prod.splits)
  moreover have "obeys keeps_seen (track_member info change)" for info change
    unfolding track_member_def
    by (intro seen.obeys_bind seen.obeys_pure seen.obeys_case_option seen.obeys_if seen_modify) simp_all
  ultimately show ?thesis
    unfolding process_cluster_operation_def
    by (intro seen.obeys_bind seen.obeys_then seen.obeys_pure seen.obeys_if)
qed

lemma seen_vam: "obeys keeps_seen (on_received_vam vam)"
  unfolding on_received_vam_def process_received_vam_def Let_def
  by (intro seen.obeys_catch seen.obeys_bind seen.obeys_then seen.obeys_pure
      seen.obeys_if seen_time_fn seen_modify seen_information seen_operation)
    simp_all

text \<open>
  A cluster that is still heard loses its identifier 30 seconds after it was first heard:
  receptions do not refresh the time that the identifier is remembered by, and a device that
  draws this identifier then founds its own cluster under it, whether or not the other cluster
  is among the clusters it sees nearby.
\<close>

lemma cluster_id_taken_again:
  fixes v :: vbs
  defines "now \<equiv> v_time_fn v (v_time_calls v)"
  assumes "vbs_reachable v" "dict_get (v_seen_cluster_ids v) (PInt cid) = Some t"
    and "v_state v = VRU_ACTIVE_STANDALONE" "TIME_CLUSTER_UNIQUENESS_THRESHOLD \<le> now - t"
    and "NUM_CREATE_CLUSTER \<le> nearby_count now lat lon v" "v_random v (v_random_calls v) = cid"
  shows "dict_get (v_seen_cluster_ids (snd (on_received_vam vam v))) (PInt cid) = Some t
    \<and> get_cluster_id (snd (try_create_cluster lat lon v)) = Some cid
    \<and> v_nearby_clusters (snd (try_create_cluster lat lon v)) = v_nearby_clusters v"
proof -
  have kept: "dict_get (v_seen_cluster_ids (snd (on_received_vam vam v))) (PInt cid) = Some t"
    using obeysD [OF seen_vam, of vam v "fst (on_received_vam vam v)" "snd (on_received_vam vam v)"] assms(3)
    by (simp add: keeps_seen_def)
  have ok: "dict_ok (v_seen_cluster_ids v)" using vbs_reachable_ok [OF assms(2)] by (simp add: vbs_ok_def)
  then have "dict_get (recent_ids now v) (PInt cid) = None"
    using assms(3,5) by (simp add: recent_ids_def dict_get_filter)
  then have fresh: "PInt cid \<notin> set (map fst (recent_ids now v))" by (simp add: map_of_eq_None_iff)
  have hundred: "(100 :: nat) = Suc 99" by simp
  have "first_fresh 100 (v_random v) (v_random_calls v) (map fst (recent_ids now v))
      = (Some cid, Suc (v_random_calls v))"
    using fresh assms(7) unfolding hundred first_fresh.simps by simp
  then show ?thesis
    using kept assms(4,6)
    by (simp add: try_create_run now_def [symmetric] get_cluster_id_def new_cluster_def Let_def)
qed

text \<open>
  A device that hears the leader of cluster 9 at times 0 and 31, and two other devices at
  time 31.
\<close>

definition informed :: "vbs \<Rightarrow> vbs" where
  "informed v = snd (on_received_vam (vam_message 1 0 0
     [(''vruClusterInformationContainer'', the (get_cluster_information_container leading))]) v)"

definition surrounded :: vbs where
  "surrounded = hear 3 (hear 2 (informed (informed
     (vbs_init 50 ''pedestrian'' (\<lambda>n. if n = 0 then 0 else 31) (\<lambda>_. 9)))))"

lemma reachable_informed: "vbs_reachable v \<Longrightarrow> vbs_reachable (informed v)"
  unfolding informed_def by (rule vbs_reachable.step) (auto intro: vbs_step.receive surjective_pairing)

lemma informed_run:
  assumes "v_state v = VRU_ACTIVE_STANDALONE" "v_join_substate v = JS_NONE"
  defines "n \<equiv> seen_vru 1 0 0 (v_time_fn v (v_time_calls v))"
  shows "informed v = cluster_seen 9 (PInt 1) (new_cluster 9 crowd) n (v\<lparr>v_time_calls := Suc (v_time_calls v),
     v_nearby_vrus := dict_set (PInt 1) n (v_nearby_vrus v)\<rparr>)"
proof -
  obtain info where info: "get_cluster_information_container leading = Some info"
    by (simp add: get_cluster_information_container_def leading_simps)
  have id9: "cl_cluster_id (new_cluster 9 crowd) = 9" by (simp add: new_cluster_def)
  show ?thesis
    using information_run [OF info leading_simps(2)] assms(1,2) id9
    by (simp add: informed_def info on_received_vam_def catch_s_def process_vam_run [OF refl refl]
        optional_def then_return then_s_def bind_s_def Let_def n_def heartbeat_def)
qed

lemma surrounded_simps:
  "v_state surrounded = VRU_ACTIVE_STANDALONE" "v_time_fn surrounded = (\<lambda>n. if n = 0 then 0 else 31)"
  "v_time_calls surrounded = 4" "v_random surrounded = (\<lambda>_. 9)"
  "dict_get (v_seen_cluster_ids surrounded) (PInt 9) = Some 0"
  "map snd (v_nearby_vrus surrounded) = map (\<lambda>s. seen_vru s 0 0 31) [1, 2, 3]"
  by (simp_all add: surrounded_def hear_run heartbeat_def vbs_init_def informed_run)
   (simp_all add: cluster_seen_def Let_def seen_vru_def)

lemma cluster_id_taken_again_witness:
  "dict_get (v_seen_cluster_ids surrounded) (PInt 9) = Some 0
    \<and> get_cluster_id (snd (try_create_cluster 0 0 surrounded)) = Some 9"
proof -
  have "vbs_reachable surrounded"
    unfolding surrounded_def by (intro reachable_hear reachable_informed vbs_reachable.start)
  moreover have "NUM_CREATE_CLUSTER \<le> nearby_count 31 0 0 surrounded"
    by (simp add: nearby_count_def surrounded_simps seen_vru_def haversine_distance_def haversine_term_def
        Let_def radians_def T_GENVAMMAX_def MAX_CLUSTER_DISTANCE_def NUM_CREATE_CLUSTER_def)
  ultimately show ?thesis
    using cluster_id_taken_again [of surrounded 9 0 0 0]
    by (simp add: surrounded_simps TIME_CLUSTER_UNIQUENESS_THRESHOLD_def)
qed

end
