(* ===== verification/GnContracts.thy ===== *)
theory GnContracts
  imports RouterLocation
begin

text \<open>
  What the parts of the GeoNetworking layer promise to the router: headers that survive the
  wire and are typed, a duplicate list that is a window over the accepted numbers, a
  function F that decides an area exactly if the area is not turned, and the invariant of every
  state a router can reach.
\<close>

section \<open>Headers on the wire\<close>

context wire_codec
begin

lemma packet_round_trip:
  "valid h \<Longrightarrow> \<exists>bs. encode h = Inr bs \<and> length bs = width \<and> decode (bs @ rest) = Inr h"
  using encode_total decode_packet by blast

end

text \<open>
  C20: Every header whose fields fit their places on the wire encodes to its fixed number of
  bytes, and a packet that begins with these bytes decodes to the same header, whatever follows.
\<close>

theorem headers_round_trip:
  "(valid_bh b \<longrightarrow> (\<exists>bs. bh_encode b = Inr bs \<and> length bs = 4 \<and> bh_decode (bs @ rest) = Inr b))
   \<and> (valid_ch c \<longrightarrow> (\<exists>bs. ch_encode c = Inr bs \<and> length bs = 8 \<and> ch_decode (bs @ rest) = Inr c))
   \<and> (valid_tsb t \<longrightarrow> (\<exists>bs. tsb_encode t = Inr bs \<and> length bs = 28 \<and> tsb_decode (bs @ rest) = Inr t))
   \<and> (valid_guc u \<longrightarrow> (\<exists>bs. guc_encode u = Inr bs \<and> length bs = 48 \<and> guc_decode (bs @ rest) = Inr u))
   \<and> (valid_gbc g \<longrightarrow> (\<exists>bs. gbc_encode g = Inr bs \<and> length bs = 44 \<and> gbc_decode (bs @ rest) = Inr g))
   \<and> (valid_lsreq q \<longrightarrow> (\<exists>bs. lsreq_encode q = Inr bs \<and> length bs = 36 \<and> lsreq_decode (bs @ rest) = Inr q))
   \<and> (valid_lsrep p \<longrightarrow> (\<exists>bs. lsrep_encode p = Inr bs \<and> length bs = 48 \<and> lsrep_decode (bs @ rest) = Inr p))"
  by (intro conjI impI bh.packet_round_trip ch.packet_round_trip tsb.packet_round_trip
      guc.packet_round_trip gbc.packet_round_trip lsreq.packet_round_trip lsrep.packet_round_trip)

lemma headers_round_trip_witness:
  "(\<exists>bs. bh_encode (sample_bh 10) = Inr bs \<and> length bs = 4 \<and> bh_decode (bs @ [7]) = Inr (sample_bh 10))
   \<and> (\<exists>bs. ch_encode (sample_ch HT_TSB MULTI_HOP) = Inr bs \<and> length bs = 8
        \<and> ch_decode (bs @ [7]) = Inr (sample_ch HT_TSB MULTI_HOP))
   \<and> (\<exists>bs. gbc_encode (sample_gbc 1 5) = Inr bs \<and> length bs = 44
        \<and> gbc_decode (bs @ [7]) = Inr (sample_gbc 1 5))"
  using headers_round_trip [where b = "sample_bh 10" and c = "sample_ch HT_TSB MULTI_HOP"
      and g = "sample_gbc 1 5" and rest = "[7]"]
  by (simp add: valid_samples subtype_member_lists)

text \<open>
  C21: Whatever bytes arrive, a header that decodes has every field within its width, sub-fields
  and enumerations included, and can be encoded again for the next hop, where it decodes to the
  same header. The common header keeps this promise as long as its reserved byte is below 16,
  as in every header that was sent by the rules (\<open>reserved_byte_changes_next_header\<close> has the
  exception).
\<close>

theorem decoded_headers_are_typed:
  "(\<forall>h. bh_decode bs = Inr h \<longrightarrow> valid_bh h
        \<and> (\<exists>bs'. bh_encode h = Inr bs' \<and> length bs' = 4 \<and> bh_decode bs' = Inr h))
   \<and> (\<forall>h. ch_decode bs = Inr h \<longrightarrow> ch_hst h \<in> set (subtype_members (ch_ht h))
        \<and> ch_flags h \<in> {0, 128} \<and> 0 \<le> ch_pl h \<and> ch_pl h < 2 ^ 16
        \<and> 0 \<le> ch_mhl h \<and> ch_mhl h < 256 \<and> valid_tc (ch_tc h)
        \<and> 0 \<le> ch_reserved h \<and> ch_reserved h < 256
        \<and> (ch_reserved h < 16 \<longrightarrow> (\<exists>bs'. ch_encode h = Inr bs' \<and> length bs' = 8 \<and> ch_decode bs' = Inr h)))
   \<and> (\<forall>h. tsb_decode bs = Inr h \<longrightarrow> valid_tsb h
        \<and> (\<exists>bs'. tsb_encode h = Inr bs' \<and> length bs' = 28 \<and> tsb_decode bs' = Inr h))
   \<and> (\<forall>h. guc_decode bs = Inr h \<longrightarrow> valid_guc h
        \<and> (\<exists>bs'. guc_encode h = Inr bs' \<and> length bs' = 48 \<and> guc_decode bs' = Inr h))
   \<and> (\<forall>h. gbc_decode bs = Inr h \<longrightarrow> valid_gbc h
        \<and> (\<exists>bs'. gbc_encode h = Inr bs' \<and> length bs' = 44 \<and> gbc_decode bs' = Inr h))
   \<and> (\<forall>h. lsreq_decode bs = Inr h \<longrightarrow> valid_lsreq h
        \<and> (\<exists>bs'. lsreq_encode h = Inr bs' \<and> length bs' = 36 \<and> lsreq_decode bs' = Inr h))
   \<and> (\<forall>h. lsrep_decode bs = Inr h \<longrightarrow> valid_lsrep h
        \<and> (\<exists>bs'. lsrep_encode h = Inr bs' \<and> length bs' = 48 \<and> lsrep_decode bs' = Inr h))"
proof -
  have "\<exists>bs'. ch_encode h = Inr bs' \<and> length bs' = 8 \<and> ch_decode bs' = Inr h"
    if "ch_decode bs = Inr h" "ch_reserved h < 16" for h
    using ch.encode_total [OF ch_decode_valid [OF that]] ch.decode_encode [OF ch_decode_valid [OF that]] by blast
  then have ch: "ch_hst h \<in> set (subtype_members (ch_ht h)) \<and> ch_flags h \<in> {0, 128} \<and> 0 \<le> ch_pl h
      \<and> ch_pl h < 2 ^ 16 \<and> 0 \<le> ch_mhl h \<and> ch_mhl h < 256 \<and> valid_tc (ch_tc h)
      \<and> 0 \<le> ch_reserved h \<and> ch_reserved h < 256
      \<and> (ch_reserved h < 16 \<longrightarrow> (\<exists>bs'. ch_encode h = Inr bs' \<and> length bs' = 8 \<and> ch_decode bs' = Inr h))"
    if "ch_decode bs = Inr h" for h
    using ch_decode_ranges [OF that] that by simp
  show ?thesis
    by (intro conjI allI impI; (erule ch | erule bh.decode_valid tsb.decode_valid guc.decode_valid gbc.decode_valid
        lsreq.decode_valid lsrep.decode_valid bh.reencode tsb.reencode guc.reencode gbc.reencode lsreq.reencode
        lsrep.reencode | (drule ch, simp)))
qed

lemma decoded_headers_are_typed_witness:
  "\<exists>bs. gbc_decode bs = Inr (sample_gbc 1 5) \<and> valid_gbc (sample_gbc 1 5)
    \<and> (\<exists>bs'. gbc_encode (sample_gbc 1 5) = Inr bs' \<and> length bs' = 44 \<and> gbc_decode bs' = Inr (sample_gbc 1 5))"
proof -
  obtain bs where "gbc_decode bs = Inr (sample_gbc 1 5)"
    using gbc.encode_total [of "sample_gbc 1 5"] gbc.decode_encode [of "sample_gbc 1 5"] by auto
  then show ?thesis using decoded_headers_are_typed [of bs] by blast
qed

text \<open>
  The encoder puts the reserved byte, which the decoder takes from the last byte of the header,
  also beside the next header in the first one. Its upper half falls on the next header: a beacon
  with 16 in the last byte, encoded again, announces BTP-A.
\<close>

lemma reserved_byte_changes_next_header:
  "rbind (ch_decode [0, 0x10, 0, 0, 0, 0, 1, 16]) (\<lambda>h. Inr (ch_nh h)) = Inr CNH_ANY"
  "rbind (ch_decode [0, 0x10, 0, 0, 0, 0, 1, 16]) ch_encode = Inr [0x10, 0x10, 0, 0, 0, 0, 1, 16]"
  "rbind (ch_decode [0x10, 0x10, 0, 0, 0, 0, 1, 16]) (\<lambda>h. Inr (ch_nh h)) = Inr BTP_A"
  by code_simp+

section \<open>The duplicate list\<close>

text \<open>
  The specification keeps every accepted number and looks back over the last \<open>n\<close> of them. The
  code keeps a bounded queue and a set.
\<close>

fun history_filter :: "nat \<Rightarrow> int list \<Rightarrow> int list \<Rightarrow> int list" where
  "history_filter n history [] = []"
| "history_filter n history (sn # sns) =
     (if sn \<in> set (last_n n history) then history_filter n history sns
      else sn # history_filter n (history @ [sn]) sns)"

context duplicate_filter
begin

lemma accepted_history:
  "ok s \<Longrightarrow> window s = last_n n history \<Longrightarrow> accepted sns s = history_filter n history sns"
proof (induction sns arbitrary: s history)
  case (Cons sn sns)
  show ?case
  proof (cases "sn \<in> set (window s)")
    case True
    then show ?thesis using Cons.IH [OF Cons.prems] Cons.prems refuse by simp
  next
    case False
    then obtain s' where s': "check sn s = Inr s'" "ok s'" "window s' = last_n n (window s @ [sn])"
      using accept Cons.prems(1) by blast
    then have "window s' = last_n n (history @ [sn])"
      using Cons.prems(2) last_n_snoc_last_n by metis
    then show ?thesis using Cons.IH [OF s'(2)] False Cons.prems(2) s'(1) by simp
  qed
qed simp

end

text \<open>The sequence numbers of a station that \<open>check_duplicate_sn\<close> lets pass.\<close>

fun accepted_sns :: "MIB \<Rightarrow> int list \<Rightarrow> LocationTableEntry \<Rightarrow> int list" where
  "accepted_sns mib [] e = []"
| "accepted_sns mib (sn # sns) e =
     (case check_duplicate_sn mib sn e of
        Inl _ \<Rightarrow> accepted_sns mib sns e
      | Inr e' \<Rightarrow> sn # accepted_sns mib sns e')"

lemma accepted_sns_eq: "accepted_sns mib sns e = dpl.accepted mib sns e"
  by (induction sns arbitrary: e) (simp_all split: sum.split)

text \<open>
  C22: For a list with room for at least one number, the numbers that pass the duplicate check of
  an entry are those that the specification passes, which refuses a number exactly if it is
  among the last \<open>itsGnDPLLength\<close> accepted ones; in particular a number passes twice only with
  that many other accepted numbers in between.
\<close>

theorem duplicate_list_is_window:
  assumes "0 < itsGnDPLLength mib"
  shows "accepted_sns mib sns (new_entry mib) = history_filter (itsGnDPLLength mib) [] sns
    \<and> (\<forall>i j. i < j \<and> j < length (accepted_sns mib sns (new_entry mib))
        \<and> accepted_sns mib sns (new_entry mib) ! i = accepted_sns mib sns (new_entry mib) ! j
        \<longrightarrow> itsGnDPLLength mib < j - i)"
proof -
  have "dpl_ready mib (new_entry mib)" using assms by (simp add: dpl_ready_def dpl_ok_def)
  then show ?thesis
    using dpl.accepted_history [of mib "new_entry mib" "[]" sns]
      dpl.accepted_apart [of mib "new_entry mib" _ _ sns]
    by (simp add: accepted_sns_eq last_n_def)
qed

lemma duplicate_list_is_window_witness:
  "accepted_sns (station_mib 1) [1, 2, 1, 3] (new_entry (station_mib 1)) = [1, 2, 3]"
  using duplicate_list_is_window [of "station_mib 1" "[1, 2, 1, 3]"]
  by (simp add: last_n_def)

section \<open>Geometric decisions\<close>

text \<open>
  C23: The function F has a value exactly for areas whose shape has positive lengths (the second
  length does not count for a circle), and raises \<open>ZeroDivisionError\<close> for the others. Its value is
  not negative exactly at the points of the circle, or of the ellipse or rectangle with its first
  length pointing north. So it decides the area of EN 302 931 for circles and for areas with angle
  0; for another angle it is wrong: of an ellipse or rectangle that points east it misses every
  point due east between the second and the first length.
\<close>

theorem geometric_decisions:
  assumes "is_area_type area_type" "0 \<le> area_a area" "0 \<le> area_b area"
  shows "if has_extent area_type area then
      \<exists>f. gn_geometric_function_f area_type area lat lon = Inr f
        \<and> (0 \<le> f \<longleftrightarrow> inside_area area_type (north_up area) lat lon)
        \<and> (area_type \<in> set circle_types \<or> area_angle area = 0 \<longrightarrow> (0 \<le> f \<longleftrightarrow> inside_area area_type area lat lon))
        \<and> (area_type \<notin> set circle_types \<and> area_angle area = 90 \<and> lat = area_latitude area
            \<and> of_int (area_b area) < \<bar>metres_east area lat lon\<bar> \<and> \<bar>metres_east area lat lon\<bar> \<le> of_int (area_a area)
            \<longrightarrow> inside_area area_type area lat lon \<and> f < 0)
    else gn_geometric_function_f area_type area lat lon = Inl ZeroDivisionError"
proof (cases "has_extent area_type area")
  case True
  obtain f where f: "gn_geometric_function_f area_type area lat lon = Inr f"
    "0 \<le> f \<longleftrightarrow> inside_area area_type (north_up area) lat lon"
    using geometric_function_inside [OF True assms(1)] by blast
  moreover have "inside_area area_type area lat lon \<and> f < 0"
    if "area_type \<notin> set circle_types" "area_angle area = 90" "lat = area_latitude area"
      "of_int (area_b area) < \<bar>metres_east area lat lon\<bar>" "\<bar>metres_east area lat lon\<bar> \<le> of_int (area_a area)"
    using turned_area_misjudged [OF assms(1) that(1,2) _ that(4,5) [unfolded that(3)]] True that(1,3) f(1)
    by (auto simp: has_extent_def)
  ultimately show ?thesis using True by (auto simp: inside_circle_north_up north_up_id)
next
  case False
  then show ?thesis using geometric_function_zero [OF assms(2,3) False assms(1)] by simp
qed

text \<open>A rectangle of 2000 m by 20 m that points east, and a point about 780 m east of its centre.\<close>

lemma geometric_decisions_witness:
  fixes area :: Area
  defines "area \<equiv> \<lparr>area_latitude = 0, area_longitude = 0, area_a = 1000, area_b = 10, area_angle = 90\<rparr>"
  shows "\<exists>f<0. gn_geometric_function_f GEOBROADCAST_RECT area 0 70000 = Inr f
    \<and> inside_area GEOBROADCAST_RECT area 0 70000"
proof -
  have "metres_east area 0 70000 = 44597 / 180 * pi"
    by (simp add: metres_east_def angle_of_def area_def)
  moreover note pi_ge_two pi_less_4
  ultimately show ?thesis
    using geometric_decisions [of GEOBROADCAST_RECT area 0 70000]
    by (auto simp: area_def has_extent_def is_area_type_def area_types)
qed

section \<open>The router\<close>

text \<open>
  C19: In every state a router can reach from its construction, through requests, packets,
  timers, beacons and position updates in any order: the sequence number fits; every entry of
  the location table holds a valid position of the station it is filed under (or the empty
  one), with a bounded duplicate list; a packet is in the contention buffer exactly while the
  timer that sends it runs; and every pending or timed location service has a counter within
  the permitted retransmissions, a buffer, and at most one timer, which is the recorded one.
\<close>

theorem router_invariant:
  assumes "reachable mib sign verify parse r"
  shows "r_mib r = mib \<and> 0 \<le> r_sequence_number r \<and> r_sequence_number r < 2 ^ 16 - 1
    \<and> (\<forall>a e. dict_get (r_location_table r) a = Some e \<longrightarrow>
        distinct (le_dpl_deque e) \<and> length (le_dpl_deque e) \<le> itsGnDPLLength mib
        \<and> valid_lpv (le_position_vector e)
        \<and> (le_position_vector e = default_LongPositionVector \<or> lpv_gn_addr (le_position_vector e) = a)
        \<and> (le_ls_pending e \<longrightarrow> dict_get (r_ls_retransmit_counters r) a \<noteq> None))
    \<and> (\<forall>k n. dict_get (r_cbf_buffer r) k = Some n
        \<longleftrightarrow> (\<exists>d p. dict_get (r_timers r) n = Some (d, CBF_TIMEOUT k p)))
    \<and> (\<forall>a c. dict_get (r_ls_retransmit_counters r) a = Some c
        \<longrightarrow> 0 \<le> c \<and> c \<le> max 0 (itsGnLocationServiceMaxRetrans mib)
          \<and> dict_get (r_ls_packet_buffers r) a \<noteq> None)
    \<and> (\<forall>n d a. dict_get (r_timers r) n = Some (d, LS_RETRANSMIT a)
        \<longrightarrow> dict_get (r_ls_timers r) a = Some n \<and> dict_get (r_ls_retransmit_counters r) a \<noteq> None)"
proof -
  have mib: "r_mib r = mib" by (rule reachable_mib [OF assms])
  have ok: "loct_ok mib (r_location_table r)" "sn_ok r" "cbf_ok r" "ls_counters_ok r" "ls_timers_ok r"
    "ls_pending_ok r" "ls_running_ok r"
    using reachable_ok [OF assms] by (simp_all add: router_ok_def mib)
  have table: "\<forall>a e. dict_get (r_location_table r) a = Some e \<longrightarrow>
        distinct (le_dpl_deque e) \<and> length (le_dpl_deque e) \<le> itsGnDPLLength mib
        \<and> valid_lpv (le_position_vector e)
        \<and> (le_position_vector e = default_LongPositionVector \<or> lpv_gn_addr (le_position_vector e) = a)
        \<and> (le_ls_pending e \<longrightarrow> dict_get (r_ls_retransmit_counters r) a \<noteq> None)"
    using loct_ok_get [OF ok(1)] ok(6) unfolding entry_ok_def dpl_ok_def ls_pending_ok_def by blast
  have counters: "\<forall>a c. dict_get (r_ls_retransmit_counters r) a = Some c
      \<longrightarrow> 0 \<le> c \<and> c \<le> max 0 (itsGnLocationServiceMaxRetrans mib)
        \<and> dict_get (r_ls_packet_buffers r) a \<noteq> None"
    using ok(4) mib unfolding ls_counters_ok_def by (metis option.distinct(1))
  have timers: "\<forall>n d a. dict_get (r_timers r) n = Some (d, LS_RETRANSMIT a)
      \<longrightarrow> dict_get (r_ls_timers r) a = Some n \<and> dict_get (r_ls_retransmit_counters r) a \<noteq> None"
    using ok(5,7) unfolding ls_timers_ok_def ls_running_ok_def by blast
  show ?thesis
    using mib ok(2,3) table counters timers unfolding sn_ok_def cbf_ok_def by blast
qed

lemma router_invariant_witness:
  "\<exists>r. reachable (station_mib 1) None None (\<lambda>_. Inr 0) r \<and> r_sequence_number r < 2 ^ 16 - 1
    \<and> station 1 = register_indication_callback (set_link_layer (\<lambda>_ _. Inr ()) r)"
proof -
  obtain r where r: "router_init (station_mib 1) None None 1700000000 = Inr r"
    "station 1 = register_indication_callback (set_link_layer (\<lambda>_ _. Inr ()) r)"
    using station_init by blast
  have "reachable (station_mib 1) None None (\<lambda>_. Inr 0) r" by (rule reachable.init [OF r(1)])
  then show ?thesis using router_invariant r(2) by blast
qed

end
