(* ===== verification/CamMessage.thy ===== *)
theory CamMessage
  imports PyValue PositionVector
begin

text \<open>
  The cooperative awareness message
  (\<open>src/flexstack/facilities/ca_basic_service/cam_transmission_management.py\<close>): the static
  vehicle data, the 16-bit generation time, and the message as a nested dictionary that is
  filled from the vehicle data and a position report of the receiver (GPSD TPV).
\<close>

section \<open>Vehicle data\<close>

record VehicleData =
  vd_station_id :: int
  vd_station_type :: int
  vd_drive_direction :: string
  vd_vehicle_length :: pyval
  vd_vehicle_width :: int
  vd_vehicle_role :: int
  vd_exterior_lights :: bytes
  vd_special_vehicle_data :: "pyval option"

definition default_vehicle_length :: pyval where
  "default_vehicle_length =
     PDict [(''vehicleLengthValue'', PInt 1023),
            (''vehicleLengthConfidenceIndication'', PStr ''unavailable'')]"

definition default_VehicleData :: VehicleData where
  "default_VehicleData =
     \<lparr>vd_station_id = 0, vd_station_type = 0, vd_drive_direction = ''unavailable'',
      vd_vehicle_length = default_vehicle_length, vd_vehicle_width = 62, vd_vehicle_role = 0,
      vd_exterior_lights = [0], vd_special_vehicle_data = None\<rparr>"

definition check_valid_station_id :: "VehicleData \<Rightarrow> unit result" where
  "check_valid_station_id d =
     (if vd_station_id d < 0 \<or> vd_station_id d > 4294967295 then Inl ValueError else Inr ())"

definition check_valid_station_type :: "VehicleData \<Rightarrow> unit result" where
  "check_valid_station_type d =
     (if vd_station_type d < 0 \<or> vd_station_type d > 15 then Inl ValueError else Inr ())"

definition check_valid_drive_direction :: "VehicleData \<Rightarrow> unit result" where
  "check_valid_drive_direction d =
     (if vd_drive_direction d \<notin> {''forward'', ''backward'', ''unavailable''}
      then Inl ValueError else Inr ())"

definition check_valid_vehicle_length :: "VehicleData \<Rightarrow> unit result" where
  "check_valid_vehicle_length d =
     rbind (py_item (vd_vehicle_length d) ''vehicleLengthValue'') (\<lambda>v.
     rbind (py_num v) (\<lambda>x. if x < 0 \<or> x > 1023 then Inl ValueError else Inr ()))"

definition check_valid_vehicle_width :: "VehicleData \<Rightarrow> unit result" where
  "check_valid_vehicle_width d =
     (if vd_vehicle_width d < 0 \<or> vd_vehicle_width d > 62 then Inl ValueError else Inr ())"

definition check_valid_vehicle_role :: "VehicleData \<Rightarrow> unit result" where
  "check_valid_vehicle_role d =
     (if vd_vehicle_role d < 0 \<or> vd_vehicle_role d > 15 then Inl ValueError else Inr ())"

definition check_valid_exterior_lights :: "VehicleData \<Rightarrow> unit result" where
  "check_valid_exterior_lights d =
     (if length (vd_exterior_lights d) < 1 then Inl ValueError else Inr ())"

definition vehicle_data_post_init :: "VehicleData \<Rightarrow> VehicleData result" where
  "vehicle_data_post_init d =
     rbind (check_valid_station_id d) (\<lambda>_.
     rbind (check_valid_station_type d) (\<lambda>_.
     rbind (check_valid_drive_direction d) (\<lambda>_.
     rbind (check_valid_vehicle_length d) (\<lambda>_.
     rbind (check_valid_vehicle_width d) (\<lambda>_.
     rbind (check_valid_vehicle_role d) (\<lambda>_.
     rbind (check_valid_exterior_lights d) (\<lambda>_. Inr d)))))))"

lemma vehicle_data_post_init_Inr:
  "vehicle_data_post_init d = Inr d' \<longleftrightarrow> d' = d
    \<and> 0 \<le> vd_station_id d \<and> vd_station_id d \<le> 4294967295
    \<and> 0 \<le> vd_station_type d \<and> vd_station_type d \<le> 15
    \<and> vd_drive_direction d \<in> {''forward'', ''backward'', ''unavailable''}
    \<and> (\<exists>v x. py_item (vd_vehicle_length d) ''vehicleLengthValue'' = Inr v \<and> py_num v = Inr x
        \<and> 0 \<le> x \<and> x \<le> 1023)
    \<and> 0 \<le> vd_vehicle_width d \<and> vd_vehicle_width d \<le> 62
    \<and> 0 \<le> vd_vehicle_role d \<and> vd_vehicle_role d \<le> 15
    \<and> vd_exterior_lights d \<noteq> []"
  by (auto simp: vehicle_data_post_init_def check_valid_station_id_def check_valid_station_type_def
      check_valid_drive_direction_def check_valid_vehicle_length_def check_valid_vehicle_width_def
      check_valid_vehicle_role_def check_valid_exterior_lights_def rbind_eq_Inr not_less Suc_le_eq)

section \<open>Generation time\<close>

text \<open>Milliseconds since 2004 modulo 65536. Comparisons are with another time.\<close>

record GenerationDeltaTime =
  msec :: int

definition gdt_from_timestamp :: "real \<Rightarrow> GenerationDeltaTime" where
  "gdt_from_timestamp utc_timestamp_in_seconds =
     \<lparr>msec = py_int (py_fmod (utc_timestamp_in_seconds * 1000 - of_int ITS_EPOCH_MS
        + of_int ELAPSED_MILLISECONDS) 65536)\<rparr>"

definition as_timestamp_in_certain_point :: "GenerationDeltaTime \<Rightarrow> int \<Rightarrow> int" where
  "as_timestamp_in_certain_point g utc_timestamp_in_millis =
     (let number_of_cycles = py_int (of_int (utc_timestamp_in_millis - ITS_EPOCH_MS
            + ELAPSED_MILLISECONDS) / 65536);
          transformed = msec g + 65536 * number_of_cycles + ITS_EPOCH_MS - ELAPSED_MILLISECONDS
      in if transformed \<le> utc_timestamp_in_millis then transformed
         else msec g + 65536 * (number_of_cycles - 1) + ITS_EPOCH_MS - ELAPSED_MILLISECONDS)"

definition gdt_gt :: "GenerationDeltaTime \<Rightarrow> GenerationDeltaTime \<Rightarrow> bool" where
  "gdt_gt a b \<longleftrightarrow> msec a > msec b"

definition gdt_lt :: "GenerationDeltaTime \<Rightarrow> GenerationDeltaTime \<Rightarrow> bool" where
  "gdt_lt a b \<longleftrightarrow> msec a < msec b"

definition gdt_ge :: "GenerationDeltaTime \<Rightarrow> GenerationDeltaTime \<Rightarrow> bool" where
  "gdt_ge a b \<longleftrightarrow> msec a \<ge> msec b"

definition gdt_le :: "GenerationDeltaTime \<Rightarrow> GenerationDeltaTime \<Rightarrow> bool" where
  "gdt_le a b \<longleftrightarrow> msec a \<le> msec b"

definition gdt_add :: "GenerationDeltaTime \<Rightarrow> GenerationDeltaTime \<Rightarrow> int" where
  "gdt_add a b = (msec a + msec b) mod 65536"

definition gdt_sub :: "GenerationDeltaTime \<Rightarrow> GenerationDeltaTime \<Rightarrow> int" where
  "gdt_sub a b = (let subs = msec a - msec b in if subs < 0 then subs + 65536 else subs)"

section \<open>The message\<close>

text \<open>A position report; every field may be missing, the numbers are floats.\<close>

record Report =
  rp_time :: "string option"
  rp_lat :: "real option"
  rp_lon :: "real option"
  rp_altHAE :: "real option"
  rp_epx :: "real option"
  rp_epy :: "real option"
  rp_epv :: "real option"
  rp_track :: "real option"
  rp_epd :: "real option"
  rp_speed :: "real option"

definition generate_white_cam :: pyval where
  "generate_white_cam = PDict
     [(''header'', PDict [(''protocolVersion'', PInt 2), (''messageId'', PInt 2), (''stationId'', PInt 0)]),
      (''cam'', PDict
        [(''generationDeltaTime'', PInt 0),
         (''camParameters'', PDict
           [(''basicContainer'', PDict
              [(''stationType'', PInt 0),
               (''referencePosition'', PDict
                 [(''latitude'', PInt 900000001),
                  (''longitude'', PInt 1800000001),
                  (''positionConfidenceEllipse'', PDict
                    [(''semiMajorAxisLength'', PInt 4095),
                     (''semiMinorAxisLength'', PInt 4095),
                     (''semiMajorAxisOrientation'', PInt 3601)]),
                  (''altitude'', PDict
                    [(''altitudeValue'', PInt 800001),
                     (''altitudeConfidence'', PStr ''unavailable'')])])]),
            (''highFrequencyContainer'', PTuple
              [PStr ''basicVehicleContainerHighFrequency'',
               PDict
                [(''heading'', PDict [(''headingValue'', PInt 3601), (''headingConfidence'', PInt 127)]),
                 (''speed'', PDict [(''speedValue'', PInt 16383), (''speedConfidence'', PInt 127)]),
                 (''driveDirection'', PStr ''unavailable''),
                 (''vehicleLength'', PDict
                   [(''vehicleLengthValue'', PInt 1023),
                    (''vehicleLengthConfidenceIndication'', PStr ''unavailable'')]),
                 (''vehicleWidth'', PInt 62),
                 (''longitudinalAcceleration'', PDict [(''value'', PInt 161), (''confidence'', PInt 102)]),
                 (''curvature'', PDict
                   [(''curvatureValue'', PInt 1023), (''curvatureConfidence'', PStr ''unavailable'')]),
                 (''curvatureCalculationMode'', PStr ''unavailable''),
                 (''yawRate'', PDict
                   [(''yawRateValue'', PInt 32767), (''yawRateConfidence'', PStr ''unavailable'')])]])])])]"

text \<open>The paths to the parts of the message.\<close>

abbreviation cam_params :: "py_step list" where
  "cam_params \<equiv> [Key ''cam'', Key ''camParameters'']"

abbreviation cam_basic :: "py_step list" where
  "cam_basic \<equiv> [Key ''cam'', Key ''camParameters'', Key ''basicContainer'']"

abbreviation cam_position :: "py_step list" where
  "cam_position \<equiv> [Key ''cam'', Key ''camParameters'', Key ''basicContainer'', Key ''referencePosition'']"

abbreviation cam_hf :: "py_step list" where
  "cam_hf \<equiv> [Key ''cam'', Key ''camParameters'', Key ''highFrequencyContainer'', Idx 1]"

definition fullfill_with_vehicle_data :: "VehicleData \<Rightarrow> pyval \<Rightarrow> pyval result" where
  "fullfill_with_vehicle_data d cam =
     rbind (py_set [Key ''header'', Key ''stationId''] (PInt (vd_station_id d)) cam) (\<lambda>cam.
     rbind (py_set (cam_basic @ [Key ''stationType'']) (PInt (vd_station_type d)) cam) (\<lambda>cam.
     rbind (py_set (cam_hf @ [Key ''driveDirection'']) (PStr (vd_drive_direction d)) cam) (\<lambda>cam.
     rbind (py_set (cam_hf @ [Key ''vehicleLength'']) (vd_vehicle_length d) cam) (\<lambda>cam.
     py_set (cam_hf @ [Key ''vehicleWidth'']) (PInt (vd_vehicle_width d)) cam))))"

text \<open>\<open>if "k" in tpv: f(tpv["k"])\<close>.\<close>

definition when_some :: "'a option \<Rightarrow> ('a \<Rightarrow> pyval \<Rightarrow> pyval result) \<Rightarrow> pyval \<Rightarrow> pyval result" where
  "when_some x f v = (case x of None \<Rightarrow> Inr v | Some y \<Rightarrow> f y v)"

lemma when_some_simps [simp]: "when_some None f v = Inr v" "when_some (Some y) f v = f y v"
  by (simp_all add: when_some_def)

definition fullfill_gen_delta_time_with_tpv_data ::
    "(string \<Rightarrow> real result) \<Rightarrow> Report \<Rightarrow> pyval \<Rightarrow> pyval result" where
  "fullfill_gen_delta_time_with_tpv_data parse tpv =
     when_some (rp_time tpv) (\<lambda>time cam.
       rbind (parse time) (\<lambda>timestamp.
       py_set [Key ''cam'', Key ''generationDeltaTime''] (PInt (msec (gdt_from_timestamp timestamp))) cam))"

definition create_position_confidence :: "real \<Rightarrow> real \<Rightarrow> pyval" where
  "create_position_confidence epx epy =
     (if epy \<ge> epx
      then PDict [(''semiMajorAxisLength'', PInt (py_int (epy * 100))),
                  (''semiMinorAxisLength'', PInt (py_int (epx * 100))),
                  (''semiMajorAxisOrientation'', PInt 0)]
      else PDict [(''semiMajorAxisLength'', PInt (py_int (epx * 100))),
                  (''semiMinorAxisLength'', PInt (py_int (epy * 100))),
                  (''semiMajorAxisOrientation'', PInt 0)])"

text \<open>The keys of the table in ascending order; the last one is infinity.\<close>

definition altitude_confidence_map :: "(real option \<times> string) list" where
  "altitude_confidence_map =
     [(Some (1 / 100), ''alt-000-01''), (Some (2 / 100), ''alt-000-02''),
      (Some (5 / 100), ''alt-000-05''), (Some (1 / 10), ''alt-000-10''),
      (Some (2 / 10), ''alt-000-20''), (Some (5 / 10), ''alt-000-50''), (Some 1, ''alt-001-00''),
      (Some 2, ''alt-002-00''), (Some 5, ''alt-005-00''), (Some 10, ''alt-010-00''),
      (Some 20, ''alt-020-00''), (Some 50, ''alt-050-00''), (Some 100, ''alt-100-00''),
      (Some 200, ''alt-200-00''), (None, ''outOfRange'')]"

fun confidence_below :: "real \<Rightarrow> (real option \<times> string) list \<Rightarrow> string" where
  "confidence_below epv [] = ''unavailable''"
| "confidence_below epv ((limit, name) # rest) =
     (if (case limit of None \<Rightarrow> True | Some l \<Rightarrow> epv < l) then name else confidence_below epv rest)"

definition create_altitude_confidence :: "real \<Rightarrow> string" where
  "create_altitude_confidence epv = confidence_below epv altitude_confidence_map"

definition create_heading_confidence :: "real \<Rightarrow> int" where
  "create_heading_confidence epd = (if epd \<le> 25 / 2 then py_int (epd * 10) else 126)"

definition altitude_value :: "real \<Rightarrow> int" where
  "altitude_value altHAE =
     (let alt = py_int (altHAE * 100)
      in if alt < -800000 then -100000 else if alt > 613000 then 800000
         else py_int (altHAE * 100))"

definition speed_value :: "real \<Rightarrow> int" where
  "speed_value speed =
     (if py_int (speed * 100) > 16381 then 16382 else py_int (speed * 100))"

definition fullfill_basic_container_with_tpv_data :: "Report \<Rightarrow> pyval \<Rightarrow> pyval result" where
  "fullfill_basic_container_with_tpv_data tpv cam =
     rbind (when_some (rp_lat tpv)
       (\<lambda>lat. py_set (cam_position @ [Key ''latitude'']) (PInt (py_int (lat * 10000000)))) cam) (\<lambda>cam.
     rbind (when_some (rp_lon tpv)
       (\<lambda>lon. py_set (cam_position @ [Key ''longitude'']) (PInt (py_int (lon * 10000000)))) cam) (\<lambda>cam.
     rbind (case (rp_epx tpv, rp_epy tpv) of
         (Some epx, Some epy) \<Rightarrow> py_set (cam_position @ [Key ''positionConfidenceEllipse''])
           (create_position_confidence epx epy) cam
       | _ \<Rightarrow> Inr cam) (\<lambda>cam.
     rbind (when_some (rp_altHAE tpv)
       (\<lambda>alt. py_set (cam_position @ [Key ''altitude'', Key ''altitudeValue''])
         (PInt (altitude_value alt))) cam) (\<lambda>cam.
     when_some (rp_epv tpv)
       (\<lambda>epv. py_set (cam_position @ [Key ''altitude'', Key ''altitudeConfidence''])
         (PStr (create_altitude_confidence epv))) cam))))"

definition fullfill_high_frequency_container_with_tpv_data :: "Report \<Rightarrow> pyval \<Rightarrow> pyval result" where
  "fullfill_high_frequency_container_with_tpv_data tpv cam =
     rbind (when_some (rp_track tpv)
       (\<lambda>track. py_set (cam_hf @ [Key ''heading'', Key ''headingValue''])
         (PInt (py_int (track * 10)))) cam) (\<lambda>cam.
     rbind (when_some (rp_epd tpv)
       (\<lambda>epd. py_set (cam_hf @ [Key ''heading'', Key ''headingConfidence''])
         (PInt (create_heading_confidence epd))) cam) (\<lambda>cam.
     when_some (rp_speed tpv)
       (\<lambda>speed. py_set (cam_hf @ [Key ''speed'', Key ''speedValue''])
         (PInt (speed_value speed))) cam))"

definition fullfill_with_tpv_data ::
    "(string \<Rightarrow> real result) \<Rightarrow> Report \<Rightarrow> pyval \<Rightarrow> pyval result" where
  "fullfill_with_tpv_data parse tpv cam =
     rbind (fullfill_gen_delta_time_with_tpv_data parse tpv cam) (\<lambda>cam.
     rbind (fullfill_basic_container_with_tpv_data tpv cam) (\<lambda>cam.
     fullfill_high_frequency_container_with_tpv_data tpv cam))"

section \<open>The filled message\<close>

text \<open>The value of an optional field of the report, or the default of the white message.\<close>

definition field_or :: "'b \<Rightarrow> ('a \<Rightarrow> 'b) \<Rightarrow> 'a option \<Rightarrow> 'b" where
  "field_or w f x = (case x of None \<Rightarrow> w | Some y \<Rightarrow> f y)"

lemma field_or_simps [simp]: "field_or w f None = w" "field_or w f (Some y) = f y"
  by (simp_all add: field_or_def)

definition position_dict :: "pyval \<Rightarrow> pyval \<Rightarrow> pyval \<Rightarrow> pyval \<Rightarrow> pyval \<Rightarrow> pyval" where
  "position_dict lat lon ellipse alt conf = PDict
     [(''latitude'', lat), (''longitude'', lon), (''positionConfidenceEllipse'', ellipse),
      (''altitude'', PDict [(''altitudeValue'', alt), (''altitudeConfidence'', conf)])]"

definition ellipse_of :: "Report \<Rightarrow> pyval" where
  "ellipse_of tpv = (case (rp_epx tpv, rp_epy tpv) of
       (Some epx, Some epy) \<Rightarrow> create_position_confidence epx epy
     | _ \<Rightarrow> PDict [(''semiMajorAxisLength'', PInt 4095), (''semiMinorAxisLength'', PInt 4095),
              (''semiMajorAxisOrientation'', PInt 3601)])"

definition reference_position :: "Report \<Rightarrow> pyval" where
  "reference_position tpv = position_dict
     (PInt (field_or 900000001 (\<lambda>x. py_int (x * 10000000)) (rp_lat tpv)))
     (PInt (field_or 1800000001 (\<lambda>x. py_int (x * 10000000)) (rp_lon tpv)))
     (ellipse_of tpv)
     (PInt (field_or 800001 altitude_value (rp_altHAE tpv)))
     (PStr (field_or ''unavailable'' create_altitude_confidence (rp_epv tpv)))"

definition hf_dict :: "VehicleData \<Rightarrow> pyval \<Rightarrow> pyval \<Rightarrow> pyval \<Rightarrow> pyval" where
  "hf_dict d heading conf speed = PDict
     [(''heading'', PDict [(''headingValue'', heading), (''headingConfidence'', conf)]),
      (''speed'', PDict [(''speedValue'', speed), (''speedConfidence'', PInt 127)]),
      (''driveDirection'', PStr (vd_drive_direction d)),
      (''vehicleLength'', vd_vehicle_length d),
      (''vehicleWidth'', PInt (vd_vehicle_width d)),
      (''longitudinalAcceleration'', PDict [(''value'', PInt 161), (''confidence'', PInt 102)]),
      (''curvature'', PDict
        [(''curvatureValue'', PInt 1023), (''curvatureConfidence'', PStr ''unavailable'')]),
      (''curvatureCalculationMode'', PStr ''unavailable''),
      (''yawRate'', PDict
        [(''yawRateValue'', PInt 32767), (''yawRateConfidence'', PStr ''unavailable'')])]"

definition high_frequency :: "VehicleData \<Rightarrow> Report \<Rightarrow> pyval" where
  "high_frequency d tpv = hf_dict d
     (PInt (field_or 3601 (\<lambda>x. py_int (x * 10)) (rp_track tpv)))
     (PInt (field_or 127 create_heading_confidence (rp_epd tpv)))
     (PInt (field_or 16383 speed_value (rp_speed tpv)))"

text \<open>The message with its reference position, motion and further containers.\<close>

definition cam_dict :: "VehicleData \<Rightarrow> int \<Rightarrow> pyval \<Rightarrow> pyval \<Rightarrow> (string \<times> pyval) list \<Rightarrow> pyval" where
  "cam_dict d gdt pos hf containers = PDict
     [(''header'', PDict
        [(''protocolVersion'', PInt 2), (''messageId'', PInt 2), (''stationId'', PInt (vd_station_id d))]),
      (''cam'', PDict
        [(''generationDeltaTime'', PInt gdt),
         (''camParameters'', PDict
           ([(''basicContainer'', PDict
               [(''stationType'', PInt (vd_station_type d)), (''referencePosition'', pos)]),
             (''highFrequencyContainer'', PTuple [PStr ''basicVehicleContainerHighFrequency'', hf])]
            @ containers))])]"

definition cam_message :: "VehicleData \<Rightarrow> int \<Rightarrow> Report \<Rightarrow> (string \<times> pyval) list \<Rightarrow> pyval" where
  "cam_message d gdt tpv containers =
     cam_dict d gdt (reference_position tpv) (high_frequency d tpv) containers"

definition gdt_of :: "(string \<Rightarrow> real result) \<Rightarrow> Report \<Rightarrow> int result" where
  "gdt_of parse tpv = (case rp_time tpv of None \<Rightarrow> Inr 0
     | Some time \<Rightarrow> rbind (parse time) (\<lambda>t. Inr (msec (gdt_from_timestamp t))))"

definition no_report :: Report where
  "no_report = \<lparr>rp_time = None, rp_lat = None, rp_lon = None, rp_altHAE = None, rp_epx = None,
     rp_epy = None, rp_epv = None, rp_track = None, rp_epd = None, rp_speed = None\<rparr>"

text \<open>Writing into the parts of the message.\<close>

lemma set_position:
  "py_set (cam_position @ [Key k]) w (cam_dict d g pos hf cs)
    = rbind (py_set [Key k] w pos) (\<lambda>pos. Inr (cam_dict d g pos hf cs))"
  "py_set (cam_position @ [Key k, Key k']) w (cam_dict d g pos hf cs)
    = rbind (py_set [Key k, Key k'] w pos) (\<lambda>pos. Inr (cam_dict d g pos hf cs))"
  by (simp_all add: cam_dict_def rbind_assoc)

lemma set_hf:
  "py_set (cam_hf @ [Key k, Key k']) w (cam_dict d g pos hf cs)
    = rbind (py_set [Key k, Key k'] w hf) (\<lambda>hf. Inr (cam_dict d g pos hf cs))"
  by (simp add: cam_dict_def rbind_assoc)

lemma set_position_dict:
  "py_set [Key ''latitude''] w (position_dict lat lon ell alt conf) = Inr (position_dict w lon ell alt conf)"
  "py_set [Key ''longitude''] w (position_dict lat lon ell alt conf) = Inr (position_dict lat w ell alt conf)"
  "py_set [Key ''positionConfidenceEllipse''] w (position_dict lat lon ell alt conf)
    = Inr (position_dict lat lon w alt conf)"
  "py_set [Key ''altitude'', Key ''altitudeValue''] w (position_dict lat lon ell alt conf)
    = Inr (position_dict lat lon ell w conf)"
  "py_set [Key ''altitude'', Key ''altitudeConfidence''] w (position_dict lat lon ell alt conf)
    = Inr (position_dict lat lon ell alt w)"
  by (simp_all add: position_dict_def)

lemma set_hf_dict:
  "py_set [Key ''heading'', Key ''headingValue''] w (hf_dict d heading conf speed) = Inr (hf_dict d w conf speed)"
  "py_set [Key ''heading'', Key ''headingConfidence''] w (hf_dict d heading conf speed) = Inr (hf_dict d heading w speed)"
  "py_set [Key ''speed'', Key ''speedValue''] w (hf_dict d heading conf speed) = Inr (hf_dict d heading conf w)"
  by (simp_all add: hf_dict_def)

lemma set_container:
  "py_set [Key ''cam'', Key ''camParameters'', Key k] w (cam_dict d g pos hf cs) = Inr (cam_dict d g pos hf (AList.update k w cs))"
  if "k \<noteq> ''basicContainer''" "k \<noteq> ''highFrequencyContainer''"
  using that by (simp add: cam_dict_def)

text \<open>An optional field is written, or stays at the default of the white message.\<close>

lemma fullfill_vehicle:
  "fullfill_with_vehicle_data d generate_white_cam = Inr (cam_message d 0 no_report [])"
  by (simp add: fullfill_with_vehicle_data_def generate_white_cam_def cam_message_def cam_dict_def
      reference_position_def position_dict_def ellipse_of_def high_frequency_def hf_dict_def no_report_def)

lemma fullfill_time:
  "fullfill_gen_delta_time_with_tpv_data parse tpv (cam_dict d 0 pos hf cs)
    = rbind (gdt_of parse tpv) (\<lambda>g. Inr (cam_dict d g pos hf cs))"
  by (cases "rp_time tpv"; cases "parse (the (rp_time tpv))")
    (simp_all add: fullfill_gen_delta_time_with_tpv_data_def gdt_of_def cam_dict_def)

lemma when_some_position:
  "when_some x (\<lambda>y. py_set (cam_position @ [Key k]) (h y)) (cam_dict d g pos hf cs)
    = rbind (when_some x (\<lambda>y. py_set [Key k] (h y)) pos) (\<lambda>pos. Inr (cam_dict d g pos hf cs))"
  "when_some x (\<lambda>y. py_set (cam_position @ [Key k, Key k']) (h y)) (cam_dict d g pos hf cs)
    = rbind (when_some x (\<lambda>y. py_set [Key k, Key k'] (h y)) pos) (\<lambda>pos. Inr (cam_dict d g pos hf cs))"
  "when_some x (\<lambda>y. py_set (cam_hf @ [Key k, Key k']) (h y)) (cam_dict d g pos hf cs)
    = rbind (when_some x (\<lambda>y. py_set [Key k, Key k'] (h y)) hf) (\<lambda>hf. Inr (cam_dict d g pos hf cs))"
  by (cases x; simp only: when_some_simps set_position set_hf rbind_simps)+

lemma when_some_set:
  "when_some x (\<lambda>y. py_set [Key ''latitude''] (PInt (i y))) (position_dict (PInt n) lon ell alt conf)
    = Inr (position_dict (PInt (field_or n i x)) lon ell alt conf)"
  "when_some x (\<lambda>y. py_set [Key ''longitude''] (PInt (i y))) (position_dict lat (PInt n) ell alt conf)
    = Inr (position_dict lat (PInt (field_or n i x)) ell alt conf)"
  "when_some x (\<lambda>y. py_set [Key ''altitude'', Key ''altitudeValue''] (PInt (i y)))
      (position_dict lat lon ell (PInt n) conf)
    = Inr (position_dict lat lon ell (PInt (field_or n i x)) conf)"
  "when_some x (\<lambda>y. py_set [Key ''altitude'', Key ''altitudeConfidence''] (PStr (t y)))
      (position_dict lat lon ell alt (PStr s))
    = Inr (position_dict lat lon ell alt (PStr (field_or s t x)))"
  "when_some x (\<lambda>y. py_set [Key ''heading'', Key ''headingValue''] (PInt (i y)))
      (hf_dict d (PInt n) c v) = Inr (hf_dict d (PInt (field_or n i x)) c v)"
  "when_some x (\<lambda>y. py_set [Key ''heading'', Key ''headingConfidence''] (PInt (i y)))
      (hf_dict d u (PInt n) v) = Inr (hf_dict d u (PInt (field_or n i x)) v)"
  "when_some x (\<lambda>y. py_set [Key ''speed'', Key ''speedValue''] (PInt (i y)))
      (hf_dict d u c (PInt n)) = Inr (hf_dict d u c (PInt (field_or n i x)))"
  by (cases x; simp only: when_some_simps set_position_dict set_hf_dict field_or_simps)+

lemma fullfill_basic:
  "fullfill_basic_container_with_tpv_data tpv (cam_dict d g (reference_position no_report) hf cs)
    = Inr (cam_dict d g (reference_position tpv) hf cs)"
proof -
  have white: "reference_position no_report = position_dict (PInt 900000001) (PInt 1800000001)
      (PDict [(''semiMajorAxisLength'', PInt 4095), (''semiMinorAxisLength'', PInt 4095),
        (''semiMajorAxisOrientation'', PInt 3601)]) (PInt 800001) (PStr ''unavailable'')"
    by (simp add: reference_position_def no_report_def ellipse_of_def)
  have ellipse: "(case (rp_epx tpv, rp_epy tpv) of
        (Some epx, Some epy) \<Rightarrow> py_set (cam_position @ [Key ''positionConfidenceEllipse''])
           (create_position_confidence epx epy) (cam_dict d g (position_dict lat lon
             (PDict [(''semiMajorAxisLength'', PInt 4095), (''semiMinorAxisLength'', PInt 4095),
              (''semiMajorAxisOrientation'', PInt 3601)]) alt conf) hf cs)
      | _ \<Rightarrow> Inr (cam_dict d g (position_dict lat lon
             (PDict [(''semiMajorAxisLength'', PInt 4095), (''semiMinorAxisLength'', PInt 4095),
              (''semiMajorAxisOrientation'', PInt 3601)]) alt conf) hf cs))
      = Inr (cam_dict d g (position_dict lat lon (ellipse_of tpv) alt conf) hf cs)" for lat lon alt conf
    by (cases "rp_epx tpv"; cases "rp_epy tpv")
      (simp_all only: ellipse_of_def option.case prod.case set_position set_position_dict rbind_simps)
  show ?thesis
    unfolding fullfill_basic_container_with_tpv_data_def white
    by (simp only: when_some_position when_some_set rbind_simps ellipse reference_position_def)
qed

lemma fullfill_high_frequency:
  "fullfill_high_frequency_container_with_tpv_data tpv (cam_dict d g pos (high_frequency d no_report) cs)
    = Inr (cam_dict d g pos (high_frequency d tpv) cs)"
proof -
  have white: "high_frequency d no_report = hf_dict d (PInt 3601) (PInt 127) (PInt 16383)"
    by (simp add: high_frequency_def no_report_def)
  show ?thesis
    unfolding fullfill_high_frequency_container_with_tpv_data_def white
    by (simp only: when_some_position when_some_set rbind_simps high_frequency_def)
qed

text \<open>What \<open>_generate_and_send_cam\<close> starts from; only the parser of the time can fail.\<close>

lemma cam_filled:
  "rbind (fullfill_with_vehicle_data d generate_white_cam) (fullfill_with_tpv_data parse tpv)
    = rbind (gdt_of parse tpv) (\<lambda>g. Inr (cam_message d g tpv []))"
  by (cases "gdt_of parse tpv")
    (simp_all add: fullfill_vehicle fullfill_with_tpv_data_def cam_message_def fullfill_time
      fullfill_basic fullfill_high_frequency)

section \<open>Generation time\<close>

lemma py_fmod_of_int: "0 < m \<Longrightarrow> py_fmod (of_int n) (of_int m) = of_int (n mod m)"
  by (simp add: py_fmod_def floor_divide_of_int_eq minus_div_mult_eq_mod [symmetric] mult.commute)

lemma gdt_range: "0 \<le> msec (gdt_from_timestamp t)" "msec (gdt_from_timestamp t) < 65536"
proof -
  define x where "x = py_fmod (t * 1000 - of_int ITS_EPOCH_MS + of_int ELAPSED_MILLISECONDS) 65536"
  have "0 \<le> x" "x < 65536" unfolding x_def by (simp_all add: py_fmod_bounds)
  then show "0 \<le> msec (gdt_from_timestamp t)" "msec (gdt_from_timestamp t) < 65536"
    by (simp_all add: gdt_from_timestamp_def x_def [symmetric] py_int_def floor_less_iff)
qed

lemma gdt_of_ms:
  "msec (gdt_from_timestamp (of_int ms / 1000)) = (ms - ITS_EPOCH_MS + ELAPSED_MILLISECONDS) mod 65536"
  using py_fmod_of_int [of 65536 "ms - ITS_EPOCH_MS + ELAPSED_MILLISECONDS"]
  by (simp add: gdt_from_timestamp_def)

lemma py_int_div: "0 \<le> n \<Longrightarrow> py_int (of_int n / 65536) = n div 65536"
  using floor_divide_of_int_eq [of n 65536, where 'a = real] by (simp add: py_int_def)

text \<open>The time in a window of 65.5 seconds with a given remainder.\<close>

lemma div_at: "n - 65536 * q \<in> {0..<65536} \<Longrightarrow> n div 65536 = (q :: int)"
  using div_add1_eq [of "65536 * q" "n - 65536 * q" 65536] by simp

lemma window_unique:
  fixes t n :: int
  assumes "t \<le> n" "n < t + 65536"
  shows "t = (if t mod 65536 + 65536 * (n div 65536) \<le> n then t mod 65536 + 65536 * (n div 65536)
    else t mod 65536 + 65536 * (n div 65536 - 1))"
proof -
  define q r where "q = t div 65536" and "r = t mod 65536"
  have t: "t = 65536 * q + r" "0 \<le> r" "r < 65536" by (simp_all add: q_def r_def)
  show ?thesis
  proof (cases "n < 65536 * (q + 1)")
    case True
    then have "n - 65536 * q \<in> {0..<65536}" using assms(1) t by simp
    then have "n div 65536 = q" by (rule div_at)
    then show ?thesis using assms(1) t by (simp add: r_def [symmetric])
  next
    case False
    then have "n - 65536 * (q + 1) \<in> {0..<65536}" using assms(2) t by simp
    then have "n div 65536 = q + 1" by (rule div_at)
    then show ?thesis using assms(2) t by (simp add: r_def [symmetric])
  qed
qed

lemma generation_time_resolved:
  assumes "ITS_EPOCH_MS - ELAPSED_MILLISECONDS \<le> ms" "ms \<le> now" "now < ms + 65536"
  shows "as_timestamp_in_certain_point (gdt_from_timestamp (of_int ms / 1000)) now = ms"
proof -
  define off where "off = ITS_EPOCH_MS - ELAPSED_MILLISECONDS"
  define t n where "t = ms - off" and "n = now - off"
  have n: "0 \<le> n" "t \<le> n" "n < t + 65536" using assms by (simp_all add: t_def n_def off_def)
  have m: "msec (gdt_from_timestamp (of_int ms / 1000)) = t mod 65536"
    by (simp add: gdt_of_ms t_def off_def algebra_simps)
  have c: "py_int (of_int (now - ITS_EPOCH_MS + ELAPSED_MILLISECONDS) / 65536) = n div 65536"
    using py_int_div [OF n(1)] by (simp add: n_def off_def algebra_simps)
  have "as_timestamp_in_certain_point (gdt_from_timestamp (of_int ms / 1000)) now
      = (if t mod 65536 + 65536 * (n div 65536) \<le> n then t mod 65536 + 65536 * (n div 65536)
         else t mod 65536 + 65536 * (n div 65536 - 1)) + off"
    unfolding as_timestamp_in_certain_point_def m c Let_def by (simp add: n_def off_def)
  also have "\<dots> = t + off" using window_unique [OF n(2,3)] by simp
  finally show ?thesis by (simp add: t_def)
qed

text \<open>
  The 16-bit generation time of a message identifies when it was generated: read at any time
  in the following 65535 milliseconds, it gives back the exact millisecond.
\<close>

lemma generation_time_round_trip:
  assumes "ITS_EPOCH_MS - ELAPSED_MILLISECONDS \<le> ms" "ms \<le> now" "now < ms + 65536"
  shows "as_timestamp_in_certain_point (gdt_from_timestamp (of_int ms / 1000)) now = ms"
  using assms by (rule generation_time_resolved)

lemma generation_time_round_trip_witness:
  "as_timestamp_in_certain_point (gdt_from_timestamp (of_int 1700000000123 / 1000)) 1700000060000
    = 1700000000123"
  by (rule generation_time_round_trip) (simp_all add: ITS_EPOCH_MS_def ELAPSED_MILLISECONDS_def
      ITS_EPOCH_def ELAPSED_SECONDS_def)

section \<open>Ranges\<close>

text \<open>The limits of the integers in the message, from the ASN.1 types.\<close>

definition cam_limits :: "(py_step list \<times> int \<times> int) list" where
  "cam_limits =
     [(cam_position @ [Key ''latitude''], -900000000, 900000001),
      (cam_position @ [Key ''longitude''], -1800000000, 1800000001),
      (cam_position @ [Key ''positionConfidenceEllipse'', Key ''semiMajorAxisLength''], 0, 4095),
      (cam_position @ [Key ''positionConfidenceEllipse'', Key ''semiMinorAxisLength''], 0, 4095),
      (cam_position @ [Key ''altitude'', Key ''altitudeValue''], -100000, 800001),
      (cam_hf @ [Key ''heading'', Key ''headingValue''], 0, 3601),
      (cam_hf @ [Key ''heading'', Key ''headingConfidence''], 1, 127),
      (cam_hf @ [Key ''speed'', Key ''speedValue''], 0, 16383)]"

definition in_limits :: "pyval \<Rightarrow> py_step list \<times> int \<times> int \<Rightarrow> bool" where
  "in_limits cam l = (case py_path (fst l) cam of
     Inr (PInt n) \<Rightarrow> fst (snd l) \<le> n \<and> n \<le> snd (snd l) | _ \<Rightarrow> False)"

text \<open>
  The reports for which the message keeps its limits. Positions are cut to a ten-millionth of a degree,
  lengths to centimetres, angles to 0.1 degrees, towards zero.
\<close>

definition encodable_report :: "Report \<Rightarrow> bool" where
  "encodable_report tpv \<longleftrightarrow>
     field_or True (\<lambda>x. -900000001 < x * 10000000 \<and> x * 10000000 < 900000002) (rp_lat tpv)
     \<and> field_or True (\<lambda>x. -1800000001 < x * 10000000 \<and> x * 10000000 < 1800000002) (rp_lon tpv)
     \<and> field_or True (\<lambda>x. field_or True (\<lambda>y. -1 < x * 100 \<and> x * 100 < 4096 \<and> -1 < y * 100 \<and> y * 100 < 4096)
         (rp_epy tpv)) (rp_epx tpv)
     \<and> field_or True (\<lambda>x. x * 100 \<le> -800001 \<or> -100001 < x * 100) (rp_altHAE tpv)
     \<and> field_or True (\<lambda>x. -1 < x * 10 \<and> x * 10 < 3602) (rp_track tpv)
     \<and> field_or True (\<lambda>x. 1 \<le> x * 10) (rp_epd tpv)
     \<and> field_or True (\<lambda>x. -1 < x * 100) (rp_speed tpv)"

lemma py_int_ge: "n \<le> py_int x \<longleftrightarrow> (if n \<le> 0 then of_int n - 1 < x else of_int n \<le> x)"
  by (auto simp: py_int_def le_floor_iff le_ceiling_iff; linarith)

lemma py_int_le: "py_int x \<le> n \<longleftrightarrow> (if n < 0 then x \<le> of_int n else x < of_int n + 1)"
  by (auto simp: py_int_def floor_le_iff ceiling_le_iff; linarith)

lemma field_or_iff:
  "lo \<le> field_or w f x \<and> field_or w f x \<le> hi \<longleftrightarrow> field_or (lo \<le> w \<and> w \<le> hi) (\<lambda>y. lo \<le> f y \<and> f y \<le> hi) x"
  by (cases x) simp_all

lemma confidence_range: "1 \<le> create_heading_confidence e \<and> create_heading_confidence e \<le> 127 \<longleftrightarrow> 1 \<le> e * 10"
proof (cases "e \<le> 25 / 2")
  case True
  then have "e * 10 < 128" by simp
  then show ?thesis using True by (simp add: create_heading_confidence_def py_int_ge py_int_le)
next
  case False
  then show ?thesis by (simp add: create_heading_confidence_def)
qed

lemma altitude_range:
  "-100000 \<le> altitude_value a \<and> altitude_value a \<le> 800001 \<longleftrightarrow> a * 100 \<le> -800001 \<or> -100001 < a * 100"
proof -
  have low: "py_int (a * 100) < -800000 \<longleftrightarrow> a * 100 \<le> -800001"
    using py_int_le [of "a * 100" "-800001"] by auto
  have mid: "-100000 \<le> py_int (a * 100) \<longleftrightarrow> -100001 < a * 100"
    using py_int_ge [of "-100000" "a * 100"] by auto
  have high: "py_int (a * 100) > 613000 \<Longrightarrow> -100001 < a * 100" using mid by auto
  show ?thesis using low mid high by (auto simp: altitude_value_def Let_def)
qed

lemma speed_range: "0 \<le> speed_value v \<and> speed_value v \<le> 16383 \<longleftrightarrow> -1 < v * 100"
proof -
  have "0 \<le> py_int (v * 100) \<longleftrightarrow> -1 < v * 100" using py_int_ge [of 0 "v * 100"] by auto
  then show ?thesis by (auto simp: speed_value_def)
qed

lemma ellipse_range:
  "(\<exists>n m o'. ellipse_of tpv = PDict [(''semiMajorAxisLength'', PInt n), (''semiMinorAxisLength'', PInt m), o']
      \<and> 0 \<le> n \<and> n \<le> 4095 \<and> 0 \<le> m \<and> m \<le> 4095)
   \<longleftrightarrow> field_or True (\<lambda>x. field_or True (\<lambda>y. -1 < x * 100 \<and> x * 100 < 4096 \<and> -1 < y * 100 \<and> y * 100 < 4096)
         (rp_epy tpv)) (rp_epx tpv)"
  by (cases "rp_epx tpv"; cases "rp_epy tpv")
    (auto simp: ellipse_of_def create_position_confidence_def py_int_ge py_int_le)

lemma ellipse_shape:
  "\<exists>n m o'. ellipse_of tpv = PDict [(''semiMajorAxisLength'', PInt n), (''semiMinorAxisLength'', PInt m), o']"
  by (cases "rp_epx tpv"; cases "rp_epy tpv")
    (simp_all add: ellipse_of_def create_position_confidence_def)

text \<open>
  The integers in a message stay in the limits of their ASN.1 types, so that the encoder can
  take it, exactly for the reports of \<open>encodable_report\<close>. Reports outside are not all
  impossible: a position accuracy of 40.96 m or worse, a heading accuracy below 0.1 degrees and
  an altitude between -8000 and -1000 m each give a message that no encoder of the types accepts.
\<close>

lemma cam_message_limits:
  "list_all (in_limits (cam_message d g tpv cs)) cam_limits \<longleftrightarrow> encodable_report tpv"
proof -
  obtain n m o' where e: "ellipse_of tpv
    = PDict [(''semiMajorAxisLength'', PInt n), (''semiMinorAxisLength'', PInt m), o']"
    using ellipse_shape by blast
  let ?lat = "field_or 900000001 (\<lambda>x. py_int (x * 10000000)) (rp_lat tpv)"
  let ?lon = "field_or 1800000001 (\<lambda>x. py_int (x * 10000000)) (rp_lon tpv)"
  let ?alt = "field_or 800001 altitude_value (rp_altHAE tpv)"
  let ?head = "field_or 3601 (\<lambda>x. py_int (x * 10)) (rp_track tpv)"
  let ?conf = "field_or 127 create_heading_confidence (rp_epd tpv)"
  let ?speed = "field_or 16383 speed_value (rp_speed tpv)"
  have "list_all (in_limits (cam_message d g tpv cs)) cam_limits \<longleftrightarrow>
      (-900000000 \<le> ?lat \<and> ?lat \<le> 900000001) \<and> (-1800000000 \<le> ?lon \<and> ?lon \<le> 1800000001)
      \<and> (0 \<le> n \<and> n \<le> 4095) \<and> (0 \<le> m \<and> m \<le> 4095) \<and> (-100000 \<le> ?alt \<and> ?alt \<le> 800001)
      \<and> (0 \<le> ?head \<and> ?head \<le> 3601) \<and> (1 \<le> ?conf \<and> ?conf \<le> 127) \<and> (0 \<le> ?speed \<and> ?speed \<le> 16383)"
    by (simp add: cam_limits_def in_limits_def cam_message_def cam_dict_def reference_position_def
        position_dict_def e high_frequency_def hf_dict_def)
  also have "\<dots> \<longleftrightarrow> encodable_report tpv"
    using ellipse_range [of tpv]
    unfolding field_or_iff encodable_report_def confidence_range altitude_range speed_range e
    by (simp add: py_int_ge py_int_le) (auto simp: conj_ac)
  finally show ?thesis .
qed

end
