(* ===== verification/CamTransmission.thy ===== *)
theory CamTransmission
  imports CamMessage Sphere Btp
begin

text \<open>
  The CA basic service (\<open>src/flexstack/facilities/ca_basic_service/\<close>): the manager that decides
  at every tick of a 100 ms timer whether a message is due and sends it through the BTP router,
  and the reception of messages. The state of the manager contains the BTP router, whose
  GeoNetworking router has the clock that \<open>TimeService.time()\<close> reads. The ASN.1 codec
  (\<open>asn1tools\<close>), the parser of times (\<open>dateutil\<close>), the random numbers and the adapter of the
  local dynamic map are parameters.
\<close>

section \<open>Constants\<close>

definition T_GEN_CAM_MIN :: int where "T_GEN_CAM_MIN = 100"
definition T_GEN_CAM_MAX :: int where "T_GEN_CAM_MAX = 1000"
definition T_CHECK_CAM_GEN :: int where "T_CHECK_CAM_GEN = T_GEN_CAM_MIN"
definition T_GEN_CAM_DCC :: int where "T_GEN_CAM_DCC = T_GEN_CAM_MIN"
definition N_GEN_CAM_DEFAULT :: int where "N_GEN_CAM_DEFAULT = 3"
definition T_GEN_CAM_LF_MS :: int where "T_GEN_CAM_LF_MS = 500"
definition T_GEN_CAM_SPECIAL_MS :: int where "T_GEN_CAM_SPECIAL_MS = 500"
definition T_GEN_CAM_VLF_MS :: int where "T_GEN_CAM_VLF_MS = 10000"

definition TWO_WHEELER_STATION_TYPES :: "int list" where
  "TWO_WHEELER_STATION_TYPES = [2, 3, 4]"

definition VEHICLE_ROLE_NAMES :: "string list" where
  "VEHICLE_ROLE_NAMES =
     [''default'', ''publicTransport'', ''specialTransport'', ''dangerousGoods'', ''roadWork'',
      ''rescue'', ''emergency'', ''safetyCar'', ''agricultural'', ''commercial'', ''military'',
      ''roadOperator'', ''taxi'', ''reserved1'', ''reserved2'', ''reserved3'']"

lemmas cam_times =
  T_GEN_CAM_MIN_def T_GEN_CAM_MAX_def T_CHECK_CAM_GEN_def T_GEN_CAM_DCC_def N_GEN_CAM_DEFAULT_def
  T_GEN_CAM_LF_MS_def T_GEN_CAM_SPECIAL_MS_def T_GEN_CAM_VLF_MS_def

section \<open>The coder\<close>

text \<open>\<open>asn1tools\<close>: the encoder of a named type.\<close>

type_synonym asn1_encoder = "string \<Rightarrow> pyval \<Rightarrow> bytes result"

definition EXTENSION_CONTAINER_ID_TO_TYPE :: "(int, string) dict" where
  "EXTENSION_CONTAINER_ID_TO_TYPE =
     [(1, ''TwoWheelerContainer''), (2, ''EHorizonLocationSharingContainer''),
      (3, ''VeryLowFrequencyContainer''), (4, ''PathPredictionContainer''),
      (5, ''GeneralizedLanePositionsContainer''), (6, ''VehicleMovementControlContainer'')]"

definition cam_encode :: "asn1_encoder \<Rightarrow> pyval \<Rightarrow> bytes result" where
  "cam_encode asn1 cam = asn1 ''CAM'' cam"

definition encode_extension_container :: "asn1_encoder \<Rightarrow> int \<Rightarrow> pyval \<Rightarrow> bytes result" where
  "encode_extension_container asn1 container_id value =
     (case dict_get EXTENSION_CONTAINER_ID_TO_TYPE container_id of
        None \<Rightarrow> Inl ValueError
      | Some type_name \<Rightarrow> asn1 type_name value)"

definition decode_extension_container ::
    "(string \<Rightarrow> bytes \<Rightarrow> pyval result) \<Rightarrow> int \<Rightarrow> bytes \<Rightarrow> pyval result" where
  "decode_extension_container asn1 container_id data =
     (case dict_get EXTENSION_CONTAINER_ID_TO_TYPE container_id of
        None \<Rightarrow> Inl ValueError
      | Some type_name \<Rightarrow> asn1 type_name data)"

section \<open>State\<close>

record cam_manager =
  cm_btp_router :: btp_router
  cm_vehicle_data :: VehicleData
  cm_asn1 :: asn1_encoder
  cm_parse :: "string \<Rightarrow> real result"
  cm_ldm :: "(nat \<Rightarrow> pyval \<Rightarrow> unit result) option"
  cm_ldm_data :: "pyval list"
  cm_random :: "nat \<Rightarrow> real"
  cm_random_calls :: nat
  cm_t_gen_cam :: int
  cm_n_gen_cam_counter :: int
  cm_last_cam_time_ms :: "int option"
  cm_last_cam_heading :: "real option"
  cm_last_cam_lat :: "real option"
  cm_last_cam_lon :: "real option"
  cm_last_cam_speed :: "real option"
  cm_cam_count :: int
  cm_last_lf_time_ms :: "int option"
  cm_last_vlf_time_ms :: "int option"
  cm_last_special_time_ms :: "int option"
  cm_path_history :: "(real \<times> real \<times> int) list"
  cm_current_tpv :: "Report option"
  cm_active :: bool
  cm_timer :: "real option"
  cm_last_cam_generation_delta_time :: "GenerationDeltaTime option"

definition cam_manager_init ::
    "btp_router \<Rightarrow> VehicleData \<Rightarrow> asn1_encoder \<Rightarrow> (string \<Rightarrow> real result)
      \<Rightarrow> (nat \<Rightarrow> pyval \<Rightarrow> unit result) option \<Rightarrow> (nat \<Rightarrow> real) \<Rightarrow> cam_manager" where
  "cam_manager_init btp vehicle_data asn1 parse ldm random =
     \<lparr>cm_btp_router = btp, cm_vehicle_data = vehicle_data, cm_asn1 = asn1, cm_parse = parse,
      cm_ldm = ldm, cm_ldm_data = [], cm_random = random, cm_random_calls = 0,
      cm_t_gen_cam = T_GEN_CAM_MAX, cm_n_gen_cam_counter = 0, cm_last_cam_time_ms = None,
      cm_last_cam_heading = None, cm_last_cam_lat = None, cm_last_cam_lon = None,
      cm_last_cam_speed = None, cm_cam_count = 0, cm_last_lf_time_ms = None,
      cm_last_vlf_time_ms = None, cm_last_special_time_ms = None, cm_path_history = [],
      cm_current_tpv = None, cm_active = False, cm_timer = None,
      cm_last_cam_generation_delta_time = None\<rparr>"

text \<open>\<open>TimeService.time()\<close>, and the whole milliseconds of it.\<close>

definition cm_time :: "cam_manager \<Rightarrow> real" where
  "cm_time m = r_now (b_gn_router (cm_btp_router m))"

definition cm_now_ms :: "cam_manager \<Rightarrow> int" where
  "cm_now_ms m = py_int (cm_time m * 1000)"

section \<open>Lifecycle and timer\<close>

definition schedule_next_check :: "real option \<Rightarrow> (cam_manager, unit) prog" where
  "schedule_next_check delay_s =
     bind_s (gets_s cm_active) (\<lambda>active.
       if \<not> active then return_s ()
       else modify_s (\<lambda>m. m\<lparr>cm_timer := Some (cm_time m
              + (case delay_s of None \<Rightarrow> of_int T_CHECK_CAM_GEN / 1000 | Some d \<Rightarrow> d))\<rparr>))"

definition cam_start :: "(cam_manager, unit) prog" where
  "cam_start =
     bind_s (gets_s cm_active) (\<lambda>active.
       if active then return_s ()
       else
         then_s (modify_s (\<lambda>m. m\<lparr>cm_active := True, cm_cam_count := 0, cm_last_cam_time_ms := None,
             cm_last_cam_heading := None, cm_last_cam_lat := None, cm_last_cam_lon := None,
             cm_last_cam_speed := None, cm_last_lf_time_ms := None, cm_last_vlf_time_ms := None,
             cm_last_special_time_ms := None, cm_path_history := [],
             cm_t_gen_cam := T_GEN_CAM_MAX, cm_n_gen_cam_counter := 0\<rparr>))
         (bind_s (gets_s (\<lambda>m. cm_random m (cm_random_calls m))) (\<lambda>initial_delay_s.
          then_s (modify_s (\<lambda>m. m\<lparr>cm_random_calls := Suc (cm_random_calls m)\<rparr>))
            (schedule_next_check (Some initial_delay_s)))))"

definition cam_stop :: "(cam_manager, unit) prog" where
  "cam_stop = modify_s (\<lambda>m. m\<lparr>cm_active := False, cm_timer := None\<rparr>)"

definition cam_location_service_callback :: "Report \<Rightarrow> (cam_manager, unit) prog" where
  "cam_location_service_callback tpv = modify_s (\<lambda>m. m\<lparr>cm_current_tpv := Some tpv\<rparr>)"

section \<open>Conditions\<close>

definition check_dynamics :: "Report \<Rightarrow> cam_manager \<Rightarrow> bool" where
  "check_dynamics tpv m =
     (case cm_last_cam_heading m of
        None \<Rightarrow> True
      | Some last_heading \<Rightarrow>
          (case rp_track tpv of
             None \<Rightarrow> False
           | Some track \<Rightarrow>
               let diff = \<bar>track - last_heading\<bar>;
                   diff = (if diff > 180 then 360 - diff else diff)
               in diff > 4)
          \<or> (case (rp_lat tpv, rp_lon tpv, cm_last_cam_lat m, cm_last_cam_lon m) of
               (Some lat, Some lon, Some last_lat, Some last_lon) \<Rightarrow>
                 haversine_m last_lat last_lon lat lon > 4
             | _ \<Rightarrow> False)
          \<or> (case (rp_speed tpv, cm_last_cam_speed m) of
               (Some speed, Some last_speed) \<Rightarrow> \<bar>speed - last_speed\<bar> > 1 / 2
             | _ \<Rightarrow> False))"

text \<open>\<open>(now_ms - last) >= interval\<close>.\<close>

definition should_include_lf :: "int \<Rightarrow> cam_manager \<Rightarrow> bool" where
  "should_include_lf now_ms m =
     (if cm_cam_count m = 0 then True
      else case cm_last_lf_time_ms m of
             None \<Rightarrow> True | Some t \<Rightarrow> now_ms - t \<ge> T_GEN_CAM_LF_MS)"

definition should_include_special_vehicle :: "int \<Rightarrow> cam_manager \<Rightarrow> bool" where
  "should_include_special_vehicle now_ms m =
     (if vd_vehicle_role (cm_vehicle_data m) = 0 then False
      else if cm_cam_count m = 0 then True
      else case cm_last_special_time_ms m of
             None \<Rightarrow> True | Some t \<Rightarrow> now_ms - t \<ge> T_GEN_CAM_SPECIAL_MS)"

definition should_include_vlf :: "int \<Rightarrow> bool \<Rightarrow> bool \<Rightarrow> cam_manager \<Rightarrow> bool" where
  "should_include_vlf now_ms include_lf include_special m =
     (if cm_cam_count m = 1 then True
      else case cm_last_vlf_time_ms m of
             None \<Rightarrow> False
           | Some t \<Rightarrow> now_ms - t \<ge> T_GEN_CAM_VLF_MS \<and> \<not> include_lf \<and> \<not> include_special)"

definition should_include_two_wheeler :: "cam_manager \<Rightarrow> bool" where
  "should_include_two_wheeler m \<longleftrightarrow>
     vd_station_type (cm_vehicle_data m) \<in> set TWO_WHEELER_STATION_TYPES"

section \<open>The low-frequency container\<close>

text \<open>The loop over the stored positions, newest first, which stops at the first one too far away.\<close>

fun path_points :: "int \<Rightarrow> real \<Rightarrow> real \<Rightarrow> (real \<times> real \<times> int) list \<Rightarrow> nat \<Rightarrow> pyval list" where
  "path_points now_ms lat lon [] n = []"
| "path_points now_ms lat lon ((h_lat, h_lon, h_time_ms) # rest) n =
     (let delta_lat = py_round ((h_lat - lat) * 10000000);
          delta_lon = py_round ((h_lon - lon) * 10000000)
      in if \<not> (-131071 \<le> delta_lat \<and> delta_lat \<le> 131072) then []
         else if \<not> (-131071 \<le> delta_lon \<and> delta_lon \<le> 131072) then []
         else
           PDict [(''pathPosition'', PDict
                     [(''deltaLatitude'', PInt delta_lat), (''deltaLongitude'', PInt delta_lon),
                      (''deltaAltitude'', PInt 12800)]),
                  (''pathDeltaTime'', PInt (max 1 (min 65534
                     (py_round (of_int (now_ms - h_time_ms) / 10)))))]
           # (if Suc n \<ge> 23 then [] else path_points now_ms lat lon rest (Suc n)))"

definition get_path_history :: "Report \<Rightarrow> cam_manager \<Rightarrow> pyval" where
  "get_path_history tpv m =
     (case (rp_lat tpv, rp_lon tpv) of
        (Some lat, Some lon) \<Rightarrow> PList (path_points (cm_now_ms m) lat lon (rev (cm_path_history m)) 0)
      | _ \<Rightarrow> PList [])"

definition build_lf_container :: "Report \<Rightarrow> cam_manager \<Rightarrow> pyval" where
  "build_lf_container tpv m =
     (let role_idx = vd_vehicle_role (cm_vehicle_data m);
          role_name = (if 0 \<le> role_idx \<and> role_idx < int (length VEHICLE_ROLE_NAMES)
                       then VEHICLE_ROLE_NAMES ! nat role_idx else ''default'')
      in PDict
           [(''vehicleRole'', PStr role_name),
            (''exteriorLights'', PTuple [PBytes (vd_exterior_lights (cm_vehicle_data m)), PInt 8]),
            (''pathHistory'', get_path_history tpv m)])"

section \<open>Transmission\<close>

definition on_btp :: "(btp_router, 'a) prog \<Rightarrow> (cam_manager, 'a) prog" where
  "on_btp p m = (let (r, b) = p (cm_btp_router m) in (r, m\<lparr>cm_btp_router := b\<rparr>))"

text \<open>\<open>self.ca_basic_service_ldm.add_provider_data_to_ldm(cam)\<close>, when there is a map.\<close>

definition add_to_ldm :: "pyval \<Rightarrow> (cam_manager, unit) prog" where
  "add_to_ldm cam =
     bind_s (gets_s (\<lambda>m. m)) (\<lambda>m.
       case cm_ldm m of
         None \<Rightarrow> return_s ()
       | Some ldm \<Rightarrow>
           then_s (modify_s (\<lambda>m. m\<lparr>cm_ldm_data := cm_ldm_data m @ [cam]\<rparr>))
             (lift_s (ldm (length (cm_ldm_data m)) cam)))"

definition cam_btp_request :: "bytes \<Rightarrow> BTPDataRequest" where
  "cam_btp_request data = default_BTPDataRequest
     \<lparr>br_btp_type := BTP_B, br_destination_port := 2001,
      br_gn_packet_transport_type := default_PacketTransportType,
      br_communication_profile := CP_UNSPECIFIED, br_traffic_class := default_TrafficClass,
      br_gn_max_packet_lifetime := Some 1, br_security_profile := COOPERATIVE_AWARENESS_MESSAGE,
      br_its_aid := 36, br_data := data, br_length := int (length data)\<rparr>"

text \<open>The arguments of the closing log message, which are read from the dictionary.\<close>

definition cam_log_arguments :: "pyval \<Rightarrow> unit result" where
  "cam_log_arguments cam =
     rbind (py_path [Key ''cam'', Key ''generationDeltaTime''] cam) (\<lambda>_.
     rbind (py_path [Key ''header'', Key ''stationId''] cam) (\<lambda>_. Inr ()))"

definition send_cam :: "pyval \<Rightarrow> (cam_manager, unit) prog" where
  "send_cam cam =
     bind_s (gets_s cm_asn1) (\<lambda>asn1.
     bind_s (lift_s (cam_encode asn1 cam)) (\<lambda>data.
     then_s (on_btp (btp_data_request (cam_btp_request data)))
     (then_s (add_to_ldm cam)
       (lift_s (cam_log_arguments cam)))))"

text \<open>The parts of \<open>_update_send_state\<close>, in their order.\<close>

definition manage_t_gen_cam :: "int \<Rightarrow> int \<Rightarrow> cam_manager \<Rightarrow> cam_manager" where
  "manage_t_gen_cam elapsed_ms condition m =
     (if condition = 1
      then if cm_n_gen_cam_counter m + 1 \<ge> N_GEN_CAM_DEFAULT
           then m\<lparr>cm_t_gen_cam := T_GEN_CAM_MAX, cm_n_gen_cam_counter := 0\<rparr>
           else m\<lparr>cm_t_gen_cam := max T_GEN_CAM_MIN (min T_GEN_CAM_MAX elapsed_ms),
                  cm_n_gen_cam_counter := cm_n_gen_cam_counter m + 1\<rparr>
      else m\<lparr>cm_n_gen_cam_counter := 0, cm_t_gen_cam := T_GEN_CAM_MAX\<rparr>)"

definition remember_dynamics :: "Report \<Rightarrow> int \<Rightarrow> cam_manager \<Rightarrow> cam_manager" where
  "remember_dynamics tpv now_ms m =
     m\<lparr>cm_last_cam_time_ms := Some now_ms,
       cm_last_cam_heading := (if rp_track tpv \<noteq> None then rp_track tpv else cm_last_cam_heading m),
       cm_last_cam_lat := (if rp_lat tpv \<noteq> None \<and> rp_lon tpv \<noteq> None then rp_lat tpv else cm_last_cam_lat m),
       cm_last_cam_lon := (if rp_lat tpv \<noteq> None \<and> rp_lon tpv \<noteq> None then rp_lon tpv else cm_last_cam_lon m),
       cm_last_cam_speed := (if rp_speed tpv \<noteq> None then rp_speed tpv else cm_last_cam_speed m)\<rparr>"

definition remember_position :: "Report \<Rightarrow> int \<Rightarrow> cam_manager \<Rightarrow> cam_manager" where
  "remember_position tpv now_ms m =
     (case (rp_lat tpv, rp_lon tpv) of
        (Some lat, Some lon) \<Rightarrow>
          (let history = cm_path_history m @ [(lat, lon, now_ms)]
           in m\<lparr>cm_path_history := if length history > 40 then tl history else history\<rparr>)
      | _ \<Rightarrow> m)"

definition remember_containers :: "int \<Rightarrow> bool \<Rightarrow> bool \<Rightarrow> bool \<Rightarrow> cam_manager \<Rightarrow> cam_manager" where
  "remember_containers now_ms include_lf include_special include_vlf m =
     m\<lparr>cm_last_lf_time_ms := (if include_lf then Some now_ms else cm_last_lf_time_ms m),
       cm_last_special_time_ms := (if include_special then Some now_ms else cm_last_special_time_ms m),
       cm_last_vlf_time_ms := (if include_vlf then Some now_ms else cm_last_vlf_time_ms m),
       cm_cam_count := cm_cam_count m + 1,
       cm_last_cam_generation_delta_time := Some (gdt_from_timestamp (cm_time m))\<rparr>"

definition update_send_state ::
    "Report \<Rightarrow> int \<Rightarrow> int \<Rightarrow> int \<Rightarrow> bool \<Rightarrow> bool \<Rightarrow> bool \<Rightarrow> cam_manager \<Rightarrow> cam_manager" where
  "update_send_state tpv now_ms elapsed_ms condition include_lf include_special include_vlf m =
     remember_containers now_ms include_lf include_special include_vlf
       (remember_position tpv now_ms
         (remember_dynamics tpv now_ms (manage_t_gen_cam elapsed_ms condition m)))"

definition extension_containers :: "asn1_encoder \<Rightarrow> bool \<Rightarrow> bool \<Rightarrow> pyval list result" where
  "extension_containers asn1 include_two_wheeler include_vlf =
     rbind (if include_two_wheeler
            then rbind (encode_extension_container asn1 1 (PDict [])) (\<lambda>tw_bytes.
              Inr [PDict [(''containerId'', PInt 1), (''containerData'', PBytes tw_bytes)]])
            else Inr []) (\<lambda>two_wheeler.
     rbind (if include_vlf
            then rbind (encode_extension_container asn1 3 (PDict [])) (\<lambda>vlf_bytes.
              Inr [PDict [(''containerId'', PInt 3), (''containerData'', PBytes vlf_bytes)]])
            else Inr []) (\<lambda>vlf. Inr (two_wheeler @ vlf)))"

text \<open>The message that \<open>_generate_and_send_cam\<close> builds, or the exception that ends it.\<close>

definition build_cam :: "Report \<Rightarrow> bool \<Rightarrow> bool \<Rightarrow> bool \<Rightarrow> cam_manager \<Rightarrow> pyval result" where
  "build_cam tpv include_lf include_special include_vlf m =
     rbind (fullfill_with_vehicle_data (cm_vehicle_data m) generate_white_cam) (\<lambda>cam.
     rbind (fullfill_with_tpv_data (cm_parse m) tpv cam) (\<lambda>cam.
     rbind (if include_lf
            then py_set (cam_params @ [Key ''lowFrequencyContainer''])
              (PTuple [PStr ''basicVehicleContainerLowFrequency'', build_lf_container tpv m]) cam
            else Inr cam) (\<lambda>cam.
     rbind (case vd_special_vehicle_data (cm_vehicle_data m) of
              Some special \<Rightarrow>
                if include_special
                then py_set (cam_params @ [Key ''specialVehicleContainer'']) special cam else Inr cam
            | None \<Rightarrow> Inr cam) (\<lambda>cam.
     rbind (extension_containers (cm_asn1 m) (should_include_two_wheeler m) include_vlf) (\<lambda>containers.
     if containers = [] then Inr cam
     else py_set (cam_params @ [Key ''extensionContainers'']) (PList containers) cam)))))"

definition generate_and_send_cam :: "Report \<Rightarrow> int \<Rightarrow> int \<Rightarrow> (cam_manager, unit) prog" where
  "generate_and_send_cam tpv now_ms condition =
     bind_s (gets_s (\<lambda>m. m)) (\<lambda>m.
       let elapsed_ms = (case cm_last_cam_time_ms m of None \<Rightarrow> 0 | Some t \<Rightarrow> now_ms - t);
           include_lf = should_include_lf now_ms m;
           include_special = should_include_special_vehicle now_ms m;
           include_vlf = should_include_vlf now_ms include_lf include_special m
       in bind_s (lift_s (build_cam tpv include_lf include_special include_vlf m)) (\<lambda>cam.
          bind_s (catch_s (then_s (send_cam cam) (return_s True)) (\<lambda>e. return_s False)) (\<lambda>sent.
            if sent
            then modify_s (update_send_state tpv now_ms elapsed_ms condition
                   include_lf include_special include_vlf)
            else return_s ())))"

definition evaluate_and_maybe_send :: "(cam_manager, unit) prog" where
  "evaluate_and_maybe_send =
     bind_s (gets_s (\<lambda>m. m)) (\<lambda>m.
       case cm_current_tpv m of
         None \<Rightarrow> return_s ()
       | Some tpv \<Rightarrow>
           let now_ms = cm_now_ms m in
           (case cm_last_cam_time_ms m of
              None \<Rightarrow> generate_and_send_cam tpv now_ms 1
            | Some last_ms \<Rightarrow>
                let elapsed_ms = now_ms - last_ms in
                if elapsed_ms \<ge> T_GEN_CAM_DCC \<and> check_dynamics tpv m
                then generate_and_send_cam tpv now_ms 1
                else if elapsed_ms \<ge> cm_t_gen_cam m \<and> elapsed_ms \<ge> T_GEN_CAM_DCC
                then generate_and_send_cam tpv now_ms 2
                else return_s ()))"

text \<open>\<open>try: m finally: f\<close>.\<close>

definition finally_s :: "('s, 'a) prog \<Rightarrow> ('s, unit) prog \<Rightarrow> ('s, 'a) prog" where
  "finally_s m f s = (let (r, s1) = m s; (q, s2) = f s1
     in (case q of Inl e \<Rightarrow> (Inl e, s2) | Inr _ \<Rightarrow> (r, s2)))"

definition check_cam_conditions :: "(cam_manager, unit) prog" where
  "check_cam_conditions =
     bind_s (gets_s cm_active) (\<lambda>active.
       if \<not> active then return_s ()
       else finally_s evaluate_and_maybe_send (schedule_next_check None))"

text \<open>The timer's thread: at the deadline the timer is used up and calls back.\<close>

definition cam_timer_expires :: "(cam_manager, unit) prog" where
  "cam_timer_expires = then_s (modify_s (\<lambda>m. m\<lparr>cm_timer := None\<rparr>)) check_cam_conditions"

section \<open>Reception\<close>

record cam_receiver =
  cr_decode :: "bytes \<Rightarrow> pyval result"
  cr_ldm :: "(nat \<Rightarrow> pyval \<Rightarrow> unit result) option"
  cr_ldm_data :: "pyval list"
  cr_application_callbacks :: "(pyval \<Rightarrow> unit result) list"
  cr_callback_calls :: "(nat \<times> pyval) list"

text \<open>\<open>callback\<close> is \<open>self.reception_callback\<close> as the BTP router calls it.\<close>

definition cam_reception_init ::
    "btp_callback \<Rightarrow> (bytes \<Rightarrow> pyval result) \<Rightarrow> (nat \<Rightarrow> pyval \<Rightarrow> unit result) option
      \<Rightarrow> (btp_router, cam_receiver) prog" where
  "cam_reception_init callback decode ldm =
     then_s (register_indication_callback_btp 2001 callback)
       (return_s \<lparr>cr_decode = decode, cr_ldm = ldm, cr_ldm_data = [],
          cr_application_callbacks = [], cr_callback_calls = []\<rparr>)"

definition add_application_callback :: "(pyval \<Rightarrow> unit result) \<Rightarrow> (cam_receiver, unit) prog" where
  "add_application_callback callback =
     modify_s (\<lambda>c. c\<lparr>cr_application_callbacks := cr_application_callbacks c @ [callback]\<rparr>)"

text \<open>The generation time of a decoded message is an integer; any other value counts as a wrong type.\<close>

fun decoded_int :: "pyval \<Rightarrow> int result" where
  "decoded_int (PInt n) = Inr n"
| "decoded_int _ = Inl TypeError"

definition receiver_add_to_ldm :: "pyval \<Rightarrow> (cam_receiver, unit) prog" where
  "receiver_add_to_ldm cam =
     bind_s (gets_s (\<lambda>c. c)) (\<lambda>c.
       case cr_ldm c of
         None \<Rightarrow> return_s ()
       | Some ldm \<Rightarrow>
           then_s (modify_s (\<lambda>c. c\<lparr>cr_ldm_data := cr_ldm_data c @ [cam]\<rparr>))
             (lift_s (ldm (length (cr_ldm_data c)) cam)))"

text \<open>\<open>now\<close> is \<open>TimeService.time()\<close>. What a callback raises is logged and dropped.\<close>

definition call_application_callbacks :: "pyval \<Rightarrow> (cam_receiver, unit) prog" where
  "call_application_callbacks cam =
     bind_s (gets_s (\<lambda>c. enumerate 0 (cr_application_callbacks c))) (\<lambda>callbacks.
       for_each_s callbacks (\<lambda>(i, callback).
         then_s (modify_s (\<lambda>c. c\<lparr>cr_callback_calls := cr_callback_calls c @ [(i, cam)]\<rparr>))
           (catch_s (lift_s (callback cam)) (\<lambda>e. return_s ()))))"

definition reception_callback :: "real \<Rightarrow> BTPDataIndication \<Rightarrow> (cam_receiver, unit) prog" where
  "reception_callback now indication =
     bind_s (gets_s cr_decode) (\<lambda>decode.
       case decode (bi_data indication) of
         Inl e \<Rightarrow> return_s ()
       | Inr cam \<Rightarrow>
           bind_s (lift_s (rbind (py_path [Key ''cam'', Key ''generationDeltaTime''] cam) decoded_int)) (\<lambda>n.
           bind_s (lift_s (py_set [Key ''utc_timestamp'']
               (PInt (as_timestamp_in_certain_point \<lparr>msec = n\<rparr> (py_int (now * 1000)))) cam)) (\<lambda>cam.
           then_s (receiver_add_to_ldm cam)
           (then_s (call_application_callbacks cam)
             (lift_s (cam_log_arguments cam))))))"

section \<open>The service\<close>

text \<open>
  \<open>CooperativeAwarenessBasicService\<close> owns a manager and a receiver that share the BTP router;
  starting and stopping it is starting and stopping the manager.
\<close>

definition ca_basic_service ::
    "btp_callback \<Rightarrow> VehicleData \<Rightarrow> asn1_encoder \<Rightarrow> (bytes \<Rightarrow> pyval result)
      \<Rightarrow> (string \<Rightarrow> real result) \<Rightarrow> (nat \<Rightarrow> pyval \<Rightarrow> unit result) option \<Rightarrow> (nat \<Rightarrow> real)
      \<Rightarrow> btp_router \<Rightarrow> (cam_manager \<times> cam_receiver) result" where
  "ca_basic_service callback vehicle_data asn1 decode parse ldm random btp =
     (case cam_reception_init callback decode ldm btp of
        (Inl e, btp') \<Rightarrow> Inl e
      | (Inr receiver, btp') \<Rightarrow>
          Inr (cam_manager_init btp' vehicle_data asn1 parse ldm random, receiver))"

definition ca_start :: "(cam_manager, unit) prog" where "ca_start = cam_start"

definition ca_stop :: "(cam_manager, unit) prog" where "ca_stop = cam_stop"

end
