(* ===== verification/CamProps.thy ===== *)
theory CamProps
  imports CamTransmission
begin

text \<open>
  Properties of the CA basic service: the invariant of the manager, when it sends, what the
  messages contain, and a message on its way from one station to another.
\<close>

section \<open>One transmission\<close>

text \<open>The containers that are added to a message.\<close>

definition cam_containers :: "Report \<Rightarrow> bool \<Rightarrow> bool \<Rightarrow> pyval list \<Rightarrow> cam_manager \<Rightarrow> (string \<times> pyval) list" where
  "cam_containers tpv include_lf include_special extensions m =
     (if include_lf then [(''lowFrequencyContainer'',
        PTuple [PStr ''basicVehicleContainerLowFrequency'', build_lf_container tpv m])] else [])
     @ (case vd_special_vehicle_data (cm_vehicle_data m) of
          Some special \<Rightarrow> if include_special then [(''specialVehicleContainer'', special)] else []
        | None \<Rightarrow> [])
     @ (if extensions = [] then [] else [(''extensionContainers'', PList extensions)])"

lemma build_cam_eq:
  "build_cam tpv lf special vlf m =
     rbind (gdt_of (cm_parse m) tpv) (\<lambda>g.
     rbind (extension_containers (cm_asn1 m) (should_include_two_wheeler m) vlf) (\<lambda>extensions.
     Inr (cam_message (cm_vehicle_data m) g tpv (cam_containers tpv lf special extensions m))))"
proof -
  have start: "rbind (fullfill_with_vehicle_data d generate_white_cam) (\<lambda>cam.
      rbind (fullfill_with_tpv_data parse tpv cam) f)
    = rbind (gdt_of parse tpv) (\<lambda>g. f (cam_message d g tpv []))" for d parse f
    by (simp add: rbind_assoc [symmetric] cam_filled) (simp add: rbind_assoc)
  show ?thesis
    unfolding build_cam_def start
    by (cases "gdt_of (cm_parse m) tpv";
        cases "extension_containers (cm_asn1 m) (should_include_two_wheeler m) vlf";
        cases "vd_special_vehicle_data (cm_vehicle_data m)")
      (simp_all add: cam_containers_def cam_message_def set_container)
qed

lemma on_btp_run: "on_btp p m = (fst (p (cm_btp_router m)), m\<lparr>cm_btp_router := snd (p (cm_btp_router m))\<rparr>)"
  by (simp add: on_btp_def Let_def split_beta)

text \<open>A request leaves the stack's configuration and clock alone and only adds packets on the air.\<close>

definition stack_grows :: "btp_router \<Rightarrow> btp_router \<Rightarrow> bool" where
  "stack_grows b b' \<longleftrightarrow> quiet (b_gn_router b) (b_gn_router b')"

interpretation stack: step_rel stack_grows
  using quiet.R_refl quiet.R_trans by unfold_locales (auto simp: stack_grows_def)

lemma stack_request: "obeys stack_grows (btp_data_request request)"
proof -
  have "obeys stack_grows (on_gn_router (gn_data_request q))" for q
    using obeysD [OF quiet_request]
    by (intro obeysI) (auto simp: stack_grows_def on_gn_router_def split: prod.splits)
  then show ?thesis
    unfolding btp_data_request_def
    by (intro stack.obeys_if stack.obeys_bind stack.obeys_then stack.obeys_pure)
qed

text \<open>Sending touches the router and the local dynamic map, nothing else of the manager.\<close>

definition sending :: "cam_manager \<Rightarrow> cam_manager \<Rightarrow> bool" where
  "sending m m' \<longleftrightarrow>
     m'\<lparr>cm_btp_router := cm_btp_router m, cm_ldm_data := cm_ldm_data m\<rparr> = m
     \<and> stack_grows (cm_btp_router m) (cm_btp_router m')"

interpretation sending: step_rel sending
proof unfold_locales
  show "sending m m" for m by (simp add: sending_def stack.R_refl)
  show "sending m u" if "sending m t" "sending t u" for m t u
  proof -
    have "u\<lparr>cm_btp_router := cm_btp_router m, cm_ldm_data := cm_ldm_data m\<rparr>
        = (u\<lparr>cm_btp_router := cm_btp_router t, cm_ldm_data := cm_ldm_data t\<rparr>)
            \<lparr>cm_btp_router := cm_btp_router m, cm_ldm_data := cm_ldm_data m\<rparr>" by simp
    then show ?thesis using that stack.R_trans unfolding sending_def by metis
  qed
qed

lemma sending_btp: "obeys sending (on_btp (btp_data_request q))"
proof (rule obeysI)
  fix m r m'
  assume run: "on_btp (btp_data_request q) m = (r, m')"
  then have m': "m' = m\<lparr>cm_btp_router := snd (btp_data_request q (cm_btp_router m))\<rparr>"
    by (simp add: on_btp_run)
  have "stack_grows (cm_btp_router m) (snd (btp_data_request q (cm_btp_router m)))"
    using obeysD [OF stack_request] surjective_pairing by blast
  then show "sending m m'" by (simp add: sending_def m')
qed

lemma sending_ldm: "obeys sending (add_to_ldm cam)"
proof (rule obeysI)
  fix m r m'
  assume run: "add_to_ldm cam m = (r, m')"
  show "sending m m'"
  proof (cases "cm_ldm m")
    case None
    then show ?thesis using run by (simp add: add_to_ldm_def sending.R_refl)
  next
    case (Some ldm)
    then have "m' = m\<lparr>cm_ldm_data := cm_ldm_data m @ [cam]\<rparr>" using run by (simp add: add_to_ldm_def)
    then show ?thesis by (simp add: sending_def stack.R_refl)
  qed
qed

lemma sending_cam: "obeys sending (send_cam cam)"
  unfolding send_cam_def
  by (intro sending.obeys_bind sending.obeys_then sending.obeys_pure sending_btp sending_ldm)

lemma sending_fields:
  assumes "sending m m'"
  shows "cm_active m' = cm_active m" "cm_timer m' = cm_timer m"
    "cm_t_gen_cam m' = cm_t_gen_cam m" "cm_n_gen_cam_counter m' = cm_n_gen_cam_counter m"
    "cm_path_history m' = cm_path_history m" "cm_cam_count m' = cm_cam_count m"
    "cm_last_cam_time_ms m' = cm_last_cam_time_ms m" "cm_current_tpv m' = cm_current_tpv m"
    "cm_vehicle_data m' = cm_vehicle_data m"
proof -
  have m: "m'\<lparr>cm_btp_router := cm_btp_router m, cm_ldm_data := cm_ldm_data m\<rparr> = m"
    using assms by (simp add: sending_def)
  show "cm_active m' = cm_active m" using arg_cong [OF m, of cm_active] by simp
  show "cm_timer m' = cm_timer m" using arg_cong [OF m, of cm_timer] by simp
  show "cm_t_gen_cam m' = cm_t_gen_cam m" using arg_cong [OF m, of cm_t_gen_cam] by simp
  show "cm_n_gen_cam_counter m' = cm_n_gen_cam_counter m"
    using arg_cong [OF m, of cm_n_gen_cam_counter] by simp
  show "cm_path_history m' = cm_path_history m" using arg_cong [OF m, of cm_path_history] by simp
  show "cm_cam_count m' = cm_cam_count m" using arg_cong [OF m, of cm_cam_count] by simp
  show "cm_last_cam_time_ms m' = cm_last_cam_time_ms m"
    using arg_cong [OF m, of cm_last_cam_time_ms] by simp
  show "cm_current_tpv m' = cm_current_tpv m" using arg_cong [OF m, of cm_current_tpv] by simp
  show "cm_vehicle_data m' = cm_vehicle_data m" using arg_cong [OF m, of cm_vehicle_data] by simp
qed

lemma sending_time: "sending m m' \<Longrightarrow> cm_time m' = cm_time m"
  by (simp add: sending_def cm_time_def stack_grows_def quiet_def same_config_def)

lemma generate_run:
  "generate_and_send_cam tpv now_ms condition m =
    (let elapsed_ms = (case cm_last_cam_time_ms m of None \<Rightarrow> 0 | Some t \<Rightarrow> now_ms - t);
         lf = should_include_lf now_ms m; special = should_include_special_vehicle now_ms m;
         vlf = should_include_vlf now_ms lf special m
     in case build_cam tpv lf special vlf m of
          Inl e \<Rightarrow> (Inl e, m)
        | Inr cam \<Rightarrow>
            (case send_cam cam m of
               (Inl e, m') \<Rightarrow> (Inr (), m')
             | (Inr _, m') \<Rightarrow> (Inr (), update_send_state tpv now_ms elapsed_ms condition lf special vlf m')))"
proof -
  define lf special where "lf = should_include_lf now_ms m"
    and "special = should_include_special_vehicle now_ms m"
  define vlf where "vlf = should_include_vlf now_ms lf special m"
  obtain q m' where send: "send_cam (projr (build_cam tpv lf special vlf m)) m = (q, m')" by fastforce
  note folded = lf_def [symmetric] special_def [symmetric] vlf_def [symmetric]
  show ?thesis
  proof (cases "build_cam tpv lf special vlf m")
    case (Inl e)
    show ?thesis
      unfolding generate_and_send_cam_def run_gets_bind Let_def folded Inl by simp
  next
    case (Inr cam)
    then have send: "send_cam cam m = (q, m')" using send by simp
    show ?thesis
      unfolding generate_and_send_cam_def run_gets_bind Let_def folded Inr
      by (cases q) (simp_all add: bind_s_def then_s_def catch_s_def send)
  qed
qed

lemma manage_t_gen_cam_simps [simp]:
  "cm_t_gen_cam (manage_t_gen_cam elapsed_ms condition m) = (if condition = 1 \<and> cm_n_gen_cam_counter m + 1 < N_GEN_CAM_DEFAULT
     then max T_GEN_CAM_MIN (min T_GEN_CAM_MAX elapsed_ms) else T_GEN_CAM_MAX)"
  "cm_n_gen_cam_counter (manage_t_gen_cam elapsed_ms condition m) = (if condition = 1 \<and> cm_n_gen_cam_counter m + 1 < N_GEN_CAM_DEFAULT
     then cm_n_gen_cam_counter m + 1 else 0)"
  "cm_last_cam_time_ms (manage_t_gen_cam elapsed_ms condition m) = cm_last_cam_time_ms m"
  "cm_last_cam_heading (manage_t_gen_cam elapsed_ms condition m) = cm_last_cam_heading m"
  "cm_cam_count (manage_t_gen_cam elapsed_ms condition m) = cm_cam_count m"
  "cm_active (manage_t_gen_cam elapsed_ms condition m) = cm_active m"
  "cm_timer (manage_t_gen_cam elapsed_ms condition m) = cm_timer m"
  "cm_btp_router (manage_t_gen_cam elapsed_ms condition m) = cm_btp_router m"
  "cm_current_tpv (manage_t_gen_cam elapsed_ms condition m) = cm_current_tpv m"
  "cm_vehicle_data (manage_t_gen_cam elapsed_ms condition m) = cm_vehicle_data m"
  "cm_path_history (manage_t_gen_cam elapsed_ms condition m) = cm_path_history m"
  by (simp_all add: manage_t_gen_cam_def)

lemma remember_dynamics_simps [simp]:
  "cm_t_gen_cam (remember_dynamics tpv now_ms m) = cm_t_gen_cam m"
  "cm_n_gen_cam_counter (remember_dynamics tpv now_ms m) = cm_n_gen_cam_counter m"
  "cm_last_cam_time_ms (remember_dynamics tpv now_ms m) = Some now_ms"
  "cm_last_cam_heading (remember_dynamics tpv now_ms m) = (if rp_track tpv \<noteq> None then rp_track tpv else cm_last_cam_heading m)"
  "cm_cam_count (remember_dynamics tpv now_ms m) = cm_cam_count m"
  "cm_active (remember_dynamics tpv now_ms m) = cm_active m"
  "cm_timer (remember_dynamics tpv now_ms m) = cm_timer m"
  "cm_btp_router (remember_dynamics tpv now_ms m) = cm_btp_router m"
  "cm_current_tpv (remember_dynamics tpv now_ms m) = cm_current_tpv m"
  "cm_vehicle_data (remember_dynamics tpv now_ms m) = cm_vehicle_data m"
  "cm_path_history (remember_dynamics tpv now_ms m) = cm_path_history m"
  by (simp_all add: remember_dynamics_def)

text \<open>The stored positions, of which the oldest goes when there are more than 40.\<close>

definition extended_history :: "Report \<Rightarrow> int \<Rightarrow> (real \<times> real \<times> int) list \<Rightarrow> (real \<times> real \<times> int) list" where
  "extended_history tpv now_ms history =
     (case (rp_lat tpv, rp_lon tpv) of
        (Some lat, Some lon) \<Rightarrow>
          (if length history \<ge> 40 then tl (history @ [(lat, lon, now_ms)])
           else history @ [(lat, lon, now_ms)])
      | _ \<Rightarrow> history)"

lemma length_extended_history: "length history \<le> 40 \<Longrightarrow> length (extended_history tpv now_ms history) \<le> 40"
  by (auto simp: extended_history_def split: option.splits)

lemma remember_position_simps [simp]:
  "cm_t_gen_cam (remember_position tpv now_ms m) = cm_t_gen_cam m"
  "cm_n_gen_cam_counter (remember_position tpv now_ms m) = cm_n_gen_cam_counter m"
  "cm_last_cam_time_ms (remember_position tpv now_ms m) = cm_last_cam_time_ms m"
  "cm_last_cam_heading (remember_position tpv now_ms m) = cm_last_cam_heading m"
  "cm_cam_count (remember_position tpv now_ms m) = cm_cam_count m"
  "cm_active (remember_position tpv now_ms m) = cm_active m"
  "cm_timer (remember_position tpv now_ms m) = cm_timer m"
  "cm_btp_router (remember_position tpv now_ms m) = cm_btp_router m"
  "cm_current_tpv (remember_position tpv now_ms m) = cm_current_tpv m"
  "cm_vehicle_data (remember_position tpv now_ms m) = cm_vehicle_data m"
  "cm_path_history (remember_position tpv now_ms m) = extended_history tpv now_ms (cm_path_history m)"
  by (cases "rp_lat tpv"; cases "rp_lon tpv"; simp add: remember_position_def extended_history_def Let_def)+

lemma remember_containers_simps [simp]:
  "cm_t_gen_cam (remember_containers now_ms lf special vlf m) = cm_t_gen_cam m"
  "cm_n_gen_cam_counter (remember_containers now_ms lf special vlf m) = cm_n_gen_cam_counter m"
  "cm_last_cam_time_ms (remember_containers now_ms lf special vlf m) = cm_last_cam_time_ms m"
  "cm_last_cam_heading (remember_containers now_ms lf special vlf m) = cm_last_cam_heading m"
  "cm_cam_count (remember_containers now_ms lf special vlf m) = cm_cam_count m + 1"
  "cm_active (remember_containers now_ms lf special vlf m) = cm_active m"
  "cm_timer (remember_containers now_ms lf special vlf m) = cm_timer m"
  "cm_btp_router (remember_containers now_ms lf special vlf m) = cm_btp_router m"
  "cm_current_tpv (remember_containers now_ms lf special vlf m) = cm_current_tpv m"
  "cm_vehicle_data (remember_containers now_ms lf special vlf m) = cm_vehicle_data m"
  "cm_path_history (remember_containers now_ms lf special vlf m) = cm_path_history m"
  by (simp_all add: remember_containers_def)

lemma update_send_state_simps [simp]:
  "cm_t_gen_cam (update_send_state tpv now_ms elapsed_ms condition lf special vlf m) = (if condition = 1 \<and> cm_n_gen_cam_counter m + 1 < N_GEN_CAM_DEFAULT
     then max T_GEN_CAM_MIN (min T_GEN_CAM_MAX elapsed_ms) else T_GEN_CAM_MAX)"
  "cm_n_gen_cam_counter (update_send_state tpv now_ms elapsed_ms condition lf special vlf m) = (if condition = 1 \<and> cm_n_gen_cam_counter m + 1 < N_GEN_CAM_DEFAULT
     then cm_n_gen_cam_counter m + 1 else 0)"
  "cm_last_cam_time_ms (update_send_state tpv now_ms elapsed_ms condition lf special vlf m) = Some now_ms"
  "cm_last_cam_heading (update_send_state tpv now_ms elapsed_ms condition lf special vlf m) = (if rp_track tpv \<noteq> None then rp_track tpv else cm_last_cam_heading m)"
  "cm_cam_count (update_send_state tpv now_ms elapsed_ms condition lf special vlf m) = cm_cam_count m + 1"
  "cm_active (update_send_state tpv now_ms elapsed_ms condition lf special vlf m) = cm_active m"
  "cm_timer (update_send_state tpv now_ms elapsed_ms condition lf special vlf m) = cm_timer m"
  "cm_btp_router (update_send_state tpv now_ms elapsed_ms condition lf special vlf m) = cm_btp_router m"
  "cm_current_tpv (update_send_state tpv now_ms elapsed_ms condition lf special vlf m) = cm_current_tpv m"
  "cm_vehicle_data (update_send_state tpv now_ms elapsed_ms condition lf special vlf m) = cm_vehicle_data m"
  "cm_path_history (update_send_state tpv now_ms elapsed_ms condition lf special vlf m) = extended_history tpv now_ms (cm_path_history m)"
  by (simp_all only: update_send_state_def manage_t_gen_cam_simps remember_dynamics_simps
      remember_position_simps remember_containers_simps)

section \<open>The invariant\<close>

definition cam_ok :: "cam_manager \<Rightarrow> bool" where
  "cam_ok m \<longleftrightarrow>
     T_GEN_CAM_MIN \<le> cm_t_gen_cam m \<and> cm_t_gen_cam m \<le> T_GEN_CAM_MAX
     \<and> 0 \<le> cm_n_gen_cam_counter m \<and> cm_n_gen_cam_counter m < N_GEN_CAM_DEFAULT
     \<and> length (cm_path_history m) \<le> 40
     \<and> 0 \<le> cm_cam_count m \<and> (cm_cam_count m = 0 \<longleftrightarrow> cm_last_cam_time_ms m = None)
     \<and> (cm_last_cam_time_ms m = None \<longrightarrow> cm_n_gen_cam_counter m = 0 \<and> cm_t_gen_cam m = T_GEN_CAM_MAX)"

lemma cam_ok_irrelevant [simp]:
  "cam_ok (m\<lparr>cm_btp_router := b\<rparr>) = cam_ok m" "cam_ok (m\<lparr>cm_ldm_data := l\<rparr>) = cam_ok m"
  "cam_ok (m\<lparr>cm_timer := t\<rparr>) = cam_ok m" "cam_ok (m\<lparr>cm_current_tpv := c\<rparr>) = cam_ok m"
  "cam_ok (m\<lparr>cm_active := a\<rparr>) = cam_ok m" "cam_ok (m\<lparr>cm_random_calls := k\<rparr>) = cam_ok m"
  by (simp_all add: cam_ok_def)

lemma update_send_state_ok:
  "cam_ok m \<Longrightarrow> cam_ok (update_send_state tpv now_ms elapsed_ms condition lf special vlf m)"
  by (auto simp: cam_ok_def cam_times length_extended_history)

text \<open>The containers a message gets, and the message with them.\<close>

definition message_for :: "Report \<Rightarrow> int \<Rightarrow> cam_manager \<Rightarrow> pyval result" where
  "message_for tpv now_ms m =
     (let lf = should_include_lf now_ms m; special = should_include_special_vehicle now_ms m
      in build_cam tpv lf special (should_include_vlf now_ms lf special m) m)"

lemma generate_cases:
  assumes "generate_and_send_cam tpv now_ms condition m = (r, m')"
  obtains (unsent) "sending m m'"
      "\<And>cam m1. message_for tpv now_ms m = Inr cam \<Longrightarrow> send_cam cam m \<noteq> (Inr (), m1)"
    | (sent) cam m1 lf special vlf where "message_for tpv now_ms m = Inr cam"
      "send_cam cam m = (Inr (), m1)" "sending m m1" "r = Inr ()"
      "m' = update_send_state tpv now_ms (case cm_last_cam_time_ms m of None \<Rightarrow> 0 | Some t \<Rightarrow> now_ms - t)
         condition lf special vlf m1"
proof (cases "message_for tpv now_ms m")
  case (Inl e)
  then have "m' = m" using assms by (simp add: generate_run message_for_def Let_def)
  then show thesis using unsent Inl by (simp add: sending.R_refl)
next
  case (Inr cam)
  obtain q m1 where send: "send_cam cam m = (q, m1)" by fastforce
  have sending: "sending m m1" by (rule obeysD [OF sending_cam send])
  note run = assms [unfolded generate_run Let_def] Inr [unfolded message_for_def Let_def]
  show thesis
  proof (cases q)
    case (Inl e)
    then have "m' = m1" using run send by simp
    show thesis
    proof (rule unsent)
      show "sending m m'" using sending \<open>m' = m1\<close> by simp
      show "send_cam cam' m \<noteq> (Inr (), m2)" if "message_for tpv now_ms m = Inr cam'" for cam' m2
        using that Inr send Inl by simp
    qed
  next
    case (Inr u)
    note q = this
    show thesis
    proof (rule sent)
      show "message_for tpv now_ms m = Inr cam" by (rule \<open>message_for tpv now_ms m = Inr cam\<close>)
      show "send_cam cam m = (Inr (), m1)" using send q by simp
      show "r = Inr ()" using run send q by simp
      show "m' = update_send_state tpv now_ms
          (case cm_last_cam_time_ms m of None \<Rightarrow> 0 | Some t \<Rightarrow> now_ms - t) condition
          (should_include_lf now_ms m) (should_include_special_vehicle now_ms m)
          (should_include_vlf now_ms (should_include_lf now_ms m)
            (should_include_special_vehicle now_ms m) m) m1"
        using run send q by simp
    qed (rule sending)
  qed
qed

lemma keeps_generate: "keeps cam_ok (generate_and_send_cam tpv now_ms condition)"
proof (rule keepsI)
  fix m r m'
  assume ok: "cam_ok m" and run: "generate_and_send_cam tpv now_ms condition m = (r, m')"
  from run show "cam_ok m'"
  proof (cases rule: generate_cases)
    case unsent
    then show ?thesis using ok sending_fields by (simp add: cam_ok_def)
  next
    case (sent cam m1 lf special vlf)
    then have "cam_ok m1" using ok sending_fields by (simp add: cam_ok_def)
    then show ?thesis using sent(5) update_send_state_ok by simp
  qed
qed

lemma update_send_state_time [simp]:
  "cm_time (update_send_state tpv now_ms elapsed_ms condition lf special vlf m) = cm_time m"
  by (simp add: cm_time_def)

lemma generate_fields:
  assumes "generate_and_send_cam tpv now_ms condition m = (r, m')"
  shows "cm_active m' = cm_active m" "cm_timer m' = cm_timer m" "cm_time m' = cm_time m"
    "cm_current_tpv m' = cm_current_tpv m"
proof -
  have "cm_active m' = cm_active m \<and> cm_timer m' = cm_timer m \<and> cm_time m' = cm_time m
    \<and> cm_current_tpv m' = cm_current_tpv m"
    using assms
  proof (cases rule: generate_cases)
    case unsent
    then show ?thesis by (simp add: sending_fields sending_time)
  next
    case (sent cam m1 lf special vlf)
    show ?thesis
      unfolding sent(5) update_send_state_simps update_send_state_time
      using sent(3) by (simp add: sending_fields sending_time)
  qed
  then show "cm_active m' = cm_active m" "cm_timer m' = cm_timer m" "cm_time m' = cm_time m"
    "cm_current_tpv m' = cm_current_tpv m" by blast+
qed

text \<open>When a message is due.\<close>

definition cam_due :: "Report \<Rightarrow> cam_manager \<Rightarrow> bool" where
  "cam_due tpv m =
     (case cm_last_cam_time_ms m of
        None \<Rightarrow> True
      | Some t \<Rightarrow> T_GEN_CAM_DCC \<le> cm_now_ms m - t
          \<and> (check_dynamics tpv m \<or> cm_t_gen_cam m \<le> cm_now_ms m - t))"

lemma cam_evaluate_run:
  "evaluate_and_maybe_send m =
    (case cm_current_tpv m of
       None \<Rightarrow> (Inr (), m)
     | Some tpv \<Rightarrow>
         if cam_due tpv m
         then generate_and_send_cam tpv (cm_now_ms m)
           (if cm_last_cam_time_ms m = None \<or> check_dynamics tpv m then 1 else 2) m
         else (Inr (), m))"
  by (auto simp: evaluate_and_maybe_send_def cam_due_def Let_def split: option.splits)

lemma keeps_evaluate: "keeps cam_ok evaluate_and_maybe_send"
  by (rule keepsI) (auto simp: cam_evaluate_run split: option.splits if_splits dest: keepsD [OF keeps_generate])

lemma cam_evaluate_fields:
  assumes "evaluate_and_maybe_send m = (r, m')"
  shows "cm_active m' = cm_active m" "cm_timer m' = cm_timer m" "cm_time m' = cm_time m"
    "cm_current_tpv m' = cm_current_tpv m"
  using assms by (auto simp: cam_evaluate_run generate_fields split: option.splits if_splits)

lemma timer_run:
  "cam_timer_expires m =
    (let m0 = m\<lparr>cm_timer := None\<rparr>; (r, m1) = evaluate_and_maybe_send m0
     in if cm_active m then (r, m1\<lparr>cm_timer := Some (cm_time m + 1 / 10)\<rparr>) else (Inr (), m0))"
proof (cases "evaluate_and_maybe_send (m\<lparr>cm_timer := None\<rparr>)")
  case (Pair r m1)
  have "cm_active m1 = cm_active m" "cm_time m1 = cm_time m"
    using cam_evaluate_fields [OF Pair] by (simp_all add: cm_time_def)
  then show ?thesis
    using Pair
    by (simp add: cam_timer_expires_def check_cam_conditions_def finally_s_def schedule_next_check_def
        T_CHECK_CAM_GEN_def T_GEN_CAM_MIN_def)
qed

text \<open>Whether a timer is set belongs to the states between two steps.\<close>

definition cam_invariant :: "cam_manager \<Rightarrow> bool" where
  "cam_invariant m \<longleftrightarrow> cam_ok m \<and> (cm_active m \<longleftrightarrow> cm_timer m \<noteq> None)"

inductive cam_step :: "cam_manager \<Rightarrow> cam_manager \<Rightarrow> bool" where
  start: "cam_start m = (r, m') \<Longrightarrow> cam_step m m'"
| stop: "cam_stop m = (r, m') \<Longrightarrow> cam_step m m'"
| report: "cam_location_service_callback tpv m = (r, m') \<Longrightarrow> cam_step m m'"
| timer: "cm_timer m = Some t \<Longrightarrow> t \<le> cm_time m \<Longrightarrow> cam_timer_expires m = (r, m') \<Longrightarrow> cam_step m m'"
| environment: "cm_time m \<le> r_now (b_gn_router b) \<Longrightarrow> cam_step m (m\<lparr>cm_btp_router := b\<rparr>)"

inductive cam_reachable :: "cam_manager \<Rightarrow> bool" where
  init: "cam_reachable (cam_manager_init btp d asn1 parse ldm random)"
| step: "cam_reachable m \<Longrightarrow> cam_step m m' \<Longrightarrow> cam_reachable m'"


lemma cam_start_run:
  "cam_start m = (Inr (), if cm_active m then m
     else m\<lparr>cm_active := True, cm_cam_count := 0, cm_last_cam_time_ms := None,
         cm_last_cam_heading := None, cm_last_cam_lat := None, cm_last_cam_lon := None,
         cm_last_cam_speed := None, cm_last_lf_time_ms := None, cm_last_vlf_time_ms := None,
         cm_last_special_time_ms := None, cm_path_history := [], cm_t_gen_cam := T_GEN_CAM_MAX,
         cm_n_gen_cam_counter := 0, cm_random_calls := Suc (cm_random_calls m),
         cm_timer := Some (cm_time m + cm_random m (cm_random_calls m))\<rparr>)"
  by (simp add: cam_start_def schedule_next_check_def cm_time_def)

lemma cam_step_invariant:
  assumes "cam_step m m'" "cam_invariant m"
  shows "cam_invariant m'"
  using assms(1)
proof cases
  case (start r)
  then show ?thesis using assms(2)
    by (auto simp: cam_start_run cam_invariant_def cam_ok_def cam_times split: if_splits)
next
  case (timer t r)
  obtain q m1 where eval: "evaluate_and_maybe_send (m\<lparr>cm_timer := None\<rparr>) = (q, m1)" by fastforce
  have "cam_ok m1" using keepsD [OF keeps_evaluate _ eval] assms(2) by (simp add: cam_invariant_def)
  then show ?thesis
    using timer(3) eval assms(2) cam_evaluate_fields(1) [OF eval]
    by (auto simp: timer_run cam_invariant_def split: if_splits)
qed (use assms(2) in \<open>auto simp: cam_stop_def cam_location_service_callback_def cam_invariant_def\<close>)

lemma cam_init_invariant: "cam_invariant (cam_manager_init btp d asn1 parse ldm random)"
  by (simp add: cam_invariant_def cam_ok_def cam_manager_init_def cam_times)

lemma cam_reachable_invariant: "cam_reachable m \<Longrightarrow> cam_invariant m"
  by (induction rule: cam_reachable.induct) (blast intro: cam_step_invariant cam_init_invariant)+

section \<open>Generation\<close>

text \<open>The timer plays no part in the decision.\<close>

lemma timer_irrelevant [simp]:
  "cm_time (m\<lparr>cm_timer := t\<rparr>) = cm_time m"
  "cm_now_ms (m\<lparr>cm_timer := t\<rparr>) = cm_now_ms m"
  "cam_due tpv (m\<lparr>cm_timer := t\<rparr>) = cam_due tpv m"
  "check_dynamics tpv (m\<lparr>cm_timer := t\<rparr>) = check_dynamics tpv m"
proof -
  show time: "cm_time (m\<lparr>cm_timer := t\<rparr>) = cm_time m" by (simp add: cm_time_def)
  show now: "cm_now_ms (m\<lparr>cm_timer := t\<rparr>) = cm_now_ms m" by (simp add: cm_now_ms_def time)
  show check: "check_dynamics tpv (m\<lparr>cm_timer := t\<rparr>) = check_dynamics tpv m"
    by (simp add: check_dynamics_def cong: prod.case_cong option.case_cong)
  show "cam_due tpv (m\<lparr>cm_timer := t\<rparr>) = cam_due tpv m" by (simp add: cam_due_def now check split: option.split)
qed

lemma due_at_the_latest:
  "cam_ok m \<Longrightarrow> cm_last_cam_time_ms m = Some t \<Longrightarrow> 1000 \<le> cm_now_ms m - t \<Longrightarrow> cam_due tpv m"
  by (simp add: cam_due_def cam_ok_def cam_times)

lemma evaluate_counts:
  assumes "evaluate_and_maybe_send m = (r, m')" "cm_current_tpv m = Some tpv"
  shows "cm_cam_count m' = cm_cam_count m + 1 \<longleftrightarrow> cam_due tpv m
    \<and> (\<exists>cam m1. message_for tpv (cm_now_ms m) m = Inr cam \<and> send_cam cam m = (Inr (), m1))"
proof (cases "cam_due tpv m")
  case True
  then have "generate_and_send_cam tpv (cm_now_ms m)
      (if cm_last_cam_time_ms m = None \<or> check_dynamics tpv m then 1 else 2) m = (r, m')"
    using assms by (simp add: cam_evaluate_run)
  then show ?thesis
  proof (cases rule: generate_cases)
    case unsent
    then show ?thesis using sending_fields(6) by auto
  next
    case (sent cam m1 lf special vlf)
    then show ?thesis using True sending_fields(6) [OF sent(3)]
      unfolding sent(5) update_send_state_simps by auto
  qed
qed (use assms in \<open>simp add: cam_evaluate_run\<close>)

lemma timer_when_active:
  assumes "cam_timer_expires m = (r, m')" "cm_active m"
  obtains m1 where "evaluate_and_maybe_send (m\<lparr>cm_timer := None\<rparr>) = (r, m1)"
    "m' = m1\<lparr>cm_timer := Some (cm_time m + 1 / 10)\<rparr>"
  using assms by (auto simp: timer_run Let_def split: prod.splits)

text \<open>
  C24: In every state the manager can reach, the interval \<open>T_GenCam\<close> is between 100 and 1000 ms,
  fewer than three messages in a row have been sent for changed dynamics, at most 40 positions
  are stored, and the timer is set exactly while the service is active. When the timer expires
  with a position report, a message counts as sent exactly if it is due and both building and
  sending it succeed. Due means: none was sent yet; or the last one was at least 100 ms ago, and
  the dynamics have changed or \<open>T_GenCam\<close> has passed. So messages are at least 100 ms apart, and
  one is due at the latest after 1000 ms. Unless one is due, nothing is sent; and whatever
  happens, exceptions included, the timer is set again 100 ms ahead.
\<close>

theorem cam_generation:
  assumes "cam_reachable m" "cm_active m" "cm_current_tpv m = Some tpv" "cam_timer_expires m = (r, m')"
  defines "m0 \<equiv> m\<lparr>cm_timer := None\<rparr>"
  shows "T_GEN_CAM_MIN \<le> cm_t_gen_cam m \<and> cm_t_gen_cam m \<le> T_GEN_CAM_MAX
    \<and> cm_n_gen_cam_counter m < 3 \<and> length (cm_path_history m) \<le> 40 \<and> cm_timer m \<noteq> None
    \<and> (cm_cam_count m' = cm_cam_count m + 1 \<longleftrightarrow> cam_due tpv m
        \<and> (\<exists>cam m1. message_for tpv (cm_now_ms m) m0 = Inr cam \<and> send_cam cam m0 = (Inr (), m1)))
    \<and> (\<not> cam_due tpv m \<longrightarrow> cm_btp_router m' = cm_btp_router m)
    \<and> (\<forall>t. cm_last_cam_time_ms m = Some t \<and> 1000 \<le> cm_now_ms m - t \<longrightarrow> cam_due tpv m)
    \<and> cm_timer m' = Some (cm_time m + 1 / 10)"
proof -
  obtain m1 where eval: "evaluate_and_maybe_send m0 = (r, m1)"
    and m': "m' = m1\<lparr>cm_timer := Some (cm_time m + 1 / 10)\<rparr>"
    using timer_when_active [OF assms(4,2)] by (auto simp: m0_def)
  have inv: "cam_ok m" "cm_timer m \<noteq> None"
    using cam_reachable_invariant [OF assms(1)] assms(2) by (simp_all add: cam_invariant_def)
  have "cm_current_tpv m0 = Some tpv" using assms(3) by (simp add: m0_def)
  from evaluate_counts [OF eval this]
  have "cm_cam_count m' = cm_cam_count m + 1 \<longleftrightarrow> cam_due tpv m
      \<and> (\<exists>cam m1. message_for tpv (cm_now_ms m) m0 = Inr cam \<and> send_cam cam m0 = (Inr (), m1))"
    by (simp add: m' m0_def)
  moreover have "cm_btp_router m' = cm_btp_router m" if "\<not> cam_due tpv m"
    using that eval assms(3) by (auto simp: m' m0_def cam_evaluate_run)
  ultimately show ?thesis
    using inv due_at_the_latest [OF inv(1)] by (auto simp: cam_ok_def N_GEN_CAM_DEFAULT_def m')
qed

text \<open>A station that has been started and has heard of its position.\<close>

definition sample_vehicle :: VehicleData where
  "sample_vehicle = default_VehicleData"

definition sample_report :: Report where
  "sample_report = \<lparr>rp_time = Some ''t'', rp_lat = Some 41, rp_lon = Some 2, rp_altHAE = Some 100,
     rp_epx = Some 1, rp_epy = Some 2, rp_epv = None, rp_track = Some 90, rp_epd = Some 1,
     rp_speed = Some 10\<rparr>"

definition started_manager :: cam_manager where
  "started_manager = snd (cam_location_service_callback sample_report (snd (cam_start
     (cam_manager_init (btp_init (station 1)) sample_vehicle (\<lambda>type cam. Inr [1, 2])
       (\<lambda>time. Inr 2000000000) None (\<lambda>n. 1 / 20)))))"

lemma started_manager_reachable: "cam_reachable started_manager"
  unfolding started_manager_def
  by (rule cam_reachable.step [OF cam_reachable.step [OF cam_reachable.init]];
      rule cam_step.intros, rule surjective_pairing)

lemma started_manager_simps [simp]:
  "cm_active started_manager" "cm_current_tpv started_manager = Some sample_report"
  "cm_last_cam_time_ms started_manager = None" "cm_cam_count started_manager = 0"
  by (simp_all add: started_manager_def cam_start_run cam_location_service_callback_def
      cam_manager_init_def)

lemma cam_generation_witness:
  "cam_due sample_report started_manager
   \<and> cm_timer (snd (cam_timer_expires started_manager)) = Some (cm_time started_manager + 1 / 10)"
  using cam_generation [OF started_manager_reachable _ _ surjective_pairing]
  by (simp add: cam_due_def)


text \<open>How a sent message changes the interval.\<close>

lemma evaluate_sent:
  assumes "evaluate_and_maybe_send m = (r, m')" "cm_current_tpv m = Some tpv"
    and "cm_cam_count m' = cm_cam_count m + 1"
  obtains m1 lf special vlf where "sending m m1" "cam_due tpv m"
    "m' = update_send_state tpv (cm_now_ms m)
       (case cm_last_cam_time_ms m of None \<Rightarrow> 0 | Some t \<Rightarrow> cm_now_ms m - t)
       (if cm_last_cam_time_ms m = None \<or> check_dynamics tpv m then 1 else 2) lf special vlf m1"
proof -
  have due: "cam_due tpv m" using evaluate_counts [OF assms(1,2)] assms(3) by simp
  then have "generate_and_send_cam tpv (cm_now_ms m)
      (if cm_last_cam_time_ms m = None \<or> check_dynamics tpv m then 1 else 2) m = (r, m')"
    using assms by (simp add: cam_evaluate_run)
  then show thesis
  proof (cases rule: generate_cases)
    case unsent
    then show thesis using sending_fields(6) assms(3) by simp
  next
    case (sent cam m1 lf special vlf)
    show thesis by (rule that [OF sent(3) due sent(5)])
  qed
qed

text \<open>
  How the interval \<open>T_GenCam\<close> follows the messages. After the first message it is 100 ms,
  not the 1000 ms it was started with, since no time has elapsed before the first message; so
  the second one is due 100 ms later whatever the report says. After a message for changed
  dynamics it is the time since the message before, at most 1000 ms, for at most two such
  messages in a row; after the third, and after a message for which only the interval had
  passed, it is 1000 ms again.
\<close>

lemma cam_interval:
  assumes "cam_reachable m" "cm_active m" "cm_current_tpv m = Some tpv" "cam_timer_expires m = (r, m')"
    and "cm_cam_count m' = cm_cam_count m + 1"
  shows "cm_last_cam_time_ms m' = Some (cm_now_ms m)
    \<and> (case cm_last_cam_time_ms m of
         None \<Rightarrow> cm_t_gen_cam m = 1000 \<and> cm_t_gen_cam m' = 100 \<and> cm_n_gen_cam_counter m' = 1
           \<and> (\<forall>tpv' b. cm_now_ms (m'\<lparr>cm_btp_router := b\<rparr>) - cm_now_ms m \<ge> 100
                \<longrightarrow> cam_due tpv' (m'\<lparr>cm_btp_router := b\<rparr>))
       | Some t \<Rightarrow>
           if check_dynamics tpv m \<and> cm_n_gen_cam_counter m < 2
           then cm_t_gen_cam m' = min 1000 (cm_now_ms m - t)
             \<and> cm_n_gen_cam_counter m' = cm_n_gen_cam_counter m + 1
           else cm_t_gen_cam m' = 1000 \<and> cm_n_gen_cam_counter m' = 0)"
proof -
  define m0 where "m0 = m\<lparr>cm_timer := None\<rparr>"
  have ok: "cam_ok m" using cam_reachable_invariant [OF assms(1)] by (simp add: cam_invariant_def)
  obtain m1 where eval: "evaluate_and_maybe_send m0 = (r, m1)"
    and m': "m' = m1\<lparr>cm_timer := Some (cm_time m + 1 / 10)\<rparr>"
    using timer_when_active [OF assms(4,2)] by (auto simp: m0_def)
  have "cm_current_tpv m0 = Some tpv" "cm_cam_count m1 = cm_cam_count m0 + 1"
    using assms(3,5) by (simp_all add: m0_def m')
  from evaluate_sent [OF eval this]
  obtain m2 lf special vlf where sending: "sending m0 m2" and due: "cam_due tpv m0"
    and m1: "m1 = update_send_state tpv (cm_now_ms m0)
       (case cm_last_cam_time_ms m0 of None \<Rightarrow> 0 | Some t \<Rightarrow> cm_now_ms m0 - t)
       (if cm_last_cam_time_ms m0 = None \<or> check_dynamics tpv m0 then 1 else 2) lf special vlf m2"
    by blast
  have counter: "cm_n_gen_cam_counter m2 = cm_n_gen_cam_counter m"
    using sending_fields(4) [OF sending] by (simp add: m0_def)
  have fields: "cm_last_cam_time_ms m' = Some (cm_now_ms m)"
    "cm_t_gen_cam m' = cm_t_gen_cam m1" "cm_n_gen_cam_counter m' = cm_n_gen_cam_counter m1"
    by (simp_all add: m' m1 m0_def)
  have later: "cam_due tpv' (m'\<lparr>cm_btp_router := b\<rparr>)"
    if "cm_now_ms (m'\<lparr>cm_btp_router := b\<rparr>) - cm_now_ms m \<ge> 100" "cm_t_gen_cam m' = 100" for tpv' b
    using that fields(1) by (simp add: cam_due_def T_GEN_CAM_DCC_def T_GEN_CAM_MIN_def)
  show ?thesis
  proof (cases "cm_last_cam_time_ms m")
    case None
    then show ?thesis
      using fields later ok counter by (simp add: m1 m0_def cam_ok_def cam_times)
  next
    case (Some t)
    then show ?thesis
      using fields ok counter due
      by (auto simp: m1 m0_def cam_ok_def cam_times cam_due_def)
  qed
qed


section \<open>From station to station\<close>

lemma cam_log_arguments_message [simp]: "cam_log_arguments (cam_message d g tpv cs) = Inr ()"
  by (simp add: cam_log_arguments_def cam_message_def cam_dict_def)

lemma message_for_shape:
  assumes "message_for tpv now_ms m = Inr cam"
  obtains g cs where "gdt_of (cm_parse m) tpv = Inr g" "cam = cam_message (cm_vehicle_data m) g tpv cs"
  using assms by (auto simp: message_for_def Let_def build_cam_eq rbind_eq_Inr)

lemma valid_cam_btp_request: "length data + 4 < 2 ^ 16 \<Longrightarrow> valid_btp_request (cam_btp_request data)"
  by (simp add: cam_btp_request_def default_BTPDataRequest_def valid_btp_request_def
      default_PacketTransportType_def default_TrafficClass_def valid_tc_def)

lemma cam_btp_request_simps [simp]:
  "br_destination_port (cam_btp_request data) = 2001"
  "bi_data (btp_indication (cam_btp_request data) source) = data"
  "bi_destination_port (btp_indication (cam_btp_request data) source) = 2001"
  by (simp_all add: cam_btp_request_def default_BTPDataRequest_def btp_indication_def
      default_BTPDataIndication_def)

text \<open>A local dynamic map that takes every message, or none at all.\<close>

definition ldm_accepts :: "(nat \<Rightarrow> pyval \<Rightarrow> unit result) option \<Rightarrow> bool" where
  "ldm_accepts ldm \<longleftrightarrow> (case ldm of None \<Rightarrow> True | Some f \<Rightarrow> \<forall>n v. f n v = Inr ())"

lemma ldm_accepts_simps [simp]:
  "ldm_accepts None" "ldm_accepts (Some f) \<longleftrightarrow> (\<forall>n v. f n v = Inr ())"
  by (simp_all add: ldm_accepts_def)

text \<open>Sending succeeds once the message can be encoded and the stack takes the request.\<close>

lemma send_cam_succeeds:
  assumes "message_for tpv now_ms m = Inr cam" "cm_asn1 m ''CAM'' cam = Inr data"
    and "btp_data_request (cam_btp_request data) (cm_btp_router m) = (Inr (), btp)"
    and "ldm_accepts (cm_ldm m)"
  obtains m1 where "send_cam cam m = (Inr (), m1)" "cm_btp_router m1 = btp"
proof -
  obtain g cs where cam: "cam = cam_message (cm_vehicle_data m) g tpv cs"
    using message_for_shape [OF assms(1)] by blast
  have "on_btp (btp_data_request (cam_btp_request data)) m = (Inr (), m\<lparr>cm_btp_router := btp\<rparr>)"
    using assms(3) by (simp add: on_btp_run)
  then have "send_cam cam m = then_s (add_to_ldm cam) (lift_s (cam_log_arguments cam))
      (m\<lparr>cm_btp_router := btp\<rparr>)"
    using assms(2) by (simp add: send_cam_def cam_encode_def run_simps)
  moreover obtain l where "add_to_ldm cam (m\<lparr>cm_btp_router := btp\<rparr>)
      = (Inr (), m\<lparr>cm_btp_router := btp, cm_ldm_data := l\<rparr>)"
  proof (cases "cm_ldm m")
    case None
    then show thesis using that [of "cm_ldm_data m"] by (simp add: add_to_ldm_def)
  next
    case (Some ldm)
    then show thesis using that [of "cm_ldm_data m @ [cam]"] assms(4)
      by (simp add: add_to_ldm_def)
  qed
  ultimately have "send_cam cam m = (Inr (), m\<lparr>cm_btp_router := btp, cm_ldm_data := l\<rparr>)"
    by (simp add: run_simps cam)
  then show thesis by (rule that) simp
qed

lemma generate_succeeds:
  assumes "message_for tpv now_ms m = Inr cam" "send_cam cam m = (Inr (), m1)"
  obtains m' where "generate_and_send_cam tpv now_ms condition m = (Inr (), m')"
    "cm_btp_router m' = cm_btp_router m1" "cm_cam_count m' = cm_cam_count m + 1"
proof -
  obtain r m' where run: "generate_and_send_cam tpv now_ms condition m = (r, m')" by fastforce
  then show thesis
  proof (cases rule: generate_cases)
    case unsent
    then show thesis using assms by blast
  next
    case (sent cam' m2 lf special vlf)
    then have "m2 = m1" using assms by simp
    then have "cm_btp_router m' = cm_btp_router m1" "cm_cam_count m' = cm_cam_count m + 1"
      using sending_fields(6) [OF sent(3)] by (simp_all add: sent(5))
    then show thesis using that [of m'] run sent(4) by simp
  qed
qed

lemma call_application_callbacks_run:
  fixes cam :: pyval
  defines "body \<equiv> \<lambda>(i, callback). then_s (modify_s (\<lambda>c. c\<lparr>cr_callback_calls := cr_callback_calls c @ [(i, cam)]\<rparr>))
         (catch_s (lift_s (callback cam)) (\<lambda>e. return_s ()))"
  shows "\<exists>c'. for_each_s (enumerate n callbacks) body c = (Inr (), c')
     \<and> cr_callback_calls c' = cr_callback_calls c @ map (\<lambda>i. (i, cam)) [n..<n + length callbacks]"
proof (induction callbacks arbitrary: n c)
  case (Cons f fs)
  let ?c = "c\<lparr>cr_callback_calls := cr_callback_calls c @ [(n, cam)]\<rparr>"
  have "body (n, f) c = (Inr (), ?c)"
    by (cases "f cam") (simp_all add: body_def catch_s_def)
  then have "for_each_s (enumerate n (f # fs)) body c = for_each_s (enumerate (Suc n) fs) body ?c"
    by (simp only: enumerate_simps for_each_s.simps run_bind)
  moreover have "[n..<n + length (f # fs)] = n # [Suc n..<Suc n + length fs]"
    by (simp add: upt_conv_Cons del: upt_Suc)
  ultimately show ?case using Cons.IH [of "Suc n" ?c] by simp
qed simp

text \<open>Receiving a message that decodes: every application gets it with the time of generation.\<close>

lemma reception_run:
  assumes "cr_decode c (bi_data i) = Inr (cam_message d g tpv cs)"
    and "ldm_accepts (cr_ldm c)"
    and "cam_message d g tpv cs = PDict entries"
  shows "\<exists>c'. reception_callback now i c = (Inr (), c')
    \<and> cr_callback_calls c' = cr_callback_calls c @ map (\<lambda>k. (k, PDict (AList.update ''utc_timestamp''
        (PInt (as_timestamp_in_certain_point \<lparr>msec = g\<rparr> (py_int (now * 1000)))) entries)))
        [0..<length (cr_application_callbacks c)]"
proof -
  define stamped where "stamped = PDict (AList.update ''utc_timestamp''
        (PInt (as_timestamp_in_certain_point \<lparr>msec = g\<rparr> (py_int (now * 1000)))) entries)"
  have entries: "map_of entries ''cam'' = Some (PDict [(''generationDeltaTime'', PInt g),
         (''camParameters'', PDict
           ([(''basicContainer'', PDict
               [(''stationType'', PInt (vd_station_type d)), (''referencePosition'', reference_position tpv)]),
             (''highFrequencyContainer'', PTuple [PStr ''basicVehicleContainerHighFrequency'', high_frequency d tpv])]
            @ cs))])" "map_of entries ''header'' = Some (PDict
        [(''protocolVersion'', PInt 2), (''messageId'', PInt 2), (''stationId'', PInt (vd_station_id d))])"
    using assms(3) by (auto simp: cam_message_def cam_dict_def)
  then have log: "cam_log_arguments stamped = Inr ()"
    by (simp add: stamped_def cam_log_arguments_def update_conv)
  obtain c1 where ldm: "receiver_add_to_ldm stamped c = (Inr (), c1)"
    "cr_callback_calls c1 = cr_callback_calls c"
    "cr_application_callbacks c1 = cr_application_callbacks c"
    using assms(2) by (cases "cr_ldm c") (auto simp: receiver_add_to_ldm_def)
  obtain c2 where calls: "call_application_callbacks stamped c1 = (Inr (), c2)"
    "cr_callback_calls c2 = cr_callback_calls c
       @ map (\<lambda>k. (k, stamped)) [0..<length (cr_application_callbacks c)]"
    using call_application_callbacks_run [of 0 "cr_application_callbacks c1" stamped c1] ldm
    by (auto simp: call_application_callbacks_def)
  have "reception_callback now i c = then_s (receiver_add_to_ldm stamped)
      (then_s (call_application_callbacks stamped) (lift_s (cam_log_arguments stamped))) c"
    unfolding reception_callback_def run_gets_bind assms(1,3)
    by (simp add: entries stamped_def)
  then have "reception_callback now i c = (Inr (), c2)" using ldm calls log by (simp add: run_simps)
  then show ?thesis using calls(2) by (auto simp: stamped_def)
qed


text \<open>
  C25: From station to station. When the coder encodes the message that a station builds and the
  stack works, the station puts one packet on the air; at a station that receives it, BTP calls
  the callback of port 2001 once, with the encoded message. When that is decoded to the same
  message, each application callback gets the message once, with the millisecond of its
  generation added: the 16-bit field is resolved exactly, if no more than 65.5 s have passed.
\<close>

theorem cam_end_to_end:
  assumes "message_for tpv now_ms m = Inr cam" "cm_asn1 m ''CAM'' cam = Inr data"
    and "length data + 4 < 2 ^ 16" "rp_time tpv = Some time" "cm_parse m time = Inr (of_int ms / 1000)"
    and "valid_lpv (r_ego_position_vector (b_gn_router (cm_btp_router m)))"
    and "r_link_layer (b_gn_router (cm_btp_router m)) = Some f" "\<And>n p. f n p = Inr ()"
    and "itsGnSecurity (r_mib (b_gn_router (cm_btp_router m))) = DISABLED"
    and "ldm_accepts (cm_ldm m)"
    and "itsGnSecurity (r_mib (b_gn_router b)) = DISABLED"
    and "itsGnProtocolVersion (r_mib (b_gn_router b)) = 1" "r_indication_callback (b_gn_router b)"
    and "\<not> gn_address_eq (itsGnLocalGnAddr (r_mib (b_gn_router b)))
      (lpv_gn_addr (r_ego_position_vector (b_gn_router (cm_btp_router m))))"
    and "b_indication_callbacks b = Some callbacks" "dict_get callbacks 2001 = Some callback"
    and "cr_decode c data = Inr cam" "ldm_accepts (cr_ldm c)"
    and "ITS_EPOCH_MS - ELAPSED_MILLISECONDS \<le> ms" "ms \<le> py_int (now * 1000)"
    and "py_int (now * 1000) < ms + 65536"
  shows "\<exists>m' p i b' entries c'. generate_and_send_cam tpv now_ms condition m = (Inr (), m')
    \<and> r_sent (b_gn_router (cm_btp_router m')) = r_sent (b_gn_router (cm_btp_router m)) @ [p]
    \<and> btp_receive p b = (callback (length (b_calls b)) i, b')
    \<and> b_calls b' = b_calls b @ [(2001, i)] \<and> bi_data i = data
    \<and> cam = PDict entries \<and> reception_callback now i c = (Inr (), c')
    \<and> cr_callback_calls c' = cr_callback_calls c @ map (\<lambda>k. (k, PDict (AList.update ''utc_timestamp'' (PInt ms) entries)))
        [0..<length (cr_application_callbacks c)]"
proof -
  define i where "i = btp_indication (cam_btp_request data)
    (r_ego_position_vector (b_gn_router (cm_btp_router m)))"
  obtain p gn b1 where request: "btp_data_request (cam_btp_request data) (cm_btp_router m)
        = (Inr (), (cm_btp_router m)\<lparr>b_gn_router := gn\<rparr>)"
    and sent: "r_sent gn = r_sent (b_gn_router (cm_btp_router m)) @ [p]"
    and receive: "btp_receive p b = then_s (call_callback i) (return_s ()) b1"
    and b1: "b_indication_callbacks b1 = Some callbacks" "b_calls b1 = b_calls b"
    using btp_transfer [OF valid_cam_btp_request [OF assms(3)] assms(6-9,11-14)] assms(15)
    unfolding i_def by metis
  obtain m1 where m1: "send_cam cam m = (Inr (), m1)"
    "cm_btp_router m1 = (cm_btp_router m)\<lparr>b_gn_router := gn\<rparr>"
    using send_cam_succeeds [OF assms(1,2) request assms(10)] by blast
  obtain m' where m': "generate_and_send_cam tpv now_ms condition m = (Inr (), m')"
    "cm_btp_router m' = cm_btp_router m1"
    using generate_succeeds [OF assms(1) m1(1)] by blast
  define b2 where "b2 = b1\<lparr>b_calls := b_calls b @ [(2001, i)]\<rparr>"
  have "bi_destination_port i = 2001" "bi_data i = data" by (simp_all add: i_def)
  then have called: "btp_receive p b = (callback (length (b_calls b)) i, b2)"
    using receive b1 assms(16)
    by (cases "callback (length (b_calls b)) i") (auto simp: call_callback_def then_s_def bind_s_def b2_def)
  obtain g cs where gdt: "gdt_of (cm_parse m) tpv = Inr g"
    and cam: "cam = cam_message (cm_vehicle_data m) g tpv cs"
    using message_for_shape [OF assms(1)] by blast
  have g: "g = msec (gdt_from_timestamp (of_int ms / 1000))"
    using gdt assms(4,5) by (simp add: gdt_of_def)
  have resolved: "as_timestamp_in_certain_point \<lparr>msec = g\<rparr> (py_int (now * 1000)) = ms"
    using generation_time_resolved [OF assms(19-21)]
    by (cases "gdt_from_timestamp (of_int ms / 1000)") (simp add: g)
  obtain entries where entries: "cam = PDict entries" by (simp add: cam cam_message_def cam_dict_def)
  then have shape: "cam_message (cm_vehicle_data m) g tpv cs = PDict entries" by (simp add: cam)
  have "cr_decode c (bi_data i) = Inr (cam_message (cm_vehicle_data m) g tpv cs)"
    using assms(17) cam \<open>bi_data i = data\<close> by simp
  from reception_run [OF this assms(18) shape, of now]
  obtain c' where "reception_callback now i c = (Inr (), c')"
    "cr_callback_calls c' = cr_callback_calls c @ map (\<lambda>k. (k, PDict (AList.update ''utc_timestamp'' (PInt ms) entries)))
        [0..<length (cr_application_callbacks c)]"
    using resolved by auto
  then show ?thesis
    using m' m1 sent called entries \<open>bi_data i = data\<close>
    by (intro exI [of _ m'] exI [of _ p] exI [of _ i] exI [of _ b2] exI [of _ entries] exI [of _ c'])
      (simp add: b2_def)
qed


text \<open>
  Two stations, and a codec that writes the generation time of a message in two bytes and,
  of all messages, decodes the one that the first station builds.
\<close>

definition sending_manager :: cam_manager where
  "sending_manager = started_manager\<lparr>cm_parse := (\<lambda>time. Inr (of_int 1700000000123 / 1000))\<rparr>"

definition sample_cam :: pyval where
  "sample_cam = projr (message_for sample_report 1700000000500 sending_manager)"

definition cam_listener :: btp_router where
  "cam_listener = freeze_callbacks (snd (register_indication_callback_btp 2001
     (\<lambda>n i. Inr ()) (btp_init (station 2))))"

definition cam_application :: cam_receiver where
  "cam_application = \<lparr>cr_decode = (\<lambda>data. if data = [1, 2] then Inr sample_cam else Inl ValueError),
     cr_ldm = None, cr_ldm_data = [], cr_application_callbacks = [\<lambda>v. Inr (), \<lambda>v. Inl RuntimeError],
     cr_callback_calls = []\<rparr>"

lemma sending_manager_simps [simp]:
  "cm_btp_router sending_manager = btp_init (station 1)" "cm_ldm sending_manager = None"
  "cm_asn1 sending_manager = (\<lambda>type cam. Inr [1, 2])"
  "cm_parse sending_manager = (\<lambda>time. Inr (of_int 1700000000123 / 1000))"
  by (simp_all add: sending_manager_def started_manager_def cam_start_run
      cam_location_service_callback_def cam_manager_init_def)

lemma samples_simps [simp]:
  "rp_time sample_report = Some ''t''" "cr_decode cam_application [1, 2] = Inr sample_cam"
  "cr_ldm cam_application = None" "cr_callback_calls cam_application = []"
  "length (cr_application_callbacks cam_application) = 2"
  "b_gn_router cam_listener = station 2" "b_calls cam_listener = []"
  "b_indication_callbacks cam_listener = Some [(2001, \<lambda>n i. Inr ())]"
  by (simp_all add: sample_report_def cam_application_def cam_listener_def freeze_callbacks_def
      register_indication_callback_btp_def btp_init_def)

lemma message_exists:
  assumes "gdt_of (cm_parse m) tpv = Inr g" "cm_asn1 m = (\<lambda>type v. Inr x)"
  shows "\<exists>cam. message_for tpv now_ms m = Inr cam"
proof -
  have "\<exists>xs. extension_containers (cm_asn1 m) two vlf = Inr xs" for two vlf
    by (cases two; cases vlf) (simp_all add: assms(2) extension_containers_def
      encode_extension_container_def EXTENSION_CONTAINER_ID_TO_TYPE_def)
  then show ?thesis using assms(1) by (auto simp: message_for_def Let_def build_cam_eq rbind_eq_Inr)
qed

lemma sample_message: "message_for sample_report 1700000000500 sending_manager = Inr sample_cam"
  using message_exists [of sending_manager sample_report _ "[1, 2]" 1700000000500]
  by (auto simp: sample_cam_def gdt_of_def)

lemma cam_end_to_end_witness:
  "\<exists>m' p i b' entries c'. generate_and_send_cam sample_report 1700000000500 1 sending_manager = (Inr (), m')
    \<and> r_sent (b_gn_router (cm_btp_router m')) = [p]
    \<and> btp_receive p cam_listener = (Inr (), b') \<and> b_calls b' = [(2001, i)]
    \<and> reception_callback 1700000002 i cam_application = (Inr (), c')
    \<and> cr_callback_calls c' = map (\<lambda>k. (k, PDict (AList.update ''utc_timestamp''
        (PInt 1700000000123) entries))) [0, 1]"
proof -
  have "(1 :: byte) \<noteq> 2" by simp
  moreover have "py_int (1700000002 * 1000) = 1700000002000" by (simp add: py_int_def)
  moreover have "[0..<2] = [0, Suc 0]" by (simp add: upt_rec)
  ultimately show ?thesis
    using cam_end_to_end [OF sample_message, of "[1, 2]" "''t''" 1700000000123 "\<lambda>_ _. Inr ()"
        cam_listener "[(2001, \<lambda>n i. Inr ())]" "\<lambda>n i. Inr ()" cam_application 1700000002 1]
    by (simp add: btp_init_def ITS_EPOCH_MS_def ELAPSED_MILLISECONDS_def ITS_EPOCH_def
        ELAPSED_SECONDS_def) blast
qed


text \<open>The first message of a station, which sets the interval to 100 ms.\<close>

lemma station_sends:
  assumes "message_for sample_report now_ms m = Inr cam" "cm_btp_router m = btp_init (station 1)"
    and "cm_asn1 m = (\<lambda>type cam. Inr [1, 2])" "cm_ldm m = None"
  shows "\<exists>m1. send_cam cam m = (Inr (), m1)"
proof -
  have other: "(1 :: byte) \<noteq> 2" by simp
  have "valid_btp_request (cam_btp_request [1, 2])" by (rule valid_cam_btp_request) simp
  then obtain btp where "btp_data_request (cam_btp_request [1, 2]) (cm_btp_router m) = (Inr (), btp)"
    by (rule btp_transfer [where s = "cm_btp_router m" and b = cam_listener and f = "\<lambda>_ _. Inr ()"])
      (use assms(2) other in \<open>simp_all add: btp_init_def\<close>)
  then show ?thesis using send_cam_succeeds [OF assms(1)] assms(3,4) by (metis ldm_accepts_simps(1))
qed

lemma cam_interval_witness:
  "\<exists>m'. cam_timer_expires started_manager = (Inr (), m') \<and> cm_t_gen_cam started_manager = 1000
     \<and> cm_t_gen_cam m' = 100 \<and> cm_last_cam_time_ms m' = Some (cm_now_ms started_manager)"
proof -
  define m0 where "m0 = started_manager\<lparr>cm_timer := None\<rparr>"
  have m0: "cm_btp_router m0 = btp_init (station 1)" "cm_asn1 m0 = (\<lambda>type cam. Inr [1, 2])"
    "cm_ldm m0 = None" "gdt_of (cm_parse m0) sample_report = Inr (msec (gdt_from_timestamp 2000000000))"
    "cm_current_tpv m0 = Some sample_report" "cam_due sample_report m0"
    by (simp_all add: m0_def started_manager_def cam_start_run cam_location_service_callback_def
        cam_manager_init_def gdt_of_def cam_due_def)
  obtain cam m1 where sent: "message_for sample_report (cm_now_ms m0) m0 = Inr cam"
    "send_cam cam m0 = (Inr (), m1)"
    using message_exists [OF m0(4,2)] station_sends [OF _ m0(1-3)] by blast
  obtain r m' where run: "cam_timer_expires started_manager = (r, m')" by fastforce
  obtain m2 where eval: "evaluate_and_maybe_send m0 = (r, m2)"
    and m': "m' = m2\<lparr>cm_timer := Some (cm_time started_manager + 1 / 10)\<rparr>"
    using timer_when_active [OF run] by (auto simp: m0_def)
  have "r = Inr ()"
    using eval m0 generate_succeeds [OF sent, of 1] by (auto simp: cam_evaluate_run m0_def)
  moreover have "cm_cam_count m' = cm_cam_count started_manager + 1"
    using evaluate_counts [OF eval m0(5)] m0(6) sent by (auto simp: m' m0_def)
  ultimately show ?thesis
    using cam_interval [OF started_manager_reachable _ _ run] run by simp
qed

end
