(* ===== verification/VamMessage.thy ===== *)
theory VamMessage
  imports CamMessage
begin

text \<open>
  The VRU awareness message
  (\<open>src/flexstack/facilities/vru_awareness_service/vam_transmission_management.py\<close>): device
  data, path history and prediction, and the message filled from a position report.
\<close>

section \<open>Device data\<close>

record DeviceDataProvider =
  dd_station_id :: int
  dd_station_type :: int
  dd_heading :: "(string \<times> pyval) list"
  dd_speed :: "(string \<times> pyval) list"
  dd_longitudinal_acceleration :: "(string \<times> pyval) list"

definition default_DeviceDataProvider :: DeviceDataProvider where
  "default_DeviceDataProvider =
     \<lparr>dd_station_id = 0, dd_station_type = 0,
      dd_heading = [(''value'', PInt 3601), (''confidence'', PInt 127)],
      dd_speed = [(''speedValue'', PInt 16383), (''speedConfidence'', PInt 127)],
      dd_longitudinal_acceleration =
        [(''longitudinalAccelerationValue'', PInt 161),
         (''longitudinalAccelerationConfidence'', PInt 102)]\<rparr>"

section \<open>Paths\<close>

record PathPoint =
  pp_path_position :: "pyval \<times> pyval \<times> pyval"
  pp_path_delta_time :: pyval

record PathPointPredicted =
  ppp_delta_latitude :: pyval
  ppp_delta_longitude :: pyval
  ppp_path_delta_time :: pyval

definition path_history_append :: "PathPoint \<Rightarrow> PathPoint list \<Rightarrow> PathPoint list" where
  "path_history_append path_point path_points =
     (if length path_points \<ge> 40 then tl path_points else path_points) @ [path_point]"

definition generate_path_history_dict :: "PathPoint list \<Rightarrow> pyval" where
  "generate_path_history_dict path_points =
     PList (map (\<lambda>p. case pp_path_position p of (lat, lon, alt) \<Rightarrow>
       PDict [(''pathPosition'', PDict [(''latitude'', lat), (''longitude'', lon), (''altitude'', alt)]),
              (''pathDeltaTime'', pp_path_delta_time p)]) path_points)"

definition path_point_predicted_to_dict :: "PathPointPredicted \<Rightarrow> pyval" where
  "path_point_predicted_to_dict p =
     PDict [(''deltaLatitude'', ppp_delta_latitude p), (''deltaLongitude'', ppp_delta_longitude p),
            (''pathDeltaTime'', ppp_path_delta_time p)]"

definition path_prediction_append ::
    "PathPointPredicted \<Rightarrow> PathPointPredicted list \<Rightarrow> PathPointPredicted list" where
  "path_prediction_append path_point path_points =
     (if length path_points \<ge> 15 then tl path_points else path_points) @ [path_point]"

definition generate_path_prediction_dict :: "PathPointPredicted list \<Rightarrow> pyval" where
  "generate_path_prediction_dict path_points =
     PDict [(''pathPointPredicted'', PList (map path_point_predicted_to_dict path_points))]"

record MotionPredictionContainer =
  mp_path_history :: "PathPoint list"
  mp_path_prediction :: "PathPointPredicted list"
  mp_safe_distance :: pyval
  mp_trajectory_interception_indication :: pyval
  mp_acceleration_change_indication :: pyval
  mp_heading_change_indication :: pyval
  mp_stability_change_indication :: pyval

definition generate_motion_container_message :: "MotionPredictionContainer \<Rightarrow> pyval" where
  "generate_motion_container_message c =
     PDict [(''pathHistory'', generate_path_history_dict (mp_path_history c)),
            (''pathPrediction'', generate_path_prediction_dict (mp_path_prediction c)),
            (''safeDistance'', mp_safe_distance c),
            (''trajectoryInterceptionIndication'', mp_trajectory_interception_indication c),
            (''accelerationChangeIndication'', mp_acceleration_change_indication c),
            (''headingChangeIndication'', mp_heading_change_indication c),
            (''stabilityChangeIndication'', mp_stability_change_indication c)]"

section \<open>The message\<close>

definition generate_white_vam :: pyval where
  "generate_white_vam = PDict
     [(''header'', PDict [(''protocolVersion'', PInt 3), (''messageId'', PInt 16), (''stationId'', PInt 0)]),
      (''vam'', PDict
        [(''generationDeltaTime'', PInt 0),
         (''vamParameters'', PDict
           [(''basicContainer'', PDict
              [(''stationType'', PInt 15),
               (''referencePosition'', PDict
                 [(''latitude'', PInt 900000001),
                  (''longitude'', PInt 1800000001),
                  (''positionConfidenceEllipse'', PDict
                    [(''semiMajorAxisLength'', PInt 4095),
                     (''semiMinorAxisLength'', PInt 4095),
                     (''semiMajorAxisOrientation'', PInt 3601)]),
                  (''altitude'', PDict
                    [(''altitudeValue'', PInt 800001),
                     (''altitudeConfidence'', PStr ''unavailable'')])])]),
            (''vruHighFrequencyContainer'', PDict
              [(''heading'', PDict [(''value'', PInt 3601), (''confidence'', PInt 127)]),
               (''speed'', PDict [(''speedValue'', PInt 16383), (''speedConfidence'', PInt 127)]),
               (''longitudinalAcceleration'', PDict
                 [(''longitudinalAccelerationValue'', PInt 161),
                  (''longitudinalAccelerationConfidence'', PInt 102)])])])])]"

abbreviation vam_params :: "py_step list" where
  "vam_params \<equiv> [Key ''vam'', Key ''vamParameters'']"

abbreviation vam_position :: "py_step list" where
  "vam_position \<equiv> [Key ''vam'', Key ''vamParameters'', Key ''basicContainer'', Key ''referencePosition'']"

abbreviation vam_hf :: "py_step list" where
  "vam_hf \<equiv> [Key ''vam'', Key ''vamParameters'', Key ''vruHighFrequencyContainer'']"

definition fullfill_with_device_data :: "DeviceDataProvider \<Rightarrow> pyval \<Rightarrow> pyval result" where
  "fullfill_with_device_data d vam =
     rbind (py_set [Key ''header'', Key ''stationId''] (PInt (dd_station_id d)) vam) (\<lambda>vam.
     rbind (py_set (vam_params @ [Key ''basicContainer'', Key ''stationType''])
       (PInt (dd_station_type d)) vam) (\<lambda>vam.
     rbind (py_set (vam_hf @ [Key ''heading'']) (PDict (dd_heading d)) vam) (\<lambda>vam.
     rbind (py_set (vam_hf @ [Key ''speed'']) (PDict (dd_speed d)) vam) (\<lambda>vam.
     py_set (vam_hf @ [Key ''longitudinalAcceleration''])
       (PDict (dd_longitudinal_acceleration d)) vam))))"

definition vam_fullfill_gen_delta_time ::
    "(string \<Rightarrow> real result) \<Rightarrow> Report \<Rightarrow> pyval \<Rightarrow> pyval result" where
  "vam_fullfill_gen_delta_time parse tpv =
     when_some (rp_time tpv) (\<lambda>time vam.
       rbind (parse time) (\<lambda>timestamp.
       py_set [Key ''vam'', Key ''generationDeltaTime''] (PInt (msec (gdt_from_timestamp timestamp))) vam))"

text \<open>Unlike the one of the cooperative awareness message, it does not order the two lengths.\<close>

definition vam_create_position_confidence :: "real \<Rightarrow> real \<Rightarrow> pyval" where
  "vam_create_position_confidence epx epy =
     PDict [(''semiMajorAxisLength'', PInt (py_int (epx * 100))),
            (''semiMinorAxisLength'', PInt (py_int (epy * 100))),
            (''semiMajorAxisOrientation'', PInt 0)]"

definition vam_fullfill_basic_container :: "Report \<Rightarrow> pyval \<Rightarrow> pyval result" where
  "vam_fullfill_basic_container tpv vam =
     rbind (when_some (rp_lat tpv)
       (\<lambda>lat. py_set (vam_position @ [Key ''latitude'']) (PInt (py_int (lat * 10000000)))) vam) (\<lambda>vam.
     rbind (when_some (rp_lon tpv)
       (\<lambda>lon. py_set (vam_position @ [Key ''longitude'']) (PInt (py_int (lon * 10000000)))) vam) (\<lambda>vam.
     rbind (case (rp_epx tpv, rp_epy tpv) of
         (Some epx, Some epy) \<Rightarrow> py_set (vam_position @ [Key ''positionConfidenceEllipse''])
           (vam_create_position_confidence epx epy) vam
       | _ \<Rightarrow> Inr vam) (\<lambda>vam.
     rbind (when_some (rp_altHAE tpv)
       (\<lambda>alt. py_set (vam_position @ [Key ''altitude'', Key ''altitudeValue''])
         (PInt (altitude_value alt))) vam) (\<lambda>vam.
     when_some (rp_epv tpv)
       (\<lambda>epv. py_set (vam_position @ [Key ''altitude'', Key ''altitudeConfidence''])
         (PStr (create_altitude_confidence epv))) vam))))"

definition vam_fullfill_high_frequency_container :: "Report \<Rightarrow> pyval \<Rightarrow> pyval result" where
  "vam_fullfill_high_frequency_container tpv vam =
     rbind (when_some (rp_track tpv)
       (\<lambda>track. py_set (vam_hf @ [Key ''heading'', Key ''value'']) (PInt (py_int (track * 10)))) vam) (\<lambda>vam.
     rbind (when_some (rp_epd tpv)
       (\<lambda>epd. py_set (vam_hf @ [Key ''heading'', Key ''confidence''])
         (PInt (create_heading_confidence epd))) vam) (\<lambda>vam.
     when_some (rp_speed tpv)
       (\<lambda>speed. py_set (vam_hf @ [Key ''speed'', Key ''speedValue''])
         (PInt (speed_value speed))) vam))"

text \<open>\<open>fullfill_with_tpv_data\<close>, inherited, calls the methods of the subclass.\<close>

definition vam_fullfill_with_tpv_data ::
    "(string \<Rightarrow> real result) \<Rightarrow> Report \<Rightarrow> pyval \<Rightarrow> pyval result" where
  "vam_fullfill_with_tpv_data parse tpv vam =
     rbind (vam_fullfill_gen_delta_time parse tpv vam) (\<lambda>vam.
     rbind (vam_fullfill_basic_container tpv vam) (\<lambda>vam.
     vam_fullfill_high_frequency_container tpv vam))"

section \<open>The filled message\<close>

definition vam_dict :: "DeviceDataProvider \<Rightarrow> int \<Rightarrow> pyval \<Rightarrow> pyval \<Rightarrow> (string \<times> pyval) list \<Rightarrow> pyval" where
  "vam_dict d gdt pos hf containers = PDict
     [(''header'', PDict
        [(''protocolVersion'', PInt 3), (''messageId'', PInt 16), (''stationId'', PInt (dd_station_id d))]),
      (''vam'', PDict
        [(''generationDeltaTime'', PInt gdt),
         (''vamParameters'', PDict
           ([(''basicContainer'', PDict
               [(''stationType'', PInt (dd_station_type d)), (''referencePosition'', pos)]),
             (''vruHighFrequencyContainer'', hf)]
            @ containers))])]"

definition vam_ellipse_of :: "Report \<Rightarrow> pyval" where
  "vam_ellipse_of tpv = (case (rp_epx tpv, rp_epy tpv) of
       (Some epx, Some epy) \<Rightarrow> vam_create_position_confidence epx epy
     | _ \<Rightarrow> PDict [(''semiMajorAxisLength'', PInt 4095), (''semiMinorAxisLength'', PInt 4095),
              (''semiMajorAxisOrientation'', PInt 3601)])"

definition vam_reference_position :: "Report \<Rightarrow> pyval" where
  "vam_reference_position tpv = position_dict
     (PInt (field_or 900000001 (\<lambda>x. py_int (x * 10000000)) (rp_lat tpv)))
     (PInt (field_or 1800000001 (\<lambda>x. py_int (x * 10000000)) (rp_lon tpv)))
     (vam_ellipse_of tpv)
     (PInt (field_or 800001 altitude_value (rp_altHAE tpv)))
     (PStr (field_or ''unavailable'' create_altitude_confidence (rp_epv tpv)))"

text \<open>A dictionary with a field written when the report has it.\<close>

definition with_field :: "string \<Rightarrow> ('a \<Rightarrow> int) \<Rightarrow> 'a option \<Rightarrow> (string \<times> pyval) list \<Rightarrow> (string \<times> pyval) list" where
  "with_field k f x d = (case x of None \<Rightarrow> d | Some y \<Rightarrow> AList.update k (PInt (f y)) d)"

lemma with_field_simps [simp]:
  "with_field k f None d = d" "with_field k f (Some y) d = AList.update k (PInt (f y)) d"
  by (simp_all add: with_field_def)

definition vam_hf_dict :: "DeviceDataProvider \<Rightarrow> (string \<times> pyval) list \<Rightarrow> (string \<times> pyval) list \<Rightarrow> pyval" where
  "vam_hf_dict d heading speed = PDict
     [(''heading'', PDict heading), (''speed'', PDict speed),
      (''longitudinalAcceleration'', PDict (dd_longitudinal_acceleration d))]"

definition vam_heading :: "DeviceDataProvider \<Rightarrow> Report \<Rightarrow> (string \<times> pyval) list" where
  "vam_heading d tpv = with_field ''confidence'' create_heading_confidence (rp_epd tpv)
     (with_field ''value'' (\<lambda>x. py_int (x * 10)) (rp_track tpv) (dd_heading d))"

definition vam_speed :: "DeviceDataProvider \<Rightarrow> Report \<Rightarrow> (string \<times> pyval) list" where
  "vam_speed d tpv = with_field ''speedValue'' speed_value (rp_speed tpv) (dd_speed d)"

definition filled_vam :: "DeviceDataProvider \<Rightarrow> int \<Rightarrow> Report \<Rightarrow> (string \<times> pyval) list \<Rightarrow> pyval" where
  "filled_vam d gdt tpv containers = vam_dict d gdt (vam_reference_position tpv)
     (vam_hf_dict d (vam_heading d tpv) (vam_speed d tpv)) containers"

lemma vam_set_position:
  "py_set (vam_position @ [Key k]) w (vam_dict d g pos hf cs)
    = rbind (py_set [Key k] w pos) (\<lambda>pos. Inr (vam_dict d g pos hf cs))"
  "py_set (vam_position @ [Key k, Key k']) w (vam_dict d g pos hf cs)
    = rbind (py_set [Key k, Key k'] w pos) (\<lambda>pos. Inr (vam_dict d g pos hf cs))"
  by (simp_all add: vam_dict_def rbind_assoc)

lemma vam_set_hf:
  "py_set (vam_hf @ [Key k, Key k']) w (vam_dict d g pos hf cs)
    = rbind (py_set [Key k, Key k'] w hf) (\<lambda>hf. Inr (vam_dict d g pos hf cs))"
  by (simp add: vam_dict_def rbind_assoc)

lemma vam_set_container:
  "py_set [Key ''vam'', Key ''vamParameters'', Key k] w (vam_dict d g pos hf cs)
    = Inr (vam_dict d g pos hf (AList.update k w cs))"
  if "k \<noteq> ''basicContainer''" "k \<noteq> ''vruHighFrequencyContainer''"
  using that by (simp add: vam_dict_def)

lemma vam_when_some:
  "when_some x (\<lambda>y. py_set (vam_position @ [Key k]) (h y)) (vam_dict d g pos hf cs)
    = rbind (when_some x (\<lambda>y. py_set [Key k] (h y)) pos) (\<lambda>pos. Inr (vam_dict d g pos hf cs))"
  "when_some x (\<lambda>y. py_set (vam_position @ [Key k, Key k']) (h y)) (vam_dict d g pos hf cs)
    = rbind (when_some x (\<lambda>y. py_set [Key k, Key k'] (h y)) pos) (\<lambda>pos. Inr (vam_dict d g pos hf cs))"
  "when_some x (\<lambda>y. py_set (vam_hf @ [Key k, Key k']) (h y)) (vam_dict d g pos hf cs)
    = rbind (when_some x (\<lambda>y. py_set [Key k, Key k'] (h y)) hf) (\<lambda>hf. Inr (vam_dict d g pos hf cs))"
  by (cases x; simp only: when_some_simps vam_set_position vam_set_hf rbind_simps)+

lemma vam_when_some_hf:
  "when_some x (\<lambda>y. py_set [Key ''heading'', Key k] (PInt (i y))) (vam_hf_dict d heading speed)
    = Inr (vam_hf_dict d (with_field k i x heading) speed)"
  "when_some x (\<lambda>y. py_set [Key ''speed'', Key k] (PInt (i y))) (vam_hf_dict d heading speed)
    = Inr (vam_hf_dict d heading (with_field k i x speed))"
  by (cases x; simp add: vam_hf_dict_def)+

lemma vam_fullfill_device:
  "fullfill_with_device_data d generate_white_vam
    = Inr (vam_dict d 0 (reference_position no_report) (vam_hf_dict d (dd_heading d) (dd_speed d)) [])"
  by (simp add: fullfill_with_device_data_def generate_white_vam_def vam_dict_def vam_hf_dict_def
      reference_position_def position_dict_def ellipse_of_def no_report_def)

lemma vam_fullfill_time:
  "vam_fullfill_gen_delta_time parse tpv (vam_dict d 0 pos hf cs)
    = rbind (gdt_of parse tpv) (\<lambda>g. Inr (vam_dict d g pos hf cs))"
  by (cases "rp_time tpv"; cases "parse (the (rp_time tpv))")
    (simp_all add: vam_fullfill_gen_delta_time_def gdt_of_def vam_dict_def)

lemma vam_fullfill_basic:
  "vam_fullfill_basic_container tpv (vam_dict d g (reference_position no_report) hf cs)
    = Inr (vam_dict d g (vam_reference_position tpv) hf cs)"
proof -
  have white: "reference_position no_report = position_dict (PInt 900000001) (PInt 1800000001)
      (PDict [(''semiMajorAxisLength'', PInt 4095), (''semiMinorAxisLength'', PInt 4095),
        (''semiMajorAxisOrientation'', PInt 3601)]) (PInt 800001) (PStr ''unavailable'')"
    by (simp add: reference_position_def no_report_def ellipse_of_def)
  have ellipse: "(case (rp_epx tpv, rp_epy tpv) of
        (Some epx, Some epy) \<Rightarrow> py_set (vam_position @ [Key ''positionConfidenceEllipse''])
           (vam_create_position_confidence epx epy) (vam_dict d g (position_dict lat lon
             (PDict [(''semiMajorAxisLength'', PInt 4095), (''semiMinorAxisLength'', PInt 4095),
              (''semiMajorAxisOrientation'', PInt 3601)]) alt conf) hf cs)
      | _ \<Rightarrow> Inr (vam_dict d g (position_dict lat lon
             (PDict [(''semiMajorAxisLength'', PInt 4095), (''semiMinorAxisLength'', PInt 4095),
              (''semiMajorAxisOrientation'', PInt 3601)]) alt conf) hf cs))
      = Inr (vam_dict d g (position_dict lat lon (vam_ellipse_of tpv) alt conf) hf cs)" for lat lon alt conf
    by (cases "rp_epx tpv"; cases "rp_epy tpv")
      (simp_all only: vam_ellipse_of_def option.case prod.case vam_set_position set_position_dict rbind_simps)
  show ?thesis
    unfolding vam_fullfill_basic_container_def white
    by (simp only: vam_when_some when_some_set rbind_simps ellipse vam_reference_position_def)
qed

lemma vam_fullfill_high_frequency:
  "vam_fullfill_high_frequency_container tpv (vam_dict d g pos (vam_hf_dict d (dd_heading d) (dd_speed d)) cs)
    = Inr (vam_dict d g pos (vam_hf_dict d (vam_heading d tpv) (vam_speed d tpv)) cs)"
  unfolding vam_fullfill_high_frequency_container_def
  by (simp only: vam_when_some vam_when_some_hf rbind_simps vam_heading_def vam_speed_def)

text \<open>The message that a report gives; only the parser of the time can fail.\<close>

lemma vam_filled:
  "rbind (fullfill_with_device_data d generate_white_vam) (vam_fullfill_with_tpv_data parse tpv)
    = rbind (gdt_of parse tpv) (\<lambda>g. Inr (filled_vam d g tpv []))"
  by (cases "gdt_of parse tpv")
    (simp_all add: vam_fullfill_device vam_fullfill_with_tpv_data_def filled_vam_def vam_fullfill_time
      vam_fullfill_basic vam_fullfill_high_frequency)

section \<open>Path history\<close>

text \<open>Appending keeps the last 40 points.\<close>

lemma path_history_window:
  "fold path_history_append ps [] = drop (length ps - 40) ps"
proof (induction ps rule: rev_induct)
  case (snoc p ps)
  show ?case
  proof (cases "length ps \<ge> 40")
    case True
    then have "length (ps @ [p]) - 40 = Suc (length ps - 40)" by simp
    then have "tl (drop (length ps - 40) ps) = drop (length (ps @ [p]) - 40) ps"
      by (simp add: tl_drop drop_Suc)
    then show ?thesis using snoc True by (simp add: path_history_append_def)
  next
    case False
    then show ?thesis using snoc by (simp add: path_history_append_def)
  qed
qed simp

end
