(* ===== verification/LdmClasses.thy ===== *)
theory LdmClasses
  imports PyValue PositionVector Sphere
begin

text \<open>
  The data types of the local dynamic map
  (\<open>src/flexstack/facilities/local_dynamic_map/ldm_classes.py\<close> and \<open>ldm_constants.py\<close>): times,
  places, requests and responses with their dictionary forms, filters, and the helpers that
  search nested dictionaries. The integers of a position come from decoded messages and are
  Python values here.
\<close>

section \<open>Times\<close>

type_synonym TimestampIts = int

definition transform_utc_seconds_timestamp_to_timestamp_its :: "int \<Rightarrow> TimestampIts" where
  "transform_utc_seconds_timestamp_to_timestamp_its utc = (utc - ITS_EPOCH + ELAPSED_SECONDS) * 1000"

text \<open>\<open>now\<close> is \<open>TimeService.time()\<close>; no argument and 0 both mean the present.\<close>

definition initialize_with_utc_timestamp_seconds :: "real \<Rightarrow> int option \<Rightarrow> TimestampIts" where
  "initialize_with_utc_timestamp_seconds now utc =
     (case utc of
        Some s \<Rightarrow> if s \<noteq> 0 then transform_utc_seconds_timestamp_to_timestamp_its s
                  else transform_utc_seconds_timestamp_to_timestamp_its (py_int now)
      | None \<Rightarrow> transform_utc_seconds_timestamp_to_timestamp_its (py_int now))"

definition to_etsi_its :: "int \<Rightarrow> int" where
  "to_etsi_its time = (time - ITS_EPOCH) * 1000"

section \<open>Message types\<close>

definition DENM :: int where "DENM = 1"
definition CAM :: int where "CAM = 2"
definition SPATEM :: int where "SPATEM = 4"
definition MAPEM :: int where "MAPEM = 5"
definition VAM :: int where "VAM = 16"

definition VALID_ITS_AID :: "int list" where
  "VALID_ITS_AID = [1..21]"

definition DATA_OBJECT_TYPE_ID :: "(int, string) dict" where
  "DATA_OBJECT_TYPE_ID =
     [(1, ''denm''), (2, ''cam''), (3, ''poi''), (4, ''spatem''), (5, ''mapem''), (6, ''ivim''),
      (7, ''ev-rsr''), (8, ''tistpgtransaction''), (9, ''srem''), (10, ''ssem''), (11, ''evcsn''),
      (12, ''saem''), (13, ''rtcmem''), (14, ''cpm''), (15, ''imzm''), (16, ''vam''), (17, ''dsm''),
      (18, ''pcim''), (19, ''pcvm''), (20, ''payload''), (21, ''pam'')]"

section \<open>Places\<close>

record PositionConfidenceEllipse =
  pce_semi_major_confidence :: pyval
  pce_semi_minor_confidence :: pyval
  pce_semi_major_orientation :: pyval

record Altitude =
  altd_value :: pyval
  altd_confidence :: pyval

record ReferencePosition =
  rfp_latitude :: pyval
  rfp_longitude :: pyval
  rfp_position_confidence_ellipse :: PositionConfidenceEllipse
  rfp_altitude :: Altitude

text \<open>A rectangle or an ellipse: two semi axes and the direction.\<close>

record Axes =
  axs_a_semi_axis :: int
  axs_b_semi_axis :: int
  axs_azimuth_angle :: int

datatype RelevanceTrafficDirection =
  ALL_TRAFFIC_DIRECTIONS | UPSTREAM_TRAFFIC | DOWNSTREAM_TRAFFIC | OPPOSITE_TRAFFIC

fun traffic_direction_value :: "RelevanceTrafficDirection \<Rightarrow> int" where
  "traffic_direction_value ALL_TRAFFIC_DIRECTIONS = 0"
| "traffic_direction_value UPSTREAM_TRAFFIC = 1"
| "traffic_direction_value DOWNSTREAM_TRAFFIC = 2"
| "traffic_direction_value OPPOSITE_TRAFFIC = 3"

definition traffic_direction_members :: "RelevanceTrafficDirection list" where
  "traffic_direction_members =
     [ALL_TRAFFIC_DIRECTIONS, UPSTREAM_TRAFFIC, DOWNSTREAM_TRAFFIC, OPPOSITE_TRAFFIC]"

record GeometricArea =
  ga_circle :: "int option"
  ga_rectangle :: "Axes option"
  ga_ellipse :: "Axes option"

record RelevanceArea =
  ra_relevance_distance :: int
  ra_relevance_traffic_direction :: RelevanceTrafficDirection

record Location =
  loc_reference_position :: ReferencePosition
  loc_geometric_area :: GeometricArea
  loc_relevance_area :: RelevanceArea

definition convert_latitude_to_its_latitude :: "real \<Rightarrow> int" where
  "convert_latitude_to_its_latitude latitude =
     (let its_latitude = py_int (latitude * 10000000)
      in if its_latitude < -900000000 \<or> its_latitude > 900000000 then 900000001 else its_latitude)"

definition convert_longitude_to_its_longitude :: "real \<Rightarrow> int" where
  "convert_longitude_to_its_longitude longitude =
     (let its_longitude = py_int (longitude * 10000000)
      in if its_longitude \<le> -1800000000 \<or> its_longitude > 1800000000 then 1800000001
         else its_longitude)"

definition reference_position_to_dict :: "ReferencePosition \<Rightarrow> pyval" where
  "reference_position_to_dict p = PDict
     [(''latitude'', rfp_latitude p), (''longitude'', rfp_longitude p),
      (''positionConfidenceEllipse'', PDict
         [(''semiMajorConfidence'', pce_semi_major_confidence (rfp_position_confidence_ellipse p)),
          (''semiMinorConfidence'', pce_semi_minor_confidence (rfp_position_confidence_ellipse p)),
          (''semiMajorOrientation'', pce_semi_major_orientation (rfp_position_confidence_ellipse p))]),
      (''altitude'', PDict
         [(''altitudeValue'', altd_value (rfp_altitude p)),
          (''altitudeConfidence'', altd_confidence (rfp_altitude p))])]"

text \<open>A report of \<open>gpsd\<close>, as a dictionary; the result does not depend on the position it is called on.\<close>

definition update_with_gpsd_tpv :: "pyval \<Rightarrow> ReferencePosition result" where
  "update_with_gpsd_tpv tpv =
     rbind (rbind (py_item tpv ''lat'') py_num) (\<lambda>lat.
     rbind (rbind (py_item tpv ''lon'') py_num) (\<lambda>lon.
     rbind (py_item tpv ''epx'') (\<lambda>epx.
     rbind (py_item tpv ''epy'') (\<lambda>epy.
     rbind (py_item tpv ''track'') (\<lambda>track.
     rbind (py_item tpv ''alt'') (\<lambda>alt.
     rbind (py_item tpv ''epv'') (\<lambda>epv.
     Inr \<lparr>rfp_latitude = PInt (convert_latitude_to_its_latitude lat),
          rfp_longitude = PInt (convert_longitude_to_its_longitude lon),
          rfp_position_confidence_ellipse = \<lparr>pce_semi_major_confidence = epx,
            pce_semi_minor_confidence = epy, pce_semi_major_orientation = track\<rparr>,
          rfp_altitude = \<lparr>altd_value = alt, altd_confidence = epv\<rparr>\<rparr>)))))))"

definition compare_with_int :: "int \<Rightarrow> int \<Rightarrow> bool result" where
  "compare_with_int relevance_distance value =
     (if relevance_distance = 0 then Inr (value < 50)
      else if relevance_distance = 1 then Inr (value < 100)
      else if relevance_distance = 2 then Inr (value < 200)
      else if relevance_distance = 3 then Inr (value < 500)
      else if relevance_distance = 4 then Inr (value < 1000)
      else if relevance_distance = 5 then Inr (value < 5000)
      else if relevance_distance = 6 then Inr (value < 10000)
      else if relevance_distance = 7 then Inr (value > 20000)
      else Inl ValueError)"

text \<open>The location of the map, with the defaults of \<open>Location.initializer\<close> for the shapes.\<close>

definition location_initializer :: "pyval \<Rightarrow> pyval \<Rightarrow> pyval \<Rightarrow> int \<Rightarrow> int \<Rightarrow> Location" where
  "location_initializer latitude longitude altitude radius relevance_distance =
     \<lparr>loc_reference_position = \<lparr>rfp_latitude = latitude, rfp_longitude = longitude,
        rfp_position_confidence_ellipse = \<lparr>pce_semi_major_confidence = PInt 0,
          pce_semi_minor_confidence = PInt 0, pce_semi_major_orientation = PInt 0\<rparr>,
        rfp_altitude = \<lparr>altd_value = altitude, altd_confidence = PInt 0\<rparr>\<rparr>,
      loc_geometric_area = \<lparr>ga_circle = Some radius, ga_rectangle = None, ga_ellipse = None\<rparr>,
      loc_relevance_area = \<lparr>ra_relevance_distance = relevance_distance,
        ra_relevance_traffic_direction = ALL_TRAFFIC_DIRECTIONS\<rparr>\<rparr>"

definition location_builder_circle :: "pyval \<Rightarrow> pyval \<Rightarrow> pyval \<Rightarrow> int \<Rightarrow> Location" where
  "location_builder_circle latitude longitude altitude radius =
     \<lparr>loc_reference_position = \<lparr>rfp_latitude = latitude, rfp_longitude = longitude,
        rfp_position_confidence_ellipse = \<lparr>pce_semi_major_confidence = PInt 0,
          pce_semi_minor_confidence = PInt 0, pce_semi_major_orientation = PInt 0\<rparr>,
        rfp_altitude = \<lparr>altd_value = altitude, altd_confidence = PInt 0\<rparr>\<rparr>,
      loc_geometric_area = \<lparr>ga_circle = Some radius, ga_rectangle = None, ga_ellipse = None\<rparr>,
      loc_relevance_area = \<lparr>ra_relevance_distance = 1,
        ra_relevance_traffic_direction = ALL_TRAFFIC_DIRECTIONS\<rparr>\<rparr>"

section \<open>Adding data\<close>

record AddDataProviderReq =
  adr_application_id :: int
  adr_timestamp :: TimestampIts
  adr_location :: Location
  adr_data_object :: pyval
  adr_time_validity :: int

text \<open>A \<open>Direction\<close> object inside a dictionary is written as a pair with its class name.\<close>

definition direction_value :: "int \<Rightarrow> pyval" where
  "direction_value n = PTuple [PStr ''Direction'', PInt n]"

definition axes_to_dict :: "Axes option \<Rightarrow> pyval" where
  "axes_to_dict a =
     (case a of
        None \<Rightarrow> PNone
      | Some r \<Rightarrow> PDict [(''aSemiAxis'', PInt (axs_a_semi_axis r)), (''bSemiAxis'', PInt (axs_b_semi_axis r)),
          (''azimuthAngle'', direction_value (axs_azimuth_angle r))])"

text \<open>The orientation of the ellipse is filled with the minor confidence, as the code does.\<close>

definition location_to_dict :: "Location \<Rightarrow> pyval" where
  "location_to_dict l =
     (let p = loc_reference_position l; e = rfp_position_confidence_ellipse p in PDict
     [(''referencePosition'', PDict
        [(''latitude'', rfp_latitude p), (''longitude'', rfp_longitude p),
         (''positionConfidenceEllipse'', PDict
           [(''semiMajorConfidence'', pce_semi_major_confidence e),
            (''semiMinorConfidence'', pce_semi_minor_confidence e),
            (''semiMajorOrientation'', pce_semi_minor_confidence e)]),
         (''altitude'', PDict
           [(''altitudeValue'', altd_value (rfp_altitude p)),
            (''altitudeConfidence'', altd_confidence (rfp_altitude p))])]),
      (''referenceArea'', PDict
        [(''geometricArea'', PDict
           [(''circle'', case ga_circle (loc_geometric_area l) of
               None \<Rightarrow> PNone | Some r \<Rightarrow> PDict [(''radius'', PInt r)]),
            (''rectangle'', axes_to_dict (ga_rectangle (loc_geometric_area l))),
            (''ellipse'', axes_to_dict (ga_ellipse (loc_geometric_area l)))]),
         (''relevanceArea'', PDict
           [(''relevanceDistance'', PInt (ra_relevance_distance (loc_relevance_area l))),
            (''relevanceTrafficDirection'', PInt (traffic_direction_value
               (ra_relevance_traffic_direction (loc_relevance_area l))))])])])"

definition add_data_to_dict :: "AddDataProviderReq \<Rightarrow> pyval" where
  "add_data_to_dict r = PDict
     [(''application_id'', PInt (adr_application_id r)),
      (''timestamp'', PInt (adr_timestamp r)),
      (''location'', location_to_dict (adr_location r)),
      (''dataObject'', adr_data_object r),
      (''timeValidity'', PInt (adr_time_validity r))]"

text \<open>Reading: an integer field with another type of value counts as a wrong type.\<close>

fun as_int :: "pyval \<Rightarrow> int result" where
  "as_int (PInt n) = Inr n"
| "as_int _ = Inl TypeError"

fun as_direction :: "pyval \<Rightarrow> int result" where
  "as_direction (PTuple [PStr s, PInt n]) = (if s = ''Direction'' then Inr n else Inl TypeError)"
| "as_direction _ = Inl TypeError"

definition axes_from_dict :: "pyval \<Rightarrow> Axes result" where
  "axes_from_dict v =
     (if py_truth v then
        rbind (rbind (py_item v ''aSemiAxis'') as_int) (\<lambda>a.
        rbind (rbind (py_item v ''bSemiAxis'') as_int) (\<lambda>b.
        rbind (rbind (py_item v ''azimuthAngle'') as_direction) (\<lambda>d.
        Inr \<lparr>axs_a_semi_axis = a, axs_b_semi_axis = b, axs_azimuth_angle = d\<rparr>)))
      else Inr \<lparr>axs_a_semi_axis = 0, axs_b_semi_axis = 0, axs_azimuth_angle = 0\<rparr>)"

definition reference_position_from_dict :: "pyval \<Rightarrow> ReferencePosition result" where
  "reference_position_from_dict v =
     rbind (py_get v ''latitude'' PNone) (\<lambda>lat.
     rbind (py_get v ''longitude'' PNone) (\<lambda>lon.
     rbind (py_path [Key ''positionConfidenceEllipse'', Key ''semiMajorConfidence''] v) (\<lambda>major.
     rbind (py_path [Key ''positionConfidenceEllipse'', Key ''semiMinorConfidence''] v) (\<lambda>minor.
     rbind (py_path [Key ''positionConfidenceEllipse'', Key ''semiMajorOrientation''] v) (\<lambda>orientation.
     rbind (py_path [Key ''altitude'', Key ''altitudeValue''] v) (\<lambda>alt.
     rbind (py_path [Key ''altitude'', Key ''altitudeConfidence''] v) (\<lambda>conf.
     Inr \<lparr>rfp_latitude = lat, rfp_longitude = lon,
          rfp_position_confidence_ellipse = \<lparr>pce_semi_major_confidence = major,
            pce_semi_minor_confidence = minor, pce_semi_major_orientation = orientation\<rparr>,
          rfp_altitude = \<lparr>altd_value = alt, altd_confidence = conf\<rparr>\<rparr>)))))))"

definition location_from_dict :: "pyval \<Rightarrow> Location result" where
  "location_from_dict v =
     rbind (rbind (py_get v ''referencePosition'' PNone) reference_position_from_dict) (\<lambda>position.
     rbind (py_get v ''referenceArea'' PNone) (\<lambda>area.
     rbind (py_path [Key ''geometricArea'', Key ''circle''] area) (\<lambda>circle.
     rbind (if py_truth circle then rbind (py_item circle ''radius'') as_int else Inr 0) (\<lambda>radius.
     rbind (rbind (py_path [Key ''geometricArea'', Key ''rectangle''] area) axes_from_dict) (\<lambda>rectangle.
     rbind (rbind (py_path [Key ''geometricArea'', Key ''ellipse''] area) axes_from_dict) (\<lambda>ellipse.
     rbind (rbind (py_path [Key ''relevanceArea'', Key ''relevanceDistance''] area) as_int) (\<lambda>distance.
     rbind (rbind (rbind (py_path [Key ''relevanceArea'', Key ''relevanceTrafficDirection''] area) as_int)
         (enum_of traffic_direction_members traffic_direction_value)) (\<lambda>direction.
     Inr \<lparr>loc_reference_position = position,
          loc_geometric_area = \<lparr>ga_circle = Some radius, ga_rectangle = Some rectangle, ga_ellipse = Some ellipse\<rparr>,
          loc_relevance_area = \<lparr>ra_relevance_distance = distance,
            ra_relevance_traffic_direction = direction\<rparr>\<rparr>))))))))"

definition add_data_from_dict :: "pyval \<Rightarrow> AddDataProviderReq result" where
  "add_data_from_dict v =
     rbind (py_get v ''application_id'' PNone) (\<lambda>application_id.
     rbind (rbind (py_get v ''timestamp'' (PInt 0)) as_int) (\<lambda>timestamp.
     rbind (py_get v ''location'' PNone) (\<lambda>location_data.
     rbind (py_get v ''dataObject'' PNone) (\<lambda>data_object.
     rbind (rbind (py_get v ''timeValidity'' (PInt 0)) as_int) (\<lambda>time_validity.
     if application_id = PNone \<or> location_data = PNone \<or> data_object = PNone then Inl ValueError
     else
       rbind (location_from_dict location_data) (\<lambda>location.
       rbind (as_int application_id) (\<lambda>aid.
       Inr \<lparr>adr_application_id = aid, adr_timestamp = timestamp, adr_location = location,
            adr_data_object = data_object, adr_time_validity = time_validity\<rparr>)))))))"


section \<open>Filters and requests\<close>

datatype OrderingDirection = ASCENDING | DESCENDING

record OrderTupleValue =
  otv_attribute :: string
  otv_ordering_direction :: OrderingDirection

datatype LogicalOperator = LOGICAL_AND | LOGICAL_OR

datatype ComparisonOperator =
  EQUAL | NOT_EQUAL | GREATER_THAN | LESS_THAN | GREATER_THAN_OR_EQUAL | LESS_THAN_OR_EQUAL
| LIKE | NOT_LIKE

text \<open>A reference value is a number or a text.\<close>

datatype ref_value = RefInt int | RefStr string

record FilterStatement =
  fs_attribute :: string
  fs_operator :: ComparisonOperator
  fs_ref_value :: ref_value

record Filter =
  flt_statement_1 :: FilterStatement
  flt_logical_operator :: "LogicalOperator option"
  flt_statement_2 :: "FilterStatement option"

text \<open>Callers give the order as a tuple or as a list, which the code tells apart.\<close>

datatype orders = OrderTuple "OrderTupleValue list" | OrderList "OrderTupleValue list"

fun order_values :: "orders \<Rightarrow> OrderTupleValue list" where
  "order_values (OrderTuple os) = os"
| "order_values (OrderList os) = os"

record RequestDataObjectsReq =
  rq_application_id :: int
  rq_data_object_type :: "int list"
  rq_priority :: "int option"
  rq_order :: "orders option"
  rq_filter :: "Filter option"

datatype RequestedDataObjectsResult =
  SUCCEED | INVALID_ITSA_ID | INVALID_DATA_OBJECT_TYPE | INVALID_PRIORITY | INVALID_FILTER | INVALID_ORDER

record RequestDataObjectsResp =
  rs_application_id :: int
  rs_data_objects :: "pyval list"
  rs_result :: RequestedDataObjectsResult

record SubscribeDataobjectsReq =
  sr_application_id :: int
  sr_data_object_type :: "int list"
  sr_priority :: "int option"
  sr_filter :: "Filter option"
  sr_notify_time :: "TimestampIts option"
  sr_multiplicity :: "int option"
  sr_order :: "orders option"

text \<open>The key of the first entry that names a message type, and its number.\<close>

definition object_type_name :: "pyval \<Rightarrow> string option result" where
  "object_type_name data_object =
     (case data_object of
        PDict d \<Rightarrow> Inr (find (\<lambda>k. k \<in> set (map snd DATA_OBJECT_TYPE_ID)) (map fst d))
      | _ \<Rightarrow> Inl AttributeError)"

definition get_object_type_from_data_object :: "pyval \<Rightarrow> int option result" where
  "get_object_type_from_data_object data_object =
     rbind (object_type_name data_object) (\<lambda>name.
     Inr (case name of
       None \<Rightarrow> None
     | Some n \<Rightarrow> map_option fst (find (\<lambda>(i, s). s = n) DATA_OBJECT_TYPE_ID)))"

fun filter_out_by_data_object_type :: "pyval list \<Rightarrow> int list \<Rightarrow> pyval list result" where
  "filter_out_by_data_object_type [] types = Inr []"
| "filter_out_by_data_object_type (c # cs) types =
     rbind (rbind (py_item c ''dataObject'') get_object_type_from_data_object) (\<lambda>t.
     rbind (filter_out_by_data_object_type cs types) (\<lambda>rest.
     Inr (case t of None \<Rightarrow> rest | Some n \<Rightarrow> if n \<in> set types then c # rest else rest)))"

section \<open>Nested dictionaries\<close>

fun get_nested :: "pyval \<Rightarrow> string list \<Rightarrow> pyval result" where
  "get_nested data [] = Inr PNone"
| "get_nested data (e # path) =
     (if py_truth data then
        rbind (py_contains e data) (\<lambda>found.
        if found
        then rbind (py_item data e) (\<lambda>v. if path = [] then Inr v else get_nested v path)
        else Inr PNone)
      else Inr PNone)"

lemma size_entry: "(k, v) \<in> set d \<Longrightarrow> size v < size (PDict d)"
  by (induction d) (auto simp: less_Suc_eq)

lemma size_element: "x \<in> set xs \<Longrightarrow> size x < size (PList xs)"
  by (induction xs) (auto simp: less_Suc_eq)

function find_attribute :: "string \<Rightarrow> (string \<times> pyval) list \<Rightarrow> string list" where
  "find_attribute a [] = []"
| "find_attribute a ((k, v) # d) =
     (if k = a then [k]
      else case v of
        PDict e \<Rightarrow> (let path = find_attribute a e in if path \<noteq> [] then k # path else find_attribute a d)
      | _ \<Rightarrow> find_attribute a d)"
  by pat_completeness auto
termination by (relation "measure (\<lambda>(a, d). size (PDict d))") auto

function check_field :: "string \<Rightarrow> pyval \<Rightarrow> bool" where
  "check_field f (PDict d) = (f \<in> set (map fst d) \<or> (\<exists>(k, v)\<in>set d. check_field f v))"
| "check_field f (PList xs) = (\<exists>x\<in>set xs. check_field f x)"
| "check_field f PNone = False"
| "check_field f (PBool b) = False"
| "check_field f (PInt n) = False"
| "check_field f (PFloat x) = False"
| "check_field f (PStr s) = False"
| "check_field f (PBytes bs) = False"
| "check_field f (PTuple xs) = False"
  by pat_completeness auto
termination
  by (relation "measure (\<lambda>(f, v). size v)") (auto dest: size_entry size_element)

definition ldm_haversine_distance :: "real \<times> real \<Rightarrow> real \<times> real \<Rightarrow> real" where
  "ldm_haversine_distance p q =
     (let a = haversine_term (fst p) (snd p) (fst q) (snd q)
      in 6371000 * (2 * atan2 (sqrt a) (sqrt (1 - a))))"

definition euclidian_distance :: "real \<times> real \<Rightarrow> real \<times> real \<Rightarrow> real" where
  "euclidian_distance p q = sqrt ((fst p - fst q) ^ 2 + (snd p - snd q) ^ 2)"

definition convert_etsi_coordinates_to_normal :: "int list \<Rightarrow> real list" where
  "convert_etsi_coordinates_to_normal point = map (\<lambda>c. of_int c / 10000000) point"

section \<open>The dictionary form of a request\<close>

definition read_axes :: "Axes option \<Rightarrow> Axes" where
  "read_axes a = (case a of
     None \<Rightarrow> \<lparr>axs_a_semi_axis = 0, axs_b_semi_axis = 0, axs_azimuth_angle = 0\<rparr> | Some r \<Rightarrow> r)"

text \<open>What reading makes of a location that was written.\<close>

definition read_back :: "Location \<Rightarrow> Location" where
  "read_back l =
     (let p = loc_reference_position l; e = rfp_position_confidence_ellipse p; g = loc_geometric_area l
      in l\<lparr>loc_reference_position := p\<lparr>rfp_position_confidence_ellipse :=
              e\<lparr>pce_semi_major_orientation := pce_semi_minor_confidence e\<rparr>\<rparr>,
           loc_geometric_area := \<lparr>
              ga_circle = Some (case ga_circle g of None \<Rightarrow> 0 | Some r \<Rightarrow> r),
              ga_rectangle = Some (read_axes (ga_rectangle g)),
              ga_ellipse = Some (read_axes (ga_ellipse g))\<rparr>\<rparr>)"

lemma axes_from_to: "axes_from_dict (axes_to_dict a) = Inr (read_axes a)"
  by (cases a) (simp_all add: axes_from_dict_def axes_to_dict_def direction_value_def read_axes_def)

lemma direction_from_to:
  "enum_of traffic_direction_members traffic_direction_value (traffic_direction_value d) = Inr d"
  by (cases d) (simp_all add: enum_of_def traffic_direction_members_def)

lemma location_from_to: "location_from_dict (location_to_dict l) = Inr (read_back l)"
proof -
  have circle: "(let c = (case x of None \<Rightarrow> PNone | Some r \<Rightarrow> PDict [(''radius'', PInt r)])
      in if py_truth c then rbind (py_item c ''radius'') as_int else Inr 0)
    = Inr (case x of None \<Rightarrow> 0 | Some r \<Rightarrow> r)" for x
    by (cases x) simp_all
  show ?thesis
    using circle [unfolded Let_def]
    by (simp add: location_from_dict_def location_to_dict_def Let_def reference_position_from_dict_def
        axes_from_to direction_from_to read_back_def)
qed

text \<open>
  A request to add data that is written as a dictionary, which is what the map stores, and
  read again gives the same request except for three things: the orientation of the confidence
  ellipse is replaced by its minor confidence, an absent circle becomes one of radius 0, and an
  absent rectangle or ellipse one with axes 0. A request without a data object is rejected.
\<close>

lemma add_data_round_trip:
  "add_data_from_dict (add_data_to_dict r) =
    (if adr_data_object r = PNone then Inl ValueError
     else Inr (r\<lparr>adr_location := read_back (adr_location r)\<rparr>))"
proof -
  have "location_to_dict l \<noteq> PNone" for l by (simp add: location_to_dict_def Let_def)
  then show ?thesis
    by (simp add: add_data_from_dict_def add_data_to_dict_def location_from_to)
qed

end
