(* ===== verification/VamTransmission.thy ===== *)
theory VamTransmission
  imports VamMessage VruReception Btp LdmClasses
begin

text \<open>
  The VRU awareness service (\<open>src/flexstack/facilities/vru_awareness_service/\<close>): the manager
  that sends a message when the location service reports a position that calls for one, with
  the containers of the cluster state machine, and the reception of messages. As for the CA
  service, the codec, the parser of times and the adapter of the local dynamic map are
  parameters and the GeoNetworking router has the clock.
\<close>

section \<open>Constants and state\<close>

definition T_GENVAMMIN :: int where "T_GENVAMMIN = 100"
definition T_GENVAM_LFMIN :: int where "T_GENVAM_LFMIN = 2000"
definition MINREFERENCEPOINTPOSITIONCHANGETHRESHOLD :: real where
  "MINREFERENCEPOINTPOSITIONCHANGETHRESHOLD = 4"
definition MINGROUNDSPEEDCHANGETHRESHOLD :: real where "MINGROUNDSPEEDCHANGETHRESHOLD = 1 / 2"
definition MINGROUNDVELOCITYORIENTATIONCHANGETHRESHOLD :: real where
  "MINGROUNDVELOCITYORIENTATIONCHANGETHRESHOLD = 4"

lemmas vam_thresholds =
  T_GENVAMMIN_def T_GENVAM_LFMIN_def MINREFERENCEPOINTPOSITIONCHANGETHRESHOLD_def
  MINGROUNDSPEEDCHANGETHRESHOLD_def MINGROUNDVELOCITYORIENTATIONCHANGETHRESHOLD_def

record vam_manager =
  vt_btp_router :: btp_router
  vt_device_data_provider :: DeviceDataProvider
  vt_encode :: "pyval \<Rightarrow> bytes result"
  vt_parse :: "string \<Rightarrow> real result"
  vt_ldm :: "(nat \<Rightarrow> pyval \<Rightarrow> unit result) option"
  vt_ldm_data :: "pyval list"
  vt_clustering_manager :: "vbs option"
  vt_t_genvam :: int
  vt_n_genvam :: int
  vt_last_vam_generation_delta_time :: "GenerationDeltaTime option"
  vt_last_sent_position :: "real \<times> real"
  vt_last_vam_speed :: real
  vt_last_vam_heading :: real
  vt_last_lf_vam_time :: "real option"
  vt_is_first_vam :: bool

definition vam_manager_init ::
    "btp_router \<Rightarrow> (pyval \<Rightarrow> bytes result) \<Rightarrow> (string \<Rightarrow> real result) \<Rightarrow> DeviceDataProvider
      \<Rightarrow> (nat \<Rightarrow> pyval \<Rightarrow> unit result) option \<Rightarrow> vbs option \<Rightarrow> vam_manager" where
  "vam_manager_init btp encode parse device ldm clustering =
     \<lparr>vt_btp_router = btp, vt_device_data_provider = device, vt_encode = encode, vt_parse = parse,
      vt_ldm = ldm, vt_ldm_data = [], vt_clustering_manager = clustering,
      vt_t_genvam = T_GENVAMMIN, vt_n_genvam = 1, vt_last_vam_generation_delta_time = None,
      vt_last_sent_position = (0, 0), vt_last_vam_speed = 0, vt_last_vam_heading = 0,
      vt_last_lf_vam_time = None, vt_is_first_vam = True\<rparr>"

definition vt_time :: "vam_manager \<Rightarrow> real" where
  "vt_time m = r_now (b_gn_router (vt_btp_router m))"

section \<open>Sending\<close>

definition vam_on_btp :: "(btp_router, 'a) prog \<Rightarrow> (vam_manager, 'a) prog" where
  "vam_on_btp p m = (let (r, b) = p (vt_btp_router m) in (r, m\<lparr>vt_btp_router := b\<rparr>))"

definition vam_add_to_ldm :: "pyval \<Rightarrow> (vam_manager, unit) prog" where
  "vam_add_to_ldm vam =
     bind_s (gets_s (\<lambda>m. m)) (\<lambda>m.
       case vt_ldm m of
         None \<Rightarrow> return_s ()
       | Some ldm \<Rightarrow>
           then_s (modify_s (\<lambda>m. m\<lparr>vt_ldm_data := vt_ldm_data m @ [vam]\<rparr>))
             (lift_s (ldm (length (vt_ldm_data m)) vam)))"

text \<open>\<open>params[k] = container\<close>, when there is one.\<close>

definition attach_container :: "string \<Rightarrow> pyval option \<Rightarrow> pyval \<Rightarrow> pyval result" where
  "attach_container k container vam =
     (case container of None \<Rightarrow> Inr vam | Some c \<Rightarrow> py_set (vam_params @ [Key k]) c vam)"

definition attach_cluster_containers :: "pyval \<Rightarrow> (vam_manager, pyval) prog" where
  "attach_cluster_containers vam =
     bind_s (gets_s vt_clustering_manager) (\<lambda>clustering.
       case clustering of
         None \<Rightarrow> return_s vam
       | Some v \<Rightarrow>
           bind_s (lift_s (attach_container ''vruClusterInformationContainer''
               (get_cluster_information_container v) vam)) (\<lambda>vam.
           case get_cluster_operation_container v of
             (Inl e, v') \<Rightarrow> then_s (modify_s (\<lambda>m. m\<lparr>vt_clustering_manager := Some v'\<rparr>)) (raise_s e)
           | (Inr cluster_op, v') \<Rightarrow>
               then_s (modify_s (\<lambda>m. m\<lparr>vt_clustering_manager := Some v'\<rparr>))
                 (lift_s (attach_container ''vruClusterOperationContainer'' cluster_op vam))))"

definition lf_due :: "real \<Rightarrow> bool \<Rightarrow> vam_manager \<Rightarrow> bool" where
  "lf_due now has_cluster_op m \<longleftrightarrow>
     vt_is_first_vam m
     \<or> (case vt_last_lf_vam_time m of
          None \<Rightarrow> True | Some t \<Rightarrow> (now - t) * 1000 \<ge> of_int T_GENVAM_LFMIN)
     \<or> has_cluster_op"

definition attach_lf_container_if_due :: "pyval \<Rightarrow> (vam_manager, pyval) prog" where
  "attach_lf_container_if_due vam =
     bind_s (lift_s (rbind (py_path vam_params vam) (py_contains ''vruClusterOperationContainer'')))
       (\<lambda>has_cluster_op.
     bind_s (gets_s (\<lambda>m. m)) (\<lambda>m.
       if lf_due (vt_time m) has_cluster_op m
       then bind_s (lift_s (py_set (vam_params @ [Key ''vruLowFrequencyContainer''])
              (PDict [(''profileAndSubprofile'', PTuple [PStr ''pedestrian'', PStr ''unavailable''])]) vam))
              (\<lambda>vam. then_s (modify_s (\<lambda>m'. m'\<lparr>vt_last_lf_vam_time := Some (vt_time m)\<rparr>)) (return_s vam))
       else return_s vam))"

definition vam_btp_request :: "bytes \<Rightarrow> BTPDataRequest" where
  "vam_btp_request data = default_BTPDataRequest
     \<lparr>br_btp_type := BTP_B, br_destination_port := 2018,
      br_gn_packet_transport_type := default_PacketTransportType,
      br_communication_profile := CP_UNSPECIFIED, br_traffic_class := default_TrafficClass,
      br_security_profile := VRU_AWARENESS_MESSAGE, br_its_aid := 638,
      br_data := data, br_length := int (length data)\<rparr>"

definition vam_log_arguments :: "pyval \<Rightarrow> unit result" where
  "vam_log_arguments vam =
     rbind (py_path [Key ''vam'', Key ''generationDeltaTime''] vam) (\<lambda>_.
     rbind (py_path [Key ''header'', Key ''stationId''] vam) (\<lambda>_. Inr ()))"

text \<open>\<open>v["a"]["b"] / scale\<close>.\<close>

definition scaled_path :: "py_step list \<Rightarrow> real \<Rightarrow> pyval \<Rightarrow> real result" where
  "scaled_path path scale v = rbind (py_path path v) (\<lambda>w. rbind (py_num w) (\<lambda>x. Inr (x / scale)))"

text \<open>
  What is remembered of the message that was sent. The generation time of the message is the
  integer that \<open>fullfill_gen_delta_time_with_tpv_data\<close> wrote.
\<close>

definition remember_vam :: "pyval \<Rightarrow> (vam_manager, unit) prog" where
  "remember_vam vam =
     bind_s (lift_s (rbind (py_path [Key ''vam'', Key ''generationDeltaTime''] vam) (\<lambda>v.
       case v of PInt n \<Rightarrow> Inr n | _ \<Rightarrow> Inl TypeError))) (\<lambda>n.
     then_s (modify_s (\<lambda>m. m\<lparr>vt_last_vam_generation_delta_time := Some \<lparr>msec = n\<rparr>\<rparr>))
     (bind_s (lift_s (scaled_path (vam_position @ [Key ''latitude'']) 10000000 vam)) (\<lambda>lat.
     bind_s (lift_s (scaled_path (vam_position @ [Key ''longitude'']) 10000000 vam)) (\<lambda>lon.
     then_s (modify_s (\<lambda>m. m\<lparr>vt_last_sent_position := (lat, lon)\<rparr>))
     (bind_s (lift_s (scaled_path (vam_hf @ [Key ''speed'', Key ''speedValue'']) 100 vam)) (\<lambda>speed.
     then_s (modify_s (\<lambda>m. m\<lparr>vt_last_vam_speed := speed\<rparr>))
     (bind_s (lift_s (scaled_path (vam_hf @ [Key ''heading'', Key ''value'']) 10 vam)) (\<lambda>heading.
     modify_s (\<lambda>m. m\<lparr>vt_last_vam_heading := heading, vt_is_first_vam := False\<rparr>)))))))))"

definition send_next_vam :: "pyval \<Rightarrow> (vam_manager, unit) prog" where
  "send_next_vam vam =
     bind_s (attach_cluster_containers vam) (\<lambda>vam.
     bind_s (attach_lf_container_if_due vam) (\<lambda>vam.
     then_s (vam_add_to_ldm vam)
     (bind_s (gets_s vt_encode) (\<lambda>encode.
      bind_s (lift_s (encode vam)) (\<lambda>data.
      then_s (vam_on_btp (btp_data_request (vam_btp_request data)))
      (then_s (lift_s (vam_log_arguments vam))
        (remember_vam vam)))))))"

section \<open>Triggering\<close>

definition vam_heading_difference :: "real \<Rightarrow> real \<Rightarrow> real" where
  "vam_heading_difference track last_heading =
     (let heading_diff = py_fmod \<bar>track - last_heading\<bar> 360
      in if heading_diff > 180 then 360 - heading_diff else heading_diff)"

definition vam_location_service_callback :: "Report \<Rightarrow> (vam_manager, unit) prog" where
  "vam_location_service_callback tpv =
     bind_s (gets_s (\<lambda>m. m)) (\<lambda>m.
     bind_s (lift_s (rbind (fullfill_with_device_data (vt_device_data_provider m) generate_white_vam)
         (vam_fullfill_with_tpv_data (vt_parse m) tpv))) (\<lambda>vam.
     if (case vt_clustering_manager m of None \<Rightarrow> False | Some v \<Rightarrow> \<not> should_transmit_vam v)
     then return_s ()
     else
       case vt_last_vam_generation_delta_time m of
         None \<Rightarrow> send_next_vam vam
       | Some last_gdt \<Rightarrow>
           bind_s (lift_s (rbind (get_key (rp_time tpv)) (vt_parse m))) (\<lambda>t.
           if gdt_sub (gdt_from_timestamp t) last_gdt \<ge> vt_t_genvam m then send_next_vam vam
           else
             bind_s (lift_s (get_key (rp_lat tpv))) (\<lambda>lat.
             bind_s (lift_s (get_key (rp_lon tpv))) (\<lambda>lon.
             if euclidian_distance (lat, lon) (vt_last_sent_position m)
                  > MINREFERENCEPOINTPOSITIONCHANGETHRESHOLD then send_next_vam vam
             else
               bind_s (lift_s (get_key (rp_speed tpv))) (\<lambda>speed.
               if \<bar>speed - vt_last_vam_speed m\<bar> > MINGROUNDSPEEDCHANGETHRESHOLD
               then send_next_vam vam
               else
                 case rp_track tpv of
                   None \<Rightarrow> return_s ()
                 | Some track \<Rightarrow>
                     if vam_heading_difference track (vt_last_vam_heading m)
                          > MINGROUNDVELOCITYORIENTATIONCHANGETHRESHOLD
                     then send_next_vam vam else return_s ()))))))"

section \<open>Reception\<close>

record vam_receiver =
  vr_decode :: "bytes \<Rightarrow> pyval result"
  vr_ldm :: "(nat \<Rightarrow> pyval \<Rightarrow> unit result) option"
  vr_ldm_data :: "pyval list"
  vr_clustering_manager :: "vbs option"

definition vam_reception_init ::
    "btp_callback \<Rightarrow> (bytes \<Rightarrow> pyval result) \<Rightarrow> (nat \<Rightarrow> pyval \<Rightarrow> unit result) option
      \<Rightarrow> vbs option \<Rightarrow> (btp_router, vam_receiver) prog" where
  "vam_reception_init callback decode ldm clustering =
     then_s (register_indication_callback_btp 2018 callback)
       (return_s \<lparr>vr_decode = decode, vr_ldm = ldm, vr_ldm_data = [],
          vr_clustering_manager = clustering\<rparr>)"

definition vam_receiver_add_to_ldm :: "pyval \<Rightarrow> (vam_receiver, unit) prog" where
  "vam_receiver_add_to_ldm vam =
     bind_s (gets_s (\<lambda>c. c)) (\<lambda>c.
       case vr_ldm c of
         None \<Rightarrow> return_s ()
       | Some ldm \<Rightarrow>
           then_s (modify_s (\<lambda>c. c\<lparr>vr_ldm_data := vr_ldm_data c @ [vam]\<rparr>))
             (lift_s (ldm (length (vr_ldm_data c)) vam)))"

definition on_clustering :: "(vbs, unit) prog \<Rightarrow> (vam_receiver, unit) prog" where
  "on_clustering p c =
     (case vr_clustering_manager c of
        None \<Rightarrow> (Inr (), c)
      | Some v \<Rightarrow> (let (r, v') = p v in (r, c\<lparr>vr_clustering_manager := Some v'\<rparr>)))"

text \<open>A decoding error is not caught here; \<open>now\<close> is \<open>TimeService.time()\<close>.\<close>

definition vam_reception_callback :: "real \<Rightarrow> BTPDataIndication \<Rightarrow> (vam_receiver, unit) prog" where
  "vam_reception_callback now indication =
     bind_s (gets_s vr_decode) (\<lambda>decode.
     bind_s (lift_s (decode (bi_data indication))) (\<lambda>vam.
     bind_s (lift_s (rbind (py_path [Key ''vam'', Key ''generationDeltaTime''] vam) (\<lambda>v.
       case v of PInt n \<Rightarrow> Inr n | _ \<Rightarrow> Inl TypeError))) (\<lambda>n.
     bind_s (lift_s (py_set [Key ''utc_timestamp'']
         (PInt (as_timestamp_in_certain_point \<lparr>msec = n\<rparr> (py_int (now * 1000)))) vam)) (\<lambda>vam.
     then_s (vam_receiver_add_to_ldm vam)
     (then_s (on_clustering (on_received_vam vam))
       (lift_s (vam_log_arguments vam)))))))"

section \<open>The service\<close>

text \<open>
  \<open>VRUAwarenessService\<close>: transmission and reception share one cluster state machine. Each part
  has it in its state; before a call the other part's copy is brought up to date.
\<close>

record vru_service =
  vs_transmission :: vam_manager
  vs_reception :: vam_receiver

definition vru_awareness_service ::
    "btp_callback \<Rightarrow> DeviceDataProvider \<Rightarrow> (pyval \<Rightarrow> bytes result) \<Rightarrow> (bytes \<Rightarrow> pyval result)
      \<Rightarrow> (string \<Rightarrow> real result) \<Rightarrow> (nat \<Rightarrow> pyval \<Rightarrow> unit result) option \<Rightarrow> bool \<Rightarrow> string
      \<Rightarrow> (nat \<Rightarrow> real) \<Rightarrow> (nat \<Rightarrow> int) \<Rightarrow> btp_router \<Rightarrow> vru_service result" where
  "vru_awareness_service callback device encode decode parse ldm cluster_support profile time random btp =
     (let clustering = (if cluster_support
            then Some (vbs_init (dd_station_id device) profile time random) else None)
      in case vam_reception_init callback decode ldm clustering btp of
           (Inl e, btp') \<Rightarrow> Inl e
         | (Inr receiver, btp') \<Rightarrow>
             Inr \<lparr>vs_transmission = vam_manager_init btp' encode parse device ldm clustering,
                  vs_reception = receiver\<rparr>)"

definition on_transmission :: "(vam_manager, 'a) prog \<Rightarrow> (vru_service, 'a) prog" where
  "on_transmission p s =
     (let (r, m) = p (vs_transmission s)
      in (r, s\<lparr>vs_transmission := m,
              vs_reception := (vs_reception s)\<lparr>vr_clustering_manager := vt_clustering_manager m\<rparr>\<rparr>))"

definition on_reception :: "(vam_receiver, 'a) prog \<Rightarrow> (vru_service, 'a) prog" where
  "on_reception p s =
     (let (r, c) = p (vs_reception s)
      in (r, s\<lparr>vs_reception := c,
              vs_transmission := (vs_transmission s)\<lparr>vt_clustering_manager := vr_clustering_manager c\<rparr>\<rparr>))"

end
