(* ===== verification/VamProps.thy ===== *)
theory VamProps
  imports VamTransmission
begin

text \<open>
  Properties of the VRU awareness service: what triggers a message, and what is in it.
\<close>

section \<open>What sending changes\<close>

definition same_device :: "vam_manager \<Rightarrow> vam_manager \<Rightarrow> bool" where
  "same_device m m' \<longleftrightarrow> vt_device_data_provider m' = vt_device_data_provider m
     \<and> vt_parse m' = vt_parse m \<and> vt_t_genvam m' = vt_t_genvam m \<and> vt_encode m' = vt_encode m"

interpretation same_device: step_rel same_device
  by unfold_locales (auto simp: same_device_def)

lemma same_device_send: "obeys same_device (send_next_vam vam)"
proof -
  have btp: "obeys same_device (vam_on_btp p)" for p :: "(btp_router, 'a) prog"
    by (auto intro!: obeysI simp: vam_on_btp_def same_device_def split: prod.splits)
  have ldm: "obeys same_device (vam_add_to_ldm vam)" for vam
    by (auto intro!: obeysI simp: vam_add_to_ldm_def same_device_def split: option.splits)
  have containers: "obeys same_device (attach_cluster_containers vam)" for vam
    by (auto intro!: obeysI simp: attach_cluster_containers_def same_device_def bind_s_def then_s_def
        split: option.splits sum.splits prod.splits)
  have lf: "obeys same_device (attach_lf_container_if_due vam)" for vam
    by (auto intro!: obeysI simp: attach_lf_container_if_due_def same_device_def bind_s_def then_s_def
        split: option.splits sum.splits prod.splits if_splits)
  have remember: "obeys same_device (remember_vam vam)" for vam
    unfolding remember_vam_def
    by (intro same_device.obeys_bind same_device.obeys_then same_device.obeys_pure
        same_device.obeys_modify) (simp_all add: same_device_def)
  show ?thesis
    unfolding send_next_vam_def
    by (intro same_device.obeys_bind same_device.obeys_then same_device.obeys_pure
        btp ldm containers lf remember)
qed

text \<open>The containers are added to the message; the fields from the report stay as they are.\<close>

lemma attach_container_filled:
  assumes "k \<noteq> ''basicContainer''" "k \<noteq> ''vruHighFrequencyContainer''"
  shows "attach_container k c (filled_vam d g tpv cs)
    = Inr (filled_vam d g tpv (case c of None \<Rightarrow> cs | Some x \<Rightarrow> AList.update k x cs))"
  using assms by (cases c) (simp_all add: attach_container_def filled_vam_def vam_set_container)

lemma attach_cluster_filled:
  assumes "attach_cluster_containers (filled_vam d g tpv cs) m = (Inr vam, m')"
  obtains cs' where "vam = filled_vam d g tpv cs'"
  using assms
  by (auto simp: attach_cluster_containers_def attach_container_filled bind_s_def then_s_def
      split: option.splits sum.splits prod.splits)

definition lf_container :: pyval where
  "lf_container = PDict [(''profileAndSubprofile'', PTuple [PStr ''pedestrian'', PStr ''unavailable''])]"

lemma attach_lf_run:
  "attach_lf_container_if_due (filled_vam d g tpv cs) m =
    (if lf_due (vt_time m) (map_of cs ''vruClusterOperationContainer'' \<noteq> None) m
     then (Inr (filled_vam d g tpv (AList.update ''vruLowFrequencyContainer'' lf_container cs)),
           m\<lparr>vt_last_lf_vam_time := Some (vt_time m)\<rparr>)
     else (Inr (filled_vam d g tpv cs), m))"
proof -
  have path: "rbind (py_path vam_params (filled_vam d g tpv cs)) (py_contains ''vruClusterOperationContainer'')
      = Inr (map_of cs ''vruClusterOperationContainer'' \<noteq> None)"
    by (simp add: filled_vam_def vam_dict_def)
  have set: "py_set (vam_params @ [Key ''vruLowFrequencyContainer'']) lf_container (filled_vam d g tpv cs)
      = Inr (filled_vam d g tpv (AList.update ''vruLowFrequencyContainer'' lf_container cs))"
    by (simp add: filled_vam_def vam_set_container)
  show ?thesis
    unfolding attach_lf_container_if_due_def path run_lift_bind run_gets_bind lf_container_def [symmetric] set
    by simp
qed

lemma attach_lf_filled:
  assumes "attach_lf_container_if_due (filled_vam d g tpv cs) m = (Inr vam, m')"
  obtains cs' where "vam = filled_vam d g tpv cs'"
  using assms by (auto simp: attach_lf_run split: if_splits)

lemma filled_vam_reads:
  "py_path [Key ''vam'', Key ''generationDeltaTime''] (filled_vam d g tpv cs) = Inr (PInt g)"
  "rp_lat tpv = Some lat \<Longrightarrow> scaled_path (vam_position @ [Key ''latitude'']) 10000000 (filled_vam d g tpv cs)
    = Inr (of_int (py_int (lat * 10000000)) / 10000000)"
  "rp_lon tpv = Some lon \<Longrightarrow> scaled_path (vam_position @ [Key ''longitude'']) 10000000 (filled_vam d g tpv cs)
    = Inr (of_int (py_int (lon * 10000000)) / 10000000)"
  "rp_speed tpv = Some speed \<Longrightarrow> scaled_path (vam_hf @ [Key ''speed'', Key ''speedValue'']) 100 (filled_vam d g tpv cs)
    = Inr (of_int (speed_value speed) / 100)"
  "rp_track tpv = Some track \<Longrightarrow> scaled_path (vam_hf @ [Key ''heading'', Key ''value'']) 10 (filled_vam d g tpv cs)
    = Inr (of_int (py_int (track * 10)) / 10)"
  by (cases "rp_epd tpv"; simp add: scaled_path_def filled_vam_def vam_dict_def vam_reference_position_def
      position_dict_def vam_hf_dict_def vam_speed_def vam_heading_def update_conv)+

text \<open>What the manager knows of the last report it sent: the values in the message.\<close>

definition remembers :: "vam_manager \<Rightarrow> int \<Rightarrow> real \<Rightarrow> real \<Rightarrow> real \<Rightarrow> real \<Rightarrow> bool" where
  "remembers m g lat lon speed track \<longleftrightarrow>
     vt_last_vam_generation_delta_time m = Some \<lparr>msec = g\<rparr>
     \<and> vt_last_sent_position m
        = (of_int (py_int (lat * 10000000)) / 10000000, of_int (py_int (lon * 10000000)) / 10000000)
     \<and> vt_last_vam_speed m = of_int (speed_value speed) / 100
     \<and> vt_last_vam_heading m = of_int (py_int (track * 10)) / 10"

lemma remember_vam_run:
  assumes "rp_lat tpv = Some lat" "rp_lon tpv = Some lon" "rp_speed tpv = Some speed" "rp_track tpv = Some track"
    and "remember_vam (filled_vam d g tpv cs) m = (r, m')"
  shows "r = Inr () \<and> remembers m' g lat lon speed track"
  using assms(5)
  unfolding remember_vam_def filled_vam_reads(1) filled_vam_reads(2) [OF assms(1)]
    filled_vam_reads(3) [OF assms(2)] filled_vam_reads(4) [OF assms(3)] filled_vam_reads(5) [OF assms(4)]
  by (auto simp: remembers_def)

lemma then_s_Inr:
  "then_s p q s = (Inr y, u) \<Longrightarrow> \<exists>x t. p s = (Inr x, t) \<and> q t = (Inr y, u)"
  by (simp add: then_s_def bind_s_Inr)

lemma send_next_vam_remembers:
  assumes "rp_lat tpv = Some lat" "rp_lon tpv = Some lon" "rp_speed tpv = Some speed" "rp_track tpv = Some track"
    and "send_next_vam (filled_vam d g tpv []) m = (Inr (), m')"
  shows "remembers m' g lat lon speed track"
proof -
  obtain vam1 m1 where a: "attach_cluster_containers (filled_vam d g tpv []) m = (Inr vam1, m1)"
    and rest: "bind_s (attach_lf_container_if_due vam1) (\<lambda>vam.
      then_s (vam_add_to_ldm vam) (bind_s (gets_s vt_encode) (\<lambda>encode. bind_s (lift_s (encode vam)) (\<lambda>data.
      then_s (vam_on_btp (btp_data_request (vam_btp_request data)))
      (then_s (lift_s (vam_log_arguments vam)) (remember_vam vam)))))) m1 = (Inr (), m')"
    using assms(5) unfolding send_next_vam_def bind_s_Inr [of "attach_cluster_containers _"] by blast
  obtain cs1 where "vam1 = filled_vam d g tpv cs1" using attach_cluster_filled [OF a] by blast
  moreover obtain vam m2 where b: "attach_lf_container_if_due vam1 m1 = (Inr vam, m2)"
    and rest: "then_s (vam_add_to_ldm vam) (bind_s (gets_s vt_encode) (\<lambda>encode. bind_s (lift_s (encode vam)) (\<lambda>data.
      then_s (vam_on_btp (btp_data_request (vam_btp_request data)))
      (then_s (lift_s (vam_log_arguments vam)) (remember_vam vam))))) m2 = (Inr (), m')"
    using rest unfolding bind_s_Inr [of "attach_lf_container_if_due _"] by blast
  ultimately obtain cs where vam: "vam = filled_vam d g tpv cs" using attach_lf_filled [of d g tpv cs1] by blast
  obtain m3 where "remember_vam vam m3 = (Inr (), m')"
    using rest by (auto simp: bind_s_Inr dest!: then_s_Inr)
  then show ?thesis using remember_vam_run [OF assms(1-4)] vam by blast
qed


section \<open>Triggering\<close>

text \<open>A report with everything that the conditions look at, and the limits between two reports.\<close>

definition full_report :: "Report \<Rightarrow> string \<Rightarrow> real \<Rightarrow> real \<Rightarrow> real \<Rightarrow> real \<Rightarrow> bool" where
  "full_report tpv time lat lon speed track \<longleftrightarrow>
     rp_time tpv = Some time \<and> rp_lat tpv = Some lat \<and> rp_lon tpv = Some lon
     \<and> rp_speed tpv = Some speed \<and> rp_track tpv = Some track"

definition allowed_to_send :: "vam_manager \<Rightarrow> bool" where
  "allowed_to_send m \<longleftrightarrow>
     (case vt_clustering_manager m of None \<Rightarrow> True | Some v \<Rightarrow> should_transmit_vam v)"

lemma callback_run:
  assumes "full_report tpv time lat lon speed track" "vt_parse m time = Inr t"
  shows "vam_location_service_callback tpv m =
    (if allowed_to_send m \<and>
        (case vt_last_vam_generation_delta_time m of
           None \<Rightarrow> True
         | Some last_gdt \<Rightarrow>
             gdt_sub (gdt_from_timestamp t) last_gdt \<ge> vt_t_genvam m
             \<or> euclidian_distance (lat, lon) (vt_last_sent_position m) > 4
             \<or> \<bar>speed - vt_last_vam_speed m\<bar> > 1 / 2
             \<or> vam_heading_difference track (vt_last_vam_heading m) > 4)
     then send_next_vam (filled_vam (vt_device_data_provider m) (msec (gdt_from_timestamp t)) tpv []) m
     else (Inr (), m))"
proof -
  have fields: "rp_time tpv = Some time" "rp_lat tpv = Some lat" "rp_lon tpv = Some lon"
    "rp_speed tpv = Some speed" "rp_track tpv = Some track"
    using assms(1) by (simp_all add: full_report_def)
  have vam: "rbind (fullfill_with_device_data (vt_device_data_provider m) generate_white_vam)
      (vam_fullfill_with_tpv_data (vt_parse m) tpv)
    = Inr (filled_vam (vt_device_data_provider m) (msec (gdt_from_timestamp t)) tpv [])"
    by (simp add: vam_filled gdt_of_def fields assms(2))
  have allowed: "(case vt_clustering_manager m of None \<Rightarrow> False | Some v \<Rightarrow> \<not> should_transmit_vam v)
      = (\<not> allowed_to_send m)"
    by (simp add: allowed_to_send_def split: option.splits)
  have get: "rbind (get_key (rp_time tpv)) (vt_parse m) = Inr t" "get_key (rp_lat tpv) = Inr lat"
    "get_key (rp_lon tpv) = Inr lon" "get_key (rp_speed tpv) = Inr speed"
    by (simp_all add: fields assms(2) get_key_def)
  define send where "send = send_next_vam
    (filled_vam (vt_device_data_provider m) (msec (gdt_from_timestamp t)) tpv [])"
  show ?thesis
  proof (cases "vt_last_vam_generation_delta_time m")
    case None
    then show ?thesis
      unfolding vam_location_service_callback_def run_gets_bind vam allowed send_def [symmetric]
        run_lift_bind by simp
  next
    case (Some last_gdt)
    define late far faster turned where
      "late = (gdt_sub (gdt_from_timestamp t) last_gdt \<ge> vt_t_genvam m)"
      and "far = (euclidian_distance (lat, lon) (vt_last_sent_position m) > 4)"
      and "faster = (\<bar>speed - vt_last_vam_speed m\<bar> > 1 / 2)"
      and "turned = (vam_heading_difference track (vt_last_vam_heading m) > 4)"
    show ?thesis
      unfolding vam_location_service_callback_def run_gets_bind vam allowed send_def [symmetric]
        run_lift_bind get Some option.case fields(5) MINREFERENCEPOINTPOSITIONCHANGETHRESHOLD_def
        MINGROUNDSPEEDCHANGETHRESHOLD_def MINGROUNDVELOCITYORIENTATIONCHANGETHRESHOLD_def
        late_def [symmetric] far_def [symmetric] faster_def [symmetric] turned_def [symmetric]
      by simp
  qed
qed

lemma gdt_sub_of_ms:
  "gdt_sub (gdt_from_timestamp (of_int ms / 1000)) \<lparr>msec = msec (gdt_from_timestamp (of_int ms0 / 1000))\<rparr>
    = (ms - ms0) mod 65536"
proof -
  define a b where "a = ms - ITS_EPOCH_MS + ELAPSED_MILLISECONDS"
    and "b = ms0 - ITS_EPOCH_MS + ELAPSED_MILLISECONDS"
  have "(a mod 65536 - b mod 65536) mod 65536 = (ms - ms0) mod 65536"
    by (simp add: mod_diff_eq a_def b_def)
  moreover have "(if x - y < 0 then x - y + 65536 else x - y) = (x - y) mod 65536"
    if "0 \<le> x" "x < 65536" "0 \<le> y" "y < 65536" for x y :: int
  proof (cases "x - y < 0")
    case True
    have "(x - y) mod 65536 = (x - y + 65536) mod 65536" by simp
    also have "\<dots> = x - y + 65536" using that True by (intro mod_pos_pos_trivial) simp_all
    finally show ?thesis using True by simp
  qed (use that in simp)
  ultimately show ?thesis
    by (simp add: gdt_sub_def gdt_of_ms Let_def flip: a_def b_def)
qed


lemma degrees_apart:
  assumes "\<bar>a\<bar> \<le> 2" "\<bar>b\<bar> \<le> (2 :: real)"
  shows "sqrt (a ^ 2 + b ^ 2) \<le> 4"
proof -
  have "a ^ 2 \<le> 2 ^ 2" "b ^ 2 \<le> 2 ^ 2"
    using assms abs_le_square_iff [of a 2] abs_le_square_iff [of b 2] by simp_all
  then have "a ^ 2 + b ^ 2 \<le> 4 ^ 2" by simp
  then show ?thesis by (intro real_le_lsqrt) simp_all
qed

text \<open>
  C26: What triggers a message. After a message for a report was sent, the next report is sent, if
  the cluster state machine allows messages, exactly if at least 100 ms have passed (modulo the
  65.5 s of the generation time), or the speed differs by more than 0.5 m/s or the heading by
  more than 4 degrees from the values in the message, or the distance of the positions exceeds 4.
  That distance is taken between the degrees of latitude and longitude: positions up to two
  degrees apart in each are never far enough, whatever distance that is on the ground.
\<close>

theorem vam_triggering:
  fixes lat lon lat0 lon0 :: real
  assumes "full_report tpv0 time0 lat0 lon0 speed0 track0" "full_report tpv time lat lon speed track"
    and "send_next_vam (filled_vam (vt_device_data_provider m0)
      (msec (gdt_from_timestamp (of_int ms0 / 1000))) tpv0 []) m0 = (Inr (), m)"
    and "vt_parse m0 time = Inr (of_int ms / 1000)" "vt_t_genvam m0 = T_GENVAMMIN"
  defines "lat1 \<equiv> of_int (py_int (lat0 * 10000000)) / 10000000"
    and "lon1 \<equiv> of_int (py_int (lon0 * 10000000)) / 10000000"
    and "speed1 \<equiv> of_int (speed_value speed0) / 100"
    and "track1 \<equiv> of_int (py_int (track0 * 10)) / 10"
  shows "vam_location_service_callback tpv m =
      (if allowed_to_send m
          \<and> (100 \<le> (ms - ms0) mod 65536 \<or> sqrt ((lat - lat1) ^ 2 + (lon - lon1) ^ 2) > 4
             \<or> \<bar>speed - speed1\<bar> > 1 / 2 \<or> vam_heading_difference track track1 > 4)
       then send_next_vam (filled_vam (vt_device_data_provider m)
          (msec (gdt_from_timestamp (of_int ms / 1000))) tpv []) m
       else (Inr (), m))
    \<and> (\<bar>lat - lat1\<bar> \<le> 2 \<and> \<bar>lon - lon1\<bar> \<le> 2 \<longrightarrow> \<not> sqrt ((lat - lat1) ^ 2 + (lon - lon1) ^ 2) > 4)"
proof
  have remembers: "remembers m (msec (gdt_from_timestamp (of_int ms0 / 1000))) lat0 lon0 speed0 track0"
    using assms(1) by (intro send_next_vam_remembers [OF _ _ _ _ assms(3)]) (simp_all add: full_report_def)
  have same: "vt_parse m = vt_parse m0" "vt_t_genvam m = T_GENVAMMIN"
    using obeysD [OF same_device_send assms(3)] assms(5) by (simp_all add: same_device_def)
  have last_sent: "vt_last_vam_generation_delta_time m
      = Some \<lparr>msec = msec (gdt_from_timestamp (of_int ms0 / 1000))\<rparr>"
    "vt_last_sent_position m = (lat1, lon1)" "vt_last_vam_speed m = speed1" "vt_last_vam_heading m = track1"
    using remembers by (simp_all add: remembers_def lat1_def lon1_def speed1_def track1_def)
  have "vt_parse m time = Inr (of_int ms / 1000)" using assms(4) same by simp
  from callback_run [OF assms(2) this]
  show "vam_location_service_callback tpv m =
      (if allowed_to_send m
          \<and> (100 \<le> (ms - ms0) mod 65536 \<or> sqrt ((lat - lat1) ^ 2 + (lon - lon1) ^ 2) > 4
             \<or> \<bar>speed - speed1\<bar> > 1 / 2 \<or> vam_heading_difference track track1 > 4)
       then send_next_vam (filled_vam (vt_device_data_provider m)
          (msec (gdt_from_timestamp (of_int ms / 1000))) tpv []) m
       else (Inr (), m))"
    by (simp only: last_sent option.case same gdt_sub_of_ms T_GENVAMMIN_def euclidian_distance_def fst_conv snd_conv)
  show "\<bar>lat - lat1\<bar> \<le> 2 \<and> \<bar>lon - lon1\<bar> \<le> 2 \<longrightarrow> \<not> sqrt ((lat - lat1) ^ 2 + (lon - lon1) ^ 2) > 4"
    using degrees_apart [of "lat - lat1" "lon - lon1"] by (meson not_less)
qed


text \<open>Sending without a cluster state machine and a local dynamic map.\<close>

lemma valid_vam_btp_request: "length data + 4 < 2 ^ 16 \<Longrightarrow> valid_btp_request (vam_btp_request data)"
  by (simp add: vam_btp_request_def default_BTPDataRequest_def valid_btp_request_def
      default_PacketTransportType_def default_TrafficClass_def valid_tc_def)

lemma plain_send_succeeds:
  assumes "rp_lat tpv = Some lat" "rp_lon tpv = Some lon" "rp_speed tpv = Some speed" "rp_track tpv = Some track"
    and "vt_clustering_manager m = None" "vt_ldm m = None" "\<And>v. vt_encode m v = Inr data"
    and "btp_data_request (vam_btp_request data) (vt_btp_router m) = (Inr (), btp)"
  shows "\<exists>m'. send_next_vam (filled_vam d g tpv []) m = (Inr (), m') \<and> vt_btp_router m' = btp
    \<and> vt_clustering_manager m' = None"
proof -
  define due where "due = lf_due (vt_time m) False m"
  define cs where "cs = (if due then [(''vruLowFrequencyContainer'', lf_container)] else [])"
  define l where "l = (if due then Some (vt_time m) else vt_last_lf_vam_time m)"
  have lf: "attach_lf_container_if_due (filled_vam d g tpv []) m
      = (Inr (filled_vam d g tpv cs), m\<lparr>vt_last_lf_vam_time := l\<rparr>)"
    by (simp add: attach_lf_run cs_def l_def flip: due_def)
  define m1 where "m1 = m\<lparr>vt_last_lf_vam_time := l\<rparr>"
  have "vam_log_arguments (filled_vam d g tpv cs) = Inr ()"
    by (simp add: vam_log_arguments_def filled_vam_def vam_dict_def)
  moreover have "vam_on_btp (btp_data_request (vam_btp_request data)) m1 = (Inr (), m1\<lparr>vt_btp_router := btp\<rparr>)"
    using assms(8) by (simp add: vam_on_btp_def m1_def)
  moreover have "attach_cluster_containers (filled_vam d g tpv []) m = (Inr (filled_vam d g tpv []), m)"
    using assms(5) by (simp add: attach_cluster_containers_def)
  moreover have "vam_add_to_ldm vam m1 = (Inr (), m1)" for vam
    using assms(6) by (simp add: vam_add_to_ldm_def m1_def)
  ultimately have "send_next_vam (filled_vam d g tpv []) m = remember_vam (filled_vam d g tpv cs) (m1\<lparr>vt_btp_router := btp\<rparr>)"
    using lf assms(7) by (simp add: send_next_vam_def run_simps flip: m1_def) (simp add: m1_def run_simps)
  moreover obtain r m' where run: "remember_vam (filled_vam d g tpv cs) (m1\<lparr>vt_btp_router := btp\<rparr>) = (r, m')"
    by fastforce
  moreover have "r = Inr ()" using remember_vam_run [OF assms(1-4) run] by simp
  moreover have "vt_btp_router m' = btp" "vt_clustering_manager m' = None"
    using run assms(5)
    unfolding remember_vam_def filled_vam_reads(1) filled_vam_reads(2) [OF assms(1)]
      filled_vam_reads(3) [OF assms(2)] filled_vam_reads(4) [OF assms(3)] filled_vam_reads(5) [OF assms(4)]
    by (auto simp: m1_def)
  ultimately show ?thesis by simp
qed

text \<open>A pedestrian that has moved by one degree of latitude in 50 ms.\<close>

definition walking_report :: "string \<Rightarrow> real \<Rightarrow> Report" where
  "walking_report time lat = \<lparr>rp_time = Some time, rp_lat = Some lat, rp_lon = Some 2, rp_altHAE = None,
     rp_epx = None, rp_epy = None, rp_epv = None, rp_track = Some 90, rp_epd = None, rp_speed = Some 1\<rparr>"

definition walking_manager :: vam_manager where
  "walking_manager = vam_manager_init (btp_init (station 1)) (\<lambda>v. Inr [1, 2])
     (\<lambda>time. Inr (of_int (if time = ''a'' then 1700000000000 else 1700000000050) / 1000))
     default_DeviceDataProvider None None"

lemma walking_manager_simps [simp]:
  "vt_btp_router walking_manager = btp_init (station 1)" "vt_ldm walking_manager = None"
  "vt_clustering_manager walking_manager = None" "vt_encode walking_manager = (\<lambda>v. Inr [1, 2])"
  "vt_t_genvam walking_manager = T_GENVAMMIN"
  "vt_parse walking_manager ''a'' = Inr (of_int 1700000000000 / 1000)"
  "vt_parse walking_manager ''b'' = Inr (of_int 1700000000050 / 1000)"
  by (simp_all add: walking_manager_def vam_manager_init_def)

lemma walking_report_simps [simp]:
  "rp_lat (walking_report time lat) = Some lat" "rp_lon (walking_report time lat) = Some 2"
  "rp_speed (walking_report time lat) = Some 1" "rp_track (walking_report time lat) = Some 90"
  "full_report (walking_report time lat) time lat 2 1 90"
  by (simp_all add: walking_report_def full_report_def)

lemma vam_triggering_witness:
  "\<exists>m. send_next_vam (filled_vam (vt_device_data_provider walking_manager)
        (msec (gdt_from_timestamp (of_int 1700000000000 / 1000))) (walking_report ''a'' 41) []) walking_manager
      = (Inr (), m)
    \<and> vam_location_service_callback (walking_report ''b'' 42) m = (Inr (), m)"
proof -
  have other: "(1 :: byte) \<noteq> 2" by simp
  have "valid_btp_request (vam_btp_request [1, 2])" by (rule valid_vam_btp_request) simp
  then obtain btp where btp: "btp_data_request (vam_btp_request [1, 2]) (vt_btp_router walking_manager) = (Inr (), btp)"
    by (rule btp_transfer [where s = "btp_init (station 1)" and b = listening_station and f = "\<lambda>_ _. Inr ()"])
      (use other in \<open>simp_all add: btp_init_def\<close>)
  obtain m where m: "send_next_vam (filled_vam (vt_device_data_provider walking_manager)
        (msec (gdt_from_timestamp (of_int 1700000000000 / 1000))) (walking_report ''a'' 41) []) walking_manager
      = (Inr (), m)"
    using plain_send_succeeds [OF walking_report_simps(1-4) walking_manager_simps(3,2) _ btp] by fastforce
  have "py_int (41 * 10000000) = 410000000" "py_int (2 * 10000000) = 20000000" "py_int (90 * 10) = 900"
    "speed_value 1 = 100"
    by (simp_all add: py_int_def speed_value_def)
  moreover have "sqrt ((42 - 41) ^ 2 + (2 - 2 :: real) ^ 2) \<le> 4" by simp
  ultimately show ?thesis
    using vam_triggering [OF walking_report_simps(5) walking_report_simps(5) m walking_manager_simps(7) walking_manager_simps(5)] m
    by (auto simp: vam_heading_difference_def py_fmod_def)
qed

end
