(* ===== verification/LdmDatabase.thy ===== *)
theory LdmDatabase
  imports LdmClasses "HOL-Library.Multiset"
begin

text \<open>
  The dictionary database of the local dynamic map (\<open>dictionary_database.py\<close>): insertion, lookup,
  update and removal, and the search by message type and filter. The locale \<open>database\<close> states
  what the abstract class \<open>DataBase\<close> promises of the operations that store data.
\<close>

section \<open>Operations\<close>

record dictionary_database =
  db_database :: "(int, pyval) dict"
  db_next_id :: int

definition db_init :: dictionary_database where
  "db_init = \<lparr>db_database = [], db_next_id = 0\<rparr>"

definition db_delete :: "dictionary_database \<Rightarrow> bool \<times> dictionary_database" where
  "db_delete db = (True, \<lparr>db_database = [], db_next_id = 0\<rparr>)"

definition db_insert :: "pyval \<Rightarrow> dictionary_database \<Rightarrow> int \<times> dictionary_database" where
  "db_insert data db =
     (db_next_id db, db\<lparr>db_database := dict_set (db_next_id db) data (db_database db),
        db_next_id := db_next_id db + 1\<rparr>)"

definition db_get :: "int \<Rightarrow> dictionary_database \<Rightarrow> pyval option" where
  "db_get index db = dict_get (db_database db) index"

definition db_update :: "pyval \<Rightarrow> int \<Rightarrow> dictionary_database \<Rightarrow> bool \<times> dictionary_database" where
  "db_update data index db = (True, db\<lparr>db_database := dict_set index data (db_database db)\<rparr>)"

text \<open>
  The first entry that equals the data. Values are compared as they are; Python also takes
  dictionaries for equal that list their keys in another order.
\<close>

definition db_remove :: "pyval \<Rightarrow> dictionary_database \<Rightarrow> bool \<times> dictionary_database" where
  "db_remove data_object db =
     (case find (\<lambda>(key, value). value = data_object) (db_database db) of
        Some (key, value) \<Rightarrow> (True, db\<lparr>db_database := dict_del key (db_database db)\<rparr>)
      | None \<Rightarrow> (False, db))"

definition db_all :: "dictionary_database \<Rightarrow> pyval list" where
  "db_all db = map snd (db_database db)"

definition db_exists :: "string \<Rightarrow> int \<Rightarrow> dictionary_database \<Rightarrow> bool" where
  "db_exists field_name data_object_id db =
     (if field_name = ''dataObjectID'' then dict_get (db_database db) data_object_id \<noteq> None
      else list_ex (check_field field_name) (db_all db))"

section \<open>Search\<close>

text \<open>\<open>path.split(".")\<close>.\<close>

fun split_dots :: "string \<Rightarrow> string list" where
  "split_dots [] = [[]]"
| "split_dots (c # cs) =
     (if c = CHR ''.'' then [] # split_dots cs
      else case split_dots cs of [] \<Rightarrow> [[c]] | w # ws \<Rightarrow> (c # w) # ws)"

fun nested_item :: "pyval \<Rightarrow> string list \<Rightarrow> pyval result" where
  "nested_item data [] = Inr data"
| "nested_item data (k # ks) = rbind (py_item data k) (\<lambda>v. nested_item v ks)"

definition db_get_nested :: "pyval \<Rightarrow> string \<Rightarrow> pyval result" where
  "db_get_nested data path = rbind (py_item data ''dataObject'') (\<lambda>v. nested_item v (split_dots path))"

fun str_less :: "string \<Rightarrow> string \<Rightarrow> bool" where
  "str_less xs [] = False"
| "str_less [] (y # ys) = True"
| "str_less (x # xs) (y # ys) =
     ((of_char x :: nat) < of_char y \<or> x = y \<and> str_less xs ys)"

definition py_equal :: "pyval \<Rightarrow> ref_value \<Rightarrow> bool" where
  "py_equal v r = (case r of RefInt n \<Rightarrow> py_canon v = PInt n | RefStr s \<Rightarrow> v = PStr s)"

definition compare_values ::
    "(real \<Rightarrow> real \<Rightarrow> bool) \<Rightarrow> (string \<Rightarrow> string \<Rightarrow> bool) \<Rightarrow> pyval \<Rightarrow> ref_value \<Rightarrow> bool result" where
  "compare_values f g v r =
     (case r of
        RefInt n \<Rightarrow> rbind (py_num v) (\<lambda>x. Inr (f x (of_int n)))
      | RefStr s \<Rightarrow> (case v of PStr t \<Rightarrow> Inr (g t s) | _ \<Rightarrow> Inl TypeError))"

text \<open>\<open>str(needle)\<close>.\<close>

definition ref_str :: "ref_value \<Rightarrow> string" where
  "ref_str r = (case r of RefStr s \<Rightarrow> s
     | RefInt n \<Rightarrow> if n < 0 then CHR ''-'' # digits (nat (- n)) else digits (nat n))"

definition value_contains :: "pyval \<Rightarrow> ref_value \<Rightarrow> bool" where
  "value_contains candidate needle =
     (case candidate of
        PStr s \<Rightarrow> substring (ref_str needle) s
      | PList xs \<Rightarrow> list_ex (\<lambda>x. py_equal x needle) xs
      | PTuple xs \<Rightarrow> list_ex (\<lambda>x. py_equal x needle) xs
      | _ \<Rightarrow> False)"

fun apply_operator :: "ComparisonOperator \<Rightarrow> pyval \<Rightarrow> ref_value \<Rightarrow> bool result" where
  "apply_operator EQUAL v r = Inr (py_equal v r)"
| "apply_operator NOT_EQUAL v r = Inr (\<not> py_equal v r)"
| "apply_operator GREATER_THAN v r = compare_values (>) (\<lambda>s t. str_less t s) v r"
| "apply_operator LESS_THAN v r = compare_values (<) str_less v r"
| "apply_operator GREATER_THAN_OR_EQUAL v r = compare_values (\<ge>) (\<lambda>s t. \<not> str_less s t) v r"
| "apply_operator LESS_THAN_OR_EQUAL v r = compare_values (\<le>) (\<lambda>s t. \<not> str_less t s) v r"
| "apply_operator LIKE v r = Inr (value_contains v r)"
| "apply_operator NOT_LIKE v r = Inr (\<not> value_contains v r)"

definition statement_holds :: "FilterStatement \<Rightarrow> pyval \<Rightarrow> bool result" where
  "statement_holds s data =
     rbind (db_get_nested data (fs_attribute s)) (\<lambda>v. apply_operator (fs_operator s) v (fs_ref_value s))"

text \<open>Without the operator \<open>and\<close> two statements are joined by \<open>or\<close>; both are always evaluated.\<close>

definition filter_holds :: "Filter \<Rightarrow> pyval \<Rightarrow> bool result" where
  "filter_holds f data =
     (case flt_statement_2 f of
        None \<Rightarrow> statement_holds (flt_statement_1 f) data
      | Some s2 \<Rightarrow>
          rbind (statement_holds (flt_statement_1 f) data) (\<lambda>a.
          rbind (statement_holds s2 data) (\<lambda>b.
          Inr (if flt_logical_operator f = Some LOGICAL_AND then a \<and> b else a \<or> b))))"

fun filter_data :: "Filter \<Rightarrow> pyval list \<Rightarrow> pyval list result" where
  "filter_data f [] = Inr []"
| "filter_data f (c # cs) =
     rbind (filter_holds f c) (\<lambda>b. rbind (filter_data f cs) (\<lambda>rest. Inr (if b then c # rest else rest)))"

definition db_search :: "RequestDataObjectsReq \<Rightarrow> dictionary_database \<Rightarrow> pyval list result" where
  "db_search request db =
     (case rq_filter request of
        None \<Rightarrow> filter_out_by_data_object_type (db_all db) (rq_data_object_type request)
      | Some f \<Rightarrow>
          (case rbind (filter_out_by_data_object_type (db_all db) (rq_data_object_type request))
              (filter_data f) of
             Inl e \<Rightarrow> if e = KeyError \<or> e = TypeError then Inr [] else Inl e
           | Inr result \<Rightarrow> Inr result))"

section \<open>What a database promises\<close>

locale database =
  fixes fresh :: 'd
    and insert :: "'a \<Rightarrow> 'd \<Rightarrow> int \<times> 'd"
    and get :: "int \<Rightarrow> 'd \<Rightarrow> 'a option"
    and update :: "'a \<Rightarrow> int \<Rightarrow> 'd \<Rightarrow> bool \<times> 'd"
    and remove :: "'a \<Rightarrow> 'd \<Rightarrow> bool \<times> 'd"
    and all :: "'d \<Rightarrow> 'a list"
    and inv :: "'d \<Rightarrow> bool"
  assumes fresh_inv: "inv fresh" and fresh_all: "all fresh = []"
    and insert_inv: "inv d \<Longrightarrow> inv (snd (insert x d))"
    and insert_all: "inv d \<Longrightarrow> all (snd (insert x d)) = all d @ [x]"
    and insert_unused: "inv d \<Longrightarrow> get (fst (insert x d)) d = None"
    and insert_get: "inv d \<Longrightarrow> get i (snd (insert x d)) = (if i = fst (insert x d) then Some x else get i d)"
    and update_inv: "inv d \<Longrightarrow> get i d \<noteq> None \<Longrightarrow> inv (snd (update x i d))"
    and update_get: "inv d \<Longrightarrow> get j (snd (update x i d)) = (if j = i then Some x else get j d)"
    and remove_inv: "inv d \<Longrightarrow> inv (snd (remove x d))"
    and remove_all: "inv d \<Longrightarrow> all (snd (remove x d)) = remove1 x (all d)"
    and get_all: "inv d \<Longrightarrow> x \<in> set (all d) \<longleftrightarrow> (\<exists>i. get i d = Some x)"
begin

definition insert_each :: "'a list \<Rightarrow> 'd \<Rightarrow> 'd" where
  "insert_each xs d = fold (\<lambda>x d. snd (insert x d)) xs d"

lemma update_all:
  assumes "inv d" "get i d \<noteq> None"
  shows "set (all (snd (update x i d))) \<subseteq> Set.insert x (set (all d))" "x \<in> set (all (snd (update x i d)))"
  using update_get [OF assms(1), of _ x i] get_all [OF assms(1)] get_all [OF update_inv [OF assms]]
  by (auto split: if_splits)

lemma insert_each_all: "inv d \<Longrightarrow> inv (insert_each xs d) \<and> all (insert_each xs d) = all d @ xs"
  unfolding insert_each_def by (induction xs arbitrary: d) (simp_all add: insert_inv insert_all)

text \<open>Removing, one after the other, the data that a predicate picks leaves exactly the rest.\<close>

definition remove_each :: "('a \<Rightarrow> bool) \<Rightarrow> 'a list \<Rightarrow> 'd \<Rightarrow> 'd" where
  "remove_each P xs d = fold (\<lambda>x d. if P x then snd (remove x d) else d) xs d"

lemma remove_each_inv: "inv d \<Longrightarrow> inv (remove_each P xs d)"
  unfolding remove_each_def by (induction xs arbitrary: d) (simp_all add: remove_inv)

lemma filter_remove1: "P x \<Longrightarrow> filter (\<lambda>y. \<not> P y) (remove1 x ys) = filter (\<lambda>y. \<not> P y) ys"
  by (induction ys) auto

lemma remove_each_filter: "inv d \<Longrightarrow> filter (\<lambda>x. \<not> P x) (all (remove_each P xs d)) = filter (\<lambda>x. \<not> P x) (all d)"
  unfolding remove_each_def
  by (induction xs arbitrary: d) (simp_all add: remove_inv remove_all filter_remove1)

lemma filter_remove1_mset: "P x \<Longrightarrow> mset (filter P (remove1 x ys)) = mset (filter P ys) - {#x#}"
  by (induction ys) auto

lemma remove_each_picked:
  "inv d \<Longrightarrow> mset (filter P (all d)) = mset (filter P xs) \<Longrightarrow> filter P (all (remove_each P xs d)) = []"
proof (induction xs arbitrary: d)
  case Nil
  then have "mset (filter P (all d)) = {#}" by (simp only: filter.simps mset.simps)
  then show ?case unfolding remove_each_def by (simp only: fold_simps mset_zero_iff)
next
  case (Cons x xs)
  show ?case
  proof (cases "P x")
    case True
    have "mset (filter P (all (snd (remove x d)))) = mset (filter P (all d)) - {#x#}"
      unfolding remove_all [OF Cons.prems(1)] using True by (rule filter_remove1_mset)
    also have "\<dots> = mset (filter P xs)" unfolding Cons.prems(2) using True by simp
    finally show ?thesis
      using Cons.IH [OF remove_inv [OF Cons.prems(1)]] True by (simp add: remove_each_def)
  next
    case False
    then have "mset (filter P (all d)) = mset (filter P xs)" using Cons.prems(2) by simp
    then show ?thesis using Cons.IH [OF Cons.prems(1)] False by (simp add: remove_each_def)
  qed
qed

lemma remove_each_all:
  assumes "inv d" shows "all (remove_each P (all d) d) = filter (\<lambda>x. \<not> P x) (all d)"
proof -
  let ?ys = "all (remove_each P (all d) d)"
  have "filter P ?ys = []" by (rule remove_each_picked [OF assms refl])
  then have "filter (\<lambda>x. \<not> P x) ?ys = ?ys" by (simp add: filter_empty_conv)
  then show ?thesis using remove_each_filter [OF assms, of P "all d"] by simp
qed

end

section \<open>The dictionary database keeps the promise\<close>

definition db_ok :: "dictionary_database \<Rightarrow> bool" where
  "db_ok db \<longleftrightarrow> dict_ok (db_database db) \<and> (\<forall>k. k \<in> fst ` set (db_database db) \<longrightarrow> k < db_next_id db)"

lemma update_fresh: "k \<notin> fst ` set d \<Longrightarrow> dict_set k v d = d @ [(k, v)]"
  by (induction d) auto

lemma keys_of_delete: "fst ` set (dict_del k d) = fst ` set d - {k}"
  by (auto simp: AList.delete_eq)

lemma keys_of_update: "fst ` set (dict_set k v d) = insert k (fst ` set d)"
  using dom_update [of k v d] by (simp add: dom_map_of_conv_image_fst)

lemma delete_all_values:
  assumes "dict_ok d" "find (\<lambda>(key, value). value = x) d = Some (k, v)"
  shows "map snd (dict_del k d) = remove1 x (map snd d)"
  using assms
proof (induction d)
  case (Cons e d)
  obtain j w where e: "e = (j, w)" by (cases e)
  show ?case
  proof (cases "w = x")
    case True
    then have "k = j" using Cons.prems(2) e by simp
    moreover have "dict_del j d = d"
      using Cons.prems(1) e by (simp add: dict_ok_def delete_id)
    ultimately show ?thesis using e True by simp
  next
    case False
    then have found: "find (\<lambda>(key, value). value = x) d = Some (k, v)" using Cons.prems(2) e by simp
    then have "k \<in> fst ` set d" by (force simp: find_Some_iff in_set_conv_nth)
    then have "k \<noteq> j" using Cons.prems(1) e by (auto simp: dict_ok_def)
    then show ?thesis using Cons.IH [OF _ found] Cons.prems(1) e False by (simp add: dict_ok_def)
  qed
qed simp

lemma db_remove_all: "db_ok db \<Longrightarrow> db_all (snd (db_remove x db)) = remove1 x (db_all db)"
proof -
  assume ok: "db_ok db"
  show ?thesis
  proof (cases "find (\<lambda>(key, value). value = x) (db_database db)")
    case None
    then have "x \<notin> set (db_all db)" by (force simp: find_None_iff db_all_def)
    then show ?thesis using None by (simp add: db_remove_def remove1_idem)
  next
    case (Some e)
    obtain k v where "e = (k, v)" by (cases e)
    then show ?thesis
      using delete_all_values [of "db_database db" x k v] ok Some
      by (simp add: db_remove_def db_all_def db_ok_def)
  qed
qed

lemma db_remove_ok: "db_ok db \<Longrightarrow> db_ok (snd (db_remove x db))"
  by (auto simp: db_remove_def db_ok_def keys_of_delete split: option.splits)

lemma db_insert_new: "db_ok db \<Longrightarrow> db_database (snd (db_insert x db)) = db_database db @ [(db_next_id db, x)]"
  by (fastforce simp: db_insert_def db_ok_def intro: update_fresh)

interpretation dictionary: database db_init db_insert db_get db_update db_remove db_all db_ok
proof unfold_locales
  fix d :: dictionary_database and x :: pyval and i j :: int
  show "db_ok db_init" "db_all db_init = []"
    by (simp_all add: db_init_def db_ok_def db_all_def)
  show "db_ok (snd (db_remove x d))" "db_all (snd (db_remove x d)) = remove1 x (db_all d)" if "db_ok d"
    using that by (rule db_remove_ok, rule db_remove_all)
  show "db_ok (snd (db_insert x d))" if "db_ok d"
    using that by (auto simp: db_insert_def db_ok_def keys_of_update intro: less_trans)
  show "db_all (snd (db_insert x d)) = db_all d @ [x]" if "db_ok d"
    using db_insert_new [OF that] by (simp add: db_all_def)
  show "db_get (fst (db_insert x d)) d = None" if "db_ok d"
    using that by (auto simp: db_insert_def db_ok_def db_get_def map_of_eq_None_iff)
  show "db_get i (snd (db_insert x d)) = (if i = fst (db_insert x d) then Some x else db_get i d)"
    by (simp add: db_insert_def db_get_def dict_simps)
  show "db_ok (snd (db_update x i d))" if "db_ok d" "db_get i d \<noteq> None"
    using that by (auto simp: db_update_def db_ok_def db_get_def keys_of_update map_of_eq_None_iff)
  show "db_get j (snd (db_update x i d)) = (if j = i then Some x else db_get j d)"
    by (simp add: db_update_def db_get_def dict_simps)
  show "x \<in> set (db_all d) \<longleftrightarrow> (\<exists>i. db_get i d = Some x)" if "db_ok d"
    using that map_of_eq_Some_iff [of "db_database d"]
    by (force simp: db_get_def db_all_def db_ok_def dict_ok_def)
qed

end
