(* ===== verification/LdmService.thy ===== *)
theory LdmService
  imports LdmDatabase
begin

text \<open>
  The local dynamic map with the dictionary database: maintenance (\<open>ldm_maintenance.py\<close>,
  \<open>ldm_maintenance_reactive.py\<close>), the service with its subscriptions (\<open>ldm_service.py\<close>,
  \<open>ldm_service_reactive.py\<close>), the interfaces to providers and consumers (\<open>if_ldm_3.py\<close>,
  \<open>if_ldm_4.py\<close>), the factory and the adapters of the two awareness services. The clocks, the
  hash of a subscription and the callbacks, which may raise, are parameters. Every method runs
  to its end before the next one starts.
\<close>

section \<open>State\<close>

record SubscriptionInfo =
  si_subscription_request :: SubscribeDataobjectsReq
  si_callback :: nat

record ldm =
  m_data_containers :: dictionary_database
  m_area_of_maintenance :: Location
  m_new_data_recieved_flag :: bool
  m_last_trash_collection_time :: real
  s_data_provider_its_aid :: "int set"
  s_data_consumer_its_aid :: "int set"
  s_subscriptions :: "SubscriptionInfo list"
  s_last_checked_subscriptions_time :: "(SubscriptionInfo, TimestampIts) dict"
  s_last_subscription_time :: real
  s_published :: "(nat \<times> RequestDataObjectsResp) list"

text \<open>\<open>s_published\<close> is the sequence of calls of callbacks. The world around an operation:\<close>

record ldm_env =
  le_time :: real
  le_monotonic :: real
  le_hash :: "SubscribeDataobjectsReq \<Rightarrow> int"
  le_callback :: "nat \<Rightarrow> RequestDataObjectsResp \<Rightarrow> unit result"

definition ldm_init :: "real \<Rightarrow> Location \<Rightarrow> ldm" where
  "ldm_init monotonic area =
     \<lparr>m_data_containers = db_init, m_area_of_maintenance = area, m_new_data_recieved_flag = False,
      m_last_trash_collection_time = monotonic, s_data_provider_its_aid = {},
      s_data_consumer_its_aid = {}, s_subscriptions = [], s_last_checked_subscriptions_time = [],
      s_last_subscription_time = monotonic, s_published = []\<rparr>"

section \<open>Maintenance\<close>

definition run_db :: "(dictionary_database \<Rightarrow> 'a \<times> dictionary_database) \<Rightarrow> (ldm, 'a) prog" where
  "run_db f m = (case f (m_data_containers m) of (x, db) \<Rightarrow> (Inr x, m\<lparr>m_data_containers := db\<rparr>))"

definition delete_all_database :: "(ldm, bool) prog" where
  "delete_all_database = run_db db_delete"

text \<open>The dictionary database raises no \<open>KeyError\<close> here, so the handlers of the code are not reached.\<close>

definition mt_add_provider_data :: "AddDataProviderReq \<Rightarrow> (ldm, int) prog" where
  "mt_add_provider_data data =
     bind_s (run_db (db_insert (add_data_to_dict data))) (\<lambda>doc_id.
     then_s (modify_s (m_new_data_recieved_flag_update (\<lambda>_. True))) (return_s doc_id))"

definition get_provider_data :: "int \<Rightarrow> ldm \<Rightarrow> pyval option" where
  "get_provider_data data_object_id m = db_get data_object_id (m_data_containers m)"

definition mt_update_provider_data :: "int \<Rightarrow> pyval \<Rightarrow> (ldm, unit) prog" where
  "mt_update_provider_data data_object_id data_object =
     then_s (run_db (db_update data_object data_object_id)) (return_s ())"

definition mt_del_provider_data :: "pyval \<Rightarrow> (ldm, unit) prog" where
  "mt_del_provider_data data_object = then_s (run_db (db_remove data_object)) (return_s ())"

definition get_all_data_containers :: "ldm \<Rightarrow> pyval list" where
  "get_all_data_containers m = db_all (m_data_containers m)"

definition search_data_containers :: "RequestDataObjectsReq \<Rightarrow> ldm \<Rightarrow> pyval list result" where
  "search_data_containers request m = db_search request (m_data_containers m)"

text \<open>The loop of both checks: it walks over a copy of the containers and deletes those that a test picks.\<close>

fun delete_where :: "(pyval \<Rightarrow> bool result) \<Rightarrow> pyval list \<Rightarrow> (ldm, pyval list) prog" where
  "delete_where test [] = return_s []"
| "delete_where test (c # cs) =
     bind_s (lift_s (test c)) (\<lambda>picked.
       if picked
       then then_s (mt_del_provider_data c) (bind_s (delete_where test cs) (\<lambda>rest. return_s (c # rest)))
       else delete_where test cs)"

definition time_invalid :: "real \<Rightarrow> pyval \<Rightarrow> bool result" where
  "time_invalid now c =
     rbind (rbind (py_item c ''timeValidity'') py_num) (\<lambda>validity.
     rbind (rbind (py_item c ''timestamp'') py_num) (\<lambda>timestamp.
     Inr (validity * 1000 + timestamp
       < of_int (initialize_with_utc_timestamp_seconds now (Some (py_int now))))))"

definition check_and_delete_time_validity :: "real \<Rightarrow> (ldm, pyval list) prog" where
  "check_and_delete_time_validity now =
     bind_s (gets_s get_all_data_containers) (delete_where (time_invalid now))"

text \<open>The integers on which \<open>^\<close> works; a float raises.\<close>

fun py_integer :: "pyval \<Rightarrow> int result" where
  "py_integer (PInt n) = Inr n"
| "py_integer (PBool b) = Inr (bool_int b)"
| "py_integer _ = Inl TypeError"

definition position_step :: "string \<Rightarrow> py_step list" where
  "position_step k = [Key ''location'', Key ''referencePosition'', Key k]"

definition MAINTENANCE_AREA_MAX_ALTITUDE_DIFFERENCE :: int where
  "MAINTENANCE_AREA_MAX_ALTITUDE_DIFFERENCE = 15"

text \<open>The altitude difference is combined with 2 by \<open>^\<close>, the exclusive or of Python.\<close>

definition area_picked :: "Location \<Rightarrow> pyval \<Rightarrow> bool result" where
  "area_picked area c =
     (let here = loc_reference_position area in
     rbind (py_path (position_step ''latitude'') c) (\<lambda>latitude.
     rbind (py_path (position_step ''longitude'') c) (\<lambda>longitude.
     rbind (py_num latitude) (\<lambda>lat. rbind (py_num (rfp_latitude here)) (\<lambda>lat0.
     rbind (py_num longitude) (\<lambda>lon. rbind (py_num (rfp_longitude here)) (\<lambda>lon0.
     rbind (compare_with_int (ra_relevance_distance (loc_relevance_area area))
         (py_int (euclidian_distance (lat, lon) (lat0, lon0)))) (\<lambda>near.
     if \<not> near then Inr False
     else
       rbind (py_path (position_step ''altitude'' @ [Key ''altitudeValue'']) c) (\<lambda>altitude.
       rbind (py_integer altitude) (\<lambda>alt. rbind (py_integer (altd_value (rfp_altitude here))) (\<lambda>alt0.
       Inr (Bit_Operations.xor (alt - alt0) 2 < MAINTENANCE_AREA_MAX_ALTITUDE_DIFFERENCE))))))))))))"

definition check_and_delete_area_of_maintenance :: "(ldm, pyval list) prog" where
  "check_and_delete_area_of_maintenance =
     bind_s (gets_s m_area_of_maintenance) (\<lambda>area.
     bind_s (gets_s get_all_data_containers) (delete_where (area_picked area)))"

definition collect_trash :: "real \<Rightarrow> (ldm, unit) prog" where
  "collect_trash now =
     then_s (check_and_delete_time_validity now)
       (then_s check_and_delete_area_of_maintenance (return_s ()))"

definition update_area_of_maintenance :: "Location \<Rightarrow> (ldm, unit) prog" where
  "update_area_of_maintenance area = modify_s (m_area_of_maintenance_update (\<lambda>_. area))"

definition check_new_data_recieved :: "(ldm, bool) prog" where
  "check_new_data_recieved =
     bind_s (gets_s m_new_data_recieved_flag) (\<lambda>flag.
       if flag then then_s (modify_s (m_new_data_recieved_flag_update (\<lambda>_. False))) (return_s True)
       else return_s False)"

definition TRASH_COLLECTION_INTERVAL :: real where "TRASH_COLLECTION_INTERVAL = 1"

definition reactive_add :: "ldm_env \<Rightarrow> AddDataProviderReq \<Rightarrow> (ldm, int) prog" where
  "reactive_add env data =
     bind_s (mt_add_provider_data data) (\<lambda>i.
     bind_s (gets_s m_last_trash_collection_time) (\<lambda>last_time.
     then_s
       (if le_monotonic env - last_time \<ge> TRASH_COLLECTION_INTERVAL
        then then_s (collect_trash (le_time env))
               (modify_s (m_last_trash_collection_time_update (\<lambda>_. le_monotonic env)))
        else return_s ())
       (return_s i)))"

section \<open>Ordering\<close>

text \<open>
  Comparing with \<open><\<close>. Tuples and lists are compared at the first position where they differ;
  values of different kinds, and dictionaries, raise.
\<close>

definition same_value :: "pyval \<Rightarrow> pyval \<Rightarrow> bool" where
  "same_value v w \<longleftrightarrow> py_canon v = py_canon w"

fun py_less :: "pyval \<Rightarrow> pyval \<Rightarrow> bool result"
and py_less_list :: "pyval list \<Rightarrow> pyval list \<Rightarrow> bool result" where
  "py_less (PStr s) (PStr t) = Inr (str_less s t)"
| "py_less (PBytes s) (PBytes t) =
     Inr (str_less (map (char_of \<circ> unat) s) (map (char_of \<circ> unat) t))"
| "py_less (PTuple xs) (PTuple ys) = py_less_list xs ys"
| "py_less (PList xs) (PList ys) = py_less_list xs ys"
| "py_less v w = rbind (py_num v) (\<lambda>x. rbind (py_num w) (\<lambda>y. Inr (x < y)))"
| "py_less_list [] ys = Inr (ys \<noteq> [])"
| "py_less_list (x # xs) [] = Inr False"
| "py_less_list (x # xs) (y # ys) = (if same_value x y then py_less_list xs ys else py_less x y)"

text \<open>\<open>sorted\<close> is stable, and raises when two elements cannot be compared; insertion does the same.\<close>

fun insert_sorted :: "pyval list \<times> pyval \<Rightarrow> (pyval list \<times> pyval) list \<Rightarrow> (pyval list \<times> pyval) list result" where
  "insert_sorted x [] = Inr [x]"
| "insert_sorted x (y # ys) =
     rbind (py_less_list (fst y) (fst x)) (\<lambda>less.
       if less then rbind (insert_sorted x ys) (\<lambda>rest. Inr (y # rest)) else Inr (x # y # ys))"

fun sort_keyed :: "(pyval list \<times> pyval) list \<Rightarrow> (pyval list \<times> pyval) list result" where
  "sort_keyed [] = Inr []"
| "sort_keyed (x # xs) = rbind (sort_keyed xs) (insert_sorted x)"

definition build_key :: "OrderTupleValue list \<Rightarrow> pyval \<Rightarrow> pyval list result" where
  "build_key orders item =
     rmap (\<lambda>order. case item of
         PDict d \<Rightarrow> get_nested item (find_attribute (otv_attribute order) d)
       | _ \<Rightarrow> Inl AttributeError) orders"

definition order_search_results :: "pyval list \<Rightarrow> orders \<Rightarrow> pyval list list result" where
  "order_search_results search_results order =
     rbind (rmap (\<lambda>item. rbind (build_key (order_values order) item) (\<lambda>k. Inr (k, item))) search_results)
       (\<lambda>keyed.
     let descending = list_ex (\<lambda>q. otv_ordering_direction q = DESCENDING) (order_values order) in
     rbind (sort_keyed (if descending then rev keyed else keyed)) (\<lambda>ordered.
     Inr [map snd (if descending then rev ordered else ordered)]))"

section \<open>Service\<close>

text \<open>A subscription whose order is a list cannot be hashed, and is a key of a dictionary.\<close>

definition hash_check :: "SubscribeDataobjectsReq \<Rightarrow> unit result" where
  "hash_check r = (case sr_order r of Some (OrderList os) \<Rightarrow> Inl TypeError | _ \<Rightarrow> Inr ())"

definition search_data :: "SubscriptionInfo \<Rightarrow> ldm \<Rightarrow> pyval list result" where
  "search_data subscription m =
     (let r = si_subscription_request subscription in
      db_search
        \<lparr>rq_application_id = sr_application_id r, rq_data_object_type = sr_data_object_type r,
         rq_priority = sr_priority r, rq_order = sr_order r, rq_filter = sr_filter r\<rparr>
        (m_data_containers m))"

definition publish :: "ldm_env \<Rightarrow> nat \<Rightarrow> RequestDataObjectsResp \<Rightarrow> (ldm, unit) prog" where
  "publish env callback response =
     then_s (modify_s (\<lambda>m. m\<lparr>s_published := s_published m @ [(callback, response)]\<rparr>))
       (lift_s (le_callback env callback response))"

definition set_last_checked :: "SubscriptionInfo \<Rightarrow> TimestampIts \<Rightarrow> ldm \<Rightarrow> ldm" where
  "set_last_checked subscription t m =
     m\<lparr>s_last_checked_subscriptions_time := dict_set subscription t (s_last_checked_subscriptions_time m)\<rparr>"

definition process_notifications :: "ldm_env \<Rightarrow> SubscriptionInfo \<Rightarrow> pyval list \<Rightarrow> (ldm, unit) prog" where
  "process_notifications env subscription valid_search_result =
     (let r = si_subscription_request subscription;
          current_time = initialize_with_utc_timestamp_seconds (le_time env) None
      in
     then_s (lift_s (hash_check r)) (
     bind_s (gets_s (\<lambda>m. dict_get (s_last_checked_subscriptions_time m) subscription)) (\<lambda>found.
     let last_checked = (case found of None \<Rightarrow> current_time | Some t \<Rightarrow> t) in
     then_s
       (if found = None then modify_s (set_last_checked subscription current_time) else return_s ())
       (if \<exists>notify_time. sr_notify_time r = Some notify_time \<and> last_checked + notify_time > current_time
        then return_s ()
        else
          then_s (modify_s (set_last_checked subscription current_time))
            (publish env (si_callback subscription)
              \<lparr>rs_application_id = sr_application_id r, rs_data_objects = valid_search_result,
               rs_result = SUCCEED\<rparr>)))))"

definition remove_subscription :: "SubscriptionInfo \<Rightarrow> ldm \<Rightarrow> ldm" where
  "remove_subscription subscription m =
     m\<lparr>s_subscriptions := remove1 subscription (s_subscriptions m),
       s_last_checked_subscriptions_time := dict_del subscription (s_last_checked_subscriptions_time m)\<rparr>"

text \<open>One turn of the loop of \<open>attend_subscriptions\<close>: whether the subscription is to be removed.\<close>

definition attend_subscription :: "ldm_env \<Rightarrow> SubscriptionInfo \<Rightarrow> (ldm, bool) prog" where
  "attend_subscription env subscription =
     (let r = si_subscription_request subscription in
     bind_s (gets_s (search_data subscription)) (\<lambda>found.
     bind_s (lift_s found) (\<lambda>search_result.
     if search_result = [] then return_s False
     else if \<exists>k. sr_multiplicity r = Some k \<and> k > int (length search_result) then return_s False
     else
       bind_s (lift_s (case sr_order r of
           None \<Rightarrow> Inr search_result
         | Some order \<Rightarrow> rbind (order_search_results search_result order) (\<lambda>seqs. Inr (hd seqs))))
         (\<lambda>ordered_search_result.
       then_s (process_notifications env subscription ordered_search_result) (
       bind_s (gets_s s_data_consumer_its_aid) (\<lambda>consumers.
       if sr_application_id r \<notin> consumers
       then then_s (lift_s (hash_check r)) (return_s True) else return_s False))))))"

fun attend_each :: "ldm_env \<Rightarrow> SubscriptionInfo list \<Rightarrow> (ldm, SubscriptionInfo list) prog" where
  "attend_each env [] = return_s []"
| "attend_each env (s # ss) =
     bind_s (attend_subscription env s) (\<lambda>gone.
     bind_s (attend_each env ss) (\<lambda>rest. return_s (if gone then s # rest else rest)))"

definition attend_subscriptions :: "ldm_env \<Rightarrow> (ldm, unit) prog" where
  "attend_subscriptions env =
     bind_s (gets_s s_subscriptions) (\<lambda>subscriptions.
     bind_s (attend_each env subscriptions) (\<lambda>subscriptions_to_remove.
     modify_s (fold remove_subscription (remdups subscriptions_to_remove))))"

definition ATTEND_SUBSCRIPTIONS_INTERVAL :: real where "ATTEND_SUBSCRIPTIONS_INTERVAL = 1 / 2"

definition sv_add_provider_data :: "ldm_env \<Rightarrow> AddDataProviderReq \<Rightarrow> (ldm, int) prog" where
  "sv_add_provider_data env data =
     bind_s (reactive_add env data) (\<lambda>i.
     bind_s (gets_s s_last_subscription_time) (\<lambda>last_time.
     then_s
       (if le_monotonic env - last_time \<ge> ATTEND_SUBSCRIPTIONS_INTERVAL
        then then_s (attend_subscriptions env)
               (modify_s (s_last_subscription_time_update (\<lambda>_. le_monotonic env)))
        else return_s ())
       (return_s i)))"

definition add_data_provider_its_aid :: "int \<Rightarrow> ldm \<Rightarrow> ldm" where
  "add_data_provider_its_aid aid m =
     m\<lparr>s_data_provider_its_aid := Set.insert aid (s_data_provider_its_aid m)\<rparr>"

definition del_data_provider_its_aid :: "int \<Rightarrow> ldm \<Rightarrow> ldm" where
  "del_data_provider_its_aid aid m = m\<lparr>s_data_provider_its_aid := s_data_provider_its_aid m - {aid}\<rparr>"

definition add_data_consumer_its_aid :: "int \<Rightarrow> ldm \<Rightarrow> ldm" where
  "add_data_consumer_its_aid aid m =
     m\<lparr>s_data_consumer_its_aid := Set.insert aid (s_data_consumer_its_aid m)\<rparr>"

definition del_data_consumer_its_aid :: "int \<Rightarrow> ldm \<Rightarrow> ldm" where
  "del_data_consumer_its_aid aid m = m\<lparr>s_data_consumer_its_aid := s_data_consumer_its_aid m - {aid}\<rparr>"

definition sv_del_provider_data :: "int \<Rightarrow> ldm \<Rightarrow> ldm" where
  "sv_del_provider_data provider_data_id m =
     m\<lparr>s_data_provider_its_aid := s_data_provider_its_aid m - {provider_data_id}\<rparr>"

text \<open>The method of the service returns nothing, whatever the database answers.\<close>

definition sv_update_provider_data :: "int \<Rightarrow> pyval \<Rightarrow> (ldm, int option) prog" where
  "sv_update_provider_data data_object_id data_object =
     then_s (mt_update_provider_data data_object_id data_object) (return_s None)"

definition query :: "RequestDataObjectsReq \<Rightarrow> ldm \<Rightarrow> pyval list list result" where
  "query request m =
     (case (if rq_filter request = None then Inr (get_all_data_containers m)
            else search_data_containers request m) of
        Inl e \<Rightarrow> if e = KeyError then Inr [] else Inl e
      | Inr search_result \<Rightarrow>
          (case rq_order request of
             None \<Rightarrow> Inr [search_result]
           | Some order \<Rightarrow> order_search_results search_result order))"

definition sv_get_object_type_from_data_object :: "pyval \<Rightarrow> string result" where
  "sv_get_object_type_from_data_object data_object =
     rbind (object_type_name data_object) (\<lambda>name. Inr (case name of None \<Rightarrow> [] | Some n \<Rightarrow> n))"

definition store_new_subscription_petition ::
    "ldm_env \<Rightarrow> SubscribeDataobjectsReq \<Rightarrow> nat \<Rightarrow> (ldm, int) prog" where
  "store_new_subscription_petition env request callback =
     (let new_subscription = \<lparr>si_subscription_request = request, si_callback = callback\<rparr> in
     then_s (modify_s (s_subscriptions_update (\<lambda>ss. ss @ [new_subscription])))
       (then_s (lift_s (hash_check request))
         (then_s (modify_s (set_last_checked new_subscription
             (initialize_with_utc_timestamp_seconds (le_time env) None)))
           (return_s (le_hash env request)))))"

definition delete_subscription :: "ldm_env \<Rightarrow> int \<Rightarrow> (ldm, bool) prog" where
  "delete_subscription env subscription_id =
     bind_s (gets_s s_subscriptions) (\<lambda>subscriptions.
     then_s (for_each_s subscriptions (\<lambda>s. lift_s (hash_check (si_subscription_request s))))
     (let to_remove = filter (\<lambda>s. le_hash env (si_subscription_request s) = subscription_id) subscriptions
      in then_s (modify_s (fold remove_subscription (remdups to_remove))) (return_s (to_remove \<noteq> []))))"

end
