(* ===== verification/LdmInterfaces.thy ===== *)
theory LdmInterfaces
  imports LdmService
begin

text \<open>
  The interfaces of the local dynamic map to data providers (\<open>if_ldm_3.py\<close>) and data consumers
  (\<open>if_ldm_4.py\<close>), the subscription of the factory (\<open>factory.py\<close>) and the adapters through which
  the awareness services store their messages (\<open>cam_ldm_adaptation.py\<close>,
  \<open>vam_ldm_adaptation.py\<close>).
\<close>

section \<open>Data providers\<close>

record RegisterDataProviderReq =
  rp_application_id :: int
  rp_access_permissions :: "int list"
  rp_time_validity :: int

definition register_provider_to_dict :: "RegisterDataProviderReq \<Rightarrow> pyval" where
  "register_provider_to_dict r = PDict
     [(''application_id'', PInt (rp_application_id r)),
      (''access_permissions'', PTuple (map PInt (rp_access_permissions r))),
      (''time_validity'', PInt (rp_time_validity r))]"

datatype RegisterDataProviderResult = PROVIDER_ACCEPTED | PROVIDER_REJECTED

record RegisterDataProviderResp =
  pr_application_id :: int
  pr_access_permisions :: "int list"
  pr_result :: RegisterDataProviderResult

record UpdateDataProviderReq =
  up_application_id :: int
  up_data_object_id :: int
  up_time_stamp :: TimestampIts
  up_location :: Location
  up_data_object :: pyval
  up_time_validity :: int

datatype UpdateDataProviderResult =
  UPDATE_SUCCEED | UNKNOWN_DATA_OBJECT_ID | INCONSISTENT_DATA_OBJECT_TYPE

datatype DeleteDataProviderResult = DELETE_SUCCEED | DELETE_FAILED

definition check_its_aid :: "int \<Rightarrow> bool" where
  "check_its_aid aid \<longleftrightarrow> aid \<in> set VALID_ITS_AID"

definition provider_check_permissions :: "int list \<Rightarrow> int \<Rightarrow> bool" where
  "provider_check_permissions permissions_granted data_object_id =
     (permissions_granted \<noteq> [] \<and>
      (data_object_id = DENM \<or> list_ex (\<lambda>p. p = data_object_id) permissions_granted))"

definition register_data_provider ::
    "RegisterDataProviderReq \<Rightarrow> ldm \<Rightarrow> RegisterDataProviderResp \<times> ldm" where
  "register_data_provider data_provider m =
     (let aid = rp_application_id data_provider; permissions = rp_access_permissions data_provider in
      if \<not> check_its_aid aid \<or> \<not> provider_check_permissions permissions aid
      then (\<lparr>pr_application_id = aid, pr_access_permisions = permissions, pr_result = PROVIDER_REJECTED\<rparr>, m)
      else (\<lparr>pr_application_id = aid, pr_access_permisions = permissions, pr_result = PROVIDER_ACCEPTED\<rparr>,
            add_data_provider_its_aid aid m))"

text \<open>The acknowledgement, True for accepted.\<close>

definition deregister_data_provider :: "int \<Rightarrow> ldm \<Rightarrow> bool \<times> ldm" where
  "deregister_data_provider aid m =
     (if aid \<in> s_data_provider_its_aid m then (True, del_data_provider_its_aid aid m) else (False, m))"

text \<open>The number of the new data object, or -1.\<close>

definition if3_add_provider_data :: "ldm_env \<Rightarrow> AddDataProviderReq \<Rightarrow> (ldm, int) prog" where
  "if3_add_provider_data env data_provider =
     bind_s (gets_s s_data_provider_its_aid) (\<lambda>providers.
       if adr_application_id data_provider \<in> providers then sv_add_provider_data env data_provider
       else return_s (- 1))"

definition if3_update_provider_data ::
    "UpdateDataProviderReq \<Rightarrow> (ldm, int \<times> UpdateDataProviderResult) prog" where
  "if3_update_provider_data r =
     (let i = up_data_object_id r in
     bind_s (gets_s (db_exists ''dataObjectID'' i \<circ> m_data_containers)) (\<lambda>known.
     if \<not> known then return_s (i, UNKNOWN_DATA_OBJECT_ID)
     else
       bind_s (lift_s (sv_get_object_type_from_data_object (up_data_object r))) (\<lambda>object_type.
       bind_s (gets_s (db_exists object_type i \<circ> m_data_containers)) (\<lambda>consistent.
       if consistent
       then bind_s (sv_update_provider_data i (up_data_object r)) (\<lambda>new_id.
              return_s (case new_id of
                Some j \<Rightarrow> (j, UPDATE_SUCCEED) | None \<Rightarrow> (i, INCONSISTENT_DATA_OBJECT_TYPE)))
       else return_s (i, INCONSISTENT_DATA_OBJECT_TYPE)))))"

definition if3_delete_provider_data :: "int \<Rightarrow> ldm \<Rightarrow> DeleteDataProviderResult \<times> ldm" where
  "if3_delete_provider_data data_object_id m =
     (if db_exists ''dataObjectID'' data_object_id (m_data_containers m)
      then (DELETE_SUCCEED, sv_del_provider_data data_object_id m)
      else (DELETE_FAILED, m))"

section \<open>Data consumers\<close>

record RegisterDataConsumerReq =
  rc_application_id :: int
  rc_access_permisions :: "int list"
  rc_area_of_interest :: GeometricArea

datatype RegisterDataConsumerResult = CONSUMER_ACCEPTED | CONSUMER_WARNING | CONSUMER_REJECTED

text \<open>Registered services of the three message types may read everything.\<close>

definition consumer_check_permissions :: "int list \<Rightarrow> int \<Rightarrow> bool" where
  "consumer_check_permissions permissions_granted data_object_id =
     list_ex (\<lambda>p. p = data_object_id \<or> data_object_id \<in> {DENM, SPATEM, MAPEM}) permissions_granted"

definition register_data_consumer ::
    "RegisterDataConsumerReq \<Rightarrow> ldm \<Rightarrow> (int list \<times> RegisterDataConsumerResult) \<times> ldm" where
  "register_data_consumer r m =
     (let aid = rc_application_id r in
      if \<not> check_its_aid aid \<or> \<not> consumer_check_permissions (rc_access_permisions r) aid
      then (([], CONSUMER_REJECTED), m)
      else ((rc_access_permisions r, CONSUMER_ACCEPTED), add_data_consumer_its_aid aid m))"

definition deregister_data_consumer :: "int \<Rightarrow> ldm \<Rightarrow> bool \<times> ldm" where
  "deregister_data_consumer aid m =
     (if aid \<in> s_data_consumer_its_aid m then (True, del_data_consumer_its_aid aid m) else (False, m))"

definition response :: "RequestDataObjectsReq \<Rightarrow> pyval list \<Rightarrow> RequestedDataObjectsResult \<Rightarrow>
    RequestDataObjectsResp" where
  "response r objects result =
     \<lparr>rs_application_id = rq_application_id r, rs_data_objects = objects, rs_result = result\<rparr>"

text \<open>The order is accepted only as a list; an empty answer of the service has no first element.\<close>

definition request_data_objects :: "RequestDataObjectsReq \<Rightarrow> ldm \<Rightarrow> RequestDataObjectsResp result" where
  "request_data_objects r m =
     (if rq_application_id r \<notin> s_data_consumer_its_aid m then Inr (response r [] INVALID_ITSA_ID)
      else if list_ex (\<lambda>t. t \<notin> set (map fst DATA_OBJECT_TYPE_ID)) (rq_data_object_type r)
      then Inr (response r [] INVALID_DATA_OBJECT_TYPE)
      else if \<exists>p. rq_priority r = Some p \<and> (p < 0 \<or> p > 255) then Inr (response r [] INVALID_PRIORITY)
      else if \<exists>os. rq_order r = Some (OrderTuple os) then Inr (response r [] INVALID_ORDER)
      else rbind (query r m) (\<lambda>data_objects.
        case data_objects of [] \<Rightarrow> Inl IndexError | objects # _ \<Rightarrow> Inr (response r objects SUCCEED)))"

datatype SubscribeDataobjectsResult =
  SUBSCRIBE_SUCCESSFUL | SUBSCRIBE_INVALID_ITSA_ID | SUBSCRIBE_INVALID_DATA_OBJECT_TYPE
| SUBSCRIBE_INVALID_PRIORITY | SUBSCRIBE_INVALID_FILTER | SUBSCRIBE_INVALID_NOTIFICATION_INTERVAL
| SUBSCRIBE_INVALID_MULTIPLICITY | SUBSCRIBE_INVALID_ORDER

record SubscribeDataObjectsResp =
  sp_application_id :: int
  sp_subscription_id :: int
  sp_result :: SubscribeDataobjectsResult
  sp_error_message :: string

definition is_valid_data_object_type :: "int list \<Rightarrow> bool" where
  "is_valid_data_object_type types = list_all (\<lambda>t. t \<in> set (map fst DATA_OBJECT_TYPE_ID)) types"

definition is_valid_priority :: "int option \<Rightarrow> bool" where
  "is_valid_priority priority = (case priority of None \<Rightarrow> True | Some p \<Rightarrow> 0 \<le> p \<and> p \<le> 255)"

definition is_valid_notify_time :: "TimestampIts option \<Rightarrow> bool" where
  "is_valid_notify_time t = (case t of None \<Rightarrow> True | Some n \<Rightarrow> 0 \<le> n \<and> n \<le> 4398046511103)"

definition is_valid_multiplicity :: "int option \<Rightarrow> bool" where
  "is_valid_multiplicity k = (case k of None \<Rightarrow> True | Some n \<Rightarrow> 0 \<le> n \<and> n \<le> 255)"

text \<open>
  The direction of an order and the class of a filter hold by their types, so the two results for
  them are never given.
\<close>

definition validate_subscribe_data_consumer ::
    "SubscribeDataobjectsReq \<Rightarrow> ldm \<Rightarrow> SubscribeDataObjectsResp option" where
  "validate_subscribe_data_consumer r m =
     (let rejected = (\<lambda>result message. Some \<lparr>sp_application_id = sr_application_id r,
        sp_subscription_id = 0, sp_result = result, sp_error_message = message\<rparr>) in
      if sr_application_id r \<notin> s_data_consumer_its_aid m
      then rejected SUBSCRIBE_INVALID_ITSA_ID ''Invalid ITS-AID''
      else if \<not> is_valid_data_object_type (sr_data_object_type r)
      then rejected SUBSCRIBE_INVALID_DATA_OBJECT_TYPE ''Invalid data object type''
      else if \<not> is_valid_priority (sr_priority r)
      then rejected SUBSCRIBE_INVALID_PRIORITY ''Invalid priority''
      else if \<not> is_valid_notify_time (sr_notify_time r)
      then rejected SUBSCRIBE_INVALID_NOTIFICATION_INTERVAL ''Invalid notifyTime''
      else if \<not> is_valid_multiplicity (sr_multiplicity r)
      then rejected SUBSCRIBE_INVALID_MULTIPLICITY ''Invalid multiplicity''
      else None)"

definition subscribe_data_consumer ::
    "ldm_env \<Rightarrow> SubscribeDataobjectsReq \<Rightarrow> nat \<Rightarrow> (ldm, SubscribeDataObjectsResp) prog" where
  "subscribe_data_consumer env r callback =
     bind_s (gets_s (validate_subscribe_data_consumer r)) (\<lambda>result.
     case result of
       Some rejected \<Rightarrow> return_s rejected
     | None \<Rightarrow> bind_s (store_new_subscription_petition env r callback) (\<lambda>subscription_id.
         return_s \<lparr>sp_application_id = sr_application_id r, sp_subscription_id = subscription_id,
           sp_result = SUBSCRIBE_SUCCESSFUL, sp_error_message = []\<rparr>))"

text \<open>The number in the answer and whether the subscription was removed.\<close>

definition unsubscribe_data_consumer :: "ldm_env \<Rightarrow> int \<Rightarrow> int \<Rightarrow> (ldm, int \<times> bool) prog" where
  "unsubscribe_data_consumer env application_id subscription_id =
     bind_s (gets_s s_data_consumer_its_aid) (\<lambda>consumers.
       if application_id \<notin> consumers then return_s (0, False)
       else bind_s (delete_subscription env subscription_id) (\<lambda>found. return_s (subscription_id, found)))"

section \<open>The subscription of the factory\<close>

definition not_from :: "int \<Rightarrow> Filter" where
  "not_from own_station_id =
     \<lparr>flt_statement_1 = \<lparr>fs_attribute = ''header.stationId'', fs_operator = NOT_EQUAL,
        fs_ref_value = RefInt own_station_id\<rparr>,
      flt_logical_operator = None, flt_statement_2 = None\<rparr>"

definition factory_subscription :: "int \<Rightarrow> SubscribeDataobjectsReq" where
  "factory_subscription own_station_id =
     \<lparr>sr_application_id = CAM, sr_data_object_type = [CAM, VAM], sr_priority = None,
      sr_filter = Some (not_from own_station_id), sr_notify_time = Some 1, sr_multiplicity = Some 1,
      sr_order = None\<rparr>"

definition subscribe_to_ldm :: "ldm_env \<Rightarrow> int \<Rightarrow> GeometricArea \<Rightarrow> nat \<Rightarrow> (ldm, unit) prog" where
  "subscribe_to_ldm env own_station_id area_of_interest callback =
     bind_s (\<lambda>m. case register_data_consumer \<lparr>rc_application_id = CAM,
         rc_access_permisions = [CAM, VAM], rc_area_of_interest = area_of_interest\<rparr> m of
         (r, m') \<Rightarrow> (Inr r, m')) (\<lambda>registered.
     if snd registered = CONSUMER_REJECTED then raise_s PlainException
     else bind_s (subscribe_data_consumer env (factory_subscription own_station_id) callback) (\<lambda>subscribed.
       if sp_result subscribed \<noteq> SUBSCRIBE_SUCCESSFUL then raise_s PlainException else return_s ()))"

section \<open>The adapters of the awareness services\<close>

record service_ldm =
  sl_access_permissions :: "int list"
  sl_time_validity :: int

definition adapter_init :: "int \<Rightarrow> int list \<Rightarrow> int \<Rightarrow> ldm \<Rightarrow> service_ldm \<times> ldm" where
  "adapter_init aid access_permissions time_validity m =
     (\<lparr>sl_access_permissions = access_permissions, sl_time_validity = time_validity\<rparr>,
      snd (register_data_provider \<lparr>rp_application_id = aid,
        rp_access_permissions = access_permissions, rp_time_validity = time_validity\<rparr> m))"

definition cam_adapter_init :: "int list \<Rightarrow> int \<Rightarrow> ldm \<Rightarrow> service_ldm \<times> ldm" where
  "cam_adapter_init = adapter_init CAM"

definition vam_adapter_init :: "int list \<Rightarrow> int \<Rightarrow> ldm \<Rightarrow> service_ldm \<times> ldm" where
  "vam_adapter_init = adapter_init VAM"

text \<open>Both adapters read the reference position under the keys of their message.\<close>

definition adapter_request :: "int \<Rightarrow> py_step list \<Rightarrow> ldm_env \<Rightarrow> service_ldm \<Rightarrow> pyval \<Rightarrow> AddDataProviderReq result" where
  "adapter_request aid path env a message =
     rbind (py_path (path @ [Key ''latitude'']) message) (\<lambda>latitude.
     rbind (py_path (path @ [Key ''longitude'']) message) (\<lambda>longitude.
     rbind (py_path (path @ [Key ''altitude'', Key ''altitudeValue'']) message) (\<lambda>altitude.
     Inr \<lparr>adr_application_id = aid,
          adr_timestamp = initialize_with_utc_timestamp_seconds (le_time env) None,
          adr_location = location_builder_circle latitude longitude altitude 0,
          adr_data_object = message, adr_time_validity = sl_time_validity a\<rparr>)))"

definition cam_path :: "py_step list" where
  "cam_path = [Key ''cam'', Key ''camParameters'', Key ''basicContainer'', Key ''referencePosition'']"

definition vam_path :: "py_step list" where
  "vam_path = [Key ''vam'', Key ''vamParameters'', Key ''basicContainer'', Key ''referencePosition'']"

text \<open>The answer is always a number, so the check of the answer, which would raise, always passes.\<close>

definition cam_add_provider_data_to_ldm :: "ldm_env \<Rightarrow> service_ldm \<Rightarrow> pyval \<Rightarrow> (ldm, unit) prog" where
  "cam_add_provider_data_to_ldm env a cam =
     bind_s (lift_s (adapter_request CAM cam_path env a cam)) (\<lambda>data.
     bind_s (if3_add_provider_data env data) (\<lambda>data_object_id. return_s ()))"

definition vam_add_provider_data_to_ldm :: "ldm_env \<Rightarrow> service_ldm \<Rightarrow> pyval \<Rightarrow> (ldm, unit) prog" where
  "vam_add_provider_data_to_ldm env a vam =
     bind_s (lift_s (adapter_request VAM vam_path env a vam)) (\<lambda>data.
     bind_s (if3_add_provider_data env data) (\<lambda>data_object_id. return_s ()))"

end
