(* ===== verification/LdmProps.thy ===== *)
theory LdmProps
  imports LdmInterfaces
begin

text \<open>
  What the local dynamic map does: which containers the trash collection removes, what the
  interfaces make of adding, updating and deleting, how results are ordered and when subscribers
  are notified. The facts on the database come from its contract.
\<close>

section \<open>Containers\<close>

text \<open>The containers of the map and the set of requests they come from.\<close>

definition holds_requests :: "AddDataProviderReq list \<Rightarrow> ldm \<Rightarrow> bool" where
  "holds_requests rs m \<longleftrightarrow>
     db_ok (m_data_containers m) \<and> get_all_data_containers m = map add_data_to_dict rs"

definition adr_position :: "AddDataProviderReq \<Rightarrow> ReferencePosition" where
  "adr_position r = loc_reference_position (adr_location r)"

definition out_of_date :: "real \<Rightarrow> AddDataProviderReq \<Rightarrow> bool" where
  "out_of_date now r \<longleftrightarrow>
     adr_time_validity r * 1000 + adr_timestamp r
       < initialize_with_utc_timestamp_seconds now (Some (py_int now))"

text \<open>A position of three integers.\<close>

definition at_position :: "int \<times> int \<times> int \<Rightarrow> ReferencePosition \<Rightarrow> bool" where
  "at_position c p \<longleftrightarrow>
     (case c of (lat, lon, alt) \<Rightarrow>
       rfp_latitude p = PInt lat \<and> rfp_longitude p = PInt lon \<and> altd_value (rfp_altitude p) = PInt alt)"

text \<open>
  What the check of the area deletes, in integers: \<open>s\<close> is the square of the distance from the
  reference position in ten-millionths of a degree and \<open>h\<close> the height above it. The limits are the
  metres of the relevance distances 0 to 6; relevance distance 7 stands for more than 20000.
\<close>

definition distance_limits :: "int list" where
  "distance_limits = [50, 100, 200, 500, 1000, 5000, 10000]"

definition deleted_by_area :: "int \<Rightarrow> int \<times> int \<times> int \<Rightarrow> int \<times> int \<times> int \<Rightarrow> bool" where
  "deleted_by_area n c d \<longleftrightarrow>
     (case (c, d) of ((lat, lon, alt), (lat0, lon0, alt0)) \<Rightarrow>
        let s = (lat - lat0) ^ 2 + (lon - lon0) ^ 2; h = alt - alt0 in
        (if n = 7 then 20001 ^ 2 \<le> s else s < (distance_limits ! nat n) ^ 2) \<and> h < 16 \<and> h \<noteq> 13)"

text \<open>A truncated root against an integer.\<close>

lemma truncated_root:
  assumes "0 \<le> (s :: int)" "0 \<le> k"
  shows "py_int (sqrt (of_int s)) < k \<longleftrightarrow> s < k ^ 2"
proof -
  have "py_int (sqrt (of_int s)) < k \<longleftrightarrow> sqrt (of_int s) < of_int k"
    using assms(1) by (simp add: py_int_def floor_less_iff)
  also have "\<dots> \<longleftrightarrow> sqrt (of_int s) < sqrt (of_int (k ^ 2))" using assms(2) by simp
  also have "\<dots> \<longleftrightarrow> s < k ^ 2" by (simp only: real_sqrt_less_iff of_int_less_iff)
  finally show ?thesis .
qed

text \<open>Exclusive or with 2 moves an integer within its block of four.\<close>

lemma xor_2_less_15: "Bit_Operations.xor h 2 < (15 :: int) \<longleftrightarrow> h < 16 \<and> h \<noteq> 13"
proof -
  let ?x = "Bit_Operations.xor h 2"
  have "drop_bit 2 ?x = drop_bit 2 h" by (simp add: drop_bit_xor)
  then have div4: "?x div 4 = h div 4" by (simp add: drop_bit_eq_div)
  have "take_bit 2 ?x = Bit_Operations.xor (take_bit 2 h) 2" by (simp add: take_bit_xor)
  then have mod4: "?x mod 4 = Bit_Operations.xor (h mod 4) 2" by (simp add: take_bit_eq_mod)
  have "h mod 4 = 0 \<or> h mod 4 = 1 \<or> h mod 4 = 2 \<or> h mod 4 = 3" by presburger
  then have "(h mod 4 = 0 \<and> ?x mod 4 = 2) \<or> (h mod 4 = 1 \<and> ?x mod 4 = 3)
      \<or> (h mod 4 = 2 \<and> ?x mod 4 = 0) \<or> (h mod 4 = 3 \<and> ?x mod 4 = 1)"
    unfolding mod4 by (elim disjE) simp_all
  with div4 show ?thesis by presburger
qed

lemma time_invalid_container: "time_invalid now (add_data_to_dict r) = Inr (out_of_date now r)"
proof -
  have "(of_int a * 1000 + of_int b < (of_int c :: real)) = (a * 1000 + b < c)" for a b c :: int
    by (simp flip: of_int_less_iff [where ?'a = real])
  then show ?thesis by (simp add: time_invalid_def add_data_to_dict_def out_of_date_def)
qed

lemma container_position:
  assumes "at_position c (adr_position r)"
  shows "py_path (position_step ''latitude'') (add_data_to_dict r) = Inr (PInt (fst c))"
    and "py_path (position_step ''longitude'') (add_data_to_dict r) = Inr (PInt (fst (snd c)))"
    and "py_path (position_step ''altitude'' @ [Key ''altitudeValue'']) (add_data_to_dict r)
      = Inr (PInt (snd (snd c)))"
  using assms
  by (simp_all add: position_step_def add_data_to_dict_def location_to_dict_def Let_def at_position_def
      adr_position_def split: prod.splits)

lemma compare_with_distance:
  assumes "0 \<le> n" "n \<le> 7" "0 \<le> s"
  shows "compare_with_int n (py_int (sqrt (of_int s)))
    = Inr (if n = 7 then 20001 ^ 2 \<le> s else s < (distance_limits ! nat n) ^ 2)"
proof -
  have "n = 0 \<or> n = 1 \<or> n = 2 \<or> n = 3 \<or> n = 4 \<or> n = 5 \<or> n = 6 \<or> n = 7" using assms(1,2) by presburger
  moreover have "20000 < py_int (sqrt (of_int s)) \<longleftrightarrow> 20001 ^ 2 \<le> s"
    using truncated_root [OF assms(3), of 20001] by simp linarith
  ultimately show ?thesis
    using truncated_root [OF assms(3)] by (elim disjE) (simp_all add: compare_with_int_def distance_limits_def)
qed

lemma area_picked_container:
  assumes "at_position c (adr_position r)" "at_position d (loc_reference_position area)"
    and "0 \<le> ra_relevance_distance (loc_relevance_area area)"
        "ra_relevance_distance (loc_relevance_area area) \<le> 7"
  shows "area_picked area (add_data_to_dict r)
    = Inr (deleted_by_area (ra_relevance_distance (loc_relevance_area area)) c d)"
proof -
  obtain lat lon alt lat0 lon0 alt0 where cd: "c = (lat, lon, alt)" "d = (lat0, lon0, alt0)"
    by (metis prod_cases3)
  let ?s = "(lat - lat0) ^ 2 + (lon - lon0) ^ 2"
  have root: "euclidian_distance (of_int lat, of_int lon) (of_int lat0, of_int lon0) = sqrt (of_int ?s)"
    by (simp add: euclidian_distance_def)
  have here: "rfp_latitude (loc_reference_position area) = PInt lat0"
    "rfp_longitude (loc_reference_position area) = PInt lon0"
    "altd_value (rfp_altitude (loc_reference_position area)) = PInt alt0"
    using assms(2) by (simp_all add: at_position_def cd)
  note path = container_position [OF assms(1), unfolded cd fst_conv snd_conv]
  show ?thesis
    unfolding area_picked_def Let_def path here
    using compare_with_distance [OF assms(3,4), of ?s]
    by (simp add: root deleted_by_area_def cd Let_def xor_2_less_15 MAINTENANCE_AREA_MAX_ALTITUDE_DIFFERENCE_def
        del: of_int_add of_int_power of_int_diff)
qed

lemma run_db_run:
  "run_db f m = (Inr (fst (f (m_data_containers m))), m\<lparr>m_data_containers := snd (f (m_data_containers m))\<rparr>)"
  by (simp add: run_db_def split: prod.split)

lemma del_run:
  "mt_del_provider_data c m = (Inr (), m\<lparr>m_data_containers := snd (db_remove c (m_data_containers m))\<rparr>)"
  by (simp add: mt_del_provider_data_def run_db_run then_s_def bind_s_def)

text \<open>Deleting what a total test picks removes exactly that.\<close>

lemma delete_where_total:
  assumes "\<forall>c\<in>set cs. test c = Inr (P c)"
  shows "delete_where test cs m
    = (Inr (filter P cs), m\<lparr>m_data_containers := dictionary.remove_each P cs (m_data_containers m)\<rparr>)"
  using assms
proof (induction cs arbitrary: m)
  case Nil
  then show ?case by (simp add: dictionary.remove_each_def)
next
  case (Cons c cs)
  then show ?case by (simp add: dictionary.remove_each_def then_s_def bind_s_def del_run)
qed

lemma collect_step:
  assumes "db_ok (m_data_containers m)"
    and "\<forall>c\<in>set (get_all_data_containers m). test c = Inr (P c)"
  obtains m' where "bind_s (gets_s get_all_data_containers) (delete_where test) m
      = (Inr (filter P (get_all_data_containers m)), m')"
    and "m' = m\<lparr>m_data_containers := m_data_containers m'\<rparr>" "db_ok (m_data_containers m')"
    and "get_all_data_containers m' = filter (\<lambda>c. \<not> P c) (get_all_data_containers m)"
proof
  let ?m = "m\<lparr>m_data_containers := dictionary.remove_each P (get_all_data_containers m) (m_data_containers m)\<rparr>"
  show "bind_s (gets_s get_all_data_containers) (delete_where test) m
      = (Inr (filter P (get_all_data_containers m)), ?m)"
    by (simp add: delete_where_total [OF assms(2)])
  show "?m = m\<lparr>m_data_containers := m_data_containers ?m\<rparr>" by simp
  show "db_ok (m_data_containers ?m)" by (simp add: dictionary.remove_each_inv assms(1))
  show "get_all_data_containers ?m = filter (\<lambda>c. \<not> P c) (get_all_data_containers m)"
    by (simp add: get_all_data_containers_def dictionary.remove_each_all assms(1))
qed

lemma collect_requests:
  assumes "holds_requests rs m" and test: "\<forall>r\<in>set rs. test (add_data_to_dict r) = Inr (Q r)"
  obtains x m' where "bind_s (gets_s get_all_data_containers) (delete_where test) m = (Inr x, m')"
    and "m' = m\<lparr>m_data_containers := m_data_containers m'\<rparr>"
    and "holds_requests (filter (\<lambda>r. \<not> Q r) rs) m'"
proof -
  let ?P = "\<lambda>c. test c = Inr True"
  have all: "get_all_data_containers m = map add_data_to_dict rs" and ok: "db_ok (m_data_containers m)"
    using assms(1) by (simp_all add: holds_requests_def)
  have "\<forall>c\<in>set (get_all_data_containers m). test c = Inr (?P c)" using test all by auto
  then obtain m' where m': "bind_s (gets_s get_all_data_containers) (delete_where test) m
      = (Inr (filter ?P (get_all_data_containers m)), m')"
    "m' = m\<lparr>m_data_containers := m_data_containers m'\<rparr>" "db_ok (m_data_containers m')"
    "get_all_data_containers m' = filter (\<lambda>c. \<not> ?P c) (get_all_data_containers m)"
    by (rule collect_step [OF ok])
  have "filter (\<lambda>c. \<not> ?P c) (map add_data_to_dict rs) = map add_data_to_dict (filter (\<lambda>r. \<not> Q r) rs)"
    using test by (induction rs) auto
  then have "holds_requests (filter (\<lambda>r. \<not> Q r) rs) m'"
    using m'(3,4) all by (simp add: holds_requests_def)
  then show thesis by (rule that [OF m'(1,2)])
qed

section \<open>Trash collection\<close>

text \<open>A relevance distance of the standard, and an area whose position is given by integers.\<close>

definition area_at :: "int \<times> int \<times> int \<Rightarrow> int \<Rightarrow> Location \<Rightarrow> bool" where
  "area_at d n area \<longleftrightarrow> at_position d (loc_reference_position area)
     \<and> ra_relevance_distance (loc_relevance_area area) = n \<and> 0 \<le> n \<and> n \<le> 7"

text \<open>
  C27: Trash collection over containers with integer positions always succeeds, touches nothing but
  the containers and keeps, in their order, exactly those that are in date and that the check of the
  area does not delete. What the check deletes is not what its documentation says (data that is not
  within the area of maintenance): with relevance distance 0 to 6 it deletes the containers whose
  distance from the reference position, in ten-millionths of a degree (about a centimetre), is less
  than the number of metres the relevance distance stands for, and with 7 those that are farther
  than 20000 of these units; of them it spares the ones that are 13 or more than 15 units of altitude
  higher, and none that is lower.
\<close>

theorem trash_collection:
  assumes "holds_requests rs m"
    and "area_at d n (m_area_of_maintenance m)"
    and "\<forall>r\<in>set rs. at_position (position r) (adr_position r)"
  shows "\<exists>m'. collect_trash now m = (Inr (), m')
    \<and> m' = m\<lparr>m_data_containers := m_data_containers m'\<rparr>
    \<and> holds_requests (filter (\<lambda>r. \<not> out_of_date now r \<and> \<not> deleted_by_area n (position r) d) rs) m'"
proof -
  obtain x m1 where m1: "check_and_delete_time_validity now m = (Inr x, m1)"
    "m1 = m\<lparr>m_data_containers := m_data_containers m1\<rparr>"
    "holds_requests (filter (\<lambda>r. \<not> out_of_date now r) rs) m1"
    unfolding check_and_delete_time_validity_def
    by (rule collect_requests [OF assms(1), of "time_invalid now" "out_of_date now"])
      (simp_all add: time_invalid_container)
  have "m_area_of_maintenance m1 = m_area_of_maintenance m" using arg_cong [OF m1(2), of m_area_of_maintenance] by simp
  then have "area_at d n (m_area_of_maintenance m1)" using assms(2) by simp
  then have area: "at_position d (loc_reference_position (m_area_of_maintenance m1))"
    "ra_relevance_distance (loc_relevance_area (m_area_of_maintenance m1)) = n" "0 \<le> n" "n \<le> 7"
    by (simp_all add: area_at_def)
  have picked: "\<forall>r\<in>set (filter (\<lambda>r. \<not> out_of_date now r) rs).
      area_picked (m_area_of_maintenance m1) (add_data_to_dict r) = Inr (deleted_by_area n (position r) d)"
  proof
    fix r assume "r \<in> set (filter (\<lambda>r. \<not> out_of_date now r) rs)"
    then have "at_position (position r) (adr_position r)" using assms(3) by simp
    from area_picked_container [OF this area(1)] show
      "area_picked (m_area_of_maintenance m1) (add_data_to_dict r) = Inr (deleted_by_area n (position r) d)"
      unfolding area(2) by (simp only: area(3,4))
  qed
  obtain y m2 where
    m2: "check_and_delete_area_of_maintenance m1 = (Inr y, m2)"
    "m2 = m1\<lparr>m_data_containers := m_data_containers m2\<rparr>"
    "holds_requests (filter (\<lambda>r. \<not> deleted_by_area n (position r) d) (filter (\<lambda>r. \<not> out_of_date now r) rs)) m2"
    using collect_requests [OF m1(3) picked]
    by (simp only: check_and_delete_area_of_maintenance_def run_gets_bind) blast
  have "m2 = m\<lparr>m_data_containers := m_data_containers m2\<rparr>" by (subst m2(2), subst m1(2)) simp
  moreover have "collect_trash now m = (Inr (), m2)"
    by (simp add: collect_trash_def then_s_def bind_s_def m1(1) m2(1))
  ultimately show ?thesis using m2(3) by (auto simp: conj_commute)
qed

text \<open>A container at the centre of the area and one a degree to the north; both are in date.\<close>

definition request_at :: "int \<Rightarrow> pyval \<Rightarrow> AddDataProviderReq" where
  "request_at lat object =
     \<lparr>adr_application_id = CAM, adr_timestamp = 0,
      adr_location = location_builder_circle (PInt lat) (PInt 0) (PInt 0) 0,
      adr_data_object = object, adr_time_validity = 1000\<rparr>"

definition map_of_requests :: "AddDataProviderReq list \<Rightarrow> ldm \<Rightarrow> ldm" where
  "map_of_requests rs m = m\<lparr>m_data_containers :=
     fold (\<lambda>r db. snd (db_insert (add_data_to_dict r) db)) rs db_init\<rparr>"

lemma map_of_requests_holds: "holds_requests rs (map_of_requests rs m)"
proof -
  let ?ds = "map add_data_to_dict rs"
  have "fold (\<lambda>r db. snd (db_insert (add_data_to_dict r) db)) rs db_init = dictionary.insert_each ?ds db_init"
    by (simp add: dictionary.insert_each_def fold_map comp_def)
  then show ?thesis
    using dictionary.insert_each_all [OF dictionary.fresh_inv, of ?ds]
    by (simp add: holds_requests_def map_of_requests_def get_all_data_containers_def db_init_def db_all_def)
qed

lemma request_at_position: "at_position (lat, 0, 0) (adr_position (request_at lat object))"
  by (simp add: at_position_def adr_position_def request_at_def location_builder_circle_def)

definition area_at_origin :: Location where
  "area_at_origin = location_builder_circle (PInt 0) (PInt 0) (PInt 0) 0"

lemma area_at_origin: "area_at (0, 0, 0) 1 area_at_origin"
  by (simp add: area_at_def at_position_def area_at_origin_def location_builder_circle_def)

lemma request_in_date: "\<not> out_of_date (real_of_int ITS_EPOCH) (request_at lat object)"
  by (simp add: out_of_date_def request_at_def initialize_with_utc_timestamp_seconds_def
      transform_utc_seconds_timestamp_to_timestamp_its_def ELAPSED_SECONDS_def ITS_EPOCH_def py_int_def)

theorem trash_collection_witness:
  "\<exists>m'. collect_trash (real_of_int ITS_EPOCH)
      (map_of_requests [request_at 0 (PDict []), request_at 10000000 (PDict [])] (ldm_init 0 area_at_origin))
    = (Inr (), m') \<and> holds_requests [request_at 10000000 (PDict [])] m'"
proof -
  let ?rs = "[request_at 0 (PDict []), request_at 10000000 (PDict [])]"
  let ?m = "map_of_requests ?rs (ldm_init 0 area_at_origin)"
  let ?pos = "\<lambda>r. if r = request_at 0 (PDict []) then (0, 0, 0) else (10000000, 0, 0)"
  have diff: "request_at 10000000 (PDict []) \<noteq> request_at 0 (PDict [])"
    by (simp add: request_at_def location_builder_circle_def)
  have area: "area_at (0, 0, 0) 1 (m_area_of_maintenance ?m)"
    using area_at_origin by (simp add: map_of_requests_def ldm_init_def)
  have "\<forall>r\<in>set ?rs. at_position (?pos r) (adr_position r)"
    using diff by (simp add: request_at_position)
  note trash_collection [OF map_of_requests_holds area this, of "real_of_int ITS_EPOCH"]
  moreover have "deleted_by_area 1 (0, 0, 0) (0, 0, 0)" "\<not> deleted_by_area 1 (10000000, 0, 0) (0, 0, 0)"
    by (simp_all add: deleted_by_area_def distance_limits_def)
  ultimately show ?thesis using diff by (auto simp: request_in_date)
qed

section \<open>Updating and deleting\<close>

lemma delete_where_raises:
  assumes "\<forall>c\<in>set cs. test c = Inl e \<or> (\<exists>b. test c = Inr b)" "\<exists>c\<in>set cs. test c = Inl e"
  shows "fst (delete_where test cs m) = Inl e"
  using assms
proof (induction cs arbitrary: m)
  case (Cons c cs)
  show ?case
  proof (cases "test c = Inl e")
    case True
    then show ?thesis by simp
  next
    case False
    then obtain b where b: "test c = Inr b" using Cons.prems(1) by auto
    then have rest: "fst (delete_where test cs m') = Inl e" for m'
      using Cons.prems False by (intro Cons.IH) auto
    show ?thesis
      using b rest [of m] rest [of "snd (mt_del_provider_data c m)"]
      by (cases "delete_where test cs (snd (mt_del_provider_data c m))")
        (auto simp: then_s_def bind_s_def del_run)
  qed
qed simp

lemma type_name_known:
  "object_type_name (PDict d) = Inr (Some k) \<Longrightarrow> k \<in> set (map snd DATA_OBJECT_TYPE_ID)"
  by (auto simp: object_type_name_def find_Some_iff)

lemma collect_raises_on_bare_object:
  assumes "set (get_all_data_containers m) \<subseteq> Set.insert (PDict d) (add_data_to_dict ` set rs)"
    and "PDict d \<in> set (get_all_data_containers m)" and "map_of d ''timeValidity'' = None"
  shows "fst (collect_trash now m) = Inl KeyError"
proof -
  have bare: "time_invalid now (PDict d) = Inl KeyError" using assms(3) by (simp add: time_invalid_def)
  have "\<forall>c\<in>set (get_all_data_containers m).
      time_invalid now c = Inl KeyError \<or> (\<exists>b. time_invalid now c = Inr b)"
    using assms(1) bare time_invalid_container by blast
  then have "fst (delete_where (time_invalid now) (get_all_data_containers m) m) = Inl KeyError"
    using bare assms(2) by (intro delete_where_raises) auto
  then show ?thesis
    by (cases "delete_where (time_invalid now) (get_all_data_containers m) m")
      (simp add: collect_trash_def check_and_delete_time_validity_def then_s_def bind_s_def)
qed

text \<open>
  Updating a stored object with one of a message type that occurs in the map never reports
  success: the answer is always that the type is inconsistent, although the container has been
  replaced, and by the bare object without its time and place. From then on every trash
  collection raises \<open>KeyError\<close>.
\<close>

lemma update_breaks_collection:
  assumes "holds_requests rs m" "up_data_object_id r = i" "get_provider_data i m \<noteq> None"
    and "up_data_object r = PDict d" "object_type_name (PDict d) = Inr (Some k)"
    and "list_ex (check_field k) (get_all_data_containers m)" "map_of d ''timeValidity'' = None"
  shows "\<exists>m'. if3_update_provider_data r m = (Inr (i, INCONSISTENT_DATA_OBJECT_TYPE), m')
    \<and> get_provider_data i m' = Some (PDict d) \<and> fst (collect_trash now m') = Inl KeyError"
proof (intro exI conjI)
  let ?db = "m_data_containers m" and ?db' = "snd (db_update (PDict d) i (m_data_containers m))"
  let ?m' = "m\<lparr>m_data_containers := ?db'\<rparr>"
  have ok: "db_ok ?db" "db_get i ?db \<noteq> None"
    using assms(1,3) by (simp_all add: holds_requests_def get_provider_data_def)
  have known: "db_exists ''dataObjectID'' i ?db" using ok(2) by (simp add: db_exists_def db_get_def)
  have "k \<noteq> ''dataObjectID''"
    using type_name_known [OF assms(5)] by (auto simp: DATA_OBJECT_TYPE_ID_def)
  then have consistent: "db_exists k i ?db" using assms(6) by (simp add: db_exists_def get_all_data_containers_def)
  show "if3_update_provider_data r m = (Inr (i, INCONSISTENT_DATA_OBJECT_TYPE), ?m')"
    by (simp add: if3_update_provider_data_def assms(2,4,5) known consistent
        sv_get_object_type_from_data_object_def sv_update_provider_data_def mt_update_provider_data_def
        run_db_run then_s_def bind_s_def)
  show "get_provider_data i ?m' = Some (PDict d)"
    by (simp add: get_provider_data_def dictionary.update_get [OF ok(1)])
  show "fst (collect_trash now ?m') = Inl KeyError"
    using dictionary.update_all [OF ok, of "PDict d"] assms(1)
    by (intro collect_raises_on_bare_object [OF _ _ assms(7), of _ rs])
      (simp_all add: get_all_data_containers_def holds_requests_def)
qed

theorem update_breaks_collection_witness:
  "\<exists>m'. if3_update_provider_data \<lparr>up_application_id = CAM, up_data_object_id = 0, up_time_stamp = 0,
        up_location = area_at_origin, up_data_object = PDict [(''cam'', PInt 1)], up_time_validity = 5\<rparr>
      (map_of_requests [request_at 0 (PDict [(''cam'', PNone)])] (ldm_init 0 area_at_origin))
    = (Inr (0, INCONSISTENT_DATA_OBJECT_TYPE), m') \<and> fst (collect_trash 0 m') = Inl KeyError"
proof -
  let ?m = "map_of_requests [request_at 0 (PDict [(''cam'', PNone)])] (ldm_init 0 area_at_origin)"
  have stored: "get_provider_data 0 ?m \<noteq> None"
    by (simp add: get_provider_data_def map_of_requests_def db_get_def db_insert_def db_init_def)
  have "check_field ''cam'' (add_data_to_dict (request_at 0 (PDict [(''cam'', PNone)])))"
    by (simp add: add_data_to_dict_def request_at_def)
  then have "list_ex (check_field ''cam'') (get_all_data_containers ?m)"
    using map_of_requests_holds by (simp add: holds_requests_def)
  note update_breaks_collection [OF map_of_requests_holds _ stored _ _ this,
    where d = "[(''cam'', PInt 1)]" and now = 0]
  then show ?thesis by (force simp: object_type_name_def DATA_OBJECT_TYPE_ID_def)
qed

text \<open>
  Deleting a stored object is answered with success but deletes nothing: every object stays
  in the map. What goes instead is the registration of the provider whose identifier equals the
  number of the object, and that provider can no longer add data.
\<close>

lemma delete_deregisters_provider:
  assumes "get_provider_data i m \<noteq> None"
  shows "\<exists>m'. if3_delete_provider_data i m = (DELETE_SUCCEED, m')
    \<and> get_all_data_containers m' = get_all_data_containers m
    \<and> if3_add_provider_data env (r\<lparr>adr_application_id := i\<rparr>) m' = (Inr (- 1), m')"
proof -
  have "db_exists ''dataObjectID'' i (m_data_containers m)"
    using assms by (simp add: get_provider_data_def db_exists_def db_get_def)
  then have "if3_delete_provider_data i m = (DELETE_SUCCEED, sv_del_provider_data i m)"
    by (simp add: if3_delete_provider_data_def)
  then show ?thesis
    by (simp add: sv_del_provider_data_def get_all_data_containers_def if3_add_provider_data_def)
qed

lemma delete_deregisters_provider_witness:
  "\<exists>m'. if3_delete_provider_data 0
      (map_of_requests [request_at 0 (PDict [])] (ldm_init 0 area_at_origin)) = (DELETE_SUCCEED, m')
    \<and> if3_add_provider_data \<lparr>le_time = 0, le_monotonic = 0, le_hash = (\<lambda>r. 0), le_callback = (\<lambda>i r. Inr ())\<rparr>
        (request_at 0 (PDict [])\<lparr>adr_application_id := 0\<rparr>) m' = (Inr (- 1), m')"
proof -
  have "get_provider_data 0 (map_of_requests [request_at 0 (PDict [])] (ldm_init 0 area_at_origin)) \<noteq> None"
    by (simp add: get_provider_data_def map_of_requests_def db_get_def db_insert_def db_init_def)
  from delete_deregisters_provider [OF this] show ?thesis by blast
qed

section \<open>Ordering\<close>

definition keyed :: "(pyval \<Rightarrow> int) \<Rightarrow> pyval \<Rightarrow> pyval list \<times> pyval" where
  "keyed f x = ([PInt (f x)], x)"

lemma insert_sorted_keyed:
  "insert_sorted (keyed f x) (map (keyed f) ys) = Inr (map (keyed f) (insort_key f x ys))"
  by (induction ys) (auto simp: keyed_def same_value_def)

lemma sort_keyed_keyed: "sort_keyed (map (keyed f) xs) = Inr (map (keyed f) (sort_key f xs))"
  by (induction xs) (simp_all add: insert_sorted_keyed sort_key_def)

text \<open>
  Ordering search results by an attribute that is an integer in each of them is the stable sort
  by that attribute; in descending order the results with equal values keep their order, too.
\<close>

lemma order_is_stable_sort:
  assumes "\<forall>x\<in>set xs. \<exists>d. x = PDict d \<and> get_nested x (find_attribute attribute d) = Inr (PInt (f x))"
  shows "order_search_results xs
      (OrderList [\<lparr>otv_attribute = attribute, otv_ordering_direction = direction\<rparr>])
    = Inr [if direction = DESCENDING then rev (sort_key f (rev xs)) else sort_key f xs]"
proof -
  let ?os = "[\<lparr>otv_attribute = attribute, otv_ordering_direction = direction\<rparr>]"
  have "rmap (\<lambda>item. rbind (build_key ?os item) (\<lambda>k. Inr (k, item))) xs = Inr (map (keyed f) xs)"
    using assms by (induction xs) (auto simp: build_key_def keyed_def)
  moreover have "map snd (map (keyed f) ys) = ys" for ys by (simp add: keyed_def comp_def)
  ultimately show ?thesis
    by (cases direction)
      (simp_all add: order_search_results_def Let_def sort_keyed_keyed rev_map)
qed

theorem order_is_stable_sort_witness:
  "order_search_results [PDict [(''a'', PInt 2)], PDict [(''a'', PInt 1)]]
      (OrderList [\<lparr>otv_attribute = ''a'', otv_ordering_direction = ASCENDING\<rparr>])
    = Inr [[PDict [(''a'', PInt 1)], PDict [(''a'', PInt 2)]]]"
  using order_is_stable_sort [of "[PDict [(''a'', PInt 2)], PDict [(''a'', PInt 1)]]" "''a''"
      "\<lambda>x. if x = PDict [(''a'', PInt 2)] then 2 else 1" ASCENDING]
  by (simp add: sort_key_def)

section \<open>Adding and requesting\<close>

definition quiet :: "ldm_env \<Rightarrow> ldm \<Rightarrow> bool" where
  "quiet env m \<longleftrightarrow> le_monotonic env - m_last_trash_collection_time m < TRASH_COLLECTION_INTERVAL
     \<and> le_monotonic env - s_last_subscription_time m < ATTEND_SUBSCRIPTIONS_INTERVAL"

text \<open>
  C29: Between two rounds of trash collection and notification, data that a registered provider adds
  gets a number that was not in use, can be read under it, and a registered consumer that asks
  without filter and order receives all stored containers in the order of their arrival, whatever
  message types it asks for.
\<close>

theorem add_then_request:
  assumes "holds_requests rs m" "quiet env m"
    and "adr_application_id r \<in> s_data_provider_its_aid m"
    and "rq_application_id q \<in> s_data_consumer_its_aid m"
    and "is_valid_data_object_type (rq_data_object_type q)"
    and "rq_priority q = None" "rq_order q = None" "rq_filter q = None"
  shows "\<exists>i m'. if3_add_provider_data env r m = (Inr i, m')
    \<and> get_provider_data i m = None \<and> get_provider_data i m' = Some (add_data_to_dict r)
    \<and> holds_requests (rs @ [r]) m'
    \<and> request_data_objects q m' = Inr (response q (map add_data_to_dict (rs @ [r])) SUCCEED)"
proof (intro exI conjI)
  let ?i = "fst (db_insert (add_data_to_dict r) (m_data_containers m))"
  let ?db = "snd (db_insert (add_data_to_dict r) (m_data_containers m))"
  let ?m' = "m\<lparr>m_data_containers := ?db, m_new_data_recieved_flag := True\<rparr>"
  have ok: "db_ok (m_data_containers m)" using assms(1) by (simp add: holds_requests_def)
  have "mt_add_provider_data r m = (Inr ?i, ?m')"
    by (simp add: mt_add_provider_data_def bind_s_def then_s_def run_db_run)
  then show "if3_add_provider_data env r m = (Inr ?i, ?m')"
    using assms(2,3)
    by (simp add: if3_add_provider_data_def sv_add_provider_data_def reactive_add_def bind_s_def
        then_s_def quiet_def)
  show "get_provider_data ?i m = None" "get_provider_data ?i ?m' = Some (add_data_to_dict r)"
    by (simp_all add: get_provider_data_def dictionary.insert_unused [OF ok] dictionary.insert_get [OF ok])
  show holds: "holds_requests (rs @ [r]) ?m'"
    using assms(1) dictionary.insert_all [OF ok] dictionary.insert_inv [OF ok]
    by (simp add: holds_requests_def get_all_data_containers_def)
  have "query q ?m' = Inr [map add_data_to_dict (rs @ [r])]"
    using holds assms(7,8) by (simp add: query_def holds_requests_def)
  then show "request_data_objects q ?m' = Inr (response q (map add_data_to_dict (rs @ [r])) SUCCEED)"
    using assms(4-7)
    by (auto simp: request_data_objects_def is_valid_data_object_type_def list_all_iff list_ex_iff)
qed

theorem add_then_request_witness:
  "\<exists>i m'. if3_add_provider_data \<lparr>le_time = 0, le_monotonic = 0, le_hash = (\<lambda>r. 0), le_callback = (\<lambda>i r. Inr ())\<rparr>
      (request_at 5 (PDict []))
      ((map_of_requests [request_at 0 (PDict [])] (ldm_init 0 area_at_origin))
        \<lparr>s_data_provider_its_aid := {CAM}, s_data_consumer_its_aid := {DENM}\<rparr>) = (Inr i, m')
    \<and> request_data_objects \<lparr>rq_application_id = DENM, rq_data_object_type = [VAM], rq_priority = None,
        rq_order = None, rq_filter = None\<rparr> m'
      = Inr (response \<lparr>rq_application_id = DENM, rq_data_object_type = [VAM], rq_priority = None,
          rq_order = None, rq_filter = None\<rparr>
        (map add_data_to_dict [request_at 0 (PDict []), request_at 5 (PDict [])]) SUCCEED)"
proof -
  let ?env = "\<lparr>le_time = 0, le_monotonic = 0, le_hash = (\<lambda>r. 0), le_callback = (\<lambda>i r. Inr ())\<rparr>"
  let ?m0 = "map_of_requests [request_at 0 (PDict [])] (ldm_init 0 area_at_origin)"
  let ?m = "?m0\<lparr>s_data_provider_its_aid := {CAM}, s_data_consumer_its_aid := {DENM}\<rparr>"
  let ?q = "\<lparr>rq_application_id = DENM, rq_data_object_type = [VAM], rq_priority = None,
    rq_order = None, rq_filter = None\<rparr>"
  have holds: "holds_requests [request_at 0 (PDict [])] ?m"
    using map_of_requests_holds [of "[request_at 0 (PDict [])]" "ldm_init 0 area_at_origin"]
    by (simp add: holds_requests_def get_all_data_containers_def)
  have quiet: "quiet ?env ?m"
    by (simp add: quiet_def map_of_requests_def ldm_init_def TRASH_COLLECTION_INTERVAL_def
        ATTEND_SUBSCRIPTIONS_INTERVAL_def)
  have "is_valid_data_object_type [VAM]"
    by (simp add: is_valid_data_object_type_def VAM_def DATA_OBJECT_TYPE_ID_def)
  then show ?thesis
    using add_then_request [OF holds quiet, of "request_at 5 (PDict [])" ?q]
    by (simp add: request_at_def [of 5]) blast
qed

section \<open>Subscriptions\<close>

text \<open>
  An awareness message as the map stores it: a dictionary whose first message type is that of a CAM
  or VAM and that carries the number of its station. Any other object is named by its type.
\<close>

definition awareness_of :: "AddDataProviderReq \<Rightarrow> int option \<Rightarrow> bool" where
  "awareness_of r sender \<longleftrightarrow>
     (case sender of
        None \<Rightarrow> \<exists>t. get_object_type_from_data_object (adr_data_object r) = Inr t \<and> t \<notin> {Some CAM, Some VAM}
      | Some s \<Rightarrow>
          (\<exists>t\<in>{CAM, VAM}. get_object_type_from_data_object (adr_data_object r) = Inr (Some t))
          \<and> nested_item (adr_data_object r) [''header'', ''stationId''] = Inr (PInt s))"

lemma data_object_of_container: "py_item (add_data_to_dict r) ''dataObject'' = Inr (adr_data_object r)"
  by (simp add: add_data_to_dict_def)

lemma type_filter_requests:
  assumes "\<forall>r\<in>set rs. awareness_of r (sender r)"
  shows "filter_out_by_data_object_type (map add_data_to_dict rs) [CAM, VAM]
    = Inr (map add_data_to_dict (filter (\<lambda>r. sender r \<noteq> None) rs))"
  using assms
  by (induction rs) (auto simp: awareness_of_def data_object_of_container split: option.splits)

lemma station_path: "split_dots ''header.stationId'' = [''header'', ''stationId'']"
  by simp

lemma not_from_container:
  assumes "awareness_of r (Some s)"
  shows "filter_holds (not_from own) (add_data_to_dict r) = Inr (s \<noteq> own)"
  using assms
  by (simp add: filter_holds_def not_from_def statement_holds_def db_get_nested_def station_path
      data_object_of_container awareness_of_def py_equal_def del: split_dots.simps nested_item.simps)

lemma not_from_filter:
  assumes "\<forall>r\<in>set rs. awareness_of r (sender r)"
  shows "filter_data (not_from own) (map add_data_to_dict (filter (\<lambda>r. sender r \<noteq> None) rs))
    = Inr (map add_data_to_dict (filter (\<lambda>r. sender r \<notin> {None, Some own}) rs))"
  using assms by (induction rs) (auto simp: not_from_container)

lemma factory_search:
  assumes "holds_requests rs m" "\<forall>r\<in>set rs. awareness_of r (sender r)"
  shows "search_data \<lparr>si_subscription_request = factory_subscription own, si_callback = cb\<rparr> m
    = Inr (map add_data_to_dict (filter (\<lambda>r. sender r \<notin> {None, Some own}) rs))"
  using assms(1) type_filter_requests [OF assms(2)] not_from_filter [OF assms(2), of own]
  by (simp add: search_data_def factory_subscription_def db_search_def holds_requests_def
      get_all_data_containers_def)

lemma process_due:
  assumes "hash_check (si_subscription_request s) = Inr ()"
    and "dict_get (s_last_checked_subscriptions_time m) s = Some t" "sr_notify_time (si_subscription_request s) = Some n"
    and "t + n \<le> initialize_with_utc_timestamp_seconds (le_time env) None"
    and "\<forall>x. le_callback env (si_callback s) x = Inr ()"
  shows "process_notifications env s objects m
    = (Inr (), (set_last_checked s (initialize_with_utc_timestamp_seconds (le_time env) None) m)
        \<lparr>s_published := s_published m @ [(si_callback s,
          \<lparr>rs_application_id = sr_application_id (si_subscription_request s), rs_data_objects = objects,
           rs_result = SUCCEED\<rparr>)]\<rparr>)"
  using assms
  by (simp add: process_notifications_def Let_def publish_def then_s_def bind_s_def set_last_checked_def)

text \<open>
  C28: A map with the subscription of the factory notifies, when it is due, with exactly the CAMs and
  VAMs of other stations in the order of their arrival, in one notification, and not at all when
  there are none. A consumer that has been deregistered meanwhile still gets this one notification,
  and only then its subscription ends.
\<close>

theorem factory_notification:
  assumes "holds_requests rs m" "\<forall>r\<in>set rs. awareness_of r (sender r)"
    and "s = \<lparr>si_subscription_request = factory_subscription own, si_callback = cb\<rparr>"
    and "s_subscriptions m = [s]" "dict_get (s_last_checked_subscriptions_time m) s = Some t"
    and "t + 1 \<le> initialize_with_utc_timestamp_seconds (le_time env) None"
    and "\<forall>x. le_callback env cb x = Inr ()"
    and "others = filter (\<lambda>r. sender r \<notin> {None, Some own}) rs"
  shows "\<exists>m'. attend_subscriptions env m = (Inr (), m')
    \<and> s_published m' = s_published m
        @ (if others = [] then []
           else [(cb, \<lparr>rs_application_id = CAM, rs_data_objects = map add_data_to_dict others,
              rs_result = SUCCEED\<rparr>)])
    \<and> s_subscriptions m' = (if others \<noteq> [] \<and> CAM \<notin> s_data_consumer_its_aid m then [] else [s])"
proof -
  have found: "search_data s m = Inr (map add_data_to_dict others)"
    unfolding assms(3,8) by (rule factory_search [OF assms(1,2)])
  have request: "sr_multiplicity (si_subscription_request s) = Some 1"
    "sr_order (si_subscription_request s) = None" "sr_notify_time (si_subscription_request s) = Some 1"
    "sr_application_id (si_subscription_request s) = CAM" "si_callback s = cb"
    by (simp_all add: assms(3) factory_subscription_def)
  have hash: "hash_check (si_subscription_request s) = Inr ()" by (simp add: hash_check_def request)
  note notify = process_due [OF hash assms(5) request(3) assms(6), unfolded request, OF assms(7)]
  show ?thesis
  proof (cases "others = []")
    case True
    then show ?thesis
      by (simp add: attend_subscriptions_def assms(4) attend_subscription_def Let_def found bind_s_def)
  next
    case False
    then have size: "\<not> 1 > int (length (map add_data_to_dict others))" by (cases others) auto
    have "attend_subscription env s m = (Inr (CAM \<notin> s_data_consumer_its_aid m),
        snd (process_notifications env s (map add_data_to_dict others) m))"
      using False size
      by (simp add: attend_subscription_def Let_def found request bind_s_def then_s_def notify hash
          set_last_checked_def)
    then show ?thesis
      using False
      by (simp add: attend_subscriptions_def assms(4) bind_s_def notify set_last_checked_def
          remove_subscription_def)
  qed
qed

lemma hash_check_each:
  assumes "hash_check (si_subscription_request s) = Inl TypeError"
  shows "for_each_s (ss @ [s]) (\<lambda>s. lift_s (hash_check (si_subscription_request s))) x = (Inl TypeError, x)"
proof (induction ss)
  case Nil
  then show ?case using assms by (simp add: then_s_def bind_s_def)
next
  case (Cons q ss)
  have "hash_check (si_subscription_request q) = Inr () \<or> hash_check (si_subscription_request q) = Inl TypeError"
    by (simp add: hash_check_def split: option.split orders.split)
  then show ?case using Cons by (elim disjE) (simp_all add: then_s_def bind_s_def)
qed

text \<open>
  A subscription whose order is given as a list passes the validation, is stored, and then raises
  \<open>TypeError\<close> since it cannot be hashed. It stays behind, and while it does no registered consumer can
  unsubscribe: each attempt raises \<open>TypeError\<close> and changes nothing.
\<close>

lemma list_order_blocks_unsubscribing:
  assumes "validate_subscribe_data_consumer r m = None" "sr_order r = Some (OrderList orders)"
    and "aid \<in> s_data_consumer_its_aid m"
  shows "\<exists>m'. subscribe_data_consumer env r cb m = (Inl TypeError, m')
    \<and> s_subscriptions m' = s_subscriptions m @ [\<lparr>si_subscription_request = r, si_callback = cb\<rparr>]
    \<and> unsubscribe_data_consumer env aid subscription_id m' = (Inl TypeError, m')"
proof -
  let ?s = "\<lparr>si_subscription_request = r, si_callback = cb\<rparr>"
  let ?m' = "m\<lparr>s_subscriptions := s_subscriptions m @ [?s]\<rparr>"
  have hash: "hash_check r = Inl TypeError" by (simp add: hash_check_def assms(2))
  have "for_each_s (s_subscriptions m @ [?s]) (\<lambda>s. lift_s (hash_check (si_subscription_request s))) ?m'
      = (Inl TypeError, ?m')"
    by (rule hash_check_each) (simp add: hash)
  then have "unsubscribe_data_consumer env aid subscription_id ?m' = (Inl TypeError, ?m')"
    using assms(3) by (simp add: unsubscribe_data_consumer_def delete_subscription_def bind_s_def then_s_def)
  moreover have "subscribe_data_consumer env r cb m = (Inl TypeError, ?m')"
    by (simp add: subscribe_data_consumer_def assms(1) store_new_subscription_petition_def hash bind_s_def then_s_def)
  ultimately show ?thesis by auto
qed

lemma list_order_blocks_unsubscribing_witness:
  "\<exists>m'. subscribe_data_consumer \<lparr>le_time = 0, le_monotonic = 0, le_hash = (\<lambda>r. 0), le_callback = (\<lambda>i r. Inr ())\<rparr>
      ((factory_subscription 7)\<lparr>sr_order := Some (OrderList [])\<rparr>) 0
      ((ldm_init 0 area_at_origin)\<lparr>s_data_consumer_its_aid := {CAM}\<rparr>) = (Inl TypeError, m')
    \<and> unsubscribe_data_consumer \<lparr>le_time = 0, le_monotonic = 0, le_hash = (\<lambda>r. 0), le_callback = (\<lambda>i r. Inr ())\<rparr>
        CAM 0 m' = (Inl TypeError, m')"
proof -
  let ?r = "(factory_subscription 7)\<lparr>sr_order := Some (OrderList [])\<rparr>"
  let ?m = "(ldm_init 0 area_at_origin)\<lparr>s_data_consumer_its_aid := {CAM}\<rparr>"
  have "validate_subscribe_data_consumer ?r ?m = None"
    by (simp add: validate_subscribe_data_consumer_def factory_subscription_def
        is_valid_data_object_type_def is_valid_priority_def is_valid_notify_time_def
        is_valid_multiplicity_def CAM_def VAM_def DATA_OBJECT_TYPE_ID_def)
  from list_order_blocks_unsubscribing [OF this, of "[]" CAM] show ?thesis by simp blast
qed

theorem factory_notification_witness:
  "\<exists>m'. attend_subscriptions \<lparr>le_time = 2000000000, le_monotonic = 0, le_hash = (\<lambda>r. 0), le_callback = (\<lambda>i r. Inr ())\<rparr>
      ((map_of_requests [request_at 0 (PDict [(''header'', PDict [(''stationId'', PInt 9)]), (''cam'', PNone)])]
          (ldm_init 0 area_at_origin))
        \<lparr>s_subscriptions := [\<lparr>si_subscription_request = factory_subscription 7, si_callback = 3\<rparr>],
         s_last_checked_subscriptions_time := [(\<lparr>si_subscription_request = factory_subscription 7, si_callback = 3\<rparr>, 0)]\<rparr>)
      = (Inr (), m')
    \<and> map fst (s_published m') = [3] \<and> s_subscriptions m' = []"
proof -
  let ?env = "\<lparr>le_time = 2000000000, le_monotonic = 0, le_hash = (\<lambda>r :: SubscribeDataobjectsReq. 0 :: int),
    le_callback = (\<lambda>(i :: nat) (r :: RequestDataObjectsResp). Inr () :: unit result)\<rparr>"
  let ?r = "request_at 0 (PDict [(''header'', PDict [(''stationId'', PInt 9)]), (''cam'', PNone)])"
  let ?s = "\<lparr>si_subscription_request = factory_subscription 7, si_callback = 3\<rparr>"
  let ?m = "(map_of_requests [?r] (ldm_init 0 area_at_origin))
    \<lparr>s_subscriptions := [?s], s_last_checked_subscriptions_time := [(?s, 0)]\<rparr>"
  have holds: "holds_requests [?r] ?m"
    using map_of_requests_holds [of "[?r]" "ldm_init 0 area_at_origin"]
    by (simp add: holds_requests_def get_all_data_containers_def)
  have "awareness_of ?r (Some 9)"
    by (simp add: awareness_of_def request_at_def get_object_type_from_data_object_def object_type_name_def
        DATA_OBJECT_TYPE_ID_def CAM_def)
  then have sender: "\<forall>r\<in>set [?r]. awareness_of r ((\<lambda>r. Some 9) r)" by simp
  have state: "s_subscriptions ?m = [?s]" "dict_get (s_last_checked_subscriptions_time ?m) ?s = Some 0"
    "s_published ?m = []" "s_data_consumer_its_aid ?m = {}"
    by (simp_all add: map_of_requests_def ldm_init_def)
  have due: "0 + 1 \<le> initialize_with_utc_timestamp_seconds (le_time ?env) None"
    by (simp add: initialize_with_utc_timestamp_seconds_def
        transform_utc_seconds_timestamp_to_timestamp_its_def ELAPSED_SECONDS_def ITS_EPOCH_def py_int_def)
  show ?thesis
    using factory_notification [OF holds sender refl state(1,2) due _ refl]
    by (simp add: state) (elim exE conjE, intro exI conjI, assumption, simp_all)
qed

end
