(* ===== verification/SecCertificate.thy ===== *)
theory SecCertificate
  imports PyValue
begin

text \<open>
  Certificates (\<open>src/flexstack/security/certificate.py\<close>), the coder (\<open>security_coder.py\<close>) and the
  key store (\<open>ecdsa_backend.py\<close>). A certificate is the dictionary the ASN.1 decoder gives. Third-party
  code is a parameter: the ASN.1 codec, SHA-256 and the curve arithmetic of the package \<open>ecdsa\<close>.
\<close>

section \<open>Libraries\<close>

text \<open>
  \<open>asn_encode\<close> and \<open>asn_decode\<close> take the name of the ASN.1 type first. A point of the curve is a pair
  of coordinates, a signature the pair of its two numbers. \<open>ec_generate\<close> is the secret of the n-th
  key that is created, \<open>ec_decompress\<close> reads a public key from its 33 bytes.
\<close>

record sec_lib =
  asn_encode :: "string \<Rightarrow> pyval \<Rightarrow> bytes result"
  asn_decode :: "string \<Rightarrow> bytes \<Rightarrow> pyval result"
  sha256 :: "bytes \<Rightarrow> bytes"
  ec_generate :: "nat \<Rightarrow> int"
  ec_public :: "int \<Rightarrow> int \<times> int"
  ec_sign :: "int \<Rightarrow> bytes \<Rightarrow> int \<times> int"
  ec_verify :: "int \<times> int \<Rightarrow> bytes \<Rightarrow> int \<times> int \<Rightarrow> bool result"
  ec_decompress :: "bytes \<Rightarrow> (int \<times> int) result"

definition encode_etsi_ts_103097_certificate :: "sec_lib \<Rightarrow> pyval \<Rightarrow> bytes result" where
  "encode_etsi_ts_103097_certificate lib = asn_encode lib ''EtsiTs103097Certificate''"

definition decode_etsi_ts_103097_certificate :: "sec_lib \<Rightarrow> bytes \<Rightarrow> pyval result" where
  "decode_etsi_ts_103097_certificate lib = asn_decode lib ''EtsiTs103097Certificate''"

definition encode_etsi_ts_103097_data_signed :: "sec_lib \<Rightarrow> pyval \<Rightarrow> bytes result" where
  "encode_etsi_ts_103097_data_signed lib = asn_encode lib ''EtsiTs103097Data''"

definition decode_etsi_ts_103097_data_signed :: "sec_lib \<Rightarrow> bytes \<Rightarrow> pyval result" where
  "decode_etsi_ts_103097_data_signed lib = asn_decode lib ''EtsiTs103097Data''"

definition encode_to_be_signed_data :: "sec_lib \<Rightarrow> pyval \<Rightarrow> bytes result" where
  "encode_to_be_signed_data lib = asn_encode lib ''ToBeSignedData''"

definition encode_ToBeSignedCertificate :: "sec_lib \<Rightarrow> pyval \<Rightarrow> bytes result" where
  "encode_ToBeSignedCertificate lib = asn_encode lib ''ToBeSignedCertificate''"

section \<open>Keys and signatures\<close>

text \<open>The key store: the secrets by their identifiers.\<close>

type_synonym backend = "(int, int) dict"

fun as_bytes :: "pyval \<Rightarrow> bytes result" where
  "as_bytes (PBytes b) = Inr b"
| "as_bytes _ = Inl TypeError"

definition create_key :: "sec_lib \<Rightarrow> (backend, int) prog" where
  "create_key lib keys =
     (let identifier = int (length keys)
      in (Inr identifier, dict_set identifier (ec_generate lib (length keys)) keys))"

definition compressed_point :: "int \<times> int \<Rightarrow> pyval result" where
  "compressed_point p =
     rbind (to_bytes 32 (fst p)) (\<lambda>x.
     Inr (PTuple [PStr (if even (snd p) then ''compressed-y-0'' else ''compressed-y-1''), PBytes x]))"

text \<open>The callers use the default, the compressed form.\<close>

definition get_public_key :: "sec_lib \<Rightarrow> backend \<Rightarrow> int \<Rightarrow> pyval result" where
  "get_public_key lib keys identifier =
     rbind (get_key (dict_get keys identifier)) (\<lambda>secret.
     rbind (compressed_point (ec_public lib secret)) (\<lambda>p.
     Inr (PTuple [PStr ''ecdsaNistP256'', p])))"

definition signature_value :: "int \<times> int \<Rightarrow> pyval result" where
  "signature_value rs =
     rbind (to_bytes 32 (fst rs)) (\<lambda>r. rbind (to_bytes 32 (snd rs)) (\<lambda>s.
     Inr (PTuple [PStr ''ecdsaNistP256Signature'',
       PDict [(''rSig'', PTuple [PStr ''x-only'', PBytes r]), (''sSig'', PBytes s)]])))"

definition sign :: "sec_lib \<Rightarrow> backend \<Rightarrow> bytes \<Rightarrow> int \<Rightarrow> pyval result" where
  "sign lib keys data identifier =
     rbind (get_key (dict_get keys identifier)) (\<lambda>secret. signature_value (ec_sign lib secret data))"

text \<open>The choices of key: a point, a compressed point, or an exception.\<close>

definition read_point :: "sec_lib \<Rightarrow> pyval \<Rightarrow> (int \<times> int) result" where
  "read_point lib v =
     rbind (py_index v 0) (\<lambda>key_choice.
     if key_choice = PStr ''uncompressedP256'' then
       rbind (rbind (py_path [Idx 1, Key ''x''] v) as_bytes) (\<lambda>x.
       rbind (rbind (py_path [Idx 1, Key ''y''] v) as_bytes) (\<lambda>y. Inr (from_bytes x, from_bytes y)))
     else if key_choice = PStr ''compressed-y-0'' \<or> key_choice = PStr ''compressed-y-1'' then
       rbind (rbind (py_index v 1) as_bytes) (\<lambda>x.
       ec_decompress lib ((if key_choice = PStr ''compressed-y-0'' then 2 else 3) # x))
     else Inl ValueError)"

definition verify_with_pk :: "sec_lib \<Rightarrow> bytes \<Rightarrow> pyval \<Rightarrow> pyval \<Rightarrow> bool result" where
  "verify_with_pk lib data signature pk =
     rbind (py_index signature 0) (\<lambda>kind.
     rbind (if kind = PStr ''ecdsaNistP256Signature''
            then rbind (py_path [Idx 1, Key ''rSig'', Idx 0] signature) (\<lambda>form. Inr (form = PStr ''x-only''))
            else Inr False) (\<lambda>supported.
     if \<not> supported then Inl ValueError
     else
       rbind (rbind (py_path [Idx 1, Key ''rSig'', Idx 1] signature) as_bytes) (\<lambda>r.
       rbind (rbind (py_path [Idx 1, Key ''sSig''] signature) as_bytes) (\<lambda>s.
       rbind (py_index pk 0) (\<lambda>curve.
       if curve = PStr ''ecdsaNistP256'' then
         rbind (rbind (py_index pk 1) (read_point lib)) (\<lambda>point.
         ec_verify lib point data (from_bytes r, from_bytes s))
       else Inl ValueError)))))"

section \<open>Reading a certificate\<close>

text \<open>
  \<open>c_key_id\<close> is the identifier of the private key of an own certificate. The certificate of the
  issuer hangs at the certificate.
\<close>

datatype Certificate =
  Certificate (c_certificate: pyval) (c_issuer: "Certificate option") (c_key_id: "int option")

definition from_dict :: "pyval \<Rightarrow> Certificate option \<Rightarrow> Certificate" where
  "from_dict d issuer = Certificate d issuer None"

definition certificate_decode :: "sec_lib \<Rightarrow> bytes \<Rightarrow> Certificate option \<Rightarrow> Certificate result" where
  "certificate_decode lib bs issuer =
     rbind (decode_etsi_ts_103097_certificate lib bs) (\<lambda>d. Inr (from_dict d issuer))"

definition certificate_encode :: "sec_lib \<Rightarrow> Certificate \<Rightarrow> bytes result" where
  "certificate_encode lib c = encode_etsi_ts_103097_certificate lib (c_certificate c)"

text \<open>\<open>v and v[0] == kind\<close>.\<close>

definition choice_is :: "string \<Rightarrow> pyval \<Rightarrow> bool result" where
  "choice_is kind v = (if py_truth v then rbind (py_index v 0) (\<lambda>k. Inr (k = PStr kind)) else Inr False)"

definition canonical_key :: "pyval \<Rightarrow> pyval result" where
  "canonical_key tbs =
     rbind (py_get tbs ''verifyKeyIndicator'' PNone) (\<lambda>vki.
     rbind (choice_is ''verificationKey'' vki) (\<lambda>explicit.
     rbind (if explicit then rbind (py_path [Idx 1, Idx 0] vki) (\<lambda>k. Inr (k = PStr ''ecdsaNistP256''))
            else Inr False) (\<lambda>nist.
     rbind (if nist then rbind (py_path [Idx 1, Idx 1, Idx 0] vki) (\<lambda>k. Inr (k = PStr ''uncompressedP256''))
            else Inr False) (\<lambda>uncompressed.
     if \<not> uncompressed then Inr tbs
     else
       rbind (py_path [Idx 1, Idx 1, Idx 1, Key ''x''] vki) (\<lambda>x.
       rbind (rbind (py_path [Idx 1, Idx 1, Idx 1, Key ''y''] vki) as_bytes) (\<lambda>y.
       rbind (if y = [] then Inl IndexError else Inr (last y)) (\<lambda>parity.
       py_set [Key ''verifyKeyIndicator''] (PTuple [PStr ''verificationKey'', PTuple [PStr ''ecdsaNistP256'',
         PTuple [PStr (if even (uint parity) then ''compressed-y-0'' else ''compressed-y-1''), x]]]) tbs)))))))"

definition canonical_signature :: "pyval \<Rightarrow> pyval result" where
  "canonical_signature d =
     rbind (py_get d ''signature'' PNone) (\<lambda>sig.
     rbind (choice_is ''ecdsaNistP256Signature'' sig) (\<lambda>nist.
     if \<not> nist then Inr d
     else
       rbind (py_path [Idx 1, Key ''rSig''] sig) (\<lambda>r.
       rbind (py_index r 0) (\<lambda>form.
       if form \<in> {PStr ''compressed-y-0'', PStr ''compressed-y-1''} then
         rbind (py_index r 1) (\<lambda>x.
         rbind (py_path [Idx 1, Key ''sSig''] sig) (\<lambda>s.
         py_set [Key ''signature''] (PTuple [PStr ''ecdsaNistP256Signature'',
           PDict [(''rSig'', PTuple [PStr ''x-only'', x]), (''sSig'', s)]]) d))
       else Inr d))))"

definition to_canonical :: "Certificate \<Rightarrow> Certificate result" where
  "to_canonical c =
     rbind (rbind (py_get (c_certificate c) ''toBeSigned'' (PDict [])) canonical_key) (\<lambda>tbs.
     rbind (py_set [Key ''toBeSigned''] tbs (c_certificate c)) (\<lambda>d.
     rbind (canonical_signature d) (\<lambda>d'. Inr (Certificate d' (c_issuer c) None))))"

definition last_bytes :: "nat \<Rightarrow> bytes \<Rightarrow> bytes" where
  "last_bytes n bs = drop (length bs - n) bs"

definition as_hashedid8 :: "sec_lib \<Rightarrow> Certificate \<Rightarrow> bytes result" where
  "as_hashedid8 lib c =
     rbind (rbind (to_canonical c) (certificate_encode lib)) (\<lambda>bs. Inr (last_bytes 8 (sha256 lib bs)))"

definition tbs_of :: "Certificate \<Rightarrow> pyval result" where
  "tbs_of c = py_item (c_certificate c) ''toBeSigned''"

text \<open>The \<open>psid\<close> of every element of a list of permissions.\<close>

definition psids :: "pyval \<Rightarrow> pyval list result" where
  "psids v = rbind (py_list v) (rmap (\<lambda>elem. py_item elem ''psid''))"

definition get_list_of_its_aid :: "Certificate \<Rightarrow> pyval list result" where
  "get_list_of_its_aid c = rbind (rbind (tbs_of c) (\<lambda>t. py_item t ''appPermissions'')) psids"

text \<open>\<open>certificate["issuer"][i]\<close>.\<close>

definition issuer_field :: "nat \<Rightarrow> Certificate \<Rightarrow> pyval result" where
  "issuer_field i c = py_path [Key ''issuer'', Idx i] (c_certificate c)"

definition get_issuer_hashedid8 :: "Certificate \<Rightarrow> pyval result" where
  "get_issuer_hashedid8 c =
     rbind (issuer_field 0 c) (\<lambda>kind.
     if kind = PStr ''sha256AndDigest'' then issuer_field 1 c
     else if kind = PStr ''self'' then Inr PNone
     else Inl ValueError)"

definition signature_is_nist_p256 :: "Certificate \<Rightarrow> bool result" where
  "signature_is_nist_p256 c =
     rbind (py_path [Key ''signature'', Idx 0] (c_certificate c)) (\<lambda>k. Inr (k = PStr ''ecdsaNistP256Signature''))"

definition verify_key_indicator :: "py_step list \<Rightarrow> Certificate \<Rightarrow> pyval result" where
  "verify_key_indicator path c =
     py_path ([Key ''toBeSigned'', Key ''verifyKeyIndicator''] @ path) (c_certificate c)"

definition verification_key_is_nist_p256 :: "Certificate \<Rightarrow> bool result" where
  "verification_key_is_nist_p256 c =
     rbind (verify_key_indicator [Idx 0] c) (\<lambda>k.
     if k = PStr ''verificationKey''
     then rbind (verify_key_indicator [Idx 1, Idx 0] c) (\<lambda>a. Inr (a = PStr ''ecdsaNistP256''))
     else Inr False)"

definition certificate_is_self_signed :: "Certificate \<Rightarrow> bool result" where
  "certificate_is_self_signed c =
     rbind (issuer_field 0 c) (\<lambda>k.
     if k = PStr ''self''
     then rbind (issuer_field 1 c) (\<lambda>h. Inr (h = PStr ''sha256''))
     else Inr False)"

definition certificate_is_issued :: "Certificate \<Rightarrow> bool result" where
  "certificate_is_issued c =
     rbind (issuer_field 0 c) (\<lambda>k.
     if k = PStr ''sha256AndDigest''
     then rbind (rbind (issuer_field 1 c) as_bytes) (\<lambda>h. Inr (length h = 8))
     else Inr False)"

definition check_corresponding_issuer :: "sec_lib \<Rightarrow> Certificate \<Rightarrow> Certificate \<Rightarrow> bool result" where
  "check_corresponding_issuer lib c issuer =
     rbind (issuer_field 1 c) (\<lambda>digest.
     rbind (as_hashedid8 lib issuer) (\<lambda>h. Inr (digest = PBytes h)))"

section \<open>Permissions\<close>

definition py_in :: "pyval \<Rightarrow> pyval list \<Rightarrow> bool" where
  "py_in v xs = list_ex (\<lambda>x. py_canon x = py_canon v) xs"

definition certificate_wants_cert_issue_permissions :: "Certificate \<Rightarrow> bool result" where
  "certificate_wants_cert_issue_permissions c = rbind (tbs_of c) (py_contains ''certIssuePermissions'')"

definition issue_permissions :: "pyval \<Rightarrow> pyval list result" where
  "issue_permissions d = rbind (py_path [Key ''toBeSigned'', Key ''certIssuePermissions''] d) py_list"

text \<open>The numbers of one group of permissions, none if the group is not explicit.\<close>

definition permission_is :: "string \<Rightarrow> pyval \<Rightarrow> bool result" where
  "permission_is kind permission =
     rbind (py_path [Key ''subjectPermissions'', Idx 0] permission) (\<lambda>k. Inr (k = PStr kind))"

definition explicit_psids :: "pyval \<Rightarrow> pyval list result" where
  "explicit_psids permission =
     rbind (permission_is ''explicit'' permission) (\<lambda>explicit.
     if explicit then rbind (py_path [Key ''subjectPermissions'', Idx 1] permission) psids else Inr [])"

definition get_list_of_psid_from_cert_issue_permissions :: "Certificate \<Rightarrow> pyval list result" where
  "get_list_of_psid_from_cert_issue_permissions c =
     rbind (certificate_wants_cert_issue_permissions c) (\<lambda>wants.
     if wants
     then rbind (issue_permissions (c_certificate c)) (\<lambda>ps. rbind (rmap explicit_psids ps) (\<lambda>xss. Inr (concat xss)))
     else Inr [])"

definition get_list_of_psid_from_app_permissions :: "Certificate \<Rightarrow> pyval list result" where
  "get_list_of_psid_from_app_permissions c =
     rbind (py_path [Key ''toBeSigned'', Key ''appPermissions''] (c_certificate c)) psids"

definition get_list_of_needed_permissions :: "Certificate \<Rightarrow> pyval list result" where
  "get_list_of_needed_permissions c =
     rbind (get_list_of_psid_from_cert_issue_permissions c) (\<lambda>xs.
     rbind (get_list_of_psid_from_app_permissions c) (\<lambda>ys.
     rbind (rmap py_key (xs @ ys)) (\<lambda>_. Inr (rev (remdups (rev (xs @ ys)))))))"

definition get_list_of_allowed_persmissions :: "Certificate \<Rightarrow> pyval list result" where
  "get_list_of_allowed_persmissions c =
     rbind (certificate_wants_cert_issue_permissions c) (\<lambda>wants.
     if wants
     then rbind (issue_permissions (c_certificate c)) (\<lambda>ps. rbind (rmap explicit_psids ps) (\<lambda>xss. Inr (concat xss)))
     else Inr [])"

text \<open>The loop stops at the first group for everything.\<close>

fun any_all :: "pyval list \<Rightarrow> bool result" where
  "any_all [] = Inr False"
| "any_all (p # ps) = rbind (permission_is ''all'' p) (\<lambda>b. if b then Inr True else any_all ps)"

definition certificate_has_all_permissions :: "Certificate \<Rightarrow> bool result" where
  "certificate_has_all_permissions c =
     rbind (certificate_wants_cert_issue_permissions c) (\<lambda>wants.
     if wants then rbind (issue_permissions (c_certificate c)) any_all else Inr False)"

definition check_all_requested_permissions_are_allowed :: "pyval list \<Rightarrow> pyval list \<Rightarrow> bool" where
  "check_all_requested_permissions_are_allowed certificate_permissions issuer_permissions =
     list_all (\<lambda>item. py_in item issuer_permissions) certificate_permissions"

definition check_issuer_has_subject_permissions :: "Certificate \<Rightarrow> Certificate \<Rightarrow> bool result" where
  "check_issuer_has_subject_permissions c issuer =
     rbind (certificate_has_all_permissions issuer) (\<lambda>all_permissions.
     if all_permissions then Inr True
     else
       rbind (get_list_of_needed_permissions c) (\<lambda>needed.
       rbind (get_list_of_allowed_persmissions issuer) (\<lambda>allowed.
       Inr (check_all_requested_permissions_are_allowed needed allowed))))"

section \<open>Verification\<close>

text \<open>The bytes under the signature of a certificate with a digest of its issuer.\<close>

definition issued_payload :: "sec_lib \<Rightarrow> bytes \<Rightarrow> Certificate \<Rightarrow> bytes result" where
  "issued_payload lib tbs_bytes issuer =
     rbind (rbind (to_canonical issuer) (certificate_encode lib)) (\<lambda>bs.
     Inr (sha256 lib tbs_bytes @ sha256 lib bs))"

definition both :: "bool result \<Rightarrow> bool result \<Rightarrow> bool result" where
  "both a b = rbind a (\<lambda>x. if x then b else Inr False)"

definition verify_issued_certificate :: "sec_lib \<Rightarrow> Certificate \<Rightarrow> bool result" where
  "verify_issued_certificate lib c =
     (case c_issuer c of
        None \<Rightarrow> Inr False
      | Some issuer \<Rightarrow>
          rbind (both (certificate_is_issued c) (both (check_corresponding_issuer lib c issuer)
            (both (check_issuer_has_subject_permissions c issuer)
              (both (signature_is_nist_p256 c) (verification_key_is_nist_p256 c))))) (\<lambda>fits.
          if \<not> fits then Inr False
          else
            rbind (rbind (tbs_of c) (encode_ToBeSignedCertificate lib)) (\<lambda>tbs_bytes.
            rbind (issued_payload lib tbs_bytes issuer) (\<lambda>payload.
            rbind (py_item (c_certificate c) ''signature'') (\<lambda>signature.
            rbind (verify_key_indicator [Idx 1] issuer) (verify_with_pk lib payload signature))))))"

text \<open>\<open>except Exception\<close>: whatever is raised counts as a wrong signature.\<close>

definition verify_signature :: "sec_lib \<Rightarrow> pyval \<Rightarrow> pyval \<Rightarrow> pyval \<Rightarrow> bool" where
  "verify_signature lib to_be_signed_certificate signature verification_key =
     (case rbind (encode_ToBeSignedCertificate lib to_be_signed_certificate)
        (\<lambda>bs. verify_with_pk lib bs signature verification_key) of
        Inl e \<Rightarrow> False | Inr b \<Rightarrow> b)"

definition verify_self_signed_certificate :: "sec_lib \<Rightarrow> Certificate \<Rightarrow> bool result" where
  "verify_self_signed_certificate lib c =
     rbind (both (certificate_is_self_signed c) (both (signature_is_nist_p256 c) (verification_key_is_nist_p256 c)))
       (\<lambda>fits.
     if \<not> fits then Inr False
     else
       rbind (tbs_of c) (\<lambda>tbs. rbind (py_item (c_certificate c) ''signature'') (\<lambda>signature.
       rbind (verify_key_indicator [Idx 1] c) (\<lambda>pk. Inr (verify_signature lib tbs signature pk)))))"

text \<open>Whether the key indicator has the choice that the type of the certificate asks for.\<close>

definition indicator_fits :: "Certificate \<Rightarrow> bool result" where
  "indicator_fits c =
     rbind (py_get (c_certificate c) ''type'' PNone) (\<lambda>cert_type.
     rbind (py_get (c_certificate c) ''toBeSigned'' (PDict [])) (\<lambda>tbs.
     rbind (py_get tbs ''verifyKeyIndicator'' PNone) (\<lambda>vki.
     if cert_type = PStr ''explicit'' then
       (if vki = PNone then Inr False else rbind (py_index vki 0) (\<lambda>k. Inr (k = PStr ''verificationKey'')))
     else if cert_type = PStr ''implicit'' then
       (if vki = PNone then Inr False else rbind (py_index vki 0) (\<lambda>k. Inr (k = PStr ''reconstructionValue'')))
     else Inr True)))"

definition verify :: "sec_lib \<Rightarrow> Certificate \<Rightarrow> bool result" where
  "verify lib c =
     rbind (indicator_fits c) (\<lambda>fits.
     if \<not> fits then Inr False
     else
       rbind (if c_issuer c \<noteq> None then certificate_is_issued c else Inr False) (\<lambda>issued.
       if issued then verify_issued_certificate lib c
       else both (certificate_is_self_signed c) (verify_self_signed_certificate lib c)))"

section \<open>Profiles\<close>

definition tbs_get :: "Certificate \<Rightarrow> pyval result" where
  "tbs_get c = py_get (c_certificate c) ''toBeSigned'' (PDict [])"

text \<open>\<open>d.get(key, ("",))[0]\<close>.\<close>

definition choice_of :: "string \<Rightarrow> pyval \<Rightarrow> pyval result" where
  "choice_of key d = rbind (py_get d key (PTuple [PStr []])) (\<lambda>v. py_index v 0)"

definition type_explicit :: "Certificate \<Rightarrow> bool result" where
  "type_explicit c = rbind (py_get (c_certificate c) ''type'' PNone) (\<lambda>t. Inr (t = PStr ''explicit''))"

definition issuer_in :: "string list \<Rightarrow> Certificate \<Rightarrow> bool result" where
  "issuer_in kinds c = rbind (choice_of ''issuer'' (c_certificate c)) (\<lambda>k. Inr (k \<in> PStr ` set kinds))"

definition id_is :: "string \<Rightarrow> Certificate \<Rightarrow> bool result" where
  "id_is kind c = rbind (rbind (tbs_get c) (choice_of ''id'')) (\<lambda>k. Inr (k = PStr kind))"

definition tbs_has :: "string \<Rightarrow> Certificate \<Rightarrow> bool result" where
  "tbs_has key c = rbind (tbs_get c) (py_contains key)"

definition tbs_lacks :: "string \<Rightarrow> Certificate \<Rightarrow> bool result" where
  "tbs_lacks key c = rbind (tbs_has key c) (\<lambda>b. Inr (\<not> b))"

definition digest_issuers :: "string list" where
  "digest_issuers = [''sha256AndDigest'', ''sha384AndDigest'']"

definition is_authorization_ticket :: "Certificate \<Rightarrow> bool result" where
  "is_authorization_ticket c =
     both (issuer_in digest_issuers c) (both (id_is ''none'' c)
       (both (tbs_lacks ''certIssuePermissions'' c) (tbs_has ''appPermissions'' c)))"

definition is_enrolment_credential :: "Certificate \<Rightarrow> bool result" where
  "is_enrolment_credential c =
     both (type_explicit c) (both (issuer_in digest_issuers c) (both (id_is ''name'' c)
       (both (tbs_lacks ''certIssuePermissions'' c) (tbs_has ''appPermissions'' c))))"

definition is_root_ca_certificate :: "Certificate \<Rightarrow> bool result" where
  "is_root_ca_certificate c =
     both (type_explicit c) (both (issuer_in [''self''] c) (both (id_is ''name'' c)
       (both (tbs_has ''certIssuePermissions'' c) (tbs_has ''appPermissions'' c))))"

definition is_subordinate_ca_certificate :: "Certificate \<Rightarrow> bool result" where
  "is_subordinate_ca_certificate c =
     both (type_explicit c) (both (issuer_in digest_issuers c) (both (id_is ''name'' c)
       (both (tbs_has ''encryptionKey'' c) (tbs_has ''certIssuePermissions'' c))))"

end
