(* ===== verification/SecIssuance.thy ===== *)
theory SecIssuance
  imports SecCertificate
begin

text \<open>
  Own certificates and their issuance (\<open>OwnCertificate\<close> and the setters of \<open>Certificate\<close> in
  \<open>certificate.py\<close>). A setter of an own certificate keeps its key, which is why one definition
  serves both classes. The dictionaries of a certificate are not shared with another one, since the
  code copies them.
\<close>

section \<open>Setters\<close>

definition set_issuer_as_self :: "Certificate \<Rightarrow> Certificate result" where
  "set_issuer_as_self c =
     rbind (py_set [Key ''issuer''] (PTuple [PStr ''self'', PStr ''sha256'']) (c_certificate c)) (\<lambda>d.
     Inr (Certificate d None (c_key_id c)))"

definition set_issuer :: "sec_lib \<Rightarrow> Certificate \<Rightarrow> Certificate \<Rightarrow> Certificate result" where
  "set_issuer lib c issuer =
     rbind (as_hashedid8 lib issuer) (\<lambda>h.
     rbind (py_set [Key ''issuer''] (PTuple [PStr ''sha256AndDigest'', PBytes h]) (c_certificate c)) (\<lambda>d.
     Inr (Certificate d (Some issuer) (c_key_id c))))"

text \<open>The last group for everything.\<close>

fun last_all :: "pyval list \<Rightarrow> pyval \<Rightarrow> pyval result" where
  "last_all [] found = Inr found"
| "last_all (p # ps) found = rbind (permission_is ''all'' p) (\<lambda>b. last_all ps (if b then p else found))"

text \<open>
  The groups that a subject gets from an issuer without a group for everything: each explicit group
  of the issuer, once for every number in it that the subject asks for.
\<close>

definition granted_by :: "pyval list \<Rightarrow> pyval \<Rightarrow> pyval list result" where
  "granted_by needed permission =
     rbind (explicit_psids permission) (\<lambda>numbers.
     Inr (map (\<lambda>_. permission) (filter (\<lambda>n. py_in n needed) numbers)))"

fun chain_length :: "pyval \<Rightarrow> int result" where
  "chain_length (PInt n) = Inr n"
| "chain_length (PBool b) = Inr (bool_int b)"
| "chain_length _ = Inl TypeError"

definition min_chain_length :: "pyval \<Rightarrow> int result" where
  "min_chain_length permission = rbind (py_item permission ''minChainLength'') chain_length"

definition shorten_chain :: "pyval \<Rightarrow> pyval result" where
  "shorten_chain permission =
     rbind (min_chain_length permission) (\<lambda>n. py_set [Key ''minChainLength''] (PInt (n - 1)) permission)"

text \<open>The groups of the subject before their chain length is lowered.\<close>

definition inherited_permissions :: "Certificate \<Rightarrow> Certificate \<Rightarrow> pyval list \<Rightarrow> pyval list result" where
  "inherited_permissions c issuer needed =
     rbind (certificate_has_all_permissions issuer) (\<lambda>has_all.
     if has_all then
       rbind (issue_permissions (c_certificate issuer)) (\<lambda>ps.
       rbind (last_all ps (PDict [])) (\<lambda>all_permissions.
       rbind (issue_permissions (c_certificate c)) (rmap (\<lambda>permission.
         rbind (py_item all_permissions ''minChainLength'') (\<lambda>n.
         py_set [Key ''minChainLength''] n permission)))))
     else
       rbind (issue_permissions (c_certificate issuer)) (\<lambda>ps.
       rbind (rmap (granted_by needed) ps) (\<lambda>pss. Inr (concat pss))))"

definition set_chain_length_issue_permissions :: "Certificate \<Rightarrow> Certificate \<Rightarrow> Certificate result" where
  "set_chain_length_issue_permissions c issuer =
     rbind (certificate_wants_cert_issue_permissions c) (\<lambda>wants.
     if \<not> wants then Inr (Certificate (c_certificate c) (Some issuer) (c_key_id c))
     else
       rbind (get_list_of_psid_from_cert_issue_permissions c) (\<lambda>needed.
       rbind (inherited_permissions c issuer needed) (\<lambda>ps.
       rbind (rmap shorten_chain ps) (\<lambda>shortened.
       rbind (rmap min_chain_length shortened) (\<lambda>lengths.
       rbind (py_set [Key ''toBeSigned'', Key ''certIssuePermissions'']
           (PList (map fst (filter (\<lambda>(p, n). \<not> n < 1) (zip shortened lengths)))) (c_certificate c)) (\<lambda>d.
       Inr (Certificate d (Some issuer) (c_key_id c))))))))"

section \<open>Own certificates\<close>

definition own_key :: "Certificate \<Rightarrow> int result" where
  "own_key c = (case c_key_id c of None \<Rightarrow> Inl AttributeError | Some i \<Rightarrow> Inr i)"

definition is_none :: "pyval \<Rightarrow> bool" where
  "is_none v \<longleftrightarrow> v = PNone"

definition verify_to_be_signed_certificate :: "sec_lib \<Rightarrow> pyval \<Rightarrow> bool result" where
  "verify_to_be_signed_certificate lib tbs =
     rbind (py_get tbs ''id'' PNone) (\<lambda>id_entry.
     rbind (if is_none id_entry then Inr False
            else rbind (py_index id_entry 0) (\<lambda>k. Inr (k \<in> {PStr ''name'', PStr ''none''}))) (\<lambda>id_ok.
     rbind (py_get tbs ''cracaId'' PNone) (\<lambda>craca.
     rbind (py_get tbs ''crlSeries'' PNone) (\<lambda>crl.
     rbind (py_contains ''appPermissions'' tbs) (\<lambda>app.
     rbind (py_contains ''certIssuePermissions'' tbs) (\<lambda>issue.
     rbind (py_contains ''certRequestPermissions'' tbs) (\<lambda>request.
     rbind (py_contains ''canRequestRollover'' tbs) (\<lambda>rollover.
     Inr (id_ok \<and> craca = PBytes [0, 0, 0] \<and> py_canon crl = PInt 0 \<and> (app \<or> issue) \<and> \<not> request \<and> \<not> rollover
       \<and> (\<exists>bs. encode_ToBeSignedCertificate lib tbs = Inr bs))))))))))"

definition sign_message :: "sec_lib \<Rightarrow> backend \<Rightarrow> Certificate \<Rightarrow> bytes \<Rightarrow> pyval result" where
  "sign_message lib keys c message = rbind (own_key c) (sign lib keys message)"

definition check_enough_min_chain_length_for_issuer :: "Certificate \<Rightarrow> bool result" where
  "check_enough_min_chain_length_for_issuer c =
     rbind (rbind (issue_permissions (c_certificate c)) (rmap min_chain_length)) (\<lambda>ns.
     Inr (\<not> list_ex (\<lambda>n. n < 1) ns))"

definition sign_certificate :: "sec_lib \<Rightarrow> backend \<Rightarrow> Certificate \<Rightarrow> Certificate \<Rightarrow> Certificate result" where
  "sign_certificate lib keys signer c =
     rbind (rbind (tbs_of c) (encode_ToBeSignedCertificate lib)) (\<lambda>tbs_bytes.
     rbind (py_get (c_certificate c) ''issuer'' (PList [PNone])) (\<lambda>issuer.
     rbind (py_index issuer 0) (\<lambda>issuer_type.
     rbind (if issuer_type = PStr ''sha256AndDigest'' then issued_payload lib tbs_bytes signer else Inr tbs_bytes)
       (\<lambda>payload.
     rbind (sign_message lib keys signer payload) (\<lambda>signature.
     rbind (py_set [Key ''signature''] signature (c_certificate c)) (\<lambda>d.
     Inr (from_dict d (Some signer))))))))"

definition issue_certificate :: "sec_lib \<Rightarrow> backend \<Rightarrow> Certificate \<Rightarrow> Certificate \<Rightarrow> Certificate result" where
  "issue_certificate lib keys issuer c =
     rbind (certificate_is_self_signed c) (\<lambda>self_signed.
     if self_signed then rbind (set_issuer_as_self c) (sign_certificate lib keys issuer)
     else
       rbind (both (check_issuer_has_subject_permissions c issuer)
           (check_enough_min_chain_length_for_issuer issuer)) (\<lambda>allowed.
       if allowed then
         rbind (set_chain_length_issue_permissions c issuer) (\<lambda>c1.
         rbind (set_issuer lib c1 issuer) (sign_certificate lib keys issuer))
       else Inr c))"

definition placeholder_digest :: bytes where
  "placeholder_digest = be_bytes 8 0xA495991B7852B855"

definition placeholder_signature :: pyval where
  "placeholder_signature = PTuple [PStr ''ecdsaNistP256Signature'',
     PDict [(''rSig'', PTuple [PStr ''fill'', PNone]), (''sSig'', PBytes (be_bytes 32 0xA495991B7852B855))]]"

definition as_clear_certificate :: Certificate where
  "as_clear_certificate = from_dict (PDict
     [(''version'', PInt 3), (''type'', PStr ''explicit''),
      (''issuer'', PTuple [PStr ''sha256AndDigest'', PBytes placeholder_digest]),
      (''toBeSigned'', PDict
        [(''id'', PTuple [PStr ''name'', PStr ''i2cat.net'']), (''cracaId'', PBytes [0, 0, 0]),
         (''crlSeries'', PInt 0),
         (''validityPeriod'', PDict [(''start'', PInt 0), (''duration'', PTuple [PStr ''seconds'', PInt 30])]),
         (''appPermissions'', PList [PDict [(''psid'', PInt 0)]]),
         (''certIssuePermissions'', PList [PDict
            [(''subjectPermissions'', PTuple [PStr ''all'', PNone]), (''minChainLength'', PInt 1),
             (''chainLengthRange'', PInt 0), (''eeType'', PTuple [PBytes [0], PInt 1])]]),
         (''verifyKeyIndicator'', PTuple [PStr ''verificationKey'',
            PTuple [PStr ''ecdsaNistP256'', PTuple [PStr ''fill'', PNone]]])]),
      (''signature'', placeholder_signature)]) None"

definition unsigned_certificate :: "pyval \<Rightarrow> pyval" where
  "unsigned_certificate tbs = PDict
     [(''version'', PInt 3), (''type'', PStr ''explicit''),
      (''issuer'', PTuple [PStr ''sha256AndDigest'', PBytes placeholder_digest]),
      (''toBeSigned'', tbs), (''signature'', placeholder_signature)]"

text \<open>A new key is created before anything is checked.\<close>

definition initialize_certificate ::
    "sec_lib \<Rightarrow> pyval \<Rightarrow> Certificate option \<Rightarrow> (backend, Certificate) prog" where
  "initialize_certificate lib tbs issuer =
     bind_s (create_key lib) (\<lambda>key_id.
     bind_s (lift_s (verify_to_be_signed_certificate lib tbs)) (\<lambda>tbs_ok.
     if \<not> tbs_ok then raise_s ValueError
     else
       bind_s (gets_s (\<lambda>keys. get_public_key lib keys key_id)) (\<lambda>pk.
       bind_s (lift_s pk) (\<lambda>public_key.
       bind_s (lift_s (py_set [Key ''verifyKeyIndicator''] (PTuple [PStr ''verificationKey'', public_key]) tbs)) (\<lambda>tbs'.
       let own = Certificate (unsigned_certificate tbs') issuer (Some key_id) in
       bind_s (gets_s id) (\<lambda>keys.
       lift_s
         (case issuer of
            None \<Rightarrow>
              rbind (set_issuer_as_self own) (\<lambda>c. rbind (issue_certificate lib keys c c) (\<lambda>c'.
              Inr (Certificate (c_certificate c') None (Some key_id))))
          | Some i \<Rightarrow>
              rbind (verify lib i) (\<lambda>valid.
              if \<not> valid then Inl ValueError
              else
                rbind (set_issuer lib own i) (\<lambda>c1.
                rbind (set_chain_length_issue_permissions c1 i) (\<lambda>c2.
                rbind (issue_certificate lib keys i c2) (\<lambda>c3.
                Inr (Certificate (c_certificate c3) (Some i) (Some key_id)))))))))))))"

end
