(* ===== verification/SecServices.thy ===== *)
theory SecServices
  imports SecIssuance RouterState
begin

text \<open>
  The certificate library (\<open>certificate_library.py\<close>), the verify service (\<open>verify_service.py\<close>) and the
  sign service (\<open>sign_service.py\<close>) of one station, which share the library. The verify service knows
  the sign service unless \<open>sec_linked\<close> is False. Requests and confirms are those of the SN-SAP.
\<close>

section \<open>Certificate library\<close>

record certificate_library =
  own_certificates :: "(bytes, Certificate) dict"
  known_authorization_tickets :: "(bytes, Certificate) dict"
  known_authorization_authorities :: "(bytes, Certificate) dict"
  known_root_certificates :: "(bytes, Certificate) dict"

text \<open>Looking up a value: only byte strings are keys, and a list or dictionary raises.\<close>

definition lookup :: "(bytes, Certificate) dict \<Rightarrow> pyval \<Rightarrow> Certificate option result" where
  "lookup d v = rbind (py_key v) (\<lambda>k. Inr (case k of PBytes b \<Rightarrow> dict_get d b | _ \<Rightarrow> None))"

definition get_issuer_certificate :: "certificate_library \<Rightarrow> Certificate \<Rightarrow> Certificate option result" where
  "get_issuer_certificate l c =
     rbind (issuer_field 0 c) (\<lambda>kind.
     if kind = PStr ''self'' then Inr None
     else if kind = PStr ''sha256AndDigest'' then
       rbind (issuer_field 1 c) (\<lambda>digest.
       rbind (lookup (known_root_certificates l) digest) (\<lambda>root.
       if root \<noteq> None then Inr root else lookup (known_authorization_authorities l) digest))
     else Inl ValueError)"

text \<open>A certificate whose issuer is known and that verifies is stored under its digest.\<close>

definition accepts :: "sec_lib \<Rightarrow> Certificate \<Rightarrow> certificate_library \<Rightarrow> bool result" where
  "accepts lib c l =
     rbind (get_issuer_certificate l c) (\<lambda>issuer. if issuer = None then Inr False else verify lib c)"

definition add_authorization_ticket :: "sec_lib \<Rightarrow> Certificate \<Rightarrow> (certificate_library, unit) prog" where
  "add_authorization_ticket lib c =
     bind_s (lift_s (as_hashedid8 lib c)) (\<lambda>h.
     bind_s (gets_s (\<lambda>l. dict_get (known_authorization_tickets l) h)) (\<lambda>known.
     if known \<noteq> None then return_s ()
     else
       bind_s (gets_s (accepts lib c)) (\<lambda>r. bind_s (lift_s r) (\<lambda>ok.
       if ok then modify_s (\<lambda>l. l\<lparr>known_authorization_tickets := dict_set h c (known_authorization_tickets l)\<rparr>) else return_s ()))))"

definition add_authorization_authority :: "sec_lib \<Rightarrow> Certificate \<Rightarrow> (certificate_library, unit) prog" where
  "add_authorization_authority lib c =
     bind_s (lift_s (as_hashedid8 lib c)) (\<lambda>h.
     bind_s (gets_s (\<lambda>l. dict_get (known_authorization_authorities l) h)) (\<lambda>known.
     if known \<noteq> None then return_s ()
     else
       bind_s (gets_s (accepts lib c)) (\<lambda>r. bind_s (lift_s r) (\<lambda>ok.
       if ok then modify_s (\<lambda>l. l\<lparr>known_authorization_authorities := dict_set h c (known_authorization_authorities l)\<rparr>) else return_s ()))))"

definition add_root_certificate :: "sec_lib \<Rightarrow> Certificate \<Rightarrow> (certificate_library, unit) prog" where
  "add_root_certificate lib c =
     bind_s (lift_s (verify lib c)) (\<lambda>ok.
     if ok then bind_s (lift_s (as_hashedid8 lib c)) (\<lambda>h. modify_s (\<lambda>l. l\<lparr>known_root_certificates := dict_set h c (known_root_certificates l)\<rparr>))
     else return_s ())"

definition add_own_certificate :: "sec_lib \<Rightarrow> Certificate \<Rightarrow> (certificate_library, unit) prog" where
  "add_own_certificate lib c =
     bind_s (gets_s (accepts lib c)) (\<lambda>r. bind_s (lift_s r) (\<lambda>ok.
     if ok then bind_s (lift_s (as_hashedid8 lib c)) (\<lambda>h. modify_s (\<lambda>l. l\<lparr>own_certificates := dict_set h c (own_certificates l)\<rparr>))
     else return_s ()))"

definition library_init ::
    "sec_lib \<Rightarrow> Certificate list \<Rightarrow> Certificate list \<Rightarrow> Certificate list \<Rightarrow> unit result \<times> certificate_library" where
  "library_init lib roots aas ats =
     then_s (for_each_s roots (add_root_certificate lib))
       (then_s (for_each_s aas (add_authorization_authority lib))
         (for_each_s ats (add_authorization_ticket lib)))
       \<lparr>own_certificates = [], known_authorization_tickets = [], known_authorization_authorities = [],
        known_root_certificates = []\<rparr>"

definition get_authorization_ticket_by_hashedid8 :: "pyval \<Rightarrow> certificate_library \<Rightarrow> Certificate option result" where
  "get_authorization_ticket_by_hashedid8 hashedid8 l = lookup (known_authorization_tickets l) hashedid8"

text \<open>One certificate: a ticket that is known, or one of a known issuer.\<close>

definition verify_one_certificate :: "sec_lib \<Rightarrow> pyval \<Rightarrow> (certificate_library, Certificate option) prog" where
  "verify_one_certificate lib d =
     bind_s (lift_s (as_hashedid8 lib (from_dict d None))) (\<lambda>h.
     bind_s (gets_s (\<lambda>l. dict_get (known_authorization_tickets l) h)) (\<lambda>known.
     if known \<noteq> None then return_s known
     else
       bind_s (gets_s (\<lambda>l. get_issuer_certificate l (from_dict d None))) (\<lambda>r.
       bind_s (lift_s r) (\<lambda>issuer.
       let c = from_dict d issuer in
       bind_s (lift_s (if issuer = None then Inr False else verify lib c)) (\<lambda>ok.
       if ok then then_s (add_authorization_ticket lib c) (return_s (Some c)) else return_s None)))))"

text \<open>A ticket and its authority, which a known root has issued.\<close>

definition verify_two_certificates ::
    "sec_lib \<Rightarrow> pyval \<Rightarrow> pyval \<Rightarrow> (certificate_library, Certificate option) prog" where
  "verify_two_certificates lib at_dict aa_dict =
     bind_s (lift_s (get_issuer_hashedid8 (from_dict aa_dict None))) (\<lambda>digest.
     bind_s (gets_s (\<lambda>l. lookup (known_root_certificates l) digest)) (\<lambda>r.
     bind_s (lift_s r) (\<lambda>root.
     if root = None then return_s None
     else
       let aa = from_dict aa_dict root in
       bind_s (lift_s (verify lib aa)) (\<lambda>aa_ok.
       if \<not> aa_ok then return_s None
       else then_s (add_authorization_authority lib aa) (
         let ticket = from_dict at_dict (Some aa) in
         bind_s (lift_s (verify lib ticket)) (\<lambda>ok.
         if ok then then_s (add_authorization_ticket lib ticket) (return_s (Some ticket))
         else return_s None))))))"

fun verify_sequence_of_certificates ::
    "sec_lib \<Rightarrow> pyval list \<Rightarrow> (certificate_library, Certificate option) prog" where
  "verify_sequence_of_certificates lib [a] = verify_one_certificate lib a"
| "verify_sequence_of_certificates lib [a, b] = verify_two_certificates lib a b"
| "verify_sequence_of_certificates lib [a, b, c] =
     bind_s (lift_s (as_hashedid8 lib (from_dict c None))) (\<lambda>h.
     bind_s (gets_s (\<lambda>l. dict_get (known_root_certificates l) h)) (\<lambda>root.
     if root \<noteq> None then verify_two_certificates lib a b else return_s None))"
| "verify_sequence_of_certificates lib _ = return_s None"

definition get_ca_certificate_by_hashedid3 :: "bytes \<Rightarrow> certificate_library \<Rightarrow> Certificate option" where
  "get_ca_certificate_by_hashedid3 hashedid3 l =
     map_option snd (find (\<lambda>(h, c). last_bytes 3 h = hashedid3)
       (known_authorization_authorities l @ known_root_certificates l))"

section \<open>State of the services\<close>

record security =
  sec_backend :: backend
  sec_library :: certificate_library
  sec_linked :: bool
  sec_unknown_ats :: "bytes list"
  sec_requested_ats :: "bytes list"
  sec_last_signer_full_certificate_time :: real
  sec_requested_own_certificate :: bool

definition sign_service_init :: "backend \<Rightarrow> certificate_library \<Rightarrow> bool \<Rightarrow> security" where
  "sign_service_init keys l linked =
     \<lparr>sec_backend = keys, sec_library = l, sec_linked = linked, sec_unknown_ats = [], sec_requested_ats = [],
      sec_last_signer_full_certificate_time = 0, sec_requested_own_certificate = False\<rparr>"

definition on_library :: "(certificate_library, 'a) prog \<Rightarrow> (security, 'a) prog" where
  "on_library p s = (case p (sec_library s) of (r, l) \<Rightarrow> (r, s\<lparr>sec_library := l\<rparr>))"

section \<open>Peer-to-peer certificate distribution\<close>

definition notify_unknown_at :: "bytes \<Rightarrow> security \<Rightarrow> security" where
  "notify_unknown_at hashedid8 s =
     (let h = last_bytes 3 hashedid8 in
      s\<lparr>sec_unknown_ats := (if h \<in> set (sec_unknown_ats s) then sec_unknown_ats s else sec_unknown_ats s @ [h]),
        sec_requested_own_certificate := True\<rparr>)"

definition note_own_request :: "sec_lib \<Rightarrow> pyval list \<Rightarrow> Certificate \<Rightarrow> (security, unit) prog" where
  "note_own_request lib request_list own =
     bind_s (lift_s (as_hashedid8 lib own)) (\<lambda>h.
     if PBytes (last_bytes 3 h) \<in> set request_list
     then modify_s (sec_requested_own_certificate_update (\<lambda>_. True)) else return_s ())"

definition note_ca_request :: "pyval \<Rightarrow> security \<Rightarrow> security" where
  "note_ca_request v s =
     (case v of
        PBytes h \<Rightarrow>
          (if get_ca_certificate_by_hashedid3 h (sec_library s) \<noteq> None \<and> h \<notin> set (sec_requested_ats s)
           then s\<lparr>sec_requested_ats := sec_requested_ats s @ [h]\<rparr> else s)
      | _ \<Rightarrow> s)"

definition notify_inline_p2pcd_request :: "sec_lib \<Rightarrow> pyval \<Rightarrow> (security, unit) prog" where
  "notify_inline_p2pcd_request lib request =
     bind_s (lift_s (py_list request)) (\<lambda>request_list.
     bind_s (gets_s (\<lambda>s. map snd (own_certificates (sec_library s)))) (\<lambda>owns.
     then_s (for_each_s owns (note_own_request lib request_list))
       (for_each_s request_list (\<lambda>v. modify_s (note_ca_request v)))))"

definition notify_received_ca_certificate :: "sec_lib \<Rightarrow> pyval \<Rightarrow> (security, unit) prog" where
  "notify_received_ca_certificate lib cert_dict =
     (let cert = from_dict cert_dict None in
     bind_s (lift_s (as_hashedid8 lib cert)) (\<lambda>h.
     then_s (modify_s (\<lambda>s. s\<lparr>sec_requested_ats := remove1 (last_bytes 3 h) (sec_requested_ats s),
         sec_unknown_ats := remove1 (last_bytes 3 h) (sec_unknown_ats s)\<rparr>))
       (on_library (add_authorization_authority lib cert))))"

definition get_known_at_for_request :: "bytes \<Rightarrow> security \<Rightarrow> pyval result" where
  "get_known_at_for_request hashedid3 s =
     (case get_ca_certificate_by_hashedid3 hashedid3 (sec_library s) of
        None \<Rightarrow> Inl RuntimeError | Some c \<Rightarrow> Inr (c_certificate c))"

section \<open>Verify service\<close>

text \<open>The signed part of a message.\<close>

definition signed_part :: "sec_lib \<Rightarrow> bytes \<Rightarrow> pyval result" where
  "signed_part lib message =
     rbind (decode_etsi_ts_103097_data_signed lib message) (py_path [Key ''content'', Idx 1])"

definition signed_bytes :: "sec_lib \<Rightarrow> pyval \<Rightarrow> bytes result" where
  "signed_bytes lib sd = rbind (py_item sd ''tbsData'') (encode_to_be_signed_data lib)"

text \<open>Where the payload is in the signed part.\<close>

definition payload_path :: "py_step list" where
  "payload_path = [Key ''tbsData'', Key ''payload'', Key ''data'', Key ''content'', Idx 1]"

definition report :: "ReportVerify \<Rightarrow> bytes \<Rightarrow> bytes \<Rightarrow> bytes \<Rightarrow> SNVERIFYConfirm" where
  "report r certificate_id its_aid plain_message =
     \<lparr>vc_report = r, vc_certificate_id = certificate_id, vc_its_aid_length = int (length its_aid),
      vc_its_aid = its_aid, vc_permissions = [], vc_plain_message = plain_message\<rparr>"

text \<open>\<open>header_info.get("psid", 0)\<close>, the comparison with 37, and the number in its shortest big-endian form.\<close>

definition psid_of :: "pyval \<Rightarrow> pyval result" where
  "psid_of header_info = py_get header_info ''psid'' (PInt 0)"

definition is_denm :: "pyval \<Rightarrow> bool" where
  "is_denm psid \<longleftrightarrow> py_canon psid = PInt 37"

fun byte_count :: "nat \<Rightarrow> nat" where
  "byte_count n = (if n < 256 then 1 else Suc (byte_count (n div 256)))"

declare byte_count.simps [simp del]

definition int_bytes :: "int \<Rightarrow> bytes result" where
  "int_bytes n = (if n < 0 then Inl OverflowError else to_bytes (byte_count (nat n)) n)"

fun psid_bytes :: "pyval \<Rightarrow> bytes result" where
  "psid_bytes (PInt n) = int_bytes n"
| "psid_bytes (PBool b) = int_bytes (bool_int b)"
| "psid_bytes _ = Inl AttributeError"

text \<open>The ticket of the signer, or the report with which verification ends.\<close>

definition find_ticket ::
    "sec_lib \<Rightarrow> pyval \<Rightarrow> (security, SNVERIFYConfirm + Certificate) prog" where
  "find_ticket lib signer =
     bind_s (lift_s (py_index signer 0)) (\<lambda>kind.
     bind_s (lift_s (py_index signer 1)) (\<lambda>value.
     if kind = PStr ''certificate'' then
       bind_s (lift_s (py_list value)) (\<lambda>certificates.
       if length certificates \<noteq> 1 then return_s (Inl (report UNSUPPORTED_SIGNER_IDENTIFIER_TYPE [] [] []))
       else
         bind_s (on_library (verify_sequence_of_certificates lib certificates)) (\<lambda>ticket.
         case ticket of
           Some c \<Rightarrow> return_s (Inr c)
         | None \<Rightarrow>
             bind_s (gets_s sec_linked) (\<lambda>linked.
             then_s
               (if linked then
                  bind_s (lift_s (py_get (hd certificates) ''issuer'' (PTuple [PStr ''self'', PNone]))) (\<lambda>issuer.
                  bind_s (lift_s (py_index issuer 0)) (\<lambda>issuer_kind.
                  bind_s (lift_s (py_index issuer 1)) (\<lambda>digest.
                  if issuer_kind \<in> {PStr ''sha256AndDigest'', PStr ''sha384AndDigest''} \<and> digest \<noteq> PNone
                  then bind_s (lift_s (as_bytes digest)) (\<lambda>h. modify_s (notify_unknown_at h))
                  else return_s ())))
                else return_s ())
               (return_s (Inl (report INCONSISTENT_CHAIN [] [] []))))))
     else if kind = PStr ''digest'' then
       bind_s (gets_s (get_authorization_ticket_by_hashedid8 value \<circ> sec_library)) (\<lambda>r.
       bind_s (lift_s r) (\<lambda>ticket.
       case ticket of
         Some c \<Rightarrow> return_s (Inr c)
       | None \<Rightarrow>
           bind_s (gets_s sec_linked) (\<lambda>linked.
           then_s (if linked then bind_s (lift_s (as_bytes value)) (\<lambda>h. modify_s (notify_unknown_at h))
                   else return_s ())
             (return_s (Inl (report SIGNER_CERTIFICATE_NOT_FOUND [] [] []))))))
     else raise_s PlainException))"

text \<open>The constraints on the header: a report if one is broken.\<close>

definition header_check :: "pyval \<Rightarrow> pyval \<Rightarrow> ReportVerify option result" where
  "header_check psid header_info =
     rbind (py_contains ''generationTime'' header_info) (\<lambda>time.
     rbind (rmap (\<lambda>k. py_contains k header_info) [''p2pcdLearningRequest'', ''missingCrlIdentifier'']) (\<lambda>never.
     rbind (py_contains ''generationLocation'' header_info) (\<lambda>location.
     rbind (rmap (\<lambda>k. py_contains k header_info)
       [''expiryTime'', ''encryptionKey'', ''inlineP2pcdRequest'', ''requestedCertificate'']) (\<lambda>optional.
     Inr (if \<not> time then Some INVALID_TIMESTAMP
          else if list_ex id never then Some INCOMPATIBLE_PROTOCOL
          else if is_denm psid \<and> (\<not> location \<or> list_ex id optional) then Some INCOMPATIBLE_PROTOCOL
          else None)))))"

text \<open>The learning from the header of a verified message.\<close>

definition learn_from_header :: "sec_lib \<Rightarrow> pyval \<Rightarrow> (security, unit) prog" where
  "learn_from_header lib header_info =
     bind_s (gets_s sec_linked) (\<lambda>linked.
     if \<not> linked then return_s ()
     else
       bind_s (lift_s (py_contains ''inlineP2pcdRequest'' header_info)) (\<lambda>inline.
       then_s
         (if inline then bind_s (lift_s (py_item header_info ''inlineP2pcdRequest'')) (notify_inline_p2pcd_request lib)
          else return_s ())
         (bind_s (lift_s (py_contains ''requestedCertificate'' header_info)) (\<lambda>certificate.
          if certificate
          then bind_s (lift_s (py_item header_info ''requestedCertificate'')) (notify_received_ca_certificate lib)
          else return_s ()))))"

definition ticket_fits :: "sec_lib \<Rightarrow> Certificate \<Rightarrow> bool result" where
  "ticket_fits lib c =
     both (verify lib c) (both (is_authorization_ticket c)
       (rbind (verify_key_indicator [Idx 0] c) (\<lambda>k. Inr (k = PStr ''verificationKey''))))"

definition for_ticket :: "sec_lib \<Rightarrow> Certificate \<Rightarrow> (bytes \<Rightarrow> SNVERIFYConfirm) \<Rightarrow> (security, SNVERIFYConfirm) prog" where
  "for_ticket lib ticket confirm = bind_s (lift_s (as_hashedid8 lib ticket)) (\<lambda>h. return_s (confirm h))"

definition verify_with_ticket :: "sec_lib \<Rightarrow> pyval \<Rightarrow> bytes \<Rightarrow> Certificate \<Rightarrow> (security, SNVERIFYConfirm) prog" where
  "verify_with_ticket lib signed_data data ticket =
     bind_s (lift_s (ticket_fits lib ticket)) (\<lambda>fits.
     if \<not> fits then return_s (report INVALID_CERTIFICATE [] [] [])
     else
       bind_s (lift_s (rbind (py_item signed_data ''tbsData'')
         (\<lambda>t. py_get t ''headerInfo'' (PDict [])))) (\<lambda>header_info.
       bind_s (lift_s (psid_of header_info)) (\<lambda>psid.
       bind_s (lift_s (header_check psid header_info)) (\<lambda>broken.
       case broken of
         Some r \<Rightarrow> for_ticket lib ticket (\<lambda>certificate_id. report r certificate_id [] [])
       | None \<Rightarrow>
           bind_s (lift_s (psid_bytes psid)) (\<lambda>its_aid.
           bind_s (lift_s (verify_key_indicator [Idx 1] ticket)) (\<lambda>pk.
           bind_s (lift_s (rbind (py_item signed_data ''signature'') (\<lambda>s. verify_with_pk lib data s pk))) (\<lambda>ok.
           if \<not> ok then for_ticket lib ticket (\<lambda>certificate_id. report FALSE_SIGNATURE certificate_id its_aid [])
           else
             bind_s (lift_s (rbind (py_path payload_path signed_data) as_bytes)) (\<lambda>plain_message.
             then_s (learn_from_header lib header_info)
               (for_ticket lib ticket (\<lambda>certificate_id. report SUCCESS certificate_id its_aid plain_message))))))))))"

definition verify_message :: "sec_lib \<Rightarrow> bytes \<Rightarrow> (security, SNVERIFYConfirm) prog" where
  "verify_message lib message =
     bind_s (lift_s (signed_part lib message)) (\<lambda>signed_data.
     bind_s (lift_s (signed_bytes lib signed_data)) (\<lambda>data.
     bind_s (lift_s (py_item signed_data ''signer'')) (\<lambda>signer.
     bind_s (lift_s (rbind (py_item signed_data ''tbsData'')
       (\<lambda>t. py_get t ''headerInfo'' (PDict [])))) (\<lambda>header_info.
     bind_s (lift_s (psid_of header_info)) (\<lambda>psid.
     bind_s (lift_s (py_index signer 0)) (\<lambda>kind.
     if is_denm psid \<and> kind \<noteq> PStr ''certificate''
     then return_s (report UNSUPPORTED_SIGNER_IDENTIFIER_TYPE [] [] [])
     else
       bind_s (find_ticket lib signer) (\<lambda>found.
       case found of
         Inl r \<Rightarrow> return_s r
       | Inr ticket \<Rightarrow> verify_with_ticket lib signed_data data ticket)))))))"

end
