(* ===== verification/SecSigning.thy ===== *)
theory SecSigning
  imports SecServices
begin

text \<open>
  The sign service (\<open>sign_service.py\<close>): the envelopes of CAMs, DENMs and other messages, the choice of
  the signer and the header fields of the certificate distribution. \<open>now\<close> is \<open>TimeService.time()\<close>.
\<close>

definition timestamp_its :: "real \<Rightarrow> int" where
  "timestamp_its now = py_int ((now - of_int ITS_EPOCH + of_int ELAPSED_SECONDS) * 1000)"

definition location_dict :: "int \<times> int \<times> int \<Rightarrow> pyval" where
  "location_dict l = PDict [(''latitude'', PInt (fst l)), (''longitude'', PInt (fst (snd l))),
     (''elevation'', PInt (snd (snd l)))]"

definition tbs_data :: "real \<Rightarrow> SNSIGNRequest \<Rightarrow> (string \<times> pyval) list \<Rightarrow> pyval" where
  "tbs_data now request extra = PDict
     [(''payload'', PDict [(''data'', PDict [(''protocolVersion'', PInt 3),
         (''content'', PTuple [PStr ''unsecuredData'', PBytes (tbs_message request)])])]),
      (''headerInfo'', PDict ([(''psid'', PInt (sn_its_aid request)),
         (''generationTime'', PInt (timestamp_its now * 1000))] @ extra))]"

definition signed_data :: "pyval \<Rightarrow> pyval \<Rightarrow> pyval \<Rightarrow> pyval" where
  "signed_data tbs signer signature = PDict [(''protocolVersion'', PInt 3),
     (''content'', PTuple [PStr ''signedData'', PDict [(''hashId'', PStr ''sha256''), (''tbsData'', tbs),
       (''signer'', signer), (''signature'', signature)]])]"

text \<open>The first own certificate that has the number among its application permissions.\<close>

fun first_covering :: "int \<Rightarrow> Certificate list \<Rightarrow> Certificate option result" where
  "first_covering its_aid [] = Inr None"
| "first_covering its_aid (c # cs) =
     rbind (get_list_of_its_aid c) (\<lambda>aids.
     if py_in (PInt its_aid) aids then Inr (Some c) else first_covering its_aid cs)"

definition get_present_at_for_signging :: "int \<Rightarrow> security \<Rightarrow> Certificate option result" where
  "get_present_at_for_signging its_aid s = first_covering its_aid (map snd (own_certificates (sec_library s)))"

definition present_ticket :: "int \<Rightarrow> security \<Rightarrow> Certificate result" where
  "present_ticket its_aid s =
     rbind (get_present_at_for_signging its_aid s) (\<lambda>c. case c of None \<Rightarrow> Inl RuntimeError | Some t \<Rightarrow> Inr t)"

text \<open>What all three profiles do once the data to be signed and the ticket stand.\<close>

definition seal :: "sec_lib \<Rightarrow> security \<Rightarrow> pyval \<Rightarrow> bytes \<Rightarrow> Certificate \<Rightarrow> pyval \<Rightarrow> bytes result" where
  "seal lib s tbs tobesigned ticket signer =
     rbind (sign_message lib (sec_backend s) ticket tobesigned) (\<lambda>signature.
     encode_etsi_ts_103097_data_signed lib (signed_data tbs signer signature))"

definition sign_other :: "sec_lib \<Rightarrow> real \<Rightarrow> SNSIGNRequest \<Rightarrow> security \<Rightarrow> bytes result" where
  "sign_other lib now request s =
     (let tbs = tbs_data now request [] in
     rbind (encode_to_be_signed_data lib tbs) (\<lambda>tobesigned.
     rbind (present_ticket (sn_its_aid request) s) (\<lambda>ticket.
     rbind (as_hashedid8 lib ticket) (\<lambda>h.
     seal lib s tbs tobesigned ticket (PTuple [PStr ''digest'', PBytes h])))))"

definition sv_sign_denm :: "sec_lib \<Rightarrow> real \<Rightarrow> SNSIGNRequest \<Rightarrow> security \<Rightarrow> bytes result" where
  "sv_sign_denm lib now request s =
     (case generation_location request of
        None \<Rightarrow> Inl ValueError
      | Some l \<Rightarrow>
          let tbs = tbs_data now request [(''generationLocation'', location_dict l)] in
          rbind (encode_to_be_signed_data lib tbs) (\<lambda>tobesigned.
          rbind (present_ticket (sn_its_aid request) s) (\<lambda>ticket.
          seal lib s tbs tobesigned ticket
            (PTuple [PStr ''certificate'', PList [c_certificate ticket]]))))"

definition sv_sign_request :: "sec_lib \<Rightarrow> real \<Rightarrow> SNSIGNRequest \<Rightarrow> security \<Rightarrow> bytes result" where
  "sv_sign_request lib now request s =
     (if sn_its_aid request = 36 then Inl NotImplementedError
      else if sn_its_aid request = 37 then sv_sign_denm lib now request s
      else sign_other lib now request s)"

text \<open>
  The signer of a CAM: the certificate if more than a second has passed since it was last sent or a
  station asked for it, else its digest.
\<close>

definition set_up_signer :: "sec_lib \<Rightarrow> real \<Rightarrow> Certificate \<Rightarrow> (security, pyval) prog" where
  "set_up_signer lib now ticket =
     bind_s (lift_s (as_hashedid8 lib ticket)) (\<lambda>h.
     bind_s (gets_s (\<lambda>s. now - sec_last_signer_full_certificate_time s > 1 \<or> sec_requested_own_certificate s)) (\<lambda>due.
     if due then
       then_s (modify_s (\<lambda>s. s\<lparr>sec_last_signer_full_certificate_time := now, sec_requested_own_certificate := False\<rparr>))
         (return_s (PTuple [PStr ''certificate'', PList [c_certificate ticket]]))
     else return_s (PTuple [PStr ''digest'', PBytes h])))"

text \<open>The oldest request leaves the list before its certificate is looked up.\<close>

definition next_requested :: "(security, (string \<times> pyval) list) prog" where
  "next_requested =
     bind_s (gets_s sec_requested_ats) (\<lambda>requested.
     case requested of
       [] \<Rightarrow> return_s []
     | h # rest \<Rightarrow>
         then_s (modify_s (sec_requested_ats_update (\<lambda>_. rest)))
           (bind_s (gets_s (get_known_at_for_request h)) (\<lambda>r.
            bind_s (lift_s r) (\<lambda>d. return_s [(''requestedCertificate'', d)]))))"

definition sv_sign_cam :: "sec_lib \<Rightarrow> real \<Rightarrow> SNSIGNRequest \<Rightarrow> (security, bytes) prog" where
  "sv_sign_cam lib now request =
     bind_s (gets_s sec_unknown_ats) (\<lambda>unknown.
     bind_s next_requested (\<lambda>requested.
     let tbs = tbs_data now request
       ((if unknown = [] then [] else [(''inlineP2pcdRequest'', PList (map PBytes unknown))]) @ requested) in
     bind_s (lift_s (encode_to_be_signed_data lib tbs)) (\<lambda>tobesigned.
     bind_s (gets_s (present_ticket (sn_its_aid request))) (\<lambda>r.
     bind_s (lift_s r) (\<lambda>ticket.
     bind_s (set_up_signer lib now ticket) (\<lambda>signer.
     bind_s (gets_s (\<lambda>s. seal lib s tbs tobesigned ticket signer)) (\<lambda>sealed. lift_s sealed)))))))"

definition sv_add_own_certificate :: "sec_lib \<Rightarrow> Certificate \<Rightarrow> (security, unit) prog" where
  "sv_add_own_certificate lib c = on_library (add_own_certificate lib c)"

end
