(* ===== verification/DenService.thy ===== *)
theory DenService
  imports CamTransmission LdmInterfaces SecSigning
begin

text \<open>
  The decentralized environmental notification service
  (\<open>src/flexstack/facilities/decentralized_environmental_notification_service/\<close>) and the road hazard
  signalling application that drives it
  (\<open>src/flexstack/applications/road_hazard_signalling_service/\<close>). A station runs one emergency
  vehicle service and any number of threads that repeat messages. The ASN.1 codec is a parameter.
\<close>

section \<open>Requests\<close>

text \<open>
  A request of the emergency vehicle service refers to the dictionary of the service, which later
  triggers change in place; any other request has a dictionary of its own.
\<close>

datatype event_position = Shared | Own pyval

datatype PriorityLevel = AWARENESS | WARNING | PRECRASH

definition PriorityLevel_value :: "PriorityLevel \<Rightarrow> int" where
  "PriorityLevel_value p = (case p of AWARENESS \<Rightarrow> 2 | WARNING \<Rightarrow> 1 | PRECRASH \<Rightarrow> 0)"

record DENRequest =
  dr_denm_interval :: int
  dr_priority_level :: PriorityLevel
  dr_detection_time :: int
  dr_time_period :: int
  dr_quality :: int
  dr_event_position :: event_position
  dr_heading :: int
  dr_confidence :: int
  dr_relevance_distance :: pyval
  dr_relevance_traffic_direction :: pyval
  dr_rhs_cause_code :: pyval
  dr_rhs_subcause_code :: pyval
  dr_rhs_event_speed :: pyval
  dr_rhs_vehicle_type :: pyval
  dr_lcrw_cause_code :: pyval
  dr_lcrw_subcause_code :: pyval

definition default_DENRequest :: DENRequest where
  "default_DENRequest =
     \<lparr>dr_denm_interval = 100, dr_priority_level = WARNING, dr_detection_time = 0, dr_time_period = 0,
      dr_quality = 7, dr_event_position = Own (PDict []), dr_heading = 0, dr_confidence = 2,
      dr_relevance_distance = PNone, dr_relevance_traffic_direction = PNone, dr_rhs_cause_code = PNone,
      dr_rhs_subcause_code = PNone, dr_rhs_event_speed = PNone, dr_rhs_vehicle_type = PNone,
      dr_lcrw_cause_code = PNone, dr_lcrw_subcause_code = PNone\<rparr>"

definition with_collision_risk_warning :: "TimestampIts \<Rightarrow> ReferencePosition \<Rightarrow> DENRequest" where
  "with_collision_risk_warning detection_time position =
     default_DENRequest
       \<lparr>dr_priority_level := WARNING, dr_detection_time := detection_time,
        dr_event_position := Own (reference_position_to_dict position),
        dr_lcrw_cause_code := PStr ''collisionRisk97'', dr_lcrw_subcause_code := PInt 4\<rparr>"

section \<open>The message\<close>

text \<open>A message object has a sequence number of its own, which starts at 0.\<close>

record DENMessage =
  dm_denm :: pyval
  dm_sequence_number :: int

definition unavailable_position :: pyval where
  "unavailable_position = PDict
     [(''latitude'', PInt 900000001), (''longitude'', PInt 1800000001),
      (''positionConfidenceEllipse'', PDict [(''semiMajorConfidence'', PInt 4095),
         (''semiMinorConfidence'', PInt 4095), (''semiMajorOrientation'', PInt 3601)]),
      (''altitude'', PDict [(''altitudeValue'', PInt 800001), (''altitudeConfidence'', PStr ''unavailable'')])]"

definition generate_white_denm :: pyval where
  "generate_white_denm = PDict
     [(''header'', PDict [(''protocolVersion'', PInt 2), (''messageId'', PInt 1), (''stationId'', PInt 0)]),
      (''denm'', PDict [(''management'', PDict
        [(''actionId'', PDict [(''originatingStationId'', PInt 0), (''sequenceNumber'', PInt 0)]),
         (''detectionTime'', PInt 0), (''referenceTime'', PInt 0), (''termination'', PStr ''isCancellation''),
         (''eventPosition'', unavailable_position),
         (''relevanceDistance'', PStr ''lessThan50m''),
         (''relevanceTrafficDirection'', PStr ''allTrafficDirections''), (''validityDuration'', PInt 0),
         (''TransmissionInterval'', PInt 100), (''stationType'', PInt 0)])])]"

definition new_DENMessage :: DENMessage where
  "new_DENMessage = \<lparr>dm_denm = generate_white_denm, dm_sequence_number = 0\<rparr>"

text \<open>A sequence of assignments into the dictionary.\<close>

fun assign_all :: "(py_step list \<times> pyval) list \<Rightarrow> pyval \<Rightarrow> pyval result" where
  "assign_all [] d = Inr d"
| "assign_all ((path, v) # rest) d = rbind (py_set path v d) (assign_all rest)"

definition management :: "string \<Rightarrow> py_step list" where
  "management k = [Key ''denm'', Key ''management'', Key k]"

definition situation_container :: "DENRequest \<Rightarrow> pyval \<Rightarrow> pyval \<Rightarrow> pyval" where
  "situation_container request cause subcause = PDict
     [(''informationQuality'', PInt (dr_quality request)),
      (''eventType'', PDict [(''ccAndScc'', PTuple [cause, subcause])])]"

definition location_container :: "DENRequest \<Rightarrow> pyval" where
  "location_container request = PDict
     [(''eventSpeed'', PDict [(''speedValue'', dr_rhs_event_speed request),
         (''speedConfidence'', PInt (py_int (real_of_int (dr_confidence request) / 2)))]),
      (''eventPositionHeading'', PDict [(''value'', PInt (dr_heading request)),
         (''confidence'', PInt (dr_confidence request))]),
      (''detectionZonesToEventPosition'', PList [PList [PDict [(''pathPosition'', PDict
         [(''deltaLatitude'', PInt 131072), (''deltaLongitude'', PInt 131072), (''deltaAltitude'', PInt 12800)])]]])]"

text \<open>\<open>now\<close> is \<open>TimeService.time()\<close>, \<open>position\<close> what the dictionary of the request holds at the moment.\<close>

definition fullfill_with_denrequest :: "real \<Rightarrow> DENRequest \<Rightarrow> pyval \<Rightarrow> DENMessage \<Rightarrow> DENMessage result" where
  "fullfill_with_denrequest now request position m =
     rbind (assign_all
       [(management ''detectionTime'', PInt (dr_detection_time request)),
        (management ''referenceTime'', PInt (timestamp_its now)),
        (management ''TransmissionInterval'', PInt (dr_denm_interval request)),
        (management ''relevanceDistance'', dr_relevance_distance request),
        (management ''relevanceTrafficDirection'', dr_relevance_traffic_direction request),
        (management ''eventPosition'', position),
        (management ''stationType'', dr_rhs_vehicle_type request),
        ([Key ''denm'', Key ''situation''],
           situation_container request (dr_rhs_cause_code request) (dr_rhs_subcause_code request)),
        ([Key ''denm'', Key ''location''], location_container request)] (dm_denm m)) (\<lambda>d.
     Inr (m\<lparr>dm_denm := d\<rparr>))"

definition fullfill_with_collision_risk_warning ::
    "real \<Rightarrow> DENRequest \<Rightarrow> pyval \<Rightarrow> DENMessage \<Rightarrow> DENMessage result" where
  "fullfill_with_collision_risk_warning now request position m =
     rbind (assign_all
       [(management ''detectionTime'', PInt (dr_detection_time request)),
        (management ''referenceTime'', PInt (timestamp_its now)),
        (management ''TransmissionInterval'', PInt (dr_denm_interval request)),
        (management ''eventPosition'', position),
        ([Key ''denm'', Key ''situation''],
           situation_container request (dr_lcrw_cause_code request) (dr_lcrw_subcause_code request))] (dm_denm m)) (\<lambda>d.
     Inr (m\<lparr>dm_denm := d\<rparr>))"

definition denm_fullfill_with_vehicle_data :: "VehicleData \<Rightarrow> DENMessage \<Rightarrow> DENMessage result" where
  "denm_fullfill_with_vehicle_data vehicle_data m =
     rbind (assign_all
       [([Key ''header'', Key ''stationId''], PInt (vd_station_id vehicle_data)),
        (management ''stationType'', PInt (vd_station_type vehicle_data)),
        ([Key ''denm'', Key ''management'', Key ''actionId'', Key ''originatingStationId''],
           PInt (vd_station_id vehicle_data)),
        ([Key ''denm'', Key ''management'', Key ''actionId'', Key ''sequenceNumber''],
           PInt (dm_sequence_number m))] (dm_denm m)) (\<lambda>d.
     Inr \<lparr>dm_denm = d, dm_sequence_number = (dm_sequence_number m + 1) mod 65535\<rparr>)"

section \<open>State of a station\<close>

text \<open>
  A thread is running, with the time that it has transmitted, has ended, or has died of an exception.
  \<open>den_transmitted\<close> lists the messages that were handed to the BTP router without an exception, each
  with the number of the thread that sent it.
\<close>

datatype thread_status = Running int | Finished | Died py_error

record den_station =
  den_btp_router :: btp_router
  den_vehicle_data :: VehicleData
  den_encode :: "pyval \<Rightarrow> bytes result"
  den_duration :: int
  den_interval :: int
  den_priority_level :: PriorityLevel
  den_detection_time :: int
  den_event_position :: pyval
  den_threads :: "(DENRequest \<times> thread_status) list"
  den_transmitted :: "(nat option \<times> pyval) list"

definition den_init ::
    "btp_router \<Rightarrow> VehicleData \<Rightarrow> (pyval \<Rightarrow> bytes result) \<Rightarrow> int \<Rightarrow> den_station" where
  "den_init b vehicle_data encode duration =
     \<lparr>den_btp_router = b, den_vehicle_data = vehicle_data, den_encode = encode, den_duration = duration,
      den_interval = 1000, den_priority_level = WARNING,
      den_detection_time = timestamp_its (r_now (b_gn_router b)), den_event_position = unavailable_position,
      den_threads = [], den_transmitted = []\<rparr>"

definition den_time :: "den_station \<Rightarrow> real" where
  "den_time s = r_now (b_gn_router (den_btp_router s))"

definition position_of :: "den_station \<Rightarrow> DENRequest \<Rightarrow> pyval" where
  "position_of s request = (case dr_event_position request of Shared \<Rightarrow> den_event_position s | Own p \<Rightarrow> p)"

definition with_emergency_vehicle_approaching :: "den_station \<Rightarrow> DENRequest" where
  "with_emergency_vehicle_approaching s =
     default_DENRequest
       \<lparr>dr_denm_interval := den_interval s, dr_priority_level := den_priority_level s,
        dr_relevance_distance := PStr ''lessThan200m'',
        dr_relevance_traffic_direction := PStr ''upstreamTraffic'',
        dr_detection_time := den_detection_time s, dr_time_period := den_duration s,
        dr_event_position := Shared,
        dr_rhs_cause_code := PStr ''emergencyVehicleApproaching95'', dr_rhs_subcause_code := PInt 1,
        dr_rhs_event_speed := PInt 30, dr_rhs_vehicle_type := PInt 0\<rparr>"

section \<open>Transmission\<close>

definition denm_btp_request :: "int \<Rightarrow> int \<Rightarrow> bytes \<Rightarrow> BTPDataRequest" where
  "denm_btp_request latitude longitude data = default_BTPDataRequest
     \<lparr>br_btp_type := BTP_B, br_destination_port := 2002,
      br_gn_packet_transport_type := \<lparr>header_type = HT_GEOBROADCAST, header_subtype = GEOBROADCAST_CIRCLE\<rparr>,
      br_gn_area := \<lparr>area_latitude = latitude, area_longitude = longitude, area_a = 100, area_b = 0, area_angle = 0\<rparr>,
      br_communication_profile := CP_UNSPECIFIED,
      br_security_profile := DECENTRALIZED_ENVIRONMENTAL_NOTIFICATION_MESSAGE,
      br_its_aid := 37, br_data := data, br_length := int (length data)\<rparr>"

definition den_on_btp :: "(btp_router, 'a) prog \<Rightarrow> (den_station, 'a) prog" where
  "den_on_btp p s = (let (r, b) = p (den_btp_router s) in (r, s\<lparr>den_btp_router := b\<rparr>))"

definition denm_log_arguments :: "pyval \<Rightarrow> unit result" where
  "denm_log_arguments denm =
     rbind (py_path (management ''referenceTime'') denm) (\<lambda>_.
     rbind (py_path [Key ''header'', Key ''stationId''] denm) (\<lambda>_. Inr ()))"

definition transmit_denm :: "DENMessage \<Rightarrow> (den_station, unit) prog" where
  "transmit_denm m =
     bind_s (gets_s den_encode) (\<lambda>encode.
     bind_s (lift_s (encode (dm_denm m))) (\<lambda>data.
     bind_s (lift_s (rbind (py_path (management ''eventPosition'' @ [Key ''latitude'']) (dm_denm m)) decoded_int)) (\<lambda>latitude.
     bind_s (lift_s (rbind (py_path (management ''eventPosition'' @ [Key ''longitude'']) (dm_denm m)) decoded_int)) (\<lambda>longitude.
     then_s (den_on_btp (btp_data_request (denm_btp_request latitude longitude data)))
       (lift_s (denm_log_arguments (dm_denm m)))))))"

text \<open>A new message of the station with the data of a request.\<close>

definition hazard_denm :: "den_station \<Rightarrow> DENRequest \<Rightarrow> DENMessage result" where
  "hazard_denm s request =
     rbind (denm_fullfill_with_vehicle_data (den_vehicle_data s) new_DENMessage)
       (fullfill_with_denrequest (den_time s) request (position_of s request))"

definition collision_denm :: "den_station \<Rightarrow> DENRequest \<Rightarrow> DENMessage result" where
  "collision_denm s request =
     rbind (denm_fullfill_with_vehicle_data (den_vehicle_data s) new_DENMessage)
       (fullfill_with_collision_risk_warning (den_time s) request (position_of s request))"

definition remember_denm :: "nat option \<Rightarrow> DENMessage \<Rightarrow> den_station \<Rightarrow> den_station" where
  "remember_denm sender m s = s\<lparr>den_transmitted := den_transmitted s @ [(sender, dm_denm m)]\<rparr>"

definition send_collision_risk_warning_denm :: "DENRequest \<Rightarrow> (den_station, unit) prog" where
  "send_collision_risk_warning_denm request =
     bind_s (gets_s (\<lambda>s. collision_denm s request)) (\<lambda>r. bind_s (lift_s r) (\<lambda>m.
     then_s (transmit_denm m) (modify_s (remember_denm None m))))"

section \<open>Threads\<close>

definition request_denm_sending :: "DENRequest \<Rightarrow> den_station \<Rightarrow> den_station" where
  "request_denm_sending request s = s\<lparr>den_threads := den_threads s @ [(request, Running 0)]\<rparr>"

definition set_status :: "nat \<Rightarrow> thread_status \<Rightarrow> den_station \<Rightarrow> den_station" where
  "set_status i status s = s\<lparr>den_threads := (den_threads s)[i := (fst (den_threads s ! i), status)]\<rparr>"

text \<open>The body of the loop of \<open>trigger_denm_messages\<close>; sleeping for a negative time raises.\<close>

definition repeat_denm :: "nat \<Rightarrow> DENRequest \<Rightarrow> (den_station, unit) prog" where
  "repeat_denm i request =
     bind_s (gets_s (\<lambda>s. hazard_denm s request)) (\<lambda>r. bind_s (lift_s r) (\<lambda>m.
     then_s (transmit_denm m)
     (then_s (modify_s (remember_denm (Some i) m))
       (if dr_denm_interval request < 0 then raise_s ValueError else return_s ()))))"

text \<open>
  One turn of a thread, from the check of the loop to the end of the sleep. An exception in the thread
  ends the thread, and nothing else.
\<close>

definition thread_turn :: "nat \<Rightarrow> den_station \<Rightarrow> den_station" where
  "thread_turn i s =
     (if i \<ge> length (den_threads s) then s
      else case den_threads s ! i of
        (request, Running transmission_time) \<Rightarrow>
          if transmission_time < dr_time_period request then
            (case repeat_denm i request s of
               (Inr _, s') \<Rightarrow> set_status i (Running (transmission_time + dr_denm_interval request)) s'
             | (Inl e, s') \<Rightarrow> set_status i (Died e) s')
          else set_status i Finished s
      | _ \<Rightarrow> s)"

section \<open>The emergency vehicle service\<close>

definition altitude_of_event :: "real \<Rightarrow> int" where
  "altitude_of_event altHAE =
     (let alt = py_int (altHAE * 100)
      in if alt < - 800000 then - 100000 else if alt > 613000 then 800000 else alt)"

definition moved_position :: "Report \<Rightarrow> pyval \<Rightarrow> pyval result" where
  "moved_position tpv position =
     rbind (case rp_lat tpv of None \<Rightarrow> Inr position
       | Some lat \<Rightarrow> py_set [Key ''latitude''] (PInt (py_int (lat * 10000000))) position) (\<lambda>p1.
     rbind (case rp_lon tpv of None \<Rightarrow> Inr p1
       | Some lon \<Rightarrow> py_set [Key ''longitude''] (PInt (py_int (lon * 10000000))) p1) (\<lambda>p2.
     case rp_altHAE tpv of None \<Rightarrow> Inr p2
       | Some alt \<Rightarrow> py_set [Key ''altitude'', Key ''altitudeValue''] (PInt (altitude_of_event alt)) p2))"

definition trigger_denm_sending :: "Report \<Rightarrow> (den_station, unit) prog" where
  "trigger_denm_sending tpv =
     bind_s (gets_s den_event_position) (\<lambda>position.
     bind_s (lift_s (moved_position tpv position)) (\<lambda>moved.
     then_s (modify_s (\<lambda>s. s\<lparr>den_event_position := moved\<rparr>))
       (modify_s (\<lambda>s. request_denm_sending (with_emergency_vehicle_approaching s) s))))"

section \<open>Reception\<close>

text \<open>The receiver has the local dynamic map, unless there is none.\<close>

record denm_receiver =
  nr_decode :: "bytes \<Rightarrow> pyval result"
  nr_ldm :: "ldm option"

definition denm_reception_init ::
    "btp_callback \<Rightarrow> (bytes \<Rightarrow> pyval result) \<Rightarrow> ldm option \<Rightarrow> (btp_router, denm_receiver) prog" where
  "denm_reception_init callback decode ldm_facility =
     then_s (register_indication_callback_btp 2002 callback)
       (return_s \<lparr>nr_decode = decode,
          nr_ldm = map_option (\<lambda>l. snd (register_data_provider \<lparr>rp_application_id = DENM,
            rp_access_permissions = [DENM], rp_time_validity = 1000\<rparr> l)) ldm_facility\<rparr>)"

definition denm_event_path :: "py_step list" where
  "denm_event_path = management ''eventPosition''"

definition denm_data :: "ldm_env \<Rightarrow> pyval \<Rightarrow> AddDataProviderReq result" where
  "denm_data env denm =
     rbind (py_path (denm_event_path @ [Key ''latitude'']) denm) (\<lambda>latitude.
     rbind (py_path (denm_event_path @ [Key ''longitude'']) denm) (\<lambda>longitude.
     rbind (py_path (denm_event_path @ [Key ''altitude'', Key ''altitudeValue'']) denm) (\<lambda>altitude.
     Inr \<lparr>adr_application_id = DENM,
          adr_timestamp = initialize_with_utc_timestamp_seconds (le_time env) None,
          adr_location = location_builder_circle latitude longitude altitude 0,
          adr_data_object = denm, adr_time_validity = 3\<rparr>)))"

text \<open>The answer of the map, an identifier or an error, is not looked at.\<close>

definition feed_ldm :: "ldm_env \<Rightarrow> pyval \<Rightarrow> (denm_receiver, unit) prog" where
  "feed_ldm env denm =
     bind_s (gets_s nr_ldm) (\<lambda>facility.
     case facility of
       None \<Rightarrow> return_s ()
     | Some l \<Rightarrow>
         bind_s (lift_s (denm_data env denm)) (\<lambda>data.
         case if3_add_provider_data env data l of
           (Inl e, l') \<Rightarrow> then_s (modify_s (\<lambda>r. r\<lparr>nr_ldm := Some l'\<rparr>)) (raise_s e)
         | (Inr i, l') \<Rightarrow> then_s (modify_s (\<lambda>r. r\<lparr>nr_ldm := Some l'\<rparr>)) (lift_s (denm_log_arguments denm))))"

definition denm_reception_callback :: "ldm_env \<Rightarrow> BTPDataIndication \<Rightarrow> (denm_receiver, unit) prog" where
  "denm_reception_callback env indication =
     bind_s (gets_s nr_decode) (\<lambda>decode.
     bind_s (lift_s (decode (bi_data indication))) (\<lambda>denm.
     then_s (feed_ldm env denm) (lift_s (denm_log_arguments denm))))"

section \<open>The service\<close>

definition den_service ::
    "btp_callback \<Rightarrow> VehicleData \<Rightarrow> (pyval \<Rightarrow> bytes result) \<Rightarrow> (bytes \<Rightarrow> pyval result) \<Rightarrow> ldm option
      \<Rightarrow> int \<Rightarrow> btp_router \<Rightarrow> (den_station \<times> denm_receiver) result" where
  "den_service callback vehicle_data encode decode ldm_facility duration b =
     (case denm_reception_init callback decode ldm_facility b of
        (Inl e, b') \<Rightarrow> Inl e
      | (Inr receiver, b') \<Rightarrow> Inr (den_init b' vehicle_data encode duration, receiver))"

end
