(* ===== verification/SecTrust.thy ===== *)
theory SecTrust
  imports SecSigning
begin

text \<open>
  Trust: what the certificate library holds in every state that a station can reach, and what it means
  for a message that the verify service accepts.
\<close>

section \<open>Trusted digests\<close>

definition issuer_digest :: "Certificate \<Rightarrow> bytes option" where
  "issuer_digest c = (case issuer_field 1 c of
     Inr (PBytes h) \<Rightarrow> Some h | _ \<Rightarrow> None)"

text \<open>
  A digest is trusted if a root certificate is stored under it, or an authority that verifies and whose
  issuer has a trusted digest. So a chain of verified certificates leads from it to a root.
\<close>

inductive trusted :: "sec_lib \<Rightarrow> certificate_library \<Rightarrow> bytes \<Rightarrow> bool" for lib l where
  root: "dict_get (known_root_certificates l) h \<noteq> None \<Longrightarrow> trusted lib l h"
| authority: "dict_get (known_authorization_authorities l) h = Some c \<Longrightarrow> verify lib c = Inr True \<Longrightarrow>
    issuer_digest c = Some g \<Longrightarrow> trusted lib l g \<Longrightarrow> trusted lib l h"

definition anchored :: "sec_lib \<Rightarrow> certificate_library \<Rightarrow> Certificate \<Rightarrow> bool" where
  "anchored lib l c \<longleftrightarrow> verify lib c = Inr True \<and> (\<exists>g. issuer_digest c = Some g \<and> trusted lib l g)"

definition library_ok :: "sec_lib \<Rightarrow> certificate_library \<Rightarrow> bool" where
  "library_ok lib l \<longleftrightarrow>
     (\<forall>h c. dict_get (known_root_certificates l) h = Some c \<longrightarrow> verify lib c = Inr True \<and> as_hashedid8 lib c = Inr h)
     \<and> (\<forall>h c. dict_get (known_authorization_authorities l) h = Some c \<longrightarrow>
          anchored lib l c \<and> as_hashedid8 lib c = Inr h)
     \<and> (\<forall>h c. dict_get (known_authorization_tickets l) h = Some c \<longrightarrow>
          anchored lib l c \<and> as_hashedid8 lib c = Inr h)
     \<and> (\<forall>h c. dict_get (own_certificates l) h = Some c \<longrightarrow> anchored lib l c \<and> as_hashedid8 lib c = Inr h)"

text \<open>Nothing that was known is forgotten.\<close>

definition extends :: "certificate_library \<Rightarrow> certificate_library \<Rightarrow> bool" where
  "extends l l' \<longleftrightarrow>
     (\<forall>h. dict_get (known_root_certificates l) h \<noteq> None \<longrightarrow> dict_get (known_root_certificates l') h \<noteq> None)
     \<and> (\<forall>h c. dict_get (known_authorization_authorities l) h = Some c \<longrightarrow>
          dict_get (known_authorization_authorities l') h = Some c)
     \<and> (\<forall>h c. dict_get (known_authorization_tickets l) h = Some c \<longrightarrow>
          dict_get (known_authorization_tickets l') h = Some c)"

lemma extends_refl: "extends l l"
  by (simp add: extends_def)

lemma extends_trans: "extends l m \<Longrightarrow> extends m n \<Longrightarrow> extends l n"
  by (simp add: extends_def)

lemma trusted_extends: "trusted lib l h \<Longrightarrow> extends l l' \<Longrightarrow> trusted lib l' h"
  by (induction rule: trusted.induct) (auto simp: extends_def intro: trusted.intros)

lemma anchored_extends: "anchored lib l c \<Longrightarrow> extends l l' \<Longrightarrow> anchored lib l' c"
  using trusted_extends by (auto simp: anchored_def)

lemma trusted_authority:
  "library_ok lib l \<Longrightarrow> dict_get (known_authorization_authorities l) h \<noteq> None \<Longrightarrow> trusted lib l h"
  unfolding library_ok_def anchored_def by (metis not_Some_eq trusted.authority)

text \<open>The relation of all steps on the library.\<close>

definition lib_grows :: "sec_lib \<Rightarrow> certificate_library \<Rightarrow> certificate_library \<Rightarrow> bool" where
  "lib_grows lib l l' \<longleftrightarrow> (library_ok lib l \<longrightarrow> library_ok lib l' \<and> extends l l')"

interpretation lib_step: step_rel "lib_grows lib" for lib
  by unfold_locales (auto simp: lib_grows_def extends_refl intro: extends_trans)

lemma library_ok_add:
  assumes "library_ok lib l" "extends l l'"
    and "\<And>h c. dict_get (known_root_certificates l') h = Some c \<Longrightarrow>
        dict_get (known_root_certificates l) h = Some c \<or> verify lib c = Inr True \<and> as_hashedid8 lib c = Inr h"
    and "\<And>h c. dict_get (known_authorization_authorities l') h = Some c \<Longrightarrow>
        dict_get (known_authorization_authorities l) h = Some c \<or> anchored lib l c \<and> as_hashedid8 lib c = Inr h"
    and "\<And>h c. dict_get (known_authorization_tickets l') h = Some c \<Longrightarrow>
        dict_get (known_authorization_tickets l) h = Some c \<or> anchored lib l c \<and> as_hashedid8 lib c = Inr h"
    and "\<And>h c. dict_get (own_certificates l') h = Some c \<Longrightarrow>
        dict_get (own_certificates l) h = Some c \<or> anchored lib l c \<and> as_hashedid8 lib c = Inr h"
  shows "library_ok lib l'"
proof -
  have old: "dict_get (known_root_certificates l) h = Some c \<Longrightarrow> verify lib c = Inr True \<and> as_hashedid8 lib c = Inr h"
    "dict_get (known_authorization_authorities l) h = Some c \<Longrightarrow> anchored lib l c \<and> as_hashedid8 lib c = Inr h"
    "dict_get (known_authorization_tickets l) h = Some c \<Longrightarrow> anchored lib l c \<and> as_hashedid8 lib c = Inr h"
    "dict_get (own_certificates l) h = Some c \<Longrightarrow> anchored lib l c \<and> as_hashedid8 lib c = Inr h" for h c
    using assms(1) by (simp_all add: library_ok_def)
  show ?thesis
    unfolding library_ok_def
    using old assms(3-6) anchored_extends [OF _ assms(2)] by blast
qed

lemma lookup_Some: "lookup d v = Inr (Some c) \<Longrightarrow> \<exists>h. v = PBytes h \<and> dict_get d h = Some c"
  by (cases v) (auto simp: lookup_def py_key_def split: if_splits)

lemma issuer_known:
  assumes "get_issuer_certificate l c = Inr (Some i)"
  obtains h where "issuer_field 0 c = Inr (PStr ''sha256AndDigest'')"
    and "issuer_digest c = Some h"
    and "dict_get (known_root_certificates l) h = Some i \<or> dict_get (known_authorization_authorities l) h = Some i"
proof -
  obtain kind where kind: "issuer_field 0 c = Inr kind"
    using assms by (auto simp: get_issuer_certificate_def rbind_eq_Inr)
  have k: "kind = PStr ''sha256AndDigest''"
    using assms by (auto simp: get_issuer_certificate_def kind split: if_splits)
  obtain digest root where digest: "issuer_field 1 c = Inr digest"
    and root: "lookup (known_root_certificates l) digest = Inr root"
    and rest: "if root \<noteq> None then root = Some i else lookup (known_authorization_authorities l) digest = Inr (Some i)"
    using assms unfolding get_issuer_certificate_def kind k
    by (auto simp: rbind_eq_Inr split: if_splits)
  have "\<exists>h. digest = PBytes h \<and>
      (dict_get (known_root_certificates l) h = Some i \<or> dict_get (known_authorization_authorities l) h = Some i)"
    using rest root lookup_Some [of _ digest i] by (cases "root = None") auto
  then show thesis using that kind k digest by (auto simp: issuer_digest_def)
qed

lemma accepts_anchored:
  assumes "library_ok lib l" "accepts lib c l = Inr True"
  shows "anchored lib l c"
proof -
  obtain i where "get_issuer_certificate l c = Inr (Some i)" "verify lib c = Inr True"
    using assms(2) by (auto simp: accepts_def rbind_eq_Inr split: if_splits)
  then show ?thesis
    using trusted_authority [OF assms(1)] trusted.root [of l _ lib]
    by (elim issuer_known) (auto simp: anchored_def)
qed

section \<open>Every operation keeps the library in order\<close>

lemma add_ticket_grows: "obeys (lib_grows lib) (add_authorization_ticket lib c)"
proof -
  have step: "lib_grows lib l (l\<lparr>known_authorization_tickets := dict_set h c (known_authorization_tickets l)\<rparr>)"
    if "as_hashedid8 lib c = Inr h" "dict_get (known_authorization_tickets l) h = None"
      "accepts lib c l = Inr True" for h l
  proof (unfold lib_grows_def, intro impI conjI)
    assume ok: "library_ok lib l"
    show ext: "extends l (l\<lparr>known_authorization_tickets := dict_set h c (known_authorization_tickets l)\<rparr>)"
      using that(2) by (auto simp: extends_def dict_simps)
    show "library_ok lib (l\<lparr>known_authorization_tickets := dict_set h c (known_authorization_tickets l)\<rparr>)"
      using that(1) accepts_anchored [OF ok that(3)]
      by (intro library_ok_add [OF ok ext]) (auto simp: dict_simps split: if_splits)
  qed
  show ?thesis
    unfolding add_authorization_ticket_def
    by (intro lib_step.obeys_lift_bind lib_step.obeys_gets_bind)
      (auto simp: bind_s_def lib_step.R_refl step split: sum.splits)
qed

lemma add_authority_grows: "obeys (lib_grows lib) (add_authorization_authority lib c)"
proof -
  have step: "lib_grows lib l (l\<lparr>known_authorization_authorities := dict_set h c (known_authorization_authorities l)\<rparr>)"
    if "as_hashedid8 lib c = Inr h" "dict_get (known_authorization_authorities l) h = None"
      "accepts lib c l = Inr True" for h l
  proof (unfold lib_grows_def, intro impI conjI)
    assume ok: "library_ok lib l"
    show ext: "extends l (l\<lparr>known_authorization_authorities := dict_set h c (known_authorization_authorities l)\<rparr>)"
      using that(2) by (auto simp: extends_def dict_simps)
    show "library_ok lib (l\<lparr>known_authorization_authorities := dict_set h c (known_authorization_authorities l)\<rparr>)"
      using that(1) accepts_anchored [OF ok that(3)]
      by (intro library_ok_add [OF ok ext]) (auto simp: dict_simps split: if_splits)
  qed
  show ?thesis
    unfolding add_authorization_authority_def
    by (intro lib_step.obeys_lift_bind lib_step.obeys_gets_bind)
      (auto simp: bind_s_def lib_step.R_refl step split: sum.splits)
qed

lemma add_own_grows: "obeys (lib_grows lib) (add_own_certificate lib c)"
proof -
  have step: "lib_grows lib l (l\<lparr>own_certificates := dict_set h c (own_certificates l)\<rparr>)"
    if "as_hashedid8 lib c = Inr h" "accepts lib c l = Inr True" for h l
  proof (unfold lib_grows_def, intro impI conjI)
    assume ok: "library_ok lib l"
    show ext: "extends l (l\<lparr>own_certificates := dict_set h c (own_certificates l)\<rparr>)"
      by (auto simp: extends_def)
    show "library_ok lib (l\<lparr>own_certificates := dict_set h c (own_certificates l)\<rparr>)"
      using that(1) accepts_anchored [OF ok that(2)]
      by (intro library_ok_add [OF ok ext]) (auto simp: dict_simps split: if_splits)
  qed
  show ?thesis
    unfolding add_own_certificate_def
    by (intro lib_step.obeys_gets_bind)
      (auto simp: bind_s_def lib_step.R_refl step split: sum.splits)
qed

lemma add_root_grows: "obeys (lib_grows lib) (add_root_certificate lib c)"
proof -
  have step: "lib_grows lib l (l\<lparr>known_root_certificates := dict_set h c (known_root_certificates l)\<rparr>)"
    if "as_hashedid8 lib c = Inr h" "verify lib c = Inr True" for h l
  proof (unfold lib_grows_def, intro impI conjI)
    assume ok: "library_ok lib l"
    show ext: "extends l (l\<lparr>known_root_certificates := dict_set h c (known_root_certificates l)\<rparr>)"
      by (auto simp: extends_def dict_simps)
    show "library_ok lib (l\<lparr>known_root_certificates := dict_set h c (known_root_certificates l)\<rparr>)"
      using that by (intro library_ok_add [OF ok ext]) (auto simp: dict_simps split: if_splits)
  qed
  show ?thesis
    unfolding add_root_certificate_def
    by (intro lib_step.obeys_lift_bind lib_step.obeys_if lib_step.obeys_pure lib_step.obeys_modify)
      (simp_all add: step)
qed

lemmas add_grows = add_ticket_grows add_authority_grows add_own_grows add_root_grows

lemma verify_sequence_grows: "obeys (lib_grows lib) (verify_sequence_of_certificates lib cs)"
proof -
  have one: "obeys (lib_grows lib) (verify_one_certificate lib a)" for a
    unfolding verify_one_certificate_def Let_def
    by (intro lib_step.obeys_rules add_grows)
  have two: "obeys (lib_grows lib) (verify_two_certificates lib a b)" for a b
    unfolding verify_two_certificates_def Let_def
    by (intro lib_step.obeys_rules add_grows)
  show ?thesis
    by (cases "(lib, cs)" rule: verify_sequence_of_certificates.cases)
      (auto intro!: one two lib_step.obeys_rules)
qed

lemma library_init_ok: "library_ok lib (snd (library_init lib roots aas ats))"
proof -
  let ?l = "\<lparr>own_certificates = [], known_authorization_tickets = [], known_authorization_authorities = [],
    known_root_certificates = []\<rparr>"
  have "obeys (lib_grows lib) (then_s (for_each_s roots (add_root_certificate lib))
      (then_s (for_each_s aas (add_authorization_authority lib))
        (for_each_s ats (add_authorization_ticket lib))))"
    by (intro lib_step.obeys_rules add_grows)
  then have "lib_grows lib ?l (snd (library_init lib roots aas ats))"
    unfolding library_init_def obeys_def by blast
  moreover have "library_ok lib ?l" by (simp add: library_ok_def)
  ultimately show ?thesis by (simp add: lib_grows_def)
qed

section \<open>Reachable states of the services\<close>

definition sec_grows :: "sec_lib \<Rightarrow> security \<Rightarrow> security \<Rightarrow> bool" where
  "sec_grows lib s s' \<longleftrightarrow> lib_grows lib (sec_library s) (sec_library s')"

interpretation sec_step: step_rel "sec_grows lib" for lib
  by unfold_locales (auto simp: sec_grows_def lib_step.R_refl intro: lib_step.R_trans)

lemma on_library_grows: "obeys (lib_grows lib) p \<Longrightarrow> obeys (sec_grows lib) (on_library p)"
  by (auto simp: obeys_def on_library_def sec_grows_def case_prod_beta)

lemma same_library: "sec_library s' = sec_library s \<Longrightarrow> sec_grows lib s s'"
  by (simp add: sec_grows_def lib_step.R_refl)

lemma modify_same_library: "(\<And>s. sec_library (g s) = sec_library s) \<Longrightarrow> obeys (sec_grows lib) (modify_s g)"
  by (intro sec_step.obeys_modify same_library)

lemma notify_simps [simp]:
  "sec_library (notify_unknown_at h s) = sec_library s" "sec_library (note_ca_request v s) = sec_library s"
  by (simp_all add: notify_unknown_at_def note_ca_request_def Let_def split: pyval.split)

lemma learn_grows: "obeys (sec_grows lib) (learn_from_header lib header_info)"
proof -
  have own: "obeys (sec_grows lib) (note_own_request lib xs c)" for xs c
    unfolding note_own_request_def by (intro sec_step.obeys_rules modify_same_library) simp
  have inline: "obeys (sec_grows lib) (notify_inline_p2pcd_request lib v)" for v
    unfolding notify_inline_p2pcd_request_def by (intro sec_step.obeys_rules own modify_same_library) simp
  have ca: "obeys (sec_grows lib) (notify_received_ca_certificate lib v)" for v
    unfolding notify_received_ca_certificate_def Let_def
    by (intro sec_step.obeys_rules on_library_grows add_grows modify_same_library) simp
  show ?thesis
    unfolding learn_from_header_def by (intro sec_step.obeys_rules inline ca)
qed

lemma find_ticket_grows: "obeys (sec_grows lib) (find_ticket lib signer)"
  unfolding find_ticket_def
  by (intro sec_step.obeys_rules on_library_grows verify_sequence_grows modify_same_library) simp_all

lemma with_ticket_grows: "obeys (sec_grows lib) (verify_with_ticket lib sd data c)"
  unfolding verify_with_ticket_def for_ticket_def by (intro sec_step.obeys_rules learn_grows)

lemma verify_message_grows: "obeys (sec_grows lib) (verify_message lib message)"
proof -
  have case_sum: "(\<And>r. obeys (sec_grows lib) (f r)) \<Longrightarrow> (\<And>c. obeys (sec_grows lib) (g c)) \<Longrightarrow>
      obeys (sec_grows lib) (case x of Inl r \<Rightarrow> f r | Inr c \<Rightarrow> g c)"
    for x :: "SNVERIFYConfirm + Certificate" and f g :: "_ \<Rightarrow> (security, SNVERIFYConfirm) prog"
    by (cases x) auto
  show ?thesis
    unfolding verify_message_def
    by (intro sec_step.obeys_rules find_ticket_grows case_sum with_ticket_grows)
qed

lemma sign_cam_grows: "obeys (sec_grows lib) (sv_sign_cam lib now request)"
proof -
  have "obeys (sec_grows lib) (set_up_signer lib now c)" for c
    unfolding set_up_signer_def by (intro sec_step.obeys_rules modify_same_library) simp
  moreover have "obeys (sec_grows lib) next_requested"
  proof -
    have case_list: "obeys (sec_grows lib) m \<Longrightarrow> (\<And>h t. obeys (sec_grows lib) (f h t)) \<Longrightarrow>
        obeys (sec_grows lib) (case xs of [] \<Rightarrow> m | h # t \<Rightarrow> f h t)"
      for xs :: "bytes list" and m :: "(security, (string \<times> pyval) list) prog" and f
      by (cases xs) auto
    show ?thesis
      unfolding next_requested_def
      by (intro sec_step.obeys_rules case_list modify_same_library) simp
  qed
  ultimately show ?thesis
    unfolding sv_sign_cam_def Let_def by (intro sec_step.obeys_rules)
qed

text \<open>The runs of a station: messages are verified, CAMs are signed, certificates are added.\<close>

inductive security_step :: "sec_lib \<Rightarrow> security \<Rightarrow> security \<Rightarrow> bool" for lib where
  verify: "verify_message lib message s = (r, s') \<Longrightarrow> security_step lib s s'"
| sign: "sv_sign_cam lib now request s = (r', s') \<Longrightarrow> security_step lib s s'"
| add_own: "sv_add_own_certificate lib c s = (r'', s') \<Longrightarrow> security_step lib s s'"
| add_ticket: "on_library (add_authorization_ticket lib c) s = (r'', s') \<Longrightarrow> security_step lib s s'"
| add_authority: "on_library (add_authorization_authority lib c) s = (r'', s') \<Longrightarrow> security_step lib s s'"
| add_root: "on_library (add_root_certificate lib c) s = (r'', s') \<Longrightarrow> security_step lib s s'"

inductive security_reachable :: "sec_lib \<Rightarrow> security \<Rightarrow> bool" for lib where
  init: "library_init lib roots aas ats = (r, l) \<Longrightarrow> security_reachable lib (sign_service_init keys l linked)"
| step: "security_reachable lib s \<Longrightarrow> security_step lib s s' \<Longrightarrow> security_reachable lib s'"

lemma step_grows: "security_step lib s s' \<Longrightarrow> sec_grows lib s s'"
  by (induction rule: security_step.induct)
    (auto intro: obeysD [OF verify_message_grows] obeysD [OF sign_cam_grows]
      obeysD [OF on_library_grows [OF add_ticket_grows]] obeysD [OF on_library_grows [OF add_authority_grows]]
      obeysD [OF on_library_grows [OF add_root_grows]] obeysD [OF on_library_grows [OF add_own_grows]]
      simp: sv_add_own_certificate_def)

lemma reachable_library_ok: "security_reachable lib s \<Longrightarrow> library_ok lib (sec_library s)"
proof (induction rule: security_reachable.induct)
  case (init roots aas ats r l keys linked)
  then show ?case using library_init_ok [of lib roots aas ats] by (simp add: sign_service_init_def)
next
  case (step s s')
  then show ?case using step_grows [of lib s s'] by (simp add: sec_grows_def lib_grows_def)
qed

section \<open>Accepted messages\<close>

lemma hash_from_dict: "as_hashedid8 lib (from_dict d i) = as_hashedid8 lib (from_dict d j)"
  by (simp add: as_hashedid8_def to_canonical_def from_dict_def certificate_encode_def rbind_assoc)

lemma issuer_from_dict: "get_issuer_certificate l (from_dict d i) = get_issuer_certificate l (from_dict d j)"
  unfolding get_issuer_certificate_def issuer_field_def from_dict_def Certificate.sel ..

lemma add_ticket_stores:
  assumes "as_hashedid8 lib c = Inr h" "dict_get (known_authorization_tickets l) h = None"
    and "accepts lib c l = Inr True"
  shows "add_authorization_ticket lib c l
    = (Inr (), l\<lparr>known_authorization_tickets := dict_set h c (known_authorization_tickets l)\<rparr>)"
  using assms by (simp add: add_authorization_ticket_def bind_s_def)

lemma verify_one_known:
  assumes "library_ok lib l" "verify_one_certificate lib d l = (Inr (Some c), l')"
  shows "\<exists>h. as_hashedid8 lib c = Inr h \<and> dict_get (known_authorization_tickets l') h = Some c"
proof -
  obtain h where h: "as_hashedid8 lib (from_dict d None) = Inr h"
    using assms(2) by (cases "as_hashedid8 lib (from_dict d None)") (simp_all add: verify_one_certificate_def)
  show ?thesis
  proof (cases "dict_get (known_authorization_tickets l) h")
    case (Some c')
    then have "c' = c" "l' = l" using assms(2) by (simp_all add: verify_one_certificate_def h bind_s_def)
    then show ?thesis using Some assms(1) by (auto simp: library_ok_def)
  next
    case None
    obtain i where i: "get_issuer_certificate l (from_dict d None) = Inr (Some i)"
      and valid: "verify lib (from_dict d (Some i)) = Inr True"
      using assms(2) None
      by (auto simp: verify_one_certificate_def h bind_s_def Let_def split: sum.splits if_splits prod.splits)
    have "accepts lib (from_dict d (Some i)) l = Inr True"
      by (simp add: accepts_def issuer_from_dict [of l d "Some i" None] i valid)
    moreover have hash: "as_hashedid8 lib (from_dict d (Some i)) = Inr h"
      using h hash_from_dict [of lib d "Some i" None] by simp
    ultimately have "add_authorization_ticket lib (from_dict d (Some i)) l = (Inr (),
        l\<lparr>known_authorization_tickets := dict_set h (from_dict d (Some i)) (known_authorization_tickets l)\<rparr>)"
      using add_ticket_stores None by blast
    then show ?thesis
      using assms(2) None hash
      by (auto simp: verify_one_certificate_def h i valid bind_s_def then_s_def Let_def dict_simps)
  qed
qed

lemma find_ticket_known:
  assumes "library_ok lib (sec_library s)" "find_ticket lib signer s = (Inr (Inr c), s')"
  shows "\<exists>h. as_hashedid8 lib c = Inr h \<and> dict_get (known_authorization_tickets (sec_library s')) h = Some c"
proof -
  obtain kind v where signer: "py_index signer 0 = Inr kind" "py_index signer 1 = Inr v"
    using assms(2)
    by (cases "py_index signer 0"; cases "py_index signer 1") (simp_all add: find_ticket_def)
  note run = assms(2) [unfolded find_ticket_def signer, simplified]
  show ?thesis
  proof (cases "kind = PStr ''certificate''")
    case True
    then obtain xs where xs: "py_list v = Inr xs" using run by (cases "py_list v") simp_all
    have "length xs = 1" using run True by (auto simp: xs split: if_splits)
    then obtain d where d: "xs = [d]" by (cases xs) auto
    obtain r l' where one: "verify_one_certificate lib d (sec_library s) = (r, l')" by fastforce
    have "r = Inr (Some c)" "sec_library s' = l'"
      using run True
      by (auto simp: xs d bind_s_def then_s_def on_library_def one split: sum.splits option.splits if_splits prod.splits)
    then show ?thesis using verify_one_known [OF assms(1)] one by simp
  next
    case False
    then have "kind = PStr ''digest''" using run by (auto split: if_splits)
    then have "get_authorization_ticket_by_hashedid8 v (sec_library s) = Inr (Some c) \<and> s' = s"
      using run by (auto simp: bind_s_def then_s_def split: sum.splits option.splits if_splits prod.splits)
    moreover from this obtain h where "dict_get (known_authorization_tickets (sec_library s)) h = Some c"
      using lookup_Some by (force simp: get_authorization_ticket_by_hashedid8_def)
    ultimately show ?thesis using assms(1) by (auto simp: library_ok_def)
  qed
qed

lemma bind_lift_Inr: "bind_s (lift_s r) f s = (Inr y, s') \<longleftrightarrow> (\<exists>x. r = Inr x \<and> f x s = (Inr y, s'))"
  by (cases r) (simp_all add: bind_s_def)

lemma find_ticket_reports: "find_ticket lib signer s = (Inr (Inl r), s') \<Longrightarrow> vc_report r \<noteq> SUCCESS"
  by (auto simp: find_ticket_def bind_lift_Inr bind_s_Inr then_s_def report_def split: if_splits option.splits)

lemma header_check_reports: "header_check psid h = Inr (Some r) \<Longrightarrow> r \<noteq> SUCCESS"
  by (auto simp: header_check_def rbind_eq_Inr split: if_splits)

lemma as_bytes_Inr: "as_bytes v = Inr b \<longleftrightarrow> v = PBytes b"
  by (cases v) auto

definition signed_by :: "sec_lib \<Rightarrow> pyval \<Rightarrow> bytes \<Rightarrow> Certificate \<Rightarrow> bool" where
  "signed_by lib sd data c \<longleftrightarrow>
     (\<exists>pk signature. verify_key_indicator [Idx 1] c = Inr pk \<and> py_item sd ''signature'' = Inr signature
       \<and> verify_with_pk lib data signature pk = Inr True)"

lemma for_ticket_Inr:
  "for_ticket lib c confirm s = (Inr conf, s') \<longleftrightarrow> (\<exists>h. as_hashedid8 lib c = Inr h \<and> conf = confirm h \<and> s' = s)"
  by (auto simp: for_ticket_def bind_lift_Inr)

lemma success_with_ticket:
  assumes "verify_with_ticket lib sd data c s = (Inr conf, s')" "vc_report conf = SUCCESS"
  shows "ticket_fits lib c = Inr True" "as_hashedid8 lib c = Inr (vc_certificate_id conf)"
    "signed_by lib sd data c" "py_path payload_path sd = Inr (PBytes (vc_plain_message conf))"
proof -
  obtain fits where fits: "ticket_fits lib c = Inr fits"
    using assms(1) by (auto simp: verify_with_ticket_def bind_lift_Inr)
  have yes: "fits" using assms by (cases fits) (auto simp: verify_with_ticket_def fits report_def)
  then show "ticket_fits lib c = Inr True" using fits by simp
  obtain h psid broken where check: "header_check psid h = Inr broken"
    and rest: "(case broken of
         Some r \<Rightarrow> for_ticket lib c (\<lambda>id. report r id [] [])
       | None \<Rightarrow>
           bind_s (lift_s (psid_bytes psid)) (\<lambda>its_aid.
           bind_s (lift_s (verify_key_indicator [Idx 1] c)) (\<lambda>pk.
           bind_s (lift_s (rbind (py_item sd ''signature'') (\<lambda>s. verify_with_pk lib data s pk))) (\<lambda>ok.
           if \<not> ok then for_ticket lib c (\<lambda>id. report FALSE_SIGNATURE id its_aid [])
           else
             bind_s (lift_s (rbind (py_path payload_path sd) as_bytes)) (\<lambda>plain_message.
             then_s (learn_from_header lib h)
               (for_ticket lib c (\<lambda>id. report SUCCESS id its_aid plain_message))))))) s = (Inr conf, s')"
    using assms(1) yes
    by (auto simp only: verify_with_ticket_def fits bind_lift_Inr not_True_eq_False if_False)
  have "broken = None"
    using rest assms(2) header_check_reports check by (cases broken) (auto simp: report_def for_ticket_Inr)
  then obtain its_aid pk ok where ok: "verify_key_indicator [Idx 1] c = Inr pk"
    "rbind (py_item sd ''signature'') (\<lambda>s. verify_with_pk lib data s pk) = Inr ok"
    and rest2: "(if \<not> ok then for_ticket lib c (\<lambda>id. report FALSE_SIGNATURE id its_aid [])
           else
             bind_s (lift_s (rbind (py_path payload_path sd) as_bytes)) (\<lambda>plain_message.
             then_s (learn_from_header lib h)
               (for_ticket lib c (\<lambda>id. report SUCCESS id its_aid plain_message)))) s = (Inr conf, s')"
    using rest by (auto simp only: bind_lift_Inr option.case)
  have "ok" using rest2 assms(2) by (auto simp: report_def for_ticket_Inr split: if_splits)
  then show "signed_by lib sd data c" using ok by (auto simp: signed_by_def rbind_eq_Inr)
  obtain plain where plain: "py_path payload_path sd = Inr (PBytes plain)"
    and last: "then_s (learn_from_header lib h) (for_ticket lib c (\<lambda>id. report SUCCESS id its_aid plain)) s = (Inr conf, s')"
    using rest2 \<open>ok\<close> by (auto simp only: bind_lift_Inr rbind_eq_Inr as_bytes_Inr not_True_eq_False if_False)
  obtain id where id: "as_hashedid8 lib c = Inr id" and "conf = report SUCCESS id its_aid plain"
    using last by (auto simp: then_s_def bind_s_Inr for_ticket_Inr)
  then show "as_hashedid8 lib c = Inr (vc_certificate_id conf)"
    "py_path payload_path sd = Inr (PBytes (vc_plain_message conf))"
    using id plain by (simp_all add: report_def)
qed

text \<open>
  C34: In every reachable state of the services of a station: when a message is reported as a success,
  its sender's certificate is stored as a ticket under the digest in the report, it has the profile of
  an authorization ticket, it verifies against its issuer, the digest of its issuer leads over
  verified authorities to a known root certificate, the signature over the signed bytes verifies under
  the key of the ticket, and the plain message is the payload of the signed data.
\<close>

theorem accepted_message_is_trusted:
  assumes "security_reachable lib s" "verify_message lib message s = (Inr conf, s')"
    and "vc_report conf = SUCCESS"
  shows "\<exists>sd data ticket g. signed_part lib message = Inr sd \<and> signed_bytes lib sd = Inr data
    \<and> dict_get (known_authorization_tickets (sec_library s')) (vc_certificate_id conf) = Some ticket
    \<and> is_authorization_ticket ticket = Inr True \<and> verify lib ticket = Inr True
    \<and> issuer_digest ticket = Some g \<and> trusted lib (sec_library s') g
    \<and> signed_by lib sd data ticket
    \<and> py_path payload_path sd = Inr (PBytes (vc_plain_message conf))"
proof -
  obtain sd data signer psid kind where sd: "signed_part lib message = Inr sd" "signed_bytes lib sd = Inr data"
    and run: "(if is_denm psid \<and> kind \<noteq> PStr ''certificate''
     then return_s (report UNSUPPORTED_SIGNER_IDENTIFIER_TYPE [] [] [])
     else
       bind_s (find_ticket lib signer) (\<lambda>found.
       case found of
         Inl r \<Rightarrow> return_s r
       | Inr ticket \<Rightarrow> verify_with_ticket lib sd data ticket)) s = (Inr conf, s')"
    using assms(2)
    by (auto simp only: verify_message_def bind_lift_Inr)
  have "\<not> (is_denm psid \<and> kind \<noteq> PStr ''certificate'')"
    using run assms(3) by (auto simp: report_def split: if_splits)
  then obtain found s1 where found: "find_ticket lib signer s = (Inr found, s1)"
    and run1: "(case found of Inl r \<Rightarrow> return_s r
       | Inr ticket \<Rightarrow> verify_with_ticket lib sd data ticket) s1 = (Inr conf, s')"
    using run by (auto simp: bind_s_Inr)
  have ok: "library_ok lib (sec_library s)" by (rule reachable_library_ok [OF assms(1)])
  obtain c where c: "found = Inr c"
    using find_ticket_reports found run1 assms(3) by (cases found) auto
  then have fine: "verify_with_ticket lib sd data c s1 = (Inr conf, s')" using run1 by simp
  obtain h where h: "as_hashedid8 lib c = Inr h"
    "dict_get (known_authorization_tickets (sec_library s1)) h = Some c"
    using find_ticket_known [OF ok] found c by blast
  have ok1: "library_ok lib (sec_library s1)"
    using obeysD [OF find_ticket_grows found] ok by (simp add: sec_grows_def lib_grows_def)
  then have after: "extends (sec_library s1) (sec_library s')" "library_ok lib (sec_library s')"
    using obeysD [OF with_ticket_grows fine] by (simp_all add: sec_grows_def lib_grows_def)
  have stored: "dict_get (known_authorization_tickets (sec_library s')) h = Some c"
    using after(1) h(2) by (simp add: extends_def)
  then have "anchored lib (sec_library s') c"
    using after(2) unfolding library_ok_def by blast
  then obtain g where "issuer_digest c = Some g" "trusted lib (sec_library s') g"
    by (auto simp: anchored_def)
  moreover have "h = vc_certificate_id conf" using success_with_ticket(2) [OF fine assms(3)] h(1) by simp
  moreover have "is_authorization_ticket c = Inr True" "verify lib c = Inr True"
    using success_with_ticket(1) [OF fine assms(3)]
    by (auto simp: ticket_fits_def both_def rbind_eq_Inr split: if_splits)
  ultimately show ?thesis using sd stored success_with_ticket(3,4) [OF fine assms(3)] by blast
qed

end
