(* ===== verification/SecProps.thy ===== *)
theory SecProps
  imports SecTrust
begin

text \<open>
  Signing against verifying, the distribution of certificates and the issuance of certificates.
\<close>

section \<open>Signatures\<close>

text \<open>The point of a public key in a certificate.\<close>

definition key_point :: "sec_lib \<Rightarrow> pyval \<Rightarrow> (int \<times> int) result" where
  "key_point lib pk =
     rbind (py_index pk 0) (\<lambda>curve.
     if curve = PStr ''ecdsaNistP256'' then rbind (py_index pk 1) (read_point lib) else Inl ValueError)"

text \<open>
  What \<open>ecdsa\<close> documents of a key pair: signatures are two numbers of at most 256 bits that the public
  key verifies.
\<close>

definition key_pair :: "sec_lib \<Rightarrow> int \<Rightarrow> bool" where
  "key_pair lib secret \<longleftrightarrow>
     (\<forall>data. fst (ec_sign lib secret data) \<in> {0..<256 ^ 32} \<and> snd (ec_sign lib secret data) \<in> {0..<256 ^ 32}
       \<and> ec_verify lib (ec_public lib secret) data (ec_sign lib secret data) = Inr True)"

definition holds_key :: "sec_lib \<Rightarrow> backend \<Rightarrow> Certificate \<Rightarrow> bool" where
  "holds_key lib keys c \<longleftrightarrow>
     (\<exists>i secret pk. c_key_id c = Some i \<and> dict_get keys i = Some secret \<and> key_pair lib secret
       \<and> verify_key_indicator [Idx 1] c = Inr pk \<and> key_point lib pk = Inr (ec_public lib secret))"

lemma signature_verifies:
  assumes "holds_key lib keys c"
  obtains signature where "sign_message lib keys c data = Inr signature"
    and "\<And>pk. verify_key_indicator [Idx 1] c = Inr pk \<Longrightarrow> verify_with_pk lib data signature pk = Inr True"
    and "py_index signature 0 = Inr (PStr ''ecdsaNistP256Signature'')"
proof -
  obtain i secret pk where key: "c_key_id c = Some i" "dict_get keys i = Some secret" "key_pair lib secret"
    "verify_key_indicator [Idx 1] c = Inr pk" "key_point lib pk = Inr (ec_public lib secret)"
    using assms by (auto simp: holds_key_def)
  obtain r t where rt: "ec_sign lib secret data = (r, t)" by fastforce
  have bounds: "0 \<le> r" "r < 256 ^ 32" "0 \<le> t" "t < 256 ^ 32"
    and valid: "ec_verify lib (ec_public lib secret) data (r, t) = Inr True"
    using key(3) unfolding key_pair_def by (metis rt fst_conv snd_conv atLeastLessThan_iff)+
  let ?signature = "PTuple [PStr ''ecdsaNistP256Signature'',
       PDict [(''rSig'', PTuple [PStr ''x-only'', PBytes (be_bytes 32 r)]), (''sSig'', PBytes (be_bytes 32 t))]]"
  have "sign_message lib keys c data = Inr ?signature"
    using bounds by (simp add: sign_message_def own_key_def key sign_def rt signature_value_def to_bytes_def)
  moreover obtain point where "py_index pk 0 = Inr (PStr ''ecdsaNistP256'')" "py_index pk 1 = Inr point"
    "read_point lib point = Inr (ec_public lib secret)"
    using key(5) by (auto simp: key_point_def rbind_eq_Inr split: if_splits)
  then have "verify_with_pk lib data ?signature pk = Inr True"
    using bounds valid by (simp add: verify_with_pk_def from_be_bytes)
  ultimately show thesis using that key(4) by auto
qed

section \<open>Signed messages are accepted\<close>

lemma hash_of_dict: "c_certificate c = c_certificate c' \<Longrightarrow> as_hashedid8 lib c = as_hashedid8 lib c'"
  by (cases c; cases c') (simp add: as_hashedid8_def to_canonical_def certificate_encode_def rbind_assoc)

text \<open>A receiver that holds the certificate as a ticket finds it by the certificate and by its digest.\<close>

definition knows_ticket :: "sec_lib \<Rightarrow> security \<Rightarrow> Certificate \<Rightarrow> bytes \<Rightarrow> Certificate \<Rightarrow> bool" where
  "knows_ticket lib t c h c' \<longleftrightarrow>
     as_hashedid8 lib c = Inr h \<and> dict_get (known_authorization_tickets (sec_library t)) h = Some c'
     \<and> c_certificate c' = c_certificate c \<and> ticket_fits lib c' = Inr True"

definition signer_of :: "int \<Rightarrow> Certificate \<Rightarrow> bytes \<Rightarrow> pyval" where
  "signer_of its_aid c h =
     (if its_aid = 37 then PTuple [PStr ''certificate'', PList [c_certificate c]]
      else PTuple [PStr ''digest'', PBytes h])"

lemma find_known_ticket:
  assumes "knows_ticket lib t c h c'"
  shows "find_ticket lib (signer_of its_aid c h) t = (Inr (Inr c'), t)"
proof -
  have "as_hashedid8 lib (from_dict (c_certificate c) None) = Inr h"
    using assms hash_of_dict [of "from_dict (c_certificate c) None" c] by (simp add: knows_ticket_def from_dict_def)
  then have "verify_one_certificate lib (c_certificate c) (sec_library t) = (Inr (Some c'), sec_library t)"
    using assms by (simp add: verify_one_certificate_def knows_ticket_def)
  moreover have "lookup (known_authorization_tickets (sec_library t)) (PBytes h) = Inr (Some c')"
    using assms by (simp add: lookup_def py_key_def knows_ticket_def)
  ultimately show ?thesis
    by (simp add: find_ticket_def signer_of_def on_library_def bind_s_def
        get_authorization_ticket_by_hashedid8_def)
qed

text \<open>The header of the two profiles: a location for DENMs, nothing else.\<close>

definition header_extra :: "SNSIGNRequest \<Rightarrow> (string \<times> pyval) list" where
  "header_extra request =
     (case generation_location request of
        Some l \<Rightarrow> if sn_its_aid request = 37 then [(''generationLocation'', location_dict l)] else []
      | None \<Rightarrow> [])"

definition profile_ok :: "SNSIGNRequest \<Rightarrow> bool" where
  "profile_ok request \<longleftrightarrow> 0 \<le> sn_its_aid request \<and> (sn_its_aid request = 37 \<longrightarrow> generation_location request \<noteq> None)"

definition signed_header :: "SNSIGNRequest \<Rightarrow> int \<Rightarrow> pyval" where
  "signed_header request time = PDict ([(''psid'', PInt (sn_its_aid request)),
     (''generationTime'', PInt time)] @ header_extra request)"

lemma profile_header:
  assumes "profile_ok request"
  shows "psid_of (signed_header request time) = Inr (PInt (sn_its_aid request))"
    and "header_check (PInt (sn_its_aid request)) (signed_header request time) = Inr None"
    and "learn_from_header lib (signed_header request time) t = (Inr (), t)"
  using assms
  by (auto simp: signed_header_def psid_of_def is_denm_def header_check_def learn_from_header_def header_extra_def profile_ok_def
      then_s_def bind_s_def split: option.splits)

lemma byte_count_fits: "n < 256 ^ byte_count n"
proof (induction n rule: byte_count.induct)
  case (1 n)
  show ?case
  proof (cases "n < 256")
    case False
    then have "n div 256 < 256 ^ byte_count (n div 256)" using 1 by simp
    then have "n < 256 ^ byte_count (n div 256) * 256" by (simp add: div_less_iff_less_mult)
    then show ?thesis using False by (subst byte_count.simps) simp
  qed (subst byte_count.simps, simp)
qed

lemma psid_bytes_ok:
  assumes "0 \<le> psid"
  obtains bs where "psid_bytes (PInt psid) = Inr bs" "from_bytes bs = psid"
proof -
  have "psid < 256 ^ byte_count (nat psid)"
    using byte_count_fits [of "nat psid"] assms by (simp add: nat_less_iff)
  then show thesis
    using that [of "be_bytes (byte_count (nat psid)) psid"] assms
    by (simp add: int_bytes_def to_bytes_def from_be_bytes)
qed

text \<open>
  Whoever holds the key of a certificate can sign a message with any application number and have
  it accepted: a station that has the certificate among its tickets reports success with that number
  and the message, and its state does not change. Neither the application permissions of the ticket nor
  its validity period nor the time of the message play a role. The codec has to decode the envelope that
  it encoded.
\<close>

lemma sealed_message_accepted:
  assumes "profile_ok request" "holds_key lib keys c" "knows_ticket lib t c h c'"
    and "sec_backend s = keys" "tbs = tbs_data now request (header_extra request)"
    and "encode_to_be_signed_data lib tbs = Inr tobesigned"
    and "seal lib s tbs tobesigned c (signer_of (sn_its_aid request) c h) = Inr message"
    and "\<forall>g. let d = signed_data tbs (signer_of (sn_its_aid request) c h) g in
      encode_etsi_ts_103097_data_signed lib d = Inr message \<longrightarrow> decode_etsi_ts_103097_data_signed lib message = Inr d"
  shows "\<exists>its_aid. from_bytes its_aid = sn_its_aid request \<and>
    verify_message lib message t = (Inr (report SUCCESS h its_aid (tbs_message request)), t)"
proof -
  obtain signature where signature: "sign_message lib keys c tobesigned = Inr signature"
    and valid: "\<And>pk. verify_key_indicator [Idx 1] c = Inr pk \<Longrightarrow> verify_with_pk lib tobesigned signature pk = Inr True"
    using signature_verifies [OF assms(2)] by metis
  let ?signer = "signer_of (sn_its_aid request) c h"
  have "decode_etsi_ts_103097_data_signed lib message = Inr (signed_data tbs ?signer signature)"
    using assms(7,8) by (auto simp: seal_def assms(4) signature Let_def)
  then obtain sd where sd: "signed_part lib message = Inr sd"
    "sd = PDict [(''hashId'', PStr ''sha256''), (''tbsData'', tbs), (''signer'', ?signer), (''signature'', signature)]"
    by (simp add: signed_part_def signed_data_def)
  have fields: "signed_bytes lib sd = Inr tobesigned" "py_item sd ''tbsData'' = Inr tbs"
    "py_item sd ''signer'' = Inr ?signer" "py_item sd ''signature'' = Inr signature"
    by (simp_all add: sd(2) signed_bytes_def assms(6))
  have payload: "py_path payload_path sd = Inr (PBytes (tbs_message request))"
    by (simp add: sd(2) payload_path_def assms(5) tbs_data_def)
  let ?header = "signed_header request (timestamp_its now * 1000)"
  have header: "py_get tbs ''headerInfo'' (PDict []) = Inr ?header"
    by (simp add: assms(5) tbs_data_def signed_header_def)
  note profile = profile_header [OF assms(1), where time = "timestamp_its now * 1000"]
  obtain its_aid where aid: "psid_bytes (PInt (sn_its_aid request)) = Inr its_aid" "from_bytes its_aid = sn_its_aid request"
    using psid_bytes_ok assms(1) unfolding profile_ok_def by metis
  obtain pk where pk: "verify_key_indicator [Idx 1] c = Inr pk" using assms(2) by (auto simp: holds_key_def)
  have same: "verify_key_indicator [Idx 1] c' = Inr pk" "as_hashedid8 lib c' = Inr h" "ticket_fits lib c' = Inr True"
    using assms(3) pk hash_of_dict [of c' c lib] by (simp_all add: knows_ticket_def verify_key_indicator_def)
  have accept: "verify_with_ticket lib sd tobesigned c' t = (Inr (report SUCCESS h its_aid (tbs_message request)), t)"
    unfolding verify_with_ticket_def
    by (simp add: same same(1) [unfolded One_nat_def] fields header profile aid [simplified] valid [OF pk] payload
        for_ticket_def then_s_def bind_s_def)
  have kind: "py_index ?signer 0 = Inr (if sn_its_aid request = 37 then PStr ''certificate'' else PStr ''digest'')"
    by (simp add: signer_of_def)
  have "verify_message lib message t = (Inr (report SUCCESS h its_aid (tbs_message request)), t)"
    unfolding verify_message_def
    by (simp add: sd(1) fields header profile kind is_denm_def bind_s_def find_known_ticket [OF assms(3)] accept)
  then show ?thesis using aid(2) by blast
qed

text \<open>The two profiles of the sign service seal exactly such envelopes, with a ticket for the number.\<close>

lemma sign_request_seals:
  assumes "sv_sign_request lib now request s = Inr message"
  obtains c h tobesigned where "present_ticket (sn_its_aid request) s = Inr c"
    and "encode_to_be_signed_data lib (tbs_data now request (header_extra request)) = Inr tobesigned"
    and "sn_its_aid request \<noteq> 37 \<Longrightarrow> as_hashedid8 lib c = Inr h"
    and "sn_its_aid request = 37 \<Longrightarrow> generation_location request \<noteq> None"
    and "seal lib s (tbs_data now request (header_extra request)) tobesigned c
      (signer_of (sn_its_aid request) c h) = Inr message"
proof (cases "sn_its_aid request = 37")
  case True
  then obtain l where l: "generation_location request = Some l"
    using assms by (cases "generation_location request") (simp_all add: sv_sign_request_def sv_sign_denm_def)
  then show thesis
    using assms True that
    by (auto simp: sv_sign_request_def sv_sign_denm_def header_extra_def rbind_eq_Inr signer_of_def Let_def)
next
  case False
  then have "header_extra request = []" by (simp add: header_extra_def split: option.split)
  then show thesis
    using assms False that
    by (auto simp: sv_sign_request_def sign_other_def rbind_eq_Inr signer_of_def Let_def split: if_splits)
qed

section \<open>Certificates received from peers\<close>

lemma no_issuer_no_authority:
  assumes "get_issuer_certificate l (from_dict d None) = Inr (Some i)"
  shows "verify lib (from_dict d None) \<noteq> Inr True"
proof -
  obtain h where "issuer_field 0 (from_dict d None) = Inr (PStr ''sha256AndDigest'')"
    using issuer_known [OF assms] by metis
  then have "certificate_is_self_signed (from_dict d None) = Inr False"
    by (simp add: certificate_is_self_signed_def)
  then show ?thesis
    by (auto simp: verify_def both_def rbind_eq_Inr from_dict_def split: if_splits)
qed

text \<open>
  The distribution of authorities does not work: a certificate that a peer sends on request is
  taken off the lists of pending requests, but it is never stored, whatever it is, since it is verified
  without the certificate of its issuer.
\<close>

lemma received_authority_is_dropped:
  "sec_library (snd (notify_received_ca_certificate lib d s)) = sec_library s"
proof -
  have "add_authorization_authority lib (from_dict d None) l = (r, l') \<Longrightarrow> l' = l" for l l' r
    using no_issuer_no_authority [of l d _ lib]
    by (auto simp: add_authorization_authority_def bind_s_def accepts_def rbind_eq_Inr
        split: sum.splits if_splits option.splits)
  then show ?thesis
    by (auto simp: notify_received_ca_certificate_def Let_def bind_s_def then_s_def on_library_def
        split: sum.splits prod.splits)
qed

end
