(* ===== verification/SecIssuanceProps.thy ===== *)
theory SecIssuanceProps
  imports SecProps
begin

text \<open>
  What issuing a certificate gives: an authority gets no more than its issuer has, and a certificate
  that has been issued verifies against its issuer.
\<close>

section \<open>Reading a dictionary after writing to it\<close>

lemma py_set_key: "py_set [Key k] w v = Inr v' \<longleftrightarrow> (\<exists>d. v = PDict d \<and> v' = PDict (AList.update k w d))"
  by (cases v) auto

lemma py_item_set: "py_set [Key k] w v = Inr v' \<Longrightarrow> py_item v' j = (if j = k then Inr w else py_item v j)"
  by (auto simp: py_set_key update_conv)

lemma py_get_set: "py_set [Key k] w v = Inr v' \<Longrightarrow> py_get v' j x = (if j = k then Inr w else py_get v j x)"
  by (auto simp: py_set_key update_conv)

lemma py_contains_set:
  "py_set [Key k] w v = Inr v' \<Longrightarrow> py_contains j v' = (if j = k then Inr True else py_contains j v)"
  by (auto simp: py_set_key update_conv)

lemma py_set_nested:
  "py_set [Key a, Key b] w v = Inr v' \<Longrightarrow>
    \<exists>u u'. py_item v a = Inr u \<and> py_set [Key b] w u = Inr u' \<and> py_set [Key a] u' v = Inr v'"
  by (cases v) (auto simp: rbind_eq_Inr)

lemma py_get_item: "py_item v k = Inr x \<Longrightarrow> py_get v k y = Inr x"
  by (cases v) (auto simp: get_key_def split: option.splits)

section \<open>Attenuation\<close>

lemma shorten_chain_spec:
  assumes "shorten_chain p = Inr q"
  obtains n where "min_chain_length p = Inr n" "min_chain_length q = Inr (n - 1)"
    "explicit_psids q = explicit_psids p"
proof -
  obtain n where n: "min_chain_length p = Inr n" "py_set [Key ''minChainLength''] (PInt (n - 1)) p = Inr q"
    using assms by (auto simp: shorten_chain_def rbind_eq_Inr)
  have "py_item q ''subjectPermissions'' = py_item p ''subjectPermissions''"
    using py_item_set [OF n(2), of "''subjectPermissions''"] by simp
  then have "explicit_psids q = explicit_psids p" by (simp add: explicit_psids_def permission_is_def cong: if_cong)
  moreover have "min_chain_length q = Inr (n - 1)"
    using py_item_set [OF n(2), of "''minChainLength''"] by (simp add: min_chain_length_def)
  ultimately show thesis using that n(1) by blast
qed

lemma granted_subset:
  assumes "rmap (granted_by needed) ps = Inr pss"
  shows "set (concat pss) \<subseteq> set ps"
  using assms
proof (induction ps arbitrary: pss)
  case (Cons p ps)
  then obtain xs yss where "granted_by needed p = Inr xs" "rmap (granted_by needed) ps = Inr yss" "pss = xs # yss"
    by (auto simp: rbind_eq_Inr)
  moreover have "set xs \<subseteq> {p}" using calculation(1) by (auto simp: granted_by_def rbind_eq_Inr)
  ultimately show ?case using Cons.IH by fastforce
qed simp

text \<open>
  C35: An authority whose issuer has only explicit permissions gets groups of permissions of that issuer,
  each with a chain that is one shorter and still at least one long, so it can neither pass on a number
  that its issuer cannot, nor extend the chain.
\<close>

theorem issued_permissions_attenuate:
  assumes "certificate_has_all_permissions issuer = Inr False"
    and "certificate_wants_cert_issue_permissions c = Inr True"
    and "issue_permissions (c_certificate issuer) = Inr ps"
    and "set_chain_length_issue_permissions c issuer = Inr c'"
  shows "\<exists>qs. issue_permissions (c_certificate c') = Inr qs \<and>
    (\<forall>q\<in>set qs. \<exists>p\<in>set ps. \<exists>n. explicit_psids q = explicit_psids p
      \<and> min_chain_length p = Inr n \<and> min_chain_length q = Inr (n - 1) \<and> 1 \<le> n - 1)"
proof -
  obtain needed pss shortened ns d where
    granted: "rmap (granted_by needed) ps = Inr pss"
    and short: "rmap shorten_chain (concat pss) = Inr shortened" "rmap min_chain_length shortened = Inr ns"
    and d: "py_set [Key ''toBeSigned'', Key ''certIssuePermissions'']
      (PList (map fst (filter (\<lambda>(p, n). \<not> n < 1) (zip shortened ns)))) (c_certificate c) = Inr d"
    and c': "c' = Certificate d (Some issuer) (c_key_id c)"
    using assms(4)
    by (auto simp: set_chain_length_issue_permissions_def assms(1-3) inherited_permissions_def rbind_eq_Inr)
  let ?qs = "map fst (filter (\<lambda>(p, n). \<not> n < 1) (zip shortened ns))"
  have "issue_permissions (c_certificate c') = Inr ?qs"
    unfolding issue_permissions_def c' Certificate.sel py_path_set_same [OF d] by simp
  moreover have "\<exists>p\<in>set ps. \<exists>n. explicit_psids q = explicit_psids p
      \<and> min_chain_length p = Inr n \<and> min_chain_length q = Inr (n - 1) \<and> 1 \<le> n - 1"
    if picked: "q \<in> set ?qs" for q
  proof -
    obtain n where qn: "(q, n) \<in> set (zip shortened ns)" "1 \<le> n" using picked by force
    then have n: "min_chain_length q = Inr n"
      using short(2) by (auto simp: rmap_Inr list_all2_iff)
    have "q \<in> set shortened" using qn(1) by (rule set_zip_leftD)
    then obtain i where i: "i < length shortened" "shortened ! i = q" by (metis in_set_conv_nth)
    have "length (concat pss) = length shortened" "shorten_chain (concat pss ! i) = Inr q"
      using short(1) i by (auto simp: rmap_Inr list_all2_conv_all_nth simp del: length_concat)
    then obtain p where "p \<in> set (concat pss)" "shorten_chain p = Inr q"
      using i(1) nth_mem by metis
    moreover from this have "p \<in> set ps" using granted_subset [OF granted] by blast
    ultimately show ?thesis using n qn(2) by (elim shorten_chain_spec) force
  qed
  ultimately show ?thesis by blast
qed

section \<open>Issued certificates verify\<close>

lemma sha_digest_length: "(\<And>bs. length (sha256 lib bs) = 32) \<Longrightarrow> as_hashedid8 lib c = Inr h \<Longrightarrow> length h = 8"
  by (auto simp: as_hashedid8_def rbind_eq_Inr last_bytes_def)

text \<open>Issuing changes only the issue permissions, the issuer and the signature.\<close>

definition same_subject :: "Certificate \<Rightarrow> Certificate \<Rightarrow> bool" where
  "same_subject c c' \<longleftrightarrow>
     py_get (c_certificate c') ''type'' PNone = py_get (c_certificate c) ''type'' PNone
     \<and> (\<forall>t. tbs_of c = Inr t \<longrightarrow> (\<exists>t'. tbs_of c' = Inr t' \<and>
          py_item t' ''verifyKeyIndicator'' = py_item t ''verifyKeyIndicator''
          \<and> py_get t' ''verifyKeyIndicator'' PNone = py_get t ''verifyKeyIndicator'' PNone))"

lemma set_chain_same_subject:
  assumes "set_chain_length_issue_permissions c issuer = Inr c'"
  shows "same_subject c c' \<and> (certificate_wants_cert_issue_permissions c = Inr False \<longrightarrow> c_certificate c' = c_certificate c)"
proof (cases "certificate_wants_cert_issue_permissions c = Inr False")
  case True
  then have "c_certificate c' = c_certificate c"
    using assms by (auto simp: set_chain_length_issue_permissions_def)
  then show ?thesis by (simp add: same_subject_def tbs_of_def)
next
  case False
  then obtain ps where d: "py_set [Key ''toBeSigned'', Key ''certIssuePermissions''] (PList ps) (c_certificate c)
      = Inr (c_certificate c')"
    using assms by (auto simp: set_chain_length_issue_permissions_def rbind_eq_Inr split: if_splits)
  from py_set_nested [OF d] obtain u u' where u: "py_item (c_certificate c) ''toBeSigned'' = Inr u"
    "py_set [Key ''certIssuePermissions''] (PList ps) u = Inr u'"
    "py_set [Key ''toBeSigned''] u' (c_certificate c) = Inr (c_certificate c')"
    by blast
  show ?thesis
    using False u(1) py_item_set [OF u(2)] py_get_set [OF u(2)] py_item_set [OF u(3)] py_get_set [OF u(3)]
    by (auto simp: same_subject_def tbs_of_def)
qed

lemma set_field_same_subject:
  assumes "py_set [Key k] w (c_certificate c) = Inr (c_certificate c')" "k \<notin> {''type'', ''toBeSigned''}"
  shows "same_subject c c'"
  using py_get_set [OF assms(1)] py_item_set [OF assms(1)] assms(2) by (auto simp: same_subject_def tbs_of_def)

lemma same_subject_trans:
  assumes "same_subject c d" "same_subject d e" shows "same_subject c e"
proof -
  have "\<exists>v. tbs_of e = Inr v \<and> py_item v ''verifyKeyIndicator'' = py_item t ''verifyKeyIndicator''
      \<and> py_get v ''verifyKeyIndicator'' PNone = py_get t ''verifyKeyIndicator'' PNone"
    if t: "tbs_of c = Inr t" for t
  proof -
    obtain u where u: "tbs_of d = Inr u" "py_item u ''verifyKeyIndicator'' = py_item t ''verifyKeyIndicator''"
      "py_get u ''verifyKeyIndicator'' PNone = py_get t ''verifyKeyIndicator'' PNone"
      using assms(1) t unfolding same_subject_def by blast
    obtain v where "tbs_of e = Inr v" "py_item v ''verifyKeyIndicator'' = py_item u ''verifyKeyIndicator''"
      "py_get v ''verifyKeyIndicator'' PNone = py_get u ''verifyKeyIndicator'' PNone"
      using assms(2) u(1) unfolding same_subject_def by blast
    then show ?thesis using u by auto
  qed
  then show ?thesis using assms unfolding same_subject_def by auto
qed

lemma same_subject_checks:
  assumes "same_subject c c'" "tbs_of c = Inr t"
  shows "indicator_fits c' = indicator_fits c" "verification_key_is_nist_p256 c' = verification_key_is_nist_p256 c"
proof -
  obtain t' where t': "tbs_of c' = Inr t'" "py_item t' ''verifyKeyIndicator'' = py_item t ''verifyKeyIndicator''"
    "py_get t' ''verifyKeyIndicator'' PNone = py_get t ''verifyKeyIndicator'' PNone"
    "py_get (c_certificate c') ''type'' PNone = py_get (c_certificate c) ''type'' PNone"
    using assms by (auto simp: same_subject_def)
  have "verify_key_indicator path c' = verify_key_indicator path c" for path
    using t'(1,2) assms(2) by (simp add: verify_key_indicator_def tbs_of_def)
  then show "verification_key_is_nist_p256 c' = verification_key_is_nist_p256 c"
    by (simp add: verification_key_is_nist_p256_def cong: if_cong)
  have "py_get (c_certificate c') ''toBeSigned'' (PDict []) = Inr t'"
    "py_get (c_certificate c) ''toBeSigned'' (PDict []) = Inr t"
    using t'(1) assms(2) by (simp_all add: tbs_of_def py_get_item)
  then show "indicator_fits c' = indicator_fits c"
    unfolding indicator_fits_def t'(4) by (simp add: t'(3))
qed

lemma app_permissions_same:
  assumes "py_set [Key k] w (c_certificate c) = Inr (c_certificate c')" "k \<noteq> ''toBeSigned''"
  shows "check_issuer_has_subject_permissions c' issuer = check_issuer_has_subject_permissions c issuer"
proof -
  have "py_item (c_certificate c') ''toBeSigned'' = py_item (c_certificate c) ''toBeSigned''"
    using py_item_set [OF assms(1)] assms(2) by simp
  then show ?thesis
    by (simp add: check_issuer_has_subject_permissions_def get_list_of_needed_permissions_def
        get_list_of_psid_from_cert_issue_permissions_def get_list_of_psid_from_app_permissions_def
        certificate_wants_cert_issue_permissions_def issue_permissions_def tbs_of_def cong: if_cong)
qed

text \<open>
  C36: A certificate that an issuer with a P-256 key issues, after its checks have passed, verifies
  against that issuer: for every certificate that asks for no issue permissions, such as an
  authorization ticket, and for every certificate under an issuer that may issue everything. SHA-256
  gives 32 bytes.
\<close>

theorem issued_certificate_verifies:
  assumes "issue_certificate lib keys issuer c = Inr c'"
    and "certificate_is_self_signed c = Inr False"
    and "check_issuer_has_subject_permissions c issuer = Inr True"
    and "check_enough_min_chain_length_for_issuer issuer = Inr True"
    and "certificate_wants_cert_issue_permissions c = Inr False \<or> certificate_has_all_permissions issuer = Inr True"
    and "indicator_fits c = Inr True" "verification_key_is_nist_p256 c = Inr True"
    and "holds_key lib keys issuer" "\<forall>bs. length (sha256 lib bs) = 32"
  shows "verify lib (Certificate (c_certificate c') (Some issuer) k) = Inr True"
proof -
  obtain c1 c2 where c1: "set_chain_length_issue_permissions c issuer = Inr c1"
    and c2: "set_issuer lib c1 issuer = Inr c2" and c': "sign_certificate lib keys issuer c2 = Inr c'"
    using assms(1) by (auto simp: issue_certificate_def assms(2-4) both_def rbind_eq_Inr)
  obtain h where h: "as_hashedid8 lib issuer = Inr h"
    and issuer_set: "py_set [Key ''issuer''] (PTuple [PStr ''sha256AndDigest'', PBytes h]) (c_certificate c1)
      = Inr (c_certificate c2)"
    using c2 by (auto simp: set_issuer_def rbind_eq_Inr)
  have digest: "py_item (c_certificate c2) ''issuer'' = Inr (PTuple [PStr ''sha256AndDigest'', PBytes h])"
    using py_item_set [OF issuer_set] by simp
  obtain tbs tbs_bytes payload signature where tbs: "tbs_of c2 = Inr tbs"
    "encode_ToBeSignedCertificate lib tbs = Inr tbs_bytes" "issued_payload lib tbs_bytes issuer = Inr payload"
    and signed: "sign_message lib keys issuer payload = Inr signature"
    and d: "py_set [Key ''signature''] signature (c_certificate c2) = Inr (c_certificate c')"
    using c' by (auto simp: sign_certificate_def rbind_eq_Inr py_get_item [OF digest] from_dict_def)
  let ?c = "Certificate (c_certificate c') (Some issuer) k"
  have d': "py_set [Key ''signature''] signature (c_certificate c2) = Inr (c_certificate ?c)" using d by simp
  have same: "same_subject c ?c"
    using set_chain_same_subject [OF c1] set_field_same_subject [OF issuer_set] set_field_same_subject [OF d']
    by (auto intro: same_subject_trans)
  obtain t where t: "tbs_of c = Inr t"
    using assms(7) by (cases "py_item (c_certificate c) ''toBeSigned''")
      (simp_all add: tbs_of_def verification_key_is_nist_p256_def verify_key_indicator_def)
  have issuer: "issuer_field 0 ?c = Inr (PStr ''sha256AndDigest'')" "issuer_field 1 ?c = Inr (PBytes h)"
    using digest py_item_set [OF d', of "''issuer''"] by (simp_all add: issuer_field_def)
  have "length h = 8" using sha_digest_length h assms(9) by blast
  then have issued: "certificate_is_issued ?c = Inr True" by (simp add: certificate_is_issued_def issuer issuer(2) [unfolded One_nat_def])
  have permitted: "check_issuer_has_subject_permissions ?c issuer = Inr True"
  proof (cases "certificate_has_all_permissions issuer = Inr True")
    case True
    then show ?thesis by (simp add: check_issuer_has_subject_permissions_def)
  next
    case False
    then have "c_certificate c1 = c_certificate c" using set_chain_same_subject [OF c1] assms(5) by simp
    then have "py_set [Key ''issuer''] (PTuple [PStr ''sha256AndDigest'', PBytes h]) (c_certificate c)
        = Inr (c_certificate c2)" using issuer_set by simp
    then show ?thesis
      using app_permissions_same [of "''issuer''" _ c c2 issuer] app_permissions_same [OF d', of issuer] assms(3)
      by simp
  qed
  have sig: "py_item (c_certificate ?c) ''signature'' = Inr signature" "tbs_of ?c = Inr tbs"
    using py_item_set [OF d'] tbs(1) by (simp_all add: tbs_of_def)
  obtain pk where pk: "verify_key_indicator [Idx 1] issuer = Inr pk" using assms(8) by (auto simp: holds_key_def)
  have valid: "verify_with_pk lib payload signature pk = Inr True"
    "py_index signature 0 = Inr (PStr ''ecdsaNistP256Signature'')"
    using signature_verifies [OF assms(8), of payload] signed pk by (metis Inr_inject)+
  have "verify_issued_certificate lib ?c = Inr True"
    unfolding verify_issued_certificate_def
    using sig valid pk permitted issued h tbs same_subject_checks [OF same t] assms(7)
    by (simp add: both_def check_corresponding_issuer_def issuer issuer(2) [unfolded One_nat_def] signature_is_nist_p256_def)
  then show ?thesis
    using same_subject_checks [OF same t] assms(6) issued by (simp add: verify_def)
qed

end
