(* ===== verification/DenProps.thy ===== *)
theory DenProps
  imports DenService SecIssuanceProps
begin

text \<open>
  What the notification service sends: the messages of a request, how often they are repeated, and
  that all of them announce the end of the same event.
\<close>

section \<open>Messages\<close>

text \<open>The management container of a message.\<close>

definition management_container ::
    "VehicleData \<Rightarrow> real \<Rightarrow> DENRequest \<Rightarrow> pyval \<Rightarrow> pyval \<Rightarrow> pyval \<Rightarrow> pyval \<Rightarrow> pyval" where
  "management_container vd now request position distance direction station_type = PDict
     [(''actionId'', PDict [(''originatingStationId'', PInt (vd_station_id vd)), (''sequenceNumber'', PInt 0)]),
      (''detectionTime'', PInt (dr_detection_time request)), (''referenceTime'', PInt (timestamp_its now)),
      (''termination'', PStr ''isCancellation''), (''eventPosition'', position),
      (''relevanceDistance'', distance), (''relevanceTrafficDirection'', direction), (''validityDuration'', PInt 0),
      (''TransmissionInterval'', PInt (dr_denm_interval request)), (''stationType'', station_type)]"

definition denm_header :: "VehicleData \<Rightarrow> pyval" where
  "denm_header vd = PDict [(''protocolVersion'', PInt 2), (''messageId'', PInt 1), (''stationId'', PInt (vd_station_id vd))]"

definition hazard_dict :: "VehicleData \<Rightarrow> real \<Rightarrow> DENRequest \<Rightarrow> pyval \<Rightarrow> pyval" where
  "hazard_dict vd now request position = PDict
     [(''header'', denm_header vd),
      (''denm'', PDict
        [(''management'', management_container vd now request position (dr_relevance_distance request)
            (dr_relevance_traffic_direction request) (dr_rhs_vehicle_type request)),
         (''situation'', situation_container request (dr_rhs_cause_code request) (dr_rhs_subcause_code request)),
         (''location'', location_container request)])]"

definition collision_dict :: "VehicleData \<Rightarrow> real \<Rightarrow> DENRequest \<Rightarrow> pyval \<Rightarrow> pyval" where
  "collision_dict vd now request position = PDict
     [(''header'', denm_header vd),
      (''denm'', PDict
        [(''management'', management_container vd now request position (PStr ''lessThan50m'')
            (PStr ''allTrafficDirections'') (PInt (vd_station_type vd))),
         (''situation'', situation_container request (dr_lcrw_cause_code request) (dr_lcrw_subcause_code request))])]"

lemma vehicle_data_run:
  "denm_fullfill_with_vehicle_data vd new_DENMessage = Inr \<lparr>dm_denm = PDict
     [(''header'', denm_header vd),
      (''denm'', PDict [(''management'', PDict
        [(''actionId'', PDict [(''originatingStationId'', PInt (vd_station_id vd)), (''sequenceNumber'', PInt 0)]),
         (''detectionTime'', PInt 0), (''referenceTime'', PInt 0), (''termination'', PStr ''isCancellation''),
         (''eventPosition'', unavailable_position),
         (''relevanceDistance'', PStr ''lessThan50m''),
         (''relevanceTrafficDirection'', PStr ''allTrafficDirections''), (''validityDuration'', PInt 0),
         (''TransmissionInterval'', PInt 100), (''stationType'', PInt (vd_station_type vd))])])],
     dm_sequence_number = 1\<rparr>"
  by (simp add: denm_fullfill_with_vehicle_data_def new_DENMessage_def generate_white_denm_def management_def denm_header_def)

lemma hazard_denm_run:
  "hazard_denm s request = Inr \<lparr>dm_denm = hazard_dict (den_vehicle_data s) (den_time s) request (position_of s request),
     dm_sequence_number = 1\<rparr>"
  by (simp add: hazard_denm_def vehicle_data_run fullfill_with_denrequest_def management_def hazard_dict_def
      management_container_def)

lemma collision_denm_run:
  "collision_denm s request = Inr \<lparr>dm_denm = collision_dict (den_vehicle_data s) (den_time s) request (position_of s request),
     dm_sequence_number = 1\<rparr>"
  by (simp add: collision_denm_def vehicle_data_run fullfill_with_collision_risk_warning_def management_def
      collision_dict_def management_container_def)

lemma denm_fields:
  assumes "m = hazard_dict vd now request position \<or> m = collision_dict vd now request position"
  shows "py_path [Key ''denm'', Key ''management'', Key ''actionId''] m
      = Inr (PDict [(''originatingStationId'', PInt (vd_station_id vd)), (''sequenceNumber'', PInt 0)])"
    "py_path [Key ''denm'', Key ''management'', Key ''termination''] m = Inr (PStr ''isCancellation'')"
    "py_path [Key ''denm'', Key ''management'', Key ''eventPosition''] m = Inr position"
    "denm_log_arguments m = Inr ()"
  using assms
  by (auto simp: hazard_dict_def collision_dict_def management_container_def denm_log_arguments_def
      management_def denm_header_def)

section \<open>Steps of a station\<close>

text \<open>
  The application triggers, other applications send requests and warnings, threads take turns, and in
  between anything may happen to the BTP router: the clock goes on, other services send and receive.
\<close>

inductive den_step :: "den_station \<Rightarrow> den_station \<Rightarrow> bool" where
  trigger: "trigger_denm_sending tpv s = (r, s') \<Longrightarrow> den_step s s'"
| start: "den_step s (request_denm_sending request s)"
| turn: "den_step s (thread_turn i s)"
| warning: "send_collision_risk_warning_denm request s = (r, s') \<Longrightarrow> den_step s s'"
| stack: "den_step s (s\<lparr>den_btp_router := b\<rparr>)"

inductive den_reachable :: "den_station \<Rightarrow> bool" where
  init: "den_reachable (den_init b vd encode duration)"
| step: "den_reachable s \<Longrightarrow> den_step s s' \<Longrightarrow> den_reachable s'"

text \<open>Sending a message changes the router only.\<close>

lemma transmit_frame:
  assumes "transmit_denm m s = (r, s')"
  shows "s' = s\<lparr>den_btp_router := den_btp_router s'\<rparr>"
  using assms
  by (auto simp: transmit_denm_def den_on_btp_def bind_s_def then_s_def
      split: sum.splits prod.splits)

abbreviation sent_message :: "nat \<Rightarrow> DENRequest \<Rightarrow> den_station \<Rightarrow> nat option \<times> pyval" where
  "sent_message i request s \<equiv>
     (Some i, hazard_dict (den_vehicle_data s) (den_time s) request (position_of s request))"

lemma repeat_cases:
  assumes "repeat_denm i request s = (r, s')"
  obtains (sent) b where "r = (if dr_denm_interval request < 0 then Inl ValueError else Inr ())"
      "s' = s\<lparr>den_btp_router := b, den_transmitted := den_transmitted s @ [sent_message i request s]\<rparr>"
    | (failed) b e where "r = Inl e" "s' = s\<lparr>den_btp_router := b\<rparr>"
proof -
  let ?m = "\<lparr>dm_denm = hazard_dict (den_vehicle_data s) (den_time s) request (position_of s request), dm_sequence_number = 1\<rparr>"
  obtain rt st where t: "transmit_denm ?m s = (rt, st)" by fastforce
  have frame: "st = s\<lparr>den_btp_router := den_btp_router st\<rparr>" by (rule transmit_frame [OF t])
  show thesis
  proof (cases rt)
    case (Inl e)
    then have "r = Inl e" "s' = st" using assms t by (simp_all add: repeat_denm_def hazard_denm_run then_s_def bind_s_def)
    then show thesis using failed frame by blast
  next
    case (Inr u)
    then have "s' = remember_denm (Some i) ?m st"
      and "r = (if dr_denm_interval request < 0 then Inl ValueError else Inr ())"
      using assms t by (auto simp: repeat_denm_def hazard_denm_run then_s_def bind_s_def split: if_splits)
    moreover have "remember_denm (Some i) ?m st
        = s\<lparr>den_btp_router := den_btp_router st, den_transmitted := den_transmitted s @ [sent_message i request s]\<rparr>"
      by (subst frame) (simp add: remember_denm_def)
    ultimately show thesis using sent by blast
  qed
qed

lemma warning_cases:
  assumes "send_collision_risk_warning_denm request s = (r, s')"
  obtains b where "s' = s\<lparr>den_btp_router := b\<rparr> \<or> s' = s\<lparr>den_btp_router := b, den_transmitted := den_transmitted s
    @ [(None, collision_dict (den_vehicle_data s) (den_time s) request (position_of s request))]\<rparr>"
proof -
  let ?m = "\<lparr>dm_denm = collision_dict (den_vehicle_data s) (den_time s) request (position_of s request), dm_sequence_number = 1\<rparr>"
  obtain rt st where t: "transmit_denm ?m s = (rt, st)" by fastforce
  have frame: "st = s\<lparr>den_btp_router := den_btp_router st\<rparr>" by (rule transmit_frame [OF t])
  have "s' = (case rt of Inl e \<Rightarrow> st | Inr u \<Rightarrow> remember_denm None ?m st)"
    using assms t
    by (auto simp: send_collision_risk_warning_denm_def collision_denm_run then_s_def bind_s_def split: sum.splits)
  moreover have "remember_denm None ?m st = s\<lparr>den_btp_router := den_btp_router st, den_transmitted := den_transmitted s
      @ [(None, dm_denm ?m)]\<rparr>"
    by (subst frame) (simp add: remember_denm_def)
  ultimately show thesis using that [of "den_btp_router st"] frame by (cases rt) auto
qed

lemma trigger_cases:
  assumes "trigger_denm_sending tpv s = (r, s')"
  obtains e where "r = Inl e" "s' = s" | p where "moved_position tpv (den_event_position s) = Inr p" "r = Inr ()"
    "s' = request_denm_sending (with_emergency_vehicle_approaching s) (s\<lparr>den_event_position := p\<rparr>)"
  using assms
  by (cases "moved_position tpv (den_event_position s)")
    (auto simp: trigger_denm_sending_def bind_s_def then_s_def with_emergency_vehicle_approaching_def)

section \<open>Repetition\<close>

definition sent_by :: "nat \<Rightarrow> den_station \<Rightarrow> nat" where
  "sent_by i s = length (filter (\<lambda>x. fst x = Some i) (den_transmitted s))"

text \<open>The period divided by the interval, rounded up.\<close>

definition repetitions :: "DENRequest \<Rightarrow> nat" where
  "repetitions request = nat ((dr_time_period request + dr_denm_interval request - 1) div dr_denm_interval request)"

lemma repetitions_iff:
  assumes "0 < dr_denm_interval request"
  shows "dr_denm_interval request * int k < dr_time_period request \<longleftrightarrow> k < repetitions request"
proof -
  let ?I = "dr_denm_interval request" and ?T = "dr_time_period request"
  have "k < repetitions request \<longleftrightarrow> int k + 1 \<le> (?T + ?I - 1) div ?I"
    by (auto simp: repetitions_def zless_nat_eq_int_zless)
  also have "\<dots> \<longleftrightarrow> (int k + 1) * ?I \<le> ?T + ?I - 1"
    using zdiv_mono1 [OF _ assms, of "(int k + 1) * ?I" "?T + ?I - 1"] assms
      mult_right_mono [of "int k + 1" "(?T + ?I - 1) div ?I" ?I] div_mult_mod_eq [of "?T + ?I - 1" ?I]
      pos_mod_sign [OF assms, of "?T + ?I - 1"]
    by (smt (verit) nonzero_mult_div_cancel_right)
  also have "\<dots> \<longleftrightarrow> ?I * int k < ?T" by (auto simp: algebra_simps)
  finally show ?thesis by simp
qed

definition thread_ok :: "DENRequest \<times> thread_status \<Rightarrow> nat \<Rightarrow> bool" where
  "thread_ok th k \<longleftrightarrow> (0 < dr_denm_interval (fst th) \<longrightarrow>
     (case snd th of
        Running t \<Rightarrow> t = dr_denm_interval (fst th) * int k \<and> k \<le> repetitions (fst th)
      | Finished \<Rightarrow> k = repetitions (fst th)
      | Died e \<Rightarrow> k < repetitions (fst th)))"

definition entry_fits :: "nat \<Rightarrow> VehicleData \<Rightarrow> nat option \<times> pyval \<Rightarrow> bool" where
  "entry_fits n vd x \<longleftrightarrow>
     (case fst x of None \<Rightarrow> True | Some i \<Rightarrow> i < n)
     \<and> (\<exists>now request position. snd x = hazard_dict vd now request position \<or> snd x = collision_dict vd now request position)"

lemma entry_fits_intros:
  "i < n \<Longrightarrow> entry_fits n vd (Some i, hazard_dict vd now request position)"
  "entry_fits n vd (None, collision_dict vd now request position)"
  "entry_fits n vd x \<Longrightarrow> entry_fits (Suc n) vd x"
  by (auto simp: entry_fits_def split: option.splits)

definition den_ok :: "den_station \<Rightarrow> bool" where
  "den_ok s \<longleftrightarrow>
     (\<forall>i<length (den_threads s). thread_ok (den_threads s ! i) (sent_by i s))
     \<and> (\<forall>x\<in>set (den_transmitted s). entry_fits (length (den_threads s)) (den_vehicle_data s) x)"

lemma thread_turn_cases:
  obtains (idle) "thread_turn i s = s"
    | (finished) request t where "i < length (den_threads s)" "den_threads s ! i = (request, Running t)"
        "\<not> t < dr_time_period request" "thread_turn i s = set_status i Finished s"
    | (sent) request t b where "i < length (den_threads s)" "den_threads s ! i = (request, Running t)"
        "t < dr_time_period request"
        "thread_turn i s = set_status i (if dr_denm_interval request < 0 then Died ValueError
            else Running (t + dr_denm_interval request))
          (s\<lparr>den_btp_router := b, den_transmitted := den_transmitted s @ [sent_message i request s]\<rparr>)"
    | (died) request t e b where "i < length (den_threads s)" "den_threads s ! i = (request, Running t)"
        "t < dr_time_period request" "thread_turn i s = set_status i (Died e) (s\<lparr>den_btp_router := b\<rparr>)"
proof (cases "\<exists>request t. i < length (den_threads s) \<and> den_threads s ! i = (request, Running t)")
  case False
  then have "thread_turn i s = s"
    by (auto simp: thread_turn_def split: prod.splits thread_status.splits)
  then show thesis by (rule idle)
next
  case True
  then obtain request t where th: "i < length (den_threads s)" "den_threads s ! i = (request, Running t)" by blast
  show thesis
  proof (cases "t < dr_time_period request")
    case False
    then show thesis using finished th by (simp add: thread_turn_def)
  next
    case True
    obtain r s' where run: "repeat_denm i request s = (r, s')" by fastforce
    show thesis
      using run
    proof (cases rule: repeat_cases)
      case (sent b)
      then show thesis using that(3) [OF th True, of b] th True run by (simp add: thread_turn_def)
    next
      case (failed b e)
      then show thesis using died [OF th True, of e b] th True run by (simp add: thread_turn_def)
    qed
  qed
qed

lemma turn_keeps_ok:
  assumes "den_ok s" shows "den_ok (thread_turn i s)"
proof (cases i s rule: thread_turn_cases)
  case idle
  then show ?thesis using assms by simp
next
  case (finished request t)
  then have "thread_ok (request, Running t) (sent_by i s)" using assms by (auto simp: den_ok_def)
  then have "thread_ok (request, Finished) (sent_by i s)"
    using finished(3) repetitions_iff [of request "sent_by i s"] by (auto simp: thread_ok_def)
  then show ?thesis
    using assms finished by (auto simp: den_ok_def set_status_def sent_by_def nth_list_update)
next
  case (sent request t b)
  then have "thread_ok (request, Running t) (sent_by i s)" using assms by (auto simp: den_ok_def)
  then have "thread_ok (request, if dr_denm_interval request < 0 then Died ValueError
      else Running (t + dr_denm_interval request)) (Suc (sent_by i s))"
    using sent(3) repetitions_iff [of request "sent_by i s"] by (auto simp: thread_ok_def algebra_simps)
  then show ?thesis
    using assms sent(1,2) unfolding sent(4)
    by (auto simp: den_ok_def set_status_def sent_by_def nth_list_update entry_fits_intros split: if_splits)
next
  case (died request t e b)
  then have "thread_ok (request, Running t) (sent_by i s)" using assms by (auto simp: den_ok_def)
  then have "thread_ok (request, Died e) (sent_by i s)"
    using died(3) repetitions_iff [of request "sent_by i s"] by (auto simp: thread_ok_def)
  then show ?thesis
    using assms died by (auto simp: den_ok_def set_status_def sent_by_def nth_list_update)
qed

lemma den_ok_same:
  assumes "den_ok s" "den_threads s' = den_threads s" "den_vehicle_data s' = den_vehicle_data s"
    "den_transmitted s' = den_transmitted s"
  shows "den_ok s'"
  using assms by (simp add: den_ok_def sent_by_def)

lemma start_keeps_ok:
  assumes "den_ok s" shows "den_ok (request_denm_sending request s)"
proof -
  have "sent_by (length (den_threads s)) s = 0"
    using assms by (force simp: den_ok_def sent_by_def filter_empty_conv entry_fits_def)
  then show ?thesis
    using assms by (auto simp: den_ok_def request_denm_sending_def sent_by_def nth_append less_Suc_eq
        thread_ok_def entry_fits_intros split: thread_status.splits)
qed

lemma step_keeps_ok: "den_step s s' \<Longrightarrow> den_ok s \<Longrightarrow> den_ok s'"
proof (induction rule: den_step.induct)
  case (trigger tpv s r s')
  from trigger(1) show ?case
  proof (cases rule: trigger_cases)
    case 1
    then show ?thesis using trigger(2) by simp
  next
    case (2 p)
    then show ?thesis using start_keeps_ok den_ok_same [OF trigger(2)] by simp
  qed
next
  case (warning request s r s')
  from warning(1) obtain b where "s' = s\<lparr>den_btp_router := b\<rparr> \<or> s' = s\<lparr>den_btp_router := b, den_transmitted :=
      den_transmitted s @ [(None, collision_dict (den_vehicle_data s) (den_time s) request (position_of s request))]\<rparr>"
    by (rule warning_cases)
  then show ?case using warning(2) by (auto simp: den_ok_def sent_by_def entry_fits_intros)
qed (auto intro: start_keeps_ok turn_keeps_ok den_ok_same)

lemma reachable_den_ok: "den_reachable s \<Longrightarrow> den_ok s"
proof (induction rule: den_reachable.induct)
  case (init b vd encode duration)
  then show ?case by (simp add: den_init_def den_ok_def)
next
  case (step s s')
  then show ?case by (blast intro: step_keeps_ok)
qed

text \<open>
  C31: In every reachable state, whatever else the station does in between: a thread that repeats a
  request with a positive interval has sent at most as many messages as intervals begin in the period of
  the request, exactly as many if it has ended, and fewer if an exception ended it. While messages are
  missing, a turn of the thread sends the next one or dies of the exception; after the last one it ends.
\<close>

theorem denm_repetition:
  assumes "den_reachable s" "i < length (den_threads s)" "den_threads s ! i = (request, status)"
    and "0 < dr_denm_interval request"
  shows "(case status of
      Finished \<Rightarrow> sent_by i s = repetitions request
    | Died e \<Rightarrow> sent_by i s < repetitions request
    | Running t \<Rightarrow> sent_by i s \<le> repetitions request
        \<and> (if sent_by i s = repetitions request then thread_turn i s = set_status i Finished s
           else (\<exists>b. thread_turn i s = set_status i (Running (t + dr_denm_interval request))
                  (s\<lparr>den_btp_router := b, den_transmitted := den_transmitted s @ [sent_message i request s]\<rparr>))
             \<or> (\<exists>b e. thread_turn i s = set_status i (Died e) (s\<lparr>den_btp_router := b\<rparr>))))"
proof -
  have ok: "thread_ok (request, status) (sent_by i s)"
    using reachable_den_ok [OF assms(1)] assms(2,3) by (auto simp: den_ok_def)
  show ?thesis
  proof (cases status)
    case (Running t)
    have t: "t < dr_time_period request \<longleftrightarrow> sent_by i s < repetitions request"
      using ok Running assms(4) repetitions_iff [OF assms(4)] by (simp add: thread_ok_def)
    have "if sent_by i s = repetitions request then thread_turn i s = set_status i Finished s
      else (\<exists>b. thread_turn i s = set_status i (Running (t + dr_denm_interval request))
          (s\<lparr>den_btp_router := b, den_transmitted := den_transmitted s @ [sent_message i request s]\<rparr>))
        \<or> (\<exists>b e. thread_turn i s = set_status i (Died e) (s\<lparr>den_btp_router := b\<rparr>))"
    proof (cases "t < dr_time_period request")
      case False
      then show ?thesis
        using t ok Running assms(2,3,4) by (auto simp: thread_turn_def thread_ok_def)
    next
      case True
      obtain r s' where run: "repeat_denm i request s = (r, s')" by fastforce
      then show ?thesis
        using t True assms(2,3,4) Running run
        by (cases rule: repeat_cases) (simp_all add: thread_turn_def run, metis, metis)
    qed
    then show ?thesis using ok Running assms(4) by (auto simp: thread_ok_def)
  qed (use ok assms(4) in \<open>simp_all add: thread_ok_def\<close>)
qed

text \<open>
  C32: Every message that a station hands to the stack carries the number 0 of the station's events and
  is marked as a cancellation.
\<close>

theorem every_denm_cancels_event_zero:
  assumes "den_reachable s" "(x, m) \<in> set (den_transmitted s)"
  shows "py_path [Key ''denm'', Key ''management'', Key ''actionId''] m = Inr (PDict
      [(''originatingStationId'', PInt (vd_station_id (den_vehicle_data s))), (''sequenceNumber'', PInt 0)])
    \<and> py_path [Key ''denm'', Key ''management'', Key ''termination''] m = Inr (PStr ''isCancellation'')"
proof -
  obtain now request position where "m = hazard_dict (den_vehicle_data s) now request position
      \<or> m = collision_dict (den_vehicle_data s) now request position"
    using reachable_den_ok [OF assms(1)] assms(2) by (force simp: den_ok_def entry_fits_def)
  then show ?thesis using denm_fields(1,2) by blast
qed

text \<open>
  A thread of the emergency vehicle service refers to the position of the service, so the position of a
  later trigger is in the messages that are still to come.
\<close>

lemma later_trigger_moves_running_denm:
  assumes "trigger_denm_sending tpv s = (Inr (), s')" "rp_lat tpv = Some lat"
    and "dr_event_position request = Shared"
  shows "py_path [Key ''latitude''] (position_of s' request) = Inr (PInt (py_int (lat * 10000000)))"
proof -
  obtain p where p: "moved_position tpv (den_event_position s) = Inr p"
    and s': "s' = request_denm_sending (with_emergency_vehicle_approaching s) (s\<lparr>den_event_position := p\<rparr>)"
    using assms(1) by (cases rule: trigger_cases) auto
  have "py_path [Key ''latitude''] p = Inr (PInt (py_int (lat * 10000000)))"
    using p assms(2)
    by (auto simp: moved_position_def rbind_eq_Inr py_set_key update_conv split: option.splits
        dest!: py_set_nested)
  then show ?thesis using assms(3) by (simp add: position_of_def s' request_denm_sending_def)
qed

section \<open>Without security\<close>

lemma denm_area_fits:
  assumes "1 \<le> m"
  shows "compute_area_size_m2 GEOBROADCAST_CIRCLE \<lparr>area_latitude = lat, area_longitude = lon, area_a = 100, area_b = 0,
    area_angle = 0\<rparr> \<le> of_int (m * 1000000)"
proof -
  have "pi * 100 ^ 2 \<le> 1000000" using pi_less_4 by simp
  also have "\<dots> \<le> real_of_int (m * 1000000)" using assms by simp
  finally show ?thesis by (simp add: compute_area_size_m2_def circle_types_def)
qed

lemma denm_request_simps [simp]:
  "br_btp_type (denm_btp_request lat lon data) = BTP_B"
  "br_destination_port (denm_btp_request lat lon data) = 2002"
  "br_destination_port_info (denm_btp_request lat lon data) = 0"
  "br_data (denm_btp_request lat lon data) = data"
  "br_gn_packet_transport_type (denm_btp_request lat lon data)
    = \<lparr>header_type = HT_GEOBROADCAST, header_subtype = GEOBROADCAST_CIRCLE\<rparr>"
  "br_traffic_class (denm_btp_request lat lon data) = default_TrafficClass"
  "br_gn_max_hop_limit (denm_btp_request lat lon data) = 0"
  by (simp_all add: denm_btp_request_def default_BTPDataRequest_def)

lemma denm_gn_request_simps [simp]:
  "req_area (gn_request_of_btp (denm_btp_request lat lon data) bs)
    = \<lparr>area_latitude = lat, area_longitude = lon, area_a = 100, area_b = 0, area_angle = 0\<rparr>"
  "req_security_profile (gn_request_of_btp (denm_btp_request lat lon data) bs)
    = DECENTRALIZED_ENVIRONMENTAL_NOTIFICATION_MESSAGE"
  "req_its_aid (gn_request_of_btp (denm_btp_request lat lon data) bs) = 37"
  by (simp_all add: gn_request_of_btp_def denm_btp_request_def)

lemma denm_header_run:
  obtains header where "btpb_encode \<lparr>btpb_destination_port = 2002, btpb_destination_port_info = 0\<rparr> = Inr header"
    "length header = 4"
    "\<And>rest. btpb_decode (header @ rest) = \<lparr>btpb_destination_port = 2002, btpb_destination_port_info = 0\<rparr>"
proof -
  have v: "valid_btpb \<lparr>btpb_destination_port = 2002, btpb_destination_port_info = 0\<rparr>" by (simp add: valid_btpb_def)
  then show thesis using that btpb.encode_total [OF v] btpb_decode_packet [OF v] by blast
qed

lemma unsigned_denm_raises:
  assumes "r_sign_service (b_gn_router b) = None" "1 \<le> itsGnMaxGeoAreaSize (r_mib (b_gn_router b))"
  obtains b' where "btp_data_request (denm_btp_request lat lon data) b = (Inl NotImplementedError, b')"
    "r_sent (b_gn_router b') = r_sent (b_gn_router b)"
proof -
  obtain header where header: "btpb_encode \<lparr>btpb_destination_port = 2002, btpb_destination_port_info = 0\<rparr> = Inr header"
    by (rule denm_header_run)
  let ?q = "gn_request_of_btp (denm_btp_request lat lon data) (header @ data)"
  obtain r' where "gn_data_request_gbc ?q (b_gn_router b) = (Inl NotImplementedError, r')"
    "r_sent r' = r_sent (b_gn_router b)"
    using assms(1) denm_area_fits [OF assms(2), of lat lon]
    by (simp add: gn_data_request_gbc_def Let_def bind_s_def get_sequence_number_run not_less [symmetric])
  then have "btp_data_request (denm_btp_request lat lon data) b = (Inl NotImplementedError, b\<lparr>b_gn_router := r'\<rparr>)"
    by (simp add: btp_data_request_def header gn_data_request_def on_gn_router_def then_s_def bind_s_def)
  then show thesis using that \<open>r_sent r' = r_sent (b_gn_router b)\<close> by simp
qed

text \<open>
  C33: A station without a sign service cannot send a single notification: the first turn of the thread
  ends it with the exception of the router, and nothing is put on the air.
\<close>

theorem denm_needs_security:
  assumes "i < length (den_threads s)" "den_threads s ! i = (request, Running t)" "t < dr_time_period request"
    and "den_encode s (hazard_dict (den_vehicle_data s) (den_time s) request (position_of s request)) = Inr data"
    and "py_item (position_of s request) ''latitude'' = Inr (PInt lat)"
    and "py_item (position_of s request) ''longitude'' = Inr (PInt lon)"
    and "r_sign_service (b_gn_router (den_btp_router s)) = None"
    and "1 \<le> itsGnMaxGeoAreaSize (r_mib (b_gn_router (den_btp_router s)))"
  shows "\<exists>b. thread_turn i s = set_status i (Died NotImplementedError) (s\<lparr>den_btp_router := b\<rparr>)
    \<and> r_sent (b_gn_router b) = r_sent (b_gn_router (den_btp_router s))"
proof -
  obtain b where b: "btp_data_request (denm_btp_request lat lon data) (den_btp_router s) = (Inl NotImplementedError, b)"
    "r_sent (b_gn_router b) = r_sent (b_gn_router (den_btp_router s))"
    by (rule unsigned_denm_raises [OF assms(7,8)])
  let ?m = "hazard_dict (den_vehicle_data s) (den_time s) request (position_of s request)"
  have "py_path (management ''eventPosition'' @ [Key ''latitude'']) ?m = Inr (PInt lat)"
    "py_path (management ''eventPosition'' @ [Key ''longitude'']) ?m = Inr (PInt lon)"
    using assms(5,6) by (simp_all add: hazard_dict_def management_container_def management_def)
  then have "repeat_denm i request s = (Inl NotImplementedError, s\<lparr>den_btp_router := b\<rparr>)"
    using assms(4) b(1)
    by (simp add: repeat_denm_def hazard_denm_run transmit_denm_def den_on_btp_def then_s_def bind_s_def)
  then show ?thesis using assms(1-3) b(2) by (auto simp: thread_turn_def)
qed

end
