(* ===== verification/SecExample.thy ===== *)
theory SecExample
  imports SecIssuanceProps
begin

text \<open>
  A small example of the security services: a root authority, a ticket that it has issued and a signed
  message. It shows that the hypotheses on the libraries can hold.
\<close>

section \<open>Libraries, keys and certificates\<close>

text \<open>
  A signature is the secret, twice, and the public key of a secret is the secret, twice. Every
  digest consists of zeros, and the codec knows one signed message, the parameter.
\<close>

definition toy_signature :: "int \<Rightarrow> pyval" where
  "toy_signature k = PTuple [PStr ''ecdsaNistP256Signature'',
     PDict [(''rSig'', PTuple [PStr ''x-only'', PBytes (be_bytes 32 k)]), (''sSig'', PBytes (be_bytes 32 k))]]"

definition toy_public_key :: "int \<Rightarrow> pyval" where
  "toy_public_key k = PTuple [PStr ''verificationKey'',
     PTuple [PStr ''ecdsaNistP256'', PTuple [PStr ''compressed-y-0'', PBytes (be_bytes 32 k)]]]"

definition toy_digest :: bytes where
  "toy_digest = replicate 8 0"

definition toy_request :: SNSIGNRequest where
  "toy_request = \<lparr>tbs_message_length = 2, tbs_message = [1, 2], sn_its_aid = 36, permissions_length = 0,
     permissions = [], context_information = None, key_handle = None, generation_location = None\<rparr>"

definition toy_envelope :: pyval where
  "toy_envelope = signed_data (tbs_data 0 toy_request []) (PTuple [PStr ''digest'', PBytes toy_digest]) (toy_signature 8)"

definition toy_lib :: "pyval \<Rightarrow> sec_lib" where
  "toy_lib e =
     \<lparr>asn_encode = (\<lambda>kind v. Inr (if kind = ''EtsiTs103097Data'' \<and> v = e then [1] else [])),
      asn_decode = (\<lambda>kind bs. if bs = [1] then Inr e else Inl ValueError),
      sha256 = (\<lambda>bs. replicate 32 0),
      ec_generate = (\<lambda>n. int n + 7),
      ec_public = (\<lambda>k. (k, k)),
      ec_sign = (\<lambda>k data. if k \<in> {0..<256 ^ 32} then (k, k) else (0, 0)),
      ec_verify = (\<lambda>point data signature. Inr (point = signature)),
      ec_decompress = (\<lambda>bs. Inr (from_bytes (tl bs), from_bytes (tl bs)))\<rparr>"

definition toy_keys :: backend where
  "toy_keys = [(0, 7), (1, 8)]"

definition toy_root :: Certificate where
  "toy_root = Certificate (PDict
     [(''type'', PStr ''explicit''), (''issuer'', PTuple [PStr ''self'', PStr ''sha256'']),
      (''toBeSigned'', PDict [(''appPermissions'', PList []),
        (''certIssuePermissions'', PList [PDict
          [(''subjectPermissions'', PTuple [PStr ''all'', PNone]), (''minChainLength'', PInt 2)]]),
        (''verifyKeyIndicator'', toy_public_key 7)]),
      (''signature'', toy_signature 7)]) None (Some 0)"

definition toy_subject :: "pyval \<Rightarrow> pyval" where
  "toy_subject signature = PDict
     [(''type'', PStr ''explicit''), (''issuer'', PTuple [PStr ''sha256AndDigest'', PBytes toy_digest]),
      (''toBeSigned'', PDict [(''id'', PTuple [PStr ''none'', PNone]),
        (''appPermissions'', PList [PDict [(''psid'', PInt 36)], PDict [(''psid'', PInt 37)]]),
        (''verifyKeyIndicator'', toy_public_key 8)]),
      (''signature'', signature)]"

definition toy_ticket :: Certificate where
  "toy_ticket = Certificate (toy_subject (toy_signature 7)) (Some toy_root) (Some 1)"

lemmas toy_defs = toy_lib_def toy_keys_def toy_public_key_def toy_root_def toy_subject_def toy_ticket_def

lemma toy_hash: "as_hashedid8 (toy_lib e) toy_root = Inr toy_digest" "as_hashedid8 (toy_lib e) toy_ticket = Inr toy_digest"
  by (simp_all add: as_hashedid8_def to_canonical_def canonical_key_def canonical_signature_def choice_is_def
      certificate_encode_def encode_etsi_ts_103097_certificate_def last_bytes_def toy_digest_def
      toy_defs toy_signature_def del: be_bytes.simps)

lemma toy_encode: "asn_encode (toy_lib e) kind v = Inr (if kind = ''EtsiTs103097Data'' \<and> v = e then [1] else [])"
  by (simp add: toy_lib_def)

lemma toy_payload: "\<exists>payload. issued_payload (toy_lib e) bs toy_root = Inr payload"
  using toy_hash(1) [of e] by (auto simp: issued_payload_def as_hashedid8_def rbind_eq_Inr)

lemma toy_signature_verifies:
  assumes "k \<in> {0..<256 ^ 32}"
  shows "verify_with_pk (toy_lib e) bs (toy_signature k)
    (PTuple [PStr ''ecdsaNistP256'', PTuple [PStr ''compressed-y-0'', PBytes (be_bytes 32 k)]]) = Inr True"
  using assms by (simp add: verify_with_pk_def toy_signature_def read_point_def toy_lib_def from_be_bytes
      del: be_bytes.simps)

lemma toy_signature_kind [simp]: "py_index (toy_signature k) 0 = Inr (PStr ''ecdsaNistP256Signature'')"
  by (simp add: toy_signature_def)

lemmas verification_defs = indicator_fits_def both_def certificate_is_self_signed_def
  issuer_field_def signature_is_nist_p256_def verification_key_is_nist_p256_def verify_key_indicator_def
  tbs_of_def verify_signature_def certificate_is_issued_def

lemma toy_root_verifies: "verify (toy_lib e) toy_root = Inr True"
  using toy_signature_verifies [of 7]
  by (simp add: verify_def verify_self_signed_certificate_def verification_defs
      encode_ToBeSignedCertificate_def toy_encode toy_root_def toy_public_key_def cong: if_cong)

lemma toy_ticket_fits_root: "check_corresponding_issuer (toy_lib e) toy_ticket toy_root = Inr True"
  by (simp add: check_corresponding_issuer_def toy_hash) (simp add: issuer_field_def toy_ticket_def toy_subject_def)

lemma toy_root_all: "certificate_has_all_permissions toy_root = Inr True"
  by (simp add: certificate_has_all_permissions_def certificate_wants_cert_issue_permissions_def tbs_of_def
      issue_permissions_def permission_is_def toy_root_def cong: if_cong)

lemma toy_ticket_verifies: "verify (toy_lib e) toy_ticket = Inr True"
proof -
  obtain payload where payload: "issued_payload (toy_lib e) [] toy_root = Inr payload" using toy_payload by blast
  have issued: "certificate_is_issued toy_ticket = Inr True" "indicator_fits toy_ticket = Inr True"
    "signature_is_nist_p256 toy_ticket = Inr True" "verification_key_is_nist_p256 toy_ticket = Inr True"
    by (simp_all add: verification_defs toy_ticket_def toy_subject_def toy_public_key_def toy_digest_def cong: if_cong)
  have permitted: "check_issuer_has_subject_permissions toy_ticket toy_root = Inr True"
    by (simp add: check_issuer_has_subject_permissions_def toy_root_all)
  have parts: "c_issuer toy_ticket = Some toy_root" "\<exists>t. tbs_of toy_ticket = Inr t"
    "py_item (c_certificate toy_ticket) ''signature'' = Inr (toy_signature 7)"
    "verify_key_indicator [Idx 1] toy_root
      = Inr (PTuple [PStr ''ecdsaNistP256'', PTuple [PStr ''compressed-y-0'', PBytes (be_bytes 32 7)]])"
    by (simp_all add: toy_ticket_def toy_subject_def toy_root_def toy_public_key_def tbs_of_def verify_key_indicator_def
        del: be_bytes.simps)
  then show ?thesis
    using toy_signature_verifies [of 7]
    by (auto simp: verify_def verify_issued_certificate_def both_def issued permitted toy_ticket_fits_root payload
        encode_ToBeSignedCertificate_def toy_encode)
qed

section \<open>A station that knows them\<close>

definition toy_security :: security where
  "toy_security = sign_service_init toy_keys
     \<lparr>own_certificates = [], known_authorization_tickets = [(toy_digest, toy_ticket)],
      known_authorization_authorities = [], known_root_certificates = [(toy_digest, toy_root)]\<rparr> True"

lemma toy_security_reachable: "security_reachable (toy_lib e) toy_security"
proof -
  have issuer: "get_issuer_certificate l toy_ticket = Inr (Some toy_root)"
    if "known_root_certificates l = [(toy_digest, toy_root)]" for l
    using that by (simp add: get_issuer_certificate_def issuer_field_def toy_ticket_def toy_subject_def lookup_def py_key_def dict_simps)
  have "library_init (toy_lib e) [toy_root] [] [toy_ticket] = (Inr (), sec_library toy_security)"
    by (simp add: library_init_def then_s_def bind_s_def add_root_certificate_def toy_root_verifies toy_hash
        add_authorization_ticket_def accepts_def issuer toy_ticket_verifies toy_security_def sign_service_init_def dict_simps)
  from security_reachable.init [OF this, of toy_keys True] show ?thesis
    by (simp add: toy_security_def sign_service_init_def)
qed

lemma toy_ticket_profile:
  "is_authorization_ticket toy_ticket = Inr True" "verify_key_indicator [Idx 0] toy_ticket = Inr (PStr ''verificationKey'')"
  by (simp_all add: is_authorization_ticket_def issuer_in_def digest_issuers_def
      choice_of_def id_is_def tbs_lacks_def tbs_has_def tbs_get_def both_def verify_key_indicator_def
      toy_ticket_def toy_subject_def toy_public_key_def cong: if_cong)

lemma toy_ticket_fits: "ticket_fits (toy_lib e) toy_ticket = Inr True"
  by (simp add: ticket_fits_def both_def toy_ticket_verifies toy_ticket_profile)

lemma toy_ticket_stored: "dict_get (known_authorization_tickets (sec_library toy_security)) toy_digest = Some toy_ticket"
  by (simp add: toy_security_def sign_service_init_def dict_simps)

lemma toy_ticket_known: "knows_ticket (toy_lib e) toy_security toy_ticket toy_digest toy_ticket"
  by (simp add: knows_ticket_def toy_hash toy_ticket_stored toy_ticket_fits)

lemma toy_key_pair: "k \<in> {0..<256 ^ 32} \<Longrightarrow> key_pair (toy_lib e) k"
  by (simp add: key_pair_def toy_lib_def)

lemma toy_holds_key: "holds_key (toy_lib e) toy_keys toy_root" "holds_key (toy_lib e) toy_keys toy_ticket"
  using toy_key_pair [of 7] toy_key_pair [of 8]
  by (simp_all add: holds_key_def toy_root_def toy_ticket_def toy_subject_def toy_public_key_def toy_keys_def
      dict_simps verify_key_indicator_def key_point_def read_point_def toy_lib_def from_be_bytes
      del: be_bytes.simps)

definition toy_header :: pyval where
  "toy_header = PDict [(''psid'', PInt 36), (''generationTime'', PInt (timestamp_its 0 * 1000))]"

lemma toy_header_checks:
  "psid_of toy_header = Inr (PInt 36)" "header_check (PInt 36) toy_header = Inr None" "psid_bytes (PInt 36) = Inr [36]"
  "learn_from_header lib toy_header s = (Inr (), s)"
  by (simp_all add: toy_header_def psid_of_def header_check_def is_denm_def int_bytes_def byte_count.simps to_bytes_def
      learn_from_header_def bind_s_def then_s_def)

lemma toy_message_accepted:
  "verify_message (toy_lib toy_envelope) [1] toy_security = (Inr (report SUCCESS toy_digest [36] [1, 2]), toy_security)"
proof -
  obtain sd where sd: "signed_part (toy_lib toy_envelope) [1] = Inr sd"
    and fields: "py_item sd ''tbsData'' = Inr (tbs_data 0 toy_request [])"
      "py_item sd ''signer'' = Inr (PTuple [PStr ''digest'', PBytes toy_digest])"
      "py_item sd ''signature'' = Inr (toy_signature 8)"
    by (simp add: signed_part_def decode_etsi_ts_103097_data_signed_def toy_lib_def toy_envelope_def signed_data_def)
  have header: "py_get (tbs_data 0 toy_request []) ''headerInfo'' (PDict []) = Inr toy_header"
    and plain: "py_path payload_path sd = Inr (PBytes [1, 2])"
    by (simp_all add: tbs_data_def toy_request_def toy_header_def payload_path_def fields)
  have key: "verify_key_indicator [Idx 1] toy_ticket
      = Inr (PTuple [PStr ''ecdsaNistP256'', PTuple [PStr ''compressed-y-0'', PBytes (be_bytes 32 8)]])"
    by (simp add: verify_key_indicator_def toy_ticket_def toy_subject_def toy_public_key_def del: be_bytes.simps)
  have bytes: "signed_bytes (toy_lib toy_envelope) sd = Inr []"
    by (simp add: signed_bytes_def fields encode_to_be_signed_data_def toy_encode)
  have "find_ticket (toy_lib toy_envelope) (PTuple [PStr ''digest'', PBytes toy_digest]) toy_security
      = (Inr (Inr toy_ticket), toy_security)"
    using find_known_ticket [OF toy_ticket_known [of toy_envelope], of 36] by (simp add: signer_of_def)
  then show ?thesis
    using toy_signature_verifies [of 8 toy_envelope "[]"]
    by (simp add: verify_message_def sd bytes fields header toy_header_checks verify_with_ticket_def toy_ticket_fits
        toy_hash is_denm_def for_ticket_def toy_header_checks(3) [simplified] key key [unfolded One_nat_def] plain bind_s_def then_s_def del: be_bytes.simps)
qed

section \<open>The properties at the example\<close>

theorem accepted_message_is_trusted_witness:
  "\<exists>ticket g. dict_get (known_authorization_tickets (sec_library toy_security)) toy_digest = Some ticket
    \<and> issuer_digest ticket = Some g \<and> trusted (toy_lib toy_envelope) (sec_library toy_security) g"
  using accepted_message_is_trusted [OF toy_security_reachable toy_message_accepted]
  by (auto simp: report_def)

theorem sealed_message_accepted_witness:
  "\<exists>its_aid. from_bytes its_aid = 36 \<and>
    verify_message (toy_lib toy_envelope) [1] toy_security = (Inr (report SUCCESS toy_digest its_aid [1, 2]), toy_security)"
proof -
  have sealed: "seal (toy_lib toy_envelope) toy_security (tbs_data 0 toy_request (header_extra toy_request)) [] toy_ticket
      (signer_of (sn_its_aid toy_request) toy_ticket toy_digest) = Inr [1]"
  proof -
    have "sign_message (toy_lib toy_envelope) toy_keys toy_ticket [] = Inr (toy_signature 8)"
      by (simp add: sign_message_def own_key_def toy_ticket_def sign_def toy_keys_def dict_simps toy_lib_def
          signature_value_def to_bytes_def toy_signature_def del: be_bytes.simps)
    then show ?thesis
      by (simp add: seal_def toy_security_def sign_service_init_def header_extra_def signer_of_def
          encode_etsi_ts_103097_data_signed_def toy_encode toy_request_def [THEN arg_cong, of generation_location]
          toy_request_def [THEN arg_cong, of sn_its_aid] flip: toy_envelope_def)
  qed
  have decodes: "\<forall>g. let d = signed_data (tbs_data 0 toy_request (header_extra toy_request))
        (signer_of (sn_its_aid toy_request) toy_ticket toy_digest) g in
      encode_etsi_ts_103097_data_signed (toy_lib toy_envelope) d = Inr [1] \<longrightarrow>
      decode_etsi_ts_103097_data_signed (toy_lib toy_envelope) [1] = Inr d"
    by (simp add: encode_etsi_ts_103097_data_signed_def decode_etsi_ts_103097_data_signed_def toy_lib_def)
  have "profile_ok toy_request" "sec_backend toy_security = toy_keys"
    "\<And>v. encode_to_be_signed_data (toy_lib toy_envelope) v = Inr []"
    by (simp_all add: profile_ok_def toy_request_def toy_security_def sign_service_init_def
        encode_to_be_signed_data_def toy_encode)
  from sealed_message_accepted [OF this(1) toy_holds_key(2) toy_ticket_known this(2) refl this(3) sealed decodes]
  show ?thesis by (simp add: toy_request_def)
qed

theorem issued_certificate_verifies_witness:
  "verify (toy_lib toy_envelope) (Certificate (toy_subject (toy_signature 7)) (Some toy_root) None) = Inr True"
proof -
  let ?c = "Certificate (toy_subject PNone) None None"
  have checks: "certificate_is_self_signed ?c = Inr False"
    "certificate_wants_cert_issue_permissions ?c = Inr False" "indicator_fits ?c = Inr True"
    "verification_key_is_nist_p256 ?c = Inr True"
    by (simp_all add: verification_defs toy_subject_def toy_public_key_def
        certificate_wants_cert_issue_permissions_def cong: if_cong)
  have allowed: "check_issuer_has_subject_permissions ?c toy_root = Inr True"
    "check_enough_min_chain_length_for_issuer toy_root = Inr True"
    by (simp add: check_issuer_has_subject_permissions_def toy_root_all)
      (simp add: check_enough_min_chain_length_for_issuer_def issue_permissions_def min_chain_length_def toy_root_def)
  have issued: "issue_certificate (toy_lib toy_envelope) toy_keys toy_root ?c
      = Inr (from_dict (toy_subject (toy_signature 7)) (Some toy_root))"
  proof -
    obtain payload where payload: "issued_payload (toy_lib toy_envelope) [] toy_root = Inr payload" using toy_payload by blast
    have signed: "sign_message (toy_lib toy_envelope) toy_keys toy_root payload = Inr (toy_signature 7)"
      by (simp add: sign_message_def own_key_def toy_root_def sign_def toy_keys_def dict_simps toy_lib_def
          signature_value_def to_bytes_def toy_signature_def del: be_bytes.simps)
    have chosen: "set_issuer (toy_lib toy_envelope) (Certificate (toy_subject PNone) (Some toy_root) None) toy_root
        = Inr (Certificate (toy_subject PNone) (Some toy_root) None)"
      by (simp add: set_issuer_def toy_hash toy_subject_def)
    have "sign_certificate (toy_lib toy_envelope) toy_keys toy_root (Certificate (toy_subject PNone) (Some toy_root) None)
        = Inr (from_dict (toy_subject (toy_signature 7)) (Some toy_root))"
      by (simp add: sign_certificate_def tbs_of_def toy_subject_def from_dict_def
          encode_ToBeSignedCertificate_def toy_encode payload signed)
    then show ?thesis
      by (simp add: issue_certificate_def checks allowed both_def set_chain_length_issue_permissions_def chosen)
  qed
  have hashes: "\<forall>bs. length (sha256 (toy_lib toy_envelope) bs) = 32" by (simp add: toy_lib_def)
  show ?thesis
    using issued_certificate_verifies [OF issued checks(1) allowed disjI1 [OF checks(2)] checks(3,4) toy_holds_key(1) hashes]
    by (simp add: from_dict_def)
qed

text \<open>An authority that may pass on two numbers along three certificates, and a subject that asks for one.\<close>

definition toy_permissions :: "int list \<Rightarrow> int \<Rightarrow> pyval" where
  "toy_permissions numbers n = PDict
     [(''subjectPermissions'', PTuple [PStr ''explicit'', PList (map (\<lambda>i. PDict [(''psid'', PInt i)]) numbers)]),
      (''minChainLength'', PInt n)]"

definition toy_authority :: "pyval \<Rightarrow> Certificate" where
  "toy_authority p = Certificate (PDict [(''toBeSigned'', PDict [(''certIssuePermissions'', PList [p])])]) None None"

theorem issued_permissions_attenuate_witness:
  "\<exists>qs. issue_permissions (c_certificate (toy_authority (toy_permissions [36, 37] 2))) = Inr qs \<and>
    (\<forall>q\<in>set qs. \<exists>p\<in>{toy_permissions [36, 37] 3}. \<exists>n. explicit_psids q = explicit_psids p
      \<and> min_chain_length p = Inr n \<and> min_chain_length q = Inr (n - 1) \<and> 1 \<le> n - 1)"
proof -
  let ?issuer = "toy_authority (toy_permissions [36, 37] 3)" and ?c = "toy_authority (toy_permissions [36] 9)"
  have checks: "certificate_has_all_permissions ?issuer = Inr False"
    "certificate_wants_cert_issue_permissions ?c = Inr True"
    "issue_permissions (c_certificate ?issuer) = Inr [toy_permissions [36, 37] 3]"
    "issue_permissions (c_certificate ?c) = Inr [toy_permissions [36] 9]"
    by (simp_all add: certificate_has_all_permissions_def certificate_wants_cert_issue_permissions_def tbs_of_def
        issue_permissions_def permission_is_def toy_authority_def toy_permissions_def)
  have group: "explicit_psids (toy_permissions ns n) = Inr (map PInt ns)"
    "min_chain_length (toy_permissions ns n) = Inr n"
    "shorten_chain (toy_permissions ns n) = Inr (toy_permissions ns (n - 1))" for ns n
    by (simp_all add: explicit_psids_def permission_is_def psids_def min_chain_length_def shorten_chain_def
        toy_permissions_def rmap_Inr list_all2_map1 list_all2_map2 list_all2_same cong: if_cong)
  have "set_chain_length_issue_permissions ?c ?issuer
      = Inr (Certificate (c_certificate (toy_authority (toy_permissions [36, 37] 2))) (Some ?issuer) None)"
    by (simp add: set_chain_length_issue_permissions_def checks inherited_permissions_def group granted_by_def
        get_list_of_psid_from_cert_issue_permissions_def py_in_def)
      (simp add: toy_authority_def)
  from issued_permissions_attenuate [OF checks(1-3) this] show ?thesis by simp
qed

end
