(* ===== verification/SecuredDenm.thy ===== *)
theory SecuredDenm
  imports DenProps SecExample Btp RouterSafety
begin

text \<open>
  A notification on its way through all layers of two stations: the notification service and BTP, the
  GeoNetworking router with the sign service, the air, the router with the verify service, BTP. The
  router knows the two services only by their contract, which is a locale here; the services of
  \<open>SecServices\<close> and \<open>SecSigning\<close> fulfil it.
\<close>

section \<open>The area of a notification\<close>

abbreviation denm_area :: "int \<Rightarrow> int \<Rightarrow> Area" where
  "denm_area lat lon \<equiv> \<lparr>area_latitude = lat, area_longitude = lon, area_a = 100, area_b = 0, area_angle = 0\<rparr>"

text \<open>A circle has no second length, so 0 does no harm there.\<close>

lemma circle_area:
  "is_area_type GEOBROADCAST_CIRCLE" "0 < area_a area \<Longrightarrow> has_extent GEOBROADCAST_CIRCLE area"
  by (simp_all add: is_area_type_def has_extent_def area_types)

lemma circle_function:
  assumes "0 < area_a area"
  obtains f where "gn_geometric_function_f GEOBROADCAST_CIRCLE area lat lon = Inr f"
    "0 \<le> f \<longleftrightarrow> inside_area GEOBROADCAST_CIRCLE area lat lon"
  using geometric_function_inside [OF circle_area(2) [OF assms] circle_area(1)] that
  by (auto simp: inside_circle_north_up circle_types_def)

lemma circle_selection:
  assumes "0 < area_a area"
  shows "\<exists>alg. gn_forwarding_algorithm_selection r (default_GNDataRequest\<lparr>req_area := area,
      req_packet_transport_type := \<lparr>header_type = ht, header_subtype = GEOBROADCAST_CIRCLE\<rparr>\<rparr>) so = Inr alg"
  by (rule selection_total) (simp_all add: circle_area assms)

section \<open>The packet of a notification\<close>

definition denm_gn_request :: "int \<Rightarrow> int \<Rightarrow> bytes \<Rightarrow> GNDataRequest" where
  "denm_gn_request lat lon payload = gn_request_of_btp (denm_btp_request lat lon []) payload"

definition denm_hop_limit :: "router \<Rightarrow> int" where
  "denm_hop_limit r = itsGnDefaultHopLimit (r_mib r)"

definition denm_basic_header :: "router \<Rightarrow> BasicHeader" where
  "denm_basic_header r = bh_set_nh SECURED_PACKET (bh_initialize_with_mib_request_and_rhl (r_mib r) None (denm_hop_limit r))"

definition denm_common_header :: "router \<Rightarrow> int \<Rightarrow> int \<Rightarrow> bytes \<Rightarrow> CommonHeader" where
  "denm_common_header r lat lon payload = ch_initialize_with_request
     ((denm_gn_request lat lon payload)\<lparr>req_max_hop_limit := denm_hop_limit r\<rparr>) (r_mib r)"

definition denm_extended_header :: "router \<Rightarrow> int \<Rightarrow> int \<Rightarrow> GBCExtendedHeader" where
  "denm_extended_header r lat lon = gbc_initialize_with_request_sequence_number_ego_pv (denm_gn_request lat lon [])
     ((r_sequence_number r + 1) mod 65535) (r_ego_position_vector r)"

text \<open>What the router hands to the sign service.\<close>

definition denm_to_sign :: "router \<Rightarrow> int \<Rightarrow> int \<Rightarrow> bytes \<Rightarrow> SNSIGNRequest result" where
  "denm_to_sign r lat lon payload =
     rbind (encode_parts [ch_encode (denm_common_header r lat lon payload), gbc_encode (denm_extended_header r lat lon),
       Inr payload]) (\<lambda>tbs.
     Inr (sn_sign_request tbs (denm_gn_request lat lon payload)
       (Some (lpv_latitude (r_ego_position_vector r), lpv_longitude (r_ego_position_vector r), 0xF000))))"

lemma denm_gn_request_fields [simp]:
  "req_packet_transport_type (denm_gn_request lat lon payload)
    = \<lparr>header_type = HT_GEOBROADCAST, header_subtype = GEOBROADCAST_CIRCLE\<rparr>"
  "req_area (denm_gn_request lat lon payload) = denm_area lat lon"
  "req_security_profile (denm_gn_request lat lon payload) = DECENTRALIZED_ENVIRONMENTAL_NOTIFICATION_MESSAGE"
  "req_its_aid (denm_gn_request lat lon payload) = 37"
  "req_traffic_class (denm_gn_request lat lon payload) = default_TrafficClass"
  "req_max_hop_limit (denm_gn_request lat lon payload) = 0"
  "req_max_packet_lifetime (denm_gn_request lat lon payload) = None"
  "req_upper_protocol_entity (denm_gn_request lat lon payload) = BTP_B"
  "req_data (denm_gn_request lat lon payload) = payload"
  "req_length (denm_gn_request lat lon payload) = int (length payload)"
  by (simp_all add: denm_gn_request_def)
    (simp_all add: gn_request_of_btp_def denm_btp_request_def default_BTPDataRequest_def)

lemma denm_gn_request_of_btp:
  "gn_request_of_btp (denm_btp_request lat lon data) payload = denm_gn_request lat lon payload"
  by (simp add: denm_gn_request_def gn_request_of_btp_def denm_btp_request_def)

text \<open>The conditions on a sender: its position, its link layer, its hop limit, the area.\<close>

definition denm_sender :: "router \<Rightarrow> int \<Rightarrow> int \<Rightarrow> bytes \<Rightarrow> bool" where
  "denm_sender r lat lon payload \<longleftrightarrow>
     valid_lpv (r_ego_position_vector r) \<and> (\<exists>f. r_link_layer r = Some f \<and> (\<forall>n p. f n p = Inr ()))
     \<and> denm_hop_limit r \<in> {0..<256} \<and> 1 \<le> itsGnMaxGeoAreaSize (r_mib r)
     \<and> lat \<in> {0..<2 ^ 32} \<and> lon \<in> {0..<2 ^ 32} \<and> length payload < 2 ^ 16
     \<and> ego_inside r GEOBROADCAST_CIRCLE (denm_area lat lon)"

lemma denm_headers_valid:
  assumes "denm_sender r lat lon payload"
  shows "valid_bh (denm_basic_header r)" "valid_ch (denm_common_header r lat lon payload)"
    "valid_gbc (denm_extended_header r lat lon)"
proof -
  show "valid_bh (denm_basic_header r)"
    using assms valid_bh_initialize(2) [of "denm_hop_limit r" "r_mib r" None]
    by (simp add: denm_sender_def denm_basic_header_def bh_set_nh_def valid_bh_def)
  show "valid_ch (denm_common_header r lat lon payload)"
    using assms unfolding denm_common_header_def
    by (intro valid_ch_with_request) (simp_all add: denm_sender_def GeoBroadcastHST_members_def valid_tc_def default_TrafficClass_def)
  show "valid_gbc (denm_extended_header r lat lon)"
    using assms pos_mod_bound [of 65535 "r_sequence_number r + 1"] pos_mod_sign [of 65535 "r_sequence_number r + 1"]
    by (simp add: denm_sender_def denm_extended_header_def valid_gbc_def
        gbc_initialize_with_request_sequence_number_ego_pv_def)
qed

text \<open>What is signed, and the headers in it.\<close>

lemma denm_to_sign_run:
  assumes "denm_sender r lat lon payload"
  obtains b c g where "bh_encode (denm_basic_header r) = Inr b"
    "ch_encode (denm_common_header r lat lon payload) = Inr c" "gbc_encode (denm_extended_header r lat lon) = Inr g"
    "denm_to_sign r lat lon payload = Inr (sn_sign_request (c @ g @ payload) (denm_gn_request lat lon payload)
       (Some (lpv_latitude (r_ego_position_vector r), lpv_longitude (r_ego_position_vector r), 0xF000)))"
  using bh.encode_total [OF denm_headers_valid(1) [OF assms]] ch.encode_total [OF denm_headers_valid(2) [OF assms]]
    gbc.encode_total [OF denm_headers_valid(3) [OF assms]] that
  by (auto simp: denm_to_sign_def)

text \<open>
  The conditions on a receiver: version 1 of the protocol, another address, inside the area, a callback,
  and the number of the packet is new.
\<close>

definition denm_hears :: "router \<Rightarrow> router \<Rightarrow> int \<Rightarrow> int \<Rightarrow> bool" where
  "denm_hears t r lat lon \<longleftrightarrow>
     itsGnProtocolVersion (r_mib t) = 1 \<and> r_indication_callback t \<and> link_ok t \<and> 0 < itsGnDPLLength (r_mib t)
     \<and> \<not> gn_address_eq (itsGnLocalGnAddr (r_mib t)) (lpv_gn_addr (r_ego_position_vector r))
     \<and> \<not> seen_sn (lpv_gn_addr (r_ego_position_vector r)) ((r_sequence_number r + 1) mod 65535) (r_location_table t)
     \<and> ego_inside t GEOBROADCAST_CIRCLE (denm_area lat lon)"

definition denm_indication :: "router \<Rightarrow> int \<Rightarrow> int \<Rightarrow> bytes \<Rightarrow> GNDataIndication" where
  "denm_indication r lat lon payload =
     make_indication (denm_common_header r lat lon payload) (bh_set_nh COMMON_HEADER (denm_basic_header r))
       \<lparr>header_type = HT_GEOBROADCAST, header_subtype = GEOBROADCAST_CIRCLE\<rparr> (Some (denm_area lat lon))
       (r_ego_position_vector r) payload"

lemma denm_header_fields [simp]:
  "bh_version (denm_basic_header r) = 1" "bh_nh (denm_basic_header r) = SECURED_PACKET"
  "bh_rhl (denm_basic_header r) = denm_hop_limit r"
  "ch_ht (denm_common_header r lat lon payload) = HT_GEOBROADCAST"
  "ch_hst (denm_common_header r lat lon payload) = GEOBROADCAST_CIRCLE"
  "ch_mhl (denm_common_header r lat lon payload) = denm_hop_limit r"
  "gbc_area (denm_extended_header r lat lon) = denm_area lat lon"
  "gbc_so_pv (denm_extended_header r lat lon) = r_ego_position_vector r"
  "gbc_sn (denm_extended_header r lat lon) = (r_sequence_number r + 1) mod 65535"
  by (simp_all add: denm_basic_header_def denm_common_header_def denm_extended_header_def bh_set_nh_def
      bh_initialize_with_mib_request_and_rhl_def ch_initialize_with_request_def Let_def gbc_area_def
      gbc_initialize_with_request_sequence_number_ego_pv_def)

text \<open>A receiver handles the unsecured packet.\<close>

lemma denm_common_handled:
  assumes "denm_sender r lat lon payload" "denm_hears t r lat lon"
    and "ch_encode (denm_common_header r lat lon payload) = Inr c" "gbc_encode (denm_extended_header r lat lon) = Inr g"
  obtains t' where "process_common_header (c @ g @ payload) (bh_set_nh COMMON_HEADER (denm_basic_header r)) t = (Inr (), t')"
    "r_indications t' = r_indications t @ [denm_indication r lat lon payload]"
proof -
  let ?bh = "bh_set_nh COMMON_HEADER (denm_basic_header r)" and ?ch = "denm_common_header r lat lon payload"
  let ?e = "denm_extended_header r lat lon"
  note valid = denm_headers_valid [OF assms(1)]
  have bh: "valid_bh ?bh" "bh_rhl ?bh = denm_hop_limit r" using valid(1) by (simp_all add: bh_set_nh_def valid_bh_def)
  have len: "length g = 44" by (rule gbc.encode_length [OF valid(3) assms(4)])
  obtain f where f: "gn_geometric_function_f GEOBROADCAST_CIRCLE (denm_area lat lon)
      (lpv_latitude (r_ego_position_vector t)) (lpv_longitude (r_ego_position_vector t)) = Inr f" "0 \<le> f"
    using circle_function [of "denm_area lat lon" "lpv_latitude (r_ego_position_vector t)" "lpv_longitude (r_ego_position_vector t)"] assms(2)
    by (auto simp: denm_hears_def ego_inside_circle circle_types_def)
  have "link_ok (t\<lparr>r_location_table := table\<rparr>)" for table using assms(2) by (simp add: denm_hears_def link_ok_def)
  then have forward: "\<exists>c r'. gn_data_forward_gbc ?bh ?ch ?e (drop 44 (g @ payload)) (t\<lparr>r_location_table := table\<rparr>) = (Inr c, r')" for table
    using forward_gbc_runs [OF bh(1) valid(2,3)]
      circle_selection [of "denm_area lat lon" "t\<lparr>r_location_table := table\<rparr>" HT_GEOBROADCAST "Some (lpv_gn_addr (r_ego_position_vector r))"]
    by (simp del: drop_append) blast
  obtain t1 where t1: "gn_data_indicate_gbc (g @ payload) ?ch ?bh t
      = (Inr (Some (denm_indication r lat lon payload)), t1)"
    using gbc_handled [OF gbc.decode_slice [OF valid(3) assms(4)], of ?ch t f ?bh payload] f forward assms(2) len
    by (auto simp: denm_hears_def denm_indication_def)
  have "quiet t t1" using obeysD [OF quiet_handlers(5) t1] .
  then have "r_indication_callback t1" "r_indications t1 = r_indications t"
    using assms(2) by (simp_all add: quiet_def same_config_def denm_hears_def)
  then show thesis
    using that bh(2) t1
    by (simp add: process_common_run [OF valid(2) assms(3)] bind_s_def deliver_def)
qed

section \<open>The contract of the security services\<close>

text \<open>
  For a good request the sign service gives a message, and the verify service of the receiver vouches
  for it and returns what was to be signed.
\<close>

locale secure_channel =
  fixes sign :: "SNSIGNRequest \<Rightarrow> bytes result" and verify :: "bytes \<Rightarrow> SNVERIFYConfirm result"
    and good :: "SNSIGNRequest \<Rightarrow> bool"
  assumes vouched: "good q \<Longrightarrow> \<exists>message conf. sign q = Inr message \<and> verify message = Inr conf
    \<and> vc_report conf = SUCCESS \<and> vc_plain_message conf = tbs_message q"
begin

text \<open>The sender puts the signed message behind a basic header.\<close>

lemma denm_sent:
  assumes "denm_sender r lat lon payload" "denm_to_sign r lat lon payload = Inr q" "good q"
    and "r_sign_service r = Some srv" "\<And>n. sign_denm srv n = sign"
  obtains b message r' where "bh_encode (denm_basic_header r) = Inr b" "sign q = Inr message"
    "gn_data_request (denm_gn_request lat lon payload) r = (Inr ACCEPTED, r')" "r_sent r' = r_sent r @ [b @ message]"
proof -
  obtain b c g where b: "bh_encode (denm_basic_header r) = Inr b"
    and c: "ch_encode (denm_common_header r lat lon payload) = Inr c"
    and g: "gbc_encode (denm_extended_header r lat lon) = Inr g"
    and q: "q = sn_sign_request (c @ g @ payload) (denm_gn_request lat lon payload)
       (Some (lpv_latitude (r_ego_position_vector r), lpv_longitude (r_ego_position_vector r), 0xF000))"
    using denm_to_sign_run [OF assms(1)] assms(2) by (metis Inr_inject)
  obtain message where message: "sign q = Inr message" using vouched [OF assms(3)] by blast
  obtain f where f: "r_link_layer r = Some f" "\<And>n p. f n p = Inr ()" using assms(1) unfolding denm_sender_def by blast
  define r1 where "r1 = r\<lparr>r_sequence_number := (r_sequence_number r + 1) mod 65535, r_sec_calls := Suc (r_sec_calls r)\<rparr>"
  obtain r' where r': "send_confirm (b @ message) r1 = (Inr ACCEPTED, r')" "r_sent r' = r_sent r @ [b @ message]"
    using f by (simp add: send_confirm_def catch_s_def then_s_def bind_s_def link_send_some r1_def)
  obtain F where F: "gn_geometric_function_f GEOBROADCAST_CIRCLE (denm_area lat lon)
      (lpv_latitude (r_ego_position_vector r)) (lpv_longitude (r_ego_position_vector r)) = Inr F" "0 \<le> F"
    using circle_function [of "denm_area lat lon" "lpv_latitude (r_ego_position_vector r)" "lpv_longitude (r_ego_position_vector r)"] assms(1)
    by (auto simp: denm_sender_def ego_inside_circle circle_types_def)
  have alg: "gn_forwarding_algorithm_selection r (denm_gn_request lat lon payload) None = Inr AREA_FORWARDING"
    by (simp add: gn_forwarding_algorithm_selection_def F Let_def)
  have hop: "request_hop_limit (r_mib r) (denm_gn_request lat lon payload) = denm_hop_limit r"
    by (simp add: request_hop_limit_def denm_hop_limit_def)
  have ext: "gbc_initialize_with_request_sequence_number_ego_pv (denm_gn_request lat lon payload)
      ((r_sequence_number r + 1) mod 65535) (r_ego_position_vector r) = denm_extended_header r lat lon"
    by (simp add: denm_extended_header_def gbc_initialize_with_request_sequence_number_ego_pv_def)
  have "gn_data_request_gbc (denm_gn_request lat lon payload) r = send_confirm (b @ message) r1"
    using denm_area_fits [of "itsGnMaxGeoAreaSize (r_mib r)" lat lon] assms(1,4,5) message b c g
    by (simp add: gn_data_request_gbc_def hop ext alg bind_s_def then_s_def get_sequence_number_run call_sign_def
        denm_sender_def q [symmetric] denm_common_header_def [symmetric] denm_basic_header_def [symmetric] default_TrafficClass_def
        r1_def not_less [symmetric] Let_def)
  then show thesis using that b message r' by (simp add: gn_data_request_def)
qed

text \<open>A receiver that the signed message reaches passes it to its upper layer.\<close>

lemma denm_received:
  assumes "denm_sender r lat lon payload" "denm_to_sign r lat lon payload = Inr q" "good q"
    and "bh_encode (denm_basic_header r) = Inr b" "sign q = Inr message"
    and "r_verify_service t = Some v" "\<And>n. v n = verify" "denm_hears t r lat lon"
  obtains t' where "gn_data_indicate (b @ message) t = (Inr (), t')"
    "r_indications t' = r_indications t @ [denm_indication r lat lon payload]"
proof -
  obtain c g where c: "ch_encode (denm_common_header r lat lon payload) = Inr c"
    and g: "gbc_encode (denm_extended_header r lat lon) = Inr g" and q: "tbs_message q = c @ g @ payload"
    using denm_to_sign_run [OF assms(1)] assms(2) by (metis Inr_inject SNSIGNRequest.select_convs(2) sn_sign_request_def)
  obtain conf where conf: "verify message = Inr conf" "vc_report conf = SUCCESS" "vc_plain_message conf = c @ g @ payload"
    using vouched [OF assms(3)] assms(5) q by auto
  let ?t = "t\<lparr>r_sec_calls := Suc (r_sec_calls t)\<rparr>"
  have "denm_hears ?t r lat lon" using assms(8) by (simp add: denm_hears_def link_ok_def ego_inside_def)
  then obtain t' where t': "process_common_header (c @ g @ payload) (bh_set_nh COMMON_HEADER (denm_basic_header r)) ?t = (Inr (), t')"
    "r_indications t' = r_indications ?t @ [denm_indication r lat lon payload]"
    using denm_common_handled [OF assms(1) _ c g] by blast
  have "itsGnProtocolVersion (r_mib t) = 1" using assms(8) by (simp add: denm_hears_def)
  then have "gn_data_indicate (b @ message) t = (Inr (), t')"
    using t'(1) conf assms(6,7)
    by (simp add: gn_data_indicate_def process_basic_run [OF denm_headers_valid(1) [OF assms(1)] assms(4)]
        process_security_header_def then_s_def bind_s_def)
  then show thesis using that t'(2) by simp
qed

end

section \<open>The services fulfil the contract\<close>

text \<open>
  A notification with a position is good if the sender has a ticket with the number and its key, the
  receiver knows the ticket, the message can be encoded, and the receiver decodes the envelope that
  was encoded.
\<close>

definition denm_good :: "sec_lib \<Rightarrow> real \<Rightarrow> security \<Rightarrow> security \<Rightarrow> SNSIGNRequest \<Rightarrow> bool" where
  "denm_good lib now s t q \<longleftrightarrow>
     sn_its_aid q = 37 \<and> generation_location q \<noteq> None
     \<and> (\<exists>c h c' message. present_ticket 37 s = Inr c \<and> holds_key lib (sec_backend s) c \<and> knows_ticket lib t c h c'
         \<and> sv_sign_denm lib now q s = Inr message
         \<and> (\<forall>g. let d = signed_data (tbs_data now q (header_extra q)) (signer_of (sn_its_aid q) c h) g in
              encode_etsi_ts_103097_data_signed lib d = Inr message \<longrightarrow>
              decode_etsi_ts_103097_data_signed lib message = Inr d))"

lemma denm_vouched:
  assumes "denm_good lib now s t q"
  shows "\<exists>message conf. sv_sign_denm lib now q s = Inr message \<and> fst (verify_message lib message t) = Inr conf
    \<and> vc_report conf = SUCCESS \<and> vc_plain_message conf = tbs_message q"
proof -
  obtain c h c' message where ticket: "present_ticket 37 s = Inr c" "holds_key lib (sec_backend s) c"
      "knows_ticket lib t c h c'"
    and signed: "sv_sign_denm lib now q s = Inr message"
    and decodes: "\<forall>g. let d = signed_data (tbs_data now q (header_extra q)) (signer_of (sn_its_aid q) c h) g in
      encode_etsi_ts_103097_data_signed lib d = Inr message \<longrightarrow> decode_etsi_ts_103097_data_signed lib message = Inr d"
    using assms unfolding denm_good_def by blast
  have profile: "profile_ok q" "sn_its_aid q = 37" using assms by (simp_all add: denm_good_def profile_ok_def)
  obtain l where l: "generation_location q = Some l" using assms by (auto simp: denm_good_def)
  obtain tobesigned where tobesigned:
      "encode_to_be_signed_data lib (tbs_data now q (header_extra q)) = Inr tobesigned"
      "seal lib s (tbs_data now q (header_extra q)) tobesigned c (signer_of (sn_its_aid q) c h) = Inr message"
    using signed ticket(1) profile(2) l
    by (auto simp: sv_sign_denm_def Let_def rbind_eq_Inr header_extra_def signer_of_def)
  obtain its_aid where "verify_message lib message t = (Inr (report SUCCESS h its_aid (tbs_message q)), t)"
    using sealed_message_accepted [OF profile(1) ticket(2,3) refl refl tobesigned decodes] by blast
  then show ?thesis using signed by (simp add: report_def)
qed

interpretation signed_denms: secure_channel "\<lambda>q. sv_sign_denm lib now q s" "\<lambda>message. fst (verify_message lib message t)"
  "denm_good lib now s t" for lib now s t
  by unfold_locales (rule denm_vouched)

section \<open>End to end\<close>

lemma denm_indication_to_btp:
  assumes "btpb_encode \<lparr>btpb_destination_port = 2002, btpb_destination_port_info = 0\<rparr> = Inr header"
  shows "\<exists>i. btp_data_indication (denm_indication r lat lon (header @ data)) b = call_callback i b
    \<and> bi_destination_port i = 2002 \<and> bi_data i = data \<and> bi_gn_source_position_vector i = r_ego_position_vector r"
proof -
  have h: "length header = 4" "btpb_decode (header @ data) = \<lparr>btpb_destination_port = 2002, btpb_destination_port_info = 0\<rparr>"
    using denm_header_run assms by (metis Inr_inject)+
  then show ?thesis
    using h
    by (intro exI [of _ "set_destination_port_and_info 2002 0 (initialize_with_gn_data_indication
        (denm_indication r lat lon (header @ data)))"])
      (simp add: btp_data_indication_def btp_b_data_indication_def denm_indication_def make_indication_def
        denm_common_header_def ch_initialize_with_request_def Let_def initialize_with_gn_data_indication_def
        set_destination_port_and_info_def)
qed

lemma denm_handed_over:
  assumes "btpb_encode \<lparr>btpb_destination_port = 2002, btpb_destination_port_info = 0\<rparr> = Inr header"
    and "denm_sender (b_gn_router a) lat lon (header @ data)"
    and "denm_to_sign (b_gn_router a) lat lon (header @ data) = Inr q" "denm_good lib now s t q"
    and "r_sign_service (b_gn_router a) = Some srv" "\<And>n q. sign_denm srv n q = sv_sign_denm lib now q s"
  obtains bs message gn where "bh_encode (denm_basic_header (b_gn_router a)) = Inr bs"
    "sv_sign_denm lib now q s = Inr message"
    "btp_data_request (denm_btp_request lat lon data) a = (Inr (), a\<lparr>b_gn_router := gn\<rparr>)"
    "r_sent gn = r_sent (b_gn_router a) @ [bs @ message]"
proof -
  have sign: "sign_denm srv n = (\<lambda>q. sv_sign_denm lib now q s)" for n using assms(6) by auto
  obtain bs message gn where sent: "bh_encode (denm_basic_header (b_gn_router a)) = Inr bs"
      "sv_sign_denm lib now q s = Inr message"
      "gn_data_request (denm_gn_request lat lon (header @ data)) (b_gn_router a) = (Inr ACCEPTED, gn)"
      "r_sent gn = r_sent (b_gn_router a) @ [bs @ message]"
    by (rule signed_denms.denm_sent [OF assms(2-5) sign])
  have "btp_data_request (denm_btp_request lat lon data) a = (Inr (), a\<lparr>b_gn_router := gn\<rparr>)"
    using sent(3)
    by (simp add: btp_data_request_def assms(1) denm_gn_request_of_btp on_gn_router_def then_s_def bind_s_def)
  then show thesis using that sent by blast
qed

text \<open>
  C30: A signed notification from station to station. The notification service of a station inside the
  area hands a message to BTP; its router has it signed by the sign service and puts one packet on the
  air. A station inside the area whose verify service knows the ticket of the sender calls the callback
  of port 2002 once, with the message and the position of the sender.
\<close>

theorem secured_denm_end_to_end:
  assumes "btpb_encode \<lparr>btpb_destination_port = 2002, btpb_destination_port_info = 0\<rparr> = Inr header"
    and "denm_sender (b_gn_router a) lat lon (header @ data)"
    and "denm_to_sign (b_gn_router a) lat lon (header @ data) = Inr q" "denm_good lib now s t q"
    and "r_sign_service (b_gn_router a) = Some srv" "\<And>n q. sign_denm srv n q = sv_sign_denm lib now q s"
    and "r_verify_service (b_gn_router b) = Some v" "\<And>n m. v n m = fst (verify_message lib m t)"
    and "denm_hears (b_gn_router b) (b_gn_router a) lat lon"
    and "b_indication_callbacks b = Some callbacks" "dict_get callbacks 2002 = Some callback"
  shows "\<exists>a' p i b'. btp_data_request (denm_btp_request lat lon data) a = (Inr (), a')
    \<and> r_sent (b_gn_router a') = r_sent (b_gn_router a) @ [p]
    \<and> btp_receive p b = (callback (length (b_calls b)) i, b') \<and> b_calls b' = b_calls b @ [(2002, i)]
    \<and> bi_data i = data \<and> bi_gn_source_position_vector i = r_ego_position_vector (b_gn_router a)"
proof -
  have verify: "v n = (\<lambda>m. fst (verify_message lib m t))" for n using assms(8) by auto
  obtain bs message gn where sent: "bh_encode (denm_basic_header (b_gn_router a)) = Inr bs"
      "sv_sign_denm lib now q s = Inr message"
      "btp_data_request (denm_btp_request lat lon data) a = (Inr (), a\<lparr>b_gn_router := gn\<rparr>)"
      "r_sent gn = r_sent (b_gn_router a) @ [bs @ message]"
    by (rule denm_handed_over [OF assms(1-6)])
  obtain t' where received: "gn_data_indicate (bs @ message) (b_gn_router b) = (Inr (), t')"
      "r_indications t' = r_indications (b_gn_router b) @ [denm_indication (b_gn_router a) lat lon (header @ data)]"
    by (rule signed_denms.denm_received [OF assms(2-4) sent(1,2) assms(7) verify assms(9)])
  obtain i where i: "btp_data_indication (denm_indication (b_gn_router a) lat lon (header @ data)) (b\<lparr>b_gn_router := t'\<rparr>)
      = call_callback i (b\<lparr>b_gn_router := t'\<rparr>)" "bi_destination_port i = 2002" "bi_data i = data"
      "bi_gn_source_position_vector i = r_ego_position_vector (b_gn_router a)"
    using denm_indication_to_btp [OF assms(1)] by metis
  let ?b = "b\<lparr>b_gn_router := t', b_calls := b_calls b @ [(2002, i)]\<rparr>"
  have "btp_receive (bs @ message) b = (callback (length (b_calls b)) i, ?b)"
    using received i assms(10,11)
    by (cases "callback (length (b_calls b)) i")
      (simp_all add: btp_receive_def on_gn_router_def then_s_def bind_s_def call_callback_def)
  then show ?thesis
    using sent(3,4) i(3,4)
    by (intro exI [of _ "a\<lparr>b_gn_router := gn\<rparr>"] exI [of _ "bs @ message"] exI [of _ i] exI [of _ ?b]) simp
qed

end
