(* ===== verification/DenExample.thy ===== *)
theory DenExample
  imports SecuredDenm
begin

text \<open>
  Two stations at latitude and longitude 0. The first has a ticket and signs its notifications, the
  second knows the ticket. The codec of the notifications gives one byte.
\<close>

section \<open>Stations\<close>

definition signing_security :: security where
  "signing_security = toy_security\<lparr>sec_library := (sec_library toy_security)\<lparr>own_certificates := [(toy_digest, toy_ticket)]\<rparr>\<rparr>"

definition position_zero :: pyval where
  "position_zero = PDict [(''latitude'', PInt 0), (''longitude'', PInt 0)]"

definition hazard_request :: DENRequest where
  "hazard_request = default_DENRequest\<lparr>dr_time_period := 250, dr_event_position := Own position_zero\<rparr>"

text \<open>The bytes of a notification behind the BTP header, and what the router has signed for them.\<close>

definition hazard_payload :: bytes where
  "hazard_payload = projr (btpb_encode \<lparr>btpb_destination_port = 2002, btpb_destination_port_info = 0\<rparr>) @ [1]"

definition hazard_tbs :: SNSIGNRequest where
  "hazard_tbs = projr (denm_to_sign (station 1) 0 0 hazard_payload)"

definition hazard_envelope :: pyval where
  "hazard_envelope = signed_data (tbs_data 0 hazard_tbs (header_extra hazard_tbs))
     (PTuple [PStr ''certificate'', PList [c_certificate toy_ticket]]) (toy_signature 8)"

definition toy_sign_service :: sign_service where
  "toy_sign_service = \<lparr>sign_cam = (\<lambda>_ _. Inl NotImplementedError), sign_request = (\<lambda>_ _. Inl NotImplementedError),
     sign_denm = (\<lambda>_ q. sv_sign_denm (toy_lib hazard_envelope) 0 q signing_security)\<rparr>"

definition signing_station :: btp_router where
  "signing_station = btp_init ((station 1)\<lparr>r_sign_service := Some toy_sign_service\<rparr>)"

definition verifying_station :: btp_router where
  "verifying_station = freeze_callbacks (snd (register_indication_callback_btp 2002 (\<lambda>_ _. Inr ())
     (btp_init ((station 2)\<lparr>r_verify_service :=
       Some (\<lambda>_ m. fst (verify_message (toy_lib hazard_envelope) m toy_security))\<rparr>))))"

lemma stations [simp]:
  "b_gn_router signing_station = (station 1)\<lparr>r_sign_service := Some toy_sign_service\<rparr>"
  "b_indication_callbacks verifying_station = Some [(2002, \<lambda>_ _. Inr ())]" "b_calls verifying_station = []"
  "b_gn_router verifying_station = (station 2)\<lparr>r_verify_service :=
       Some (\<lambda>_ m. fst (verify_message (toy_lib hazard_envelope) m toy_security))\<rparr>"
  by (simp_all add: signing_station_def verifying_station_def freeze_callbacks_def btp_init_def
      register_indication_callback_btp_def)

section \<open>Hypotheses\<close>

lemma hazard_header:
  obtains header where "btpb_encode \<lparr>btpb_destination_port = 2002, btpb_destination_port_info = 0\<rparr> = Inr header"
    "hazard_payload = header @ [1]" "length header = 4"
  using denm_header_run that by (metis hazard_payload_def sum.sel(2))

lemma inside_zero: "inside_area GEOBROADCAST_CIRCLE (north_up (denm_area 0 0)) 0 0"
  using inside_centre [of "north_up (denm_area 0 0)"] by simp

lemma sender_ok: "denm_sender (station 1) 0 0 hazard_payload"
proof -
  obtain header where "hazard_payload = header @ [1]" "length header = 4" by (rule hazard_header)
  from this(1) have "length hazard_payload = Suc (length header)" by (metis length_append_singleton)
  with \<open>length header = 4\<close> have "length hazard_payload = 5" by simp
  then show ?thesis
    using inside_zero by (simp add: denm_sender_def denm_hop_limit_def ego_inside_def) (simp add: default_LongPositionVector_def)
qed

lemma other_router [simp]:
  "denm_sender (r\<lparr>r_sign_service := srv\<rparr>) lat lon payload = denm_sender r lat lon payload"
  "denm_to_sign (r\<lparr>r_sign_service := srv\<rparr>) lat lon payload = denm_to_sign r lat lon payload"
  "denm_hears t (r\<lparr>r_sign_service := srv\<rparr>) lat lon = denm_hears t r lat lon"
  "denm_hears (t\<lparr>r_verify_service := v\<rparr>) r lat lon = denm_hears t r lat lon"
  by (simp_all add: denm_sender_def denm_to_sign_def denm_hears_def denm_hop_limit_def ego_inside_def link_ok_def
      denm_common_header_def denm_extended_header_def)

lemma hazard_tbs_run:
  "denm_to_sign (station 1) 0 0 hazard_payload = Inr hazard_tbs" "sn_its_aid hazard_tbs = 37"
  "generation_location hazard_tbs = Some (0, 0, 0xF000)"
proof -
  obtain c g where run: "denm_to_sign (station 1) 0 0 hazard_payload = Inr (sn_sign_request (c @ g @ hazard_payload)
      (denm_gn_request 0 0 hazard_payload) (Some (0, 0, 0xF000)))"
    by (rule denm_to_sign_run [OF sender_ok]) (simp add: default_LongPositionVector_def)
  then show "denm_to_sign (station 1) 0 0 hazard_payload = Inr hazard_tbs" by (simp add: hazard_tbs_def)
  show "sn_its_aid hazard_tbs = 37" "generation_location hazard_tbs = Some (0, 0, 0xF000)"
    by (simp_all add: hazard_tbs_def run sn_sign_request_def)
qed

lemma hears_ok: "denm_hears (station 2) (station 1) 0 0"
  using inside_zero by (simp add: denm_hears_def link_ok_def ego_inside_def seen_sn_def)
    (simp add: default_LongPositionVector_def)

lemma toy_message_signed:
  "sv_sign_denm (toy_lib hazard_envelope) 0 hazard_tbs signing_security = Inr [1]"
  "present_ticket 37 signing_security = Inr toy_ticket"
proof -
  have "get_list_of_its_aid toy_ticket = Inr [PInt 36, PInt 37]"
    by (simp add: get_list_of_its_aid_def psids_def tbs_of_def toy_ticket_def toy_subject_def)
  then show ticket: "present_ticket 37 signing_security = Inr toy_ticket"
    by (simp add: present_ticket_def get_present_at_for_signging_def signing_security_def py_in_def)
  have "sign_message (toy_lib hazard_envelope) toy_keys toy_ticket [] = Inr (toy_signature 8)"
    by (simp add: sign_message_def own_key_def toy_ticket_def sign_def toy_keys_def dict_simps toy_lib_def
        signature_value_def to_bytes_def toy_signature_def del: be_bytes.simps)
  moreover have "hazard_envelope = signed_data (tbs_data 0 hazard_tbs [(''generationLocation'', location_dict (0, 0, 0xF000))])
      (PTuple [PStr ''certificate'', PList [c_certificate toy_ticket]]) (toy_signature 8)"
    by (simp add: hazard_envelope_def header_extra_def hazard_tbs_run)
  ultimately show "sv_sign_denm (toy_lib hazard_envelope) 0 hazard_tbs signing_security = Inr [1]"
    using ticket
    by (simp add: sv_sign_denm_def hazard_tbs_run seal_def encode_to_be_signed_data_def toy_encode
        signing_security_def toy_security_def sign_service_init_def encode_etsi_ts_103097_data_signed_def)
qed

lemma toy_good: "denm_good (toy_lib hazard_envelope) 0 signing_security toy_security hazard_tbs"
proof -
  have "sec_backend signing_security = toy_keys"
    by (simp add: signing_security_def toy_security_def sign_service_init_def)
  moreover have "decode_etsi_ts_103097_data_signed (toy_lib hazard_envelope) [1] = Inr d"
    if "encode_etsi_ts_103097_data_signed (toy_lib hazard_envelope) d = Inr [1]" for d
    using that by (simp add: encode_etsi_ts_103097_data_signed_def decode_etsi_ts_103097_data_signed_def toy_lib_def split: if_splits)
  ultimately show ?thesis
    unfolding denm_good_def hazard_tbs_run Let_def
    using toy_message_signed toy_holds_key(2) toy_ticket_known by (metis option.discI)
qed

lemma toy_signs: "sign_denm toy_sign_service n q = sv_sign_denm (toy_lib hazard_envelope) 0 q signing_security"
  by (simp add: toy_sign_service_def)

section \<open>The properties at the example\<close>

theorem secured_denm_end_to_end_witness:
  "\<exists>a' p i b'. btp_data_request (denm_btp_request 0 0 [1]) signing_station = (Inr (), a') \<and> r_sent (b_gn_router a') = [p]
    \<and> btp_receive p verifying_station = (Inr (), b') \<and> b_calls b' = [(2002, i)] \<and> bi_data i = [1]"
proof -
  obtain header where header: "btpb_encode \<lparr>btpb_destination_port = 2002, btpb_destination_port_info = 0\<rparr> = Inr header"
    "hazard_payload = header @ [1]"
    by (rule hazard_header)
  have run: "denm_sender (b_gn_router signing_station) 0 0 (header @ [1])"
    "denm_to_sign (b_gn_router signing_station) 0 0 (header @ [1]) = Inr hazard_tbs"
    "denm_hears (b_gn_router verifying_station) (b_gn_router signing_station) 0 0"
    using sender_ok hazard_tbs_run(1) hears_ok by (simp_all add: header(2))
  show ?thesis
    using secured_denm_end_to_end [OF header(1) run(1,2) toy_good _ toy_signs _ _ run(3), of
      "\<lambda>_ m. fst (verify_message (toy_lib hazard_envelope) m toy_security)" "[(2002, \<lambda>_ _. Inr ())]" "\<lambda>_ _. Inr ()"]
    by (simp add: dict_simps) blast
qed

text \<open>A station that repeats one request, at the router of a station that signs or of one that does not.\<close>

definition hazard_station :: "btp_router \<Rightarrow> den_station" where
  "hazard_station b = request_denm_sending hazard_request (den_init b default_VehicleData (\<lambda>_. Inr [1]) 10000)"

lemma hazard_station_simps [simp]:
  "den_threads (hazard_station b) = [(hazard_request, Running 0)]" "den_btp_router (hazard_station b) = b"
  "den_transmitted (hazard_station b) = []" "den_encode (hazard_station b) = (\<lambda>_. Inr [1])"
  "position_of (hazard_station b) hazard_request = position_zero"
  by (simp_all add: hazard_station_def request_denm_sending_def den_init_def position_of_def hazard_request_def)

lemma hazard_request_simps [simp]:
  "dr_time_period hazard_request = 250" "dr_denm_interval hazard_request = 100"
  by (simp_all add: hazard_request_def default_DENRequest_def)

lemma hazard_reachable: "den_reachable (hazard_station b)"
  unfolding hazard_station_def by (rule den_reachable.step [OF den_reachable.init den_step.start])

lemma position_zero_fields:
  "py_item position_zero ''latitude'' = Inr (PInt 0)" "py_item position_zero ''longitude'' = Inr (PInt 0)"
  by (simp_all add: position_zero_def)

lemma denm_repetition_witness:
  "repetitions hazard_request = 3 \<and> ((\<exists>b. thread_turn 0 (hazard_station signing_station)
      = set_status 0 (Running 100) ((hazard_station signing_station)\<lparr>den_btp_router := b,
          den_transmitted := [sent_message 0 hazard_request (hazard_station signing_station)]\<rparr>))
    \<or> (\<exists>b e. thread_turn 0 (hazard_station signing_station)
      = set_status 0 (Died e) ((hazard_station signing_station)\<lparr>den_btp_router := b\<rparr>)))"
proof -
  have three: "repetitions hazard_request = 3" by (simp add: repetitions_def)
  show ?thesis
    using denm_repetition [OF hazard_reachable, of 0 signing_station hazard_request "Running 0"] three
    by (simp add: sent_by_def)
qed

lemma hazard_turn:
  "den_transmitted (thread_turn 0 (hazard_station signing_station))
    = [sent_message 0 hazard_request (hazard_station signing_station)]"
proof -
  let ?s = "hazard_station signing_station"
  let ?m = "hazard_dict (den_vehicle_data ?s) (den_time ?s) hazard_request position_zero"
  obtain header where header: "btpb_encode \<lparr>btpb_destination_port = 2002, btpb_destination_port_info = 0\<rparr> = Inr header"
    "hazard_payload = header @ [1]"
    by (rule hazard_header)
  obtain b where b: "btp_data_request (denm_btp_request 0 0 [1]) signing_station = (Inr (), b)"
    using denm_handed_over [OF header(1) _ _ toy_good _ toy_signs, of signing_station 0 0 "[1]"]
      sender_ok hazard_tbs_run(1)
    by (auto simp: header(2))
  have "py_path (management ''eventPosition'' @ [Key ''latitude'']) ?m = Inr (PInt 0)"
    "py_path (management ''eventPosition'' @ [Key ''longitude'']) ?m = Inr (PInt 0)"
    using position_zero_fields by (simp_all add: hazard_dict_def management_container_def management_def)
  moreover have "denm_log_arguments ?m = Inr ()" by (rule denm_fields(4) [OF disjI1 [OF refl]])
  ultimately show ?thesis
    using b by (simp add: thread_turn_def repeat_denm_def hazard_denm_run transmit_denm_def den_on_btp_def then_s_def
      bind_s_def remember_denm_def set_status_def)
qed

theorem every_denm_cancels_event_zero_witness:
  "\<exists>x m. den_transmitted (thread_turn 0 (hazard_station signing_station)) = [(x, m)]
    \<and> py_path [Key ''denm'', Key ''management'', Key ''termination''] m = Inr (PStr ''isCancellation'')"
proof -
  have "den_reachable (thread_turn 0 (hazard_station signing_station))"
    by (rule den_reachable.step [OF hazard_reachable den_step.turn])
  from every_denm_cancels_event_zero [OF this, of "Some 0"] show ?thesis by (simp add: hazard_turn)
qed

theorem denm_needs_security_witness:
  "\<exists>b. thread_turn 0 (hazard_station (btp_init (station 1)))
      = set_status 0 (Died NotImplementedError) ((hazard_station (btp_init (station 1)))\<lparr>den_btp_router := b\<rparr>)
    \<and> r_sent (b_gn_router b) = []"
proof -
  have "r_sign_service (b_gn_router (btp_init (station 1))) = None" "b_gn_router (btp_init (station 1)) = station 1"
    by (simp_all add: btp_init_def station_def router_init_def setup_gn_address_def Let_def
        register_indication_callback_def set_link_layer_def)
  then show ?thesis
    using denm_needs_security [of 0 "hazard_station (btp_init (station 1))" hazard_request 0 "[1]" 0 0] position_zero_fields
    by simp
qed

end
