(* ===== verification/PkiClient.thy ===== *)
theory PkiClient
  imports SecIssuance SecSigning
begin

text \<open>
  The client of the public key infrastructure (\<open>src/flexstack/security/pki_client/\<close>): the encryption of
  requests (\<open>crypto.py\<close>), enrolment (\<open>enrolment.py\<close>), authorisation (\<open>authorization.py\<close>) and the client
  that runs both and keeps the results in files (\<open>client.py\<close>). The codec with the types of
  TS 102 941 (\<open>pki_coder.py\<close>), the packages \<open>cryptography\<close>, \<open>ecdsa\<close> and \<open>httpx\<close>, the random generator, the
  clock and the file system are parameters.
\<close>

section \<open>Libraries and state\<close>

text \<open>
  \<open>kx_generate\<close> is the secret of an ephemeral key, \<open>kx_exchange\<close> the shared x-coordinate,
  \<open>kx_compressed\<close> and \<open>kx_from_encoded\<close> write and read points. Random draws, readings of the clock and HTTP
  requests are numbered. \<open>http_post\<close> gives the status and the body of the response.
\<close>

record pki_lib =
  pl_sec :: sec_lib
  pki_encode :: "string \<Rightarrow> pyval \<Rightarrow> bytes result"
  pki_decode :: "string \<Rightarrow> bytes \<Rightarrow> pyval result"
  pki_time :: "nat \<Rightarrow> real"
  pki_urandom :: "nat \<Rightarrow> nat \<Rightarrow> bytes"
  kx_generate :: "nat \<Rightarrow> int"
  kx_public :: "int \<Rightarrow> int \<times> int"
  kx_exchange :: "int \<Rightarrow> int \<times> int \<Rightarrow> bytes"
  kx_compressed :: "int \<times> int \<Rightarrow> bytes"
  kx_from_encoded :: "bytes \<Rightarrow> (int \<times> int) result"
  ccm_encrypt :: "bytes \<Rightarrow> bytes \<Rightarrow> bytes \<Rightarrow> bytes result"
  ccm_decrypt :: "bytes \<Rightarrow> bytes \<Rightarrow> bytes \<Rightarrow> bytes result"
  hmac_sha256 :: "bytes \<Rightarrow> bytes \<Rightarrow> bytes"
  http_post :: "nat \<Rightarrow> string \<Rightarrow> bytes \<Rightarrow> (int \<times> bytes) result"
  to_pem :: "int \<Rightarrow> bytes"
  from_pem :: "bytes \<Rightarrow> int result"
  fs_error :: "string \<Rightarrow> py_error option"

text \<open>The key store, and how often the clock, the random generator and the network were used.\<close>

record pki_env =
  pe_keys :: backend
  pe_clock :: nat
  pe_random :: nat
  pe_requests :: "(string \<times> bytes) list"

definition on_keys :: "(backend, 'a) prog \<Rightarrow> (pki_env, 'a) prog" where
  "on_keys p s = (let (r, keys) = p (pe_keys s) in (r, s\<lparr>pe_keys := keys\<rparr>))"

definition with_keys :: "(backend \<Rightarrow> 'a result) \<Rightarrow> (pki_env, 'a) prog" where
  "with_keys f = bind_s (gets_s (\<lambda>s. f (pe_keys s))) lift_s"

definition os_urandom :: "pki_lib \<Rightarrow> nat \<Rightarrow> (pki_env, bytes) prog" where
  "os_urandom lib n s = (Inr (pki_urandom lib (pe_random s) n), s\<lparr>pe_random := Suc (pe_random s)\<rparr>)"

definition generate_private_key :: "pki_lib \<Rightarrow> (pki_env, int) prog" where
  "generate_private_key lib s = (Inr (kx_generate lib (pe_random s)), s\<lparr>pe_random := Suc (pe_random s)\<rparr>)"

definition now_time32 :: "pki_lib \<Rightarrow> (pki_env, int) prog" where
  "now_time32 lib s = (Inr (py_int (pki_time lib (pe_clock s)) - 1072915200), s\<lparr>pe_clock := Suc (pe_clock s)\<rparr>)"

text \<open>\<open>try: r except Exception: raise e\<close>.\<close>

definition or_raise :: "py_error \<Rightarrow> 'a result \<Rightarrow> 'a result" where
  "or_raise e r = (case r of Inl _ \<Rightarrow> Inl e | Inr x \<Rightarrow> Inr x)"

section \<open>Keys in files\<close>

definition export_signing_key :: "pki_lib \<Rightarrow> backend \<Rightarrow> int \<Rightarrow> bytes result" where
  "export_signing_key lib keys identifier =
     rbind (get_key (dict_get keys identifier)) (\<lambda>secret. Inr (to_pem lib secret))"

definition import_signing_key :: "pki_lib \<Rightarrow> bytes \<Rightarrow> (backend, int) prog" where
  "import_signing_key lib key_pem keys =
     (case from_pem lib key_pem of
        Inl e \<Rightarrow> (Inl e, keys)
      | Inr secret \<Rightarrow>
          let identifier = int (length keys) in (Inr identifier, dict_set identifier secret keys))"

section \<open>Encryption\<close>

text \<open>\<open>k_enc\<close> and \<open>k_mac\<close>.\<close>

definition kdf2 :: "pki_lib \<Rightarrow> bytes \<Rightarrow> bytes \<Rightarrow> bytes \<times> bytes" where
  "kdf2 lib shared_x recipient_cert_coer =
     (let p1 = sha256 (pl_sec lib) recipient_cert_coer;
          h1 = sha256 (pl_sec lib) (shared_x @ [0, 0, 0, 1] @ p1);
          h2 = sha256 (pl_sec lib) (shared_x @ [0, 0, 0, 2] @ p1);
          combined = h1 @ h2
      in (take 16 combined, slice 16 48 combined))"

definition compress_public_key :: "pki_lib \<Rightarrow> int \<times> int \<Rightarrow> pyval result" where
  "compress_public_key lib pub =
     (case kx_compressed lib pub of
        [] \<Rightarrow> Inl IndexError
      | prefix # x_bytes \<Rightarrow>
          Inr (PTuple [PStr (if prefix = 2 then ''compressed-y-0'' else ''compressed-y-1''), PBytes x_bytes]))"

definition public_key_from_tuple :: "pki_lib \<Rightarrow> pyval \<Rightarrow> (int \<times> int) result" where
  "public_key_from_tuple lib pk_tuple =
     rbind (unpack2 pk_tuple) (\<lambda>(outer, inner). rbind (unpack2 inner) (\<lambda>(point_type, point_val).
     if point_type = PStr ''compressed-y-0'' \<or> point_type = PStr ''compressed-y-1'' then
       rbind (as_bytes point_val) (\<lambda>x.
       kx_from_encoded lib ((if point_type = PStr ''compressed-y-0'' then 2 else 3) # x))
     else if point_type = PStr ''uncompressedP256'' then
       rbind (py_item point_val ''x'') (\<lambda>x. rbind (py_item point_val ''y'') (\<lambda>y.
       rbind (as_bytes x) (\<lambda>x'. rbind (as_bytes y) (\<lambda>y'. kx_from_encoded lib (4 # x' @ y')))))
     else Inl ValueError))"

definition xor_bytes :: "bytes \<Rightarrow> bytes \<Rightarrow> bytes" where
  "xor_bytes xs ys = map (\<lambda>(a, b). a XOR b) (zip xs ys)"

text \<open>What one encryption gives: two dictionaries, the session key and its identifier.\<close>

record ecies_output =
  eo_key :: pyval
  eo_ccm :: pyval
  eo_session_key :: bytes
  eo_session_id :: bytes

definition ecies_encrypt :: "pki_lib \<Rightarrow> bytes \<Rightarrow> pyval \<Rightarrow> bytes \<Rightarrow> (pki_env, ecies_output) prog" where
  "ecies_encrypt lib plaintext recipient_enc_key_tuple recipient_cert_coer =
     bind_s (lift_s (public_key_from_tuple lib recipient_enc_key_tuple)) (\<lambda>recipient_pub.
     bind_s (generate_private_key lib) (\<lambda>ephemeral_priv.
     let (k_enc, k_mac) = kdf2 lib (kx_exchange lib ephemeral_priv recipient_pub) recipient_cert_coer in
     bind_s (os_urandom lib 16) (\<lambda>session_key.
     bind_s (os_urandom lib 12) (\<lambda>nonce.
     let c = xor_bytes session_key k_enc;
         t = take 16 (hmac_sha256 lib k_mac c) in
     bind_s (lift_s (ccm_encrypt lib session_key nonce plaintext)) (\<lambda>ciphertext.
     bind_s (lift_s (compress_public_key lib (kx_public lib ephemeral_priv))) (\<lambda>v.
     return_s \<lparr>eo_key = PDict [(''v'', v), (''c'', PBytes c), (''t'', PBytes t)],
       eo_ccm = PDict [(''nonce'', PBytes nonce), (''ccmCiphertext'', PBytes ciphertext)],
       eo_session_key = session_key, eo_session_id = last_bytes 8 (sha256 (pl_sec lib) session_key)\<rparr>))))))"

definition psk_decrypt :: "pki_lib \<Rightarrow> bytes \<Rightarrow> pyval \<Rightarrow> bytes result" where
  "psk_decrypt lib session_key aes_ccm_dict =
     rbind (rbind (py_item aes_ccm_dict ''nonce'') as_bytes) (\<lambda>nonce.
     rbind (rbind (py_item aes_ccm_dict ''ccmCiphertext'') as_bytes) (\<lambda>ciphertext.
     ccm_decrypt lib session_key nonce ciphertext))"

definition compute_hmac_key_tag :: "pki_lib \<Rightarrow> bytes \<Rightarrow> bytes \<Rightarrow> bytes" where
  "compute_hmac_key_tag lib hmac_key public_keys_coer = take 16 (hmac_sha256 lib hmac_key public_keys_coer)"

section \<open>The coder\<close>

definition encode_ieee1609dot2_data :: "pki_lib \<Rightarrow> pyval \<Rightarrow> bytes result" where
  "encode_ieee1609dot2_data lib = pki_encode lib ''Ieee1609Dot2Data''"

definition decode_ieee1609dot2_data :: "pki_lib \<Rightarrow> bytes \<Rightarrow> pyval result" where
  "decode_ieee1609dot2_data lib = pki_decode lib ''Ieee1609Dot2Data''"

definition encode_etsi102941_data :: "pki_lib \<Rightarrow> string \<Rightarrow> pyval \<Rightarrow> bytes result" where
  "encode_etsi102941_data lib content_choice content_value =
     pki_encode lib ''EtsiTs102941Data''
       (PDict [(''version'', PInt 1), (''content'', PTuple [PStr content_choice, content_value])])"

definition decode_etsi102941_data :: "pki_lib \<Rightarrow> bytes \<Rightarrow> pyval result" where
  "decode_etsi102941_data lib = pki_decode lib ''EtsiTs102941Data''"

definition encode_shared_at_request :: "pki_lib \<Rightarrow> pyval \<Rightarrow> bytes result" where
  "encode_shared_at_request lib = pki_encode lib ''SharedAtRequest''"

definition encode_public_keys :: "pki_lib \<Rightarrow> pyval \<Rightarrow> bytes result" where
  "encode_public_keys lib = pki_encode lib ''PublicKeys''"

definition pki_decode_certificate :: "pki_lib \<Rightarrow> bytes \<Rightarrow> pyval result" where
  "pki_decode_certificate lib = pki_decode lib ''EtsiTs103097Certificate''"

section \<open>Requests\<close>

definition certificate_request_permissions :: pyval where
  "certificate_request_permissions = PList [PDict
     [(''psid'', PInt 623), (''ssp'', PTuple [PStr ''opaque'', PBytes [1, 0xC0]])]]"

definition subject_attributes :: "int \<Rightarrow> string \<Rightarrow> int \<Rightarrow> pyval \<Rightarrow> pyval" where
  "subject_attributes start_time unit amount app_permissions = PDict
     [(''validityPeriod'', PDict [(''start'', PInt start_time), (''duration'', PTuple [PStr unit, PInt amount])]),
      (''appPermissions'', app_permissions)]"

text \<open>What is signed: a payload, the number of certificate requests and a time in microseconds.\<close>

definition pki_tbs_data :: "bytes \<Rightarrow> int \<Rightarrow> pyval" where
  "pki_tbs_data payload gen_time_us = PDict
     [(''payload'', PDict [(''data'', PDict [(''protocolVersion'', PInt 3),
         (''content'', PTuple [PStr ''unsecuredData'', PBytes payload])])]),
      (''headerInfo'', PDict [(''psid'', PInt 623), (''generationTime'', PInt gen_time_us)])]"

definition signed_request ::
    "pki_lib \<Rightarrow> Certificate \<Rightarrow> pyval \<Rightarrow> bytes \<Rightarrow> int \<Rightarrow> backend \<Rightarrow> bytes result" where
  "signed_request lib own signer payload gen_time_us keys =
     (let tbs = pki_tbs_data payload gen_time_us in
     rbind (pki_encode lib ''ToBeSignedData'' tbs) (\<lambda>tbs_bytes.
     rbind (sign_message (pl_sec lib) keys own tbs_bytes) (\<lambda>signature.
     encode_ieee1609dot2_data lib (signed_data tbs signer signature))))"

definition certificate_signer :: "Certificate \<Rightarrow> pyval" where
  "certificate_signer c = PTuple [PStr ''certificate'', PList [c_certificate c]]"

text \<open>The public encryption key of an authority and the encoding of its certificate.\<close>

definition extract_enc_info :: "pki_lib \<Rightarrow> py_error \<Rightarrow> Certificate \<Rightarrow> (pyval \<times> bytes) result" where
  "extract_enc_info lib no_key c =
     rbind (py_get (c_certificate c) ''toBeSigned'' (PDict [])) (\<lambda>tbs.
     rbind (py_get tbs ''encryptionKey'' PNone) (\<lambda>enc_key.
     if is_none enc_key then Inl no_key
     else
       rbind (py_item enc_key ''publicKey'') (\<lambda>k.
       rbind (certificate_encode (pl_sec lib) c) (\<lambda>coer. Inr (k, coer)))))"

definition encrypted_data :: "bytes \<Rightarrow> pyval \<Rightarrow> pyval \<Rightarrow> pyval" where
  "encrypted_data recipient_id ecies_key aes_ccm = PDict
     [(''protocolVersion'', PInt 3),
      (''content'', PTuple [PStr ''encryptedData'', PDict
        [(''recipients'', PList [PTuple [PStr ''certRecipInfo'', PDict
            [(''recipientId'', PBytes recipient_id),
             (''encKey'', PTuple [PStr ''eciesNistP256'', ecies_key])]]]),
         (''ciphertext'', PTuple [PStr ''aes128ccm'', aes_ccm])]])]"

definition encrypt_for ::
    "pki_lib \<Rightarrow> py_error \<Rightarrow> Certificate \<Rightarrow> bytes \<Rightarrow> (pki_env, pyval \<times> ecies_output) prog" where
  "encrypt_for lib no_key authority plaintext =
     bind_s (lift_s (extract_enc_info lib no_key authority)) (\<lambda>(enc_key, cert_coer).
     bind_s (ecies_encrypt lib plaintext enc_key cert_coer) (\<lambda>out.
     bind_s (lift_s (as_hashedid8 (pl_sec lib) authority)) (\<lambda>h.
     return_s (encrypted_data h (eo_key out) (eo_ccm out), out))))"

text \<open>\<open>url.rstrip('/') + path\<close>.\<close>

definition with_path :: "string \<Rightarrow> string \<Rightarrow> string" where
  "with_path url path = rev (dropWhile (\<lambda>c. c = CHR ''/'') (rev url)) @ path"

definition post_request :: "pki_lib \<Rightarrow> py_error \<Rightarrow> string \<Rightarrow> bytes \<Rightarrow> (pki_env, bytes) prog" where
  "post_request lib http_error url request =
     bind_s (gets_s (\<lambda>s. http_post lib (length (pe_requests s)) url request)) (\<lambda>r.
     then_s (modify_s (\<lambda>s. s\<lparr>pe_requests := pe_requests s @ [(url, request)]\<rparr>))
     (bind_s (lift_s r) (\<lambda>(status, body).
     if status = 200 then return_s body else raise_s http_error)))"

section \<open>Responses\<close>

text \<open>Whether one of the recipients is a session key, and which.\<close>

fun has_psk :: "(pyval \<Rightarrow> bool) \<Rightarrow> pyval list \<Rightarrow> bool result" where
  "has_psk P [] = Inr False"
| "has_psk P (r # rs) =
     rbind (unpack2 r) (\<lambda>(recip_choice, recip_value).
     if recip_choice = PStr ''pskRecipInfo'' \<and> P recip_value then Inr True else has_psk P rs)"

definition find_psk :: "py_error \<Rightarrow> bytes \<Rightarrow> pyval \<Rightarrow> unit result" where
  "find_psk missing session_id recipients =
     rbind (py_list recipients) (\<lambda>rs.
     rbind (has_psk (\<lambda>v. v = PBytes session_id) rs) (\<lambda>found.
     rbind (if found then Inr True else has_psk (\<lambda>v. True) rs) (\<lambda>found'.
     if found' then Inr () else Inl missing)))"

text \<open>\<open>d.get("content", ("", {}))\<close>, taken apart.\<close>

definition content_of :: "pyval \<Rightarrow> (pyval \<times> pyval) result" where
  "content_of d = rbind (py_get d ''content'' (PTuple [PStr [], PDict []])) unpack2"

definition ec_decrypt_psk_response :: "pki_lib \<Rightarrow> bytes \<Rightarrow> bytes \<Rightarrow> bytes \<Rightarrow> bytes result" where
  "ec_decrypt_psk_response lib resp_bytes session_key session_id =
     rbind (or_raise (EnrolmentError ''cantparse'') (decode_ieee1609dot2_data lib resp_bytes)) (\<lambda>outer_resp.
     rbind (content_of outer_resp) (\<lambda>(content_choice, content_value).
     if content_choice \<noteq> PStr ''encryptedData'' then Inl (EnrolmentError ''badcontenttype'')
     else
       rbind (py_get content_value ''recipients'' (PList [])) (\<lambda>recipients.
       rbind (rbind (py_get content_value ''ciphertext'' (PTuple [PStr [], PDict []])) unpack2) (\<lambda>(_, aes_ccm_dict).
       rbind (find_psk (EnrolmentError ''badcontenttype'') session_id recipients) (\<lambda>_.
       or_raise (EnrolmentError ''decryptionfailed'') (psk_decrypt lib session_key aes_ccm_dict))))))"

text \<open>\<open>tbs_data.get("payload", {}).get("data", ...).get("content", ...)\<close>, taken apart.\<close>

definition payload_of :: "pyval \<Rightarrow> (pyval \<times> pyval) result" where
  "payload_of inner_data =
     (let empty = PTuple [PStr [], PBytes []] in
     rbind (py_get inner_data ''tbsData'' (PDict [])) (\<lambda>tbs.
     rbind (py_get tbs ''payload'' (PDict [])) (\<lambda>payload.
     rbind (py_get payload ''data'' (PDict [(''content'', empty)])) (\<lambda>d.
     rbind (py_get d ''content'' empty) unpack2))))"

definition decode_enrolment_response :: "pki_lib \<Rightarrow> bytes \<Rightarrow> pyval result" where
  "decode_enrolment_response lib inner_signed_bytes =
     rbind (or_raise (EnrolmentError ''cantparse'') (decode_ieee1609dot2_data lib inner_signed_bytes)) (\<lambda>inner_signed.
     rbind (content_of inner_signed) (\<lambda>(content_choice, inner_data).
     if content_choice \<noteq> PStr ''signedData'' then Inl (EnrolmentError ''badcontenttype'')
     else
       rbind (payload_of inner_data) (\<lambda>(payload_choice, payload_value).
       if payload_choice \<noteq> PStr ''unsecuredData'' then Inl (EnrolmentError ''badcontenttype'')
       else
         rbind (or_raise (EnrolmentError ''cantparse'') (rbind (as_bytes payload_value) (decode_etsi102941_data lib))) (\<lambda>etsi_data.
         rbind (content_of etsi_data) (\<lambda>(etsi_choice, etsi_value).
         if etsi_choice \<noteq> PStr ''enrolmentResponse'' then Inl (EnrolmentError ''badcontenttype'')
         else Inr etsi_value)))))"

definition at_decrypt_psk_response :: "pki_lib \<Rightarrow> bytes \<Rightarrow> bytes \<Rightarrow> bytes \<Rightarrow> bytes result" where
  "at_decrypt_psk_response lib resp_bytes session_key session_id =
     rbind (or_raise (AuthorizationError ''cantparse'') (decode_ieee1609dot2_data lib resp_bytes)) (\<lambda>outer_resp.
     rbind (content_of outer_resp) (\<lambda>(content_choice, content_value).
     if content_choice \<noteq> PStr ''encryptedData'' then Inl (AuthorizationError ''badcontenttype'')
     else
       rbind (py_get content_value ''recipients'' (PList [])) (\<lambda>recipients.
       rbind (find_psk (AuthorizationError ''badcontenttype'') session_id recipients) (\<lambda>_.
       rbind (rbind (py_get content_value ''ciphertext'' (PTuple [PStr [], PDict []])) unpack2) (\<lambda>(_, aes_ccm_dict).
       or_raise (AuthorizationError ''decryptionfailed'') (psk_decrypt lib session_key aes_ccm_dict))))))"

definition decode_authorization_response :: "pki_lib \<Rightarrow> bytes \<Rightarrow> pyval result" where
  "decode_authorization_response lib inner_signed_bytes =
     rbind (or_raise (AuthorizationError ''cantparse'') (decode_ieee1609dot2_data lib inner_signed_bytes)) (\<lambda>inner_signed.
     rbind (content_of inner_signed) (\<lambda>(content_choice, inner_data).
     if content_choice \<noteq> PStr ''signedData'' then Inl (AuthorizationError ''badcontenttype'')
     else
       rbind (payload_of inner_data) (\<lambda>(_, payload_data).
       rbind (or_raise (AuthorizationError ''cantparse'') (rbind (as_bytes payload_data) (decode_etsi102941_data lib))) (\<lambda>etsi_data.
       rbind (content_of etsi_data) (\<lambda>(etsi_choice, etsi_value).
       if etsi_choice \<noteq> PStr ''authorizationResponse'' then Inl (AuthorizationError ''badcontenttype'')
       else Inr etsi_value)))))"

text \<open>The certificate in a response whose code is 0 or ok.\<close>

definition accepted_certificate :: "(string \<Rightarrow> py_error) \<Rightarrow> pyval \<Rightarrow> pyval result" where
  "accepted_certificate rejected response =
     rbind (py_get response ''responseCode'' PNone) (\<lambda>response_code.
     if py_canon response_code \<in> {PInt 0, PStr ''ok''} then py_item response ''certificate''
     else Inl (rejected (py_str response_code)))"

text \<open>The issued certificate with the new key; its digest is logged.\<close>

definition own_certificate :: "pki_lib \<Rightarrow> pyval \<Rightarrow> Certificate \<Rightarrow> int \<Rightarrow> Certificate result" where
  "own_certificate lib d issuer key_id =
     (let own = Certificate d (Some issuer) (Some key_id) in
     rbind (as_hashedid8 (pl_sec lib) own) (\<lambda>_. Inr own))"

section \<open>Enrolment\<close>

definition inner_ec_request :: "bytes \<Rightarrow> pyval \<Rightarrow> int \<Rightarrow> int \<Rightarrow> pyval \<Rightarrow> pyval" where
  "inner_ec_request its_id new_verify_key start_time validity_years app_permissions = PDict
     [(''itsId'', PBytes its_id), (''certificateFormat'', PInt 1),
      (''publicKeys'', PDict [(''verificationKey'', new_verify_key)]),
      (''requestedSubjectAttributes'', subject_attributes start_time ''years'' validity_years app_permissions)]"

text \<open>Steps 1 to 6: the new key, the request and the session key.\<close>

definition build_enrolment ::
    "pki_lib \<Rightarrow> Certificate \<Rightarrow> Certificate \<Rightarrow> bytes \<Rightarrow> pyval \<Rightarrow> int \<Rightarrow> (pki_env, int \<times> bytes \<times> ecies_output) prog" where
  "build_enrolment lib ea_cert signer_cert its_id app_permissions validity_years =
     bind_s (on_keys (create_key (pl_sec lib))) (\<lambda>ec_key_id.
     bind_s (with_keys (\<lambda>keys. get_public_key (pl_sec lib) keys ec_key_id)) (\<lambda>new_verify_key.
     bind_s (now_time32 lib) (\<lambda>start_time.
     bind_s (lift_s (encode_etsi102941_data lib ''enrolmentRequest''
       (inner_ec_request its_id new_verify_key start_time validity_years app_permissions))) (\<lambda>payload.
     bind_s (with_keys (signed_request lib signer_cert (certificate_signer signer_cert) payload (start_time * 1000000))) (\<lambda>signed_bytes.
     bind_s (encrypt_for lib (EnrolmentError ''invalidea'') ea_cert signed_bytes) (\<lambda>(outer, out).
     bind_s (lift_s (encode_ieee1609dot2_data lib outer)) (\<lambda>request_bytes.
     return_s (ec_key_id, request_bytes, out))))))))"

definition enroll ::
    "pki_lib \<Rightarrow> string \<Rightarrow> Certificate \<Rightarrow> Certificate \<Rightarrow> bytes \<Rightarrow> pyval option \<Rightarrow> int \<Rightarrow> (pki_env, Certificate) prog" where
  "enroll lib ea_url ea_cert signer_cert its_id requested_app_permissions validity_years =
     bind_s (build_enrolment lib ea_cert signer_cert its_id
       (case requested_app_permissions of None \<Rightarrow> certificate_request_permissions | Some p \<Rightarrow> p) validity_years)
       (\<lambda>(ec_key_id, request_bytes, out).
     bind_s (post_request lib (EnrolmentError ''http_error'') (with_path ea_url ''/ea/v1/enrolment'') request_bytes) (\<lambda>content.
     lift_s (rbind (ec_decrypt_psk_response lib content (eo_session_key out) (eo_session_id out)) (\<lambda>inner_signed_bytes.
       rbind (decode_enrolment_response lib inner_signed_bytes) (\<lambda>response.
       rbind (accepted_certificate EnrolmentError response) (\<lambda>d.
       own_certificate lib d ea_cert ec_key_id))))))"

section \<open>Authorisation\<close>

definition default_ticket_permissions :: pyval where
  "default_ticket_permissions = PList [PDict [(''psid'', PInt 36)], PDict [(''psid'', PInt 37)]]"

definition shared_at_request :: "bytes \<Rightarrow> bytes \<Rightarrow> int \<Rightarrow> int \<Rightarrow> pyval \<Rightarrow> pyval" where
  "shared_at_request ea_id key_tag start_time validity_hours app_permissions = PDict
     [(''eaId'', PBytes ea_id), (''keyTag'', PBytes key_tag), (''certificateFormat'', PInt 1),
      (''requestedSubjectAttributes'', subject_attributes start_time ''hours'' validity_hours app_permissions)]"

definition build_ec_signature ::
    "pki_lib \<Rightarrow> pyval \<Rightarrow> Certificate \<Rightarrow> Certificate \<Rightarrow> int \<Rightarrow> (pki_env, pyval) prog" where
  "build_ec_signature lib shared_request ec_own ea_cert gen_time_us =
     bind_s (lift_s (encode_shared_at_request lib shared_request)) (\<lambda>shared_at_coer.
     bind_s (with_keys (\<lambda>keys.
       let tbs = pki_tbs_data shared_at_coer gen_time_us in
       rbind (pki_encode lib ''ToBeSignedData'' tbs) (\<lambda>tbs_bytes.
       rbind (sign_message (pl_sec lib) keys ec_own tbs_bytes) (\<lambda>signature.
       rbind (as_hashedid8 (pl_sec lib) ec_own) (\<lambda>h.
       encode_ieee1609dot2_data lib (signed_data tbs (PTuple [PStr ''digest'', PBytes h]) signature)))))) (\<lambda>signed_bytes.
     bind_s (encrypt_for lib (AuthorizationError ''invalidcert'') ea_cert signed_bytes) (\<lambda>(encrypted, _).
     return_s (PTuple [PStr ''encryptedEcSignature'', encrypted]))))"

definition build_authorization ::
    "pki_lib \<Rightarrow> Certificate \<Rightarrow> Certificate \<Rightarrow> Certificate \<Rightarrow> pyval \<Rightarrow> int \<Rightarrow> (pki_env, int \<times> bytes \<times> ecies_output) prog" where
  "build_authorization lib aa_cert ea_cert ec_own app_permissions validity_hours =
     bind_s (on_keys (create_key (pl_sec lib))) (\<lambda>at_key_id.
     bind_s (with_keys (\<lambda>keys. get_public_key (pl_sec lib) keys at_key_id)) (\<lambda>at_verify_key.
     bind_s (os_urandom lib 32) (\<lambda>hmac_key.
     let public_keys = PDict [(''verificationKey'', at_verify_key)] in
     bind_s (lift_s (encode_public_keys lib public_keys)) (\<lambda>public_keys_coer.
     let key_tag = compute_hmac_key_tag lib hmac_key public_keys_coer in
     bind_s (now_time32 lib) (\<lambda>start_time.
     bind_s (lift_s (as_hashedid8 (pl_sec lib) ea_cert)) (\<lambda>ea_id.
     let shared = shared_at_request ea_id key_tag start_time validity_hours app_permissions in
     bind_s (build_ec_signature lib shared ec_own ea_cert (start_time * 1000000)) (\<lambda>ec_signature.
     bind_s (lift_s (encode_etsi102941_data lib ''authorizationRequest'' (PDict
       [(''publicKeys'', public_keys), (''hmacKey'', PBytes hmac_key), (''sharedAtRequest'', shared),
        (''ecSignature'', ec_signature)]))) (\<lambda>payload.
     bind_s (with_keys (signed_request lib ec_own (certificate_signer ec_own) payload (start_time * 1000000))) (\<lambda>signed_bytes.
     bind_s (encrypt_for lib (AuthorizationError ''invalidcert'') aa_cert signed_bytes) (\<lambda>(outer, out).
     bind_s (lift_s (encode_ieee1609dot2_data lib outer)) (\<lambda>request_bytes.
     return_s (at_key_id, request_bytes, out))))))))))))"

definition authorize ::
    "pki_lib \<Rightarrow> string \<Rightarrow> Certificate \<Rightarrow> Certificate \<Rightarrow> Certificate \<Rightarrow> pyval option \<Rightarrow> int \<Rightarrow> (pki_env, Certificate) prog" where
  "authorize lib aa_url aa_cert ea_cert ec_own requested_app_permissions validity_hours =
     bind_s (build_authorization lib aa_cert ea_cert ec_own
       (case requested_app_permissions of None \<Rightarrow> default_ticket_permissions | Some p \<Rightarrow> p) validity_hours)
       (\<lambda>(at_key_id, request_bytes, out).
     bind_s (post_request lib (AuthorizationError ''http_error'') (with_path aa_url ''/aa/v1/authorization'') request_bytes) (\<lambda>content.
     lift_s (rbind (at_decrypt_psk_response lib content (eo_session_key out) (eo_session_id out)) (\<lambda>inner_signed_bytes.
       rbind (decode_authorization_response lib inner_signed_bytes) (\<lambda>response.
       rbind (accepted_certificate AuthorizationError response) (\<lambda>d.
       own_certificate lib d aa_cert at_key_id))))))"

section \<open>The client\<close>

record pki_client =
  pc_ea_url :: string
  pc_aa_url :: string
  pc_ea_cert :: Certificate
  pc_aa_cert :: Certificate
  pc_rca_cert :: Certificate
  pc_its_id :: bytes
  pc_certs_dir :: string
  pc_env :: pki_env
  pc_canonical_key_pem :: "bytes option"
  pc_canonical_cert :: "Certificate option"
  pc_ec_own :: "Certificate option"
  pc_at_own :: "Certificate option"
  pc_files :: "(string, bytes) dict"

text \<open>A new client finds the files that are there; nothing has been drawn or sent.\<close>

definition pki_client_init ::
    "string \<Rightarrow> string \<Rightarrow> Certificate \<Rightarrow> Certificate \<Rightarrow> Certificate \<Rightarrow> bytes option \<Rightarrow> string \<Rightarrow> bytes
      \<Rightarrow> (string, bytes) dict \<Rightarrow> pki_client" where
  "pki_client_init ea_url aa_url ea_cert aa_cert rca_cert canonical_key_pem certs_dir its_id files =
     \<lparr>pc_ea_url = ea_url, pc_aa_url = aa_url, pc_ea_cert = ea_cert, pc_aa_cert = aa_cert, pc_rca_cert = rca_cert,
      pc_its_id = its_id, pc_certs_dir = certs_dir,
      pc_env = \<lparr>pe_keys = [], pe_clock = 0, pe_random = 0, pe_requests = []\<rparr>,
      pc_canonical_key_pem = canonical_key_pem, pc_canonical_cert = None, pc_ec_own = None, pc_at_own = None,
      pc_files = files\<rparr>"

definition on_env :: "(pki_env, 'a) prog \<Rightarrow> (pki_client, 'a) prog" where
  "on_env p s = (let (r, env) = p (pc_env s) in (r, s\<lparr>pc_env := env\<rparr>))"

definition canonical_tbs :: "int \<Rightarrow> pyval" where
  "canonical_tbs start = PDict
     [(''id'', PTuple [PStr ''name'', PStr ''its-s-canonical'']), (''cracaId'', PBytes [0, 0, 0]), (''crlSeries'', PInt 0),
      (''validityPeriod'', PDict [(''start'', PInt start), (''duration'', PTuple [PStr ''years'', PInt 10])]),
      (''appPermissions'', certificate_request_permissions),
      (''certIssuePermissions'', PList [PDict
         [(''subjectPermissions'', PTuple [PStr ''all'', PNone]), (''minChainLength'', PInt 2),
          (''chainLengthRange'', PInt 0), (''eeType'', PTuple [PBytes [0], PInt 1])]]),
      (''verifyKeyIndicator'', PTuple [PStr ''verificationKey'',
         PTuple [PStr ''ecdsaNistP256'', PTuple [PStr ''fill'', PNone]]])]"

definition get_or_create_canonical_cert :: "pki_lib \<Rightarrow> (pki_client, Certificate) prog" where
  "get_or_create_canonical_cert lib =
     bind_s (gets_s pc_canonical_cert) (\<lambda>present. case present of
       Some c \<Rightarrow> return_s c
     | None \<Rightarrow>
         bind_s (on_env (now_time32 lib)) (\<lambda>start.
         bind_s (gets_s pc_canonical_key_pem) (\<lambda>pem.
         bind_s (case pem of
             None \<Rightarrow> return_s (canonical_tbs start)
           | Some key_pem \<Rightarrow>
               bind_s (on_env (on_keys (import_signing_key lib key_pem))) (\<lambda>pre_key_id.
               bind_s (on_env (with_keys (\<lambda>keys. get_public_key (pl_sec lib) keys pre_key_id))) (\<lambda>vk.
               lift_s (py_set [Key ''verifyKeyIndicator''] (PTuple [PStr ''verificationKey'', vk]) (canonical_tbs start)))))
           (\<lambda>tbs.
         bind_s (on_env (on_keys (initialize_certificate (pl_sec lib) tbs None))) (\<lambda>c.
         then_s (modify_s (\<lambda>s. s\<lparr>pc_canonical_cert := Some c\<rparr>))
         (bind_s (lift_s (as_hashedid8 (pl_sec lib) c)) (\<lambda>_. return_s c)))))))"

definition fs_check :: "pki_lib \<Rightarrow> string \<Rightarrow> unit result" where
  "fs_check lib path = (case fs_error lib path of None \<Rightarrow> Inr () | Some e \<Rightarrow> Inl e)"

definition write_file :: "pki_lib \<Rightarrow> string \<Rightarrow> bytes \<Rightarrow> (pki_client, unit) prog" where
  "write_file lib path content =
     then_s (lift_s (fs_check lib path)) (modify_s (\<lambda>s. s\<lparr>pc_files := dict_set path content (pc_files s)\<rparr>))"

definition file_path :: "pki_client \<Rightarrow> string \<Rightarrow> string \<Rightarrow> string" where
  "file_path s name suffix = pc_certs_dir s @ ''/'' @ name @ suffix"

definition save_cert :: "pki_lib \<Rightarrow> Certificate \<Rightarrow> string \<Rightarrow> (pki_client, unit) prog" where
  "save_cert lib cert name =
     bind_s (gets_s (\<lambda>s. s)) (\<lambda>s.
     then_s (lift_s (fs_check lib (pc_certs_dir s)))
     (bind_s (lift_s (certificate_encode (pl_sec lib) cert)) (\<lambda>coer.
     then_s (write_file lib (file_path s name ''.cert'') coer)
     (bind_s (lift_s (rbind (own_key cert) (export_signing_key lib (pe_keys (pc_env s))))) (\<lambda>pem.
     write_file lib (file_path s name ''.pem'') pem)))))"

definition client_enroll :: "pki_lib \<Rightarrow> pyval option \<Rightarrow> int \<Rightarrow> (pki_client, Certificate) prog" where
  "client_enroll lib app_permissions validity_years =
     bind_s (get_or_create_canonical_cert lib) (\<lambda>signer.
     bind_s (gets_s (\<lambda>s. s)) (\<lambda>s.
     bind_s (on_env (enroll lib (pc_ea_url s) (pc_ea_cert s) signer (pc_its_id s) app_permissions validity_years)) (\<lambda>ec_own.
     then_s (modify_s (\<lambda>s. s\<lparr>pc_ec_own := Some ec_own\<rparr>))
     (then_s (save_cert lib ec_own ''ec'') (return_s ec_own)))))"

definition client_authorize ::
    "pki_lib \<Rightarrow> Certificate option \<Rightarrow> pyval option \<Rightarrow> int \<Rightarrow> (pki_client, Certificate) prog" where
  "client_authorize lib given app_permissions validity_hours =
     bind_s (gets_s (\<lambda>s. s)) (\<lambda>s.
     case (case given of Some c \<Rightarrow> Some c | None \<Rightarrow> pc_ec_own s) of
       None \<Rightarrow> raise_s RuntimeError
     | Some ec_own \<Rightarrow>
         bind_s (on_env (authorize lib (pc_aa_url s) (pc_aa_cert s) (pc_ea_cert s) ec_own app_permissions validity_hours)) (\<lambda>at_own.
         then_s (modify_s (\<lambda>s. s\<lparr>pc_at_own := Some at_own\<rparr>))
         (then_s (save_cert lib at_own ''at'') (return_s at_own))))"

definition provision :: "pki_lib \<Rightarrow> pyval option \<Rightarrow> int \<Rightarrow> int \<Rightarrow> (pki_client, Certificate) prog" where
  "provision lib app_permissions ec_validity_years at_validity_hours =
     bind_s (client_enroll lib None ec_validity_years) (\<lambda>ec.
     bind_s (client_authorize lib (Some ec) app_permissions at_validity_hours) (\<lambda>ticket.
     bind_s (lift_s (as_hashedid8 (pl_sec lib) ticket)) (\<lambda>_. return_s ticket)))"

text \<open>An exception while the files are read ends the attempt, but leaves the imported key behind.\<close>

definition read_file :: "pki_lib \<Rightarrow> string \<Rightarrow> pki_client \<Rightarrow> bytes result" where
  "read_file lib path s = rbind (fs_check lib path) (\<lambda>_. get_key (dict_get (pc_files s) path))"

definition load_at_from_disk :: "pki_lib \<Rightarrow> string \<Rightarrow> (pki_client, Certificate option) prog" where
  "load_at_from_disk lib name =
     bind_s (gets_s (\<lambda>s. s)) (\<lambda>s.
     let cert_path = file_path s name ''.cert''; key_path = file_path s name ''.pem'' in
     if dict_get (pc_files s) cert_path = None \<or> dict_get (pc_files s) key_path = None then return_s None
     else
       catch_s
         (bind_s (lift_s (read_file lib cert_path s)) (\<lambda>cert_coer.
          bind_s (lift_s (read_file lib key_path s)) (\<lambda>key_pem.
          bind_s (on_env (on_keys (import_signing_key lib key_pem))) (\<lambda>key_id.
          bind_s (lift_s (pki_decode_certificate lib cert_coer)) (\<lambda>d.
          let at_own = Certificate d (Some (pc_aa_cert s)) (Some key_id) in
          then_s (modify_s (\<lambda>s. s\<lparr>pc_at_own := Some at_own\<rparr>))
          (bind_s (lift_s (as_hashedid8 (pl_sec lib) at_own)) (\<lambda>_. return_s (Some at_own))))))))
         (\<lambda>_. return_s None))"

end
