(* ===== verification/PkiProps.thy ===== *)
theory PkiProps
  imports PkiClient SecIssuanceProps
begin

text \<open>
  The protocols of the PKI client against the authority that the standards describe: what an
  authority can read of a request, how its answer becomes a certificate of the station, and what of
  the files can be read again.
\<close>

section \<open>What the packages promise\<close>

text \<open>
  The exchange gives both sides the same coordinate, a compressed point has a prefix of 2 or 3 and reads
  back, a box of AES-CCM opens with its key and nonce, and random strings and digests have their
  lengths.
\<close>

definition kx_laws :: "pki_lib \<Rightarrow> bool" where
  "kx_laws lib \<longleftrightarrow>
     (\<forall>a b. kx_exchange lib a (kx_public lib b) = kx_exchange lib b (kx_public lib a))
     \<and> (\<forall>a. \<exists>prefix x. kx_compressed lib (kx_public lib a) = prefix # x \<and> prefix \<in> {2, 3}
          \<and> kx_from_encoded lib (prefix # x) = Inr (kx_public lib a))
     \<and> (\<forall>k n p c. ccm_encrypt lib k n p = Inr c \<longrightarrow> ccm_decrypt lib k n c = Inr p)
     \<and> (\<forall>i n. length (pki_urandom lib i n) = n) \<and> (\<forall>bs. length (sha256 (pl_sec lib) bs) = 32)"

text \<open>
  The data that travel: requests signed with a certificate and answers signed with a digest, both with an ECDSA
  signature, what is encrypted for a certificate, and what is encrypted under a session key. Every field of
  the ASN.1 types that these values use is there, in the order of the types; \<open>cert\<close> is the certificate
  of the station that asks.
\<close>

definition ecdsa_signature :: "bytes \<Rightarrow> bytes \<Rightarrow> pyval" where
  "ecdsa_signature r s = PTuple [PStr ''ecdsaNistP256Signature'',
     PDict [(''rSig'', PTuple [PStr ''x-only'', PBytes r]), (''sSig'', PBytes s)]]"

definition ecies_key_value :: "string \<Rightarrow> bytes \<Rightarrow> bytes \<Rightarrow> bytes \<Rightarrow> pyval" where
  "ecies_key_value y x c t = PDict [(''v'', PTuple [PStr y, PBytes x]), (''c'', PBytes c), (''t'', PBytes t)]"

definition ccm_box :: "bytes \<Rightarrow> bytes \<Rightarrow> pyval" where
  "ccm_box nonce c = PDict [(''nonce'', PBytes nonce), (''ccmCiphertext'', PBytes c)]"

definition session_data :: "bytes \<Rightarrow> pyval \<Rightarrow> pyval" where
  "session_data session_id aes_ccm = PDict
     [(''protocolVersion'', PInt 3),
      (''content'', PTuple [PStr ''encryptedData'', PDict
        [(''recipients'', PList [PTuple [PStr ''pskRecipInfo'', PBytes session_id]]),
         (''ciphertext'', PTuple [PStr ''aes128ccm'', aes_ccm])]])]"

definition digest_signer :: "bytes \<Rightarrow> pyval" where
  "digest_signer h = PTuple [PStr ''digest'', PBytes h]"

definition wire_value :: "pyval \<Rightarrow> pyval \<Rightarrow> bool" where
  "wire_value cert v \<longleftrightarrow>
     (\<exists>payload time r s. v = signed_data (pki_tbs_data payload time) (PTuple [PStr ''certificate'', PList [cert]]) (ecdsa_signature r s))
     \<or> (\<exists>payload time h r s. v = signed_data (pki_tbs_data payload time) (digest_signer h) (ecdsa_signature r s))
     \<or> (\<exists>h y x c t n b. v = encrypted_data h (ecies_key_value y x c t) (ccm_box n b))
     \<or> (\<exists>h n b. v = session_data h (ccm_box n b))"

text \<open>
  The codec reads back these values, for a certificate in the form that a decoder gives. Of other
  dictionaries, which may have further keys, nothing is asked.
\<close>

definition codec_laws :: "pki_lib \<Rightarrow> pyval \<Rightarrow> bool" where
  "codec_laws lib cert \<longleftrightarrow>
     (\<forall>v bs. wire_value cert v \<and> encode_ieee1609dot2_data lib v = Inr bs \<longrightarrow> decode_ieee1609dot2_data lib bs = Inr v)"

text \<open>
  The response with an issued certificate: \<open>InnerECResponse\<close> has a version, \<open>InnerAtResponse\<close> the
  hash of the request. The codec reads it back for the certificate in question.
\<close>

definition ok_response :: "string \<Rightarrow> bytes \<Rightarrow> pyval \<Rightarrow> pyval" where
  "ok_response kind request_hash d = PDict
     [if kind = ''enrolmentResponse'' then (''version'', PInt 1) else (''requestHash'', PBytes request_hash),
      (''responseCode'', PStr ''ok''), (''certificate'', d)]"

definition response_law :: "pki_lib \<Rightarrow> string \<Rightarrow> pyval \<Rightarrow> bool" where
  "response_law lib kind d \<longleftrightarrow>
     (\<forall>request_hash bs. encode_etsi102941_data lib kind (ok_response kind request_hash d) = Inr bs \<longrightarrow>
        decode_etsi102941_data lib bs
          = Inr (PDict [(''version'', PInt 1), (''content'', PTuple [PStr kind, ok_response kind request_hash d])]))"

section \<open>The other side\<close>

text \<open>
  IEEE 1609.2, 5.3.5, for the recipient with a secret and the encoding of its certificate: the keys
  are derived from the ephemeral key in the request, the tag is checked, and the session key comes out.
\<close>

definition session_key_of :: "pki_lib \<Rightarrow> int \<Rightarrow> bytes \<Rightarrow> pyval \<Rightarrow> bytes result" where
  "session_key_of lib secret coer ecies_key =
     rbind (py_item ecies_key ''v'') (\<lambda>v.
     rbind (public_key_from_tuple lib (PTuple [PStr ''eciesNistP256'', v])) (\<lambda>ephemeral.
     rbind (rbind (py_item ecies_key ''c'') as_bytes) (\<lambda>c.
     rbind (rbind (py_item ecies_key ''t'') as_bytes) (\<lambda>t.
     let (k_enc, k_mac) = kdf2 lib (kx_exchange lib secret ephemeral) coer in
     if t = take 16 (hmac_sha256 lib k_mac c) then Inr (xor_bytes c k_enc) else Inl InvalidTag))))"

text \<open>The session key and the signed data of a request.\<close>

definition authority_reads :: "pki_lib \<Rightarrow> int \<Rightarrow> bytes \<Rightarrow> bytes \<Rightarrow> (bytes \<times> pyval) result" where
  "authority_reads lib secret coer request =
     rbind (decode_ieee1609dot2_data lib request) (\<lambda>outer.
     rbind (py_path [Key ''content'', Idx 1, Key ''recipients'', Idx 0, Idx 1, Key ''encKey'', Idx 1] outer) (\<lambda>ecies_key.
     rbind (py_path [Key ''content'', Idx 1, Key ''ciphertext'', Idx 1] outer) (\<lambda>aes_ccm.
     rbind (session_key_of lib secret coer ecies_key) (\<lambda>a.
     rbind (psk_decrypt lib a aes_ccm) (\<lambda>plain.
     rbind (decode_ieee1609dot2_data lib plain) (\<lambda>signed. Inr (a, signed)))))))"

text \<open>
  An answer under the session key \<open>a\<close>: a response in signed data with the digest of a signer and any signature.
\<close>

definition authority_answers ::
    "pki_lib \<Rightarrow> string \<Rightarrow> bytes \<Rightarrow> pyval \<Rightarrow> int \<Rightarrow> bytes \<Rightarrow> bytes \<Rightarrow> pyval \<Rightarrow> bytes result" where
  "authority_answers lib kind signer signature time nonce a response =
     rbind (encode_etsi102941_data lib kind response) (\<lambda>payload.
     rbind (encode_ieee1609dot2_data lib (signed_data (pki_tbs_data payload time) (digest_signer signer) signature)) (\<lambda>plain.
     rbind (ccm_encrypt lib a nonce plain) (\<lambda>c.
     encode_ieee1609dot2_data lib (session_data (last_bytes 8 (sha256 (pl_sec lib) a)) (ccm_box nonce c)))))"

section \<open>Encryption\<close>

lemma xor_again:
  assumes "length xs = length ys" shows "xor_bytes (xor_bytes xs ys) ys = xs"
  using assms unfolding xor_bytes_def
  by (induction xs ys rule: list_induct2) (simp_all add: xor.assoc)

lemma kdf2_length:
  assumes "kx_laws lib" "kdf2 lib x coer = (k_enc, k_mac)"
  shows "length k_enc = 16" "length k_mac = 32"
  using assms by (auto simp: kdf2_def kx_laws_def slice_def Let_def)

lemma compressed_key_reads:
  assumes "kx_laws lib"
  obtains y x where "compress_public_key lib (kx_public lib a) = Inr (PTuple [PStr y, PBytes x])"
    "\<And>outer. public_key_from_tuple lib (PTuple [outer, PTuple [PStr y, PBytes x]]) = Inr (kx_public lib a)"
proof -
  obtain prefix x where x: "kx_compressed lib (kx_public lib a) = prefix # x" "prefix \<in> {2, 3}"
    "kx_from_encoded lib (prefix # x) = Inr (kx_public lib a)"
    using assms unfolding kx_laws_def by blast
  then show thesis
    by (intro that) (auto simp: compress_public_key_def public_key_from_tuple_def)
qed

lemma ecies_run:
  assumes "ecies_encrypt lib plaintext pk coer s = (Inr out, s')"
    and "public_key_from_tuple lib pk = Inr (kx_public lib secret)" "kx_laws lib"
  shows "session_key_of lib secret coer (eo_key out) = Inr (eo_session_key out)"
    and "psk_decrypt lib (eo_session_key out) (eo_ccm out) = Inr plaintext"
    and "eo_session_id out = last_bytes 8 (sha256 (pl_sec lib) (eo_session_key out))"
    and "pe_keys s' = pe_keys s \<and> pe_requests s' = pe_requests s"
    and "\<exists>y x c t n b. eo_key out = ecies_key_value y x c t \<and> eo_ccm out = ccm_box n b"
proof -
  let ?e = "kx_generate lib (pe_random s)" and ?a = "pki_urandom lib (Suc (pe_random s)) 16"
    and ?n = "pki_urandom lib (Suc (Suc (pe_random s))) 12"
  obtain k_enc k_mac where k: "kdf2 lib (kx_exchange lib ?e (kx_public lib secret)) coer = (k_enc, k_mac)" by fastforce
  obtain y x where v: "compress_public_key lib (kx_public lib ?e) = Inr (PTuple [PStr y, PBytes x])"
    "\<And>outer. public_key_from_tuple lib (PTuple [outer, PTuple [PStr y, PBytes x]]) = Inr (kx_public lib ?e)"
    using compressed_key_reads [OF assms(3), of ?e] by blast
  obtain c where c: "ccm_encrypt lib ?a ?n plaintext = Inr c"
    "out = \<lparr>eo_key = PDict [(''v'', PTuple [PStr y, PBytes x]), (''c'', PBytes (xor_bytes ?a k_enc)),
         (''t'', PBytes (take 16 (hmac_sha256 lib k_mac (xor_bytes ?a k_enc))))],
       eo_ccm = PDict [(''nonce'', PBytes ?n), (''ccmCiphertext'', PBytes c)],
       eo_session_key = ?a, eo_session_id = last_bytes 8 (sha256 (pl_sec lib) ?a)\<rparr>"
    "pe_keys s' = pe_keys s \<and> pe_requests s' = pe_requests s"
    using assms(1,2) k v(1)
    by (auto simp: ecies_encrypt_def bind_s_def generate_private_key_def os_urandom_def Let_def split: sum.splits)
  have same: "kx_exchange lib secret (kx_public lib ?e) = kx_exchange lib ?e (kx_public lib secret)"
    and box: "ccm_decrypt lib ?a ?n c = Inr plaintext" and lengths: "length ?a = length k_enc"
    using assms(3) c(1) kdf2_length(1) [OF assms(3) k] unfolding kx_laws_def by auto
  show "session_key_of lib secret coer (eo_key out) = Inr (eo_session_key out)"
    by (simp add: c(2) session_key_of_def v(2) same k xor_again [OF lengths])
  show "psk_decrypt lib (eo_session_key out) (eo_ccm out) = Inr plaintext"
    by (simp add: c(2) psk_decrypt_def box)
  show "eo_session_id out = last_bytes 8 (sha256 (pl_sec lib) (eo_session_key out))" by (simp add: c(2))
  show "pe_keys s' = pe_keys s \<and> pe_requests s' = pe_requests s" by (rule c(3))
  show "\<exists>y x c t n b. eo_key out = ecies_key_value y x c t \<and> eo_ccm out = ccm_box n b"
    unfolding c(2) ecies_key_value_def ccm_box_def by simp
qed

text \<open>A recipient as the client sees it: its encryption key belongs to a secret.\<close>

definition can_decrypt :: "pki_lib \<Rightarrow> int \<Rightarrow> bytes \<Rightarrow> Certificate \<Rightarrow> bool" where
  "can_decrypt lib secret coer c \<longleftrightarrow>
     (\<exists>pk. \<forall>e. extract_enc_info lib e c = Inr (pk, coer) \<and> public_key_from_tuple lib pk = Inr (kx_public lib secret))"

lemma encrypt_for_run:
  assumes "encrypt_for lib e c plaintext s = (Inr (outer, out), s')" "can_decrypt lib secret coer c" "kx_laws lib"
  shows "\<exists>h. outer = encrypted_data h (eo_key out) (eo_ccm out) \<and> wire_value cert outer"
    and "session_key_of lib secret coer (eo_key out) = Inr (eo_session_key out)"
    and "psk_decrypt lib (eo_session_key out) (eo_ccm out) = Inr plaintext"
    and "eo_session_id out = last_bytes 8 (sha256 (pl_sec lib) (eo_session_key out))"
    and "pe_keys s' = pe_keys s \<and> pe_requests s' = pe_requests s"
proof -
  obtain pk where pk: "extract_enc_info lib e c = Inr (pk, coer)" "public_key_from_tuple lib pk = Inr (kx_public lib secret)"
    using assms(2) by (auto simp: can_decrypt_def)
  obtain h where run: "ecies_encrypt lib plaintext pk coer s = (Inr out, s')"
    "outer = encrypted_data h (eo_key out) (eo_ccm out)"
    using assms(1) pk(1) by (auto simp: encrypt_for_def bind_s_def split: sum.splits prod.splits)
  show "\<exists>h. outer = encrypted_data h (eo_key out) (eo_ccm out) \<and> wire_value cert outer"
    using run(2) ecies_run(5) [OF run(1) pk(2) assms(3)] unfolding wire_value_def by metis
  show "session_key_of lib secret coer (eo_key out) = Inr (eo_session_key out)"
    "psk_decrypt lib (eo_session_key out) (eo_ccm out) = Inr plaintext"
    "eo_session_id out = last_bytes 8 (sha256 (pl_sec lib) (eo_session_key out))"
    "pe_keys s' = pe_keys s \<and> pe_requests s' = pe_requests s"
    by (rule ecies_run(1-4) [OF run(1) pk(2) assms(3)])+
qed

text \<open>The authority reads what a client has signed and encrypted for it.\<close>

lemma request_is_read:
  assumes "encode_ieee1609dot2_data lib outer = Inr request" "wire_value cert outer"
    and "outer = encrypted_data h (eo_key out) (eo_ccm out)"
    and "session_key_of lib secret coer (eo_key out) = Inr a" "psk_decrypt lib a (eo_ccm out) = Inr plain"
    and "encode_ieee1609dot2_data lib sd = Inr plain" "wire_value cert sd" "codec_laws lib cert"
  shows "authority_reads lib secret coer request = Inr (a, sd)"
proof -
  have "decode_ieee1609dot2_data lib request = Inr (encrypted_data h (eo_key out) (eo_ccm out))"
    "decode_ieee1609dot2_data lib plain = Inr sd"
    using assms(1-3,6-8) unfolding codec_laws_def by blast+
  then show ?thesis
    using assms(4,5) by (simp add: authority_reads_def) (simp add: encrypted_data_def)
qed

section \<open>Requests\<close>

text \<open>Signed data whose signature fits the certificate in it.\<close>

definition request_signed :: "pki_lib \<Rightarrow> Certificate \<Rightarrow> pyval \<Rightarrow> bool" where
  "request_signed lib c sd \<longleftrightarrow>
     (\<exists>tbs signature bytes. sd = signed_data tbs (certificate_signer c) signature
       \<and> pki_encode lib ''ToBeSignedData'' tbs = Inr bytes
       \<and> (\<forall>pk. verify_key_indicator [Idx 1] c = Inr pk \<longrightarrow> verify_with_pk (pl_sec lib) bytes signature pk = Inr True))"

lemma signature_form: "sign_message lib keys c bs = Inr g \<Longrightarrow> \<exists>r s. g = ecdsa_signature r s"
  by (auto simp: sign_message_def sign_def signature_value_def ecdsa_signature_def rbind_eq_Inr)

lemma signed_request_fits:
  assumes "signed_request lib c (certificate_signer c) payload time keys = Inr plain" "holds_key (pl_sec lib) keys c"
  obtains sd where "encode_ieee1609dot2_data lib sd = Inr plain" "request_signed lib c sd" "wire_value (c_certificate c) sd"
proof -
  obtain bytes signature where run: "pki_encode lib ''ToBeSignedData'' (pki_tbs_data payload time) = Inr bytes"
    "sign_message (pl_sec lib) keys c bytes = Inr signature"
    "encode_ieee1609dot2_data lib (signed_data (pki_tbs_data payload time) (certificate_signer c) signature) = Inr plain"
    using assms(1) by (auto simp: signed_request_def Let_def rbind_eq_Inr)
  let ?sd = "signed_data (pki_tbs_data payload time) (certificate_signer c) signature"
  obtain g where "sign_message (pl_sec lib) keys c bytes = Inr g"
    "\<And>pk. verify_key_indicator [Idx 1] c = Inr pk \<Longrightarrow> verify_with_pk (pl_sec lib) bytes g pk = Inr True"
    using signature_verifies [OF assms(2), of bytes] by metis
  then have "request_signed lib c ?sd" using run unfolding request_signed_def by (metis Inr_inject)
  moreover obtain r s where "signature = ecdsa_signature r s" using signature_form [OF run(2)] by blast
  then have "wire_value (c_certificate c) ?sd" unfolding wire_value_def certificate_signer_def by blast
  ultimately show thesis using that run(3) by blast
qed

lemma ecies_frame:
  "ecies_encrypt lib plaintext pk coer s = (r, s') \<Longrightarrow> pe_keys s' = pe_keys s \<and> pe_requests s' = pe_requests s"
  by (auto simp: ecies_encrypt_def bind_s_def generate_private_key_def os_urandom_def Let_def
      split: sum.splits prod.splits)

lemma encrypt_for_frame:
  "encrypt_for lib e c plaintext s = (r, s') \<Longrightarrow> pe_keys s' = pe_keys s \<and> pe_requests s' = pe_requests s"
  by (auto simp: encrypt_for_def bind_s_def split: sum.splits prod.splits dest: ecies_frame)

text \<open>The last steps of both protocols: a signed request for an authority.\<close>

lemma signed_and_encrypted:
  assumes "signed_request lib c (certificate_signer c) payload time (pe_keys s) = Inr plain"
    and "encrypt_for lib e authority plain s = (Inr (outer, out), s')"
    and "encode_ieee1609dot2_data lib outer = Inr request"
    and "can_decrypt lib secret coer authority" "kx_laws lib" "codec_laws lib (c_certificate c)"
    and "holds_key (pl_sec lib) (pe_keys s) c"
  shows "\<exists>sd. authority_reads lib secret coer request = Inr (eo_session_key out, sd) \<and> request_signed lib c sd"
    and "eo_session_id out = last_bytes 8 (sha256 (pl_sec lib) (eo_session_key out))"
proof -
  obtain sd where sd: "encode_ieee1609dot2_data lib sd = Inr plain" "request_signed lib c sd" "wire_value (c_certificate c) sd"
    by (rule signed_request_fits [OF assms(1,7)])
  obtain h where outer: "wire_value (c_certificate c) outer" "outer = encrypted_data h (eo_key out) (eo_ccm out)"
    using encrypt_for_run(1) [OF assms(2,4,5)] by blast
  have "authority_reads lib secret coer request = Inr (eo_session_key out, sd)"
    by (rule request_is_read [OF assms(3) outer encrypt_for_run(2,3) [OF assms(2,4,5)] sd(1,3) assms(6)])
  then show "\<exists>sd. authority_reads lib secret coer request = Inr (eo_session_key out, sd) \<and> request_signed lib c sd"
    using sd(2) by blast
  show "eo_session_id out = last_bytes 8 (sha256 (pl_sec lib) (eo_session_key out))"
    by (rule encrypt_for_run(4) [OF assms(2,4,5)])
qed

text \<open>What a request for a certificate leaves behind: a new key, and nothing sent yet.\<close>

definition request_built :: "pki_lib \<Rightarrow> pki_env \<Rightarrow> int \<Rightarrow> pki_env \<Rightarrow> bool" where
  "request_built lib s i s1 \<longleftrightarrow>
     i = int (length (pe_keys s)) \<and> pe_requests s1 = pe_requests s
     \<and> pe_keys s1 = dict_set i (ec_generate (pl_sec lib) (length (pe_keys s))) (pe_keys s)"

lemma with_keys_Inr:
  "with_keys f s = (Inr x, s') \<longleftrightarrow> f (pe_keys s) = Inr x \<and> s' = s"
  by (cases "f (pe_keys s)") (auto simp: with_keys_def bind_s_def)

lemma create_key_Inr:
  "on_keys (create_key lib) s = (Inr i, s') \<longleftrightarrow> i = int (length (pe_keys s))
     \<and> s' = s\<lparr>pe_keys := dict_set i (ec_generate lib (length (pe_keys s))) (pe_keys s)\<rparr>"
  by (auto simp: on_keys_def create_key_def Let_def)

lemma draws_Inr:
  "now_time32 lib s = (Inr t, s') \<Longrightarrow> pe_keys s' = pe_keys s \<and> pe_requests s' = pe_requests s"
  "os_urandom lib n s = (Inr bs, s') \<Longrightarrow> pe_keys s' = pe_keys s \<and> pe_requests s' = pe_requests s"
  by (auto simp: now_time32_def os_urandom_def)

lemma lift_s_Inr: "lift_s r s = (Inr x, s') \<longleftrightarrow> r = Inr x \<and> s' = s"
  by auto

lemmas steps_Inr = bind_s_Inr with_keys_Inr create_key_Inr lift_s_Inr

lemma build_enrolment_run:
  assumes "build_enrolment lib ea signer its_id perms years s = (Inr (i, request, out), s1)"
  obtains payload time plain s0 e outer where "request_built lib s i s1"
    "signed_request lib signer (certificate_signer signer) payload time (pe_keys s0) = Inr plain"
    "encrypt_for lib e ea plain s0 = (Inr (outer, out), s1)"
    "encode_ieee1609dot2_data lib outer = Inr request" "pe_keys s0 = pe_keys s1"
proof -
  obtain payload time plain s0 outer where run: "i = int (length (pe_keys s))"
    "now_time32 lib (s\<lparr>pe_keys := dict_set i (ec_generate (pl_sec lib) (length (pe_keys s))) (pe_keys s)\<rparr>) = (Inr time, s0)"
    "signed_request lib signer (certificate_signer signer) payload (time * 1000000) (pe_keys s0) = Inr plain"
    "encrypt_for lib (EnrolmentError ''invalidea'') ea plain s0 = (Inr (outer, out), s1)"
    "encode_ieee1609dot2_data lib outer = Inr request"
    using assms by (auto simp: build_enrolment_def steps_Inr)
  have "request_built lib s i s1" "pe_keys s0 = pe_keys s1"
    using run(1) draws_Inr(1) [OF run(2)] encrypt_for_frame [OF run(4)] by (auto simp: request_built_def)
  then show thesis using that run(3-5) by blast
qed

lemma build_ec_signature_frame:
  "build_ec_signature lib shared ec ea time s = (Inr v, s') \<Longrightarrow> pe_keys s' = pe_keys s \<and> pe_requests s' = pe_requests s"
  by (auto simp: build_ec_signature_def steps_Inr dest: encrypt_for_frame)

lemma build_authorization_run:
  assumes "build_authorization lib aa ea ec perms hours s = (Inr (i, request, out), s1)"
  obtains payload time plain s0 e outer where "request_built lib s i s1"
    "signed_request lib ec (certificate_signer ec) payload time (pe_keys s0) = Inr plain"
    "encrypt_for lib e aa plain s0 = (Inr (outer, out), s1)"
    "encode_ieee1609dot2_data lib outer = Inr request" "pe_keys s0 = pe_keys s1"
proof -
  obtain hmac_key sa time sb shared v sc payload plain outer where run: "i = int (length (pe_keys s))"
    "os_urandom lib 32 (s\<lparr>pe_keys := dict_set i (ec_generate (pl_sec lib) (length (pe_keys s))) (pe_keys s)\<rparr>) = (Inr hmac_key, sa)"
    "now_time32 lib sa = (Inr time, sb)"
    "build_ec_signature lib shared ec ea (time * 1000000) sb = (Inr v, sc)"
    "signed_request lib ec (certificate_signer ec) payload (time * 1000000) (pe_keys sc) = Inr plain"
    "encrypt_for lib (AuthorizationError ''invalidcert'') aa plain sc = (Inr (outer, out), s1)"
    "encode_ieee1609dot2_data lib outer = Inr request"
    using assms by (auto simp: build_authorization_def steps_Inr Let_def)
  have "request_built lib s i s1" "pe_keys sc = pe_keys s1"
    using run(1) draws_Inr(2) [OF run(2)] draws_Inr(1) [OF run(3)] build_ec_signature_frame [OF run(4)]
      encrypt_for_frame [OF run(6)]
    by (auto simp: request_built_def)
  then show thesis using that run(5-7) by blast
qed

section \<open>Answers\<close>

lemma codec_reads:
  assumes "codec_laws lib cert" "wire_value cert v" "encode_ieee1609dot2_data lib v = Inr bs"
  shows "decode_ieee1609dot2_data lib bs = Inr v"
  using assms(1) unfolding codec_laws_def by (rule allE [of _ v]) (simp add: assms(2,3))

lemma wire_answer: "wire_value cert (signed_data (pki_tbs_data payload time) (digest_signer h) (ecdsa_signature r s))"
  unfolding wire_value_def by (rule disjI2, rule disjI1) blast

lemma wire_session: "wire_value cert (session_data h (ccm_box n b))"
  unfolding wire_value_def by (rule disjI2, rule disjI2, rule disjI2) blast

lemma answer_parts:
  assumes "authority_answers lib kind signer (ecdsa_signature r u) time nonce a (ok_response kind request_hash d) = Inr body"
    and "kx_laws lib" "codec_laws lib cert" "response_law lib kind d"
  obtains payload plain c where
    "decode_ieee1609dot2_data lib body = Inr (session_data (last_bytes 8 (sha256 (pl_sec lib) a)) c)"
    "psk_decrypt lib a c = Inr plain"
    "decode_ieee1609dot2_data lib plain = Inr (signed_data (pki_tbs_data payload time) (digest_signer signer) (ecdsa_signature r u))"
    "decode_etsi102941_data lib payload
      = Inr (PDict [(''version'', PInt 1), (''content'', PTuple [PStr kind, ok_response kind request_hash d])])"
proof -
  obtain payload plain c where run: "encode_etsi102941_data lib kind (ok_response kind request_hash d) = Inr payload"
    "encode_ieee1609dot2_data lib (signed_data (pki_tbs_data payload time) (digest_signer signer) (ecdsa_signature r u)) = Inr plain"
    "ccm_encrypt lib a nonce plain = Inr c"
    "encode_ieee1609dot2_data lib (session_data (last_bytes 8 (sha256 (pl_sec lib) a)) (ccm_box nonce c)) = Inr body"
    using assms(1) by (auto simp: authority_answers_def rbind_eq_Inr)
  show thesis
  proof (rule that)
    show "decode_ieee1609dot2_data lib body = Inr (session_data (last_bytes 8 (sha256 (pl_sec lib) a)) (ccm_box nonce c))"
      "decode_ieee1609dot2_data lib plain = Inr (signed_data (pki_tbs_data payload time) (digest_signer signer) (ecdsa_signature r u))"
      by (rule codec_reads [OF assms(3) wire_session run(4)]) (rule codec_reads [OF assms(3) wire_answer run(2)])
    show "decode_etsi102941_data lib payload
        = Inr (PDict [(''version'', PInt 1), (''content'', PTuple [PStr kind, ok_response kind request_hash d])])"
      using run(1) assms(4) unfolding response_law_def by blast
    show "psk_decrypt lib a (ccm_box nonce c) = Inr plain"
      using run(3) assms(2) by (simp add: psk_decrypt_def ccm_box_def kx_laws_def)
  qed
qed

lemma content_of_pair [simp]: "content_of (PDict [(''version'', v), (''content'', PTuple [k, w])]) = Inr (k, w)"
  by (simp add: content_of_def)

lemma session_data_content:
  "content_of (session_data h c) = Inr (PStr ''encryptedData'', PDict
     [(''recipients'', PList [PTuple [PStr ''pskRecipInfo'', PBytes h]]), (''ciphertext'', PTuple [PStr ''aes128ccm'', c])])"
  by (simp add: content_of_def session_data_def)

lemma signed_data_content:
  "content_of (signed_data tbs signer g) = Inr (PStr ''signedData'', PDict
     [(''hashId'', PStr ''sha256''), (''tbsData'', tbs), (''signer'', signer), (''signature'', g)])"
  by (simp add: content_of_def signed_data_def)

lemma signed_payload:
  "payload_of (PDict [(''hashId'', PStr ''sha256''), (''tbsData'', pki_tbs_data payload time), (''signer'', signer), (''signature'', g)])
    = Inr (PStr ''unsecuredData'', PBytes payload)"
  by (simp add: payload_of_def pki_tbs_data_def)

lemma find_own_session: "find_psk e h (PList [PTuple [PStr ''pskRecipInfo'', PBytes h]]) = Inr ()"
  by (simp add: find_psk_def)

lemma enrolment_answer_read:
  assumes "authority_answers lib ''enrolmentResponse'' signer (ecdsa_signature r u) time nonce a
      (ok_response ''enrolmentResponse'' request_hash d) = Inr body"
    and "kx_laws lib" "codec_laws lib cert" "response_law lib ''enrolmentResponse'' d"
  obtains plain where "ec_decrypt_psk_response lib body a (last_bytes 8 (sha256 (pl_sec lib) a)) = Inr plain"
    "decode_enrolment_response lib plain = Inr (ok_response ''enrolmentResponse'' request_hash d)"
proof (rule answer_parts [OF assms])
  fix payload plain c
  assume parts:
    "decode_ieee1609dot2_data lib body = Inr (session_data (last_bytes 8 (sha256 (pl_sec lib) a)) c)"
    "psk_decrypt lib a c = Inr plain"
    "decode_ieee1609dot2_data lib plain = Inr (signed_data (pki_tbs_data payload time) (digest_signer signer) (ecdsa_signature r u))"
    "decode_etsi102941_data lib payload = Inr (PDict [(''version'', PInt 1),
       (''content'', PTuple [PStr ''enrolmentResponse'', ok_response ''enrolmentResponse'' request_hash d])])"
  show thesis
    by (rule that [of plain]) (simp_all add: ec_decrypt_psk_response_def decode_enrolment_response_def or_raise_def
        parts session_data_content signed_data_content signed_payload find_own_session)
qed

lemma authorization_answer_read:
  assumes "authority_answers lib ''authorizationResponse'' signer (ecdsa_signature r u) time nonce a
      (ok_response ''authorizationResponse'' request_hash d) = Inr body"
    and "kx_laws lib" "codec_laws lib cert" "response_law lib ''authorizationResponse'' d"
  obtains plain where "at_decrypt_psk_response lib body a (last_bytes 8 (sha256 (pl_sec lib) a)) = Inr plain"
    "decode_authorization_response lib plain = Inr (ok_response ''authorizationResponse'' request_hash d)"
proof (rule answer_parts [OF assms])
  fix payload plain c
  assume parts:
    "decode_ieee1609dot2_data lib body = Inr (session_data (last_bytes 8 (sha256 (pl_sec lib) a)) c)"
    "psk_decrypt lib a c = Inr plain"
    "decode_ieee1609dot2_data lib plain = Inr (signed_data (pki_tbs_data payload time) (digest_signer signer) (ecdsa_signature r u))"
    "decode_etsi102941_data lib payload = Inr (PDict [(''version'', PInt 1),
       (''content'', PTuple [PStr ''authorizationResponse'', ok_response ''authorizationResponse'' request_hash d])])"
  show thesis
    by (rule that [of plain]) (simp_all add: at_decrypt_psk_response_def decode_authorization_response_def or_raise_def
        parts session_data_content signed_data_content signed_payload find_own_session)
qed

section \<open>Certificates over the air\<close>

text \<open>
  An authority that answers every request that it can read and whose signature fits, with a response of
  the given kind that has the certificate; who signs the answer, and with what signature, is open, and so is
  the request hash in it, since the client looks at none of them.
\<close>

definition authority_serves :: "pki_lib \<Rightarrow> int \<Rightarrow> bytes \<Rightarrow> Certificate \<Rightarrow> string \<Rightarrow> string \<Rightarrow> pyval \<Rightarrow> bool" where
  "authority_serves lib secret coer asker kind url d \<longleftrightarrow>
     (\<forall>n request a sd. authority_reads lib secret coer request = Inr (a, sd) \<and> request_signed lib asker sd \<longrightarrow>
        (\<exists>signer r s time nonce request_hash body. http_post lib n url request = Inr (200, body)
          \<and> authority_answers lib kind signer (ecdsa_signature r s) time nonce a (ok_response kind request_hash d) = Inr body))"

lemma post_served:
  assumes "http_post lib (length (pe_requests s)) url request = Inr (200, body)"
  shows "post_request lib e url request s = (Inr body, s\<lparr>pe_requests := pe_requests s @ [(url, request)]\<rparr>)"
  using assms by (simp add: post_request_def then_s_def bind_s_def)

lemma accepted_ok: "accepted_certificate e (ok_response kind request_hash d) = Inr d"
  by (simp add: accepted_certificate_def ok_response_def)

text \<open>
  C37: If the request can be built and the authority serves the station, enrolment returns the issued certificate
  with the new key, which is in the key store, and exactly one request was sent: one that the authority can read and
  whose signature fits the certificate of the station. Any signature of the answer will do. The answer is an
  \<open>InnerECResponse\<close> with all its fields; the codec is only asked to read back the data that travel, for the
  certificate of the station and the issued one.
\<close>

theorem enrolment_end_to_end:
  assumes "build_enrolment lib ea signer its_id
      (case perms of None \<Rightarrow> certificate_request_permissions | Some p \<Rightarrow> p) years s = (Inr (i, request, out), s1)"
    and "kx_laws lib" "codec_laws lib (c_certificate signer)" "response_law lib ''enrolmentResponse'' d"
    and "can_decrypt lib secret coer ea" "holds_key (pl_sec lib) (pe_keys s1) signer"
    and "authority_serves lib secret coer signer ''enrolmentResponse'' (with_path ea_url ''/ea/v1/enrolment'') d"
    and "as_hashedid8 (pl_sec lib) (Certificate d (Some ea) (Some i)) = Inr h"
  shows "\<exists>s'. enroll lib ea_url ea signer its_id perms years s = (Inr (Certificate d (Some ea) (Some i)), s')
    \<and> pe_requests s' = pe_requests s @ [(with_path ea_url ''/ea/v1/enrolment'', request)]
    \<and> (\<exists>a sd. authority_reads lib secret coer request = Inr (a, sd) \<and> request_signed lib signer sd)
    \<and> dict_get (pe_keys s') i = Some (ec_generate (pl_sec lib) (length (pe_keys s)))"
proof -
  obtain payload time plain s0 e outer where run: "request_built lib s i s1"
    "signed_request lib signer (certificate_signer signer) payload time (pe_keys s0) = Inr plain"
    "encrypt_for lib e ea plain s0 = (Inr (outer, out), s1)"
    "encode_ieee1609dot2_data lib outer = Inr request" "pe_keys s0 = pe_keys s1"
    by (rule build_enrolment_run [OF assms(1)])
  note sent = signed_and_encrypted [OF run(2-4) assms(5,2,3) assms(6) [folded run(5)]]
  obtain sd where sd: "authority_reads lib secret coer request = Inr (eo_session_key out, sd)" "request_signed lib signer sd"
    using sent(1) by blast
  obtain answerer r u t nonce request_hash body where served:
    "http_post lib (length (pe_requests s1)) (with_path ea_url ''/ea/v1/enrolment'') request = Inr (200, body)"
    "authority_answers lib ''enrolmentResponse'' answerer (ecdsa_signature r u) t nonce (eo_session_key out)
        (ok_response ''enrolmentResponse'' request_hash d) = Inr body"
    using assms(7) sd unfolding authority_serves_def by blast
  obtain answer where "ec_decrypt_psk_response lib body (eo_session_key out) (eo_session_id out) = Inr answer"
    "decode_enrolment_response lib answer = Inr (ok_response ''enrolmentResponse'' request_hash d)"
    using enrolment_answer_read [OF served(2) assms(2-4)] sent(2) by metis
  then have "enroll lib ea_url ea signer its_id perms years s = (Inr (Certificate d (Some ea) (Some i)),
      s1\<lparr>pe_requests := pe_requests s1 @ [(with_path ea_url ''/ea/v1/enrolment'', request)]\<rparr>)"
    using assms(1,8) post_served [OF served(1)]
    by (simp add: enroll_def bind_s_def accepted_ok own_certificate_def)
  then show ?thesis
    using sd run(1) by (auto simp: request_built_def dict_simps)
qed

text \<open>The authorisation authority reads a request for a ticket.\<close>

lemma authorization_request_read:
  assumes "build_authorization lib aa ea ec perms hours s = (Inr (i, request, out), s1)"
    and "kx_laws lib" "codec_laws lib (c_certificate ec)" "can_decrypt lib secret coer aa" "holds_key (pl_sec lib) (pe_keys s1) ec"
  obtains sd where "authority_reads lib secret coer request = Inr (eo_session_key out, sd)" "request_signed lib ec sd"
    "eo_session_id out = last_bytes 8 (sha256 (pl_sec lib) (eo_session_key out))" "request_built lib s i s1"
proof -
  obtain payload time plain s0 e outer where run: "request_built lib s i s1"
    "signed_request lib ec (certificate_signer ec) payload time (pe_keys s0) = Inr plain"
    "encrypt_for lib e aa plain s0 = (Inr (outer, out), s1)"
    "encode_ieee1609dot2_data lib outer = Inr request" "pe_keys s0 = pe_keys s1"
    by (rule build_authorization_run [OF assms(1)])
  show thesis
    using signed_and_encrypted [OF run(2-4) assms(4,2,3) assms(5) [folded run(5)]] run(1) that by blast
qed

text \<open>Served, the station has its ticket.\<close>

lemma authorization_served:
  assumes "build_authorization lib aa ea ec
      (case perms of None \<Rightarrow> default_ticket_permissions | Some p \<Rightarrow> p) hours s = (Inr (i, request, out), s1)"
    and "kx_laws lib" "codec_laws lib (c_certificate ec)" "can_decrypt lib secret coer aa" "holds_key (pl_sec lib) (pe_keys s1) ec"
    and "response_law lib ''authorizationResponse'' d"
    and "authority_serves lib secret coer ec ''authorizationResponse'' (with_path aa_url ''/aa/v1/authorization'') d"
    and "as_hashedid8 (pl_sec lib) (Certificate d (Some aa) (Some i)) = Inr h"
  shows "authorize lib aa_url aa ea ec perms hours s = (Inr (Certificate d (Some aa) (Some i)),
      s1\<lparr>pe_requests := pe_requests s @ [(with_path aa_url ''/aa/v1/authorization'', request)]\<rparr>)"
proof -
  obtain sd where sd: "authority_reads lib secret coer request = Inr (eo_session_key out, sd)" "request_signed lib ec sd"
    "eo_session_id out = last_bytes 8 (sha256 (pl_sec lib) (eo_session_key out))" "request_built lib s i s1"
    by (rule authorization_request_read [OF assms(1-5)])
  obtain answerer r u t nonce request_hash body where served:
    "http_post lib (length (pe_requests s1)) (with_path aa_url ''/aa/v1/authorization'') request = Inr (200, body)"
    "authority_answers lib ''authorizationResponse'' answerer (ecdsa_signature r u) t nonce (eo_session_key out)
        (ok_response ''authorizationResponse'' request_hash d) = Inr body"
    using assms(7) sd(1,2) unfolding authority_serves_def by blast
  obtain answer where "at_decrypt_psk_response lib body (eo_session_key out) (eo_session_id out) = Inr answer"
    "decode_authorization_response lib answer = Inr (ok_response ''authorizationResponse'' request_hash d)"
    using authorization_answer_read [OF served(2) assms(2,3,6)] sd(3) by metis
  moreover have "pe_requests s1 = pe_requests s" using sd(4) by (simp add: request_built_def)
  ultimately show ?thesis
    using assms(1,8) post_served [OF served(1)]
    by (simp add: authorize_def bind_s_def accepted_ok own_certificate_def)
qed

text \<open>
  C38: A request for a ticket shows the enrolment certificate to the authorisation authority, which decrypts it and
  finds the certificate as the signer of the data, although the inner signature is encrypted for the other authority so
  that the station stays unknown. This needs nothing of the authority but its key. And if the authority then
  serves the station, with an \<open>InnerAtResponse\<close> that has all its fields, the station has the issued ticket with the
  new key, and has sent this one request.
\<close>

theorem authorization_reveals_enrolment:
  assumes "build_authorization lib aa ea ec
      (case perms of None \<Rightarrow> default_ticket_permissions | Some p \<Rightarrow> p) hours s = (Inr (i, request, out), s1)"
    and "kx_laws lib" "codec_laws lib (c_certificate ec)" "can_decrypt lib secret coer aa" "holds_key (pl_sec lib) (pe_keys s1) ec"
  shows "(\<exists>a sd. authority_reads lib secret coer request = Inr (a, sd)
      \<and> py_path [Key ''content'', Idx 1, Key ''signer'', Idx 1, Idx 0] sd = Inr (c_certificate ec))
    \<and> (\<forall>aa_url d h. response_law lib ''authorizationResponse'' d
        \<and> authority_serves lib secret coer ec ''authorizationResponse'' (with_path aa_url ''/aa/v1/authorization'') d
        \<and> as_hashedid8 (pl_sec lib) (Certificate d (Some aa) (Some i)) = Inr h \<longrightarrow>
        (\<exists>s'. authorize lib aa_url aa ea ec perms hours s = (Inr (Certificate d (Some aa) (Some i)), s')
          \<and> pe_requests s' = pe_requests s @ [(with_path aa_url ''/aa/v1/authorization'', request)]
          \<and> dict_get (pe_keys s') i = Some (ec_generate (pl_sec lib) (length (pe_keys s)))))"
proof -
  obtain sd where sd: "authority_reads lib secret coer request = Inr (eo_session_key out, sd)" "request_signed lib ec sd"
    "request_built lib s i s1"
    by (rule authorization_request_read [OF assms])
  have "py_path [Key ''content'', Idx 1, Key ''signer'', Idx 1, Idx 0] sd = Inr (c_certificate ec)"
    using sd(2) by (auto simp: request_signed_def signed_data_def certificate_signer_def)
  moreover have "dict_get (pe_keys s1) i = Some (ec_generate (pl_sec lib) (length (pe_keys s)))"
    using sd(3) by (simp add: request_built_def dict_simps)
  ultimately show ?thesis using sd(1) authorization_served [OF assms] by fastforce
qed

section \<open>Certificates in files\<close>

lemma on_env_Inr: "on_env p s = (Inr x, s') \<longleftrightarrow> (\<exists>env. p (pc_env s) = (Inr x, env) \<and> s' = s\<lparr>pc_env := env\<rparr>)"
  by (auto simp: on_env_def split: prod.splits)

lemma on_keys_Inr:
  "on_keys p s = (Inr x, s') \<longleftrightarrow> (\<exists>keys. p (pe_keys s) = (Inr x, keys) \<and> s' = s\<lparr>pe_keys := keys\<rparr>)"
  by (auto simp: on_keys_def split: prod.splits)

lemma authorize_hashed:
  assumes "authorize lib url aa ea ec perms hours s = (Inr c, s')"
  shows "\<exists>h. as_hashedid8 (pl_sec lib) c = Inr h"
  using assms by (auto simp: authorize_def steps_Inr rbind_eq_Inr own_certificate_def Let_def split: prod.splits)

lemma fs_check_Inr [simp]: "fs_check lib path = Inr u \<longleftrightarrow> fs_error lib path = None"
  by (cases "fs_error lib path") (simp_all add: fs_check_def)

text \<open>After a successful save both files hold what they should.\<close>

lemma save_cert_run:
  assumes "save_cert lib c name s = (Inr (), s')"
  obtains i secret coer where "c_key_id c = Some i" "dict_get (pe_keys (pc_env s)) i = Some secret"
    "certificate_encode (pl_sec lib) c = Inr coer"
    "dict_get (pc_files s') (file_path s name ''.cert'') = Some coer"
    "dict_get (pc_files s') (file_path s name ''.pem'') = Some (to_pem lib secret)"
    "fs_error lib (file_path s name ''.cert'') = None" "fs_error lib (file_path s name ''.pem'') = None"
    "s' = s\<lparr>pc_files := pc_files s'\<rparr>"
proof -
  have different: "file_path s name ''.cert'' \<noteq> file_path s name ''.pem''" by (simp add: file_path_def)
  obtain coer pem where run: "certificate_encode (pl_sec lib) c = Inr coer"
    "rbind (own_key c) (export_signing_key lib (pe_keys (pc_env s))) = Inr pem"
    "fs_error lib (file_path s name ''.cert'') = None" "fs_error lib (file_path s name ''.pem'') = None"
    "s' = s\<lparr>pc_files := dict_set (file_path s name ''.pem'') pem (dict_set (file_path s name ''.cert'') coer (pc_files s))\<rparr>"
    using assms by (auto simp: save_cert_def write_file_def then_s_def bind_s_Inr lift_s_Inr)
  obtain i secret where "c_key_id c = Some i" "dict_get (pe_keys (pc_env s)) i = Some secret" "pem = to_pem lib secret"
    using run(2) by (auto simp: own_key_def export_signing_key_def rbind_eq_Inr get_key_Inr split: option.splits)
  then show thesis using that [of i secret coer] run different by (simp add: dict_simps)
qed

text \<open>
  C39: A ticket that a client has obtained can be loaded by any later client that finds the files: the same certificate,
  with a key number under which the same secret is stored.
\<close>

theorem saved_ticket_loads:
  assumes "client_authorize lib given perms hours s = (Inr ticket, s1)"
    and "\<And>secret. from_pem lib (to_pem lib secret) = Inr secret"
    and "\<And>bs. certificate_encode (pl_sec lib) ticket = Inr bs \<Longrightarrow> pki_decode_certificate lib bs = Inr (c_certificate ticket)"
    and "pc_files s2 = pc_files s1" "pc_certs_dir s2 = pc_certs_dir s1"
  shows "\<exists>i j ticket' s3. load_at_from_disk lib ''at'' s2 = (Inr (Some ticket'), s3)
    \<and> c_certificate ticket' = c_certificate ticket \<and> c_issuer ticket' = Some (pc_aa_cert s2)
    \<and> c_key_id ticket = Some i \<and> c_key_id ticket' = Some j \<and> pc_at_own s3 = Some ticket'
    \<and> dict_get (pe_keys (pc_env s3)) j = dict_get (pe_keys (pc_env s1)) i \<and> dict_get (pe_keys (pc_env s1)) i \<noteq> None"
proof -
  obtain ec sa where run: "authorize lib (pc_aa_url s) (pc_aa_cert s) (pc_ea_cert s) ec perms hours (pc_env s) = (Inr ticket, sa)"
    "save_cert lib ticket ''at'' (s\<lparr>pc_env := sa, pc_at_own := Some ticket\<rparr>) = (Inr (), s1)"
    using assms(1) by (auto simp: client_authorize_def bind_s_Inr on_env_Inr then_s_def split: option.splits)
  let ?s = "s\<lparr>pc_env := sa, pc_at_own := Some ticket\<rparr>"
  obtain i secret coer where saved: "c_key_id ticket = Some i" "dict_get (pe_keys sa) i = Some secret"
    "certificate_encode (pl_sec lib) ticket = Inr coer"
    "dict_get (pc_files s1) (file_path ?s ''at'' ''.cert'') = Some coer"
    "dict_get (pc_files s1) (file_path ?s ''at'' ''.pem'') = Some (to_pem lib secret)"
    "fs_error lib (file_path ?s ''at'' ''.cert'') = None" "fs_error lib (file_path ?s ''at'' ''.pem'') = None"
    "s1 = ?s\<lparr>pc_files := pc_files s1\<rparr>"
    using save_cert_run [OF run(2)] by auto
  have s1: "pc_certs_dir s1 = pc_certs_dir ?s" "pc_env s1 = sa" by (subst saved(8), simp)+
  then have path: "file_path s2 name suffix = file_path ?s name suffix" for name suffix
    using assms(5) by (simp add: file_path_def)
  have files: "dict_get (pc_files s2) (file_path s2 ''at'' ''.cert'') = Some coer"
    "dict_get (pc_files s2) (file_path s2 ''at'' ''.pem'') = Some (to_pem lib secret)"
    "fs_error lib (file_path s2 ''at'' ''.cert'') = None" "fs_error lib (file_path s2 ''at'' ''.pem'') = None"
    unfolding path assms(4) by (rule saved(4-7))+
  obtain h where "as_hashedid8 (pl_sec lib) ticket = Inr h" using authorize_hashed [OF run(1)] by blast
  then have hash: "as_hashedid8 (pl_sec lib) (Certificate (c_certificate ticket) issuer key) = Inr h" for issuer key
    using hash_of_dict [of "Certificate (c_certificate ticket) issuer key" ticket] by simp
  let ?j = "int (length (pe_keys (pc_env s2)))"
  let ?t = "Certificate (c_certificate ticket) (Some (pc_aa_cert s2)) (Some ?j)"
  have "load_at_from_disk lib ''at'' s2 = (Inr (Some ?t),
      s2\<lparr>pc_env := (pc_env s2)\<lparr>pe_keys := dict_set ?j secret (pe_keys (pc_env s2))\<rparr>, pc_at_own := Some ?t\<rparr>)"
    by (simp add: load_at_from_disk_def Let_def files read_file_def fs_check_def catch_s_def bind_s_def then_s_def
        on_env_def on_keys_def import_signing_key_def assms(2) assms(3) [OF saved(3)] hash)
  then show ?thesis using saved(1,2) s1(2) by (simp add: dict_simps)
qed

text \<open>
  A key that the caller supplies for the first certificate is imported, but the certificate gets a key of its
  own.
\<close>

lemma initialize_key:
  assumes "initialize_certificate lib tbs None keys = (Inr c, keys')"
  shows "c_key_id c = Some (int (length keys))
    \<and> keys' = dict_set (int (length keys)) (ec_generate lib (length keys)) keys"
  using assms
  by (auto simp: initialize_certificate_def create_key_def Let_def bind_s_Inr lift_s_Inr rbind_eq_Inr split: if_splits)

lemma supplied_key_is_not_used:
  assumes "get_or_create_canonical_cert lib s = (Inr c, s')" "pc_canonical_cert s = None"
    and "pc_canonical_key_pem s = Some pem"
  shows "\<exists>supplied keys. from_pem lib pem = Inr supplied
    \<and> keys = dict_set (int (length (pe_keys (pc_env s)))) supplied (pe_keys (pc_env s))
    \<and> c_key_id c = Some (int (length keys))
    \<and> pe_keys (pc_env s') = dict_set (int (length keys)) (ec_generate (pl_sec lib) (length keys)) keys"
proof -
  obtain time env1 i env2 vk tbs keys where run: "now_time32 lib (pc_env s) = (Inr time, env1)"
    "on_keys (import_signing_key lib pem) env1 = (Inr i, env2)"
    "initialize_certificate (pl_sec lib) tbs None (pe_keys env2) = (Inr c, keys)" "pe_keys (pc_env s') = keys"
    using assms
    by (auto simp: get_or_create_canonical_cert_def bind_s_Inr with_keys_Inr lift_s_Inr
        on_env_Inr on_keys_Inr then_s_def)
  have "pe_keys env1 = pe_keys (pc_env s)" using draws_Inr(1) [OF run(1)] by simp
  then obtain supplied where "from_pem lib pem = Inr supplied"
    "pe_keys env2 = dict_set (int (length (pe_keys (pc_env s)))) supplied (pe_keys (pc_env s))"
    using run(2) by (auto simp: on_keys_def import_signing_key_def Let_def split: sum.splits)
  then show ?thesis using initialize_key [OF run(3)] run(4) by auto
qed

end
