(* ===== verification/PkiExample.thy ===== *)
theory PkiExample
  imports PkiProps SecExample
begin

text \<open>
  A small example of the PKI client: packages that fulfil their laws, a codec given by a table, and two
  authorities that answer one request each.
\<close>

section \<open>Packages\<close>

text \<open>Boxes are open, all points are the same, and the codec knows the lines of a table.\<close>

definition toy_pki :: "(string \<times> pyval \<times> bytes) list \<Rightarrow> bytes \<Rightarrow> bytes \<Rightarrow> pki_lib" where
  "toy_pki table question answer =
     \<lparr>pl_sec = toy_lib toy_envelope,
      pki_encode = (\<lambda>kind v. case map_of (map (\<lambda>(k, w, b). ((k, w), b)) table) (kind, v) of
        None \<Rightarrow> Inl ValueError | Some b \<Rightarrow> Inr b),
      pki_decode = (\<lambda>kind b. case map_of (map (\<lambda>(k, w, b). ((k, b), w)) table) (kind, b) of
        None \<Rightarrow> Inl ValueError | Some v \<Rightarrow> Inr v),
      pki_time = (\<lambda>_. 1072915200), pki_urandom = (\<lambda>_ n. replicate n 0),
      kx_generate = (\<lambda>_. 5), kx_public = (\<lambda>_. (0, 0)), kx_exchange = (\<lambda>_ _. []),
      kx_compressed = (\<lambda>_. [2]), kx_from_encoded = (\<lambda>_. Inr (0, 0)),
      ccm_encrypt = (\<lambda>_ _ p. Inr p), ccm_decrypt = (\<lambda>_ _ c. Inr c), hmac_sha256 = (\<lambda>_ _. []),
      http_post = (\<lambda>_ _ request. if request = question then Inr (200, answer) else Inl HTTPError),
      to_pem = (\<lambda>k. (if k < 0 then 1 else 0) # replicate (nat \<bar>k\<bar>) 0),
      from_pem = (\<lambda>bs. case bs of [] \<Rightarrow> Inl ValueError
        | s # rest \<Rightarrow> Inr (if s = 1 then - int (length rest) else int (length rest))),
      fs_error = (\<lambda>_. None)\<rparr>"

lemma toy_pki_fields [simp]:
  "pl_sec (toy_pki table question answer) = toy_lib toy_envelope"
  "pki_time (toy_pki table question answer) n = 1072915200"
  "pki_urandom (toy_pki table question answer) i n = replicate n 0"
  "kx_public (toy_pki table question answer) a = (0, 0)"
  "kx_exchange (toy_pki table question answer) a point = []"
  "kx_compressed (toy_pki table question answer) point = [2]"
  "kx_from_encoded (toy_pki table question answer) bs = Inr (0, 0)"
  "ccm_encrypt (toy_pki table question answer) k nonce p = Inr p"
  "ccm_decrypt (toy_pki table question answer) k nonce p = Inr p"
  "hmac_sha256 (toy_pki table question answer) k p = []"
  "fs_error (toy_pki table question answer) path = None"
  "http_post (toy_pki table question answer) n url request = (if request = question then Inr (200, answer) else Inl HTTPError)"
  by (simp_all add: toy_pki_def)

lemma toy_sha256 [simp]: "sha256 (toy_lib e) bs = replicate 32 0"
  by (simp add: toy_lib_def)

lemma toy_kx_laws: "kx_laws (toy_pki table question answer)"
  by (simp add: kx_laws_def)

lemma toy_pem: "from_pem (toy_pki table question answer) (to_pem (toy_pki table question answer) secret) = Inr secret"
  by (simp add: toy_pki_def)

lemma table_round_trip:
  assumes "distinct (map (\<lambda>(k, w, b). (k, b)) table)" "pki_encode (toy_pki table question answer) kind v = Inr b"
  shows "pki_decode (toy_pki table question answer) kind b = Inr v"
proof -
  have "(kind, v, b) \<in> set table"
    using assms(2) by (auto simp: toy_pki_def split: option.splits dest!: map_of_SomeD)
  moreover have "distinct (map fst (map (\<lambda>(k, w, b). ((k, b), w)) table))"
    using assms(1) by (simp add: comp_def case_prod_unfold)
  ultimately have "map_of (map (\<lambda>(k, w, b). ((k, b), w)) table) (kind, b) = Some v"
    by (intro map_of_is_SomeI) force+
  then show ?thesis by (simp add: toy_pki_def)
qed

lemma toy_codec_laws:
  assumes "distinct (map (\<lambda>(k, w, b). (k, b)) table)"
  shows "codec_laws (toy_pki table question answer) cert" "response_law (toy_pki table question answer) kind d"
  using table_round_trip [OF assms]
  by (simp_all add: codec_laws_def response_law_def encode_ieee1609dot2_data_def decode_ieee1609dot2_data_def
      encode_etsi102941_data_def decode_etsi102941_data_def)

section \<open>Certificates and keys\<close>

definition toy_point :: pyval where
  "toy_point = PTuple [PStr ''compressed-y-0'', PBytes []]"

definition toy_ea :: Certificate where
  "toy_ea = Certificate (PDict [(''toBeSigned'', PDict [(''encryptionKey'', PDict
     [(''publicKey'', PTuple [PStr ''eciesNistP256'', toy_point])])])]) None None"

lemma toy_hash_ea: "as_hashedid8 (toy_lib e) toy_ea = Inr toy_digest"
  by (simp add: as_hashedid8_def to_canonical_def canonical_key_def canonical_signature_def choice_is_def
      certificate_encode_def encode_etsi_ts_103097_certificate_def last_bytes_def toy_digest_def toy_ea_def toy_lib_def)

lemma toy_certificate_encode: "certificate_encode (toy_lib e) c = Inr []"
  by (simp add: certificate_encode_def encode_etsi_ts_103097_certificate_def toy_encode)

lemma toy_enc_info:
  "extract_enc_info (toy_pki table question answer) e toy_ea = Inr (PTuple [PStr ''eciesNistP256'', toy_point], [])"
  by (simp add: extract_enc_info_def toy_certificate_encode is_none_def toy_ea_def)

lemma toy_key_read:
  "public_key_from_tuple (toy_pki table question answer) (PTuple [PStr ''eciesNistP256'', toy_point]) = Inr (0, 0)"
  by (simp add: public_key_from_tuple_def toy_point_def)

lemma toy_can_decrypt: "can_decrypt (toy_pki table question answer) secret [] toy_ea"
  unfolding can_decrypt_def using toy_enc_info toy_key_read by auto

definition toy_new_key :: pyval where
  "toy_new_key = PTuple [PStr ''ecdsaNistP256'', PTuple [PStr ''compressed-y-1'', PBytes (be_bytes 32 9)]]"

definition toy_env :: pki_env where
  "toy_env = \<lparr>pe_keys = toy_keys, pe_clock = 0, pe_random = 0, pe_requests = []\<rparr>"

definition more_keys :: backend where
  "more_keys = dict_set 2 9 toy_keys"

lemma toy_create: "create_key (toy_lib e) toy_keys = (Inr 2, more_keys)"
  by (simp add: create_key_def toy_keys_def toy_lib_def more_keys_def)

lemma toy_new_public_key: "get_public_key (toy_lib e) more_keys 2 = Inr toy_new_key"
  by (simp add: get_public_key_def more_keys_def dict_simps compressed_point_def toy_lib_def to_bytes_def toy_new_key_def
      del: be_bytes.simps)

lemma toy_signs_any: "sign_message (toy_lib e) more_keys toy_ticket bs = Inr (toy_signature 8)"
  by (simp add: sign_message_def own_key_def toy_ticket_def sign_def more_keys_def toy_keys_def dict_simps toy_lib_def
      signature_value_def to_bytes_def toy_signature_def del: be_bytes.simps)

lemma toy_holds_more: "holds_key (toy_lib e) more_keys toy_ticket"
  using toy_holds_key(2) [of e] by (auto simp: holds_key_def more_keys_def dict_simps toy_ticket_def)

definition toy_ecies_key :: pyval where
  "toy_ecies_key = PDict [(''v'', toy_point), (''c'', PBytes (replicate 16 0)), (''t'', PBytes [])]"

definition toy_box :: "bytes \<Rightarrow> pyval" where
  "toy_box plain = PDict [(''nonce'', PBytes (replicate 12 0)), (''ccmCiphertext'', PBytes plain)]"

lemma toy_encrypts:
  "encrypt_for (toy_pki table question answer) e toy_ea plain s =
     (Inr (encrypted_data toy_digest toy_ecies_key (toy_box plain),
        \<lparr>eo_key = toy_ecies_key, eo_ccm = toy_box plain, eo_session_key = replicate 16 0, eo_session_id = toy_digest\<rparr>),
      s\<lparr>pe_random := pe_random s + 3\<rparr>)"
proof -
  have "xor_bytes (replicate 16 0) (replicate 16 0) = replicate 16 0" by (simp add: xor_bytes_def zip_replicate)
  moreover have "compress_public_key (toy_pki table question answer) point = Inr toy_point" for point
    by (simp add: compress_public_key_def toy_point_def)
  ultimately show ?thesis
    by (simp add: encrypt_for_def toy_enc_info ecies_encrypt_def toy_key_read bind_s_def generate_private_key_def
        os_urandom_def Let_def toy_hash_ea kdf2_def toy_ecies_key_def
        toy_box_def toy_digest_def last_bytes_def)
qed

section \<open>Enrolment\<close>

definition issued_dict :: pyval where
  "issued_dict = PDict [(''toBeSigned'', PDict [])]"

definition etsi_data :: "string \<Rightarrow> pyval \<Rightarrow> pyval" where
  "etsi_data kind v = PDict [(''version'', PInt 1), (''content'', PTuple [PStr kind, v])]"

definition request_hash :: bytes where
  "request_hash = replicate 16 0"

text \<open>The signed request around a payload, the encrypted request, and the answer.\<close>

definition toy_signed :: "bytes \<Rightarrow> pyval" where
  "toy_signed payload = signed_data (pki_tbs_data payload 0) (certificate_signer toy_ticket) (toy_signature 8)"

definition toy_encrypted :: "bytes \<Rightarrow> pyval" where
  "toy_encrypted plain = encrypted_data toy_digest toy_ecies_key (toy_box plain)"

definition answerer :: bytes where
  "answerer = replicate 8 1"

definition toy_answer :: "bytes \<Rightarrow> pyval" where
  "toy_answer payload =
     signed_data (pki_tbs_data payload 0) (digest_signer answerer) (ecdsa_signature (replicate 32 0) (replicate 32 0))"

definition enrolment_table :: "(string \<times> pyval \<times> bytes) list" where
  "enrolment_table =
     [(''EtsiTs102941Data'', etsi_data ''enrolmentRequest''
        (inner_ec_request [] toy_new_key 0 1 certificate_request_permissions), [1]),
      (''ToBeSignedData'', pki_tbs_data [1] 0, [2]),
      (''Ieee1609Dot2Data'', toy_signed [1], [3]),
      (''Ieee1609Dot2Data'', toy_encrypted [3], [4]),
      (''EtsiTs102941Data'', etsi_data ''enrolmentResponse'' (ok_response ''enrolmentResponse'' request_hash issued_dict), [5]),
      (''Ieee1609Dot2Data'', toy_answer [5], [6]),
      (''Ieee1609Dot2Data'', session_data toy_digest (toy_box [6]), [7])]"

definition enrolment_lib :: pki_lib where
  "enrolment_lib = toy_pki enrolment_table [4] [7]"

lemma kinds_differ:
  "toy_signed p \<noteq> toy_answer q" "toy_signed p \<noteq> toy_encrypted q" "toy_signed p \<noteq> session_data h c"
  "toy_answer q \<noteq> toy_signed p" "toy_answer p \<noteq> toy_encrypted q" "toy_answer p \<noteq> session_data h c"
  "toy_encrypted q \<noteq> toy_signed p" "toy_encrypted q \<noteq> toy_answer p" "toy_encrypted p \<noteq> session_data h c"
  "session_data h c \<noteq> toy_signed p" "session_data h c \<noteq> toy_answer p" "session_data h c \<noteq> toy_encrypted p"
  by (simp_all add: toy_signed_def toy_answer_def toy_encrypted_def signed_data_def encrypted_data_def session_data_def
      certificate_signer_def digest_signer_def)

lemma etsi_data_eq [simp]: "etsi_data k v = etsi_data k' v' \<longleftrightarrow> k = k' \<and> v = v'"
  by (simp add: etsi_data_def)

lemma enrolment_encodes:
  "encode_etsi102941_data enrolment_lib ''enrolmentRequest''
     (inner_ec_request [] toy_new_key 0 1 certificate_request_permissions) = Inr [1]"
  "pki_encode enrolment_lib ''ToBeSignedData'' (pki_tbs_data [1] 0) = Inr [2]"
  "encode_ieee1609dot2_data enrolment_lib (toy_signed [1]) = Inr [3]"
  "encode_ieee1609dot2_data enrolment_lib (toy_encrypted [3]) = Inr [4]"
  "encode_etsi102941_data enrolment_lib ''enrolmentResponse'' (ok_response ''enrolmentResponse'' request_hash issued_dict) = Inr [5]"
  "encode_ieee1609dot2_data enrolment_lib (toy_answer [5]) = Inr [6]"
  "encode_ieee1609dot2_data enrolment_lib (session_data toy_digest (toy_box [6])) = Inr [7]"
  by (simp_all add: enrolment_lib_def toy_pki_def enrolment_table_def encode_ieee1609dot2_data_def
      encode_etsi102941_data_def etsi_data_def [symmetric] kinds_differ)

lemma enrolment_laws: "kx_laws enrolment_lib" "codec_laws enrolment_lib cert" "response_law enrolment_lib kind d"
  "pl_sec enrolment_lib = toy_lib toy_envelope" "can_decrypt enrolment_lib secret [] toy_ea"
  unfolding enrolment_lib_def
  by (rule toy_kx_laws toy_codec_laws toy_pki_fields toy_can_decrypt, (simp add: enrolment_table_def)?)+

lemma toy_enrolment_built:
  "build_enrolment enrolment_lib toy_ea toy_ticket [] certificate_request_permissions 1 toy_env = (Inr (2, [4],
     \<lparr>eo_key = toy_ecies_key, eo_ccm = toy_box [3], eo_session_key = replicate 16 0, eo_session_id = toy_digest\<rparr>),
     \<lparr>pe_keys = more_keys, pe_clock = 1, pe_random = 3, pe_requests = []\<rparr>)"
proof -
  have time: "now_time32 enrolment_lib s = (Inr 0, s\<lparr>pe_clock := Suc (pe_clock s)\<rparr>)" for s
    by (simp add: now_time32_def enrolment_lib_def py_int_def)
  have signed: "signed_request enrolment_lib toy_ticket (certificate_signer toy_ticket) [1] 0 more_keys = Inr [3]"
    by (simp add: signed_request_def enrolment_encodes enrolment_laws toy_signs_any Let_def flip: toy_signed_def)
  show ?thesis
    using toy_encrypts [of enrolment_table "[4]" "[7]", folded enrolment_lib_def toy_encrypted_def]
    by (simp add: build_enrolment_def bind_s_def on_keys_def toy_env_def toy_create enrolment_laws with_keys_def
        toy_new_public_key time enrolment_encodes signed)
qed

text \<open>The only request that the authority can read is the one that it answers.\<close>

lemma question_read:
  assumes "authority_reads enrolment_lib secret [] request = Inr (a, sd)"
  shows "request = [4] \<and> a = replicate 16 0"
proof -
  have c: "request = [3] \<or> request = [4] \<or> request = [6] \<or> request = [7]"
    using assms by (auto simp: authority_reads_def decode_ieee1609dot2_data_def enrolment_lib_def toy_pki_def
        enrolment_table_def rbind_eq_Inr split: if_splits)
  have decoded: "decode_ieee1609dot2_data enrolment_lib [3] = Inr (toy_signed [1])"
    "decode_ieee1609dot2_data enrolment_lib [4] = Inr (toy_encrypted [3])"
    "decode_ieee1609dot2_data enrolment_lib [6] = Inr (toy_answer [5])"
    "decode_ieee1609dot2_data enrolment_lib [7] = Inr (session_data toy_digest (toy_box [6]))"
    by (simp_all add: decode_ieee1609dot2_data_def enrolment_lib_def toy_pki_def enrolment_table_def)
  have "request = [4]"
    using c assms
    by (auto simp: authority_reads_def decoded toy_signed_def toy_answer_def signed_data_def session_data_def)
  moreover have "session_key_of enrolment_lib secret [] toy_ecies_key = Inr (replicate 16 0)"
    using encrypt_for_run(2) [OF toy_encrypts toy_can_decrypt toy_kx_laws] by (simp add: enrolment_lib_def)
  ultimately show ?thesis
    using assms by (auto simp: authority_reads_def decoded rbind_eq_Inr) (auto simp: toy_encrypted_def encrypted_data_def)
qed

lemma toy_answers:
  assumes "encode_etsi102941_data (toy_pki table q r) kind response = Inr payload"
    and "encode_ieee1609dot2_data (toy_pki table q r) (toy_answer payload) = Inr plain"
    and "encode_ieee1609dot2_data (toy_pki table q r) (session_data toy_digest (toy_box plain)) = Inr body"
  shows "authority_answers (toy_pki table q r) kind answerer (ecdsa_signature (replicate 32 0) (replicate 32 0)) 0
      (replicate 12 0) a response = Inr body"
  using assms by (simp add: authority_answers_def toy_answer_def [symmetric] ccm_box_def toy_box_def [symmetric] last_bytes_def
      flip: toy_digest_def)

lemma toy_posts: "http_post (toy_pki table q answer) n url q = Inr (200, answer)"
  by simp

lemma toy_issued_hash: "as_hashedid8 (toy_lib e) (Certificate issued_dict issuer key) = Inr toy_digest"
  by (simp add: as_hashedid8_def to_canonical_def canonical_key_def canonical_signature_def choice_is_def
      toy_certificate_encode last_bytes_def toy_digest_def issued_dict_def)

theorem enrolment_end_to_end_witness:
  "\<exists>s'. enroll enrolment_lib ''ea'' toy_ea toy_ticket [] None 1 toy_env = (Inr (Certificate issued_dict (Some toy_ea) (Some 2)), s')
    \<and> pe_requests s' = [(''ea/ea/v1/enrolment'', [4])] \<and> dict_get (pe_keys s') 2 = Some 9"
proof -
  have "authority_serves enrolment_lib 5 [] toy_ticket ''enrolmentResponse'' (with_path ''ea'' ''/ea/v1/enrolment'') issued_dict"
    unfolding authority_serves_def
  proof (intro allI impI, elim conjE)
    fix n request a sd
    assume "authority_reads enrolment_lib 5 [] request = Inr (a, sd)"
    then have "request = [4]" using question_read by blast
    moreover have "http_post enrolment_lib n url' [4] = Inr (200, [7])" for url'
      unfolding enrolment_lib_def by (rule toy_posts)
    moreover have "authority_answers enrolment_lib ''enrolmentResponse'' answerer
        (ecdsa_signature (replicate 32 0) (replicate 32 0)) 0 (replicate 12 0) a (ok_response ''enrolmentResponse'' request_hash issued_dict) = Inr [7]"
      unfolding enrolment_lib_def by (rule toy_answers) (rule enrolment_encodes(5-7) [unfolded enrolment_lib_def])+
    ultimately show "\<exists>signer r s time nonce request_hash body. http_post enrolment_lib n (with_path ''ea'' ''/ea/v1/enrolment'') request = Inr (200, body)
        \<and> authority_answers enrolment_lib ''enrolmentResponse'' signer (ecdsa_signature r s) time nonce a
            (ok_response ''enrolmentResponse'' request_hash issued_dict) = Inr body"
      by blast
  qed
  from enrolment_end_to_end [where perms = None, simplified option.case, OF toy_enrolment_built enrolment_laws(1-3,5) _ this]
  show ?thesis
    by (auto simp: enrolment_laws toy_holds_more toy_issued_hash with_path_def toy_env_def)
      (simp add: toy_keys_def toy_lib_def)
qed

section \<open>Authorisation\<close>

definition ec_signer :: pyval where
  "ec_signer = PTuple [PStr ''digest'', PBytes toy_digest]"

definition toy_shared :: pyval where
  "toy_shared = shared_at_request toy_digest [] 0 504 default_ticket_permissions"

definition toy_inner_request :: pyval where
  "toy_inner_request = PDict
     [(''publicKeys'', PDict [(''verificationKey'', toy_new_key)]), (''hmacKey'', PBytes (replicate 32 0)),
      (''sharedAtRequest'', toy_shared), (''ecSignature'', PTuple [PStr ''encryptedEcSignature'', toy_encrypted [4]])]"

definition authorization_table :: "(string \<times> pyval \<times> bytes) list" where
  "authorization_table =
     [(''PublicKeys'', PDict [(''verificationKey'', toy_new_key)], [1]),
      (''SharedAtRequest'', toy_shared, [2]),
      (''ToBeSignedData'', pki_tbs_data [2] 0, [3]),
      (''Ieee1609Dot2Data'', signed_data (pki_tbs_data [2] 0) ec_signer (toy_signature 8), [4]),
      (''EtsiTs102941Data'', etsi_data ''authorizationRequest'' toy_inner_request, [5]),
      (''ToBeSignedData'', pki_tbs_data [5] 0, [6]),
      (''Ieee1609Dot2Data'', toy_signed [5], [7]),
      (''Ieee1609Dot2Data'', toy_encrypted [7], [8]),
      (''EtsiTs102941Data'', etsi_data ''authorizationResponse'' (ok_response ''authorizationResponse'' request_hash issued_dict), [9]),
      (''Ieee1609Dot2Data'', toy_answer [9], [10]),
      (''Ieee1609Dot2Data'', session_data toy_digest (toy_box [10]), [11]),
      (''EtsiTs103097Certificate'', issued_dict, [])]"

definition authorization_lib :: pki_lib where
  "authorization_lib = toy_pki authorization_table [8] [11]"

lemma tbs_eq [simp]: "pki_tbs_data p t = pki_tbs_data p' t' \<longleftrightarrow> p = p' \<and> t = t'"
  by (auto simp: pki_tbs_data_def)

lemma ec_signed_differs:
  "signed_data tbs ec_signer g \<noteq> toy_answer q" "signed_data tbs ec_signer g \<noteq> toy_encrypted q"
  "signed_data tbs ec_signer g \<noteq> session_data h c" "toy_answer q \<noteq> signed_data tbs ec_signer g"
  "toy_encrypted q \<noteq> signed_data tbs ec_signer g" "session_data h c \<noteq> signed_data tbs ec_signer g"
  "toy_signed p \<noteq> signed_data tbs ec_signer g"
  by (simp_all add: toy_signed_def toy_answer_def toy_encrypted_def signed_data_def encrypted_data_def session_data_def
      certificate_signer_def ec_signer_def digest_signer_def answerer_def toy_digest_def)

lemma authorization_encodes:
  "encode_public_keys authorization_lib (PDict [(''verificationKey'', toy_new_key)]) = Inr [1]"
  "encode_shared_at_request authorization_lib toy_shared = Inr [2]"
  "pki_encode authorization_lib ''ToBeSignedData'' (pki_tbs_data [2] 0) = Inr [3]"
  "encode_ieee1609dot2_data authorization_lib (signed_data (pki_tbs_data [2] 0) ec_signer (toy_signature 8)) = Inr [4]"
  "encode_etsi102941_data authorization_lib ''authorizationRequest'' toy_inner_request = Inr [5]"
  "pki_encode authorization_lib ''ToBeSignedData'' (pki_tbs_data [5] 0) = Inr [6]"
  "encode_ieee1609dot2_data authorization_lib (toy_signed [5]) = Inr [7]"
  "encode_ieee1609dot2_data authorization_lib (toy_encrypted [7]) = Inr [8]"
  "encode_etsi102941_data authorization_lib ''authorizationResponse'' (ok_response ''authorizationResponse'' request_hash issued_dict) = Inr [9]"
  "encode_ieee1609dot2_data authorization_lib (toy_answer [9]) = Inr [10]"
  "encode_ieee1609dot2_data authorization_lib (session_data toy_digest (toy_box [10])) = Inr [11]"
  by (simp_all add: authorization_lib_def toy_pki_def authorization_table_def encode_ieee1609dot2_data_def
      encode_etsi102941_data_def encode_public_keys_def encode_shared_at_request_def etsi_data_def [symmetric]
      kinds_differ ec_signed_differs)

lemma authorization_laws: "kx_laws authorization_lib" "codec_laws authorization_lib cert" "response_law authorization_lib kind d"
  "pl_sec authorization_lib = toy_lib toy_envelope" "can_decrypt authorization_lib secret [] toy_ea"
  unfolding authorization_lib_def
  by (rule toy_kx_laws toy_codec_laws toy_pki_fields toy_can_decrypt, (simp add: authorization_table_def)?)+

lemma toy_authorization_built:
  "build_authorization authorization_lib toy_ea toy_ea toy_ticket default_ticket_permissions 504 toy_env = (Inr (2, [8],
     \<lparr>eo_key = toy_ecies_key, eo_ccm = toy_box [7], eo_session_key = replicate 16 0, eo_session_id = toy_digest\<rparr>),
     \<lparr>pe_keys = more_keys, pe_clock = 1, pe_random = 7, pe_requests = []\<rparr>)"
proof -
  note encrypts = toy_encrypts [of authorization_table "[8]" "[11]", folded authorization_lib_def toy_encrypted_def]
  have draws: "now_time32 authorization_lib s = (Inr 0, s\<lparr>pe_clock := Suc (pe_clock s)\<rparr>)"
    "os_urandom authorization_lib n s = (Inr (replicate n 0), s\<lparr>pe_random := Suc (pe_random s)\<rparr>)"
    "compute_hmac_key_tag authorization_lib k bs = []" for s n k bs
    by (simp_all add: now_time32_def os_urandom_def compute_hmac_key_tag_def authorization_lib_def py_int_def)
  have signed: "signed_request authorization_lib toy_ticket (certificate_signer toy_ticket) [5] 0 more_keys = Inr [7]"
    by (simp add: signed_request_def authorization_encodes authorization_laws toy_signs_any Let_def flip: toy_signed_def)
  have inner: "build_ec_signature authorization_lib toy_shared toy_ticket toy_ea 0 s
      = (Inr (PTuple [PStr ''encryptedEcSignature'', toy_encrypted [4]]), s\<lparr>pe_random := pe_random s + 3\<rparr>)"
    if "pe_keys s = more_keys" for s
    using that encrypts
    by (simp add: build_ec_signature_def bind_s_def with_keys_def authorization_encodes authorization_laws toy_signs_any
        toy_hash Let_def flip: ec_signer_def)
  show ?thesis
    using encrypts
    by (simp add: build_authorization_def bind_s_def on_keys_def toy_env_def toy_create authorization_laws with_keys_def
        toy_new_public_key draws toy_hash_ea authorization_encodes signed inner Let_def
        flip: toy_shared_def toy_inner_request_def)
qed

lemma authorization_question_read:
  assumes "authority_reads authorization_lib secret [] request = Inr (a, sd)"
  shows "request = [8]"
proof -
  have c: "request = [4] \<or> request = [7] \<or> request = [8] \<or> request = [10] \<or> request = [11]"
    using assms by (auto simp: authority_reads_def decode_ieee1609dot2_data_def authorization_lib_def toy_pki_def
        authorization_table_def rbind_eq_Inr split: if_splits)
  have decoded: "decode_ieee1609dot2_data authorization_lib [4] = Inr (signed_data (pki_tbs_data [2] 0) ec_signer (toy_signature 8))"
    "decode_ieee1609dot2_data authorization_lib [7] = Inr (toy_signed [5])"
    "decode_ieee1609dot2_data authorization_lib [10] = Inr (toy_answer [9])"
    "decode_ieee1609dot2_data authorization_lib [11] = Inr (session_data toy_digest (toy_box [10]))"
    by (simp_all add: decode_ieee1609dot2_data_def authorization_lib_def toy_pki_def authorization_table_def)
  show ?thesis
    using c assms
    by (auto simp: authority_reads_def decoded toy_signed_def toy_answer_def signed_data_def session_data_def)
qed

lemma authorization_authority:
  "authority_serves authorization_lib 5 [] toy_ticket ''authorizationResponse'' url issued_dict"
  unfolding authority_serves_def
proof (intro allI impI, elim conjE)
  fix n request a sd
  assume "authority_reads authorization_lib 5 [] request = Inr (a, sd)"
  then have "request = [8]" using authorization_question_read by blast
  moreover have "http_post authorization_lib n url [8] = Inr (200, [11])"
    unfolding authorization_lib_def by (rule toy_posts)
  moreover have "authority_answers authorization_lib ''authorizationResponse'' answerer
        (ecdsa_signature (replicate 32 0) (replicate 32 0)) 0 (replicate 12 0) a (ok_response ''authorizationResponse'' request_hash issued_dict) = Inr [11]"
    unfolding authorization_lib_def by (rule toy_answers) (rule authorization_encodes(9-11) [unfolded authorization_lib_def])+
  ultimately show "\<exists>signer r s time nonce request_hash body. http_post authorization_lib n url request = Inr (200, body)
      \<and> authority_answers authorization_lib ''authorizationResponse'' signer (ecdsa_signature r s) time nonce a
          (ok_response ''authorizationResponse'' request_hash issued_dict) = Inr body"
    by blast
qed

theorem authorization_reveals_enrolment_witness:
  "\<exists>s' a sd. authorize authorization_lib ''aa'' toy_ea toy_ea toy_ticket None 504 toy_env
      = (Inr (Certificate issued_dict (Some toy_ea) (Some 2)), s')
    \<and> authority_reads authorization_lib 5 [] [8] = Inr (a, sd)
    \<and> py_path [Key ''content'', Idx 1, Key ''signer'', Idx 1, Idx 0] sd = Inr (c_certificate toy_ticket)"
proof -
  have holds: "holds_key (pl_sec authorization_lib) (pe_keys
      \<lparr>pe_keys = more_keys, pe_clock = 1, pe_random = 7, pe_requests = []\<rparr>) toy_ticket"
    and hash: "as_hashedid8 (pl_sec authorization_lib) (Certificate issued_dict (Some toy_ea) (Some 2)) = Inr toy_digest"
    by (simp_all add: authorization_laws(4) toy_holds_more toy_issued_hash)
  note both = authorization_reveals_enrolment [where perms = None, simplified option.case, OF toy_authorization_built
      authorization_laws(1,2,5) holds, of 5]
  note served = both [THEN conjunct2, THEN spec [of _ "''aa''"], THEN spec [of _ issued_dict], THEN spec [of _ toy_digest],
      THEN mp, OF conjI, OF authorization_laws(3) conjI, OF authorization_authority hash]
  show ?thesis using both [THEN conjunct1] served by blast
qed

section \<open>Files\<close>

definition toy_client :: pki_client where
  "toy_client = (pki_client_init ''ea'' ''aa'' toy_ea toy_ea toy_root None ''certs'' [] [])
     \<lparr>pc_env := toy_env, pc_ec_own := Some toy_ticket\<rparr>"

lemma toy_client_authorizes:
  "\<exists>s. client_authorize authorization_lib None None 504 toy_client = (Inr (Certificate issued_dict (Some toy_ea) (Some 2)), s)
    \<and> pc_certs_dir s = ''certs'' \<and> pc_env toy_client = toy_env"
proof -
  obtain sd where "authorize authorization_lib ''aa'' toy_ea toy_ea toy_ticket None 504 toy_env
      = (Inr (Certificate issued_dict (Some toy_ea) (Some 2)),
         \<lparr>pe_keys = more_keys, pe_clock = 1, pe_random = 7, pe_requests = [(''aa/aa/v1/authorization'', [8])]\<rparr>)"
    using authorization_served [where perms = None and aa_url = "''aa''" and h = toy_digest, simplified option.case,
      OF toy_authorization_built authorization_laws(1,2,5) _ authorization_laws(3) authorization_authority]
    by (auto simp: authorization_laws toy_holds_more toy_issued_hash with_path_def toy_env_def)
  moreover have "export_signing_key authorization_lib more_keys 2 = Inr (to_pem authorization_lib 9)"
    "fs_error authorization_lib path = None" for path
    by (simp_all add: export_signing_key_def more_keys_def dict_simps authorization_lib_def)
  ultimately show ?thesis
    by (simp add: client_authorize_def toy_client_def pki_client_init_def bind_s_def on_env_def then_s_def save_cert_def
        fs_check_def authorization_laws toy_certificate_encode write_file_def own_key_def)
qed

theorem saved_ticket_loads_witness:
  "\<exists>s1. client_authorize authorization_lib None None 504 toy_client = (Inr (Certificate issued_dict (Some toy_ea) (Some 2)), s1)
    \<and> (\<exists>i ticket s3. load_at_from_disk authorization_lib ''at''
          (pki_client_init ''ea'' ''aa'' toy_ea toy_ea toy_root None ''certs'' [] (pc_files s1)) = (Inr (Some ticket), s3)
        \<and> c_certificate ticket = issued_dict \<and> c_key_id ticket = Some i
        \<and> dict_get (pe_keys (pc_env s3)) i = dict_get (pe_keys (pc_env s1)) 2)"
proof -
  obtain s1 where s1: "client_authorize authorization_lib None None 504 toy_client
      = (Inr (Certificate issued_dict (Some toy_ea) (Some 2)), s1)" "pc_certs_dir s1 = ''certs''"
    using toy_client_authorizes by blast
  let ?s2 = "pki_client_init ''ea'' ''aa'' toy_ea toy_ea toy_root None ''certs'' [] (pc_files s1)"
  have pem: "from_pem authorization_lib (to_pem authorization_lib secret) = Inr secret" for secret
    unfolding authorization_lib_def by (rule toy_pem)
  have decoded: "pki_decode_certificate authorization_lib [] = Inr issued_dict"
    by (simp add: pki_decode_certificate_def authorization_lib_def toy_pki_def authorization_table_def)
  have "pc_files ?s2 = pc_files s1" "pc_certs_dir ?s2 = pc_certs_dir s1" by (simp_all add: pki_client_init_def s1(2))
  from saved_ticket_loads [OF s1(1) pem _ this] show ?thesis
    using s1(1) by (fastforce simp: authorization_laws toy_certificate_encode decoded)
qed

end
