(* ===== verification/LinkLayers.thy ===== *)
theory LinkLayers
  imports Btp PyValue
begin

text \<open>
  The link layers (\<open>src/flexstack/linklayer/\<close>): raw Ethernet frames of type 0x8947, and C-V2X through a
  binary library. The socket and the library are the lists of what they hand over; what is sent is a
  result. The thread that receives is a loop over such a list, with the upper layer as a method on a state.
\<close>

section \<open>Raw frames\<close>

definition broadcast :: bytes where
  "broadcast = replicate 6 0xff"

definition raw_link_init :: "bool \<Rightarrow> unit result \<Rightarrow> bytes \<Rightarrow> bytes result" where
  "raw_link_init windows socket mac_address =
     (if windows then Inl WindowsNotSupportedException
      else
        rbind socket (\<lambda>_.
        if length mac_address \<noteq> 6 then Inl InvalidMACAddressException else Inr mac_address))"

definition raw_send :: "bytes \<Rightarrow> bytes \<Rightarrow> bytes result" where
  "raw_send mac_address packet =
     (let frame = broadcast @ mac_address @ [0x89, 0x47] @ packet
      in if length frame > 1500 then Inl PacketTooLongException else Inr frame)"

text \<open>Whether a frame is for the station: its own address, or broadcast by another station.\<close>

definition raw_accepts :: "bytes \<Rightarrow> bytes \<Rightarrow> bool" where
  "raw_accepts mac_address m \<longleftrightarrow>
     slice 0 6 m = mac_address \<or> (slice 0 6 m = broadcast \<and> slice 6 12 m \<noteq> mac_address)"

text \<open>What a receiving thread has come to.\<close>

datatype loop_status = Listening | Stopped | Crashed py_error

text \<open>An exception of the upper layer: only two of them are caught.\<close>

definition after_exception :: "py_error \<Rightarrow> loop_status" where
  "after_exception e = (if e = NotImplementedError then Listening else if e = OSError then Stopped else Crashed e)"

definition raw_deliver :: "bytes \<Rightarrow> (bytes \<Rightarrow> ('s, unit) prog) \<Rightarrow> bytes \<Rightarrow> 's \<Rightarrow> loop_status \<times> 's" where
  "raw_deliver mac_address receive_callback m s =
     (if raw_accepts mac_address m then
        (case receive_callback (drop 14 m) s of (Inr _, s') \<Rightarrow> (Listening, s') | (Inl e, s') \<Rightarrow> (after_exception e, s'))
      else (Listening, s))"

text \<open>The socket gives frames, of which 1500 bytes are read, or \<open>None\<close> for an error.\<close>

fun raw_receive :: "bytes \<Rightarrow> (bytes \<Rightarrow> ('s, unit) prog) \<Rightarrow> bytes option list \<Rightarrow> 's \<Rightarrow> loop_status \<times> 's" where
  "raw_receive mac_address receive_callback [] s = (Listening, s)"
| "raw_receive mac_address receive_callback (None # rest) s = (Stopped, s)"
| "raw_receive mac_address receive_callback (Some m # rest) s =
     (case raw_deliver mac_address receive_callback (take 1500 m) s of
        (Listening, s') \<Rightarrow> raw_receive mac_address receive_callback rest s'
      | (status, s') \<Rightarrow> (status, s'))"

section \<open>C-V2X\<close>

definition cv2x_send :: "bytes \<Rightarrow> bytes" where
  "cv2x_send packet = 3 # packet"

text \<open>What one process puts into the queue, and how a thread of the other takes it out; \<open>None\<close> stops it.\<close>

definition receive_process :: "bytes list \<Rightarrow> bytes list" where
  "receive_process received = map (drop 1) (filter (\<lambda>data. data \<noteq> []) received)"

fun callback_handler_loop :: "(bytes \<Rightarrow> ('s, unit) prog) \<Rightarrow> bytes option list \<Rightarrow> 's \<Rightarrow> loop_status \<times> 's" where
  "callback_handler_loop receive_callback [] s = (Listening, s)"
| "callback_handler_loop receive_callback (None # rest) s = (Stopped, s)"
| "callback_handler_loop receive_callback (Some data # rest) s =
     (case receive_callback data s of
        (Inr _, s') \<Rightarrow> callback_handler_loop receive_callback rest s'
      | (Inl e, s') \<Rightarrow>
          if e = NotImplementedError then callback_handler_loop receive_callback rest s' else (Crashed e, s'))"

section \<open>Frames on the air\<close>

lemma raw_frame_fields:
  assumes "raw_send mac packet = Inr frame" "length mac = 6"
  shows "length frame \<le> 1500" "drop 14 frame = packet"
    "raw_accepts mac' frame \<longleftrightarrow> mac' = broadcast \<or> mac' \<noteq> mac"
proof -
  have frame: "frame = broadcast @ mac @ [0x89, 0x47] @ packet" "length frame \<le> 1500"
    using assms(1) by (auto simp: raw_send_def Let_def split: if_splits)
  have parts: "length broadcast = 6" "slice 0 6 frame = broadcast" "slice 6 12 frame = mac"
    using assms(2) by (simp_all add: frame(1) slice_def broadcast_def)
  show "length frame \<le> 1500" by (rule frame(2))
  show "drop 14 frame = packet" using assms(2) parts(1) by (simp add: frame(1))
  show "raw_accepts mac' frame \<longleftrightarrow> mac' = broadcast \<or> mac' \<noteq> mac" by (auto simp: raw_accepts_def parts)
qed

lemma raw_send_total:
  "length mac = 6 \<Longrightarrow> length packet \<le> 1486 \<Longrightarrow> \<exists>frame. raw_send mac packet = Inr frame"
  "length mac = 6 \<Longrightarrow> 1486 < length packet \<Longrightarrow> raw_send mac packet = Inl PacketTooLongException"
  by (simp_all add: raw_send_def broadcast_def Let_def)

lemma raw_receive_append:
  assumes "raw_receive mac cb es s = (Listening, s1)"
  shows "raw_receive mac cb (es @ ahead) s = raw_receive mac cb ahead s1"
  using assms
proof (induction mac cb es s rule: raw_receive.induct)
  case (3 mac cb m rest s)
  then show ?case by (cases "raw_deliver mac cb (take 1500 m) s"; cases "fst (raw_deliver mac cb (take 1500 m) s)") auto
qed simp_all

text \<open>
  C40: Packets of at most 1486 bytes leave in frames. If the upper layer
  handles everything without an exception, a station takes from any sequence of frames on the air exactly the
  packets of the others, in order.
\<close>

theorem stations_hear_the_others:
  assumes "length mac = 6" "mac \<noteq> broadcast" "\<And>p s. \<exists>s'. cb p s = (Inr (), s')"
    and "\<And>a p. (a, p) \<in> set sent \<Longrightarrow> length a = 6 \<and> length p \<le> 1486"
  shows "\<exists>frames. rmap (\<lambda>(a, p). raw_send a p) sent = Inr frames
    \<and> raw_receive mac cb (map Some frames) s = (Listening, snd (for_each_s (map snd (filter (\<lambda>(a, p). a \<noteq> mac) sent)) cb s))"
  using assms(4)
proof (induction sent arbitrary: s)
  case Nil
  then show ?case by simp
next
  case (Cons x sent)
  obtain a p where x: "x = (a, p)" by fastforce
  have a: "length a = 6" "length p \<le> 1486" using Cons.prems x by auto
  obtain frame where frame: "raw_send a p = Inr frame" using raw_send_total(1) [OF a] by blast
  obtain s1 where s1: "cb p s = (Inr (), s1)" using assms(3) by blast
  have deliver: "raw_deliver mac cb (take 1500 frame) s = (Listening, if a \<noteq> mac then s1 else s)"
    using raw_frame_fields(1,2) [OF frame a(1)] raw_frame_fields(3) [OF frame a(1), of mac] assms(2) s1 by (auto simp: raw_deliver_def)
  have tail: "\<exists>frames. rmap (\<lambda>(a, p). raw_send a p) sent = Inr frames
    \<and> raw_receive mac cb (map Some frames) s = (Listening, snd (for_each_s (map snd (filter (\<lambda>(a, p). a \<noteq> mac) sent)) cb s))" for s
    by (rule Cons.IH) (rule Cons.prems, simp)
  obtain frames where frames: "rmap (\<lambda>(a, p). raw_send a p) sent = Inr frames" using tail by blast
  have listen: "raw_receive mac cb (map Some frames) s = (Listening, snd (for_each_s (map snd (filter (\<lambda>(a, p). a \<noteq> mac) sent)) cb s))" for s
    using tail [of s] frames by simp
  have all: "rmap (\<lambda>(a, p). raw_send a p) (x # sent) = Inr (frame # frames)" by (simp add: x frame frames)
  show ?case
    unfolding all
    using listen deliver s1 by (cases "a = mac") (simp_all add: x then_s_def bind_s_def)
qed

lemma stations_hear_the_others_witness:
  "\<exists>frames. rmap (\<lambda>(a, p). raw_send a p) [(replicate 6 1, [7]), (replicate 6 2, [8]), (replicate 6 1, [9])] = Inr frames
    \<and> raw_receive (replicate 6 2) (\<lambda>p. modify_s (\<lambda>heard. heard @ [p])) (map Some frames) [] = (Listening, [[7], [9]])"
proof -
  let ?sent = "[(replicate 6 1, [7]), (replicate 6 2, [8]), (replicate 6 1, [9])] :: (bytes \<times> bytes) list"
  have different: "replicate 6 (2 :: byte) \<noteq> broadcast" "replicate 6 (1 :: byte) \<noteq> replicate 6 2"
    by (simp_all add: broadcast_def replicate_eq_replicate)
  have sizes: "length a = 6 \<and> length p \<le> 1486" if "(a, p) \<in> set ?sent" for a p using that by auto
  have heard: "\<exists>s'. modify_s (\<lambda>heard. heard @ [p]) s = (Inr (), s')" for p :: bytes and s by simp
  show ?thesis
    using stations_hear_the_others [of "replicate 6 2" "\<lambda>p. modify_s (\<lambda>heard. heard @ [p])" ?sent "[]",
        OF _ different(1) heard sizes] different(2)
    by (simp add: then_s_def bind_s_def)
qed

text \<open>
  A station that listens with the whole stack above a raw link stops at the first frame of another
  station whose packet has less than the four bytes of a basic header: the thread that receives dies of the
  exception, and whatever comes later is lost.
\<close>

lemma one_short_frame_stops_a_station:
  assumes "raw_receive mac btp_receive earlier b = (Listening, b1)"
    and "raw_send other packet = Inr frame" "length other = 6" "other \<noteq> mac" "length packet < 4"
  shows "raw_receive mac btp_receive (earlier @ Some frame # later) b = (Crashed DecodeError, b1)"
proof -
  have "btp_receive packet b1 = (Inl DecodeError, b1)"
    using assms(5)
    by (simp add: btp_receive_def on_gn_router_def gn_data_indicate_def process_basic_header_def bh_decode_def
        slice_def then_s_def bind_s_def)
  then have "raw_deliver mac btp_receive (take 1500 frame) b1 = (Crashed DecodeError, b1)"
    using raw_frame_fields(1,2) [OF assms(2,3)] raw_frame_fields(3) [OF assms(2,3), of mac] assms(4) by (auto simp: raw_deliver_def after_exception_def)
  then show ?thesis using raw_receive_append [OF assms(1)] by simp
qed

lemma one_short_frame_stops_a_station_witness:
  "\<exists>frame. raw_send (replicate 6 1) [] = Inr frame
    \<and> raw_receive (replicate 6 2) btp_receive [Some frame, Some later] listening_station = (Crashed DecodeError, listening_station)"
proof -
  obtain frame where frame: "raw_send (replicate 6 1) [] = Inr frame"
    using raw_send_total(1) [of "replicate 6 1" "[]"] by auto
  have "replicate 6 (1 :: byte) \<noteq> replicate 6 2" by (simp add: numeral_eq_Suc)
  then show ?thesis
    using one_short_frame_stops_a_station [of "replicate 6 2" "[]" listening_station listening_station "replicate 6 1" "[]" frame "[Some later]"]
      frame by simp
qed

end
