(* ===== verification/LocationSources.thy ===== *)
theory LocationSources
  imports LinkLayers
begin

text \<open>
  The sources of positions (\<open>utils/location_service.py\<close>, \<open>static_location_service.py\<close>,
  \<open>gpsd_location_service.py\<close>). A callback is a number with a method on the state of the
  station; the socket to gpsd is the list of what happens on it; reading JSON is a parameter.
\<close>

section \<open>Callbacks\<close>

definition add_callback :: "nat \<Rightarrow> nat list \<Rightarrow> nat list" where
  "add_callback c callbacks = callbacks @ [c]"

definition remove_callback :: "nat \<Rightarrow> nat list \<Rightarrow> nat list result" where
  "remove_callback c callbacks = (if c \<in> set callbacks then Inr (remove1 c callbacks) else Inl ValueError)"

definition send_to_callbacks :: "(nat \<Rightarrow> pyval \<Rightarrow> ('s, unit) prog) \<Rightarrow> nat list \<Rightarrow> pyval \<Rightarrow> ('s, unit) prog" where
  "send_to_callbacks call callbacks location = for_each_s callbacks (\<lambda>c. call c location)"

section \<open>A constant position\<close>

text \<open>\<open>stamp\<close> is the result of \<open>isoformat()\<close>; \<open>tt[:-9]\<close> drops nine characters.\<close>

definition generate_tpv_dict :: "string \<Rightarrow> real \<Rightarrow> real \<Rightarrow> pyval" where
  "generate_tpv_dict stamp latitude longitude = PDict
     [(''class'', PStr ''TPV''), (''device'', PStr ''/dev/ttyACM0''), (''mode'', PInt 3),
      (''time'', PStr (take (length stamp - 9) stamp @ ''Z'')), (''ept'', PFloat 0.005),
      (''lat'', PFloat latitude), (''lon'', PFloat longitude), (''alt'', PFloat 163.8),
      (''epx'', PFloat 10), (''epy'', PFloat 10), (''epv'', PFloat 10), (''track'', PFloat 0),
      (''speed'', PFloat 0), (''climb'', PFloat 0), (''eps'', PFloat 0)]"

text \<open>The loop, once for each reading of the clock.\<close>

definition static_start ::
    "(nat \<Rightarrow> pyval \<Rightarrow> ('s, unit) prog) \<Rightarrow> nat list \<Rightarrow> real \<Rightarrow> real \<Rightarrow> string list \<Rightarrow> ('s, unit) prog" where
  "static_start call callbacks latitude longitude stamps =
     for_each_s stamps (\<lambda>stamp. send_to_callbacks call callbacks (generate_tpv_dict stamp latitude longitude))"

section \<open>gpsd\<close>

text \<open>
  What happens on the socket: a connection is refused, breaks when the service is asked to watch, or is made;
  data arrive, none of them at the end of the stream; or a connection is lost.
\<close>

datatype gpsd_event = Refused | BrokenPipe | Connected | Data bytes | Lost

definition gpsd_handle ::
    "(bytes \<Rightarrow> pyval result) \<Rightarrow> (nat \<Rightarrow> pyval \<Rightarrow> ('s, unit) prog) \<Rightarrow> nat list \<Rightarrow> bytes \<Rightarrow> ('s, unit) prog" where
  "gpsd_handle json_loads call callbacks received =
     (if received = [] then return_s ()
      else
        bind_s (case json_loads received of
            Inl e \<Rightarrow> if e = ValueError then return_s (PDict []) else raise_s e
          | Inr v \<Rightarrow> return_s v) (\<lambda>json_data.
        bind_s (lift_s (py_contains ''class'' json_data)) (\<lambda>present.
        if \<not> present then return_s ()
        else
          bind_s (lift_s (py_item json_data ''class'')) (\<lambda>c.
          if c = PStr ''TPV'' then send_to_callbacks call callbacks json_data else return_s ()))))"

text \<open>The thread; \<open>up\<close> says whether there is a connection. Without one it tries again and again.\<close>

fun gpsd_start ::
    "(bytes \<Rightarrow> pyval result) \<Rightarrow> (nat \<Rightarrow> pyval \<Rightarrow> ('s, unit) prog) \<Rightarrow> nat list \<Rightarrow> bool \<Rightarrow> gpsd_event list \<Rightarrow> 's
      \<Rightarrow> loop_status \<times> bool \<times> 's" where
  "gpsd_start json_loads call callbacks up [] s = (Listening, up, s)"
| "gpsd_start json_loads call callbacks up (Connected # es) s = gpsd_start json_loads call callbacks True es s"
| "gpsd_start json_loads call callbacks up (Refused # es) s = gpsd_start json_loads call callbacks up es s"
| "gpsd_start json_loads call callbacks up (BrokenPipe # es) s = gpsd_start json_loads call callbacks False es s"
| "gpsd_start json_loads call callbacks up (Lost # es) s = gpsd_start json_loads call callbacks False es s"
| "gpsd_start json_loads call callbacks up (Data d # es) s =
     (if \<not> up then gpsd_start json_loads call callbacks up es s
      else case gpsd_handle json_loads call callbacks d s of
          (Inr _, s') \<Rightarrow> gpsd_start json_loads call callbacks up es s'
        | (Inl e, s') \<Rightarrow> (Crashed e, up, s'))"

section \<open>What arrives\<close>

text \<open>The reports in a list of pieces of data: those pieces that are one JSON dictionary of class TPV.\<close>

definition tpv_reports :: "(bytes \<Rightarrow> pyval result) \<Rightarrow> bytes list \<Rightarrow> pyval list" where
  "tpv_reports json_loads pieces =
     concat (map (\<lambda>d. case json_loads d of
         Inr (PDict v) \<Rightarrow> if map_of v ''class'' = Some (PStr ''TPV'') then [PDict v] else []
       | _ \<Rightarrow> []) (filter (\<lambda>d. d \<noteq> []) pieces))"

lemma gpsd_handle_run:
  assumes "d \<noteq> [] \<Longrightarrow> json_loads d = Inl ValueError \<or> (\<exists>v. json_loads d = Inr (PDict v))"
  shows "gpsd_handle json_loads call callbacks d s =
    for_each_s (tpv_reports json_loads [d]) (send_to_callbacks call callbacks) s"
proof (cases "d = []")
  case True
  then show ?thesis by (simp add: gpsd_handle_def tpv_reports_def)
next
  case False
  with assms consider "json_loads d = Inl ValueError" | v where "json_loads d = Inr (PDict v)" by blast
  then show ?thesis
  proof cases
    case 1
    then show ?thesis using False by (simp add: gpsd_handle_def tpv_reports_def bind_s_def)
  next
    case 2
    then show ?thesis
      using False
      by (cases "send_to_callbacks call callbacks (PDict v) s")
        (auto simp: gpsd_handle_def tpv_reports_def bind_s_def then_s_def get_key_def split: option.splits sum.splits)
  qed
qed

lemma tpv_reports_Cons: "tpv_reports json_loads (d # ds) = tpv_reports json_loads [d] @ tpv_reports json_loads ds"
  by (simp add: tpv_reports_def)

lemma for_each_append_ok:
  assumes "for_each_s xs f s = (Inr (), s1)"
  shows "for_each_s (xs @ ys) f s = for_each_s ys f s1"
  using assms
  by (induction xs arbitrary: s) (auto simp: then_s_def bind_s_def split: sum.splits prod.splits)

lemma for_each_total:
  assumes "\<And>x s. \<exists>s'. f x s = (Inr (), s')"
  shows "\<exists>s'. for_each_s xs f s = (Inr (), s')"
proof (induction xs arbitrary: s)
  case (Cons x xs)
  obtain s1 where "f x s = (Inr (), s1)" using assms by blast
  then show ?case using Cons.IH [of s1] by (simp add: then_s_def bind_s_def)
qed simp

text \<open>
  If no callback raises an exception, every callback gets exactly the reports that arrive in a piece of
  their own, in order.
\<close>

lemma reports_reach_callbacks:
  assumes "\<And>c v s. \<exists>s'. call c v s = (Inr (), s')"
    and "\<And>d. d \<in> set pieces \<Longrightarrow> d \<noteq> [] \<Longrightarrow> json_loads d = Inl ValueError \<or> (\<exists>v. json_loads d = Inr (PDict v))"
  shows "gpsd_start json_loads call callbacks True (map Data pieces) s
    = (Listening, True, snd (for_each_s (tpv_reports json_loads pieces) (send_to_callbacks call callbacks) s))"
  using assms(2)
proof (induction pieces arbitrary: s)
  case (Cons d ds)
  have sends: "\<exists>s'. send_to_callbacks call callbacks v s = (Inr (), s')" for v s
    unfolding send_to_callbacks_def using assms(1) by (rule for_each_total)
  obtain s1 where s1: "for_each_s (tpv_reports json_loads [d]) (send_to_callbacks call callbacks) s = (Inr (), s1)"
    using for_each_total [of "send_to_callbacks call callbacks", OF sends] by fast
  have "d \<noteq> [] \<Longrightarrow> json_loads d = Inl ValueError \<or> (\<exists>v. json_loads d = Inr (PDict v))"
    by (rule Cons.prems) simp_all
  then have "gpsd_handle json_loads call callbacks d s = (Inr (), s1)"
    using gpsd_handle_run [of d json_loads] s1 by metis
  moreover have "gpsd_start json_loads call callbacks True (map Data ds) s1
      = (Listening, True, snd (for_each_s (tpv_reports json_loads ds) (send_to_callbacks call callbacks) s1))"
    by (rule Cons.IH) (rule Cons.prems, simp_all)
  ultimately show ?case
    using for_each_append_ok [OF s1] by (simp add: tpv_reports_Cons [of _ d ds])
qed (simp add: tpv_reports_def)

text \<open>Two reports in one piece of data are not one JSON text: both are dropped.\<close>

lemma joined_reports_are_lost:
  "json_loads (a @ b) = Inl ValueError \<Longrightarrow> gpsd_handle json_loads call callbacks (a @ b) s = (Inr (), s)"
  by (simp add: gpsd_handle_def bind_s_def)

text \<open>A connection that gpsd has closed gives empty data for ever; the thread neither stops nor connects again.\<close>

lemma closed_connection_is_not_noticed:
  "gpsd_start json_loads call callbacks True (replicate n (Data []) @ es) s = gpsd_start json_loads call callbacks True es s"
  by (induction n) (simp_all add: gpsd_handle_def)

text \<open>At a whole second \<open>isoformat()\<close> has no fraction, and the report loses its seconds.\<close>

lemma whole_second_is_cut:
  "py_item (generate_tpv_dict ''2024-01-01T10:00:59+00:00'' lat lon) ''time'' = Inr (PStr ''2024-01-01T10:00Z'')"
  "py_item (generate_tpv_dict ''2024-01-01T10:00:59.123456+00:00'' lat lon) ''time'' = Inr (PStr ''2024-01-01T10:00:59.123Z'')"
  by (simp_all add: generate_tpv_dict_def get_key_def)

section \<open>The router as a callback\<close>

text \<open>The entries of a report that the router reads.\<close>

definition report_number :: "pyval \<Rightarrow> string \<Rightarrow> real option" where
  "report_number v k = (case rbind (py_item v k) py_num of Inr x \<Rightarrow> Some x | Inl _ \<Rightarrow> None)"

definition tpv_of_report :: "pyval \<Rightarrow> TPV" where
  "tpv_of_report v = \<lparr>tpv_lat = report_number v ''lat'', tpv_lon = report_number v ''lon'',
     tpv_speed = report_number v ''speed'', tpv_track = report_number v ''track'',
     tpv_time = (case py_item v ''time'' of Inr (PStr t) \<Rightarrow> Some t | _ \<Rightarrow> None)\<rparr>"

text \<open>
  A constant position reaches the router: after any number of readings of the clock whose times can be
  parsed, the router is at the position and stands still, and only its position vector has changed.
\<close>

lemma static_position_reaches_router:
  assumes "stamps \<noteq> []" "\<And>stamp. stamp \<in> set stamps \<Longrightarrow> \<exists>t. parse (take (length stamp - 9) stamp @ ''Z'') = Inr t"
  shows "\<exists>v. static_start (\<lambda>c loc. refresh_ego_position_vector parse (tpv_of_report loc)) [0] lat lon stamps r
      = (Inr (), r\<lparr>r_ego_position_vector := v\<rparr>)
    \<and> lpv_latitude v = py_int (lat * 10 ^ 7) \<and> lpv_longitude v = py_int (lon * 10 ^ 7)
    \<and> lpv_s v = 0 \<and> lpv_h v = 0 \<and> lpv_gn_addr v = lpv_gn_addr (r_ego_position_vector r)"
  using assms
proof (induction stamps arbitrary: r)
  case (Cons stamp stamps)
  obtain t where t: "parse (take (length stamp - 9) stamp @ ''Z'') = Inr t" using Cons.prems(2) [of stamp] by auto
  let ?v = "lpv_set_tst_in_normal_timestamp_seconds (py_int t)
    \<lparr>lpv_gn_addr = lpv_gn_addr (r_ego_position_vector r), lpv_tst = lpv_tst (r_ego_position_vector r),
      lpv_latitude = py_int (lat * 10 ^ 7), lpv_longitude = py_int (lon * 10 ^ 7),
      lpv_pai = lpv_pai (r_ego_position_vector r), lpv_s = 0, lpv_h = 0\<rparr>"
  have zero: "py_int 0 = 0" by (simp add: py_int_def)
  have step: "send_to_callbacks (\<lambda>c loc. refresh_ego_position_vector parse (tpv_of_report loc)) [0]
      (generate_tpv_dict stamp lat lon) r = (Inr (), r\<lparr>r_ego_position_vector := ?v\<rparr>)"
    using t by (simp add: send_to_callbacks_def refresh_ego_position_vector_def lpv_refresh_with_tpv_data_def
      tpv_of_report_def report_number_def generate_tpv_dict_def get_key_def then_s_def bind_s_def zero)
  show ?case
  proof (cases "stamps = []")
    case True
    then show ?thesis
      using step by (auto simp: static_start_def then_s_def bind_s_def lpv_set_tst_in_normal_timestamp_seconds_def)
  next
    case False
    then show ?thesis
      using Cons.IH [of "r\<lparr>r_ego_position_vector := ?v\<rparr>"] Cons.prems(2) step
      by (auto simp: static_start_def then_s_def bind_s_def lpv_set_tst_in_normal_timestamp_seconds_def)
  qed
qed simp

end
