(* ===== verification/Spec2Isabelle.thy ===== *)
theory Spec2Isabelle
  imports RouterFaults Btp DccReactive DccAdaptive VruLiveness GnContracts CamProps VamProps LdmProps DenExample
    PkiExample LinkLayers LocationSources
begin

text \<open>
  FlexStack is a Python implementation of the ETSI C-ITS protocol stack. This development models the
  protocol layers and the services above them and proves what they do. Paths are relative to
  \<open>src/flexstack/\<close>.

  \<^bold>\<open>The program.\<close> An ITS station is a stack of objects that call each other. A link layer hands byte
  strings to the GeoNetworking router (\<open>geonet/\<close>), which keeps a location table, forwards packets by
  geographic position, searches addresses, and signs or verifies packets with the security services
  (\<open>security/\<close>). The BTP router (\<open>btp/\<close>) dispatches payloads to callbacks by port. On top of it run the
  facilities: the CA basic service, the VRU awareness service with its cluster state machine, the DEN
  service with the road hazard signalling application, and the local dynamic map (LDM), which stores what
  they receive. Congestion control (\<open>management/\<close>) turns channel busy ratios into rates and gate times.

  \<^bold>\<open>How code becomes definitions.\<close> A class is a record, an enumeration a datatype with its values in a
  function, a method a function with the name of the method. A method that cannot change its object
  returns \<open>py_error + 'a\<close>: every exception of the source is a left value. A method that can is a \<open>prog\<close>, a
  function from the state to a result and a state (\<open>StateResult\<close>); what was done before an exception
  stays done, as in Python. Python integers are \<^typ>\<open>int\<close>; bytes are lists of 8-bit words, and fields are
  packed and cut with \<open>to_bytes\<close>, \<open>from_bytes\<close> and slices (\<open>Prelude\<close>). Decoded messages are values of the
  type \<open>pyval\<close> (\<open>PyValue\<close>), with the exceptions of a missing key or a wrong type. Dictionaries are association
  lists in order of insertion. Floats are real numbers, so rounding of floats is not modelled.
  Everything that the code leaves to a callback, a clock, a random generator, a lock, a thread, a codec or a
  cryptographic primitive is a parameter or a step of a relation: clocks are arguments or fields of
  the state, timers and threads are steps that may come in any order, callbacks are functions of the number
  of the call, and calls to them are recorded in lists (\<open>r_sent\<close>, \<open>r_indications\<close>, \<open>b_calls\<close>,
  \<open>cr_callback_calls\<close>, \<open>den_transmitted\<close>), which no code reads.

  \<^bold>\<open>Interfaces.\<close> The contracts between the parts are locales, each interpreted on the model:
  \<open>py_enum\<close> (an enumeration and its values), \<open>codec\<close>, \<open>wire_codec\<close> and \<open>closed_codec\<close> (a header that survives the
  wire, interpreted for every header), \<open>step_rel\<close> (a relation that the runs of methods respect, interpreted for
  every invariant and frame), \<open>duplicate_filter\<close> and \<open>duplicate_guard\<close> (duplicate packets, interpreted for
  every update of the location table), \<open>delta_source\<close> (a controller that drives the gate keeper),
  \<open>database\<close> (the store of the LDM) and \<open>secure_channel\<close> (sign service against verify service).

  \<^bold>\<open>GeoNetworking.\<close>
  \<^item> \<open>GnAddress\<close>, \<open>PositionVector\<close>, \<open>Mib\<close>, \<open>BasicHeader\<close>, \<open>ServiceAccessPoint\<close>, \<open>CommonHeader\<close> and \<open>ExtendedHeaders\<close> model
    the files of these names. Their lemmas are round trips, ranges, lengths and the exceptions of the
    encoders and decoders. \<open>GnContracts\<close> collects them: valid headers survive the wire, and whatever decodes
    is in range and can be encoded again (the common header if its reserved byte is below 16).
  \<^item> \<open>LocationTable\<close> models \<open>location_table.py\<close>: position updates, the packet data rate, the bounded list of
    duplicate packets, expiry. The list is a window over the full history of accepted numbers.
  \<^item> \<open>Geometry\<close> models the static methods of \<open>Router\<close> for distances, areas and greedy forwarding. It has
    a specification of the areas of EN 302 931 of its own, with the angle (\<open>inside_area\<close>): metres north and
    east of the centre, turned into the axes of the area. The code does not look at the angle, so its function F
    decides the area with the first length pointing north (\<open>north_up\<close>), and raises
    \<open>ZeroDivisionError\<close> for areas without extent.
  \<^item> \<open>RouterState\<close>, \<open>RouterForward\<close>, \<open>RouterSource\<close> and \<open>RouterReceive\<close> model \<open>router.py\<close>: construction, beacons,
    the source operations, contention-based forwarding, the location service, one handler per packet type, and
    the decapsulation. \<open>RouterInv\<close> has the invariant, \<open>RouterSteps\<close> the transition system of requests, packets,
    timers and the beacon thread. \<open>RouterProps\<close>, \<open>RouterDuplicates\<close>, \<open>RouterSafety\<close>, \<open>RouterLocation\<close> and
    \<open>RouterFaults\<close> prove the properties: delivery, forwarding with the hop limit lowered by one,
    idempotence under duplicates, no amplification, the end of every location service, and faults. GeoBroadcast
    is in \<open>RouterSafety\<close>, GeoAnycast with its fault of the hop limit in \<open>RouterFaults\<close>.

  \<^bold>\<open>BTP and congestion control.\<close> \<open>Btp\<close> models \<open>btp/\<close> and carries a payload from callback to callback through two
  routers. \<open>DccReactive\<close> and \<open>DccAdaptive\<close> model \<open>management/\<close>: the state machine settles within four
  evaluations, the controller converges, and the gate keeper agrees with equation B.1.

  \<^bold>\<open>Facilities.\<close>
  \<^item> \<open>Sphere\<close>, \<open>CamMessage\<close> and \<open>CamTransmission\<close> model \<open>facilities/ca_basic_service/\<close>; \<open>CamProps\<close> proves when messages
    are generated and follows one to the applications of another station.
  \<^item> \<open>VruClustering\<close>, \<open>VruReception\<close>, \<open>VamMessage\<close> and \<open>VamTransmission\<close> model
    \<open>facilities/vru_awareness_service/\<close>. \<open>VruProps\<close>, \<open>VruHandshake\<close> and \<open>VruLiveness\<close> prove the invariant of the
    cluster state machine, its transitions, that a join between two stations always fails, because the
    receiver does not understand the shape of a cluster as the decoder gives it, and that silence brings
    a device to rest; \<open>VamProps\<close> proves what triggers a message.
  \<^item> \<open>LdmClasses\<close>, \<open>LdmDatabase\<close>, \<open>LdmService\<close> and \<open>LdmInterfaces\<close> model \<open>facilities/local_dynamic_map/\<close> with the
    dictionary database; \<open>LdmProps\<close> proves what is stored, found, collected, ordered and notified. What
    the check of the area of maintenance deletes is written out in integers there, since it is not what is documented.
  \<^item> \<open>DenService\<close> models \<open>facilities/decentralized_environmental_notification_service/\<close> and
    \<open>applications/road_hazard_signalling_service/\<close>; \<open>DenProps\<close> proves how often notifications are repeated, what
    all of them carry, and that they need the security services.

  \<^bold>\<open>Security.\<close> \<open>SecCertificate\<close>, \<open>SecIssuance\<close>, \<open>SecServices\<close> and \<open>SecSigning\<close> model certificates, their issuance,
  the certificate library and the two services. The ASN.1 codec, SHA-256 and the elliptic curve are the record
  \<open>sec_lib\<close>. \<open>SecTrust\<close> proves that an accepted message leads to a known root, \<open>SecProps\<close> that signed messages
  are accepted, \<open>SecIssuanceProps\<close> that issuing keeps permissions and chains within those of the issuer and
  that issued certificates verify. \<open>SecExample\<close> has a concrete library, on which all hypotheses hold.

  \<open>PkiClient\<close> models \<open>security/pki_client/\<close>: the encryption of requests, enrolment, authorisation, and the
  client with its files. The codec, the cryptographic packages, the random generator, the clock, HTTP and
  the file system are the record \<open>pki_lib\<close>. \<open>PkiProps\<close> proves, for an authority that follows the
  protocol, that a station ends with the issued certificate and its key, what such an authority learns from a
  request, and that a saved ticket can be loaded. Of the codec only the round trip of the values that travel is
  asked (\<open>wire_value\<close>, \<open>response_law\<close>), with all fields that their ASN.1 types have. \<open>PkiExample\<close> has a library
  on which this happens.

  \<^bold>\<open>Link layers and positions.\<close> \<open>LinkLayers\<close> models sending and the receiving threads of \<open>linklayer/\<close> over what the socket hands
  over, and proves that a station hears exactly the others, until a frame with less than a basic header
  ends its thread. \<open>LocationSources\<close> models the location services of \<open>utils/\<close>, which reports reach the
  callbacks, and the router as one of them.

  \<^bold>\<open>Composition.\<close> \<open>SecuredDenm\<close> sends a notification through all layers of two stations: DEN service, BTP, router, sign
  service, air, router, verify service, BTP, callback. The routers use the services by the contract
  \<open>secure_channel\<close> only. \<open>DenExample\<close> is a concrete pair of stations.

  \<^bold>\<open>Bounds and fuel.\<close> No definition has fuel: loops over data are structural, and threads and timers are steps.
  The bounds in the theorems are those of the code: the ranges of the header fields, the permitted
  retransmissions, the length of the list of duplicates, the four evaluations of the reactive control, the number of
  intervals that begin in the period of a notification.

  \<^bold>\<open>Not modelled.\<close> The ASN.1 specifications (string constants for the package asn1tools; they make up most of
  the lines of the repository), sockets, processes and the binary library of the link layers, the interface of
  encryption backends, which nothing implements, the TinyDB backend and the threaded variants of the LDM,
  the base64 dictionary forms of service primitives, text renderings, logging, and the
  examples. Rounding of floats and the interleaving of threads inside one method (below the granularity of
  the locks) are not modelled either.
\<close>

end
